(* ===== verification/JsValue.thy ===== *)
theory JsValue
  imports Prelude "HOL-Library.Char_ord" "HOL-Library.List_Lexorder"
begin

text \<open>
  JavaScript values as the extension receives them from Chrome, from storage and from the native
  host, the guards of \<open>packages/extension/src/type-guards.ts\<close> over them, the structural comparison
  \<open>jsonEquivalent\<close> of \<open>storage.ts\<close>, the key-sorting \<open>canonicalize\<close> of \<open>protocol.ts\<close>, and error
  objects.

  Strings are lists of code units; the model's units are 8 bit wide. A number is an integer, a
  proper fraction, \<open>NaN\<close> or an infinity (\<open>JFrac\<close> is used for non-integral values only, and there
  is one zero). An object is its own enumerable properties in insertion order; the members every
  object inherits from \<open>Object.prototype\<close> are not listed in it.
\<close>

section \<open>Values\<close>

datatype js_number = JInt int | JFrac rat | JNaN | JInf bool

datatype js =
    Undefined
  | Null
  | Bool bool
  | Num js_number
  | Str string
  | Arr "js list"
  | Obj "(string \<times> js) list"

text \<open>Reading a property: a missing one is \<open>undefined\<close>.\<close>

definition jget :: "js obj \<Rightarrow> string \<Rightarrow> js" where
  "jget ob k = (case map_of ob k of None \<Rightarrow> Undefined | Some v \<Rightarrow> v)"

definition own :: "js obj \<Rightarrow> string \<Rightarrow> bool" where
  "own ob k \<longleftrightarrow> k \<in> set (map fst ob)"

lemma jget_simps [simp]:
  "jget [] k = Undefined"
  "jget ((k', v) # ob) k = (if k = k' then v else jget ob k)"
  by (auto simp: jget_def)

lemma own_simps [simp]:
  "own [] k = False"
  "own ((k', v) # ob) k = (k = k' \<or> own ob k)"
  "own (a @ b) k = (own a k \<or> own b k)"
  by (auto simp: own_def)

lemma jget_append: "jget (a @ b) k = (if own a k then jget a k else jget b k)"
  by (induction a) auto

lemma jget_not_own: "\<not> own ob k \<Longrightarrow> jget ob k = Undefined"
  by (induction ob) auto

lemma own_if_defined: "jget ob k \<noteq> Undefined \<Longrightarrow> own ob k"
  using jget_not_own by blast

definition js_int :: "int \<Rightarrow> js" where
  "js_int i = Num (JInt i)"

definition MAX_SAFE_INTEGER :: int where
  "MAX_SAFE_INTEGER = 9007199254740991"

text \<open>The value a field is known to hold after its check succeeded.\<close>

definition the_int :: "js \<Rightarrow> int" where
  "the_int v = (case v of Num (JInt i) \<Rightarrow> i | _ \<Rightarrow> 0)"

definition the_str :: "js \<Rightarrow> string" where
  "the_str v = (case v of Str s \<Rightarrow> s | _ \<Rightarrow> [])"

definition the_bool :: "js \<Rightarrow> bool" where
  "the_bool v = (case v of Bool b \<Rightarrow> b | _ \<Rightarrow> False)"

definition the_arr :: "js \<Rightarrow> js list" where
  "the_arr v = (case v of Arr xs \<Rightarrow> xs | _ \<Rightarrow> [])"

definition the_obj :: "js \<Rightarrow> js obj" where
  "the_obj v = (case v of Obj ob \<Rightarrow> ob | _ \<Rightarrow> [])"

definition is_str :: "js \<Rightarrow> bool" where
  "is_str v = (case v of Str _ \<Rightarrow> True | _ \<Rightarrow> False)"

definition is_bool :: "js \<Rightarrow> bool" where
  "is_bool v = (case v of Bool _ \<Rightarrow> True | _ \<Rightarrow> False)"

definition is_arr :: "js \<Rightarrow> bool" where
  "is_arr v = (case v of Arr _ \<Rightarrow> True | _ \<Rightarrow> False)"

definition is_integer :: "js \<Rightarrow> bool" where
  "is_integer v = (case v of Num (JInt _) \<Rightarrow> True | _ \<Rightarrow> False)"

lemma the_simps [simp]:
  "the_int (Num (JInt i)) = i" "the_int (js_int i) = i" "the_str (Str s) = s"
  "the_bool (Bool b) = b" "the_arr (Arr xs) = xs" "the_obj (Obj ob) = ob"
  by (simp_all add: the_int_def the_str_def the_bool_def the_arr_def the_obj_def js_int_def)

lemma is_kind_simps [simp]:
  "is_str (Str s)" "is_bool (Bool b)" "is_arr (Arr xs)" "is_integer (Num (JInt i))" "is_integer (js_int i)"
  "\<not> is_str Undefined" "\<not> is_str Null" "\<not> is_str (Num n)" "\<not> is_str (Arr xs)" "\<not> is_str (Obj ob)"
  "\<not> is_str (Bool b)" "\<not> is_bool Undefined" "\<not> is_arr Undefined" "\<not> is_arr (Str s)" "\<not> is_integer Undefined"
  by (simp_all add: is_str_def is_bool_def is_arr_def is_integer_def js_int_def)

lemma is_strD: "is_str v \<Longrightarrow> v = Str (the_str v)"
  by (cases v) (auto simp: is_str_def)

lemma is_boolD: "is_bool v \<Longrightarrow> v = Bool (the_bool v)"
  by (cases v) (auto simp: is_bool_def)

lemma is_arrD: "is_arr v \<Longrightarrow> v = Arr (the_arr v)"
  by (cases v) (auto simp: is_arr_def)

lemma is_integerD: "is_integer v \<Longrightarrow> v = js_int (the_int v)"
  by (cases v) (auto simp: is_integer_def js_int_def split: js_number.splits)

section \<open>Guards\<close>

definition isRecord :: "js \<Rightarrow> bool" where
  "isRecord v = (case v of Obj _ \<Rightarrow> True | _ \<Rightarrow> False)"

lemma isRecord_simps [simp]:
  "isRecord (Obj ob)" "\<not> isRecord Undefined" "\<not> isRecord Null" "\<not> isRecord (Str s)"
  "\<not> isRecord (Num n)" "\<not> isRecord (Bool b)" "\<not> isRecord (Arr xs)"
  by (simp_all add: isRecord_def)

lemma isRecordD: "isRecord v \<Longrightarrow> v = Obj (the_obj v)"
  by (cases v) (auto simp: isRecord_def)

text \<open>
  \<open>hasOnlyKeys\<close> collects the allowed names in a plain object and reads \<open>allowed[key]\<close> for every own
  key. That read also finds the members a plain object inherits, all of them truthy.
\<close>

definition object_prototype_keys :: "string list" where
  "object_prototype_keys =
     [''constructor'', ''__defineGetter__'', ''__defineSetter__'', ''hasOwnProperty'',
      ''__lookupGetter__'', ''__lookupSetter__'', ''isPrototypeOf'', ''propertyIsEnumerable'',
      ''toString'', ''valueOf'', ''__proto__'', ''toLocaleString'']"

definition allowed_key :: "string list \<Rightarrow> string list \<Rightarrow> string \<Rightarrow> bool" where
  "allowed_key required opt key \<longleftrightarrow>
     key \<in> set required \<or> key \<in> set opt \<or> key \<in> set object_prototype_keys"

definition hasOnlyKeys :: "js obj \<Rightarrow> string list \<Rightarrow> string list \<Rightarrow> bool" where
  "hasOnlyKeys value required opt \<longleftrightarrow>
     list_all (own value) required \<and> list_all (allowed_key required opt) (map fst value)"

definition isBoundedString :: "js \<Rightarrow> int \<Rightarrow> int \<Rightarrow> bool" where
  "isBoundedString v minimum maximum =
     (case v of Str s \<Rightarrow> minimum \<le> int (length s) \<and> int (length s) \<le> maximum | _ \<Rightarrow> False)"

definition isIntegerInRange :: "js \<Rightarrow> int \<Rightarrow> int \<Rightarrow> bool" where
  "isIntegerInRange v minimum maximum =
     (case v of Num (JInt i) \<Rightarrow> minimum \<le> i \<and> i \<le> maximum | _ \<Rightarrow> False)"

lemma isBoundedStringD:
  "isBoundedString v lo hi \<Longrightarrow> \<exists>s. v = Str s \<and> lo \<le> int (length s) \<and> int (length s) \<le> hi"
  by (cases v) (auto simp: isBoundedString_def)

lemma isIntegerInRangeD: "isIntegerInRange v lo hi \<Longrightarrow> \<exists>i. v = js_int i \<and> lo \<le> i \<and> i \<le> hi"
  by (cases v) (auto simp: isIntegerInRange_def js_int_def split: js_number.splits)

lemma isIntegerInRange_int [simp]: "isIntegerInRange (js_int i) lo hi \<longleftrightarrow> lo \<le> i \<and> i \<le> hi"
  by (simp add: isIntegerInRange_def js_int_def)

lemma isBoundedString_Str [simp]:
  "isBoundedString (Str s) lo hi \<longleftrightarrow> lo \<le> int (length s) \<and> int (length s) \<le> hi"
  by (simp add: isBoundedString_def)

lemma hasOnlyKeys_own: "hasOnlyKeys value required opt \<Longrightarrow> k \<in> set required \<Longrightarrow> own value k"
  by (simp add: hasOnlyKeys_def list_all_iff)

section \<open>Structural comparison\<close>

fun js_ok :: "js \<Rightarrow> bool" where
  "js_ok (Arr xs) = list_all js_ok xs"
| "js_ok (Obj ob) = (distinct (map fst ob) \<and> list_all (\<lambda>p. js_ok (snd p)) ob)"
| "js_ok _ = True"

text \<open>\<open>jsonEquivalent\<close>: primitives by \<open>Object.is\<close>, arrays pointwise, objects up to the order of their keys.\<close>

fun jsonEquivalent :: "js \<Rightarrow> js \<Rightarrow> bool"
and equivalent_items :: "js list \<Rightarrow> js list \<Rightarrow> bool"
and equivalent_fields :: "js obj \<Rightarrow> js obj \<Rightarrow> bool" where
  "jsonEquivalent (Arr xs) (Arr ys) = (length xs = length ys \<and> equivalent_items xs ys)"
| "jsonEquivalent (Obj a) (Obj b) = (length a = length b \<and> equivalent_fields a b)"
| "jsonEquivalent (Arr xs) b = False"
| "jsonEquivalent (Obj a) b = False"
| "jsonEquivalent a b = (a = b)"
| "equivalent_items (x # xs) (y # ys) = (jsonEquivalent x y \<and> equivalent_items xs ys)"
| "equivalent_items _ _ = True"
| "equivalent_fields [] b = True"
| "equivalent_fields ((k, v) # a) b =
     ((case map_of b k of None \<Rightarrow> False | Some w \<Rightarrow> jsonEquivalent v w) \<and> equivalent_fields a b)"

lemma equivalent_fields_iff:
  "equivalent_fields a b \<longleftrightarrow> (\<forall>(k, v) \<in> set a. \<exists>w. map_of b k = Some w \<and> jsonEquivalent v w)"
  by (induction a) (auto split: option.splits)

lemma jsonEquivalent_refl: "js_ok v \<Longrightarrow> jsonEquivalent v v"
proof (induction v)
  case (Arr xs)
  then have "\<forall>x \<in> set xs. jsonEquivalent x x" by (simp add: list_all_iff)
  then have "equivalent_items xs xs" by (induction xs) auto
  then show ?case by simp
next
  case (Obj ob)
  then have "distinct (map fst ob)" and "\<forall>(k, v) \<in> set ob. jsonEquivalent v v"
    by (auto simp: list_all_iff)
  then show ?case by (auto simp: equivalent_fields_iff)
qed simp_all

section \<open>Canonical form\<close>

text \<open>
  \<open>canonicalize\<close> rebuilds every object with its keys sorted (\<open>Object.keys(value).sort()\<close> compares
  code units, which is the order of strings here).
\<close>

fun canonicalize :: "js \<Rightarrow> js" where
  "canonicalize (Arr xs) = Arr (map canonicalize xs)"
| "canonicalize (Obj ob) = Obj (sort_key fst (map (\<lambda>(k, v). (k, canonicalize v)) ob))"
| "canonicalize v = v"

section \<open>Errors\<close>

text \<open>
  \<open>Object.assign(new Error(message), fields)\<close> is \<open>JsError PlainError message fields\<close>; the class
  \<open>NotStartedError\<close> of \<open>scheduler.ts\<close> is the other constructor. Messages are left empty where the
  source builds them from other error texts.
\<close>

datatype error_class = PlainError | NotStartedError

datatype js_error = JsError error_class (err_message: string) (err_fields: "js obj")

definition new_error :: "string \<Rightarrow> js_error" where
  "new_error m = JsError PlainError m []"

definition coded_error :: "string \<Rightarrow> string \<Rightarrow> js_error" where
  "coded_error c m = JsError PlainError m [(''code'', Str c)]"

definition not_started_error :: "string \<Rightarrow> string \<Rightarrow> js_error" where
  "not_started_error c m = JsError NotStartedError m [(''name'', Str ''NotStartedError''), (''code'', Str c)]"

definition error_code :: "js_error \<Rightarrow> string option" where
  "error_code e = (case jget (err_fields e) ''code'' of Str c \<Rightarrow> Some c | _ \<Rightarrow> None)"

lemma error_code_simps [simp]:
  "error_code (coded_error c m) = Some c"
  "error_code (not_started_error c m) = Some c"
  "error_code (new_error m) = None"
  by (simp_all add: error_code_def coded_error_def not_started_error_def new_error_def)

lemma error_inject [simp]:
  "coded_error c m = coded_error c' m' \<longleftrightarrow> c = c' \<and> m = m'"
  "new_error m = new_error m' \<longleftrightarrow> m = m'"
  by (auto simp: coded_error_def new_error_def)

end
