(* ===== verification/Storage.thy ===== *)
theory Storage
  imports JsValue
begin

text \<open>
  \<open>packages/extension/src/storage.ts\<close>: the persisted state of the extension, its validation on the
  way in (\<open>parseState\<close>), the migration of older data, and \<open>readState\<close>/\<open>mutateState\<close>, the only way
  other components read or change it. \<open>StagedCommit\<close> comes from \<open>protocol.ts\<close>.

  Dictionaries are association lists. The entries of \<open>revisions\<close> are keyed by \<open>String(tabId)\<close>, whose
  order JavaScript fixes numerically; no code depends on that order. Where \<open>parseState\<close> compares
  \<open>String(x)\<close> with a list of names, the model takes only strings \<open>x\<close>. Fields the interfaces do not
  declare are dropped.
\<close>

section \<open>Records\<close>

datatype task_state = Working | Completed

datatype task_color = Purple | Cyan | Green | Yellow | Orange | Red | Pink | Blue

datatype cleanup_policy = CleanupAutomatic | CleanupAsk | CleanupKeep

text \<open>\<open>legacyImported\<close> is not validated by \<open>parseState\<close>, so it is any value.\<close>

record task_record =
  taskId :: string
  name :: string
  groupId :: "int option"
  tabIds :: "int list"
  createdTabIds :: "int list"
  color :: task_color
  state :: task_state
  createdAt :: int
  updatedAt :: int
  legacyImported :: js

record revision_record =
  floor_rev :: int
  current_rev :: int
  documentId :: "string option"
  loaderId :: "string option"

datatype notice_status = NOpen | NResolved | NDismissed | NExpired

text \<open>
  \<open>completion\<close> is checked only when it is an object, so it stays a raw value (\<open>Undefined\<close> when
  absent).
\<close>

record handoff_notice =
  noticeId :: string
  noticeTask :: string
  noticeTab :: int
  expectedRevision :: int
  prompt :: string
  completion :: js
  status :: notice_status
  startedAtMs :: int
  expiresAtMs :: int

record cleanup_record =
  pending :: bool
  cleanupTabIds :: "int list"
  generation :: int
  epoch :: int

record staged_dialog =
  dialog_generation :: int
  dialog_fingerprint :: string

record staged_commit =
  native_token :: string
  staged_task :: string
  staged_tab :: int
  staged_revision :: int
  effect :: string
  fingerprint :: string
  expires_at_ms :: int
  review_handle :: "string option"
  approved :: "bool option"
  staged_action :: "js obj"
  preview :: "js obj"
  dialog :: "staged_dialog option"

record ext_state =
  paused :: bool
  developerMode :: bool
  skipCommitReview :: bool
  showAgentPointer :: bool
  cleanupPolicy :: cleanup_policy
  tasks :: "task_record obj"
  revisions :: "revision_record obj"
  notices :: "handoff_notice obj"
  stagedCommits :: "staged_commit obj"
  automationCleanup :: cleanup_record

definition SCHEMA_VERSION :: int where
  "SCHEMA_VERSION = 1"

definition no_cleanup :: cleanup_record where
  "no_cleanup = \<lparr>pending = False, cleanupTabIds = [], generation = 0, epoch = 0\<rparr>"

definition defaultState :: ext_state where
  "defaultState = \<lparr>paused = False, developerMode = False, skipCommitReview = True,
     showAgentPointer = True, cleanupPolicy = CleanupAutomatic, tasks = [], revisions = [],
     notices = [], stagedCommits = [], automationCleanup = no_cleanup\<rparr>"

section \<open>The stored form\<close>

fun task_state_name :: "task_state \<Rightarrow> string" where
  "task_state_name Working = ''working''"
| "task_state_name Completed = ''completed''"

fun color_name :: "task_color \<Rightarrow> string" where
  "color_name Purple = ''purple''" | "color_name Cyan = ''cyan''" | "color_name Green = ''green''"
| "color_name Yellow = ''yellow''" | "color_name Orange = ''orange''" | "color_name Red = ''red''"
| "color_name Pink = ''pink''" | "color_name Blue = ''blue''"

definition taskColors :: "task_color list" where
  "taskColors = [Purple, Cyan, Green, Yellow, Orange, Red, Pink, Blue]"

fun policy_name :: "cleanup_policy \<Rightarrow> string" where
  "policy_name CleanupAutomatic = ''automatic''"
| "policy_name CleanupAsk = ''ask''"
| "policy_name CleanupKeep = ''keep''"

fun status_name :: "notice_status \<Rightarrow> string" where
  "status_name NOpen = ''open''"
| "status_name NResolved = ''resolved''"
| "status_name NDismissed = ''dismissed''"
| "status_name NExpired = ''expired''"

text \<open>\<open>opt_field k v\<close> is the spread \<open>...(v !== undefined ? { k: v } : {})\<close>.\<close>

definition opt_field :: "string \<Rightarrow> js \<Rightarrow> js obj" where
  "opt_field k v = (if v = Undefined then [] else [(k, v)])"

fun opt_str :: "string option \<Rightarrow> js" where
  "opt_str None = Undefined" | "opt_str (Some s) = Str s"

fun opt_bool :: "bool option \<Rightarrow> js" where
  "opt_bool None = Undefined" | "opt_bool (Some b) = Bool b"

definition int_array :: "int list \<Rightarrow> js" where
  "int_array xs = Arr (map js_int xs)"

definition task_json :: "task_record \<Rightarrow> js" where
  "task_json t = Obj ([(''taskId'', Str (taskId t)), (''name'', Str (name t)),
     (''groupId'', case groupId t of None \<Rightarrow> Null | Some g \<Rightarrow> js_int g),
     (''tabIds'', int_array (tabIds t)), (''createdTabIds'', int_array (createdTabIds t)),
     (''color'', Str (color_name (color t))), (''state'', Str (task_state_name (state t))),
     (''createdAt'', js_int (createdAt t)), (''updatedAt'', js_int (updatedAt t))]
     @ opt_field ''legacyImported'' (legacyImported t))"

definition revision_json :: "revision_record \<Rightarrow> js" where
  "revision_json r = Obj ([(''floor'', js_int (floor_rev r)), (''current'', js_int (current_rev r))]
     @ opt_field ''documentId'' (opt_str (documentId r)) @ opt_field ''loaderId'' (opt_str (loaderId r)))"

definition notice_json :: "handoff_notice \<Rightarrow> js" where
  "notice_json n = Obj ([(''noticeId'', Str (noticeId n)), (''taskId'', Str (noticeTask n)),
     (''tabId'', js_int (noticeTab n)), (''expectedRevision'', js_int (expectedRevision n)),
     (''prompt'', Str (prompt n)), (''status'', Str (status_name (status n))),
     (''startedAtMs'', js_int (startedAtMs n)), (''expiresAtMs'', js_int (expiresAtMs n))]
     @ opt_field ''completion'' (completion n))"

definition dialog_json :: "staged_dialog option \<Rightarrow> js" where
  "dialog_json d = (case d of None \<Rightarrow> Undefined | Some d \<Rightarrow>
     Obj [(''generation'', js_int (dialog_generation d)), (''fingerprint'', Str (dialog_fingerprint d))])"

definition staged_json :: "staged_commit \<Rightarrow> js" where
  "staged_json c = Obj ([(''native_token'', Str (native_token c)), (''task_id'', Str (staged_task c)),
     (''tab_id'', js_int (staged_tab c)), (''page_revision'', js_int (staged_revision c)),
     (''effect'', Str (effect c)), (''fingerprint'', Str (fingerprint c)),
     (''expires_at_ms'', js_int (expires_at_ms c)), (''action'', Obj (staged_action c)),
     (''preview'', Obj (preview c))]
     @ opt_field ''review_handle'' (opt_str (review_handle c))
     @ opt_field ''approved'' (opt_bool (approved c)) @ opt_field ''dialog'' (dialog_json (dialog c)))"

definition cleanup_json :: "cleanup_record \<Rightarrow> js" where
  "cleanup_json c = Obj [(''pending'', Bool (pending c)), (''tabIds'', int_array (cleanupTabIds c)),
     (''generation'', js_int (generation c)), (''epoch'', js_int (epoch c))]"

definition map_obj :: "('a \<Rightarrow> js) \<Rightarrow> 'a obj \<Rightarrow> js" where
  "map_obj f ob = Obj (map (\<lambda>(k, v). (k, f v)) ob)"

definition state_json :: "ext_state \<Rightarrow> js" where
  "state_json s = Obj [(''schemaVersion'', js_int SCHEMA_VERSION), (''paused'', Bool (paused s)),
     (''developerMode'', Bool (developerMode s)), (''skipCommitReview'', Bool (skipCommitReview s)),
     (''showAgentPointer'', Bool (showAgentPointer s)),
     (''cleanupPolicy'', Str (policy_name (cleanupPolicy s))),
     (''tasks'', map_obj task_json (tasks s)), (''revisions'', map_obj revision_json (revisions s)),
     (''notices'', map_obj notice_json (notices s)),
     (''stagedCommits'', map_obj staged_json (stagedCommits s)),
     (''automationCleanup'', cleanup_json (automationCleanup s))]"

section \<open>Validation\<close>

definition objectValue :: "js \<Rightarrow> js obj option" where
  "objectValue v = (case v of Obj ob \<Rightarrow> Some ob | _ \<Rightarrow> None)"

definition finiteInteger :: "js \<Rightarrow> int \<Rightarrow> bool" where
  "finiteInteger v minimum = (case v of Num (JInt i) \<Rightarrow> minimum \<le> i | _ \<Rightarrow> False)"

definition parse_color :: "js \<Rightarrow> task_color option" where
  "parse_color v = find (\<lambda>c. v = Str (color_name c)) taskColors"

definition parse_status :: "js \<Rightarrow> notice_status option" where
  "parse_status v = find (\<lambda>s. v = Str (status_name s)) [NOpen, NResolved, NDismissed, NExpired]"

text \<open>\<open>needs_user\<close> is the state of an older build; it becomes \<open>working\<close>.\<close>

definition parse_task_state :: "js \<Rightarrow> task_state option" where
  "parse_task_state v =
     (if v = Str ''working'' \<or> v = Str ''needs_user'' then Some Working
      else if v = Str ''completed'' then Some Completed else None)"

definition parse_policy :: "js \<Rightarrow> cleanup_policy option" where
  "parse_policy v =
     (if v = Undefined \<or> v = Null then Some CleanupAutomatic
      else find (\<lambda>p. v = Str (policy_name p)) [CleanupAutomatic, CleanupAsk, CleanupKeep])"

definition int_elems :: "js \<Rightarrow> int list" where
  "int_elems v = map the_int (the_arr v)"

definition is_int_array :: "js \<Rightarrow> bool" where
  "is_int_array v \<longleftrightarrow> is_arr v \<and> list_all (\<lambda>x. finiteInteger x 0) (the_arr v)"

definition bad_completion :: "js \<Rightarrow> bool" where
  "bad_completion v = (case objectValue v of None \<Rightarrow> False | Some c \<Rightarrow>
     (jget c ''kind'' \<noteq> Str ''url'' \<and> jget c ''kind'' \<noteq> Str ''selector'' \<and>
      jget c ''kind'' \<noteq> Str ''challenge_cleared'') \<or> \<not> is_str (jget c ''value''))"

definition parseNotice :: "js \<Rightarrow> string \<Rightarrow> handoff_notice option" where
  "parseNotice v key = (case objectValue v of None \<Rightarrow> None | Some n \<Rightarrow>
     (if jget n ''noticeId'' \<noteq> Str key \<or> \<not> is_str (jget n ''taskId'') \<or>
         \<not> finiteInteger (jget n ''tabId'') 0 \<or> \<not> finiteInteger (jget n ''expectedRevision'') 1 \<or>
         \<not> is_str (jget n ''prompt'') \<or> parse_status (jget n ''status'') = None \<or>
         \<not> finiteInteger (jget n ''startedAtMs'') 0 \<or>
         \<not> finiteInteger (jget n ''expiresAtMs'') (the_int (jget n ''startedAtMs'')) \<or>
         bad_completion (jget n ''completion'')
      then None
      else Some \<lparr>noticeId = key, noticeTask = the_str (jget n ''taskId''),
        noticeTab = the_int (jget n ''tabId''),
        expectedRevision = the_int (jget n ''expectedRevision''),
        prompt = the_str (jget n ''prompt''), completion = jget n ''completion'',
        status = the (parse_status (jget n ''status'')),
        startedAtMs = the_int (jget n ''startedAtMs''),
        expiresAtMs = the_int (jget n ''expiresAtMs'')\<rparr>))"

text \<open>The single handoff of an older build becomes a notice with a fresh id \<open>uuid\<close>.\<close>

definition migratedLegacyNotice :: "string \<Rightarrow> js \<Rightarrow> handoff_notice option" where
  "migratedLegacyNotice uuid v = (case objectValue v of None \<Rightarrow> None | Some h \<Rightarrow>
     (if jget h ''active'' \<noteq> Bool True then None
      else if \<not> is_str (jget h ''taskId'') \<or> \<not> finiteInteger (jget h ''tabId'') 0 \<or>
         \<not> finiteInteger (jget h ''expectedRevision'') 1 \<or> \<not> is_str (jget h ''prompt'') \<or>
         \<not> finiteInteger (jget h ''startedAtMs'') 0 \<or> \<not> finiteInteger (jget h ''timeoutMs'') 1 \<or>
         (jget h ''pendingClearEventId'' \<noteq> Undefined \<and> \<not> is_str (jget h ''pendingClearEventId''))
      then None
      else Some \<lparr>noticeId = uuid, noticeTask = the_str (jget h ''taskId''),
        noticeTab = the_int (jget h ''tabId''),
        expectedRevision = the_int (jget h ''expectedRevision''),
        prompt = the_str (jget h ''prompt''),
        completion = (case objectValue (jget h ''completion'') of None \<Rightarrow> Undefined | Some c \<Rightarrow>
          if (jget c ''kind'' = Str ''url'' \<or> jget c ''kind'' = Str ''selector'') \<and>
             is_str (jget c ''value'')
          then Obj [(''kind'', jget c ''kind''), (''value'', jget c ''value'')] else Undefined),
        status = (if the_str (jget h ''pendingClearEventId'') \<noteq> [] then NDismissed else NOpen),
        startedAtMs = the_int (jget h ''startedAtMs''),
        expiresAtMs = the_int (jget h ''startedAtMs'') + the_int (jget h ''timeoutMs'')\<rparr>))"

definition bad_task :: "string \<Rightarrow> js obj \<Rightarrow> bool" where
  "bad_task key t \<longleftrightarrow>
     jget t ''taskId'' \<noteq> Str key \<or> \<not> is_str (jget t ''name'') \<or>
     \<not> (jget t ''groupId'' = Null \<or> finiteInteger (jget t ''groupId'') 0) \<or>
     \<not> is_int_array (jget t ''tabIds'') \<or>
     \<not> (jget t ''createdTabIds'' = Undefined \<or> is_int_array (jget t ''createdTabIds'')) \<or>
     parse_color (jget t ''color'') = None \<or> parse_task_state (jget t ''state'') = None \<or>
     \<not> finiteInteger (jget t ''createdAt'') 0 \<or> \<not> finiteInteger (jget t ''updatedAt'') 0"

text \<open>\<open>[...new Set(xs)]\<close> keeps the first occurrence of every element.\<close>

fun set_of_list :: "'a list \<Rightarrow> 'a list" where
  "set_of_list [] = []"
| "set_of_list (x # xs) = x # filter (\<lambda>y. y \<noteq> x) (set_of_list xs)"

definition task_of :: "string \<Rightarrow> js obj \<Rightarrow> task_record" where
  "task_of key t = \<lparr>taskId = key, name = the_str (jget t ''name''),
     groupId = (if jget t ''groupId'' = Null then None else Some (the_int (jget t ''groupId''))),
     tabIds = int_elems (jget t ''tabIds''),
     createdTabIds = filter (\<lambda>i. i \<in> set (int_elems (jget t ''tabIds'')))
       (set_of_list (int_elems (jget t ''createdTabIds''))),
     color = the (parse_color (jget t ''color'')), state = the (parse_task_state (jget t ''state'')),
     createdAt = the_int (jget t ''createdAt''), updatedAt = the_int (jget t ''updatedAt''),
     legacyImported = jget t ''legacyImported''\<rparr>"

text \<open>The loop over \<open>tasks\<close>, with the tab and group ids assigned to earlier tasks.\<close>

definition ambiguous :: "int list \<Rightarrow> int list \<Rightarrow> task_record \<Rightarrow> bool" where
  "ambiguous assignedTabs assignedGroups t \<longleftrightarrow>
     \<not> distinct (tabIds t) \<or> (groupId t = None \<and> tabIds t \<noteq> []) \<or>
     list_ex (\<lambda>i. i \<in> set assignedTabs) (tabIds t) \<or>
     (case groupId t of None \<Rightarrow> False | Some g \<Rightarrow> g \<in> set assignedGroups)"

fun group_list :: "int option \<Rightarrow> int list" where
  "group_list None = []" | "group_list (Some g) = [g]"

fun parse_tasks :: "int list \<Rightarrow> int list \<Rightarrow> js obj \<Rightarrow> task_record obj option" where
  "parse_tasks tabs groups [] = Some []"
| "parse_tasks tabs groups ((key, candidate) # rest) =
     (case objectValue candidate of None \<Rightarrow> None | Some ob \<Rightarrow>
       (if bad_task key ob then None
        else let t = task_of key ob in
          (if ambiguous tabs groups t then None
           else map_option (\<lambda>ts. (key, t) # ts)
             (parse_tasks (tabIds t @ tabs) (group_list (groupId t) @ groups) rest))))"

fun parse_all :: "(js \<Rightarrow> string \<Rightarrow> 'a option) \<Rightarrow> js obj \<Rightarrow> 'a obj option" where
  "parse_all f [] = Some []"
| "parse_all f ((key, v) # rest) =
     (case f v key of None \<Rightarrow> None | Some x \<Rightarrow> map_option (\<lambda>xs. (key, x) # xs) (parse_all f rest))"

definition opt_is_str :: "js \<Rightarrow> bool" where
  "opt_is_str v \<longleftrightarrow> v = Undefined \<or> is_str v"

definition opt_of_str :: "js \<Rightarrow> string option" where
  "opt_of_str v = (case v of Str s \<Rightarrow> Some s | _ \<Rightarrow> None)"

definition opt_of_bool :: "js \<Rightarrow> bool option" where
  "opt_of_bool v = (case v of Bool b \<Rightarrow> Some b | _ \<Rightarrow> None)"

definition parse_revision :: "js \<Rightarrow> string \<Rightarrow> revision_record option" where
  "parse_revision v key = (case objectValue v of None \<Rightarrow> None | Some r \<Rightarrow>
     (if \<not> finiteInteger (jget r ''floor'') 1 \<or>
         \<not> finiteInteger (jget r ''current'') (the_int (jget r ''floor'')) \<or>
         \<not> opt_is_str (jget r ''documentId'') \<or> \<not> opt_is_str (jget r ''loaderId'')
      then None
      else Some \<lparr>floor_rev = the_int (jget r ''floor''), current_rev = the_int (jget r ''current''),
        documentId = opt_of_str (jget r ''documentId''),
        loaderId = opt_of_str (jget r ''loaderId'')\<rparr>))"

text \<open>Profile-scoped stages bind to the task at tab 0, revision 0.\<close>

definition bad_staged :: "string \<Rightarrow> js obj \<Rightarrow> bool" where
  "bad_staged token c \<longleftrightarrow>
     jget c ''native_token'' \<noteq> Str token \<or> length token < 16 \<or> \<not> is_str (jget c ''task_id'') \<or>
     \<not> finiteInteger (jget c ''tab_id'') 0 \<or>
     \<not> (if jget c ''tab_id'' = js_int 0 then jget c ''page_revision'' = js_int 0
        else finiteInteger (jget c ''page_revision'') 1) \<or>
     \<not> is_str (jget c ''effect'') \<or> \<not> is_str (jget c ''fingerprint'') \<or>
     length (the_str (jget c ''fingerprint'')) < 32 \<or> \<not> finiteInteger (jget c ''expires_at_ms'') 0 \<or>
     (jget c ''review_handle'' \<noteq> Undefined \<and>
       (\<not> is_str (jget c ''review_handle'') \<or> length (the_str (jget c ''review_handle'')) < 16 \<or>
        256 < length (the_str (jget c ''review_handle'')))) \<or>
     (jget c ''approved'' \<noteq> Undefined \<and> \<not> is_bool (jget c ''approved'')) \<or>
     (jget c ''dialog'' \<noteq> Undefined \<and> (case objectValue (jget c ''dialog'') of None \<Rightarrow> True | Some d \<Rightarrow>
        \<not> finiteInteger (jget d ''generation'') 1 \<or> \<not> is_str (jget d ''fingerprint'') \<or>
        length (the_str (jget d ''fingerprint'')) < 32)) \<or>
     objectValue (jget c ''action'') = None \<or> objectValue (jget c ''preview'') = None"

definition staged_of :: "string \<Rightarrow> js obj \<Rightarrow> staged_commit" where
  "staged_of token c = \<lparr>native_token = token, staged_task = the_str (jget c ''task_id''),
     staged_tab = the_int (jget c ''tab_id''), staged_revision = the_int (jget c ''page_revision''),
     effect = the_str (jget c ''effect''), fingerprint = the_str (jget c ''fingerprint''),
     expires_at_ms = the_int (jget c ''expires_at_ms''),
     review_handle = opt_of_str (jget c ''review_handle''),
     approved = opt_of_bool (jget c ''approved''), staged_action = the_obj (jget c ''action''),
     preview = the_obj (jget c ''preview''),
     dialog = map_option (\<lambda>d. \<lparr>dialog_generation = the_int (jget d ''generation''),
       dialog_fingerprint = the_str (jget d ''fingerprint'')\<rparr>) (objectValue (jget c ''dialog''))\<rparr>"

definition parse_staged :: "js \<Rightarrow> string \<Rightarrow> staged_commit option" where
  "parse_staged v token = (case objectValue v of None \<Rightarrow> None | Some c \<Rightarrow>
     (if bad_staged token c then None else Some (staged_of token c)))"

definition parse_cleanup :: "js \<Rightarrow> cleanup_record option" where
  "parse_cleanup v =
     (if v = Undefined then Some no_cleanup
      else case objectValue v of None \<Rightarrow> None | Some c \<Rightarrow>
        (if \<not> is_bool (jget c ''pending'') \<or> \<not> is_int_array (jget c ''tabIds'') \<or>
            \<not> distinct (int_elems (jget c ''tabIds'')) \<or>
            \<not> finiteInteger (jget c ''generation'') 0 \<or> \<not> finiteInteger (jget c ''epoch'') 0
         then None
         else Some \<lparr>pending = the_bool (jget c ''pending''),
           cleanupTabIds = int_elems (jget c ''tabIds''),
           generation = the_int (jget c ''generation''), epoch = the_int (jget c ''epoch'')\<rparr>))"

definition parse_notices :: "string \<Rightarrow> js obj option \<Rightarrow> js obj option \<Rightarrow> handoff_notice obj option" where
  "parse_notices uuid noticesValue handoffValue =
     (case noticesValue of
        Some ns \<Rightarrow> parse_all parseNotice ns
      | None \<Rightarrow>
          (let h = (case handoffValue of None \<Rightarrow> Undefined | Some ob \<Rightarrow> Obj ob);
               migrated = migratedLegacyNotice uuid h
           in (if jget (the_obj h) ''active'' = Bool True \<and> migrated = None then None
               else Some (case migrated of None \<Rightarrow> [] | Some n \<Rightarrow> [(noticeId n, n)]))))"

text \<open>\<open>x === undefined ? undefined : objectValue(x)\<close> and \<open>objectValue(x)\<close> are both falsy for a non-object.\<close>

definition parseState :: "string \<Rightarrow> js \<Rightarrow> ext_state option" where
  "parseState uuid v = Option.bind (objectValue v) (\<lambda>raw.
     if jget raw ''schemaVersion'' \<noteq> js_int SCHEMA_VERSION then None
     else if \<not> is_bool (jget raw ''paused'') \<or> \<not> is_bool (jget raw ''developerMode'') \<or>
       \<not> is_bool (jget raw ''showAgentPointer'') then None
     else
       Option.bind (objectValue (jget raw ''tasks'')) (\<lambda>tasksValue.
       Option.bind (objectValue (jget raw ''revisions'')) (\<lambda>revisionsValue.
       Option.bind (objectValue (jget raw ''stagedCommits'')) (\<lambda>commitsValue.
       if objectValue (jget raw ''notices'') = None \<and> objectValue (jget raw ''handoff'') = None then None
       else
         Option.bind (parse_cleanup (jget raw ''automationCleanup'')) (\<lambda>cleanup.
         Option.bind (parse_tasks [] [] tasksValue) (\<lambda>ts.
         Option.bind (parse_all parse_revision revisionsValue) (\<lambda>rs.
         Option.bind (parse_notices uuid (objectValue (jget raw ''notices''))
           (objectValue (jget raw ''handoff''))) (\<lambda>ns.
         Option.bind (parse_all parse_staged commitsValue) (\<lambda>cs.
         Option.bind (parse_policy (jget raw ''cleanupPolicy'')) (\<lambda>policy.
           Some \<lparr>paused = the_bool (jget raw ''paused''),
             developerMode = the_bool (jget raw ''developerMode''),
             skipCommitReview = (jget raw ''skipCommitReview'' \<noteq> Bool False),
             showAgentPointer = the_bool (jget raw ''showAgentPointer''),
             cleanupPolicy = policy, tasks = ts, revisions = rs, notices = ns,
             stagedCommits = cs, automationCleanup = cleanup\<rparr>))))))))))"

end
