(* ===== verification/StorageValid.thy ===== *)
theory StorageValid
  imports Storage
begin

text \<open>
  What \<open>parseState\<close> accepts: the declarative well-formedness \<open>state_wf\<close> of an extension state, the
  round trip of the stored form through the validator, and that the validator returns well-formed
  states only.
\<close>

section \<open>Well-formed states\<close>

definition nonneg :: "int list \<Rightarrow> bool" where
  "nonneg xs \<longleftrightarrow> list_all (\<lambda>i. 0 \<le> i) xs"

definition task_wf :: "string \<Rightarrow> task_record \<Rightarrow> bool" where
  "task_wf key t \<longleftrightarrow>
     taskId t = key \<and> (case groupId t of None \<Rightarrow> tabIds t = [] | Some g \<Rightarrow> 0 \<le> g) \<and>
     nonneg (tabIds t) \<and> distinct (tabIds t) \<and>
     distinct (createdTabIds t) \<and> set (createdTabIds t) \<subseteq> set (tabIds t) \<and>
     0 \<le> createdAt t \<and> 0 \<le> updatedAt t"

definition all_tabs :: "task_record obj \<Rightarrow> int list" where
  "all_tabs ts = concat (map (\<lambda>(k, t). tabIds t) ts)"

definition all_groups :: "task_record obj \<Rightarrow> int list" where
  "all_groups ts = concat (map (\<lambda>(k, t). group_list (groupId t)) ts)"

definition tasks_wf :: "task_record obj \<Rightarrow> bool" where
  "tasks_wf ts \<longleftrightarrow> list_all (\<lambda>(k, t). task_wf k t) ts \<and> distinct (all_tabs ts) \<and> distinct (all_groups ts)"

definition revision_wf :: "revision_record \<Rightarrow> bool" where
  "revision_wf r \<longleftrightarrow> 1 \<le> floor_rev r \<and> floor_rev r \<le> current_rev r"

definition notice_wf :: "string \<Rightarrow> handoff_notice \<Rightarrow> bool" where
  "notice_wf key n \<longleftrightarrow> noticeId n = key \<and> 0 \<le> noticeTab n \<and> 1 \<le> expectedRevision n \<and>
     0 \<le> startedAtMs n \<and> startedAtMs n \<le> expiresAtMs n \<and> \<not> bad_completion (completion n)"

definition staged_wf :: "string \<Rightarrow> staged_commit \<Rightarrow> bool" where
  "staged_wf token c \<longleftrightarrow> native_token c = token \<and> 16 \<le> length token \<and> 0 \<le> staged_tab c \<and>
     (if staged_tab c = 0 then staged_revision c = 0 else 1 \<le> staged_revision c) \<and>
     32 \<le> length (fingerprint c) \<and> 0 \<le> expires_at_ms c \<and>
     (case review_handle c of None \<Rightarrow> True | Some h \<Rightarrow> 16 \<le> length h \<and> length h \<le> 256) \<and>
     (case dialog c of None \<Rightarrow> True | Some d \<Rightarrow>
        1 \<le> dialog_generation d \<and> 32 \<le> length (dialog_fingerprint d))"

definition cleanup_wf :: "cleanup_record \<Rightarrow> bool" where
  "cleanup_wf c \<longleftrightarrow> nonneg (cleanupTabIds c) \<and> distinct (cleanupTabIds c) \<and>
     0 \<le> generation c \<and> 0 \<le> epoch c"

definition state_wf :: "ext_state \<Rightarrow> bool" where
  "state_wf s \<longleftrightarrow> tasks_wf (tasks s) \<and> list_all (\<lambda>(k, r). revision_wf r) (revisions s) \<and>
     list_all (\<lambda>(k, n). notice_wf k n) (notices s) \<and>
     list_all (\<lambda>(k, c). staged_wf k c) (stagedCommits s) \<and> cleanup_wf (automationCleanup s)"

text \<open>Every object of a JavaScript heap has distinct keys.\<close>

definition state_js_ok :: "ext_state \<Rightarrow> bool" where
  "state_js_ok s \<longleftrightarrow> js_ok (state_json s)"

section \<open>Names\<close>

lemma jget_opt_field [simp]: "jget (opt_field k v) k' = (if k' = k then v else Undefined)"
  by (auto simp: opt_field_def)

lemma own_opt_field [simp]: "own (opt_field k v) k' \<longleftrightarrow> k' = k \<and> v \<noteq> Undefined"
  by (auto simp: opt_field_def)

lemma objectValue_Obj [simp]: "objectValue (Obj ob) = Some ob"
  by (simp add: objectValue_def)

lemma objectValue_Some: "objectValue v = Some ob \<longleftrightarrow> v = Obj ob"
  by (cases v) (auto simp: objectValue_def)

lemma objectValue_None_simps [simp]: "objectValue Undefined = None" "objectValue Null = None"
  by (simp_all add: objectValue_def)

lemma parse_color_name [simp]: "parse_color (Str (color_name c)) = Some c"
  by (cases c) (simp_all add: parse_color_def taskColors_def)

lemma parse_status_name [simp]: "parse_status (Str (status_name c)) = Some c"
  by (cases c) (simp_all add: parse_status_def)

lemma parse_task_state_name [simp]: "parse_task_state (Str (task_state_name c)) = Some c"
  by (cases c) (simp_all add: parse_task_state_def)

lemma parse_policy_name [simp]: "parse_policy (Str (policy_name c)) = Some c"
  by (cases c) (simp_all add: parse_policy_def)

lemma finiteInteger_js_int [simp]: "finiteInteger (js_int i) m \<longleftrightarrow> m \<le> i"
  by (simp add: finiteInteger_def js_int_def)

lemma finiteInteger_int: "finiteInteger v m \<Longrightarrow> m \<le> the_int v"
  by (cases v) (auto simp: finiteInteger_def split: js_number.splits)

lemma js_int_inject [simp]: "js_int i = js_int j \<longleftrightarrow> i = j"
  by (simp add: js_int_def)

lemma js_int_distinct [simp]:
  "js_int i \<noteq> Undefined" "js_int i \<noteq> Null" "js_int i \<noteq> Str s" "js_int i \<noteq> Bool b"
  "Null \<noteq> js_int i" "\<not> is_str (js_int i)"
  by (simp_all add: js_int_def)

lemma int_elems_array [simp]: "int_elems (int_array xs) = xs"
  by (simp add: int_elems_def int_array_def comp_def)

lemma is_int_array_array [simp]: "is_int_array (int_array xs) = nonneg xs"
  by (simp add: is_int_array_def int_array_def nonneg_def list_all_iff)

lemma int_array_Undefined [simp]: "int_array xs \<noteq> Undefined"
  by (simp add: int_array_def)

lemma is_int_array_nonneg: "is_int_array v \<Longrightarrow> nonneg (int_elems v)"
  by (auto simp: is_int_array_def nonneg_def int_elems_def list_all_iff dest: finiteInteger_int)

lemma set_set_of_list [simp]: "set (set_of_list xs) = set xs"
  by (induction xs) auto

lemma distinct_set_of_list [simp]: "distinct (set_of_list xs)"
  by (induction xs) auto

lemma set_of_list_distinct: "distinct xs \<Longrightarrow> set_of_list xs = xs"
  by (induction xs) (auto intro: filter_True)

section \<open>One record through the validator\<close>

lemma nonneg_subset: "set xs \<subseteq> set ys \<Longrightarrow> nonneg ys \<Longrightarrow> nonneg xs"
  by (auto simp: nonneg_def list_all_iff)

lemma filter_members: "set xs \<subseteq> A \<Longrightarrow> filter (\<lambda>i. i \<in> A) xs = xs"
  by (auto simp: filter_id_conv)

lemma task_roundtrip:
  assumes "task_wf key t" and "objectValue (task_json t) = Some ob"
  shows "\<not> bad_task key ob \<and> task_of key ob = t"
proof
  have "nonneg (createdTabIds t)"
    by (rule nonneg_subset [of _ "tabIds t"]) (use assms in \<open>simp_all add: task_wf_def\<close>)
  then show "\<not> bad_task key ob"
    using assms by (auto simp: task_wf_def task_json_def bad_task_def jget_append split: option.splits)
  show "task_of key ob = t"
    using assms by (cases t) (auto simp: task_wf_def task_json_def task_of_def jget_append
        set_of_list_distinct filter_members split: option.splits)
qed

lemma task_of_wf:
  "\<not> bad_task key ob \<Longrightarrow> \<not> ambiguous tabs groups (task_of key ob) \<Longrightarrow> task_wf key (task_of key ob)"
  by (auto simp: task_wf_def bad_task_def task_of_def ambiguous_def dest: finiteInteger_int
      is_int_array_nonneg split: option.splits)

lemma revision_roundtrip: "revision_wf r \<Longrightarrow> parse_revision (revision_json r) key = Some r"
  by (cases "documentId r"; cases "loaderId r")
    (simp_all add: revision_wf_def revision_json_def parse_revision_def opt_is_str_def opt_of_str_def
      jget_append)

lemma parse_revision_wf: "parse_revision v key = Some r \<Longrightarrow> revision_wf r"
  by (auto simp: parse_revision_def revision_wf_def dest: finiteInteger_int split: option.splits if_splits)

lemma notice_roundtrip: "notice_wf key n \<Longrightarrow> parseNotice (notice_json n) key = Some n"
  by (simp add: notice_wf_def notice_json_def parseNotice_def jget_append)

lemma parseNotice_wf: "parseNotice v key = Some n \<Longrightarrow> notice_wf key n"
  by (auto simp: parseNotice_def notice_wf_def dest: finiteInteger_int split: option.splits if_splits)

lemma staged_json_fields:
  assumes "objectValue (staged_json c) = Some ob"
  shows "jget ob ''native_token'' = Str (native_token c)" "jget ob ''task_id'' = Str (staged_task c)"
    "jget ob ''tab_id'' = js_int (staged_tab c)" "jget ob ''page_revision'' = js_int (staged_revision c)"
    "jget ob ''effect'' = Str (effect c)" "jget ob ''fingerprint'' = Str (fingerprint c)"
    "jget ob ''expires_at_ms'' = js_int (expires_at_ms c)" "jget ob ''action'' = Obj (staged_action c)"
    "jget ob ''preview'' = Obj (preview c)" "jget ob ''review_handle'' = opt_str (review_handle c)"
    "jget ob ''approved'' = opt_bool (approved c)" "jget ob ''dialog'' = dialog_json (dialog c)"
  using assms by (auto simp: staged_json_def jget_append)

lemma opt_str_simps [simp]:
  "opt_of_str (opt_str x) = x" "opt_str x = Undefined \<longleftrightarrow> x = None"
  "is_str (opt_str x) \<longleftrightarrow> x \<noteq> None" "x \<noteq> None \<Longrightarrow> the_str (opt_str x) = the x"
  by (cases x; simp add: opt_of_str_def)+

lemma opt_bool_simps [simp]:
  "opt_of_bool (opt_bool x) = x" "opt_bool x = Undefined \<longleftrightarrow> x = None" "is_bool (opt_bool x) \<longleftrightarrow> x \<noteq> None"
  by (cases x; simp add: opt_of_bool_def)+

lemma dialog_json_None [simp]: "dialog_json d = Undefined \<longleftrightarrow> d = None"
  by (simp add: dialog_json_def split: option.splits)

lemma staged_roundtrip:
  assumes wf: "staged_wf token c"
  shows "parse_staged (staged_json c) token = Some c"
proof -
  obtain ob where ob: "objectValue (staged_json c) = Some ob" by (simp add: staged_json_def)
  note f = staged_json_fields [OF ob]
  have "\<not> bad_staged token ob"
    using wf unfolding bad_staged_def f staged_wf_def
    by (auto simp: dialog_json_def split: option.splits)
  moreover have "staged_of token ob = c"
    using wf unfolding staged_of_def f
    by (cases c) (auto simp: staged_wf_def dialog_json_def split: option.splits)
  ultimately show ?thesis by (simp add: parse_staged_def ob)
qed

lemma opt_of_str_Some: "opt_of_str v = Some x \<longleftrightarrow> v = Str x"
  by (cases v) (auto simp: opt_of_str_def)

lemma tab_zero: "finiteInteger v m \<Longrightarrow> the_int v = 0 \<longleftrightarrow> v = js_int 0"
  by (cases v) (auto simp: finiteInteger_def js_int_def split: js_number.splits)

lemma staged_of_wf:
  assumes "\<not> bad_staged token c"
  shows "staged_wf token (staged_of token c)"
proof -
  have "case review_handle (staged_of token c) of None \<Rightarrow> True | Some h \<Rightarrow> 16 \<le> length h \<and> length h \<le> 256"
    using assms by (auto simp: bad_staged_def staged_of_def opt_of_str_Some split: option.splits)
  moreover have "case dialog (staged_of token c) of None \<Rightarrow> True
      | Some d \<Rightarrow> 1 \<le> dialog_generation d \<and> 32 \<le> length (dialog_fingerprint d)"
    using assms by (auto simp: bad_staged_def staged_of_def objectValue_Some dest: finiteInteger_int
        split: option.splits)
  moreover have "if the_int (jget c ''tab_id'') = 0 then the_int (jget c ''page_revision'') = 0
      else 1 \<le> the_int (jget c ''page_revision'')"
    using assms by (auto simp: bad_staged_def tab_zero dest: finiteInteger_int split: if_splits)
  ultimately show ?thesis
    using assms by (auto simp: bad_staged_def staged_wf_def staged_of_def dest: finiteInteger_int)
qed

lemma parse_staged_wf: "parse_staged v token = Some c \<Longrightarrow> staged_wf token c"
  by (auto simp: parse_staged_def intro: staged_of_wf split: option.splits if_splits)

lemma cleanup_roundtrip: "cleanup_wf c \<Longrightarrow> parse_cleanup (cleanup_json c) = Some c"
  by (simp add: cleanup_wf_def cleanup_json_def parse_cleanup_def)

lemma parse_cleanup_wf: "parse_cleanup v = Some c \<Longrightarrow> cleanup_wf c"
  by (auto simp: parse_cleanup_def cleanup_wf_def no_cleanup_def nonneg_def
      dest: finiteInteger_int is_int_array_nonneg split: option.splits if_splits)

section \<open>The loops\<close>

lemma parse_all_roundtrip:
  assumes "\<And>k x. (k, x) \<in> set xs \<Longrightarrow> f (g x) k = Some x"
  shows "parse_all f (map (\<lambda>(k, v). (k, g v)) xs) = Some xs"
  using assms by (induction xs) auto

lemma parse_all_wf:
  assumes "parse_all f ob = Some xs" and "\<And>v k x. f v k = Some x \<Longrightarrow> P k x"
  shows "list_all (\<lambda>(k, x). P k x) xs"
  using assms
proof (induction f ob arbitrary: xs rule: parse_all.induct)
  case (2 f key v rest)
  from "2.prems" obtain x xs' where "f v key = Some x" "parse_all f rest = Some xs'" "xs = (key, x) # xs'"
    by (auto split: option.splits)
  with "2.IH" "2.prems"(2) show ?case by auto
qed simp

lemma all_tabs_simps [simp]: "all_tabs [] = []" "all_tabs ((k, t) # ts) = tabIds t @ all_tabs ts"
  by (simp_all add: all_tabs_def)

lemma all_groups_simps [simp]:
  "all_groups [] = []" "all_groups ((k, t) # ts) = group_list (groupId t) @ all_groups ts"
  by (simp_all add: all_groups_def)

lemma group_list_distinct [simp]: "distinct (group_list g)"
  by (cases g) simp_all

lemma ambiguous_wf:
  "task_wf k t \<Longrightarrow> ambiguous tabs groups t \<longleftrightarrow>
     set (tabIds t) \<inter> set tabs \<noteq> {} \<or> set (group_list (groupId t)) \<inter> set groups \<noteq> {}"
  by (cases "groupId t") (auto simp: ambiguous_def task_wf_def list_ex_iff)

lemma parse_tasks_roundtrip:
  assumes "tasks_wf ts" "set (all_tabs ts) \<inter> set tabs = {}" "set (all_groups ts) \<inter> set groups = {}"
  shows "parse_tasks tabs groups (map (\<lambda>(k, t). (k, task_json t)) ts) = Some ts"
  using assms
proof (induction ts arbitrary: tabs groups)
  case Nil
  then show ?case by simp
next
  case (Cons p ts)
  obtain k t where p: "p = (k, t)" by (cases p)
  from Cons.prems p have wf: "task_wf k t" and rest: "tasks_wf ts"
    by (auto simp: tasks_wf_def)
  obtain ob where ob: "objectValue (task_json t) = Some ob" by (simp add: task_json_def)
  from task_roundtrip [OF wf ob] have t: "\<not> bad_task k ob" "task_of k ob = t" by simp_all
  have "parse_tasks (tabIds t @ tabs) (group_list (groupId t) @ groups)
      (map (\<lambda>(k, t). (k, task_json t)) ts) = Some ts"
    using Cons.prems p by (intro Cons.IH rest) (auto simp: tasks_wf_def)
  moreover have "\<not> ambiguous tabs groups t"
    using Cons.prems p by (auto simp: ambiguous_wf [OF wf])
  ultimately show ?case by (simp add: p ob t)
qed

lemma parse_tasks_wf:
  assumes "parse_tasks tabs groups ob = Some ts"
  shows "tasks_wf ts \<and> set (all_tabs ts) \<inter> set tabs = {} \<and> set (all_groups ts) \<inter> set groups = {}"
  using assms
proof (induction tabs groups ob arbitrary: ts rule: parse_tasks.induct)
  case (1 tabs groups)
  then show ?case by (simp add: tasks_wf_def)
next
  case (2 tabs groups key candidate rest)
  from "2.prems" obtain ob ts' where ob: "objectValue candidate = Some ob" and nb: "\<not> bad_task key ob"
    and na: "\<not> ambiguous tabs groups (task_of key ob)"
    and ts': "parse_tasks (tabIds (task_of key ob) @ tabs) (group_list (groupId (task_of key ob)) @ groups)
        rest = Some ts'"
    and ts: "ts = (key, task_of key ob) # ts'"
    by (auto simp: Let_def split: option.splits if_splits)
  have wf: "task_wf key (task_of key ob)" using nb na by (rule task_of_wf)
  from "2.IH" [OF ob nb refl na ts'] wf na ts show ?case
    by (auto simp: tasks_wf_def ambiguous_wf [OF wf] task_wf_def)
qed

section \<open>The whole state\<close>


lemma parse_notices_objects [simp]: "parse_notices uuid (Some ns) h = parse_all parseNotice ns"
  by (simp add: parse_notices_def)

lemma state_json_fields:
  assumes "objectValue (state_json s) = Some raw"
  shows "jget raw ''schemaVersion'' = js_int SCHEMA_VERSION" "jget raw ''paused'' = Bool (paused s)"
    "jget raw ''developerMode'' = Bool (developerMode s)"
    "jget raw ''skipCommitReview'' = Bool (skipCommitReview s)"
    "jget raw ''showAgentPointer'' = Bool (showAgentPointer s)"
    "jget raw ''cleanupPolicy'' = Str (policy_name (cleanupPolicy s))"
    "jget raw ''tasks'' = map_obj task_json (tasks s)"
    "jget raw ''revisions'' = map_obj revision_json (revisions s)"
    "jget raw ''notices'' = map_obj notice_json (notices s)"
    "jget raw ''handoff'' = Undefined"
    "jget raw ''stagedCommits'' = map_obj staged_json (stagedCommits s)"
    "jget raw ''automationCleanup'' = cleanup_json (automationCleanup s)"
  using assms by (auto simp: state_json_def)

lemma state_roundtrip:
  assumes "state_wf s"
  shows "parseState uuid (state_json s) = Some s"
proof -
  obtain raw where raw: "objectValue (state_json s) = Some raw" by (simp add: state_json_def)
  note f = state_json_fields [OF raw]
  have "parse_tasks [] [] (map (\<lambda>(k, v). (k, task_json v)) (tasks s)) = Some (tasks s)"
    using assms by (intro parse_tasks_roundtrip) (auto simp: state_wf_def)
  moreover have "parse_all parse_revision (map (\<lambda>(k, v). (k, revision_json v)) (revisions s)) = Some (revisions s)"
    using assms by (intro parse_all_roundtrip revision_roundtrip) (auto simp: state_wf_def list_all_iff)
  moreover have "parse_all parseNotice (map (\<lambda>(k, v). (k, notice_json v)) (notices s)) = Some (notices s)"
    using assms by (intro parse_all_roundtrip notice_roundtrip) (auto simp: state_wf_def list_all_iff)
  moreover have "parse_all parse_staged (map (\<lambda>(k, v). (k, staged_json v)) (stagedCommits s)) = Some (stagedCommits s)"
    using assms by (intro parse_all_roundtrip staged_roundtrip) (auto simp: state_wf_def list_all_iff)
  moreover have "parse_cleanup (cleanup_json (automationCleanup s)) = Some (automationCleanup s)"
    using assms by (simp add: state_wf_def cleanup_roundtrip)
  ultimately show ?thesis
    unfolding parseState_def raw Option.bind_lunit f map_obj_def by simp
qed

lemma migrated_completion_ok:
  "\<not> bad_completion (case objectValue v of None \<Rightarrow> Undefined | Some c \<Rightarrow>
     if (jget c ''kind'' = Str ''url'' \<or> jget c ''kind'' = Str ''selector'') \<and> is_str (jget c ''value'')
     then Obj [(''kind'', jget c ''kind''), (''value'', jget c ''value'')] else Undefined)"
  by (auto simp: bad_completion_def split: option.split)

lemma migrated_wf:
  assumes "migratedLegacyNotice uuid v = Some n"
  shows "notice_wf (noticeId n) n"
proof -
  from assms obtain h where "objectValue v = Some h" and
    m: "migratedLegacyNotice uuid (Obj h) = Some n"
    by (cases "objectValue v") (auto simp: migratedLegacyNotice_def)
  from m have "finiteInteger (jget h ''tabId'') 0" "finiteInteger (jget h ''expectedRevision'') 1"
    "finiteInteger (jget h ''startedAtMs'') 0" "finiteInteger (jget h ''timeoutMs'') 1"
    "noticeTab n = the_int (jget h ''tabId'')" "expectedRevision n = the_int (jget h ''expectedRevision'')"
    "startedAtMs n = the_int (jget h ''startedAtMs'')"
    "expiresAtMs n = the_int (jget h ''startedAtMs'') + the_int (jget h ''timeoutMs'')"
    "\<not> bad_completion (completion n)"
    unfolding migratedLegacyNotice_def objectValue_Obj option.case guard_Some option.inject
    using migrated_completion_ok by auto
  then show ?thesis by (auto simp: notice_wf_def dest: finiteInteger_int)
qed

lemma parse_notices_wf:
  "parse_notices uuid nv hv = Some ns \<Longrightarrow> list_all (\<lambda>(k, n). notice_wf k n) ns"
  by (auto simp: parse_notices_def Let_def dest: migrated_wf parse_all_wf [OF _ parseNotice_wf]
      split: option.splits if_splits)

lemma parseState_parts:
  assumes "parseState uuid v = Some s"
  shows "\<exists>raw tv rv cv. v = Obj raw \<and> parse_tasks [] [] tv = Some (tasks s) \<and>
    parse_all parse_revision rv = Some (revisions s) \<and>
    parse_notices uuid (objectValue (jget raw ''notices'')) (objectValue (jget raw ''handoff'')) = Some (notices s) \<and>
    parse_all parse_staged cv = Some (stagedCommits s) \<and>
    parse_cleanup (jget raw ''automationCleanup'') = Some (automationCleanup s)"
proof -
  from assms obtain raw tv rv cv cl ts rs ns cs p where
    "v = Obj raw" "parse_tasks [] [] tv = Some ts" "parse_all parse_revision rv = Some rs"
    "parse_notices uuid (objectValue (jget raw ''notices'')) (objectValue (jget raw ''handoff'')) = Some ns"
    "parse_all parse_staged cv = Some cs" "parse_cleanup (jget raw ''automationCleanup'') = Some cl"
    "s = \<lparr>paused = the_bool (jget raw ''paused''),
             developerMode = the_bool (jget raw ''developerMode''),
             skipCommitReview = (jget raw ''skipCommitReview'' \<noteq> Bool False),
             showAgentPointer = the_bool (jget raw ''showAgentPointer''),
             cleanupPolicy = p, tasks = ts, revisions = rs, notices = ns,
             stagedCommits = cs, automationCleanup = cl\<rparr>"
    unfolding parseState_def bind_eq_Some_conv guard_Some objectValue_Some option.inject by blast
  then show ?thesis by (intro exI conjI) simp_all
qed

lemma parseState_wf:
  assumes "parseState uuid v = Some s"
  shows "state_wf s"
proof -
  from parseState_parts [OF assms] obtain raw tv rv cv where p: "parse_tasks [] [] tv = Some (tasks s)"
    "parse_all parse_revision rv = Some (revisions s)"
    "parse_notices uuid (objectValue (jget raw ''notices'')) (objectValue (jget raw ''handoff'')) = Some (notices s)"
    "parse_all parse_staged cv = Some (stagedCommits s)"
    "parse_cleanup (jget raw ''automationCleanup'') = Some (automationCleanup s)"
    by blast
  have "list_all (\<lambda>(k, r). revision_wf r) (revisions s)"
    by (rule parse_all_wf [OF p(2)]) (rule parse_revision_wf)
  moreover have "list_all (\<lambda>(k, c). staged_wf k c) (stagedCommits s)"
    by (rule parse_all_wf [OF p(4)]) (rule parse_staged_wf)
  ultimately show ?thesis unfolding state_wf_def
    using parse_tasks_wf [OF p(1)] parse_notices_wf [OF p(3)] parse_cleanup_wf [OF p(5)] by blast
qed

end
