(* ===== verification/StateStore.thy ===== *)
theory StateStore
  imports StorageValid
begin

text \<open>
  The rest of \<open>storage.ts\<close>: the migration of the data of older builds, the first load of the state,
  \<open>readState\<close> and \<open>mutateState\<close>. The mutation queue runs one mutator at a time, so a \<open>mutateState\<close>
  call is one atomic change of the cached state.

  Chrome's storage area, the clock and the random generator are parameters: functions of an outside
  world of any type that return a result (or an error) and the next world. Nothing is assumed about
  them here.
\<close>

section \<open>The outside world\<close>

record 'w storage_api =
  storage_get :: "string list \<Rightarrow> 'w \<Rightarrow> (js_error + js obj) \<times> 'w"
  storage_set :: "js obj \<Rightarrow> 'w \<Rightarrow> (js_error + unit) \<times> 'w"
  storage_remove :: "string list \<Rightarrow> 'w \<Rightarrow> (js_error + unit) \<times> 'w"
  date_now :: "'w \<Rightarrow> int \<times> 'w"
  random_uuid :: "'w \<Rightarrow> string \<times> 'w"

text \<open>\<open>cached\<close> is \<open>initializedState\<close>: \<open>None\<close> until the first load.\<close>

record 'w store =
  cached :: "ext_state option"
  world :: 'w

definition call :: "('w \<Rightarrow> (js_error + 'a) \<times> 'w) \<Rightarrow> (('w, 'z) store_scheme, js_error, 'a) eff" where
  "call f = (\<lambda>s. case f (world s) of (r, w) \<Rightarrow> (r, s\<lparr>world := w\<rparr>))"

definition ask :: "('w \<Rightarrow> 'a \<times> 'w) \<Rightarrow> (('w, 'z) store_scheme, js_error, 'a) eff" where
  "ask f = (\<lambda>s. case f (world s) of (r, w) \<Rightarrow> (Inr r, s\<lparr>world := w\<rparr>))"

definition STATE_KEY :: string where "STATE_KEY = ''agenttabStateV1''"
definition LEGACY_TASKS_KEY :: string where "LEGACY_TASKS_KEY = ''chromeBridgeTaskSessions''"
definition LEGACY_PREFERENCES_KEY :: string where "LEGACY_PREFERENCES_KEY = ''chromeBridgePreferences''"

section \<open>Older data\<close>

definition int_or :: "js \<Rightarrow> int \<Rightarrow> int" where
  "int_or v d = (if finiteInteger v 0 then the_int v else d)"

definition legacy_task :: "int \<Rightarrow> string \<Rightarrow> js obj \<Rightarrow> task_record" where
  "legacy_task now key session =
     \<lparr>taskId = key,
      name = (if is_str (jget session ''name'') then the_str (jget session ''name'')
              else ''Imported browser task''),
      groupId = (if finiteInteger (jget session ''groupId'') 0
                 then Some (the_int (jget session ''groupId'')) else None),
      tabIds = int_elems (jget session ''tabIds''), createdTabIds = [],
      color = (case parse_color (jget session ''color'') of None \<Rightarrow> Purple | Some c \<Rightarrow> c),
      state = (if jget session ''state'' = Str ''completed'' then Completed else Working),
      createdAt = int_or (jget session ''createdAt'') now,
      updatedAt = int_or (jget session ''updatedAt'') now,
      legacyImported = Bool True\<rparr>"

fun legacy_loop :: "int \<Rightarrow> int list \<Rightarrow> int list \<Rightarrow> js obj \<Rightarrow> js_error + task_record obj" where
  "legacy_loop now tabs groups [] = Inr []"
| "legacy_loop now tabs groups ((key, candidate) # rest) =
     (case objectValue candidate of
        None \<Rightarrow> Inl (new_error ''Legacy AgentTab task state contains an invalid task'')
      | Some session \<Rightarrow>
          (if \<not> is_int_array (jget session ''tabIds'') \<or> \<not> distinct (int_elems (jget session ''tabIds''))
           then Inl (new_error ''Legacy AgentTab task state contains an invalid task'')
           else let t = legacy_task now key session in
             (if (groupId t = None \<and> tabIds t \<noteq> []) \<or> list_ex (\<lambda>i. i \<in> set tabs) (tabIds t) \<or>
                 (case groupId t of None \<Rightarrow> False | Some g \<Rightarrow> g \<in> set groups)
              then Inl (new_error ''Legacy AgentTab task state has ambiguous ownership'')
              else (case legacy_loop now (tabIds t @ tabs) (group_list (groupId t) @ groups) rest of
                  Inl e \<Rightarrow> Inl e
                | Inr ts \<Rightarrow> Inr ((key, t) # ts)))))"

definition legacyTasks :: "int \<Rightarrow> js \<Rightarrow> js_error + task_record obj" where
  "legacyTasks now v =
     (if v = Undefined then Inr []
      else case objectValue v of
          None \<Rightarrow> Inl (new_error ''Legacy AgentTab task state is malformed'')
        | Some raw \<Rightarrow> legacy_loop now [] [] raw)"

section \<open>Loading, reading, mutating\<close>

fun lift_result :: "(js_error + 'a) \<Rightarrow> ('s, js_error, 'a) eff" where
  "lift_result (Inl e) = throw e"
| "lift_result (Inr x) = ret x"

definition removeLegacyState :: "'w storage_api \<Rightarrow> string list \<Rightarrow> (('w, 'z) store_scheme, js_error, unit) eff" where
  "removeLegacyState api keys =
     (if keys = [] then ret ()
      else seq (call (storage_remove api keys))
        (bnd (call (storage_get api keys)) (\<lambda>remaining.
           if list_ex (own remaining) keys
           then throw (new_error ''AgentTab legacy state cleanup read-back failed'') else ret ())))"

definition legacy_keys :: "js obj \<Rightarrow> string list" where
  "legacy_keys stored = filter (own stored) [LEGACY_TASKS_KEY, LEGACY_PREFERENCES_KEY]"

definition loadExisting :: "'w storage_api \<Rightarrow> js obj \<Rightarrow> (('w, 'z) store_scheme, js_error, ext_state) eff" where
  "loadExisting api stored =
     bnd (ask (random_uuid api)) (\<lambda>uuid.
       case parseState uuid (jget stored STATE_KEY) of
         None \<Rightarrow> throw (new_error ''Persisted AgentTab state is malformed'')
       | Some existing \<Rightarrow>
           seq (when_do (\<not> jsonEquivalent (jget stored STATE_KEY) (state_json existing))
                 (call (storage_set api [(STATE_KEY, state_json existing)])))
           (seq (modify (\<lambda>s. s\<lparr>cached := Some existing\<rparr>))
           (seq (removeLegacyState api (legacy_keys stored))
             (ret existing))))"

definition freshState :: "int \<Rightarrow> js obj \<Rightarrow> js_error + ext_state" where
  "freshState now stored =
     (case legacyTasks now (jget stored LEGACY_TASKS_KEY) of
        Inl e \<Rightarrow> Inl e
      | Inr ts \<Rightarrow>
          Inr (defaultState\<lparr>tasks := ts,
            showAgentPointer :=
              (case objectValue (jget stored LEGACY_PREFERENCES_KEY) of
                 None \<Rightarrow> True
               | Some p \<Rightarrow> (if is_bool (jget p ''showAgentPointer'')
                           then the_bool (jget p ''showAgentPointer'') else True))\<rparr>))"

definition loadFresh :: "'w storage_api \<Rightarrow> js obj \<Rightarrow> (('w, 'z) store_scheme, js_error, ext_state) eff" where
  "loadFresh api stored =
     bnd (ask (date_now api)) (\<lambda>now.
     bnd (lift_result (freshState now stored)) (\<lambda>next.
     seq (call (storage_set api [(STATE_KEY, state_json next)]))
     (bnd (call (storage_get api [STATE_KEY])) (\<lambda>back.
      bnd (ask (random_uuid api)) (\<lambda>uuid.
       case parseState uuid (jget back STATE_KEY) of
         None \<Rightarrow> throw (new_error ''AgentTab state migration read-back failed'')
       | Some verified \<Rightarrow>
           (if \<not> jsonEquivalent (state_json verified) (state_json next)
            then throw (new_error ''AgentTab state migration read-back failed'')
            else seq (modify (\<lambda>s. s\<lparr>cached := Some verified\<rparr>))
              (seq (removeLegacyState api (legacy_keys stored)) (ret verified))))))))"

definition loadInitialState :: "'w storage_api \<Rightarrow> (('w, 'z) store_scheme, js_error, ext_state) eff" where
  "loadInitialState api =
     bnd (call (storage_get api [STATE_KEY, LEGACY_TASKS_KEY, LEGACY_PREFERENCES_KEY])) (\<lambda>stored.
       if own stored STATE_KEY then loadExisting api stored else loadFresh api stored)"

definition readState :: "'w storage_api \<Rightarrow> (('w, 'z) store_scheme, js_error, ext_state) eff" where
  "readState api = bnd (gets cached) (\<lambda>c. case c of Some st \<Rightarrow> ret st | None \<Rightarrow> loadInitialState api)"

text \<open>A mutator works on a private copy: it either fails or returns a value and the changed copy.\<close>

type_synonym 'a mutator = "ext_state \<Rightarrow> js_error + ('a \<times> ext_state)"

definition malformed :: js_error where
  "malformed = new_error ''AgentTab state mutation produced malformed state''"

definition commit_state :: "'w storage_api \<Rightarrow> ext_state \<Rightarrow> (('w, 'z) store_scheme, js_error, unit) eff" where
  "commit_state api st =
     (case parseState [] (state_json st) of
        None \<Rightarrow> throw malformed
      | Some verified \<Rightarrow>
          (if \<not> jsonEquivalent (state_json verified) (state_json st) then throw malformed
           else seq (call (storage_set api [(STATE_KEY, state_json st)]))
             (modify (\<lambda>s. s\<lparr>cached := Some verified\<rparr>))))"

definition mutateState :: "'w storage_api \<Rightarrow> 'a mutator \<Rightarrow> (('w, 'z) store_scheme, js_error, 'a) eff" where
  "mutateState api mutator =
     bnd (readState api) (\<lambda>st.
     bnd (gets cached) (\<lambda>prior.
       case mutator st of
         Inl e \<Rightarrow> throw e
       | Inr (result, st') \<Rightarrow>
           (if (case prior of None \<Rightarrow> False | Some b \<Rightarrow> jsonEquivalent (state_json b) (state_json st'))
            then ret result
            else seq (commit_state api st') (ret result))))"

end
