(* ===== verification/StateStoreFacts.thy ===== *)
theory StateStoreFacts
  imports StateStore
begin

text \<open>
  What the state store guarantees to the components that use it. The codec laws (the validator
  returns good values only, and gives back every good value it is shown) are a locale, interpreted
  on \<open>state_json\<close>/\<open>parseState\<close>.
\<close>

section \<open>Validated codecs\<close>

locale validated_codec =
  fixes encode :: "'s \<Rightarrow> js" and decode :: "js \<Rightarrow> 's option" and good :: "'s \<Rightarrow> bool"
  assumes decode_good: "decode v = Some s \<Longrightarrow> good s"
    and decode_encode: "good s \<Longrightarrow> decode (encode s) = Some s"
begin

lemma decode_encode_iff: "decode (encode s) = Some s \<longleftrightarrow> good s"
  by (auto intro: decode_good decode_encode)

lemma decode_encode_eq: "good s \<Longrightarrow> decode (encode s) = Some s' \<longleftrightarrow> s' = s"
  by (auto simp: decode_encode)

lemma decode_idem: "decode v = Some s \<Longrightarrow> decode (encode s) = Some s"
  by (blast intro: decode_encode decode_good)

end

interpretation state_codec: validated_codec state_json "parseState uuid" state_wf
  by unfold_locales (auto intro: parseState_wf state_roundtrip)

section \<open>Calls to the outside world\<close>

definition world_free :: "(('w, 'z) store_scheme \<Rightarrow> bool) \<Rightarrow> bool" where
  "world_free I \<longleftrightarrow> (\<forall>s w. I (s\<lparr>world := w\<rparr>) = I s)"

lemma keeps_call [keeps_intros]: "world_free I \<Longrightarrow> keeps I (call f)"
  by (auto simp: keeps_def call_def world_free_def split: prod.splits)

lemma keeps_ask [keeps_intros]: "world_free I \<Longrightarrow> keeps I (ask f)"
  by (auto simp: keeps_def ask_def world_free_def split: prod.splits)

lemma keeps_lift_result [keeps_intros]: "keeps I (lift_result r)"
  by (cases r) (auto intro: keeps_intros)

lemma cached_call: "call f s = (r, t) \<Longrightarrow> cached t = cached s"
  by (auto simp: call_def split: prod.splits)

section \<open>The cached state is always well formed\<close>

definition cached_wf :: "('w, 'z) store_scheme \<Rightarrow> bool" where
  "cached_wf s \<longleftrightarrow> (case cached s of None \<Rightarrow> True | Some st \<Rightarrow> state_wf st)"

lemma world_free_cached_wf [simp]: "world_free cached_wf"
  by (simp add: world_free_def cached_wf_def)

lemma keeps_set_cached: "state_wf st \<Longrightarrow> keeps cached_wf (modify (\<lambda>s. s\<lparr>cached := Some st\<rparr>))"
  by (simp add: keeps_modify cached_wf_def)

lemma keeps_removeLegacyState [keeps_intros]: "world_free I \<Longrightarrow> keeps I (removeLegacyState api keys)"
  by (auto simp: removeLegacyState_def intro!: keeps_intros)

lemma keeps_loadExisting: "keeps cached_wf (loadExisting api stored)"
  unfolding loadExisting_def
  by (intro keeps_bnd keeps_ask world_free_cached_wf)
    (auto intro!: keeps_intros keeps_set_cached dest: parseState_wf split: option.split)

lemma keeps_loadFresh: "keeps cached_wf (loadFresh api stored)"
  unfolding loadFresh_def
  by (intro keeps_bnd keeps_seq keeps_ask keeps_call keeps_lift_result world_free_cached_wf)
    (auto intro!: keeps_intros keeps_set_cached dest: parseState_wf split: option.split)

lemma keeps_loadInitialState: "keeps cached_wf (loadInitialState api)"
  by (auto simp: loadInitialState_def intro!: keeps_intros keeps_loadExisting keeps_loadFresh)

lemma keeps_readState: "keeps cached_wf (readState api)"
  unfolding readState_def
  by (auto intro!: keeps_intros keeps_loadInitialState split: option.split)

lemma keeps_commit_state: "keeps cached_wf (commit_state api st)"
  unfolding commit_state_def
  by (auto intro!: keeps_intros keeps_set_cached dest: parseState_wf split: option.split)

lemma keeps_mutateState: "keeps cached_wf (mutateState api f)"
  unfolding mutateState_def
  by (intro keeps_bnd keeps_readState keeps_gets)
    (auto intro!: keeps_intros keeps_commit_state split: sum.split prod.split)

section \<open>Equivalent states\<close>

lemma equiv_member:
  "jsonEquivalent (Obj a) (Obj b) \<Longrightarrow> map_of a k = Some v \<Longrightarrow>
     \<exists>w. map_of b k = Some w \<and> jsonEquivalent v w"
  by (auto simp: equivalent_fields_iff dest!: map_of_SomeD)

lemma equiv_jget:
  assumes "jsonEquivalent (Obj a) (Obj b)" and "own a k"
  shows "jsonEquivalent (jget a k) (jget b k)"
proof -
  from assms(2) obtain v where v: "map_of a k = Some v"
    by (metis own_def map_of_eq_None_iff option.exhaust set_map)
  with equiv_member [OF assms(1) v] show ?thesis by (auto simp: jget_def)
qed

lemma equivalent_js_ints: "length xs = length ys \<Longrightarrow>
   equivalent_items (map js_int xs) (map js_int ys) \<longleftrightarrow> xs = ys"
  by (induction xs ys rule: list_induct2) (simp_all add: js_int_def)

lemma equivalent_int_array [simp]: "jsonEquivalent (int_array xs) (int_array ys) \<longleftrightarrow> xs = ys"
  using equivalent_js_ints [of xs ys] by (auto simp: int_array_def)

lemma map_of_map_obj: "map_of (map (\<lambda>(k, v). (k, f v)) xs) k = map_option f (map_of xs k)"
  by (induction xs) auto

lemma equiv_map_obj:
  assumes "jsonEquivalent (map_obj f a) (map_obj f b)" and "map_of a k = Some x"
  shows "\<exists>y. map_of b k = Some y \<and> jsonEquivalent (f x) (f y)"
  using equiv_member [OF assms(1) [unfolded map_obj_def], of k "f x"] assms(2)
  by (auto simp: map_of_map_obj)

lemma equiv_map_obj_keys:
  assumes e: "jsonEquivalent (map_obj f a) (map_obj f b)" and d: "distinct (map fst a)"
  shows "set (map fst a) = set (map fst b)"
proof (rule card_subset_eq [OF finite_set])
  show "set (map fst a) \<subseteq> set (map fst b)"
  proof
    fix k assume "k \<in> set (map fst a)"
    then obtain x where "map_of a k = Some x" by (metis map_of_eq_None_iff not_None_eq set_map)
    from equiv_map_obj [OF e this] obtain y where "map_of b k = Some y" by blast
    then show "k \<in> set (map fst b)" by (force dest: map_of_SomeD)
  qed
  then have "card (set (map fst a)) \<le> card (set (map fst b))" by (rule card_mono [OF finite_set])
  moreover have "card (set (map fst b)) \<le> length b" by (metis card_length length_map)
  moreover have "card (set (map fst a)) = length a" using d distinct_card by fastforce
  moreover have "length a = length b" using e by (simp add: map_obj_def)
  ultimately show "card (set (map fst a)) = card (set (map fst b))" by simp
qed

lemma equiv_map_obj_None:
  "jsonEquivalent (map_obj f a) (map_obj f b) \<Longrightarrow> distinct (map fst a) \<Longrightarrow>
     map_of a k = None \<longleftrightarrow> map_of b k = None"
  using equiv_map_obj_keys [of f a b] by (simp add: map_of_eq_None_iff)

text \<open>The part of a task record that the validator fixes.\<close>

definition task_core :: "task_record \<Rightarrow> task_record" where
  "task_core t = t\<lparr>legacyImported := Undefined\<rparr>"

lemma task_json_fields:
  assumes "task_json t = Obj ob"
  shows "jget ob ''taskId'' = Str (taskId t)" "jget ob ''name'' = Str (name t)"
    "jget ob ''groupId'' = (case groupId t of None \<Rightarrow> Null | Some g \<Rightarrow> js_int g)"
    "jget ob ''tabIds'' = int_array (tabIds t)" "jget ob ''createdTabIds'' = int_array (createdTabIds t)"
    "jget ob ''color'' = Str (color_name (color t))" "jget ob ''state'' = Str (task_state_name (state t))"
    "jget ob ''createdAt'' = js_int (createdAt t)" "jget ob ''updatedAt'' = js_int (updatedAt t)"
    "list_all (own ob) [''taskId'', ''name'', ''groupId'', ''tabIds'', ''createdTabIds'', ''color'',
       ''state'', ''createdAt'', ''updatedAt'']"
  using assms by (auto simp: task_json_def)

lemma color_name_inject [simp]: "color_name c = color_name d \<longleftrightarrow> c = d"
  by (cases c; cases d) simp_all

lemma task_state_name_inject [simp]: "task_state_name c = task_state_name d \<longleftrightarrow> c = d"
  by (cases c; cases d) simp_all

lemma group_js_inject:
  "jsonEquivalent (case g of None \<Rightarrow> Null | Some i \<Rightarrow> js_int i) (case h of None \<Rightarrow> Null | Some i \<Rightarrow> js_int i)
     \<longleftrightarrow> g = h"
  by (cases g; cases h) (simp_all add: js_int_def)

lemma task_json_equiv:
  assumes "jsonEquivalent (task_json t) (task_json u)"
  shows "task_core t = task_core u"
proof -
  obtain a b where ab: "task_json t = Obj a" "task_json u = Obj b" by (simp add: task_json_def)
  note fa = task_json_fields [OF ab(1)] and fb = task_json_fields [OF ab(2)]
  have e: "jsonEquivalent (Obj a) (Obj b)" using assms by (simp only: ab)
  have q: "jsonEquivalent (jget a k) (jget b k)" if "k \<in> set [''taskId'', ''name'', ''groupId'', ''tabIds'',
      ''createdTabIds'', ''color'', ''state'', ''createdAt'', ''updatedAt'']" for k
    using that fa(10) by (intro equiv_jget [OF e]) (simp only: list_all_iff)
  from q [of "''taskId''"] q [of "''name''"] q [of "''groupId''"] q [of "''tabIds''"] q [of "''createdTabIds''"]
    q [of "''color''"] q [of "''state''"] q [of "''createdAt''"] q [of "''updatedAt''"]
  show ?thesis
    unfolding fa(1-9) fb(1-9) by (simp add: group_js_inject task_core_def js_int_def)
qed

definition state_equiv :: "ext_state \<Rightarrow> ext_state \<Rightarrow> bool" where
  "state_equiv a b \<longleftrightarrow> jsonEquivalent (state_json a) (state_json b)"

definition keys_ok :: "ext_state \<Rightarrow> bool" where
  "keys_ok st \<longleftrightarrow> distinct (map fst (tasks st)) \<and> distinct (map fst (revisions st)) \<and>
     distinct (map fst (notices st)) \<and> distinct (map fst (stagedCommits st))"

definition ext_ok :: "ext_state \<Rightarrow> bool" where
  "ext_ok st \<longleftrightarrow> state_wf st \<and> keys_ok st"

lemma state_equiv_field:
  assumes "state_equiv a b" and "state_json a = Obj ra" and "state_json b = Obj rb"
    and "k \<in> {''paused'', ''tasks'', ''revisions'', ''notices'', ''stagedCommits''}"
  shows "jsonEquivalent (jget ra k) (jget rb k)"
proof (rule equiv_jget)
  show "jsonEquivalent (Obj ra) (Obj rb)" using assms by (simp add: state_equiv_def)
  show "own ra k" using assms(2,4) by (auto simp: state_json_def)
qed

lemma state_equiv_parts:
  assumes "state_equiv a b"
  shows "paused a = paused b" "jsonEquivalent (map_obj task_json (tasks a)) (map_obj task_json (tasks b))"
    "jsonEquivalent (map_obj revision_json (revisions a)) (map_obj revision_json (revisions b))"
    "jsonEquivalent (map_obj notice_json (notices a)) (map_obj notice_json (notices b))"
    "jsonEquivalent (map_obj staged_json (stagedCommits a)) (map_obj staged_json (stagedCommits b))"
proof -
  obtain ra rb where r: "state_json a = Obj ra" "state_json b = Obj rb" by (simp add: state_json_def)
  then have o: "objectValue (state_json a) = Some ra" "objectValue (state_json b) = Some rb" by simp_all
  note fa = state_json_fields [OF o(1)] and fb = state_json_fields [OF o(2)]
  note q = state_equiv_field [OF assms r]
  show "paused a = paused b" using q [of "''paused''"] by (simp add: fa fb)
  show "jsonEquivalent (map_obj task_json (tasks a)) (map_obj task_json (tasks b))"
    using q [of "''tasks''"] by (simp only: fa fb insert_iff simp_thms)
  show "jsonEquivalent (map_obj revision_json (revisions a)) (map_obj revision_json (revisions b))"
    using q [of "''revisions''"] by (simp only: fa fb insert_iff simp_thms)
  show "jsonEquivalent (map_obj notice_json (notices a)) (map_obj notice_json (notices b))"
    using q [of "''notices''"] by (simp only: fa fb insert_iff simp_thms)
  show "jsonEquivalent (map_obj staged_json (stagedCommits a)) (map_obj staged_json (stagedCommits b))"
    using q [of "''stagedCommits''"] by (simp only: fa fb insert_iff simp_thms)
qed

lemma state_equiv_tasks:
  assumes "state_equiv a b" and "distinct (map fst (tasks a))"
  shows "map_option task_core (map_of (tasks a) k) = map_option task_core (map_of (tasks b) k)"
proof (cases "map_of (tasks a) k")
  case None
  with equiv_map_obj_None [OF state_equiv_parts(2) [OF assms(1)] assms(2)] show ?thesis by simp
next
  case (Some t)
  with equiv_map_obj [OF state_equiv_parts(2) [OF assms(1)], of k t] show ?thesis
    by (auto dest: task_json_equiv)
qed

lemma parse_tasks_keys: "parse_tasks tabs groups ob = Some ts \<Longrightarrow> map fst ts = map fst ob"
  by (induction tabs groups ob arbitrary: ts rule: parse_tasks.induct)
    (auto simp: Let_def split: option.splits if_splits)

lemma parse_all_keys: "parse_all f ob = Some xs \<Longrightarrow> map fst xs = map fst ob"
  by (induction f ob arbitrary: xs rule: parse_all.induct) (auto split: option.splits)

lemma map_obj_keys: "objectValue (map_obj f xs) = Some ob \<Longrightarrow> map fst ob = map fst xs"
  by (auto simp: map_obj_def)

lemma parse_state_json_keys:
  assumes "parseState uuid (state_json st) = Some v" and "keys_ok st"
  shows "keys_ok v"
proof -
  obtain raw where raw: "objectValue (state_json st) = Some raw" by (simp add: state_json_def)
  note f = state_json_fields [OF raw]
  from assms(1) have
    "parse_tasks [] [] (the_obj (map_obj task_json (tasks st))) = Some (tasks v)"
    "parse_all parse_revision (the_obj (map_obj revision_json (revisions st))) = Some (revisions v)"
    "parse_all parseNotice (the_obj (map_obj notice_json (notices st))) = Some (notices v)"
    "parse_all parse_staged (the_obj (map_obj staged_json (stagedCommits st))) = Some (stagedCommits v)"
    unfolding parseState_def raw Option.bind_lunit f
    by (auto simp: guard_Some bind_eq_Some_conv map_obj_def)
  then have "map fst (tasks v) = map fst (tasks st)" "map fst (revisions v) = map fst (revisions st)"
    "map fst (notices v) = map fst (notices st)" "map fst (stagedCommits v) = map fst (stagedCommits st)"
    by (auto dest!: parse_tasks_keys parse_all_keys simp: map_obj_def comp_def case_prod_beta)
  with assms(2) show ?thesis by (simp add: keys_ok_def)
qed

section \<open>One mutation\<close>

definition ready :: "('w, 'z) store_scheme \<Rightarrow> bool" where
  "ready s \<longleftrightarrow> (case cached s of None \<Rightarrow> False | Some st \<Rightarrow> ext_ok st)"

lemma world_free_ready [simp]: "world_free ready"
  by (simp add: world_free_def ready_def)

definition keeps_keys :: "'a mutator \<Rightarrow> bool" where
  "keeps_keys f \<longleftrightarrow> (\<forall>st x st'. keys_ok st \<longrightarrow> f st = Inr (x, st') \<longrightarrow> keys_ok st')"

lemma readState_cached: "cached s = Some st \<Longrightarrow> readState api s = (Inr st, s)"
  by (simp add: readState_def bnd_def gets_def ret_def)

lemma mutateState_cached:
  assumes "cached s = Some st"
  shows "mutateState api f s = (case f st of
      Inl e \<Rightarrow> (Inl e, s)
    | Inr (x, st') \<Rightarrow> (if state_equiv st st' then (Inr x, s)
        else seq (commit_state api st') (ret x) s))"
  using assms
  by (simp add: mutateState_def bnd_def readState_cached gets_def ret_def throw_def state_equiv_def
      split: sum.split prod.split)

lemma commit_state_Inr:
  assumes "commit_state api st s = (Inr u, t)"
  shows "\<exists>v w. t = s\<lparr>world := w, cached := Some v\<rparr> \<and> parseState [] (state_json st) = Some v \<and> state_equiv v st"
  using assms
  by (auto simp: commit_state_def seq_Inr call_def state_equiv_def split: option.splits if_splits prod.splits)

lemma self_world: "\<exists>w. s = s\<lparr>world := w\<rparr>"
  by (rule exI [of _ "world s"]) simp

lemma call_Inl: "call f s = (Inl e, t) \<Longrightarrow> \<exists>w. t = s\<lparr>world := w\<rparr>"
  by (auto simp: call_def split: prod.splits)

lemma commit_state_Inl:
  assumes "commit_state api st s = (Inl e, t)"
  shows "\<exists>w. t = s\<lparr>world := w\<rparr>"
proof (cases "t = s")
  case True
  then show ?thesis using self_world [of s] by simp
next
  case False
  with assms have "call (storage_set api [(STATE_KEY, state_json st)]) s = (Inl e, t)"
    by (auto simp: commit_state_def seq_def bnd_def throw_def modify_def
        split: option.splits if_splits prod.splits sum.splits)
  then show ?thesis by (rule call_Inl)
qed

lemma state_equiv_refl: "js_ok (state_json st) \<Longrightarrow> state_equiv st st"
  by (simp add: state_equiv_def jsonEquivalent_refl)

lemma mutateState_Inr:
  assumes st: "cached s = Some st" "ext_ok st" and f: "keeps_keys f"
    and m: "mutateState api f s = (Inr x, t)"
  shows "\<exists>st' v w. f st = Inr (x, st') \<and> t = s\<lparr>world := w, cached := Some v\<rparr> \<and> ext_ok v \<and> state_equiv v st'"
proof -
  from m obtain st' where f': "f st = Inr (x, st')"
    by (auto simp: mutateState_cached [OF st(1)] seq_Inr split: sum.splits if_splits)
  show ?thesis
  proof (cases "state_equiv st st'")
    case True
    with m f' have "t = s" by (simp add: mutateState_cached [OF st(1)])
    moreover have "s\<lparr>world := world s, cached := Some st\<rparr> = s" using st(1) by simp
    ultimately show ?thesis using f' True st(2) by metis
  next
    case False
    with m f' have "commit_state api st' s = (Inr (), t)"
      by (auto simp: mutateState_cached [OF st(1)] seq_Inr)
    from commit_state_Inr [OF this] obtain v w where v: "t = s\<lparr>world := w, cached := Some v\<rparr>"
      "parseState [] (state_json st') = Some v" "state_equiv v st'" by blast
    have "keys_ok st'" using f f' st(2) by (auto simp: keeps_keys_def ext_ok_def)
    then have "ext_ok v" using v(2) parse_state_json_keys parseState_wf by (auto simp: ext_ok_def)
    with f' v show ?thesis by blast
  qed
qed

lemma mutateState_Inl:
  assumes st: "cached s = Some st" and m: "mutateState api f s = (Inl e, t)"
  shows "\<exists>w. t = s\<lparr>world := w\<rparr>"
proof -
  consider "f st = Inl e" "t = s" | x st' where "f st = Inr (x, st')" "commit_state api st' s = (Inl e, t)"
    using m by (auto simp: mutateState_cached [OF st] seq_def bnd_def ret_def
        split: sum.splits prod.splits if_splits)
  then show ?thesis by cases (use self_world [of s] in simp, blast dest: commit_state_Inl)
qed

lemma ready_mutateState:
  assumes f: "keeps_keys f" and r: "ready s" and m: "mutateState api f s = (r, t)"
  shows "ready t"
proof -
  from r obtain st where st: "cached s = Some st" "ext_ok st" by (auto simp: ready_def split: option.splits)
  show ?thesis
  proof (cases r)
    case (Inl e)
    with mutateState_Inl [OF st(1)] m st show ?thesis by (fastforce simp: ready_def)
  next
    case (Inr x)
    with mutateState_Inr [OF st f] m show ?thesis by (fastforce simp: ready_def)
  qed
qed

lemma keeps_ready_mutateState [keeps_intros]: "keeps_keys f \<Longrightarrow> keeps ready (mutateState api f)"
  by (rule keepsI) (metis ready_mutateState prod.collapse)

lemma keeps_ready_readState [keeps_intros]: "keeps ready (readState api)"
  by (auto simp: keeps_def ready_def readState_cached split: option.splits)

end
