(* ===== verification/Revisions.thy ===== *)
theory Revisions
  imports StateStoreFacts
begin

text \<open>
  \<open>packages/extension/src/revisions.ts\<close>: the page revision of every tab. The table lives in the
  persisted state; each operation is one mutator on it. Change listeners are registered by the
  browser runtime, which is not part of the model, so they are parameters.
\<close>

section \<open>Keys\<close>

fun nat_digits :: "nat \<Rightarrow> string" where
  "nat_digits n = (if n < 10 then [char_of (n + 48)] else nat_digits (n div 10) @ [char_of (n mod 10 + 48)])"

declare nat_digits.simps [simp del]

text \<open>\<open>String(i)\<close> of an integer.\<close>

definition string_of_int :: "int \<Rightarrow> string" where
  "string_of_int i = (if i < 0 then CHR ''-'' # nat_digits (nat (- i)) else nat_digits (nat i))"

definition digits_value :: "string \<Rightarrow> nat" where
  "digits_value s = foldl (\<lambda>a c. 10 * a + (of_char c - 48)) 0 s"

lemma digits_value_snoc: "digits_value (s @ [c]) = 10 * digits_value s + (of_char c - 48)"
  by (simp add: digits_value_def)

lemma digits_value_digits: "digits_value (nat_digits n) = n"
proof (induction n rule: nat_digits.induct)
  case (1 n)
  show ?case
  proof (cases "n < 10")
    case True
    then show ?thesis by (simp add: nat_digits.simps [of n] digits_value_def)
  next
    case False
    with 1 have "digits_value (nat_digits (n div 10)) = n div 10" by simp
    with False show ?thesis by (simp add: nat_digits.simps [of n] digits_value_snoc)
  qed
qed

lemma digit_char: "m < 10 \<Longrightarrow> CHR ''-'' \<noteq> char_of (m + 48 :: nat)"
proof
  assume m: "m < 10" and c: "CHR ''-'' = char_of (m + 48 :: nat)"
  from c have "of_char (CHR ''-'') = (of_char (char_of (m + 48) :: char) :: nat)" by (rule arg_cong)
  with m show False by simp
qed

lemma nat_digits_digit: "CHR ''-'' \<notin> set (nat_digits n)"
proof (induction n rule: nat_digits.induct)
  case (1 n)
  show ?case
  proof (cases "n < 10")
    case True
    then show ?thesis using digit_char [of n] unfolding nat_digits.simps [of n] by (simp only: if_True list.set Un_empty_right insert_iff empty_iff simp_thms)
  next
    case False
    then show ?thesis using 1 digit_char [of "n mod 10"] unfolding nat_digits.simps [of n] by (simp only: if_False set_append list.set Un_iff insert_iff empty_iff simp_thms)
  qed
qed

lemma nat_digits_nonempty: "nat_digits n \<noteq> []"
  by (simp add: nat_digits.simps [of n])

lemma string_of_int_inject [simp]: "string_of_int i = string_of_int j \<longleftrightarrow> i = j"
proof
  assume eq: "string_of_int i = string_of_int j"
  have inj: "m = n" if "nat_digits m = nat_digits n" for m n
    using that digits_value_digits by metis
  have mixed: "CHR ''-'' # xs \<noteq> nat_digits n" for xs n
    using nat_digits_digit [of n] by (metis list.set_intros(1))
  from eq show "i = j"
    by (auto simp: string_of_int_def mixed mixed [symmetric] dest!: inj split: if_splits)
qed simp

section \<open>The table\<close>

type_synonym revision_table = "revision_record obj"

definition ensure_rev :: "string \<Rightarrow> revision_table \<Rightarrow> int \<times> revision_table" where
  "ensure_rev key rs = (case map_of rs key of
      Some existing \<Rightarrow> (current_rev existing, rs)
    | None \<Rightarrow> (1, AList.update key \<lparr>floor_rev = 1, current_rev = 1, documentId = None, loaderId = None\<rparr> rs))"

definition next_rev :: "revision_record option \<Rightarrow> int" where
  "next_rev existing = (case existing of
      None \<Rightarrow> max (max (0 + 1) (0 + 1)) 1
    | Some r \<Rightarrow> max (max (current_rev r + 1) (floor_rev r + 1)) 1)"

text \<open>\<open>markNavigation\<close> and \<open>remove\<close> apply the same mutator.\<close>

definition bump_rev :: "string \<Rightarrow> revision_table \<Rightarrow> int \<times> revision_table" where
  "bump_rev key rs =
     (let next = next_rev (map_of rs key)
      in (next, AList.update key \<lparr>floor_rev = next, current_rev = next, documentId = None, loaderId = None\<rparr> rs))"

definition differs :: "string option \<Rightarrow> string option \<Rightarrow> bool" where
  "differs new old \<longleftrightarrow> new \<noteq> None \<and> old \<noteq> None \<and> new \<noteq> old"

definition or_else :: "'a option \<Rightarrow> 'a option \<Rightarrow> 'a option" where
  "or_else a b = (if a \<noteq> None then a else b)"

definition observe_rev ::
  "string \<Rightarrow> string option \<Rightarrow> string option \<Rightarrow> revision_table \<Rightarrow> (int \<times> bool) \<times> revision_table" where
  "observe_rev key doc loader rs = (case map_of rs key of
      None \<Rightarrow> ((1, False),
        AList.update key \<lparr>floor_rev = 1, current_rev = 1, documentId = doc, loaderId = loader\<rparr> rs)
    | Some existing \<Rightarrow>
        (let changed = (differs doc (documentId existing) \<or> differs loader (loaderId existing));
             pageRevision = (if changed then max (current_rev existing + 1) (floor_rev existing + 1)
                             else current_rev existing)
         in ((pageRevision, changed),
             AList.update key \<lparr>floor_rev = max (floor_rev existing) pageRevision,
               current_rev = pageRevision, documentId = or_else doc (documentId existing),
               loaderId = or_else loader (loaderId existing)\<rparr> rs)))"

section \<open>The tracker\<close>

definition on_revisions :: "(revision_table \<Rightarrow> 'a \<times> revision_table) \<Rightarrow> 'a mutator" where
  "on_revisions f st = (case f (revisions st) of (x, rs) \<Rightarrow> Inr (x, st\<lparr>revisions := rs\<rparr>))"

type_synonym ('s) rev_listener = "int \<Rightarrow> int \<Rightarrow> ('s, js_error, unit) eff"

definition publishChange :: "'s rev_listener list \<Rightarrow> int \<Rightarrow> int \<Rightarrow> ('s, js_error, unit) eff" where
  "publishChange listeners tabId pageRevision = for_each listeners (\<lambda>l. l tabId pageRevision)"

definition rev_ensure :: "'w storage_api \<Rightarrow> int \<Rightarrow> (('w, 'z) store_scheme, js_error, int) eff" where
  "rev_ensure api tabId = mutateState api (on_revisions (ensure_rev (string_of_int tabId)))"

definition rev_current :: "'w storage_api \<Rightarrow> int \<Rightarrow> (('w, 'z) store_scheme, js_error, int) eff" where
  "rev_current api tabId =
     bnd (readState api) (\<lambda>st. case map_of (revisions st) (string_of_int tabId) of
        Some r \<Rightarrow> ret (current_rev r)
      | None \<Rightarrow> rev_ensure api tabId)"

definition markNavigation ::
  "'w storage_api \<Rightarrow> ('w, 'z) store_scheme rev_listener list \<Rightarrow> int \<Rightarrow>
     (('w, 'z) store_scheme, js_error, int) eff" where
  "markNavigation api listeners tabId =
     bnd (mutateState api (on_revisions (bump_rev (string_of_int tabId)))) (\<lambda>pageRevision.
       seq (publishChange listeners tabId pageRevision) (ret pageRevision))"

definition observeDocument ::
  "'w storage_api \<Rightarrow> ('w, 'z) store_scheme rev_listener list \<Rightarrow> int \<Rightarrow> string option \<Rightarrow> string option \<Rightarrow>
     (('w, 'z) store_scheme, js_error, int) eff" where
  "observeDocument api listeners tabId doc loader =
     bnd (mutateState api (on_revisions (observe_rev (string_of_int tabId) doc loader)))
       (\<lambda>(pageRevision, changed).
         seq (when_do changed (publishChange listeners tabId pageRevision)) (ret pageRevision))"

definition stale_revision :: "int \<Rightarrow> int \<Rightarrow> js_error" where
  "stale_revision expected current =
     JsError PlainError (''Page revision changed from '' @ string_of_int expected @ '' to '' @ string_of_int current)
       [(''code'', Str ''stale_revision''), (''currentPageRevision'', js_int current)]"

definition assertExpected :: "'w storage_api \<Rightarrow> int \<Rightarrow> js \<Rightarrow> (('w, 'z) store_scheme, js_error, int) eff" where
  "assertExpected api tabId expected =
     (if \<not> is_integer expected \<or> the_int expected < 0
      then throw (coded_error ''invalid_request'' ''expected_page_revision must be a non-negative integer'')
      else bnd (rev_current api tabId) (\<lambda>current.
        if js_int current \<noteq> expected then throw (stale_revision (the_int expected) current)
        else ret current))"

definition rev_remove ::
  "'w storage_api \<Rightarrow> ('w, 'z) store_scheme rev_listener list \<Rightarrow> int \<Rightarrow> (('w, 'z) store_scheme, js_error, unit) eff" where
  "rev_remove api listeners tabId =
     bnd (mutateState api (on_revisions (bump_rev (string_of_int tabId)))) (\<lambda>pageRevision.
       publishChange listeners tabId pageRevision)"

section \<open>Monotone revisions\<close>

definition cur_of :: "revision_table \<Rightarrow> int \<Rightarrow> int option" where
  "cur_of rs tabId = map_option current_rev (map_of rs (string_of_int tabId))"

text \<open>Every change of the table the code can make.\<close>

inductive rev_step :: "revision_table \<Rightarrow> revision_table \<Rightarrow> bool" where
  step_ensure: "rev_step rs (snd (ensure_rev (string_of_int t) rs))"
| step_bump: "rev_step rs (snd (bump_rev (string_of_int t) rs))"
| step_observe: "rev_step rs (snd (observe_rev (string_of_int t) doc loader rs))"

text \<open>
  A source of revisions: steps never lower the revision of a key, and a bump raises it. The client
  lemma is what page actions rely on: once a page was left, its old revision never comes back.
\<close>

locale revision_source =
  fixes current :: "'s \<Rightarrow> 'k \<Rightarrow> int option" and step :: "'s \<Rightarrow> 's \<Rightarrow> bool" and bump :: "'k \<Rightarrow> 's \<Rightarrow> 's"
  assumes step_mono: "step s s' \<Longrightarrow> current s k = Some m \<Longrightarrow> \<exists>n. current s' k = Some n \<and> m \<le> n"
    and bump_raises: "current s k = Some m \<Longrightarrow> \<exists>n. current (bump k s) k = Some n \<and> m < n"
    and bump_records: "current (bump k s) k \<noteq> None"
begin

lemma steps_mono: "step\<^sup>*\<^sup>* s s' \<Longrightarrow> current s k = Some m \<Longrightarrow> \<exists>n. current s' k = Some n \<and> m \<le> n"
proof (induction arbitrary: m rule: converse_rtranclp_induct)
  case base
  then show ?case by blast
next
  case (step s u)
  from step_mono [OF step(1) step.prems] obtain n where n: "current u k = Some n" "m \<le> n" by blast
  from step.IH [OF n(1)] n(2) show ?case by force
qed

lemma old_revision_gone:
  assumes "current s k = Some m" and "step\<^sup>*\<^sup>* (bump k s) s'"
  shows "\<exists>n. current s' k = Some n \<and> m < n"
proof -
  from bump_raises [OF assms(1)] obtain n where "current (bump k s) k = Some n" "m < n" by blast
  with steps_mono [OF assms(2)] show ?thesis by force
qed

end

lemma cur_of_update [simp]:
  "cur_of (AList.update (string_of_int t) r rs) k = (if k = t then Some (current_rev r) else cur_of rs k)"
  by (simp add: cur_of_def)

lemma next_rev_gt: "current_rev r < next_rev (Some r)"
  by (simp add: next_rev_def)

interpretation tab_revisions: revision_source cur_of rev_step "\<lambda>t rs. snd (bump_rev (string_of_int t) rs)"
proof unfold_locales
  fix rs rs' k m
  assume "rev_step rs rs'" and m: "cur_of rs k = Some m"
  then show "\<exists>n. cur_of rs' k = Some n \<and> m \<le> n"
  proof cases
    case (step_ensure t)
    with m show ?thesis by (auto simp: ensure_rev_def cur_of_def split: option.splits)
  next
    case (step_bump t)
    with m show ?thesis
      by (auto simp: bump_rev_def Let_def cur_of_def next_rev_def)
  next
    case (step_observe t doc loader)
    with m show ?thesis by (auto simp: observe_rev_def Let_def cur_of_def split: option.splits)
  qed
next
  fix rs k m
  assume "cur_of rs k = Some m"
  then show "\<exists>n. cur_of (snd (bump_rev (string_of_int k) rs)) k = Some n \<and> m < n"
    by (auto simp: bump_rev_def Let_def cur_of_def next_rev_def)
next
  fix k rs
  show "cur_of (snd (bump_rev (string_of_int k) rs)) k \<noteq> None"
    by (simp add: bump_rev_def Let_def)
qed

section \<open>Well-formed tables\<close>

definition revisions_wf :: "revision_table \<Rightarrow> bool" where
  "revisions_wf rs \<longleftrightarrow> list_all (\<lambda>(k, r). revision_wf r) rs"

lemma revisions_wf_lookup: "revisions_wf rs \<Longrightarrow> map_of rs k = Some r \<Longrightarrow> revision_wf r"
  by (auto simp: revisions_wf_def list_all_iff dest!: map_of_SomeD)

lemma revisions_wf_update: "revisions_wf rs \<Longrightarrow> revision_wf r \<Longrightarrow> revisions_wf (AList.update k r rs)"
  using set_update_subset [of k r rs] by (auto simp: revisions_wf_def list_all_iff)

lemma rev_step_wf: "rev_step rs rs' \<Longrightarrow> revisions_wf rs \<Longrightarrow> revisions_wf rs'"
  by (induction rule: rev_step.induct)
    (auto simp: ensure_rev_def bump_rev_def observe_rev_def Let_def next_rev_def revision_wf_def
      dest: revisions_wf_lookup intro!: revisions_wf_update split: option.splits)

lemma keeps_keys_revisions:
  "(\<And>rs. distinct (map fst rs) \<Longrightarrow> distinct (map fst (snd (f rs)))) \<Longrightarrow> keeps_keys (on_revisions f)"
  by (auto simp: keeps_keys_def on_revisions_def keys_ok_def split: prod.splits) (metis snd_conv)

end
