(* ===== verification/Scheduler.thy ===== *)
theory Scheduler
  imports JsValue
begin

text \<open>
  \<open>packages/extension/src/scheduler.ts\<close>: the order in which admitted work may run. A job is one
  call of an \<open>enqueue\<close> method; its number is its place in \<open>jobs\<close>. A tail promise is the number of
  the job it follows, and \<open>Promise.resolve()\<close> is no job. The promise chain of a job is its list of
  \<open>deps\<close>: the job may be dispatched once all of them are settled. Dispatch, the end of the work, the
  two clean-up callbacks and the calls of the public methods are the steps, in any order the promises
  allow.
\<close>

section \<open>State\<close>

datatype job_kind =
    TabJob string int
  | GlobalJob
  | ProfileJob bool
  | ReadAllJob
  | ReadTabJob int

datatype job_status =
    Queued
  | Running
  | Refused js_error
  | Finished bool

record job =
  kind :: job_kind
  deps :: "nat list"
  job_epoch :: nat
  job_generation :: nat
  job_status :: job_status

record sched =
  accepting :: bool
  lifecycleAccepting :: bool
  permissionsAvailable :: bool
  admissionEpoch :: nat
  lifecycleEpoch :: nat
  admissionFailure :: "string \<times> string"
  tabTails :: "(int \<times> nat) list"
  taskTails :: "(string \<times> nat) list"
  globalTail :: "nat option"
  generations :: "(int \<times> nat) list"
  generationReasons :: "(int \<times> string \<times> string) list"
  pendingJobs :: "nat list"
  jobs :: "job list"

definition paused_failure :: "string \<times> string" where
  "paused_failure = (''paused'', ''AgentTab is paused'')"

definition new_scheduler :: sched where
  "new_scheduler = \<lparr>accepting = True, lifecycleAccepting = True, permissionsAvailable = True,
     admissionEpoch = 0, lifecycleEpoch = 0, admissionFailure = paused_failure, tabTails = [],
     taskTails = [], globalTail = None, generations = [], generationReasons = [], pendingJobs = [],
     jobs = []\<rparr>"

fun settled :: "job_status \<Rightarrow> bool" where
  "settled (Refused e) = True"
| "settled (Finished ok) = True"
| "settled Queued = False"
| "settled Running = False"

definition status_of :: "sched \<Rightarrow> nat \<Rightarrow> job_status" where
  "status_of s i = job_status (jobs s ! i)"

definition set_status :: "nat \<Rightarrow> job_status \<Rightarrow> sched \<Rightarrow> sched" where
  "set_status i st s = s\<lparr>jobs := (jobs s)[i := (jobs s ! i)\<lparr>job_status := st\<rparr>]\<rparr>"

section \<open>Admission\<close>

definition setInitialPaused :: "bool \<Rightarrow> sched \<Rightarrow> sched" where
  "setInitialPaused p s =
     (if \<not> p then s\<lparr>lifecycleAccepting := True, accepting := permissionsAvailable s\<rparr>
      else s\<lparr>accepting := False, lifecycleAccepting := False, admissionEpoch := admissionEpoch s + 1,
        lifecycleEpoch := lifecycleEpoch s + 1, admissionFailure := paused_failure\<rparr>)"

definition notStarted :: "sched \<Rightarrow> string option \<Rightarrow> js_error" where
  "notStarted s message =
     (if \<not> permissionsAvailable s
      then not_started_error ''permissions_required''
        ''AgentTab automation permissions have not been enabled''
      else not_started_error (fst (admissionFailure s))
        (case message of None \<Rightarrow> snd (admissionFailure s) | Some m \<Rightarrow> m))"

definition generation_of :: "sched \<Rightarrow> int \<Rightarrow> nat" where
  "generation_of s tab = (case map_of (generations s) tab of None \<Rightarrow> 0 | Some g \<Rightarrow> g)"

fun tail_list :: "nat option \<Rightarrow> nat list" where
  "tail_list None = []" | "tail_list (Some i) = [i]"

definition track :: "job \<Rightarrow> sched \<Rightarrow> sched" where
  "track j s = s\<lparr>pendingJobs := length (jobs s) # pendingJobs s, jobs := jobs s @ [j]\<rparr>"

definition rememberTabTail :: "string option \<Rightarrow> int \<Rightarrow> nat \<Rightarrow> sched \<Rightarrow> sched" where
  "rememberTabTail task tab tail s =
     s\<lparr>tabTails := AList.update tab tail (tabTails s),
       taskTails := (case task of None \<Rightarrow> taskTails s | Some t \<Rightarrow> AList.update t tail (taskTails s))\<rparr>"

text \<open>Every method returns the error of an immediate rejection, or the number of the admitted job.\<close>

definition enqueueTab :: "string \<Rightarrow> int \<Rightarrow> sched \<Rightarrow> (js_error + nat) \<times> sched" where
  "enqueueTab task tab s =
     (if \<not> accepting s then (Inl (notStarted s None), s)
      else let j = \<lparr>kind = TabJob task tab,
                 deps = tail_list (globalTail s) @ tail_list (map_of (taskTails s) task) @
                   tail_list (map_of (tabTails s) tab),
                 job_epoch = admissionEpoch s, job_generation = generation_of s tab, job_status = Queued\<rparr>
           in (Inr (length (jobs s)), track j (rememberTabTail (Some task) tab (length (jobs s)) s)))"

definition enqueueGlobal :: "sched \<Rightarrow> (js_error + nat) \<times> sched" where
  "enqueueGlobal s =
     (if \<not> accepting s then (Inl (notStarted s None), s)
      else let j = \<lparr>kind = GlobalJob, deps = tail_list (globalTail s) @ map snd (tabTails s),
                 job_epoch = admissionEpoch s, job_generation = 0, job_status = Queued\<rparr>
           in (Inr (length (jobs s)), track j (s\<lparr>globalTail := Some (length (jobs s))\<rparr>)))"

definition enqueueProfile :: "bool \<Rightarrow> sched \<Rightarrow> (js_error + nat) \<times> sched" where
  "enqueueProfile mutating s =
     (if \<not> lifecycleAccepting s
      then (Inl (not_started_error (fst (admissionFailure s)) (snd (admissionFailure s))), s)
      else let j = \<lparr>kind = ProfileJob mutating,
                 deps = tail_list (globalTail s) @ (if mutating then map snd (tabTails s) else []),
                 job_epoch = lifecycleEpoch s, job_generation = 0, job_status = Queued\<rparr>
           in (Inr (length (jobs s)), track j (s\<lparr>globalTail := Some (length (jobs s))\<rparr>)))"

definition readAfterWrites :: "int option \<Rightarrow> sched \<Rightarrow> (js_error + nat) \<times> sched" where
  "readAfterWrites tabOption s =
     (if \<not> accepting s then (Inl (notStarted s None), s)
      else case tabOption of
        None \<Rightarrow>
          (let j = \<lparr>kind = ReadAllJob, deps = tail_list (globalTail s), job_epoch = admissionEpoch s,
                 job_generation = 0, job_status = Queued\<rparr>
           in (Inr (length (jobs s)), track j (s\<lparr>globalTail := Some (length (jobs s))\<rparr>)))
      | Some tab \<Rightarrow>
          (let j = \<lparr>kind = ReadTabJob tab,
                 deps = tail_list (globalTail s) @ tail_list (map_of (tabTails s) tab),
                 job_epoch = admissionEpoch s, job_generation = 0, job_status = Queued\<rparr>
           in (Inr (length (jobs s)), track j (rememberTabTail None tab (length (jobs s)) s))))"

section \<open>Dispatch\<close>

text \<open>The checks of each method's continuation, made when the prior work has settled.\<close>

definition admitted :: "sched \<Rightarrow> job \<Rightarrow> bool" where
  "admitted s j \<longleftrightarrow> accepting s \<and> admissionEpoch s = job_epoch j"

definition refusal :: "sched \<Rightarrow> job \<Rightarrow> js_error option" where
  "refusal s j = (case kind j of
     TabJob task tab \<Rightarrow>
       (if \<not> admitted s j
        then Some (notStarted s (Some ''AgentTab paused before this mutation was dispatched''))
        else if generation_of s tab \<noteq> job_generation j
        then Some (case map_of (generationReasons s) tab of
            None \<Rightarrow> not_started_error ''ownership_revoked''
              ''Tab ownership changed before this mutation was dispatched''
          | Some (code, message) \<Rightarrow> not_started_error code message)
        else None)
   | GlobalJob \<Rightarrow>
       (if \<not> admitted s j
        then Some (notStarted s (Some ''AgentTab paused before this global mutation was dispatched''))
        else None)
   | ProfileJob mutating \<Rightarrow>
       (if \<not> lifecycleAccepting s \<or> lifecycleEpoch s \<noteq> job_epoch j
        then Some (not_started_error (fst (admissionFailure s))
          ''AgentTab paused before this profile operation was dispatched'')
        else None)
   | _ \<Rightarrow>
       (if \<not> admitted s j
        then Some (notStarted s (Some ''AgentTab paused before this observation was dispatched''))
        else None))"

definition dispatchable :: "sched \<Rightarrow> nat \<Rightarrow> bool" where
  "dispatchable s i \<longleftrightarrow> i < length (jobs s) \<and> status_of s i = Queued \<and>
     list_all (\<lambda>d. settled (status_of s d)) (deps (jobs s ! i))"

definition dispatch :: "nat \<Rightarrow> sched \<Rightarrow> sched" where
  "dispatch i s = set_status i
     (case refusal s (jobs s ! i) of None \<Rightarrow> Running | Some e \<Rightarrow> Refused e) s"

text \<open>The clean-up callbacks of \<open>rememberTabTail\<close> and \<open>track\<close> for a settled job.\<close>

definition job_tab :: "job \<Rightarrow> int option" where
  "job_tab j = (case kind j of TabJob task tab \<Rightarrow> Some tab | ReadTabJob tab \<Rightarrow> Some tab | _ \<Rightarrow> None)"

definition job_task :: "job \<Rightarrow> string option" where
  "job_task j = (case kind j of TabJob task tab \<Rightarrow> Some task | _ \<Rightarrow> None)"

definition drop_tab_tail :: "int \<Rightarrow> nat \<Rightarrow> sched \<Rightarrow> sched" where
  "drop_tab_tail tab i s =
     (if map_of (tabTails s) tab = Some i
      then s\<lparr>tabTails := AList.delete tab (tabTails s), generations := AList.delete tab (generations s),
        generationReasons := AList.delete tab (generationReasons s)\<rparr>
      else s)"

definition drop_task_tail :: "string \<Rightarrow> nat \<Rightarrow> sched \<Rightarrow> sched" where
  "drop_task_tail task i s =
     (if map_of (taskTails s) task = Some i then s\<lparr>taskTails := AList.delete task (taskTails s)\<rparr> else s)"

definition drop_tails :: "nat \<Rightarrow> sched \<Rightarrow> sched" where
  "drop_tails i s =
     (let s1 = (case job_tab (jobs s ! i) of None \<Rightarrow> s | Some tab \<Rightarrow> drop_tab_tail tab i s)
      in case job_task (jobs s ! i) of None \<Rightarrow> s1 | Some task \<Rightarrow> drop_task_tail task i s1)"

definition untrack :: "nat \<Rightarrow> sched \<Rightarrow> sched" where
  "untrack i s = s\<lparr>pendingJobs := removeAll i (pendingJobs s)\<rparr>"

section \<open>Invalidation and life cycle\<close>

definition invalidateQueuedTab :: "int \<Rightarrow> string \<times> string \<Rightarrow> sched \<Rightarrow> sched" where
  "invalidateQueuedTab tab reason s =
     (if map_of (tabTails s) tab = None
      then s\<lparr>generations := AList.delete tab (generations s),
        generationReasons := AList.delete tab (generationReasons s)\<rparr>
      else s\<lparr>generationReasons := AList.update tab reason (generationReasons s),
        generations := AList.update tab (generation_of s tab + 1) (generations s)\<rparr>)"

definition revokeTab :: "int \<Rightarrow> sched \<Rightarrow> sched" where
  "revokeTab tab = invalidateQueuedTab tab
     (''ownership_revoked'', ''Tab ownership changed before this mutation was dispatched'')"

definition invalidateTab :: "int \<Rightarrow> sched \<Rightarrow> sched" where
  "invalidateTab tab = invalidateQueuedTab tab
     (''stale_revision'', ''Page navigation invalidated this queued mutation'')"

definition revokePermissions :: "sched \<Rightarrow> sched" where
  "revokePermissions s =
     s\<lparr>permissionsAvailable := False, accepting := False, admissionEpoch := admissionEpoch s + 1\<rparr>"

definition restorePermissions :: "sched \<Rightarrow> sched" where
  "restorePermissions s = s\<lparr>permissionsAvailable := True, accepting := lifecycleAccepting s\<rparr>"

definition disconnect :: "sched \<Rightarrow> sched" where
  "disconnect s = s\<lparr>accepting := False, lifecycleAccepting := False,
     admissionEpoch := admissionEpoch s + 1, lifecycleEpoch := lifecycleEpoch s + 1,
     admissionFailure := (''paused'', ''AgentTab connection is unavailable'')\<rparr>"

text \<open>\<open>pause\<close> closes admission and then waits until \<open>drained\<close>.\<close>

definition pause :: "sched \<Rightarrow> sched" where
  "pause s = s\<lparr>accepting := False, lifecycleAccepting := False,
     admissionEpoch := admissionEpoch s + 1, lifecycleEpoch := lifecycleEpoch s + 1,
     admissionFailure := paused_failure\<rparr>"

definition drained :: "sched \<Rightarrow> bool" where
  "drained s \<longleftrightarrow> pendingJobs s = []"

definition resume :: "sched \<Rightarrow> sched" where
  "resume s = s\<lparr>lifecycleAccepting := True, accepting := permissionsAvailable s,
     admissionFailure := paused_failure\<rparr>"

inductive control_step :: "sched \<Rightarrow> sched \<Rightarrow> bool" where
  ctl_initial: "control_step s (setInitialPaused p s)"
| ctl_revoke: "control_step s (revokePermissions s)"
| ctl_restore: "control_step s (restorePermissions s)"
| ctl_disconnect: "control_step s (disconnect s)"
| ctl_pause: "control_step s (pause s)"
| ctl_resume: "control_step s (resume s)"

inductive admit_step :: "sched \<Rightarrow> sched \<Rightarrow> bool" where
  adm_tab: "admit_step s (snd (enqueueTab task tab s))"
| adm_global: "admit_step s (snd (enqueueGlobal s))"
| adm_profile: "admit_step s (snd (enqueueProfile mutating s))"
| adm_read: "admit_step s (snd (readAfterWrites tabOption s))"

inductive sched_step :: "sched \<Rightarrow> sched \<Rightarrow> bool" where
  st_admit: "admit_step s t \<Longrightarrow> sched_step s t"
| st_dispatch: "dispatchable s i \<Longrightarrow> sched_step s (dispatch i s)"
| st_finish: "i < length (jobs s) \<Longrightarrow> status_of s i = Running \<Longrightarrow> sched_step s (set_status i (Finished ok) s)"
| st_drop_tails: "i < length (jobs s) \<Longrightarrow> settled (status_of s i) \<Longrightarrow> sched_step s (drop_tails i s)"
| st_untrack: "i < length (jobs s) \<Longrightarrow> settled (status_of s i) \<Longrightarrow> sched_step s (untrack i s)"
| st_invalidate: "sched_step s (invalidateQueuedTab tab reason s)"
| st_control: "control_step s t \<Longrightarrow> sched_step s t"

inductive_cases admit_stepE: "admit_step s t"
inductive_cases control_stepE: "control_step s t"

end
