(* ===== verification/Ownership.thy ===== *)
theory Ownership
  imports Revisions Scheduler "HOL-Library.Word"
begin

text \<open>
  \<open>packages/extension/src/ownership.ts\<close>, with \<open>routes.ts\<close> and \<open>tab-removal.ts\<close>: which task owns
  which tab. The ledger lives in the persisted state; the tabs, groups and windows are Chrome's.
  Every call of Chrome is a parameter, a function of the outside world that may fail and that may
  change the world in any way, so whatever the user does to the tabs between two calls is covered.

  The ledger runs its operations one after the other; an operation here is one such run. The effects
  a mutator has besides changing the state (the scheduler, the ended tasks, the clock) come right
  before it.
\<close>

section \<open>Chrome\<close>

record tab_like =
  tab_id :: "int option"
  tab_window :: "int option"
  tab_group :: "int option"
  tab_index :: "int option"
  tab_opener :: "int option"
  tab_active :: bool
  tab_url :: "string option"
  tab_pendingUrl :: "string option"
  tab_lastAccessed :: "rat option"
  tab_splitViewId :: "int option"

record window_like =
  window_id :: "int option"
  window_tabs :: "tab_like list option"

record create_tab =
  create_window :: "int option"
  create_url :: string
  create_active :: bool
  create_opener :: "int option"
  create_index :: "int option"

record create_window =
  window_url :: string
  window_focused :: bool
  window_state_normal :: bool

datatype tab_removal = Closed int | Pending int | Failed int js_error

record url_parts =
  url_protocol :: string
  url_hostname :: string
  url_pathname :: string
  url_origin :: string

text \<open>A group title starts with one of two symbols that are no 8 bit character.\<close>

datatype title_char = CheckMark | Sparkle | TitleChar char

text \<open>The extension's own state: the store, the ledger's ended tasks, the scheduler and what it emitted.\<close>

record 'w sys = "'w store" +
  scheduler :: sched
  endedTaskIds :: "string list"
  emitted :: "(string \<times> js) list"

record 'w env =
  storage :: "'w storage_api"
  listeners :: "'w sys rev_listener list"
  parse_url :: "string \<Rightarrow> url_parts option"
  split_view_none :: "int option"
  has_badge :: bool
  tabs_query_all :: "'w \<Rightarrow> (js_error + tab_like list) \<times> 'w"
  tabs_query_active :: "int option \<Rightarrow> 'w \<Rightarrow> (js_error + tab_like list) \<times> 'w"
  tabs_get :: "int \<Rightarrow> 'w \<Rightarrow> (js_error + tab_like) \<times> 'w"
  tabs_create :: "create_tab \<Rightarrow> 'w \<Rightarrow> (js_error + tab_like) \<times> 'w"
  tabs_remove :: "int \<Rightarrow> 'w \<Rightarrow> (js_error + unit) \<times> 'w"
  tabs_remove_wait :: "int \<Rightarrow> 'w \<Rightarrow> tab_removal \<times> 'w"
  tabs_group :: "int \<Rightarrow> int option \<Rightarrow> 'w \<Rightarrow> (js_error + int) \<times> 'w"
  tabs_ungroup :: "int \<Rightarrow> 'w \<Rightarrow> (js_error + unit) \<times> 'w"
  tabs_move :: "int \<Rightarrow> int \<Rightarrow> 'w \<Rightarrow> (js_error + unit) \<times> 'w"
  tabs_activate :: "int \<Rightarrow> 'w \<Rightarrow> (js_error + unit) \<times> 'w"
  groups_update :: "int \<Rightarrow> title_char list \<Rightarrow> task_color \<Rightarrow> 'w \<Rightarrow> (js_error + unit) \<times> 'w"
  windows_create :: "create_window \<Rightarrow> 'w \<Rightarrow> (js_error + window_like option) \<times> 'w"
  windows_normal :: "int \<Rightarrow> 'w \<Rightarrow> (js_error + unit) \<times> 'w"
  windows_remove :: "int \<Rightarrow> 'w \<Rightarrow> (js_error + unit) \<times> 'w"
  windows_all :: "'w \<Rightarrow> (js_error + window_like list) \<times> 'w"
  badge_show :: "int \<Rightarrow> 'w \<Rightarrow> unit \<times> 'w"
  badge_clear :: "int \<Rightarrow> 'w \<Rightarrow> unit \<times> 'w"

type_synonym ('w, 'a) op = "('w sys, js_error, 'a) eff"

definition now :: "'w env \<Rightarrow> ('w, int) op" where
  "now env = ask (date_now (storage env))"

definition emit :: "string \<Rightarrow> js obj \<Rightarrow> ('w, unit) op" where
  "emit event payload = modify (\<lambda>s. s\<lparr>emitted := emitted s @ [(event, Obj payload)]\<rparr>)"

text \<open>\<open>chrome.tabs.get(id).catch(() => null)\<close>\<close>

definition tab_or_null :: "'w env \<Rightarrow> int \<Rightarrow> ('w, tab_like option) op" where
  "tab_or_null env tab = quiet (bnd (call (tabs_get env tab)) (\<lambda>t. ret (Some t))) None"

definition set_badge :: "'w env \<Rightarrow> int \<Rightarrow> ('w, unit) op" where
  "set_badge env tab = when_do (has_badge env) (ask (badge_show env tab))"

definition clear_badge :: "'w env \<Rightarrow> int \<Rightarrow> ('w, unit) op" where
  "clear_badge env tab = when_do (has_badge env) (ask (badge_clear env tab))"

definition revoke_tabs :: "int list \<Rightarrow> ('w, unit) op" where
  "revoke_tabs tabs = modify (\<lambda>s. s\<lparr>scheduler := fold revokeTab tabs (scheduler s)\<rparr>)"

definition end_task :: "string \<Rightarrow> ('w, unit) op" where
  "end_task task = modify (\<lambda>s. s\<lparr>endedTaskIds := List.insert task (endedTaskIds s)\<rparr>)"

section \<open>Routes\<close>

datatype route = Full | TabOnly

definition prefix_of :: "string \<Rightarrow> string \<Rightarrow> bool" where
  "prefix_of p s \<longleftrightarrow> take (length p) s = p"

definition automationRoute :: "(string \<Rightarrow> url_parts option) \<Rightarrow> string option \<Rightarrow> route" where
  "automationRoute parse rawUrl = (case rawUrl of
      None \<Rightarrow> TabOnly
    | Some raw \<Rightarrow>
        (if raw = [] then TabOnly
         else case parse raw of
           None \<Rightarrow> TabOnly
         | Some url \<Rightarrow>
             (if url_hostname url = ''chromewebstore.google.com'' \<or>
                 (url_hostname url = ''chrome.google.com'' \<and>
                   (url_pathname url = ''/webstore'' \<or> prefix_of ''/webstore/'' (url_pathname url)))
              then TabOnly
              else if url_protocol url = ''http:'' \<or> url_protocol url = ''https:'' then Full
              else if url_protocol url = ''about:'' \<and> url_pathname url = ''blank'' then Full
              else TabOnly)))"

definition automationRouteFields :: "(string \<Rightarrow> url_parts option) \<Rightarrow> string option \<Rightarrow> js obj" where
  "automationRouteFields parse rawUrl =
     (if automationRoute parse rawUrl = Full then [(''automation_route'', Str ''full'')]
      else [(''automation_route'', Str ''tab_only''), (''route_reason'', Str ''browser_restricted_origin'')])"

section \<open>Colours and titles\<close>

definition fnv_step :: "32 word \<Rightarrow> char \<Rightarrow> 32 word" where
  "fnv_step hash c = xor hash (of_nat (of_char c)) * 16777619"

definition taskColor :: "string \<Rightarrow> task_color" where
  "taskColor task = taskColors ! nat (uint (foldl fnv_step 2166136261 task) mod int (length taskColors))"

definition groupTitle :: "task_record \<Rightarrow> bool \<Rightarrow> title_char list" where
  "groupTitle t dev =
     take 40 ((if state t = Completed then CheckMark else Sparkle) # TitleChar CHR '' '' #
       map TitleChar (if dev then ''DEV '' else []) @ map TitleChar (name t))"

section \<open>The tasks of a state\<close>

definition owners :: "ext_state \<Rightarrow> int \<Rightarrow> task_record list" where
  "owners st tab = filter (\<lambda>t. tab \<in> set (tabIds t)) (map snd (tasks st))"

definition owner :: "ext_state \<Rightarrow> int \<Rightarrow> task_record option" where
  "owner st tab = find (\<lambda>t. tab \<in> set (tabIds t)) (map snd (tasks st))"

definition task :: "ext_state \<Rightarrow> string \<Rightarrow> task_record option" where
  "task st key = map_of (tasks st) key"

text \<open>\<open>tab.groupId === task.groupId\<close> for a task that has a group.\<close>

definition in_group :: "tab_like \<Rightarrow> int option \<Rightarrow> bool" where
  "in_group tab g \<longleftrightarrow> g \<noteq> None \<and> tab_group tab = g"

definition put_task :: "string \<Rightarrow> task_record \<Rightarrow> ext_state \<Rightarrow> ext_state" where
  "put_task key t st = st\<lparr>tasks := AList.update key t (tasks st)\<rparr>"

text \<open>Taking tabs out of a task; a task without tabs has no group.\<close>

definition without_tabs :: "int list \<Rightarrow> int \<Rightarrow> task_record \<Rightarrow> task_record" where
  "without_tabs gone time t =
     (let left = filter (\<lambda>i. i \<notin> set gone) (tabIds t)
      in t\<lparr>tabIds := left, createdTabIds := filter (\<lambda>i. i \<notin> set gone) (createdTabIds t),
        groupId := (if left = [] then None else groupId t), updatedAt := time\<rparr>)"

definition drop_stages :: "string \<Rightarrow> ext_state \<Rightarrow> ext_state" where
  "drop_stages key st = st\<lparr>stagedCommits := filter (\<lambda>(k, c). staged_task c \<noteq> key) (stagedCommits st)\<rparr>"

definition denied :: "string \<Rightarrow> js_error" where
  "denied message = coded_error ''ownership_denied'' message"

section \<open>Inventory\<close>

definition by_id :: "tab_like list \<Rightarrow> int \<Rightarrow> tab_like option" where
  "by_id tabs i = map_of (rev (List.map_filter (\<lambda>t. map_option (\<lambda>k. (k, t)) (tab_id t)) tabs)) i"

text \<open>\<open>tab.pendingUrl || tab.url\<close>, an empty string being falsy.\<close>

definition shown_url :: "tab_like \<Rightarrow> string option" where
  "shown_url t =
     (case tab_pendingUrl t of Some (c # cs) \<Rightarrow> Some (c # cs)
      | _ \<Rightarrow> (case tab_url t of Some (c # cs) \<Rightarrow> Some (c # cs) | _ \<Rightarrow> None))"

definition opt_js_int :: "int option \<Rightarrow> js" where
  "opt_js_int v = (case v of None \<Rightarrow> Undefined | Some i \<Rightarrow> js_int i)"

definition inventory_entry :: "'w env \<Rightarrow> (int \<Rightarrow> tab_like option) \<Rightarrow> task_record \<Rightarrow> js list \<Rightarrow> int \<Rightarrow> ('w, js list) op" where
  "inventory_entry env lookup t acc tab = (case lookup tab of
      None \<Rightarrow> ret acc
    | Some live \<Rightarrow>
        (if \<not> in_group live (groupId t) \<or> tab_window live = None then ret acc
         else case shown_url live of
            None \<Rightarrow> ret acc
          | Some url \<Rightarrow>
              bnd (rev_ensure (storage env) tab) (\<lambda>revision.
                ret (acc @ [Obj [(''tab_id'', js_int tab), (''window_id'', opt_js_int (tab_window live)),
                  (''group_id'', opt_js_int (groupId t)), (''url'', Str url),
                  (''page_revision'', js_int revision), (''task_id'', Str (taskId t))]]))))"

definition inventory :: "'w env \<Rightarrow> ('w, js list) op" where
  "inventory env =
     bnd (readState (storage env)) (\<lambda>st.
     bnd (call (tabs_query_all env)) (\<lambda>tabs.
       fold_each (map snd (tasks st)) [] (\<lambda>acc t.
         if groupId t = None then ret acc
         else fold_each (tabIds t) acc (inventory_entry env (by_id tabs) t))))"

definition emitInventory :: "'w env \<Rightarrow> ('w, unit) op" where
  "emitInventory env = bnd (inventory env) (\<lambda>items. emit ''inventory'' [(''inventory'', Arr items)])"

definition taskIdForTab :: "'w env \<Rightarrow> int \<Rightarrow> ('w, string option) op" where
  "taskIdForTab env tab = bnd (readState (storage env)) (\<lambda>st.
     ret (case owner st tab of None \<Rightarrow> None | Some t \<Rightarrow> if groupId t = None then None else Some (taskId t)))"

definition hasOwnedGroup :: "'w env \<Rightarrow> int \<Rightarrow> ('w, bool) op" where
  "hasOwnedGroup env g = bnd (readState (storage env)) (\<lambda>st.
     ret (list_ex (\<lambda>t. groupId t = Some g) (map snd (tasks st))))"

section \<open>Revocation\<close>

definition changed_payload :: "string \<Rightarrow> int \<Rightarrow> js obj" where
  "changed_payload key count = [(''task_id'', Str key), (''tab_count'', js_int count)]"

text \<open>The first task that owns the tab loses it.\<close>

fun revoke_in :: "int \<Rightarrow> int \<Rightarrow> task_record obj \<Rightarrow> (string \<times> int) option \<times> task_record obj" where
  "revoke_in tab time [] = (None, [])"
| "revoke_in tab time ((key, t) # rest) =
     (if tab \<in> set (tabIds t)
      then let t' = without_tabs [tab] time t
           in (Some (taskId t, int (length (tabIds t'))), (key, t') # rest)
      else case revoke_in tab time rest of (r, rest') \<Rightarrow> (r, (key, t) # rest'))"

definition revoke_mutator :: "int \<Rightarrow> int \<Rightarrow> (string \<times> int) option mutator" where
  "revoke_mutator tab time st =
     (case revoke_in tab time (tasks st) of (r, ts) \<Rightarrow> Inr (r, st\<lparr>tasks := ts\<rparr>))"

definition revokeNow :: "'w env \<Rightarrow> int \<Rightarrow> string \<Rightarrow> ('w, bool) op" where
  "revokeNow env tab event =
     seq (revoke_tabs [tab])
     (bnd (now env) (\<lambda>time.
      bnd (mutateState (storage env) (revoke_mutator tab time)) (\<lambda>changed. case changed of
        None \<Rightarrow> ret False
      | Some (key, count) \<Rightarrow>
          seq (rev_remove (storage env) (listeners env) tab)
          (seq (emit event (changed_payload key count))
          (seq (emitInventory env) (ret True))))))"

definition revokeIfMovedNow :: "'w env \<Rightarrow> int \<Rightarrow> ('w, bool) op" where
  "revokeIfMovedNow env tab =
     bnd (readState (storage env)) (\<lambda>st. case owner st tab of
        None \<Rightarrow> ret False
      | Some t \<Rightarrow>
          bnd (tab_or_null env tab) (\<lambda>live.
            if (case live of None \<Rightarrow> True | Some l \<Rightarrow> \<not> in_group l (groupId t))
            then revokeNow env tab ''group_membership_changed'' else ret False))"

section \<open>Reconciliation with the open tabs\<close>

definition gone_tabs :: "(int \<Rightarrow> tab_like option) \<Rightarrow> task_record \<Rightarrow> int list" where
  "gone_tabs lookup t = filter (\<lambda>i. case lookup i of None \<Rightarrow> True
     | Some live \<Rightarrow> \<not> in_group live (groupId t)) (tabIds t)"

definition reconcile_task :: "(int \<Rightarrow> tab_like option) \<Rightarrow> int \<Rightarrow> task_record \<Rightarrow> task_record" where
  "reconcile_task lookup time t =
     (if gone_tabs lookup t = [] then t else without_tabs (gone_tabs lookup t) time t)"

definition reconcile_changes :: "(int \<Rightarrow> tab_like option) \<Rightarrow> int \<Rightarrow> ext_state \<Rightarrow> (string \<times> int \<times> int list) list" where
  "reconcile_changes lookup time st =
     map (\<lambda>t. (taskId t, int (length (tabIds (reconcile_task lookup time t))), gone_tabs lookup t))
       (filter (\<lambda>t. gone_tabs lookup t \<noteq> []) (map snd (tasks st)))"

definition reconcile_mutator ::
  "(int \<Rightarrow> tab_like option) \<Rightarrow> int \<Rightarrow> (string \<times> int \<times> int list) list mutator" where
  "reconcile_mutator lookup time st =
     Inr (reconcile_changes lookup time st,
       st\<lparr>tasks := map (\<lambda>(k, t). (k, reconcile_task lookup time t)) (tasks st)\<rparr>)"

definition revoked_ids :: "(string \<times> int \<times> int list) list \<Rightarrow> int list" where
  "revoked_ids changes = concat (map (\<lambda>(key, count, gone). gone) changes)"

definition reconcileNow :: "'w env \<Rightarrow> ('w, int list) op" where
  "reconcileNow env =
     bnd (call (tabs_query_all env)) (\<lambda>tabs.
     bnd (readState (storage env)) (\<lambda>st.
     bnd (now env) (\<lambda>time.
     seq (revoke_tabs (revoked_ids (reconcile_changes (by_id tabs) time st)))
     (bnd (mutateState (storage env) (reconcile_mutator (by_id tabs) time)) (\<lambda>changes.
      seq (for_each changes (\<lambda>(key, count, gone).
        seq (for_each gone (rev_remove (storage env) (listeners env)))
          (emit ''ownership_revoked'' (changed_payload key count))))
      (seq (emitInventory env) (ret (revoked_ids changes))))))))"

section \<open>The ownership check\<close>

definition sole_owner :: "ext_state \<Rightarrow> string \<Rightarrow> int \<Rightarrow> task_record option" where
  "sole_owner st key tab = (case task st key of
      None \<Rightarrow> None
    | Some t \<Rightarrow> if tab \<in> set (tabIds t) \<and> length (owners st tab) = 1 then Some t else None)"

definition assertOwnedNow :: "'w env \<Rightarrow> string \<Rightarrow> int \<Rightarrow> ('w, task_record) op" where
  "assertOwnedNow env key tab =
     bnd (readState (storage env)) (\<lambda>st.
       case sole_owner st key tab of
         None \<Rightarrow> throw (denied ''Tab is not owned by this AgentTab task'')
       | Some t \<Rightarrow>
           (if groupId t = None then throw (denied ''Tab is not owned by this AgentTab task'')
            else bnd (tab_or_null env tab) (\<lambda>live.
              if (case live of None \<Rightarrow> True | Some l \<Rightarrow> tab_group l \<noteq> groupId t)
              then seq (revokeNow env tab ''ownership_revoked'')
                (throw (coded_error ''ownership_revoked'' ''Tab left its AgentTab task group''))
              else bnd (readState (storage env)) (\<lambda>current.
                case sole_owner current key tab of
                  None \<Rightarrow> throw (coded_error ''ownership_revoked'' ''Tab ownership changed while it was being checked'')
                | Some t' \<Rightarrow>
                    (if groupId t' \<noteq> groupId t
                     then throw (coded_error ''ownership_revoked'' ''Tab ownership changed while it was being checked'')
                     else ret t')))))"

definition assertOwnedTab :: "'w env \<Rightarrow> int \<Rightarrow> ('w, task_record) op" where
  "assertOwnedTab env tab =
     bnd (readState (storage env)) (\<lambda>st. case owner st tab of
        None \<Rightarrow> throw (denied ''Tab is not owned by AgentTab'')
      | Some t \<Rightarrow> assertOwnedNow env (taskId t) tab)"

section \<open>Granting a tab\<close>

definition note_created :: "string \<Rightarrow> int \<Rightarrow> unit mutator" where
  "note_created key tab st = Inr ((), case task st key of
      None \<Rightarrow> st
    | Some t \<Rightarrow> if tab \<in> set (createdTabIds t) then st
        else put_task key (t\<lparr>createdTabIds := createdTabIds t @ [tab]\<rparr>) st)"

definition add_tab :: "int \<Rightarrow> int list \<Rightarrow> int list" where
  "add_tab tab xs = (if tab \<in> set xs then xs else xs @ [tab])"

definition granted :: "int \<Rightarrow> int \<Rightarrow> bool \<Rightarrow> int \<Rightarrow> task_record \<Rightarrow> task_record" where
  "granted tab g created time t =
     t\<lparr>groupId := Some g, tabIds := add_tab tab (tabIds t),
       createdTabIds := (if created then add_tab tab (createdTabIds t) else createdTabIds t),
       updatedAt := time\<rparr>"

definition grant_mutator ::
  "string list \<Rightarrow> string \<Rightarrow> int \<Rightarrow> int \<Rightarrow> bool \<Rightarrow> int \<Rightarrow> task_record \<Rightarrow> unit mutator" where
  "grant_mutator ended key tab g created time previewTask st =
     (if list_ex (\<lambda>t. taskId t \<noteq> key) (owners st tab)
      then Inl (denied ''Tab ownership changed while grouping'')
      else if task st key = None \<and> key \<in> set ended
      then Inl (denied ''The AgentTab task already finished'')
      else Inr ((), put_task key (granted tab g created time
        (case task st key of None \<Rightarrow> previewTask | Some t \<Rightarrow> t)) st))"

definition preview_task :: "string \<Rightarrow> string \<Rightarrow> int \<Rightarrow> int \<Rightarrow> int \<Rightarrow> task_record" where
  "preview_task key nm g created_at updated_at =
     \<lparr>taskId = key, name = nm, groupId = Some g, tabIds = [], createdTabIds = [], color = taskColor key,
      state = Working, createdAt = created_at, updatedAt = updated_at, legacyImported = Undefined\<rparr>"

definition regroup :: "'w env \<Rightarrow> tab_like \<Rightarrow> int \<Rightarrow> ('w, unit) op" where
  "regroup env prior tab = (case tab_group prior of
      Some g \<Rightarrow> (if 0 \<le> g then quiet (seq (call (tabs_group env tab (Some g))) (ret ())) ()
                else quiet (call (tabs_ungroup env tab)) ())
    | None \<Rightarrow> quiet (call (tabs_ungroup env tab)) ())"

definition js_error_string :: "js_error \<Rightarrow> string" where
  "js_error_string e = (if err_message e = [] then ''Error'' else ''Error: '' @ err_message e)"

definition grouping_failed :: "js_error \<Rightarrow> js_error" where
  "grouping_failed e = (if own (err_fields e) ''code'' then e
     else coded_error ''grouping_failed'' (''Could not visibly group AgentTab tab: '' @ js_error_string e))"

definition preview_of :: "'w env \<Rightarrow> string \<Rightarrow> string \<Rightarrow> int \<Rightarrow> task_record option \<Rightarrow> ('w, task_record) op" where
  "preview_of env key nm g existing = (case existing of
      Some t \<Rightarrow> ret t
    | None \<Rightarrow> bnd (now env) (\<lambda>t1. bnd (now env) (\<lambda>t2. ret (preview_task key nm g t1 t2))))"

definition group_and_record :: "'w env \<Rightarrow> string \<Rightarrow> int \<Rightarrow> string \<Rightarrow> bool \<Rightarrow> ext_state \<Rightarrow> ('w, unit) op" where
  "group_and_record env key tab nm created refreshed =
     bnd (call (tabs_group env tab
       (case task refreshed key of None \<Rightarrow> None | Some t \<Rightarrow> groupId t))) (\<lambda>g.
     bnd (preview_of env key nm g (task refreshed key)) (\<lambda>previewTask.
     seq (call (groups_update env g (groupTitle previewTask (developerMode refreshed)) (color previewTask)))
     (bnd (call (tabs_get env tab)) (\<lambda>grouped.
      if tab_group grouped \<noteq> Some g
      then throw (new_error ''Chrome did not preserve the requested tab group'')
      else bnd (rev_ensure (storage env) tab) (\<lambda>_.
        bnd (gets endedTaskIds) (\<lambda>ended.
        bnd (now env) (\<lambda>time.
          mutateState (storage env) (grant_mutator ended key tab g created time previewTask))))))))"

definition grant :: "'w env \<Rightarrow> string \<Rightarrow> int \<Rightarrow> string \<Rightarrow> bool \<Rightarrow> ('w, unit) op" where
  "grant env key tab nm created =
     bnd (call (tabs_get env tab)) (\<lambda>prior.
     bnd (readState (storage env)) (\<lambda>st.
       let current = owner st tab in
       if (case current of None \<Rightarrow> False | Some t \<Rightarrow> taskId t \<noteq> key)
       then throw (denied ''Tab is already owned by another AgentTab task'')
       else if (case current of None \<Rightarrow> False
                | Some t \<Rightarrow> in_group prior (groupId t) \<and> tab_group prior \<noteq> Some (- 1))
       then seq (when_do (created \<and> tab \<notin> set (createdTabIds (the current)))
                  (mutateState (storage env) (note_created key tab)))
              (bnd (rev_ensure (storage env) tab) (\<lambda>_. ret ()))
       else
         seq (when_do (current \<noteq> None)
           (bnd (revokeNow env tab ''ownership_revoked'') (\<lambda>_. ret ())))
         (bnd (readState (storage env)) (\<lambda>refreshed.
          seq (try_catch (group_and_record env key tab nm created refreshed)
                (\<lambda>e. seq (regroup env prior tab) (throw (grouping_failed e))))
          (bnd (readState (storage env)) (\<lambda>after.
           seq (emit ''group_membership_changed'' (changed_payload key
                 (case task after key of None \<Rightarrow> 0 | Some t \<Rightarrow> int (length (tabIds t)))))
             (emitInventory env)))))))"

end
