(* ===== verification/OwnershipOps.thy ===== *)
theory OwnershipOps
  imports Ownership
begin

text \<open>
  The rest of \<open>ownership.ts\<close>: the operations that end a task, those that give it a tab, and the calls
  that show its state.
\<close>

section \<open>Ending a task\<close>

text \<open>\<open>removeTabs\<close> reports every tab's state when the removals settled or the wait ended.\<close>

fun removeTabs :: "'w env \<Rightarrow> int list \<Rightarrow> ('w, tab_removal list) op" where
  "removeTabs env [] = ret []"
| "removeTabs env (tab # rest) =
     bnd (ask (tabs_remove_wait env tab)) (\<lambda>r. bnd (removeTabs env rest) (\<lambda>rs. ret (r # rs)))"

fun closed_tab :: "tab_removal \<Rightarrow> int option" where
  "closed_tab (Closed tab) = Some tab"
| "closed_tab (Pending tab) = None"
| "closed_tab (Failed tab e) = None"

definition removeTaskTabs :: "'w env \<Rightarrow> int list \<Rightarrow> ('w, int list) op" where
  "removeTaskTabs env tabs = bnd (removeTabs env tabs) (\<lambda>rs. ret (List.map_filter closed_tab rs))"

definition set_state_mutator ::
  "string \<Rightarrow> task_state \<Rightarrow> int \<Rightarrow> (int option \<times> title_char list \<times> task_color) option mutator" where
  "set_state_mutator key new time st = (case task st key of
      None \<Rightarrow> Inr (None, st)
    | Some t \<Rightarrow>
        (let t' = t\<lparr>state := new, updatedAt := time\<rparr>
         in Inr (Some (groupId t', groupTitle t' (developerMode st), color t'), put_task key t' st)))"

definition show_group :: "'w env \<Rightarrow> int option \<times> title_char list \<times> task_color \<Rightarrow> ('w, unit) op" where
  "show_group env view = (case view of (g, title, col) \<Rightarrow> (case g of
      None \<Rightarrow> ret ()
    | Some gid \<Rightarrow> quiet (call (groups_update env gid title col)) ()))"

definition setTaskState :: "'w env \<Rightarrow> string \<Rightarrow> task_state \<Rightarrow> ('w, unit) op" where
  "setTaskState env key new =
     bnd (now env) (\<lambda>time.
     bnd (mutateState (storage env) (set_state_mutator key new time)) (\<lambda>updated.
       case updated of None \<Rightarrow> ret () | Some view \<Rightarrow> show_group env view))"

definition developer_mutator :: "bool \<Rightarrow> (int option \<times> title_char list \<times> task_color) list mutator" where
  "developer_mutator enabled st = Inr
     (map (\<lambda>t. (groupId t, groupTitle t enabled, color t)) (map snd (tasks st)),
      st\<lparr>developerMode := enabled\<rparr>)"

definition setDeveloperMode :: "'w env \<Rightarrow> bool \<Rightarrow> ('w, unit) op" where
  "setDeveloperMode env enabled =
     bnd (mutateState (storage env) (developer_mutator enabled)) (\<lambda>views. for_each views (show_group env))"

datatype disposition = AutoDisposition | CloseDisposition | KeepDisposition

record finish_result =
  finished :: bool
  closed_ids :: "int list"
  retained_ids :: "int list"
  deferred :: "string option"

definition retained_request :: "disposition \<Rightarrow> cleanup_policy \<Rightarrow> int list \<Rightarrow> task_record \<Rightarrow> int list" where
  "retained_request d policy keep t =
     (if d = KeepDisposition \<or> (d = AutoDisposition \<and> policy = CleanupKeep) then tabIds t
      else filter (\<lambda>i. i \<in> set keep \<or> (d = AutoDisposition \<and> i \<notin> set (createdTabIds t))) (tabIds t))"

text \<open>The open tabs of the task, split into those to keep and those to close.\<close>

definition split_tab :: "'w env \<Rightarrow> task_record \<Rightarrow> int list \<Rightarrow> int list \<times> int list \<Rightarrow> int \<Rightarrow> ('w, int list \<times> int list) op" where
  "split_tab env t requested acc tab =
     bnd (tab_or_null env tab) (\<lambda>live. ret (case live of
        None \<Rightarrow> acc
      | Some l \<Rightarrow>
          (if tab \<in> set requested \<or> \<not> in_group l (groupId t) then (fst acc @ [tab], snd acc)
           else (fst acc, snd acc @ [tab]))))"

definition end_mutator :: "string \<Rightarrow> unit mutator" where
  "end_mutator key st = Inr ((), drop_stages key (st\<lparr>tasks := AList.delete key (tasks st)\<rparr>))"

definition release_tab :: "'w env \<Rightarrow> task_record \<Rightarrow> int \<Rightarrow> ('w, unit) op" where
  "release_tab env t tab =
     bnd (tab_or_null env tab) (\<lambda>live.
       seq (when_do (case live of None \<Rightarrow> False | Some l \<Rightarrow> in_group l (groupId t))
              (quiet (call (tabs_ungroup env tab)) ()))
         (clear_badge env tab))"

text \<open>The candidates still in the group may be closed; the others join the retained tabs.\<close>

definition recheck_tab :: "'w env \<Rightarrow> task_record \<Rightarrow> int list \<times> int list \<Rightarrow> int \<Rightarrow> ('w, int list \<times> int list) op" where
  "recheck_tab env t acc tab =
     bnd (tab_or_null env tab) (\<lambda>live. case live of
        None \<Rightarrow> ret acc
      | Some l \<Rightarrow>
          (if \<not> in_group l (groupId t)
           then seq (clear_badge env tab) (ret (fst acc @ [tab], snd acc))
           else ret (fst acc, snd acc @ [tab])))"

definition finish_owned ::
  "'w env \<Rightarrow> string \<Rightarrow> disposition \<Rightarrow> int list \<Rightarrow> cleanup_policy \<Rightarrow> task_record \<Rightarrow> ('w, finish_result) op" where
  "finish_owned env key d keep policy t =
     bnd (fold_each (tabIds t) ([], []) (split_tab env t (retained_request d policy keep t))) (\<lambda>(retained, closing).
     seq (revoke_tabs (tabIds t))
     (seq (end_task key)
     (seq (mutateState (storage env) (end_mutator key))
     (seq (for_each (tabIds t) (rev_remove (storage env) (listeners env)))
     (seq (for_each retained (release_tab env t))
     (bnd (fold_each closing (retained, []) (recheck_tab env t)) (\<lambda>(retained', removable).
      bnd (removeTaskTabs env removable) (\<lambda>closed.
      seq (emit ''tab_removed'' (changed_payload key 0))
      (seq (emitInventory env)
        (ret \<lparr>finished = True, closed_ids = closed,
           retained_ids = filter (\<lambda>i. i \<in> set retained') (tabIds t), deferred = None\<rparr>))))))))))"

definition finishTaskNow :: "'w env \<Rightarrow> string \<Rightarrow> disposition \<Rightarrow> int list \<Rightarrow> ('w, finish_result) op" where
  "finishTaskNow env key d keep =
     bnd (readState (storage env)) (\<lambda>st.
       if list_ex (\<lambda>c. staged_task c = key) (map snd (stagedCommits st))
       then ret \<lparr>finished = False, closed_ids = [],
           retained_ids = (case task st key of None \<Rightarrow> [] | Some t \<Rightarrow> tabIds t),
           deferred = Some ''commit_review_active''\<rparr>
       else case task st key of
         None \<Rightarrow>
           seq (end_task key) (ret \<lparr>finished = True, closed_ids = [], retained_ids = [], deferred = None\<rparr>)
       | Some t \<Rightarrow>
           (if d = AutoDisposition \<and> cleanupPolicy st = CleanupAsk
            then seq (setTaskState env key Completed)
              (ret \<lparr>finished = False, closed_ids = [], retained_ids = tabIds t,
                deferred = Some ''user_confirmation''\<rparr>)
            else if list_ex (\<lambda>i. i \<notin> set (tabIds t)) keep
            then throw (denied (''Tab '' @ string_of_int (hd (filter (\<lambda>i. i \<notin> set (tabIds t)) keep)) @
              '' is not owned by task '' @ key))
            else finish_owned env key d keep (cleanupPolicy st) t))"

definition close_mutator :: "string \<Rightarrow> int list mutator" where
  "close_mutator key st = (case task st key of
      None \<Rightarrow> Inr ([], st)
    | Some t \<Rightarrow> Inr (tabIds t, drop_stages key (st\<lparr>tasks := AList.delete key (tasks st)\<rparr>)))"

definition drop_stages_mutator :: "string \<Rightarrow> unit mutator" where
  "drop_stages_mutator key st = Inr ((), drop_stages key st)"

definition still_grouped :: "'w env \<Rightarrow> task_record \<Rightarrow> int list \<Rightarrow> int \<Rightarrow> ('w, int list) op" where
  "still_grouped env t acc tab =
     bnd (tab_or_null env tab) (\<lambda>live. ret (case live of
        None \<Rightarrow> acc | Some l \<Rightarrow> if in_group l (groupId t) then acc @ [tab] else acc))"

definition closeTaskNow :: "'w env \<Rightarrow> string \<Rightarrow> ('w, int list) op" where
  "closeTaskNow env key =
     bnd (readState (storage env)) (\<lambda>st. case task st key of
        None \<Rightarrow>
          seq (end_task key) (seq (mutateState (storage env) (drop_stages_mutator key)) (ret []))
      | Some existing \<Rightarrow>
          seq (revoke_tabs (tabIds existing))
          (seq (end_task key)
          (bnd (mutateState (storage env) (close_mutator key)) (\<lambda>tabs.
           seq (for_each tabs (rev_remove (storage env) (listeners env)))
           (bnd (fold_each tabs [] (still_grouped env existing)) (\<lambda>removable.
            bnd (removeTaskTabs env removable) (\<lambda>closed.
            seq (emit ''tab_removed'' (changed_payload key 0))
            (seq (emitInventory env) (ret closed)))))))))"

section \<open>Giving a task a tab\<close>

definition describeTab :: "'w env \<Rightarrow> int \<Rightarrow> ('w, js obj) op" where
  "describeTab env tab =
     bnd (call (tabs_get env tab)) (\<lambda>live.
     bnd (readState (storage env)) (\<lambda>st.
     bnd (rev_current (storage env) tab) (\<lambda>revision.
       let url = (case tab_pendingUrl live of Some u \<Rightarrow> u
            | None \<Rightarrow> (case tab_url live of Some u \<Rightarrow> u | None \<Rightarrow> []))
       in ret ([(''tab_id'', js_int tab), (''window_id'', opt_js_int (tab_window live)),
            (''group_id'', opt_js_int (tab_group live)), (''url'', Str url),
            (''page_revision'', js_int revision),
            (''tab_count'', js_int (case owner st tab of None \<Rightarrow> 0 | Some t \<Rightarrow> int (length (tabIds t))))] @
          automationRouteFields (parse_url env) (Some url)))))"

definition adoptActiveNow :: "'w env \<Rightarrow> string \<Rightarrow> ('w, js obj) op" where
  "adoptActiveNow env key =
     bnd (call (tabs_query_active env None)) (\<lambda>tabs.
       case (case tabs of [] \<Rightarrow> None | t # ts \<Rightarrow> tab_id t) of
         None \<Rightarrow> throw (coded_error ''no_active_tab'' ''Chrome has no active tab to adopt'')
       | Some tab \<Rightarrow>
           seq (grant env key tab (''Adopted '' @ take 8 key) False)
           (seq (set_badge env tab) (describeTab env tab)))"

definition adopt_child :: "'w env \<Rightarrow> task_record \<Rightarrow> int \<Rightarrow> int \<Rightarrow> bool \<Rightarrow> ('w, unit) op" where
  "adopt_child env parentTask openerTab childTab from_source =
     bnd (tab_or_null env openerTab) (\<lambda>parent.
     bnd (tab_or_null env childTab) (\<lambda>child.
       case (parent, child) of
         (Some p, Some c) \<Rightarrow>
           (if \<not> from_source \<and> tab_group c \<noteq> None \<and> tab_group c \<noteq> Some (- 1) \<and>
               tab_group c \<noteq> groupId parentTask
            then ret ()
            else seq (case (tab_window p, tab_window c) of
                (Some pw, Some cw) \<Rightarrow>
                  (if pw \<noteq> cw
                   then bnd (call (tabs_query_active env (Some pw))) (\<lambda>active.
                     seq (call (tabs_move env childTab pw))
                       (case (case active of [] \<Rightarrow> None | a # as \<Rightarrow> tab_id a) of
                          None \<Rightarrow> ret ()
                        | Some dest \<Rightarrow> quiet (call (tabs_activate env dest)) ()))
                   else ret ())
              | _ \<Rightarrow> ret ())
              (grant env (taskId parentTask) childTab (name parentTask) True))
       | _ \<Rightarrow> ret ()))"

definition adoptOwnedChildNow :: "'w env \<Rightarrow> tab_like \<Rightarrow> int option \<Rightarrow> ('w, unit) op" where
  "adoptOwnedChildNow env child sourceTab =
     (case (tab_id child, if sourceTab \<noteq> None then sourceTab else tab_opener child) of
        (Some childTab, Some openerTab) \<Rightarrow>
          bnd (readState (storage env)) (\<lambda>st. case owner st openerTab of
             None \<Rightarrow> ret ()
           | Some parentTask \<Rightarrow>
               bnd (quiet (bnd (assertOwnedNow env (taskId parentTask) openerTab) (\<lambda>t. ret (Some t))) None)
                 (\<lambda>owned. case owned of
                    None \<Rightarrow> ret ()
                  | Some t \<Rightarrow> quiet (adopt_child env t openerTab childTab (sourceTab \<noteq> None)) ()))
      | _ \<Rightarrow> ret ())"

definition no_tab_id :: js_error where
  "no_tab_id = new_error ''Chrome did not return a created tab ID''"

text \<open>A tab the task could not be granted is closed again.\<close>

definition grant_or_close :: "'w env \<Rightarrow> string \<Rightarrow> int \<Rightarrow> string \<Rightarrow> ('w, unit) op" where
  "grant_or_close env key tab nm =
     try_catch (grant env key tab nm True)
       (\<lambda>e. seq (quiet (call (tabs_remove env tab)) ()) (throw e))"

definition openRequestedChildNow :: "'w env \<Rightarrow> int \<Rightarrow> string \<Rightarrow> ('w, int) op" where
  "openRequestedChildNow env parentTab url =
     bnd (readState (storage env)) (\<lambda>st. case owner st parentTab of
        None \<Rightarrow> throw (denied ''The requesting tab is no longer owned by an AgentTab task'')
      | Some parentTask \<Rightarrow>
          bnd (assertOwnedNow env (taskId parentTask) parentTab) (\<lambda>t.
          bnd (call (tabs_get env parentTab)) (\<lambda>parent.
          bnd (call (tabs_create env \<lparr>create_window = tab_window parent, create_url = url,
              create_active = False, create_opener = Some parentTab,
              create_index = map_option (\<lambda>i. i + 1) (tab_index parent)\<rparr>)) (\<lambda>tab.
            case tab_id tab of
              None \<Rightarrow> throw no_tab_id
            | Some new \<Rightarrow> seq (grant_or_close env (taskId t) new (name t)) (ret new)))))"

definition window_failed :: "js_error \<Rightarrow> js_error" where
  "window_failed e = JsError PlainError (''Could not create a background task window: '' @ js_error_string e)
     [(''code'', Str ''window_creation_failed''),
      (''recovery'', Str ''Retry with placement task, or create a new task window after Chrome can open a normal window.'')]"

definition drop_new_window :: "'w env \<Rightarrow> int option \<Rightarrow> int option \<Rightarrow> ('w, unit) op" where
  "drop_new_window env tab win = (case tab of
      Some t \<Rightarrow> quiet (call (tabs_remove env t)) ()
    | None \<Rightarrow> (case win of Some w \<Rightarrow> quiet (call (windows_remove env w)) () | None \<Rightarrow> ret ()))"

definition attempt :: "('s, 'e, 'a) eff \<Rightarrow> ('s, 'e, 'e + 'a) eff" where
  "attempt m = try_catch (bnd m (\<lambda>x. ret (Inr x))) (\<lambda>e. ret (Inl e))"

definition createTabInDedicatedWindow :: "'w env \<Rightarrow> string \<Rightarrow> ('w, tab_like) op" where
  "createTabInDedicatedWindow env url =
     bnd (attempt (call (windows_create env
         \<lparr>window_url = url, window_focused = False, window_state_normal = True\<rparr>))) (\<lambda>created.
       case created of
         Inl e \<Rightarrow> throw (window_failed e)
       | Inr None \<Rightarrow> throw (window_failed (new_error ''Chrome did not return a created window''))
       | Inr (Some w) \<Rightarrow>
           (let tab = (case window_tabs w of Some (t # ts) \<Rightarrow> Some t | _ \<Rightarrow> None);
                tabId = Option.bind tab tab_id;
                undo = (\<lambda>e. seq (drop_new_window env tabId (window_id w)) (throw (window_failed e)))
            in case (window_id w, tab, tabId) of
                 (Some wid, Some t, Some i) \<Rightarrow> try_catch (seq (call (windows_normal env wid)) (ret t)) undo
               | _ \<Rightarrow> undo (new_error ''Chrome did not return a window and tab ID'')))"

definition plain_tab :: "int option \<Rightarrow> string \<Rightarrow> bool \<Rightarrow> create_tab" where
  "plain_tab win url active = \<lparr>create_window = win, create_url = url, create_active = active,
     create_opener = None, create_index = None\<rparr>"

definition active_tab :: "window_like \<Rightarrow> tab_like option" where
  "active_tab w = (case window_tabs w of None \<Rightarrow> None | Some tabs \<Rightarrow> find tab_active tabs)"

definition last_accessed :: "window_like \<Rightarrow> rat" where
  "last_accessed w = (case Option.bind (active_tab w) tab_lastAccessed of None \<Rightarrow> 0 | Some x \<Rightarrow> x)"

definition usable_windows :: "int option \<Rightarrow> window_like list \<Rightarrow> window_like list" where
  "usable_windows none windows =
     (let noSplit = (case none of None \<Rightarrow> - 1 | Some n \<Rightarrow> n)
      in sort_key (\<lambda>w. - last_accessed w) (filter (\<lambda>w. window_id w \<noteq> None \<and>
           (case active_tab w of None \<Rightarrow> True
            | Some t \<Rightarrow> tab_splitViewId t = None \<or> tab_splitViewId t = Some noSplit)) windows))"

definition createTabInUsableWindow :: "'w env \<Rightarrow> string \<Rightarrow> bool \<Rightarrow> int option \<Rightarrow> ('w, tab_like) op" where
  "createTabInUsableWindow env url active preferred = (case preferred of
      Some w \<Rightarrow> call (tabs_create env (plain_tab (Some w) url active))
    | None \<Rightarrow>
        bnd (call (windows_all env)) (\<lambda>windows.
          case usable_windows (split_view_none env) windows of
            w # ws \<Rightarrow> call (tabs_create env (plain_tab (window_id w) url active))
          | [] \<Rightarrow>
              bnd (call (windows_create env \<lparr>window_url = url, window_focused = active, window_state_normal = False\<rparr>))
                (\<lambda>created. case Option.bind created window_tabs of
                   Some (t # ts) \<Rightarrow> ret t
                 | _ \<Rightarrow> throw (new_error ''Chrome did not create a tab in the fallback window''))))"

text \<open>The window of the first tab of the task that is still in its group.\<close>

fun task_window :: "'w env \<Rightarrow> int option \<Rightarrow> int list \<Rightarrow> ('w, int option) op" where
  "task_window env g [] = ret None"
| "task_window env g (tab # rest) =
     bnd (tab_or_null env tab) (\<lambda>live.
       case (case live of None \<Rightarrow> None | Some l \<Rightarrow> if tab_group l = g then tab_window l else None) of
         Some w \<Rightarrow> ret (Some w)
       | None \<Rightarrow> task_window env g rest)"

definition refused :: "string \<Rightarrow> string \<Rightarrow> string \<Rightarrow> js_error" where
  "refused c message recovery = JsError PlainError message [(''code'', Str c), (''recovery'', Str recovery)]"

definition openNow :: "'w env \<Rightarrow> string \<Rightarrow> js obj \<Rightarrow> ('w, js obj) op" where
  "openNow env key params =
     (if jget params ''mode'' = Str ''adopt_active'' then adoptActiveNow env key
      else if jget params ''mode'' \<noteq> Str ''create''
      then throw (coded_error ''invalid_request'' ''browser_open mode must be create or adopt_active'')
      else
        (let given = jget params ''placement'';
             placement = (if given = Undefined \<or> given = Null then Str ''task'' else given);
             background_off = (jget params ''background'' = Bool False);
             url = (if is_str (jget params ''url'') then the_str (jget params ''url'') else ''about:blank'')
         in if placement \<noteq> Str ''task'' \<and> placement \<noteq> Str ''new_window''
            then throw (coded_error ''invalid_request'' ''browser_open placement must be task or new_window'')
            else if placement = Str ''new_window'' \<and> background_off
            then throw (refused ''invalid_request'' ''A new task window must open in the background''
              ''Use browser_handoff when the human needs to focus the task tab.'')
            else
              bnd (readState (storage env)) (\<lambda>st.
              bnd (if placement = Str ''new_window''
                   then (if (case task st key of None \<Rightarrow> False | Some t \<Rightarrow> tabIds t \<noteq> [])
                     then throw (refused ''task_window_conflict''
                       ''A task window can be created only before the task owns tabs''
                       ''Use placement task for this task, or create a new task for a separate window.'')
                     else createTabInDedicatedWindow env url)
                   else bnd (case task st key of
                         None \<Rightarrow> ret None
                       | Some t \<Rightarrow> (if groupId t = None then ret None else task_window env (groupId t) (tabIds t)))
                     (createTabInUsableWindow env url background_off)) (\<lambda>tab.
               case tab_id tab of
                 None \<Rightarrow> throw no_tab_id
               | Some new \<Rightarrow>
                   seq (grant_or_close env key new (''Task '' @ take 8 key)) (describeTab env new)))))"

end
