(* ===== verification/SchedulerFacts.thy ===== *)
theory SchedulerFacts
  imports Scheduler
begin

text \<open>
  What the scheduler guarantees in every reachable state: work that must not overlap runs in the
  order of admission, nothing admitted before a pause starts after it, a queued mutation of a revoked
  or navigated tab never starts, queued work always can be dispatched in the end, and the pending set
  a pause drains covers all unsettled work.
\<close>

section \<open>Admission in one form\<close>

definition globalish :: "job_kind \<Rightarrow> bool" where
  "globalish k = (case k of TabJob _ _ \<Rightarrow> False | ReadTabJob _ \<Rightarrow> False | _ \<Rightarrow> True)"

definition kind_tab :: "job_kind \<Rightarrow> int option" where
  "kind_tab k = (case k of TabJob _ tab \<Rightarrow> Some tab | ReadTabJob tab \<Rightarrow> Some tab | _ \<Rightarrow> None)"

definition kind_task :: "job_kind \<Rightarrow> string option" where
  "kind_task k = (case k of TabJob task _ \<Rightarrow> Some task | _ \<Rightarrow> None)"

text \<open>The work that waits for all tab work too.\<close>

definition exclusive :: "job_kind \<Rightarrow> bool" where
  "exclusive k = (case k of GlobalJob \<Rightarrow> True | ProfileJob mutating \<Rightarrow> mutating | _ \<Rightarrow> False)"

definition kind_deps :: "sched \<Rightarrow> job_kind \<Rightarrow> nat list" where
  "kind_deps s k = tail_list (globalTail s) @
     (case kind_task k of None \<Rightarrow> [] | Some task \<Rightarrow> tail_list (map_of (taskTails s) task)) @
     (case kind_tab k of None \<Rightarrow> [] | Some tab \<Rightarrow> tail_list (map_of (tabTails s) tab)) @
     (if exclusive k then map snd (tabTails s) else [])"

definition kind_epoch :: "sched \<Rightarrow> job_kind \<Rightarrow> nat" where
  "kind_epoch s k = (case k of ProfileJob _ \<Rightarrow> lifecycleEpoch s | _ \<Rightarrow> admissionEpoch s)"

definition kind_tails :: "job_kind \<Rightarrow> nat \<Rightarrow> sched \<Rightarrow> sched" where
  "kind_tails k n s = (case kind_tab k of
      None \<Rightarrow> s\<lparr>globalTail := Some n\<rparr>
    | Some tab \<Rightarrow> rememberTabTail (kind_task k) tab n s)"

definition kind_generation :: "sched \<Rightarrow> job_kind \<Rightarrow> nat" where
  "kind_generation s k = (case k of TabJob _ tab \<Rightarrow> generation_of s tab | _ \<Rightarrow> 0)"

definition admit_kind :: "job_kind \<Rightarrow> sched \<Rightarrow> sched" where
  "admit_kind k s = track \<lparr>kind = k, deps = kind_deps s k, job_epoch = kind_epoch s k,
     job_generation = kind_generation s k, job_status = Queued\<rparr> (kind_tails k (length (jobs s)) s)"

lemmas kind_defs = globalish_def kind_tab_def kind_task_def exclusive_def kind_deps_def kind_epoch_def
  kind_tails_def kind_generation_def

lemma admit_step_kind: "admit_step s t \<Longrightarrow> t = s \<or> (\<exists>k. t = admit_kind k s)"
proof (erule admit_stepE)
  fix task tab assume t: "t = snd (enqueueTab task tab s)"
  have "t = s \<or> t = admit_kind (TabJob task tab) s"
    by (simp add: t enqueueTab_def admit_kind_def kind_defs Let_def)
  then show ?thesis by blast
next
  assume t: "t = snd (enqueueGlobal s)"
  have "t = s \<or> t = admit_kind GlobalJob s"
    by (simp add: t enqueueGlobal_def admit_kind_def kind_defs Let_def)
  then show ?thesis by blast
next
  fix m assume t: "t = snd (enqueueProfile m s)"
  have "t = s \<or> t = admit_kind (ProfileJob m) s"
    by (simp add: t enqueueProfile_def admit_kind_def kind_defs Let_def)
  then show ?thesis by blast
next
  fix tabOption assume t: "t = snd (readAfterWrites tabOption s)"
  have "t = s \<or> t = admit_kind (case tabOption of None \<Rightarrow> ReadAllJob | Some tab \<Rightarrow> ReadTabJob tab) s"
    by (cases tabOption) (simp_all add: t readAfterWrites_def admit_kind_def kind_defs Let_def)
  then show ?thesis by blast
qed

section \<open>Reading the job list\<close>

abbreviation size_of :: "sched \<Rightarrow> nat" where "size_of s \<equiv> length (jobs s)"

definition kind_of :: "sched \<Rightarrow> nat \<Rightarrow> job_kind" where "kind_of s i = kind (jobs s ! i)"
definition deps_of :: "sched \<Rightarrow> nat \<Rightarrow> nat list" where "deps_of s i = deps (jobs s ! i)"
definition epoch_of :: "sched \<Rightarrow> nat \<Rightarrow> nat" where "epoch_of s i = job_epoch (jobs s ! i)"
definition gen_of :: "sched \<Rightarrow> nat \<Rightarrow> nat" where "gen_of s i = job_generation (jobs s ! i)"

lemmas job_reads = kind_of_def deps_of_def epoch_of_def gen_of_def status_of_def

lemma job_tab_kind: "job_tab j = kind_tab (kind j)" and job_task_kind: "job_task j = kind_task (kind j)"
  by (simp_all add: job_tab_def kind_tab_def job_task_def kind_task_def)

lemma set_status_nth:
  "jobs (set_status i st s) ! k = (if k = i \<and> i < size_of s then (jobs s ! i)\<lparr>job_status := st\<rparr> else jobs s ! k)"
  by (cases "i < size_of s") (simp_all add: set_status_def nth_list_update list_update_beyond)

lemma set_status_reads [simp]:
  "size_of (set_status i st s) = size_of s"
  "kind_of (set_status i st s) k = kind_of s k" "deps_of (set_status i st s) k = deps_of s k"
  "epoch_of (set_status i st s) k = epoch_of s k" "gen_of (set_status i st s) k = gen_of s k"
  by (simp_all add: job_reads set_status_nth) (simp add: set_status_def)

lemma set_status_status [simp]:
  "i < size_of s \<Longrightarrow> status_of (set_status i st s) k = (if k = i then st else status_of s k)"
  by (simp add: status_of_def set_status_nth)

lemma set_status_fields [simp]:
  "globalTail (set_status i st s) = globalTail s" "tabTails (set_status i st s) = tabTails s"
  "taskTails (set_status i st s) = taskTails s" "generations (set_status i st s) = generations s"
  "generationReasons (set_status i st s) = generationReasons s"
  "admissionEpoch (set_status i st s) = admissionEpoch s" "lifecycleEpoch (set_status i st s) = lifecycleEpoch s"
  "pendingJobs (set_status i st s) = pendingJobs s" "accepting (set_status i st s) = accepting s"
  "lifecycleAccepting (set_status i st s) = lifecycleAccepting s"
  by (simp_all add: set_status_def)

lemma kind_tails_jobs [simp]: "jobs (kind_tails k n s) = jobs s"
  by (simp add: kind_tails_def rememberTabTail_def split: option.split)

lemma admit_size [simp]: "size_of (admit_kind k s) = Suc (size_of s)"
  by (simp add: admit_kind_def track_def)

lemma admit_old [simp]:
  assumes "i < size_of s"
  shows "kind_of (admit_kind k s) i = kind_of s i" "deps_of (admit_kind k s) i = deps_of s i"
    "epoch_of (admit_kind k s) i = epoch_of s i" "gen_of (admit_kind k s) i = gen_of s i"
    "status_of (admit_kind k s) i = status_of s i"
  using assms by (simp_all add: admit_kind_def track_def job_reads nth_append)

lemma admit_new [simp]:
  "kind_of (admit_kind k s) (size_of s) = k" "deps_of (admit_kind k s) (size_of s) = kind_deps s k"
  "epoch_of (admit_kind k s) (size_of s) = kind_epoch s k"
  "gen_of (admit_kind k s) (size_of s) = kind_generation s k"
  "status_of (admit_kind k s) (size_of s) = Queued"
  by (simp_all add: admit_kind_def track_def job_reads)

lemma admit_fields [simp]:
  "admissionEpoch (admit_kind k s) = admissionEpoch s" "lifecycleEpoch (admit_kind k s) = lifecycleEpoch s"
  "accepting (admit_kind k s) = accepting s" "lifecycleAccepting (admit_kind k s) = lifecycleAccepting s"
  "generations (admit_kind k s) = generations s" "generationReasons (admit_kind k s) = generationReasons s"
  "pendingJobs (admit_kind k s) = size_of s # pendingJobs s"
  by (simp_all add: admit_kind_def track_def kind_tails_def rememberTabTail_def split: option.split)

lemma admit_tails [simp]:
  "globalTail (admit_kind k s) = (if kind_tab k = None then Some (size_of s) else globalTail s)"
  "map_of (tabTails (admit_kind k s)) tab =
     (if kind_tab k = Some tab then Some (size_of s) else map_of (tabTails s) tab)"
  "map_of (taskTails (admit_kind k s)) task =
     (if kind_task k = Some task then Some (size_of s) else map_of (taskTails s) task)"
  by (cases k; simp add: admit_kind_def track_def kind_defs rememberTabTail_def)+

lemma generation_of_simps [simp]:
  "generation_of (set_status i st s) tab = generation_of s tab"
  "generation_of (admit_kind k s) tab = generation_of s tab"
  by (simp_all add: generation_of_def)

lemma kind_tab_None: "kind_tab k = None \<longleftrightarrow> globalish k"
  by (cases k) (simp_all add: kind_defs)

section \<open>The invariant\<close>

text \<open>\<open>waits k k'\<close>: work of kind \<open>k\<close> waits for all earlier work of kind \<open>k'\<close>.\<close>

definition waits :: "job_kind \<Rightarrow> job_kind \<Rightarrow> bool" where
  "waits k k' \<longleftrightarrow> globalish k' \<or> exclusive k \<or>
     (kind_tab k \<noteq> None \<and> kind_tab k = kind_tab k') \<or> (kind_task k \<noteq> None \<and> kind_task k = kind_task k')"

definition in_order :: "sched \<Rightarrow> bool" where
  "in_order s \<longleftrightarrow> (\<forall>j < size_of s. \<forall>i < j. waits (kind_of s j) (kind_of s i) \<longrightarrow>
     status_of s j = Queued \<or> settled (status_of s i))"

definition deps_cover :: "sched \<Rightarrow> bool" where
  "deps_cover s \<longleftrightarrow> (\<forall>j < size_of s. \<forall>i < j. waits (kind_of s j) (kind_of s i) \<longrightarrow>
     settled (status_of s i) \<or> i \<in> set (deps_of s j) \<or>
     (\<exists>k \<in> set (deps_of s j). i < k \<and> waits (kind_of s k) (kind_of s i)))"

definition deps_earlier :: "sched \<Rightarrow> bool" where
  "deps_earlier s \<longleftrightarrow> (\<forall>j < size_of s. \<forall>i \<in> set (deps_of s j). i < j)"

definition global_tail_ok :: "sched \<Rightarrow> bool" where
  "global_tail_ok s \<longleftrightarrow> (\<forall>i < size_of s. globalish (kind_of s i) \<longrightarrow> (\<exists>k. globalTail s = Some k \<and> i \<le> k)) \<and>
     (\<forall>k. globalTail s = Some k \<longrightarrow> k < size_of s \<and> globalish (kind_of s k))"

definition tab_tails_ok :: "sched \<Rightarrow> bool" where
  "tab_tails_ok s \<longleftrightarrow> (\<forall>i < size_of s. \<forall>tab. kind_tab (kind_of s i) = Some tab \<longrightarrow>
       settled (status_of s i) \<or> (\<exists>k. map_of (tabTails s) tab = Some k \<and> i \<le> k)) \<and>
     (\<forall>tab k. map_of (tabTails s) tab = Some k \<longrightarrow> k < size_of s \<and> kind_tab (kind_of s k) = Some tab) \<and>
     distinct (map fst (tabTails s))"

definition task_tails_ok :: "sched \<Rightarrow> bool" where
  "task_tails_ok s \<longleftrightarrow> (\<forall>i < size_of s. \<forall>task. kind_task (kind_of s i) = Some task \<longrightarrow>
       settled (status_of s i) \<or> (\<exists>k. map_of (taskTails s) task = Some k \<and> i \<le> k)) \<and>
     (\<forall>task k. map_of (taskTails s) task = Some k \<longrightarrow> k < size_of s \<and> kind_task (kind_of s k) = Some task)"

definition epochs_ok :: "sched \<Rightarrow> bool" where
  "epochs_ok s \<longleftrightarrow> (\<forall>i < size_of s. epoch_of s i \<le> kind_epoch s (kind_of s i))"

definition generations_ok :: "sched \<Rightarrow> bool" where
  "generations_ok s \<longleftrightarrow> (\<forall>i < size_of s. \<forall>task tab. kind_of s i = TabJob task tab \<longrightarrow>
     \<not> settled (status_of s i) \<longrightarrow> gen_of s i \<le> generation_of s tab)"

definition pending_ok :: "sched \<Rightarrow> bool" where
  "pending_ok s \<longleftrightarrow> (\<forall>i < size_of s. \<not> settled (status_of s i) \<longrightarrow> i \<in> set (pendingJobs s))"

definition sched_ok :: "sched \<Rightarrow> bool" where
  "sched_ok s \<longleftrightarrow> in_order s \<and> deps_cover s \<and> deps_earlier s \<and> global_tail_ok s \<and> tab_tails_ok s \<and>
     task_tails_ok s \<and> epochs_ok s \<and> generations_ok s \<and> pending_ok s"

lemmas sched_ok_defs = in_order_def deps_cover_def deps_earlier_def global_tail_ok_def tab_tails_ok_def
  task_tails_ok_def epochs_ok_def generations_ok_def pending_ok_def

lemma sched_okD:
  assumes "sched_ok s"
  shows "in_order s" "deps_cover s" "deps_earlier s" "global_tail_ok s" "tab_tails_ok s"
    "task_tails_ok s" "epochs_ok s" "generations_ok s" "pending_ok s"
  using assms by (simp_all add: sched_ok_def)

lemma new_scheduler_ok: "sched_ok new_scheduler"
  by (simp add: sched_ok_def sched_ok_defs new_scheduler_def)

lemma in_orderD:
  "in_order s \<Longrightarrow> j < size_of s \<Longrightarrow> i < j \<Longrightarrow> waits (kind_of s j) (kind_of s i) \<Longrightarrow> status_of s j \<noteq> Queued \<Longrightarrow>
     settled (status_of s i)"
  unfolding in_order_def by blast

lemma tab_tail_latest:
  assumes "tab_tails_ok s" "map_of (tabTails s) tab = Some k" "i < size_of s" "kind_tab (kind_of s i) = Some tab"
  shows "settled (status_of s i) \<or> i \<le> k"
proof -
  from assms(1,3,4) have "settled (status_of s i) \<or> (\<exists>k. map_of (tabTails s) tab = Some k \<and> i \<le> k)"
    unfolding tab_tails_ok_def by blast
  with assms(2) show ?thesis by auto
qed

lemma task_tail_latest:
  assumes "task_tails_ok s" "map_of (taskTails s) task = Some k" "i < size_of s"
    "kind_task (kind_of s i) = Some task"
  shows "settled (status_of s i) \<or> i \<le> k"
proof -
  from assms(1,3,4) have "settled (status_of s i) \<or> (\<exists>k. map_of (taskTails s) task = Some k \<and> i \<le> k)"
    unfolding task_tails_ok_def by blast
  with assms(2) show ?thesis by auto
qed

lemma settled_started: "settled st \<Longrightarrow> st \<noteq> Queued"
  by auto

section \<open>Admission keeps the invariant\<close>

text \<open>Every earlier job the new one waits for is settled, a dependency, or waited for by a dependency.\<close>

lemma tab_tail_set: "map_of (tabTails s) tab = Some k \<Longrightarrow> k \<in> set (map snd (tabTails s))"
  by (force dest: map_of_SomeD)

lemma admit_covers:
  assumes s: "sched_ok s" and i: "i < size_of s" and w: "waits k (kind_of s i)"
  shows "settled (status_of s i) \<or> i \<in> set (kind_deps s k) \<or>
    (\<exists>d \<in> set (kind_deps s k). i < d \<and> waits (kind_of s d) (kind_of s i))"
proof -
  have covered: ?thesis if "d \<in> set (kind_deps s k)" "i \<le> d" "waits (kind_of s d) (kind_of s i)" for d
    using that by (cases "i = d") auto
  note g = sched_okD(4) [OF s] and tb = sched_okD(5) [OF s] and tk = sched_okD(6) [OF s]
  consider (glob) "globalish (kind_of s i)"
    | (excl) tab where "exclusive k" "kind_tab (kind_of s i) = Some tab"
    | (tab) tab where "kind_tab k = Some tab" "kind_tab (kind_of s i) = Some tab"
    | (task) task where "kind_task k = Some task" "kind_task (kind_of s i) = Some task"
    using w kind_tab_None unfolding waits_def by (metis option.exhaust)
  then show ?thesis
  proof cases
    case glob
    with g i obtain d where d: "globalTail s = Some d" "i \<le> d" unfolding global_tail_ok_def by blast
    show ?thesis by (rule covered [of d]) (simp_all add: kind_deps_def d waits_def glob)
  next
    case excl
    show ?thesis
    proof (cases "settled (status_of s i)")
      case False
      with tb i excl(2) obtain d where d: "map_of (tabTails s) tab = Some d" "i \<le> d"
        unfolding tab_tails_ok_def by blast
      with tb have "kind_tab (kind_of s d) = Some tab" unfolding tab_tails_ok_def by blast
      then show ?thesis using excl d tab_tail_set [OF d(1)]
        by (intro covered [of d]) (simp_all add: kind_deps_def waits_def)
    qed simp
  next
    case tab
    show ?thesis
    proof (cases "settled (status_of s i)")
      case False
      with tb i tab(2) obtain d where d: "map_of (tabTails s) tab = Some d" "i \<le> d"
        unfolding tab_tails_ok_def by blast
      with tb have "kind_tab (kind_of s d) = Some tab" unfolding tab_tails_ok_def by blast
      then show ?thesis using tab d by (intro covered [of d]) (simp_all add: kind_deps_def waits_def)
    qed simp
  next
    case task
    show ?thesis
    proof (cases "settled (status_of s i)")
      case False
      with tk i task(2) obtain d where d: "map_of (taskTails s) task = Some d" "i \<le> d"
        unfolding task_tails_ok_def by blast
      with tk have "kind_task (kind_of s d) = Some task" unfolding task_tails_ok_def by blast
      then show ?thesis using task d by (intro covered [of d]) (simp_all add: kind_deps_def waits_def)
    qed simp
  qed
qed

lemma kind_deps_earlier:
  assumes "sched_ok s" and "d \<in> set (kind_deps s k)"
  shows "d < size_of s"
proof -
  note g = sched_okD(4) [OF assms(1)] and tb = sched_okD(5) [OF assms(1)] and tk = sched_okD(6) [OF assms(1)]
  have tl: "x \<in> set (tail_list o1) \<longleftrightarrow> o1 = Some x" for x o1 by (cases o1) auto
  from assms(2) consider "globalTail s = Some d" | t where "map_of (taskTails s) t = Some d"
    | t where "map_of (tabTails s) t = Some d"
    using tb by (auto simp: kind_deps_def tl tab_tails_ok_def split: option.splits if_splits)
  then show ?thesis
    by cases (use g tb tk in \<open>auto simp: global_tail_ok_def tab_tails_ok_def task_tails_ok_def\<close>)
qed

lemma all_less_Suc: "(\<forall>i < Suc n. P i) \<longleftrightarrow> P n \<and> (\<forall>i < n. P i)"
  by (auto simp: less_Suc_eq)

lemma admit_in_order: "in_order s \<Longrightarrow> in_order (admit_kind k s)"
  by (simp add: in_order_def all_less_Suc)

lemma admit_deps_earlier: "sched_ok s \<Longrightarrow> deps_earlier (admit_kind k s)"
  using sched_okD(3) [of s] kind_deps_earlier [of s] by (simp add: deps_earlier_def all_less_Suc)

lemma admit_deps_cover:
  assumes "sched_ok s"
  shows "deps_cover (admit_kind k s)"
  unfolding deps_cover_def admit_size all_less_Suc
proof (intro conjI allI impI)
  fix i assume i: "i < size_of s" and w: "waits (kind_of (admit_kind k s) (size_of s)) (kind_of (admit_kind k s) i)"
  from admit_covers [OF assms i, of k] w i kind_deps_earlier [OF assms, of _ k]
  show "settled (status_of (admit_kind k s) i) \<or> i \<in> set (deps_of (admit_kind k s) (size_of s)) \<or>
     (\<exists>d \<in> set (deps_of (admit_kind k s) (size_of s)). i < d \<and>
       waits (kind_of (admit_kind k s) d) (kind_of (admit_kind k s) i))" by fastforce
next
  fix j i assume j: "j < size_of s" and i: "i < j"
    and w: "waits (kind_of (admit_kind k s) j) (kind_of (admit_kind k s) i)"
  from i j have i': "i < size_of s" by simp
  from sched_okD(2) [OF assms] w i i' j
  have "settled (status_of s i) \<or> i \<in> set (deps_of s j) \<or>
     (\<exists>d \<in> set (deps_of s j). i < d \<and> waits (kind_of s d) (kind_of s i))" by (simp add: deps_cover_def)
  moreover have "\<forall>d \<in> set (deps_of s j). d < size_of s"
    using sched_okD(3) [OF assms] j by (force simp: deps_earlier_def)
  ultimately show "settled (status_of (admit_kind k s) i) \<or> i \<in> set (deps_of (admit_kind k s) j) \<or>
     (\<exists>d \<in> set (deps_of (admit_kind k s) j). i < d \<and>
       waits (kind_of (admit_kind k s) d) (kind_of (admit_kind k s) i))" using i' j by auto
qed

lemma admit_global_tail: "global_tail_ok s \<Longrightarrow> global_tail_ok (admit_kind k s)"
  unfolding global_tail_ok_def admit_size all_less_Suc
  by (auto simp: kind_tab_None less_imp_le less_SucI split: if_splits)

lemma admit_tab_tails: "tab_tails_ok s \<Longrightarrow> tab_tails_ok (admit_kind k s)"
proof -
  have "distinct (map fst (tabTails s)) \<Longrightarrow> distinct (map fst (tabTails (admit_kind k s)))"
    by (cases k) (simp_all add: admit_kind_def track_def kind_defs rememberTabTail_def distinct_keys_update)
  then show "tab_tails_ok s \<Longrightarrow> tab_tails_ok (admit_kind k s)"
    unfolding tab_tails_ok_def admit_size all_less_Suc
    by (auto simp: less_imp_le less_SucI split: if_splits) blast
qed

lemma admit_task_tails: "task_tails_ok s \<Longrightarrow> task_tails_ok (admit_kind k s)"
  unfolding task_tails_ok_def admit_size all_less_Suc
  by (auto simp: less_imp_le less_SucI split: if_splits)

lemma kind_epoch_admit [simp]: "kind_epoch (admit_kind k s) k' = kind_epoch s k'"
  by (simp add: kind_epoch_def split: job_kind.split)

lemma admit_epochs: "epochs_ok s \<Longrightarrow> epochs_ok (admit_kind k s)"
  by (simp add: epochs_ok_def all_less_Suc)

lemma admit_generations: "generations_ok s \<Longrightarrow> generations_ok (admit_kind k s)"
  by (simp add: generations_ok_def all_less_Suc kind_generation_def)

lemma admit_pending: "pending_ok s \<Longrightarrow> pending_ok (admit_kind k s)"
  by (simp add: pending_ok_def all_less_Suc)

lemma admit_ok: "sched_ok s \<Longrightarrow> sched_ok (admit_kind k s)"
  using admit_deps_cover admit_deps_earlier
  by (auto simp: sched_ok_def admit_in_order admit_global_tail admit_tab_tails admit_task_tails
      admit_epochs admit_generations admit_pending)

section \<open>The other steps keep the invariant\<close>

lemma dispatchable_deps:
  "dispatchable s j \<Longrightarrow> d \<in> set (deps_of s j) \<Longrightarrow> settled (status_of s d)"
  by (simp add: dispatchable_def deps_of_def list_all_iff)

lemma dispatchable_in_order:
  assumes "sched_ok s" and d: "dispatchable s j" and "i < j" and w: "waits (kind_of s j) (kind_of s i)"
  shows "settled (status_of s i)"
proof -
  have j: "j < size_of s" using d by (simp add: dispatchable_def)
  with sched_okD(2) [OF assms(1)] assms(3) w
  consider "settled (status_of s i)" | "i \<in> set (deps_of s j)"
    | k where "k \<in> set (deps_of s j)" "i < k" "waits (kind_of s k) (kind_of s i)"
    unfolding deps_cover_def by blast
  then show ?thesis
  proof cases
    case 3
    with dispatchable_deps [OF d] have k: "settled (status_of s k)" by blast
    moreover have "k < size_of s" using sched_okD(3) [OF assms(1)] 3(1) j by (force simp: deps_earlier_def)
    ultimately show ?thesis by (rule in_orderD [OF sched_okD(1) [OF assms(1)] _ 3(2,3) settled_started, rotated])
  qed (use dispatchable_deps [OF d] in simp_all)
qed

lemma kind_epoch_status [simp]: "kind_epoch (set_status i st s) k = kind_epoch s k"
  by (simp add: kind_epoch_def split: job_kind.split)

text \<open>A change of one job's status that goes forward.\<close>

lemma set_status_ok:
  assumes ok: "sched_ok s" and j: "j < size_of s" "\<not> settled (status_of s j)" and st: "st \<noteq> Queued"
    and order: "\<And>i. i < j \<Longrightarrow> waits (kind_of s j) (kind_of s i) \<Longrightarrow> settled (status_of s i)"
  shows "sched_ok (set_status j st s)"
  unfolding sched_ok_def
proof (intro conjI)
  note okd = sched_okD [OF ok]
  have stable: "settled (status_of (set_status j st s) i)" if "settled (status_of s i)" for i
    using that j by auto
  show "in_order (set_status j st s)"
    using in_orderD [OF okd(1)] order stable j(1) unfolding in_order_def
    by (metis set_status_reads(1,2) set_status_status)
  show "deps_cover (set_status j st s)"
    unfolding deps_cover_def set_status_reads
  proof (intro allI impI)
    fix m i assume "m < size_of s" "i < m" "waits (kind_of s m) (kind_of s i)"
    with okd(2) have "settled (status_of s i) \<or> i \<in> set (deps_of s m) \<or>
      (\<exists>k \<in> set (deps_of s m). i < k \<and> waits (kind_of s k) (kind_of s i))"
      unfolding deps_cover_def by blast
    then show "settled (status_of (set_status j st s) i) \<or> i \<in> set (deps_of s m) \<or>
      (\<exists>k \<in> set (deps_of s m). i < k \<and> waits (kind_of s k) (kind_of s i))"
      using stable by blast
  qed
  show "deps_earlier (set_status j st s)" using okd(3) by (simp add: deps_earlier_def)
  show "global_tail_ok (set_status j st s)" using okd(4) by (simp add: global_tail_ok_def)
  show "tab_tails_ok (set_status j st s)"
    using okd(5) stable unfolding tab_tails_ok_def set_status_reads set_status_fields by blast
  show "task_tails_ok (set_status j st s)"
    using okd(6) stable unfolding task_tails_ok_def set_status_reads set_status_fields by blast
  show "epochs_ok (set_status j st s)" using okd(7) by (simp add: epochs_ok_def)
  show "generations_ok (set_status j st s)" using okd(8) j by (auto simp: generations_ok_def)
  show "pending_ok (set_status j st s)" using okd(9) j by (auto simp: pending_ok_def)
qed

lemma dispatch_ok: "sched_ok s \<Longrightarrow> dispatchable s i \<Longrightarrow> sched_ok (dispatch i s)"
  unfolding dispatch_def
  by (rule set_status_ok) (auto simp: dispatchable_def dispatchable_in_order split: option.split)

lemma finish_ok:
  "sched_ok s \<Longrightarrow> i < size_of s \<Longrightarrow> status_of s i = Running \<Longrightarrow> sched_ok (set_status i (Finished ok) s)"
  by (rule set_status_ok) (auto intro: in_orderD [OF sched_okD(1)])

text \<open>Steps that leave the jobs alone.\<close>

definition same_jobs :: "sched \<Rightarrow> sched \<Rightarrow> bool" where
  "same_jobs s t \<longleftrightarrow> jobs t = jobs s"

lemma same_jobs_reads:
  assumes "same_jobs s t"
  shows "size_of t = size_of s" "kind_of t i = kind_of s i" "deps_of t i = deps_of s i"
    "epoch_of t i = epoch_of s i" "gen_of t i = gen_of s i" "status_of t i = status_of s i"
  using assms by (simp_all add: same_jobs_def job_reads)

lemma same_jobs_ok:
  assumes "sched_ok s" and "same_jobs s t" and "globalTail t = globalTail s"
    and "tab_tails_ok t" "task_tails_ok t" "epochs_ok t" "generations_ok t" "pending_ok t"
  shows "sched_ok t"
proof -
  note okd = sched_okD [OF assms(1)]
  have "in_order t" using okd(1) by (simp only: in_order_def same_jobs_reads [OF assms(2)])
  moreover have "deps_cover t" using okd(2) by (simp only: deps_cover_def same_jobs_reads [OF assms(2)])
  moreover have "deps_earlier t" using okd(3) by (simp only: deps_earlier_def same_jobs_reads [OF assms(2)])
  moreover have "global_tail_ok t"
    using okd(4) by (simp only: global_tail_ok_def same_jobs_reads [OF assms(2)] assms(3))
  ultimately show ?thesis using assms(4-) by (simp add: sched_ok_def)
qed

lemma same_tails:
  assumes same: "same_jobs s t"
  shows "tabTails t = tabTails s \<Longrightarrow> tab_tails_ok s \<Longrightarrow> tab_tails_ok t"
    and "taskTails t = taskTails s \<Longrightarrow> task_tails_ok s \<Longrightarrow> task_tails_ok t"
    and "(\<And>k. kind_epoch s k \<le> kind_epoch t k) \<Longrightarrow> epochs_ok s \<Longrightarrow> epochs_ok t"
proof -
  show "tab_tails_ok t" if "tabTails t = tabTails s" "tab_tails_ok s"
    using that(2) unfolding tab_tails_ok_def same_jobs_reads [OF same] that(1) .
  show "task_tails_ok t" if "taskTails t = taskTails s" "task_tails_ok s"
    using that(2) unfolding task_tails_ok_def same_jobs_reads [OF same] that(1) .
  show "epochs_ok t" if "\<And>k. kind_epoch s k \<le> kind_epoch t k" "epochs_ok s"
    using that unfolding epochs_ok_def same_jobs_reads [OF same] by (blast intro: order_trans)
qed

lemma same_epochs:
  "admissionEpoch t = admissionEpoch s \<Longrightarrow> lifecycleEpoch t = lifecycleEpoch s \<Longrightarrow>
     kind_epoch s k \<le> kind_epoch t k"
  by (simp add: kind_epoch_def split: job_kind.split)

text \<open>Once the latest work on a tab is settled, all its work is.\<close>

lemma tail_settles_tab:
  assumes ok: "sched_ok s" and k: "k < size_of s" "settled (status_of s k)" "kind_tab (kind_of s k) = Some tab"
    and i: "i \<le> k" "kind_tab (kind_of s i) = Some tab"
  shows "settled (status_of s i)"
proof (cases "i = k")
  case False
  with i have "i < k" by simp
  moreover have "waits (kind_of s k) (kind_of s i)" using k(3) i(2) by (simp add: waits_def)
  ultimately show ?thesis by (rule in_orderD [OF sched_okD(1) [OF ok] k(1) _ _ settled_started [OF k(2)]])
qed (use k in simp)

lemma tail_settles_task:
  assumes ok: "sched_ok s" and k: "k < size_of s" "settled (status_of s k)" "kind_task (kind_of s k) = Some task"
    and i: "i \<le> k" "kind_task (kind_of s i) = Some task"
  shows "settled (status_of s i)"
proof (cases "i = k")
  case False
  with i have "i < k" by simp
  moreover have "waits (kind_of s k) (kind_of s i)" using k(3) i(2) by (simp add: waits_def)
  ultimately show ?thesis by (rule in_orderD [OF sched_okD(1) [OF ok] k(1) _ _ settled_started [OF k(2)]])
qed (use k in simp)

lemma drop_tab_tail_ok:
  assumes ok: "sched_ok s" and k: "k < size_of s" "settled (status_of s k)" "kind_tab (kind_of s k) = Some tab"
  shows "sched_ok (drop_tab_tail tab k s)"
proof (cases "map_of (tabTails s) tab = Some k")
  case True
  let ?t = "drop_tab_tail tab k s"
  note okd = sched_okD [OF ok]
  have same: "same_jobs s ?t" by (simp add: same_jobs_def drop_tab_tail_def)
  have over: "settled (status_of s i)" if "i < size_of s" "kind_tab (kind_of s i) = Some tab" for i
    using tab_tail_latest [OF okd(5) True that] tail_settles_tab [OF ok k _ that(2)] by blast
  have tails: "map_of (tabTails ?t) tb = (if tb = tab then None else map_of (tabTails s) tb)" for tb
    using True by (simp add: drop_tab_tail_def AList.delete_conv')
  have d: "distinct (map fst (tabTails ?t))"
    using okd(5) True by (simp add: drop_tab_tail_def tab_tails_ok_def distinct_keys_delete)
  show ?thesis
  proof (rule same_jobs_ok [OF ok same])
    show "globalTail ?t = globalTail s" by (simp add: drop_tab_tail_def)
    show "tab_tails_ok ?t"
      using okd(5) over d unfolding tab_tails_ok_def same_jobs_reads [OF same] tails by auto blast
    show "task_tails_ok ?t"
      using okd(6) unfolding task_tails_ok_def same_jobs_reads [OF same] by (simp add: drop_tab_tail_def)
    show "epochs_ok ?t"
      by (rule same_tails(3) [OF same same_epochs okd(7)]) (simp_all add: drop_tab_tail_def)
    show "generations_ok ?t" unfolding generations_ok_def same_jobs_reads [OF same]
    proof (intro allI impI)
      fix i task tb assume i: "i < size_of s" "kind_of s i = TabJob task tb" "\<not> settled (status_of s i)"
      then have "tb \<noteq> tab" using over by (force simp: kind_tab_def)
      then have "generation_of ?t tb = generation_of s tb"
        using True by (simp add: drop_tab_tail_def generation_of_def AList.delete_conv')
      with okd(8) i show "gen_of s i \<le> generation_of ?t tb" by (simp add: generations_ok_def)
    qed
    show "pending_ok ?t"
      using okd(9) unfolding pending_ok_def same_jobs_reads [OF same] by (simp add: drop_tab_tail_def)
  qed
qed (simp add: drop_tab_tail_def ok)

lemma drop_task_tail_ok:
  assumes ok: "sched_ok s" and k: "k < size_of s" "settled (status_of s k)" "kind_task (kind_of s k) = Some task"
  shows "sched_ok (drop_task_tail task k s)"
proof (cases "map_of (taskTails s) task = Some k")
  case True
  let ?t = "drop_task_tail task k s"
  note okd = sched_okD [OF ok]
  have same: "same_jobs s ?t" by (simp add: same_jobs_def drop_task_tail_def)
  have over: "settled (status_of s i)" if "i < size_of s" "kind_task (kind_of s i) = Some task" for i
    using task_tail_latest [OF okd(6) True that] tail_settles_task [OF ok k _ that(2)] by blast
  have tails: "map_of (taskTails ?t) tk = (if tk = task then None else map_of (taskTails s) tk)" for tk
    using True by (simp add: drop_task_tail_def AList.delete_conv')
  have fields: "tabTails ?t = tabTails s" "generations ?t = generations s" "pendingJobs ?t = pendingJobs s"
    "admissionEpoch ?t = admissionEpoch s" "lifecycleEpoch ?t = lifecycleEpoch s" "globalTail ?t = globalTail s"
    by (simp_all add: drop_task_tail_def)
  show ?thesis
  proof (rule same_jobs_ok [OF ok same fields(6)])
    show "task_tails_ok ?t"
      using okd(6) over unfolding task_tails_ok_def same_jobs_reads [OF same] tails by auto
    show "tab_tails_ok ?t" by (rule same_tails(1) [OF same fields(1) okd(5)])
    show "epochs_ok ?t" by (rule same_tails(3) [OF same same_epochs okd(7)]) (simp_all add: fields)
    have "generation_of ?t tb = generation_of s tb" for tb by (simp add: generation_of_def fields)
    with okd(8) show "generations_ok ?t" by (simp only: generations_ok_def same_jobs_reads [OF same])
    show "pending_ok ?t" using okd(9) by (simp only: pending_ok_def same_jobs_reads [OF same] fields)
  qed
qed (simp add: drop_task_tail_def ok)

lemma drop_tab_tail_jobs [simp]: "jobs (drop_tab_tail tab i s) = jobs s"
  by (simp add: drop_tab_tail_def)

lemma drop_tails_ok:
  assumes "sched_ok s" and i: "i < size_of s" "settled (status_of s i)"
  shows "sched_ok (drop_tails i s)"
proof -
  define s1 where "s1 = (case job_tab (jobs s ! i) of None \<Rightarrow> s | Some tab \<Rightarrow> drop_tab_tail tab i s)"
  have j: "jobs s1 = jobs s" by (simp add: s1_def split: option.split)
  have "sched_ok s1"
    using assms drop_tab_tail_ok [OF assms]
    by (auto simp: s1_def job_tab_kind kind_of_def split: option.split)
  then show ?thesis
    using i drop_task_tail_ok [of s1 i]
    by (auto simp: drop_tails_def Let_def j job_task_kind kind_of_def status_of_def s1_def [symmetric]
        split: option.split)
qed

lemma untrack_ok:
  assumes "sched_ok s" and i: "settled (status_of s i)"
  shows "sched_ok (untrack i s)"
proof -
  note okd = sched_okD [OF assms(1)]
  have same: "same_jobs s (untrack i s)" by (simp add: same_jobs_def untrack_def)
  show ?thesis
  proof (rule same_jobs_ok [OF assms(1) same])
    show "tab_tails_ok (untrack i s)" by (rule same_tails(1) [OF same _ okd(5)]) (simp add: untrack_def)
    show "task_tails_ok (untrack i s)" by (rule same_tails(2) [OF same _ okd(6)]) (simp add: untrack_def)
    show "epochs_ok (untrack i s)"
      by (rule same_tails(3) [OF same same_epochs okd(7)]) (simp_all add: untrack_def)
    show "generations_ok (untrack i s)"
      using okd(8) unfolding generations_ok_def same_jobs_reads [OF same]
      by (simp add: untrack_def generation_of_def)
    show "pending_ok (untrack i s)"
      using okd(9) i unfolding pending_ok_def same_jobs_reads [OF same] by (auto simp: untrack_def)
  qed (simp add: untrack_def)
qed

lemma invalidate_generation:
  assumes "sched_ok s" "i < size_of s" "kind_of s i = TabJob task tb" "\<not> settled (status_of s i)"
  shows "generation_of (invalidateQueuedTab tab reason s) tb =
    (if tb = tab then generation_of s tb + 1 else generation_of s tb)"
proof -
  have "kind_tab (kind_of s i) = Some tb" using assms(3) by (simp add: kind_tab_def)
  with sched_okD(5) [OF assms(1)] assms(2,4) have "map_of (tabTails s) tb \<noteq> None"
    unfolding tab_tails_ok_def by blast
  then show ?thesis by (auto simp: invalidateQueuedTab_def generation_of_def AList.delete_conv')
qed

lemma invalidate_ok:
  assumes "sched_ok s"
  shows "sched_ok (invalidateQueuedTab tab reason s)"
proof -
  let ?t = "invalidateQueuedTab tab reason s"
  note okd = sched_okD [OF assms]
  have same: "same_jobs s ?t" by (simp add: same_jobs_def invalidateQueuedTab_def)
  show ?thesis
  proof (rule same_jobs_ok [OF assms same])
    show "tab_tails_ok ?t" by (rule same_tails(1) [OF same _ okd(5)]) (simp add: invalidateQueuedTab_def)
    show "task_tails_ok ?t" by (rule same_tails(2) [OF same _ okd(6)]) (simp add: invalidateQueuedTab_def)
    show "epochs_ok ?t"
      by (rule same_tails(3) [OF same same_epochs okd(7)]) (simp_all add: invalidateQueuedTab_def)
    show "generations_ok ?t" unfolding generations_ok_def same_jobs_reads [OF same]
    proof (intro allI impI)
      fix i task tb assume i: "i < size_of s" "kind_of s i = TabJob task tb" "\<not> settled (status_of s i)"
      with okd(8) have "gen_of s i \<le> generation_of s tb" unfolding generations_ok_def by blast
      then show "gen_of s i \<le> generation_of ?t tb" by (auto simp: invalidate_generation [OF assms i])
    qed
    show "pending_ok ?t" using okd(9) unfolding pending_ok_def same_jobs_reads [OF same]
      by (simp add: invalidateQueuedTab_def)
  qed (simp add: invalidateQueuedTab_def)
qed

lemma control_step_frame:
  assumes "control_step s t"
  shows "jobs t = jobs s" "globalTail t = globalTail s" "tabTails t = tabTails s" "taskTails t = taskTails s"
    "generations t = generations s" "pendingJobs t = pendingJobs s" "kind_epoch s k \<le> kind_epoch t k"
  using assms
  by (induction rule: control_step.induct)
    (simp_all add: setInitialPaused_def revokePermissions_def restorePermissions_def disconnect_def pause_def
      resume_def kind_epoch_def split: job_kind.splits)

lemma control_ok:
  assumes "sched_ok s" and "control_step s t"
  shows "sched_ok t"
proof -
  note okd = sched_okD [OF assms(1)] and fr = control_step_frame [OF assms(2)]
  have same: "same_jobs s t" by (simp add: same_jobs_def fr)
  have g: "generation_of t tab = generation_of s tab" for tab by (simp add: generation_of_def fr)
  show ?thesis
  proof (rule same_jobs_ok [OF assms(1) same fr(2)])
    show "tab_tails_ok t" by (rule same_tails(1) [OF same fr(3) okd(5)])
    show "task_tails_ok t" by (rule same_tails(2) [OF same fr(4) okd(6)])
    show "epochs_ok t" by (rule same_tails(3) [OF same fr(7) okd(7)])
    show "generations_ok t" using okd(8) by (simp only: generations_ok_def same_jobs_reads [OF same] g)
    show "pending_ok t" using okd(9) by (simp only: pending_ok_def same_jobs_reads [OF same] fr)
  qed
qed

lemma sched_step_ok: "sched_step s t \<Longrightarrow> sched_ok s \<Longrightarrow> sched_ok t"
  by (induction rule: sched_step.induct)
    (auto dest!: admit_step_kind intro: admit_ok dispatch_ok finish_ok drop_tails_ok untrack_ok
      invalidate_ok control_ok)

interpretation sched_inv: inductive_invariant "\<lambda>s. s = new_scheduler" sched_step sched_ok
  by unfold_locales (auto intro: new_scheduler_ok sched_step_ok)

definition sched_reachable :: "sched \<Rightarrow> bool" where
  "sched_reachable = reach (\<lambda>s. s = new_scheduler) sched_step"

lemma sched_reachable_ok: "sched_reachable s \<Longrightarrow> sched_ok s"
  unfolding sched_reachable_def by (rule sched_inv.inv_reach)

section \<open>Work that has not started\<close>

text \<open>A step changes no captured value, and a job that left the queue never returns to it.\<close>

lemma drop_tails_jobs [simp]: "jobs (drop_tails i s) = jobs s"
  by (simp add: drop_tails_def Let_def drop_task_tail_def split: option.split)

lemma untrack_jobs [simp]: "jobs (untrack i s) = jobs s"
  by (simp add: untrack_def)

lemma invalidate_jobs [simp]: "jobs (invalidateQueuedTab tab reason s) = jobs s"
  by (simp add: invalidateQueuedTab_def)

lemma job_reads_cong: "jobs t = jobs s \<Longrightarrow> status_of t i = status_of s i \<and> kind_of t i = kind_of s i \<and>
    epoch_of t i = epoch_of s i \<and> gen_of t i = gen_of s i"
  by (simp add: job_reads)

lemma step_keeps_job:
  assumes "sched_step s t" and i: "i < size_of s"
  shows "i < size_of t \<and> kind_of t i = kind_of s i \<and> epoch_of t i = epoch_of s i \<and> gen_of t i = gen_of s i"
  using assms
proof (induction rule: sched_step.induct)
  case (st_admit s t)
  then show ?case by (auto dest: admit_step_kind)
next
  case (st_control s t)
  then show ?case using control_step_frame(1) [OF st_control(1)] by (simp add: job_reads)
qed (auto simp: dispatch_def job_reads set_status_nth)

text \<open>A queued job stays queued, or it is dispatched.\<close>

lemma step_status:
  assumes "sched_step s t" and "i < size_of s" and "status_of s i = Queued"
  shows "status_of t i = Queued \<or> (\<exists>e. status_of t i = Refused e) \<or>
    (status_of t i = Running \<and> refusal s (jobs s ! i) = None)"
  using assms
proof (induction rule: sched_step.induct)
  case (st_admit s t)
  then show ?case by (auto dest: admit_step_kind)
next
  case (st_dispatch s j)
  then show ?case by (auto simp: dispatch_def dispatchable_def split: option.splits)
next
  case (st_control s t)
  then show ?case using control_step_frame(1) [OF st_control(1)] by (simp add: job_reads)
qed (auto simp: job_reads set_status_nth)

lemma refused_stays:
  assumes "sched_step s t" and "i < size_of s" and "status_of s i = Refused e"
  shows "status_of t i = Refused e"
  using assms
proof (induction rule: sched_step.induct)
  case (st_admit s t)
  then show ?case by (auto dest: admit_step_kind)
next
  case (st_control s t)
  then show ?case using control_step_frame(1) [OF st_control(1)] by (simp add: job_reads)
qed (auto simp: dispatch_def dispatchable_def job_reads set_status_nth)

definition not_started :: "sched \<Rightarrow> nat \<Rightarrow> bool" where
  "not_started s i \<longleftrightarrow> i < size_of s \<and> (status_of s i = Queued \<or> (\<exists>e. status_of s i = Refused e))"

text \<open>A condition that makes dispatch refuse and that every step keeps dooms the job.\<close>

lemma doomed:
  assumes steps: "sched_step\<^sup>*\<^sup>* s t" and start: "sched_ok s" "not_started s i" "P s"
    and refuses: "\<And>u. P u \<Longrightarrow> sched_ok u \<Longrightarrow> i < size_of u \<Longrightarrow> status_of u i = Queued \<Longrightarrow> refusal u (jobs u ! i) \<noteq> None"
    and stable: "\<And>u v. P u \<Longrightarrow> sched_ok u \<Longrightarrow> not_started u i \<Longrightarrow> sched_step u v \<Longrightarrow> P v"
  shows "not_started t i"
proof -
  from steps have "sched_ok t \<and> not_started t i \<and> P t"
  proof (induction rule: rtranclp_induct)
    case (step u v)
    then have u: "sched_ok u" "not_started u i" "P u" by simp_all
    have "status_of v i = Queued \<or> (\<exists>e. status_of v i = Refused e)"
      using u step_status [OF step(2), of i] refused_stays [OF step(2), of i] refuses [OF u(3,1)]
      unfolding not_started_def by metis
    then show ?case
      using u step(2) sched_step_ok stable step_keeps_job [OF step(2), of i]
      unfolding not_started_def by blast
  qed (use start in simp)
  then show ?thesis by simp
qed

section \<open>Pauses\<close>

lemma kind_epoch_mono: "sched_step s t \<Longrightarrow> kind_epoch s k \<le> kind_epoch t k"
proof (induction rule: sched_step.induct)
  case (st_admit s t)
  then show ?case by (auto dest: admit_step_kind)
next
  case (st_control s t)
  then show ?case by (rule control_step_frame(7))
qed (auto simp: dispatch_def drop_tails_def Let_def drop_tab_tail_def drop_task_tail_def untrack_def
    invalidateQueuedTab_def kind_epoch_def split: option.split job_kind.split)

lemma refusal_old_epoch:
  "epoch_of s i < kind_epoch s (kind_of s i) \<Longrightarrow> refusal s (jobs s ! i) \<noteq> None"
  by (auto simp: refusal_def admitted_def kind_epoch_def epoch_of_def kind_of_def split: job_kind.splits)

lemma old_epoch_never_starts:
  assumes "sched_ok s" "not_started s i" "epoch_of s i < kind_epoch s (kind_of s i)" "sched_step\<^sup>*\<^sup>* s t"
  shows "not_started t i"
  using assms(4,1,2,3)
proof (rule doomed)
  fix u v assume u: "epoch_of u i < kind_epoch u (kind_of u i)" "not_started u i" and st: "sched_step u v"
  from u(2) have "i < size_of u" by (simp add: not_started_def)
  from step_keeps_job [OF st this] kind_epoch_mono [OF st] u(1)
  show "epoch_of v i < kind_epoch v (kind_of v i)" by (metis order.strict_trans2)
qed (rule refusal_old_epoch)

lemma bump_dooms:
  assumes ok: "sched_ok s" and q: "not_started s i" and t: "control_step s t" "sched_step\<^sup>*\<^sup>* t u"
    and e: "kind_epoch s (kind_of s i) < kind_epoch t (kind_of s i)"
  shows "not_started u i"
proof (rule old_epoch_never_starts [OF _ _ _ t(2)])
  note same = job_reads_cong [OF control_step_frame(1) [OF t(1)]]
  have i: "i < size_of s" using q by (simp add: not_started_def)
  show "sched_ok t" using ok t(1) by (rule control_ok)
  show "not_started t i" using q same [of i] control_step_frame(1) [OF t(1)] by (simp add: not_started_def)
  show "epoch_of t i < kind_epoch t (kind_of t i)"
    using sched_okD(7) [OF ok] i e same [of i] unfolding epochs_ok_def by (metis order.strict_trans1)
qed

section \<open>Revoked tabs\<close>

lemma refusal_old_generation:
  "kind_of s i = TabJob task tab \<Longrightarrow> gen_of s i < generation_of s tab \<Longrightarrow> refusal s (jobs s ! i) \<noteq> None"
  by (auto simp: refusal_def kind_of_def gen_of_def split: option.split)

lemma generation_mono:
  assumes "sched_step s t" and "sched_ok s" and "i < size_of s" "kind_of s i = TabJob task tab"
    and "\<not> settled (status_of s i)" "gen_of s i < generation_of s tab"
  shows "settled (status_of t i) \<or> gen_of t i < generation_of t tab"
  using assms
proof (induction rule: sched_step.induct)
  case (st_admit s t)
  then show ?case by (auto dest: admit_step_kind)
next
  case (st_control s t)
  then show ?case using control_step_frame [OF st_control(1)] by (simp add: job_reads generation_of_def)
next
  case (st_drop_tails j s)
  have "generation_of (drop_tails j s) tab = generation_of s tab"
  proof (cases "job_tab (jobs s ! j) = Some tab \<and> map_of (tabTails s) tab = Some j")
    case True
    then have "kind_tab (kind_of s j) = Some tab" by (simp add: job_tab_kind kind_of_def)
    moreover have ki: "kind_tab (kind_of s i) = Some tab" using st_drop_tails by (simp add: kind_tab_def)
    moreover have "i \<le> j"
      using tab_tail_latest [OF sched_okD(5) [OF st_drop_tails(3)] conjunct2 [OF True] _ ki] st_drop_tails by blast
    ultimately have "settled (status_of s i)"
      using tail_settles_tab [OF st_drop_tails(3,1,2)] by blast
    with st_drop_tails show ?thesis by simp
  next
    case False
    then show ?thesis
      by (auto simp: drop_tails_def Let_def drop_tab_tail_def drop_task_tail_def generation_of_def
          AList.delete_conv' split: option.split)
  qed
  with st_drop_tails show ?case by (simp add: job_reads)
next
  case (st_invalidate s tb reason)
  then show ?case using invalidate_generation [of s i task tab tb reason] by (auto simp: job_reads)
qed (auto simp: dispatch_def job_reads set_status_nth untrack_def generation_of_def)

lemma old_generation_never_starts:
  assumes "sched_ok s" "status_of s i = Queued" "i < size_of s" "kind_of s i = TabJob task tab"
    "gen_of s i < generation_of s tab" "sched_step\<^sup>*\<^sup>* s t"
  shows "not_started t i"
proof (rule doomed [where P = "\<lambda>u. i < size_of u \<and> kind_of u i = TabJob task tab \<and>
      (settled (status_of u i) \<or> gen_of u i < generation_of u tab)", OF assms(6,1)])
  show "not_started s i" using assms by (simp add: not_started_def)
next
  fix u assume "i < size_of u \<and> kind_of u i = TabJob task tab \<and>
      (settled (status_of u i) \<or> gen_of u i < generation_of u tab)" "status_of u i = Queued"
  then show "refusal u (jobs u ! i) \<noteq> None" using refusal_old_generation [of u i task tab] by auto
next
  fix u v assume u: "i < size_of u \<and> kind_of u i = TabJob task tab \<and>
      (settled (status_of u i) \<or> gen_of u i < generation_of u tab)" "sched_ok u" "not_started u i"
    and st: "sched_step u v"
  have "settled (status_of v i) \<or> gen_of v i < generation_of v tab"
  proof (cases "settled (status_of u i)")
    case True
    then obtain e where "status_of u i = Refused e" using u(3) by (auto simp: not_started_def)
    then show ?thesis using refused_stays [OF st] u(1) by simp
  qed (use generation_mono [OF st u(2)] u(1) in blast)
  then show "i < size_of v \<and> kind_of v i = TabJob task tab \<and>
      (settled (status_of v i) \<or> gen_of v i < generation_of v tab)"
    using step_keeps_job [OF st, of i] u(1) by simp
qed (use assms in simp)

lemma invalidated_never_starts:
  assumes ok: "sched_ok s" and i: "i < size_of s" "status_of s i = Queued" "kind_of s i = TabJob task tab"
    and steps: "sched_step\<^sup>*\<^sup>* (invalidateQueuedTab tab reason s) t"
  shows "not_started t i"
proof (rule old_generation_never_starts [OF _ _ _ _ _ steps])
  have "gen_of s i \<le> generation_of s tab"
    using sched_okD(8) [OF ok] i unfolding generations_ok_def by (metis settled.simps(3))
  then show "gen_of (invalidateQueuedTab tab reason s) i < generation_of (invalidateQueuedTab tab reason s) tab"
    using invalidate_generation [OF ok i(1,3), of tab reason] i by (simp add: job_reads)
qed (use ok i in \<open>simp_all add: invalidate_ok job_reads\<close>)

section \<open>Order and progress\<close>

lemma running_excludes:
  assumes "sched_ok s" "i < size_of s" "j < size_of s" "status_of s i = Running" "status_of s j = Running"
    and "waits (kind_of s j) (kind_of s i)" "waits (kind_of s i) (kind_of s j)"
  shows "i = j"
proof (rule ccontr)
  assume "i \<noteq> j"
  then consider "i < j" | "j < i" by linarith
  then show False
    by cases (use in_orderD [OF sched_okD(1) [OF assms(1)]] assms in force)+
qed

lemma some_work_can_go:
  assumes ok: "sched_ok s" and i: "i < size_of s" "\<not> settled (status_of s i)"
  shows "\<exists>k \<le> i. status_of s k = Running \<or> dispatchable s k"
  using i
proof (induction i rule: less_induct)
  case (less i)
  show ?case
  proof (cases "status_of s i = Running \<or> dispatchable s i")
    case False
    with less.prems have "status_of s i = Queued" by (cases "status_of s i") auto
    with False less.prems obtain d where d: "d \<in> set (deps_of s i)" "\<not> settled (status_of s d)"
      by (auto simp: dispatchable_def deps_of_def list_all_iff)
    with sched_okD(3) [OF ok] less.prems have "d < i" unfolding deps_earlier_def by blast
    with less.IH [OF this _ d(2)] less.prems show ?thesis by (meson le_trans less_imp_le less_trans)
  qed blast
qed

end
