(* ===== verification/OwnershipFacts.thy ===== *)
theory OwnershipFacts
  imports OwnershipOps SchedulerFacts
begin

text \<open>
  Facts about the ledger: what each operation keeps of the persisted state whatever Chrome answers
  and however the operation ends. \<open>holds Q\<close> says that the state is loaded, well formed and satisfies
  \<open>Q\<close>; the rules below carry it through every operation of the ledger.
\<close>

section \<open>Predicates on the persisted state\<close>

definition holds :: "(ext_state \<Rightarrow> bool) \<Rightarrow> string set \<Rightarrow> 'w sys \<Rightarrow> bool" where
  "holds Q E s \<longleftrightarrow> (case cached s of None \<Rightarrow> False | Some st \<Rightarrow> ext_ok st \<and> Q st) \<and> E \<subseteq> set (endedTaskIds s)"

lemma holdsE: "holds Q E s \<Longrightarrow> (\<And>st. cached s = Some st \<Longrightarrow> ext_ok st \<Longrightarrow> Q st \<Longrightarrow> E \<subseteq> set (endedTaskIds s) \<Longrightarrow> P) \<Longrightarrow> P"
  by (auto simp: holds_def split: option.splits)

lemma holdsI: "cached s = Some st \<Longrightarrow> ext_ok st \<Longrightarrow> Q st \<Longrightarrow> E \<subseteq> set (endedTaskIds s) \<Longrightarrow> holds Q E s"
  by (simp add: holds_def)

lemma holds_ready: "holds (\<lambda>_. True) {} s \<longleftrightarrow> ready s"
  by (simp add: holds_def ready_def split: option.split)

lemma holds_imp_ready: "holds Q E s \<Longrightarrow> ready s"
  by (auto simp: holds_def ready_def split: option.splits)

lemma world_free_holds [simp]: "world_free (holds Q E)"
  by (simp add: world_free_def holds_def)

text \<open>Committing a state stores an equivalent one, so \<open>Q\<close> must not see the difference.\<close>

definition equiv_closed :: "(ext_state \<Rightarrow> bool) \<Rightarrow> bool" where
  "equiv_closed Q \<longleftrightarrow> (\<forall>a b. state_equiv a b \<longrightarrow> ext_ok a \<longrightarrow> keys_ok b \<longrightarrow> Q b \<longrightarrow> Q a)"

definition about_tasks :: "(ext_state \<Rightarrow> bool) \<Rightarrow> bool" where
  "about_tasks Q \<longleftrightarrow>
     (\<forall>st st'. tasks st' = tasks st \<longrightarrow> stagedCommits st' = stagedCommits st \<longrightarrow> Q st \<longrightarrow> Q st')"

definition mutator_keeps :: "(ext_state \<Rightarrow> bool) \<Rightarrow> 'a mutator \<Rightarrow> bool" where
  "mutator_keeps Q f \<longleftrightarrow> (\<forall>st x st'. ext_ok st \<longrightarrow> Q st \<longrightarrow> f st = Inr (x, st') \<longrightarrow> keys_ok st' \<and> Q st')"

lemma mutateState_result:
  assumes s: "cached s = Some st" "ext_ok st" and m: "mutateState api f s = (Inr x, t)"
    and f: "\<forall>x st'. f st = Inr (x, st') \<longrightarrow> keys_ok st'"
  obtains st' v w where "f st = Inr (x, st')" "t = s\<lparr>world := w, cached := Some v\<rparr>" "ext_ok v"
    "state_equiv v st'"
proof -
  define g where "g = (\<lambda>st'. if st' = st then f st else Inl (new_error []))"
  have "keeps_keys g" using f by (auto simp: g_def keeps_keys_def split: if_splits)
  moreover have "mutateState api g s = mutateState api f s" by (simp add: mutateState_cached [OF s(1)] g_def)
  ultimately have "\<exists>st' v w. g st = Inr (x, st') \<and> t = s\<lparr>world := w, cached := Some v\<rparr> \<and> ext_ok v \<and>
      state_equiv v st'"
    using mutateState_Inr [OF s, of g api x t] m by simp
  moreover have "g st = f st" by (simp add: g_def)
  ultimately show ?thesis by (elim exE conjE) (rule that, simp_all)
qed

lemma holds_mutate:
  assumes Q: "equiv_closed Q" and f: "mutator_keeps Q f" and h: "holds Q E s" and m: "mutateState api f s = (r, t)"
  shows "holds Q E t"
proof -
  from h obtain st where st: "cached s = Some st" "ext_ok st" "Q st" "E \<subseteq> set (endedTaskIds s)" by (rule holdsE)
  show ?thesis
  proof (cases r)
    case (Inl e)
    from mutateState_Inl [OF st(1) m [unfolded Inl]] obtain w where "t = s\<lparr>world := w\<rparr>" by blast
    with st show ?thesis by (simp add: holds_def)
  next
    case (Inr x)
    have keys: "\<forall>x st'. f st = Inr (x, st') \<longrightarrow> keys_ok st'"
      using f st by (auto simp: mutator_keeps_def)
    obtain st' v w where v: "f st = Inr (x, st')"
      "t = s\<lparr>world := w, cached := Some v\<rparr>" "ext_ok v" "state_equiv v st'"
      by (rule mutateState_result [OF st(1,2) m [unfolded Inr] keys])
    from f st(2,3) v(1) have "keys_ok st'" "Q st'" unfolding mutator_keeps_def by blast+
    with Q v(3,4) have "Q v" unfolding equiv_closed_def by blast
    with v(3) st(4) show ?thesis by (simp add: holds_def v(2))
  qed
qed

lemma keeps_holds_mutate: "equiv_closed Q \<Longrightarrow> mutator_keeps Q f \<Longrightarrow> keeps (holds Q E) (mutateState api f)"
  by (rule keepsI) (metis holds_mutate prod.collapse)

lemma keeps_holds_readState [keeps_intros]: "keeps (holds Q E) (readState api)"
  by (auto simp: keeps_def holds_def readState_cached split: option.splits)

lemma equiv_closed_True [simp]: "equiv_closed (\<lambda>_. True)"
  by (simp add: equiv_closed_def)

lemma about_tasks_True [simp]: "about_tasks (\<lambda>_. True)"
  by (simp add: about_tasks_def)

lemma equiv_closed_conj: "equiv_closed P \<Longrightarrow> equiv_closed Q \<Longrightarrow> equiv_closed (\<lambda>st. P st \<and> Q st)"
  unfolding equiv_closed_def by blast

lemma about_tasks_conj: "about_tasks P \<Longrightarrow> about_tasks Q \<Longrightarrow> about_tasks (\<lambda>st. P st \<and> Q st)"
  unfolding about_tasks_def by blast

section \<open>The building blocks\<close>

lemma ext_ok_keys: "ext_ok st \<Longrightarrow> keys_ok st"
  by (simp add: ext_ok_def)

lemma keeps_keys_mutator:
  "about_tasks Q \<Longrightarrow> keeps_keys (on_revisions f) \<Longrightarrow> mutator_keeps Q (on_revisions f)"
  unfolding mutator_keeps_def keeps_keys_def about_tasks_def
  by (auto simp: on_revisions_def ext_ok_def split: prod.splits)

lemma revision_keys:
  "keeps_keys (on_revisions (ensure_rev k))" "keeps_keys (on_revisions (bump_rev k))"
  by (rule keeps_keys_revisions;
      auto simp: ensure_rev_def bump_rev_def Let_def distinct_keys_update split: option.split)+

definition tame :: "'w env \<Rightarrow> (ext_state \<Rightarrow> bool) \<Rightarrow> string set \<Rightarrow> bool" where
  "tame env Q E \<longleftrightarrow> equiv_closed Q \<and> about_tasks Q \<and>
     (\<forall>l \<in> set (listeners env). \<forall>t r. keeps (holds Q E) (l t r))"

lemma tameD: "tame env Q E \<Longrightarrow> equiv_closed Q" "tame env Q E \<Longrightarrow> about_tasks Q"
  by (simp_all add: tame_def)

lemma keeps_rev_ensure [keeps_intros]: "tame env Q E \<Longrightarrow> keeps (holds Q E) (rev_ensure (storage env) tab)"
  by (simp add: rev_ensure_def tameD keeps_holds_mutate keeps_keys_mutator revision_keys)

lemma keeps_rev_current [keeps_intros]: "tame env Q E \<Longrightarrow> keeps (holds Q E) (rev_current (storage env) tab)"
  by (auto simp: rev_current_def intro!: keeps_intros)

lemma keeps_rev_remove [keeps_intros]:
  "tame env Q E \<Longrightarrow> keeps (holds Q E) (rev_remove (storage env) (listeners env) tab)"
  by (auto simp: rev_remove_def publishChange_def tame_def revision_keys
      intro!: keeps_bnd keeps_for_each_in keeps_holds_mutate keeps_keys_mutator)

lemma keeps_same_cached:
  "(\<And>s. cached (f s) = cached s) \<Longrightarrow> (\<And>s. set (endedTaskIds s) \<subseteq> set (endedTaskIds (f s))) \<Longrightarrow>
     keeps (holds Q E) (modify f)"
  by (rule keeps_modify) (fastforce simp: holds_def)

lemma keeps_emit [keeps_intros]: "keeps (holds Q E) (emit event payload)"
  by (simp add: emit_def keeps_same_cached)

lemma keeps_revoke_tabs [keeps_intros]: "keeps (holds Q E) (revoke_tabs tabs)"
  by (simp add: revoke_tabs_def keeps_same_cached)

lemma keeps_end_task [keeps_intros]: "keeps (holds Q E) (end_task key)"
  unfolding end_task_def by (rule keeps_same_cached) auto

lemma keeps_now [keeps_intros]: "keeps (holds Q E) (now env)"
  by (simp add: now_def keeps_ask)

lemma keeps_tab_or_null [keeps_intros]: "keeps (holds Q E) (tab_or_null env tab)"
  by (auto simp: tab_or_null_def intro!: keeps_intros)

lemma keeps_badges [keeps_intros]:
  "keeps (holds Q E) (set_badge env tab)" "keeps (holds Q E) (clear_badge env tab)"
  by (auto simp: set_badge_def clear_badge_def intro!: keeps_intros)

lemma keeps_inventory [keeps_intros]: "tame env Q E \<Longrightarrow> keeps (holds Q E) (inventory env)"
  by (auto simp: inventory_def inventory_entry_def intro!: keeps_intros)

lemma keeps_emitInventory [keeps_intros]: "tame env Q E \<Longrightarrow> keeps (holds Q E) (emitInventory env)"
  by (auto simp: emitInventory_def intro!: keeps_intros)

lemma keeps_case_prod [keeps_intros]: "(\<And>a b. keeps I (f a b)) \<Longrightarrow> keeps I (case p of (a, b) \<Rightarrow> f a b)"
  by (cases p) simp

lemma keeps_case_sum [keeps_intros]:
  "(\<And>a. keeps I (f a)) \<Longrightarrow> (\<And>b. keeps I (g b)) \<Longrightarrow> keeps I (case p of Inl a \<Rightarrow> f a | Inr b \<Rightarrow> g b)"
  by (cases p) simp_all

lemma keeps_Let: "keeps I (f v) \<Longrightarrow> keeps I (Let v f)"
  by simp

lemma keeps_revokeNow:
  "tame env Q E \<Longrightarrow> (\<And>time. mutator_keeps Q (revoke_mutator tab time)) \<Longrightarrow> keeps (holds Q E) (revokeNow env tab event)"
  unfolding revokeNow_def by (intro keeps_intros keeps_holds_mutate tameD) auto

lemma keeps_assertOwnedNow:
  "tame env Q E \<Longrightarrow> (\<And>time. mutator_keeps Q (revoke_mutator tab time)) \<Longrightarrow> keeps (holds Q E) (assertOwnedNow env key tab)"
  unfolding assertOwnedNow_def by (intro keeps_intros keeps_revokeNow) auto

section \<open>Who owns what\<close>

definition core_is :: "string \<Rightarrow> task_record option \<Rightarrow> ext_state \<Rightarrow> bool" where
  "core_is key c st \<longleftrightarrow> map_option task_core (task st key) = c"

definition unowned :: "int \<Rightarrow> ext_state \<Rightarrow> bool" where
  "unowned tab st \<longleftrightarrow> (\<forall>key. \<forall>t. task st key = Some t \<longrightarrow> tab \<notin> set (tabIds t))"

definition no_stage :: "string \<Rightarrow> ext_state \<Rightarrow> bool" where
  "no_stage key st \<longleftrightarrow> (\<forall>k c. map_of (stagedCommits st) k = Some c \<longrightarrow> staged_task c \<noteq> key)"

definition absent :: "string \<Rightarrow> ext_state \<Rightarrow> bool" where
  "absent key st \<longleftrightarrow> task st key = None"

lemma absent_core: "absent key st \<longleftrightarrow> core_is key None st"
  by (simp add: absent_def core_is_def)

lemma task_core_tabs: "task_core t = task_core u \<Longrightarrow> tabIds t = tabIds u \<and> groupId t = groupId u"
  by (cases t; cases u) (simp add: task_core_def)

lemma task_core_fields [simp]: "tabIds (task_core t) = tabIds t" "groupId (task_core t) = groupId t"
  by (simp_all add: task_core_def)

lemma equiv_task_core:
  "state_equiv a b \<Longrightarrow> ext_ok a \<Longrightarrow> map_option task_core (task a key) = map_option task_core (task b key)"
  unfolding task_def by (rule state_equiv_tasks) (simp_all add: ext_ok_def keys_ok_def)

lemma equiv_closed_core: "equiv_closed (core_is key c)"
  by (simp add: equiv_closed_def core_is_def equiv_task_core)

lemma equiv_closed_unowned: "equiv_closed (unowned tab)"
  unfolding equiv_closed_def unowned_def
proof (intro allI impI)
  fix a b key t
  assume e: "state_equiv a b" "ext_ok a" and u: "\<forall>key t. task b key = Some t \<longrightarrow> tab \<notin> set (tabIds t)"
    and t: "task a key = Some t"
  from equiv_task_core [OF e, of key] t obtain t' where "task b key = Some t'" "task_core t = task_core t'"
    by (cases "task b key") auto
  with u show "tab \<notin> set (tabIds t)" by (auto dest: task_core_tabs)
qed

lemma staged_json_equiv:
  assumes "jsonEquivalent (staged_json c) (staged_json d)"
  shows "staged_task c = staged_task d"
proof -
  obtain a b where ab: "staged_json c = Obj a" "staged_json d = Obj b" by (simp add: staged_json_def)
  have "own a ''task_id''" using ab(1) by (auto simp: staged_json_def)
  with assms have "jsonEquivalent (jget a ''task_id'') (jget b ''task_id'')"
    unfolding ab by (rule equiv_jget)
  then show ?thesis using staged_json_fields(2) [of c a] staged_json_fields(2) [of d b] ab by simp
qed

lemma equiv_closed_no_stage: "equiv_closed (no_stage key)"
  unfolding equiv_closed_def no_stage_def
proof (intro allI impI)
  fix a b k c
  assume e: "state_equiv a b" and u: "\<forall>k c. map_of (stagedCommits b) k = Some c \<longrightarrow> staged_task c \<noteq> key"
    and c: "map_of (stagedCommits a) k = Some c"
  from equiv_map_obj [OF state_equiv_parts(5) [OF e] c] u show "staged_task c \<noteq> key"
    by (metis staged_json_equiv)
qed

lemma about_tasks_simps [simp]:
  "about_tasks (core_is key c)" "about_tasks (unowned tab)" "about_tasks (no_stage key)"
  by (simp_all add: about_tasks_def core_is_def unowned_def no_stage_def task_def)

lemma equiv_closed_absent: "equiv_closed (absent key)"
  using equiv_closed_core [of key None] by (simp add: equiv_closed_def absent_core)

lemma about_tasks_absent [simp]: "about_tasks (absent key)"
  by (simp add: about_tasks_def absent_def task_def)

section \<open>The mutators\<close>

lemma revoke_in_keys: "map fst (snd (revoke_in tab time ts)) = map fst ts"
  by (induction ts) (auto simp: Let_def split: prod.splits)

lemma revoke_in_lookup:
  "map_of (snd (revoke_in tab time ts)) k = map_of ts k \<or>
    (\<exists>t. map_of ts k = Some t \<and> tab \<in> set (tabIds t) \<and>
      map_of (snd (revoke_in tab time ts)) k = Some (without_tabs [tab] time t))"
  by (induction ts) (auto simp: Let_def split: prod.splits if_splits)

text \<open>A well-formed table has at most one owner of a tab.\<close>

lemma tasks_wf_ConsD: "tasks_wf ((k, t) # ts) \<Longrightarrow> tasks_wf ts"
  by (simp add: tasks_wf_def)

lemma all_tabs_member: "(k, t) \<in> set ts \<Longrightarrow> i \<in> set (tabIds t) \<Longrightarrow> i \<in> set (all_tabs ts)"
  by (force simp: all_tabs_def)

lemma without_tabs_gone: "tab \<in> set gone \<Longrightarrow> tab \<notin> set (tabIds (without_tabs gone time t))"
  by (simp add: without_tabs_def Let_def)

lemma revoke_in_unowned:
  "tasks_wf ts \<Longrightarrow> (k, t) \<in> set (snd (revoke_in tab time ts)) \<Longrightarrow> tab \<notin> set (tabIds t)"
proof (induction ts)
  case (Cons p ts)
  obtain key u where p: "p = (key, u)" by (cases p)
  have wf: "tasks_wf ts" using Cons.prems(1) p tasks_wf_ConsD by blast
  show ?case
  proof (cases "tab \<in> set (tabIds u)")
    case True
    then have "tab \<notin> set (all_tabs ts)" using Cons.prems(1) p by (auto simp: tasks_wf_def)
    then show ?thesis using Cons.prems(2) p True by (auto simp: Let_def without_tabs_gone dest: all_tabs_member)
  next
    case False
    then show ?thesis using Cons.prems(2) p Cons.IH [OF wf] by (auto split: prod.splits)
  qed
qed simp

lemma revoke_mutator_keys: "keys_ok st \<Longrightarrow> revoke_mutator tab time st = Inr (x, st') \<Longrightarrow> keys_ok st'"
  using revoke_in_keys [of tab time "tasks st"]
  by (auto simp: revoke_mutator_def keys_ok_def split: prod.splits)

lemma revoke_mutator_task:
  assumes "revoke_mutator tab time st = Inr (x, st')"
  shows "task st' key = task st key \<or>
    (\<exists>t. task st key = Some t \<and> tab \<in> set (tabIds t) \<and> task st' key = Some (without_tabs [tab] time t))"
  using assms revoke_in_lookup [of tab time "tasks st" key]
  by (auto simp: revoke_mutator_def task_def split: prod.splits)

lemma revoke_mutator_stages: "revoke_mutator tab time st = Inr (x, st') \<Longrightarrow> stagedCommits st' = stagedCommits st"
  by (auto simp: revoke_mutator_def split: prod.splits)

text \<open>A task that does not own the tab is left alone.\<close>

definition other_core :: "string \<Rightarrow> task_record option \<Rightarrow> int \<Rightarrow> bool" where
  "other_core key c tab \<longleftrightarrow> (case c of None \<Rightarrow> True | Some t \<Rightarrow> tab \<notin> set (tabIds t))"

lemma core_is_owns: "core_is key c st \<Longrightarrow> other_core key c tab \<Longrightarrow> task st key = Some t \<Longrightarrow> tab \<notin> set (tabIds t)"
  by (cases c) (auto simp: core_is_def other_core_def task_core_def)

lemma revoke_keeps_core: "other_core key c tab \<Longrightarrow> mutator_keeps (core_is key c) (revoke_mutator tab time)"
  unfolding mutator_keeps_def
proof (intro allI impI conjI)
  fix st x st' assume a: "other_core key c tab" "ext_ok st" "core_is key c st" "revoke_mutator tab time st = Inr (x, st')"
  show "keys_ok st'" using a by (auto intro: revoke_mutator_keys ext_ok_keys)
  show "core_is key c st'"
    using revoke_mutator_task [OF a(4), of key] core_is_owns [OF a(3,1)] a(3) by (auto simp: core_is_def)
qed

lemma put_task_other [simp]: "task (put_task k t st) key = (if key = k then Some t else task st key)"
  by (simp add: put_task_def task_def)

lemma put_task_keys: "keys_ok st \<Longrightarrow> keys_ok (put_task k t st)"
  by (simp add: put_task_def keys_ok_def distinct_keys_update)

lemma put_task_stages [simp]: "stagedCommits (put_task k t st) = stagedCommits st"
  by (simp add: put_task_def)

lemma note_created_keeps_core: "key \<noteq> other \<Longrightarrow> mutator_keeps (core_is other c) (note_created key tab)"
  by (auto simp: mutator_keeps_def note_created_def core_is_def ext_ok_keys put_task_keys split: option.split)

lemma grant_mutator_Inr:
  "grant_mutator ended key tab g created time pt st = Inr (x, st') \<Longrightarrow>
     st' = put_task key (granted tab g created time (case task st key of None \<Rightarrow> pt | Some t \<Rightarrow> t)) st \<and>
     \<not> list_ex (\<lambda>t. taskId t \<noteq> key) (owners st tab) \<and> \<not> (task st key = None \<and> key \<in> set ended)"
  by (auto simp: grant_mutator_def split: if_splits)

lemma grant_keeps_core: "key \<noteq> other \<Longrightarrow> mutator_keeps (core_is other c) (grant_mutator ended key tab g created time pt)"
  by (auto simp: mutator_keeps_def core_is_def ext_ok_keys put_task_keys dest!: grant_mutator_Inr)

lemma drop_stages_keys: "keys_ok st \<Longrightarrow> keys_ok (drop_stages key st)"
  by (auto simp: drop_stages_def keys_ok_def distinct_map_filter)

lemma drop_stages_tasks [simp]: "tasks (drop_stages key st) = tasks st"
  by (simp add: drop_stages_def)

lemma drop_stages_none: "no_stage key (drop_stages key st)"
  by (auto simp: no_stage_def drop_stages_def dest!: map_of_SomeD)

lemma delete_task_keys: "keys_ok st \<Longrightarrow> keys_ok (st\<lparr>tasks := AList.delete key (tasks st)\<rparr>)"
  by (simp add: keys_ok_def distinct_keys_delete)

lemma end_mutator_Inr:
  "end_mutator key st = Inr (x, st') \<Longrightarrow>
     absent key st' \<and> no_stage key st' \<and> (keys_ok st \<longrightarrow> keys_ok st') \<and> (\<forall>k. k \<noteq> key \<longrightarrow> task st' k = task st k)"
  using drop_stages_none by (auto simp: end_mutator_def drop_stages_keys delete_task_keys absent_def task_def
      AList.delete_conv')

lemma close_mutator_Inr:
  "close_mutator key st = Inr (x, st') \<Longrightarrow>
     absent key st' \<and> (keys_ok st \<longrightarrow> keys_ok st') \<and> (\<forall>k. k \<noteq> key \<longrightarrow> task st' k = task st k) \<and>
     (task st key \<noteq> None \<longrightarrow> no_stage key st') \<and> (task st key = None \<longrightarrow> st' = st)"
  using drop_stages_none by (auto simp: close_mutator_def drop_stages_keys delete_task_keys absent_def task_def
      AList.delete_conv' split: option.splits)

section \<open>Results of the operations\<close>

lemma mutateState_then:
  assumes m: "mutateState api f s = (Inr x, t)" and s: "holds P E s" and Q: "equiv_closed Q"
    and f: "\<And>st st'. ext_ok st \<Longrightarrow> P st \<Longrightarrow> f st = Inr (x, st') \<Longrightarrow> keys_ok st' \<and> Q st'"
    and k: "\<And>st x st'. keys_ok st \<Longrightarrow> f st = Inr (x, st') \<Longrightarrow> keys_ok st'"
  shows "holds Q E t"
proof -
  from s obtain st where st: "cached s = Some st" "ext_ok st" "P st" "E \<subseteq> set (endedTaskIds s)" by (rule holdsE)
  have "\<forall>x st'. f st = Inr (x, st') \<longrightarrow> keys_ok st'" using k st(2) ext_ok_keys by blast
  then obtain st' v w where v: "f st = Inr (x, st')" "t = s\<lparr>world := w, cached := Some v\<rparr>" "ext_ok v"
    "state_equiv v st'" by (rule mutateState_result [OF st(1,2) m])
  from f [OF st(2,3) v(1)] Q v(3,4) have "Q v" unfolding equiv_closed_def by blast
  with v(3) st(4) show ?thesis by (simp add: holds_def v(2))
qed

lemma keeps_run: "keeps I m \<Longrightarrow> I s \<Longrightarrow> m s = (r, t) \<Longrightarrow> I t"
  by (metis keepsD snd_conv)

lemma holds_call: "holds Q E s \<Longrightarrow> call f s = (r, t) \<Longrightarrow> holds Q E t"
  by (rule keeps_run [OF keeps_call [OF world_free_holds]])

lemma revoke_mutator_unowned:
  assumes "ext_ok st" "revoke_mutator tab time st = Inr (x, st')"
  shows "unowned tab st'"
proof -
  have "tasks_wf (tasks st)" using assms(1) by (simp add: ext_ok_def state_wf_def)
  note un = revoke_in_unowned [OF this, of _ _ tab time]
  from assms(2) have "tasks st' = snd (revoke_in tab time (tasks st))"
    by (auto simp: revoke_mutator_def split: prod.splits)
  then show ?thesis using un by (auto simp: unowned_def task_def dest!: map_of_SomeD)
qed

lemma revokeNow_rule:
  assumes t: "tame env Q {}" and s: "holds P {} s" and r: "revokeNow env tab event s = (Inr b, t)"
    and f: "\<And>st time x st'. ext_ok st \<Longrightarrow> P st \<Longrightarrow> revoke_mutator tab time st = Inr (x, st') \<Longrightarrow> Q st'"
  shows "holds Q {} t"
proof -
  from r obtain s1 time s2 changed s3 where s1: "revoke_tabs [tab] s = (Inr (), s1)"
    and s2: "now env s1 = (Inr time, s2)"
    and m: "mutateState (storage env) (revoke_mutator tab time) s2 = (Inr changed, s3)"
    and rest: "(case changed of None \<Rightarrow> ret False
      | Some (key, count) \<Rightarrow> seq (rev_remove (storage env) (listeners env) tab)
          (seq (emit event (changed_payload key count)) (seq (emitInventory env) (ret True)))) s3 = (Inr b, t)"
    unfolding revokeNow_def eff_Inr by auto
  from keeps_run [OF keeps_revoke_tabs s s1] have "holds P {} s1" .
  from keeps_run [OF keeps_now this s2] have "holds P {} s2" .
  then have s3: "holds Q {} s3"
    by (rule mutateState_then [OF m _ tameD(1) [OF t]])
      (auto intro: revoke_mutator_keys ext_ok_keys f)
  have "keeps (holds Q {}) (case changed of None \<Rightarrow> ret False
      | Some (key, count) \<Rightarrow> seq (rev_remove (storage env) (listeners env) tab)
          (seq (emit event (changed_payload key count)) (seq (emitInventory env) (ret True))))"
    using t by (intro keeps_intros)
  from keeps_run [OF this s3 rest] show ?thesis .
qed

lemma revokeNow_unowned:
  assumes "tame env (unowned tab) {}" "ready s" "revokeNow env tab event s = (Inr b, t)"
  shows "holds (unowned tab) {} t"
  using assms(2) by (intro revokeNow_rule [where P = "\<lambda>_. True", OF assms(1) _ assms(3)]) (auto simp: holds_ready intro: revoke_mutator_unowned)

lemma readState_ready:
  "readState api s = (r, t) \<Longrightarrow> holds Q E s \<Longrightarrow> t = s \<and> (\<exists>st. cached s = Some st \<and> r = Inr st \<and> ext_ok st \<and> Q st)"
  by (auto elim!: holdsE simp: readState_cached)

lemma ext_ok_tasks: "ext_ok st \<Longrightarrow> tasks_wf (tasks st)"
  by (simp add: ext_ok_def state_wf_def)

lemma tasks_wf_entry: "tasks_wf ts \<Longrightarrow> (k, t) \<in> set ts \<Longrightarrow> task_wf k t"
  by (auto simp: tasks_wf_def list_all_iff)

lemma tasks_wf_sole:
  "tasks_wf ts \<Longrightarrow> (k, t) \<in> set ts \<Longrightarrow> (k', t') \<in> set ts \<Longrightarrow> i \<in> set (tabIds t) \<Longrightarrow> i \<in> set (tabIds t') \<Longrightarrow> k = k'"
proof (induction ts)
  case (Cons p ts)
  obtain key u where p: "p = (key, u)" by (cases p)
  have "\<And>k t. (k, t) \<in> set ts \<Longrightarrow> set (tabIds u) \<inter> set (tabIds t) = {}"
    using Cons.prems(1) p by (force simp: tasks_wf_def all_tabs_def)
  then show ?case using Cons p tasks_wf_ConsD by (auto simp: disjoint_iff)
qed simp

lemma task_sole:
  assumes "ext_ok st" "task st k = Some t" "task st k' = Some t'" "i \<in> set (tabIds t)" "i \<in> set (tabIds t')"
  shows "k = k'"
  using assms tasks_wf_sole [OF ext_ok_tasks [OF assms(1)]] by (auto simp: task_def dest!: map_of_SomeD)

lemma owner_Some:
  assumes "ext_ok st" "owner st tab = Some t"
  shows "task st (taskId t) = Some t \<and> tab \<in> set (tabIds t)"
proof -
  from assms(2) have "t \<in> set (map snd (tasks st))" "tab \<in> set (tabIds t)"
    by (auto simp: owner_def find_Some_iff)
  then obtain k where k: "(k, t) \<in> set (tasks st)" by auto
  with tasks_wf_entry [OF ext_ok_tasks [OF assms(1)]] have "taskId t = k" by (auto simp: task_wf_def)
  moreover have "distinct (map fst (tasks st))" using assms(1) by (simp add: ext_ok_def keys_ok_def)
  ultimately show ?thesis using k \<open>tab \<in> set (tabIds t)\<close> by (simp add: task_def)
qed

lemma owner_None: "owner st tab = None \<longleftrightarrow> (\<forall>t \<in> set (map snd (tasks st)). tab \<notin> set (tabIds t))"
  by (auto simp: owner_def find_None_iff)

lemma task_owner:
  assumes "ext_ok st" "task st k = Some t" "tab \<in> set (tabIds t)"
  shows "owner st tab = Some t \<and> taskId t = k"
proof -
  have in_tasks: "(k, t) \<in> set (tasks st)" using assms(2) by (auto simp: task_def dest: map_of_SomeD)
  with assms(3) have "\<exists>t \<in> set (map snd (tasks st)). tab \<in> set (tabIds t)" by force
  then have "owner st tab \<noteq> None" unfolding owner_None by blast
  then obtain u where u: "owner st tab = Some u" by blast
  from owner_Some [OF assms(1) u] task_sole [OF assms(1,2)] assms(3) have "taskId u = k" by blast
  with owner_Some [OF assms(1) u] assms(2) u show ?thesis by auto
qed

text \<open>\<open>owns key tab\<close>: the task owns the tab, alone, and has a group.\<close>

definition owns :: "string \<Rightarrow> int \<Rightarrow> ext_state \<Rightarrow> bool" where
  "owns key tab st \<longleftrightarrow> (\<exists>t. task st key = Some t \<and> tab \<in> set (tabIds t))"

lemma owns_sole: "ext_ok st \<Longrightarrow> owns key tab st \<Longrightarrow> owns key' tab st \<Longrightarrow> key' = key"
  unfolding owns_def by (blast dest: task_sole)

lemma owns_group: "ext_ok st \<Longrightarrow> owns key tab st \<Longrightarrow> task st key = Some t \<Longrightarrow> groupId t \<noteq> None"
  by (auto simp: owns_def task_def task_wf_def split: option.splits
      dest!: map_of_SomeD tasks_wf_entry [OF ext_ok_tasks])

lemma equiv_closed_owns: "equiv_closed (owns key tab)"
  unfolding equiv_closed_def owns_def
proof (intro allI impI)
  fix a b assume e: "state_equiv a b" "ext_ok a" and "\<exists>t. task b key = Some t \<and> tab \<in> set (tabIds t)"
  then obtain t where "task b key = Some t" "tab \<in> set (tabIds t)" by blast
  with equiv_task_core [OF e, of key] show "\<exists>t. task a key = Some t \<and> tab \<in> set (tabIds t)"
    by (cases "task a key") (auto dest!: task_core_tabs)
qed

lemma about_tasks_owns [simp]: "about_tasks (owns key tab)"
  by (simp add: about_tasks_def owns_def task_def)

lemma assertOwnedNow_owner:
  assumes s: "ready s" and r: "assertOwnedNow env key tab s = (Inr t, s')"
  shows "\<exists>st. cached s' = Some st \<and> ext_ok st \<and> task st key = Some t \<and> tab \<in> set (tabIds t) \<and> groupId t \<noteq> None"
proof -
  have s0: "holds (\<lambda>_. True) {} s" using s by (simp add: holds_ready)
  from r obtain st s1 u live s2 current s3 where
    r1: "readState (storage env) s = (Inr st, s1)" and u: "sole_owner st key tab = Some u" "groupId u \<noteq> None"
    and r2: "tab_or_null env tab s1 = (Inr live, s2)"
    and r3: "readState (storage env) s2 = (Inr current, s3)"
    and t: "sole_owner current key tab = Some t" "groupId t = groupId u" "s' = s3"
    unfolding assertOwnedNow_def eff_Inr by auto
  have "s1 = s" using readState_ready [OF r1 s0] by simp
  then have s2: "holds (\<lambda>_. True) {} s2" using keeps_run [OF keeps_tab_or_null s0] r2 by simp
  from readState_ready [OF r3 s2] have "s3 = s2" "cached s2 = Some current" "ext_ok current" by auto
  with t u show ?thesis by (auto simp: sole_owner_def split: option.splits if_splits)
qed

section \<open>Grants\<close>

text \<open>What the mutator sees of the ended tasks is what it read.\<close>

lemma keeps_gets_ended:
  "(\<And>ended. E \<subseteq> set ended \<Longrightarrow> keeps (holds Q E) (f ended)) \<Longrightarrow> keeps (holds Q E) (bnd (gets endedTaskIds) f)"
  by (auto simp: keeps_def bnd_def gets_def holds_def)

lemma keeps_group_and_record:
  assumes "tame env Q E"
    and "\<And>ended g time pt. E \<subseteq> set ended \<Longrightarrow> mutator_keeps Q (grant_mutator ended key tab g created time pt)"
  shows "keeps (holds Q E) (group_and_record env key tab nm created refreshed)"
  unfolding group_and_record_def preview_of_def
  using assms by (auto intro!: keeps_gets_ended keeps_intros keeps_holds_mutate tameD)

lemma keeps_regroup [keeps_intros]: "keeps (holds Q E) (regroup env before tab)"
  unfolding regroup_def by (auto intro!: keeps_intros)

lemma keeps_grant:
  assumes "tame env Q E" "\<And>time. mutator_keeps Q (revoke_mutator tab time)" "mutator_keeps Q (note_created key tab)"
    and "\<And>ended g time pt. E \<subseteq> set ended \<Longrightarrow> mutator_keeps Q (grant_mutator ended key tab g created time pt)"
  shows "keeps (holds Q E) (grant env key tab nm created)"
  unfolding grant_def Let_def
  using assms by (auto intro!: keeps_group_and_record keeps_intros keeps_revokeNow keeps_holds_mutate tameD)

text \<open>A task that ended is not recreated.\<close>

lemma revoke_keeps_absent: "mutator_keeps (absent key) (revoke_mutator tab time)"
  using revoke_keeps_core [of key None tab time]
  by (simp add: other_core_def mutator_keeps_def absent_core)

lemma note_created_keeps_absent: "mutator_keeps (absent key) (note_created key tab)"
  by (auto simp: mutator_keeps_def note_created_def absent_def ext_ok_keys)

lemma grant_keeps_absent:
  "key \<in> set ended \<Longrightarrow> mutator_keeps (absent key) (grant_mutator ended key tab g created time pt)"
  by (auto simp: mutator_keeps_def absent_def dest!: grant_mutator_Inr)

lemma grant_no_resurrection:
  "tame env (absent key) {key} \<Longrightarrow> keeps (holds (absent key) {key}) (grant env key tab nm created)"
  by (rule keeps_grant) (auto intro: revoke_keeps_absent note_created_keeps_absent grant_keeps_absent)

text \<open>A grant leaves every other task alone, also when the tab is that task's.\<close>

lemma grant_denied:
  assumes s: "holds (core_is other c) {} s" and o: "other \<noteq> key" "c = Some t" "tab \<in> set (tabIds t)"
    and g: "grant env key tab nm created s = (r, s')"
  shows "holds (core_is other c) {} s'"
proof -
  obtain b s1 where b: "call (tabs_get env tab) s = (b, s1)" by (cases "call (tabs_get env tab) s")
  have s1: "holds (core_is other c) {} s1" by (rule holds_call [OF s b])
  show ?thesis
  proof (cases b)
    case (Inl e)
    with g b have "s' = s1" by (simp add: grant_def bnd_def)
    with s1 show ?thesis by simp
  next
    case (Inr before)
    from s1 obtain st where st: "cached s1 = Some st" "ext_ok st" "core_is other c st" by (rule holdsE)
    then obtain u where u: "task st other = Some u" "tab \<in> set (tabIds u)"
      using o(2,3) by (cases "task st other") (auto simp: core_is_def)
    from task_owner [OF st(2) u] o(1) g b Inr st(1) have "s' = s1"
      by (simp add: grant_def bnd_def readState_cached throw_def)
    with s1 show ?thesis by simp
  qed
qed

lemma grant_others:
  assumes "tame env (core_is other c) {}" and s: "holds (core_is other c) {} s" and o: "other \<noteq> key"
    and g: "grant env key tab nm created s = (r, s')"
  shows "holds (core_is other c) {} s'"
proof (cases "other_core other c tab")
  case True
  have "keeps (holds (core_is other c) {}) (grant env key tab nm created)"
    using assms(1) o by (intro keeps_grant revoke_keeps_core note_created_keeps_core grant_keeps_core True) auto
  from keeps_run [OF this s g] show ?thesis .
next
  case False
  then obtain t where "c = Some t" "tab \<in> set (tabIds t)" by (auto simp: other_core_def split: option.splits)
  from grant_denied [OF s o this g] show ?thesis .
qed

text \<open>A grant that returns normally made the task the owner.\<close>

lemma add_tab_set [simp]: "set (add_tab tab xs) = insert tab (set xs)"
  by (auto simp: add_tab_def)

lemma grant_mutator_owns:
  "grant_mutator ended key tab g created time pt st = Inr (x, st') \<Longrightarrow> owns key tab st'"
  by (auto simp: owns_def granted_def dest!: grant_mutator_Inr)

lemma grant_mutator_keys:
  "keys_ok st \<Longrightarrow> grant_mutator ended key tab g created time pt st = Inr (x, st') \<Longrightarrow> keys_ok st'"
  by (auto simp: put_task_keys dest!: grant_mutator_Inr)

lemma mutator_keeps_True: "(\<And>st x st'. keys_ok st \<Longrightarrow> f st = Inr (x, st') \<Longrightarrow> keys_ok st') \<Longrightarrow>
    mutator_keeps (\<lambda>_. True) f"
  by (auto simp: mutator_keeps_def intro: ext_ok_keys)

lemma revoke_keeps_True: "mutator_keeps (\<lambda>_. True) (revoke_mutator tab time)"
  by (rule mutator_keeps_True) (rule revoke_mutator_keys)

lemma group_and_record_owns:
  assumes t: "tame env (\<lambda>_. True) {}" and s: "holds (\<lambda>_. True) {} s"
    and g: "group_and_record env key tab nm created refreshed s = (Inr (), s')"
  shows "holds (owns key tab) {} s'"
proof -
  from g obtain gid s1 pt s2 s3 grouped s4 rev s5 ended time s6 where
    r: "call (tabs_group env tab (case task refreshed key of None \<Rightarrow> None | Some t \<Rightarrow> groupId t)) s = (Inr gid, s1)"
    "preview_of env key nm gid (task refreshed key) s1 = (Inr pt, s2)"
    "call (groups_update env gid (groupTitle pt (developerMode refreshed)) (color pt)) s2 = (Inr (), s3)"
    "call (tabs_get env tab) s3 = (Inr grouped, s4)" "rev_ensure (storage env) tab s4 = (Inr rev, s5)"
    "now env s5 = (Inr time, s6)"
    and m: "mutateState (storage env) (grant_mutator ended key tab gid created time pt) s6 = (Inr (), s')"
    unfolding group_and_record_def eff_Inr by auto
  have p: "keeps (holds (\<lambda>_. True) {}) (preview_of env key nm gid (task refreshed key))"
    unfolding preview_of_def by (intro keeps_intros)
  have s1: "holds (\<lambda>_. True) {} s1" by (rule holds_call [OF s r(1)])
  have s2: "holds (\<lambda>_. True) {} s2" by (rule keeps_run [OF p s1 r(2)])
  have s3: "holds (\<lambda>_. True) {} s3" by (rule holds_call [OF s2 r(3)])
  have s4: "holds (\<lambda>_. True) {} s4" by (rule holds_call [OF s3 r(4)])
  have s5: "holds (\<lambda>_. True) {} s5" by (rule keeps_run [OF keeps_rev_ensure [OF t] s4 r(5)])
  have s6: "holds (\<lambda>_. True) {} s6" by (rule keeps_run [OF keeps_now s5 r(6)])
  show ?thesis
    by (rule mutateState_then [OF m s6 equiv_closed_owns])
      (auto intro: grant_mutator_owns grant_mutator_keys ext_ok_keys)
qed

lemma keeps_owns_emit:
  "tame env (owns key tab) {} \<Longrightarrow> keeps (holds (owns key tab) {})
     (bnd (readState (storage env)) (\<lambda>after. seq (emit event (f after)) (emitInventory env)))"
  by (intro keeps_intros)

lemma note_created_owns: "mutator_keeps (owns key tab) (note_created key tab)"
  by (auto simp: mutator_keeps_def note_created_def owns_def ext_ok_keys put_task_keys split: option.split)

lemma grant_owns:
  assumes t: "tame env (\<lambda>_. True) {}" "tame env (owns key tab) {}" and s: "ready s"
    and g: "grant env key tab nm created s = (Inr (), s')"
  shows "holds (owns key tab) {} s'"
proof -
  have s0: "holds (\<lambda>_. True) {} s" using s by (simp add: holds_ready)
  from g obtain before s1 where b: "call (tabs_get env tab) s = (Inr before, s1)"
    unfolding grant_def bnd_Inr by blast
  have s1: "holds (\<lambda>_. True) {} s1" by (rule holds_call [OF s0 b])
  then obtain st where st: "cached s1 = Some st" "ext_ok st" by (rule holdsE)
  have r: "readState (storage env) s1 = (Inr st, s1)" by (rule readState_cached [OF st(1)])
  let ?mine = "case owner st tab of None \<Rightarrow> False | Some t \<Rightarrow> in_group before (groupId t) \<and> tab_group before \<noteq> Some (- 1)"
  from g b r have not_other: "\<not> (case owner st tab of None \<Rightarrow> False | Some t \<Rightarrow> taskId t \<noteq> key)"
    unfolding grant_def Let_def by (auto simp: bnd_def split: if_splits)
  show ?thesis
  proof (cases ?mine)
    case True
    with not_other obtain t where "owner st tab = Some t" "taskId t = key" by (auto split: option.splits)
    with owner_Some [OF st(2)] have "owns key tab st" by (auto simp: owns_def)
    with st have o: "holds (owns key tab) {} s1" by (simp add: holds_def)
    have "keeps (holds (owns key tab) {}) (seq (when_do (created \<and> tab \<notin> set (createdTabIds (the (owner st tab))))
                  (mutateState (storage env) (note_created key tab)))
              (bnd (rev_ensure (storage env) tab) (\<lambda>_. ret ())))"
      using t(2) by (intro keeps_intros keeps_holds_mutate equiv_closed_owns note_created_owns)
    from keeps_run [OF this o] g b r not_other True show ?thesis
      unfolding grant_def Let_def by (auto simp: bnd_def)
  next
    case False
    define m1 where "m1 = when_do (owner st tab \<noteq> None)
           (bnd (revokeNow env tab ''ownership_revoked'') (\<lambda>_. ret ()))"
    define m3 where "m3 = bnd (readState (storage env)) (\<lambda>after.
           seq (emit ''group_membership_changed'' (changed_payload key
                 (case task after key of None \<Rightarrow> 0 | Some t \<Rightarrow> int (length (tabIds t)))))
             (emitInventory env))"
    from g b r not_other False have "seq m1 (bnd (readState (storage env)) (\<lambda>refreshed.
        seq (try_catch (group_and_record env key tab nm created refreshed)
                (\<lambda>e. seq (regroup env before tab) (throw (grouping_failed e)))) m3)) s1 = (Inr (), s')"
      unfolding grant_def Let_def m1_def m3_def by (simp add: bnd_def)
    then obtain u1 s2 refreshed s3 u4 s4 where m1: "m1 s1 = (Inr u1, s2)"
      and rd: "readState (storage env) s2 = (Inr refreshed, s3)"
      and gr: "try_catch (group_and_record env key tab nm created refreshed)
                (\<lambda>e. seq (regroup env before tab) (throw (grouping_failed e))) s3 = (Inr u4, s4)"
      and m3: "m3 s4 = (Inr (), s')"
      unfolding bnd_Inr seq_Inr by blast
    have "keeps (holds (\<lambda>_. True) {}) m1"
      unfolding m1_def using t(1)
      by (intro keeps_intros keeps_revokeNow revoke_keeps_True)
    from keeps_run [OF this s1 m1] have s2: "holds (\<lambda>_. True) {} s2" .
    from readState_ready [OF rd s2] s2 have s3: "holds (\<lambda>_. True) {} s3" by simp
    from gr have "group_and_record env key tab nm created refreshed s3 = (Inr (), s4)"
      by (auto simp: try_catch_def seq_def bnd_def throw_def split: prod.splits sum.splits)
    from group_and_record_owns [OF t(1) s3 this] have s4: "holds (owns key tab) {} s4" .
    from keeps_run [OF keeps_owns_emit [OF t(2)] s4] m3 show ?thesis unfolding m3_def .
  qed
qed

section \<open>Ended tasks\<close>

definition gone :: "string \<Rightarrow> ext_state \<Rightarrow> bool" where
  "gone key st \<longleftrightarrow> absent key st \<and> no_stage key st"

lemma equiv_closed_gone: "equiv_closed (gone key)"
  using equiv_closed_absent equiv_closed_no_stage unfolding equiv_closed_def gone_def by blast

lemma keeps_removeTabs [keeps_intros]: "keeps (holds Q E) (removeTabs env tabs)"
  by (induction tabs) (auto intro!: keeps_intros)

lemma keeps_removeTaskTabs [keeps_intros]: "keeps (holds Q E) (removeTaskTabs env tabs)"
  unfolding removeTaskTabs_def by (intro keeps_intros)

lemma keeps_tab_loops [keeps_intros]:
  "keeps (holds Q E) (split_tab env t requested acc tab)"
  "keeps (holds Q E) (release_tab env t tab)"
  "keeps (holds Q E) (recheck_tab env t pair tab)"
  "keeps (holds Q E) (still_grouped env t ids tab)"
  unfolding split_tab_def release_tab_def recheck_tab_def still_grouped_def
  by (intro keeps_intros world_free_holds; fail)+

lemma end_task_holds: "holds Q {} s \<Longrightarrow> end_task key s = (Inr u, t) \<Longrightarrow> holds Q {key} t"
  by (auto simp: end_task_def holds_def)

lemma stages_none: "\<not> list_ex (\<lambda>c. staged_task c = key) (map snd (stagedCommits st)) \<Longrightarrow> no_stage key st"
  by (force simp: no_stage_def list_ex_iff dest: map_of_SomeD)

lemma end_mutator_gone: "ext_ok st \<Longrightarrow> end_mutator key st = Inr (x, st') \<Longrightarrow> keys_ok st' \<and> gone key st'"
  by (auto simp: gone_def ext_ok_keys dest!: end_mutator_Inr)

lemma end_mutator_keys: "keys_ok st \<Longrightarrow> end_mutator key st = Inr (x, st') \<Longrightarrow> keys_ok st'"
  by (auto dest!: end_mutator_Inr)

lemma finish_owned_rule:
  assumes t: "tame env Q {key}" and s: "holds P {} s"
    and f: "finish_owned env key d keep policy tk s = (Inr r, s')"
    and m: "\<And>st x st'. ext_ok st \<Longrightarrow> P st \<Longrightarrow> end_mutator key st = Inr (x, st') \<Longrightarrow> Q st'"
  shows "holds Q {key} s'"
proof -
  define rest where "rest = (\<lambda>retained closing.
     seq (for_each (tabIds tk) (rev_remove (storage env) (listeners env)))
     (seq (for_each retained (release_tab env tk))
     (bnd (fold_each closing (retained, []) (recheck_tab env tk)) (\<lambda>(retained', removable).
      bnd (removeTaskTabs env removable) (\<lambda>closed.
      seq (emit ''tab_removed'' (changed_payload key 0))
      (seq (emitInventory env)
        (ret \<lparr>finished = True, closed_ids = closed,
           retained_ids = filter (\<lambda>i. i \<in> set retained') (tabIds tk), deferred = None\<rparr>)))))))"
  from f obtain p s1 u2 s2 u3 s3 u4 s4 where
    r1: "fold_each (tabIds tk) ([], []) (split_tab env tk (retained_request d policy keep tk)) s = (Inr p, s1)"
    and r2: "revoke_tabs (tabIds tk) s1 = (Inr u2, s2)" and r3: "end_task key s2 = (Inr u3, s3)"
    and r4: "mutateState (storage env) (end_mutator key) s3 = (Inr u4, s4)"
    and r5: "rest (fst p) (snd p) s4 = (Inr r, s')"
    unfolding finish_owned_def rest_def case_prod_beta bnd_Inr seq_Inr by blast
  have k: "keeps (holds P {}) (fold_each (tabIds tk) ([], [])
      (split_tab env tk (retained_request d policy keep tk)))" by (intro keeps_intros)
  have s1: "holds P {} s1" by (rule keeps_run [OF k s r1])
  have s2: "holds P {} s2" by (rule keeps_run [OF keeps_revoke_tabs s1 r2])
  have s3: "holds P {key} s3" by (rule end_task_holds [OF s2 r3])
  have s4: "holds Q {key} s4"
    by (rule mutateState_then [OF r4 s3 tameD(1) [OF t]]) (auto dest: end_mutator_keys ext_ok_keys m)
  have "keeps (holds Q {key}) (rest (fst p) (snd p))"
    unfolding rest_def using t by (intro keeps_intros)
  from keeps_run [OF this s4 r5] show ?thesis .
qed

lemma finishTask_rule:
  assumes t: "tame env Q {key}" and s: "holds P {} s"
    and f: "finishTaskNow env key d keep s = (Inr r, s')" "finished r"
    and none: "\<And>st. ext_ok st \<Longrightarrow> P st \<Longrightarrow> absent key st \<Longrightarrow> no_stage key st \<Longrightarrow> Q st"
    and m: "\<And>st x st'. ext_ok st \<Longrightarrow> P st \<Longrightarrow> end_mutator key st = Inr (x, st') \<Longrightarrow> Q st'"
  shows "holds Q {key} s'"
proof -
  from s obtain st where st: "cached s = Some st" "ext_ok st" "P st" by (rule holdsE)
  have r: "readState (storage env) s = (Inr st, s)" by (rule readState_cached [OF st(1)])
  let ?staged = "list_ex (\<lambda>c. staged_task c = key) (map snd (stagedCommits st))"
  from f(1) r have ns: "\<not> ?staged" using f(2)
    by (auto simp: finishTaskNow_def bnd_def ret_def split: if_splits)
  show ?thesis
  proof (cases "task st key")
    case None
    with f(1) r ns have e: "seq (end_task key)
        (ret \<lparr>finished = True, closed_ids = [], retained_ids = [], deferred = None\<rparr>) s = (Inr r, s')"
      by (simp add: finishTaskNow_def bnd_def)
    have g: "holds Q {} s"
      using st None none [OF st(2,3) _ stages_none [OF ns]] by (simp add: holds_def absent_def)
    from e obtain u where "end_task key s = (Inr u, s')" by (auto simp: seq_Inr)
    from end_task_holds [OF g this] show ?thesis .
  next
    case (Some tk)
    have "finish_owned env key d keep (cleanupPolicy st) tk s = (Inr r, s')"
      using f r ns Some by (auto simp: finishTaskNow_def bnd_def seq_def ret_def throw_def
          split: if_splits prod.splits sum.splits)
    from finish_owned_rule [OF t s this m] show ?thesis .
  qed
qed

lemma finishTask_gone:
  assumes "tame env (gone key) {key}" and "ready s"
    and "finishTaskNow env key d keep s = (Inr r, s')" "finished r"
  shows "holds (gone key) {key} s'"
  using assms(2) by (intro finishTask_rule [where P = "\<lambda>_. True", OF assms(1) _ assms(3,4)])
    (auto simp: holds_ready gone_def dest: end_mutator_gone)

lemma close_mutator_gone:
  "ext_ok st \<Longrightarrow> task st key \<noteq> None \<Longrightarrow> close_mutator key st = Inr (x, st') \<Longrightarrow> keys_ok st' \<and> gone key st'"
  by (auto simp: gone_def ext_ok_keys dest!: close_mutator_Inr)

lemma close_mutator_keys: "keys_ok st \<Longrightarrow> close_mutator key st = Inr (x, st') \<Longrightarrow> keys_ok st'"
  by (auto dest!: close_mutator_Inr)

lemma drop_mutator_gone:
  "ext_ok st \<Longrightarrow> absent key st \<Longrightarrow> drop_stages_mutator key st = Inr (x, st') \<Longrightarrow> keys_ok st' \<and> gone key st'"
  using drop_stages_none by (auto simp: drop_stages_mutator_def gone_def absent_def task_def drop_stages_keys ext_ok_keys)

lemma closeTask_rule:
  assumes t: "tame env Q {key}" and s: "holds P {} s"
    and c: "closeTaskNow env key s = (Inr ids, s')"
    and none: "\<And>st x st'. ext_ok st \<Longrightarrow> P st \<Longrightarrow> absent key st \<Longrightarrow> drop_stages_mutator key st = Inr (x, st') \<Longrightarrow> Q st'"
    and some: "\<And>st x st'. ext_ok st \<Longrightarrow> P st \<Longrightarrow> task st key \<noteq> None \<Longrightarrow> close_mutator key st = Inr (x, st') \<Longrightarrow> Q st'"
  shows "holds Q {key} s'"
proof -
  from s obtain st where st: "cached s = Some st" "ext_ok st" "P st" by (rule holdsE)
  have r: "readState (storage env) s = (Inr st, s)" by (rule readState_cached [OF st(1)])
  show ?thesis
  proof (cases "task st key")
    case None
    have a: "holds (\<lambda>st. P st \<and> absent key st) {} s" using st None by (simp add: holds_def absent_def)
    from c r None obtain u1 s1 u2 where r1: "end_task key s = (Inr u1, s1)"
      and r2: "mutateState (storage env) (drop_stages_mutator key) s1 = (Inr u2, s')"
      by (auto simp: closeTaskNow_def bnd_def [of "readState (storage env)"] seq_Inr)
    show ?thesis
      by (rule mutateState_then [OF r2 end_task_holds [OF a r1] tameD(1) [OF t]])
        (auto intro: none drop_stages_keys ext_ok_keys simp: drop_stages_mutator_def)
  next
    case (Some ex)
    define rest where "rest = (\<lambda>tabs.
       seq (for_each tabs (rev_remove (storage env) (listeners env)))
           (bnd (fold_each tabs [] (still_grouped env ex)) (\<lambda>removable.
            bnd (removeTaskTabs env removable) (\<lambda>closed.
            seq (emit ''tab_removed'' (changed_payload key 0))
            (seq (emitInventory env) (ret closed))))))"
    have k: "holds (\<lambda>st. P st \<and> task st key \<noteq> None) {} s" using st Some by (simp add: holds_def)
    from c r Some have "seq (revoke_tabs (tabIds ex)) (seq (end_task key)
        (bnd (mutateState (storage env) (close_mutator key)) rest)) s = (Inr ids, s')"
      by (simp add: closeTaskNow_def bnd_def [of "readState (storage env)"] rest_def)
    then obtain u1 s1 u2 s2 tabs s3 where r1: "revoke_tabs (tabIds ex) s = (Inr u1, s1)"
      and r2: "end_task key s1 = (Inr u2, s2)"
      and r3: "mutateState (storage env) (close_mutator key) s2 = (Inr tabs, s3)"
      and r4: "rest tabs s3 = (Inr ids, s')"
      unfolding bnd_Inr seq_Inr by blast
    note s2 = end_task_holds [OF keeps_run [OF keeps_revoke_tabs k r1] r2]
    have s3: "holds Q {key} s3"
      by (rule mutateState_then [OF r3 s2 tameD(1) [OF t]]) (auto intro: some dest: close_mutator_keys ext_ok_keys)
    have "keeps (holds Q {key}) (rest tabs)"
      unfolding rest_def using t by (intro keeps_intros)
    from keeps_run [OF this s3 r4] show ?thesis .
  qed
qed

lemma closeTask_gone:
  assumes "tame env (gone key) {key}" and "ready s" and "closeTaskNow env key s = (Inr ids, s')"
  shows "holds (gone key) {key} s'"
  using assms(2) by (intro closeTask_rule [where P = "\<lambda>_. True", OF assms(1) _ assms(3)])
    (auto simp: holds_ready dest: close_mutator_gone drop_mutator_gone)

section \<open>The scheduler\<close>

text \<open>Apart from revocations the ledger leaves the scheduler alone.\<close>

definition store_free :: "('w sys \<Rightarrow> bool) \<Rightarrow> bool" where
  "store_free I \<longleftrightarrow> world_free I \<and> (\<forall>s c. I (s\<lparr>cached := c\<rparr>) = I s)"

lemma keeps_store_free:
  assumes "store_free I"
  shows "keeps I (readState api)" and "keeps I (mutateState api f)"
proof -
  have w: "world_free I" and c: "keeps I (modify (\<lambda>s. s\<lparr>cached := v\<rparr>))" for v
    using assms by (simp_all add: store_free_def keeps_modify)
  have l: "keeps I (loadInitialState api)"
    unfolding loadInitialState_def loadExisting_def loadFresh_def
    by (intro keeps_intros keeps_removeLegacyState w c)
  show r: "keeps I (readState api)" unfolding readState_def by (intro keeps_intros l)
  show "keeps I (mutateState api f)"
    unfolding mutateState_def commit_state_def
    by (intro keeps_intros keeps_case_sum keeps_case_prod r c w)
qed

definition sched_is :: "sched \<Rightarrow> 'w sys \<Rightarrow> bool" where
  "sched_is sc s \<longleftrightarrow> scheduler s = sc"

lemma store_free_sched [simp]: "store_free (sched_is sc)" "world_free (sched_is sc)"
  by (simp_all add: store_free_def world_free_def sched_is_def)

lemma keeps_sched_emit: "keeps (sched_is sc) (emit e p)"
  unfolding emit_def by (rule keeps_modify) (simp add: sched_is_def)

lemma keeps_sched_inventory: "keeps (sched_is sc) (emitInventory env)"
  unfolding emitInventory_def inventory_def inventory_entry_def rev_ensure_def
  by (intro keeps_intros keeps_store_free keeps_sched_emit store_free_sched)

lemma seq_modify_run: "seq (modify f) m s = m (f s)"
  by (simp add: seq_def bnd_def modify_def)

lemma revokeNow_scheduler:
  assumes l: "\<forall>l \<in> set (listeners env). \<forall>t r. keeps (sched_is (revokeTab tab (scheduler s))) (l t r)"
    and r: "revokeNow env tab event s = (r, s')"
  shows "scheduler s' = revokeTab tab (scheduler s)"
proof -
  let ?I = "sched_is (revokeTab tab (scheduler s))"
  have rm: "keeps ?I (rev_remove (storage env) (listeners env) tab)"
    unfolding rev_remove_def publishChange_def using l
    by (intro keeps_bnd keeps_store_free store_free_sched keeps_for_each_in) auto
  define rest where "rest = (bnd (now env) (\<lambda>time.
      bnd (mutateState (storage env) (revoke_mutator tab time)) (\<lambda>changed. case changed of
        None \<Rightarrow> ret False
      | Some (key, count) \<Rightarrow>
          seq (rev_remove (storage env) (listeners env) tab)
          (seq (emit event (changed_payload key count))
          (seq (emitInventory env) (ret True))))))"
  have k: "keeps ?I rest"
    unfolding rest_def now_def
    by (intro keeps_intros keeps_store_free store_free_sched keeps_sched_emit keeps_sched_inventory rm)
  have run: "rest (s\<lparr>scheduler := revokeTab tab (scheduler s)\<rparr>) = (r, s')"
    using r by (simp add: revokeNow_def rest_def revoke_tabs_def seq_modify_run)
  have "?I s'" by (rule keeps_run [OF k _ run]) (simp add: sched_is_def)
  then show ?thesis by (simp add: sched_is_def)
qed

end
