(* ===== verification/Challenge.thy ===== *)
theory Challenge
  imports JsValue
begin

text \<open>
  \<open>packages/extension/src/challenge.ts\<close>, first half: the signature catalog, the facts a page probe
  reports, the matcher (\<open>evaluate\<close>) and the choice of the challenge that governs the page
  (\<open>detect\<close>: activity gate, suppression of generic signatures, precedence).

  The matcher collects frames and elements by object identity, so the model collects their positions
  in the facts. Sizes are rationals, times integers. \<open>Date.parse\<close> is a parameter.
\<close>

section \<open>Strings\<close>

definition lower_char :: "char \<Rightarrow> char" where
  "lower_char c = (let n = (of_char c :: nat) in
     if (65 \<le> n \<and> n \<le> 90) \<or> (192 \<le> n \<and> n \<le> 222 \<and> n \<noteq> 215) then char_of (n + 32) else c)"

definition lower :: "string \<Rightarrow> string" where
  "lower = map lower_char"

definition white :: "char \<Rightarrow> bool" where
  "white c = (let n = (of_char c :: nat) in (9 \<le> n \<and> n \<le> 13) \<or> n = 32 \<or> n = 160)"

definition trim :: "string \<Rightarrow> string" where
  "trim s = rev (dropWhile white (rev (dropWhile white s)))"

definition starts_with :: "string \<Rightarrow> string \<Rightarrow> bool" where
  "starts_with s p \<longleftrightarrow> take (length p) s = p"

definition ends_with :: "string \<Rightarrow> string \<Rightarrow> bool" where
  "ends_with s p \<longleftrightarrow> starts_with (rev s) (rev p)"

fun includes_str :: "string \<Rightarrow> string \<Rightarrow> bool" where
  "includes_str [] p = (p = [])"
| "includes_str (c # cs) p = (starts_with (c # cs) p \<or> includes_str cs p)"

definition digit :: "char \<Rightarrow> bool" where
  "digit c = (let n = (of_char c :: nat) in 48 \<le> n \<and> n \<le> 57)"

definition ascii_letter :: "char \<Rightarrow> bool" where
  "ascii_letter c = (let n = (of_char (lower_char c) :: nat) in 97 \<le> n \<and> n \<le> 122)"

text \<open>\<open>[...new Set(xs)]\<close>\<close>

fun first_occurrences :: "'a list \<Rightarrow> 'a list" where
  "first_occurrences [] = []"
| "first_occurrences (x # xs) = x # filter (\<lambda>y. y \<noteq> x) (first_occurrences xs)"

section \<open>Catalog\<close>

datatype challenge_kind = Interstitial | Widget | Puzzle | Block | RateLimit
datatype interaction = Automatic | Human | NoInteraction
datatype confidence = High | Medium | Low
datatype active_when = ActiveDocument | VisibleFrame | VisibleElement | WidgetUnsolved | Never

record frame_leaf =
  leaf_host :: "string list option"
  leaf_suffix :: "string list option"
  leaf_paths :: "string list option"
  leaf_query_absent :: "(string \<times> string) option"
  leaf_query_equals :: "(string \<times> string) option"

datatype condition =
    Header string string
  | Status "int list"
  | Frame frame_leaf
  | Script "string list option" "string list"
  | Element string
  | AllOf "condition list"
  | AnyOf "condition list"
  | NotOf condition

record signal_rule =
  rule_signal :: string
  rule_confidence :: confidence
  rule_when :: condition

record signature =
  sig_id :: string
  sig_enabled :: bool
  sig_vendor :: string
  sig_product :: string
  sig_kind :: challenge_kind
  sig_interaction :: interaction
  sig_active_when :: active_when
  sig_wait_budget :: "int option"
  sig_token_field :: "string option"
  sig_min_size :: "(rat \<times> rat) option"
  sig_max_width :: "rat option"
  sig_max_height :: "rat option"
  sig_signals :: "signal_rule list"

record catalog =
  catalog_version :: string
  signatures :: "signature list"

section \<open>Facts\<close>

record url_fact =
  fact_host :: string
  fact_path :: string
  fact_query :: "string obj"

record frame_fact = url_fact +
  frame_id :: "string option"
  frame_origin :: string
  frame_visible :: bool
  frame_width :: rat
  frame_height :: rat

record element_fact =
  el_selector :: string
  el_count :: int
  el_visible :: bool
  el_width :: rat
  el_height :: rat

record token_fact =
  tok_selector :: string
  tok_present :: bool
  tok_non_empty :: bool

datatype probe = Debugger | Scripting

record probe_facts =
  facts_probe :: probe
  facts_origin :: string
  facts_status :: "int option"
  facts_headers :: "string obj option"
  facts_document_status :: "int option"
  facts_scripts :: "url_fact list"
  facts_frames :: "frame_fact list"
  facts_elements :: "element_fact list"
  facts_tokens :: "token_fact list"

section \<open>Helpers\<close>

datatype scope_class = DocumentScope | EmbeddedScope

definition scopeClassOf :: "challenge_kind \<Rightarrow> scope_class" where
  "scopeClassOf k = (if k = Interstitial \<or> k = Block \<or> k = RateLimit then DocumentScope else EmbeddedScope)"

text \<open>\<open>/^https?:\/\/[^/?#\s]+$/\<close>\<close>

definition origin_rest :: "string \<Rightarrow> string option" where
  "origin_rest s = (if starts_with s ''http://'' then Some (drop 7 s)
     else if starts_with s ''https://'' then Some (drop 8 s) else None)"

definition origin_pattern :: "string \<Rightarrow> bool" where
  "origin_pattern s = (case origin_rest s of None \<Rightarrow> False
     | Some r \<Rightarrow> r \<noteq> [] \<and> list_all (\<lambda>c. c \<noteq> CHR ''/'' \<and> c \<noteq> CHR ''?'' \<and> c \<noteq> CHR ''#'' \<and> \<not> white c) r)"

definition sanitizeOrigin :: "js \<Rightarrow> string option" where
  "sanitizeOrigin v = (case v of Str s \<Rightarrow> if length s \<le> 2048 \<and> origin_pattern s then Some s else None
     | _ \<Rightarrow> None)"

definition CHALLENGE_MAX_RETRY_AFTER_MS :: int where
  "CHALLENGE_MAX_RETRY_AFTER_MS = 86400000"

definition decimal :: "string \<Rightarrow> int" where
  "decimal s = foldl (\<lambda>a c. 10 * a + (int (of_char c) - 48)) 0 s"

fun three_letters :: "string \<Rightarrow> bool" where
  "three_letters (a # b # c # r) = ((ascii_letter a \<and> ascii_letter b \<and> ascii_letter c) \<or> three_letters (b # c # r))"
| "three_letters _ = False"

text \<open>A number of seconds whose thousandfold exceeds the largest double counts as infinite.\<close>

definition max_double :: int where
  "max_double = (2 ^ 53 - 1) * 2 ^ 971"

definition clamp_retry :: "int \<Rightarrow> int" where
  "clamp_retry ms = min CHALLENGE_MAX_RETRY_AFTER_MS (max 0 ms)"

definition retryAfterMs :: "(string \<Rightarrow> int option) \<Rightarrow> string option \<Rightarrow> int \<Rightarrow> int option" where
  "retryAfterMs dateParse value nowMs = (case value of
      None \<Rightarrow> None
    | Some v \<Rightarrow>
        (let trimmed = trim v in
         if trimmed = [] then None
         else if list_all digit trimmed
         then (if max_double < decimal trimmed * 1000 then None else Some (clamp_retry (decimal trimmed * 1000)))
         else if three_letters trimmed
         then map_option (\<lambda>date. clamp_retry (date - nowMs)) (dateParse trimmed)
         else None))"

fun CONFIDENCE_RANK :: "confidence \<Rightarrow> nat" where
  "CONFIDENCE_RANK High = 3" | "CONFIDENCE_RANK Medium = 2" | "CONFIDENCE_RANK Low = 1"

fun KIND_RANK :: "challenge_kind \<Rightarrow> nat" where
  "KIND_RANK Block = 5" | "KIND_RANK RateLimit = 4" | "KIND_RANK Interstitial = 3"
| "KIND_RANK Puzzle = 2" | "KIND_RANK Widget = 1"

section \<open>The leaves of a condition\<close>

fun leaves :: "condition \<Rightarrow> condition list" where
  "leaves (AllOf cs) = concat (map leaves cs)"
| "leaves (AnyOf cs) = concat (map leaves cs)"
| "leaves (NotOf c) = leaves c"
| "leaves c = [c]"

definition enabled_rules :: "catalog \<Rightarrow> signal_rule list" where
  "enabled_rules cat = concat (map sig_signals (filter sig_enabled (signatures cat)))"

definition enabled_leaves :: "catalog \<Rightarrow> condition list" where
  "enabled_leaves cat = concat (map (\<lambda>r. leaves (rule_when r)) (enabled_rules cat))"

fun leaf_selector :: "condition \<Rightarrow> string option" where
  "leaf_selector (Element s) = Some s"
| "leaf_selector _ = None"

definition catalogSelectors :: "catalog \<Rightarrow> string list" where
  "catalogSelectors cat = first_occurrences (List.map_filter leaf_selector (enabled_leaves cat))"

definition catalogTokenSelectors :: "catalog \<Rightarrow> string list" where
  "catalogTokenSelectors cat =
     first_occurrences (List.map_filter sig_token_field (filter sig_enabled (signatures cat)))"

definition hostMatchesSuffix :: "string \<Rightarrow> string \<Rightarrow> bool" where
  "hostMatchesSuffix host suffix =
     (let s = lower suffix; normalized = (if starts_with s ''.'' then tl s else s)
      in normalized \<noteq> [] \<and> (host = normalized \<or> ends_with host (CHR ''.'' # normalized)))"

definition hostMatchesLeaf :: "string \<Rightarrow> string list option \<Rightarrow> string list option \<Rightarrow> bool" where
  "hostMatchesLeaf host exact suffixes =
     ((exact = None \<and> suffixes = None) \<or>
      (case exact of None \<Rightarrow> False | Some hs \<Rightarrow> list_ex (\<lambda>h. lower h = lower host) hs) \<or>
      (case suffixes of None \<Rightarrow> False | Some ss \<Rightarrow> list_ex (hostMatchesSuffix (lower host)) ss))"

fun frame_leaf_admits :: "string \<Rightarrow> condition \<Rightarrow> bool" where
  "frame_leaf_admits host (Frame leaf) = hostMatchesLeaf host (leaf_host leaf) (leaf_suffix leaf)"
| "frame_leaf_admits host _ = False"

definition frameOfInterest :: "catalog \<Rightarrow> string \<Rightarrow> bool" where
  "frameOfInterest cat host = list_ex (frame_leaf_admits host) (enabled_leaves cat)"

section \<open>Evaluation\<close>

definition query_is :: "('z) url_fact_scheme \<Rightarrow> string \<times> string \<Rightarrow> bool" where
  "query_is u q \<longleftrightarrow> map_of (fact_query u) (fst q) = Some (snd q)"

definition frameMatches :: "('z) url_fact_scheme \<Rightarrow> frame_leaf \<Rightarrow> bool" where
  "frameMatches u leaf \<longleftrightarrow>
     hostMatchesLeaf (fact_host u) (leaf_host leaf) (leaf_suffix leaf) \<and>
     (case leaf_paths leaf of None \<Rightarrow> True | Some ps \<Rightarrow> list_ex (starts_with (fact_path u)) ps) \<and>
     (case leaf_query_absent leaf of None \<Rightarrow> True | Some q \<Rightarrow> \<not> query_is u q) \<and>
     (case leaf_query_equals leaf of None \<Rightarrow> True | Some q \<Rightarrow> query_is u q)"

text \<open>The positions of the entries that satisfy a test.\<close>

definition positions :: "('a \<Rightarrow> bool) \<Rightarrow> 'a list \<Rightarrow> nat list" where
  "positions P xs = filter (\<lambda>i. P (xs ! i)) [0..<length xs]"

record eval_result =
  ev_ok :: bool
  ev_frames :: "nat list"
  ev_elements :: "nat list"

definition evaluation :: "bool \<Rightarrow> nat list \<Rightarrow> nat list \<Rightarrow> eval_result" where
  "evaluation b fs es = \<lparr>ev_ok = b, ev_frames = fs, ev_elements = es\<rparr>"

definition unite :: "nat list list \<Rightarrow> nat list" where
  "unite xss = first_occurrences (concat xss)"

definition script_matches :: "string list option \<Rightarrow> string list \<Rightarrow> url_fact \<Rightarrow> bool" where
  "script_matches suffixes parts s \<longleftrightarrow>
     (suffixes = None \<or> hostMatchesLeaf (fact_host s) None suffixes) \<and>
     list_all (includes_str (fact_path s)) parts"

fun evaluate :: "probe_facts \<Rightarrow> condition \<Rightarrow> eval_result" where
  "evaluate facts (Header nm eq) = evaluation
     (case facts_headers facts of None \<Rightarrow> False | Some hs \<Rightarrow>
        (case map_of hs (lower nm) of None \<Rightarrow> False | Some v \<Rightarrow> lower (trim v) = lower eq)) [] []"
| "evaluate facts (Status codes) = evaluation
     (case facts_status facts of None \<Rightarrow> False | Some st \<Rightarrow> st \<in> set codes) [] []"
| "evaluate facts (Frame leaf) =
     (let fs = positions (\<lambda>f. frameMatches f leaf) (facts_frames facts) in evaluation (fs \<noteq> []) fs [])"
| "evaluate facts (Script suffixes parts) =
     evaluation (list_ex (script_matches suffixes parts) (facts_scripts facts)) [] []"
| "evaluate facts (Element sel) =
     (let es = positions (\<lambda>e. el_selector e = sel \<and> 0 < el_count e) (facts_elements facts)
      in evaluation (es \<noteq> []) [] es)"
| "evaluate facts (AllOf cs) =
     (let parts = map (evaluate facts) cs
      in if list_all ev_ok parts
         then evaluation True (unite (map ev_frames parts)) (unite (map ev_elements parts))
         else evaluation False [] [])"
| "evaluate facts (AnyOf cs) =
     (let parts = filter ev_ok (map (evaluate facts) cs)
      in if parts = [] then evaluation False [] []
         else evaluation True (unite (map ev_frames parts)) (unite (map ev_elements parts)))"
| "evaluate facts (NotOf c) = evaluation (\<not> ev_ok (evaluate facts c)) [] []"

section \<open>Detection\<close>

datatype surface_scope = ScopeDocument | ScopeFrame | ScopeElement

record surface =
  surf_scope :: surface_scope
  surf_frame_id :: "string option"
  surf_origin :: "string option"
  surf_visible :: bool

definition plain_surface :: "surface_scope \<Rightarrow> surface" where
  "plain_surface s = \<lparr>surf_scope = s, surf_frame_id = None, surf_origin = None, surf_visible = True\<rparr>"

record match =
  m_sig :: signature
  m_signals :: "string list"
  m_confidence :: confidence
  m_observable :: bool
  m_frames :: "nat list"
  m_elements :: "nat list"

record detection =
  det_sig :: signature
  det_signals :: "string list"
  det_confidence :: confidence
  det_surface :: surface
  det_token :: "bool option"
  det_retry_header :: "string option"
  det_observable :: bool

record presence =
  pr_signature :: string
  pr_vendor :: string
  pr_token :: "bool option"

definition sizeFits :: "signature \<Rightarrow> rat \<Rightarrow> rat \<Rightarrow> bool" where
  "sizeFits sg w h \<longleftrightarrow>
     (case sig_min_size sg of None \<Rightarrow> True | Some (mw, mh) \<Rightarrow> \<not> (w < mw \<or> h < mh)) \<and>
     (case sig_max_width sg of None \<Rightarrow> True | Some mw \<Rightarrow> \<not> mw < w) \<and>
     (case sig_max_height sg of None \<Rightarrow> True | Some mh \<Rightarrow> \<not> mh < h)"

definition one_frame_surface :: "frame_fact \<Rightarrow> surface" where
  "one_frame_surface f =
     (let origin = sanitizeOrigin (Str (frame_origin f))
      in case (frame_id f, origin) of
           (Some i, Some o1) \<Rightarrow>
             (if 0 < length i \<and> length i \<le> 256
              then \<lparr>surf_scope = ScopeFrame, surf_frame_id = Some i, surf_origin = Some o1, surf_visible = True\<rparr>
              else \<lparr>surf_scope = ScopeElement, surf_frame_id = None, surf_origin = origin, surf_visible = True\<rparr>)
         | _ \<Rightarrow> \<lparr>surf_scope = ScopeElement, surf_frame_id = None, surf_origin = origin, surf_visible = True\<rparr>)"

definition frameSurface :: "signature \<Rightarrow> frame_fact list \<Rightarrow> surface option" where
  "frameSurface sg frames = map_option one_frame_surface
     (find (\<lambda>f. frame_visible f \<and> sizeFits sg (frame_width f) (frame_height f)) frames)"

definition element_qualifies :: "signature \<Rightarrow> element_fact \<Rightarrow> bool" where
  "element_qualifies sg e \<longleftrightarrow> el_visible e \<and> sizeFits sg (el_width e) (el_height e)"

definition elementSurface :: "signature \<Rightarrow> element_fact list \<Rightarrow> surface option" where
  "elementSurface sg els =
     (if els = [] then None
      else if list_all (\<lambda>e. list_ex (\<lambda>e'. el_selector e' = el_selector e \<and> element_qualifies sg e') els) els
      then Some (plain_surface ScopeElement) else None)"

fun page_leaf :: "condition \<Rightarrow> bool" where
  "page_leaf (Frame l) = True" | "page_leaf (Script a b) = True" | "page_leaf (Element s) = True"
| "page_leaf _ = False"

definition hasPageLeaf :: "condition \<Rightarrow> bool" where
  "hasPageLeaf c = list_ex page_leaf (leaves c)"

definition isGeneric :: "signature \<Rightarrow> bool" where
  "isGeneric sg = starts_with (sig_id sg) ''generic.''"

definition tokenState :: "signature \<Rightarrow> probe_facts \<Rightarrow> bool option" where
  "tokenState sg facts = map_option (\<lambda>field.
     list_ex (\<lambda>t. tok_selector t = field \<and> tok_non_empty t) (facts_tokens facts)) (sig_token_field sg)"

definition gate :: "match \<Rightarrow> probe_facts \<Rightarrow> surface option" where
  "gate m facts =
     (let sg = m_sig m;
          frames = map ((!) (facts_frames facts)) (m_frames m);
          els = map ((!) (facts_elements facts)) (m_elements m);
          surface = (case sig_active_when sg of
              Never \<Rightarrow> None
            | ActiveDocument \<Rightarrow> Some (plain_surface ScopeDocument)
            | VisibleFrame \<Rightarrow> frameSurface sg frames
            | VisibleElement \<Rightarrow> elementSurface sg els
            | WidgetUnsolved \<Rightarrow>
                (let s = (case frameSurface sg frames of None \<Rightarrow> elementSurface sg els | Some f \<Rightarrow> Some f)
                 in if tokenState sg facts = Some True then None else s))
      in map_option (\<lambda>s. if scopeClassOf (sig_kind sg) = DocumentScope then plain_surface ScopeDocument else s)
           surface)"

definition best_confidence :: "confidence list \<Rightarrow> confidence" where
  "best_confidence cs = foldl (\<lambda>best c. if CONFIDENCE_RANK best < CONFIDENCE_RANK c then c else best) Low cs"

definition held_rules :: "probe_facts \<Rightarrow> signature \<Rightarrow> signal_rule list" where
  "held_rules facts sg = filter (\<lambda>r. ev_ok (evaluate facts (rule_when r))) (sig_signals sg)"

definition match_of :: "probe_facts \<Rightarrow> signature \<Rightarrow> match" where
  "match_of facts sg =
     (let held = held_rules facts sg
      in \<lparr>m_sig = sg, m_signals = first_occurrences (map rule_signal held),
          m_confidence = best_confidence (map rule_confidence held),
          m_observable = list_ex (\<lambda>r. hasPageLeaf (rule_when r)) held,
          m_frames = unite (map (\<lambda>r. ev_frames (evaluate facts (rule_when r))) held),
          m_elements = unite (map (\<lambda>r. ev_elements (evaluate facts (rule_when r))) held)\<rparr>)"

definition matches_of :: "catalog \<Rightarrow> probe_facts \<Rightarrow> match list" where
  "matches_of cat facts = map (match_of facts)
     (filter (\<lambda>sg. sig_enabled sg \<and> held_rules facts sg \<noteq> []) (signatures cat))"

definition presence_of :: "probe_facts \<Rightarrow> match \<Rightarrow> presence" where
  "presence_of facts m = \<lparr>pr_signature = sig_id (m_sig m), pr_vendor = sig_vendor (m_sig m),
     pr_token = tokenState (m_sig m) facts\<rparr>"

definition candidates :: "match list \<Rightarrow> probe_facts \<Rightarrow> (match \<times> surface) list" where
  "candidates ms facts =
     (let vendorMatched = list_ex (\<lambda>m. \<not> isGeneric (m_sig m)) ms
      in List.map_filter (\<lambda>m. if vendorMatched \<and> isGeneric (m_sig m) then None
           else map_option (\<lambda>s. (m, s)) (gate m facts)) ms)"

text \<open>The sort is by kind, then confidence, then catalog order.\<close>

definition rank :: "match \<times> surface \<Rightarrow> nat" where
  "rank c = 4 * KIND_RANK (sig_kind (m_sig (fst c))) + CONFIDENCE_RANK (m_confidence (fst c))"

definition best_candidate :: "(match \<times> surface) list \<Rightarrow> (match \<times> surface) option" where
  "best_candidate cs = (case sort_key (\<lambda>c. - int (rank c)) cs of [] \<Rightarrow> None | c # r \<Rightarrow> Some c)"

definition detection_of :: "probe_facts \<Rightarrow> match \<times> surface \<Rightarrow> detection" where
  "detection_of facts c = (case c of (m, s) \<Rightarrow>
     \<lparr>det_sig = m_sig m, det_signals = m_signals m, det_confidence = m_confidence m, det_surface = s,
      det_token = tokenState (m_sig m) facts,
      det_retry_header = (if sig_kind (m_sig m) = RateLimit
        then Option.bind (facts_headers facts) (\<lambda>hs. map_of hs ''retry-after'') else None),
      det_observable = m_observable m\<rparr>)"

definition detect :: "catalog \<Rightarrow> probe_facts \<Rightarrow> detection option \<times> presence list" where
  "detect cat facts =
     (let ms = matches_of cat facts
      in (map_option (detection_of facts) (best_candidate (candidates ms facts)), map (presence_of facts) ms))"

end
