(* ===== verification/ChallengeEpisodes.thy ===== *)
theory ChallengeEpisodes
  imports Challenge
begin

text \<open>
  \<open>challenge.ts\<close>, second half: the episodes of a task, how one scan advances them (\<open>advance\<close>), the
  event a client sees (\<open>episodeEvent\<close>) and the validation of stored episodes
  (\<open>parseChallengeEpisode\<close>). Where the code tells episodes apart by object identity the model uses
  their position in the list.
\<close>

section \<open>Episodes\<close>

datatype ep_state = Active | Cleared | Superseded
datatype ep_next = Wait | HandoffNext | RetryLater | Stop | NoNext

record episode =
  challenge_id :: string
  ep_tab :: int
  page_revision :: int
  first_page_revision :: int
  first_detected_at :: int
  detected_at :: int
  page_origin :: string
  vendor :: string
  product :: string
  ep_kind :: challenge_kind
  ep_interaction :: interaction
  ep_state :: ep_state
  ep_confidence :: confidence
  ep_surface :: surface
  token_present :: "bool option"
  signals :: "string list"
  ep_next :: ep_next
  wait_budget_ms :: "int option"
  retry_after_ms :: "int option"
  notice_id :: "string option"
  det_catalog_version :: string
  det_probe :: probe
  ep_task :: string
  scope_class :: scope_class
  signature_id :: string
  budget_ms :: "int option"
  observable_by_scripting :: bool
  document_status :: "int option"
  terminal_reported :: bool

definition CHALLENGE_EPISODE_TTL_MS :: int where "CHALLENGE_EPISODE_TTL_MS = 15 * 60000"
definition CHALLENGE_MAX_EPISODES_PER_TASK :: nat where "CHALLENGE_MAX_EPISODES_PER_TASK = 32"
definition CHALLENGE_MIN_WAIT_MS :: int where "CHALLENGE_MIN_WAIT_MS = 1000"
definition MAX_SIGNALS :: nat where "MAX_SIGNALS = 16"

record scan_ctx =
  ctx_task :: string
  ctx_tab :: int
  ctx_revision :: int
  ctx_origin :: string
  ctx_status :: "int option"
  ctx_now :: int
  ctx_probe :: probe
  ctx_catalog :: string
  ctx_new_id :: string
  ctx_date_parse :: "string \<Rightarrow> int option"

definition refreshNext :: "episode \<Rightarrow> int \<Rightarrow> episode" where
  "refreshNext e now =
     (let e0 = e\<lparr>wait_budget_ms := None\<rparr> in
      if ep_state e0 \<noteq> Active then e0\<lparr>ep_next := NoNext, retry_after_ms := None\<rparr>
      else
        (let e1 =
           (if ep_kind e0 = Block then e0\<lparr>ep_next := Stop\<rparr>
            else if ep_kind e0 = RateLimit then e0\<lparr>ep_next := RetryLater\<rparr>
            else if ep_interaction e0 = Automatic
            then (let remaining = (case budget_ms e0 of None \<Rightarrow> 0
                        | Some b \<Rightarrow> b - (now - first_detected_at e0))
                  in if CHALLENGE_MIN_WAIT_MS \<le> remaining
                     then e0\<lparr>ep_next := Wait, wait_budget_ms := Some (min 120000 remaining)\<rparr>
                     else e0\<lparr>ep_next := HandoffNext\<rparr>)
            else e0\<lparr>ep_next := HandoffNext\<rparr>)
         in if ep_kind e1 \<noteq> RateLimit then e1\<lparr>retry_after_ms := None\<rparr> else e1))"

definition applyDetection :: "episode \<Rightarrow> detection \<Rightarrow> scan_ctx \<Rightarrow> episode" where
  "applyDetection e d ctx =
     (let sg = det_sig d in
      refreshNext (e\<lparr>page_revision := ctx_revision ctx, detected_at := ctx_now ctx,
        signature_id := sig_id sg, page_origin := ctx_origin ctx, vendor := sig_vendor sg,
        product := sig_product sg, ep_kind := sig_kind sg, ep_interaction := sig_interaction sg,
        ep_state := Active, ep_confidence := det_confidence d, ep_surface := det_surface d,
        signals := take MAX_SIGNALS (det_signals d), scope_class := scopeClassOf (sig_kind sg),
        det_catalog_version := ctx_catalog ctx, det_probe := ctx_probe ctx,
        budget_ms := sig_wait_budget sg,
        token_present := (if sig_kind sg = Widget then det_token d else None),
        retry_after_ms := (if sig_kind sg = RateLimit
          then retryAfterMs (ctx_date_parse ctx) (det_retry_header d) (ctx_now ctx) else None),
        observable_by_scripting := det_observable d, document_status := ctx_status ctx\<rparr>) (ctx_now ctx))"

text \<open>The fields a new episode does not set before \<open>applyDetection\<close> sets them.\<close>

definition blank_episode :: "scan_ctx \<Rightarrow> episode" where
  "blank_episode ctx = \<lparr>challenge_id = ctx_new_id ctx, ep_tab = ctx_tab ctx, page_revision = ctx_revision ctx,
     first_page_revision = ctx_revision ctx, first_detected_at = ctx_now ctx, detected_at = ctx_now ctx,
     page_origin = [], vendor = [], product = [], ep_kind = Interstitial, ep_interaction = NoInteraction,
     ep_state = Active, ep_confidence = Low, ep_surface = plain_surface ScopeDocument,
     token_present = None, signals = [], ep_next = NoNext, wait_budget_ms = None, retry_after_ms = None,
     notice_id = None, det_catalog_version = [], det_probe = ctx_probe ctx, ep_task = ctx_task ctx,
     scope_class = DocumentScope, signature_id = [], budget_ms = None, observable_by_scripting = True,
     document_status = None, terminal_reported = False\<rparr>"

definition createEpisode :: "detection \<Rightarrow> scan_ctx \<Rightarrow> episode" where
  "createEpisode d ctx = applyDetection (blank_episode ctx) d ctx"

definition settle :: "ep_state \<Rightarrow> bool \<Rightarrow> scan_ctx \<Rightarrow> episode \<Rightarrow> episode" where
  "settle new touch ctx e =
     (let e1 = e\<lparr>ep_state := new, ep_surface := (ep_surface e)\<lparr>surf_visible := False\<rparr>\<rparr>;
          e2 = (if touch then e1\<lparr>page_revision := ctx_revision ctx, detected_at := ctx_now ctx,
                  det_catalog_version := ctx_catalog ctx, det_probe := ctx_probe ctx\<rparr> else e1)
      in refreshNext e2 (ctx_now ctx))"

section \<open>Names\<close>

fun kind_name :: "challenge_kind \<Rightarrow> string" where
  "kind_name Interstitial = ''interstitial''" | "kind_name Widget = ''widget''" | "kind_name Puzzle = ''puzzle''"
| "kind_name Block = ''block''" | "kind_name RateLimit = ''rate_limit''"

fun interaction_name :: "interaction \<Rightarrow> string" where
  "interaction_name Automatic = ''automatic''" | "interaction_name Human = ''human''"
| "interaction_name NoInteraction = ''none''"

fun ep_state_name :: "ep_state \<Rightarrow> string" where
  "ep_state_name Active = ''active''" | "ep_state_name Cleared = ''cleared''"
| "ep_state_name Superseded = ''superseded''"

fun confidence_name :: "confidence \<Rightarrow> string" where
  "confidence_name High = ''high''" | "confidence_name Medium = ''medium''" | "confidence_name Low = ''low''"

fun next_name :: "ep_next \<Rightarrow> string" where
  "next_name Wait = ''wait''" | "next_name HandoffNext = ''handoff''" | "next_name RetryLater = ''retry_later''"
| "next_name Stop = ''stop''" | "next_name NoNext = ''none''"

fun scope_name :: "surface_scope \<Rightarrow> string" where
  "scope_name ScopeDocument = ''document''" | "scope_name ScopeFrame = ''frame''"
| "scope_name ScopeElement = ''element''"

fun probe_name :: "probe \<Rightarrow> string" where
  "probe_name Debugger = ''debugger''" | "probe_name Scripting = ''scripting''"

fun scope_class_name :: "scope_class \<Rightarrow> string" where
  "scope_class_name DocumentScope = ''document''" | "scope_class_name EmbeddedScope = ''embedded''"

definition KINDS :: "challenge_kind list" where "KINDS = [Interstitial, Widget, Puzzle, Block, RateLimit]"
definition INTERACTIONS :: "interaction list" where "INTERACTIONS = [Automatic, Human, NoInteraction]"
definition STATES :: "ep_state list" where "STATES = [Active, Cleared, Superseded]"
definition CONFIDENCES :: "confidence list" where "CONFIDENCES = [High, Medium, Low]"
definition NEXTS :: "ep_next list" where "NEXTS = [Wait, HandoffNext, RetryLater, Stop, NoNext]"
definition SCOPES :: "surface_scope list" where "SCOPES = [ScopeDocument, ScopeFrame, ScopeElement]"
definition PROBES :: "probe list" where "PROBES = [Debugger, Scripting]"
definition SCOPE_CLASSES :: "scope_class list" where "SCOPE_CLASSES = [DocumentScope, EmbeddedScope]"

section \<open>Events\<close>

definition field :: "string \<Rightarrow> js \<Rightarrow> js obj" where
  "field k v = (if v = Undefined then [] else [(k, v)])"

definition js_opt :: "('a \<Rightarrow> js) \<Rightarrow> 'a option \<Rightarrow> js" where
  "js_opt f v = (case v of None \<Rightarrow> Undefined | Some x \<Rightarrow> f x)"

definition surface_json :: "surface \<Rightarrow> js" where
  "surface_json s = Obj ([(''scope'', Str (scope_name (surf_scope s)))] @
     field ''frame_id'' (js_opt Str (surf_frame_id s)) @ field ''frame_origin'' (js_opt Str (surf_origin s)) @
     [(''visible'', Bool (surf_visible s))])"

definition detector_json :: "episode \<Rightarrow> js" where
  "detector_json e = Obj [(''catalog_version'', Str (det_catalog_version e)), (''probe'', Str (probe_name (det_probe e)))]"

definition episodeEvent :: "episode \<Rightarrow> js obj" where
  "episodeEvent e =
     [(''spec_version'', js_int 1), (''challenge_id'', Str (challenge_id e)), (''tab_id'', js_int (ep_tab e)),
      (''page_revision'', js_int (page_revision e)), (''first_page_revision'', js_int (first_page_revision e)),
      (''first_detected_at_ms'', js_int (first_detected_at e)), (''detected_at_ms'', js_int (detected_at e)),
      (''page_origin'', Str (page_origin e)), (''vendor'', Str (vendor e)), (''product'', Str (product e)),
      (''kind'', Str (kind_name (ep_kind e))), (''interaction'', Str (interaction_name (ep_interaction e))),
      (''state'', Str (ep_state_name (ep_state e))), (''confidence'', Str (confidence_name (ep_confidence e))),
      (''surface'', surface_json (ep_surface e))] @
     field ''token_present'' (if ep_kind e = Widget then js_opt Bool (token_present e) else Undefined) @
     [(''signals'', Arr (map Str (take MAX_SIGNALS (signals e)))), (''next'', Str (next_name (ep_next e)))] @
     field ''wait_budget_ms'' (js_opt js_int (wait_budget_ms e)) @
     field ''retry_after_ms'' (if ep_kind e = RateLimit then js_opt js_int (retry_after_ms e) else Undefined) @
     field ''notice_id'' (js_opt Str (notice_id e)) @
     [(''detector'', detector_json e)]"

section \<open>Queries\<close>

definition findEpisode :: "episode list \<Rightarrow> string \<Rightarrow> string \<Rightarrow> episode option" where
  "findEpisode eps task chl = find (\<lambda>e. ep_task e = task \<and> challenge_id e = chl) eps"

definition activeEpisodeForTab :: "episode list \<Rightarrow> string \<Rightarrow> int \<Rightarrow> episode option" where
  "activeEpisodeForTab eps task tab =
     (let active = filter (\<lambda>e. ep_task e = task \<and> ep_tab e = tab \<and> ep_state e = Active) eps
      in case find (\<lambda>e. scope_class e = DocumentScope) active of
           Some e \<Rightarrow> Some e
         | None \<Rightarrow> (case active of [] \<Rightarrow> None | e # r \<Rightarrow> Some e))"

section \<open>The cap\<close>

definition enforceCap :: "episode list \<Rightarrow> string \<Rightarrow> episode list" where
  "enforceCap eps task =
     (let indexed = List.enumerate 0 eps;
          own = filter (\<lambda>(i, e). ep_task e = task) indexed;
          excess = length own - CHALLENGE_MAX_EPISODES_PER_TASK;
          age = (\<lambda>(i, e). detected_at e);
          pools = sort_key age (filter (\<lambda>(i, e). ep_state e \<noteq> Active) own) @
            sort_key age (filter (\<lambda>(i, e). ep_state e = Active) own);
          dropped = map fst (take excess pools)
      in map snd (filter (\<lambda>(i, e). i \<notin> set dropped) indexed))"

section \<open>One scan\<close>

definition expired :: "scan_ctx \<Rightarrow> episode \<Rightarrow> bool" where
  "expired ctx e \<longleftrightarrow> ep_state e = Active \<and> CHALLENGE_EPISODE_TTL_MS < ctx_now ctx - detected_at e"

definition silentlySupersede :: "scan_ctx \<Rightarrow> episode \<Rightarrow> episode" where
  "silentlySupersede ctx e = (settle Superseded False ctx e)\<lparr>terminal_reported := True\<rparr>"

definition expire :: "scan_ctx \<Rightarrow> episode \<Rightarrow> episode" where
  "expire ctx e = (if expired ctx e then silentlySupersede ctx e else e)"

definition active_in :: "scan_ctx \<Rightarrow> scope_class \<Rightarrow> episode \<Rightarrow> bool" where
  "active_in ctx sc e \<longleftrightarrow> ep_tab e = ctx_tab ctx \<and> ep_state e = Active \<and> scope_class e = sc"

definition endAndQueue :: "ep_state \<Rightarrow> scan_ctx \<Rightarrow> episode \<Rightarrow> episode" where
  "endAndQueue new ctx e =
     (let e1 = settle new True ctx e
      in (if new = Cleared \<and> ep_kind e1 = Widget then e1\<lparr>token_present := Some True\<rparr> else e1)
           \<lparr>terminal_reported := True\<rparr>)"

text \<open>A scripting scan cannot see header or status evidence, so it does not end such an episode.\<close>

definition keeps_unseen :: "scan_ctx \<Rightarrow> episode \<Rightarrow> bool" where
  "keeps_unseen ctx e \<longleftrightarrow> ctx_probe ctx = Scripting \<and> ctx_origin ctx = page_origin e \<and>
     \<not> observable_by_scripting e \<and>
     \<not> (ctx_status ctx \<noteq> None \<and> document_status e \<noteq> None \<and> ctx_status ctx \<noteq> document_status e)"

definition document_clean :: "scan_ctx \<Rightarrow> episode \<Rightarrow> episode" where
  "document_clean ctx e =
     (if keeps_unseen ctx e then refreshNext e (ctx_now ctx)
      else endAndQueue (if ctx_origin ctx = page_origin e then Cleared else Superseded) ctx e)"

definition solved :: "scan_ctx \<Rightarrow> presence list \<Rightarrow> episode \<Rightarrow> bool" where
  "solved ctx ps e \<longleftrightarrow> ctx_origin ctx = page_origin e \<and>
     list_ex (\<lambda>p. pr_vendor p = vendor e \<and> pr_token p = Some True) ps"

definition embedded_clean :: "scan_ctx \<Rightarrow> presence list \<Rightarrow> episode \<Rightarrow> episode" where
  "embedded_clean ctx ps e = endAndQueue (if solved ctx ps e then Cleared else Superseded) ctx e"

definition on_active :: "scan_ctx \<Rightarrow> scope_class \<Rightarrow> (episode \<Rightarrow> episode) \<Rightarrow> episode list \<Rightarrow> episode list" where
  "on_active ctx sc f eps = map (\<lambda>e. if active_in ctx sc e then f e else e) eps"

text \<open>The episodes that end in a loop, in the order they are queued for reporting.\<close>

definition queued :: "scan_ctx \<Rightarrow> scope_class \<Rightarrow> (episode \<Rightarrow> episode) \<Rightarrow> episode list \<Rightarrow> episode list" where
  "queued ctx sc f eps = map f (filter (active_in ctx sc) eps)"

definition same_challenge :: "scan_ctx \<Rightarrow> detection \<Rightarrow> episode \<Rightarrow> bool" where
  "same_challenge ctx d e \<longleftrightarrow> vendor e = sig_vendor (det_sig d) \<and> page_origin e = ctx_origin ctx"

text \<open>
  The primary detection continues the first active episode of its class and vendor; other active
  episodes of the class end. \<open>Some cur\<close> is the episode the detection was applied to.
\<close>

fun continue :: "scan_ctx \<Rightarrow> detection \<Rightarrow> scope_class \<Rightarrow> episode option \<Rightarrow> episode list \<Rightarrow> episode option \<times> episode list" where
  "continue ctx d sc cur [] = (cur, [])"
| "continue ctx d sc cur (e # rest) =
     (if \<not> active_in ctx sc e
      then (case continue ctx d sc cur rest of (c, es) \<Rightarrow> (c, e # es))
      else if cur = None \<and> same_challenge ctx d e
      then (let e' = applyDetection e d ctx
            in case continue ctx d sc (Some e') rest of (c, es) \<Rightarrow> (c, e' # es))
      else (case continue ctx d sc cur rest of (c, es) \<Rightarrow> (c, silentlySupersede ctx e # es)))"

definition primary_class :: "detection option \<Rightarrow> scope_class option" where
  "primary_class p = map_option (\<lambda>d. scopeClassOf (sig_kind (det_sig d))) p"

definition document_phase :: "scan_ctx \<Rightarrow> detection option \<Rightarrow> episode list \<Rightarrow> episode list \<times> episode list" where
  "document_phase ctx p eps =
     (if primary_class p = Some DocumentScope then (eps, [])
      else (on_active ctx DocumentScope (document_clean ctx) eps,
            queued ctx DocumentScope (document_clean ctx) eps))"

definition embedded_phase ::
  "scan_ctx \<Rightarrow> detection option \<Rightarrow> presence list \<Rightarrow> episode list \<Rightarrow> episode list \<times> episode list" where
  "embedded_phase ctx p ps eps = (case primary_class p of
      Some DocumentScope \<Rightarrow> (on_active ctx EmbeddedScope (silentlySupersede ctx) eps, [])
    | None \<Rightarrow> (on_active ctx EmbeddedScope (embedded_clean ctx ps) eps,
              queued ctx EmbeddedScope (embedded_clean ctx ps) eps)
    | Some EmbeddedScope \<Rightarrow> (eps, []))"

definition primary_phase :: "scan_ctx \<Rightarrow> detection option \<Rightarrow> episode list \<Rightarrow> episode option \<times> episode list" where
  "primary_phase ctx p eps = (case p of
      None \<Rightarrow> (None, eps)
    | Some d \<Rightarrow>
        (case continue ctx d (scopeClassOf (sig_kind (det_sig d))) None eps of
           (Some cur, es) \<Rightarrow> (Some cur, es)
         | (None, es) \<Rightarrow> (let new = createEpisode d ctx in (Some new, es @ [new]))))"

definition advance :: "episode list \<Rightarrow> detection option \<times> presence list \<Rightarrow> scan_ctx \<Rightarrow> episode list \<times> js obj option" where
  "advance episodes result ctx =
     (case result of (p, ps) \<Rightarrow>
      (case document_phase ctx p (map (expire ctx) episodes) of (l1, ended1) \<Rightarrow>
      (case embedded_phase ctx p ps l1 of (l2, ended2) \<Rightarrow>
      (case primary_phase ctx p l2 of (current, l3) \<Rightarrow>
        (enforceCap l3 (ctx_task ctx),
         map_option episodeEvent (case current of Some c \<Rightarrow> Some c
           | None \<Rightarrow> (case ended1 @ ended2 of [] \<Rightarrow> None | e # r \<Rightarrow> Some e)))))))"

section \<open>Stored episodes\<close>

definition nonNegativeInt :: "js \<Rightarrow> bool" where
  "nonNegativeInt v \<longleftrightarrow> is_integer v \<and> 0 \<le> the_int v"

definition named :: "('a \<Rightarrow> string) \<Rightarrow> 'a list \<Rightarrow> js \<Rightarrow> 'a option" where
  "named nm xs v = find (\<lambda>x. v = Str (nm x)) xs"

text \<open>\<open>/^chl_[0-9a-z]{20}$/\<close>\<close>

definition challenge_id_pattern :: "string \<Rightarrow> bool" where
  "challenge_id_pattern s \<longleftrightarrow> starts_with s ''chl_'' \<and> length s = 24 \<and>
     list_all (\<lambda>c. digit c \<or> (97 \<le> (of_char c :: nat) \<and> (of_char c :: nat) \<le> 122)) (drop 4 s)"

definition opt_ok :: "(js \<Rightarrow> bool) \<Rightarrow> js \<Rightarrow> bool" where
  "opt_ok P v \<longleftrightarrow> v = Undefined \<or> P v"

definition filled :: "js \<Rightarrow> bool" where
  "filled v \<longleftrightarrow> is_str v \<and> the_str v \<noteq> []"

definition bad_surface :: "js obj \<Rightarrow> bool" where
  "bad_surface s \<longleftrightarrow> named scope_name SCOPES (jget s ''scope'') = None \<or> \<not> is_bool (jget s ''visible'') \<or>
     \<not> opt_ok is_str (jget s ''frame_id'') \<or>
     \<not> opt_ok (\<lambda>v. sanitizeOrigin v \<noteq> None) (jget s ''frame_origin'')"

definition bad_episode :: "js obj \<Rightarrow> bool" where
  "bad_episode r \<longleftrightarrow>
     jget r ''spec_version'' \<noteq> js_int 1 \<or>
     \<not> is_str (jget r ''challenge_id'') \<or> \<not> challenge_id_pattern (the_str (jget r ''challenge_id'')) \<or>
     \<not> filled (jget r ''signature_id'') \<or> 128 < length (the_str (jget r ''signature_id'')) \<or>
     \<not> filled (jget r ''task_id'') \<or> \<not> nonNegativeInt (jget r ''tab_id'') \<or>
     \<not> nonNegativeInt (jget r ''page_revision'') \<or> \<not> nonNegativeInt (jget r ''first_page_revision'') \<or>
     \<not> nonNegativeInt (jget r ''first_detected_at_ms'') \<or> \<not> nonNegativeInt (jget r ''detected_at_ms'') \<or>
     sanitizeOrigin (jget r ''page_origin'') = None \<or>
     \<not> is_str (jget r ''vendor'') \<or> \<not> is_str (jget r ''product'') \<or>
     named kind_name KINDS (jget r ''kind'') = None \<or>
     named interaction_name INTERACTIONS (jget r ''interaction'') = None \<or>
     named ep_state_name STATES (jget r ''state'') = None \<or>
     named confidence_name CONFIDENCES (jget r ''confidence'') = None \<or>
     named next_name NEXTS (jget r ''next'') = None \<or>
     named scope_class_name SCOPE_CLASSES (jget r ''scope_class'') = None \<or>
     \<not> is_bool (jget r ''terminal_reported'') \<or>
     \<not> isRecord (jget r ''surface'') \<or> bad_surface (the_obj (jget r ''surface'')) \<or>
     \<not> is_arr (jget r ''signals'') \<or> the_arr (jget r ''signals'') = [] \<or>
     MAX_SIGNALS < length (the_arr (jget r ''signals'')) \<or> \<not> list_all is_str (the_arr (jget r ''signals'')) \<or>
     \<not> isRecord (jget r ''detector'') \<or> \<not> is_str (jget (the_obj (jget r ''detector'')) ''catalog_version'') \<or>
     named probe_name PROBES (jget (the_obj (jget r ''detector'')) ''probe'') = None \<or>
     \<not> opt_ok is_bool (jget r ''token_present'') \<or> \<not> opt_ok nonNegativeInt (jget r ''wait_budget_ms'') \<or>
     \<not> opt_ok nonNegativeInt (jget r ''retry_after_ms'') \<or> \<not> opt_ok filled (jget r ''notice_id'') \<or>
     \<not> opt_ok nonNegativeInt (jget r ''budget_ms'') \<or> \<not> opt_ok is_bool (jget r ''observable_by_scripting'') \<or>
     \<not> opt_ok nonNegativeInt (jget r ''document_status'')"

definition if_str :: "js \<Rightarrow> string option" where
  "if_str v = (if is_str v then Some (the_str v) else None)"

definition if_int :: "js \<Rightarrow> int option" where
  "if_int v = (if is_integer v then Some (the_int v) else None)"

definition if_bool :: "js \<Rightarrow> bool option" where
  "if_bool v = (if is_bool v then Some (the_bool v) else None)"

definition surface_of :: "js obj \<Rightarrow> surface" where
  "surface_of s = \<lparr>surf_scope = the (named scope_name SCOPES (jget s ''scope'')),
     surf_frame_id = if_str (jget s ''frame_id''), surf_origin = if_str (jget s ''frame_origin''),
     surf_visible = the_bool (jget s ''visible'')\<rparr>"

definition episode_of :: "js obj \<Rightarrow> episode" where
  "episode_of r = \<lparr>challenge_id = the_str (jget r ''challenge_id''), ep_tab = the_int (jget r ''tab_id''),
     page_revision = the_int (jget r ''page_revision''),
     first_page_revision = the_int (jget r ''first_page_revision''),
     first_detected_at = the_int (jget r ''first_detected_at_ms''),
     detected_at = the_int (jget r ''detected_at_ms''), page_origin = the_str (jget r ''page_origin''),
     vendor = the_str (jget r ''vendor''), product = the_str (jget r ''product''),
     ep_kind = the (named kind_name KINDS (jget r ''kind'')),
     ep_interaction = the (named interaction_name INTERACTIONS (jget r ''interaction'')),
     ep_state = the (named ep_state_name STATES (jget r ''state'')),
     ep_confidence = the (named confidence_name CONFIDENCES (jget r ''confidence'')),
     ep_surface = surface_of (the_obj (jget r ''surface'')), token_present = if_bool (jget r ''token_present''),
     signals = map the_str (the_arr (jget r ''signals'')),
     ep_next = the (named next_name NEXTS (jget r ''next'')),
     wait_budget_ms = if_int (jget r ''wait_budget_ms''), retry_after_ms = if_int (jget r ''retry_after_ms''),
     notice_id = if_str (jget r ''notice_id''),
     det_catalog_version = the_str (jget (the_obj (jget r ''detector'')) ''catalog_version''),
     det_probe = the (named probe_name PROBES (jget (the_obj (jget r ''detector'')) ''probe'')),
     ep_task = the_str (jget r ''task_id''),
     scope_class = the (named scope_class_name SCOPE_CLASSES (jget r ''scope_class'')),
     signature_id = the_str (jget r ''signature_id''), budget_ms = if_int (jget r ''budget_ms''),
     observable_by_scripting = (jget r ''observable_by_scripting'' \<noteq> Bool False),
     document_status = if_int (jget r ''document_status''),
     terminal_reported = the_bool (jget r ''terminal_reported'')\<rparr>"

definition parseChallengeEpisode :: "js \<Rightarrow> episode option" where
  "parseChallengeEpisode v = (case v of
      Obj r \<Rightarrow> (if bad_episode r then None else Some (episode_of r))
    | _ \<Rightarrow> None)"

text \<open>An episode as the store writes it.\<close>

definition episode_json :: "episode \<Rightarrow> js" where
  "episode_json e = Obj
     ([(''spec_version'', js_int 1), (''challenge_id'', Str (challenge_id e)), (''tab_id'', js_int (ep_tab e)),
       (''page_revision'', js_int (page_revision e)), (''first_page_revision'', js_int (first_page_revision e)),
       (''first_detected_at_ms'', js_int (first_detected_at e)), (''detected_at_ms'', js_int (detected_at e)),
       (''page_origin'', Str (page_origin e)), (''vendor'', Str (vendor e)), (''product'', Str (product e)),
       (''kind'', Str (kind_name (ep_kind e))), (''interaction'', Str (interaction_name (ep_interaction e))),
       (''state'', Str (ep_state_name (ep_state e))), (''confidence'', Str (confidence_name (ep_confidence e))),
       (''surface'', surface_json (ep_surface e))] @
      field ''token_present'' (js_opt Bool (token_present e)) @
      [(''signals'', Arr (map Str (signals e))), (''next'', Str (next_name (ep_next e)))] @
      field ''wait_budget_ms'' (js_opt js_int (wait_budget_ms e)) @
      field ''retry_after_ms'' (js_opt js_int (retry_after_ms e)) @
      field ''notice_id'' (js_opt Str (notice_id e)) @
      [(''detector'', detector_json e), (''task_id'', Str (ep_task e)),
       (''scope_class'', Str (scope_class_name (scope_class e))), (''signature_id'', Str (signature_id e))] @
      field ''budget_ms'' (js_opt js_int (budget_ms e)) @
      [(''observable_by_scripting'', Bool (observable_by_scripting e))] @
      field ''document_status'' (js_opt js_int (document_status e)) @
      [(''terminal_reported'', Bool (terminal_reported e))])"

end
