(* ===== verification/ChallengeStore.thy ===== *)
theory ChallengeStore
  imports ChallengeEpisodes StateStore
begin

text \<open>
  \<open>challenge-store.ts\<close>: the episodes of every task in session storage, and \<open>challenge-guard.ts\<close>:
  which page actions an active challenge governs and whether a target lies on the challenge's
  surface. The store runs its operations one after the other, so an operation is one atomic run;
  session storage is the storage area of the parameter record. \<open>new URL\<close> is a parameter.
\<close>

section \<open>The store\<close>

definition CHALLENGE_STORAGE_KEY :: string where
  "CHALLENGE_STORAGE_KEY = ''agenttab.challenges.v1''"

type_synonym episode_table = "episode list obj"

definition last_n :: "nat \<Rightarrow> 'a list \<Rightarrow> 'a list" where
  "last_n n xs = drop (length xs - n) xs"

definition task_episodes :: "string \<Rightarrow> js \<Rightarrow> episode list" where
  "task_episodes task v = (case v of
      Arr xs \<Rightarrow> filter (\<lambda>e. ep_task e = task) (List.map_filter parseChallengeEpisode xs)
    | _ \<Rightarrow> [])"

fun parse_entries :: "js obj \<Rightarrow> episode_table" where
  "parse_entries [] = []"
| "parse_entries ((task, v) # rest) =
     (if task_episodes task v = [] then parse_entries rest
      else (task, last_n CHALLENGE_MAX_EPISODES_PER_TASK (task_episodes task v)) # parse_entries rest)"

definition parseTable :: "js \<Rightarrow> episode_table" where
  "parseTable v = (case v of Obj ob \<Rightarrow> parse_entries ob | _ \<Rightarrow> [])"

definition table_json :: "episode_table \<Rightarrow> js" where
  "table_json t = Obj (map (\<lambda>(k, eps). (k, Arr (map episode_json eps))) t)"

definition readTable :: "'w storage_api \<Rightarrow> (('w, 'z) store_scheme, js_error, episode_table) eff" where
  "readTable api = bnd (call (storage_get api [CHALLENGE_STORAGE_KEY])) (\<lambda>stored.
     ret (parseTable (jget stored CHALLENGE_STORAGE_KEY)))"

definition writeTable :: "'w storage_api \<Rightarrow> episode_table \<Rightarrow> (('w, 'z) store_scheme, js_error, unit) eff" where
  "writeTable api t = call (storage_set api [(CHALLENGE_STORAGE_KEY, table_json t)])"

definition episodes_of :: "episode_table \<Rightarrow> string \<Rightarrow> episode list" where
  "episodes_of t task = (case map_of t task of None \<Rightarrow> [] | Some eps \<Rightarrow> eps)"

definition put_episodes :: "string \<Rightarrow> episode list \<Rightarrow> episode_table \<Rightarrow> episode_table" where
  "put_episodes task eps t = (if eps = [] then AList.delete task t else AList.update task eps t)"

text \<open>The step returns the new episodes and a value for the caller.\<close>

definition updateTaskEpisodes ::
  "'w storage_api \<Rightarrow> string \<Rightarrow> (episode list \<Rightarrow> episode list \<times> 'a) \<Rightarrow>
     (('w, 'z) store_scheme, js_error, 'a) eff" where
  "updateTaskEpisodes api task step =
     bnd (readTable api) (\<lambda>t.
       case step (episodes_of t task) of (eps, result) \<Rightarrow>
         seq (writeTable api (put_episodes task eps t)) (ret result))"

definition readTaskEpisodes :: "'w storage_api \<Rightarrow> string \<Rightarrow> (('w, 'z) store_scheme, js_error, episode list) eff" where
  "readTaskEpisodes api task = bnd (readTable api) (\<lambda>t. ret (episodes_of t task))"

definition bind_notice :: "string \<Rightarrow> string \<Rightarrow> episode list \<Rightarrow> episode list \<times> bool" where
  "bind_notice chl notice eps =
     (map (\<lambda>e. if challenge_id e = chl then e\<lparr>notice_id := Some notice\<rparr> else e) eps,
      list_ex (\<lambda>e. challenge_id e = chl) eps)"

definition bindChallengeNotice ::
  "'w storage_api \<Rightarrow> string \<Rightarrow> string \<Rightarrow> string \<Rightarrow> (('w, 'z) store_scheme, js_error, bool) eff" where
  "bindChallengeNotice api task chl notice = updateTaskEpisodes api task (bind_notice chl notice)"

definition clearChallengeTask :: "'w storage_api \<Rightarrow> string \<Rightarrow> (('w, 'z) store_scheme, js_error, unit) eff" where
  "clearChallengeTask api task =
     bnd (readTable api) (\<lambda>t.
       if map_of t task = None then ret () else writeTable api (AList.delete task t))"

section \<open>The guard\<close>

datatype guard_class = Unguarded | Targeted | Targetless

definition ELEMENT_ACTION_KINDS :: "string list" where
  "ELEMENT_ACTION_KINDS = [''click'', ''double_click'', ''context_click'', ''hover'', ''type'', ''fill'',
     ''select'', ''drag'', ''upload_file'']"

definition classifyGuardedAction :: "js obj \<Rightarrow> guard_class" where
  "classifyGuardedAction action =
     (let k = jget action ''kind''; ref = is_str (jget action ''ref''); sel = is_str (jget action ''selector'')
      in if k = Str ''press'' then (if ref \<or> sel then Targeted else Targetless)
         else if k = Str ''scroll''
         then (if ref \<or> sel \<or> is_str (jget action ''frame_id'') then Targeted else Targetless)
         else if is_str k \<and> the_str k \<in> set ELEMENT_ACTION_KINDS then Targeted else Unguarded)"

record surface_matchers =
  sm_frames :: "frame_leaf list"
  sm_selectors :: "string list"

text \<open>The frame and element leaves outside of \<open>not\<close> branches.\<close>

fun positive_leaves :: "condition \<Rightarrow> condition list" where
  "positive_leaves (AllOf cs) = concat (map positive_leaves cs)"
| "positive_leaves (AnyOf cs) = concat (map positive_leaves cs)"
| "positive_leaves (Frame l) = [Frame l]"
| "positive_leaves (Element s) = [Element s]"
| "positive_leaves _ = []"

fun leaf_frame :: "condition \<Rightarrow> frame_leaf option" where
  "leaf_frame (Frame l) = Some l"
| "leaf_frame _ = None"

definition surfaceMatchers :: "signature option \<Rightarrow> surface_matchers" where
  "surfaceMatchers sg =
     (let ls = (case sg of None \<Rightarrow> [] | Some s \<Rightarrow> concat (map (\<lambda>r. positive_leaves (rule_when r)) (sig_signals s)))
      in \<lparr>sm_frames = List.map_filter leaf_frame ls,
          sm_selectors = first_occurrences (List.map_filter leaf_selector ls)\<rparr>)"

record parsed_url =
  pu_protocol :: string
  pu_hostname :: string
  pu_pathname :: string
  pu_params :: "(string \<times> string) list"

text \<open>The first value of every query parameter, cut to 64 characters.\<close>

fun first_params :: "string list \<Rightarrow> (string \<times> string) list \<Rightarrow> string obj" where
  "first_params seen [] = []"
| "first_params seen ((k, v) # rest) =
     (if k \<in> set seen then first_params seen rest else (k, take 64 v) # first_params (k # seen) rest)"

definition urlFact :: "(string \<Rightarrow> parsed_url option) \<Rightarrow> string \<Rightarrow> url_fact option" where
  "urlFact parse raw = (case parse raw of
      None \<Rightarrow> None
    | Some u \<Rightarrow>
        (if pu_protocol u \<noteq> ''http:'' \<and> pu_protocol u \<noteq> ''https:'' then None
         else Some \<lparr>fact_host = lower (pu_hostname u), fact_path = pu_pathname u,
           fact_query = first_params [] (pu_params u)\<rparr>))"

definition urlInSurface :: "(string \<Rightarrow> parsed_url option) \<Rightarrow> surface_matchers \<Rightarrow> string \<Rightarrow> bool" where
  "urlInSurface parse m raw = (case urlFact parse raw of
      None \<Rightarrow> False | Some f \<Rightarrow> list_ex (frameMatches f) (sm_frames m))"

record surface_evidence =
  se_hit :: bool
  se_frames :: "string list"

definition parseSurfaceEvidence :: "js \<Rightarrow> surface_evidence option" where
  "parseSurfaceEvidence v = (case v of
      Obj ob \<Rightarrow>
        (if \<not> is_bool (jget ob ''hit'') \<or> \<not> is_arr (jget ob ''frames'') \<or>
            \<not> list_all is_str (the_arr (jget ob ''frames''))
         then None
         else Some \<lparr>se_hit = the_bool (jget ob ''hit''), se_frames = map the_str (the_arr (jget ob ''frames''))\<rparr>)
    | _ \<Rightarrow> None)"

datatype containment = Inside | Outside | Unclear

definition decideContainment ::
  "(string \<Rightarrow> parsed_url option) \<Rightarrow> surface_matchers \<Rightarrow> string option list option \<Rightarrow>
     surface_evidence option \<Rightarrow> containment" where
  "decideContainment parse m ancestry page =
     (if (case page of None \<Rightarrow> False | Some p \<Rightarrow> se_hit p) then Inside
      else if (case page of None \<Rightarrow> False | Some p \<Rightarrow> list_ex (urlInSurface parse m) (se_frames p)) then Inside
      else if (case ancestry of None \<Rightarrow> False
           | Some us \<Rightarrow> list_ex (\<lambda>u. case u of None \<Rightarrow> False | Some x \<Rightarrow> urlInSurface parse m x) us) then Inside
      else if ancestry = None \<or> page = None \<or>
          (case ancestry of None \<Rightarrow> False | Some us \<Rightarrow> list_ex (\<lambda>u. u = None \<or> u = Some []) us) then Unclear
      else Outside)"

end
