(* ===== verification/Handoff.thy ===== *)
theory Handoff
  imports OwnershipFacts ChallengeStore
begin

text \<open>
  \<open>packages/extension/src/handoff.ts\<close>: the notices by which a task asks the user for help on one of
  its tabs. A notice lives in the persisted state; it is open until it is resolved, dismissed or
  expired. \<open>HandoffController\<close> runs its operations through a chain, one at a time; an operation here
  is one such run. The notices are keyed by random ids, and names of members of \<open>Object.prototype\<close>
  are not used as ids.

  Chrome's notifications, alarms, windows and idle state, page scripting, the privacy scrubber and
  the challenge scanner are parameters.
\<close>

section \<open>The outside\<close>

record notification =
  note_message :: string
  note_context :: string

record 'w note_api =
  note_all :: "'w \<Rightarrow> (js_error + string list) \<times> 'w"
  note_create :: "string \<Rightarrow> notification \<Rightarrow> 'w \<Rightarrow> (js_error + unit) \<times> 'w"
  note_clear :: "string \<Rightarrow> 'w \<Rightarrow> (js_error + unit) \<times> 'w"

text \<open>
  \<open>challenge_storage\<close> is \<open>chrome.storage.session\<close>, absent in old browsers; \<open>scanner\<close> rescans a tab
  for challenges and gives the episodes of the task, or nothing when the scan did not complete.
\<close>

record 'w handoff_env = "'w env" +
  notifications :: "'w note_api option"
  idle_query :: "('w \<Rightarrow> (js_error + js) \<times> 'w) option"
  focus_tab :: "int \<Rightarrow> 'w \<Rightarrow> (js_error + tab_like option) \<times> 'w"
  focus_window :: "int \<Rightarrow> 'w \<Rightarrow> (js_error + unit) \<times> 'w"
  alarm_clear :: "'w \<Rightarrow> (js_error + unit) \<times> 'w"
  alarm_create :: "int \<Rightarrow> 'w \<Rightarrow> unit \<times> 'w"
  selector_results :: "int \<Rightarrow> js \<Rightarrow> 'w \<Rightarrow> (js_error + js list) \<times> 'w"
  url_host :: "string \<Rightarrow> string option"
  challenge_storage :: "'w storage_api option"
  scrubber :: "(int \<Rightarrow> ('w sys, js_error, unit) eff) option"
  scanner :: "(string \<Rightarrow> int \<Rightarrow> ('w sys, js_error, episode list option) eff) option"

definition NOTIFICATION_PREFIX :: string where "NOTIFICATION_PREFIX = ''agenttab-handoff:''"
definition DEFAULT_TIMEOUT_MS :: int where "DEFAULT_TIMEOUT_MS = 300000"
definition MAX_NOTICES :: nat where "MAX_NOTICES = 100"

section \<open>Notices\<close>

definition noticeResult :: "handoff_notice \<Rightarrow> js obj" where
  "noticeResult n = [(''notice_id'', Str (noticeId n)), (''task_id'', Str (noticeTask n)),
     (''tab_id'', js_int (noticeTab n)), (''prompt'', Str (prompt n)), (''status'', Str (status_name (status n))),
     (''started_at_ms'', js_int (startedAtMs n)), (''expires_at_ms'', js_int (expiresAtMs n))]"

text \<open>The episode id of a \<open>challenge_cleared\<close> completion.\<close>

definition challenge_completion :: "js \<Rightarrow> string option" where
  "challenge_completion v = (case v of
      Obj c \<Rightarrow> (if jget c ''kind'' = Str ''challenge_cleared'' \<and> is_str (jget c ''value'')
                then Some (the_str (jget c ''value'')) else None)
    | _ \<Rightarrow> None)"

definition isChallengeCompletion :: "js \<Rightarrow> bool" where
  "isChallengeCompletion v \<longleftrightarrow> challenge_completion v \<noteq> None"

definition terminal :: "notice_status \<Rightarrow> bool" where
  "terminal s \<longleftrightarrow> s \<noteq> NOpen"

definition handoffNoticeIdFromNotification :: "string \<Rightarrow> string option" where
  "handoffNoticeIdFromNotification notification =
     (if starts_with notification NOTIFICATION_PREFIX \<and> length NOTIFICATION_PREFIX < length notification
      then Some (drop (length NOTIFICATION_PREFIX) notification) else None)"

definition validCompletion :: "js \<Rightarrow> bool" where
  "validCompletion v \<longleftrightarrow> isRecord v \<and>
     (let k = jget (the_obj v) ''kind''; x = jget (the_obj v) ''value''
      in (k = Str ''url'' \<or> k = Str ''selector'' \<or>
          (k = Str ''challenge_cleared'' \<and> is_str x \<and> challenge_id_pattern (the_str x))) \<and> is_str x)"

section \<open>Changes of the notices\<close>

type_synonym notices = "handoff_notice obj"

text \<open>Terminal notices beyond the cap are deleted, the oldest first; open ones always stay.\<close>

definition oldest_terminal :: "notices \<Rightarrow> handoff_notice list" where
  "oldest_terminal ns = sort_key startedAtMs (filter (\<lambda>n. terminal (status n)) (map snd ns))"

definition trimNotices :: "notices \<Rightarrow> notices" where
  "trimNotices ns = foldl (\<lambda>acc n. AList.delete (noticeId n) acc) ns
     (take (length ns - MAX_NOTICES) (oldest_terminal ns))"

definition close_where :: "(handoff_notice \<Rightarrow> bool) \<Rightarrow> notice_status \<Rightarrow> notices \<Rightarrow> notices" where
  "close_where p st ns =
     map (\<lambda>(k, n). (k, if status n = NOpen \<and> p n then n\<lparr>status := st\<rparr> else n)) ns"

definition expire_notices :: "int \<Rightarrow> notices \<Rightarrow> notices" where
  "expire_notices time ns = trimNotices (close_where (\<lambda>n. expiresAtMs n \<le> time) NExpired ns)"

definition dismiss_matching :: "(handoff_notice \<Rightarrow> bool) \<Rightarrow> notices \<Rightarrow> notices" where
  "dismiss_matching p ns = trimNotices (close_where p NDismissed ns)"

definition close_notice :: "notice_status \<Rightarrow> handoff_notice \<Rightarrow> handoff_notice" where
  "close_notice st n = (if status n = NOpen then n\<lparr>status := st\<rparr> else n)"

definition set_notice :: "string \<Rightarrow> notice_status \<Rightarrow> handoff_notice \<Rightarrow> notices \<Rightarrow> notices" where
  "set_notice key st n ns = trimNotices (AList.update key (close_notice st n) ns)"

definition add_notice :: "handoff_notice \<Rightarrow> notices \<Rightarrow> notices" where
  "add_notice n ns = trimNotices (AList.update (noticeId n) n
     (close_where (\<lambda>m. noticeTask m = noticeTask n \<and> noticeTab m = noticeTab n) NDismissed ns))"

definition clear_notices :: "string \<Rightarrow> notices \<Rightarrow> notices" where
  "clear_notices key ns = foldl (\<lambda>acc k. AList.delete k acc) ns
     (map noticeId (filter (\<lambda>n. noticeTask n = key) (map snd ns)))"

definition notices_of_task :: "string \<Rightarrow> ext_state \<Rightarrow> handoff_notice list" where
  "notices_of_task key st = filter (\<lambda>n. noticeTask n = key) (map snd (notices st))"

section \<open>The mutators\<close>

definition expire_mutator :: "int \<Rightarrow> unit mutator" where
  "expire_mutator time st = Inr ((), st\<lparr>notices := expire_notices time (notices st)\<rparr>)"

definition dismiss_mutator :: "(handoff_notice \<Rightarrow> bool) \<Rightarrow> bool mutator" where
  "dismiss_mutator p st = Inr (list_ex (\<lambda>n. status n = NOpen \<and> p n) (map snd (notices st)),
     st\<lparr>notices := dismiss_matching p (notices st)\<rparr>)"

definition no_notice :: js_error where
  "no_notice = coded_error ''notice_not_found'' ''Handoff notice does not exist''"

definition status_mutator :: "string \<Rightarrow> notice_status \<Rightarrow> handoff_notice mutator" where
  "status_mutator key new st = (case map_of (notices st) key of
      None \<Rightarrow> Inl no_notice
    | Some n \<Rightarrow> Inr (close_notice new n, st\<lparr>notices := set_notice key new n (notices st)\<rparr>))"

definition paused_error :: js_error where
  "paused_error = not_started_error ''paused'' ''AgentTab is paused''"

definition request_mutator :: "handoff_notice \<Rightarrow> unit mutator" where
  "request_mutator n st =
     (if paused st then Inl paused_error
      else if (case task st (noticeTask n) of None \<Rightarrow> True | Some t \<Rightarrow> noticeTab n \<notin> set (tabIds t))
      then Inl (coded_error ''ownership_revoked''
        ''Tab ownership changed before the handoff notice was recorded'')
      else Inr ((), st\<lparr>notices := add_notice n (notices st)\<rparr>))"

definition clear_mutator :: "string \<Rightarrow> bool mutator" where
  "clear_mutator key st =
     Inr (notices_of_task key st \<noteq> [], st\<lparr>notices := clear_notices key (notices st)\<rparr>)"

definition pause_mutator :: "bool \<Rightarrow> unit mutator" where
  "pause_mutator p st = Inr ((), st\<lparr>paused := p\<rparr>)"

section \<open>Notifications and the alarm\<close>

definition clearNotification :: "'w handoff_env \<Rightarrow> string \<Rightarrow> ('w, unit) op" where
  "clearNotification env key = (case notifications env of
      None \<Rightarrow> ret ()
    | Some api \<Rightarrow> quiet (call (note_clear api (NOTIFICATION_PREFIX @ key))) ())"

definition next_expiry :: "notices \<Rightarrow> int option" where
  "next_expiry ns = foldl (\<lambda>earliest n. case earliest of
       None \<Rightarrow> Some (expiresAtMs n)
     | Some e \<Rightarrow> if expiresAtMs n < e then Some (expiresAtMs n) else Some e)
     None (filter (\<lambda>n. status n = NOpen) (map snd ns))"

definition is_open :: "notices \<Rightarrow> string \<Rightarrow> bool" where
  "is_open ns key = (case map_of ns key of None \<Rightarrow> False | Some n \<Rightarrow> status n = NOpen)"

definition settleNotices :: "'w handoff_env \<Rightarrow> ('w, unit) op" where
  "settleNotices env =
     bnd (readState (storage env)) (\<lambda>st.
     seq (call (alarm_clear env))
     (seq (case next_expiry (notices st) of None \<Rightarrow> ret () | Some time \<Rightarrow> ask (alarm_create env time))
     (bnd (case notifications env of None \<Rightarrow> ret [] | Some api \<Rightarrow> quiet (call (note_all api)) []) (\<lambda>shown.
       for_each shown (\<lambda>notification. case handoffNoticeIdFromNotification notification of
           None \<Rightarrow> ret ()
         | Some key \<Rightarrow> when_do (\<not> is_open (notices st) key) (clearNotification env key))))))"

definition announcement :: "handoff_notice \<Rightarrow> string option \<Rightarrow> notification" where
  "announcement n host = \<lparr>note_message = prompt n, note_context = (case host of
      Some (c # cs) \<Rightarrow> ''Click to open the '' @ (c # cs) @ '' tab''
    | _ \<Rightarrow> ''Click to open the tab'')\<rparr>"

definition announce :: "'w handoff_env \<Rightarrow> handoff_notice \<Rightarrow> ('w, unit) op" where
  "announce env n = (case notifications env of
      None \<Rightarrow> ret ()
    | Some api \<Rightarrow>
        quiet (bnd (quiet (bnd (call (tabs_get env (noticeTab n))) (\<lambda>t. ret (Some t))) None) (\<lambda>tab.
          call (note_create api (NOTIFICATION_PREFIX @ noticeId n) (announcement n
            (case tab of None \<Rightarrow> None | Some t \<Rightarrow>
              (case tab_url t of None \<Rightarrow> None | Some u \<Rightarrow> if u = [] then None else url_host env u)))))) ())"

section \<open>Reading one notice, changing its status\<close>

definition expireNow :: "'w handoff_env \<Rightarrow> ('w, unit) op" where
  "expireNow env =
     bnd (ask (date_now (storage env))) (\<lambda>time.
     seq (mutateState (storage env) (expire_mutator time)) (settleNotices env))"

definition noticeForTask :: "'w handoff_env \<Rightarrow> string option \<Rightarrow> string \<Rightarrow> ('w, handoff_notice) op" where
  "noticeForTask env owner_task key =
     (if key = [] then throw (coded_error ''invalid_request'' ''notice_id must be a non-empty string'')
      else bnd (readState (storage env)) (\<lambda>st. case map_of (notices st) key of
          None \<Rightarrow> throw no_notice
        | Some n \<Rightarrow>
            (if (case owner_task of None \<Rightarrow> False | Some t \<Rightarrow> noticeTask n \<noteq> t)
             then throw (denied ''Handoff notice belongs to another task'')
             else ret n)))"

definition setStatus :: "'w handoff_env \<Rightarrow> string \<Rightarrow> notice_status \<Rightarrow> ('w, js obj) op" where
  "setStatus env key new =
     bnd (mutateState (storage env) (status_mutator key new)) (\<lambda>n.
       seq (settleNotices env) (ret (noticeResult n)))"

definition dismissNow :: "'w handoff_env \<Rightarrow> string option \<Rightarrow> string \<Rightarrow> ('w, js obj) op" where
  "dismissNow env owner_task key =
     seq (expireNow env)
     (bnd (noticeForTask env owner_task key) (\<lambda>n.
       if terminal (status n) then ret (noticeResult n) else setStatus env key NDismissed))"

definition dismissMatchingNow :: "'w handoff_env \<Rightarrow> (handoff_notice \<Rightarrow> bool) \<Rightarrow> ('w, bool) op" where
  "dismissMatchingNow env p =
     bnd (mutateState (storage env) (dismiss_mutator p)) (\<lambda>changed.
       seq (when_do changed (settleNotices env)) (ret changed))"

definition cancelForTab :: "'w handoff_env \<Rightarrow> int \<Rightarrow> ('w, bool) op" where
  "cancelForTab env tab = dismissMatchingNow env (\<lambda>n. noticeTab n = tab)"

definition clearForTask :: "'w handoff_env \<Rightarrow> string \<Rightarrow> ('w, bool) op" where
  "clearForTask env key =
     bnd (mutateState (storage env) (clear_mutator key)) (\<lambda>cleared.
       seq (when_do cleared (settleNotices env)) (ret cleared))"

text \<open>Notice status, with whether the user is at the machine when Chrome can tell.\<close>

definition status_of_notice :: "'w handoff_env \<Rightarrow> string \<Rightarrow> string \<Rightarrow> ('w, js obj) op" where
  "status_of_notice env key notice =
     seq (expireNow env)
     (bnd (noticeForTask env (Some key) notice) (\<lambda>n.
      bnd (case idle_query env of None \<Rightarrow> ret Undefined | Some f \<Rightarrow> quiet (call f) Undefined) (\<lambda>idle.
        ret (if idle = Undefined then noticeResult n
             else noticeResult n @ [(''user_idle_state'', idle)]))))"

section \<open>Opening the tab of a notice\<close>

definition openNow :: "'w handoff_env \<Rightarrow> string \<Rightarrow> ('w, js obj) op" where
  "openNow env key =
     seq (expireNow env)
     (bnd (noticeForTask env None key) (\<lambda>n.
       if status n \<noteq> NOpen then ret (noticeResult n)
       else bnd (assertOwnedNow (env.truncate env) (noticeTask n) (noticeTab n)) (\<lambda>_.
         bnd (call (focus_tab env (noticeTab n))) (\<lambda>tab.
         seq (case (case tab of None \<Rightarrow> None | Some t \<Rightarrow> tab_window t) of
                None \<Rightarrow> ret ()
              | Some w \<Rightarrow> call (focus_window env w))
           (ret (noticeResult n @ [(''focused'', Bool True)]))))))"

text \<open>\<open>try { m } finally { f }\<close>; the notification is cleared whatever happens.\<close>

definition finally_do :: "('s, 'e, 'a) eff \<Rightarrow> ('s, 'e, unit) eff \<Rightarrow> ('s, 'e, 'a) eff" where
  "finally_do m f = bnd (try_catch m (\<lambda>e. seq f (throw e))) (\<lambda>x. seq f (ret x))"

definition openFromNotification :: "'w handoff_env \<Rightarrow> string \<Rightarrow> ('w, js obj) op" where
  "openFromNotification env key = finally_do (openNow env key) (clearNotification env key)"

section \<open>Requests\<close>

definition storedEpisodes :: "'w handoff_env \<Rightarrow> string \<Rightarrow> ('w, episode list) op" where
  "storedEpisodes env key = (case challenge_storage env of
      None \<Rightarrow> ret []
    | Some api \<Rightarrow> quiet (readTaskEpisodes api key) [])"

definition requireActiveEpisode :: "'w handoff_env \<Rightarrow> string \<Rightarrow> int \<Rightarrow> string \<Rightarrow> ('w, unit) op" where
  "requireActiveEpisode env key tab chl =
     bnd (storedEpisodes env key) (\<lambda>eps.
       if (case findEpisode eps key chl of None \<Rightarrow> True | Some e \<Rightarrow> ep_tab e \<noteq> tab \<or> ep_state e \<noteq> Active)
       then throw (JsError PlainError ''No active challenge with that id exists on this tab for this task''
         [(''code'', Str ''challenge_not_found''), (''outcome'', Str ''not_started'')])
       else ret ())"

definition request_timeout :: "js obj \<Rightarrow> js" where
  "request_timeout params = (if jget params ''timeout_ms'' = Undefined then js_int DEFAULT_TIMEOUT_MS
     else jget params ''timeout_ms'')"

definition bad_request :: "js obj \<Rightarrow> bool" where
  "bad_request params \<longleftrightarrow>
     \<not> is_integer (jget params ''tab_id'') \<or> \<not> is_str (jget params ''prompt'') \<or>
     \<not> is_integer (request_timeout params) \<or> the_int (request_timeout params) < 1 \<or>
     (jget params ''completion'' \<noteq> Undefined \<and> \<not> validCompletion (jget params ''completion''))"

definition new_notice :: "string \<Rightarrow> string \<Rightarrow> js obj \<Rightarrow> int \<Rightarrow> handoff_notice" where
  "new_notice uuid key params time = \<lparr>noticeId = uuid, noticeTask = key,
     noticeTab = the_int (jget params ''tab_id''),
     expectedRevision = the_int (jget params ''expected_page_revision''),
     prompt = the_str (jget params ''prompt''), completion = jget params ''completion'',
     status = NOpen, startedAtMs = time, expiresAtMs = time + the_int (request_timeout params)\<rparr>"

definition assert_target :: "'w handoff_env \<Rightarrow> string \<Rightarrow> js obj \<Rightarrow> ('w, unit) op" where
  "assert_target env key params =
     bnd (assertOwnedNow (env.truncate env) key (the_int (jget params ''tab_id''))) (\<lambda>_.
     bnd (assertExpected (storage env) (the_int (jget params ''tab_id''))
       (jget params ''expected_page_revision'')) (\<lambda>_. ret ()))"

definition refuse_paused :: "'w handoff_env \<Rightarrow> ('w, unit) op" where
  "refuse_paused env =
     bnd (gets scheduler) (\<lambda>sc.
       if \<not> accepting sc then throw paused_error
       else bnd (readState (storage env)) (\<lambda>st. if paused st then throw paused_error else ret ()))"

definition bind_episode :: "'w handoff_env \<Rightarrow> string \<Rightarrow> string \<Rightarrow> string \<Rightarrow> ('w, unit) op" where
  "bind_episode env key chl notice = (case challenge_storage env of
      None \<Rightarrow> ret ()
    | Some api \<Rightarrow> quiet (bnd (bindChallengeNotice api key chl notice) (\<lambda>_. ret ())) ())"

definition record_notice :: "'w handoff_env \<Rightarrow> string \<Rightarrow> js obj \<Rightarrow> ('w, js obj) op" where
  "record_notice env key params =
     bnd (ask (date_now (storage env))) (\<lambda>time.
     bnd (ask (random_uuid (storage env))) (\<lambda>uuid.
       let n = new_notice uuid key params time in
       seq (mutateState (storage env) (request_mutator n))
       (seq (settleNotices env)
       (seq (announce env n)
       (seq (case challenge_completion (completion n) of
               None \<Rightarrow> ret () | Some chl \<Rightarrow> bind_episode env key chl (noticeId n))
         (ret (noticeResult n)))))))"

definition requestNow :: "'w handoff_env \<Rightarrow> string \<Rightarrow> js obj \<Rightarrow> ('w, unit) op option \<Rightarrow> ('w, js obj) op" where
  "requestNow env key params originGuard =
     (if bad_request params
      then throw (coded_error ''invalid_request'' ''Invalid browser_handoff request parameters'')
      else
        seq (refuse_paused env)
        (seq (assert_target env key params)
        (seq (case originGuard of None \<Rightarrow> ret () | Some g \<Rightarrow> g)
        (seq (case challenge_completion (jget params ''completion'') of
                None \<Rightarrow> ret ()
              | Some chl \<Rightarrow> requireActiveEpisode env key (the_int (jget params ''tab_id'')) chl)
        (seq (case scrubber env of None \<Rightarrow> ret () | Some f \<Rightarrow> f (the_int (jget params ''tab_id'')))
        (seq (assert_target env key params)
          (record_notice env key params)))))))"

section \<open>Resolution\<close>

definition truthy :: "js \<Rightarrow> bool" where
  "truthy v = (case v of
      Undefined \<Rightarrow> False | Null \<Rightarrow> False | Bool b \<Rightarrow> b
    | Num n \<Rightarrow> n \<noteq> JInt 0 \<and> n \<noteq> JNaN | Str s \<Rightarrow> s \<noteq> [] | _ \<Rightarrow> True)"

definition completionMatched :: "'w handoff_env \<Rightarrow> handoff_notice \<Rightarrow> ('w, bool) op" where
  "completionMatched env n =
     (if \<not> truthy (completion n) then ret True
      else bnd (assertOwnedNow (env.truncate env) (noticeTask n) (noticeTab n)) (\<lambda>_.
        let k = jget (the_obj (completion n)) ''kind''; x = jget (the_obj (completion n)) ''value'' in
        if k = Str ''url''
        then bnd (tab_or_null (env.truncate env) (noticeTab n)) (\<lambda>tab.
          ret ((case tab of None \<Rightarrow> Undefined | Some t \<Rightarrow> opt_str (tab_url t)) = x))
        else quiet (bnd (call (selector_results env (noticeTab n) x)) (\<lambda>results. case results of
            [] \<Rightarrow> throw (new_error [])
          | r # rs \<Rightarrow> ret (r = Bool True))) False))"

definition not_met :: "js obj \<Rightarrow> js_error" where
  "not_met extra = JsError PlainError ''The handoff completion condition has not been met''
     ([(''code'', Str ''completion_not_met'')] @ extra)"

definition bound_event :: "episode \<Rightarrow> handoff_notice \<Rightarrow> js" where
  "bound_event e n = Obj (AList.update ''notice_id'' (Str (noticeId n)) (episodeEvent e))"

definition on_tab :: "handoff_notice \<Rightarrow> episode option \<Rightarrow> episode option" where
  "on_tab n e = (case e of None \<Rightarrow> None | Some x \<Rightarrow> if ep_tab x = noticeTab n then Some x else None)"

definition scan_episodes :: "'w handoff_env \<Rightarrow> handoff_notice \<Rightarrow> ('w, episode list) op" where
  "scan_episodes env n =
     bnd (case scanner env of None \<Rightarrow> ret None
          | Some scan \<Rightarrow> quiet (scan (noticeTask n) (noticeTab n)) None) (\<lambda>scanned.
       case scanned of Some eps \<Rightarrow> ret eps | None \<Rightarrow> storedEpisodes env (noticeTask n))"

definition resolveChallengeNow :: "'w handoff_env \<Rightarrow> handoff_notice \<Rightarrow> string \<Rightarrow> ('w, js obj) op" where
  "resolveChallengeNow env n chl =
     (if \<not> terminal (status n)
      then
        bnd (assertOwnedNow (env.truncate env) (noticeTask n) (noticeTab n)) (\<lambda>_.
        bnd (scan_episodes env n) (\<lambda>eps.
          case on_tab n (findEpisode eps (noticeTask n) chl) of
            None \<Rightarrow> throw (not_met [])
          | Some e \<Rightarrow>
              (if ep_state e = Active then throw (not_met [(''challengeEvent'', bound_event e n)])
               else bnd (setStatus env (noticeId n) NResolved) (\<lambda>resolved.
                 ret (resolved @ [(''challenge'', bound_event e n)])))))
      else
        bnd (if status n = NResolved then storedEpisodes env (noticeTask n) else ret []) (\<lambda>eps.
          ret (noticeResult n @ (case findEpisode eps (noticeTask n) chl of
              None \<Rightarrow> [] | Some e \<Rightarrow> [(''challenge'', bound_event e n)]))))"

definition resolveNow :: "'w handoff_env \<Rightarrow> string \<Rightarrow> string \<Rightarrow> ('w, js obj) op" where
  "resolveNow env key notice =
     seq (expireNow env)
     (bnd (noticeForTask env (Some key) notice) (\<lambda>n. case challenge_completion (completion n) of
        Some chl \<Rightarrow> resolveChallengeNow env n chl
      | None \<Rightarrow>
          (if terminal (status n) then ret (noticeResult n)
           else if \<not> truthy (completion n) then setStatus env notice NResolved
           else bnd (completionMatched env n) (\<lambda>met.
             if \<not> met then throw (not_met []) else setStatus env notice NResolved))))"

section \<open>Pause and resume\<close>

text \<open>
  \<open>pause\<close> closes the scheduler and records the pause, then waits until the scheduler has drained;
  \<open>announcePause\<close> is the part after that wait.
\<close>

definition beginPause :: "'w handoff_env \<Rightarrow> ('w, unit) op" where
  "beginPause env =
     seq (modify (\<lambda>s. s\<lparr>scheduler := pause (scheduler s)\<rparr>))
       (mutateState (storage env) (pause_mutator True))"

definition announcePause :: "'w handoff_env \<Rightarrow> ('w, unit) op" where
  "announcePause env =
     bnd (readState (storage env)) (\<lambda>st.
       when_do (paused st) (emit ''pause_changed'' [(''paused'', Bool True)]))"

definition resumeNow :: "'w handoff_env \<Rightarrow> ('w, unit) op" where
  "resumeNow env =
     bnd (reconcileNow (env.truncate env)) (\<lambda>_.
     seq (mutateState (storage env) (pause_mutator False))
     (seq (modify (\<lambda>s. s\<lparr>scheduler := resume (scheduler s)\<rparr>))
       (emit ''pause_changed'' [(''paused'', Bool False)])))"

end
