(* ===== verification/HandoffFacts.thy ===== *)
theory HandoffFacts
  imports Handoff
begin

text \<open>
  Facts about handoff notices: the steps the mutators make on the table of notices and their
  invariant (one open notice per task and tab), the cap, the life of one notice, and what the
  operations of the controller guarantee about the persisted state.
\<close>

section \<open>Trimming\<close>

definition notices_ok :: "notices \<Rightarrow> bool" where
  "notices_ok ns \<longleftrightarrow> distinct (map fst ns) \<and> list_all (\<lambda>(k, n). noticeId n = k) ns"

lemma foldl_delete:
  "foldl (\<lambda>acc x. AList.delete (f x) acc) ns xs = filter (\<lambda>(k, v). k \<notin> f ` set xs) ns"
proof (induction xs arbitrary: ns)
  case (Cons x xs)
  have "AList.delete (f x) ns = filter (\<lambda>(k, v). k \<noteq> f x) ns"
    by (induction ns) (auto simp: AList.delete_eq)
  with Cons show ?case by (auto simp: case_prod_unfold intro: filter_cong)
qed simp

definition dropped :: "notices \<Rightarrow> handoff_notice list" where
  "dropped ns = take (length ns - MAX_NOTICES) (oldest_terminal ns)"

lemma trim_filter: "trimNotices ns = filter (\<lambda>(k, n). k \<notin> noticeId ` set (dropped ns)) ns"
  by (simp add: trimNotices_def foldl_delete dropped_def)

lemma dropped_terminal: "n \<in> set (dropped ns) \<Longrightarrow> terminal (status n) \<and> n \<in> set (map snd ns)"
  by (auto simp: dropped_def oldest_terminal_def dest!: in_set_takeD)

lemma ok_lookup: "notices_ok ns \<Longrightarrow> (k, n) \<in> set ns \<longleftrightarrow> map_of ns k = Some n"
  by (simp add: notices_ok_def)

lemma ok_id: "notices_ok ns \<Longrightarrow> map_of ns k = Some n \<Longrightarrow> noticeId n = k"
  by (auto simp: notices_ok_def list_all_iff dest!: map_of_SomeD)

lemma ok_ids: "notices_ok ns \<Longrightarrow> map noticeId (map snd ns) = map fst ns"
  by (auto simp: notices_ok_def list_all_iff)

lemma map_of_filter_keys: "map_of (filter (\<lambda>(k, v). P k) ns) k = (if P k then map_of ns k else None)"
  by (induction ns) auto

lemma trim_lookup:
  "map_of (trimNotices ns) k = (if k \<in> noticeId ` set (dropped ns) then None else map_of ns k)"
  by (simp add: trim_filter map_of_filter_keys)

lemma trim_keeps_open:
  assumes "notices_ok ns" "map_of ns k = Some n" "status n = NOpen"
  shows "map_of (trimNotices ns) k = Some n"
proof -
  have "k \<notin> noticeId ` set (dropped ns)"
  proof
    assume "k \<in> noticeId ` set (dropped ns)"
    then obtain m where m: "m \<in> set (dropped ns)" "noticeId m = k" by blast
    from dropped_terminal [OF m(1)] obtain k' where "(k', m) \<in> set ns" and t: "terminal (status m)" by auto
    then have "map_of ns k' = Some m" "k' = k"
      using ok_lookup [OF assms(1)] ok_id [OF assms(1)] m(2) by blast+
    with assms(2,3) t show False by (simp add: terminal_def)
  qed
  with assms(2) show ?thesis by (simp add: trim_lookup)
qed

lemma trim_subset: "set (trimNotices ns) \<subseteq> set ns"
  by (auto simp: trim_filter)

lemma trim_ok: "notices_ok ns \<Longrightarrow> notices_ok (trimNotices ns)"
  by (auto simp: notices_ok_def trim_filter list_all_iff distinct_map_filter)

lemma dropped_count:
  assumes "notices_ok ns"
  shows "length (dropped ns) + length (trimNotices ns) = length ns"
proof -
  let ?P = "\<lambda>(k, n). k \<notin> noticeId ` set (dropped ns)"
  have ids: "distinct (map noticeId (map snd ns))" using assms unfolding ok_ids [OF assms] by (simp add: notices_ok_def)
  have "distinct (map noticeId (filter (\<lambda>n. terminal (status n)) (map snd ns)))"
    by (rule distinct_map_filter [OF ids])
  then have dd: "distinct (map noticeId (oldest_terminal ns))"
    by (simp add: oldest_terminal_def distinct_map)
  then have d: "distinct (map noticeId (dropped ns))"
    unfolding dropped_def take_map [symmetric] by (rule distinct_take)
  have gone: "set (map fst (filter (\<lambda>p. \<not> ?P p) ns)) = noticeId ` set (dropped ns)"
  proof
    show "set (map fst (filter (\<lambda>p. \<not> ?P p) ns)) \<subseteq> noticeId ` set (dropped ns)" by auto
    show "noticeId ` set (dropped ns) \<subseteq> set (map fst (filter (\<lambda>p. \<not> ?P p) ns))"
    proof
      fix k assume k: "k \<in> noticeId ` set (dropped ns)"
      then obtain n where "n \<in> set (dropped ns)" "k = noticeId n" by blast
      from dropped_terminal [OF \<open>n \<in> set (dropped ns)\<close>] obtain j where j: "(j, n) \<in> set ns" by auto
      with \<open>k = noticeId n\<close> have "(k, n) \<in> set ns"
        using ok_lookup [OF assms] ok_id [OF assms] by blast
      with k show "k \<in> set (map fst (filter (\<lambda>p. \<not> ?P p) ns))" by force
    qed
  qed
  have "distinct (map fst (filter (\<lambda>p. \<not> ?P p) ns))"
    using assms by (simp add: notices_ok_def distinct_map_filter)
  then have "length (filter (\<lambda>p. \<not> ?P p) ns) = card (noticeId ` set (dropped ns))"
    using gone by (metis distinct_card length_map)
  also have "\<dots> = length (dropped ns)" using d by (metis distinct_card length_map set_map)
  finally show ?thesis using sum_length_filter_compl [of ?P ns] by (simp add: trim_filter)
qed

definition open_count :: "notices \<Rightarrow> nat" where
  "open_count ns = length (filter (\<lambda>n. status n = NOpen) (map snd ns))"

lemma trim_bound:
  assumes "notices_ok ns"
  shows "length (trimNotices ns) \<le> max MAX_NOTICES (open_count ns)"
proof -
  have "length (oldest_terminal ns) + open_count ns = length ns"
    using sum_length_filter_compl [of "\<lambda>n. terminal (status n)" "map snd ns"]
    by (simp add: oldest_terminal_def open_count_def terminal_def)
  with dropped_count [OF assms] show ?thesis by (simp add: dropped_def min_def split: if_splits)
qed

text \<open>No terminal notice is deleted while an older one stays.\<close>

lemma trim_oldest:
  assumes ns: "notices_ok ns" and n: "(k, n) \<in> set ns" "(k, n) \<notin> set (trimNotices ns)"
    and m: "(j, m) \<in> set (trimNotices ns)" "terminal (status m)"
  shows "startedAtMs n \<le> startedAtMs m"
proof -
  define c where "c = length ns - MAX_NOTICES"
  have sorted: "sorted (map startedAtMs (take c (oldest_terminal ns) @ drop c (oldest_terminal ns)))"
    by (simp add: oldest_terminal_def)
  from n have "k \<in> noticeId ` set (dropped ns)" by (auto simp: trim_filter)
  then obtain n' where n': "n' \<in> set (dropped ns)" "noticeId n' = k" by blast
  then have "n' = n"
    using dropped_terminal [OF n'(1)] n(1) ok_lookup [OF ns] ok_id [OF ns] by fastforce
  with n' have inn: "n \<in> set (take c (oldest_terminal ns))" by (simp add: dropped_def c_def)
  have jm: "noticeId m = j" "(j, m) \<in> set ns" and kept: "j \<notin> noticeId ` set (dropped ns)"
    using m ok_lookup [OF ns] ok_id [OF ns] by (auto simp: trim_filter)
  then have "m \<in> set (oldest_terminal ns)" using m(2) by (force simp: oldest_terminal_def)
  moreover have "m \<notin> set (take c (oldest_terminal ns))"
    using kept jm(1) by (auto simp: dropped_def c_def)
  ultimately have "m \<in> set (drop c (oldest_terminal ns))" by (metis Un_iff append_take_drop_id set_append)
  with inn sorted show ?thesis unfolding map_append sorted_append by auto
qed

section \<open>Steps\<close>

text \<open>A new notice has a fresh random id.\<close>

inductive notice_step :: "notices \<Rightarrow> notices \<Rightarrow> bool" where
  ns_expire: "notice_step ns (expire_notices time ns)"
| ns_dismiss: "notice_step ns (dismiss_matching p ns)"
| ns_set: "map_of ns k = Some n \<Longrightarrow> terminal new \<Longrightarrow> notice_step ns (set_notice k new n ns)"
| ns_add: "status n = NOpen \<Longrightarrow> map_of ns (noticeId n) = None \<Longrightarrow> notice_step ns (add_notice n ns)"
| ns_clear: "notice_step ns (clear_notices key ns)"

inductive_cases notice_stepE: "notice_step ns ns'"

definition one_open :: "notices \<Rightarrow> bool" where
  "one_open ns \<longleftrightarrow> (\<forall>k n j m. map_of ns k = Some n \<longrightarrow> map_of ns j = Some m \<longrightarrow> status n = NOpen \<longrightarrow>
     status m = NOpen \<longrightarrow> noticeTask n = noticeTask m \<longrightarrow> noticeTab n = noticeTab m \<longrightarrow> k = j)"

definition notices_inv :: "notices \<Rightarrow> bool" where
  "notices_inv ns \<longleftrightarrow> notices_ok ns \<and> one_open ns"

text \<open>\<open>ns'\<close> has no notices that \<open>ns\<close> does not have, and no notice was opened again.\<close>

definition became :: "handoff_notice \<Rightarrow> handoff_notice \<Rightarrow> bool" where
  "became n m \<longleftrightarrow> m = n \<or> (status n = NOpen \<and> (\<exists>st. terminal st \<and> m = n\<lparr>status := st\<rparr>))"

lemma became_refl [simp]: "became n n"
  by (simp add: became_def)

lemma became_open: "became n m \<Longrightarrow> status m = NOpen \<Longrightarrow> m = n"
  by (auto simp: became_def terminal_def)

lemma became_final: "became n m \<Longrightarrow> terminal (status n) \<Longrightarrow> m = n"
  by (auto simp: became_def terminal_def)

lemma became_trans: "became a b \<Longrightarrow> became b c \<Longrightarrow> became a c"
  by (auto simp: became_def terminal_def)

definition closes :: "notices \<Rightarrow> notices \<Rightarrow> bool" where
  "closes ns ns' \<longleftrightarrow> (\<forall>k m. map_of ns' k = Some m \<longrightarrow> (\<exists>n. map_of ns k = Some n \<and> became n m))"

lemma closes_one_open: "closes ns ns' \<Longrightarrow> one_open ns \<Longrightarrow> one_open ns'"
  unfolding one_open_def
proof (intro allI impI)
  fix k n j m
  assume c: "closes ns ns'" and o: "\<forall>k n j m. map_of ns k = Some n \<longrightarrow> map_of ns j = Some m \<longrightarrow> status n = NOpen \<longrightarrow>
     status m = NOpen \<longrightarrow> noticeTask n = noticeTask m \<longrightarrow> noticeTab n = noticeTab m \<longrightarrow> k = j"
  assume n: "map_of ns' k = Some n" "status n = NOpen" and m: "map_of ns' j = Some m" "status m = NOpen"
    and same: "noticeTask n = noticeTask m" "noticeTab n = noticeTab m"
  have before: "map_of ns i = Some x" if "map_of ns' i = Some x" "status x = NOpen" for i x
    using c that became_open unfolding closes_def by blast
  show "k = j" using o before [OF n] before [OF m] n(2) m(2) same by blast
qed

lemma closes_trans: "closes a b \<Longrightarrow> closes b c \<Longrightarrow> closes a c"
  unfolding closes_def using became_trans by blast

lemma closes_trim: "closes ns (trimNotices ns)"
  by (auto simp: closes_def trim_lookup)

lemma close_where_lookup: "map_of (close_where p st ns) k =
   map_option (\<lambda>n. if status n = NOpen \<and> p n then n\<lparr>status := st\<rparr> else n) (map_of ns k)"
  unfolding close_where_def by (rule map_of_map_obj)

lemma became_close: "terminal st \<Longrightarrow> became n (if status n = NOpen \<and> b then n\<lparr>status := st\<rparr> else n)"
  by (auto simp: became_def)

lemma closes_close_where: "terminal st \<Longrightarrow> closes ns (close_where p st ns)"
  unfolding closes_def close_where_lookup map_option_eq_Some
proof (intro allI impI, elim exE conjE)
  fix k m n assume "terminal st" "map_of ns k = Some n" "(if status n = NOpen \<and> p n then n\<lparr>status := st\<rparr> else n) = m"
  with became_close [of st n "p n"] show "\<exists>n. map_of ns k = Some n \<and> became n m" by blast
qed

lemma close_where_keys: "map fst (close_where p st ns) = map fst ns"
  by (simp add: close_where_def comp_def case_prod_unfold)

lemma close_where_ok: "notices_ok ns \<Longrightarrow> notices_ok (close_where p st ns)"
  unfolding notices_ok_def close_where_keys by (auto simp: close_where_def list_all_iff)

lemma update_ok: "notices_ok ns \<Longrightarrow> noticeId n = k \<Longrightarrow> notices_ok (AList.update k n ns)"
  using set_update_subset [of k n ns] by (auto simp: notices_ok_def list_all_iff distinct_keys_update)

lemma clear_filter:
  "clear_notices key ns =
     filter (\<lambda>(k, v). k \<notin> noticeId ` set (filter (\<lambda>n. noticeTask n = key) (map snd ns))) ns"
  using foldl_delete [of id ns "map noticeId (filter (\<lambda>n. noticeTask n = key) (map snd ns))"]
  by (simp add: clear_notices_def)

lemma closes_set: "map_of ns k = Some n \<Longrightarrow> terminal new \<Longrightarrow> closes ns (AList.update k (close_notice new n) ns)"
  unfolding closes_def close_notice_def using became_close [of new n True] by auto

lemma step_ok: "notice_step ns ns' \<Longrightarrow> notices_ok ns \<Longrightarrow> notices_ok ns'"
proof (induction rule: notice_step.induct)
  case (ns_set ns k n new)
  then have "noticeId (close_notice new n) = k" using ok_id by (auto simp: close_notice_def)
  with ns_set show ?case by (simp add: set_notice_def trim_ok update_ok)
next
  case (ns_clear ns key)
  then show ?case by (auto simp: clear_filter notices_ok_def list_all_iff distinct_map_filter)
qed (simp_all add: expire_notices_def dismiss_matching_def add_notice_def trim_ok close_where_ok update_ok)

lemma step_closes_or_adds:
  assumes "notice_step ns ns'"
  shows "closes ns ns' \<or> (\<exists>n. status n = NOpen \<and> map_of ns (noticeId n) = None \<and> ns' = add_notice n ns)"
  using assms
proof cases
  case (ns_expire time)
  then show ?thesis
    using closes_trans [OF closes_close_where closes_trim] by (simp add: expire_notices_def terminal_def)
next
  case (ns_dismiss p)
  then show ?thesis
    using closes_trans [OF closes_close_where closes_trim] by (simp add: dismiss_matching_def terminal_def)
next
  case (ns_set k n new)
  then show ?thesis using closes_trans [OF closes_set closes_trim] by (simp add: set_notice_def)
next
  case (ns_clear key)
  then show ?thesis unfolding clear_filter closes_def by (simp add: map_of_filter_keys)
qed blast

lemma add_notice_lookup:
  assumes ok: "notices_ok ns" and n: "status n = NOpen"
  shows "map_of (add_notice n ns) (noticeId n) = Some n"
    and "map_of (add_notice n ns) k = Some m \<Longrightarrow> k \<noteq> noticeId n \<Longrightarrow>
      \<exists>m0. map_of ns k = Some m0 \<and> became m0 m \<and>
        (noticeTask m = noticeTask n \<longrightarrow> noticeTab m = noticeTab n \<longrightarrow> status m \<noteq> NOpen)"
proof -
  let ?p = "\<lambda>m. noticeTask m = noticeTask n \<and> noticeTab m = noticeTab n"
  let ?ns = "AList.update (noticeId n) n (close_where ?p NDismissed ns)"
  have ok': "notices_ok ?ns" by (rule update_ok [OF close_where_ok [OF ok] refl])
  show "map_of (add_notice n ns) (noticeId n) = Some n"
    unfolding add_notice_def by (rule trim_keeps_open [OF ok' _ n]) simp
  assume m: "map_of (add_notice n ns) k = Some m" "k \<noteq> noticeId n"
  then have "map_of (close_where ?p NDismissed ns) k = Some m"
    by (simp add: add_notice_def trim_lookup split: if_splits)
  then show "\<exists>m0. map_of ns k = Some m0 \<and> became m0 m \<and>
      (noticeTask m = noticeTask n \<longrightarrow> noticeTab m = noticeTab n \<longrightarrow> status m \<noteq> NOpen)"
    by (auto simp: close_where_lookup became_def terminal_def)
qed

lemma add_one_open:
  assumes ok: "notices_ok ns" and o: "one_open ns" and n: "status n = NOpen"
  shows "one_open (add_notice n ns)"
  unfolding one_open_def
proof (intro allI impI)
  fix k a j b
  assume a: "map_of (add_notice n ns) k = Some a" "status a = NOpen"
    and b: "map_of (add_notice n ns) j = Some b" "status b = NOpen"
    and same: "noticeTask a = noticeTask b" "noticeTab a = noticeTab b"
  note new = add_notice_lookup [OF ok n]
  show "k = j"
  proof (cases "k = noticeId n \<or> j = noticeId n")
    case True
    then show ?thesis using new(1) new(2) [OF a(1)] new(2) [OF b(1)] a b same by fastforce
  next
    case False
    then have "map_of ns k = Some a" "map_of ns j = Some b"
      using new(2) [OF a(1)] new(2) [OF b(1)] became_open [OF _ a(2)] became_open [OF _ b(2)] by blast+
    with o a(2) b(2) same show ?thesis unfolding one_open_def by blast
  qed
qed

interpretation notice_inv: inductive_invariant "\<lambda>ns. ns = []" notice_step notices_inv
proof unfold_locales
  show "ns = [] \<Longrightarrow> notices_inv ns" for ns by (simp add: notices_inv_def notices_ok_def one_open_def)
next
  fix ns ns' assume i: "notices_inv ns" and st: "notice_step ns ns'"
  from step_closes_or_adds [OF st] i show "notices_inv ns'"
    unfolding notices_inv_def using step_ok [OF st] closes_one_open add_one_open by metis
qed

text \<open>A notice that ended keeps its status until it is deleted.\<close>

lemma terminal_final:
  assumes ok: "notices_ok ns" and st: "notice_step ns ns'" and n: "map_of ns k = Some n" "terminal (status n)"
  shows "map_of ns' k = None \<or> map_of ns' k = Some n"
proof (cases "map_of ns' k")
  case (Some m)
  from step_closes_or_adds [OF st] show ?thesis
  proof
    assume "closes ns ns'"
    with Some n became_final show ?thesis unfolding closes_def by (metis option.inject)
  next
    assume "\<exists>n. status n = NOpen \<and> map_of ns (noticeId n) = None \<and> ns' = add_notice n ns"
    then obtain a where a: "status a = NOpen" "map_of ns (noticeId a) = None" "ns' = add_notice a ns" by blast
    then have "k \<noteq> noticeId a" using n(1) by auto
    with add_notice_lookup(2) [OF ok a(1) Some [unfolded a(3)]] n became_final show ?thesis
      using Some by (metis option.inject)
  qed
qed simp


section \<open>The mutators\<close>

lemma ext_ok_notices: "ext_ok st \<Longrightarrow> notices_ok (notices st)"
  by (auto simp: ext_ok_def keys_ok_def state_wf_def notices_ok_def list_all_iff notice_wf_def)

lemma distinct_trim: "distinct (map fst ns) \<Longrightarrow> distinct (map fst (trimNotices ns))"
  by (simp add: trim_filter distinct_map_filter)

lemma distinct_steps:
  assumes "distinct (map fst ns)"
  shows "distinct (map fst (expire_notices time ns))" "distinct (map fst (dismiss_matching p ns))"
    "distinct (map fst (set_notice k new n ns))" "distinct (map fst (add_notice n ns))"
    "distinct (map fst (clear_notices key ns))"
  using assms
  by (simp_all add: expire_notices_def dismiss_matching_def set_notice_def add_notice_def clear_filter
      distinct_trim distinct_keys_update close_where_keys distinct_map_filter)

lemma request_mutator_Inr: "request_mutator n st = Inr (x, st') \<longleftrightarrow>
    \<not> paused st \<and> owns (noticeTask n) (noticeTab n) st \<and> st' = st\<lparr>notices := add_notice n (notices st)\<rparr>"
  by (auto simp: request_mutator_def owns_def split: option.splits if_splits)

lemma status_mutator_Inr: "status_mutator k new st = Inr (x, st') \<longleftrightarrow>
    (\<exists>n. map_of (notices st) k = Some n \<and> x = close_notice new n \<and>
      st' = st\<lparr>notices := set_notice k new n (notices st)\<rparr>)"
  by (auto simp: status_mutator_def split: option.splits)

lemma notice_mutator_keys:
  "keeps_keys (expire_mutator time)" "keeps_keys (dismiss_mutator p)" "keeps_keys (status_mutator k new)"
  "keeps_keys (request_mutator n)" "keeps_keys (clear_mutator key)" "keeps_keys (pause_mutator b)"
  by (auto simp: keeps_keys_def keys_ok_def expire_mutator_def dismiss_mutator_def status_mutator_Inr
      request_mutator_Inr clear_mutator_def pause_mutator_def distinct_steps)

text \<open>Every change of the notices is a step of \<open>notice_step\<close>.\<close>

lemma mutators_step:
  "expire_mutator time st = Inr (u, st') \<Longrightarrow> notice_step (notices st) (notices st')"
  "dismiss_mutator p st = Inr (b, st') \<Longrightarrow> notice_step (notices st) (notices st')"
  "terminal new \<Longrightarrow> status_mutator k new st = Inr (n', st') \<Longrightarrow> notice_step (notices st) (notices st')"
  "status n = NOpen \<Longrightarrow> map_of (notices st) (noticeId n) = None \<Longrightarrow> request_mutator n st = Inr (u, st') \<Longrightarrow>
     notice_step (notices st) (notices st')"
  "clear_mutator key st = Inr (b, st') \<Longrightarrow> notice_step (notices st) (notices st')"
  by (auto simp: expire_mutator_def dismiss_mutator_def status_mutator_Inr request_mutator_Inr
      clear_mutator_def intro: notice_step.intros)

section \<open>Notices in the stored form\<close>

definition notice_core :: "handoff_notice \<Rightarrow> handoff_notice" where
  "notice_core n = n\<lparr>completion := Undefined\<rparr>"

lemma notice_json_fields:
  assumes "notice_json n = Obj ob"
  shows "jget ob ''noticeId'' = Str (noticeId n)" "jget ob ''taskId'' = Str (noticeTask n)"
    "jget ob ''tabId'' = js_int (noticeTab n)" "jget ob ''expectedRevision'' = js_int (expectedRevision n)"
    "jget ob ''prompt'' = Str (prompt n)" "jget ob ''status'' = Str (status_name (status n))"
    "jget ob ''startedAtMs'' = js_int (startedAtMs n)" "jget ob ''expiresAtMs'' = js_int (expiresAtMs n)"
    "list_all (own ob) [''noticeId'', ''taskId'', ''tabId'', ''expectedRevision'', ''prompt'', ''status'',
       ''startedAtMs'', ''expiresAtMs'']"
  using assms by (auto simp: notice_json_def)

lemma status_name_inject [simp]: "status_name c = status_name d \<longleftrightarrow> c = d"
  by (cases c; cases d) simp_all

lemma notice_json_equiv:
  assumes "jsonEquivalent (notice_json n) (notice_json m)"
  shows "notice_core n = notice_core m"
proof -
  obtain a b where ab: "notice_json n = Obj a" "notice_json m = Obj b" by (simp add: notice_json_def)
  note fa = notice_json_fields [OF ab(1)] and fb = notice_json_fields [OF ab(2)]
  have e: "jsonEquivalent (Obj a) (Obj b)" using assms by (simp only: ab)
  have q: "jsonEquivalent (jget a k) (jget b k)" if "k \<in> set [''noticeId'', ''taskId'', ''tabId'',
      ''expectedRevision'', ''prompt'', ''status'', ''startedAtMs'', ''expiresAtMs'']" for k
    using that fa(9) by (intro equiv_jget [OF e]) (simp only: list_all_iff)
  from q [of "''noticeId''"] q [of "''taskId''"] q [of "''tabId''"] q [of "''expectedRevision''"]
    q [of "''prompt''"] q [of "''status''"] q [of "''startedAtMs''"] q [of "''expiresAtMs''"]
  show ?thesis
    unfolding fa(1-8) fb(1-8) by (cases n; cases m) (simp add: notice_core_def js_int_def)
qed

lemma notice_core_fields:
  "notice_core n = notice_core m \<Longrightarrow> status n = status m \<and> noticeTask n = noticeTask m \<and>
     noticeTab n = noticeTab m \<and> expiresAtMs n = expiresAtMs m \<and> noticeId n = noticeId m"
  by (cases n; cases m) (simp add: notice_core_def)

lemma equiv_notice:
  assumes "state_equiv a b" "ext_ok a"
  shows "map_option notice_core (map_of (notices a) k) = map_option notice_core (map_of (notices b) k)"
proof (cases "map_of (notices a) k")
  case None
  moreover have "distinct (map fst (notices a))" using assms(2) by (simp add: ext_ok_def keys_ok_def)
  ultimately show ?thesis using equiv_map_obj_None [OF state_equiv_parts(4) [OF assms(1)]] by simp
next
  case (Some n)
  with equiv_map_obj [OF state_equiv_parts(4) [OF assms(1)], of k n] show ?thesis
    by (auto dest: notice_json_equiv)
qed

lemma equiv_notice_Some:
  assumes "state_equiv a b" "ext_ok a" "map_of (notices a) k = Some n"
  obtains m where "map_of (notices b) k = Some m" "notice_core n = notice_core m"
  using equiv_notice [OF assms(1,2), of k] assms(3) by (cases "map_of (notices b) k") auto

definition single :: "ext_state \<Rightarrow> bool" where
  "single st \<longleftrightarrow> one_open (notices st)"

lemma equiv_closed_single: "equiv_closed single"
  unfolding equiv_closed_def single_def one_open_def
proof (intro allI impI)
  fix a b k n j m
  assume e: "state_equiv a b" "ext_ok a"
    and o: "\<forall>k n j m. map_of (notices b) k = Some n \<longrightarrow> map_of (notices b) j = Some m \<longrightarrow> status n = NOpen \<longrightarrow>
     status m = NOpen \<longrightarrow> noticeTask n = noticeTask m \<longrightarrow> noticeTab n = noticeTab m \<longrightarrow> k = j"
    and n: "map_of (notices a) k = Some n" and m: "map_of (notices a) j = Some m"
    and same: "status n = NOpen" "status m = NOpen" "noticeTask n = noticeTask m" "noticeTab n = noticeTab m"
  obtain n' where n': "map_of (notices b) k = Some n'" "notice_core n = notice_core n'"
    by (rule equiv_notice_Some [OF e n])
  obtain m' where m': "map_of (notices b) j = Some m'" "notice_core m = notice_core m'"
    by (rule equiv_notice_Some [OF e m])
  show "k = j" using o n'(1) m'(1) same notice_core_fields [OF n'(2)] notice_core_fields [OF m'(2)] by metis
qed

section \<open>One open notice, through every operation\<close>

definition about_notices :: "(ext_state \<Rightarrow> bool) \<Rightarrow> bool" where
  "about_notices Q \<longleftrightarrow> (\<forall>st st'. notices st' = notices st \<longrightarrow> Q st \<longrightarrow> Q st')"

text \<open>The code around the controller keeps \<open>Q\<close>: the listeners, the scrubber and the scanner.\<close>

definition calm :: "'w handoff_env \<Rightarrow> (ext_state \<Rightarrow> bool) \<Rightarrow> string set \<Rightarrow> bool" where
  "calm env Q E \<longleftrightarrow> equiv_closed Q \<and> about_notices Q \<and>
     (\<forall>l \<in> set (listeners env). \<forall>t r. keeps (holds Q E) (l t r)) \<and>
     (\<forall>f. scrubber env = Some f \<longrightarrow> (\<forall>t. keeps (holds Q E) (f t))) \<and>
     (\<forall>f. scanner env = Some f \<longrightarrow> (\<forall>k t. keeps (holds Q E) (f k t)))"

lemma truncate_fields [simp]:
  "storage (env.truncate env) = storage env" "listeners (env.truncate env) = listeners env"
  by (simp_all add: env.truncate_def)

lemma same_notices:
  "about_notices Q \<Longrightarrow> keeps_keys f \<Longrightarrow> (\<And>st x st'. f st = Inr (x, st') \<Longrightarrow> notices st' = notices st) \<Longrightarrow>
     mutator_keeps Q f"
  unfolding mutator_keeps_def keeps_keys_def about_notices_def using ext_ok_keys by blast

lemma on_revisions_notices: "on_revisions f st = Inr (x, st') \<Longrightarrow> notices st' = notices st"
  by (auto simp: on_revisions_def split: prod.splits)

lemma calm_revisions:
  assumes "calm env Q E"
  shows "keeps (holds Q E) (rev_ensure (storage env) tab)"
    "keeps (holds Q E) (rev_current (storage env) tab)"
    "keeps (holds Q E) (assertExpected (storage env) tab expected)"
    "keeps (holds Q E) (rev_remove (storage env) (listeners env) tab)"
proof -
  have Q: "equiv_closed Q" "about_notices Q" using assms by (simp_all add: calm_def)
  have m: "mutator_keeps Q (on_revisions (ensure_rev k))" "mutator_keeps Q (on_revisions (bump_rev k))" for k
    by (rule same_notices [OF Q(2)], rule revision_keys, erule on_revisions_notices)+
  show e: "keeps (holds Q E) (rev_ensure (storage env) tab)"
    unfolding rev_ensure_def by (rule keeps_holds_mutate [OF Q(1) m(1)])
  show c: "keeps (holds Q E) (rev_current (storage env) tab)"
    unfolding rev_current_def by (intro keeps_intros e)
  show "keeps (holds Q E) (assertExpected (storage env) tab expected)"
    unfolding assertExpected_def by (intro keeps_intros c)
  have l: "\<And>l t r. l \<in> set (listeners env) \<Longrightarrow> keeps (holds Q E) (l t r)" using assms by (simp add: calm_def)
  show "keeps (holds Q E) (rev_remove (storage env) (listeners env) tab)"
    unfolding rev_remove_def publishChange_def
    by (intro keeps_bnd keeps_holds_mutate Q(1) m(2) keeps_for_each_in l)
qed

lemma revoke_mutator_notices: "revoke_mutator tab time st = Inr (x, st') \<Longrightarrow> notices st' = notices st"
  by (auto simp: revoke_mutator_def split: prod.splits)

lemma reconcile_mutator_keys: "keeps_keys (reconcile_mutator lookup time)"
  by (auto simp: keeps_keys_def reconcile_mutator_def keys_ok_def comp_def case_prod_unfold)

lemma calm_inventory: "calm env Q E \<Longrightarrow> keeps (holds Q E) (emitInventory (env.truncate env))"
  unfolding emitInventory_def inventory_def inventory_entry_def truncate_fields
  by (intro keeps_intros calm_revisions world_free_holds)

lemma calm_revoke:
  assumes "calm env Q E"
  shows "keeps (holds Q E) (revokeNow (env.truncate env) tab event)"
proof -
  have Q: "equiv_closed Q" "about_notices Q" using assms by (simp_all add: calm_def)
  have m: "mutator_keeps Q (revoke_mutator tab time)" for time
    by (rule same_notices [OF Q(2)])
      (auto simp: keeps_keys_def intro: revoke_mutator_keys dest: revoke_mutator_notices)
  show ?thesis
    unfolding revokeNow_def truncate_fields
    by (intro keeps_intros keeps_holds_mutate Q(1) m calm_inventory [OF assms] calm_revisions [OF assms])
qed

lemma calm_assertOwned:
  assumes "calm env Q E"
  shows "keeps (holds Q E) (assertOwnedNow (env.truncate env) key tab)"
  unfolding assertOwnedNow_def truncate_fields by (intro keeps_intros calm_revoke [OF assms])

lemma calm_reconcile:
  assumes "calm env Q E"
  shows "keeps (holds Q E) (reconcileNow (env.truncate env))"
proof -
  have Q: "equiv_closed Q" "about_notices Q" using assms by (simp_all add: calm_def)
  have m: "mutator_keeps Q (reconcile_mutator lookup time)" for lookup time
    by (rule same_notices [OF Q(2) reconcile_mutator_keys]) (auto simp: reconcile_mutator_def)
  show ?thesis
    unfolding reconcileNow_def truncate_fields
    by (intro keeps_intros keeps_holds_mutate Q(1) m calm_inventory [OF assms] calm_revisions [OF assms]
        world_free_holds)
qed

lemma keeps_notifications [keeps_intros]:
  "keeps (holds Q E) (clearNotification env key)" "keeps (holds Q E) (settleNotices env)"
  "keeps (holds Q E) (announce env n)"
proof -
  show c: "keeps (holds Q E) (clearNotification env k)" for k
    unfolding clearNotification_def by (intro keeps_intros world_free_holds)
  show "keeps (holds Q E) (settleNotices env)" unfolding settleNotices_def by (intro keeps_intros world_free_holds c)
  show "keeps (holds Q E) (announce env n)" unfolding announce_def by (intro keeps_intros world_free_holds)
qed

lemma keeps_episodes [keeps_intros]:
  "keeps (holds Q E) (storedEpisodes env key)" "keeps (holds Q E) (bind_episode env key chl notice)"
  unfolding storedEpisodes_def readTaskEpisodes_def readTable_def bind_episode_def bindChallengeNotice_def
    updateTaskEpisodes_def writeTable_def
  by (intro keeps_intros world_free_holds)+

lemma keeps_noticeForTask [keeps_intros]: "keeps (holds Q E) (noticeForTask env owner_task key)"
  unfolding noticeForTask_def by (intro keeps_intros)

lemma keeps_requireActiveEpisode [keeps_intros]: "keeps (holds Q E) (requireActiveEpisode env key tab chl)"
  unfolding requireActiveEpisode_def by (intro keeps_intros)

lemma keeps_refuse_paused [keeps_intros]: "keeps (holds Q E) (refuse_paused env)"
  unfolding refuse_paused_def by (intro keeps_intros)

lemma single_mutators:
  "mutator_keeps single (expire_mutator time)" "mutator_keeps single (dismiss_mutator p)"
  "terminal new \<Longrightarrow> mutator_keeps single (status_mutator k new)"
  "status n = NOpen \<Longrightarrow> mutator_keeps single (request_mutator n)"
  "mutator_keeps single (clear_mutator key)" "mutator_keeps single (pause_mutator b)"
proof -
  have inv: "one_open (notices st')" if "ext_ok st" "single st" "notice_step (notices st) (notices st')" for st st'
    using notice_inv.inv_step [OF _ that(3)] that(1,2) ext_ok_notices by (simp add: notices_inv_def single_def)
  have *: "mutator_keeps single f" if "keeps_keys f"
    "\<And>st x st'. f st = Inr (x, st') \<Longrightarrow> notice_step (notices st) (notices st')" for f :: "'z mutator"
    using that inv ext_ok_keys unfolding mutator_keeps_def keeps_keys_def single_def by blast
  show "mutator_keeps single (expire_mutator time)"
    by (rule *, rule notice_mutator_keys, erule mutators_step)
  show "mutator_keeps single (dismiss_mutator p)"
    by (rule *, rule notice_mutator_keys, erule mutators_step)
  show "terminal new \<Longrightarrow> mutator_keeps single (status_mutator k new)"
    by (rule *, rule notice_mutator_keys, erule (1) mutators_step(3))
  show "mutator_keeps single (clear_mutator key)"
    by (rule *, rule notice_mutator_keys, erule mutators_step)
  show "status n = NOpen \<Longrightarrow> mutator_keeps single (request_mutator n)"
    using add_one_open ext_ok_notices notice_mutator_keys(4) [of n] ext_ok_keys
    unfolding mutator_keeps_def single_def keeps_keys_def by (auto simp: request_mutator_Inr)
  show "mutator_keeps single (pause_mutator b)"
    using notice_mutator_keys(6) [of b] ext_ok_keys
    unfolding mutator_keeps_def single_def keeps_keys_def by (auto simp: pause_mutator_def)
qed

text \<open>The operations of the controller.\<close>

lemma single_operations:
  assumes "calm env single {}"
  shows "keeps (holds single {}) (expireNow env)" "keeps (holds single {}) (dismissNow env owner_task key)"
    "keeps (holds single {}) (dismissMatchingNow env p)" "keeps (holds single {}) (clearForTask env t)"
    "keeps (holds single {}) (openNow env key)" "keeps (holds single {}) (resolveNow env t key)"
    "(\<And>g. guard = Some g \<Longrightarrow> keeps (holds single {}) g) \<Longrightarrow> keeps (holds single {}) (requestNow env t params guard)"
    "keeps (holds single {}) (beginPause env)" "keeps (holds single {}) (resumeNow env)"
proof -
  have Q: "equiv_closed single" by (rule equiv_closed_single)
  note m = keeps_holds_mutate [OF Q]
  have w: "world_free (holds single {})" by simp
  have t: "terminal NDismissed" "terminal NResolved" by (simp_all add: terminal_def)
  show e: "keeps (holds single {}) (expireNow env)"
    unfolding expireNow_def by (intro keeps_intros w m single_mutators)
  have st: "keeps (holds single {}) (setStatus env key new)" if "terminal new" for key new
    unfolding setStatus_def by (intro keeps_intros m single_mutators that)
  show "keeps (holds single {}) (dismissNow env owner_task key)"
    unfolding dismissNow_def by (intro keeps_intros e st t)
  show "keeps (holds single {}) (dismissMatchingNow env p)"
    unfolding dismissMatchingNow_def by (intro keeps_intros m single_mutators)
  show "keeps (holds single {}) (clearForTask env t)"
    unfolding clearForTask_def by (intro keeps_intros m single_mutators)
  show "keeps (holds single {}) (openNow env key)"
    unfolding openNow_def by (intro keeps_intros e calm_assertOwned assms w)
  have scan: "keeps (holds single {}) (scan_episodes env n)" for n
    unfolding scan_episodes_def using assms
    by (cases "scanner env") (auto simp: calm_def intro!: keeps_intros)
  have rc: "keeps (holds single {}) (resolveChallengeNow env n chl)" for n chl
    unfolding resolveChallengeNow_def by (intro keeps_intros calm_assertOwned assms scan st t)
  have cm: "keeps (holds single {}) (completionMatched env n)" for n
    unfolding completionMatched_def Let_def by (intro keeps_intros calm_assertOwned assms w)
  show "keeps (holds single {}) (resolveNow env t key)"
    unfolding resolveNow_def by (intro keeps_intros e rc cm st t)
  have at: "keeps (holds single {}) (assert_target env t params)"
    unfolding assert_target_def by (intro keeps_intros calm_assertOwned calm_revisions assms)
  have rec: "keeps (holds single {}) (record_notice env t params)"
    unfolding record_notice_def Let_def
    by (intro keeps_intros w m single_mutators) (simp add: new_notice_def)
  have scr: "keeps (holds single {}) (case scrubber env of None \<Rightarrow> ret () | Some f \<Rightarrow> f tab)" for tab
    using assms by (cases "scrubber env") (simp_all add: calm_def keeps_ret)
  show "keeps (holds single {}) (requestNow env t params guard)"
    if g: "\<And>g. guard = Some g \<Longrightarrow> keeps (holds single {}) g"
  proof -
    have gd: "keeps (holds single {}) (case guard of None \<Rightarrow> ret () | Some g \<Rightarrow> g)"
      using g by (cases guard) (simp_all add: keeps_ret)
    have ch: "keeps (holds single {}) (case c of None \<Rightarrow> ret ()
        | Some chl \<Rightarrow> requireActiveEpisode env t tab chl)" for c tab
      by (intro keeps_intros)
    show ?thesis
      unfolding requestNow_def
      by (intro keeps_if keeps_throw keeps_seq keeps_refuse_paused at rec scr gd ch)
  qed
  have sc: "keeps (holds single {}) (modify (\<lambda>s. s\<lparr>scheduler := f (scheduler s)\<rparr>))" for f
    by (simp add: keeps_same_cached)
  show "keeps (holds single {}) (beginPause env)"
    unfolding beginPause_def by (intro keeps_intros m single_mutators sc)
  show "keeps (holds single {}) (resumeNow env)"
    unfolding resumeNow_def by (intro keeps_intros m single_mutators sc calm_reconcile assms)
qed

section \<open>Requests\<close>

text \<open>While AgentTab is paused a request has no effect at all.\<close>

lemma request_refused:
  assumes "cached s = Some st" and "paused st \<or> \<not> accepting (scheduler s)" and "\<not> bad_request params"
  shows "requestNow env key params guard s = (Inl paused_error, s)"
  using assms
  by (auto simp: requestNow_def refuse_paused_def seq_def bnd_def gets_def throw_def readState_cached)

text \<open>The state after a request that was accepted.\<close>

definition recorded :: "handoff_notice \<Rightarrow> ext_state \<Rightarrow> bool" where
  "recorded n st \<longleftrightarrow> \<not> paused st \<and> owns (noticeTask n) (noticeTab n) st \<and>
     (\<exists>m. map_of (notices st) (noticeId n) = Some m \<and> notice_core m = notice_core n) \<and>
     (\<forall>k m. map_of (notices st) k = Some m \<longrightarrow> noticeTask m = noticeTask n \<longrightarrow> noticeTab m = noticeTab n \<longrightarrow>
        status m = NOpen \<longrightarrow> k = noticeId n)"

lemma equiv_closed_recorded: "equiv_closed (recorded n)"
  unfolding equiv_closed_def
proof (intro allI impI)
  fix a b assume e: "state_equiv a b" "ext_ok a" and kb: "keys_ok b" and b: "recorded n b"
  have "paused a = paused b" by (rule state_equiv_parts [OF e(1)])
  moreover have "owns (noticeTask n) (noticeTab n) a"
    using equiv_closed_owns e kb b unfolding equiv_closed_def recorded_def by blast
  moreover from b obtain m where "map_of (notices b) (noticeId n) = Some m" "notice_core m = notice_core n"
    unfolding recorded_def by blast
  then have "\<exists>m. map_of (notices a) (noticeId n) = Some m \<and> notice_core m = notice_core n"
    using equiv_notice [OF e, of "noticeId n"] by (cases "map_of (notices a) (noticeId n)") auto
  moreover have "k = noticeId n" if m: "map_of (notices a) k = Some m"
    and same: "noticeTask m = noticeTask n" "noticeTab m = noticeTab n" "status m = NOpen" for k m
  proof -
    obtain m' where "map_of (notices b) k = Some m'" "notice_core m = notice_core m'"
      by (rule equiv_notice_Some [OF e m])
    with same b notice_core_fields show ?thesis unfolding recorded_def by metis
  qed
  ultimately show "recorded n a" using b unfolding recorded_def by blast
qed

lemma request_mutator_recorded:
  assumes "ext_ok st" "status n = NOpen" "request_mutator n st = Inr (x, st')"
  shows "keys_ok st' \<and> recorded n st'"
proof -
  have st': "\<not> paused st" "owns (noticeTask n) (noticeTab n) st" "st' = st\<lparr>notices := add_notice n (notices st)\<rparr>"
    using assms(3) by (simp_all add: request_mutator_Inr)
  note look = add_notice_lookup [OF ext_ok_notices [OF assms(1)] assms(2)]
  have "keys_ok st'" using assms(1,3) notice_mutator_keys(4) [of n] ext_ok_keys
    unfolding keeps_keys_def by blast
  moreover have "recorded n st'"
    unfolding recorded_def
  proof (intro conjI allI impI)
    show "\<not> paused st'" "owns (noticeTask n) (noticeTab n) st'"
      using st' by (simp_all add: owns_def task_def)
    show "\<exists>m. map_of (notices st') (noticeId n) = Some m \<and> notice_core m = notice_core n"
      using look(1) st'(3) by simp
    fix k m assume m: "map_of (notices st') k = Some m" "noticeTask m = noticeTask n" "noticeTab m = noticeTab n"
      "status m = NOpen"
    show "k = noticeId n"
    proof (rule ccontr)
      assume "k \<noteq> noticeId n"
      with look(2) [of k m] m st'(3) show False by auto
    qed
  qed
  ultimately show ?thesis by blast
qed

lemma record_notice_recorded:
  assumes s: "ready s" and r: "record_notice env key params s = (Inr res, t)"
  shows "\<exists>n. res = noticeResult n \<and> status n = NOpen \<and> noticeTask n = key \<and>
    noticeTab n = the_int (jget params ''tab_id'') \<and>
    expiresAtMs n = startedAtMs n + the_int (request_timeout params) \<and> holds (recorded n) {} t"
proof -
  from r obtain time s1 uuid s2 u s3 where s1: "ask (date_now (storage env)) s = (Inr time, s1)"
    and s2: "ask (random_uuid (storage env)) s1 = (Inr uuid, s2)"
    and m: "mutateState (storage env) (request_mutator (new_notice uuid key params time)) s2 = (Inr u, s3)"
    and rest: "seq (settleNotices env) (seq (announce env (new_notice uuid key params time))
       (seq (case challenge_completion (completion (new_notice uuid key params time)) of
               None \<Rightarrow> ret () | Some chl \<Rightarrow> bind_episode env key chl (noticeId (new_notice uuid key params time)))
         (ret (noticeResult (new_notice uuid key params time))))) s3 = (Inr res, t)"
    unfolding record_notice_def Let_def bnd_Inr seq_Inr [of "mutateState _ _"] by blast
  let ?n = "new_notice uuid key params time"
  have n: "status ?n = NOpen" "noticeTask ?n = key" "noticeTab ?n = the_int (jget params ''tab_id'')"
    "expiresAtMs ?n = startedAtMs ?n + the_int (request_timeout params)" by (simp_all add: new_notice_def)
  have w: "world_free (holds Q E)" for Q E by simp
  have h: "holds (\<lambda>_. True) {} s" using s by (simp add: holds_ready)
  have h1: "holds (\<lambda>_. True) {} s1" by (rule keeps_run [OF keeps_ask [OF w] h s1])
  have h2: "holds (\<lambda>_. True) {} s2" by (rule keeps_run [OF keeps_ask [OF w] h1 s2])
  have h3: "holds (recorded ?n) {} s3"
  proof (rule mutateState_then [OF m h2 equiv_closed_recorded])
    show "keys_ok st' \<and> recorded ?n st'"
      if "ext_ok st" "request_mutator ?n st = Inr (u, st')" for st st'
      by (rule request_mutator_recorded [OF that(1) n(1) that(2)])
    show "keys_ok st'" if "keys_ok st" "request_mutator ?n st = Inr (x, st')" for st x st'
      using notice_mutator_keys(4) [of ?n] that unfolding keeps_keys_def by blast
  qed
  have res: "res = noticeResult ?n" using rest by (auto simp: seq_Inr)
  have k: "keeps (holds (recorded ?n) {}) (seq (settleNotices env) (seq (announce env ?n)
       (seq (case challenge_completion (completion ?n) of
               None \<Rightarrow> ret () | Some chl \<Rightarrow> bind_episode env key chl (noticeId ?n))
         (ret (noticeResult ?n)))))"
    by (intro keeps_intros)
  have "holds (recorded ?n) {} t" by (rule keeps_run [OF k h3 rest])
  with n res show ?thesis by blast
qed

section \<open>Other facts\<close>

lemma noticeForTask_owner:
  assumes "ready s" and "noticeForTask env (Some key) notice s = (Inr n, t)"
  shows "noticeTask n = key \<and> t = s \<and> noticeId n = notice"
proof -
  from assms(1) have h: "holds (\<lambda>_. True) {} s" by (simp add: holds_ready)
  from assms(2) obtain st u where st: "readState (storage env) s = (Inr st, u)"
    and n: "map_of (notices st) notice = Some n" "noticeTask n = key" "t = u"
    unfolding noticeForTask_def by (auto simp: eff_Inr)
  from readState_ready [OF st h] have "u = s" "ext_ok st" by auto
  with n ok_id [OF ext_ok_notices] show ?thesis by blast
qed

text \<open>A challenge notice is resolved only when its episode has ended.\<close>

lemma resolveChallenge_ended:
  assumes "\<not> terminal (status n)" and r: "resolveChallengeNow env n chl s = (Inr res, t)"
  shows "\<exists>s1 eps s2 e. scan_episodes env n s1 = (Inr eps, s2) \<and> e \<in> set eps \<and> ep_task e = noticeTask n \<and>
    challenge_id e = chl \<and> ep_tab e = noticeTab n \<and> ep_state e \<noteq> Active \<and>
    jget res ''challenge'' = bound_event e n"
proof -
  from r assms(1) obtain tk s1 eps s2 where s2: "scan_episodes env n s1 = (Inr eps, s2)"
    and rest: "(case on_tab n (findEpisode eps (noticeTask n) chl) of
            None \<Rightarrow> throw (not_met [])
          | Some e \<Rightarrow>
              (if ep_state e = Active then throw (not_met [(''challengeEvent'', bound_event e n)])
               else bnd (setStatus env (noticeId n) NResolved) (\<lambda>resolved.
                 ret (resolved @ [(''challenge'', bound_event e n)])))) s2 = (Inr res, t)"
    unfolding resolveChallengeNow_def by (auto simp only: if_True bnd_Inr not_False_eq_True)
  from rest obtain e where e: "on_tab n (findEpisode eps (noticeTask n) chl) = Some e" "ep_state e \<noteq> Active"
    and fin: "bnd (setStatus env (noticeId n) NResolved) (\<lambda>resolved.
                 ret (resolved @ [(''challenge'', bound_event e n)])) s2 = (Inr res, t)"
    by (auto split: option.splits if_splits)
  from fin obtain m where res: "res = noticeResult m @ [(''challenge'', bound_event e n)]"
    unfolding setStatus_def by (auto simp: bnd_Inr seq_Inr)
  have "jget res ''challenge'' = bound_event e n" by (simp add: res jget_append noticeResult_def)
  moreover have "findEpisode eps (noticeTask n) chl = Some e" "ep_tab e = noticeTab n"
    using e(1) by (auto simp: on_tab_def split: option.splits if_splits)
  moreover from this(1) have "e \<in> set eps" "ep_task e = noticeTask n" "challenge_id e = chl"
    unfolding findEpisode_def find_Some_iff by (auto intro: nth_mem)
  ultimately show ?thesis using e(2) s2 by blast
qed

lemma foldl_earliest:
  "foldl (\<lambda>earliest n. case earliest of None \<Rightarrow> Some (f n)
     | Some e \<Rightarrow> if f n < e then Some (f n) else Some e) acc xs =
   (if xs = [] then acc else Some (case acc of None \<Rightarrow> Min (f ` set xs) | Some e \<Rightarrow> min e (Min (f ` set xs))))"
  for f :: "'b \<Rightarrow> int"
proof (induction xs arbitrary: acc)
  case (Cons x xs)
  then show ?case by (cases acc) (auto simp: min_def)
qed simp

lemma next_expiry_Min: "next_expiry ns = (let os = filter (\<lambda>n. status n = NOpen) (map snd ns) in
    if os = [] then None else Some (Min (expiresAtMs ` set os)))"
  by (simp add: next_expiry_def foldl_earliest Let_def)

lemma expire_notices_open:
  assumes ok: "notices_ok ns" and n: "map_of (expire_notices time ns) k = Some n" "status n = NOpen"
  shows "time < expiresAtMs n \<and> map_of ns k = Some n"
proof -
  let ?f = "\<lambda>m. if status m = NOpen \<and> expiresAtMs m \<le> time then m\<lparr>status := NExpired\<rparr> else m"
  from n(1) have "map_option ?f (map_of ns k) = Some n"
    unfolding expire_notices_def trim_lookup close_where_lookup
    by (metis option.distinct(1))
  then obtain m where "map_of ns k = Some m" "n = ?f m" by blast
  with n(2) show ?thesis by (cases "status m = NOpen \<and> expiresAtMs m \<le> time") simp_all
qed

lemma notification_id:
  "handoffNoticeIdFromNotification (NOTIFICATION_PREFIX @ key) = (if key = [] then None else Some key)"
  by (simp add: handoffNoticeIdFromNotification_def starts_with_def)

end
