(* ===== verification/Demo.thy ===== *)
theory Demo
  imports HandoffFacts
begin

text \<open>
  A concrete browser and a concrete state on which the properties are exercised: one task with one
  tab in one group, a storage area that accepts everything, no listeners. The browser never changes.
\<close>

definition demo_storage :: "'w storage_api" where
  "demo_storage = \<lparr>storage_get = (\<lambda>keys w. (Inr [], w)), storage_set = (\<lambda>v w. (Inr (), w)),
     storage_remove = (\<lambda>keys w. (Inr (), w)), date_now = (\<lambda>w. (1000, w)), random_uuid = (\<lambda>w. (''n1'', w))\<rparr>"

definition demo_tab :: "int \<Rightarrow> tab_like" where
  "demo_tab i = \<lparr>tab_id = Some i, tab_window = Some 1, tab_group = Some (if i = 3 then 5 else 6), tab_index = Some 0, tab_opener = None,
     tab_active = True, tab_url = Some ''https://a/'', tab_pendingUrl = None, tab_lastAccessed = None,
     tab_splitViewId = None\<rparr>"

definition demo_env :: "'w handoff_env" where
  "demo_env = \<lparr>storage = demo_storage, listeners = [], parse_url = (\<lambda>u. None), split_view_none = None,
     has_badge = False, tabs_query_all = (\<lambda>w. (Inr [demo_tab 3], w)),
     tabs_query_active = (\<lambda>i w. (Inr [demo_tab 3], w)), tabs_get = (\<lambda>i w. (Inr (demo_tab i), w)),
     tabs_create = (\<lambda>c w. (Inr (demo_tab 4), w)), tabs_remove = (\<lambda>i w. (Inr (), w)),
     tabs_remove_wait = (\<lambda>i w. (Closed i, w)), tabs_group = (\<lambda>i g w. (Inr (if i = 3 then 5 else 6), w)),
     tabs_ungroup = (\<lambda>i w. (Inr (), w)), tabs_move = (\<lambda>i j w. (Inr (), w)), tabs_activate = (\<lambda>i w. (Inr (), w)),
     groups_update = (\<lambda>g t c w. (Inr (), w)), windows_create = (\<lambda>c w. (Inr None, w)),
     windows_normal = (\<lambda>i w. (Inr (), w)), windows_remove = (\<lambda>i w. (Inr (), w)),
     windows_all = (\<lambda>w. (Inr [], w)), badge_show = (\<lambda>i w. ((), w)), badge_clear = (\<lambda>i w. ((), w)),
     notifications = None, idle_query = None, focus_tab = (\<lambda>i w. (Inr None, w)),
     focus_window = (\<lambda>i w. (Inr (), w)), alarm_clear = (\<lambda>w. (Inr (), w)), alarm_create = (\<lambda>i w. ((), w)),
     selector_results = (\<lambda>i s w. (Inr [], w)), url_host = (\<lambda>u. None), challenge_storage = None,
     scrubber = None, scanner = None\<rparr>"

definition demo_task :: task_record where
  "demo_task = \<lparr>taskId = ''t'', name = ''n'', groupId = Some 5, tabIds = [3], createdTabIds = [3], color = Purple,
     state = Working, createdAt = 1, updatedAt = 1, legacyImported = Undefined\<rparr>"

definition demo_revision :: revision_record where
  "demo_revision = \<lparr>floor_rev = 1, current_rev = 1, documentId = None, loaderId = None\<rparr>"

definition demo_state :: ext_state where
  "demo_state = defaultState\<lparr>tasks := [(''t'', demo_task)], revisions := [(''3'', demo_revision)]\<rparr>"

definition demo_sys :: "ext_state \<Rightarrow> unit sys" where
  "demo_sys st = \<lparr>cached = Some st, world = (), scheduler = new_scheduler, endedTaskIds = [], emitted = []\<rparr>"

end
