(* ===== verification/StoreProperties.thy ===== *)
theory StoreProperties
  imports Demo
begin

text \<open>
  The properties of the persisted state, of the page revisions and of the scheduler, each with a
  concrete instance.
\<close>

lemma run_pair: "fst p = r \<Longrightarrow> p = (r, snd p)"
  by (cases p) simp

lemma demo_state_ok: "ext_ok demo_state"
  by (simp add: ext_ok_def state_wf_def keys_ok_def demo_state_def defaultState_def demo_task_def demo_revision_def
      tasks_wf_def task_wf_def all_tabs_def all_groups_def nonneg_def revision_wf_def no_cleanup_def cleanup_wf_def)

lemma demo_cached [simp]: "cached (demo_sys st) = Some st"
  by (simp add: demo_sys_def)

lemma three: "string_of_int 3 = ''3''"
  by code_simp

lemma demo_ready: "ready (demo_sys demo_state)"
  by (simp add: ready_def demo_state_ok)

section \<open>The persisted state\<close>

text \<open>C1: Whatever storage returns, whatever a mutator produces and however a call ends, the state
the extension works on is well formed: reading and mutating keep the invariant of the cached state.\<close>

theorem store_always_valid:
  "keeps cached_wf (readState api) \<and> keeps cached_wf (mutateState api f)"
  by (simp add: keeps_readState keeps_mutateState)

text \<open>C21: A state that the validator accepts never assigns a tab or a tab group to two tasks: two
entries that share a tab, or share a group, are the same entry.\<close>

theorem tab_in_one_task:
  assumes "parseState uuid v = Some st" and "(k, t) \<in> set (tasks st)" and "(k', t') \<in> set (tasks st)"
    and "(\<exists>tab. tab \<in> set (tabIds t) \<and> tab \<in> set (tabIds t')) \<or> (groupId t \<noteq> None \<and> groupId t = groupId t')"
  shows "(k, t) = (k', t')"
proof -
  have d: "distinct (all_tabs (tasks st))" "distinct (all_groups (tasks st))"
    using parseState_wf [OF assms(1)] by (auto simp: state_wf_def tasks_wf_def)
  have twice: "p = q" if "distinct (concat (map f ps))" "p \<in> set ps" "q \<in> set ps" "x \<in> set (f p)" "x \<in> set (f q)"
    for f :: "string \<times> task_record \<Rightarrow> int list" and ps p q x
    using that by (induction ps) auto
  from assms(4) show ?thesis
  proof
    assume "\<exists>tab. tab \<in> set (tabIds t) \<and> tab \<in> set (tabIds t')"
    with twice [OF d(1) [unfolded all_tabs_def] assms(2,3)] show ?thesis by auto
  next
    assume "groupId t \<noteq> None \<and> groupId t = groupId t'"
    then obtain g where "groupId t = Some g" "groupId t' = Some g" by fastforce
    with twice [OF d(2) [unfolded all_groups_def] assms(2,3), of g] show ?thesis by auto
  qed
qed

theorem tab_in_one_task_witness:
  "parseState [] (state_json demo_state) = Some demo_state \<and> (''t'', demo_task) = (''t'', demo_task)"
proof -
  have p: "parseState [] (state_json demo_state) = Some demo_state"
    using demo_state_ok by (simp add: ext_ok_def state_roundtrip)
  have m: "(''t'', demo_task) \<in> set (tasks demo_state)" by (simp add: demo_state_def)
  show ?thesis using p tab_in_one_task [OF p m m] by (simp add: demo_task_def)
qed

text \<open>C2: A mutation is atomic. When it fails, in the mutator, in the validation or in storage, the
cached state is the one before; when it succeeds, the cached state is well formed and is what the
mutator produced, as the stored form shows it.\<close>

theorem mutation_atomic:
  assumes "cached s = Some st" and "ext_ok st" and "keeps_keys f" and "mutateState api f s = (r, t)"
  shows "case r of
      Inl e \<Rightarrow> cached t = Some st
    | Inr x \<Rightarrow> (\<exists>st' v. f st = Inr (x, st') \<and> cached t = Some v \<and> ext_ok v \<and> state_equiv v st')"
proof (cases r)
  case (Inl e)
  with mutateState_Inl [OF assms(1)] assms(1,4) show ?thesis by fastforce
next
  case (Inr x)
  with mutateState_Inr [OF assms(1-3)] assms(4) show ?thesis by fastforce
qed

theorem mutation_atomic_witness:
  "\<exists>st' v. pause_mutator True demo_state = Inr ((), st') \<and>
     cached (snd (mutateState demo_storage (pause_mutator True) (demo_sys demo_state))) = Some v \<and>
     ext_ok v \<and> state_equiv v st'"
proof -
  have "fst (mutateState demo_storage (pause_mutator True) (demo_sys demo_state)) = Inr ()" by code_simp
  from mutation_atomic [OF demo_cached demo_state_ok notice_mutator_keys(6) run_pair [OF this]]
  show ?thesis by simp
qed

text \<open>Storing a well-formed state and loading it again gives the same state.\<close>

lemma state_survives_storage:
  assumes "state_wf st"
  shows "parseState uuid (state_json st) = Some st"
  using assms by (rule state_roundtrip)

section \<open>Page revisions\<close>

text \<open>C22: Once a page was left (navigation or removal of its tab), no later change of the revision
table brings its revision number back: every later revision of the tab is larger.\<close>

theorem left_page_never_returns:
  assumes "cur_of rs tab = Some m" and "rev_step\<^sup>*\<^sup>* (snd (bump_rev (string_of_int tab) rs)) rs'"
  shows "\<exists>n. cur_of rs' tab = Some n \<and> m < n"
  using assms by (rule tab_revisions.old_revision_gone)

theorem left_page_never_returns_witness:
  "\<exists>n. cur_of (snd (ensure_rev (string_of_int 3) (snd (bump_rev (string_of_int 3) [(string_of_int 3, demo_revision)])))) 3
     = Some n \<and> 1 < n"
proof (rule left_page_never_returns)
  show "cur_of [(string_of_int 3, demo_revision)] 3 = Some 1" by (simp add: cur_of_def demo_revision_def)
  show "rev_step\<^sup>*\<^sup>* (snd (bump_rev (string_of_int 3) [(string_of_int 3, demo_revision)]))
      (snd (ensure_rev (string_of_int 3) (snd (bump_rev (string_of_int 3) [(string_of_int 3, demo_revision)]))))"
    by (rule r_into_rtranclp) (rule step_ensure)
qed

end
