(* ===== verification/SchedulerProperties.thy ===== *)
theory SchedulerProperties
  imports SchedulerFacts
begin

text \<open>
  The properties of the mutation scheduler, with a concrete queue: one mutation of task \<open>t\<close> on tab 3
  that runs, a second one on the same tab that waits for it, and a profile read behind them.
\<close>

definition demo_admitted :: sched where
  "demo_admitted = snd (enqueueTab ''t'' 3 (snd (enqueueTab ''t'' 3 new_scheduler)))"

definition demo_running :: sched where
  "demo_running = dispatch 0 demo_admitted"

lemma reach_new: "sched_reachable new_scheduler"
  unfolding sched_reachable_def by (rule reach_start) simp

lemma reach_next: "sched_reachable s \<Longrightarrow> sched_step s t \<Longrightarrow> sched_reachable t"
  unfolding sched_reachable_def by (rule reach_step)

lemma reach_admit: "sched_reachable s \<Longrightarrow> admit_step s t \<Longrightarrow> sched_reachable t"
  by (blast intro: reach_next st_admit)

lemma reach_dispatch: "sched_reachable s \<Longrightarrow> dispatchable s i \<Longrightarrow> sched_reachable (dispatch i s)"
  by (blast intro: reach_next st_dispatch)

lemma demo_admitted_reachable: "sched_reachable demo_admitted"
  unfolding demo_admitted_def by (intro reach_admit [OF _ adm_tab] reach_new)

lemma demo_running_reachable: "sched_reachable demo_running"
proof -
  have "dispatchable demo_admitted 0" by code_simp
  with demo_admitted_reachable show ?thesis unfolding demo_running_def by (rule reach_dispatch)
qed

section \<open>Order\<close>

text \<open>Jobs start in the order they were admitted: in every reachable scheduler, a job that may be
dispatched waits for no earlier job, so every earlier job it must follow (same tab, same task, or a
global one) has settled.\<close>

lemma dispatched_in_order:
  assumes "sched_reachable s" and "dispatchable s j" and "i < j" and "waits (kind_of s j) (kind_of s i)"
  shows "settled (status_of s i)"
  by (rule dispatchable_in_order [OF sched_reachable_ok [OF assms(1)] assms(2-4)])

text \<open>Two mutations of one tab, two of one task, or a global job and any other tab job never run
at the same time: of two running jobs that exclude each other, both are the same job.\<close>

lemma mutations_exclude:
  assumes "sched_reachable s" and "i < size_of s" and "j < size_of s"
    and "status_of s i = Running" and "status_of s j = Running"
    and "waits (kind_of s j) (kind_of s i)" and "waits (kind_of s i) (kind_of s j)"
  shows "i = j"
  by (rule running_excludes [OF sched_reachable_ok [OF assms(1)] assms(2-7)])

text \<open>C23: The scheduler does not deadlock: in every reachable state with unsettled work, some job is
running or may be dispatched.\<close>

theorem scheduler_progress:
  assumes "sched_reachable s" and "i < size_of s" and "\<not> settled (status_of s i)"
  shows "\<exists>k \<le> i. status_of s k = Running \<or> dispatchable s k"
  by (rule some_work_can_go [OF sched_reachable_ok [OF assms(1)] assms(2,3)])

theorem scheduler_progress_witness:
  "\<exists>k \<le> 1. status_of demo_admitted k = Running \<or> dispatchable demo_admitted k"
proof (rule scheduler_progress [OF demo_admitted_reachable])
  show "1 < size_of demo_admitted" by code_simp
  show "\<not> settled (status_of demo_admitted 1)" by code_simp
qed

section \<open>Cancellation\<close>

text \<open>C24: Pausing cancels what is queued: a job still queued when \<open>pause\<close> is called never starts,
whatever happens afterwards, a resume included.\<close>

theorem paused_work_never_starts:
  assumes "sched_reachable s" and "i < size_of s" and "status_of s i = Queued" and "sched_step\<^sup>*\<^sup>* (pause s) t"
  shows "status_of t i = Queued \<or> (\<exists>e. status_of t i = Refused e)"
proof -
  have "not_started s i" using assms(2,3) by (simp add: not_started_def)
  moreover have "kind_epoch s (kind_of s i) < kind_epoch (pause s) (kind_of s i)"
    by (simp add: kind_epoch_def pause_def split: job_kind.split)
  ultimately have "not_started t i"
    by (rule bump_dooms [OF sched_reachable_ok [OF assms(1)] _ ctl_pause assms(4)])
  then show ?thesis by (simp add: not_started_def)
qed

theorem paused_work_never_starts_witness:
  "status_of (dispatch 0 (resume (pause demo_admitted))) 0 = Queued \<or>
   (\<exists>e. status_of (dispatch 0 (resume (pause demo_admitted))) 0 = Refused e)"
proof (rule paused_work_never_starts [OF demo_admitted_reachable])
  show "0 < size_of demo_admitted" by code_simp
  show "status_of demo_admitted 0 = Queued" by code_simp
  have "dispatchable (resume (pause demo_admitted)) 0" by code_simp
  then show "sched_step\<^sup>*\<^sup>* (pause demo_admitted) (dispatch 0 (resume (pause demo_admitted)))"
    by (meson ctl_resume r_into_rtranclp rtranclp.rtrancl_into_rtrancl st_control st_dispatch)
qed

text \<open>Losing the automation permissions cancels the queued browser work in the same way, and
leaves the profile operations alone: whether one of them is refused does not change.\<close>

lemma permission_loss:
  assumes "sched_reachable s" and "i < size_of s" and "status_of s i = Queued"
    and "sched_step\<^sup>*\<^sup>* (revokePermissions s) t"
  shows "case kind_of s i of
      ProfileJob mutating \<Rightarrow> refusal (revokePermissions s) (jobs s ! i) = refusal s (jobs s ! i)
    | _ \<Rightarrow> status_of t i = Queued \<or> (\<exists>e. status_of t i = Refused e)"
proof (cases "\<exists>mutating. kind_of s i = ProfileJob mutating")
  case True
  then show ?thesis by (auto simp: refusal_def kind_of_def revokePermissions_def)
next
  case False
  then have "kind_epoch s (kind_of s i) < kind_epoch (revokePermissions s) (kind_of s i)"
    by (cases "kind_of s i") (simp_all add: kind_epoch_def revokePermissions_def)
  moreover have "not_started s i" using assms(2,3) by (simp add: not_started_def)
  ultimately have "not_started t i"
    using bump_dooms [OF sched_reachable_ok [OF assms(1)] _ ctl_revoke assms(4)] by blast
  with False show ?thesis by (cases "kind_of s i") (auto simp: not_started_def)
qed

text \<open>Revoking or leaving a page cancels the mutations queued for its tab: after
\<open>revokeTab\<close> or \<open>invalidateTab\<close>, none of them ever starts.\<close>

lemma revoked_work_never_starts:
  assumes "sched_reachable s" and "i < size_of s" and "status_of s i = Queued"
    and "kind_of s i = TabJob task tab" and "sched_step\<^sup>*\<^sup>* (invalidateQueuedTab tab reason s) t"
  shows "status_of t i = Queued \<or> (\<exists>e. status_of t i = Refused e)"
  using invalidated_never_starts [OF sched_reachable_ok [OF assms(1)] assms(2-5)] by (simp add: not_started_def)

text \<open>When \<open>pause\<close> has drained, nothing is left running: every job ever admitted has
settled.\<close>

lemma drained_means_settled:
  assumes "sched_reachable s" and "drained s" and "i < size_of s"
  shows "settled (status_of s i)"
  using sched_okD(9) [OF sched_reachable_ok [OF assms(1)]] assms(2,3) by (auto simp: pending_ok_def drained_def)

end
