(* ===== verification/OwnershipSpec.thy ===== *)
theory OwnershipSpec
  imports OwnershipFacts
begin

text \<open>
  What the ownership ledger promises, stated without tasks, groups, windows or storage: a partial map
  from tabs to the tasks that own them. The operations of the ledger refine the updates of this map.
\<close>

section \<open>The abstract ledger\<close>

type_synonym ledger = "int \<rightharpoonup> string"

definition spec_release :: "int \<Rightarrow> ledger \<Rightarrow> ledger" where
  "spec_release tab M = M(tab := None)"

definition spec_take :: "string \<Rightarrow> int \<Rightarrow> ledger \<Rightarrow> ledger" where
  "spec_take key tab M = M(tab \<mapsto> key)"

definition spec_end :: "string \<Rightarrow> ledger \<Rightarrow> ledger" where
  "spec_end key M = (\<lambda>i. if M i = Some key then None else M i)"

definition owner_map :: "ext_state \<Rightarrow> ledger" where
  "owner_map st = (\<lambda>tab. map_option taskId (owner st tab))"

text \<open>The abstraction relation; on well-formed states it is the map of the owners.\<close>

definition owned_as :: "ledger \<Rightarrow> ext_state \<Rightarrow> bool" where
  "owned_as M st \<longleftrightarrow> (\<forall>key tab. owns key tab st \<longleftrightarrow> M tab = Some key)"

lemma owner_map_owns: "ext_ok st \<Longrightarrow> owner_map st tab = Some key \<longleftrightarrow> owns key tab st"
  by (auto simp: owner_map_def owns_def dest: owner_Some task_owner)

lemma owned_as_map:
  assumes ok: "ext_ok st"
  shows "owned_as M st \<longleftrightarrow> owner_map st = M"
proof
  assume "owned_as M st"
  then have "owner_map st tab = Some key \<longleftrightarrow> M tab = Some key" for tab key
    using ok by (simp add: owner_map_owns owned_as_def)
  then show "owner_map st = M" by (metis ext not_Some_eq)
next
  assume "owner_map st = M"
  then show "owned_as M st" using owner_map_owns [OF ok] by (auto simp: owned_as_def)
qed

lemma owns_equiv: "state_equiv a b \<Longrightarrow> ext_ok a \<Longrightarrow> owns key tab a \<longleftrightarrow> owns key tab b"
  using equiv_task_core [of a b key] unfolding owns_def
  by (cases "task a key"; cases "task b key") (auto dest!: task_core_tabs)

lemma equiv_closed_owned_as: "equiv_closed (owned_as M)"
  by (simp add: equiv_closed_def owned_as_def owns_equiv)

lemma about_tasks_owned_as: "about_tasks (owned_as M)"
  by (simp add: about_tasks_def owned_as_def owns_def task_def)

text \<open>Code around the ledger that leaves the tasks and the staged commits alone.\<close>

definition discreet :: "'w env \<Rightarrow> bool" where
  "discreet env \<longleftrightarrow> (\<forall>Q E. equiv_closed Q \<longrightarrow> about_tasks Q \<longrightarrow> tame env Q E)"

lemma discreet_owned: "discreet env \<Longrightarrow> tame env (owned_as M) E"
  by (simp add: discreet_def equiv_closed_owned_as about_tasks_owned_as)

section \<open>The mutators\<close>

lemma revoke_owns:
  assumes ok: "ext_ok st" and r: "revoke_mutator tab time st = Inr (x, st')"
  shows "owns key i st' \<longleftrightarrow> owns key i st \<and> i \<noteq> tab"
proof (cases "i = tab")
  case True
  then show ?thesis using revoke_mutator_unowned [OF ok r] by (auto simp: unowned_def owns_def)
next
  case False
  with revoke_mutator_task [OF r, of key] show ?thesis
    by (cases "task st key") (auto simp: owns_def without_tabs_def Let_def)
qed

lemma revoke_owned_as:
  "ext_ok st \<Longrightarrow> owned_as M st \<Longrightarrow> revoke_mutator tab time st = Inr (x, st') \<Longrightarrow> owned_as (spec_release tab M) st'"
  by (auto simp: owned_as_def revoke_owns spec_release_def)

lemma end_owns: "owns k i (drop_stages key (st\<lparr>tasks := AList.delete key (tasks st)\<rparr>)) \<longleftrightarrow> owns k i st \<and> k \<noteq> key"
  by (auto simp: owns_def task_def AList.delete_conv')

lemma end_owned_as: "owned_as M st \<Longrightarrow> end_mutator key st = Inr (x, st') \<Longrightarrow> owned_as (spec_end key M) st'"
  by (auto simp: owned_as_def end_mutator_def end_owns spec_end_def)

lemma close_owned_as:
  "owned_as M st \<Longrightarrow> task st key \<noteq> None \<Longrightarrow> close_mutator key st = Inr (x, st') \<Longrightarrow> owned_as (spec_end key M) st'"
  by (auto simp: owned_as_def close_mutator_def end_owns spec_end_def split: option.splits)

lemma absent_owned_as:
  assumes "owned_as M st" "absent key st"
  shows "spec_end key M = M"
proof -
  have "\<not> owns key i st" for i using assms(2) by (simp add: absent_def owns_def)
  then have "M i \<noteq> Some key" for i using assms(1) by (simp add: owned_as_def)
  then show ?thesis by (simp add: spec_end_def)
qed

lemma owns_drop_stages [simp]: "owns k i (drop_stages key st) \<longleftrightarrow> owns k i st"
  by (simp add: owns_def task_def)

lemma granted_tabs: "i \<in> set (tabIds (granted tab g created time t)) \<longleftrightarrow> i = tab \<or> i \<in> set (tabIds t)"
  by (auto simp: granted_def)

lemma grant_owned_as:
  assumes ok: "ext_ok st" and M: "owned_as M st" and pt: "task st key = None \<Longrightarrow> tabIds pt = []"
    and r: "grant_mutator ended key tab g created time pt st = Inr (x, st')"
  shows "owned_as (spec_take key tab M) st' \<and> (M tab = None \<or> M tab = Some key)"
proof -
  from r have st': "st' = put_task key (granted tab g created time (case task st key of None \<Rightarrow> pt | Some t \<Rightarrow> t)) st"
    and own: "\<not> list_ex (\<lambda>t. taskId t \<noteq> key) (owners st tab)" by (auto dest: grant_mutator_Inr)
  have mine: "owns k tab st \<Longrightarrow> k = key" for k
  proof -
    assume "owns k tab st"
    then obtain t where "task st k = Some t" "tab \<in> set (tabIds t)" by (auto simp: owns_def)
    moreover from task_owner [OF ok this] have "taskId t = k" "owner st tab = Some t" by simp_all
    moreover have "t \<in> set (owners st tab)"
      using calculation by (force simp: owners_def task_def dest: map_of_SomeD)
    ultimately show "k = key" using own by (auto simp: list_ex_iff)
  qed
  have "owns k i st' \<longleftrightarrow> (k = key \<and> i = tab) \<or> owns k i st" for k i
    unfolding st' owns_def by (auto simp: granted_tabs pt split: option.splits)
  then show ?thesis
    using M mine unfolding owned_as_def spec_take_def
    by (metis (no_types) fun_upd_apply not_Some_eq option.inject)
qed

section \<open>The operations\<close>

lemma revokeNow_owned_as:
  assumes "discreet env" "holds (owned_as M) {} s" "revokeNow env tab event s = (Inr b, t)"
  shows "holds (owned_as (spec_release tab M)) {} t"
  by (rule revokeNow_rule [OF discreet_owned [OF assms(1)] assms(2,3)]) (rule revoke_owned_as)

lemma closeTask_owned_as:
  assumes "discreet env" "holds (owned_as M) {} s" "closeTaskNow env key s = (Inr ids, t)"
  shows "holds (owned_as (spec_end key M)) {key} t"
proof (rule closeTask_rule [OF discreet_owned [OF assms(1)] assms(2,3)])
  show "owned_as (spec_end key M) st'"
    if "owned_as M st" "absent key st" "drop_stages_mutator key st = Inr (x, st')" for st x st'
    using that by (auto simp: absent_owned_as drop_stages_mutator_def) (simp add: owned_as_def)
qed (rule close_owned_as)

lemma finishTask_owned_as:
  assumes "discreet env" "holds (owned_as M) {} s" "finishTaskNow env key d keep s = (Inr r, t)" "finished r"
  shows "holds (owned_as (spec_end key M)) {key} t"
  by (rule finishTask_rule [OF discreet_owned [OF assms(1)] assms(2-4)])
    (simp_all add: absent_owned_as end_owned_as)

text \<open>Grouping and recording takes a tab that is free or the task's own.\<close>

definition owned_with :: "ledger \<Rightarrow> string \<Rightarrow> task_record option \<Rightarrow> ext_state \<Rightarrow> bool" where
  "owned_with M key c st \<longleftrightarrow> owned_as M st \<and> core_is key c st"

lemma discreet_with: "discreet env \<Longrightarrow> tame env (owned_with M key c) E"
  unfolding discreet_def owned_with_def
  by (blast intro: equiv_closed_conj about_tasks_conj equiv_closed_owned_as about_tasks_owned_as equiv_closed_core
      about_tasks_simps)

lemma preview_of_tabs:
  "preview_of env key nm g c s = (Inr pt, t) \<Longrightarrow> c = None \<Longrightarrow> tabIds pt = []"
  by (auto simp: preview_of_def eff_Inr preview_task_def)

lemma group_and_record_owned_as:
  assumes d: "discreet env" and s: "holds (owned_with M key (map_option task_core (task refreshed key))) {} s"
    and g: "group_and_record env key tab nm created refreshed s = (Inr (), s')"
  shows "holds (owned_as (spec_take key tab M)) {} s' \<and> (M tab = None \<or> M tab = Some key)"
proof -
  let ?P = "owned_with M key (map_option task_core (task refreshed key))"
  from g obtain gid s1 pt s2 s3 grouped s4 rev s5 ended time s6 where
    r: "call (tabs_group env tab (case task refreshed key of None \<Rightarrow> None | Some t \<Rightarrow> groupId t)) s = (Inr gid, s1)"
    "preview_of env key nm gid (task refreshed key) s1 = (Inr pt, s2)"
    "call (groups_update env gid (groupTitle pt (developerMode refreshed)) (color pt)) s2 = (Inr (), s3)"
    "call (tabs_get env tab) s3 = (Inr grouped, s4)" "rev_ensure (storage env) tab s4 = (Inr rev, s5)"
    "now env s5 = (Inr time, s6)"
    and m: "mutateState (storage env) (grant_mutator ended key tab gid created time pt) s6 = (Inr (), s')"
    unfolding group_and_record_def eff_Inr by auto
  have p: "keeps (holds ?P {}) (preview_of env key nm gid (task refreshed key))"
    unfolding preview_of_def by (intro keeps_intros)
  have s1: "holds ?P {} s1" by (rule holds_call [OF s r(1)])
  have s2: "holds ?P {} s2" by (rule keeps_run [OF p s1 r(2)])
  have s3: "holds ?P {} s3" by (rule holds_call [OF s2 r(3)])
  have s4: "holds ?P {} s4" by (rule holds_call [OF s3 r(4)])
  have s5: "holds ?P {} s5" by (rule keeps_run [OF keeps_rev_ensure [OF discreet_with [OF d]] s4 r(5)])
  have s6: "holds ?P {} s6" by (rule keeps_run [OF keeps_now s5 r(6)])
  have step: "owned_as (spec_take key tab M) st' \<and> (M tab = None \<or> M tab = Some key)"
    if "ext_ok st" "?P st" "grant_mutator ended key tab gid created time pt st = Inr (u, st')" for st u st'
  proof (rule grant_owned_as [OF that(1) _ _ that(3)])
    show "owned_as M st" using that(2) by (simp add: owned_with_def)
    show "tabIds pt = []" if "task st key = None"
      by (rule preview_of_tabs [OF r(2)]) (use \<open>?P st\<close> that in \<open>simp add: owned_with_def core_is_def\<close>)
  qed
  have "holds (owned_as (spec_take key tab M)) {} s'"
    by (rule mutateState_then [OF m s6 equiv_closed_owned_as])
      (use step in \<open>auto intro: grant_mutator_keys ext_ok_keys\<close>)
  moreover from s6 obtain st where st: "cached s6 = Some st" "ext_ok st" "?P st" by (rule holdsE)
  then have "M tab = None \<or> M tab = Some key"
  proof -
    have "\<forall>x st'. grant_mutator ended key tab gid created time pt st = Inr (x, st') \<longrightarrow> keys_ok st'"
      using grant_mutator_keys ext_ok_keys [OF st(2)] by blast
    then obtain st' where "grant_mutator ended key tab gid created time pt st = Inr ((), st')"
      using mutateState_result [OF st(1,2) m] by metis
    with step [OF st(2,3)] show ?thesis by blast
  qed
  ultimately show ?thesis by blast
qed

lemma owns_put_task: "tabIds t' = tabIds t \<Longrightarrow> task st key = Some t \<Longrightarrow> owns k i (put_task key t' st) \<longleftrightarrow> owns k i st"
  by (auto simp: owns_def)

lemma note_created_owned_as: "mutator_keeps (owned_as M) (note_created key tab)"
  by (auto simp: mutator_keeps_def note_created_def owned_as_def owns_put_task ext_ok_keys put_task_keys split: option.split)

lemma keeps_owned_emit:
  "discreet env \<Longrightarrow> keeps (holds (owned_as M) {})
     (bnd (readState (storage env)) (\<lambda>after. seq (emit event (f after)) (emitInventory env)))"
  using discreet_owned by (intro keeps_intros)

lemma holds_with:
  "holds (owned_as M) {} s \<Longrightarrow> cached s = Some st \<Longrightarrow> holds (owned_with M key (map_option task_core (task st key))) {} s"
  by (simp add: holds_def owned_with_def core_is_def)

lemma spec_take_release [simp]: "spec_take key tab (spec_release tab M) = spec_take key tab M"
  by (simp add: spec_take_def spec_release_def)

lemma spec_take_same [simp]: "M tab = Some key \<Longrightarrow> spec_take key tab M = M"
  by (auto simp: spec_take_def)

lemma grant_owned:
  assumes d: "discreet env" and s: "holds (owned_as M) {} s"
    and g: "grant env key tab nm created s = (Inr (), s')"
  shows "holds (owned_as (spec_take key tab M)) {} s' \<and> (M tab = None \<or> M tab = Some key)"
proof -
  from g obtain before s1 where b: "call (tabs_get env tab) s = (Inr before, s1)"
    unfolding grant_def bnd_Inr by blast
  have s1: "holds (owned_as M) {} s1" by (rule holds_call [OF s b])
  then obtain st where st: "cached s1 = Some st" "ext_ok st" "owned_as M st" by (rule holdsE)
  have r: "readState (storage env) s1 = (Inr st, s1)" by (rule readState_cached [OF st(1)])
  have owner: "owner st tab = Some t \<Longrightarrow> M tab = Some (taskId t)" for t
    using owned_as_map [OF st(2)] st(3) by (auto simp: owner_map_def)
  let ?mine = "case owner st tab of None \<Rightarrow> False | Some t \<Rightarrow> in_group before (groupId t) \<and> tab_group before \<noteq> Some (- 1)"
  from g b r have not_other: "\<not> (case owner st tab of None \<Rightarrow> False | Some t \<Rightarrow> taskId t \<noteq> key)"
    unfolding grant_def Let_def by (auto simp: bnd_def split: if_splits)
  have free: "M tab = None \<or> M tab = Some key"
  proof (cases "owner st tab")
    case None
    then show ?thesis using owned_as_map [OF st(2)] st(3) by (auto simp: owner_map_def)
  next
    case (Some t)
    with owner not_other show ?thesis by simp
  qed
  show ?thesis
  proof (cases ?mine)
    case True
    with not_other owner have M: "spec_take key tab M = M" by (auto split: option.splits)
    have "keeps (holds (owned_as M) {}) (seq (when_do (created \<and> tab \<notin> set (createdTabIds (the (owner st tab))))
                  (mutateState (storage env) (note_created key tab)))
              (bnd (rev_ensure (storage env) tab) (\<lambda>_. ret ())))"
      using discreet_owned [OF d] by (intro keeps_intros keeps_holds_mutate equiv_closed_owned_as note_created_owned_as)
    from keeps_run [OF this s1] g b r not_other True M free show ?thesis
      unfolding grant_def Let_def by (auto simp: bnd_def)
  next
    case False
    define m1 where "m1 = when_do (owner st tab \<noteq> None)
           (bnd (revokeNow env tab ''ownership_revoked'') (\<lambda>_. ret ()))"
    define m3 where "m3 = bnd (readState (storage env)) (\<lambda>after.
           seq (emit ''group_membership_changed'' (changed_payload key
                 (case task after key of None \<Rightarrow> 0 | Some t \<Rightarrow> int (length (tabIds t)))))
             (emitInventory env))"
    from g b r not_other False have "seq m1 (bnd (readState (storage env)) (\<lambda>refreshed.
        seq (try_catch (group_and_record env key tab nm created refreshed)
                (\<lambda>e. seq (regroup env before tab) (throw (grouping_failed e)))) m3)) s1 = (Inr (), s')"
      unfolding grant_def Let_def m1_def m3_def by (simp add: bnd_def)
    then obtain u1 s2 refreshed s3 u4 s4 where m1: "m1 s1 = (Inr u1, s2)"
      and rd: "readState (storage env) s2 = (Inr refreshed, s3)"
      and gr: "try_catch (group_and_record env key tab nm created refreshed)
                (\<lambda>e. seq (regroup env before tab) (throw (grouping_failed e))) s3 = (Inr u4, s4)"
      and m3: "m3 s4 = (Inr (), s')"
      unfolding bnd_Inr seq_Inr by blast
    have "holds (owned_as M) {} s2 \<or> holds (owned_as (spec_release tab M)) {} s2"
    proof (cases "owner st tab")
      case None
      with m1 s1 show ?thesis by (simp add: m1_def when_do_def ret_def)
    next
      case (Some t)
      with m1 obtain b2 where "revokeNow env tab ''ownership_revoked'' s1 = (Inr b2, s2)"
        by (auto simp: m1_def when_do_def eff_Inr)
      from revokeNow_owned_as [OF d s1 this] show ?thesis ..
    qed
    then obtain M2 where s2: "holds (owned_as M2) {} s2" and M2: "spec_take key tab M2 = spec_take key tab M" by auto
    from readState_ready [OF rd s2] have c: "s3 = s2" "cached s2 = Some refreshed" by auto
    from gr have "group_and_record env key tab nm created refreshed s3 = (Inr (), s4)"
      by (auto simp: try_catch_def seq_def bnd_def throw_def split: prod.splits sum.splits)
    from group_and_record_owned_as [OF d holds_with [OF s2 c(2)] this [unfolded c(1)]]
    have s4: "holds (owned_as (spec_take key tab M)) {} s4" by (simp add: M2)
    from keeps_run [OF keeps_owned_emit [OF d] s4 m3 [unfolded m3_def]] free show ?thesis by blast
  qed
qed

end
