(* ===== verification/OwnershipProperties.thy ===== *)
theory OwnershipProperties
  imports Demo OwnershipSpec
begin

text \<open>
  The properties of tab ownership: who may act on a tab, what a grant gives and leaves alone, what a
  revocation, a finished and a closed task leave behind. The listeners of page changes are parameters:
  \<open>tame\<close> asks that they keep what is claimed. The instances run the operations on the browser of
  \<open>Demo\<close>.
\<close>

abbreviation demo_browser :: "unit env" where
  "demo_browser \<equiv> env.truncate demo_env"

lemma demo_tame: "equiv_closed Q \<Longrightarrow> about_tasks Q \<Longrightarrow> tame demo_browser Q E"
  by (simp add: tame_def) (simp add: demo_env_def)

lemma ready_demo: "ready (demo_sys demo_state)"
  by (simp add: ready_def demo_sys_def ext_ok_def state_wf_def keys_ok_def demo_state_def defaultState_def demo_task_def
      demo_revision_def tasks_wf_def task_wf_def all_tabs_def all_groups_def nonneg_def revision_wf_def no_cleanup_def cleanup_wf_def)

lemma about_tasks_unowned: "about_tasks (unowned tab)"
  by (auto simp: about_tasks_def unowned_def task_def)

lemma about_tasks_gone: "about_tasks (gone key)"
  by (auto simp: about_tasks_def gone_def absent_def no_stage_def task_def)

lemma about_tasks_core: "about_tasks (core_is key c)"
  by (auto simp: about_tasks_def core_is_def task_def)

lemmas demo_tame_rules = demo_tame [OF equiv_closed_unowned about_tasks_unowned] demo_tame [OF equiv_closed_gone about_tasks_gone]
  demo_tame [OF equiv_closed_owns about_tasks_owns] demo_tame [OF equiv_closed_core about_tasks_core]
  demo_tame [OF equiv_closed_absent about_tasks_absent] demo_tame [OF equiv_closed_True about_tasks_True]

lemma result_pair: "fst p = r \<Longrightarrow> p = (r, snd p)"
  by (cases p) simp

section \<open>Refinement\<close>

lemma demo_discreet: "discreet demo_browser"
  by (simp add: discreet_def demo_tame)



section \<open>Authority\<close>

text \<open>The ownership check is sound: when \<open>assertOwned\<close> lets a task act on a tab, the state at
that moment has this task, with the tab in its list and a tab group of its own.\<close>

lemma assert_owned_sound:
  assumes "ready s" and "assertOwnedNow env key tab s = (Inr t, s')"
  shows "\<exists>st. cached s' = Some st \<and> task st key = Some t \<and> tab \<in> set (tabIds t) \<and> groupId t \<noteq> None"
  using assertOwnedNow_owner [OF assms] by blast

section \<open>Grants\<close>

text \<open>A grant never changes another task: whatever the outcome, errors included, every other
task keeps its tabs, its group, its name and its state. A tab that another task owns cannot be taken.\<close>

lemma grant_spares_others:
  assumes "tame env (core_is other c) {}" and "holds (core_is other c) {} s" and "other \<noteq> key"
    and "grant env key tab nm created s = (r, s')"
  shows "holds (core_is other c) {} s'"
  using assms by (rule grant_others)

text \<open>A task that ended is not brought back: a grant for it leaves it absent, whatever happens.\<close>

lemma grant_never_resurrects:
  assumes "tame env (absent key) {key}" and "holds (absent key) {key} s"
    and "grant env key tab nm created s = (r, s')"
  shows "holds (absent key) {key} s'"
  by (rule keeps_run [OF grant_no_resurrection [OF assms(1)] assms(2,3)])

text \<open>Revoking a tab also cancels its queued work: no mutation queued for the tab before the
call, whatever the outcome of the call, is ever started by the scheduler afterwards.\<close>

lemma revoked_tab_queue_cancelled:
  assumes "\<forall>l \<in> set (listeners env). \<forall>t r. keeps (sched_is (revokeTab tab (scheduler s))) (l t r)"
    and "sched_ok (scheduler s)" and "i < size_of (scheduler s)" and "status_of (scheduler s) i = Queued"
    and "kind_of (scheduler s) i = TabJob key tab"
    and "revokeNow env tab event s = (r, s')" and "sched_step\<^sup>*\<^sup>* (scheduler s') t"
  shows "not_started t i"
  using revokeNow_scheduler [OF assms(1,6)] assms(7) invalidated_never_starts [OF assms(2-5)]
  by (simp add: revokeTab_def)

section \<open>Ending a task\<close>

text \<open>A closed task is gone: no record of it, none of its staged commits, and it is marked as
ended, so that no grant can bring it back.\<close>

lemma closed_task_gone:
  assumes "tame env (gone key) {key}" and "ready s" and "closeTaskNow env key s = (Inr ids, s')"
  shows "holds (gone key) {key} s'"
  using assms by (rule closeTask_gone)

text \<open>The same holds of a task that finished, unless the result says that it was deferred.\<close>

lemma finished_task_gone:
  assumes "tame env (gone key) {key}" and "ready s" and "finishTaskNow env key d keep s = (Inr r, s')"
    and "finished r"
  shows "holds (gone key) {key} s'"
  using assms by (rule finishTask_gone)

end
