(* ===== verification/ChallengeFacts.thy ===== *)
theory ChallengeFacts
  imports ChallengeStore StateStoreFacts "HOL-Library.Multiset"
begin

text \<open>
  What detection and the episode machine guarantee: the evidence behind a detection, precedence, at
  most one active episode per tab and class, ended episodes that stay ended and are reported once,
  the cap, and episodes that survive the round trip through storage.
\<close>

section \<open>Detection\<close>

lemma set_first_occurrences [simp]: "set (first_occurrences xs) = set xs"
  by (induction xs) auto

lemma distinct_first_occurrences [simp]: "distinct (first_occurrences xs)"
  by (induction xs) auto

lemma first_occurrences_Nil [simp]: "first_occurrences xs = [] \<longleftrightarrow> xs = []"
  by (cases xs) auto

lemma positions_iff [simp]: "i \<in> set (positions P xs) \<longleftrightarrow> i < length xs \<and> P (xs ! i)"
  by (auto simp: positions_def)

lemma ev_simps [simp]:
  "ev_ok (evaluation b fs es) = b" "ev_frames (evaluation b fs es) = fs" "ev_elements (evaluation b fs es) = es"
  by (simp_all add: evaluation_def)

lemma set_unite [simp]: "set (unite xss) = (\<Union>xs \<in> set xss. set xs)"
  by (auto simp: unite_def)

text \<open>Every frame the matcher reports is one of the page's and satisfies a frame leaf of the condition.\<close>

lemma evaluate_frames:
  "i \<in> set (ev_frames (evaluate facts c)) \<Longrightarrow>
     i < length (facts_frames facts) \<and> (\<exists>leaf. Frame leaf \<in> set (leaves c) \<and> frameMatches (facts_frames facts ! i) leaf)"
proof (induction c)
  case (AllOf cs)
  then show ?case by (fastforce simp: Let_def split: if_splits)
next
  case (AnyOf cs)
  then show ?case by (fastforce simp: Let_def split: if_splits)
qed (auto simp: Let_def)

lemma evaluate_elements:
  "i \<in> set (ev_elements (evaluate facts c)) \<Longrightarrow>
     i < length (facts_elements facts) \<and> 0 < el_count (facts_elements facts ! i) \<and>
       Element (el_selector (facts_elements facts ! i)) \<in> set (leaves c)"
proof (induction c)
  case (AllOf cs)
  then show ?case by (fastforce simp: Let_def split: if_splits)
next
  case (AnyOf cs)
  then show ?case by (fastforce simp: Let_def split: if_splits)
qed (auto simp: Let_def)

lemma best_candidate_in: "best_candidate cs = Some c \<Longrightarrow> c \<in> set cs"
proof -
  assume "best_candidate cs = Some c"
  then obtain r where "sort_key (\<lambda>c. - int (rank c)) cs = c # r"
    by (auto simp: best_candidate_def split: list.splits)
  then have "c \<in> set (sort_key (\<lambda>c. - int (rank c)) cs)" by simp
  then show ?thesis by simp
qed

lemma best_candidate_max: "best_candidate cs = Some c \<Longrightarrow> d \<in> set cs \<Longrightarrow> rank d \<le> rank c"
proof -
  assume c: "best_candidate cs = Some c" and d: "d \<in> set cs"
  let ?s = "sort_key (\<lambda>c. - int (rank c)) cs"
  from c obtain r where r: "?s = c # r" by (auto simp: best_candidate_def split: list.splits)
  have "sorted (map (\<lambda>c. - int (rank c)) ?s)" by simp
  moreover have "d \<in> set ?s" using d by simp
  ultimately show ?thesis unfolding r by auto
qed

lemma best_candidate_None: "best_candidate cs = None \<longleftrightarrow> cs = []"
proof -
  have "sort_key (\<lambda>c. - int (rank c)) cs = [] \<longleftrightarrow> cs = []" by (metis length_0_conv length_sort)
  then show ?thesis by (auto simp: best_candidate_def split: list.splits)
qed

lemma rank_kind: "rank d \<le> rank c \<Longrightarrow> KIND_RANK (sig_kind (m_sig (fst d))) \<le> KIND_RANK (sig_kind (m_sig (fst c)))"
proof -
  have "CONFIDENCE_RANK x \<le> 3 \<and> 1 \<le> CONFIDENCE_RANK x" for x by (cases x) simp_all
  from this [of "m_confidence (fst d)"] this [of "m_confidence (fst c)"]
  show "rank d \<le> rank c \<Longrightarrow> ?thesis" unfolding rank_def by linarith
qed

lemma map_filter_iff: "y \<in> set (List.map_filter f xs) \<longleftrightarrow> (\<exists>x \<in> set xs. f x = Some y)"
  by (force simp: List.map_filter_def)

lemma candidates_iff:
  "(m, s) \<in> set (candidates ms facts) \<longleftrightarrow> m \<in> set ms \<and> gate m facts = Some s \<and>
     (isGeneric (m_sig m) \<longrightarrow> (\<forall>m' \<in> set ms. isGeneric (m_sig m')))"
  by (auto simp: candidates_def Let_def map_filter_iff list_ex_iff)

definition matched :: "catalog \<Rightarrow> probe_facts \<Rightarrow> signature \<Rightarrow> bool" where
  "matched cat facts sg \<longleftrightarrow> sg \<in> set (signatures cat) \<and> sig_enabled sg \<and> held_rules facts sg \<noteq> []"

lemma matches_of_iff: "m \<in> set (matches_of cat facts) \<longleftrightarrow> (\<exists>sg. matched cat facts sg \<and> m = match_of facts sg)"
  by (auto simp: matches_of_def matched_def)

lemma match_of_sig [simp]: "m_sig (match_of facts sg) = sg"
  by (simp add: match_of_def Let_def)

lemma detect_primary:
  assumes "detect cat facts = (Some d, ps)"
  shows "\<exists>sg s. matched cat facts sg \<and> gate (match_of facts sg) facts = Some s \<and>
    d = detection_of facts (match_of facts sg, s) \<and>
    best_candidate (candidates (matches_of cat facts) facts) = Some (match_of facts sg, s)"
proof -
  from assms obtain c where c: "best_candidate (candidates (matches_of cat facts) facts) = Some c"
    "d = detection_of facts c" by (auto simp: detect_def Let_def)
  obtain m s where ms: "c = (m, s)" by (cases c)
  from best_candidate_in [OF c(1)] ms have "(m, s) \<in> set (candidates (matches_of cat facts) facts)" by simp
  then show ?thesis using c ms by (auto simp: candidates_iff matches_of_iff)
qed

lemma detection_of_fields [simp]:
  "det_sig (detection_of facts (m, s)) = m_sig m" "det_signals (detection_of facts (m, s)) = m_signals m"
  "det_token (detection_of facts (m, s)) = tokenState (m_sig m) facts"
  "det_surface (detection_of facts (m, s)) = s"
  by (simp_all add: detection_of_def)

lemma match_of_signals:
  "set (m_signals (match_of facts sg)) = rule_signal ` set (held_rules facts sg)"
  "distinct (m_signals (match_of facts sg))"
  by (simp_all add: match_of_def Let_def)

lemma gate_never: "gate m facts = Some s \<Longrightarrow> sig_active_when (m_sig m) \<noteq> Never"
  by (auto simp: gate_def Let_def)

lemma gate_unsolved:
  "gate m facts = Some s \<Longrightarrow> sig_active_when (m_sig m) = WidgetUnsolved \<Longrightarrow> tokenState (m_sig m) facts \<noteq> Some True"
  by (auto simp: gate_def Let_def)

lemma gate_document:
  "gate m facts = Some s \<Longrightarrow> scopeClassOf (sig_kind (m_sig m)) = DocumentScope \<Longrightarrow> s = plain_surface ScopeDocument"
  by (auto simp: gate_def Let_def)

lemma detect_evidence:
  assumes "detect cat facts = (Some d, ps)"
  shows "matched cat facts (det_sig d)" "det_signals d \<noteq> []"
    "set (det_signals d) = rule_signal ` set (held_rules facts (det_sig d))"
    "sig_active_when (det_sig d) \<noteq> Never"
    "sig_active_when (det_sig d) = WidgetUnsolved \<Longrightarrow> det_token d \<noteq> Some True"
proof -
  from detect_primary [OF assms] obtain sg s where m: "matched cat facts sg" "gate (match_of facts sg) facts = Some s"
    "d = detection_of facts (match_of facts sg, s)" by blast
  show "matched cat facts (det_sig d)" using m by simp
  show sigs: "set (det_signals d) = rule_signal ` set (held_rules facts (det_sig d))"
    using m by (simp add: match_of_signals)
  then show "det_signals d \<noteq> []" using m(1,3) by (auto simp: matched_def)
  show "sig_active_when (det_sig d) \<noteq> Never" using gate_never [OF m(2)] m(3) by simp
  show "sig_active_when (det_sig d) = WidgetUnsolved \<Longrightarrow> det_token d \<noteq> Some True"
    using gate_unsolved [OF m(2)] m(3) by simp
qed

lemma detect_precedence:
  assumes d: "detect cat facts = (Some d, ps)" and sg: "matched cat facts sg"
    and g: "gate (match_of facts sg) facts \<noteq> None"
    and ng: "isGeneric sg \<Longrightarrow> \<forall>sg'. matched cat facts sg' \<longrightarrow> isGeneric sg'"
  shows "KIND_RANK (sig_kind sg) \<le> KIND_RANK (sig_kind (det_sig d))"
proof -
  from g obtain s where s: "gate (match_of facts sg) facts = Some s" by blast
  from sg s ng have c: "(match_of facts sg, s) \<in> set (candidates (matches_of cat facts) facts)"
    by (auto simp: candidates_iff matches_of_iff)
  from detect_primary [OF d] obtain sg' s' where d': "d = detection_of facts (match_of facts sg', s')"
    "best_candidate (candidates (matches_of cat facts) facts) = Some (match_of facts sg', s')" by blast
  from rank_kind [OF best_candidate_max [OF d'(2) c]] d'(1) show ?thesis by simp
qed

lemma detect_generic:
  assumes d: "detect cat facts = (Some d, ps)" and "isGeneric (det_sig d)" and "matched cat facts sg"
  shows "isGeneric sg"
proof -
  from detect_primary [OF d] obtain sg' s' where d': "d = detection_of facts (match_of facts sg', s')"
    "best_candidate (candidates (matches_of cat facts) facts) = Some (match_of facts sg', s')" by blast
  have "match_of facts sg \<in> set (matches_of cat facts)" using assms(3) by (auto simp: matches_of_iff)
  with best_candidate_in [OF d'(2)] assms(2) d'(1) show ?thesis
    unfolding candidates_iff by (metis detection_of_fields(1) match_of_sig)
qed

section \<open>The cap\<close>

definition own_of :: "string \<Rightarrow> episode list \<Rightarrow> episode list" where
  "own_of task eps = filter (\<lambda>e. ep_task e = task) eps"

lemma enumerate_snd: "map snd (filter (\<lambda>(i, e). P e) (List.enumerate n xs)) = filter P xs"
  by (induction xs arbitrary: n) auto

lemma enumerate_filter_length: "length (filter (\<lambda>(i, e). P e) (List.enumerate n xs)) = length (filter P xs)"
  by (metis enumerate_snd length_map)

lemma distinct_enumerate_fst: "distinct (map fst (filter P (List.enumerate n xs)))"
  by (rule distinct_map_filter) simp

lemma filter_drop_length:
  assumes "distinct xs" "set D \<subseteq> set xs" "distinct D"
  shows "length (filter (\<lambda>x. x \<notin> set D) xs) = length xs - length D"
proof -
  have "length (filter (\<lambda>x. x \<notin> set D) xs) = card (set xs - set D)"
    using assms(1) by (simp add: distinct_length_filter set_diff_eq Int_def conj_commute)
  also have "\<dots> = length xs - length D"
    using assms by (simp add: card_Diff_subset distinct_card)
  finally show ?thesis .
qed

lemma enforceCap_filter: "\<exists>D. enforceCap eps task = map snd (filter (\<lambda>p. fst p \<notin> D) (List.enumerate 0 eps))"
  unfolding enforceCap_def Let_def case_prod_beta by blast

lemma enforceCap_subset: "set (enforceCap eps task) \<subseteq> set eps"
proof -
  obtain D where D: "enforceCap eps task = map snd (filter (\<lambda>p. fst p \<notin> D) (List.enumerate 0 eps))"
    using enforceCap_filter by blast
  have "set (enforceCap eps task) \<subseteq> set (map snd (List.enumerate 0 eps))"
    unfolding D set_map by (rule image_mono) auto
  then show ?thesis by (simp only: map_snd_enumerate)
qed

lemma enforceCap_count: "length (filter P (enforceCap eps task)) \<le> length (filter P eps)"
proof -
  obtain D where D: "enforceCap eps task = map snd (filter (\<lambda>p. fst p \<notin> D) (List.enumerate 0 eps))"
    using enforceCap_filter by blast
  have "length (filter P (map snd (filter Q xs))) \<le> length (filter P (map snd xs))" for Q and xs :: "(nat \<times> episode) list"
    by (induction xs) auto
  then show ?thesis unfolding D by (metis map_snd_enumerate)
qed

lemma enforceCap_exact:
  "length (own_of task (enforceCap eps task)) = min (length (own_of task eps)) CHALLENGE_MAX_EPISODES_PER_TASK"
proof -
  let ?en = "List.enumerate 0 eps"
  define own where "own = filter (\<lambda>(i, e). ep_task e = task) ?en"
  define pools where "pools = sort_key (\<lambda>(i, e). detected_at e) (filter (\<lambda>(i, e). ep_state e \<noteq> Active) own) @
            sort_key (\<lambda>(i, e). detected_at e) (filter (\<lambda>(i, e). ep_state e = Active) own)"
  define D where "D = map fst (take (length own - CHALLENGE_MAX_EPISODES_PER_TASK) pools)"
  have cap: "enforceCap eps task = map snd (filter (\<lambda>(i, e). i \<notin> set D) ?en)"
    by (simp only: enforceCap_def Let_def own_def pools_def D_def)
  have mset: "mset pools = mset own"
    using multiset_partition [of "mset own" "\<lambda>p. ep_state (snd p) \<noteq> Active"]
    by (simp add: pools_def case_prod_beta)
  have down: "distinct (map fst own)" unfolding own_def by (rule distinct_enumerate_fst)
  then have dpools: "distinct (map fst pools)" by (metis mset mset_eq_imp_distinct_iff mset_map)
  have D: "distinct D" "set D \<subseteq> set (map fst own)" "length D = length own - CHALLENGE_MAX_EPISODES_PER_TASK"
  proof -
    show "distinct D" unfolding D_def take_map [symmetric] using dpools by (rule distinct_take)
    have "set (map fst pools) = set (map fst own)" by (metis mset mset_map set_mset_mset)
    then show "set D \<subseteq> set (map fst own)" unfolding D_def take_map [symmetric] by (metis set_take_subset)
    have "length pools = length own" by (metis mset size_mset)
    then show "length D = length own - CHALLENGE_MAX_EPISODES_PER_TASK" by (simp add: D_def)
  qed
  have "own_of task (enforceCap eps task) = map snd (filter (\<lambda>p. fst p \<notin> set D) own)"
    unfolding own_of_def cap own_def by (simp add: filter_map filter_filter comp_def case_prod_beta conj_commute)
  then have "length (own_of task (enforceCap eps task)) = length (filter (\<lambda>x. x \<notin> set D) (map fst own))"
    by (simp add: filter_map comp_def)
  also have "\<dots> = length (map fst own) - length D" by (rule filter_drop_length [OF down D(2,1)])
  finally show ?thesis using D(3) by (simp add: own_def enumerate_filter_length own_of_def)
qed

lemma enforceCap_length: "length (own_of task (enforceCap eps task)) \<le> CHALLENGE_MAX_EPISODES_PER_TASK"
  by (simp add: enforceCap_exact)

lemma enforceCap_same: "length (own_of task eps) \<le> CHALLENGE_MAX_EPISODES_PER_TASK \<Longrightarrow> enforceCap eps task = eps"
proof -
  assume "length (own_of task eps) \<le> CHALLENGE_MAX_EPISODES_PER_TASK"
  then have "length (filter (\<lambda>(i, e). ep_task e = task) (List.enumerate 0 eps)) - CHALLENGE_MAX_EPISODES_PER_TASK = 0"
    unfolding enumerate_filter_length by (simp add: own_of_def)
  then show ?thesis by (simp add: enforceCap_def Let_def case_prod_beta)
qed

section \<open>One step of an episode\<close>

lemma refreshNext_frame [simp]:
  "ep_state (refreshNext e now) = ep_state e" "ep_tab (refreshNext e now) = ep_tab e"
  "scope_class (refreshNext e now) = scope_class e" "challenge_id (refreshNext e now) = challenge_id e"
  "ep_kind (refreshNext e now) = ep_kind e" "ep_task (refreshNext e now) = ep_task e"
  "terminal_reported (refreshNext e now) = terminal_reported e" "detected_at (refreshNext e now) = detected_at e"
  "page_origin (refreshNext e now) = page_origin e" "vendor (refreshNext e now) = vendor e"
  by (simp_all add: refreshNext_def Let_def)

lemma settle_frame [simp]:
  "ep_state (settle new touch ctx e) = new" "ep_tab (settle new touch ctx e) = ep_tab e"
  "scope_class (settle new touch ctx e) = scope_class e" "challenge_id (settle new touch ctx e) = challenge_id e"
  "ep_task (settle new touch ctx e) = ep_task e"
  by (simp_all add: settle_def Let_def)

lemma applyDetection_frame [simp]:
  "ep_state (applyDetection e d ctx) = Active" "ep_tab (applyDetection e d ctx) = ep_tab e"
  "scope_class (applyDetection e d ctx) = scopeClassOf (sig_kind (det_sig d))"
  "challenge_id (applyDetection e d ctx) = challenge_id e" "ep_task (applyDetection e d ctx) = ep_task e"
  by (simp_all add: applyDetection_def Let_def)

lemma createEpisode_frame [simp]:
  "ep_state (createEpisode d ctx) = Active" "ep_tab (createEpisode d ctx) = ctx_tab ctx"
  "scope_class (createEpisode d ctx) = scopeClassOf (sig_kind (det_sig d))"
  "challenge_id (createEpisode d ctx) = ctx_new_id ctx" "ep_task (createEpisode d ctx) = ctx_task ctx"
  by (simp_all add: createEpisode_def blank_episode_def)

lemma endAndQueue_frame [simp]:
  "ep_state (endAndQueue new ctx e) = new" "ep_tab (endAndQueue new ctx e) = ep_tab e"
  "scope_class (endAndQueue new ctx e) = scope_class e" "challenge_id (endAndQueue new ctx e) = challenge_id e"
  "ep_task (endAndQueue new ctx e) = ep_task e" "terminal_reported (endAndQueue new ctx e)"
  by (simp_all add: endAndQueue_def Let_def)

lemma silentlySupersede_frame [simp]:
  "ep_state (silentlySupersede ctx e) = Superseded" "ep_tab (silentlySupersede ctx e) = ep_tab e"
  "scope_class (silentlySupersede ctx e) = scope_class e"
  "challenge_id (silentlySupersede ctx e) = challenge_id e" "ep_task (silentlySupersede ctx e) = ep_task e"
  "terminal_reported (silentlySupersede ctx e)"
  by (simp_all add: silentlySupersede_def)

lemma document_clean_frame [simp]:
  "ep_tab (document_clean ctx e) = ep_tab e" "scope_class (document_clean ctx e) = scope_class e"
  "challenge_id (document_clean ctx e) = challenge_id e" "ep_task (document_clean ctx e) = ep_task e"
  by (simp_all add: document_clean_def)

lemma embedded_clean_frame [simp]:
  "ep_tab (embedded_clean ctx ps e) = ep_tab e" "scope_class (embedded_clean ctx ps e) = scope_class e"
  "challenge_id (embedded_clean ctx ps e) = challenge_id e" "ep_task (embedded_clean ctx ps e) = ep_task e"
  "ep_state (embedded_clean ctx ps e) \<noteq> Active"
  by (simp_all add: embedded_clean_def)

lemma expire_frame [simp]:
  "ep_tab (expire ctx e) = ep_tab e" "scope_class (expire ctx e) = scope_class e"
  "challenge_id (expire ctx e) = challenge_id e" "ep_task (expire ctx e) = ep_task e"
  by (simp_all add: expire_def)

section \<open>At most one active episode\<close>

definition active_at :: "int \<Rightarrow> scope_class \<Rightarrow> episode \<Rightarrow> bool" where
  "active_at tab sc e \<longleftrightarrow> ep_tab e = tab \<and> ep_state e = Active \<and> scope_class e = sc"

definition count_active :: "int \<Rightarrow> scope_class \<Rightarrow> episode list \<Rightarrow> nat" where
  "count_active tab sc eps = length (filter (active_at tab sc) eps)"

definition one_active :: "episode list \<Rightarrow> bool" where
  "one_active eps \<longleftrightarrow> (\<forall>tab sc. count_active tab sc eps \<le> 1)"

lemma count_active_simps [simp]:
  "count_active tab sc [] = 0"
  "count_active tab sc (e # eps) = (if active_at tab sc e then 1 else 0) + count_active tab sc eps"
  "count_active tab sc (a @ b) = count_active tab sc a + count_active tab sc b"
  by (simp_all add: count_active_def)

lemma count_active_map:
  "(\<And>e. active_at tab sc (f e) \<Longrightarrow> active_at tab sc e) \<Longrightarrow> count_active tab sc (map f eps) \<le> count_active tab sc eps"
  by (induction eps) (auto simp: le_SucI)

lemma active_in_at: "active_in ctx sc e \<longleftrightarrow> active_at (ctx_tab ctx) sc e"
  by (simp add: active_in_def active_at_def)

lemma expire_count: "count_active tab sc (map (expire ctx) eps) \<le> count_active tab sc eps"
  by (rule count_active_map) (auto simp: active_at_def expire_def split: if_splits)

lemma on_active_count:
  assumes "\<And>e. ep_tab (f e) = ep_tab e" "\<And>e. scope_class (f e) = scope_class e"
  shows "count_active tab sc (on_active ctx c f eps) \<le> count_active tab sc eps"
  unfolding on_active_def
  by (rule count_active_map) (auto simp: assms active_at_def active_in_def split: if_splits)

lemma document_phase_count:
  "document_phase ctx p eps = (l, q) \<Longrightarrow> count_active tab sc l \<le> count_active tab sc eps"
  by (auto simp: document_phase_def on_active_count split: if_splits)

lemma embedded_phase_count:
  "embedded_phase ctx p ps eps = (l, q) \<Longrightarrow> count_active tab sc l \<le> count_active tab sc eps"
  by (auto simp: embedded_phase_def on_active_count split: option.splits scope_class.splits)

lemma continue_count:
  assumes "continue ctx d sc cur eps = (c, es)" and "sc = scopeClassOf (sig_kind (det_sig d))"
  shows "count_active tab k es \<le> count_active tab k eps \<and>
    (tab = ctx_tab ctx \<and> k = sc \<longrightarrow> count_active tab k es = (if cur = None \<and> c \<noteq> None then 1 else 0)) \<and>
    (cur \<noteq> None \<longrightarrow> c = cur)"
  using assms
proof (induction ctx d sc cur eps arbitrary: c es rule: continue.induct)
  case (2 ctx d sc cur e rest)
  show ?case
  proof (cases "active_in ctx sc e")
    case False
    with 2 show ?thesis by (auto simp: active_in_at split: prod.splits)
  next
    case True
    show ?thesis
    proof (cases "cur = None \<and> same_challenge ctx d e")
      case same: True
      with 2 True show ?thesis by (auto simp: Let_def active_in_at active_at_def split: prod.splits)
    next
      case False
      with 2 True show ?thesis by (auto simp: active_in_at active_at_def le_SucI split: prod.splits if_splits)
    qed
  qed
qed auto

lemma primary_phase_count:
  assumes "primary_phase ctx p eps = (c, es)"
  shows "count_active tab sc es \<le> max 1 (count_active tab sc eps) \<and>
    (tab = ctx_tab ctx \<and> primary_class p = Some sc \<longrightarrow> count_active tab sc es = 1)"
proof (cases p)
  case (Some d)
  obtain cur es' where k: "continue ctx d (scopeClassOf (sig_kind (det_sig d))) None eps = (cur, es')"
    by (cases "continue ctx d (scopeClassOf (sig_kind (det_sig d))) None eps")
  note n = continue_count [OF k refl, of tab sc]
  show ?thesis
  proof (cases cur)
    case None
    with assms Some k n show ?thesis
      by (auto simp: primary_phase_def primary_class_def Let_def active_at_def)
  next
    case (Some e)
    with assms \<open>p = Some d\<close> k n show ?thesis by (auto simp: primary_phase_def primary_class_def)
  qed
qed (use assms in \<open>simp add: primary_phase_def primary_class_def\<close>)

lemma advance_parts:
  assumes "advance eps (p, ps) ctx = (eps', ev)"
  obtains l1 q1 l2 q2 cur l3 where "document_phase ctx p (map (expire ctx) eps) = (l1, q1)"
    "embedded_phase ctx p ps l1 = (l2, q2)" "primary_phase ctx p l2 = (cur, l3)"
    "eps' = enforceCap l3 (ctx_task ctx)"
    "ev = map_option episodeEvent (case cur of Some c \<Rightarrow> Some c
           | None \<Rightarrow> (case q1 @ q2 of [] \<Rightarrow> None | e # r \<Rightarrow> Some e))"
  using assms unfolding advance_def by (simp split: prod.splits)

lemma count_active_cap: "count_active tab sc (enforceCap eps task) \<le> count_active tab sc eps"
  unfolding count_active_def by (rule enforceCap_count)

lemma advance_one_active:
  assumes "advance eps (p, ps) ctx = (eps', ev)" and "one_active eps"
  shows "one_active eps'"
  unfolding one_active_def
proof (intro allI)
  fix tab sc
  from assms(1) obtain l1 q1 l2 q2 cur l3 where a: "document_phase ctx p (map (expire ctx) eps) = (l1, q1)"
    "embedded_phase ctx p ps l1 = (l2, q2)" "primary_phase ctx p l2 = (cur, l3)"
    "eps' = enforceCap l3 (ctx_task ctx)" by (rule advance_parts)
  have "count_active tab sc eps' \<le> count_active tab sc l3" unfolding a(4) by (rule count_active_cap)
  also have "\<dots> \<le> max 1 (count_active tab sc l2)" using primary_phase_count [OF a(3), of tab sc] by simp
  also have "count_active tab sc l2 \<le> count_active tab sc l1" by (rule embedded_phase_count [OF a(2)])
  also have "\<dots> \<le> count_active tab sc (map (expire ctx) eps)" by (rule document_phase_count [OF a(1)])
  also have "\<dots> \<le> count_active tab sc eps" by (rule expire_count)
  also have "\<dots> \<le> 1" using assms(2) by (simp add: one_active_def)
  finally show "count_active tab sc eps' \<le> 1" by simp
qed

section \<open>Ended episodes\<close>

lemma expire_active: "ep_state (expire ctx e) = Active \<longleftrightarrow> ep_state e = Active \<and> \<not> expired ctx e"
  by (auto simp: expire_def expired_def)

lemma expire_ended: "ep_state e \<noteq> Active \<Longrightarrow> expire ctx e = e"
  by (simp add: expire_def expired_def)

text \<open>A step on the list changes active episodes only, one by one, and keeps their identity.\<close>

definition evolves :: "episode list \<Rightarrow> episode list \<Rightarrow> bool" where
  "evolves eps eps' \<longleftrightarrow> list_all2 (\<lambda>e e'. (ep_state e \<noteq> Active \<longrightarrow> e' = e) \<and> challenge_id e' = challenge_id e \<and>
     ep_tab e' = ep_tab e \<and> ep_task e' = ep_task e \<and>
     (ep_state e' \<noteq> Active \<longrightarrow> e' = e \<or> terminal_reported e')) eps eps'"

lemma evolves_refl: "evolves eps eps"
  by (simp add: evolves_def list_all2_refl)

lemma evolves_trans:
  assumes "evolves a b" "evolves b c"
  shows "evolves a c"
  using assms unfolding evolves_def by (rule list_all2_trans [rotated]) metis

lemma evolves_map:
  assumes "\<And>e. ep_state e \<noteq> Active \<Longrightarrow> f e = e" "\<And>e. challenge_id (f e) = challenge_id e"
    "\<And>e. ep_tab (f e) = ep_tab e" "\<And>e. ep_task (f e) = ep_task e"
    "\<And>e. ep_state e = Active \<Longrightarrow> ep_state (f e) \<noteq> Active \<Longrightarrow> terminal_reported (f e)"
  shows "evolves eps (map f eps)"
  unfolding evolves_def list.rel_map by (rule list_all2_refl) (use assms in blast)

lemma evolves_on_active:
  assumes "\<And>e. challenge_id (f e) = challenge_id e" "\<And>e. ep_tab (f e) = ep_tab e"
    "\<And>e. ep_task (f e) = ep_task e" "\<And>e. ep_state e = Active \<Longrightarrow> ep_state (f e) \<noteq> Active \<Longrightarrow> terminal_reported (f e)"
  shows "evolves eps (on_active ctx sc f eps)"
  unfolding on_active_def by (rule evolves_map) (auto simp: active_in_def assms)

lemma document_clean_reported: "ep_state (document_clean ctx e) \<noteq> Active \<Longrightarrow> ep_state e = Active \<Longrightarrow> terminal_reported (document_clean ctx e)"
  by (simp add: document_clean_def split: if_splits)

lemma embedded_clean_reported: "terminal_reported (embedded_clean ctx ps e)"
  by (simp add: embedded_clean_def)

lemma document_phase_evolves: "document_phase ctx p eps = (l, q) \<Longrightarrow> evolves eps l"
  by (auto simp: document_phase_def evolves_refl document_clean_reported intro!: evolves_on_active split: if_splits)

lemma embedded_phase_evolves: "embedded_phase ctx p ps eps = (l, q) \<Longrightarrow> evolves eps l"
  by (auto simp: embedded_phase_def evolves_refl embedded_clean_reported intro!: evolves_on_active
      split: option.splits scope_class.splits)

lemma expire_evolves: "evolves eps (map (expire ctx) eps)"
  by (rule evolves_map) (auto simp: expire_ended, simp add: expire_def split: if_splits)

lemma evolves_Cons: "evolves (e # a) (e' # b) \<longleftrightarrow> evolves [e] [e'] \<and> evolves a b"
  by (auto simp: evolves_def)

lemma evolves_one:
  "active_in ctx sc e \<Longrightarrow> evolves [e] [silentlySupersede ctx e]"
  "active_in ctx sc e \<Longrightarrow> evolves [e] [applyDetection e d ctx]"
  by (auto simp: evolves_def active_in_def)

lemma continue_evolves: "continue ctx d sc cur eps = (c, es) \<Longrightarrow> evolves eps es"
proof (induction ctx d sc cur eps arbitrary: c es rule: continue.induct)
  case (2 ctx d sc cur e rest)
  show ?case
  proof (cases "active_in ctx sc e")
    case False
    with 2 show ?thesis by (auto simp: evolves_Cons [of e rest e] evolves_refl split: prod.splits)
  next
    case True
    then show ?thesis using 2 evolves_one [OF True]
      by (auto simp: evolves_Cons [of e rest] Let_def split: prod.splits if_splits)
  qed
qed (simp add: evolves_refl)

lemma continue_cur:
  "continue ctx d sc cur eps = (Some c, es) \<Longrightarrow> cur = None \<Longrightarrow>
     c \<in> set es \<and> (\<exists>e \<in> set eps. ep_state e = Active \<and> ep_tab e = ctx_tab ctx \<and> challenge_id e = challenge_id c)"
proof (induction ctx d sc cur eps arbitrary: c es rule: continue.induct)
  case (2 ctx d sc cur e rest)
  show ?case
  proof (cases "active_in ctx sc e \<and> same_challenge ctx d e")
    case True
    obtain c' es' where k: "continue ctx d sc (Some (applyDetection e d ctx)) rest = (c', es')"
      by (cases "continue ctx d sc (Some (applyDetection e d ctx)) rest")
    have keep: "continue ctx d sc (Some x) l = (y, z) \<Longrightarrow> y = Some x" for x y l z
      by (induction l arbitrary: z) (auto split: if_splits prod.splits)
    from keep [OF k] k True 2(4,5) show ?thesis by (auto simp: Let_def active_in_def)
  next
    case False
    with 2 show ?thesis by (auto split: prod.splits if_splits)
  qed
qed simp

lemma evolves_active: "evolves eps eps' \<Longrightarrow> e' \<in> set eps' \<Longrightarrow> ep_state e' = Active \<Longrightarrow>
    \<exists>e \<in> set eps. ep_state e = Active \<and> challenge_id e = challenge_id e' \<and> ep_tab e = ep_tab e'"
  unfolding evolves_def list_all2_conv_all_nth by (metis in_set_conv_nth)

lemma evolves_ended: "evolves eps eps' \<Longrightarrow> e \<in> set eps \<Longrightarrow> ep_state e \<noteq> Active \<Longrightarrow> e \<in> set eps'"
  unfolding evolves_def list_all2_conv_all_nth by (metis in_set_conv_nth)

lemma evolves_reported: "evolves eps eps' \<Longrightarrow> e' \<in> set eps' \<Longrightarrow> ep_state e' \<noteq> Active \<Longrightarrow> e' \<in> set eps \<or> terminal_reported e'"
  unfolding evolves_def list_all2_conv_all_nth by (metis in_set_conv_nth)

lemma evolves_own: "evolves eps eps' \<Longrightarrow> length (own_of task eps') = length (own_of task eps)"
  unfolding evolves_def own_of_def by (induction rule: list_all2_induct) auto

lemma primary_phase_evolves:
  "primary_phase ctx p eps = (cur, l) \<Longrightarrow> \<exists>l'. evolves eps l' \<and> (l = l' \<or> (\<exists>d. l = l' @ [createEpisode d ctx]))"
proof (cases p)
  case (Some d)
  assume a: "primary_phase ctx p eps = (cur, l)"
  obtain c es where k: "continue ctx d (scopeClassOf (sig_kind (det_sig d))) None eps = (c, es)"
    by (cases "continue ctx d (scopeClassOf (sig_kind (det_sig d))) None eps")
  from continue_evolves [OF k] a k Some show ?thesis
    by (auto simp: primary_phase_def Let_def split: option.splits)
next
  case None
  assume "primary_phase ctx p eps = (cur, l)"
  with None have "l = eps" by (simp add: primary_phase_def)
  then show ?thesis using evolves_refl by blast
qed

lemma advance_evolves:
  assumes "advance eps (p, ps) ctx = (eps', ev)"
  shows "\<exists>l. evolves eps l \<and> (eps' = enforceCap l (ctx_task ctx) \<or>
    (\<exists>d. eps' = enforceCap (l @ [createEpisode d ctx]) (ctx_task ctx)))"
proof -
  from assms obtain l1 q1 l2 q2 cur l3 where a: "document_phase ctx p (map (expire ctx) eps) = (l1, q1)"
    "embedded_phase ctx p ps l1 = (l2, q2)" "primary_phase ctx p l2 = (cur, l3)"
    "eps' = enforceCap l3 (ctx_task ctx)" by (rule advance_parts)
  have "evolves eps l2"
    using expire_evolves document_phase_evolves [OF a(1)] embedded_phase_evolves [OF a(2)] evolves_trans by blast
  with primary_phase_evolves [OF a(3)] a(4) evolves_trans show ?thesis by blast
qed

lemma advance_ended_kept:
  assumes a: "advance eps (p, ps) ctx = (eps', ev)" and e: "e \<in> set eps" "ep_state e \<noteq> Active"
    and room: "length (own_of (ctx_task ctx) eps) < CHALLENGE_MAX_EPISODES_PER_TASK"
  shows "e \<in> set eps'"
proof -
  from advance_evolves [OF a] obtain l where l: "evolves eps l" "eps' = enforceCap l (ctx_task ctx) \<or>
    (\<exists>d. eps' = enforceCap (l @ [createEpisode d ctx]) (ctx_task ctx))" by blast
  from evolves_own [OF l(1), of "ctx_task ctx"] room
  have "enforceCap l (ctx_task ctx) = l" and "enforceCap (l @ [createEpisode d ctx]) (ctx_task ctx) = l @ [createEpisode d ctx]" for d
    by (auto intro!: enforceCap_same simp: own_of_def)
  with l(2) evolves_ended [OF l(1) e] show ?thesis by auto
qed

lemma advance_reported_once:
  assumes a: "advance eps (p, ps) ctx = (eps', ev)" and e: "e \<in> set eps'" "ep_state e \<noteq> Active"
  shows "e \<in> set eps \<or> terminal_reported e"
proof -
  from advance_evolves [OF a] obtain l d where l: "evolves eps l"
    "set eps' \<subseteq> set l \<union> {createEpisode d ctx}" using enforceCap_subset by fastforce
  with e have "e \<in> set l" by auto
  with evolves_reported [OF l(1) _ e(2)] show ?thesis by blast
qed

lemma queued_active: "e \<in> set (queued ctx sc f eps) \<Longrightarrow> \<exists>e0 \<in> set eps. e = f e0 \<and> active_in ctx sc e0"
  by (auto simp: queued_def)

lemma advance_event_source:
  assumes a: "advance eps (p, ps) ctx = (eps', Some ev)"
  shows "\<exists>e. ev = episodeEvent e \<and> (challenge_id e = ctx_new_id ctx \<or>
    (\<exists>e0 \<in> set eps. ep_state e0 = Active \<and> ep_tab e0 = ctx_tab ctx \<and> challenge_id e0 = challenge_id e))"
proof -
  from a obtain l1 q1 l2 q2 cur l3 where s: "document_phase ctx p (map (expire ctx) eps) = (l1, q1)"
    "embedded_phase ctx p ps l1 = (l2, q2)" "primary_phase ctx p l2 = (cur, l3)"
    and ev: "Some ev = map_option episodeEvent (case cur of Some c \<Rightarrow> Some c
           | None \<Rightarrow> (case q1 @ q2 of [] \<Rightarrow> None | e # r \<Rightarrow> Some e))" by (rule advance_parts)
  have e1: "evolves eps (map (expire ctx) eps)" by (rule expire_evolves)
  have e2: "evolves eps l1" using e1 document_phase_evolves [OF s(1)] evolves_trans by blast
  have e3: "evolves eps l2" using e2 embedded_phase_evolves [OF s(2)] evolves_trans by blast
  let ?src = "\<lambda>e. \<exists>e0 \<in> set eps. ep_state e0 = Active \<and> ep_tab e0 = ctx_tab ctx \<and> challenge_id e0 = challenge_id e"
  have q1: "?src e" if "e \<in> set q1" for e
  proof -
    from that s(1) have "e \<in> set (queued ctx DocumentScope (document_clean ctx) (map (expire ctx) eps))"
      by (auto simp: document_phase_def split: if_splits)
    from queued_active [OF this] obtain e0 where "e0 \<in> set (map (expire ctx) eps)" "e = document_clean ctx e0"
      "active_in ctx DocumentScope e0" by blast
    with evolves_active [OF e1, of e0] show ?thesis by (auto simp: active_in_def)
  qed
  have q2: "?src e" if "e \<in> set q2" for e
  proof -
    from that s(2) have "e \<in> set (queued ctx EmbeddedScope (embedded_clean ctx ps) l1)"
      by (auto simp: embedded_phase_def split: option.splits scope_class.splits)
    from queued_active [OF this] obtain e0 where "e0 \<in> set l1" "e = embedded_clean ctx ps e0"
      "active_in ctx EmbeddedScope e0" by blast
    with evolves_active [OF e2, of e0] show ?thesis by (auto simp: active_in_def)
  qed
  show ?thesis
  proof (cases cur)
    case None
    with ev obtain e r where "q1 @ q2 = e # r" "ev = episodeEvent e" by (auto split: list.splits)
    moreover from this have "e \<in> set q1 \<or> e \<in> set q2" by (metis Un_iff list.set_intros(1) set_append)
    ultimately show ?thesis using q1 q2 by blast
  next
    case (Some c)
    then have c: "ev = episodeEvent c" using ev by simp
    from s(3) Some obtain d where d: "p = Some d" by (cases p) (auto simp: primary_phase_def)
    obtain c' es where k: "continue ctx d (scopeClassOf (sig_kind (det_sig d))) None l2 = (c', es)"
      by (cases "continue ctx d (scopeClassOf (sig_kind (det_sig d))) None l2")
    show ?thesis
    proof (cases c')
      case None
      with s(3) Some d k have "c = createEpisode d ctx" by (auto simp: primary_phase_def Let_def)
      with c show ?thesis by auto
    next
      case (Some x)
      with s(3) \<open>cur = Some c\<close> d k have "x = c" by (auto simp: primary_phase_def)
      with continue_cur [OF k [unfolded Some] refl] obtain e where "e \<in> set l2" "ep_state e = Active"
        "ep_tab e = ctx_tab ctx" "challenge_id e = challenge_id c" by blast
      with evolves_active [OF e3, of e] c show ?thesis by auto
    qed
  qed
qed

section \<open>Episodes that the store accepts\<close>

definition opt_nonneg :: "int option \<Rightarrow> bool" where
  "opt_nonneg v \<longleftrightarrow> (case v of None \<Rightarrow> True | Some i \<Rightarrow> 0 \<le> i)"

definition origin_ok :: "string \<Rightarrow> bool" where
  "origin_ok s \<longleftrightarrow> sanitizeOrigin (Str s) \<noteq> None"

definition surface_wf :: "surface \<Rightarrow> bool" where
  "surface_wf s \<longleftrightarrow> (case surf_origin s of None \<Rightarrow> True | Some o1 \<Rightarrow> origin_ok o1)"

definition episode_wf :: "episode \<Rightarrow> bool" where
  "episode_wf e \<longleftrightarrow> challenge_id_pattern (challenge_id e) \<and> signature_id e \<noteq> [] \<and> length (signature_id e) \<le> 128 \<and>
     ep_task e \<noteq> [] \<and> 0 \<le> ep_tab e \<and> 0 \<le> page_revision e \<and> 0 \<le> first_page_revision e \<and>
     0 \<le> first_detected_at e \<and> 0 \<le> detected_at e \<and> origin_ok (page_origin e) \<and> surface_wf (ep_surface e) \<and>
     signals e \<noteq> [] \<and> length (signals e) \<le> MAX_SIGNALS \<and> opt_nonneg (wait_budget_ms e) \<and>
     opt_nonneg (retry_after_ms e) \<and> notice_id e \<noteq> Some [] \<and> opt_nonneg (budget_ms e) \<and>
     opt_nonneg (document_status e)"

lemma named_kind_name: "named kind_name KINDS (Str (kind_name x)) = Some x"
  by (cases x) (simp_all add: named_def KINDS_def)

lemma named_interaction_name: "named interaction_name INTERACTIONS (Str (interaction_name x)) = Some x"
  by (cases x) (simp_all add: named_def INTERACTIONS_def)

lemma named_ep_state_name: "named ep_state_name STATES (Str (ep_state_name x)) = Some x"
  by (cases x) (simp_all add: named_def STATES_def)

lemma named_confidence_name: "named confidence_name CONFIDENCES (Str (confidence_name x)) = Some x"
  by (cases x) (simp_all add: named_def CONFIDENCES_def)

lemma named_next_name: "named next_name NEXTS (Str (next_name x)) = Some x"
  by (cases x) (simp_all add: named_def NEXTS_def)

lemma named_scope_name: "named scope_name SCOPES (Str (scope_name x)) = Some x"
  by (cases x) (simp_all add: named_def SCOPES_def)

lemma named_probe_name: "named probe_name PROBES (Str (probe_name x)) = Some x"
  by (cases x) (simp_all add: named_def PROBES_def)

lemma named_scope_class_name: "named scope_class_name SCOPE_CLASSES (Str (scope_class_name x)) = Some x"
  by (cases x) (simp_all add: named_def SCOPE_CLASSES_def)

lemmas named_name = named_kind_name named_interaction_name named_ep_state_name named_confidence_name named_next_name named_scope_name named_probe_name named_scope_class_name

lemma jget_field [simp]: "jget (field k v) k' = (if k' = k then v else Undefined)"
  by (auto simp: field_def)

lemma own_field [simp]: "own (field k v) k' \<longleftrightarrow> k' = k \<and> v \<noteq> Undefined"
  by (auto simp: field_def)

lemma js_opt_simps [simp]:
  "if_str (js_opt Str x) = x" "if_int (js_opt js_int i) = i" "if_bool (js_opt Bool b) = b"
  by (cases x; cases i; cases b; simp add: js_opt_def if_str_def if_int_def if_bool_def)+

lemma opt_ok_simps [simp]:
  "opt_ok P (js_opt f v) \<longleftrightarrow> (case v of None \<Rightarrow> True | Some x \<Rightarrow> f x = Undefined \<or> P (f x))"
  by (cases v) (simp_all add: opt_ok_def js_opt_def)

lemma nonNegativeInt_int [simp]: "nonNegativeInt (js_int i) \<longleftrightarrow> 0 \<le> i"
  by (simp add: nonNegativeInt_def)

lemma filled_Str [simp]: "filled (Str s) \<longleftrightarrow> s \<noteq> []"
  by (simp add: filled_def)

lemma is_bool_Bool [simp]: "is_bool (Bool b)"
  by (simp add: is_bool_def)

lemma opt_ok_Bool: "opt_ok is_bool (Bool b)"
  by (simp add: opt_ok_def)

lemma surface_roundtrip:
  assumes "surface_wf sf" and "surface_json sf = Obj ob"
  shows "\<not> bad_surface ob" "surface_of ob = sf"
proof -
  have f: "jget ob ''scope'' = Str (scope_name (surf_scope sf))" "jget ob ''frame_id'' = js_opt Str (surf_frame_id sf)"
    "jget ob ''frame_origin'' = js_opt Str (surf_origin sf)" "jget ob ''visible'' = Bool (surf_visible sf)"
    using assms(2) by (auto simp: surface_json_def jget_append)
  show "\<not> bad_surface ob"
    using assms(1) unfolding bad_surface_def f surface_wf_def origin_ok_def
    by (auto simp: named_name split: option.splits)
  show "surface_of ob = sf" unfolding surface_of_def f by (cases sf) (simp add: named_name)
qed

lemma episode_json_fields:
  assumes "episode_json e = Obj r"
  shows "jget r ''spec_version'' = js_int 1" "jget r ''challenge_id'' = Str (challenge_id e)"
    "jget r ''tab_id'' = js_int (ep_tab e)" "jget r ''page_revision'' = js_int (page_revision e)"
    "jget r ''first_page_revision'' = js_int (first_page_revision e)"
    "jget r ''first_detected_at_ms'' = js_int (first_detected_at e)"
    "jget r ''detected_at_ms'' = js_int (detected_at e)" "jget r ''page_origin'' = Str (page_origin e)"
    "jget r ''vendor'' = Str (vendor e)" "jget r ''product'' = Str (product e)"
    "jget r ''kind'' = Str (kind_name (ep_kind e))"
    "jget r ''interaction'' = Str (interaction_name (ep_interaction e))"
    "jget r ''state'' = Str (ep_state_name (ep_state e))"
    "jget r ''confidence'' = Str (confidence_name (ep_confidence e))"
    "jget r ''surface'' = surface_json (ep_surface e)" "jget r ''token_present'' = js_opt Bool (token_present e)"
    "jget r ''signals'' = Arr (map Str (signals e))" "jget r ''next'' = Str (next_name (ep_next e))"
    "jget r ''wait_budget_ms'' = js_opt js_int (wait_budget_ms e)"
    "jget r ''retry_after_ms'' = js_opt js_int (retry_after_ms e)" "jget r ''notice_id'' = js_opt Str (notice_id e)"
    "jget r ''detector'' = detector_json e" "jget r ''task_id'' = Str (ep_task e)"
    "jget r ''scope_class'' = Str (scope_class_name (scope_class e))"
    "jget r ''signature_id'' = Str (signature_id e)" "jget r ''budget_ms'' = js_opt js_int (budget_ms e)"
    "jget r ''observable_by_scripting'' = Bool (observable_by_scripting e)"
    "jget r ''document_status'' = js_opt js_int (document_status e)"
    "jget r ''terminal_reported'' = Bool (terminal_reported e)"
  using assms [symmetric] by (simp_all add: episode_json_def jget_append)

lemma detector_json_fields:
  "isRecord (detector_json e)" "jget (the_obj (detector_json e)) ''catalog_version'' = Str (det_catalog_version e)"
  "jget (the_obj (detector_json e)) ''probe'' = Str (probe_name (det_probe e))"
  by (simp_all add: detector_json_def)

lemma opt_nonneg_case: "opt_nonneg v \<longleftrightarrow> (case v of None \<Rightarrow> True | Some x \<Rightarrow> js_int x = Undefined \<or> nonNegativeInt (js_int x))"
  by (simp add: opt_nonneg_def split: option.split)

lemma episode_roundtrip:
  assumes "episode_wf e"
  shows "parseChallengeEpisode (episode_json e) = Some e"
proof -
  obtain r where r: "episode_json e = Obj r" by (simp add: episode_json_def)
  obtain so where so: "surface_json (ep_surface e) = Obj so" by (simp add: surface_json_def)
  note f = episode_json_fields [OF r]
  have sw: "surface_wf (ep_surface e)" using assms by (simp add: episode_wf_def)
  note sr = surface_roundtrip [OF sw so]
  have n: "case notice_id e of None \<Rightarrow> True | Some x \<Rightarrow> x \<noteq> []"
    using assms by (auto simp: episode_wf_def split: option.split)
  have "\<not> bad_episode r"
    using assms n unfolding bad_episode_def f so detector_json_fields named_name episode_wf_def
      origin_ok_def opt_nonneg_case
    by (simp add: sr list_all_iff is_arr_def detector_json_fields(1) opt_ok_Bool split: option.splits)
  moreover have "episode_of r = e"
    unfolding episode_of_def f so detector_json_fields named_name
    by (cases e) (simp add: sr comp_def)
  ultimately show ?thesis by (simp add: parseChallengeEpisode_def r)
qed

lemma sanitizeOrigin_str: "sanitizeOrigin v \<noteq> None \<Longrightarrow> v = Str (the_str v) \<and> origin_ok (the_str v)"
  by (cases v) (auto simp: sanitizeOrigin_def origin_ok_def)

lemma if_int_nonneg: "opt_ok nonNegativeInt v \<Longrightarrow> opt_nonneg (if_int v)"
  by (auto simp: opt_ok_def if_int_def opt_nonneg_def nonNegativeInt_def)

lemma surface_of_wf: "\<not> bad_surface ob \<Longrightarrow> surface_wf (surface_of ob)"
  using sanitizeOrigin_str [of "jget ob ''frame_origin''"]
  by (auto simp: bad_surface_def surface_wf_def surface_of_def if_str_def opt_ok_def)

lemma parse_episode_wf:
  assumes "parseChallengeEpisode v = Some e"
  shows "episode_wf e"
proof -
  from assms obtain r where r: "\<not> bad_episode r" "e = episode_of r"
    by (auto simp: parseChallengeEpisode_def split: js.splits if_splits)
  have "\<not> bad_surface (the_obj (jget r ''surface''))" using r(1) unfolding bad_episode_def by blast
  then have "surface_wf (ep_surface e)" by (simp add: r(2) episode_of_def surface_of_wf)
  moreover have "origin_ok (page_origin e)"
  proof -
    have "sanitizeOrigin (jget r ''page_origin'') \<noteq> None"
      using r(1) by (rule contrapos_nn) (simp only: bad_episode_def simp_thms)
    from sanitizeOrigin_str [OF this] show ?thesis by (simp add: r(2) episode_of_def)
  qed
  moreover have "opt_nonneg (wait_budget_ms e)" "opt_nonneg (retry_after_ms e)" "opt_nonneg (budget_ms e)"
    "opt_nonneg (document_status e)"
  proof -
    have "opt_ok nonNegativeInt (jget r ''wait_budget_ms'')" "opt_ok nonNegativeInt (jget r ''retry_after_ms'')"
      "opt_ok nonNegativeInt (jget r ''budget_ms'')" "opt_ok nonNegativeInt (jget r ''document_status'')"
      using r(1) unfolding bad_episode_def by blast+
    then show "opt_nonneg (wait_budget_ms e)" "opt_nonneg (retry_after_ms e)" "opt_nonneg (budget_ms e)"
      "opt_nonneg (document_status e)" by (simp_all add: r(2) episode_of_def if_int_nonneg)
  qed
  moreover have "notice_id e \<noteq> Some []"
  proof -
    have "opt_ok filled (jget r ''notice_id'')" using r(1) unfolding bad_episode_def by blast
    then show ?thesis by (auto simp: r(2) episode_of_def if_str_def opt_ok_def filled_def)
  qed
  moreover
  have c: "challenge_id_pattern (the_str (jget r ''challenge_id'')) \<and> filled (jget r ''signature_id'') \<and>
      \<not> 128 < length (the_str (jget r ''signature_id'')) \<and> filled (jget r ''task_id'') \<and>
      nonNegativeInt (jget r ''tab_id'') \<and> nonNegativeInt (jget r ''page_revision'') \<and>
      nonNegativeInt (jget r ''first_page_revision'') \<and> nonNegativeInt (jget r ''first_detected_at_ms'') \<and>
      nonNegativeInt (jget r ''detected_at_ms'') \<and> the_arr (jget r ''signals'') \<noteq> [] \<and>
      \<not> MAX_SIGNALS < length (the_arr (jget r ''signals''))"
    using r(1) unfolding bad_episode_def by blast
  have "challenge_id_pattern (challenge_id e)" "signature_id e \<noteq> []" "length (signature_id e) \<le> 128"
    "ep_task e \<noteq> []" "0 \<le> ep_tab e" "0 \<le> page_revision e" "0 \<le> first_page_revision e"
    "0 \<le> first_detected_at e" "0 \<le> detected_at e" "signals e \<noteq> []" "length (signals e) \<le> MAX_SIGNALS"
    using c by (simp_all add: r(2) episode_of_def nonNegativeInt_def filled_def)
  ultimately show ?thesis by (simp add: episode_wf_def)
qed

interpretation episode_codec: validated_codec episode_json parseChallengeEpisode episode_wf
  by unfold_locales (auto intro: parse_episode_wf episode_roundtrip)

section \<open>A scan writes only episodes the store accepts\<close>

definition ctx_wf :: "scan_ctx \<Rightarrow> bool" where
  "ctx_wf ctx \<longleftrightarrow> challenge_id_pattern (ctx_new_id ctx) \<and> ctx_task ctx \<noteq> [] \<and> 0 \<le> ctx_tab ctx \<and>
     0 \<le> ctx_revision ctx \<and> 0 \<le> ctx_now ctx \<and> origin_ok (ctx_origin ctx) \<and> opt_nonneg (ctx_status ctx)"

definition signature_wf :: "signature \<Rightarrow> bool" where
  "signature_wf sg \<longleftrightarrow> sig_id sg \<noteq> [] \<and> length (sig_id sg) \<le> 128 \<and> opt_nonneg (sig_wait_budget sg)"

definition detection_wf :: "detection \<Rightarrow> bool" where
  "detection_wf d \<longleftrightarrow> signature_wf (det_sig d) \<and> surface_wf (det_surface d) \<and> det_signals d \<noteq> []"

lemma sanitizeOrigin_same: "sanitizeOrigin (Str s) = Some x \<Longrightarrow> x = s"
  by (auto simp: sanitizeOrigin_def split: if_splits)

lemma plain_surface_wf [simp]: "surface_wf (plain_surface sc)"
  by (simp add: surface_wf_def plain_surface_def)

lemma one_frame_surface_wf: "surface_wf (one_frame_surface f)"
  by (auto simp: one_frame_surface_def Let_def surface_wf_def origin_ok_def
      dest: sanitizeOrigin_same split: option.split)

lemma frameSurface_wf: "frameSurface sg frames = Some s \<Longrightarrow> surface_wf s"
  by (auto simp: frameSurface_def one_frame_surface_wf)

lemma elementSurface_wf: "elementSurface sg els = Some s \<Longrightarrow> surface_wf s"
  by (auto simp: elementSurface_def split: if_splits)

lemma gate_wf: "gate m facts = Some s \<Longrightarrow> surface_wf s"
  by (auto simp: gate_def Let_def frameSurface_wf elementSurface_wf
      split: active_when.splits if_splits option.splits)

lemma detect_wf:
  assumes "detect cat facts = (Some d, ps)" and "\<forall>sg \<in> set (signatures cat). signature_wf sg"
  shows "detection_wf d"
proof -
  from detect_primary [OF assms(1)] obtain sg s where m: "matched cat facts sg"
    "gate (match_of facts sg) facts = Some s" "d = detection_of facts (match_of facts sg, s)" by blast
  with assms(2) have "signature_wf sg" by (simp add: matched_def)
  with m gate_wf [OF m(2)] detect_evidence(2) [OF assms(1)] show ?thesis by (simp add: detection_wf_def)
qed

lemma refreshNext_budget:
  "wait_budget_ms (refreshNext e now) = Some w \<Longrightarrow> ep_next (refreshNext e now) = Wait \<and> 1000 \<le> w \<and> w \<le> 120000"
  by (auto simp: refreshNext_def Let_def CHALLENGE_MIN_WAIT_MS_def split: if_splits)

lemma refreshNext_wf: "episode_wf e \<Longrightarrow> episode_wf (refreshNext e now)"
proof -
  assume e: "episode_wf e"
  have "opt_nonneg (wait_budget_ms (refreshNext e now))"
    using refreshNext_budget [of e now] by (cases "wait_budget_ms (refreshNext e now)") (auto simp: opt_nonneg_def)
  moreover have "retry_after_ms (refreshNext e now) = retry_after_ms e \<or> retry_after_ms (refreshNext e now) = None"
    by (simp add: refreshNext_def Let_def)
  then have "opt_nonneg (retry_after_ms (refreshNext e now))"
    using e by (auto simp: episode_wf_def opt_nonneg_def)
  moreover have "signature_id (refreshNext e now) = signature_id e" "page_revision (refreshNext e now) = page_revision e"
    "first_page_revision (refreshNext e now) = first_page_revision e"
    "first_detected_at (refreshNext e now) = first_detected_at e" "ep_surface (refreshNext e now) = ep_surface e"
    "signals (refreshNext e now) = signals e" "notice_id (refreshNext e now) = notice_id e"
    "budget_ms (refreshNext e now) = budget_ms e" "document_status (refreshNext e now) = document_status e"
    by (simp_all add: refreshNext_def Let_def)
  ultimately show ?thesis using e by (simp add: episode_wf_def)
qed

lemma clamp_retry_nonneg: "0 \<le> clamp_retry ms"
  by (simp add: clamp_retry_def CHALLENGE_MAX_RETRY_AFTER_MS_def)

lemma retryAfterMs_range:
  "retryAfterMs dp v now = Some ms \<Longrightarrow> 0 \<le> ms \<and> ms \<le> CHALLENGE_MAX_RETRY_AFTER_MS"
  by (auto simp: retryAfterMs_def Let_def clamp_retry_def CHALLENGE_MAX_RETRY_AFTER_MS_def
      split: option.splits if_splits)

definition identity_wf :: "episode \<Rightarrow> bool" where
  "identity_wf e \<longleftrightarrow> challenge_id_pattern (challenge_id e) \<and> ep_task e \<noteq> [] \<and> 0 \<le> ep_tab e \<and>
     0 \<le> first_page_revision e \<and> 0 \<le> first_detected_at e \<and> opt_nonneg (wait_budget_ms e) \<and> notice_id e \<noteq> Some []"

lemma applyDetection_wf:
  assumes "identity_wf e" "ctx_wf ctx" "detection_wf d"
  shows "episode_wf (applyDetection e d ctx)"
  unfolding applyDetection_def Let_def
proof (rule refreshNext_wf)
  have r: "opt_nonneg (if sig_kind (det_sig d) = RateLimit
      then retryAfterMs (ctx_date_parse ctx) (det_retry_header d) (ctx_now ctx) else None)"
    by (auto simp: opt_nonneg_def dest: retryAfterMs_range split: option.split if_splits)
  show "episode_wf (e\<lparr>page_revision := ctx_revision ctx, detected_at := ctx_now ctx,
        signature_id := sig_id (det_sig d), page_origin := ctx_origin ctx, vendor := sig_vendor (det_sig d),
        product := sig_product (det_sig d), ep_kind := sig_kind (det_sig d),
        ep_interaction := sig_interaction (det_sig d),
        ep_state := Active, ep_confidence := det_confidence d, ep_surface := det_surface d,
        signals := take MAX_SIGNALS (det_signals d), scope_class := scopeClassOf (sig_kind (det_sig d)),
        det_catalog_version := ctx_catalog ctx, det_probe := ctx_probe ctx,
        budget_ms := sig_wait_budget (det_sig d),
        token_present := (if sig_kind (det_sig d) = Widget then det_token d else None),
        retry_after_ms := (if sig_kind (det_sig d) = RateLimit
          then retryAfterMs (ctx_date_parse ctx) (det_retry_header d) (ctx_now ctx) else None),
        observable_by_scripting := det_observable d, document_status := ctx_status ctx\<rparr>)"
    using assms r
    by (simp add: episode_wf_def identity_wf_def ctx_wf_def detection_wf_def signature_wf_def MAX_SIGNALS_def)
qed

lemma episode_identity: "episode_wf e \<Longrightarrow> identity_wf e"
  by (simp add: episode_wf_def identity_wf_def)

lemma createEpisode_wf: "ctx_wf ctx \<Longrightarrow> detection_wf d \<Longrightarrow> episode_wf (createEpisode d ctx)"
  unfolding createEpisode_def
  by (rule applyDetection_wf) (simp_all add: identity_wf_def blank_episode_def ctx_wf_def opt_nonneg_def)

lemma settle_wf: "episode_wf e \<Longrightarrow> ctx_wf ctx \<Longrightarrow> episode_wf (settle new touch ctx e)"
  unfolding settle_def Let_def
  by (intro refreshNext_wf) (simp add: episode_wf_def ctx_wf_def surface_wf_def)

lemma mark_wf: "episode_wf e \<Longrightarrow> episode_wf (e\<lparr>terminal_reported := b\<rparr>)" "episode_wf e \<Longrightarrow> episode_wf (e\<lparr>token_present := t\<rparr>)"
  by (simp_all add: episode_wf_def)

lemma steps_wf:
  assumes "ctx_wf ctx" "episode_wf e"
  shows "episode_wf (silentlySupersede ctx e)" "episode_wf (expire ctx e)" "episode_wf (endAndQueue new ctx e)"
    "episode_wf (document_clean ctx e)" "episode_wf (embedded_clean ctx ps e)"
proof -
  show s: "episode_wf (silentlySupersede ctx e)"
    using assms by (simp add: silentlySupersede_def settle_wf mark_wf)
  show "episode_wf (expire ctx e)" using s assms by (simp add: expire_def)
  have q: "episode_wf (endAndQueue new' ctx e)" for new'
    using assms by (simp add: endAndQueue_def Let_def settle_wf mark_wf)
  then show "episode_wf (endAndQueue new ctx e)" .
  show "episode_wf (document_clean ctx e)" using q assms by (simp add: document_clean_def refreshNext_wf)
  show "episode_wf (embedded_clean ctx ps e)" using q by (simp add: embedded_clean_def)
qed

lemma continue_wf:
  "continue ctx d sc cur eps = (c, es) \<Longrightarrow> ctx_wf ctx \<Longrightarrow> detection_wf d \<Longrightarrow> list_all episode_wf eps \<Longrightarrow> list_all episode_wf es"
proof (induction ctx d sc cur eps arbitrary: c es rule: continue.induct)
  case (2 ctx d sc cur e rest)
  then show ?case
    by (auto simp: Let_def steps_wf applyDetection_wf episode_identity split: if_splits prod.splits)
qed simp

lemma on_active_wf: "(\<And>e. episode_wf e \<Longrightarrow> episode_wf (f e)) \<Longrightarrow> list_all episode_wf eps \<Longrightarrow> list_all episode_wf (on_active ctx sc f eps)"
  by (auto simp: on_active_def list_all_iff)

lemma advance_wf:
  assumes a: "advance eps (p, ps) ctx = (eps', ev)" and ctx: "ctx_wf ctx" and w: "list_all episode_wf eps"
    and d: "\<And>d. p = Some d \<Longrightarrow> detection_wf d"
  shows "list_all episode_wf eps'"
proof -
  from a obtain l1 q1 l2 q2 cur l3 where s: "document_phase ctx p (map (expire ctx) eps) = (l1, q1)"
    "embedded_phase ctx p ps l1 = (l2, q2)" "primary_phase ctx p l2 = (cur, l3)"
    "eps' = enforceCap l3 (ctx_task ctx)" by (rule advance_parts)
  have l0: "list_all episode_wf (map (expire ctx) eps)" using w steps_wf(2) [OF ctx] by (simp add: list_all_iff)
  have l1: "list_all episode_wf l1"
    using s(1) l0 on_active_wf steps_wf(4) [OF ctx] by (auto simp: document_phase_def split: if_splits)
  have l2: "list_all episode_wf l2"
    using s(2) l1 on_active_wf steps_wf(1,5) [OF ctx]
    by (auto simp: embedded_phase_def split: option.splits scope_class.splits)
  have "list_all episode_wf l3"
  proof (cases p)
    case None
    with s(3) l2 show ?thesis by (simp add: primary_phase_def)
  next
    case (Some dd)
    obtain c es where k: "continue ctx dd (scopeClassOf (sig_kind (det_sig dd))) None l2 = (c, es)"
      by (cases "continue ctx dd (scopeClassOf (sig_kind (det_sig dd))) None l2")
    from continue_wf [OF k ctx d [OF Some] l2] createEpisode_wf [OF ctx d [OF Some]] s(3) Some k
    show ?thesis by (auto simp: primary_phase_def Let_def split: option.splits)
  qed
  with s(4) enforceCap_subset [of l3 "ctx_task ctx"] show ?thesis by (auto simp: list_all_iff)
qed

section \<open>The store\<close>

definition table_wf :: "episode_table \<Rightarrow> bool" where
  "table_wf t \<longleftrightarrow> list_all (\<lambda>(task, eps). eps \<noteq> [] \<and> length eps \<le> CHALLENGE_MAX_EPISODES_PER_TASK \<and>
     list_all (\<lambda>e. episode_wf e \<and> ep_task e = task) eps) t"

lemma map_filter_parse:
  "list_all episode_wf eps \<Longrightarrow> List.map_filter parseChallengeEpisode (map episode_json eps) = eps"
  by (induction eps) (auto simp: List.map_filter_simps episode_codec.decode_encode)

lemma last_n_short: "length xs \<le> n \<Longrightarrow> last_n n xs = xs"
  by (simp add: last_n_def)

lemma length_last_n: "length (last_n n xs) \<le> n"
  by (simp add: last_n_def)

lemma set_last_n: "set (last_n n xs) \<subseteq> set xs"
  by (simp add: last_n_def set_drop_subset)

lemma table_roundtrip: "table_wf t \<Longrightarrow> parseTable (table_json t) = t"
proof -
  have "table_wf t \<Longrightarrow> parse_entries (map (\<lambda>(k, eps). (k, Arr (map episode_json eps))) t) = t"
  proof (induction t)
    case (Cons p t)
    obtain task eps where p: "p = (task, eps)" by (cases p)
    have w: "list_all episode_wf eps" "list_all (\<lambda>e. ep_task e = task) eps" "eps \<noteq> []"
      "length eps \<le> CHALLENGE_MAX_EPISODES_PER_TASK" and t: "table_wf t"
      using Cons.prems p by (auto simp: table_wf_def list_all_iff)
    have "task_episodes task (Arr (map episode_json eps)) = eps"
      using w(2) by (simp add: task_episodes_def map_filter_parse [OF w(1)] list_all_iff)
    then show ?case using p w Cons.IH [OF t] by (simp add: last_n_short)
  qed simp
  then show "table_wf t \<Longrightarrow> ?thesis" by (simp add: parseTable_def table_json_def)
qed

lemma task_episodes_wf: "e \<in> set (task_episodes task v) \<Longrightarrow> episode_wf e \<and> ep_task e = task"
  by (auto simp: task_episodes_def map_filter_iff dest: episode_codec.decode_good split: js.splits)

lemma parse_entries_wf: "table_wf (parse_entries ob)"
proof (induction ob rule: parse_entries.induct)
  case (2 task v rest)
  have "task_episodes task v \<noteq> [] \<Longrightarrow> last_n CHALLENGE_MAX_EPISODES_PER_TASK (task_episodes task v) \<noteq> []"
    by (cases "task_episodes task v") (simp_all add: last_n_def CHALLENGE_MAX_EPISODES_PER_TASK_def)
  moreover have "list_all (\<lambda>e. episode_wf e \<and> ep_task e = task)
      (last_n CHALLENGE_MAX_EPISODES_PER_TASK (task_episodes task v))"
    using task_episodes_wf set_last_n by (fastforce simp: list_all_iff)
  ultimately show ?case using 2 by (simp add: table_wf_def length_last_n)
qed (simp add: table_wf_def)

lemma parseTable_wf: "table_wf (parseTable v)"
  by (cases v) (auto simp: parseTable_def parse_entries_wf, auto simp: table_wf_def)

interpretation table_codec: validated_codec table_json "\<lambda>v. Some (parseTable v)" table_wf
  by unfold_locales (auto simp: parseTable_wf table_roundtrip)

lemma put_episodes_wf:
  assumes "table_wf t" and "list_all (\<lambda>e. episode_wf e \<and> ep_task e = task) eps"
    and "length eps \<le> CHALLENGE_MAX_EPISODES_PER_TASK"
  shows "table_wf (put_episodes task eps t)"
  using assms set_update_subset [of task eps t] set_delete [of task t]
  by (auto simp: put_episodes_def table_wf_def list_all_iff)

lemma episodes_of_wf: "table_wf t \<Longrightarrow> list_all (\<lambda>e. episode_wf e \<and> ep_task e = task) (episodes_of t task)"
  by (cases "map_of t task") (auto simp: episodes_of_def table_wf_def list_all_iff dest!: map_of_SomeD)

section \<open>The guard\<close>

lemma evaluate_frames_positive:
  "i \<in> set (ev_frames (evaluate facts c)) \<Longrightarrow>
     \<exists>leaf. Frame leaf \<in> set (positive_leaves c) \<and> frameMatches (facts_frames facts ! i) leaf"
proof (induction c)
  case (AllOf cs)
  then show ?case by (fastforce simp: Let_def split: if_splits)
next
  case (AnyOf cs)
  then show ?case by (fastforce simp: Let_def split: if_splits)
qed (auto simp: Let_def)

lemma surface_frames:
  assumes "i \<in> set (m_frames (match_of facts sg))"
  shows "list_ex (frameMatches (facts_frames facts ! i)) (sm_frames (surfaceMatchers (Some sg)))"
proof -
  from assms obtain r where r: "r \<in> set (sig_signals sg)" "i \<in> set (ev_frames (evaluate facts (rule_when r)))"
    by (auto simp: match_of_def Let_def held_rules_def)
  from evaluate_frames_positive [OF r(2)] obtain leaf where
    "Frame leaf \<in> set (positive_leaves (rule_when r))" "frameMatches (facts_frames facts ! i) leaf" by blast
  with r(1) show ?thesis
    unfolding surfaceMatchers_def Let_def by (force simp: list_ex_iff map_filter_iff)
qed

lemma containment_outside:
  "decideContainment parse m ancestry page = Outside \<longleftrightarrow>
     (\<exists>us p. ancestry = Some us \<and> page = Some p \<and> \<not> se_hit p \<and>
       (\<forall>src \<in> set (se_frames p). \<not> urlInSurface parse m src) \<and>
       (\<forall>u \<in> set us. \<exists>x. u = Some x \<and> x \<noteq> [] \<and> \<not> urlInSurface parse m x))"
  by (auto simp: decideContainment_def list_ex_iff split: option.splits)

end
