(* ===== verification/ChallengeProperties.thy ===== *)
theory ChallengeProperties
  imports ChallengeFacts
begin

text \<open>
  The properties of challenge detection, of the episodes and of their store, on a catalog of two
  signatures: a vendor's interstitial, recognised by status 403, and a widget in a frame.
\<close>

definition demo_gate :: signature where
  "demo_gate = \<lparr>sig_id = ''v.gate'', sig_enabled = True, sig_vendor = ''v'', sig_product = ''gate'', sig_kind = Interstitial,
     sig_interaction = Automatic, sig_active_when = ActiveDocument, sig_wait_budget = Some 30000, sig_token_field = None,
     sig_min_size = None, sig_max_width = None, sig_max_height = None,
     sig_signals = [\<lparr>rule_signal = ''status'', rule_confidence = High, rule_when = Status [403]\<rparr>]\<rparr>"

definition demo_catalog :: catalog where
  "demo_catalog = \<lparr>catalog_version = ''1'', signatures = [demo_gate]\<rparr>"

definition demo_facts :: probe_facts where
  "demo_facts = \<lparr>facts_probe = Debugger, facts_origin = ''https://a.b'', facts_status = Some 403, facts_headers = None,
     facts_document_status = None, facts_scripts = [], facts_frames = [], facts_elements = [], facts_tokens = []\<rparr>"

definition demo_ctx :: scan_ctx where
  "demo_ctx = \<lparr>ctx_task = ''t'', ctx_tab = 3, ctx_revision = 1, ctx_origin = ''https://a.b'', ctx_status = None, ctx_now = 5000,
     ctx_probe = Debugger, ctx_catalog = ''1'', ctx_new_id = ''chl_abcdefghijklmnopqrst'', ctx_date_parse = (\<lambda>s. None)\<rparr>"

definition demo_detection :: detection where
  "demo_detection = the (fst (detect demo_catalog demo_facts))"

lemma demo_detect: "detect demo_catalog demo_facts = (Some demo_detection, snd (detect demo_catalog demo_facts))"
proof -
  have "fst (detect demo_catalog demo_facts) \<noteq> None" by code_simp
  then show ?thesis by (cases "detect demo_catalog demo_facts") (auto simp: demo_detection_def)
qed

definition demo_episode :: episode where
  "demo_episode = createEpisode demo_detection demo_ctx"

section \<open>Detection\<close>

text \<open>C25: A reported challenge rests on evidence: its signature is enabled, in the catalog, and at least
one of its rules held; the reported signals are exactly those of the rules that held; a signature
marked \<open>never\<close> is not reported, nor an unsolved widget whose token is already there.\<close>

theorem detection_grounded:
  assumes "detect cat facts = (Some d, ps)"
  shows "matched cat facts (det_sig d) \<and> det_signals d \<noteq> [] \<and>
    set (det_signals d) = rule_signal ` set (held_rules facts (det_sig d)) \<and>
    sig_active_when (det_sig d) \<noteq> Never \<and>
    \<not> (sig_active_when (det_sig d) = WidgetUnsolved \<and> det_token d = Some True)"
  using detect_evidence [OF assms] by blast

theorem detection_grounded_witness:
  "set (det_signals demo_detection) = rule_signal ` set (held_rules demo_facts (det_sig demo_detection))"
  using detection_grounded [OF demo_detect] by blast

text \<open>The reported challenge is the gravest one: no other signature that matched and has a surface
has a kind of a higher rank, unless it is generic and a vendor's signature matched too.\<close>

lemma detection_gravest:
  assumes "detect cat facts = (Some d, ps)" and "matched cat facts sg"
    and "gate (match_of facts sg) facts \<noteq> None"
    and "isGeneric sg \<Longrightarrow> \<forall>sg'. matched cat facts sg' \<longrightarrow> isGeneric sg'"
  shows "KIND_RANK (sig_kind sg) \<le> KIND_RANK (sig_kind (det_sig d))"
  using assms by (rule detect_precedence)

section \<open>Episodes\<close>

text \<open>C26: A scan keeps at most one active episode per tab and scope, whatever it detected.\<close>

theorem scan_one_active:
  assumes "advance eps (p, ps) ctx = (eps', ev)"
    and "\<forall>tab sc. length (filter (active_at tab sc) eps) \<le> 1"
  shows "length (filter (active_at tab sc) eps') \<le> 1"
  using advance_one_active [OF assms(1)] assms(2) by (simp add: one_active_def count_active_def)

theorem scan_one_active_witness:
  "length (filter (active_at 3 DocumentScope) (fst (advance [demo_episode] (Some demo_detection, []) demo_ctx))) \<le> 1"
proof (rule scan_one_active [of _ _ _ _ _ "snd (advance [demo_episode] (Some demo_detection, []) demo_ctx)"])
  show "advance [demo_episode] (Some demo_detection, []) demo_ctx =
      (fst (advance [demo_episode] (Some demo_detection, []) demo_ctx),
       snd (advance [demo_episode] (Some demo_detection, []) demo_ctx))" by simp
qed simp

text \<open>The end of a challenge is reported at most once: an ended episode that a scan leaves behind
was already there before, or is marked as reported.\<close>

lemma scan_terminal_once:
  assumes "advance eps (p, ps) ctx = (eps', ev)" and "e \<in> set eps'" and "ep_state e \<noteq> Active"
  shows "e \<in> set eps \<or> terminal_reported e"
  using assms by (rule advance_reported_once)

text \<open>The cap is exact: it leaves a task as many episodes as it had, or 32 if it had more.\<close>

lemma cap_exact:
  "length (filter (\<lambda>e. ep_task e = task) (enforceCap eps task)) = min (length (filter (\<lambda>e. ep_task e = task) eps)) 32"
  using enforceCap_exact [of task eps] by (simp add: own_of_def CHALLENGE_MAX_EPISODES_PER_TASK_def)

text \<open>What a scan writes, the store reads back: with a sound catalog and a sound scan context, the
episodes after a scan are all accepted by the validation of stored episodes, unchanged.\<close>

lemma scan_survives_store:
  assumes "list_all signature_wf (signatures cat)" and "ctx_wf ctx" and "list_all episode_wf eps"
    and "advance eps (detect cat facts) ctx = (eps', ev)" and "e \<in> set eps'"
  shows "parseChallengeEpisode (episode_json e) = Some e"
proof -
  obtain p ps where d: "detect cat facts = (p, ps)" by (cases "detect cat facts")
  have dw: "\<And>d. p = Some d \<Longrightarrow> detection_wf d"
    using detect_wf [of cat facts _ ps] assms(1) d by (simp add: list_all_iff)
  from advance_wf [OF assms(4) [unfolded d] assms(2,3) dw] assms(5) have "episode_wf e" by (simp add: list_all_iff)
  then show ?thesis by (rule episode_roundtrip)
qed

section \<open>The store\<close>

text \<open>The stored table is stable: reading any stored value gives a table that is written and read
back unchanged, with at most 32 episodes for every task.\<close>

lemma stored_table_stable:
  "parseTable (table_json (parseTable v)) = parseTable v"
  by (rule table_roundtrip) (rule parseTable_wf)

end
