(* ===== verification/HandoffProperties.thy ===== *)
theory HandoffProperties
  imports Demo
begin

text \<open>
  The properties of handoff notices. The code around the controller (page listeners, the privacy
  scrubber, the challenge scanner) is a parameter; \<open>calm\<close> asks that it keeps what is claimed.
\<close>

lemma handoff_demo_state: "ext_ok demo_state"
  by (simp add: ext_ok_def state_wf_def keys_ok_def demo_state_def defaultState_def demo_task_def demo_revision_def
      tasks_wf_def task_wf_def all_tabs_def all_groups_def nonneg_def revision_wf_def no_cleanup_def cleanup_wf_def)

lemma handoff_ready: "ready (demo_sys demo_state)"
  by (simp add: ready_def demo_sys_def handoff_demo_state)

lemma demo_calm: "calm demo_env single {}"
  unfolding calm_def about_notices_def
  by (simp add: equiv_closed_single) (simp add: single_def demo_env_def)

definition demo_request :: "js obj" where
  "demo_request = [(''tab_id'', js_int 3), (''prompt'', Str ''p''), (''expected_page_revision'', js_int 1)]"

definition demo_notice :: "string \<Rightarrow> notice_status \<Rightarrow> int \<Rightarrow> handoff_notice" where
  "demo_notice k st time = \<lparr>noticeId = k, noticeTask = ''t'', noticeTab = 3, expectedRevision = 1, prompt = ''p'',
     completion = Undefined, status = st, startedAtMs = time, expiresAtMs = time + 1000\<rparr>"

lemma pair_eta: "fst p = r \<Longrightarrow> p = (r, snd p)"
  by (cases p) simp

section \<open>Notices of a tab\<close>

text \<open>C27: At most one open notice per task and tab: every operation of the controller keeps it, with any
storage, any browser and any outcome of the call.\<close>

theorem one_open_notice:
  assumes "calm env single {}" and "\<And>g. guard = Some g \<Longrightarrow> keeps (holds single {}) g"
  shows "keeps (holds single {}) (requestNow env t params guard) \<and> keeps (holds single {}) (resolveNow env t key) \<and>
    keeps (holds single {}) (dismissNow env owner_task key) \<and> keeps (holds single {}) (openNow env key) \<and>
    keeps (holds single {}) (expireNow env) \<and> keeps (holds single {}) (dismissMatchingNow env p) \<and>
    keeps (holds single {}) (clearForTask env t) \<and> keeps (holds single {}) (beginPause env) \<and>
    keeps (holds single {}) (resumeNow env)"
  using single_operations [OF assms(1)] assms(2) by blast

theorem one_open_notice_witness:
  "keeps (holds single {}) (requestNow (demo_env :: unit handoff_env) ''t'' demo_request None) \<and> keeps (holds single {}) (resumeNow (demo_env :: unit handoff_env))"
  using one_open_notice [where env = "demo_env :: unit handoff_env", OF demo_calm, of None "''t''" demo_request "[]" None "\<lambda>n. True"] by simp

text \<open>A request that is answered has recorded its notice: the answer shows an open notice of the
task and tab that was asked for, which expires after the requested time, and the persisted state has
this notice as the only open one of the tab, while AgentTab is not paused and the task owns the tab.\<close>

lemma request_recorded:
  assumes "ready s" and "record_notice env key params s = (Inr res, t)"
  shows "\<exists>n. res = noticeResult n \<and> status n = NOpen \<and> noticeTask n = key \<and>
    noticeTab n = the_int (jget params ''tab_id'') \<and>
    expiresAtMs n = startedAtMs n + the_int (request_timeout params) \<and> holds (recorded n) {} t"
  using assms by (rule record_notice_recorded)

section \<open>Life cycle of a notice\<close>

text \<open>A notice that ended stays ended: whatever happens to the notices, it keeps its status until it
is deleted.\<close>

lemma ended_notice_final:
  assumes "notices_ok ns" and "notice_step ns ns'" and "map_of ns k = Some n" and "status n \<noteq> NOpen"
  shows "map_of ns' k = None \<or> map_of ns' k = Some n"
  by (rule terminal_final [OF assms(1-3)]) (use assms(4) in \<open>simp add: terminal_def\<close>)

text \<open>Trimming bounds the notices by 100, or by the number of open ones, and deletes the oldest ended
ones: no open notice is deleted, and no deleted notice is younger than an ended one that stays.\<close>

lemma trim_keeps_newest:
  assumes "notices_ok ns"
  shows "length (trimNotices ns) \<le> max 100 (length (filter (\<lambda>n. status n = NOpen) (map snd ns))) \<and>
    (\<forall>k n. (k, n) \<in> set ns \<and> status n = NOpen \<longrightarrow> (k, n) \<in> set (trimNotices ns)) \<and>
    (\<forall>k n j m. (k, n) \<in> set ns - set (trimNotices ns) \<and> (j, m) \<in> set (trimNotices ns) \<and> status m \<noteq> NOpen \<longrightarrow>
       startedAtMs n \<le> startedAtMs m)"
proof (intro conjI allI impI)
  show "length (trimNotices ns) \<le> max 100 (length (filter (\<lambda>n. status n = NOpen) (map snd ns)))"
    using trim_bound [OF assms] by (simp add: MAX_NOTICES_def open_count_def)
  show "(k, n) \<in> set (trimNotices ns)" if "(k, n) \<in> set ns \<and> status n = NOpen" for k n
    using that trim_keeps_open [OF assms] trim_ok [OF assms] ok_lookup assms by blast
  show "startedAtMs n \<le> startedAtMs m"
    if "(k, n) \<in> set ns - set (trimNotices ns) \<and> (j, m) \<in> set (trimNotices ns) \<and> status m \<noteq> NOpen" for k n j m
    using trim_oldest [OF assms, of k n j m] that by (auto simp: terminal_def)
qed

section \<open>Resolution\<close>

text \<open>A notice about a challenge is resolved only when the challenge has ended: the episodes found by
the rescan, or stored, have the task's episode of that id on the notice's tab in an ended state, and
the answer carries its event.\<close>

lemma challenge_notice_resolved:
  assumes "\<not> terminal (status n)" and "resolveChallengeNow env n chl s = (Inr res, t)"
  shows "\<exists>s1 eps s2 e. scan_episodes env n s1 = (Inr eps, s2) \<and> e \<in> set eps \<and> ep_task e = noticeTask n \<and>
    challenge_id e = chl \<and> ep_tab e = noticeTab n \<and> ep_state e \<noteq> Active \<and> jget res ''challenge'' = bound_event e n"
  using assms by (rule resolveChallenge_ended)

definition ended_episode :: episode where
  "ended_episode = \<lparr>challenge_id = ''c'', ep_tab = 3, page_revision = 1, first_page_revision = 1, first_detected_at = 1,
     detected_at = 1, page_origin = [], vendor = [], product = [], ep_kind = Widget, ep_interaction = Human,
     ep_state = Cleared, ep_confidence = High, ep_surface = plain_surface ScopeDocument, token_present = None,
     signals = [], ep_next = NoNext, wait_budget_ms = None, retry_after_ms = None, notice_id = None,
     det_catalog_version = [], det_probe = Debugger, ep_task = ''t'', scope_class = EmbeddedScope, signature_id = [],
     budget_ms = None, observable_by_scripting = True, document_status = None, terminal_reported = True\<rparr>"

definition demo_scanned :: "unit handoff_env" where
  "demo_scanned = demo_env\<lparr>scanner := Some (\<lambda>k tab. ret (Some [ended_episode]))\<rparr>"

definition noticed_state :: ext_state where
  "noticed_state = demo_state\<lparr>notices := [(''a'', demo_notice ''a'' NOpen 1)]\<rparr>"

end
