(* ===== verification/Protocol.thy ===== *)
theory Protocol
  imports ChallengeEpisodes Ownership
begin

text \<open>
  \<open>packages/extension/src/protocol.ts\<close>: the messages between the native host and the extension.
  Everything the host sends is validated here (\<open>parseInboundNativeMessage\<close>) and everything the
  extension sends back is built here.

  An \<open>assert\<close> function that returns its argument is a check: it succeeds or fails with the error
  the code throws. Where a message quotes a field name or a number, the field name is kept and the
  number is not. \<open>new URL\<close> is a parameter.
\<close>

section \<open>Checks\<close>

type_synonym check = "js_error + unit"

definition commandError :: "string \<Rightarrow> js_error" where
  "commandError m = coded_error ''invalid_request'' m"

definition ensure :: "bool \<Rightarrow> string \<Rightarrow> check" where
  "ensure b m = (if b then Inr () else Inl (commandError m))"

text \<open>Checks in sequence; the first failure counts.\<close>

fun all_ok :: "check list \<Rightarrow> check" where
  "all_ok [] = Inr ()"
| "all_ok (c # cs) = (case c of Inl e \<Rightarrow> Inl e | Inr u \<Rightarrow> all_ok cs)"

definition given :: "js \<Rightarrow> check \<Rightarrow> check" where
  "given v c = (if v = Undefined then Inr () else c)"

definition thenCheck :: "js_error + 'a \<Rightarrow> ('a \<Rightarrow> js_error + 'b) \<Rightarrow> js_error + 'b" where
  "thenCheck c f = (case c of Inl e \<Rightarrow> Inl e | Inr x \<Rightarrow> f x)"

section \<open>Constants\<close>

definition NATIVE_PROTOCOL :: string where "NATIVE_PROTOCOL = ''agenttab.native''"
definition PROTOCOL_VERSION :: int where "PROTOCOL_VERSION = 1"
definition SNAPSHOT_TEXT_MAX_BYTES :: int where "SNAPSHOT_TEXT_MAX_BYTES = 1000000"
definition SCREENSHOT_MAX_BYTES :: int where "SCREENSHOT_MAX_BYTES = 750000"
definition SCREENSHOT_MAX_DIMENSION :: int where "SCREENSHOT_MAX_DIMENSION = 16384"
definition ACT_INTENT_MAX_CHARS :: int where "ACT_INTENT_MAX_CHARS = 120"
definition EMAIL_CODE_MAX_FIELDS :: nat where "EMAIL_CODE_MAX_FIELDS = 12"
definition PROFILE_STAGE_TAB_ID :: int where "PROFILE_STAGE_TAB_ID = 0"
definition PROFILE_BOOKMARK_REMOVE_EFFECT :: string where "PROFILE_BOOKMARK_REMOVE_EFFECT = ''Remove a bookmark''"

definition CORE_METHODS :: "string list" where
  "CORE_METHODS = [''browser_open'', ''browser_snapshot'', ''browser_act'', ''browser_wait'', ''browser_tabs'',
     ''browser_handoff'', ''browser_commit'', ''browser_profile'', ''browser_developer'', ''agenttab.close'',
     ''browser_credentials_fill'', ''browser_email_code_fill'', ''commit_review_bind'', ''commit_review_abandon'']"

definition NATIVE_EVENTS :: "string list" where
  "NATIVE_EVENTS = [''inventory'', ''ownership_revoked'', ''tab_removed'', ''group_membership_changed'',
     ''pause_changed'', ''commit_expired'', ''commit_abandoned'', ''popup_commit_approved'',
     ''popup_commit_abandoned'', ''extension_disconnected'']"

definition isProfileStage :: "staged_commit \<Rightarrow> bool" where
  "isProfileStage c \<longleftrightarrow> staged_tab c = PROFILE_STAGE_TAB_ID \<and> staged_revision c = 0 \<and>
     effect c = PROFILE_BOOKMARK_REMOVE_EFFECT"

section \<open>Patterns\<close>

definition hex :: "char \<Rightarrow> bool" where
  "hex c \<longleftrightarrow> digit c \<or> (97 \<le> (of_char (lower_char c) :: nat) \<and> (of_char (lower_char c) :: nat) \<le> 102)"

definition uuid_char :: "nat \<Rightarrow> char \<Rightarrow> bool" where
  "uuid_char i c = (if i \<in> {8, 13, 18, 23} then c = CHR ''-''
     else if i = 19 then c \<in> set ''89abAB'' else hex c)"

definition UUID_PATTERN :: "string \<Rightarrow> bool" where
  "UUID_PATTERN s \<longleftrightarrow> length s = 36 \<and> list_all (\<lambda>(i, c). uuid_char i c) (List.enumerate 0 s)"

text \<open>The text after one of the prefixes is not empty and has no white space.\<close>

definition solid_after :: "string list \<Rightarrow> string \<Rightarrow> string \<Rightarrow> bool" where
  "solid_after prefixes shape s \<longleftrightarrow> list_ex (\<lambda>p. starts_with shape p \<and> length p < length s \<and>
     list_all (\<lambda>c. \<not> white c) (drop (length p) s)) prefixes"

definition URL_PATTERN :: "string \<Rightarrow> bool" where
  "URL_PATTERN s \<longleftrightarrow> solid_after [''http://'', ''https://'', ''about:''] s s"

definition BOOKMARK_ID_PATTERN :: "string \<Rightarrow> bool" where
  "BOOKMARK_ID_PATTERN s \<longleftrightarrow> 1 \<le> length s \<and> length s \<le> 20 \<and> list_all digit s"

definition BOOKMARK_URL_PATTERN :: "string \<Rightarrow> bool" where
  "BOOKMARK_URL_PATTERN s \<longleftrightarrow> solid_after [''http://'', ''https://'', ''file://'', ''chrome://''] (lower s) s"

definition email_char :: "char \<Rightarrow> bool" where
  "email_char c = (let n = (of_char c :: nat) in
     (33 \<le> n \<and> n \<le> 43) \<or> (45 \<le> n \<and> n \<le> 58) \<or> n = 61 \<or> n = 63 \<or> (65 \<le> n \<and> n \<le> 126))"

text \<open>\<open>@\<close> is no \<open>email_char\<close>, so the local part is the longest run.\<close>

definition EMAIL_CODE_RECIPIENT_PATTERN :: "string \<Rightarrow> bool" where
  "EMAIL_CODE_RECIPIENT_PATTERN s =
     (let l = takeWhile email_char s; r = dropWhile email_char s
      in 1 \<le> length l \<and> length l \<le> 64 \<and> r \<noteq> [] \<and> hd r = CHR ''@'' \<and>
         list_all email_char (tl r) \<and> 1 \<le> length (tl r) \<and> length (tl r) \<le> 255)"

definition control_char :: "char \<Rightarrow> bool" where
  "control_char c = (let n = (of_char c :: nat) in n \<le> 31 \<or> (127 \<le> n \<and> n \<le> 159))"

definition EMAIL_CODE_PATH_PATTERN :: "string \<Rightarrow> bool" where
  "EMAIL_CODE_PATH_PATTERN s \<longleftrightarrow> (case s of [] \<Rightarrow> False | c # cs \<Rightarrow> c = CHR ''/'' \<and>
     list_all (\<lambda>d. \<not> white d \<and> d \<noteq> CHR ''?'' \<and> d \<noteq> CHR ''#'' \<and> 31 < (of_char d :: nat) \<and> (of_char d :: nat) \<noteq> 127) cs)"

definition alnum :: "char \<Rightarrow> bool" where
  "alnum c \<longleftrightarrow> digit c \<or> (let n = (of_char c :: nat) in (65 \<le> n \<and> n \<le> 90) \<or> (97 \<le> n \<and> n \<le> 122))"

section \<open>Elementary assertions\<close>

definition assertExactObject :: "js \<Rightarrow> string list \<Rightarrow> string list \<Rightarrow> string \<Rightarrow> check" where
  "assertExactObject v required opt message =
     ensure (isRecord v \<and> hasOnlyKeys (the_obj v) required opt) (message @ '' contain missing or unknown fields'')"

definition assertUuid :: "js \<Rightarrow> string \<Rightarrow> check" where
  "assertUuid v f = ensure (isBoundedString v 1 128 \<and> UUID_PATTERN (the_str v)) (f @ '' must be a UUID'')"

definition isIndex :: "js \<Rightarrow> bool" where
  "isIndex v \<longleftrightarrow> isIntegerInRange v 0 MAX_SAFE_INTEGER"

definition assertTabId :: "js \<Rightarrow> string \<Rightarrow> check" where
  "assertTabId v f = ensure (isIndex v) (f @ '' must be a non-negative integer'')"

definition assertRevision :: "js \<Rightarrow> check" where
  "assertRevision v = ensure (isIndex v) ''expected_page_revision must be a non-negative integer''"

definition assertOriginPatterns :: "js \<Rightarrow> string \<Rightarrow> check" where
  "assertOriginPatterns v f =
     ensure (is_arr v \<and> list_all (\<lambda>x. is_str x \<and> the_str x \<noteq> []) (the_arr v))
       (f @ '' must be an array of non-empty strings'')"

definition assertBoundedString :: "js \<Rightarrow> string \<Rightarrow> int \<Rightarrow> int \<Rightarrow> check" where
  "assertBoundedString v f minimum maximum =
     ensure (isBoundedString v minimum maximum) (f @ '' must be a string of bounded length'')"

definition assertActIntent :: "js \<Rightarrow> check" where
  "assertActIntent v = all_ok
     [ensure (is_str v) ''intent must be a string'',
      ensure (the_str v \<noteq> [] \<and> int (length (the_str v)) \<le> ACT_INTENT_MAX_CHARS)
        ''intent must be of bounded length'',
      ensure (list_all (\<lambda>c. \<not> control_char c) (the_str v))
        ''intent must be a single line without control characters'']"

definition assertUrl :: "js \<Rightarrow> string \<Rightarrow> check" where
  "assertUrl v f = all_ok [assertBoundedString v f 1 2048,
     ensure (URL_PATTERN (the_str v)) (f @ '' must be an http(s) or about URL without whitespace'')]"

definition assertFrameId :: "js \<Rightarrow> string \<Rightarrow> check" where
  "assertFrameId v f = given v (assertBoundedString v f 1 256)"

record origin_policy =
  policy_tab :: int
  allowed_origins :: "string list"
  denied_origins :: "string list"

definition assertOriginPolicy :: "js \<Rightarrow> js_error + origin_policy" where
  "assertOriginPolicy v =
     (let p = the_obj v in
      thenCheck (all_ok
        [assertExactObject v [''tab_id'', ''allowed_origins'', ''denied_origins''] [] ''origin_policy'',
         assertTabId (jget p ''tab_id'') ''origin_policy.tab_id'',
         assertOriginPatterns (jget p ''allowed_origins'') ''origin_policy.allowed_origins'',
         assertOriginPatterns (jget p ''denied_origins'') ''origin_policy.denied_origins''])
      (\<lambda>_. Inr \<lparr>policy_tab = the_int (jget p ''tab_id''),
        allowed_origins = map the_str (the_arr (jget p ''allowed_origins'')),
        denied_origins = map the_str (the_arr (jget p ''denied_origins''))\<rparr>))"

section \<open>Browser actions\<close>

definition assertTarget :: "js obj \<Rightarrow> string \<Rightarrow> check" where
  "assertTarget a k = all_ok
     [ensure ((jget a ''ref'' = Undefined) \<noteq> (jget a ''selector'' = Undefined))
        (k @ '' requires exactly one of ref or selector''),
      given (jget a ''ref'') (assertBoundedString (jget a ''ref'') (k @ ''.ref'') 1 256),
      given (jget a ''selector'') (assertBoundedString (jget a ''selector'') (k @ ''.selector'') 1 2048),
      assertFrameId (jget a ''frame_id'') (k @ ''.frame_id'')]"

definition assertExpectDownload :: "js obj \<Rightarrow> string \<Rightarrow> check" where
  "assertExpectDownload a k = given (jget a ''expect_download'')
     (ensure (is_bool (jget a ''expect_download'')) (k @ ''.expect_download must be a boolean''))"

definition PRESS_KEYS :: "string list" where
  "PRESS_KEYS = [''ArrowUp'', ''ArrowDown'', ''ArrowLeft'', ''ArrowRight'', ''Enter'', ''Escape'', ''Tab'', ''Home'',
     ''End'', ''Space'', ''Backspace'', ''Delete'', ''a'', ''z'', ''y'']"

definition chord_key :: "js \<Rightarrow> bool" where
  "chord_key v \<longleftrightarrow> v = Str ''a'' \<or> v = Str ''z'' \<or> v = Str ''y''"

definition is_modifier :: "js \<Rightarrow> bool" where
  "is_modifier v \<longleftrightarrow> v \<in> Str ` {''Alt'', ''Control'', ''Meta'', ''Shift''}"

definition assertPressChord :: "js obj \<Rightarrow> check" where
  "assertPressChord a =
     (let key = jget a ''key''; mods = jget a ''modifiers''; ms = the_arr mods;
          bad_chord = ''press '' @ the_str key @ '' requires exactly one of Control or Meta, with optional Shift''
      in all_ok [ensure (is_str key \<and> the_str key \<in> set PRESS_KEYS) ''press.key must be a supported standard key'',
        if mods = Undefined then ensure (\<not> chord_key key) bad_chord
        else all_ok
          [ensure (is_arr mods \<and> length ms \<le> 4 \<and> list_all is_modifier ms \<and> distinct ms)
             ''press.modifiers must be a unique subset of Alt, Control, Meta, Shift'',
           ensure (chord_key key \<longrightarrow>
               (Str ''Control'' \<in> set ms) \<noteq> (Str ''Meta'' \<in> set ms) \<and> Str ''Alt'' \<notin> set ms)
             bad_chord]])"

definition optional_bool :: "js \<Rightarrow> string \<Rightarrow> check" where
  "optional_bool v m = given v (ensure (is_bool v) m)"

definition action_label :: "string \<Rightarrow> string" where
  "action_label k = k @ '' action''"

text \<open>The cases of \<open>assertAction\<close> after the kind was found to be a string.\<close>

definition assertActionKind :: "js obj \<Rightarrow> string \<Rightarrow> check" where
  "assertActionKind a k =
     (let exact = (\<lambda>required opt. assertExactObject (Obj a) required opt (action_label k)) in
      if k \<in> {''click'', ''double_click'', ''context_click''}
      then all_ok [exact [''kind''] [''ref'', ''selector'', ''frame_id'', ''expect_download''],
        assertTarget a k, assertExpectDownload a k]
      else if k = ''hover''
      then all_ok [exact [''kind''] [''ref'', ''selector'', ''frame_id''], assertTarget a k]
      else if k = ''press''
      then all_ok [exact [''kind'', ''key''] [''ref'', ''selector'', ''frame_id'', ''expect_download'', ''modifiers''],
        assertTarget a k, assertExpectDownload a k, assertPressChord a]
      else if k = ''type'' \<or> k = ''fill''
      then all_ok [exact [''kind'', ''text''] [''ref'', ''selector'', ''frame_id''], assertTarget a k,
        assertBoundedString (jget a ''text'') (k @ ''.text'') 0 2048]
      else if k = ''select''
      then all_ok [exact [''kind'', ''ref'', ''value''] [''frame_id''],
        assertBoundedString (jget a ''ref'') ''select.ref'' 1 256,
        assertFrameId (jget a ''frame_id'') ''select.frame_id'',
        assertBoundedString (jget a ''value'') ''select.value'' 0 2048]
      else if k = ''scroll''
      then all_ok [exact [''kind'', ''delta_x'', ''delta_y''] [''ref'', ''frame_id''],
        given (jget a ''ref'') (assertBoundedString (jget a ''ref'') ''scroll.ref'' 1 256),
        assertFrameId (jget a ''frame_id'') ''scroll.frame_id'',
        ensure (isIntegerInRange (jget a ''delta_x'') (- 100000) 100000 \<and>
            isIntegerInRange (jget a ''delta_y'') (- 100000) 100000)
          ''scroll deltas must be integers between -100000 and 100000'']
      else if k = ''drag''
      then all_ok [exact [''kind'', ''ref'', ''target_ref''] [''frame_id''],
        assertBoundedString (jget a ''ref'') ''drag.ref'' 1 256,
        assertBoundedString (jget a ''target_ref'') ''drag.target_ref'' 1 256,
        assertFrameId (jget a ''frame_id'') ''drag.frame_id'']
      else if k = ''navigate''
      then all_ok [exact [''kind'', ''url''] [''expect_download''], assertUrl (jget a ''url'') ''url'',
        assertExpectDownload a k]
      else if k = ''go_back'' \<or> k = ''go_forward''
      then all_ok [exact [''kind''] [''expect_download''], assertExpectDownload a k]
      else if k = ''reload''
      then all_ok [exact [''kind''] [''bypass_cache'', ''expect_download''],
        optional_bool (jget a ''bypass_cache'') ''reload.bypass_cache must be a boolean'',
        assertExpectDownload a k]
      else if k = ''close'' then exact [''kind''] []
      else if k = ''dialog''
      then all_ok [exact [''kind'', ''decision''] [''prompt_text''],
        ensure (jget a ''decision'' = Str ''accept'' \<or> jget a ''decision'' = Str ''dismiss'')
          ''dialog.decision must be accept or dismiss'',
        given (jget a ''prompt_text'') (all_ok
          [ensure (jget a ''decision'' = Str ''accept'') ''dialog.prompt_text requires accept'',
           assertBoundedString (jget a ''prompt_text'') ''dialog.prompt_text'' 0 4096])]
      else if k = ''upload_file''
      then all_ok [exact [''kind'', ''files''] [''ref'', ''selector'', ''frame_id''], assertTarget a k,
        ensure (is_arr (jget a ''files'') \<and> the_arr (jget a ''files'') \<noteq> [] \<and>
            length (the_arr (jget a ''files'')) \<le> 4 \<and>
            list_all (\<lambda>f. isBoundedString f 1 512) (the_arr (jget a ''files'')))
          ''upload_file.files must contain between 1 and 4 file paths'']
      else Inl (commandError (''Unsupported standard action: '' @ k)))"

definition assertAction :: "js \<Rightarrow> check" where
  "assertAction v =
     (if \<not> isRecord v \<or> \<not> is_str (jget (the_obj v) ''kind'')
      then Inl (commandError ''Each browser action requires a kind'')
      else assertActionKind (the_obj v) (the_str (jget (the_obj v) ''kind'')))"

definition assertActParams :: "js \<Rightarrow> check" where
  "assertActParams v =
     (let p = the_obj v; as = jget p ''actions'' in
      all_ok ([assertExactObject v [''tab_id'', ''expected_page_revision'', ''actions''] [''intent'']
           ''browser_act parameters'',
         assertTabId (jget p ''tab_id'') ''tab_id'', assertRevision (jget p ''expected_page_revision''),
         ensure (is_arr as \<and> the_arr as \<noteq> [] \<and> length (the_arr as) \<le> 64)
           ''actions must contain between 1 and 64 operations''] @
        map assertAction (the_arr as) @
        [given (jget p ''intent'') (assertActIntent (jget p ''intent''))]))"

end
