(* ===== verification/ProtocolParams.thy ===== *)
theory ProtocolParams
  imports Protocol
begin

text \<open>
  \<open>protocol.ts\<close>: the parameters of every command (\<open>validateParams\<close>). \<open>String(x)\<close> of a one-element
  array is the string of its element, which the membership tests of the code accept.
\<close>

section \<open>Snapshots\<close>

definition in_range :: "js \<Rightarrow> int \<Rightarrow> int \<Rightarrow> string \<Rightarrow> check" where
  "in_range v lo hi f = given v (ensure (isIntegerInRange v lo hi) (f @ '' is out of range''))"

definition one_of :: "js \<Rightarrow> string list \<Rightarrow> string \<Rightarrow> check" where
  "one_of v names m = given v (ensure (v \<in> Str ` set names) m)"

definition opt_text :: "js \<Rightarrow> string \<Rightarrow> int \<Rightarrow> int \<Rightarrow> check" where
  "opt_text v f lo hi = given v (assertBoundedString v f lo hi)"

definition accessibility_params :: "js obj \<Rightarrow> check" where
  "accessibility_params p = all_ok
     [assertExactObject (Obj p) [''tab_id'', ''mode'']
        [''frame_id'', ''root_ref'', ''max_depth'', ''max_nodes'', ''query''] ''accessibility snapshot parameters'',
      assertFrameId (jget p ''frame_id'') ''frame_id'',
      opt_text (jget p ''root_ref'') ''root_ref'' 1 256,
      in_range (jget p ''max_depth'') 1 200 ''max_depth'',
      in_range (jget p ''max_nodes'') 1 5000 ''max_nodes'',
      given (jget p ''query'') (let q = the_obj (jget p ''query'') in all_ok
        [assertExactObject (jget p ''query'') [] [''role'', ''name''] ''accessibility query'',
         opt_text (jget q ''role'') ''query.role'' 1 256, opt_text (jget q ''name'') ''query.name'' 1 2048])]"

definition text_params :: "js obj \<Rightarrow> check" where
  "text_params p = all_ok
     [assertExactObject (Obj p) [''tab_id'', ''mode''] [''frame_id'', ''selector'', ''match'', ''max_bytes'']
        ''text or html snapshot parameters'',
      assertFrameId (jget p ''frame_id'') ''frame_id'', opt_text (jget p ''selector'') ''selector'' 1 2048,
      one_of (jget p ''match'') [''first'', ''last''] ''match must be first or last'',
      ensure (jget p ''match'' \<noteq> Undefined \<longrightarrow> jget p ''selector'' \<noteq> Undefined) ''match requires selector'',
      in_range (jget p ''max_bytes'') 1 SNAPSHOT_TEXT_MAX_BYTES ''max_bytes'']"

definition screenshot_params :: "js obj \<Rightarrow> check" where
  "screenshot_params p = all_ok
     [assertExactObject (Obj p) [''tab_id'', ''mode''] [''frame_id'', ''selector'', ''full_page'', ''format'',
        ''quality'', ''max_width'', ''max_height'', ''max_bytes''] ''screenshot parameters'',
      assertFrameId (jget p ''frame_id'') ''frame_id'', opt_text (jget p ''selector'') ''selector'' 1 2048,
      optional_bool (jget p ''full_page'') ''full_page must be a boolean'',
      ensure (\<not> (jget p ''selector'' \<noteq> Undefined \<and> jget p ''full_page'' = Bool True))
        ''screenshot cannot combine selector and full_page'',
      one_of (jget p ''format'') [''png'', ''jpeg'', ''webp''] ''format must be png, jpeg, or webp'',
      given (jget p ''quality'') (all_ok
        [ensure (isIntegerInRange (jget p ''quality'') 0 100) ''quality must be between 0 and 100'',
         ensure (jget p ''format'' = Str ''jpeg'' \<or> jget p ''format'' = Str ''webp'')
           ''quality requires format jpeg or webp'']),
      in_range (jget p ''max_width'') 1 SCREENSHOT_MAX_DIMENSION ''max_width'',
      in_range (jget p ''max_height'') 1 SCREENSHOT_MAX_DIMENSION ''max_height'',
      in_range (jget p ''max_bytes'') 1 SCREENSHOT_MAX_BYTES ''max_bytes'']"

definition assertSnapshotParams :: "js \<Rightarrow> check" where
  "assertSnapshotParams v =
     (let p = the_obj v in all_ok
       [assertExactObject v [''tab_id'', ''mode''] [''frame_id'', ''root_ref'', ''max_depth'', ''max_nodes'', ''query'',
          ''selector'', ''max_bytes'', ''match'', ''full_page'', ''format'', ''quality'', ''max_width'', ''max_height'']
          ''browser_snapshot parameters'',
        assertTabId (jget p ''tab_id'') ''tab_id'',
        if jget p ''mode'' = Str ''accessibility'' then accessibility_params p
        else if jget p ''mode'' = Str ''text'' \<or> jget p ''mode'' = Str ''html'' then text_params p
        else if jget p ''mode'' = Str ''screenshot'' then screenshot_params p
        else Inl (commandError ''Unsupported snapshot mode'')])"

section \<open>Waiting\<close>

fun named_by :: "string list \<Rightarrow> js \<Rightarrow> bool" where
  "named_by names (Str s) = (s \<in> set names)"
| "named_by names (Arr [v]) = named_by names v"
| "named_by names v = False"

definition assertCondition :: "js obj \<Rightarrow> check" where
  "assertCondition c =
     (let k = the_str (jget c ''kind'') in
      if k = ''load'' \<or> k = ''network_idle'' then assertExactObject (Obj c) [''kind''] [] ''wait condition''
      else if k = ''download''
      then all_ok [assertExactObject (Obj c) [''kind''] [''after''] ''download wait condition'',
        opt_text (jget c ''after'') ''condition.after'' 1 256]
      else if k = ''url'' \<or> k = ''text''
      then all_ok [assertExactObject (Obj c) [''kind'', ''value''] [] ''wait condition'',
        assertBoundedString (jget c ''value'') ''condition.value'' 1 2048]
      else if k = ''selector''
      then all_ok [assertExactObject (Obj c) [''kind'', ''value''] [''state'', ''frame_id''] ''selector wait condition'',
        assertBoundedString (jget c ''value'') ''condition.value'' 1 2048,
        given (jget c ''state'') (ensure
          (named_by [''attached'', ''detached'', ''visible'', ''hidden'', ''enabled''] (jget c ''state''))
          ''condition.state must be a supported selector state''),
        assertFrameId (jget c ''frame_id'') ''condition.frame_id'']
      else if k = ''value''
      then all_ok [assertExactObject (Obj c) [''kind'', ''selector'', ''value''] [''frame_id''] ''value wait condition'',
        assertBoundedString (jget c ''selector'') ''condition.selector'' 1 2048,
        assertBoundedString (jget c ''value'') ''condition.value'' 0 2048,
        assertFrameId (jget c ''frame_id'') ''condition.frame_id'']
      else if k = ''challenge_cleared''
      then all_ok [assertExactObject (Obj c) [''kind'', ''challenge_id''] [] ''challenge_cleared wait condition'',
        ensure (is_str (jget c ''challenge_id'') \<and> challenge_id_pattern (the_str (jget c ''challenge_id'')))
          ''condition.challenge_id must be a challenge id'']
      else Inl (commandError (''Unsupported wait condition: '' @ k)))"

definition assertWaitParams :: "js \<Rightarrow> check" where
  "assertWaitParams v =
     (let p = the_obj v; c = jget p ''condition'' in all_ok
       [assertExactObject v [''tab_id'', ''condition''] [''timeout_ms''] ''browser_wait parameters'',
        assertTabId (jget p ''tab_id'') ''tab_id'', in_range (jget p ''timeout_ms'') 1 120000 ''timeout_ms'',
        ensure (isRecord c \<and> is_str (jget (the_obj c) ''kind'')) ''browser_wait requires a condition'',
        assertCondition (the_obj c)])"

section \<open>Handoffs, developer commands, commit reviews\<close>

definition handoff_completion :: "js \<Rightarrow> check" where
  "handoff_completion v =
     (let c = the_obj v in all_ok
       [assertExactObject v [''kind'', ''value''] [] ''handoff completion'',
        ensure (jget c ''kind'' \<in> Str ` {''url'', ''selector'', ''challenge_cleared''}) ''Unsupported handoff completion'',
        assertBoundedString (jget c ''value'') ''completion.value'' 1 65536,
        ensure (jget c ''kind'' = Str ''challenge_cleared'' \<longrightarrow> challenge_id_pattern (the_str (jget c ''value'')))
          ''completion.value must be a challenge id''])"

definition assertHandoffParams :: "js \<Rightarrow> check" where
  "assertHandoffParams v =
     (let p = the_obj v; operation = the_str (jget p ''operation'') in
      if \<not> isRecord v \<or> \<not> is_str (jget p ''operation'')
      then Inl (commandError ''browser_handoff requires an operation'')
      else if operation = ''request''
      then all_ok
        [assertExactObject v [''operation'', ''tab_id'', ''expected_page_revision'', ''prompt'']
           [''completion'', ''timeout_ms''] ''browser_handoff request parameters'',
         assertTabId (jget p ''tab_id'') ''tab_id'', assertRevision (jget p ''expected_page_revision''),
         assertBoundedString (jget p ''prompt'') ''prompt'' 1 2000,
         in_range (jget p ''timeout_ms'') 1000 900000 ''timeout_ms'',
         given (jget p ''completion'') (handoff_completion (jget p ''completion''))]
      else if operation = ''status'' \<or> operation = ''resolve'' \<or> operation = ''dismiss''
      then all_ok [assertExactObject v [''operation'', ''notice_id''] [] ''browser_handoff parameters'',
        assertBoundedString (jget p ''notice_id'') ''notice_id'' 1 128]
      else Inl (commandError (''Unsupported browser_handoff operation: '' @ operation)))"

definition assertDeveloperParams :: "js \<Rightarrow> check" where
  "assertDeveloperParams v = all_ok
     [assertExactObject v [''action'', ''params''] [] ''browser_developer parameters'',
      assertBoundedString (jget (the_obj v) ''action'') ''action'' 3 128,
      ensure (isRecord (jget (the_obj v) ''params'')) ''browser_developer.params must be an object'']"

definition assertCommitReviewParams :: "js \<Rightarrow> bool \<Rightarrow> check" where
  "assertCommitReviewParams v binds =
     (let p = the_obj v in all_ok
       [assertExactObject v ([''native_token''] @ (if binds then [''review_handle''] else []) @ [''tab_id'']) []
          ((if binds then ''commit_review_bind'' else ''commit_review_abandon'') @ '' parameters''),
        assertBoundedString (jget p ''native_token'') ''native_token'' 16 256,
        assertTabId (jget p ''tab_id'') ''tab_id'',
        if binds then assertBoundedString (jget p ''review_handle'') ''review_handle'' 16 256 else Inr ()])"

section \<open>Credentials\<close>

text \<open>The loop over the fields, with the refs and kinds seen so far.\<close>

fun credential_fields :: "js list \<Rightarrow> js list \<Rightarrow> js list \<Rightarrow> check" where
  "credential_fields refs kinds [] = Inr ()"
| "credential_fields refs kinds (f # fs) =
     (let p = the_obj f; k = jget p ''kind''; r = jget p ''ref'' in all_ok
       [assertExactObject f [''kind'', ''ref'', ''value''] [] ''credential field'',
        assertBoundedString k ''credential field kind'' 1 8,
        ensure (k \<in> Str ` {''username'', ''password'', ''otp''})
          ''credential field kind must be username, password, or otp'',
        assertBoundedString r ''credential field ref'' 1 256,
        assertBoundedString (jget p ''value'') ''credential field value'' 0 65536,
        ensure (r \<notin> set refs \<and> k \<notin> set kinds) ''credential field refs and kinds must be unique'',
        credential_fields (r # refs) (k # kinds) fs])"

definition assertCredentialFillParams :: "js \<Rightarrow> check" where
  "assertCredentialFillParams v =
     (let p = the_obj v; fs = jget p ''fields'' in all_ok
       [assertExactObject v [''tab_id'', ''expected_page_revision'', ''fields''] [] ''browser_credentials_fill parameters'',
        assertTabId (jget p ''tab_id'') ''tab_id'', assertRevision (jget p ''expected_page_revision''),
        ensure (is_arr fs \<and> the_arr fs \<noteq> [] \<and> length (the_arr fs) \<le> 3)
          ''credential fields must contain between 1 and 3 entries'',
        credential_fields [] [] (the_arr fs)])"

section \<open>Email codes\<close>

record url_api =
  api_parse :: "string \<Rightarrow> url_parts option"
  api_pathname :: "string \<Rightarrow> string \<Rightarrow> string option"

record email_field =
  field_ref :: string
  field_value :: string

record email_fill =
  fill_tab :: int
  fill_revision :: int
  fill_origin :: string
  fill_path :: string
  fill_recipient :: string
  fill_purpose :: string
  fill_fields :: "email_field list"

definition EMAIL_CODE_LOOPBACK_HOSTS :: "string list" where
  "EMAIL_CODE_LOOPBACK_HOSTS = [''localhost'', ''127.0.0.1'', ''[::1]'']"

definition email_origin_ok :: "url_api \<Rightarrow> string \<Rightarrow> bool" where
  "email_origin_ok api origin = (case api_parse api origin of
      None \<Rightarrow> False
    | Some u \<Rightarrow> url_origin u = origin \<and> (url_protocol u = ''https:'' \<or>
        (url_protocol u = ''http:'' \<and> url_hostname u \<in> set EMAIL_CODE_LOOPBACK_HOSTS)))"

definition email_path :: "url_api \<Rightarrow> string \<Rightarrow> string \<Rightarrow> check" where
  "email_path api path origin =
     (let m = ''expected_path must be an exact URL pathname'' in
      if \<not> EMAIL_CODE_PATH_PATTERN path then Inl (commandError m)
      else case api_pathname api path origin of
          None \<Rightarrow> Inl (new_error ''Invalid URL'')
        | Some p \<Rightarrow> ensure (p = path) m)"

fun email_fields :: "string list \<Rightarrow> js list \<Rightarrow> js_error + email_field list" where
  "email_fields refs [] = Inr []"
| "email_fields refs (f # fs) =
     (let p = the_obj f; r = jget p ''ref'' in
      thenCheck (all_ok
        [assertExactObject f [''kind'', ''ref'', ''value''] [] ''email code field'',
         ensure (jget p ''kind'' = Str ''otp'') ''email code field kind must be otp'',
         assertBoundedString r ''email code field ref'' 1 256,
         ensure (the_str r \<notin> set refs) ''email code field refs must be unique'',
         ensure (is_str (jget p ''value'')) ''email code field value must be a string''])
      (\<lambda>_. thenCheck (email_fields (the_str r # refs) fs) (\<lambda>rest.
        Inr (\<lparr>field_ref = the_str r, field_value = the_str (jget p ''value'')\<rparr> # rest))))"

definition email_values_ok :: "string list \<Rightarrow> bool" where
  "email_values_ok vs = (case vs of
      [v] \<Rightarrow> 4 \<le> length v \<and> length v \<le> 12 \<and> list_all alnum v
    | _ \<Rightarrow> 4 \<le> length vs \<and> list_all (\<lambda>v. length v = 1 \<and> list_all alnum v) vs)"

definition parseEmailCodeFillParams :: "url_api \<Rightarrow> js \<Rightarrow> js_error + email_fill" where
  "parseEmailCodeFillParams api v =
     (let p = the_obj v; origin = jget p ''expected_origin''; path = jget p ''expected_path'';
          recipient = jget p ''recipient''; purpose = jget p ''purpose''; fs = jget p ''fields'' in
      thenCheck (all_ok
        [assertExactObject v [''tab_id'', ''expected_page_revision'', ''expected_origin'', ''expected_path'',
           ''recipient'', ''purpose'', ''fields''] [] ''browser_email_code_fill parameters'',
         assertTabId (jget p ''tab_id'') ''tab_id'', assertRevision (jget p ''expected_page_revision''),
         assertBoundedString origin ''expected_origin'' 8 2048,
         ensure (email_origin_ok api (the_str origin)) ''expected_origin must be an HTTPS or loopback HTTP origin'',
         assertBoundedString path ''expected_path'' 1 2048, email_path api (the_str path) (the_str origin),
         assertBoundedString recipient ''recipient'' 3 320,
         ensure (EMAIL_CODE_RECIPIENT_PATTERN (the_str recipient)) ''recipient must be one bounded email address'',
         ensure (purpose = Str ''signup'' \<or> purpose = Str ''email_sign_in'')
           ''purpose must be signup or email_sign_in'',
         ensure (is_arr fs \<and> the_arr fs \<noteq> [] \<and> length (the_arr fs) \<le> EMAIL_CODE_MAX_FIELDS)
           ''email code fields must contain a bounded number of entries''])
      (\<lambda>_. thenCheck (email_fields [] (the_arr fs)) (\<lambda>fields.
        thenCheck (ensure (email_values_ok (map field_value fields))
          ''email code fields must be one field with a 4 to 12 character alphanumeric code, or 4 to 12 fields with one alphanumeric character each'')
        (\<lambda>_. Inr \<lparr>fill_tab = the_int (jget p ''tab_id''),
          fill_revision = the_int (jget p ''expected_page_revision''), fill_origin = the_str origin,
          fill_path = the_str path, fill_recipient = the_str recipient, fill_purpose = the_str purpose,
          fill_fields = fields\<rparr>))))"

definition email_json :: "email_fill \<Rightarrow> js obj" where
  "email_json e = [(''tab_id'', js_int (fill_tab e)), (''expected_page_revision'', js_int (fill_revision e)),
     (''expected_origin'', Str (fill_origin e)), (''expected_path'', Str (fill_path e)),
     (''recipient'', Str (fill_recipient e)), (''purpose'', Str (fill_purpose e)),
     (''fields'', Arr (map (\<lambda>f. Obj [(''kind'', Str ''otp''), (''ref'', Str (field_ref f)),
        (''value'', Str (field_value f))]) (fill_fields e)))]"

section \<open>The browser profile\<close>

definition assertBookmarkId :: "js \<Rightarrow> string \<Rightarrow> check" where
  "assertBookmarkId v f = ensure (is_str v \<and> BOOKMARK_ID_PATTERN (the_str v)) (f @ '' must be a numeric bookmark id'')"

definition assertBookmarkUrl :: "js \<Rightarrow> check" where
  "assertBookmarkUrl v = all_ok [assertBoundedString v ''url'' 1 2048,
     ensure (BOOKMARK_URL_PATTERN (the_str v)) ''url must be an http, https, file, or chrome URL'']"

definition assertOptionalLimit :: "js \<Rightarrow> int \<Rightarrow> string \<Rightarrow> check" where
  "assertOptionalLimit v maximum f = in_range v 1 maximum f"

text \<open>A finite number, as a fraction.\<close>

definition finite_number :: "js \<Rightarrow> rat option" where
  "finite_number v = (case v of
      Num (JInt i) \<Rightarrow> Some (of_int i) | Num (JFrac q) \<Rightarrow> Some q | _ \<Rightarrow> None)"

definition assertTimeMs :: "js \<Rightarrow> string \<Rightarrow> check" where
  "assertTimeMs v f = given v (ensure (case finite_number v of None \<Rightarrow> False | Some q \<Rightarrow> 0 \<le> q)
     (f @ '' must be a non-negative epoch millisecond value''))"

definition times_in_order :: "js \<Rightarrow> js \<Rightarrow> bool" where
  "times_in_order a b = (case (finite_number a, finite_number b) of
      (Some x, Some y) \<Rightarrow> x \<le> y | _ \<Rightarrow> True)"

definition assertProfileOperation :: "js obj \<Rightarrow> string \<Rightarrow> check" where
  "assertProfileOperation p operation =
     (let exact = (\<lambda>required opt. assertExactObject (Obj p) (''operation'' # required) opt
            (''browser_profile '' @ operation @ '' parameters''));
          index_ok = in_range (jget p ''index'') 0 100000 ''index''
      in
      if operation = ''bookmarks_search''
      then all_ok [exact [''query''] [''limit''], assertBoundedString (jget p ''query'') ''query'' 1 256,
        assertOptionalLimit (jget p ''limit'') 100 ''limit'']
      else if operation = ''bookmarks_tree''
      then all_ok [exact [] [''folder_id'', ''depth''],
        given (jget p ''folder_id'') (assertBookmarkId (jget p ''folder_id'') ''folder_id''),
        assertOptionalLimit (jget p ''depth'') 5 ''depth'']
      else if operation = ''bookmarks_update''
      then all_ok [exact [''id''] [''title'', ''url''], assertBookmarkId (jget p ''id'') ''id'',
        ensure (jget p ''title'' \<noteq> Undefined \<or> jget p ''url'' \<noteq> Undefined) ''bookmarks_update requires title or url'',
        opt_text (jget p ''title'') ''title'' 0 1024, given (jget p ''url'') (assertBookmarkUrl (jget p ''url''))]
      else if operation = ''bookmarks_create''
      then all_ok [exact [''parent_id'', ''title''] [''url'', ''index''],
        assertBookmarkId (jget p ''parent_id'') ''parent_id'', assertBoundedString (jget p ''title'') ''title'' 0 1024,
        given (jget p ''url'') (assertBookmarkUrl (jget p ''url'')), index_ok]
      else if operation = ''bookmarks_move''
      then all_ok [exact [''id'', ''parent_id''] [''index''], assertBookmarkId (jget p ''id'') ''id'',
        assertBookmarkId (jget p ''parent_id'') ''parent_id'', index_ok]
      else if operation = ''bookmarks_remove''
      then all_ok [exact [''id''] [], assertBookmarkId (jget p ''id'') ''id'']
      else if operation = ''history_search''
      then all_ok [exact [''text'', ''limit''] [''start_time'', ''end_time''],
        assertBoundedString (jget p ''text'') ''text'' 0 256, assertOptionalLimit (jget p ''limit'') 100 ''limit'',
        assertTimeMs (jget p ''start_time'') ''start_time'', assertTimeMs (jget p ''end_time'') ''end_time'',
        ensure (times_in_order (jget p ''start_time'') (jget p ''end_time''))
          ''start_time must not be after end_time'']
      else if operation = ''sessions_recent'' \<or> operation = ''sessions_devices''
      then all_ok [exact [] [''limit''], assertOptionalLimit (jget p ''limit'') 25 ''limit'']
      else if operation = ''sessions_restore''
      then all_ok [exact [''session_id''] [], assertBoundedString (jget p ''session_id'') ''session_id'' 1 256,
        ensure (list_all (\<lambda>c. \<not> white c) (the_str (jget p ''session_id'')))
          ''session_id must not contain whitespace'']
      else if operation = ''downloads_search''
      then all_ok [exact [] [''query'', ''state'', ''limit''], opt_text (jget p ''query'') ''query'' 1 256,
        given (jget p ''state'') (ensure (named_by [''in_progress'', ''interrupted'', ''complete''] (jget p ''state''))
          ''state must be in_progress, interrupted, or complete''),
        assertOptionalLimit (jget p ''limit'') 100 ''limit'']
      else if operation \<in> {''downloads_cancel'', ''downloads_pause'', ''downloads_resume''}
      then all_ok [exact [''id''] [], ensure (isIndex (jget p ''id'')) ''id must be a non-negative integer'']
      else Inl (commandError (''Unsupported browser_profile operation: '' @ operation)))"

definition assertProfileParams :: "js \<Rightarrow> check" where
  "assertProfileParams v =
     (if \<not> isRecord v \<or> \<not> is_str (jget (the_obj v) ''operation'')
      then Inl (commandError ''browser_profile requires an operation'')
      else assertProfileOperation (the_obj v) (the_str (jget (the_obj v) ''operation'')))"

section \<open>All commands\<close>

definition assertOpenParams :: "js \<Rightarrow> check" where
  "assertOpenParams v =
     (let p = the_obj v; keys = [''url'', ''background'', ''placement''] in all_ok
       [assertExactObject v [''mode''] keys ''browser_open parameters'',
        if jget p ''mode'' = Str ''create''
        then all_ok
          [assertExactObject v [''mode''] keys ''browser_open create parameters'',
           given (jget p ''url'') (assertUrl (jget p ''url'') ''url''),
           optional_bool (jget p ''background'') ''background must be a boolean'',
           one_of (jget p ''placement'') [''task'', ''new_window''] ''placement must be task or new_window'',
           ensure (\<not> (jget p ''placement'' = Str ''new_window'' \<and> jget p ''background'' = Bool False))
             ''background must be true when placement is new_window'']
        else if jget p ''mode'' = Str ''adopt_active''
        then assertExactObject v [''mode''] [] ''browser_open adopt_active parameters''
        else Inl (commandError ''browser_open.mode must be create or adopt_active'')])"

definition commit_params :: "js \<Rightarrow> check" where
  "commit_params v = all_ok
     [assertExactObject v [''native_token''] [] ''browser_commit parameters'',
      assertBoundedString (jget (the_obj v) ''native_token'') ''native_token'' 16 256]"

definition params_check :: "string \<Rightarrow> js \<Rightarrow> check" where
  "params_check method v =
     (if method = ''browser_open'' then assertOpenParams v
      else if method = ''browser_snapshot'' then assertSnapshotParams v
      else if method = ''browser_act'' then assertActParams v
      else if method = ''browser_wait'' then assertWaitParams v
      else if method = ''browser_tabs'' then assertExactObject v [] [] ''browser_tabs parameters''
      else if method = ''browser_handoff'' then assertHandoffParams v
      else if method = ''browser_commit'' then commit_params v
      else if method = ''browser_profile'' then assertProfileParams v
      else if method = ''agenttab.close'' then assertExactObject v [] [] ''agenttab.close parameters''
      else if method = ''browser_developer'' then assertDeveloperParams v
      else if method = ''browser_credentials_fill'' then assertCredentialFillParams v
      else assertCommitReviewParams v (method = ''commit_review_bind''))"

definition validateParams :: "url_api \<Rightarrow> string \<Rightarrow> js \<Rightarrow> js_error + js obj" where
  "validateParams api method v =
     (if method = ''browser_email_code_fill''
      then thenCheck (parseEmailCodeFillParams api v) (\<lambda>e. Inr (email_json e))
      else thenCheck (params_check method v) (\<lambda>_. Inr (the_obj v)))"

end
