(* ===== verification/Messages.thy ===== *)
theory Messages
  imports ProtocolParams
begin

text \<open>
  \<open>protocol.ts\<close>: whole messages. \<open>parseInboundNativeMessage\<close> turns what the host sends into a
  typed message; the responses, the hello and the events are what the extension sends. Also the
  random ids (\<open>randomToken\<close>, \<open>randomUuidV7\<close>) on bytes kept at their width.
\<close>

section \<open>Messages from the host\<close>

record native_command =
  cmd_request :: string
  cmd_connection :: string
  cmd_task :: string
  cmd_method :: string
  cmd_params :: "js obj"
  cmd_policy :: "origin_policy option"

record finish_task =
  fin_request :: string
  fin_task :: string
  fin_disposition :: string
  keep_tab_ids :: "int list"

record rpc_error =
  rpc_code :: string
  rpc_message :: string
  rpc_recovery :: "string option"
  rpc_details :: "js obj option"

record event_ack =
  ack_event :: string
  ack_event_id :: string
  ack_outcome :: string
  ack_result :: "js obj option"
  ack_error :: "rpc_error option"

record ready_message =
  host_version :: string
  host_state :: string
  discard_staged_tokens :: "string list option"

datatype inbound =
    Command native_command
  | CloseTask string string
  | FinishTask finish_task
  | EventAck event_ack
  | Ready ready_message

text \<open>The three fields every message starts with.\<close>

definition is_native :: "js obj \<Rightarrow> bool" where
  "is_native m \<longleftrightarrow> jget m ''protocol'' = Str NATIVE_PROTOCOL \<and> jget m ''version'' = js_int PROTOCOL_VERSION"

definition is_uuid :: "js \<Rightarrow> bool" where
  "is_uuid v \<longleftrightarrow> isBoundedString v 1 128 \<and> UUID_PATTERN (the_str v)"

definition optional_policy :: "js \<Rightarrow> js_error + origin_policy option" where
  "optional_policy v = (if v = Undefined then Inr None
     else thenCheck (assertOriginPolicy v) (\<lambda>p. Inr (Some p)))"

definition parseCommand :: "url_api \<Rightarrow> js \<Rightarrow> js_error + native_command" where
  "parseCommand api v =
     (let m = the_obj v in
      if \<not> isRecord v then Inl (new_error ''native command must be an object'')
      else if \<not> hasOnlyKeys m [''protocol'', ''version'', ''kind'', ''request_id'', ''connection_id'', ''task_id'',
          ''method'', ''params''] [''origin_policy'']
      then Inl (new_error ''native command contains unknown fields'')
      else if \<not> is_native m \<or> jget m ''kind'' \<noteq> Str ''command''
      then Inl (new_error ''native command protocol or version mismatch'')
      else if \<not> is_uuid (jget m ''request_id'') \<or> \<not> is_uuid (jget m ''connection_id'') \<or> \<not> is_uuid (jget m ''task_id'')
      then Inl (new_error ''native command IDs must be UUIDs'')
      else if \<not> is_str (jget m ''method'') \<or> the_str (jget m ''method'') \<notin> set CORE_METHODS
      then Inl (new_error ''native command method is unsupported'')
      else thenCheck (optional_policy (jget m ''origin_policy'')) (\<lambda>policy.
        thenCheck (validateParams api (the_str (jget m ''method'')) (jget m ''params'')) (\<lambda>params.
          Inr \<lparr>cmd_request = the_str (jget m ''request_id''), cmd_connection = the_str (jget m ''connection_id''),
            cmd_task = the_str (jget m ''task_id''), cmd_method = the_str (jget m ''method''),
            cmd_params = params, cmd_policy = policy\<rparr>)))"

definition parseCloseTask :: "js \<Rightarrow> js_error + (string \<times> string)" where
  "parseCloseTask v =
     (let m = the_obj v in thenCheck (all_ok
       [ensure (isRecord v \<and> hasOnlyKeys m [''protocol'', ''version'', ''kind'', ''request_id'', ''task_id''] [])
          ''native close_task contains missing or unknown fields'',
        ensure (is_native m \<and> jget m ''kind'' = Str ''close_task'') ''native close_task protocol or version mismatch'',
        assertUuid (jget m ''request_id'') ''request_id'', assertUuid (jget m ''task_id'') ''task_id''])
       (\<lambda>_. Inr (the_str (jget m ''request_id''), the_str (jget m ''task_id''))))"

definition positive_int :: "js \<Rightarrow> bool" where
  "positive_int v \<longleftrightarrow> is_integer v \<and> 0 < the_int v"

definition parseFinishTask :: "js \<Rightarrow> js_error + finish_task" where
  "parseFinishTask v =
     (let m = the_obj v; d = jget m ''disposition''; ks = jget m ''keep_tab_ids'' in thenCheck (all_ok
       [ensure (isRecord v \<and> hasOnlyKeys m [''protocol'', ''version'', ''kind'', ''request_id'', ''task_id'',
            ''disposition'', ''keep_tab_ids''] [])
          ''native finish_task contains missing or unknown fields'',
        ensure (is_native m \<and> jget m ''kind'' = Str ''finish_task'' \<and>
            (d = Str ''auto'' \<or> d = Str ''close'' \<or> d = Str ''keep'') \<and>
            is_arr ks \<and> list_all positive_int (the_arr ks) \<and> distinct (the_arr ks))
          ''native finish_task protocol or parameters are invalid'',
        assertUuid (jget m ''request_id'') ''request_id'', assertUuid (jget m ''task_id'') ''task_id''])
       (\<lambda>_. Inr \<lparr>fin_request = the_str (jget m ''request_id''), fin_task = the_str (jget m ''task_id''),
         fin_disposition = the_str d, keep_tab_ids = map the_int (the_arr ks)\<rparr>))"

definition ack_invalid :: "js obj \<Rightarrow> bool" where
  "ack_invalid m \<longleftrightarrow>
     \<not> hasOnlyKeys m [''protocol'', ''version'', ''kind'', ''event'', ''event_id''] [''outcome'', ''result'', ''error''] \<or>
     (jget m ''event'' \<noteq> Str ''popup_commit_approved'' \<and> jget m ''event'' \<noteq> Str ''popup_commit_abandoned'') \<or>
     \<not> isBoundedString (jget m ''event_id'') 16 256"

definition ack_outcome_invalid :: "js obj \<Rightarrow> bool" where
  "ack_outcome_invalid m \<longleftrightarrow>
     (let oc = jget m ''outcome''; r = jget m ''result''; e = jget m ''error'' in
      (oc \<noteq> Str ''completed'' \<and> oc \<noteq> Str ''not_started'' \<and> oc \<noteq> Str ''unknown'') \<or>
      (if oc = Str ''completed'' then \<not> isRecord r \<or> e \<noteq> Undefined else \<not> isRecord e \<or> r \<noteq> Undefined) \<or>
      (isRecord e \<and> (\<not> isBoundedString (jget (the_obj e) ''code'') 1 128 \<or>
        \<not> isBoundedString (jget (the_obj e) ''message'') 1 2000)))"

definition rpc_error_of :: "js obj \<Rightarrow> rpc_error" where
  "rpc_error_of e = \<lparr>rpc_code = the_str (jget e ''code''), rpc_message = the_str (jget e ''message''),
     rpc_recovery = (if is_str (jget e ''recovery'') then Some (the_str (jget e ''recovery'')) else None),
     rpc_details = (if isRecord (jget e ''details'') then Some (the_obj (jget e ''details'')) else None)\<rparr>"

definition parseEventAck :: "js obj \<Rightarrow> js_error + event_ack" where
  "parseEventAck m =
     (if ack_invalid m then Inl (new_error ''native event acknowledgement is invalid'')
      else if ack_outcome_invalid m then Inl (new_error ''popup commit acknowledgement is invalid'')
      else Inr \<lparr>ack_event = the_str (jget m ''event''), ack_event_id = the_str (jget m ''event_id''),
        ack_outcome = the_str (jget m ''outcome''),
        ack_result = (if isRecord (jget m ''result'') then Some (the_obj (jget m ''result'')) else None),
        ack_error = (if isRecord (jget m ''error'') then Some (rpc_error_of (the_obj (jget m ''error''))) else None)\<rparr>)"

definition ready_invalid :: "js obj \<Rightarrow> bool" where
  "ready_invalid m \<longleftrightarrow>
     (let tokens = jget m ''discard_staged_tokens'' in
      jget m ''kind'' \<noteq> Str ''ready'' \<or>
      \<not> hasOnlyKeys m [''protocol'', ''version'', ''kind'', ''host_version'', ''state''] [''discard_staged_tokens''] \<or>
      \<not> isBoundedString (jget m ''host_version'') 1 128 \<or>
      (jget m ''state'' \<noteq> Str ''ready'' \<and> jget m ''state'' \<noteq> Str ''paused'') \<or>
      (tokens \<noteq> Undefined \<and>
        (\<not> is_arr tokens \<or> \<not> list_all (\<lambda>t. isBoundedString t 16 256) (the_arr tokens))))"

definition ready_of :: "js obj \<Rightarrow> ready_message" where
  "ready_of m = \<lparr>host_version = the_str (jget m ''host_version''), host_state = the_str (jget m ''state''),
     discard_staged_tokens = (if jget m ''discard_staged_tokens'' = Undefined then None
       else Some (map the_str (the_arr (jget m ''discard_staged_tokens''))))\<rparr>"

definition parseInboundNativeMessage :: "url_api \<Rightarrow> js \<Rightarrow> js_error + inbound" where
  "parseInboundNativeMessage api v =
     (let m = the_obj v; k = jget m ''kind'' in
      if \<not> isRecord v \<or> \<not> is_native m \<or> \<not> is_str k
      then Inl (new_error ''native message protocol or version mismatch'')
      else if k = Str ''command'' then thenCheck (parseCommand api v) (\<lambda>c. Inr (Command c))
      else if k = Str ''close_task'' then thenCheck (parseCloseTask v) (\<lambda>(r, t). Inr (CloseTask r t))
      else if k = Str ''finish_task'' then thenCheck (parseFinishTask v) (\<lambda>f. Inr (FinishTask f))
      else if k = Str ''event_ack'' then thenCheck (parseEventAck m) (\<lambda>a. Inr (EventAck a))
      else if ready_invalid m then Inl (new_error ''native ready message is invalid'')
      else Inr (Ready (ready_of m)))"

section \<open>Responses\<close>

definition envelope :: "string \<Rightarrow> js obj" where
  "envelope k = [(''protocol'', Str NATIVE_PROTOCOL), (''version'', js_int PROTOCOL_VERSION), (''kind'', Str k)]"

definition response :: "string \<Rightarrow> string \<Rightarrow> js obj" where
  "response request oc = envelope ''response'' @ [(''request_id'', Str request), (''outcome'', Str oc)]"

definition completed :: "string \<Rightarrow> js \<Rightarrow> js obj" where
  "completed request result = response request ''completed'' @ [(''result'', result)]"

definition needsUser :: "string \<Rightarrow> js \<Rightarrow> js obj" where
  "needsUser request result = response request ''needs_user'' @ [(''result'', result)]"

text \<open>What leaves the extension of a staged commit.\<close>

definition publicStaged :: "staged_commit \<Rightarrow> js obj" where
  "publicStaged c = filter (\<lambda>(k, v). k \<notin> {''action'', ''preview'', ''dialog''}) (the_obj (staged_json c))"

definition commitRequired :: "string \<Rightarrow> js \<Rightarrow> staged_commit \<Rightarrow> js obj" where
  "commitRequired request result staged =
     response request ''commit_required'' @ [(''result'', result), (''staged'', Obj (publicStaged staged))]"

definition failed :: "string \<Rightarrow> string \<Rightarrow> string \<Rightarrow> string \<Rightarrow> string option \<Rightarrow> js obj option \<Rightarrow> js obj" where
  "failed request code message oc recovery details =
     response request oc @ [(''error'', Obj ([(''code'', Str code), (''message'', Str message)] @
       (case recovery of Some (c # cs) \<Rightarrow> [(''recovery'', Str (c # cs))] | _ \<Rightarrow> []) @
       (case details of None \<Rightarrow> [] | Some d \<Rightarrow> [(''details'', Obj d)])))]"

definition nativeHello :: "string \<Rightarrow> js list \<Rightarrow> bool \<Rightarrow> js list \<Rightarrow> js obj" where
  "nativeHello extension_version tabs is_paused staged =
     envelope ''hello'' @ [(''extension_version'', Str extension_version), (''inventory'', Arr tabs),
       (''paused'', Bool is_paused), (''staged_commits'', Arr staged)]"

section \<open>Events\<close>

definition assertNativeTab :: "js \<Rightarrow> check" where
  "assertNativeTab v =
     (let t = the_obj v; owner = jget t ''task_id'' in all_ok
       [assertExactObject v [''tab_id'', ''window_id'', ''group_id'', ''url'', ''page_revision''] [''task_id'']
          ''native tab'',
        assertTabId (jget t ''tab_id'') ''tab_id'',
        ensure (isIndex (jget t ''window_id'')) ''window_id must be a non-negative integer'',
        ensure (isIntegerInRange (jget t ''group_id'') (- 1) MAX_SAFE_INTEGER) ''group_id must be at least -1'',
        assertBoundedString (jget t ''url'') ''url'' 0 16384,
        ensure (isIndex (jget t ''page_revision'')) ''page_revision must be a non-negative integer'',
        if owner = Undefined \<or> owner = Null then Inr ()
        else all_ok [assertUuid owner ''task_id'',
          ensure (\<not> the_int (jget t ''group_id'') < 0) ''task-owned native tabs must have a visible group'']])"

definition is_popup_event :: "string \<Rightarrow> bool" where
  "is_popup_event event \<longleftrightarrow> event = ''popup_commit_approved'' \<or> event = ''popup_commit_abandoned''"

definition event_payload :: "string \<Rightarrow> js obj \<Rightarrow> check" where
  "event_payload event p =
     (let exact = (\<lambda>required label. assertExactObject (Obj p) required [] (label @ '' event payload'')) in
      if event = ''inventory''
      then all_ok ([exact [''inventory''] ''inventory'',
          ensure (is_arr (jget p ''inventory'')) ''inventory event must contain an inventory array''] @
        map assertNativeTab (the_arr (jget p ''inventory'')))
      else if event \<in> {''ownership_revoked'', ''tab_removed'', ''group_membership_changed''}
      then all_ok [exact [''task_id'', ''tab_count''] ''ownership'', assertUuid (jget p ''task_id'') ''task_id'',
        ensure (isIndex (jget p ''tab_count'')) ''tab_count must be a non-negative integer'']
      else if event = ''pause_changed''
      then all_ok [exact [''paused''] ''pause'', ensure (is_bool (jget p ''paused'')) ''pause event paused must be a boolean'']
      else if event = ''commit_expired'' \<or> event = ''commit_abandoned''
      then all_ok [exact [''native_token''] ''commit'',
        assertBoundedString (jget p ''native_token'') ''native_token'' 16 256]
      else if is_popup_event event
      then all_ok [exact [''review_handle'', ''task_id'', ''tab_id''] ''popup commit'',
        assertBoundedString (jget p ''review_handle'') ''review_handle'' 16 256,
        assertUuid (jget p ''task_id'') ''task_id'', assertTabId (jget p ''tab_id'') ''tab_id'']
      else all_ok [exact [''reason''] ''disconnect'', assertBoundedString (jget p ''reason'') ''reason'' 1 2000])"

definition nativeEvent :: "string \<Rightarrow> js obj \<Rightarrow> js \<Rightarrow> js_error + js obj" where
  "nativeEvent event payload eventId =
     (if event \<notin> set NATIVE_EVENTS then Inl (new_error (''Unsupported native event: '' @ event))
      else thenCheck (all_ok
        [event_payload event payload,
         given eventId (assertBoundedString eventId ''event_id'' 16 256),
         ensure (\<not> (is_popup_event event \<and> eventId = Undefined)) ''popup commit events require an event_id''])
        (\<lambda>_. Inr (envelope ''event'' @ [(''event'', Str event), (''payload'', Obj payload)] @
          (if eventId = Undefined then [] else [(''event_id'', eventId)]))))"

section \<open>Random ids\<close>

definition hex_digit :: "nat \<Rightarrow> char" where
  "hex_digit d = char_of (if d < 10 then 48 + d else 87 + d)"

text \<open>\<open>value.toString(16).padStart(2, "0")\<close> of a byte.\<close>

definition hex_byte :: "8 word \<Rightarrow> string" where
  "hex_byte b = [hex_digit (unat b div 16), hex_digit (unat b mod 16)]"

definition hex_string :: "8 word list \<Rightarrow> string" where
  "hex_string bs = concat (map hex_byte bs)"

text \<open>The first six bytes are the time in milliseconds, the highest byte first.\<close>

fun put_time :: "nat \<Rightarrow> int \<Rightarrow> 8 word list \<Rightarrow> 8 word list" where
  "put_time 0 t bs = bs"
| "put_time (Suc i) t bs = put_time i (t div 256) (bs[i := word_of_int t])"

definition uuid_bytes :: "8 word list \<Rightarrow> int \<Rightarrow> 8 word list" where
  "uuid_bytes random time =
     (let b = put_time 6 time random;
          b6 = b[6 := or (and (b ! 6) 0x0f) 0x70]
      in b6[8 := or (and (b6 ! 8) 0x3f) 0x80])"

definition substring :: "nat \<Rightarrow> nat \<Rightarrow> 'a list \<Rightarrow> 'a list" where
  "substring i j xs = take (j - i) (drop i xs)"

definition randomUuidV7 :: "8 word list \<Rightarrow> int \<Rightarrow> string" where
  "randomUuidV7 random time =
     (let h = hex_string (uuid_bytes random time)
      in substring 0 8 h @ ''-'' @ substring 8 12 h @ ''-'' @ substring 12 16 h @ ''-'' @
         substring 16 20 h @ ''-'' @ drop 20 h)"

end
