(* ===== verification/MessagesFacts.thy ===== *)
theory MessagesFacts
  imports Messages HandoffFacts
begin

text \<open>
  Facts about the messages: what an accepted message satisfies, that an accepted command is accepted
  again in the form the extension keeps it, what the events and responses may contain, and that the
  validators fit the components behind them.
\<close>

section \<open>Checks\<close>

lemma all_ok_Inr [simp]: "all_ok cs = Inr u \<longleftrightarrow> list_all (\<lambda>c. c = Inr ()) cs"
  by (induction cs) (auto split: sum.splits)

declare all_ok.simps [simp del]

lemma ensure_Inr [simp]: "ensure b m = Inr u \<longleftrightarrow> b"
  by (simp add: ensure_def)

lemma given_Inr [simp]: "given v c = Inr u \<longleftrightarrow> v = Undefined \<or> c = Inr ()"
  by (simp add: given_def)

lemma thenCheck_Inr [simp]: "thenCheck c f = Inr y \<longleftrightarrow> (\<exists>x. c = Inr x \<and> f x = Inr y)"
  by (simp add: thenCheck_def split: sum.split)

text \<open>A check that fails only with \<open>invalid_request\<close>.\<close>

definition coded :: "js_error + 'a \<Rightarrow> bool" where
  "coded c \<longleftrightarrow> (\<forall>e. c = Inl e \<longrightarrow> error_code e = Some ''invalid_request'')"

named_theorems coded_intros \<open>checks that fail only with an error of the protocol\<close>

lemma coded_Inr [coded_intros]: "coded (Inr x)"
  by (simp add: coded_def)

lemma coded_command_error [coded_intros]: "coded (Inl (commandError m))"
  by (simp add: coded_def commandError_def)

lemma coded_ensure [coded_intros]: "coded (ensure b m)"
  by (simp add: coded_def ensure_def commandError_def)

lemma coded_given [coded_intros]: "coded c \<Longrightarrow> coded (given v c)"
  by (simp add: coded_def given_def)

lemma coded_Nil [coded_intros]: "coded (all_ok [])"
  by (simp add: coded_def all_ok.simps)

lemma coded_Cons [coded_intros]: "coded c \<Longrightarrow> coded (all_ok cs) \<Longrightarrow> coded (all_ok (c # cs))"
  by (cases c) (simp_all add: coded_def all_ok.simps)

lemma all_ok_append: "all_ok (cs @ ds) = (case all_ok cs of Inl e \<Rightarrow> Inl e | Inr u \<Rightarrow> all_ok ds)"
  by (induction cs) (simp_all add: all_ok.simps split: sum.split del: all_ok_Inr)

lemma coded_append [coded_intros]: "coded (all_ok cs) \<Longrightarrow> coded (all_ok ds) \<Longrightarrow> coded (all_ok (cs @ ds))"
  unfolding all_ok_append by (cases "all_ok cs") (simp_all add: coded_def del: all_ok_Inr)

lemma coded_map [coded_intros]: "(\<And>x. coded (f x)) \<Longrightarrow> coded (all_ok (map f xs))"
  by (induction xs) (simp_all add: coded_Nil coded_Cons del: all_ok.simps)

lemma coded_thenCheck [coded_intros]: "coded c \<Longrightarrow> (\<And>x. coded (f x)) \<Longrightarrow> coded (thenCheck c f)"
  by (cases c) (simp_all add: coded_def thenCheck_def)

lemma coded_if [coded_intros]: "coded c \<Longrightarrow> coded d \<Longrightarrow> coded (if b then c else d)"
  by simp

lemma coded_basic [coded_intros]:
  "coded (assertExactObject v r opt m)" "coded (assertUuid v f)" "coded (assertTabId v f)" "coded (assertRevision v)"
  "coded (assertOriginPatterns v f)" "coded (assertBoundedString v f lo hi)" "coded (assertFrameId v f)"
  "coded (in_range v lo hi f)" "coded (one_of v names m)" "coded (opt_text v f lo hi)" "coded (optional_bool v m)"
  "coded (assertBookmarkId v f)" "coded (assertTimeMs v f)" "coded (assertOptionalLimit v k f)"
  "coded (assertUrl v f)" "coded (assertActIntent v)" "coded (assertBookmarkUrl v)"
  unfolding assertExactObject_def assertUuid_def assertTabId_def assertRevision_def assertOriginPatterns_def
    assertBoundedString_def assertFrameId_def in_range_def one_of_def opt_text_def optional_bool_def
    assertBookmarkId_def assertTimeMs_def assertOptionalLimit_def assertUrl_def assertActIntent_def assertBookmarkUrl_def
  by (intro coded_intros)+

lemma coded_action [coded_intros]: "coded (assertAction v)"
  unfolding assertAction_def assertActionKind_def Let_def assertTarget_def assertExpectDownload_def assertPressChord_def
  by (intro coded_intros)

lemma coded_groups [coded_intros]:
  "coded (assertActParams v)" "coded (assertSnapshotParams v)" "coded (assertWaitParams v)"
  "coded (assertHandoffParams v)" "coded (assertDeveloperParams v)" "coded (assertCommitReviewParams v b)"
  "coded (assertProfileParams v)" "coded (assertOpenParams v)" "coded (commit_params v)"
  unfolding assertActParams_def assertSnapshotParams_def accessibility_params_def text_params_def screenshot_params_def
    assertWaitParams_def assertCondition_def assertHandoffParams_def handoff_completion_def assertDeveloperParams_def
    assertCommitReviewParams_def assertProfileParams_def assertProfileOperation_def assertOpenParams_def
    commit_params_def Let_def
  by (intro coded_intros)+

lemma coded_credential_fields [coded_intros]: "coded (credential_fields refs kinds fs)"
proof (induction refs kinds fs rule: credential_fields.induct)
  case (2 refs kinds f fs)
  show ?case unfolding credential_fields.simps Let_def by (intro coded_intros 2 [OF refl refl refl])
qed (simp add: coded_intros)

lemma coded_credentials [coded_intros]: "coded (assertCredentialFillParams v)"
  unfolding assertCredentialFillParams_def Let_def by (intro coded_intros)

lemma params_coded: "coded (params_check method v)"
  unfolding params_check_def by (intro coded_intros)

lemma coded_email_fields [coded_intros]: "coded (email_fields refs fs)"
proof (induction refs fs rule: email_fields.induct)
  case (2 refs f fs)
  show ?case unfolding email_fields.simps Let_def by (intro coded_intros 2 [OF refl refl])
qed (simp add: coded_intros)

section \<open>Accepted commands\<close>

lemma exact_record: "assertExactObject v r opt m = Inr u \<Longrightarrow> isRecord v \<and> hasOnlyKeys (the_obj v) r opt"
  by (simp add: assertExactObject_def)

lemma params_check_record:
  assumes "params_check method v = Inr ()"
  shows "isRecord v"
  using assms
  unfolding params_check_def assertOpenParams_def assertSnapshotParams_def assertActParams_def assertWaitParams_def
    assertHandoffParams_def commit_params_def assertProfileParams_def assertDeveloperParams_def
    assertCredentialFillParams_def assertCommitReviewParams_def Let_def
  by (auto dest: exact_record split: if_split_asm)

lemma email_fields_idem:
  assumes "email_fields refs fs = Inr es"
  shows "email_fields refs (map (\<lambda>f. Obj [(''kind'', Str ''otp''), (''ref'', Str (field_ref f)),
        (''value'', Str (field_value f))]) es) = Inr es"
  using assms
proof (induction refs fs arbitrary: es rule: email_fields.induct)
  case (2 refs f fs)
  from 2(2) obtain rest where es: "es = \<lparr>field_ref = the_str (jget (the_obj f) ''ref''),
      field_value = the_str (jget (the_obj f) ''value'')\<rparr> # rest"
    and rest: "email_fields (the_str (jget (the_obj f) ''ref'') # refs) fs = Inr rest"
    and ok: "isBoundedString (jget (the_obj f) ''ref'') 1 256" "the_str (jget (the_obj f) ''ref'') \<notin> set refs"
    unfolding email_fields.simps Let_def by (auto simp: assertBoundedString_def)
  have ih: "email_fields (the_str (jget (the_obj f) ''ref'') # refs) (map (\<lambda>f. Obj [(''kind'', Str ''otp''),
      (''ref'', Str (field_ref f)), (''value'', Str (field_value f))]) rest) = Inr rest"
    by (rule 2(1) [OF refl refl rest])
  have "isBoundedString (Str (the_str (jget (the_obj f) ''ref''))) 1 256"
    using ok(1) by (auto dest: isBoundedStringD)
  with ih ok(2) show ?case
    by (simp add: es assertExactObject_def assertBoundedString_def hasOnlyKeys_def allowed_key_def
        del: isBoundedString_Str)
qed simp

lemma email_idem:
  assumes "parseEmailCodeFillParams api v = Inr e"
  shows "parseEmailCodeFillParams api (Obj (email_json e)) = Inr e"
proof -
  define p where "p = the_obj v"
  from assms obtain fields where
    ids: "isIndex (jget p ''tab_id'')" "isIndex (jget p ''expected_page_revision'')"
    and strs: "isBoundedString (jget p ''expected_origin'') 8 2048" "isBoundedString (jget p ''expected_path'') 1 2048"
      "isBoundedString (jget p ''recipient'') 3 320"
    and checks: "email_origin_ok api (the_str (jget p ''expected_origin''))"
      "email_path api (the_str (jget p ''expected_path'')) (the_str (jget p ''expected_origin'')) = Inr ()"
      "EMAIL_CODE_RECIPIENT_PATTERN (the_str (jget p ''recipient''))"
      "jget p ''purpose'' = Str ''signup'' \<or> jget p ''purpose'' = Str ''email_sign_in''"
    and len: "the_arr (jget p ''fields'') \<noteq> []" "length (the_arr (jget p ''fields'')) \<le> EMAIL_CODE_MAX_FIELDS"
    and fields: "email_fields [] (the_arr (jget p ''fields'')) = Inr fields" "email_values_ok (map field_value fields)"
    and e: "e = \<lparr>fill_tab = the_int (jget p ''tab_id''), fill_revision = the_int (jget p ''expected_page_revision''),
      fill_origin = the_str (jget p ''expected_origin''), fill_path = the_str (jget p ''expected_path''),
      fill_recipient = the_str (jget p ''recipient''), fill_purpose = the_str (jget p ''purpose''),
      fill_fields = fields\<rparr>"
    unfolding parseEmailCodeFillParams_def Let_def p_def [symmetric]
    by (auto simp: assertTabId_def assertRevision_def assertBoundedString_def)
  have n: "length fields = length fs" if "email_fields refs fs = Inr fields" for refs fs fields
    using that by (induction refs fs arbitrary: fields rule: email_fields.induct) (auto simp: Let_def)
  have b: "isBoundedString (Str (the_str x)) lo hi" if "isBoundedString x lo hi" for x lo hi
    using that by (auto dest: isBoundedStringD)
  have i: "isIndex (js_int (the_int x))" if "isIndex x" for x
    using that by (auto simp: isIndex_def dest: isIntegerInRangeD)
  have "fields \<noteq> []" "length fields \<le> EMAIL_CODE_MAX_FIELDS" using n [OF fields(1)] len by auto
  moreover have "\<forall>m. assertExactObject (Obj (email_json e)) [''tab_id'', ''expected_page_revision'', ''expected_origin'',
      ''expected_path'', ''recipient'', ''purpose'', ''fields''] [] m = Inr ()"
    by (simp add: assertExactObject_def hasOnlyKeys_def allowed_key_def email_json_def)
  ultimately show ?thesis
    using b [OF strs(1)] b [OF strs(2)] b [OF strs(3)] i [OF ids(1)] i [OF ids(2)] checks fields
      email_fields_idem [OF fields(1)]
    unfolding parseEmailCodeFillParams_def Let_def
    by (simp add: e email_json_def assertTabId_def assertRevision_def assertBoundedString_def
        del: isBoundedString_Str isIntegerInRange_int) auto
qed

lemma validateParams_idem: "validateParams api m v = Inr p \<Longrightarrow> validateParams api m (Obj p) = Inr p"
proof (cases "m = ''browser_email_code_fill''")
  case True
  assume "validateParams api m v = Inr p"
  with True email_idem show ?thesis by (auto simp: validateParams_def)
next
  case False
  assume a: "validateParams api m v = Inr p"
  with False have "params_check m v = Inr ()" "p = the_obj v" by (auto simp: validateParams_def)
  moreover from this(1) have "v = Obj (the_obj v)" using params_check_record isRecordD by blast
  ultimately show ?thesis using False by (simp add: validateParams_def)
qed

text \<open>The message an accepted command came from, up to unknown own properties.\<close>

definition policy_json :: "origin_policy \<Rightarrow> js" where
  "policy_json p = Obj [(''tab_id'', js_int (policy_tab p)), (''allowed_origins'', Arr (map Str (allowed_origins p))),
     (''denied_origins'', Arr (map Str (denied_origins p)))]"

definition command_json :: "native_command \<Rightarrow> js" where
  "command_json c = Obj (envelope ''command'' @ [(''request_id'', Str (cmd_request c)),
     (''connection_id'', Str (cmd_connection c)), (''task_id'', Str (cmd_task c)), (''method'', Str (cmd_method c)),
     (''params'', Obj (cmd_params c))] @
     (case cmd_policy c of None \<Rightarrow> [] | Some p \<Rightarrow> [(''origin_policy'', policy_json p)]))"

definition uuid_str :: "string \<Rightarrow> bool" where
  "uuid_str s \<longleftrightarrow> is_uuid (Str s)"

definition policy_wf :: "origin_policy \<Rightarrow> bool" where
  "policy_wf p \<longleftrightarrow> isIndex (js_int (policy_tab p)) \<and> [] \<notin> set (allowed_origins p) \<and> [] \<notin> set (denied_origins p)"

definition command_wf :: "url_api \<Rightarrow> native_command \<Rightarrow> bool" where
  "command_wf api c \<longleftrightarrow> uuid_str (cmd_request c) \<and> uuid_str (cmd_connection c) \<and> uuid_str (cmd_task c) \<and>
     cmd_method c \<in> set CORE_METHODS \<and> validateParams api (cmd_method c) (Obj (cmd_params c)) = Inr (cmd_params c) \<and>
     (case cmd_policy c of None \<Rightarrow> True | Some p \<Rightarrow> policy_wf p)"

lemma is_uuid_str: "is_uuid v \<Longrightarrow> uuid_str (the_str v)"
  by (auto simp: is_uuid_def uuid_str_def dest: isBoundedStringD)

lemma assertUuid_Inr [simp]: "assertUuid v f = Inr u \<longleftrightarrow> is_uuid v"
  by (simp add: assertUuid_def is_uuid_def)

lemma str_elems: "list_all (\<lambda>x. is_str x \<and> the_str x \<noteq> []) xs \<Longrightarrow> [] \<notin> set (map the_str xs)"
  by (auto simp: list_all_iff)

lemma assertOriginPolicy_wf: "assertOriginPolicy v = Inr p \<Longrightarrow> policy_wf p"
  unfolding assertOriginPolicy_def Let_def
  by (auto simp: policy_wf_def assertTabId_def assertOriginPatterns_def isIndex_def dest!: isIntegerInRangeD str_elems)

lemma policy_json_parse: "policy_wf p \<Longrightarrow> assertOriginPolicy (policy_json p) = Inr p"
  unfolding assertOriginPolicy_def Let_def
  by (cases p) (auto simp: policy_wf_def policy_json_def assertExactObject_def hasOnlyKeys_def allowed_key_def
      assertTabId_def assertOriginPatterns_def list_all_iff comp_def)

lemma policy_json_defined [simp]: "policy_json p \<noteq> Undefined"
  by (simp add: policy_json_def)

lemma parseCommand_wf:
  assumes "parseCommand api v = Inr c"
  shows "command_wf api c"
proof -
  define m where "m = the_obj v"
  from assms obtain policy params where
    ids: "is_uuid (jget m ''request_id'')" "is_uuid (jget m ''connection_id'')" "is_uuid (jget m ''task_id'')"
    and meth: "the_str (jget m ''method'') \<in> set CORE_METHODS"
    and policy: "optional_policy (jget m ''origin_policy'') = Inr policy"
    and params: "validateParams api (the_str (jget m ''method'')) (jget m ''params'') = Inr params"
    and c: "c = \<lparr>cmd_request = the_str (jget m ''request_id''), cmd_connection = the_str (jget m ''connection_id''),
            cmd_task = the_str (jget m ''task_id''), cmd_method = the_str (jget m ''method''),
            cmd_params = params, cmd_policy = policy\<rparr>"
    unfolding parseCommand_def Let_def m_def [symmetric] by (auto split: if_splits)
  have "case policy of None \<Rightarrow> True | Some p \<Rightarrow> policy_wf p"
    using policy by (auto simp: optional_policy_def assertOriginPolicy_wf split: if_splits)
  with ids meth validateParams_idem [OF params] show ?thesis
    by (simp add: c command_wf_def is_uuid_str)
qed

lemma command_json_parse:
  assumes "command_wf api c"
  shows "parseCommand api (command_json c) = Inr c"
proof -
  obtain ob where ob: "command_json c = Obj ob" by (simp add: command_json_def)
  have keys: "hasOnlyKeys ob [''protocol'', ''version'', ''kind'', ''request_id'', ''connection_id'', ''task_id'',
      ''method'', ''params''] [''origin_policy'']"
    using ob by (cases "cmd_policy c")
      (auto simp: command_json_def envelope_def hasOnlyKeys_def allowed_key_def)
  have f: "is_native ob" "jget ob ''kind'' = Str ''command''" "jget ob ''request_id'' = Str (cmd_request c)"
    "jget ob ''connection_id'' = Str (cmd_connection c)" "jget ob ''task_id'' = Str (cmd_task c)"
    "jget ob ''method'' = Str (cmd_method c)" "jget ob ''params'' = Obj (cmd_params c)"
    "jget ob ''origin_policy'' = (case cmd_policy c of None \<Rightarrow> Undefined | Some p \<Rightarrow> policy_json p)"
    using ob by (auto simp: command_json_def envelope_def is_native_def split: option.split)
  have "optional_policy (jget ob ''origin_policy'') = Inr (cmd_policy c)"
    using assms unfolding f by (auto simp: optional_policy_def command_wf_def policy_json_parse split: option.splits)
  with assms show ?thesis
    unfolding parseCommand_def Let_def ob the_simps f
    by (simp add: keys f command_wf_def uuid_str_def)
qed

definition of_sum :: "'e + 'a \<Rightarrow> 'a option" where
  "of_sum r = (case r of Inl e \<Rightarrow> None | Inr x \<Rightarrow> Some x)"

lemma of_sum_Some [simp]: "of_sum r = Some x \<longleftrightarrow> r = Inr x"
  by (simp add: of_sum_def split: sum.split)

interpretation command_codec: validated_codec command_json "\<lambda>v. of_sum (parseCommand api v)" "command_wf api"
  by unfold_locales (simp_all add: parseCommand_wf command_json_parse)

lemma inbound_command: "parseInboundNativeMessage api v = Inr (Command c) \<longleftrightarrow> parseCommand api v = Inr c"
proof -
  have "parseCommand api v = Inr c \<Longrightarrow> isRecord v \<and> is_native (the_obj v) \<and> jget (the_obj v) ''kind'' = Str ''command''"
    unfolding parseCommand_def Let_def by (simp split: if_splits)
  then show ?thesis unfolding parseInboundNativeMessage_def Let_def by (auto split: if_splits)
qed

section \<open>Finishing a task\<close>

definition finish_json :: "finish_task \<Rightarrow> js" where
  "finish_json f = Obj (envelope ''finish_task'' @ [(''request_id'', Str (fin_request f)), (''task_id'', Str (fin_task f)),
     (''disposition'', Str (fin_disposition f)), (''keep_tab_ids'', int_array (keep_tab_ids f))])"

definition finish_wf :: "finish_task \<Rightarrow> bool" where
  "finish_wf f \<longleftrightarrow> uuid_str (fin_request f) \<and> uuid_str (fin_task f) \<and>
     fin_disposition f \<in> {''auto'', ''close'', ''keep''} \<and> (\<forall>t \<in> set (keep_tab_ids f). 0 < t) \<and> distinct (keep_tab_ids f)"

lemma parseFinishTask_wf:
  assumes "parseFinishTask v = Inr f"
  shows "finish_wf f"
proof -
  define m where "m = the_obj v"
  define ks where "ks = the_arr (jget m ''keep_tab_ids'')"
  from assms have ids: "is_uuid (jget m ''request_id'')" "is_uuid (jget m ''task_id'')"
    and d: "the_str (jget m ''disposition'') \<in> {''auto'', ''close'', ''keep''}"
    and ks: "list_all positive_int ks" "distinct ks"
    and f: "f = \<lparr>fin_request = the_str (jget m ''request_id''), fin_task = the_str (jget m ''task_id''),
         fin_disposition = the_str (jget m ''disposition''), keep_tab_ids = map the_int ks\<rparr>"
    unfolding parseFinishTask_def Let_def m_def [symmetric] ks_def by auto
  have "inj_on the_int (set ks)"
    using ks(1) by (intro inj_onI) (metis is_integerD list_all_iff positive_int_def)
  with ks have "distinct (map the_int ks)" by (simp add: distinct_map)
  moreover have "\<forall>t \<in> set (map the_int ks). 0 < t" using ks(1) by (auto simp: list_all_iff positive_int_def)
  ultimately show ?thesis using ids d by (simp add: finish_wf_def f is_uuid_str)
qed

lemma finish_json_parse:
  assumes "finish_wf f"
  shows "parseFinishTask (finish_json f) = Inr f"
proof -
  obtain ob where ob: "finish_json f = Obj ob" by (simp add: finish_json_def)
  have keys: "hasOnlyKeys ob [''protocol'', ''version'', ''kind'', ''request_id'', ''task_id'', ''disposition'', ''keep_tab_ids''] []"
    using ob by (auto simp: finish_json_def envelope_def hasOnlyKeys_def allowed_key_def)
  have g: "is_native ob" "jget ob ''kind'' = Str ''finish_task''" "jget ob ''request_id'' = Str (fin_request f)"
    "jget ob ''task_id'' = Str (fin_task f)" "jget ob ''disposition'' = Str (fin_disposition f)"
    "jget ob ''keep_tab_ids'' = Arr (map js_int (keep_tab_ids f))"
    using ob by (auto simp: finish_json_def envelope_def is_native_def int_array_def)
  have "distinct (map js_int (keep_tab_ids f))" "list_all positive_int (map js_int (keep_tab_ids f))"
    using assms by (auto simp: finish_wf_def distinct_map inj_on_def positive_int_def list_all_iff)
  with assms show ?thesis
    unfolding parseFinishTask_def Let_def ob the_simps g
    by (cases f) (auto simp: keys g finish_wf_def uuid_str_def comp_def)
qed

interpretation finish_codec: validated_codec finish_json "\<lambda>v. of_sum (parseFinishTask v)" finish_wf
  by unfold_locales (simp_all add: parseFinishTask_wf finish_json_parse)

section \<open>What accepted parameters guarantee\<close>

definition bounded :: "js \<Rightarrow> int \<Rightarrow> int \<Rightarrow> bool" where
  "bounded v lo hi \<longleftrightarrow> (\<exists>s. v = Str s \<and> lo \<le> int (length s) \<and> int (length s) \<le> hi)"

lemma assertBoundedString_bounded: "assertBoundedString v f lo hi = Inr u \<longleftrightarrow> bounded v lo hi"
  by (cases v) (auto simp: assertBoundedString_def bounded_def isBoundedString_def)

text \<open>
  The target of an action that works on an element: either one snapshot reference or one selector,
  never both. \<open>select\<close> and \<open>drag\<close> take a reference.
\<close>

definition POINTED_KINDS :: "string list" where
  "POINTED_KINDS = [''click'', ''double_click'', ''context_click'', ''hover'', ''press'', ''type'', ''fill'', ''upload_file'']"

definition one_target :: "js obj \<Rightarrow> bool" where
  "one_target a \<longleftrightarrow>
     (bounded (jget a ''ref'') 1 256 \<and> jget a ''selector'' = Undefined) \<or>
     (jget a ''ref'' = Undefined \<and> bounded (jget a ''selector'') 1 2048)"

lemma assertTarget_one: "assertTarget a k = Inr u \<Longrightarrow> one_target a"
  by (auto simp: assertTarget_def one_target_def assertBoundedString_bounded)

lemma assertAction_target:
  assumes "assertAction v = Inr u" and "the_str (jget (the_obj v) ''kind'') \<in> set POINTED_KINDS"
  shows "isRecord v \<and> one_target (the_obj v)"
  using assms(2) assms(1) unfolding assertAction_def assertActionKind_def POINTED_KINDS_def Let_def
  by (auto split: if_split_asm dest: assertTarget_one)

lemma assertActParams_actions:
  "assertActParams v = Inr u \<Longrightarrow> isRecord v \<and> is_arr (jget (the_obj v) ''actions'') \<and>
     1 \<le> length (the_arr (jget (the_obj v) ''actions'')) \<and> length (the_arr (jget (the_obj v) ''actions'')) \<le> 64 \<and>
     (\<forall>a \<in> set (the_arr (jget (the_obj v) ''actions'')). assertAction a = Inr ())"
  unfolding assertActParams_def Let_def
  by (auto simp: list_all_iff Suc_le_eq dest: exact_record)

text \<open>Only keyboard shortcuts of one modifier, Control or Meta, reach a letter key.\<close>

lemma assertPressChord_letter:
  assumes "assertPressChord a = Inr u" and "chord_key (jget a ''key'')"
  shows "(Str ''Control'' \<in> set (the_arr (jget a ''modifiers''))) \<noteq> (Str ''Meta'' \<in> set (the_arr (jget a ''modifiers''))) \<and>
    set (the_arr (jget a ''modifiers'')) \<subseteq> {Str ''Control'', Str ''Meta'', Str ''Shift''}"
  using assms unfolding assertPressChord_def Let_def
  by (auto simp: list_all_iff is_modifier_def split: if_split_asm)

lemma credential_fields_distinct:
  "credential_fields refs kinds fs = Inr u \<Longrightarrow>
     distinct (map (\<lambda>f. jget (the_obj f) ''ref'') fs) \<and> distinct (map (\<lambda>f. jget (the_obj f) ''kind'') fs) \<and>
     set (map (\<lambda>f. jget (the_obj f) ''ref'') fs) \<inter> set refs = {} \<and>
     set (map (\<lambda>f. jget (the_obj f) ''kind'') fs) \<inter> set kinds = {} \<and>
     set (map (\<lambda>f. jget (the_obj f) ''kind'') fs) \<subseteq> Str ` {''username'', ''password'', ''otp''}"
  by (induction refs kinds fs rule: credential_fields.induct) (auto simp: Let_def)

lemma email_fields_refs: "email_fields refs fs = Inr es \<Longrightarrow>
    distinct (map field_ref es) \<and> set (map field_ref es) \<inter> set refs = {} \<and> length es = length fs"
proof (induction refs fs arbitrary: es rule: email_fields.induct)
  case (2 refs f fs)
  from 2(2) obtain rest where es: "es = \<lparr>field_ref = the_str (jget (the_obj f) ''ref''),
      field_value = the_str (jget (the_obj f) ''value'')\<rparr> # rest"
    and rest: "email_fields (the_str (jget (the_obj f) ''ref'') # refs) fs = Inr rest"
    and new: "the_str (jget (the_obj f) ''ref'') \<notin> set refs"
    unfolding email_fields.simps Let_def by auto
  from 2(1) [OF refl refl rest] es new show ?case by auto
qed simp

lemma email_values_code:
  assumes "email_values_ok vs" "length vs \<le> EMAIL_CODE_MAX_FIELDS"
  shows "list_all alnum (concat vs) \<and> 4 \<le> length (concat vs) \<and> length (concat vs) \<le> 12"
proof -
  have single: "length (concat vs) = length vs" if "list_all (\<lambda>v. length v = 1 \<and> list_all alnum v) vs" for vs :: "string list"
    using that by (induction vs) auto
  consider v where "vs = [v]" | "4 \<le> length vs" "list_all (\<lambda>v. length v = 1 \<and> list_all alnum v) vs"
    using assms(1) unfolding email_values_ok_def by (auto split: list.splits)
  then show ?thesis
  proof cases
    case 1
    then show ?thesis using assms(1) by (simp add: email_values_ok_def)
  next
    case 2
    then show ?thesis using single [OF 2(2)] assms(2) by (auto simp: EMAIL_CODE_MAX_FIELDS_def list_all_iff)
  qed
qed

lemma parseEmail_fields:
  assumes "parseEmailCodeFillParams api v = Inr e"
  shows "email_values_ok (map field_value (fill_fields e)) \<and> length (fill_fields e) \<le> EMAIL_CODE_MAX_FIELDS \<and>
    distinct (map field_ref (fill_fields e)) \<and> email_origin_ok api (fill_origin e)"
proof -
  from assms obtain fields where fields: "email_fields [] (the_arr (jget (the_obj v) ''fields'')) = Inr fields"
    and vals: "email_values_ok (map field_value fields)"
    and len: "length (the_arr (jget (the_obj v) ''fields'')) \<le> EMAIL_CODE_MAX_FIELDS"
    and origin: "email_origin_ok api (the_str (jget (the_obj v) ''expected_origin''))"
    and e: "fill_fields e = fields" "fill_origin e = the_str (jget (the_obj v) ''expected_origin'')"
    unfolding parseEmailCodeFillParams_def Let_def by auto
  from email_fields_refs [OF fields] vals len origin show ?thesis by (simp add: e)
qed

section \<open>Validators and the components behind them\<close>

text \<open>A handoff request that the protocol accepts is never refused as malformed by the controller.\<close>

lemma handoff_params_fit:
  assumes "assertHandoffParams v = Inr u" and "jget (the_obj v) ''operation'' = Str ''request''"
  shows "\<not> bad_request (the_obj v) \<and> is_integer (jget (the_obj v) ''expected_page_revision'') \<and>
    0 \<le> the_int (jget (the_obj v) ''expected_page_revision'')"
proof -
  define p where "p = the_obj v"
  have i: "is_integer x \<and> lo \<le> the_int x" if "isIntegerInRange x lo hi" for x lo hi
    using isIntegerInRangeD [OF that] by auto
  from assms have t: "isIntegerInRange (jget p ''tab_id'') 0 MAX_SAFE_INTEGER"
    and r: "isIntegerInRange (jget p ''expected_page_revision'') 0 MAX_SAFE_INTEGER"
    and pr: "bounded (jget p ''prompt'') 1 2000"
    and tm: "jget p ''timeout_ms'' = Undefined \<or> isIntegerInRange (jget p ''timeout_ms'') 1000 900000"
    and c: "jget p ''completion'' = Undefined \<or> handoff_completion (jget p ''completion'') = Inr ()"
    unfolding assertHandoffParams_def Let_def p_def [symmetric]
    by (auto simp: assertTabId_def assertRevision_def assertBoundedString_bounded isIndex_def in_range_def
        split: if_split_asm)
  from tm i [of "jget p ''timeout_ms''" 1000] have "is_integer (request_timeout p)" "\<not> the_int (request_timeout p) < 1"
    by (auto simp: request_timeout_def DEFAULT_TIMEOUT_MS_def)
  moreover have "jget p ''completion'' \<noteq> Undefined \<Longrightarrow> validCompletion (jget p ''completion'')"
    using c unfolding handoff_completion_def Let_def validCompletion_def
    by (auto simp: assertBoundedString_bounded bounded_def dest: exact_record)
  moreover have "is_str (jget p ''prompt'')" using pr by (auto simp: bounded_def)
  ultimately show ?thesis using i [OF t] i [OF r] by (auto simp: bad_request_def p_def)
qed

text \<open>The events of the ledger and of the handoff controller pass the validation of events.\<close>

lemma ledger_event_sent:
  assumes "uuid_str key" "0 \<le> count" "count \<le> MAX_SAFE_INTEGER"
    and "event = ''ownership_revoked'' \<or> event = ''group_membership_changed''"
  shows "nativeEvent event (changed_payload key count) Undefined =
    Inr (envelope ''event'' @ [(''event'', Str event), (''payload'', Obj (changed_payload key count))])"
  using assms
  by (auto simp: nativeEvent_def NATIVE_EVENTS_def event_payload_def changed_payload_def assertExactObject_def
      hasOnlyKeys_def allowed_key_def uuid_str_def isIndex_def is_popup_event_def)

lemma pause_event_sent:
  "nativeEvent ''pause_changed'' [(''paused'', Bool b)] Undefined =
    Inr (envelope ''event'' @ [(''event'', Str ''pause_changed''), (''payload'', Obj [(''paused'', Bool b)])])"
  by (auto simp: nativeEvent_def NATIVE_EVENTS_def event_payload_def assertExactObject_def
      hasOnlyKeys_def allowed_key_def is_popup_event_def)

text \<open>A popup decision is sent with an id under which the host can acknowledge it once.\<close>

lemma popup_event_id:
  assumes "nativeEvent event payload eventId = Inr msg" and "is_popup_event event"
  shows "bounded eventId 16 256 \<and> jget msg ''event_id'' = eventId"
  using assms unfolding nativeEvent_def
  by (auto simp: assertBoundedString_bounded envelope_def jget_append split: if_split_asm)

lemma publicStaged_hides:
  "\<not> own (publicStaged c) ''action'' \<and> \<not> own (publicStaged c) ''preview'' \<and> \<not> own (publicStaged c) ''dialog''"
  by (auto simp: publicStaged_def own_def)

lemma jget_filter: "jget (filter (\<lambda>(k, v). P k) ob) k = (if P k then jget ob k else Undefined)"
  by (induction ob) auto

lemma publicStaged_keeps:
  "k \<notin> {''action'', ''preview'', ''dialog''} \<Longrightarrow> jget (publicStaged c) k = jget (the_obj (staged_json c)) k"
  by (simp add: publicStaged_def jget_filter)

section \<open>Random ids\<close>

lemma below: "list_all P [0..<n] \<Longrightarrow> d < n \<Longrightarrow> P d"
  by (simp add: list_all_iff)

lemma hex_digit_hex: "d < 16 \<Longrightarrow> hex (hex_digit d)"
  by (rule below [of "\<lambda>d. hex (hex_digit d)"])
    (simp_all add: upt_conv_Cons hex_def hex_digit_def digit_def lower_char_def Let_def)

lemma byte_digits: "unat (b :: 8 word) div 16 < 16" "unat b mod 16 < 16"
proof -
  have "unat b < 256" using unsigned_less [of b, where ?'a = nat] by simp
  then show "unat b div 16 < 16" by linarith
qed simp

lemma div16: "n div 16 = drop_bit 4 n" for n :: nat
  by (simp add: drop_bit_eq_div)

lemma version_nibble: "unat (or (and (b :: 8 word) 0x0f) 0x70) div 16 = 7"
  by (simp add: unsigned_or_eq unsigned_and_eq div16)

lemma variant_nibble: "unat (or (and (b :: 8 word) 0x3f) 0x80) div 16 \<in> {8, 9, 10, 11}"
proof -
  define k where "k = drop_bit 4 (unat b) mod 4"
  have "and (drop_bit 4 (unat b)) 3 = k"
    using take_bit_eq_mask [of 2 "drop_bit 4 (unat b)"] by (simp add: k_def take_bit_eq_mod mask_eq_exp_minus_1)
  moreover have "k < 4" by (simp add: k_def)
  then have "k \<in> {0, 1, 2, 3}" by auto
  then have "or k 8 \<in> {8, 9, 10, 11}" by auto
  ultimately show ?thesis by (simp add: unsigned_or_eq unsigned_and_eq div16)
qed

lemma uuid_bytes_list:
  assumes "random = [r0, r1, r2, r3, r4, r5, r6, r7, r8, r9, r10, r11, r12, r13, r14, r15]"
  shows "uuid_bytes random time = [word_of_int (time div 256 ^ 5), word_of_int (time div 256 ^ 4), word_of_int (time div 256 ^ 3),
    word_of_int (time div 256 ^ 2), word_of_int (time div 256), word_of_int time, or (and r6 0x0f) 0x70, r7,
    or (and r8 0x3f) 0x80, r9, r10, r11, r12, r13, r14, r15]"
  by (simp add: assms uuid_bytes_def Let_def numeral_eq_Suc zdiv_zmult2_eq [symmetric])

lemma hex_byte_digits [simp]:
  "hex (hex_digit (unat (b :: 8 word) div 16))" "hex (hex_digit (unat (b :: 8 word) mod 16))"
  by (intro hex_digit_hex byte_digits)+

lemma sixteen: "length xs = 16 \<Longrightarrow> \<exists>r0 r1 r2 r3 r4 r5 r6 r7 r8 r9 r10 r11 r12 r13 r14 r15.
    xs = [r0, r1, r2, r3, r4, r5, r6, r7, r8, r9, r10, r11, r12, r13, r14, r15]"
  by (auto simp: length_Suc_conv numeral_eq_Suc)

text \<open>A generated id is a UUID of version 7.\<close>

lemma randomUuidV7_uuid:
  assumes "length random = 16"
  shows "uuid_str (randomUuidV7 random time) \<and> randomUuidV7 random time ! 14 = CHR ''7''"
proof -
  from sixteen [OF assms] obtain r0 r1 r2 r3 r4 r5 r6 r7 r8 r9 r10 r11 r12 r13 r14 r15
    where r: "random = [r0, r1, r2, r3, r4, r5, r6, r7, r8, r9, r10, r11, r12, r13, r14, r15]" by blast
  define b6 where "b6 = or (and r6 0x0f) 0x70"
  define b8 where "b8 = or (and r8 0x3f) 0x80"
  have v: "hex_digit (unat b6 div 16) = CHR ''7''" unfolding b6_def version_nibble by code_simp
  have all: "\<forall>d \<in> {8, 9, 10, 11}. hex_digit d \<in> set ''89abAB''" by code_simp
  have w: "hex_digit (unat b8 div 16) \<in> set ''89abAB''"
    unfolding b8_def by (rule bspec [OF all variant_nibble])
  define d where "d = (\<lambda>b :: 8 word. hex_digit (unat b div 16))"
  define e where "e = (\<lambda>b :: 8 word. hex_digit (unat b mod 16))"
  have byte: "hex_byte b = [d b, e b]" for b by (simp add: hex_byte_def d_def e_def)
  have hx: "hex (d b)" "hex (e b)" for b by (simp_all add: d_def e_def)
  obtain t0 t1 t2 t3 t4 t5 where bytes: "uuid_bytes random time =
      [t0, t1, t2, t3, t4, t5, b6, r7, b8, r9, r10, r11, r12, r13, r14, r15]"
    unfolding uuid_bytes_list [OF r, of time, folded b6_def b8_def] by blast
  have str: "randomUuidV7 random time = [d t0, e t0, d t1, e t1, d t2, e t2, d t3, e t3, CHR ''-'', d t4, e t4, d t5, e t5,
      CHR ''-'', d b6, e b6, d r7, e r7, CHR ''-'', d b8, e b8, d r9, e r9, CHR ''-'', d r10, e r10, d r11, e r11,
      d r12, e r12, d r13, e r13, d r14, e r14, d r15, e r15]"
    unfolding randomUuidV7_def Let_def bytes hex_string_def by (simp add: byte substring_def)
  have w': "d b8 \<in> set ''89abAB''" and v': "d b6 = CHR ''7''" using v w by (simp_all only: d_def)
  have "UUID_PATTERN (randomUuidV7 random time)"
    unfolding str UUID_PATTERN_def using w' by (simp add: uuid_char_def hx del: list.set)
  then show ?thesis using v' by (simp add: uuid_str_def is_uuid_def str)
qed

text \<open>The first 48 bits are the time, so ids of later milliseconds sort later.\<close>

definition bytes_value :: "8 word list \<Rightarrow> int" where
  "bytes_value = foldl (\<lambda>a b. 256 * a + uint b) 0"

lemma six_digits:
  "t0 = 256 * t1 + b0 \<Longrightarrow> t1 = 256 * t2 + b1 \<Longrightarrow> t2 = 256 * t3 + b2 \<Longrightarrow> t3 = 256 * t4 + b3 \<Longrightarrow>
   t4 = 256 * t5 + b4 \<Longrightarrow> t5 = 256 * t6 + b5 \<Longrightarrow>
   t0 = 256 ^ 6 * t6 + (256 * (256 * (256 * (256 * (256 * b5 + b4) + b3) + b2) + b1) + b0)"
  for t0 t1 t2 t3 t4 t5 t6 :: int
  by simp

lemma six_bound:
  "0 \<le> b0 \<and> b0 \<le> 255 \<Longrightarrow> 0 \<le> b1 \<and> b1 \<le> 255 \<Longrightarrow> 0 \<le> b2 \<and> b2 \<le> 255 \<Longrightarrow> 0 \<le> b3 \<and> b3 \<le> 255 \<Longrightarrow>
   0 \<le> b4 \<and> b4 \<le> 255 \<Longrightarrow> 0 \<le> b5 \<and> b5 \<le> 255 \<Longrightarrow>
   0 \<le> 256 * (256 * (256 * (256 * (256 * b5 + b4) + b3) + b2) + b1) + b0 \<and>
   256 * (256 * (256 * (256 * (256 * b5 + b4) + b3) + b2) + b1) + b0 < 256 ^ 6"
  for b0 b1 b2 b3 b4 b5 :: int
  by simp

lemma uuid_time:
  assumes "length random = 16"
  shows "bytes_value (take 6 (uuid_bytes random time)) = time mod 256 ^ 6"
proof -
  from sixteen [OF assms] obtain r0 r1 r2 r3 r4 r5 r6 r7 r8 r9 r10 r11 r12 r13 r14 r15
    where r: "random = [r0, r1, r2, r3, r4, r5, r6, r7, r8, r9, r10, r11, r12, r13, r14, r15]" by blast
  define q where "q = (\<lambda>k. time div 256 ^ k)"
  have u: "uint (word_of_int t :: 8 word) = t mod 256" for t
    by (simp add: uint_word_of_int)
  have step: "j = Suc k \<Longrightarrow> q k = 256 * q j + q k mod 256" for j k
    using zdiv_zmult2_eq [of 256 time "256 ^ k"] mult_div_mod_eq [of 256 "q k"] by (simp add: q_def mult.commute)
  have steps: "q 0 = 256 * q 1 + q 0 mod 256" "q 1 = 256 * q 2 + q 1 mod 256" "q 2 = 256 * q 3 + q 2 mod 256"
    "q 3 = 256 * q 4 + q 3 mod 256" "q 4 = 256 * q 5 + q 4 mod 256" "q 5 = 256 * q 6 + q 5 mod 256" "q 0 = time"
    by (rule step, simp)+ (simp add: q_def)
  have b: "0 \<le> q k mod 256 \<and> q k mod 256 \<le> 255" for k
    using pos_mod_bound [of 256 "q k"] by simp
  define v where "v = 256 * (256 * (256 * (256 * (256 * (q 5 mod 256) + q 4 mod 256) + q 3 mod 256) + q 2 mod 256)
    + q 1 mod 256) + q 0 mod 256"
  have "time = 256 ^ 6 * q 6 + v"
    unfolding v_def using six_digits [OF steps(1-6)] steps(7) by simp
  moreover have "0 \<le> v" "v < 256 ^ 6"
    unfolding v_def using six_bound [OF b [of 0] b [of 1] b [of 2] b [of 3] b [of 4] b [of 5]] by blast+
  ultimately have "time mod 256 ^ 6 = v" by (rule int_mod_pos_eq)
  moreover have "bytes_value (take 6 (uuid_bytes random time)) = v"
    unfolding uuid_bytes_list [OF r, of time] bytes_value_def by (simp add: u v_def q_def)
  ultimately show ?thesis by simp
qed

section \<open>Canonical form\<close>

text \<open>
  Fingerprints hash the canonical form: values get the same one exactly when they differ in the
  order of keys at most.
\<close>

definition canon_fields :: "js obj \<Rightarrow> js obj" where
  "canon_fields ob = map (\<lambda>(k, v). (k, canonicalize v)) ob"

lemma canon_fields_keys: "map fst (canon_fields ob) = map fst ob"
  by (simp add: canon_fields_def comp_def case_prod_unfold)

lemma sort_key_unique:
  assumes "set xs = set ys" "distinct (map fst xs)" "distinct (map fst ys)"
  shows "sort_key fst xs = sort_key fst (ys :: (string \<times> js) list)"
proof (rule map_sorted_distinct_set_unique)
  have "distinct (map fst (sort_key fst xs))" using assms(2) by (simp add: distinct_map)
  then show "inj_on fst (set (sort_key fst xs) \<union> set (sort_key fst ys))"
    using assms(1) by (simp add: distinct_map)
  show "distinct (map fst (sort_key fst xs))" "distinct (map fst (sort_key fst ys))"
    using assms by (simp_all add: distinct_map)
qed (simp_all add: assms)

lemma canon_Obj_iff:
  assumes "distinct (map fst a)" "distinct (map fst b)"
  shows "canonicalize (Obj a) = canonicalize (Obj b) \<longleftrightarrow> set (canon_fields a) = set (canon_fields b)"
proof
  assume "canonicalize (Obj a) = canonicalize (Obj b)"
  then have "set (sort_key fst (canon_fields a)) = set (sort_key fst (canon_fields b))" by (simp add: canon_fields_def)
  then show "set (canon_fields a) = set (canon_fields b)" by simp
next
  assume "set (canon_fields a) = set (canon_fields b)"
  with assms sort_key_unique [of "canon_fields a" "canon_fields b"]
  show "canonicalize (Obj a) = canonicalize (Obj b)" by (simp add: canon_fields_keys) (simp add: canon_fields_def)
qed

lemma items_all2: "length xs = length ys \<Longrightarrow> equivalent_items xs ys \<longleftrightarrow> list_all2 jsonEquivalent xs ys"
  by (induction xs ys rule: list_induct2) simp_all

lemma all2_canon:
  assumes "\<forall>x \<in> set xs. \<forall>y. js_ok x \<longrightarrow> js_ok y \<longrightarrow> (canonicalize x = canonicalize y \<longleftrightarrow> jsonEquivalent x y)"
    and "list_all js_ok xs" "list_all js_ok ys"
  shows "map canonicalize xs = map canonicalize ys \<longleftrightarrow> length xs = length ys \<and> list_all2 jsonEquivalent xs ys"
  using assms unfolding list_eq_iff_nth_eq list_all2_conv_all_nth list_all_length
  by (metis length_map nth_map nth_mem)

lemma fields_canon:
  assumes ih: "\<forall>(k, v) \<in> set a. \<forall>w. js_ok v \<longrightarrow> js_ok w \<longrightarrow> (canonicalize v = canonicalize w \<longleftrightarrow> jsonEquivalent v w)"
    and a: "distinct (map fst a)" "\<forall>(k, v) \<in> set a. js_ok v" and b: "distinct (map fst b)" "\<forall>(k, v) \<in> set b. js_ok v"
  shows "set (canon_fields a) = set (canon_fields b) \<longleftrightarrow> length a = length b \<and> equivalent_fields a b"
proof -
  have sub: "set (canon_fields a) \<subseteq> set (canon_fields b) \<longleftrightarrow> equivalent_fields a b"
  proof -
    have "(k, canonicalize v) \<in> set (canon_fields b) \<longleftrightarrow> (\<exists>w. map_of b k = Some w \<and> jsonEquivalent v w)"
      if "(k, v) \<in> set a" for k v
    proof -
      have "(k, canonicalize v) \<in> set (canon_fields b) \<longleftrightarrow> (\<exists>w. (k, w) \<in> set b \<and> canonicalize v = canonicalize w)"
        by (auto simp: canon_fields_def)
      also have "\<dots> \<longleftrightarrow> (\<exists>w. (k, w) \<in> set b \<and> jsonEquivalent v w)" using that ih a(2) b(2) by blast
      finally show ?thesis using b(1) by simp
    qed
    moreover have "set (canon_fields a) \<subseteq> S \<longleftrightarrow> (\<forall>(k, v) \<in> set a. (k, canonicalize v) \<in> S)" for S
      by (auto simp: canon_fields_def)
    ultimately show ?thesis unfolding equivalent_fields_iff by auto
  qed
  have d: "distinct (canon_fields a)" "distinct (canon_fields b)"
    using a(1) b(1) canon_fields_keys distinct_map by metis+
  have len: "card (set (canon_fields a)) = length a" "card (set (canon_fields b)) = length b"
    using d by (simp_all add: distinct_card) (simp_all add: canon_fields_def)
  show ?thesis
  proof
    assume same: "set (canon_fields a) = set (canon_fields b)"
    then have "equivalent_fields a b" using sub by blast
    with same len show "length a = length b \<and> equivalent_fields a b" by simp
  next
    assume e: "length a = length b \<and> equivalent_fields a b"
    show "set (canon_fields a) = set (canon_fields b)"
      by (rule card_subset_eq) (use e sub len in auto)
  qed
qed

lemma canonicalize_iff: "js_ok a \<Longrightarrow> js_ok b \<Longrightarrow> canonicalize a = canonicalize b \<longleftrightarrow> jsonEquivalent a b"
proof (induction a arbitrary: b)
  case (Arr xs)
  show ?case
  proof (cases b)
    case (Arr ys)
    with Arr.IH Arr.prems all2_canon [of xs ys] show ?thesis by (auto simp: items_all2)
  qed simp_all
next
  case (Obj ob)
  show ?case
  proof (cases b)
    case (Obj ob')
    have ih: "\<forall>(k, v) \<in> set ob. \<forall>w. js_ok v \<longrightarrow> js_ok w \<longrightarrow> (canonicalize v = canonicalize w \<longleftrightarrow> jsonEquivalent v w)"
      using Obj.IH by (fastforce simp: snds.simps)
    have "distinct (map fst ob)" "\<forall>(k, v) \<in> set ob. js_ok v" "distinct (map fst ob')" "\<forall>(k, v) \<in> set ob'. js_ok v"
      using Obj.prems Obj by (auto simp: list_all_iff)
    with canon_Obj_iff [of ob ob'] fields_canon [OF ih, of ob'] Obj show ?thesis by simp
  qed simp_all
qed (case_tac b; simp)+

end
