(* ===== verification/ProtocolProperties.thy ===== *)
theory ProtocolProperties
  imports MessagesFacts Demo
begin

text \<open>
  The properties of the native protocol: what the validators accept, how they fail, and what the
  messages of the extension give away.
\<close>

definition demo_api :: url_api where
  "demo_api = \<lparr>api_parse = (\<lambda>u. Some \<lparr>url_protocol = ''https:'', url_hostname = ''a.b'', url_pathname = ''/'', url_origin = ''https://a.b''\<rparr>),
     api_pathname = (\<lambda>p b. Some p)\<rparr>"

definition demo_uuid :: string where
  "demo_uuid = ''01234567-89ab-7def-8123-456789abcdef''"

definition demo_command :: native_command where
  "demo_command = \<lparr>cmd_request = demo_uuid, cmd_connection = demo_uuid, cmd_task = demo_uuid, cmd_method = ''browser_tabs'',
     cmd_params = [], cmd_policy = None\<rparr>"

lemma demo_command_ok: "parseInboundNativeMessage demo_api (command_json demo_command) = Inr (Command demo_command)"
  by code_simp

section \<open>Inbound messages\<close>



text \<open>Bad parameters are always reported as such: for every method and value, the validation of
the parameters fails only with the code \<open>invalid_request\<close>.\<close>

lemma validation_errors_coded:
  assumes "params_check meth v = Inl e"
  shows "error_code e = Some ''invalid_request''"
  using params_coded [of meth v] assms by (simp add: coded_def)

text \<open>The actions of an accepted \<open>browser_act\<close> call are one to sixty-four, and every one that works on
an element names it by exactly one of a bounded snapshot reference and a bounded selector.\<close>

lemma action_targets:
  assumes "params_check ''browser_act'' v = Inr ()" and "a \<in> set (the_arr (jget (the_obj v) ''actions''))"
    and "the_str (jget (the_obj a) ''kind'') \<in> set POINTED_KINDS"
  shows "length (the_arr (jget (the_obj v) ''actions'')) \<le> 64 \<and> one_target (the_obj a)"
proof -
  have "assertActParams v = Inr ()" using assms(1) by (simp add: params_check_def)
  from assertActParams_actions [OF this] assms(2) have "assertAction a = Inr ()"
    "length (the_arr (jget (the_obj v) ''actions'')) \<le> 64" by blast+
  with assertAction_target [OF _ assms(3)] show ?thesis by blast
qed

text \<open>A request for a handoff notice that the protocol accepts is never malformed for the handoff
controller: the checks the controller repeats on it all pass.\<close>

lemma handoff_request_fits:
  assumes "params_check ''browser_handoff'' v = Inr ()" and "jget (the_obj v) ''operation'' = Str ''request''"
  shows "\<not> bad_request (the_obj v) \<and> 0 \<le> the_int (jget (the_obj v) ''expected_page_revision'')"
  using handoff_params_fit [OF _ assms(2)] assms(1) by (simp add: params_check_def)

text \<open>An accepted email code is a code: the values of its fields put together are four to twelve letters
and digits, the fields are at most twelve, with different references, on a secure or loopback origin.\<close>

lemma email_code_shape:
  assumes "parseEmailCodeFillParams api v = Inr e"
  shows "list_all alnum (concat (map field_value (fill_fields e))) \<and>
    4 \<le> length (concat (map field_value (fill_fields e))) \<and> length (concat (map field_value (fill_fields e))) \<le> 12 \<and>
    distinct (map field_ref (fill_fields e)) \<and> email_origin_ok api (fill_origin e)"
  using parseEmail_fields [OF assms] email_values_code [of "map field_value (fill_fields e)"] by simp

definition demo_email :: js where
  "demo_email = Obj [(''tab_id'', js_int 3), (''expected_page_revision'', js_int 1), (''expected_origin'', Str ''https://a.b''),
     (''expected_path'', Str ''/x''), (''recipient'', Str ''a@b''), (''purpose'', Str ''signup''),
     (''fields'', Arr [Obj [(''kind'', Str ''otp''), (''ref'', Str ''e1''), (''value'', Str ''A1b2'')]])]"

section \<open>Outbound messages\<close>


text \<open>A generated identifier is a version 7 UUID that the validators accept, and its first six bytes are
the time in milliseconds.\<close>

lemma uuid_sound:
  assumes "length random = 16"
  shows "is_uuid (Str (randomUuidV7 random time)) \<and> randomUuidV7 random time ! 14 = CHR ''7'' \<and>
    bytes_value (take 6 (uuid_bytes random time)) = time mod 256 ^ 6"
  using randomUuidV7_uuid [OF assms] uuid_time [OF assms] by (simp add: uuid_str_def)

text \<open>C30: The canonical form that fingerprints hash is faithful: two values have the same one exactly when
they are equal up to the order of object keys, as the state store compares them.\<close>

theorem canonical_form_faithful:
  assumes "js_ok a" and "js_ok b"
  shows "canonicalize a = canonicalize b \<longleftrightarrow> jsonEquivalent a b"
  using assms by (rule canonicalize_iff)

theorem canonical_form_faithful_witness:
  "canonicalize (Obj [(''b'', Null), (''a'', Bool True)]) = canonicalize (Obj [(''a'', Bool True), (''b'', Null)])"
proof -
  have o: "js_ok (Obj [(''b'', Null), (''a'', Bool True)])" "js_ok (Obj [(''a'', Bool True), (''b'', Null)])" by code_simp+
  have "jsonEquivalent (Obj [(''b'', Null), (''a'', Bool True)]) (Obj [(''a'', Bool True), (''b'', Null)])" by code_simp
  with canonical_form_faithful [OF o] show ?thesis by blast
qed

end
