(* ===== verification/TargetRefs.thy ===== *)
theory TargetRefs
  imports JsValue
begin

text \<open>
  \<open>packages/extension/src/target-resolution.ts\<close>: the registry that maps the opaque refs of a snapshot
  to the elements they were minted for, keeps them under two caps, mirrors them to
  \<open>chrome.storage.local\<close> and reads them back after the service worker restarted.

  A \<open>Map\<close> is an association list and a \<open>Set\<close> a list without repetition, both in insertion order.
  Asynchronous code is cut at its awaits: every definition below is one synchronous segment. The last
  section composes the segments with the storage area into a step relation, in which segments of
  different calls interleave freely, storage calls may fail and the worker may die at any point.
\<close>

section \<open>Data\<close>

text \<open>\<open>via_scripting\<close> is \<open>route === "scripting"\<close>.\<close>

record target_binding =
  backendNodeId :: int
  target_document :: string
  target_frame :: string
  target_revision :: int
  target_task :: string
  target_tab :: int
  via_scripting :: bool

record registry =
  refs :: "(string \<times> target_binding) list"
  refsByTab :: "(int \<times> string list) list"
  dirtyTabs :: "int list"

definition REF_PREFIX :: string where "REF_PREFIX = ''rt1.''"
definition MAX_TARGET_REFS :: nat where "MAX_TARGET_REFS = 32768"
definition MAX_TARGET_REFS_PER_TAB :: nat where "MAX_TARGET_REFS_PER_TAB = 8192"

definition empty_registry :: registry where
  "empty_registry = \<lparr>refs = [], refsByTab = [], dirtyTabs = []\<rparr>"

text \<open>\<open>set.add(x)\<close>\<close>

definition set_add :: "'a \<Rightarrow> 'a list \<Rightarrow> 'a list" where
  "set_add x xs = (if x \<in> set xs then xs else xs @ [x])"

definition binding_of :: "registry \<Rightarrow> string \<Rightarrow> target_binding option" where
  "binding_of r ref = map_of (refs r) ref"

text \<open>\<open>this.#refsByTab.get(tabId) ?? []\<close>\<close>

definition tab_refs :: "registry \<Rightarrow> int \<Rightarrow> string list" where
  "tab_refs r tab = (case map_of (refsByTab r) tab of None \<Rightarrow> [] | Some rs \<Rightarrow> rs)"

section \<open>Adding and removing\<close>

definition remove_ref :: "string \<Rightarrow> registry \<Rightarrow> registry" where
  "remove_ref ref r = (case binding_of r ref of
      None \<Rightarrow> r
    | Some b \<Rightarrow>
        (let r1 = r\<lparr>refs := AList.delete ref (refs r), dirtyTabs := set_add (target_tab b) (dirtyTabs r)\<rparr>
         in case map_of (refsByTab r) (target_tab b) of
             None \<Rightarrow> r1
           | Some rs \<Rightarrow>
               (let rs' = filter (\<lambda>x. x \<noteq> ref) rs
                in r1\<lparr>refsByTab := (if rs' = [] then AList.delete (target_tab b) (refsByTab r)
                     else AList.update (target_tab b) rs' (refsByTab r))\<rparr>)))"

text \<open>
  The first loop of \<open>#add\<close> drops the oldest ref of the tab while the tab is at its cap. Nothing in the
  loop itself makes the set smaller, so it is \<open>None\<close> when it does not end.
\<close>

partial_function (option) trim_tab :: "int \<Rightarrow> registry \<Rightarrow> registry option" where
  "trim_tab tab r =
     (if length (tab_refs r tab) < MAX_TARGET_REFS_PER_TAB then Some r
      else case tab_refs r tab of [] \<Rightarrow> Some r | oldest # _ \<Rightarrow> trim_tab tab (remove_ref oldest r))"

lemma remove_oldest_shrinks:
  "refs r = p # xs \<Longrightarrow> length (refs (remove_ref (fst p) r)) < Suc (length xs)"
  by (cases p) (auto simp: remove_ref_def binding_of_def Let_def less_Suc_eq_le
      intro: order_trans [OF AList.length_delete_le] split: option.split)

text \<open>The second loop drops the oldest refs of all tabs.\<close>

function trim_all :: "registry \<Rightarrow> registry" where
  "trim_all r =
     (if length (refs r) < MAX_TARGET_REFS then r
      else case refs r of [] \<Rightarrow> r | p # _ \<Rightarrow> trim_all (remove_ref (fst p) r))"
  by auto

termination
  by (relation "measure (\<lambda>r. length (refs r))") (simp_all add: remove_oldest_shrinks)

declare trim_all.simps [simp del]

definition insert_ref :: "string \<Rightarrow> target_binding \<Rightarrow> registry \<Rightarrow> registry" where
  "insert_ref ref b r =
     r\<lparr>refs := AList.update ref b (refs r),
       refsByTab := AList.update (target_tab b) (set_add ref (tab_refs r (target_tab b))) (refsByTab r),
       dirtyTabs := set_add (target_tab b) (dirtyTabs r)\<rparr>"

definition add_ref :: "string \<Rightarrow> target_binding \<Rightarrow> registry \<Rightarrow> registry option" where
  "add_ref ref b r = map_option (\<lambda>r1. insert_ref ref b (trim_all r1)) (trim_tab (target_tab b) r)"

definition older_refs :: "int \<Rightarrow> registry \<Rightarrow> string list \<Rightarrow> string list" where
  "older_refs revision r rs = filter (\<lambda>ref. case binding_of r ref of None \<Rightarrow> False
     | Some b \<Rightarrow> target_revision b < revision) rs"

text \<open>
  \<open>mint\<close> draws random ids until the ref is new. \<open>uuids\<close> are the ids drawn; \<open>None\<close> means that all of
  them were taken (or that a loop of \<open>#add\<close> did not end).
\<close>

definition mint :: "target_binding \<Rightarrow> string list \<Rightarrow> registry \<Rightarrow> (string \<times> registry) option" where
  "mint b uuids r =
     (let r1 = fold remove_ref (older_refs (target_revision b) r (tab_refs r (target_tab b))) r
      in case find (\<lambda>u. binding_of r1 (REF_PREFIX @ u) = None) uuids of
           None \<Rightarrow> None
         | Some u \<Rightarrow> map_option (\<lambda>r2. (REF_PREFIX @ u, r2)) (add_ref (REF_PREFIX @ u) b r1))"

text \<open>The two reads of \<open>lookup\<close>, before and after the load it waits for.\<close>

definition is_ref :: "js \<Rightarrow> bool" where
  "is_ref v = (case v of Str s \<Rightarrow> take 4 s = REF_PREFIX | _ \<Rightarrow> False)"

definition lookup :: "registry \<Rightarrow> js \<Rightarrow> target_binding option" where
  "lookup r v = (if is_ref v then binding_of r (the_str v) else None)"

section \<open>The stored form\<close>

text \<open>An interning table is the list of its strings; \<open>intern\<close> returns the index and the grown table.\<close>

fun index_of :: "string \<Rightarrow> string list \<Rightarrow> nat" where
  "index_of x [] = 0"
| "index_of x (y # ys) = (if x = y then 0 else Suc (index_of x ys))"

definition intern :: "string \<Rightarrow> string list \<Rightarrow> int \<times> string list" where
  "intern x table = (int (index_of x table), set_add x table)"

type_synonym tables = "string list \<times> string list \<times> string list"

fun encode_row :: "string \<Rightarrow> target_binding \<Rightarrow> tables \<Rightarrow> js \<times> tables" where
  "encode_row ref b (docs, frames, tasks) =
     (let (d, docs') = intern (target_document b) docs;
          (f, frames') = intern (target_frame b) frames;
          (t, tasks') = intern (target_task b) tasks
      in (Arr [Str (drop 4 ref), js_int (backendNodeId b), js_int d, js_int f, js_int (target_revision b),
            js_int t, js_int (if via_scripting b then 1 else 0)], (docs', frames', tasks')))"

fun encode_rows :: "registry \<Rightarrow> string list \<Rightarrow> tables \<Rightarrow> js list \<times> tables" where
  "encode_rows r [] tabs = ([], tabs)"
| "encode_rows r (ref # rs) tabs =
     (case binding_of r ref of
        None \<Rightarrow> encode_rows r rs tabs
      | Some b \<Rightarrow>
          (let (row, tabs') = encode_row ref b tabs;
               (rows, tabs'') = encode_rows r rs tabs'
           in (row # rows, tabs'')))"

definition str_array :: "string list \<Rightarrow> js" where
  "str_array xs = Arr (map Str xs)"

definition encode_refs :: "registry \<Rightarrow> string list \<Rightarrow> js" where
  "encode_refs r rs =
     (let (rows, (docs, frames, tasks)) = encode_rows r rs ([], [], [])
      in Obj [(''documents'', str_array docs), (''frames'', str_array frames),
           (''tasks'', str_array tasks), (''refs'', Arr rows)])"

definition isStringArray :: "js \<Rightarrow> bool" where
  "isStringArray v \<longleftrightarrow> is_arr v \<and> list_all is_str (the_arr v)"

definition isSafeInteger :: "js \<Rightarrow> bool" where
  "isSafeInteger v = (case v of Num (JInt i) \<Rightarrow> \<bar>i\<bar> \<le> MAX_SAFE_INTEGER | _ \<Rightarrow> False)"

text \<open>\<open>typeof i === "number" ? xs[i] : undefined\<close>\<close>

definition element_at :: "js \<Rightarrow> js \<Rightarrow> string option" where
  "element_at xs i = (case i of
      Num (JInt k) \<Rightarrow> (if 0 \<le> k \<and> nat k < length (the_arr xs) then Some (the_str (the_arr xs ! nat k)) else None)
    | _ \<Rightarrow> None)"

fun decode_row :: "int \<Rightarrow> js \<Rightarrow> js \<Rightarrow> js \<Rightarrow> js \<Rightarrow> (string \<times> target_binding) option" where
  "decode_row tab docs frames tasks (Arr [rid, node, d, f, revision, t, scripting]) =
     (case (element_at docs d, element_at frames f, element_at tasks t) of
        (Some document, Some frame, Some task) \<Rightarrow>
          (if \<not> is_str rid \<or> \<not> isSafeInteger node \<or> \<not> isSafeInteger revision \<or>
              (scripting \<noteq> js_int 0 \<and> scripting \<noteq> js_int 1)
           then None
           else Some (REF_PREFIX @ the_str rid,
             \<lparr>backendNodeId = the_int node, target_document = document, target_frame = frame,
              target_revision = the_int revision, target_task = task, target_tab = tab,
              via_scripting = (scripting = js_int 1)\<rparr>))
      | _ \<Rightarrow> None)"
| "decode_row tab docs frames tasks _ = None"

definition decodeTabRefs :: "int \<Rightarrow> js \<Rightarrow> (string \<times> target_binding) list" where
  "decodeTabRefs tab v = (case v of
      Obj ob \<Rightarrow>
        (let docs = jget ob ''documents''; frames = jget ob ''frames''; tasks = jget ob ''tasks''; rows = jget ob ''refs''
         in if isStringArray docs \<and> isStringArray frames \<and> isStringArray tasks \<and> is_arr rows
            then List.map_filter (decode_row tab docs frames tasks) (the_arr rows) else [])
    | _ \<Rightarrow> [])"

text \<open>The stored list of tab ids.\<close>

definition index_tabs :: "js \<Rightarrow> int list" where
  "index_tabs v = map the_int (filter isSafeInteger (the_arr v))"

section \<open>Loading\<close>

fun add_all :: "(string \<times> target_binding) list \<Rightarrow> registry \<Rightarrow> registry option" where
  "add_all [] r = Some r"
| "add_all ((ref, b) # xs) r = Option.bind (add_ref ref b r) (add_all xs)"

text \<open>The loop over the stored tabs; closed ones only become dirty.\<close>

fun load_tabs ::
  "(int \<Rightarrow> js) \<Rightarrow> int list \<Rightarrow> int list \<Rightarrow> int list \<Rightarrow> registry \<Rightarrow> (int list \<times> registry) option" where
  "load_tabs stored live [] dirty r = Some (dirty, r)"
| "load_tabs stored live (tab # tabs) dirty r =
     (if tab \<notin> set live then load_tabs stored live tabs (set_add tab dirty) r
      else Option.bind (add_all (decodeTabRefs tab (stored tab)) r) (load_tabs stored live tabs dirty))"

definition latest_revision :: "registry \<Rightarrow> string list \<Rightarrow> int" where
  "latest_revision r rs =
     (let revs = map (\<lambda>ref. case binding_of r ref of None \<Rightarrow> 0 | Some b \<Rightarrow> target_revision b) rs
      in foldr max revs (hd revs))"

definition drop_superseded :: "int \<Rightarrow> registry \<Rightarrow> registry" where
  "drop_superseded tab r =
     fold remove_ref (older_refs (latest_revision r (tab_refs r tab)) r (tab_refs r tab)) r"

definition load_finish :: "int list \<Rightarrow> (int \<Rightarrow> js) \<Rightarrow> int list \<Rightarrow> registry \<Rightarrow> registry option" where
  "load_finish tabs stored live r =
     (if tabs = [] then Some r
      else Option.bind (load_tabs stored live tabs (dirtyTabs r) (r\<lparr>refs := [], refsByTab := []\<rparr>))
        (\<lambda>(dirty, r1). Option.bind (add_all (refs r) (r1\<lparr>dirtyTabs := dirty\<rparr>))
          (\<lambda>r2. Some (fold drop_superseded (map fst (refsByTab r2)) r2))))"

section \<open>Persisting, forgetting, clearing\<close>

text \<open>What one \<open>persist\<close> writes: the index, the rows of the dirty tabs and the keys to remove.\<close>

record pending_write =
  write_index :: "int list"
  write_rows :: "(int \<times> js) list"
  write_removed :: "int list"
  write_tabs :: "int list"

definition persist_begin :: "registry \<Rightarrow> (pending_write \<times> registry) option" where
  "persist_begin r =
     (if dirtyTabs r = [] then None
      else Some (\<lparr>write_index = map fst (refsByTab r),
          write_rows = map (\<lambda>tab. (tab, encode_refs r (tab_refs r tab)))
            (filter (\<lambda>tab. map_of (refsByTab r) tab \<noteq> None) (dirtyTabs r)),
          write_removed = filter (\<lambda>tab. map_of (refsByTab r) tab = None) (dirtyTabs r),
          write_tabs = dirtyTabs r\<rparr>, r\<lparr>dirtyTabs := []\<rparr>))"

definition persist_failed :: "pending_write \<Rightarrow> registry \<Rightarrow> registry" where
  "persist_failed w r = r\<lparr>dirtyTabs := fold set_add (write_tabs w) (dirtyTabs r)\<rparr>"

definition forget_tab :: "int \<Rightarrow> registry \<Rightarrow> registry" where
  "forget_tab tab r = fold remove_ref (tab_refs r tab) r"

section \<open>The registry with its storage\<close>

text \<open>
  \<open>minted\<close> is no part of the program: it records every ref ever handed out with its binding.
  \<open>loads\<close> are the loads under way, \<open>writes\<close> the writes under way and what is left of each.
\<close>

datatype load =
    IndexRead "int list"
  | RowsRead "int list" "(int \<times> js) list"

datatype store_write =
    SetItems pending_write
  | RemoveKeys pending_write

record ref_system =
  registry :: registry
  stored_index :: js
  stored_rows :: "(int \<times> js) list"
  loads :: "load list"
  writes :: "store_write list"
  minted :: "(string \<times> target_binding) list"

definition stored_row :: "(int \<times> js) list \<Rightarrow> int \<Rightarrow> js" where
  "stored_row rows tab = (case map_of rows tab of None \<Rightarrow> Undefined | Some v \<Rightarrow> v)"

definition put_rows :: "(int \<times> js) list \<Rightarrow> (int \<times> js) list \<Rightarrow> (int \<times> js) list" where
  "put_rows new rows = fold (\<lambda>(tab, v). AList.update tab v) new rows"

definition start_system :: "ref_system \<Rightarrow> bool" where
  "start_system s \<longleftrightarrow> registry s = empty_registry \<and> stored_rows s = [] \<and> loads s = [] \<and> writes s = [] \<and>
     minted s = []"

inductive ref_step :: "ref_system \<Rightarrow> ref_system \<Rightarrow> bool" where
  rs_mint: "mint b uuids (registry s) = Some (ref, r) \<Longrightarrow> ref \<notin> fst ` set (minted s) \<Longrightarrow>
    ref_step s (s\<lparr>registry := r, minted := (ref, b) # minted s\<rparr>)"
| rs_read_index: "ref_step s (s\<lparr>loads := IndexRead (index_tabs (stored_index s)) # loads s\<rparr>)"
| rs_read_rows: "IndexRead tabs \<in> set (loads s) \<Longrightarrow>
    ref_step s (s\<lparr>loads := RowsRead tabs (stored_rows s) # remove1 (IndexRead tabs) (loads s)\<rparr>)"
| rs_loaded: "RowsRead tabs rows \<in> set (loads s) \<Longrightarrow>
    load_finish tabs (stored_row rows) live (registry s) = Some r \<Longrightarrow>
    ref_step s (s\<lparr>registry := r, loads := remove1 (RowsRead tabs rows) (loads s)\<rparr>)"
| rs_load_failed: "ref_step s (s\<lparr>loads := remove1 l (loads s)\<rparr>)"
| rs_persist: "persist_begin (registry s) = Some (w, r) \<Longrightarrow>
    ref_step s (s\<lparr>registry := r, writes := SetItems w # writes s\<rparr>)"
| rs_set: "SetItems w \<in> set (writes s) \<Longrightarrow>
    ref_step s (s\<lparr>stored_index := Arr (map js_int (write_index w)), stored_rows := put_rows (write_rows w) (stored_rows s),
      writes := RemoveKeys w # remove1 (SetItems w) (writes s)\<rparr>)"
| rs_remove: "RemoveKeys w \<in> set (writes s) \<Longrightarrow>
    ref_step s (s\<lparr>stored_rows := fold AList.delete (write_removed w) (stored_rows s),
      writes := remove1 (RemoveKeys w) (writes s)\<rparr>)"
| rs_write_failed: "SetItems w \<in> set (writes s) \<or> RemoveKeys w \<in> set (writes s) \<Longrightarrow>
    ref_step s (s\<lparr>registry := persist_failed w (registry s),
      writes := remove1 (SetItems w) (remove1 (RemoveKeys w) (writes s))\<rparr>)"
| rs_forget: "ref_step s (s\<lparr>registry := forget_tab tab (registry s)\<rparr>)"
| rs_clear_storage: "ref_step s (s\<lparr>stored_index := Undefined,
    stored_rows := fold AList.delete (index_tabs (stored_index s)) (stored_rows s)\<rparr>)"
| rs_cleared: "ref_step s (s\<lparr>registry := empty_registry\<rparr>)"
| rs_restart: "ref_step s (s\<lparr>registry := empty_registry, loads := [], writes := []\<rparr>)"

inductive_cases ref_stepE: "ref_step s t"

definition refs_reachable :: "ref_system \<Rightarrow> bool" where
  "refs_reachable s \<longleftrightarrow> reach start_system ref_step s"

end
