(* ===== verification/TargetRefsFacts.thy ===== *)
theory TargetRefsFacts
  imports TargetRefs
begin

text \<open>
  Lemmas about the target registry: the two indexes agree (\<open>index_ok\<close>), what removing, trimming and
  adding do to both (\<open>thinned\<close>), the stored form round trips, and the invariant of the registry with
  its storage.
\<close>

section \<open>Well-formed registries\<close>

definition index_ok :: "registry \<Rightarrow> bool" where
  "index_ok r \<longleftrightarrow> distinct (map fst (refs r)) \<and> distinct (map fst (refsByTab r)) \<and>
     (\<forall>(tab, rs) \<in> set (refsByTab r). rs \<noteq> [] \<and> distinct rs) \<and>
     (\<forall>tab ref. ref \<in> set (tab_refs r tab) \<longleftrightarrow> (\<exists>b. binding_of r ref = Some b \<and> target_tab b = tab))"

definition within_caps :: "registry \<Rightarrow> bool" where
  "within_caps r \<longleftrightarrow> length (refs r) \<le> MAX_TARGET_REFS \<and>
     (\<forall>tab. length (tab_refs r tab) \<le> MAX_TARGET_REFS_PER_TAB)"

lemma index_ok_empty [simp]: "index_ok empty_registry"
  by (simp add: index_ok_def empty_registry_def tab_refs_def binding_of_def)

lemma within_caps_empty [simp]: "within_caps empty_registry"
  by (simp add: within_caps_def empty_registry_def tab_refs_def)

lemma tab_refs_iff:
  "index_ok r \<Longrightarrow> ref \<in> set (tab_refs r tab) \<longleftrightarrow> (\<exists>b. binding_of r ref = Some b \<and> target_tab b = tab)"
  by (simp add: index_ok_def)

lemma index_ok_refs: "index_ok r \<Longrightarrow> distinct (map fst (refs r))"
  by (simp add: index_ok_def)

lemma index_ok_entry: "index_ok r \<Longrightarrow> map_of (refsByTab r) tab = Some rs \<Longrightarrow> rs \<noteq> [] \<and> distinct rs"
  by (auto simp: index_ok_def dest: map_of_SomeD)

lemma distinct_tab_refs: "index_ok r \<Longrightarrow> distinct (tab_refs r tab)"
  by (cases "map_of (refsByTab r) tab") (simp_all add: tab_refs_def index_ok_entry)

lemma tab_listed: "index_ok r \<Longrightarrow> map_of (refsByTab r) tab = None \<longleftrightarrow> tab_refs r tab = []"
  by (cases "map_of (refsByTab r) tab") (simp_all add: tab_refs_def index_ok_entry)

lemma binding_of_set: "index_ok r \<Longrightarrow> binding_of r ref = Some b \<longleftrightarrow> (ref, b) \<in> set (refs r)"
  by (simp add: binding_of_def index_ok_refs map_of_eq_Some_iff)

lemma set_add_set [simp]: "set (set_add x xs) = insert x (set xs)"
  by (auto simp: set_add_def)

lemma distinct_set_add [simp]: "distinct (set_add x xs) \<longleftrightarrow> distinct xs"
  by (simp add: set_add_def)

lemma set_add_not_Nil [simp]: "set_add x xs \<noteq> []"
  by (auto simp: set_add_def)

lemma index_ok_dirty [simp]: "index_ok (r\<lparr>dirtyTabs := d\<rparr>) = index_ok r"
  unfolding index_ok_def tab_refs_def binding_of_def by simp

section \<open>Removing\<close>

text \<open>\<open>r'\<close> is \<open>r\<close> without the refs of \<open>S\<close>, in both indexes.\<close>

definition thinned :: "string set \<Rightarrow> registry \<Rightarrow> registry \<Rightarrow> bool" where
  "thinned S r r' \<longleftrightarrow> refs r' = filter (\<lambda>p. fst p \<notin> S) (refs r) \<and>
     (\<forall>tab. tab_refs r' tab = filter (\<lambda>x. x \<notin> S) (tab_refs r tab)) \<and> index_ok r'"

lemma thinned_refl: "index_ok r \<Longrightarrow> thinned {} r r"
  by (simp add: thinned_def)

lemma thinned_trans: "thinned S r r1 \<Longrightarrow> thinned T r1 r2 \<Longrightarrow> thinned (S \<union> T) r r2"
  by (auto simp: thinned_def intro: filter_cong)

lemma thinned_ok: "thinned S r r' \<Longrightarrow> index_ok r'"
  by (simp add: thinned_def)

lemma map_of_filter_fst: "map_of (filter (\<lambda>p. Q (fst p)) xs) k = (if Q k then map_of xs k else None)"
  by (induction xs) auto

lemma thinned_binding: "thinned S r r' \<Longrightarrow> binding_of r' ref = (if ref \<in> S then None else binding_of r ref)"
  using map_of_filter_fst [of "\<lambda>x. x \<notin> S" "refs r" ref] by (simp add: thinned_def binding_of_def)

lemma delete_is_filter: "AList.delete k xs = filter (\<lambda>p. fst p \<noteq> k) xs"
  by (induction xs) auto

lemma tab_refs_removed:
  assumes ok: "index_ok r" and b: "binding_of r ref = Some b"
  shows "tab_refs (remove_ref ref r) tab = filter (\<lambda>x. x \<noteq> ref) (tab_refs r tab)"
proof (cases "tab = target_tab b")
  case True
  then show ?thesis
    using b by (auto simp: remove_ref_def tab_refs_def Let_def split: option.splits)
next
  case False
  then have "ref \<notin> set (tab_refs r tab)" using tab_refs_iff [OF ok] b by simp
  then have "filter (\<lambda>x. x \<noteq> ref) (tab_refs r tab) = tab_refs r tab" by (auto simp: filter_id_conv)
  moreover have "tab_refs (remove_ref ref r) tab = tab_refs r tab"
    using b False
    by (simp add: remove_ref_def tab_refs_def Let_def AList.delete_conv' split: option.split)
  ultimately show ?thesis by simp
qed

lemma remove_thins:
  assumes ok: "index_ok r" shows "thinned {ref} r (remove_ref ref r)"
proof (cases "binding_of r ref")
  case None
  then have "ref \<notin> set (tab_refs r tab)" for tab using tab_refs_iff [OF ok] by simp
  then have "filter (\<lambda>x. x \<noteq> ref) (tab_refs r tab) = tab_refs r tab" for tab
    unfolding filter_id_conv by metis
  moreover have "filter (\<lambda>p. fst p \<noteq> ref) (refs r) = refs r"
    using None by (fastforce simp: filter_id_conv binding_of_def map_of_eq_None_iff)
  moreover have "remove_ref ref r = r" using None by (simp add: remove_ref_def)
  ultimately show ?thesis using ok by (simp add: thinned_def)
next
  case (Some b)
  let ?r = "remove_ref ref r"
  have refs: "refs ?r = filter (\<lambda>p. fst p \<noteq> ref) (refs r)"
    using Some by (simp add: remove_ref_def Let_def delete_is_filter split: option.split)
  have binding: "binding_of ?r x = (if x = ref then None else binding_of r x)" for x
    using map_of_filter_fst [of "\<lambda>x. x \<noteq> ref" "refs r" x] by (simp add: binding_of_def refs)
  note tabs = tab_refs_removed [OF ok Some]
  have "distinct (map fst (refs ?r))"
    using index_ok_refs [OF ok] by (simp add: refs distinct_map_filter)
  moreover have "distinct (map fst (refsByTab ?r))"
    using ok Some by (auto simp: index_ok_def remove_ref_def Let_def intro: distinct_keys_update distinct_keys_delete
        split: option.split)
  moreover have "\<forall>(tab, rs) \<in> set (refsByTab ?r). rs \<noteq> [] \<and> distinct rs"
    using ok Some
    by (auto simp: index_ok_def remove_ref_def Let_def set_delete split: option.splits if_splits
        dest!: subsetD [OF set_update_subset] map_of_SomeD)
  moreover have "x \<in> set (tab_refs ?r tab) \<longleftrightarrow> (\<exists>b. binding_of ?r x = Some b \<and> target_tab b = tab)" for x tab
    using tab_refs_iff [OF ok] by (simp add: tabs binding)
  ultimately have "index_ok ?r" by (simp add: index_ok_def)
  then show ?thesis by (simp add: thinned_def refs tabs)
qed

lemma fold_remove_thins: "index_ok r \<Longrightarrow> thinned (set rs) r (fold remove_ref rs r)"
proof (induction rs arbitrary: r)
  case Nil
  then show ?case by (simp add: thinned_refl)
next
  case (Cons x xs)
  have t: "thinned {x} r (remove_ref x r)" by (rule remove_thins [OF Cons.prems])
  have "thinned ({x} \<union> set xs) r (fold remove_ref xs (remove_ref x r))"
    by (rule thinned_trans [OF t Cons.IH [OF thinned_ok [OF t]]])
  then show ?case by simp
qed

lemma thinned_caps: "thinned S r r' \<Longrightarrow> within_caps r \<Longrightarrow> within_caps r'"
  by (auto simp: thinned_def within_caps_def intro: order_trans [OF length_filter_le])

section \<open>Trimming and adding\<close>

lemma caps_positive: "0 < MAX_TARGET_REFS_PER_TAB" "0 < MAX_TARGET_REFS"
  by (simp_all add: MAX_TARGET_REFS_PER_TAB_def MAX_TARGET_REFS_def)

lemma trim_tab_ends:
  "index_ok r \<Longrightarrow> \<exists>S r'. trim_tab tab r = Some r' \<and> thinned S r r' \<and> length (tab_refs r' tab) < MAX_TARGET_REFS_PER_TAB"
proof (induction "length (tab_refs r tab)" arbitrary: r rule: less_induct)
  case less
  show ?case
  proof (cases "length (tab_refs r tab) < MAX_TARGET_REFS_PER_TAB")
    case True
    then show ?thesis using thinned_refl [OF less.prems] by (subst trim_tab.simps) auto
  next
    case False
    then obtain x xs where x: "tab_refs r tab = x # xs" using caps_positive by (cases "tab_refs r tab") auto
    have t: "thinned {x} r (remove_ref x r)" by (rule remove_thins [OF less.prems])
    have "length (tab_refs (remove_ref x r) tab) < length (tab_refs r tab)"
      using t x by (simp add: thinned_def le_imp_less_Suc)
    then obtain S r' where "trim_tab tab (remove_ref x r) = Some r'" "thinned S (remove_ref x r) r'"
        "length (tab_refs r' tab) < MAX_TARGET_REFS_PER_TAB"
      using less.hyps [OF _ thinned_ok [OF t]] by blast
    then show ?thesis using thinned_trans [OF t] False x by (subst trim_tab.simps) auto
  qed
qed

lemma trim_all_thins: "index_ok r \<Longrightarrow> \<exists>S. thinned S r (trim_all r) \<and> length (refs (trim_all r)) < MAX_TARGET_REFS"
proof (induction r rule: trim_all.induct)
  case (1 r)
  show ?case
  proof (cases "length (refs r) < MAX_TARGET_REFS")
    case True
    then show ?thesis using thinned_refl [OF 1(2)] by (subst (1 2) trim_all.simps) auto
  next
    case False
    then obtain p xs where p: "refs r = p # xs" using caps_positive by (cases "refs r") auto
    have t: "thinned {fst p} r (remove_ref (fst p) r)" by (rule remove_thins [OF 1(2)])
    obtain S where "thinned S (remove_ref (fst p) r) (trim_all (remove_ref (fst p) r))"
        "length (refs (trim_all (remove_ref (fst p) r))) < MAX_TARGET_REFS"
      using "1.IH" [OF False p thinned_ok [OF t]] by blast
    then show ?thesis using thinned_trans [OF t] False p by (subst (1 2) trim_all.simps) auto
  qed
qed

text \<open>A ref may be written again only for the tab that already holds it.\<close>

definition fits :: "registry \<Rightarrow> string \<Rightarrow> target_binding \<Rightarrow> bool" where
  "fits r ref b \<longleftrightarrow> (case binding_of r ref of None \<Rightarrow> True | Some b' \<Rightarrow> target_tab b' = target_tab b)"

lemma binding_insert [simp]: "binding_of (insert_ref ref b r) x = (if x = ref then Some b else binding_of r x)"
  by (simp add: binding_of_def insert_ref_def)

lemma tab_refs_insert [simp]: "tab_refs (insert_ref ref b r) tab =
    (if tab = target_tab b then set_add ref (tab_refs r tab) else tab_refs r tab)"
  by (simp add: tab_refs_def insert_ref_def)

lemma insert_ok:
  assumes ok: "index_ok r" and fits: "fits r ref b"
  shows "index_ok (insert_ref ref b r)"
proof -
  let ?r = "insert_ref ref b r"
  have "\<forall>(tab, rs) \<in> set (refsByTab ?r). rs \<noteq> [] \<and> distinct rs"
    using ok distinct_tab_refs [OF ok, of "target_tab b"]
    by (auto simp: insert_ref_def index_ok_def dest!: subsetD [OF set_update_subset])
  moreover have "x \<in> set (tab_refs ?r tab) \<longleftrightarrow> (\<exists>c. binding_of ?r x = Some c \<and> target_tab c = tab)" for x tab
    using fits tab_refs_iff [OF ok, of x tab] by (auto simp: fits_def split: option.splits)
  ultimately show ?thesis
    using ok by (auto simp: index_ok_def insert_ref_def intro: distinct_keys_update)
qed

lemma length_update_le: "length (AList.update k v al) \<le> Suc (length al)"
  by (induction al) auto

lemma length_insert: "length (refs (insert_ref ref b r)) \<le> Suc (length (refs r))"
  by (simp add: insert_ref_def length_update_le)

lemma insert_caps:
  assumes "within_caps r" "length (refs r) < MAX_TARGET_REFS"
    and "length (tab_refs r (target_tab b)) < MAX_TARGET_REFS_PER_TAB"
  shows "within_caps (insert_ref ref b r)"
proof -
  have "length (refs (insert_ref ref b r)) \<le> MAX_TARGET_REFS" using length_insert [of ref b r] assms(2) by linarith
  moreover have "length (tab_refs (insert_ref ref b r) tab) \<le> MAX_TARGET_REFS_PER_TAB" for tab
    using assms(1,3) by (simp add: within_caps_def set_add_def)
  ultimately show ?thesis by (simp add: within_caps_def)
qed

lemma thinned_fits: "thinned S r r1 \<Longrightarrow> fits r ref b \<Longrightarrow> fits r1 ref b"
  by (simp add: fits_def thinned_binding)

lemma add_ref_ends:
  assumes ok: "index_ok r"
  shows "\<exists>S r1. thinned S r r1 \<and> add_ref ref b r = Some (insert_ref ref b r1) \<and>
    length (tab_refs r1 (target_tab b)) < MAX_TARGET_REFS_PER_TAB \<and> length (refs r1) < MAX_TARGET_REFS"
proof -
  obtain S r0 where r0: "trim_tab (target_tab b) r = Some r0" "thinned S r r0"
      "length (tab_refs r0 (target_tab b)) < MAX_TARGET_REFS_PER_TAB"
    using trim_tab_ends [OF ok] by blast
  obtain T where T: "thinned T r0 (trim_all r0)" "length (refs (trim_all r0)) < MAX_TARGET_REFS"
    using trim_all_thins [OF thinned_ok [OF r0(2)]] by blast
  have "length (tab_refs (trim_all r0) (target_tab b)) \<le> length (tab_refs r0 (target_tab b))"
    using T(1) by (simp add: thinned_def)
  then have "length (tab_refs (trim_all r0) (target_tab b)) < MAX_TARGET_REFS_PER_TAB" using r0(3) by simp
  moreover have "add_ref ref b r = Some (insert_ref ref b (trim_all r0))" using r0(1) by (simp add: add_ref_def)
  ultimately show ?thesis using T(2) thinned_trans [OF r0(2) T(1)] by blast
qed

lemma add_below_caps:
  assumes "length (tab_refs r (target_tab b)) < MAX_TARGET_REFS_PER_TAB" "length (refs r) < MAX_TARGET_REFS"
  shows "add_ref ref b r = Some (insert_ref ref b r)"
  using assms by (simp add: add_ref_def trim_tab.simps [of "target_tab b" r] trim_all.simps [of r])

section \<open>Every operation keeps a sound registry\<close>

text \<open>\<open>sound M r\<close>: the indexes agree, the caps hold and every entry of \<open>r\<close> is one of \<open>M\<close>.\<close>

definition sound :: "(string \<times> target_binding) set \<Rightarrow> registry \<Rightarrow> bool" where
  "sound M r \<longleftrightarrow> index_ok r \<and> within_caps r \<and> set (refs r) \<subseteq> M"

lemma soundD: "sound M r \<Longrightarrow> index_ok r" "sound M r \<Longrightarrow> within_caps r" "sound M r \<Longrightarrow> set (refs r) \<subseteq> M"
  by (simp_all add: sound_def)

lemma sound_empty [simp]: "sound M empty_registry"
  by (simp add: sound_def) (simp add: empty_registry_def)

lemma sound_thinned: "thinned S r r' \<Longrightarrow> sound M r \<Longrightarrow> sound M r'"
  using thinned_caps by (auto simp: sound_def thinned_def)

lemma sound_mono: "sound M r \<Longrightarrow> M \<subseteq> N \<Longrightarrow> sound N r"
  by (auto simp: sound_def)

lemma sound_dirty [simp]: "sound M (r\<lparr>dirtyTabs := d\<rparr>) = sound M r"
  by (simp add: sound_def index_ok_def within_caps_def tab_refs_def binding_of_def)

lemma sound_add:
  assumes r: "sound M r" and b: "(ref, b) \<in> M" and fits: "fits r ref b"
  shows "\<exists>r'. add_ref ref b r = Some r' \<and> sound M r' \<and> binding_of r' ref = Some b"
proof -
  obtain S r1 where t: "thinned S r r1" and a: "add_ref ref b r = Some (insert_ref ref b r1)"
      and l: "length (tab_refs r1 (target_tab b)) < MAX_TARGET_REFS_PER_TAB" "length (refs r1) < MAX_TARGET_REFS"
    using add_ref_ends [OF soundD(1) [OF r]] by blast
  have s: "sound M r1" by (rule sound_thinned [OF t r])
  have "index_ok (insert_ref ref b r1)" by (rule insert_ok [OF thinned_ok [OF t] thinned_fits [OF t fits]])
  moreover have "within_caps (insert_ref ref b r1)" by (rule insert_caps [OF soundD(2) [OF s] l(2,1)])
  moreover have "set (refs (insert_ref ref b r1)) \<subseteq> M"
    using soundD(3) [OF s] b by (auto simp: insert_ref_def dest!: subsetD [OF set_update_subset])
  ultimately show ?thesis using a by (simp add: sound_def)
qed

lemma fits_same:
  assumes "sound M r" "(ref, b) \<in> M" "single_valued M" shows "fits r ref b"
proof (cases "binding_of r ref")
  case None
  then show ?thesis by (simp add: fits_def)
next
  case (Some c)
  then have "(ref, c) \<in> M" using assms(1) by (auto simp: sound_def binding_of_set)
  then have "c = b" using assms(2,3) by (simp add: single_valued_def)
  then show ?thesis using Some by (simp add: fits_def)
qed

lemma sound_add_all:
  "sound M r \<Longrightarrow> set xs \<subseteq> M \<Longrightarrow> single_valued M \<Longrightarrow> \<exists>r'. add_all xs r = Some r' \<and> sound M r'"
proof (induction xs arbitrary: r)
  case (Cons x xs)
  obtain ref b where x: "x = (ref, b)" by (cases x)
  have xM: "(ref, b) \<in> M" using Cons.prems(2) x by simp
  obtain r1 where "add_ref ref b r = Some r1" "sound M r1"
    using sound_add [OF Cons.prems(1) xM fits_same [OF Cons.prems(1) xM Cons.prems(3)]] by blast
  then show ?case using Cons.IH [of r1] Cons.prems x by simp
qed simp

lemma sound_load_tabs:
  "sound M r \<Longrightarrow> \<forall>tab. set (decodeTabRefs tab (stored tab)) \<subseteq> M \<Longrightarrow> single_valued M \<Longrightarrow>
   \<exists>dirty' r'. load_tabs stored live tabs dirty r = Some (dirty', r') \<and> sound M r'"
proof (induction tabs arbitrary: dirty r)
  case (Cons tab tabs)
  then obtain r1 where "add_all (decodeTabRefs tab (stored tab)) r = Some r1" "sound M r1"
    using sound_add_all by blast
  then show ?case using Cons by simp
qed simp

lemma sound_drop_superseded: "sound M r \<Longrightarrow> sound M (drop_superseded tab r)"
  unfolding drop_superseded_def by (metis fold_remove_thins soundD(1) sound_thinned)

lemma sound_fold_drop: "sound M r \<Longrightarrow> sound M (fold drop_superseded tabs r)"
  by (induction tabs arbitrary: r) (simp_all add: sound_drop_superseded)

lemma sound_emptied [simp]: "sound M (r\<lparr>refs := [], refsByTab := []\<rparr>)"
  by (simp add: sound_def index_ok_def within_caps_def tab_refs_def binding_of_def)

lemma sound_load:
  assumes r: "sound M r" and stored: "\<forall>tab. set (decodeTabRefs tab (stored tab)) \<subseteq> M" and M: "single_valued M"
  shows "\<exists>r'. load_finish tabs stored live r = Some r' \<and> sound M r'"
proof (cases "tabs = []")
  case False
  obtain dirty r1 where 1: "load_tabs stored live tabs (dirtyTabs r) (r\<lparr>refs := [], refsByTab := []\<rparr>) = Some (dirty, r1)"
      "sound M r1"
    using sound_load_tabs [OF sound_emptied stored M] by blast
  have "sound M (r1\<lparr>dirtyTabs := dirty\<rparr>)" using 1(2) by simp
  then obtain r2 where "add_all (refs r) (r1\<lparr>dirtyTabs := dirty\<rparr>) = Some r2" "sound M r2"
    using sound_add_all [OF _ soundD(3) [OF r] M] by blast
  then show ?thesis using 1 False by (simp add: load_finish_def sound_fold_drop)
qed (simp add: load_finish_def r)

lemma sound_forget: "sound M r \<Longrightarrow> sound M (forget_tab tab r)"
  unfolding forget_tab_def by (metis fold_remove_thins soundD(1) sound_thinned)

lemma forget_binding:
  assumes ok: "index_ok r"
  shows "binding_of (forget_tab tab r) ref =
    (case binding_of r ref of None \<Rightarrow> None | Some b \<Rightarrow> if target_tab b = tab then None else Some b)"
  using thinned_binding [OF fold_remove_thins [OF ok, of "tab_refs r tab"], of ref] tab_refs_iff [OF ok, of ref tab]
  by (auto simp: forget_tab_def split: option.split)

section \<open>Minting\<close>

lemma mint_split:
  assumes m: "mint b uuids r = Some (ref, r')"
    and r1: "r1 = fold remove_ref (older_refs (target_revision b) r (tab_refs r (target_tab b))) r"
  shows "\<exists>u. ref = REF_PREFIX @ u \<and> binding_of r1 ref = None \<and> add_ref ref b r1 = Some r'"
proof -
  obtain u where u: "find (\<lambda>u. binding_of r1 (REF_PREFIX @ u) = None) uuids = Some u"
    using m by (cases "find (\<lambda>u. binding_of r1 (REF_PREFIX @ u) = None) uuids") (simp_all add: mint_def Let_def r1)
  have "map_option (\<lambda>r2. (REF_PREFIX @ u, r2)) (add_ref (REF_PREFIX @ u) b r1) = Some (ref, r')"
    using m unfolding mint_def Let_def r1 [symmetric] u by (simp only: option.case)
  then have a: "add_ref (REF_PREFIX @ u) b r1 = Some r'" and ref: "ref = REF_PREFIX @ u" by auto
  have "binding_of r1 (REF_PREFIX @ u) = None" using u by (auto simp: find_Some_iff)
  then show ?thesis using a unfolding ref by blast
qed

lemma mint_steps:
  assumes ok: "index_ok r" and m: "mint b uuids r = Some (ref, r')"
  shows "\<exists>S r1. thinned S r r1 \<and> set (older_refs (target_revision b) r (tab_refs r (target_tab b))) \<subseteq> S \<and>
    (\<exists>u. ref = REF_PREFIX @ u) \<and> r' = insert_ref ref b r1 \<and> binding_of r1 ref = None \<and>
    length (tab_refs r1 (target_tab b)) < MAX_TARGET_REFS_PER_TAB \<and> length (refs r1) < MAX_TARGET_REFS"
proof -
  let ?olds = "older_refs (target_revision b) r (tab_refs r (target_tab b))"
  let ?r = "fold remove_ref ?olds r"
  have t: "thinned (set ?olds) r ?r" by (rule fold_remove_thins [OF ok])
  obtain u where u: "ref = REF_PREFIX @ u" "binding_of ?r ref = None" "add_ref ref b ?r = Some r'"
    using mint_split [OF m refl] by blast
  obtain S r1 where S: "thinned S ?r r1" "add_ref ref b ?r = Some (insert_ref ref b r1)"
      "length (tab_refs r1 (target_tab b)) < MAX_TARGET_REFS_PER_TAB" "length (refs r1) < MAX_TARGET_REFS"
    using add_ref_ends [OF thinned_ok [OF t], of ref b] by blast
  have "binding_of r1 ref = None" using thinned_binding [OF S(1)] u(2) by simp
  moreover have "r' = insert_ref ref b r1" using S(2) u(3) by simp
  ultimately show ?thesis using thinned_trans [OF t S(1)] S(3,4) u(1) by blast
qed

lemma sound_mint:
  assumes r: "sound M r" and m: "mint b uuids r = Some (ref, r')"
  shows "sound (insert (ref, b) M) r'"
proof -
  obtain S r1 where t: "thinned S r r1" and r': "r' = insert_ref ref b r1" and f: "binding_of r1 ref = None"
      and l: "length (tab_refs r1 (target_tab b)) < MAX_TARGET_REFS_PER_TAB" "length (refs r1) < MAX_TARGET_REFS"
    using mint_steps [OF soundD(1) [OF r] m] by blast
  have s: "sound M r1" by (rule sound_thinned [OF t r])
  have "index_ok r'" using insert_ok [OF thinned_ok [OF t]] f r' by (simp add: fits_def)
  moreover have "within_caps r'" using insert_caps [OF soundD(2) [OF s] l(2,1)] r' by simp
  moreover have "set (refs r') \<subseteq> insert (ref, b) M"
    using soundD(3) [OF s] r' by (auto simp: insert_ref_def dest!: subsetD [OF set_update_subset])
  ultimately show ?thesis by (simp add: sound_def)
qed

text \<open>With one unused id among those drawn, minting succeeds.\<close>

lemma mint_ends:
  assumes ok: "index_ok r" and u: "u \<in> set uuids" "binding_of r (REF_PREFIX @ u) = None"
  shows "mint b uuids r \<noteq> None"
proof -
  let ?r = "fold remove_ref (older_refs (target_revision b) r (tab_refs r (target_tab b))) r"
  have t: "thinned (set (older_refs (target_revision b) r (tab_refs r (target_tab b)))) r ?r"
    by (rule fold_remove_thins [OF ok])
  have "binding_of ?r (REF_PREFIX @ u) = None" using thinned_binding [OF t] u(2) by simp
  then have "find (\<lambda>u. binding_of ?r (REF_PREFIX @ u) = None) uuids \<noteq> None"
    using u(1) by (auto simp: find_None_iff)
  then obtain v where "find (\<lambda>u. binding_of ?r (REF_PREFIX @ u) = None) uuids = Some v" by blast
  moreover obtain r1 where "add_ref (REF_PREFIX @ v) b ?r = Some r1" using add_ref_ends [OF thinned_ok [OF t]] by blast
  ultimately show ?thesis by (simp add: mint_def)
qed

section \<open>The stored form\<close>

lemma index_of_found: "x \<in> set xs \<Longrightarrow> index_of x xs < length xs \<and> xs ! index_of x xs = x"
  by (induction xs) auto

lemma index_of_missing: "x \<notin> set xs \<Longrightarrow> index_of x xs = length xs"
  by (induction xs) auto

lemma interned: "set_add x table @ e = D \<Longrightarrow> element_at (str_array D) (js_int (int (index_of x table))) = Some x"
  using index_of_found [of x table]
  by (auto simp: set_add_def element_at_def str_array_def js_int_def index_of_missing nth_append)

lemma is_arr_str_array [simp]: "isStringArray (str_array xs)" "is_arr (str_array xs)"
  by (auto simp: isStringArray_def str_array_def list_all_iff)

lemma set_add_extends: "\<exists>e. set_add x xs = xs @ e"
  by (simp add: set_add_def)

definition safe_binding :: "target_binding \<Rightarrow> bool" where
  "safe_binding b \<longleftrightarrow> \<bar>backendNodeId b\<bar> \<le> MAX_SAFE_INTEGER \<and> \<bar>target_revision b\<bar> \<le> MAX_SAFE_INTEGER"

definition entries :: "registry \<Rightarrow> string list \<Rightarrow> (string \<times> target_binding) list" where
  "entries r rs = List.map_filter (\<lambda>ref. map_option (Pair ref) (binding_of r ref)) rs"

definition prefixed :: "string \<Rightarrow> bool" where
  "prefixed ref \<longleftrightarrow> take 4 ref = REF_PREFIX"

lemma prefixed_drop: "prefixed ref \<Longrightarrow> REF_PREFIX @ drop 4 ref = ref"
  unfolding prefixed_def by (metis append_take_drop_id)

lemma encode_rows_extends:
  "encode_rows r rs (d, f, t) = (rows, (d', f', t')) \<Longrightarrow>
   (\<exists>e. d' = d @ e) \<and> (\<exists>e. f' = f @ e) \<and> (\<exists>e. t' = t @ e)"
proof (induction rs arbitrary: d f t rows)
  case (Cons x rs)
  show ?case
  proof (cases "binding_of r x")
    case None
    then show ?thesis using Cons by simp
  next
    case (Some b)
    then obtain rows' where
      "encode_rows r rs (set_add (target_document b) d, set_add (target_frame b) f, set_add (target_task b) t)
        = (rows', (d', f', t'))"
      using Cons.prems by (auto simp: intern_def Let_def split: prod.splits)
    then show ?thesis
      using Cons.IH set_add_extends [of "target_document b" d] set_add_extends [of "target_frame b" f]
        set_add_extends [of "target_task b" t] by fastforce
  qed
qed simp

lemma decode_encoded_row:
  assumes "prefixed ref" and "target_tab b = tab"
    and "encode_row ref b (d, f, t) = (row, (d', f', t'))"
    and "D = d' @ d''" "F = f' @ f''" "T = t' @ t''"
  shows "decode_row tab (str_array D) (str_array F) (str_array T) row = (if safe_binding b then Some (ref, b) else None)"
proof -
  have "d' = set_add (target_document b) d" "f' = set_add (target_frame b) f" "t' = set_add (target_task b) t"
    and row: "row = Arr [Str (drop 4 ref), js_int (backendNodeId b), js_int (int (index_of (target_document b) d)),
      js_int (int (index_of (target_frame b) f)), js_int (target_revision b), js_int (int (index_of (target_task b) t)),
      js_int (if via_scripting b then 1 else 0)]"
    using assms(3) by (auto simp: intern_def Let_def)
  then have "element_at (str_array D) (js_int (int (index_of (target_document b) d))) = Some (target_document b)"
    "element_at (str_array F) (js_int (int (index_of (target_frame b) f))) = Some (target_frame b)"
    "element_at (str_array T) (js_int (int (index_of (target_task b) t))) = Some (target_task b)"
    using assms(4-6) by (auto intro: interned [OF sym])
  then show ?thesis
    using assms(2) prefixed_drop [OF assms(1)]
    by (auto simp: row safe_binding_def isSafeInteger_def js_int_def)
qed

lemma decode_encoded_rows:
  "encode_rows r rs (d, f, t) = (rows, (d', f', t')) \<Longrightarrow>
   \<forall>ref \<in> set rs. prefixed ref \<and> (\<forall>b. binding_of r ref = Some b \<longrightarrow> target_tab b = tab) \<Longrightarrow>
   D = d' @ d'' \<Longrightarrow> F = f' @ f'' \<Longrightarrow> T = t' @ t'' \<Longrightarrow>
   List.map_filter (decode_row tab (str_array D) (str_array F) (str_array T)) rows
     = filter (\<lambda>p. safe_binding (snd p)) (entries r rs)"
proof (induction rs arbitrary: d f t rows)
  case Nil
  then show ?case by (simp add: entries_def List.map_filter_def)
next
  case (Cons x rs)
  show ?case
  proof (cases "binding_of r x")
    case None
    then show ?thesis using Cons by (simp add: entries_def map_filter_simps)
  next
    case (Some b)
    obtain row d1 f1 t1 where e: "encode_row x b (d, f, t) = (row, (d1, f1, t1))"
      by (cases "encode_row x b (d, f, t)") auto
    obtain rows' where rows: "rows = row # rows'" "encode_rows r rs (d1, f1, t1) = (rows', (d', f', t'))"
      using Cons.prems(1) Some e by (auto simp: Let_def split: prod.splits)
    obtain u v w where ext: "d' = d1 @ u" "f' = f1 @ v" "t' = t1 @ w"
      using encode_rows_extends [OF rows(2)] by blast
    have "decode_row tab (str_array D) (str_array F) (str_array T) row
        = (if safe_binding b then Some (x, b) else None)"
      using Cons.prems(2-5) Some ext
      by (intro decode_encoded_row [OF _ _ e, of tab D "u @ d''" F "v @ f''" T "w @ t''"]) auto
    moreover have "List.map_filter (decode_row tab (str_array D) (str_array F) (str_array T)) rows'
        = filter (\<lambda>p. safe_binding (snd p)) (entries r rs)"
      using Cons.IH [OF rows(2)] Cons.prems(2-5) by simp
    ultimately show ?thesis using Some rows(1) by (simp add: entries_def map_filter_simps)
  qed
qed

lemma decode_encode:
  assumes "\<forall>ref \<in> set rs. prefixed ref \<and> (\<forall>b. binding_of r ref = Some b \<longrightarrow> target_tab b = tab)"
  shows "decodeTabRefs tab (encode_refs r rs) = filter (\<lambda>p. safe_binding (snd p)) (entries r rs)"
proof -
  obtain rows d f t where e: "encode_rows r rs ([], [], []) = (rows, (d, f, t))"
    by (cases "encode_rows r rs ([], [], [])") auto
  show ?thesis
    using decode_encoded_rows [OF e assms, of d "[]" f "[]" t "[]"] e
    by (simp add: encode_refs_def decodeTabRefs_def)
qed

lemma set_entries: "set (entries r rs) = {(ref, b). ref \<in> set rs \<and> binding_of r ref = Some b}"
  by (induction rs) (auto simp: entries_def map_filter_simps split: option.split)

section \<open>The registry with its storage\<close>

definition rows_from :: "(string \<times> target_binding) set \<Rightarrow> (int \<times> js) list \<Rightarrow> bool" where
  "rows_from M rows \<longleftrightarrow> (\<forall>(tab, v) \<in> set rows. set (decodeTabRefs tab v) \<subseteq> M)"

fun load_from :: "(string \<times> target_binding) set \<Rightarrow> load \<Rightarrow> bool" where
  "load_from M (IndexRead tabs) = True"
| "load_from M (RowsRead tabs rows) = rows_from M rows"

fun write_from :: "(string \<times> target_binding) set \<Rightarrow> store_write \<Rightarrow> bool" where
  "write_from M (SetItems w) = rows_from M (write_rows w)"
| "write_from M (RemoveKeys w) = True"

definition system_ok :: "ref_system \<Rightarrow> bool" where
  "system_ok s \<longleftrightarrow> distinct (map fst (minted s)) \<and> (\<forall>p \<in> set (minted s). prefixed (fst p)) \<and>
     sound (set (minted s)) (registry s) \<and> rows_from (set (minted s)) (stored_rows s) \<and>
     (\<forall>l \<in> set (loads s). load_from (set (minted s)) l) \<and> (\<forall>w \<in> set (writes s). write_from (set (minted s)) w)"

lemma rows_from_mono: "rows_from M rows \<Longrightarrow> M \<subseteq> N \<Longrightarrow> rows_from N rows"
  by (fastforce simp: rows_from_def)

lemma load_from_mono: "load_from M l \<Longrightarrow> M \<subseteq> N \<Longrightarrow> load_from N l"
  by (cases l) (auto intro: rows_from_mono)

lemma write_from_mono: "write_from M w \<Longrightarrow> M \<subseteq> N \<Longrightarrow> write_from N w"
  by (cases w) (auto intro: rows_from_mono)

lemma rows_from_subset: "rows_from M rows \<Longrightarrow> set rows' \<subseteq> set rows \<Longrightarrow> rows_from M rows'"
  by (auto simp: rows_from_def)

lemma decode_undefined [simp]: "decodeTabRefs tab Undefined = []"
  by (simp add: decodeTabRefs_def)

lemma rows_from_stored: "rows_from M rows \<Longrightarrow> set (decodeTabRefs tab (stored_row rows tab)) \<subseteq> M"
  by (cases "map_of rows tab") (auto simp: rows_from_def stored_row_def dest: map_of_SomeD)

lemma rows_from_put: "rows_from M new \<Longrightarrow> rows_from M rows \<Longrightarrow> rows_from M (put_rows new rows)"
proof (induction new arbitrary: rows)
  case (Cons p new)
  obtain tab v where p: "p = (tab, v)" by (cases p)
  have "rows_from M (AList.update tab v rows)"
    using Cons.prems p by (fastforce simp: rows_from_def dest: subsetD [OF set_update_subset])
  moreover have "rows_from M new" using Cons.prems(1) by (simp add: rows_from_def)
  ultimately show ?case using Cons.IH p by (simp add: put_rows_def)
qed (simp add: put_rows_def)

lemma delete_subset: "set (fold AList.delete ks rows) \<subseteq> set rows"
proof (induction ks arbitrary: rows)
  case (Cons k ks)
  have "set (fold AList.delete ks (AList.delete k rows)) \<subseteq> set (AList.delete k rows)" by (rule Cons.IH)
  then show ?case by (auto simp: set_delete)
qed simp

lemma single_valued_alist: "distinct (map fst xs) \<Longrightarrow> single_valued (set xs)"
  by (auto simp: single_valued_def dest: eq_key_imp_eq_value)

lemma persist_sound:
  assumes r: "sound M r" and pre: "\<forall>p \<in> M. prefixed (fst p)" and w: "persist_begin r = Some (w, r')"
  shows "sound M r'" "rows_from M (write_rows w)"
proof -
  show "sound M r'" using r w by (auto simp: persist_begin_def split: if_splits)
  have enc: "set (decodeTabRefs tab (encode_refs r (tab_refs r tab))) \<subseteq> M" for tab
  proof -
    have "prefixed ref \<and> (\<forall>b. binding_of r ref = Some b \<longrightarrow> target_tab b = tab)" if held: "ref \<in> set (tab_refs r tab)" for ref
    proof -
      obtain b where b: "binding_of r ref = Some b" "target_tab b = tab"
        using iffD1 [OF tab_refs_iff [OF soundD(1) [OF r]] held] by blast
      then have "(ref, b) \<in> set (refs r)" using binding_of_set [OF soundD(1) [OF r], of ref b] by simp
      then have "(ref, b) \<in> M" using soundD(3) [OF r] by (rule rev_subsetD)
      then show ?thesis using b bspec [OF pre, of "(ref, b)"] by simp
    qed
    then have "decodeTabRefs tab (encode_refs r (tab_refs r tab))
        = filter (\<lambda>p. safe_binding (snd p)) (entries r (tab_refs r tab))" by (simp add: decode_encode)
    then show ?thesis
      using soundD(3) [OF r] binding_of_set [OF soundD(1) [OF r]] by (auto simp: set_entries)
  qed
  show "rows_from M (write_rows w)"
    using w by (auto simp: rows_from_def persist_begin_def dest: subsetD [OF enc] split: if_splits)
qed

lemma system_start: "start_system s \<Longrightarrow> system_ok s"
  by (simp add: start_system_def system_ok_def rows_from_def)

lemma system_step: "ref_step s t \<Longrightarrow> system_ok s \<Longrightarrow> system_ok t"
proof (induction rule: ref_step.induct)
  case (rs_mint b uuids s ref r)
  have sub: "set (minted s) \<subseteq> insert (ref, b) (set (minted s))" by blast
  have s: "sound (insert (ref, b) (set (minted s))) r"
    using rs_mint.prems by (intro sound_mint [OF _ rs_mint.hyps(1)]) (simp add: system_ok_def)
  have "index_ok (registry s)" using rs_mint.prems by (simp add: system_ok_def sound_def)
  then have "\<exists>u. ref = REF_PREFIX @ u" using mint_steps [OF _ rs_mint.hyps(1)] by blast
  then have "prefixed ref" by (auto simp: prefixed_def REF_PREFIX_def)
  then show ?case
    using rs_mint.prems rs_mint.hyps(2) s rows_from_mono [OF _ sub] load_from_mono [OF _ sub] write_from_mono [OF _ sub]
    by (simp add: system_ok_def)
next
  case (rs_loaded tabs rows s live r)
  have "\<exists>r'. load_finish tabs (stored_row rows) live (registry s) = Some r' \<and> sound (set (minted s)) r'"
  proof (rule sound_load)
    have "rows_from (set (minted s)) rows" using rs_loaded.prems rs_loaded.hyps(1) by (auto simp: system_ok_def)
    then show "\<forall>tab. set (decodeTabRefs tab (stored_row rows tab)) \<subseteq> set (minted s)" by (simp add: rows_from_stored)
  qed (use rs_loaded.prems in \<open>simp_all add: system_ok_def single_valued_alist\<close>)
  then show ?case
    using rs_loaded.prems rs_loaded.hyps(2) by (auto simp: system_ok_def dest: notin_set_remove1 set_remove1_subset [THEN subsetD])
next
  case (rs_persist s w r)
  have "sound (set (minted s)) r" "rows_from (set (minted s)) (write_rows w)"
    using persist_sound [OF _ _ rs_persist.hyps] rs_persist.prems by (simp_all add: system_ok_def)
  then show ?case using rs_persist.prems by (simp add: system_ok_def)
next
  case (rs_set w s)
  then have "rows_from (set (minted s)) (put_rows (write_rows w) (stored_rows s))"
    by (intro rows_from_put) (auto simp: system_ok_def)
  then show ?case
    using rs_set.prems by (auto simp: system_ok_def dest: set_remove1_subset [THEN subsetD])
next
  case (rs_remove w s)
  then show ?case
    using rows_from_subset [OF _ delete_subset]
    by (auto simp: system_ok_def dest: set_remove1_subset [THEN subsetD])
next
  case (rs_clear_storage s)
  then show ?case using rows_from_subset [OF _ delete_subset] by (simp add: system_ok_def)
next
  case (rs_forget s tab)
  then show ?case by (simp add: system_ok_def sound_forget)
next
  case (rs_write_failed w s)
  then show ?case
    by (auto simp: system_ok_def persist_failed_def dest: set_remove1_subset [THEN subsetD])
qed (auto simp: system_ok_def dest: set_remove1_subset [THEN subsetD])

interpretation ref_inv: inductive_invariant start_system ref_step system_ok
  by unfold_locales (auto intro: system_start system_step)

lemma refs_reachable_ok: "refs_reachable s \<Longrightarrow> system_ok s"
  unfolding refs_reachable_def by (rule ref_inv.inv_reach)

end
