(* ===== verification/TargetRefsRestart.thy ===== *)
theory TargetRefsRestart
  imports TargetRefsFacts
begin

text \<open>
  What a fresh service worker reads back: the storage mirrors every clean tab, a completed write makes
  it mirror all of them, and loading a mirrored storage restores every ref that no newer ref of its
  tab supersedes.
\<close>

section \<open>The storage mirrors the registry\<close>

definition mirrors :: "registry \<Rightarrow> (int \<times> js) list \<Rightarrow> bool" where
  "mirrors r rows \<longleftrightarrow> (\<forall>tab. tab \<notin> set (dirtyTabs r) \<longrightarrow>
     stored_row rows tab = (if tab_refs r tab = [] then Undefined else encode_refs r (tab_refs r tab)))"

lemma encode_rows_cong:
  "\<forall>ref \<in> set rs. binding_of r ref = binding_of r' ref \<Longrightarrow> encode_rows r rs tabs = encode_rows r' rs tabs"
  by (induction rs arbitrary: tabs) (simp_all split: option.split)

lemma encode_refs_cong:
  "\<forall>ref \<in> set rs. binding_of r ref = binding_of r' ref \<Longrightarrow> encode_refs r rs = encode_refs r' rs"
  by (simp add: encode_refs_def encode_rows_cong [of rs r r'])

text \<open>An operation keeps the mirror if the tabs it leaves clean are as they were.\<close>

definition marks :: "registry \<Rightarrow> registry \<Rightarrow> bool" where
  "marks r r' \<longleftrightarrow> set (dirtyTabs r) \<subseteq> set (dirtyTabs r') \<and>
     (\<forall>tab. tab \<notin> set (dirtyTabs r') \<longrightarrow> tab_refs r' tab = tab_refs r tab \<and>
       (\<forall>ref \<in> set (tab_refs r tab). binding_of r' ref = binding_of r ref))"

lemma marks_refl: "marks r r"
  by (simp add: marks_def)

lemma marks_trans: "marks r r1 \<Longrightarrow> marks r1 r2 \<Longrightarrow> marks r r2"
  by (fastforce simp: marks_def)

lemma marks_mirrors: "marks r r' \<Longrightarrow> mirrors r rows \<Longrightarrow> mirrors r' rows"
  unfolding marks_def mirrors_def by (metis encode_refs_cong subsetD)

lemma remove_marks:
  assumes ok: "index_ok r" shows "marks r (remove_ref ref r)"
proof (cases "binding_of r ref")
  case None
  then show ?thesis by (simp add: remove_ref_def marks_refl)
next
  case (Some b)
  note t = remove_thins [OF ok, of ref]
  have d: "dirtyTabs (remove_ref ref r) = set_add (target_tab b) (dirtyTabs r)"
    using Some by (simp add: remove_ref_def Let_def split: option.split)
  have "tab_refs (remove_ref ref r) tab = tab_refs r tab \<and>
      (\<forall>x \<in> set (tab_refs r tab). binding_of (remove_ref ref r) x = binding_of r x)" if "tab \<noteq> target_tab b" for tab
  proof -
    have "ref \<notin> set (tab_refs r tab)" using that Some tab_refs_iff [OF ok] by simp
    then show ?thesis
      using thinned_binding [OF t] t unfolding thinned_def by (auto simp: filter_id_conv)
  qed
  then show ?thesis unfolding marks_def d by simp blast
qed

lemma fold_remove_marks: "index_ok r \<Longrightarrow> marks r (fold remove_ref rs r)"
proof (induction rs arbitrary: r)
  case (Cons x xs)
  have "index_ok (remove_ref x r)" by (rule thinned_ok [OF remove_thins [OF Cons.prems]])
  then have "marks (remove_ref x r) (fold remove_ref xs (remove_ref x r))" by (rule Cons.IH)
  then show ?case using marks_trans [OF remove_marks [OF Cons.prems]] by simp
qed (simp add: marks_refl)

lemma trim_tab_marks: "index_ok r \<Longrightarrow> trim_tab tab r = Some r' \<Longrightarrow> marks r r'"
proof (induction "length (refs r)" arbitrary: r rule: less_induct)
  case less
  show ?case
  proof (cases "length (tab_refs r tab) < MAX_TARGET_REFS_PER_TAB")
    case True
    then show ?thesis using less.prems(2) by (simp add: trim_tab.simps [of tab r] marks_refl)
  next
    case False
    then obtain x xs where x: "tab_refs r tab = x # xs" using caps_positive by (cases "tab_refs r tab") auto
    have t: "thinned {x} r (remove_ref x r)" by (rule remove_thins [OF less.prems(1)])
    have e: "trim_tab tab (remove_ref x r) = Some r'"
      using less.prems(2) False x by (simp add: trim_tab.simps [of tab r])
    obtain b where b: "(x, b) \<in> set (refs r)"
      using iffD1 [OF tab_refs_iff [OF less.prems(1)], of x tab] x binding_of_set [OF less.prems(1)] by auto
    have "length (filter (\<lambda>p. fst p \<noteq> x) (refs r)) < length (refs r)"
      using b by (intro length_filter_less [of "(x, b)"]) auto
    then have "marks (remove_ref x r) r'"
      using less.hyps [OF _ thinned_ok [OF t] e] t by (simp add: thinned_def)
    then show ?thesis by (rule marks_trans [OF remove_marks [OF less.prems(1)]])
  qed
qed

lemma trim_all_marks: "index_ok r \<Longrightarrow> marks r (trim_all r)"
proof (induction r rule: trim_all.induct)
  case (1 r)
  show ?case
  proof (cases "length (refs r) < MAX_TARGET_REFS")
    case True
    then show ?thesis by (simp add: trim_all.simps [of r] marks_refl)
  next
    case False
    then obtain p xs where p: "refs r = p # xs" using caps_positive by (cases "refs r") auto
    have "marks (remove_ref (fst p) r) (trim_all (remove_ref (fst p) r))"
      using "1.IH" [OF False p] thinned_ok [OF remove_thins [OF 1(2)]] by blast
    then have "marks r (trim_all (remove_ref (fst p) r))" by (rule marks_trans [OF remove_marks [OF 1(2)]])
    then show ?thesis using False p by (simp add: trim_all.simps [of r])
  qed
qed

lemma insert_marks:
  assumes ok: "index_ok r" and fits: "fits r ref b" shows "marks r (insert_ref ref b r)"
proof -
  have "ref \<notin> set (tab_refs r tab)" if "tab \<noteq> target_tab b" for tab
    using that fits tab_refs_iff [OF ok, of ref tab] by (auto simp: fits_def)
  then show ?thesis by (auto simp: marks_def insert_ref_def tab_refs_def binding_of_def)
qed

lemma add_marks:
  assumes ok: "index_ok r" and fits: "fits r ref b" and a: "add_ref ref b r = Some r'"
  shows "marks r r'"
proof -
  obtain r1 where r1: "trim_tab (target_tab b) r = Some r1" and r': "r' = insert_ref ref b (trim_all r1)"
    using a by (auto simp: add_ref_def)
  obtain S where S: "thinned S r r1" using trim_tab_ends [OF ok] r1 by (metis option.inject)
  obtain T where T: "thinned T r1 (trim_all r1)" using trim_all_thins [OF thinned_ok [OF S]] by blast
  have "fits (trim_all r1) ref b" by (rule thinned_fits [OF T thinned_fits [OF S fits]])
  then have "marks (trim_all r1) r'" using insert_marks thinned_ok [OF T] r' by blast
  then show ?thesis
    using trim_tab_marks [OF ok r1] trim_all_marks [OF thinned_ok [OF S]] marks_trans by blast
qed

lemma mint_marks:
  assumes ok: "index_ok r" and m: "mint b uuids r = Some (ref, r')" shows "marks r r'"
proof -
  let ?olds = "older_refs (target_revision b) r (tab_refs r (target_tab b))"
  let ?r = "fold remove_ref ?olds r"
  have t: "thinned (set ?olds) r ?r" by (rule fold_remove_thins [OF ok])
  have a: "binding_of ?r ref = None" "add_ref ref b ?r = Some r'" using mint_split [OF m refl] by blast+
  have "marks ?r r'" by (rule add_marks [OF thinned_ok [OF t] _ a(2)]) (simp add: fits_def a(1))
  then show ?thesis by (rule marks_trans [OF fold_remove_marks [OF ok]])
qed

lemma forget_marks: "index_ok r \<Longrightarrow> marks r (forget_tab tab r)"
  by (simp add: forget_tab_def fold_remove_marks)

text \<open>A write that completes without an interruption makes the storage mirror every tab.\<close>

definition written :: "pending_write \<Rightarrow> (int \<times> js) list \<Rightarrow> (int \<times> js) list" where
  "written w rows = fold AList.delete (write_removed w) (put_rows (write_rows w) rows)"

lemma stored_row_put:
  "stored_row (put_rows (map (\<lambda>t. (t, f t)) ts) rows) tab = (if tab \<in> set ts then f tab else stored_row rows tab)"
proof (induction ts arbitrary: rows)
  case (Cons t ts)
  have "put_rows (map (\<lambda>t. (t, f t)) (t # ts)) rows = put_rows (map (\<lambda>t. (t, f t)) ts) (AList.update t (f t) rows)"
    by (simp add: put_rows_def)
  then show ?case using Cons.IH by (simp add: stored_row_def)
qed (simp add: put_rows_def)

lemma stored_row_delete:
  "stored_row (fold AList.delete ks rows) tab = (if tab \<in> set ks then Undefined else stored_row rows tab)"
proof (induction ks arbitrary: rows)
  case (Cons k ks)
  then show ?case by (simp add: stored_row_def AList.delete_conv')
qed simp

lemma persist_mirrors:
  assumes ok: "index_ok r" and m: "mirrors r rows" and w: "persist_begin r = Some (w, r')"
  shows "stored_row (written w rows) tab = (if tab_refs r tab = [] then Undefined else encode_refs r (tab_refs r tab))"
  using w m tab_listed [OF ok, of tab]
  by (auto simp: persist_begin_def written_def stored_row_put stored_row_delete mirrors_def split: if_splits)

lemma persist_clean:
  assumes "index_ok r" and "mirrors r rows" and "persist_begin r = Some (w, r')"
  shows "mirrors r' (written w rows)"
proof -
  have r': "r' = r\<lparr>dirtyTabs := []\<rparr>" using assms(3) by (auto simp: persist_begin_def split: if_splits)
  have b: "\<forall>ref \<in> set rs. binding_of r ref = binding_of r' ref" for rs by (simp add: r' binding_of_def)
  have "tab_refs r' tab = tab_refs r tab" for tab by (simp add: r' tab_refs_def)
  then show ?thesis
    using persist_mirrors [OF assms] encode_refs_cong [OF b] by (simp add: mirrors_def)
qed

section \<open>Loading a mirrored storage\<close>

lemma binding_None: "binding_of r ref = None \<longleftrightarrow> ref \<notin> fst ` set (refs r)"
  by (simp add: binding_of_def map_of_eq_None_iff)

lemma insert_fresh:
  assumes ok: "index_ok r" and f: "binding_of r ref = None"
  shows "index_ok (insert_ref ref b r)" "refs (insert_ref ref b r) = refs r @ [(ref, b)]"
    "tab_refs (insert_ref ref b r) tab = tab_refs r tab @ (if tab = target_tab b then [ref] else [])"
proof -
  show "index_ok (insert_ref ref b r)" using insert_ok [OF ok] f by (simp add: fits_def)
  show "refs (insert_ref ref b r) = refs r @ [(ref, b)]"
    using f by (simp add: insert_ref_def update_fresh binding_None)
  have "ref \<notin> set (tab_refs r (target_tab b))" using tab_refs_iff [OF ok] f by simp
  then show "tab_refs (insert_ref ref b r) tab = tab_refs r tab @ (if tab = target_tab b then [ref] else [])"
    by (simp add: set_add_def)
qed

lemma add_all_fresh:
  "index_ok r \<Longrightarrow> distinct (map fst xs) \<Longrightarrow> \<forall>p \<in> set xs. binding_of r (fst p) = None \<and> target_tab (snd p) = tab \<Longrightarrow>
   length (refs r) + length xs \<le> MAX_TARGET_REFS \<Longrightarrow>
   length (tab_refs r tab) + length xs \<le> MAX_TARGET_REFS_PER_TAB \<Longrightarrow>
   \<exists>r'. add_all xs r = Some r' \<and> index_ok r' \<and> refs r' = refs r @ xs \<and>
     (\<forall>t. tab_refs r' t = tab_refs r t @ (if t = tab then map fst xs else []))"
proof (induction xs arbitrary: r)
  case (Cons x xs)
  obtain ref b where x: "x = (ref, b)" by (cases x)
  have f: "binding_of r ref = None" and t: "target_tab b = tab" using Cons.prems(3) x by simp_all
  let ?r = "insert_ref ref b r"
  note i = insert_fresh [OF Cons.prems(1) f, of b]
  have a: "add_ref ref b r = Some ?r" using Cons.prems(4,5) t by (intro add_below_caps) simp_all
  have "\<forall>p \<in> set xs. binding_of ?r (fst p) = None \<and> target_tab (snd p) = tab"
    using Cons.prems(2,3) x by (auto simp: rev_image_eqI)
  then obtain r' where "add_all xs ?r = Some r'" "index_ok r'" "refs r' = refs ?r @ xs"
      "\<forall>u. tab_refs r' u = tab_refs ?r u @ (if u = tab then map fst xs else [])"
    using Cons.IH [OF i(1)] Cons.prems(2,4,5) t x by (auto simp: i(2,3) simp del: tab_refs_insert)
  then show ?case using a t x by (simp add: i(2,3) del: tab_refs_insert)
qed simp

lemma load_tabs_fresh:
  assumes "\<forall>tab \<in> set tabs. tab \<in> set live \<and> decodeTabRefs tab (stored tab) = E tab \<and>
      length (E tab) \<le> MAX_TARGET_REFS_PER_TAB \<and> (\<forall>p \<in> set (E tab). target_tab (snd p) = tab)"
    and "distinct tabs" and "distinct (map fst (concat (map E tabs)))"
  shows "index_ok r \<Longrightarrow> \<forall>tab \<in> set tabs. tab_refs r tab = [] \<and> (\<forall>p \<in> set (E tab). binding_of r (fst p) = None) \<Longrightarrow>
    length (refs r) + length (concat (map E tabs)) \<le> MAX_TARGET_REFS \<Longrightarrow>
    \<exists>r'. load_tabs stored live tabs dirty r = Some (dirty, r') \<and> index_ok r' \<and>
      refs r' = refs r @ concat (map E tabs)"
  using assms
proof (induction tabs arbitrary: r)
  case (Cons tab tabs)
  have "\<forall>p \<in> set (E tab). binding_of r (fst p) = None \<and> target_tab (snd p) = tab"
    using Cons.prems(2,4) by simp
  moreover have "length (refs r) + length (E tab) \<le> MAX_TARGET_REFS" using Cons.prems(3) by simp
  moreover have "length (tab_refs r tab) + length (E tab) \<le> MAX_TARGET_REFS_PER_TAB"
    using Cons.prems(2,4) by simp
  moreover have "distinct (map fst (E tab))" using Cons.prems(6) by simp
  ultimately obtain r1 where r1: "add_all (E tab) r = Some r1" "index_ok r1" "refs r1 = refs r @ E tab"
      "\<forall>t. tab_refs r1 t = tab_refs r t @ (if t = tab then map fst (E tab) else [])"
    using add_all_fresh [OF Cons.prems(1)] by blast
  have "tab_refs r1 t = [] \<and> (\<forall>p \<in> set (E t). binding_of r1 (fst p) = None)" if "t \<in> set tabs" for t
  proof -
    have "t \<noteq> tab" using that Cons.prems(5) by auto
    moreover have "fst p \<notin> fst ` set (E tab)" if "p \<in> set (E t)" for p
      using Cons.prems(6) that \<open>t \<in> set tabs\<close> by force
    moreover have "fst p \<notin> fst ` set (refs r)" if "p \<in> set (E t)" for p
      using Cons.prems(2) that \<open>t \<in> set tabs\<close> by (simp add: binding_None)
    ultimately show ?thesis
      using Cons.prems(2) r1(3,4) that by (simp add: binding_None image_Un)
  qed
  moreover have "length (refs r1) + length (concat (map E tabs)) \<le> MAX_TARGET_REFS"
    using Cons.prems(3) r1(3) by simp
  ultimately obtain r' where "load_tabs stored live tabs dirty r1 = Some (dirty, r')" "index_ok r'"
      "refs r' = refs r1 @ concat (map E tabs)"
    using Cons.IH [OF r1(2)] Cons.prems(4-6) by auto
  then show ?case using r1 Cons.prems(4) by simp
qed simp

text \<open>The last pass of a load drops the refs of older page revisions.\<close>

definition superseded :: "registry \<Rightarrow> string \<Rightarrow> bool" where
  "superseded r ref \<longleftrightarrow> (\<exists>b x c. binding_of r ref = Some b \<and> binding_of r x = Some c \<and>
     target_tab c = target_tab b \<and> target_revision b < target_revision c)"

lemma foldr_max: "revs \<noteq> [] \<Longrightarrow> foldr max revs (hd revs) \<in> set revs \<and> (\<forall>x \<in> set revs. x \<le> foldr max revs (hd revs))"
  for revs :: "int list"
proof -
  have "foldr max xs (a::int) \<in> insert a (set xs) \<and> (\<forall>x \<in> insert a (set xs). x \<le> foldr max xs a)" for xs a
    by (induction xs) (auto simp: max_def)
  moreover assume "revs \<noteq> []"
  ultimately show ?thesis by (metis hd_in_set insert_absorb)
qed

lemma set_older: "set (older_refs v r rs) = {ref \<in> set rs. \<exists>b. binding_of r ref = Some b \<and> target_revision b < v}"
  by (auto simp: older_refs_def split: option.splits)

lemma older_latest:
  assumes ok: "index_ok r"
  shows "set (older_refs (latest_revision r (tab_refs r tab)) r (tab_refs r tab))
    = {ref \<in> set (tab_refs r tab). superseded r ref}"
proof -
  let ?rev = "\<lambda>ref. case binding_of r ref of None \<Rightarrow> 0 | Some b \<Rightarrow> target_revision b"
  let ?revs = "map ?rev (tab_refs r tab)"
  have "(\<exists>b. binding_of r ref = Some b \<and> target_revision b < latest_revision r (tab_refs r tab)) \<longleftrightarrow> superseded r ref"
    if held: "ref \<in> set (tab_refs r tab)" for ref
  proof -
    obtain b where b: "binding_of r ref = Some b" "target_tab b = tab"
      using iffD1 [OF tab_refs_iff [OF ok] held] by blast
    have l: "latest_revision r (tab_refs r tab) \<in> set ?revs" "\<forall>x \<in> set ?revs. x \<le> latest_revision r (tab_refs r tab)"
    proof -
      have "?revs \<noteq> []" using held by auto
      from foldr_max [OF this] show "latest_revision r (tab_refs r tab) \<in> set ?revs"
        "\<forall>x \<in> set ?revs. x \<le> latest_revision r (tab_refs r tab)" unfolding latest_revision_def Let_def by blast+
    qed
    then obtain x where x: "x \<in> set (tab_refs r tab)" "latest_revision r (tab_refs r tab) = ?rev x" by auto
    obtain c where c: "binding_of r x = Some c" "target_tab c = tab"
      using iffD1 [OF tab_refs_iff [OF ok] x(1)] by blast
    have "target_revision d \<le> target_revision c" if "binding_of r y = Some d" "target_tab d = tab" for y d
    proof -
      have "y \<in> set (tab_refs r tab)" using that tab_refs_iff [OF ok] by blast
      then have "?rev y \<le> ?rev x" using l(2) x(2) by auto
      then show ?thesis using that c by simp
    qed
    then show ?thesis using b c x(2) unfolding superseded_def by fastforce
  qed
  then show ?thesis unfolding set_older by blast
qed

lemma drop_superseded_thins:
  assumes "index_ok r"
  shows "thinned {ref \<in> set (tab_refs r tab). superseded r ref} r (drop_superseded tab r)"
  using fold_remove_thins [OF assms, of "older_refs (latest_revision r (tab_refs r tab)) r (tab_refs r tab)"]
  unfolding older_latest [OF assms] drop_superseded_def by simp

lemma fold_drop_thins:
  "index_ok r \<Longrightarrow> distinct tabs \<Longrightarrow>
   thinned {ref. superseded r ref \<and> (\<exists>tab \<in> set tabs. ref \<in> set (tab_refs r tab))} r (fold drop_superseded tabs r)"
proof (induction tabs arbitrary: r)
  case (Cons tab tabs)
  let ?r = "drop_superseded tab r"
  note t = drop_superseded_thins [OF Cons.prems(1), of tab]
  have other: "tab_refs ?r u = tab_refs r u" if "u \<in> set tabs" for u
  proof -
    have "u \<noteq> tab" using that Cons.prems(2) by auto
    then have "\<forall>ref \<in> set (tab_refs r u). ref \<notin> set (tab_refs r tab)"
      using tab_refs_iff [OF Cons.prems(1)] by fastforce
    then show ?thesis using t by (auto simp: thinned_def filter_id_conv)
  qed
  have "superseded ?r ref \<longleftrightarrow> superseded r ref" if u: "u \<in> set tabs" "ref \<in> set (tab_refs r u)" for u ref
  proof -
    have ne: "u \<noteq> tab" using u(1) Cons.prems(2) by auto
    obtain b where b: "binding_of r ref = Some b" "target_tab b = u"
      using iffD1 [OF tab_refs_iff [OF Cons.prems(1)] u(2)] by blast
    have same: "binding_of ?r x = binding_of r x" if "binding_of r x = Some c" "target_tab c = u" for x c
    proof -
      have "x \<notin> set (tab_refs r tab)" using that ne tab_refs_iff [OF Cons.prems(1)] by simp
      then show ?thesis using thinned_binding [OF t] by simp
    qed
    have keep: "binding_of ?r x = Some c \<Longrightarrow> binding_of r x = Some c" for x c
      using thinned_binding [OF t, of x] by (auto split: if_splits)
    show ?thesis
    proof
      assume "superseded ?r ref"
      then show "superseded r ref" using keep unfolding superseded_def by blast
    next
      assume "superseded r ref"
      then obtain x c where "binding_of r x = Some c" "target_tab c = u" "target_revision b < target_revision c"
        using b unfolding superseded_def by auto
      then show "superseded ?r ref" using same b unfolding superseded_def by metis
    qed
  qed
  then have e: "{ref. superseded ?r ref \<and> (\<exists>u \<in> set tabs. ref \<in> set (tab_refs ?r u))}
      = {ref. superseded r ref \<and> (\<exists>u \<in> set tabs. ref \<in> set (tab_refs r u))}"
    using other by auto
  have "thinned {ref. superseded r ref \<and> (\<exists>u \<in> set tabs. ref \<in> set (tab_refs r u))} ?r (fold drop_superseded tabs ?r)"
    using Cons.IH [OF thinned_ok [OF t]] Cons.prems(2) unfolding e by simp
  then have "thinned ({ref \<in> set (tab_refs r tab). superseded r ref} \<union>
      {ref. superseded r ref \<and> (\<exists>u \<in> set tabs. ref \<in> set (tab_refs r u))}) r (fold drop_superseded tabs ?r)"
    by (rule thinned_trans [OF t])
  moreover have "{ref \<in> set (tab_refs r tab). superseded r ref} \<union>
      {ref. superseded r ref \<and> (\<exists>u \<in> set tabs. ref \<in> set (tab_refs r u))}
      = {ref. superseded r ref \<and> (\<exists>u \<in> set (tab # tabs). ref \<in> set (tab_refs r u))}" by auto
  ultimately show ?case by simp
qed (simp add: thinned_refl)

section \<open>A restart restores what was persisted\<close>

definition storable :: "registry \<Rightarrow> bool" where
  "storable r \<longleftrightarrow> (\<forall>(ref, b) \<in> set (refs r). prefixed ref \<and> safe_binding b \<and> \<bar>target_tab b\<bar> \<le> MAX_SAFE_INTEGER)"

lemma index_tabs_safe: "\<forall>t \<in> set tabs. \<bar>t\<bar> \<le> MAX_SAFE_INTEGER \<Longrightarrow> index_tabs (Arr (map js_int tabs)) = tabs"
  by (induction tabs) (auto simp: index_tabs_def isSafeInteger_def js_int_def)

lemma listed_tab:
  assumes ok: "index_ok r" shows "tab \<in> fst ` set (refsByTab r) \<longleftrightarrow> (\<exists>ref b. binding_of r ref = Some b \<and> target_tab b = tab)"
proof -
  have "tab \<in> fst ` set (refsByTab r) \<longleftrightarrow> tab_refs r tab \<noteq> []"
    using tab_listed [OF ok, of tab] by (auto simp: map_of_eq_None_iff)
  also have "\<dots> \<longleftrightarrow> (\<exists>ref. ref \<in> set (tab_refs r tab))" by (cases "tab_refs r tab") auto
  finally show ?thesis using tab_refs_iff [OF ok] by simp
qed

lemma all_entries:
  assumes ok: "index_ok r"
  shows "set (concat (map (\<lambda>tab. entries r (tab_refs r tab)) (map fst (refsByTab r)))) = set (refs r)"
    and "distinct (map fst (concat (map (\<lambda>tab. entries r (tab_refs r tab)) (map fst (refsByTab r)))))"
proof -
  have in_tab: "ref \<in> set (tab_refs r tab) \<and> binding_of r ref = Some b \<longleftrightarrow> (ref, b) \<in> set (refs r) \<and> target_tab b = tab"
    for ref b tab
    using tab_refs_iff [OF ok, of ref tab] binding_of_set [OF ok, of ref b] by auto
  have "(ref, b) \<in> set (refs r) \<Longrightarrow> target_tab b \<in> fst ` set (refsByTab r)" for ref b
    using listed_tab [OF ok] binding_of_set [OF ok] by blast
  then show "set (concat (map (\<lambda>tab. entries r (tab_refs r tab)) (map fst (refsByTab r)))) = set (refs r)"
    using in_tab by (fastforce simp: set_entries)
  have fst_entries: "map fst (entries r rs) = filter (\<lambda>ref. binding_of r ref \<noteq> None) rs" for rs
    by (induction rs) (auto simp: entries_def map_filter_simps split: option.split)
  have "distinct (map fst (concat (map (\<lambda>tab. entries r (tab_refs r tab)) tabs)))" if "distinct tabs" for tabs
    using that
  proof (induction tabs)
    case (Cons tab tabs)
    have "set (map fst (entries r (tab_refs r tab))) \<inter>
        set (map fst (concat (map (\<lambda>tab. entries r (tab_refs r tab)) tabs))) = {}"
      using Cons.prems tab_refs_iff [OF ok] by (fastforce simp: set_entries)
    then show ?case
      using Cons distinct_tab_refs [OF ok, of tab] by (simp add: fst_entries)
  qed simp
  moreover have "distinct (map fst (refsByTab r))" using ok by (simp add: index_ok_def)
  ultimately show "distinct (map fst (concat (map (\<lambda>tab. entries r (tab_refs r tab)) (map fst (refsByTab r)))))"
    by blast
qed

lemma load_mirrored:
  assumes ok: "index_ok r" and caps: "within_caps r" and st: "storable r"
    and stored: "\<forall>tab \<in> set (map fst (refsByTab r)). stored tab = encode_refs r (tab_refs r tab)"
    and live: "set (map fst (refsByTab r)) \<subseteq> set live"
  shows "\<exists>r2. load_finish (map fst (refsByTab r)) stored live empty_registry = Some r2 \<and>
    (\<forall>ref. binding_of r2 ref = (if superseded r ref then None else binding_of r ref))"
proof (cases "refsByTab r = []")
  case True
  then have "binding_of r ref = None" for ref using listed_tab [OF ok] by (cases "binding_of r ref") auto
  then show ?thesis using True by (auto simp: load_finish_def binding_of_def empty_registry_def superseded_def)
next
  case False
  let ?tabs = "map fst (refsByTab r)" and ?E = "\<lambda>tab. entries r (tab_refs r tab)"
  have held: "ref \<in> set (tab_refs r tab) \<Longrightarrow> \<exists>b. binding_of r ref = Some b \<and> (ref, b) \<in> set (refs r) \<and> target_tab b = tab"
    for ref tab using iffD1 [OF tab_refs_iff [OF ok]] binding_of_set [OF ok] by blast
  have decoded: "decodeTabRefs tab (stored tab) = ?E tab" if "tab \<in> set ?tabs" for tab
  proof -
    have "\<forall>ref \<in> set (tab_refs r tab). prefixed ref \<and> (\<forall>b. binding_of r ref = Some b \<longrightarrow> target_tab b = tab)"
      using held [of _ tab] st by (fastforce simp: storable_def)
    moreover have "\<forall>p \<in> set (?E tab). safe_binding (snd p)"
      using st binding_of_set [OF ok] by (auto simp: set_entries storable_def)
    moreover have "stored tab = encode_refs r (tab_refs r tab)" using stored that by blast
    ultimately show ?thesis by (simp add: decode_encode filter_id_conv)
  qed
  have l: "length (?E tab) \<le> MAX_TARGET_REFS_PER_TAB" for tab
  proof -
    have "length (?E tab) \<le> length (tab_refs r tab)"
      unfolding entries_def List.map_filter_def by simp
    then show ?thesis using caps by (auto simp: within_caps_def intro: order_trans)
  qed
  have "length (concat (map ?E ?tabs)) = card (set (refs r))"
    using distinct_card [of "concat (map ?E ?tabs)"] all_entries(2) [OF ok] unfolding all_entries(1) [OF ok]
    by (simp add: distinct_map)
  then have total: "length (concat (map ?E ?tabs)) \<le> MAX_TARGET_REFS"
    using caps card_length [of "refs r"] by (simp add: within_caps_def)
  have "\<exists>r1. load_tabs stored live ?tabs [] empty_registry = Some ([], r1) \<and> index_ok r1 \<and>
      refs r1 = refs empty_registry @ concat (map ?E ?tabs)"
  proof (rule load_tabs_fresh)
    show "\<forall>tab \<in> set ?tabs. tab \<in> set live \<and> decodeTabRefs tab (stored tab) = ?E tab \<and>
        length (?E tab) \<le> MAX_TARGET_REFS_PER_TAB \<and> (\<forall>p \<in> set (?E tab). target_tab (snd p) = tab)"
    proof (intro ballI conjI)
      fix tab assume t: "tab \<in> set ?tabs"
      show "tab \<in> set live" using live t by blast
      show "decodeTabRefs tab (stored tab) = ?E tab" by (rule decoded [OF t])
      show "length (?E tab) \<le> MAX_TARGET_REFS_PER_TAB" by (rule l)
      fix p assume "p \<in> set (?E tab)"
      then have "fst p \<in> set (tab_refs r tab)" "binding_of r (fst p) = Some (snd p)" by (auto simp: set_entries)
      then show "target_tab (snd p) = tab" using held [of "fst p" tab] by auto
    qed
    show "distinct ?tabs" using ok by (simp add: index_ok_def)
    show "distinct (map fst (concat (map ?E ?tabs)))" by (rule all_entries(2) [OF ok])
    show "length (refs empty_registry) + length (concat (map ?E ?tabs)) \<le> MAX_TARGET_REFS"
      using total by (simp add: empty_registry_def)
  qed (simp_all add: empty_registry_def tab_refs_def binding_of_def index_ok_def)
  then obtain r1 where r1: "load_tabs stored live ?tabs [] empty_registry = Some ([], r1)" "index_ok r1"
      "refs r1 = concat (map ?E ?tabs)" by (auto simp: empty_registry_def)
  let ?r = "r1\<lparr>dirtyTabs := []\<rparr>"
  have ok1: "index_ok ?r" using r1(2) by simp
  have same: "binding_of ?r ref = binding_of r ref" for ref
  proof -
    have "set (refs ?r) = set (refs r)" using r1(3) all_entries(1) [OF ok] by simp
    then show ?thesis
      using binding_of_set [OF ok1, of ref] binding_of_set [OF ok, of ref]
      by (cases "binding_of ?r ref"; cases "binding_of r ref") auto
  qed
  let ?r2 = "fold drop_superseded (map fst (refsByTab ?r)) ?r"
  have "load_finish ?tabs stored live empty_registry = Some ?r2"
    using r1(1) False by (simp add: load_finish_def empty_registry_def)
  moreover have "binding_of ?r2 ref = (if superseded r ref then None else binding_of r ref)" for ref
  proof -
    have "distinct (map fst (refsByTab ?r))" using ok1 by (simp add: index_ok_def)
    note t = thinned_binding [OF fold_drop_thins [OF ok1 this], of ref]
    have "superseded ?r ref = superseded r ref" by (simp add: superseded_def same)
    moreover have "superseded ?r ref \<Longrightarrow> \<exists>tab \<in> set (map fst (refsByTab ?r)). ref \<in> set (tab_refs ?r tab)"
      using listed_tab [OF ok1] tab_refs_iff [OF ok1] unfolding superseded_def by fastforce
    ultimately show ?thesis using t same [of ref] by auto
  qed
  ultimately show ?thesis by blast
qed

end
