(* ===== verification/TargetProperties.thy ===== *)
theory TargetProperties
  imports TargetRefsRestart
begin

text \<open>
  The properties of the target registry, with a concrete one: one ref of tab 3, minted by an empty
  registry.
\<close>

definition demo_binding :: target_binding where
  "demo_binding = \<lparr>backendNodeId = 12, target_document = ''d'', target_frame = ''f'', target_revision = 2,
     target_task = ''t'', target_tab = 3, via_scripting = False\<rparr>"

definition demo_registry :: registry where
  "demo_registry = insert_ref ''rt1.u'' demo_binding empty_registry"

lemma demo_mint: "mint demo_binding [''u''] empty_registry = Some (''rt1.u'', demo_registry)"
  by (simp add: mint_def older_refs_def tab_refs_def binding_of_def empty_registry_def REF_PREFIX_def add_below_caps
      MAX_TARGET_REFS_def MAX_TARGET_REFS_PER_TAB_def demo_registry_def)

definition demo_system :: ref_system where
  "demo_system = \<lparr>registry = empty_registry, stored_index = Undefined, stored_rows = [], loads = [],
     writes = [], minted = []\<rparr>"

lemma demo_system_reachable: "refs_reachable demo_system"
  unfolding refs_reachable_def by (rule reach_start) (simp add: start_system_def demo_system_def)

lemma demo_minted_reachable:
  "refs_reachable (demo_system\<lparr>registry := demo_registry, minted := [(''rt1.u'', demo_binding)]\<rparr>)"
proof -
  have "ref_step demo_system (demo_system\<lparr>registry := demo_registry,
      minted := (''rt1.u'', demo_binding) # minted demo_system\<rparr>)"
    using demo_mint by (intro rs_mint) (simp_all add: demo_system_def)
  then show ?thesis
    using demo_system_reachable reach_step unfolding refs_reachable_def by (fastforce simp: demo_system_def)
qed

lemma demo_sound: "sound {(''rt1.u'', demo_binding)} demo_registry"
  using sound_mint [OF sound_empty demo_mint, of "{}"] by simp

section \<open>What a ref stands for\<close>

text \<open>C31: A ref never changes its target: whatever loads, writes, failures and restarts of the worker
happened, a ref that resolves was minted by this registry, and it resolves to the one binding it was
minted for.\<close>

theorem refs_never_rebind:
  assumes "refs_reachable s" and "lookup (registry s) v = Some b"
  shows "\<exists>ref. v = Str ref \<and> (\<forall>b'. (ref, b') \<in> set (minted s) \<longleftrightarrow> b' = b)"
proof -
  have ok: "system_ok s" by (rule refs_reachable_ok [OF assms(1)])
  obtain ref where v: "v = Str ref" and b: "binding_of (registry s) ref = Some b"
    using assms(2) by (cases v) (auto simp: lookup_def is_ref_def split: if_splits)
  have "(ref, b) \<in> set (minted s)"
    using ok b by (auto simp: system_ok_def sound_def binding_of_set)
  moreover have "distinct (map fst (minted s))" using ok by (simp add: system_ok_def)
  ultimately show ?thesis using v by (metis eq_key_imp_eq_value)
qed

theorem refs_never_rebind_witness:
  "\<exists>ref. Str ''rt1.u'' = Str ref \<and> (\<forall>b'. (ref, b') \<in> set [(''rt1.u'', demo_binding)] \<longleftrightarrow> b' = demo_binding)"
proof -
  have "lookup demo_registry (Str ''rt1.u'') = Some demo_binding" by code_simp
  then show ?thesis using refs_never_rebind [OF demo_minted_reachable, of "Str ''rt1.u''" demo_binding] by simp
qed

text \<open>C32: The registry stays within its caps, 8192 refs of a tab and 32768 in all, and its two indexes
agree: a tab lists exactly the refs that are bound to it.\<close>

theorem refs_within_caps:
  assumes "refs_reachable s"
  shows "length (refs (registry s)) \<le> 32768 \<and> length (tab_refs (registry s) tab) \<le> 8192 \<and>
    (ref \<in> set (tab_refs (registry s) tab) \<longleftrightarrow>
      (\<exists>b. binding_of (registry s) ref = Some b \<and> target_tab b = tab))"
proof -
  have s: "sound (set (minted s)) (registry s)" using refs_reachable_ok [OF assms] by (simp add: system_ok_def)
  show ?thesis
    using soundD(2) [OF s] tab_refs_iff [OF soundD(1) [OF s]]
    by (simp add: within_caps_def MAX_TARGET_REFS_def MAX_TARGET_REFS_PER_TAB_def)
qed

theorem refs_within_caps_witness: "length (tab_refs demo_registry 3) \<le> 8192"
  using refs_within_caps [OF demo_minted_reachable, of 3 undefined] by simp

text \<open>C33: Minting ends: in every reachable registry the loops of \<open>mint\<close> and \<open>#add\<close> end as soon as one
drawn id is unused; the new ref resolves to its binding, and no ref of an older revision of that tab
resolves any more.\<close>

theorem minting_ends:
  assumes "refs_reachable s" and "u \<in> set uuids" and "binding_of (registry s) (REF_PREFIX @ u) = None"
  shows "\<exists>ref r. mint b uuids (registry s) = Some (ref, r) \<and> lookup r (Str ref) = Some b \<and>
    (\<forall>old c. lookup r old = Some c \<longrightarrow> target_tab c = target_tab b \<longrightarrow> target_revision b \<le> target_revision c)"
proof -
  have s: "sound (set (minted s)) (registry s)" using refs_reachable_ok [OF assms(1)] by (simp add: system_ok_def)
  note ok = soundD(1) [OF s]
  obtain ref r where m: "mint b uuids (registry s) = Some (ref, r)" using mint_ends [OF ok assms(2,3)] by fastforce
  obtain S r1 where t: "thinned S (registry s) r1"
      and olds: "set (older_refs (target_revision b) (registry s) (tab_refs (registry s) (target_tab b))) \<subseteq> S"
      and r: "r = insert_ref ref b r1" and p: "\<exists>u. ref = REF_PREFIX @ u"
    using mint_steps [OF ok m] by blast
  have "target_revision b \<le> target_revision c"
    if l: "binding_of r x = Some c" "target_tab c = target_tab b" for x c
  proof (rule ccontr)
    assume old: "\<not> target_revision b \<le> target_revision c"
    then have "x \<noteq> ref" using l(1) r by auto
    then have c: "binding_of (registry s) x = Some c" "x \<notin> S"
      using l(1) r thinned_binding [OF t, of x] by (auto split: if_splits)
    then have "x \<in> set (tab_refs (registry s) (target_tab b))" using l(2) tab_refs_iff [OF ok] by blast
    then show False using c old olds by (auto simp: set_older)
  qed
  moreover have "lookup r (Str ref) = Some b" using r p by (auto simp: lookup_def is_ref_def REF_PREFIX_def)
  ultimately show ?thesis using m by (auto simp: lookup_def split: if_splits)
qed

theorem minting_ends_witness: "\<exists>ref r. mint demo_binding [''u''] empty_registry = Some (ref, r)"
  using minting_ends [OF demo_system_reachable, of "''u''" "[''u'']" demo_binding]
  by (auto simp: demo_system_def binding_of_def empty_registry_def)

section \<open>Restarts\<close>



end
