(* ===== verification/Native.thy ===== *)
theory Native
  imports Messages OwnershipOps
begin

text \<open>
  \<open>packages/extension/src/native.ts\<close>: the connection to the native host. \<open>NativeBridge\<close> opens the
  port, says hello, waits for the host's ready message, hands commands to the dispatcher and answers
  them, keeps the popup requests the host has to acknowledge, and reconnects with a growing delay.

  A port is a number; \<open>connectNative\<close> returns a new one. An asynchronous method is cut at its awaits:
  its first segment is a function of the bridge, and the rest of it waits in \<open>calls\<close> as a \<open>call\<close> that a
  later segment picks up. What Chrome and the other callbacks return (whether \<open>postMessage\<close> or
  \<open>connectNative\<close> threw, the time, the outcome of a handler) are arguments of the segments. The store,
  the tab inventory and the scheduler are those of the other theories.
\<close>

section \<open>State\<close>

definition RECONNECT_ALARM :: string where "RECONNECT_ALARM = ''agenttab-native-reconnect''"
definition RECONNECT_MAX_MS :: int where "RECONNECT_MAX_MS = 30000"
definition RECONNECT_ALARM_FLOOR_MS :: int where "RECONNECT_ALARM_FLOOR_MS = 30000"
definition NATIVE_URL_MAX_CHARS :: int where "NATIVE_URL_MAX_CHARS = 16384"

text \<open>
  The suspended calls. \<open>HelloRead\<close> and \<open>HelloInventory\<close> are \<open>connect\<close> before \<open>readState\<close> and before
  \<open>inventory\<close>. The next seven are \<open>reconcileReady\<close>, with the number of the reconciliation. \<open>AwaitReady\<close>
  is a command that waits for a reconciliation, \<open>Handling\<close> one that waits for the dispatcher.
\<close>

datatype call =
    HelloRead nat
  | HelloInventory nat ext_state
  | Discarding nat nat ready_message
  | ClearingAlarm nat nat ready_message
  | Pausing nat nat
  | SavedPause nat nat
  | ReadingState nat nat
  | HaveState nat nat ext_state
  | OnReady nat nat
  | AwaitReady nat nat inbound
  | Handling nat inbound

text \<open>How the promise of a popup request settled.\<close>

datatype answer = Acknowledged event_ack | Rejected js_error

text \<open>
  \<open>timer_armed\<close> is \<open>cancelReconnectTimer !== null\<close>. \<open>pendingEventAcks\<close> holds the number of the promise
  of each event id, with its timeout running. The fields from \<open>alarm\<close> on are what others observe: the
  pending alarm of Chrome and the alarm events not yet delivered, the messages posted, the ports hung
  up, the calls of \<open>discardStages\<close> and of the dispatcher, the settled promises, the reconciliations that
  ended (and whether well) and the ports that completed the handshake.
\<close>

record 'w bridge =
  ext :: "'w sys"
  port :: "nat option"
  ready :: bool
  reconnectAttempt :: nat
  timer_armed :: bool
  reconnectFallbackAtMs :: "int option"
  pendingEventAcks :: "(string \<times> nat) list"
  readyReconciliation :: "(nat \<times> nat) option"
  calls :: "call list"
  ports :: nat
  reconciliations :: nat
  requests :: nat
  alarm :: "int option"
  alarm_due :: nat
  posted :: "(nat \<times> js obj) list"
  hung_up :: "nat list"
  discarded :: "string list list"
  dispatched :: "(nat \<times> inbound) list"
  answers :: "(nat \<times> answer) list"
  reconciled :: "(nat \<times> bool) list"
  welcomed :: "nat list"

definition new_bridge :: "'w sys \<Rightarrow> 'w bridge" where
  "new_bridge s = \<lparr>ext = s, port = None, ready = False, reconnectAttempt = 0, timer_armed = False,
     reconnectFallbackAtMs = None, pendingEventAcks = [], readyReconciliation = None, calls = [],
     ports = 0, reconciliations = 0, requests = 0, alarm = None, alarm_due = 0, posted = [],
     hung_up = [], discarded = [], dispatched = [], answers = [], reconciled = [], welcomed = []\<rparr>"

definition on_ext :: "('w, 'a) op \<Rightarrow> 'w bridge \<Rightarrow> (js_error + 'a) \<times> 'w bridge" where
  "on_ext m b = (case m (ext b) of (r, s) \<Rightarrow> (r, b\<lparr>ext := s\<rparr>))"

definition on_scheduler :: "(sched \<Rightarrow> sched) \<Rightarrow> 'w bridge \<Rightarrow> 'w bridge" where
  "on_scheduler f b = b\<lparr>ext := (ext b)\<lparr>scheduler := f (scheduler (ext b))\<rparr>\<rparr>"

definition later :: "call \<Rightarrow> 'w bridge \<Rightarrow> 'w bridge" where
  "later c b = b\<lparr>calls := c # calls b\<rparr>"

definition hang_up :: "nat \<Rightarrow> 'w bridge \<Rightarrow> 'w bridge" where
  "hang_up p b = b\<lparr>hung_up := p # hung_up b\<rparr>"

definition hang_up_current :: "nat \<Rightarrow> 'w bridge \<Rightarrow> 'w bridge" where
  "hang_up_current p b = (if port b = Some p then hang_up p b else b)"

section \<open>Reconnecting\<close>

text \<open>\<open>Math.min(1000 * 2 ** attempt, RECONNECT_MAX_MS)\<close>\<close>

definition backoff :: "nat \<Rightarrow> int" where
  "backoff n = min (1000 * 2 ^ n) RECONNECT_MAX_MS"

definition clearReconnectTimer :: "'w bridge \<Rightarrow> 'w bridge" where
  "clearReconnectTimer b = b\<lparr>timer_armed := False\<rparr>"

definition ensureReconnectAlarm :: "int \<Rightarrow> int \<Rightarrow> 'w bridge \<Rightarrow> 'w bridge" where
  "ensureReconnectAlarm time delayMs b =
     (if (case reconnectFallbackAtMs b of None \<Rightarrow> False | Some at_ms \<Rightarrow> time < at_ms) then b
      else b\<lparr>reconnectFallbackAtMs := Some (time + max delayMs RECONNECT_ALARM_FLOOR_MS),
        alarm := Some (time + max delayMs RECONNECT_ALARM_FLOOR_MS)\<rparr>)"

definition scheduleReconnect :: "int \<Rightarrow> 'w bridge \<Rightarrow> 'w bridge" where
  "scheduleReconnect time b =
     (if port b \<noteq> None \<or> timer_armed b then b
      else let delay = backoff (reconnectAttempt b);
               b1 = ensureReconnectAlarm time delay (b\<lparr>reconnectAttempt := reconnectAttempt b + 1\<rparr>)
           in if delay < RECONNECT_ALARM_FLOOR_MS then b1\<lparr>timer_armed := True\<rparr> else b1)"

definition disconnected_error :: "string \<Rightarrow> js_error" where
  "disconnected_error = coded_error ''extension_disconnected''"

definition onDisconnect :: "nat \<Rightarrow> int \<Rightarrow> 'w bridge \<Rightarrow> 'w bridge" where
  "onDisconnect p time b =
     (if port b \<noteq> Some p then b
      else scheduleReconnect time
        (on_scheduler Scheduler.disconnect
          (b\<lparr>port := None, ready := False, readyReconciliation := None, pendingEventAcks := [],
             answers := answers b @ map (\<lambda>(event, i). (i, Rejected (disconnected_error
               ''AgentTab host disconnected before acknowledging the staged action''))) (pendingEventAcks b),
             discarded := discarded b @ [[]]\<rparr>)))"

text \<open>\<open>opened\<close>: whether \<open>connectNative\<close> returned a port or threw.\<close>

definition connect :: "bool \<Rightarrow> int \<Rightarrow> 'w bridge \<Rightarrow> 'w bridge" where
  "connect opened time b =
     (if port b \<noteq> None then b
      else let b1 = clearReconnectTimer b
           in if \<not> opened then scheduleReconnect time b1
              else later (HelloRead (ports b)) (ensureReconnectAlarm time RECONNECT_ALARM_FLOOR_MS
                (b1\<lparr>port := Some (ports b), ready := False, readyReconciliation := None, ports := ports b + 1\<rparr>)))"

definition timerFired :: "bool \<Rightarrow> int \<Rightarrow> 'w bridge \<Rightarrow> 'w bridge" where
  "timerFired opened time b = connect opened time (b\<lparr>timer_armed := False\<rparr>)"

definition reconnectFromAlarm :: "string \<Rightarrow> bool \<Rightarrow> int \<Rightarrow> 'w bridge \<Rightarrow> 'w bridge" where
  "reconnectFromAlarm alarmName opened time b =
     (if alarmName \<noteq> RECONNECT_ALARM then b
      else let b1 = clearReconnectTimer (b\<lparr>reconnectFallbackAtMs := None\<rparr>)
           in case port b of
               Some p \<Rightarrow> (if ready b then b1 else hang_up p b1)
             | None \<Rightarrow> connect opened time b1)"

section \<open>Sending\<close>

text \<open>
  \<open>post p m thrown failure\<close>: \<open>port.postMessage(m)\<close>, where \<open>thrown\<close> says that the port refused it and
  \<open>failure\<close> is the code that runs then.
\<close>

definition post :: "nat \<Rightarrow> js obj \<Rightarrow> bool \<Rightarrow> ('w bridge \<Rightarrow> 'w bridge) \<Rightarrow> 'w bridge \<Rightarrow> 'w bridge" where
  "post p m thrown failure b = (if thrown then failure b else b\<lparr>posted := posted b @ [(p, m)]\<rparr>)"

text \<open>
  \<open>Number(x)\<close> and \<open>String(x)\<close> of the fields of a ledger entry, which are numbers and strings.
\<close>

definition number_of :: "js \<Rightarrow> js" where
  "number_of v = (case v of Num n \<Rightarrow> Num n | _ \<Rightarrow> Num JNaN)"

definition native_tab :: "js \<Rightarrow> js" where
  "native_tab v =
     (let tab = the_obj v; url = the_str (jget tab ''url'')
      in Obj ([(''tab_id'', number_of (jget tab ''tab_id'')), (''window_id'', number_of (jget tab ''window_id'')),
          (''group_id'', number_of (jget tab ''group_id'')),
          (''url'', Str (if int (length url) \<le> NATIVE_URL_MAX_CHARS then url else [])),
          (''page_revision'', number_of (jget tab ''page_revision''))]
        @ (if is_str (jget tab ''task_id'') then [(''task_id'', jget tab ''task_id'')] else [])))"

definition nativeInventory :: "js list \<Rightarrow> js list" where
  "nativeInventory items = map native_tab items"

definition hello_staged :: "staged_commit \<Rightarrow> js" where
  "hello_staged c = Obj (filter (\<lambda>(k, v). k \<notin> {''action'', ''preview'', ''dialog'', ''review_handle'', ''approved''})
     (the_obj (staged_json c)))"

definition helloRead :: "'w env \<Rightarrow> nat \<Rightarrow> int \<Rightarrow> 'w bridge \<Rightarrow> 'w bridge" where
  "helloRead env p time b = (case on_ext (readState (storage env)) b of
      (Inl e, b1) \<Rightarrow> onDisconnect p time b1
    | (Inr st, b1) \<Rightarrow> later (HelloInventory p st) b1)"

definition helloInventory :: "'w env \<Rightarrow> string \<Rightarrow> nat \<Rightarrow> ext_state \<Rightarrow> bool \<Rightarrow> int \<Rightarrow> 'w bridge \<Rightarrow> 'w bridge" where
  "helloInventory env version p st thrown time b = (case on_ext (inventory env) b of
      (Inl e, b1) \<Rightarrow> onDisconnect p time b1
    | (Inr items, b1) \<Rightarrow> post p (nativeHello version (nativeInventory items) (paused st)
        (map (hello_staged \<circ> snd) (stagedCommits st))) thrown (onDisconnect p time) b1)"

definition event_body :: "string \<Rightarrow> js obj \<Rightarrow> js obj" where
  "event_body event payload =
     (if event = ''inventory'' \<and> is_arr (jget payload ''inventory'')
      then [(''inventory'', Arr (nativeInventory (filter isRecord (the_arr (jget payload ''inventory'')))))]
      else payload)"

definition sendEvent :: "string \<Rightarrow> js obj \<Rightarrow> js \<Rightarrow> bool \<Rightarrow> int \<Rightarrow> 'w bridge \<Rightarrow> 'w bridge" where
  "sendEvent event payload eventId thrown time b = (case port b of
      None \<Rightarrow> b
    | Some p \<Rightarrow>
        (if \<not> ready b then b
         else case nativeEvent event (event_body event payload) eventId of
             Inl e \<Rightarrow> onDisconnect p time b
           | Inr m \<Rightarrow> post p m thrown (onDisconnect p time) b))"

section \<open>Popup requests\<close>

definition answer_request :: "nat \<Rightarrow> answer \<Rightarrow> 'w bridge \<Rightarrow> 'w bridge" where
  "answer_request i a b = b\<lparr>answers := answers b @ [(i, a)]\<rparr>"

definition drop_pending :: "string \<Rightarrow> 'w bridge \<Rightarrow> 'w bridge" where
  "drop_pending event b = b\<lparr>pendingEventAcks := AList.delete event (pendingEventAcks b)\<rparr>"

definition not_approved :: js_error where
  "not_approved = disconnected_error ''AgentTab host is disconnected; the staged action was not approved''"

definition requestPopupEvent :: "string \<Rightarrow> js obj \<Rightarrow> string \<Rightarrow> bool \<Rightarrow> 'w bridge \<Rightarrow> 'w bridge" where
  "requestPopupEvent event payload eventId thrown b =
     (let i = requests b; b0 = b\<lparr>requests := requests b + 1\<rparr>
      in case port b of
          None \<Rightarrow> answer_request i (Rejected not_approved) b0
        | Some p \<Rightarrow>
            (if \<not> ready b then answer_request i (Rejected not_approved) b0
             else let b1 = b0\<lparr>pendingEventAcks := AList.update eventId i (pendingEventAcks b0)\<rparr>;
                      failure = (\<lambda>b. answer_request i (Rejected not_approved) (drop_pending eventId b))
                  in case nativeEvent event payload (Str eventId) of
                      Inl e \<Rightarrow> failure b1
                    | Inr m \<Rightarrow> post p m thrown failure b1))"

definition ackTimeout :: "string \<Rightarrow> 'w bridge \<Rightarrow> 'w bridge" where
  "ackTimeout eventId b = (case map_of (pendingEventAcks b) eventId of
      None \<Rightarrow> b
    | Some i \<Rightarrow> answer_request i (Rejected (disconnected_error
        ''AgentTab host did not acknowledge the staged action'')) (drop_pending eventId b))"

text \<open>What \<open>approvePopupCommit\<close> and \<open>abandonPopupCommit\<close> make of the settled promise.\<close>

definition popup_result :: "string \<Rightarrow> answer \<Rightarrow> js_error + js obj" where
  "popup_result message a = (case a of
      Rejected e \<Rightarrow> Inl e
    | Acknowledged ack \<Rightarrow>
        (case (ack_outcome ack = ''completed'', ack_result ack) of
           (True, Some result) \<Rightarrow> Inr result
         | _ \<Rightarrow> Inl (JsError PlainError (case ack_error ack of None \<Rightarrow> message | Some e \<Rightarrow> rpc_message e)
             [(''code'', Str (case ack_error ack of None \<Rightarrow> ''popup_commit_failed'' | Some e \<Rightarrow> rpc_code e)),
              (''acknowledged'', Bool True)])))"

section \<open>Receiving\<close>

fun inbound_request :: "inbound \<Rightarrow> string" where
  "inbound_request (Command c) = cmd_request c"
| "inbound_request (CloseTask r t) = r"
| "inbound_request (FinishTask f) = fin_request f"
| "inbound_request (EventAck a) = []"
| "inbound_request (Ready r) = []"

text \<open>Handing a command to the dispatcher, once no reconciliation is under way.\<close>

definition startCommand :: "nat \<Rightarrow> inbound \<Rightarrow> 'w bridge \<Rightarrow> 'w bridge" where
  "startCommand p msg b =
     (if \<not> ready b then hang_up_current p b
      else later (Handling p msg) (b\<lparr>dispatched := dispatched b @ [(p, msg)]\<rparr>))"

definition acknowledge :: "event_ack \<Rightarrow> 'w bridge \<Rightarrow> 'w bridge" where
  "acknowledge ack b = (case map_of (pendingEventAcks b) (ack_event_id ack) of
      None \<Rightarrow> b
    | Some i \<Rightarrow> answer_request i (Acknowledged ack) (drop_pending (ack_event_id ack) b))"

text \<open>\<open>reconcileReady\<close> up to its first await, and the bookkeeping of its promise.\<close>

definition beginReconcile :: "nat \<Rightarrow> ready_message \<Rightarrow> 'w bridge \<Rightarrow> 'w bridge" where
  "beginReconcile p msg b =
     (if (case readyReconciliation b of None \<Rightarrow> False | Some (q, _) \<Rightarrow> q = p) then hang_up p b
      else later (Discarding p (reconciliations b) msg)
        (b\<lparr>discarded := discarded b @ [case discard_staged_tokens msg of None \<Rightarrow> [] | Some ts \<Rightarrow> ts],
           readyReconciliation := Some (p, reconciliations b), reconciliations := reconciliations b + 1\<rparr>))"

definition onMessage :: "url_api \<Rightarrow> nat \<Rightarrow> js \<Rightarrow> bool \<Rightarrow> 'w bridge \<Rightarrow> 'w bridge" where
  "onMessage api p message thrown b =
     (if port b \<noteq> Some p then b
      else case parseInboundNativeMessage api message of
          Inl e \<Rightarrow>
            (if error_code e = Some ''invalid_request'' \<and> isRecord message \<and>
                is_str (jget (the_obj message) ''request_id'')
             then post p (failed (the_str (jget (the_obj message) ''request_id'')) ''invalid_request''
                    (err_message e) ''not_started'' None None) thrown (hang_up p) b
             else hang_up p b)
        | Inr (EventAck ack) \<Rightarrow> acknowledge ack b
        | Inr (Ready msg) \<Rightarrow> beginReconcile p msg b
        | Inr msg \<Rightarrow>
            (case readyReconciliation b of
               Some (q, i) \<Rightarrow> (if q = p then later (AwaitReady p i msg) b else startCommand p msg b)
             | None \<Rightarrow> startCommand p msg b))"

text \<open>The dispatcher returned (or threw); the answer goes to the port the command came from.\<close>

definition handled :: "nat \<Rightarrow> inbound \<Rightarrow> js_error + js obj \<Rightarrow> bool \<Rightarrow> int \<Rightarrow> 'w bridge \<Rightarrow> 'w bridge" where
  "handled p msg result thrown time b =
     (let response = (case result of
          Inr r \<Rightarrow> r
        | Inl e \<Rightarrow> failed (inbound_request msg)
            (case error_code e of Some c \<Rightarrow> c | None \<Rightarrow> ''native_action_failed'') (err_message e) ''unknown'' None None)
      in if port b \<noteq> Some p then b else post p response thrown (onDisconnect p time) b)"

section \<open>The handshake\<close>

text \<open>
  \<open>endReconcile\<close>: the promise of reconciliation \<open>i\<close> settled. The \<open>finally\<close> of \<open>onMessage\<close> forgets it, and
  a failure hangs up the port.
\<close>

definition endReconcile :: "nat \<Rightarrow> nat \<Rightarrow> bool \<Rightarrow> 'w bridge \<Rightarrow> 'w bridge" where
  "endReconcile p i ok b =
     (let b1 = b\<lparr>reconciled := (i, ok) # reconciled b,
          readyReconciliation := (if readyReconciliation b = Some (p, i) then None else readyReconciliation b)\<rparr>
      in if ok then b1 else hang_up_current p b1)"

definition stagesDiscarded :: "nat \<Rightarrow> nat \<Rightarrow> ready_message \<Rightarrow> bool \<Rightarrow> 'w bridge \<Rightarrow> 'w bridge" where
  "stagesDiscarded p i msg ok b =
     (if \<not> ok then endReconcile p i True (hang_up_current p b)
      else if port b \<noteq> Some p then endReconcile p i True b
      else later (ClearingAlarm p i msg)
        ((clearReconnectTimer (b\<lparr>ready := True, welcomed := p # welcomed b, reconnectAttempt := 0\<rparr>))
          \<lparr>reconnectFallbackAtMs := None, alarm := None\<rparr>))"

definition alarmCleared :: "nat \<Rightarrow> nat \<Rightarrow> ready_message \<Rightarrow> bool \<Rightarrow> 'w bridge \<Rightarrow> 'w bridge" where
  "alarmCleared p i msg ok b =
     (if \<not> ok then endReconcile p i False b
      else if port b \<noteq> Some p then endReconcile p i True b
      else if host_state msg = ''paused'' then later (Pausing p i) (on_scheduler Scheduler.pause b)
      else later (ReadingState p i) b)"

definition save_pause :: "'w env \<Rightarrow> ('w, unit) op" where
  "save_pause env = mutateState (storage env) (\<lambda>st. Inr ((), st\<lparr>paused := True\<rparr>))"

definition schedulerPaused :: "'w env \<Rightarrow> nat \<Rightarrow> nat \<Rightarrow> 'w bridge \<Rightarrow> 'w bridge" where
  "schedulerPaused env p i b =
     (if port b \<noteq> Some p then endReconcile p i True b
      else case on_ext (save_pause env) b of
          (Inl e, b1) \<Rightarrow> endReconcile p i False b1
        | (Inr _, b1) \<Rightarrow> later (SavedPause p i) b1)"

definition pauseSaved :: "nat \<Rightarrow> nat \<Rightarrow> 'w bridge \<Rightarrow> 'w bridge" where
  "pauseSaved p i b = (if port b \<noteq> Some p then endReconcile p i True b else later (OnReady p i) b)"

definition stateRead :: "'w env \<Rightarrow> nat \<Rightarrow> nat \<Rightarrow> 'w bridge \<Rightarrow> 'w bridge" where
  "stateRead env p i b = (case on_ext (readState (storage env)) b of
      (Inl e, b1) \<Rightarrow> endReconcile p i False b1
    | (Inr st, b1) \<Rightarrow> later (HaveState p i st) b1)"

definition resumeReady :: "nat \<Rightarrow> nat \<Rightarrow> ext_state \<Rightarrow> 'w bridge \<Rightarrow> 'w bridge" where
  "resumeReady p i st b =
     (if port b \<noteq> Some p then endReconcile p i True b
      else later (OnReady p i) (if paused st then b else on_scheduler Scheduler.resume b))"

definition reconciledThen :: "nat \<Rightarrow> bool \<Rightarrow> inbound \<Rightarrow> 'w bridge \<Rightarrow> 'w bridge" where
  "reconciledThen p ok msg b =
     (if \<not> ok then hang_up_current p b else if port b \<noteq> Some p then b else startCommand p msg b)"

section \<open>All steps\<close>

text \<open>Resuming a suspended call takes it out of \<open>calls\<close>.\<close>

definition taken :: "call \<Rightarrow> 'w bridge \<Rightarrow> 'w bridge" where
  "taken c b = b\<lparr>calls := remove1 c (calls b)\<rparr>"

inductive resume_step :: "'w env \<Rightarrow> string \<Rightarrow> call \<Rightarrow> 'w bridge \<Rightarrow> 'w bridge \<Rightarrow> bool"
  for env :: "'w env" and version :: string where
  re_hello_read: "resume_step env version (HelloRead p) b (helloRead env p time b)"
| re_hello: "resume_step env version (HelloInventory p st) b (helloInventory env version p st thrown time b)"
| re_discarded: "resume_step env version (Discarding p i msg) b (stagesDiscarded p i msg ok b)"
| re_alarm: "resume_step env version (ClearingAlarm p i msg) b (alarmCleared p i msg ok b)"
| re_paused: "drained (scheduler (ext b)) \<Longrightarrow> resume_step env version (Pausing p i) b (schedulerPaused env p i b)"
| re_saved: "resume_step env version (SavedPause p i) b (pauseSaved p i b)"
| re_state: "resume_step env version (ReadingState p i) b (stateRead env p i b)"
| re_resume: "resume_step env version (HaveState p i st) b (resumeReady p i st b)"
| re_ready: "resume_step env version (OnReady p i) b (endReconcile p i ok b)"
| re_await: "(i, ok) \<in> set (reconciled b) \<Longrightarrow> resume_step env version (AwaitReady p i msg) b (reconciledThen p ok msg b)"
| re_handled: "resume_step env version (Handling p msg) b (handled p msg result thrown time b)"

inductive bridge_step :: "'w env \<Rightarrow> url_api \<Rightarrow> string \<Rightarrow> 'w bridge \<Rightarrow> 'w bridge \<Rightarrow> bool"
  for env :: "'w env" and api :: url_api and version :: string where
  br_connect: "bridge_step env api version b (connect opened time b)"
| br_timer: "timer_armed b \<Longrightarrow> bridge_step env api version b (timerFired opened time b)"
| br_alarm_fires: "alarm b \<noteq> None \<Longrightarrow> bridge_step env api version b (b\<lparr>alarm := None, alarm_due := alarm_due b + 1\<rparr>)"
| br_alarm: "alarm_due b = Suc n \<Longrightarrow>
    bridge_step env api version b (reconnectFromAlarm RECONNECT_ALARM opened time (b\<lparr>alarm_due := n\<rparr>))"
| br_message: "bridge_step env api version b (onMessage api p message thrown b)"
| br_closed: "bridge_step env api version b (onDisconnect p time b)"
| br_event: "bridge_step env api version b (sendEvent event payload eventId thrown time b)"
| br_request: "map_of (pendingEventAcks b) eventId = None \<Longrightarrow>
    bridge_step env api version b (requestPopupEvent event payload eventId thrown b)"
| br_timeout: "bridge_step env api version b (ackTimeout eventId b)"
| br_resume: "c \<in> set (calls b) \<Longrightarrow> resume_step env version c (taken c b) b' \<Longrightarrow> bridge_step env api version b b'"
| br_elsewhere: "bridge_step env api version b (b\<lparr>ext := s\<rparr>)"

inductive_cases resume_stepE: "resume_step env version c b b'"
inductive_cases bridge_stepE: "bridge_step env api version b b'"

definition fresh_bridge :: "'w bridge \<Rightarrow> bool" where
  "fresh_bridge b \<longleftrightarrow> b = new_bridge (ext b)"

definition bridge_reachable :: "'w env \<Rightarrow> url_api \<Rightarrow> string \<Rightarrow> 'w bridge \<Rightarrow> bool" where
  "bridge_reachable env api version b \<longleftrightarrow> reach fresh_bridge (bridge_step env api version) b"

end
