(* ===== verification/NativeFacts.thy ===== *)
theory NativeFacts
  imports Native "HOL-Library.Multiset"
begin

text \<open>
  The invariant of the native connection, segment by segment: only a port that completed the handshake
  is ready and gets commands dispatched, every popup request is either pending or answered once, and a
  bridge without a port has a reconnect alarm.
\<close>

section \<open>The invariant\<close>

definition wakes :: "'w bridge \<Rightarrow> bool" where
  "wakes b \<longleftrightarrow> alarm b \<noteq> None \<or> 0 < alarm_due b"

definition promises_ok :: "'w bridge \<Rightarrow> bool" where
  "promises_ok b \<longleftrightarrow> distinct (map fst (pendingEventAcks b)) \<and>
     mset (map fst (answers b)) + mset (map snd (pendingEventAcks b)) = mset [0..<requests b]"

text \<open>\<open>core\<close> holds inside the operations too; \<open>bridge_ok\<close> holds between them.\<close>

definition core :: "'w bridge \<Rightarrow> bool" where
  "core b \<longleftrightarrow>
     (ready b \<longrightarrow> (\<exists>p \<in> set (welcomed b). port b = Some p)) \<and>
     set (map fst (dispatched b)) \<subseteq> set (welcomed b) \<and>
     (\<forall>p. port b = Some p \<longrightarrow> p < ports b) \<and>
     (timer_armed b \<or> reconnectFallbackAtMs b \<noteq> None \<longrightarrow> wakes b) \<and>
     promises_ok b"

definition bridge_ok :: "'w bridge \<Rightarrow> bool" where
  "bridge_ok b \<longleftrightarrow> core b \<and> (port b = None \<longrightarrow> 0 < ports b + reconnectAttempt b \<longrightarrow> wakes b)"

lemma bridge_ok_new: "fresh_bridge b \<Longrightarrow> bridge_ok b"
proof -
  assume "fresh_bridge b"
  then obtain s where b: "b = new_bridge s" unfolding fresh_bridge_def by blast
  show "bridge_ok b" unfolding b by (simp add: new_bridge_def bridge_ok_def core_def promises_ok_def)
qed

lemma bridge_okD: "bridge_ok b \<Longrightarrow> core b"
  by (simp add: bridge_ok_def)

lemma bridge_ok_with_port: "port b = Some p \<Longrightarrow> bridge_ok b = core b"
  by (simp add: bridge_ok_def)

lemma coreD:
  assumes "core b"
  shows "ready b \<Longrightarrow> \<exists>p \<in> set (welcomed b). port b = Some p" and "set (map fst (dispatched b)) \<subseteq> set (welcomed b)"
    and "port b = Some p \<Longrightarrow> p < ports b" and "timer_armed b \<or> reconnectFallbackAtMs b \<noteq> None \<longrightarrow> wakes b"
    and "promises_ok b"
  using assms by (simp_all add: core_def)

lemma wakes_frame [simp]:
  "wakes (b\<lparr>ext := s\<rparr>) = wakes b" "wakes (b\<lparr>port := q\<rparr>) = wakes b" "wakes (b\<lparr>ready := f\<rparr>) = wakes b"
  "wakes (b\<lparr>reconnectAttempt := n\<rparr>) = wakes b" "wakes (b\<lparr>timer_armed := f\<rparr>) = wakes b"
  "wakes (b\<lparr>reconnectFallbackAtMs := x\<rparr>) = wakes b" "wakes (b\<lparr>pendingEventAcks := ps\<rparr>) = wakes b"
  "wakes (b\<lparr>readyReconciliation := r\<rparr>) = wakes b" "wakes (b\<lparr>calls := cs\<rparr>) = wakes b"
  "wakes (b\<lparr>ports := n\<rparr>) = wakes b" "wakes (b\<lparr>requests := n\<rparr>) = wakes b" "wakes (b\<lparr>answers := as\<rparr>) = wakes b"
  "wakes (b\<lparr>discarded := ds\<rparr>) = wakes b"
  by (simp_all add: wakes_def)

lemma core_frame [simp]:
  "core (b\<lparr>ext := s\<rparr>) = core b" "core (b\<lparr>calls := cs\<rparr>) = core b" "core (b\<lparr>posted := ms\<rparr>) = core b"
  "core (b\<lparr>hung_up := hs\<rparr>) = core b" "core (b\<lparr>discarded := ds\<rparr>) = core b"
  "core (b\<lparr>readyReconciliation := r\<rparr>) = core b" "core (b\<lparr>reconciliations := n\<rparr>) = core b"
  "core (b\<lparr>reconciled := rs\<rparr>) = core b" "core (b\<lparr>reconnectAttempt := n\<rparr>) = core b"
  by (simp_all add: core_def wakes_def promises_ok_def)

lemma bridge_ok_frame [simp]:
  "bridge_ok (b\<lparr>ext := s\<rparr>) = bridge_ok b" "bridge_ok (b\<lparr>calls := cs\<rparr>) = bridge_ok b"
  "bridge_ok (b\<lparr>posted := ms\<rparr>) = bridge_ok b" "bridge_ok (b\<lparr>hung_up := hs\<rparr>) = bridge_ok b"
  "bridge_ok (b\<lparr>discarded := ds\<rparr>) = bridge_ok b" "bridge_ok (b\<lparr>readyReconciliation := r\<rparr>) = bridge_ok b"
  "bridge_ok (b\<lparr>reconciliations := n\<rparr>) = bridge_ok b" "bridge_ok (b\<lparr>reconciled := rs\<rparr>) = bridge_ok b"
  by (simp_all add: bridge_ok_def wakes_def)

lemma ok_later [simp]: "bridge_ok (later c b) = bridge_ok b"
  by (simp add: later_def)

lemma ok_hang_up [simp]: "bridge_ok (hang_up p b) = bridge_ok b" "bridge_ok (hang_up_current p b) = bridge_ok b"
  by (simp_all add: hang_up_def hang_up_current_def)

lemma ok_scheduler [simp]: "bridge_ok (on_scheduler f b) = bridge_ok b"
  by (simp add: on_scheduler_def)

lemma core_clear_timer: "core b \<Longrightarrow> core (clearReconnectTimer b)"
  by (auto simp: clearReconnectTimer_def core_def promises_ok_def)

lemma on_ext_eq: "snd (on_ext m b) = b\<lparr>ext := ext (snd (on_ext m b))\<rparr>"
  by (simp add: on_ext_def split: prod.split)

lemma ok_on_ext [simp]: "bridge_ok (snd (on_ext m b)) = bridge_ok b"
  by (subst on_ext_eq) simp

lemma ok_on_extD: "on_ext m b = (r, b1) \<Longrightarrow> bridge_ok b1 = bridge_ok b"
  using ok_on_ext [of m b] by simp

section \<open>Reconnecting\<close>

lemma ensure_alarm_fields [simp]:
  "port (ensureReconnectAlarm t d b) = port b" "ready (ensureReconnectAlarm t d b) = ready b"
  "ports (ensureReconnectAlarm t d b) = ports b" "dispatched (ensureReconnectAlarm t d b) = dispatched b"
  "welcomed (ensureReconnectAlarm t d b) = welcomed b" "promises_ok (ensureReconnectAlarm t d b) = promises_ok b"
  "alarm_due (ensureReconnectAlarm t d b) = alarm_due b" "pendingEventAcks (ensureReconnectAlarm t d b) = pendingEventAcks b"
  "answers (ensureReconnectAlarm t d b) = answers b" "ext (ensureReconnectAlarm t d b) = ext b"
  by (simp_all add: ensureReconnectAlarm_def promises_ok_def)

text \<open>The alarm is there afterwards, if a recorded time means that it was.\<close>

lemma ensure_alarm_wakes:
  "(reconnectFallbackAtMs b \<noteq> None \<Longrightarrow> wakes b) \<Longrightarrow> wakes (ensureReconnectAlarm t d b)"
  by (auto simp: ensureReconnectAlarm_def wakes_def split: option.splits if_splits)

lemma schedule_fields [simp]:
  "port (scheduleReconnect t b) = port b" "ready (scheduleReconnect t b) = ready b"
  "pendingEventAcks (scheduleReconnect t b) = pendingEventAcks b" "answers (scheduleReconnect t b) = answers b"
  "ext (scheduleReconnect t b) = ext b" "ports (scheduleReconnect t b) = ports b"
  by (simp_all add: scheduleReconnect_def Let_def)

text \<open>Scheduling without a port leaves an alarm behind.\<close>

lemma ensure_alarm_core: "core b \<Longrightarrow> core (ensureReconnectAlarm t d b) \<and> wakes (ensureReconnectAlarm t d b)"
  using ensure_alarm_wakes [of b t d] by (simp add: core_def)

lemma schedule_ok:
  assumes c: "core b" and p: "port b = None" shows "bridge_ok (scheduleReconnect t b)"
proof (cases "timer_armed b")
  case True
  then show ?thesis using assms coreD(4) [OF c] by (simp add: scheduleReconnect_def bridge_ok_def)
next
  case False
  let ?b = "ensureReconnectAlarm t (backoff (reconnectAttempt b)) (b\<lparr>reconnectAttempt := reconnectAttempt b + 1\<rparr>)"
  have "core ?b \<and> wakes ?b" using c by (intro ensure_alarm_core) simp
  then have "bridge_ok ?b" and "bridge_ok (?b\<lparr>timer_armed := True\<rparr>)"
    by (simp_all add: bridge_ok_def core_def promises_ok_def)
  then show ?thesis using False p by (simp add: scheduleReconnect_def Let_def)
qed

lemma promises_rejected:
  assumes "promises_ok b"
  shows "promises_ok (b\<lparr>pendingEventAcks := [], answers := answers b @ map (\<lambda>(event, i). (i, a)) (pendingEventAcks b)\<rparr>)"
proof -
  have e: "fst \<circ> (\<lambda>(event, i). (i, a)) = snd" by (auto simp: fun_eq_iff)
  from assms show ?thesis by (simp add: promises_ok_def image_mset.compositionality e)
qed

lemma disconnect_ok:
  assumes ok: "bridge_ok b" shows "bridge_ok (onDisconnect p t b)"
proof (cases "port b = Some p")
  case True
  let ?b = "b\<lparr>port := None, ready := False, readyReconciliation := None, pendingEventAcks := [],
      answers := answers b @ map (\<lambda>(event, i). (i, Rejected (disconnected_error
        ''AgentTab host disconnected before acknowledging the staged action''))) (pendingEventAcks b),
      discarded := discarded b @ [[]]\<rparr>"
  note c = bridge_okD [OF ok]
  have "core ?b"
    using coreD(2,4) [OF c] promises_rejected [OF coreD(5) [OF c]] by (simp add: core_def promises_ok_def)
  then have "bridge_ok (scheduleReconnect t (on_scheduler Scheduler.disconnect ?b))"
    by (intro schedule_ok) (simp_all add: on_scheduler_def)
  then show ?thesis using True by (simp add: onDisconnect_def)
qed (simp add: onDisconnect_def ok)

lemma connect_core:
  assumes c: "core b" and p: "port b = None" shows "bridge_ok (connect opened t b)"
proof -
  have c1: "core (clearReconnectTimer b)" by (rule core_clear_timer [OF c])
  show ?thesis
  proof (cases opened)
    case True
    let ?b = "(clearReconnectTimer b)\<lparr>port := Some (ports b), ready := False, readyReconciliation := None,
      ports := ports b + 1\<rparr>"
    have "core ?b" using c1 by (simp add: core_def promises_ok_def clearReconnectTimer_def)
    then have "core (ensureReconnectAlarm t RECONNECT_ALARM_FLOOR_MS ?b)" using ensure_alarm_core by blast
    then have "bridge_ok (ensureReconnectAlarm t RECONNECT_ALARM_FLOOR_MS ?b)" by (simp add: bridge_ok_def)
    then show ?thesis using True p by (simp add: connect_def clearReconnectTimer_def)
  next
    case False
    then show ?thesis
      using p schedule_ok [OF c1] by (simp add: connect_def clearReconnectTimer_def)
  qed
qed

lemma connect_ok: "bridge_ok b \<Longrightarrow> bridge_ok (connect opened t b)"
  using connect_core [of b] bridge_okD by (cases "port b") (auto simp: connect_def)

lemma timer_ok: "bridge_ok b \<Longrightarrow> bridge_ok (timerFired opened t b)"
proof -
  assume ok: "bridge_ok b"
  have "bridge_ok (clearReconnectTimer b)"
    using ok core_clear_timer bridge_okD by (auto simp: bridge_ok_def clearReconnectTimer_def)
  then show ?thesis using connect_ok by (simp add: timerFired_def clearReconnectTimer_def)
qed

lemma alarm_ok:
  assumes ok: "bridge_ok b" shows "bridge_ok (reconnectFromAlarm RECONNECT_ALARM opened t (b\<lparr>alarm_due := n\<rparr>))"
proof -
  let ?b = "clearReconnectTimer (b\<lparr>alarm_due := n, reconnectFallbackAtMs := None\<rparr>)"
  have c: "core ?b"
    using coreD [OF bridge_okD [OF ok]] by (auto simp: core_def clearReconnectTimer_def promises_ok_def)
  show ?thesis
  proof (cases "port b")
    case None
    then show ?thesis using connect_core [OF c] by (simp add: reconnectFromAlarm_def clearReconnectTimer_def)
  next
    case (Some p)
    then have "bridge_ok ?b" using c by (simp add: bridge_ok_with_port [of _ p] clearReconnectTimer_def)
    then show ?thesis using Some by (simp add: reconnectFromAlarm_def Let_def)
  qed
qed

section \<open>Popup requests\<close>

lemma delete_pending:
  "distinct (map fst ps) \<Longrightarrow> map_of ps e = Some i \<Longrightarrow> mset (map snd ps) = add_mset i (mset (map snd (AList.delete e ps)))"
proof (induction ps)
  case (Cons p ps)
  then show ?case by (cases p) (auto simp: delete_absent rev_image_eqI)
qed simp

lemma answer_drop_ok:
  assumes ok: "bridge_ok b" and e: "map_of (pendingEventAcks b) e = Some i"
  shows "bridge_ok (answer_request i a (drop_pending e b))"
proof -
  have p: "promises_ok b" using ok by (simp add: bridge_ok_def core_def)
  then have "promises_ok (answer_request i a (drop_pending e b))"
    using delete_pending [OF _ e] distinct_keys_delete by (auto simp: promises_ok_def answer_request_def drop_pending_def)
  then show ?thesis
    using ok by (simp add: bridge_ok_def core_def answer_request_def drop_pending_def wakes_def)
qed

lemma upt_requests: "mset [0..<n + 1] = add_mset n (mset [0..<n])"
  by simp

lemma new_request_answered:
  assumes ok: "bridge_ok b" shows "bridge_ok (answer_request (requests b) a (b\<lparr>requests := requests b + 1\<rparr>))"
proof -
  have p: "promises_ok b" using ok by (simp add: bridge_ok_def core_def)
  then have "promises_ok (answer_request (requests b) a (b\<lparr>requests := requests b + 1\<rparr>))"
    unfolding promises_ok_def by (simp add: answer_request_def del: mset_upt)
  then show ?thesis using ok by (simp add: bridge_ok_def core_def answer_request_def wakes_def)
qed

lemma new_request_pending:
  assumes ok: "bridge_ok b" and f: "map_of (pendingEventAcks b) e = None"
  shows "bridge_ok (b\<lparr>requests := requests b + 1, pendingEventAcks := AList.update e (requests b) (pendingEventAcks b)\<rparr>)"
proof -
  have p: "promises_ok b" using ok by (simp add: bridge_ok_def core_def)
  have "e \<notin> fst ` set (pendingEventAcks b)" using f by (simp add: map_of_eq_None_iff)
  then have "AList.update e (requests b) (pendingEventAcks b) = pendingEventAcks b @ [(e, requests b)]"
    by (rule update_fresh)
  then show ?thesis
    using ok p f by (auto simp: bridge_ok_def core_def wakes_def promises_ok_def map_of_eq_None_iff simp del: mset_upt)
qed

lemma post_ok: "bridge_ok b \<Longrightarrow> bridge_ok (failure b) \<Longrightarrow> bridge_ok (post p m thrown failure b)"
  by (simp add: post_def)

lemma bridge_request_ok:
  assumes ok: "bridge_ok b" and f: "map_of (pendingEventAcks b) e = None"
  shows "bridge_ok (requestPopupEvent event payload e thrown b)"
proof -
  let ?b = "b\<lparr>requests := requests b + 1, pendingEventAcks := AList.update e (requests b) (pendingEventAcks b)\<rparr>"
  have new: "bridge_ok ?b" by (rule new_request_pending [OF ok f])
  have "bridge_ok (answer_request (requests b) a (drop_pending e ?b))" for a by (rule answer_drop_ok [OF new]) simp
  then show ?thesis
    using new new_request_answered [OF ok]
    by (auto simp: requestPopupEvent_def Let_def intro!: post_ok split: option.split sum.split)
qed

lemma timeout_ok: "bridge_ok b \<Longrightarrow> bridge_ok (ackTimeout e b)"
  by (simp add: ackTimeout_def answer_drop_ok split: option.split)

lemma acknowledge_ok: "bridge_ok b \<Longrightarrow> bridge_ok (acknowledge ack b)"
  by (simp add: acknowledge_def answer_drop_ok split: option.split)

section \<open>Messages and the handshake\<close>

lemma event_ok: "bridge_ok b \<Longrightarrow> bridge_ok (sendEvent event payload eventId thrown t b)"
  by (simp add: sendEvent_def disconnect_ok post_ok split: option.split sum.split)

lemma bridge_dispatch_ok:
  assumes ok: "bridge_ok b" and r: "ready b" and p: "port b = Some p"
  shows "bridge_ok (b\<lparr>dispatched := dispatched b @ [(p, msg)]\<rparr>)"
proof -
  have "p \<in> set (welcomed b)" using coreD(1) [OF bridge_okD [OF ok] r] p by auto
  then show ?thesis using ok by (simp add: bridge_ok_def core_def wakes_def promises_ok_def)
qed

lemma bridge_start_ok: "bridge_ok b \<Longrightarrow> port b = Some p \<Longrightarrow> bridge_ok (startCommand p msg b)"
  by (simp add: startCommand_def bridge_dispatch_ok)

lemma begin_reconcile_ok: "bridge_ok b \<Longrightarrow> bridge_ok (beginReconcile p msg b)"
  by (simp add: beginReconcile_def)

lemma message_ok: "bridge_ok b \<Longrightarrow> bridge_ok (onMessage api p message thrown b)"
  by (auto simp: onMessage_def post_ok acknowledge_ok begin_reconcile_ok bridge_start_ok
      split: sum.split inbound.split option.split)

lemma end_ok: "bridge_ok b \<Longrightarrow> bridge_ok (endReconcile p i ok b)"
  by (simp add: endReconcile_def Let_def)

lemma welcome_ok:
  assumes ok: "bridge_ok b" and p: "port b = Some p"
  shows "bridge_ok (stagesDiscarded p i msg True b)"
proof -
  have "core ((clearReconnectTimer (b\<lparr>ready := True, welcomed := p # welcomed b, reconnectAttempt := 0\<rparr>))
      \<lparr>reconnectFallbackAtMs := None, alarm := None\<rparr>)"
    using coreD [OF bridge_okD [OF ok]] p by (auto simp: core_def clearReconnectTimer_def promises_ok_def)
  then have "bridge_ok ((clearReconnectTimer (b\<lparr>ready := True, welcomed := p # welcomed b, reconnectAttempt := 0\<rparr>))
      \<lparr>reconnectFallbackAtMs := None, alarm := None\<rparr>)"
    by (rule iffD2 [OF bridge_ok_with_port [of _ p], rotated]) (simp add: p clearReconnectTimer_def)
  then show ?thesis using p by (simp add: stagesDiscarded_def)
qed

lemma stages_ok: "bridge_ok b \<Longrightarrow> bridge_ok (stagesDiscarded p i msg ok b)"
  using welcome_ok [of b p i msg] by (auto simp: stagesDiscarded_def end_ok)

lemma hello_read_ok: "bridge_ok b \<Longrightarrow> bridge_ok (helloRead env p t b)"
  by (auto simp: helloRead_def disconnect_ok ok_on_extD split: prod.split sum.split)

lemma hello_ok: "bridge_ok b \<Longrightarrow> bridge_ok (helloInventory env version p st thrown t b)"
  by (auto simp: helloInventory_def disconnect_ok post_ok ok_on_extD split: prod.split sum.split)

lemma paused_ok: "bridge_ok b \<Longrightarrow> bridge_ok (schedulerPaused env p i b)"
  by (auto simp: schedulerPaused_def end_ok ok_on_extD split: prod.split sum.split)

lemma state_read_ok: "bridge_ok b \<Longrightarrow> bridge_ok (stateRead env p i b)"
  by (auto simp: stateRead_def end_ok ok_on_extD split: prod.split sum.split)

lemma handled_ok: "bridge_ok b \<Longrightarrow> bridge_ok (handled p msg result thrown t b)"
  by (simp add: handled_def Let_def disconnect_ok post_ok)

lemma resume_ok: "resume_step env version c b b' \<Longrightarrow> bridge_ok b \<Longrightarrow> bridge_ok b'"
proof (induction rule: resume_step.induct)
  case (re_await i ok b p msg)
  then show ?case by (simp add: reconciledThen_def bridge_start_ok)
qed (simp_all add: hello_read_ok hello_ok stages_ok alarmCleared_def paused_ok pauseSaved_def state_read_ok
    resumeReady_def end_ok handled_ok)

lemma bridge_step_ok: "bridge_step env api version b b' \<Longrightarrow> bridge_ok b \<Longrightarrow> bridge_ok b'"
proof (induction rule: bridge_step.induct)
  case (br_alarm_fires b)
  then show ?case by (simp add: bridge_ok_def core_def wakes_def promises_ok_def)
next
  case (br_resume c b b')
  have "bridge_ok (taken c b)" using br_resume.prems by (simp add: taken_def)
  then show ?case using resume_ok br_resume.hyps(2) by blast
qed (simp_all add: connect_ok timer_ok alarm_ok message_ok disconnect_ok event_ok bridge_request_ok timeout_ok)

interpretation bridge_inv: inductive_invariant fresh_bridge "bridge_step env api version" bridge_ok
  for env :: "'w env" and api version
  by unfold_locales (auto intro: bridge_ok_new bridge_step_ok)

lemma bridge_reachable_ok: "bridge_reachable env api version b \<Longrightarrow> bridge_ok b"
  unfolding bridge_reachable_def by (rule bridge_inv.inv_reach)

section \<open>Phases of the connection\<close>

text \<open>
  What the host sees of a connection: none, one whose handshake is under way, or one that is up. A
  connection is opened only when there is none, it comes up once, and from either phase it can only be
  lost. The argument of \<open>phase_step\<close> is the number of ports opened so far.
\<close>

datatype phase = Down | Greeting nat | Up nat

definition phase_of :: "'w bridge \<Rightarrow> phase" where
  "phase_of b = (case port b of None \<Rightarrow> Down | Some p \<Rightarrow> if ready b then Up p else Greeting p)"

inductive phase_step :: "nat \<Rightarrow> phase \<Rightarrow> phase \<Rightarrow> bool" for n :: nat where
  ph_stay: "phase_step n ph ph"
| ph_open: "phase_step n Down (Greeting n)"
| ph_ready: "phase_step n (Greeting p) (Up p)"
| ph_lost: "phase_step n ph Down"

lemma phase_of_cong: "port b' = port b \<Longrightarrow> ready b' = ready b \<Longrightarrow> phase_of b' = phase_of b"
  by (cases "port b") (simp_all add: phase_of_def)

definition follows :: "'w bridge \<Rightarrow> 'w bridge \<Rightarrow> bool" where
  "follows b b' \<longleftrightarrow> phase_step (ports b) (phase_of b) (phase_of b')"

lemma follows_same: "port b' = port b \<Longrightarrow> ready b' = ready b \<Longrightarrow> follows b b'"
  unfolding follows_def using phase_of_cong [of b' b] ph_stay [of "ports b" "phase_of b"] by simp

lemma follows_down: "port b' = None \<Longrightarrow> follows b b'"
  unfolding follows_def by (simp add: phase_of_def ph_lost)

lemma follows_frame:
  "port b = port c \<Longrightarrow> ready b = ready c \<Longrightarrow> ports b = ports c \<Longrightarrow> follows b b' = follows c b'"
  using phase_of_cong [of c b] by (simp add: follows_def)

lemma same_parts [simp]:
  "port (later c b) = port b" "ready (later c b) = ready b" "ports (later c b) = ports b"
  "port (hang_up p b) = port b" "ready (hang_up p b) = ready b" "ports (hang_up p b) = ports b"
  "port (hang_up_current p b) = port b" "ready (hang_up_current p b) = ready b" "ports (hang_up_current p b) = ports b"
  "port (on_scheduler f b) = port b" "ready (on_scheduler f b) = ready b" "ports (on_scheduler f b) = ports b"
  "port (endReconcile p i ok b) = port b" "ready (endReconcile p i ok b) = ready b"
  "port (answer_request k a b) = port b" "ready (answer_request k a b) = ready b"
  "port (drop_pending e b) = port b" "ready (drop_pending e b) = ready b"
  "port (taken c b) = port b" "ready (taken c b) = ready b" "ports (taken c b) = ports b"
  "port (startCommand p m b) = port b" "ready (startCommand p m b) = ready b"
  "port (clearReconnectTimer b) = port b" "ready (clearReconnectTimer b) = ready b" "ports (clearReconnectTimer b) = ports b"
  by (simp_all add: later_def hang_up_def hang_up_current_def on_scheduler_def endReconcile_def Let_def
      answer_request_def drop_pending_def taken_def startCommand_def clearReconnectTimer_def)

lemma on_ext_parts: "on_ext m b = (r, b1) \<Longrightarrow> port b1 = port b \<and> ready b1 = ready b \<and> ports b1 = ports b"
  by (auto simp: on_ext_def split: prod.splits)

lemma follows_disconnect: "follows b (onDisconnect p t b)"
  by (cases "port b = Some p") (simp_all add: onDisconnect_def follows_down follows_same)

lemma follows_post: "follows b (failure b) \<Longrightarrow> follows b (post p m thrown failure b)"
  by (simp add: post_def follows_same)

lemma follows_connect: "follows b (connect opened t b)"
proof (cases "port b")
  case None
  then show ?thesis by (auto simp: connect_def Let_def follows_def phase_of_def intro: phase_step.intros)
qed (simp add: connect_def follows_same)

lemma follows_alarm: "follows b (reconnectFromAlarm nm opened t b)"
proof (cases "nm = RECONNECT_ALARM \<and> port b = None")
  case True
  let ?b = "clearReconnectTimer (b\<lparr>reconnectFallbackAtMs := None\<rparr>)"
  have "follows ?b (connect opened t ?b)" by (rule follows_connect)
  then show ?thesis using True by (simp add: reconnectFromAlarm_def follows_frame [of ?b b])
next
  case False
  then show ?thesis by (auto simp: reconnectFromAlarm_def Let_def intro!: follows_same split: option.split)
qed

lemma follows_request: "follows b (requestPopupEvent event payload e thrown b)"
  by (rule follows_same) (simp_all add: requestPopupEvent_def Let_def post_def split: option.split sum.split)

lemma follows_message: "follows b (onMessage api p message thrown b)"
  by (rule follows_same)
    (auto simp: onMessage_def post_def acknowledge_def beginReconcile_def split: sum.split inbound.split option.split)

lemma follows_stages: "follows b (stagesDiscarded p i msg ok b)"
proof (cases "ok \<and> port b = Some p")
  case True
  then show ?thesis by (auto simp: stagesDiscarded_def follows_def phase_of_def intro: phase_step.intros)
next
  case False
  then show ?thesis by (auto simp: stagesDiscarded_def intro!: follows_same)
qed

lemma follows_from: "follows c b' \<Longrightarrow> port b = port c \<Longrightarrow> ready b = ready c \<Longrightarrow> ports b = ports c \<Longrightarrow> follows b b'"
  using follows_frame [of b c b'] by simp

lemma follows_after_ext: "on_ext m b = (r, b1) \<Longrightarrow> follows b1 b' \<Longrightarrow> follows b b'"
  using follows_frame [of b1 b b'] on_ext_parts [of m b r b1] by simp

lemma follows_resume: "resume_step env version c b b' \<Longrightarrow> follows b b'"
proof (induction rule: resume_step.induct)
  case (re_hello_read p b t)
  obtain r b1 where e: "on_ext (readState (storage env)) b = (r, b1)" by fastforce
  have "follows b1 (helloRead env p t b)" by (cases r) (simp_all add: helloRead_def e follows_disconnect follows_same)
  then show ?case by (rule follows_after_ext [OF e])
next
  case (re_hello p st b thrown t)
  obtain r b1 where e: "on_ext (inventory env) b = (r, b1)" by fastforce
  have "follows b1 (helloInventory env version p st thrown t b)"
    by (cases r) (simp_all add: helloInventory_def e follows_disconnect follows_post)
  then show ?case by (rule follows_after_ext [OF e])
next
  case (re_paused b p i)
  obtain r b1 where e: "on_ext (save_pause env) b = (r, b1)" by fastforce
  show ?case
  proof (cases "port b = Some p")
    case True
    then have "follows b1 (schedulerPaused env p i b)" by (cases r) (simp_all add: schedulerPaused_def e follows_same)
    then show ?thesis by (rule follows_after_ext [OF e])
  qed (simp add: schedulerPaused_def follows_same)
next
  case (re_state p i b)
  obtain r b1 where e: "on_ext (readState (storage env)) b = (r, b1)" by fastforce
  have "follows b1 (stateRead env p i b)" by (cases r) (simp_all add: stateRead_def e follows_same)
  then show ?case by (rule follows_after_ext [OF e])
next
  case (re_handled p msg b result thrown t)
  then show ?case by (auto simp: handled_def Let_def intro: follows_same follows_post follows_disconnect)
qed (auto simp: follows_stages alarmCleared_def pauseSaved_def resumeReady_def reconciledThen_def intro!: follows_same)

lemma bridge_step_follows: "bridge_step env api version b b' \<Longrightarrow> follows b b'"
proof (induction rule: bridge_step.induct)
  case (br_timer b opened t)
  have "follows (b\<lparr>timer_armed := False\<rparr>) (timerFired opened t b)"
    unfolding timerFired_def by (rule follows_connect)
  then show ?case by (rule follows_from) simp_all
next
  case (br_alarm b n opened t)
  have "follows (b\<lparr>alarm_due := n\<rparr>) (reconnectFromAlarm RECONNECT_ALARM opened t (b\<lparr>alarm_due := n\<rparr>))"
    by (rule follows_alarm)
  then show ?case by (rule follows_from) simp_all
next
  case (br_event b event payload eventId thrown t)
  show ?case
    by (auto simp: sendEvent_def intro: follows_same follows_post follows_disconnect split: option.split sum.split)
next
  case (br_resume c b b')
  then have "follows (taken c b) b'" using follows_resume by blast
  then show ?case by (rule follows_from) simp_all
next
  case (br_timeout b e)
  show ?case by (rule follows_same) (simp_all add: ackTimeout_def split: option.split)
qed (simp_all add: follows_connect follows_message follows_disconnect follows_request follows_same)

text \<open>Losing the connection rejects what was pending and closes the scheduler.\<close>

lemma lost_connection:
  assumes "port b = Some p"
  shows "port (onDisconnect p t b) = None" "pendingEventAcks (onDisconnect p t b) = []"
    "scheduler (ext (onDisconnect p t b)) = Scheduler.disconnect (scheduler (ext b))"
    "answers (onDisconnect p t b) = answers b @ map (\<lambda>(event, i). (i, Rejected (disconnected_error
       ''AgentTab host disconnected before acknowledging the staged action''))) (pendingEventAcks b)"
  using assms by (simp_all add: onDisconnect_def on_scheduler_def)

lemma backoff_grows: "1000 \<le> backoff n" "backoff n \<le> 30000" "backoff n \<le> backoff (Suc n)"
  by (auto simp: backoff_def RECONNECT_MAX_MS_def min_def)

text \<open>
  Only \<open>onDisconnect\<close> releases a port. After the bridge itself hung up a port that never became ready,
  neither a connect nor the timer nor the alarm gets a new one; the alarm hangs up the same port again.
\<close>

lemma own_hang_up_keeps_port:
  assumes "port b = Some p" and "\<not> ready b"
  shows "port (connect opened t (hang_up p b)) = Some p" and "port (timerFired opened t (hang_up p b)) = Some p"
    and "port (reconnectFromAlarm RECONNECT_ALARM opened t (hang_up p b)) = Some p"
    and "hung_up (reconnectFromAlarm RECONNECT_ALARM opened t (hang_up p b)) = p # p # hung_up b"
  using assms by (simp_all add: connect_def timerFired_def reconnectFromAlarm_def Let_def hang_up_def clearReconnectTimer_def)

end
