(* ===== verification/NativeProperties.thy ===== *)
theory NativeProperties
  imports NativeFacts SchedulerProperties Demo
begin

text \<open>
  The properties of the connection to the native host, with a concrete one: the bridge connects, the
  host says that it is ready, the handshake completes and the host closes a task.
\<close>

definition mute_api :: url_api where
  "mute_api = \<lparr>api_parse = (\<lambda>u. None), api_pathname = (\<lambda>p b. None)\<rparr>"

definition demo_base :: "unit env" where
  "demo_base = env.truncate demo_env"

definition host_ready :: ready_message where
  "host_ready = \<lparr>host_version = ''1'', host_state = ''ready'', discard_staged_tokens = None\<rparr>"

definition host_ready_json :: js where
  "host_ready_json = Obj (envelope ''ready'' @ [(''host_version'', Str ''1''), (''state'', Str ''ready'')])"

definition host_close_json :: js where
  "host_close_json = Obj (envelope ''close_task'' @
     [(''request_id'', Str ''01234567-89ab-7def-8123-456789abcdef''),
      (''task_id'', Str ''01234567-89ab-7def-8123-456789abcdef'')])"

definition bridge0 :: "unit bridge" where
  "bridge0 = new_bridge (demo_sys demo_state)"

definition bridge1 :: "unit bridge" where
  "bridge1 = onMessage mute_api 0 host_ready_json False (connect True 0 bridge0)"

definition bridge2 :: "unit bridge" where
  "bridge2 = stagesDiscarded 0 0 host_ready True (taken (Discarding 0 0 host_ready) bridge1)"

definition bridge3 :: "unit bridge" where
  "bridge3 = alarmCleared 0 0 host_ready True (taken (ClearingAlarm 0 0 host_ready) bridge2)"

definition bridge4 :: "unit bridge" where
  "bridge4 = stateRead demo_base 0 0 (taken (ReadingState 0 0) bridge3)"

definition bridge5 :: "unit bridge" where
  "bridge5 = resumeReady 0 0 demo_state (taken (HaveState 0 0 demo_state) bridge4)"

definition bridge6 :: "unit bridge" where
  "bridge6 = endReconcile 0 0 True (taken (OnReady 0 0) bridge5)"

definition bridge7 :: "unit bridge" where
  "bridge7 = onMessage mute_api 0 host_close_json False bridge6"

abbreviation demo_bridge :: "unit bridge \<Rightarrow> bool" where
  "demo_bridge \<equiv> bridge_reachable demo_base mute_api ''1''"

lemma bridge_next: "bridge_reachable env api v b \<Longrightarrow> bridge_step env api v b b' \<Longrightarrow> bridge_reachable env api v b'"
  unfolding bridge_reachable_def by (rule reach_step)

lemma bridge_resume:
  "bridge_reachable env api v b \<Longrightarrow> c \<in> set (calls b) \<Longrightarrow> resume_step env v c (taken c b) b' \<Longrightarrow>
   bridge_reachable env api v b'"
  by (rule bridge_next [OF _ br_resume])

lemma demo_bridge0: "demo_bridge bridge0"
  unfolding bridge_reachable_def by (rule reach_start) (simp add: fresh_bridge_def bridge0_def new_bridge_def)

lemma demo_bridge1: "demo_bridge bridge1"
  unfolding bridge1_def by (rule bridge_next [OF bridge_next [OF demo_bridge0 br_connect] br_message])

lemma demo_bridge6: "demo_bridge bridge6"
proof -
  have c: "Discarding 0 0 host_ready \<in> set (calls bridge1)" "ClearingAlarm 0 0 host_ready \<in> set (calls bridge2)"
    "ReadingState 0 0 \<in> set (calls bridge3)" "HaveState 0 0 demo_state \<in> set (calls bridge4)"
    "OnReady 0 0 \<in> set (calls bridge5)"
    by code_simp+
  have "demo_bridge bridge2" using bridge_resume [OF demo_bridge1 c(1)] re_discarded unfolding bridge2_def by blast
  then have "demo_bridge bridge3" using bridge_resume [OF _ c(2)] re_alarm unfolding bridge3_def by blast
  then have "demo_bridge bridge4" using bridge_resume [OF _ c(3)] re_state unfolding bridge4_def by blast
  then have "demo_bridge bridge5" using bridge_resume [OF _ c(4)] re_resume unfolding bridge5_def by blast
  then show ?thesis using bridge_resume [OF _ c(5)] re_ready unfolding bridge6_def by blast
qed

lemma demo_bridge7: "demo_bridge bridge7"
  unfolding bridge7_def by (rule bridge_next [OF demo_bridge6 br_message])

section \<open>The handshake\<close>



text \<open>C36: Every step of the bridge is a step of the abstract connection: a port is opened only when there
is none, and it is a new one; it comes up only from the handshake on the same port; and it is replaced
only after it was lost.\<close>

theorem bridge_refines_connection:
  assumes "bridge_step env api version b b'"
  shows "phase_step (ports b) (phase_of b) (phase_of b')"
  using bridge_step_follows [OF assms] by (simp add: follows_def)

theorem bridge_refines_connection_witness: "phase_step 0 Down (phase_of (connect True 0 bridge0))"
proof -
  have "bridge_step demo_base mute_api ''1'' bridge0 (connect True 0 bridge0)" by (rule br_connect)
  from bridge_refines_connection [OF this] show ?thesis by (simp add: bridge0_def new_bridge_def phase_of_def)
qed

section \<open>Losing the connection\<close>



text \<open>Every popup request is settled exactly once or still pending: none is lost, none is answered
twice, whichever of the acknowledgement, the timeout and the disconnect comes first.\<close>

lemma popup_settled_once:
  assumes "bridge_reachable env api version b" and "i < requests b"
  shows "count (mset (map fst (answers b))) i + count (mset (map snd (pendingEventAcks b))) i = 1"
proof -
  have "mset (map fst (answers b)) + mset (map snd (pendingEventAcks b)) = mset [0..<requests b]"
    using coreD(5) [OF bridge_okD [OF bridge_reachable_ok [OF assms(1)]]] by (simp add: promises_ok_def)
  then have "count (mset (map fst (answers b)) + mset (map snd (pendingEventAcks b))) i = count (mset [0..<requests b]) i"
    by (rule arg_cong)
  then show ?thesis using assms(2) by (simp add: count_mset_set)
qed

text \<open>A lost connection cancels what it carried: every pending popup request is rejected as
disconnected, and a job that was queued when the port closed never starts, whatever the scheduler does
afterwards.\<close>

lemma loss_cancels:
  assumes "port b = Some p" and "sched_reachable (scheduler (ext b))" and "i < size_of (scheduler (ext b))"
    and "status_of (scheduler (ext b)) i = Queued" and "sched_step\<^sup>*\<^sup>* (scheduler (ext (onDisconnect p t b))) s"
  shows "(status_of s i = Queued \<or> (\<exists>e. status_of s i = Refused e)) \<and> pendingEventAcks (onDisconnect p t b) = [] \<and>
    (\<forall>(event, k) \<in> set (pendingEventAcks b). \<exists>e. (k, Rejected e) \<in> set (answers (onDisconnect p t b)) \<and>
      error_code e = Some ''extension_disconnected'')"
proof -
  let ?s = "scheduler (ext b)"
  have ns: "not_started ?s i" using assms(3,4) by (simp add: not_started_def)
  have ep: "kind_epoch ?s (kind_of ?s i) < kind_epoch (Scheduler.disconnect ?s) (kind_of ?s i)"
    by (simp add: kind_epoch_def Scheduler.disconnect_def split: job_kind.split)
  have st: "sched_step\<^sup>*\<^sup>* (Scheduler.disconnect ?s) s" using assms(5) lost_connection(3) [OF assms(1)] by simp
  have "not_started s i" by (rule bump_dooms [OF sched_reachable_ok [OF assms(2)] ns ctl_disconnect st ep])
  moreover have "\<exists>e. (k, Rejected e) \<in> set (answers (onDisconnect p t b)) \<and> error_code e = Some ''extension_disconnected''"
    if "(event, k) \<in> set (pendingEventAcks b)" for event k
    using that
    by (intro exI [of _ "disconnected_error ''AgentTab host disconnected before acknowledging the staged action''"])
      (force simp: lost_connection(4) [OF assms(1)] disconnected_error_def)
  ultimately show ?thesis using lost_connection(2) [OF assms(1)] by (auto simp: not_started_def)
qed

definition loaded_bridge :: "unit bridge" where
  "loaded_bridge = bridge7\<lparr>ext := (ext bridge7)\<lparr>scheduler := demo_admitted\<rparr>\<rparr>"

end
