(* ===== verification/Startup.thy ===== *)
theory Startup
  imports Prelude
begin

text \<open>
  \<open>packages/extension/src/startup.ts\<close> and \<open>bounded.ts\<close>: the start-up of the service worker that runs
  once, the queue that runs the operations of Chrome's events after it, one at a time, and the chain
  whose operations hold it for a bounded time.

  A promise is a number, an operation a value of any type; code between two awaits is one step. What
  initialisation and the operations do (return, fail, never settle) is left open.
\<close>

section \<open>The start-up\<close>

datatype startup_phase = Idle | Starting | StartedUp

text \<open>
  \<open>current\<close> is the promise of the last start that did not fail; \<open>initializing\<close> are the promises whose
  initialisation runs; \<open>settled_starts\<close> those that settled, and how.
\<close>

record startup =
  current :: "nat option"
  currentPhase :: startup_phase
  lifecycles :: nat
  initializing :: "nat list"
  settled_starts :: "(nat \<times> bool) list"

definition new_startup :: startup where
  "new_startup = \<lparr>current = None, currentPhase = Idle, lifecycles = 0, initializing = [], settled_starts = []\<rparr>"

definition start :: "startup \<Rightarrow> nat \<times> startup" where
  "start s = (case current s of
      Some p \<Rightarrow> (p, s)
    | None \<Rightarrow> (lifecycles s, s\<lparr>current := Some (lifecycles s), currentPhase := Starting,
        lifecycles := lifecycles s + 1, initializing := lifecycles s # initializing s\<rparr>))"

definition initialized :: "nat \<Rightarrow> bool \<Rightarrow> startup \<Rightarrow> startup" where
  "initialized p ok s =
     (let s1 = s\<lparr>initializing := removeAll p (initializing s), settled_starts := (p, ok) # settled_starts s\<rparr>
      in if current s \<noteq> Some p then s1
         else if ok then s1\<lparr>currentPhase := StartedUp\<rparr> else s1\<lparr>current := None, currentPhase := Idle\<rparr>)"

section \<open>The operation queue\<close>

text \<open>Where the one drain under way is: waiting for a start, running an operation, or over.\<close>

datatype 'op drain_point = AwaitStart nat | RunningOp 'op | DrainEnded

record 'op op_queue =
  startup :: startup
  pending_ops :: "'op list"
  draining :: "'op drain_point option"
  retryAfterDrain :: bool
  enqueued_ops :: "'op list"
  started_ops :: "'op list"

definition new_queue :: "'op op_queue" where
  "new_queue = \<lparr>startup = new_startup, pending_ops = [], draining = None, retryAfterDrain = False,
     enqueued_ops = [], started_ops = []\<rparr>"

definition beginDrain :: "'op op_queue \<Rightarrow> 'op op_queue" where
  "beginDrain q = (case start (startup q) of (p, s) \<Rightarrow> q\<lparr>startup := s, draining := Some (AwaitStart p)\<rparr>)"

definition requestDrain :: "'op op_queue \<Rightarrow> 'op op_queue" where
  "requestDrain q =
     (if pending_ops q = [] then q
      else if draining q \<noteq> None then q\<lparr>retryAfterDrain := True\<rparr>
      else beginDrain q)"

definition enqueue :: "'op \<Rightarrow> 'op op_queue \<Rightarrow> 'op op_queue" where
  "enqueue op q = requestDrain (q\<lparr>pending_ops := pending_ops q @ [op], enqueued_ops := enqueued_ops q @ [op]\<rparr>)"

text \<open>The loop of \<open>drain\<close>: take the next operation, or end.\<close>

definition nextOperation :: "'op op_queue \<Rightarrow> 'op op_queue" where
  "nextOperation q = (case pending_ops q of
      [] \<Rightarrow> q\<lparr>draining := Some DrainEnded\<rparr>
    | op # rest \<Rightarrow> q\<lparr>pending_ops := rest, draining := Some (RunningOp op), started_ops := started_ops q @ [op]\<rparr>)"

text \<open>The \<open>finally\<close> of \<open>beginDrain\<close>.\<close>

definition drainEnded :: "'op op_queue \<Rightarrow> 'op op_queue" where
  "drainEnded q =
     (let shouldRetry = retryAfterDrain q; q1 = q\<lparr>draining := None, retryAfterDrain := False\<rparr>
      in if pending_ops q \<noteq> [] \<and> (currentPhase (startup q) = StartedUp \<or> shouldRetry) then beginDrain q1 else q1)"

text \<open>The initialisation of lifecycle \<open>p\<close> settled; its success is reported to the listener of the queue.\<close>

definition startupSettled :: "nat \<Rightarrow> bool \<Rightarrow> 'op op_queue \<Rightarrow> 'op op_queue" where
  "startupSettled p ok q =
     (let q1 = q\<lparr>startup := initialized p ok (startup q)\<rparr>
      in if current (startup q) = Some p \<and> ok then requestDrain q1 else q1)"

text \<open>
  An operation gives the queue back when it returned, threw, or ran longer than
  \<open>STARTUP_OPERATION_TIMEOUT_MS\<close>; in the last case it keeps running on its own.
\<close>

inductive queue_step :: "'op op_queue \<Rightarrow> 'op op_queue \<Rightarrow> bool" where
  qs_enqueue: "queue_step q (enqueue op q)"
| qs_start: "queue_step q (q\<lparr>startup := snd (start (startup q))\<rparr>)"
| qs_settled: "p \<in> set (initializing (startup q)) \<Longrightarrow> queue_step q (startupSettled p ok q)"
| qs_started: "draining q = Some (AwaitStart p) \<Longrightarrow> (p, True) \<in> set (settled_starts (startup q)) \<Longrightarrow>
    queue_step q (nextOperation q)"
| qs_start_failed: "draining q = Some (AwaitStart p) \<Longrightarrow> (p, False) \<in> set (settled_starts (startup q)) \<Longrightarrow>
    queue_step q (q\<lparr>draining := Some DrainEnded\<rparr>)"
| qs_next: "draining q = Some (RunningOp op) \<Longrightarrow> queue_step q (nextOperation q)"
| qs_ended: "draining q = Some DrainEnded \<Longrightarrow> queue_step q (drainEnded q)"

inductive_cases queue_stepE: "queue_step q q'"

definition queue_reachable :: "'op op_queue \<Rightarrow> bool" where
  "queue_reachable q \<longleftrightarrow> reach (\<lambda>q. q = new_queue) queue_step q"

section \<open>The invariant\<close>

text \<open>
  At most one initialisation runs, and it is the current one; a drain waits for a start that is
  running or has settled; nothing that was enqueued is lost or reordered; and once the start-up
  succeeded, a queue with pending operations is draining.
\<close>

definition startup_ok :: "startup \<Rightarrow> bool" where
  "startup_ok s \<longleftrightarrow>
     (case currentPhase s of
        Idle \<Rightarrow> current s = None \<and> initializing s = []
      | Starting \<Rightarrow> (\<exists>p. current s = Some p \<and> initializing s = [p])
      | StartedUp \<Rightarrow> (\<exists>p. current s = Some p \<and> initializing s = [] \<and> (p, True) \<in> set (settled_starts s)))"

definition known_start :: "startup \<Rightarrow> nat \<Rightarrow> bool" where
  "known_start s p \<longleftrightarrow> p \<in> set (initializing s) \<or> p \<in> fst ` set (settled_starts s)"

definition queue_ok :: "'op op_queue \<Rightarrow> bool" where
  "queue_ok q \<longleftrightarrow> startup_ok (startup q) \<and> enqueued_ops q = started_ops q @ pending_ops q \<and>
     (\<forall>p. draining q = Some (AwaitStart p) \<longrightarrow> known_start (startup q) p) \<and>
     (pending_ops q \<noteq> [] \<longrightarrow> currentPhase (startup q) = StartedUp \<longrightarrow> draining q \<noteq> None)"

lemma start_ok: "startup_ok s \<Longrightarrow> startup_ok (snd (start s)) \<and> known_start (snd (start s)) (fst (start s))"
  by (cases "currentPhase s") (auto simp: startup_ok_def start_def known_start_def rev_image_eqI)

lemma start_keeps: "known_start s p \<Longrightarrow> known_start (snd (start s)) p"
  by (auto simp: start_def known_start_def split: option.split)

lemma start_phase: "startup_ok s \<Longrightarrow> currentPhase (snd (start s)) = StartedUp \<longleftrightarrow> currentPhase s = StartedUp"
  by (cases "currentPhase s") (auto simp: startup_ok_def start_def)

lemma initialized_ok: "startup_ok s \<Longrightarrow> p \<in> set (initializing s) \<Longrightarrow> startup_ok (initialized p ok s)"
  by (cases "currentPhase s") (auto simp: startup_ok_def initialized_def Let_def)

lemma initialized_keeps: "known_start s r \<Longrightarrow> known_start (initialized p ok s) r"
  by (auto simp: initialized_def known_start_def Let_def)

lemma begin_ok: "queue_ok q \<Longrightarrow> queue_ok (beginDrain q)"
  using start_ok [of "startup q"] by (auto simp: beginDrain_def queue_ok_def split: prod.split)

text \<open>\<open>almost_ok\<close> leaves out the last clause, which \<open>requestDrain\<close> restores.\<close>

definition almost_ok :: "'op op_queue \<Rightarrow> bool" where
  "almost_ok q \<longleftrightarrow> startup_ok (startup q) \<and> enqueued_ops q = started_ops q @ pending_ops q \<and>
     (\<forall>p. draining q = Some (AwaitStart p) \<longrightarrow> known_start (startup q) p)"

lemma queue_almost: "queue_ok q \<Longrightarrow> almost_ok q"
  by (simp add: queue_ok_def almost_ok_def)

lemma begin_almost: "almost_ok q \<Longrightarrow> queue_ok (beginDrain q)"
  using start_ok [of "startup q"] by (auto simp: beginDrain_def queue_ok_def almost_ok_def split: prod.split)

lemma request_ok: "almost_ok q \<Longrightarrow> queue_ok (requestDrain q)"
  using begin_almost [of q] by (auto simp: requestDrain_def) (auto simp: queue_ok_def almost_ok_def)

lemma enqueue_ok: "queue_ok q \<Longrightarrow> queue_ok (enqueue op q)"
  unfolding enqueue_def by (rule request_ok) (simp add: queue_ok_def almost_ok_def)

lemma next_ok: "queue_ok q \<Longrightarrow> queue_ok (nextOperation q)"
  by (auto simp: nextOperation_def queue_ok_def split: list.split)

lemma ended_ok: "queue_ok q \<Longrightarrow> queue_ok (drainEnded q)"
proof -
  assume ok: "queue_ok q"
  then have "almost_ok (q\<lparr>draining := None, retryAfterDrain := False\<rparr>)" by (simp add: queue_ok_def almost_ok_def)
  then show ?thesis using ok begin_almost by (auto simp: drainEnded_def Let_def) (auto simp: queue_ok_def)
qed

lemma settled_ok:
  assumes ok: "queue_ok q" and p: "p \<in> set (initializing (startup q))"
  shows "queue_ok (startupSettled p ok' q)"
proof -
  let ?q = "q\<lparr>startup := initialized p ok' (startup q)\<rparr>"
  have a: "almost_ok ?q"
    using ok p initialized_ok initialized_keeps by (auto simp: queue_ok_def almost_ok_def)
  have c: "current (startup q) = Some p"
    using ok p by (auto simp: queue_ok_def startup_ok_def split: startup_phase.splits)
  show ?thesis
  proof (cases ok')
    case True
    then show ?thesis using request_ok [OF a] c by (simp add: startupSettled_def)
  next
    case False
    then have "currentPhase (startup ?q) = Idle" using c by (simp add: initialized_def Let_def)
    then show ?thesis using a False by (simp add: startupSettled_def queue_ok_def almost_ok_def)
  qed
qed

lemma queue_step_ok: "queue_step q q' \<Longrightarrow> queue_ok q \<Longrightarrow> queue_ok q'"
proof (induction rule: queue_step.induct)
  case (qs_start q)
  then show ?case using start_ok start_keeps start_phase by (auto simp: queue_ok_def)
next
  case (qs_start_failed q p)
  then show ?case by (auto simp: queue_ok_def)
qed (simp_all add: enqueue_ok settled_ok next_ok ended_ok)

lemma new_queue_ok: "queue_ok new_queue"
  by (simp add: queue_ok_def new_queue_def new_startup_def startup_ok_def)

interpretation queue_inv: inductive_invariant "\<lambda>q. q = new_queue" queue_step queue_ok
  by unfold_locales (auto intro: new_queue_ok queue_step_ok)

lemma queue_reachable_ok: "queue_reachable q \<Longrightarrow> queue_ok q"
  unfolding queue_reachable_def by (rule queue_inv.inv_reach)

section \<open>The bounded chain\<close>

text \<open>
  \<open>settledWithin\<close>: which came first, the work (and how) or the limit. \<open>None\<close> is the error of the work.
\<close>

datatype race = WorkDone | WorkFailed | LimitPassed

fun settledWithin :: "race \<Rightarrow> bool option" where
  "settledWithin WorkDone = Some True"
| "settledWithin WorkFailed = None"
| "settledWithin LimitPassed = Some False"

text \<open>
  The operations of a chain in the order of their \<open>run\<close> calls. An operation that \<open>Overran\<close> still runs
  but no longer holds the chain.
\<close>

datatype chain_status = Waits | Holds | Overran | Over

definition released :: "chain_status \<Rightarrow> bool" where
  "released st \<longleftrightarrow> st = Overran \<or> st = Over"

inductive chain_step :: "chain_status list \<Rightarrow> chain_status list \<Rightarrow> bool" where
  ch_run: "chain_step c (c @ [Waits])"
| ch_start: "i < length c \<Longrightarrow> c ! i = Waits \<Longrightarrow> i = 0 \<or> released (c ! (i - 1)) \<Longrightarrow> chain_step c (c[i := Holds])"
| ch_settle: "i < length c \<Longrightarrow> c ! i = Holds \<Longrightarrow> settledWithin r \<noteq> Some False \<Longrightarrow> chain_step c (c[i := Over])"
| ch_overrun: "i < length c \<Longrightarrow> c ! i = Holds \<Longrightarrow> settledWithin r = Some False \<Longrightarrow> chain_step c (c[i := Overran])"
| ch_late: "i < length c \<Longrightarrow> c ! i = Overran \<Longrightarrow> chain_step c (c[i := Over])"

text \<open>Released operations, then at most one holder, then those that wait.\<close>

definition chain_ok :: "chain_status list \<Rightarrow> bool" where
  "chain_ok c \<longleftrightarrow> (\<forall>i j. i < j \<longrightarrow> j < length c \<longrightarrow> c ! j \<noteq> Waits \<longrightarrow> released (c ! i))"

lemma chain_step_ok: "chain_step c d \<Longrightarrow> chain_ok c \<Longrightarrow> chain_ok d"
proof (induction rule: chain_step.induct)
  case (ch_run c)
  then show ?case by (auto simp: chain_ok_def nth_append less_Suc_eq)
next
  case (ch_start i c)
  have before: "released (c ! k)" if "k < i" for k
  proof (cases "k = i - 1")
    case True
    then show ?thesis using ch_start that by auto
  next
    case False
    then have "k < i - 1" "i - 1 < length c" "c ! (i - 1) \<noteq> Waits"
      using that ch_start by (auto simp: released_def)
    then show ?thesis using ch_start.prems by (auto simp: chain_ok_def)
  qed
  show ?case unfolding chain_ok_def
  proof (intro allI impI)
    fix k j assume kj: "k < j" "j < length (c[i := Holds])" "c[i := Holds] ! j \<noteq> Waits"
    show "released (c[i := Holds] ! k)"
    proof (cases "j = i")
      case True
      then show ?thesis using before kj by simp
    next
      case False
      then have "c ! j \<noteq> Waits" using kj by simp
      then have r: "released (c ! k)" using ch_start.prems kj by (simp add: chain_ok_def)
      then have "k \<noteq> i" using ch_start.hyps(2) by (auto simp: released_def)
      then show ?thesis using r by simp
    qed
  qed
qed (auto simp: chain_ok_def released_def nth_list_update)

definition chain_reachable :: "chain_status list \<Rightarrow> bool" where
  "chain_reachable c \<longleftrightarrow> reach (\<lambda>c. c = []) chain_step c"

lemma new_chain_ok: "chain_ok []"
  by (simp add: chain_ok_def)

interpretation chain_inv: inductive_invariant "\<lambda>c. c = []" chain_step chain_ok
  by unfold_locales (auto intro: new_chain_ok chain_step_ok)

lemma chain_reachable_ok: "chain_reachable c \<Longrightarrow> chain_ok c"
  unfolding chain_reachable_def by (rule chain_inv.inv_reach)

end
