(* ===== verification/EmailCode.thy ===== *)
theory EmailCode
  imports Challenge
begin

text \<open>
  \<open>packages/extension/src/email-code-fill.ts\<close> (the verdict of the page and the errors the code fill
  reports), the error constructors of \<open>routes.ts\<close> and \<open>accessibility-query.ts\<close>.

  A thrown value is an error object or any other JavaScript value.
\<close>

datatype thrown = ThrownError js_error | ThrownValue js

text \<open>The properties of a thrown value that is a record in the sense of \<open>isRecord\<close>.\<close>

definition thrown_record :: "thrown \<Rightarrow> js obj option" where
  "thrown_record e = (case e of
      ThrownError err \<Rightarrow> Some (err_fields err)
    | ThrownValue (Obj ob) \<Rightarrow> Some ob
    | _ \<Rightarrow> None)"

definition thrown_field :: "thrown \<Rightarrow> string \<Rightarrow> js" where
  "thrown_field e k = (case thrown_record e of None \<Rightarrow> Undefined | Some ob \<Rightarrow> jget ob k)"

definition is_not_started_error :: "thrown \<Rightarrow> bool" where
  "is_not_started_error e = (case e of ThrownError (JsError NotStartedError m f) \<Rightarrow> True | _ \<Rightarrow> False)"

section \<open>The fixed texts\<close>

definition EMAIL_CODE_HANDOFF_RECOVERY :: string where
  "EMAIL_CODE_HANDOFF_RECOVERY = ''Do not retry the email code fill on this page. Start browser_handoff for this tab and let the human complete the verification.''"

definition EMAIL_CODE_SNAPSHOT_RECOVERY :: string where
  "EMAIL_CODE_SNAPSHOT_RECOVERY = ''Take a fresh browser_snapshot of the approved verification page, then retry with its current refs and page revision.''"

definition EMAIL_CODE_FAILURES :: "(string \<times> string \<times> string option) list" where
  "EMAIL_CODE_FAILURES =
     [(''invalid_request'', ''The email code fill request is invalid'', None),
      (''stale_revision'', ''The page changed since the snapshot'', Some EMAIL_CODE_SNAPSHOT_RECOVERY),
      (''stale_ref'', ''A code field ref no longer resolves'', Some EMAIL_CODE_SNAPSHOT_RECOVERY),
      (''email_code_page_mismatch'', ''The tab is not on the approved email verification page'', Some EMAIL_CODE_SNAPSHOT_RECOVERY),
      (''email_code_target_invalid'', ''The refs do not name the verification code inputs of one email code form'', Some EMAIL_CODE_SNAPSHOT_RECOVERY),
      (''email_code_context_unverified'', ''The page does not show an email code verification'', None),
      (''email_code_recipient_unverified'', ''The verification page does not identify the exact intended email recipient'', Some ''Use a verification page that identifies the full recipient or one compatible masked recipient, or let the human complete this step.''),
      (''email_code_context_forbidden'', ''The page asks for multi-factor, passkey, or human verification'', Some EMAIL_CODE_HANDOFF_RECOVERY),
      (''email_code_fill_failed'', ''The page did not accept the email verification code'', Some EMAIL_CODE_SNAPSHOT_RECOVERY),
      (''challenge_active'', ''A human verification challenge is active on this tab'', Some EMAIL_CODE_HANDOFF_RECOVERY),
      (''cross_origin_credentials_forbidden'', ''Email codes cannot be filled in a frame from another origin'', None),
      (''browser_restricted_origin'', ''AgentTab cannot fill an email code on a browser-restricted origin'', None),
      (''debugger_unavailable'', ''Chrome refused AgentTab's debugger for this tab'', None),
      (''frame_unavailable'', ''The code field's frame is unavailable'', None),
      (''frame_not_found'', ''The code field's frame is unavailable'', None),
      (''debugger_detached'', ''AgentTab's debugger detached from the tab'', None),
      (''extension_disconnected'', ''The AgentTab extension disconnected'', None),
      (''ownership_denied'', ''Tab is not owned by this AgentTab task'', None),
      (''ownership_revoked'', ''Tab ownership changed before the email code fill'', None),
      (''permissions_required'', ''AgentTab automation permissions have not been enabled'', Some ''Open the AgentTab popup and choose Enable automation.''),
      (''paused'', ''AgentTab is paused'', None),
      (''origin_denied'', ''AgentTab policy denies the tab's origin'', None),
      (''origin_not_allowed'', ''AgentTab policy does not allow the tab's origin'', None),
      (''origin_unavailable'', ''AgentTab cannot determine the target tab's current origin'', None),
      (''origin_policy_mismatch'', ''origin_policy.tab_id does not match the command target'', None),
      (''scheme_denied'', ''AgentTab Standard mode does not allow the tab's URL scheme'', None),
      (''origin_policy_unverifiable'', ''AgentTab cannot verify the target tab's origin policy'', None)]"

definition EMAIL_CODE_FAILURE_FALLBACK :: string where
  "EMAIL_CODE_FAILURE_FALLBACK = ''AgentTab could not fill the email verification code''"

definition REFUSAL_CODES :: "(string \<times> string) list" where
  "REFUSAL_CODES =
     [(''target_invalid'', ''email_code_target_invalid''), (''sensitive_target'', ''email_code_target_invalid''),
      (''otp_mismatch'', ''email_code_target_invalid''), (''password_present'', ''email_code_target_invalid''),
      (''url_mismatch'', ''email_code_page_mismatch''), (''cross_origin_frame'', ''cross_origin_credentials_forbidden''),
      (''context_unverified'', ''email_code_context_unverified''),
      (''recipient_unverified'', ''email_code_recipient_unverified''), (''mfa_context'', ''email_code_context_forbidden''),
      (''human_challenge'', ''email_code_context_forbidden''), (''write_failed'', ''email_code_fill_failed'')]"

section \<open>Errors\<close>

text \<open>
  A code that names an inherited member of the table finds a value without \<open>message\<close> and \<open>recovery\<close>,
  which is the same as finding nothing.
\<close>

definition emailCodeError :: "string \<Rightarrow> string option \<Rightarrow> js_error" where
  "emailCodeError code oc =
     (let known = map_of EMAIL_CODE_FAILURES code
      in JsError PlainError (case known of None \<Rightarrow> EMAIL_CODE_FAILURE_FALLBACK | Some (m, r) \<Rightarrow> m)
        ([(''code'', Str code)] @
         (case known of Some (m, Some r) \<Rightarrow> [(''recovery'', Str r)] | _ \<Rightarrow> []) @
         (case oc of None \<Rightarrow> [] | Some x \<Rightarrow> [(''outcome'', Str x)])))"

definition verdict_of :: "js \<Rightarrow> js obj option" where
  "verdict_of v =
     (if isRecord v \<and> isRecord (jget (the_obj v) ''agenttab_email_code'')
      then Some (the_obj (jget (the_obj v) ''agenttab_email_code'')) else None)"

definition assertEmailCodeFilled :: "js \<Rightarrow> int \<Rightarrow> js_error + unit" where
  "assertEmailCodeFilled v expectedFields = (case verdict_of v of
      None \<Rightarrow> Inl (emailCodeError ''email_code_fill_failed'' (Some ''unknown''))
    | Some verdict \<Rightarrow>
        (if jget verdict ''ok'' = Bool True \<and> jget verdict ''filled'' = js_int expectedFields then Inr ()
         else Inl (emailCodeError
           (case jget verdict ''reason'' of
              Str r \<Rightarrow> (case map_of REFUSAL_CODES r of Some c \<Rightarrow> c | None \<Rightarrow> ''email_code_fill_failed'')
            | _ \<Rightarrow> ''email_code_fill_failed'')
           (Some (if jget verdict ''ok'' = Bool False \<and> jget verdict ''wrote'' = Bool False
              then ''not_started'' else ''unknown'')))))"

definition known_code :: "thrown \<Rightarrow> string" where
  "known_code e = (case thrown_field e ''code'' of
      Str c \<Rightarrow> (if map_of EMAIL_CODE_FAILURES c \<noteq> None then c else ''email_code_fill_failed'')
    | _ \<Rightarrow> ''email_code_fill_failed'')"

definition known_outcome :: "thrown \<Rightarrow> string option \<Rightarrow> string option" where
  "known_outcome e oc =
     (if thrown_field e ''outcome'' = Str ''not_started'' then Some ''not_started''
      else if thrown_field e ''outcome'' = Str ''unknown'' then Some ''unknown''
      else if is_not_started_error e then Some ''not_started'' else oc)"

definition with_field :: "string \<Rightarrow> js \<Rightarrow> js_error \<Rightarrow> js_error" where
  "with_field k v e = (case e of JsError c m f \<Rightarrow> JsError c m (AList.update k v f))"

definition sanitizeEmailCodeFailure :: "thrown \<Rightarrow> string option \<Rightarrow> js_error" where
  "sanitizeEmailCodeFailure e oc =
     (let sanitized = emailCodeError (known_code e) (known_outcome e oc)
      in case thrown_field e ''currentPageRevision'' of
          Num n \<Rightarrow> with_field ''currentPageRevision'' (Num n) sanitized
        | _ \<Rightarrow> sanitized)"

section \<open>Restricted origins\<close>

definition restrictedOriginError :: "string \<Rightarrow> js_error" where
  "restrictedOriginError operation = JsError PlainError
     (''AgentTab cannot '' @ operation @ '' on a browser-restricted origin'')
     [(''code'', Str ''browser_restricted_origin''), (''outcome'', Str ''not_started''),
      (''recovery'', Str ''Do not retry this AgentTab route. Use browser_handoff for the exact task tab, or navigate the task tab to a supported origin.'')]"

text \<open>
  \<open>error instanceof Error ? error.message : String(error)\<close>; \<open>to_str\<close> is \<open>String\<close> on values that are not
  strings.
\<close>

definition thrown_message :: "(js \<Rightarrow> string) \<Rightarrow> thrown \<Rightarrow> string" where
  "thrown_message to_str e = (case e of
      ThrownError err \<Rightarrow> err_message err
    | ThrownValue (Str s) \<Rightarrow> s
    | ThrownValue v \<Rightarrow> to_str v)"

text \<open>\<open>cause\<close> keeps the thrown value itself, here as its properties.\<close>

definition thrown_value :: "thrown \<Rightarrow> js" where
  "thrown_value e = (case e of ThrownError err \<Rightarrow> Obj (err_fields err) | ThrownValue v \<Rightarrow> v)"

definition debuggerUnavailableError :: "(js \<Rightarrow> string) \<Rightarrow> thrown \<Rightarrow> string option \<Rightarrow> js_error" where
  "debuggerUnavailableError to_str cause operation =
     (let reason = thrown_message to_str cause
      in JsError PlainError
        (case operation of
           None \<Rightarrow> ''Chrome refused AgentTab's debugger for this tab: '' @ reason
         | Some op \<Rightarrow> op @ '' needs Chrome's debugger, which Chrome refused for this tab: '' @ reason)
        [(''code'', Str ''debugger_unavailable''), (''outcome'', Str ''not_started''), (''reason'', Str reason),
         (''cause'', thrown_value cause),
         (''recovery'', Str ''Snapshots, element actions, credential and email code fills, and load, URL, text, selector, and value waits use AgentTab's scripting route on this tab. Frame-scoped control, drag, file upload, dialogs, downloads, network-idle waits, and full-page or background-tab screenshots need the debugger; they work again once the condition Chrome reports clears, such as another extension's frame on the page or open DevTools.'')])"

text \<open>The patterns are alternatives of fixed texts, matched anywhere in the message and in any case.\<close>

fun includes_text :: "string \<Rightarrow> string \<Rightarrow> bool" where
  "includes_text pat [] = (pat = [])"
| "includes_text pat (c # cs) = (take (length pat) (c # cs) = pat \<or> includes_text pat cs)"

definition RESTRICTED_ERROR_TEXTS :: "string list" where
  "RESTRICTED_ERROR_TEXTS =
     [''the extensions gallery cannot be scripted'', ''cannot access a chrome:// url'',
      ''cannot access a chrome-extension:// url'', ''cannot access contents of url'',
      ''cannot access contents of the url'']"

definition normalizeRestrictedOriginError :: "(js \<Rightarrow> string) \<Rightarrow> thrown \<Rightarrow> string \<Rightarrow> thrown" where
  "normalizeRestrictedOriginError to_str e operation =
     (if is_str (thrown_field e ''code'') then e
      else if list_ex (\<lambda>t. includes_text t (lower (thrown_message to_str e))) RESTRICTED_ERROR_TEXTS
      then ThrownError (restrictedOriginError operation) else e)"

section \<open>Accessible names\<close>

definition accessibilityMatcher :: "string option \<Rightarrow> string option \<Rightarrow> string \<Rightarrow> string \<Rightarrow> bool" where
  "accessibilityMatcher role nm nodeRole nodeName \<longleftrightarrow>
     (case role of None \<Rightarrow> True | Some r \<Rightarrow> lower nodeRole = lower r) \<and>
     (case nm of None \<Rightarrow> True | Some n \<Rightarrow> includes_text (lower n) (lower nodeName))"

section \<open>What an error can reveal\<close>

text \<open>The strings an email code error may hold: those of the source, whatever the failure was.\<close>

definition fixed_texts :: "string set" where
  "fixed_texts = {EMAIL_CODE_FAILURE_FALLBACK, ''email_code_fill_failed'', ''not_started'', ''unknown''} \<union>
     (\<Union>(c, m, r) \<in> set EMAIL_CODE_FAILURES. {c, m} \<union> set_option r)"

lemma table_fixed:
  "map_of EMAIL_CODE_FAILURES c = Some (m, r) \<Longrightarrow> c \<in> fixed_texts \<and> m \<in> fixed_texts \<and> set_option r \<subseteq> fixed_texts"
  unfolding fixed_texts_def by (drule map_of_SomeD) fastforce

lemma known_code_fixed: "known_code e \<in> fixed_texts"
  using table_fixed by (auto simp: known_code_def fixed_texts_def split: js.split)

lemma known_outcome_fixed: "known_outcome e oc = Some x \<Longrightarrow> x \<in> fixed_texts \<or> oc = Some x"
  by (auto simp: known_outcome_def fixed_texts_def split: if_splits)

lemma email_error_fixed:
  assumes c: "c \<in> fixed_texts" and oc: "\<forall>x. oc = Some x \<longrightarrow> x \<in> fixed_texts"
  shows "err_message (emailCodeError c oc) \<in> fixed_texts"
    and "(k, v) \<in> set (err_fields (emailCodeError c oc)) \<Longrightarrow> \<exists>t \<in> fixed_texts. v = Str t"
proof -
  have fb: "EMAIL_CODE_FAILURE_FALLBACK \<in> fixed_texts" by (simp add: fixed_texts_def)
  show "err_message (emailCodeError c oc) \<in> fixed_texts"
    using fb table_fixed [of c] by (auto simp: emailCodeError_def Let_def split: option.split)
  assume "(k, v) \<in> set (err_fields (emailCodeError c oc))"
  then consider "v = Str c" | m r where "map_of EMAIL_CODE_FAILURES c = Some (m, Some r)" "v = Str r"
    | x where "oc = Some x" "v = Str x"
    by (cases "map_of EMAIL_CODE_FAILURES c"; cases oc)
      (auto simp: emailCodeError_def Let_def split: prod.splits option.splits)
  then show "\<exists>t \<in> fixed_texts. v = Str t"
  proof cases
    case 2
    then show ?thesis using table_fixed [of c m "Some r"] by auto
  qed (use c oc in auto)
qed

lemma sanitized_fixed:
  assumes oc: "oc = None \<or> oc = Some ''not_started'' \<or> oc = Some ''unknown''"
  shows "err_message (sanitizeEmailCodeFailure e oc) \<in> fixed_texts"
    and "(k, v) \<in> set (err_fields (sanitizeEmailCodeFailure e oc)) \<Longrightarrow>
      (\<exists>t \<in> fixed_texts. v = Str t) \<or> (k = ''currentPageRevision'' \<and> (\<exists>n. v = Num n))"
proof -
  let ?s = "emailCodeError (known_code e) (known_outcome e oc)"
  have o: "\<forall>x. known_outcome e oc = Some x \<longrightarrow> x \<in> fixed_texts"
    using oc known_outcome_fixed [of e oc] by (auto simp: fixed_texts_def)
  note fixed = email_error_fixed [OF known_code_fixed o]
  consider "sanitizeEmailCodeFailure e oc = ?s"
    | n where "sanitizeEmailCodeFailure e oc = with_field ''currentPageRevision'' (Num n) ?s"
    by (cases "thrown_field e ''currentPageRevision''") (simp_all add: sanitizeEmailCodeFailure_def)
  note shape = this
  from shape show "err_message (sanitizeEmailCodeFailure e oc) \<in> fixed_texts"
  proof cases
    case 1
    then show ?thesis using fixed(1) by simp
  next
    case (2 n)
    then show ?thesis using fixed(1) [of e] by (cases ?s) (simp add: with_field_def)
  qed
  assume kv: "(k, v) \<in> set (err_fields (sanitizeEmailCodeFailure e oc))"
  from shape show "(\<exists>t \<in> fixed_texts. v = Str t) \<or> (k = ''currentPageRevision'' \<and> (\<exists>n. v = Num n))"
  proof cases
    case 1
    then show ?thesis using fixed(2) kv by auto
  next
    case (2 n)
    then have "(k, v) = (''currentPageRevision'', Num n) \<or> (k, v) \<in> set (err_fields ?s)"
      using kv set_update_subset [of "''currentPageRevision''" "Num n" "err_fields ?s"]
      by (cases ?s) (auto simp: with_field_def)
    then show ?thesis using fixed(2) by auto
  qed
qed

end
