(* ===== verification/ServiceProperties.thy ===== *)
theory ServiceProperties
  imports Startup EmailCode
begin

text \<open>
  The properties of the service worker's start-up queue and bounded chain, and of the errors of the
  email code fill.
\<close>

section \<open>Start-up\<close>

definition demo_queue :: "nat op_queue" where
  "demo_queue = enqueue 8 (enqueue 7 new_queue)"

lemma queue_next: "queue_reachable q \<Longrightarrow> queue_step q q' \<Longrightarrow> queue_reachable q'"
  unfolding queue_reachable_def by (rule reach_step)

lemma demo_queue_reachable: "queue_reachable demo_queue"
  unfolding demo_queue_def
  by (rule queue_next [OF queue_next [OF _ qs_enqueue] qs_enqueue]) (simp add: queue_reachable_def reach_start)

text \<open>The operations of Chrome's events start in the order they were queued, each at most once, and
none is dropped, across failed start-ups and retries; and never do two initialisations run at once.\<close>

lemma operations_in_order:
  assumes "queue_reachable q"
  shows "enqueued_ops q = started_ops q @ pending_ops q \<and> length (initializing (startup q)) \<le> 1"
proof -
  have ok: "queue_ok q" by (rule queue_reachable_ok [OF assms])
  then have "startup_ok (startup q)" by (simp add: queue_ok_def)
  then have "length (initializing (startup q)) \<le> 1"
    by (cases "currentPhase (startup q)") (auto simp: startup_ok_def)
  then show ?thesis using ok by (simp add: queue_ok_def)
qed

text \<open>No event is left behind: once the start-up succeeded, a queue with pending operations is being
drained, and a drain waits only for a start that is running or has settled.\<close>

lemma queue_never_stalls:
  assumes "queue_reachable q" and "pending_ops q \<noteq> []" and "currentPhase (startup q) = StartedUp"
  shows "\<exists>d. draining q = Some d \<and> (\<forall>p. d = AwaitStart p \<longrightarrow> p \<in> fst ` set (settled_starts (startup q)))"
proof -
  have ok: "queue_ok q" by (rule queue_reachable_ok [OF assms(1)])
  then have "initializing (startup q) = []" using assms(3) by (auto simp: queue_ok_def startup_ok_def)
  then show ?thesis using ok assms(2,3) by (auto simp: queue_ok_def known_start_def)
qed

text \<open>A bounded chain has one holder: an operation has started only if every earlier one returned,
failed or overran its time.\<close>

lemma chain_one_holder:
  assumes "chain_reachable c" and "i < j" and "j < length c" and "c ! j \<noteq> Waits"
  shows "c ! i = Overran \<or> c ! i = Over"
  using chain_reachable_ok [OF assms(1)] assms(2-4) by (auto simp: chain_ok_def released_def)

section \<open>Email codes\<close>

text \<open>A failed email code fill gives nothing away: whatever was thrown, by the page, by Chrome or by
the extension itself, the reported error consists of texts fixed in the source and the number of the
current page revision.\<close>

lemma email_failure_reveals_nothing:
  assumes "oc = None \<or> oc = Some ''not_started'' \<or> oc = Some ''unknown''"
  shows "err_message (sanitizeEmailCodeFailure e oc) \<in> fixed_texts \<and>
    (\<forall>(k, v) \<in> set (err_fields (sanitizeEmailCodeFailure e oc)).
      (\<exists>t \<in> fixed_texts. v = Str t) \<or> (k = ''currentPageRevision'' \<and> (\<exists>n. v = Num n)))"
  using sanitized_fixed [OF assms] by blast

definition leaky_error :: thrown where
  "leaky_error = ThrownError (JsError PlainError ''code 123456 was refused''
     [(''code'', Str ''stale_ref''), (''detail'', Str ''123456''), (''currentPageRevision'', js_int 4)])"

end
