(* ===== verification/CommitReview.thy ===== *)
theory CommitReview
  imports Messages EmailCode Handoff
begin

text \<open>
  The part of \<open>packages/extension/src/browser.ts\<close> that decides whether a page action runs: the batch
  of \<open>browser_act\<close>, the consequences that are staged for review, the life of a staged commit and its
  execution, the challenge scan and the challenge guard of a batch. Also \<open>validatePressChord\<close> of
  \<open>input-actions.ts\<close> and the random ids of \<open>protocol.ts\<close> and \<open>challenge.ts\<close>.

  What touches the page or the debugger is a field of \<open>page\<close>: it may fail and change anything.
  \<open>session_dialog\<close> reads the dialog the debugger session of a tab holds; \<open>dlg_object\<close> is the identity of
  that object, and \<open>dialog_hash\<close> waits for its fingerprint. Random bytes are drawn from the world.
\<close>

section \<open>The page\<close>

record page_dialog =
  dlg_object :: nat
  dlg_generation :: int
  dlg_type :: "string option"
  dlg_message :: "string option"

record ('w, 't) page =
  authorize :: "int \<Rightarrow> ('w, unit) op"
  random_bytes :: "nat \<Rightarrow> 'w \<Rightarrow> 8 word list \<times> 'w"
  digest :: "js \<Rightarrow> string"
  session_dialog :: "int \<Rightarrow> 'w \<Rightarrow> page_dialog option"
  dialog_hash :: "page_dialog \<Rightarrow> ('w, string) op"
  ensure_attached :: "int \<Rightarrow> ('w, unit) op"
  answer_dialog :: "int \<Rightarrow> bool \<Rightarrow> string option \<Rightarrow> ('w, unit) op"
  resolve_target :: "string \<Rightarrow> int \<Rightarrow> int \<Rightarrow> js obj \<Rightarrow> ('w, 't) op"
  by_scripting :: "'t \<Rightarrow> bool"
  refusal_reason :: "int \<Rightarrow> 'w \<Rightarrow> string option"
  describe_target :: "int \<Rightarrow> js obj \<Rightarrow> 't \<Rightarrow> ('w, js obj) op"
  perform :: "string \<Rightarrow> int \<Rightarrow> int \<Rightarrow> js obj \<Rightarrow> 't option \<Rightarrow> string option \<Rightarrow> ('w, js obj) op"
  target_inside :: "string \<Rightarrow> int \<Rightarrow> int \<Rightarrow> episode \<Rightarrow> js obj \<Rightarrow> 't option \<Rightarrow> ('w, bool) op"
  focus_inside :: "int \<Rightarrow> episode \<Rightarrow> ('w, bool) op"
  probe_facts_within :: "int \<Rightarrow> ('w, probe_facts option) op"
  scan_revision :: "int \<Rightarrow> 'w \<Rightarrow> int option"
  set_scan_revision :: "int \<Rightarrow> int \<Rightarrow> 'w \<Rightarrow> 'w"
  catalog_of :: catalog
  date_parse :: "string \<Rightarrow> int option"

definition randomToken :: "8 word list \<Rightarrow> string" where
  "randomToken bytes = hex_string bytes"

definition ID_ALPHABET :: string where
  "ID_ALPHABET = ''0123456789abcdefghijklmnopqrstuv''"

definition newChallengeId :: "8 word list \<Rightarrow> string" where
  "newChallengeId bytes = ''chl_'' @ map (\<lambda>b. ID_ALPHABET ! unat (and b 31)) bytes"

text \<open>\<open>sha256Hex\<close>: \<open>digest\<close> stands for the hash of the UTF-8 text of a value in canonical form.\<close>

definition sha256Hex :: "('w, 't) page \<Rightarrow> js \<Rightarrow> string" where
  "sha256Hex pg v = digest pg (canonicalize v)"

definition invalid_request :: "string \<Rightarrow> js_error" where
  "invalid_request = coded_error ''invalid_request''"

definition kind_of :: "js obj \<Rightarrow> string" where
  "kind_of action = the_str (jget action ''kind'')"

definition is_action :: "js \<Rightarrow> bool" where
  "is_action v \<longleftrightarrow> isRecord v \<and> is_str (jget (the_obj v) ''kind'')"

definition TAB_ONLY_ACTIONS :: "string list" where
  "TAB_ONLY_ACTIONS = [''navigate'', ''go_back'', ''go_forward'', ''reload'', ''close'']"

definition tab_address :: "tab_like \<Rightarrow> string option" where
  "tab_address t = (case tab_pendingUrl t of Some u \<Rightarrow> Some u | None \<Rightarrow> tab_url t)"

definition requireFullAutomationRoute :: "'w env \<Rightarrow> int \<Rightarrow> string \<Rightarrow> ('w, unit) op" where
  "requireFullAutomationRoute env tab operation =
     bnd (call (tabs_get env tab)) (\<lambda>t.
       if automationRoute (parse_url env) (tab_address t) \<noteq> Full
       then throw (restrictedOriginError operation) else ret ())"

section \<open>Keyboard actions\<close>

definition STANDARD_PRESS_KEYS :: "string list" where
  "STANDARD_PRESS_KEYS = [''ArrowUp'', ''ArrowDown'', ''ArrowLeft'', ''ArrowRight'', ''Enter'', ''Escape'', ''Tab'',
     ''Home'', ''End'', ''Space'', ''Backspace'', ''Delete'']"

definition PRESS_MODIFIERS :: "string list" where
  "PRESS_MODIFIERS = [''Alt'', ''Control'', ''Meta'', ''Shift'']"

definition validatePressChord :: "string \<Rightarrow> string list \<Rightarrow> string option" where
  "validatePressChord key modifiers =
     (if 4 < length modifiers \<or> list_ex (\<lambda>m. m \<notin> set PRESS_MODIFIERS) modifiers
      then Some ''press modifiers must be a unique subset of Alt, Control, Meta, Shift''
      else if \<not> distinct modifiers then Some ''press modifiers must not contain duplicates''
      else if key \<in> set STANDARD_PRESS_KEYS then None
      else if key \<noteq> ''a'' \<and> key \<noteq> ''z'' \<and> key \<noteq> ''y'' then Some ''press requires a supported key''
      else if (''Control'' \<in> set modifiers) = (''Meta'' \<in> set modifiers) \<or> ''Alt'' \<in> set modifiers
      then Some (''press '' @ key @ '' requires exactly one of Control or Meta, with optional Shift'')
      else None)"

definition validateKeyboardAction :: "js obj \<Rightarrow> js_error + unit" where
  "validateKeyboardAction action =
     (let key = jget action ''key''; modifiers = jget action ''modifiers'' in
      if jget action ''kind'' \<noteq> Str ''press'' then Inr ()
      else if \<not> is_str key \<or> (modifiers \<noteq> Undefined \<and>
          (\<not> is_arr modifiers \<or> \<not> list_all is_str (the_arr modifiers)))
      then Inl (invalid_request ''press requires a supported key and modifier list'')
      else case validatePressChord (the_str key) (map the_str (the_arr modifiers)) of
          None \<Rightarrow> Inr () | Some message \<Rightarrow> Inl (invalid_request message))"

definition check :: "js_error + 'a \<Rightarrow> ('s, js_error, 'a) eff" where
  "check r = (case r of Inl e \<Rightarrow> throw e | Inr x \<Rightarrow> ret x)"

section \<open>Dialogs\<close>

definition str_or_null :: "string option \<Rightarrow> js" where
  "str_or_null v = (case v of None \<Rightarrow> Null | Some s \<Rightarrow> Str s)"

definition dialogSummary :: "page_dialog \<Rightarrow> js obj" where
  "dialogSummary d = [(''status'', Str ''open''), (''type'', str_or_null (dlg_type d)),
     (''message'', str_or_null (dlg_message d))]"

definition dialog_recovery :: string where
  \<open>dialog_recovery = ''Answer it with browser_act action { kind: "dialog", decision: "accept" } (for a leave-page prompt, leave the page) or decision "dismiss" (stay), then retry.''\<close>

definition dialogOpenError :: "page_dialog \<Rightarrow> string option \<Rightarrow> js_error" where
  "dialogOpenError d oc =
     (let k = (if dlg_type d = Some ''beforeunload'' then ''leave-page (beforeunload)''
          else (case dlg_type d of None \<Rightarrow> ''JavaScript'' | Some t \<Rightarrow> t))
      in JsError PlainError (''A '' @ k @ '' dialog is open on this tab; the page is paused until the dialog is answered'')
        ([(''code'', Str ''dialog_open''), (''dialog'', Obj (dialogSummary d)), (''recovery'', Str dialog_recovery)] @
         (case oc of None \<Rightarrow> [] | Some x \<Rightarrow> [(''outcome'', Str x)])))"

definition assertDialogPrompt :: "js obj \<Rightarrow> page_dialog \<Rightarrow> string \<Rightarrow> js_error + unit" where
  "assertDialogPrompt action d code =
     (if \<not> is_str (jget action ''prompt_text'') \<or> dlg_type d = Some ''prompt'' then Inr ()
      else Inl (coded_error code ''prompt_text can only accept a JavaScript prompt''))"

definition current_dialog :: "('w, 't) page \<Rightarrow> int \<Rightarrow> ('w, page_dialog option) op" where
  "current_dialog pg tab = gets (\<lambda>s. session_dialog pg tab (world s))"

definition stageDialog :: "('w, 't) page \<Rightarrow> int \<Rightarrow> js obj \<Rightarrow> ('w, staged_dialog \<times> page_dialog) op" where
  "stageDialog pg tab action =
     seq (ensure_attached pg tab)
     (bnd (current_dialog pg tab) (\<lambda>od. case od of
        None \<Rightarrow> throw (invalid_request ''Accepting a dialog requires an open JavaScript dialog'')
      | Some d \<Rightarrow>
          seq (check (assertDialogPrompt action d ''invalid_request''))
          (bnd (dialog_hash pg d) (\<lambda>hash.
           bnd (current_dialog pg tab) (\<lambda>later.
            if later \<noteq> Some d
            then throw (invalid_request ''JavaScript dialog changed before it could be staged'')
            else ret (\<lparr>dialog_generation = dlg_generation d, dialog_fingerprint = hash\<rparr>, d))))))"

definition mismatch :: "string \<Rightarrow> js_error" where
  "mismatch = coded_error ''staged_commit_mismatch''"

definition acceptStagedDialog :: "('w, 't) page \<Rightarrow> int \<Rightarrow> js obj \<Rightarrow> staged_dialog option \<Rightarrow> ('w, js obj) op" where
  "acceptStagedDialog pg tab action bound = (case bound of
      None \<Rightarrow> throw (mismatch ''Staged dialog binding is missing'')
    | Some b \<Rightarrow>
        seq (ensure_attached pg tab)
        (seq (authorize pg tab)
        (bnd (current_dialog pg tab) (\<lambda>od.
          case od of
            None \<Rightarrow> throw (mismatch ''The staged JavaScript dialog is no longer open'')
          | Some d \<Rightarrow>
              (if dlg_generation d \<noteq> dialog_generation b
               then throw (mismatch ''The staged JavaScript dialog is no longer open'')
               else bnd (dialog_hash pg d) (\<lambda>hash.
                 bnd (current_dialog pg tab) (\<lambda>later.
                 if hash \<noteq> dialog_fingerprint b \<or> later \<noteq> Some d
                 then throw (mismatch ''The staged JavaScript dialog changed before Commit'')
                 else seq (check (assertDialogPrompt action d ''staged_commit_mismatch''))
                   (seq (answer_dialog pg tab True (if is_str (jget action ''prompt_text'')
                        then Some (the_str (jget action ''prompt_text'')) else None))
                     (ret [(''kind'', Str ''dialog''), (''completed'', Bool True)])))))))))"

section \<open>Which actions are staged\<close>

text \<open>\<open>label.replace(/\s+/g, " ").trim()\<close>\<close>

fun squeeze :: "string \<Rightarrow> string" where
  "squeeze [] = []"
| "squeeze (c # cs) =
     (if white c then (case cs of [] \<Rightarrow> '' '' | d # ds \<Rightarrow> if white d then squeeze cs else CHR '' '' # squeeze cs)
      else c # squeeze cs)"

definition word_char :: "char \<Rightarrow> bool" where
  "word_char c \<longleftrightarrow> ascii_letter c \<or> digit c \<or> c = CHR ''_''"

definition CONSEQUENTIAL_WORDS :: "string list" where
  "CONSEQUENTIAL_WORDS = [''buy'', ''purchase'', ''pay'', ''send'', ''transfer'', ''delete'', ''remove'', ''publish'',
     ''post'', ''deploy'', ''merge'', ''approve'', ''authorize'', ''grant'', ''revoke'', ''unsubscribe'',
     ''cancel subscription'', ''place order'', ''checkout'', ''submit order'', ''confirm order'', ''permission'']"

text \<open>
  The pattern \<open>/\b(w1|w2|...)\b/i\<close>: one of the words somewhere in the text, with no word character
  before and after it. \<open>before\<close> says whether a word character comes right before.
\<close>

definition word_here :: "string \<Rightarrow> string \<Rightarrow> bool" where
  "word_here text w \<longleftrightarrow> starts_with text w \<and>
     (case drop (length w) text of [] \<Rightarrow> True | c # cs \<Rightarrow> \<not> word_char c)"

fun has_word :: "bool \<Rightarrow> string \<Rightarrow> bool" where
  "has_word before [] = False"
| "has_word before (c # cs) =
     ((\<not> before \<and> list_ex (word_here (c # cs)) CONSEQUENTIAL_WORDS) \<or> has_word (word_char c) cs)"

definition consequential_label :: "string \<Rightarrow> bool" where
  "consequential_label label = has_word False (lower label)"

fun join_with :: "string \<Rightarrow> string list \<Rightarrow> string" where
  "join_with sep [] = []"
| "join_with sep [x] = x"
| "join_with sep (x # y # xs) = x @ sep @ join_with sep (y # xs)"

definition strings_of :: "js list \<Rightarrow> string list" where
  "strings_of vs = map the_str (filter is_str vs)"

definition target_label :: "js obj \<Rightarrow> string" where
  "target_label target =
     trim (squeeze (join_with '' '' (strings_of
       (map (jget target) [''role'', ''text'', ''aria_label'', ''title'', ''name'', ''id'', ''type'', ''form_action'',
          ''form_method''] @ the_arr (jget target ''associated_labels'') @ the_arr (jget target ''accessible_labels'') @
        [jget target ''requested_option_label'']))))"

definition formActivation :: "js obj \<Rightarrow> js obj \<Rightarrow> bool" where
  "formActivation action target \<longleftrightarrow>
     jget action ''kind'' = Str ''press'' \<and> is_str (jget target ''form_action'') \<and>
     ((jget action ''key'' = Str ''Enter'' \<and>
        jget target ''tag'' \<in> {Str ''INPUT'', Str ''TEXTAREA'', Str ''BUTTON''}) \<or>
      (jget action ''key'' = Str ''Space'' \<and>
        (jget target ''tag'' = Str ''BUTTON'' \<or> jget target ''type'' = Str ''submit'' \<or> jget target ''type'' = Str ''reset'')))"

record consequence =
  con_effect :: string
  con_target :: "js obj"
  con_dialog :: "(staged_dialog \<times> page_dialog) option"

definition plain_consequence :: "string \<Rightarrow> js obj \<Rightarrow> consequence" where
  "plain_consequence eff target = \<lparr>con_effect = eff, con_target = target, con_dialog = None\<rparr>"

definition REVIEWED_KINDS :: "string list" where
  "REVIEWED_KINDS = [''click'', ''hover'', ''double_click'', ''context_click'', ''select'', ''fill'', ''type'', ''press'']"

text \<open>The verdict on a described target: gestures, chords, form keys and consequential labels are staged.\<close>

definition target_consequence :: "js obj \<Rightarrow> js obj \<Rightarrow> consequence option" where
  "target_consequence action target =
     (let k = kind_of action; key = the_str (jget action ''key''); modifiers = the_arr (jget action ''modifiers'');
          label = target_label target
      in if k = ''hover'' \<or> k = ''double_click'' \<or> k = ''context_click'' \<or> (k = ''press'' \<and> modifiers \<noteq> [])
         then Some (plain_consequence
           (if k = ''press'' then ''Press '' @ join_with ''+'' (map the_str modifiers @ [key]) @ '' on the reviewed control''
            else ''Perform '' @ k @ '' on the reviewed control'') target)
         else if k = ''press'' \<and> key \<noteq> ''Enter'' \<and> key \<noteq> ''Space'' then None
         else if formActivation action target \<or> consequential_label label
         then Some (plain_consequence
           (if formActivation action target then ''Activate form control by pressing '' @ key
            else (if k = ''click'' \<or> k = ''press'' then ''Activate'' else ''Change'') @ '' consequential control: '' @
              take 160 label) target)
         else None)"

definition upload_effect :: "js obj \<Rightarrow> string" where
  "upload_effect action =
     (let count = length (the_arr (jget action ''files''))
      in ''Upload '' @ string_of_int (int count) @ '' '' @ (if count = 1 then ''file'' else ''files'') @ '' to the page'')"

definition described :: "('w, 't) page \<Rightarrow> int \<Rightarrow> js obj \<Rightarrow> 't option \<Rightarrow> string \<Rightarrow> ('w, js obj) op" where
  "described pg tab action target message = (case target of
      None \<Rightarrow> throw (invalid_request message)
    | Some t \<Rightarrow> describe_target pg tab action t)"

definition names_one_target :: "js obj \<Rightarrow> bool" where
  "names_one_target action \<longleftrightarrow> is_str (jget action ''ref'') \<noteq> is_str (jget action ''selector'')"

definition two_targets :: "js obj \<Rightarrow> js_error" where
  "two_targets action = invalid_request (kind_of action @ '' requires exactly one of ref or selector'')"

definition consequence_of :: "('w, 't) page \<Rightarrow> int \<Rightarrow> js obj \<Rightarrow> 't option \<Rightarrow> ('w, consequence option) op" where
  "consequence_of pg tab action target =
     (let k = kind_of action; kind_only = [(''kind'', jget action ''kind'')] in
      if k = ''close'' then ret (Some (plain_consequence ''Close an AgentTab-owned browser tab'' kind_only))
      else if k = ''upload_file''
      then bnd (described pg tab action target ''Upload requires a resolved target'')
        (\<lambda>d. ret (Some (plain_consequence (upload_effect action) d)))
      else if k = ''dialog'' \<and> jget action ''decision'' = Str ''accept''
      then bnd (stageDialog pg tab action) (\<lambda>d.
        ret (Some \<lparr>con_effect = ''Accept a browser confirmation dialog'', con_target = kind_only, con_dialog = Some d\<rparr>))
      else if k \<notin> set REVIEWED_KINDS then ret None
      else if \<not> names_one_target action then throw (two_targets action)
      else bnd (described pg tab action target ''Action requires a resolved target'')
        (\<lambda>d. ret (target_consequence action d)))"

definition stageFingerprint :: "('w, 't) page \<Rightarrow> string \<Rightarrow> int \<Rightarrow> int \<Rightarrow> js obj \<Rightarrow> js obj \<Rightarrow> string" where
  "stageFingerprint pg key tab revision action target = sha256Hex pg (Obj
     [(''task_id'', Str key), (''tab_id'', js_int tab), (''page_revision'', js_int revision),
      (''action'', Obj action), (''target'', Obj target)])"

end
