(* ===== verification/CommitOps.thy ===== *)
theory CommitOps
  imports CommitReview
begin

text \<open>
  \<open>packages/extension/src/browser.ts\<close>: the challenge scan and the guard of a batch, the batch of
  \<open>browser_act\<close>, and the operations on staged commits (\<open>bindReview\<close> to \<open>expireCommits\<close>).
\<close>

section \<open>Challenge scan and guard\<close>

text \<open>
  \<open>scanChallengeEpisodes\<close>; any failure gives nothing. The id a new episode would get is drawn ahead of
  the transition. \<open>probe_facts_within\<close> is the page probe with its time budget.
\<close>

definition scan_context ::
  "('w, 't) page \<Rightarrow> string \<Rightarrow> int \<Rightarrow> int \<Rightarrow> probe_facts \<Rightarrow> int \<Rightarrow> 8 word list \<Rightarrow> scan_ctx" where
  "scan_context pg key tab revision facts time bytes =
     \<lparr>ctx_task = key, ctx_tab = tab, ctx_revision = revision, ctx_origin = facts_origin facts,
      ctx_status = facts_document_status facts, ctx_now = time, ctx_probe = facts_probe facts,
      ctx_catalog = catalog_version (catalog_of pg), ctx_new_id = newChallengeId bytes, ctx_date_parse = date_parse pg\<rparr>"

definition run_scan ::
  "'w handoff_env \<Rightarrow> ('w, 't) page \<Rightarrow> 'w storage_api \<Rightarrow> string \<Rightarrow> int \<Rightarrow>
     ('w, (js obj option \<times> episode list) option) op" where
  "run_scan env pg api key tab =
     bnd (call (tabs_get env tab)) (\<lambda>t.
       if automationRoute (parse_url env) (tab_address t) \<noteq> Full then ret None
       else bnd (probe_facts_within pg tab) (\<lambda>found. case found of
         None \<Rightarrow> ret None
       | Some facts \<Rightarrow>
           bnd (rev_current (storage env) tab) (\<lambda>revision.
           bnd (ask (date_now (storage env))) (\<lambda>time.
           bnd (ask (random_bytes pg 20)) (\<lambda>bytes.
           bnd (updateTaskEpisodes api key (\<lambda>stored.
               case advance stored (detect (catalog_of pg) facts) (scan_context pg key tab revision facts time bytes) of
                 (eps, event) \<Rightarrow> (eps, (event, eps)))) (\<lambda>(event, eps).
             seq (modify (\<lambda>s. s\<lparr>world := set_scan_revision pg tab revision (world s)\<rparr>))
               (ret (Some (event, eps)))))))))"

definition scanChallengeEpisodes ::
  "'w handoff_env \<Rightarrow> ('w, 't) page \<Rightarrow> string \<Rightarrow> int \<Rightarrow> ('w, (js obj option \<times> episode list) option) op" where
  "scanChallengeEpisodes env pg key tab = (case challenge_storage env of
      None \<Rightarrow> ret None
    | Some api \<Rightarrow> quiet (run_scan env pg api key tab) None)"

definition scanChallenge :: "'w handoff_env \<Rightarrow> ('w, 't) page \<Rightarrow> string \<Rightarrow> int \<Rightarrow> ('w, js obj option) op" where
  "scanChallenge env pg key tab = bnd (scanChallengeEpisodes env pg key tab) (\<lambda>r.
     ret (case r of None \<Rightarrow> None | Some (event, eps) \<Rightarrow> event))"

record batch_guard =
  first :: bool
  ended :: "js obj option"

definition new_guard :: batch_guard where
  "new_guard = \<lparr>first = True, ended = None\<rparr>"

definition after_scan :: "(js obj option \<times> episode list) option \<Rightarrow> episode list \<Rightarrow> batch_guard \<Rightarrow> episode list \<times> batch_guard" where
  "after_scan scanned eps g = (case scanned of
      None \<Rightarrow> (eps, g)
    | Some (event, eps') \<Rightarrow> (eps', case event of
          None \<Rightarrow> g
        | Some e \<Rightarrow> if jget e ''state'' \<noteq> Str ''active'' then g\<lparr>ended := Some e\<rparr> else g))"

definition guardEpisode ::
  "'w handoff_env \<Rightarrow> ('w, 't) page \<Rightarrow> string \<Rightarrow> int \<Rightarrow> int \<Rightarrow> batch_guard \<Rightarrow> ('w, episode option \<times> batch_guard) op" where
  "guardEpisode env pg key tab revision g = (case challenge_storage env of
      None \<Rightarrow> ret (None, g)
    | Some api \<Rightarrow>
        bnd (quiet (readTaskEpisodes api key) []) (\<lambda>eps.
        bnd (gets (\<lambda>s. scan_revision pg tab (world s))) (\<lambda>last.
          let rescan = last \<noteq> Some revision \<or> (first g \<and> activeEpisodeForTab eps key tab \<noteq> None);
              g1 = g\<lparr>first := False\<rparr>
          in if rescan
             then bnd (scanChallengeEpisodes env pg key tab) (\<lambda>scanned.
               case after_scan scanned eps g1 of (eps', g2) \<Rightarrow> ret (activeEpisodeForTab eps' key tab, g2))
             else ret (activeEpisodeForTab eps key tab, g1))))"

section \<open>One action of a batch\<close>

record execution =
  ex_result :: "js obj"
  ex_staged :: "staged_commit option"
  ex_needs_user :: bool
  ex_ended :: "js obj option"

text \<open>What stays the same during a batch.\<close>

record batch =
  b_task :: string
  b_tab :: int
  b_revision :: int
  b_actions :: "js obj list"
  b_intent :: "string option"

definition LAST_ONLY_ACTIONS :: "string list" where
  "LAST_ONLY_ACTIONS = [''navigate'', ''go_back'', ''go_forward'', ''reload'', ''close'']"

definition TARGETED_ACTIONS :: "string list" where
  "TARGETED_ACTIONS = [''click'', ''hover'', ''double_click'', ''context_click'', ''type'', ''fill'', ''select'',
     ''press'', ''upload_file'']"

definition batchStepFailure :: "nat \<Rightarrow> js obj list \<Rightarrow> js list \<Rightarrow> js_error \<Rightarrow> js_error" where
  "batchStepFailure index actions results e = (case e of JsError c message props \<Rightarrow>
     JsError c
       (if 1 < length actions
        then ''Action '' @ string_of_int (int index + 1) @ '' of '' @ string_of_int (int (length actions)) @ '' ('' @
          kind_of (actions ! index) @ '') failed after '' @
          (if length results = 1 then ''1 earlier action''
           else string_of_int (int (length results)) @ '' earlier actions'') @ '' completed: '' @ message
        else message)
       (fold (\<lambda>(k, v). AList.update k v)
         ([(''failedActionIndex'', js_int (int index)), (''completedActions'', Arr results)] @
          (if results \<noteq> [] then [(''outcome'', Str ''unknown'')] else [])) props))"

definition batch_result :: "batch \<Rightarrow> int \<Rightarrow> js list \<Rightarrow> js obj" where
  "batch_result b revision results = [(''tab_id'', js_int (b_tab b)), (''page_revision'', js_int revision),
     (''actions'', Arr results)]"

definition refused_execution :: "'w handoff_env \<Rightarrow> batch \<Rightarrow> js list \<Rightarrow> episode \<Rightarrow> ('w, execution) op" where
  "refused_execution env b results e =
     bnd (rev_current (storage env) (b_tab b)) (\<lambda>revision.
       ret \<lparr>ex_result = batch_result b revision results @
            [(''status'', Str ''challenge_active''), (''challenge'', Obj (episodeEvent e))],
         ex_staged = None, ex_needs_user = True, ex_ended = None\<rparr>)"

definition stage_preview :: "consequence \<Rightarrow> js obj \<Rightarrow> js obj" where
  "stage_preview con action =
     (let copied = (\<lambda>k. if is_str (jget action k) then [(k, jget action k)] else [])
      in [(''effect'', Str (con_effect con)), (''kind'', jget action ''kind''), (''target'', Obj (con_target con))] @
        copied ''ref'' @ copied ''selector'' @ copied ''frame_id'' @
        (if is_str (jget action ''key'')
         then [(''key'', jget action ''key''), (''modifiers'', let m = jget action ''modifiers'' in
           if m = Undefined \<or> m = Null then Arr [] else m)] else []) @
        copied ''prompt_text'' @
        (if jget action ''expect_download'' = Bool True then [(''expect_download'', Bool True)] else []))"

definition new_stage :: "('w, 't) page \<Rightarrow> batch \<Rightarrow> js obj \<Rightarrow> consequence \<Rightarrow> string \<Rightarrow> int \<Rightarrow> staged_commit" where
  "new_stage pg b action con token time =
     \<lparr>native_token = token, staged_task = b_task b, staged_tab = b_tab b, staged_revision = b_revision b,
      effect = con_effect con,
      fingerprint = stageFingerprint pg (b_task b) (b_tab b) (b_revision b) action (con_target con),
      expires_at_ms = time + 300000, review_handle = None, approved = None,
      staged_action = [(''action'', Obj action)], preview = stage_preview con action,
      dialog = map_option fst (con_dialog con)\<rparr>"

definition stage_mutator :: "page_dialog option \<Rightarrow> consequence \<Rightarrow> staged_commit \<Rightarrow> unit mutator" where
  "stage_mutator live con staged st =
     (if (case con_dialog con of None \<Rightarrow> False | Some (b, d) \<Rightarrow> live \<noteq> Some d)
      then Inl (invalid_request ''JavaScript dialog changed before it could be staged'')
      else Inr ((), st\<lparr>stagedCommits := AList.update (native_token staged) staged (stagedCommits st)\<rparr>))"

definition stage_action ::
  "'w handoff_env \<Rightarrow> ('w, 't) page \<Rightarrow> batch \<Rightarrow> nat \<Rightarrow> js obj \<Rightarrow> js list \<Rightarrow> batch_guard \<Rightarrow> consequence \<Rightarrow> ('w, execution) op" where
  "stage_action env pg b index action results g con =
     bnd (ask (random_bytes pg 32)) (\<lambda>bytes.
     bnd (ask (date_now (storage env))) (\<lambda>time.
     bnd (current_dialog pg (b_tab b)) (\<lambda>live.
       let staged = new_stage pg b action con (randomToken bytes) time in
       seq (mutateState (storage env) (stage_mutator live con staged))
       (bnd (rev_current (storage env) (b_tab b)) (\<lambda>revision.
         ret \<lparr>ex_result = batch_result b revision results @ [(''staged_index'', js_int (int index))],
           ex_staged = Some staged, ex_needs_user = False, ex_ended = ended g\<rparr>)))))"

definition scripting_refuses :: "('w, 't) page \<Rightarrow> int \<Rightarrow> js obj \<Rightarrow> 't option \<Rightarrow> ('w, unit) op" where
  "scripting_refuses pg tab action target =
     (if (case target of None \<Rightarrow> False | Some t \<Rightarrow> by_scripting pg t) \<and> kind_of action \<in> {''drag'', ''upload_file''}
      then bnd (gets (\<lambda>s. refusal_reason pg tab (world s))) (\<lambda>reason.
        throw (debuggerUnavailableError (\<lambda>v. [])
          (ThrownValue (Str (case reason of None \<Rightarrow> ''Chrome refused the debugger for this tab'' | Some r \<Rightarrow> r)))
          (Some (if kind_of action = ''drag'' then ''Drag'' else ''File upload''))))
      else ret ())"

text \<open>The first checks of an action, up to the guard.\<close>

definition action_checks :: "'w handoff_env \<Rightarrow> batch \<Rightarrow> nat \<Rightarrow> js obj \<Rightarrow> ('w, unit) op" where
  "action_checks env b index action =
     (if index + 1 < length (b_actions b) \<and> kind_of action \<in> set LAST_ONLY_ACTIONS
      then throw (invalid_request (kind_of action @ '' must be the final action in a batch''))
      else bnd (assertExpected (storage env) (b_tab b) (js_int (b_revision b))) (\<lambda>_.
        if kind_of action \<in> set TARGETED_ACTIONS \<and> \<not> names_one_target action then throw (two_targets action)
        else check (validateKeyboardAction action)))"

definition guarded_episode ::
  "'w handoff_env \<Rightarrow> ('w, 't) page \<Rightarrow> batch \<Rightarrow> js obj \<Rightarrow> batch_guard \<Rightarrow> ('w, episode option \<times> batch_guard) op" where
  "guarded_episode env pg b action g =
     (if classifyGuardedAction action = Unguarded then ret (None, g)
      else guardEpisode env pg (b_task b) (b_tab b) (b_revision b) g)"

definition refuses_early :: "('w, 't) page \<Rightarrow> batch \<Rightarrow> js obj \<Rightarrow> episode option \<Rightarrow> ('w, bool) op" where
  "refuses_early pg b action chl = (case chl of
      None \<Rightarrow> ret False
    | Some e \<Rightarrow>
        (if scope_class e = DocumentScope then ret True
         else if classifyGuardedAction action = Targetless then focus_inside pg (b_tab b) e else ret False))"

definition refuses_target :: "('w, 't) page \<Rightarrow> batch \<Rightarrow> js obj \<Rightarrow> episode option \<Rightarrow> 't option \<Rightarrow> ('w, bool) op" where
  "refuses_target pg b action chl target = (case chl of
      None \<Rightarrow> ret False
    | Some e \<Rightarrow>
        (if classifyGuardedAction action = Targeted
         then target_inside pg (b_task b) (b_tab b) (b_revision b) e action target else ret False))"

definition resolved_target :: "('w, 't) page \<Rightarrow> batch \<Rightarrow> js obj \<Rightarrow> ('w, 't option) op" where
  "resolved_target pg b action =
     (if is_str (jget action ''ref'') \<or> is_str (jget action ''selector'')
      then bnd (resolve_target pg (b_task b) (b_tab b) (b_revision b) action) (\<lambda>t. ret (Some t)) else ret None)"

text \<open>
  What comes of an action before it runs: an active challenge stops it, its consequence needs a review, or
  it may run on the target found. The verdict of the guard on the page comes first, then the target, the
  guard on the target, and the consequence.
\<close>

datatype 't ruling =
    Blocked episode
  | Review consequence "'t option"
  | Cleared_to_run "'t option"

definition clearance ::
  "('w, 't) page \<Rightarrow> batch \<Rightarrow> js obj \<Rightarrow> episode option \<Rightarrow> ('w, 't ruling) op" where
  "clearance pg b action chl =
     bnd (refuses_early pg b action chl) (\<lambda>early.
       if early then ret (Blocked (the chl))
       else bnd (resolved_target pg b action) (\<lambda>target.
         seq (scripting_refuses pg (b_tab b) action target)
         (bnd (refuses_target pg b action chl target) (\<lambda>late.
           if late then ret (Blocked (the chl))
           else bnd (consequence_of pg (b_tab b) action target) (\<lambda>con.
             ret (case con of None \<Rightarrow> Cleared_to_run target | Some c \<Rightarrow> Review c target))))))"

section \<open>The batch\<close>

definition perform_in_batch ::
  "('w, 't) page \<Rightarrow> batch \<Rightarrow> js obj \<Rightarrow> 't option \<Rightarrow> batch_guard \<Rightarrow> ('w, execution + (js \<times> batch_guard)) op" where
  "perform_in_batch pg b action target g =
     bnd (perform pg (b_task b) (b_tab b) (b_revision b) action target (b_intent b))
       (\<lambda>r. ret (Inr (Obj r, g)))"

definition act_step ::
  "'w handoff_env \<Rightarrow> ('w, 't) page \<Rightarrow> batch \<Rightarrow> nat \<Rightarrow> js obj \<Rightarrow> js list \<Rightarrow> batch_guard \<Rightarrow>
     ('w, execution + (js \<times> batch_guard)) op" where
  "act_step env pg b index action results g =
     seq (action_checks env b index action)
     (bnd (guarded_episode env pg b action g) (\<lambda>(chl, g').
      bnd (clearance pg b action chl) (\<lambda>c. case c of
         Blocked e \<Rightarrow> bnd (refused_execution env b results e) (\<lambda>x. ret (Inl x))
       | Review con target \<Rightarrow>
           bnd (readState (storage env)) (\<lambda>st.
             if skipCommitReview st then perform_in_batch pg b action target g'
             else bnd (stage_action env pg b index action results g' con) (\<lambda>x. ret (Inl x)))
       | Cleared_to_run target \<Rightarrow> perform_in_batch pg b action target g')))"

fun act_loop ::
  "'w handoff_env \<Rightarrow> ('w, 't) page \<Rightarrow> batch \<Rightarrow> nat \<Rightarrow> js obj list \<Rightarrow> js list \<Rightarrow> batch_guard \<Rightarrow> ('w, execution) op" where
  "act_loop env pg b index [] results g =
     bnd (rev_current (storage env) (b_tab b)) (\<lambda>revision.
       ret \<lparr>ex_result = batch_result b revision results, ex_staged = None, ex_needs_user = False, ex_ended = ended g\<rparr>)"
| "act_loop env pg b index (action # rest) results g =
     bnd (try_catch (act_step env pg b index action results g)
           (\<lambda>e. throw (batchStepFailure index (b_actions b) results e))) (\<lambda>r. case r of
         Inl x \<Rightarrow> ret x
       | Inr (result, g') \<Rightarrow> act_loop env pg b (index + 1) rest (results @ [result]) g')"

definition refuse_open_dialog :: "('w, 't) page \<Rightarrow> int \<Rightarrow> js obj list \<Rightarrow> ('w, unit) op" where
  "refuse_open_dialog pg tab actions =
     bnd (current_dialog pg tab) (\<lambda>od. case od of
        None \<Rightarrow> ret ()
      | Some d \<Rightarrow> (if kind_of (hd actions) \<noteq> ''dialog'' then throw (dialogOpenError d (Some ''not_started'')) else ret ()))"

definition act ::
  "'w handoff_env \<Rightarrow> ('w, 't) page \<Rightarrow> string \<Rightarrow> int \<Rightarrow> js \<Rightarrow> js \<Rightarrow> string option \<Rightarrow> ('w, execution) op" where
  "act env pg key tab expected actions intent =
     seq (authorize pg tab)
     (bnd (assertExpected (storage env) tab expected) (\<lambda>revision.
       let acts = the_arr actions; validated = map the_obj acts in
       if \<not> is_arr actions \<or> acts = [] \<or> 64 < length acts
       then throw (invalid_request ''actions must contain between 1 and 64 operations'')
       else if \<not> list_all is_action acts
       then throw (invalid_request ''Each browser action requires a kind'')
       else
         seq (refuse_open_dialog pg tab validated)
         (seq (if list_ex (\<lambda>a. kind_of a \<notin> set TAB_ONLY_ACTIONS) validated
               then requireFullAutomationRoute (env.truncate env) tab ''perform page actions'' else ret ())
           (act_loop env pg \<lparr>b_task = key, b_tab = tab, b_revision = revision, b_actions = validated, b_intent = intent\<rparr>
             0 validated [] new_guard))))"

section \<open>Staged commits\<close>

definition invalid_token :: "string \<Rightarrow> js_error" where
  "invalid_token = coded_error ''invalid_staged_token''"

definition no_stage_error :: js_error where
  "no_stage_error = invalid_token ''Staged commit token is invalid, used, or belongs to another task''"

definition put_stages :: "(staged_commit obj \<Rightarrow> staged_commit obj) \<Rightarrow> ext_state \<Rightarrow> ext_state" where
  "put_stages f st = st\<lparr>stagedCommits := f (stagedCommits st)\<rparr>"

definition discard_mutator :: "string \<Rightarrow> unit mutator" where
  "discard_mutator token st = Inr ((), put_stages (AList.delete token) st)"

definition bind_mutator :: "string \<Rightarrow> string \<Rightarrow> int \<Rightarrow> string \<Rightarrow> bool mutator" where
  "bind_mutator key token tab handle st = (case map_of (stagedCommits st) token of
      None \<Rightarrow> Inr (False, st)
    | Some c \<Rightarrow>
        (if staged_task c \<noteq> key \<or> staged_tab c \<noteq> tab \<or> review_handle c \<noteq> None then Inr (False, st)
         else Inr (True, put_stages (AList.update token
           (c\<lparr>review_handle := Some handle, approved := Some False\<rparr>)) st)))"

definition bindReview :: "'w env \<Rightarrow> string \<Rightarrow> js obj \<Rightarrow> ('w, js obj) op" where
  "bindReview env key params =
     (let token = jget params ''native_token''; handle = jget params ''review_handle''; tab = jget params ''tab_id'' in
      if \<not> is_str token \<or> \<not> is_str handle \<or> \<not> is_integer tab
      then throw (invalid_request ''Commit review binding is malformed'')
      else bnd (mutateState (storage env) (bind_mutator key (the_str token) (the_int tab) (the_str handle))) (\<lambda>bound.
        if \<not> bound then throw (invalid_token ''Commit review binding does not match a staged operation'')
        else ret [(''review_bound'', Bool True)]))"

definition open_review :: "string \<Rightarrow> staged_commit \<Rightarrow> bool" where
  "open_review handle c \<longleftrightarrow> review_handle c = Some handle \<and> approved c \<noteq> Some True"

definition reviewBinding :: "'w env \<Rightarrow> string \<Rightarrow> ('w, string \<times> int) op" where
  "reviewBinding env handle =
     bnd (readState (storage env)) (\<lambda>st. case find (open_review handle) (map snd (stagedCommits st)) of
        None \<Rightarrow> throw (invalid_token ''Commit review is no longer available'')
      | Some c \<Rightarrow> ret (staged_task c, staged_tab c))"

text \<open>The first open review of the handle is approved, in place.\<close>

fun approve_first :: "string \<Rightarrow> staged_commit obj \<Rightarrow> bool \<times> staged_commit obj" where
  "approve_first handle [] = (False, [])"
| "approve_first handle ((k, c) # rest) =
     (if open_review handle c then (True, (k, c\<lparr>approved := Some True\<rparr>) # rest)
      else case approve_first handle rest of (b, rest') \<Rightarrow> (b, (k, c) # rest'))"

definition approve_mutator :: "string \<Rightarrow> bool mutator" where
  "approve_mutator handle st = (case approve_first handle (stagedCommits st) of
      (b, cs) \<Rightarrow> Inr (b, put_stages (\<lambda>_. cs) st))"

definition approveReview :: "'w env \<Rightarrow> string \<Rightarrow> ('w, bool) op" where
  "approveReview env handle = mutateState (storage env) (approve_mutator handle)"

definition abandon_review_mutator :: "string \<Rightarrow> bool mutator" where
  "abandon_review_mutator handle st =
     (case find (\<lambda>(k, c). review_handle c = Some handle) (stagedCommits st) of
        None \<Rightarrow> Inr (False, st)
      | Some (k, c) \<Rightarrow> Inr (True, put_stages (AList.delete k) st))"

definition abandonReview :: "'w env \<Rightarrow> string \<Rightarrow> ('w, bool) op" where
  "abandonReview env handle = mutateState (storage env) (abandon_review_mutator handle)"

definition abandon_stage_mutator :: "string \<Rightarrow> string \<Rightarrow> int \<Rightarrow> bool mutator" where
  "abandon_stage_mutator key token tab st = (case map_of (stagedCommits st) token of
      None \<Rightarrow> Inr (False, st)
    | Some c \<Rightarrow>
        (if staged_task c \<noteq> key \<or> staged_tab c \<noteq> tab then Inr (False, st)
         else Inr (True, put_stages (AList.delete token) st)))"

definition abandonNativeStage :: "'w env \<Rightarrow> string \<Rightarrow> js \<Rightarrow> js \<Rightarrow> ('w, js obj) op" where
  "abandonNativeStage env key token tab =
     (if \<not> is_str token \<or> \<not> is_integer tab then throw (invalid_request ''Commit stage cleanup is malformed'')
      else bnd (mutateState (storage env) (abandon_stage_mutator key (the_str token) (the_int tab))) (\<lambda>abandoned.
        if \<not> abandoned then throw (invalid_token ''Commit stage is invalid, used, or belongs to another task'')
        else ret [(''abandoned'', Bool True)]))"

definition discardNativeStages :: "'w env \<Rightarrow> string list \<Rightarrow> ('w, unit) op" where
  "discardNativeStages env tokens =
     (if tokens = [] then ret ()
      else mutateState (storage env) (\<lambda>st. Inr ((), put_stages (fold AList.delete (first_occurrences tokens)) st)))"

definition abandonAllStages :: "'w env \<Rightarrow> ('w, unit) op" where
  "abandonAllStages env = mutateState (storage env) (\<lambda>st. Inr ((), put_stages (\<lambda>_. []) st))"

definition stagedTabId :: "'w env \<Rightarrow> string \<Rightarrow> js \<Rightarrow> ('w, int) op" where
  "stagedTabId env key token =
     (if \<not> is_str token then throw (invalid_request ''browser_commit requires a native token'')
      else bnd (readState (storage env)) (\<lambda>st. case map_of (stagedCommits st) (the_str token) of
          None \<Rightarrow> throw no_stage_error
        | Some c \<Rightarrow> if staged_task c \<noteq> key then throw no_stage_error else ret (staged_tab c)))"

definition expire_stages :: "int \<Rightarrow> string list mutator" where
  "expire_stages time st =
     (let tokens = map native_token (filter (\<lambda>c. expires_at_ms c \<le> time) (map snd (stagedCommits st)))
      in Inr (tokens, put_stages (fold AList.delete tokens) st))"

definition commit_expired :: "string \<Rightarrow> ('w, unit) op" where
  "commit_expired token = emit ''commit_expired'' [(''native_token'', Str token)]"

definition expireCommits :: "'w env \<Rightarrow> ('w, unit) op" where
  "expireCommits env =
     bnd (now env) (\<lambda>time.
     bnd (mutateState (storage env) (expire_stages time)) (\<lambda>tokens. for_each tokens commit_expired))"

text \<open>A dialog that opens or closes, a new page and a detached debugger discard the staged dialog answers of the tab.\<close>

definition staged_dialog_on :: "int \<Rightarrow> staged_commit \<Rightarrow> bool" where
  "staged_dialog_on tab c \<longleftrightarrow> staged_tab c = tab \<and>
     isRecord (jget (staged_action c) ''action'') \<and>
     jget (the_obj (jget (staged_action c) ''action'')) ''kind'' = Str ''dialog''"

definition invalidateStagedDialogs :: "'w env \<Rightarrow> int \<Rightarrow> ('w, unit) op" where
  "invalidateStagedDialogs env tab =
     mutateState (storage env) (\<lambda>st. Inr ((), put_stages (filter (\<lambda>(k, c). \<not> staged_dialog_on tab c)) st))"

section \<open>Commit\<close>

definition discard_stage :: "'w env \<Rightarrow> string \<Rightarrow> ('w, unit) op" where
  "discard_stage env token = mutateState (storage env) (discard_mutator token)"

definition staged_step :: "staged_commit \<Rightarrow> js obj" where
  "staged_step c = the_obj (jget (staged_action c) ''action'')"

text \<open>The fingerprint over the previewed target; without one it is empty.\<close>

definition preview_fingerprint :: "('w, 't) page \<Rightarrow> string \<Rightarrow> staged_commit \<Rightarrow> string" where
  "preview_fingerprint pg key c =
     (if isRecord (jget (preview c) ''target'')
      then stageFingerprint pg key (staged_tab c) (staged_revision c) (staged_step c)
        (the_obj (jget (preview c) ''target''))
      else [])"

definition checked_target :: "('w, 't) page \<Rightarrow> string \<Rightarrow> staged_commit \<Rightarrow> ('w, 't option \<times> js obj) op" where
  "checked_target pg key c =
     (let action = staged_step c in
      seq (check (validateKeyboardAction action))
      (if is_str (jget action ''ref'') \<or> is_str (jget action ''selector'')
       then bnd (resolve_target pg key (staged_tab c) (staged_revision c) action) (\<lambda>t.
         bnd (describe_target pg (staged_tab c) action t) (\<lambda>d. ret (Some t, d)))
       else ret (None, [(''kind'', jget action ''kind'')])))"

definition target_changed :: "thrown \<Rightarrow> js_error" where
  "target_changed cause = JsError PlainError ''Staged target changed before Commit''
     [(''code'', Str ''staged_commit_mismatch''), (''cause'', thrown_value cause)]"

definition then_discard :: "'w env \<Rightarrow> string \<Rightarrow> js_error \<Rightarrow> ('w, 'a) op" where
  "then_discard env token e = seq (discard_stage env token) (throw e)"

definition verify_commit ::
  "'w env \<Rightarrow> ('w, 't) page \<Rightarrow> string \<Rightarrow> string \<Rightarrow> staged_commit \<Rightarrow> ('w, 't option \<times> js obj) op" where
  "verify_commit env pg key token c =
     bnd (assertExpected (storage env) (staged_tab c) (js_int (staged_revision c))) (\<lambda>_.
       if \<not> is_action (jget (staged_action c) ''action'')
       then then_discard env token (mismatch ''Staged operation is malformed'')
       else
         seq (if kind_of (staged_step c) \<in> set TAB_ONLY_ACTIONS then ret ()
              else requireFullAutomationRoute env (staged_tab c) ''commit a page action'')
         (if preview_fingerprint pg key c \<noteq> fingerprint c
          then then_discard env token (mismatch ''Staged operation changed before Commit'')
          else bnd (try_catch (checked_target pg key c)
                 (\<lambda>e. then_discard env token (target_changed (ThrownError e)))) (\<lambda>(target, found).
            if stageFingerprint pg key (staged_tab c) (staged_revision c) (staged_step c) found \<noteq> fingerprint c
            then then_discard env token (mismatch ''Staged target changed before Commit'')
            else ret (target, found))))"

text \<open>Everything before the action runs: the staged commit that is used up, with the target found.\<close>

definition prepare_commit ::
  "'w env \<Rightarrow> ('w, 't) page \<Rightarrow> string \<Rightarrow> js obj \<Rightarrow> ('w, staged_commit \<times> 't option \<times> js obj) op" where
  "prepare_commit env pg key params =
     (let token = the_str (jget params ''native_token'') in
      bnd (stagedTabId env key (jget params ''native_token'')) (\<lambda>tab.
      seq (authorize pg tab)
      (bnd (readState (storage env)) (\<lambda>st. case map_of (stagedCommits st) token of
         None \<Rightarrow> throw no_stage_error
       | Some c \<Rightarrow>
           (if staged_task c \<noteq> key \<or> staged_tab c \<noteq> tab then throw no_stage_error
            else bnd (now env) (\<lambda>time.
              if expires_at_ms c \<le> time
              then seq (discard_stage env token) (seq (commit_expired token)
                (throw (coded_error ''staged_commit_expired'' ''Staged commit token expired'')))
              else bnd (verify_commit env pg key token c) (\<lambda>(target, found).
                seq (discard_stage env token) (ret (c, target, found)))))))))"

definition run_commit :: "('w, 't) page \<Rightarrow> string \<Rightarrow> staged_commit \<Rightarrow> 't option \<Rightarrow> ('w, js obj) op" where
  "run_commit pg key c target =
     (let action = staged_step c in
      if jget action ''kind'' = Str ''dialog'' \<and> jget action ''decision'' = Str ''accept''
      then acceptStagedDialog pg (staged_tab c) action (dialog c)
      else perform pg key (staged_tab c) (staged_revision c) action target None)"

definition commit :: "'w env \<Rightarrow> ('w, 't) page \<Rightarrow> string \<Rightarrow> js obj \<Rightarrow> ('w, js obj) op" where
  "commit env pg key params =
     bnd (prepare_commit env pg key params) (\<lambda>(c, target, found).
     bnd (run_commit pg key c target) (\<lambda>result.
     bnd (rev_current (storage env) (staged_tab c)) (\<lambda>revision.
       ret [(''tab_id'', js_int (staged_tab c)), (''page_revision'', js_int revision), (''actions'', Arr [Obj result])])))"

end
