(* ===== verification/CommitFacts.thy ===== *)
theory CommitFacts
  imports CommitOps MessagesFacts OwnershipSpec
begin

text \<open>
  Facts about staged commits: what a successful preparation of a commit has checked, that it uses its
  token up, that a batch performs only what needs no review, and how a stage evolves between its birth
  and its removal.
\<close>

section \<open>The store\<close>

text \<open>Page code writes the persisted state through the store only, so it keeps it loaded and well formed.\<close>

definition steady :: "('w, 't) page \<Rightarrow> bool" where
  "steady pg \<longleftrightarrow> (\<forall>tab. keeps ready (authorize pg tab)) \<and>
     (\<forall>key tab revision action. keeps ready (resolve_target pg key tab revision action)) \<and>
     (\<forall>tab action t. keeps ready (describe_target pg tab action t))"

lemma steadyD:
  "steady pg \<Longrightarrow> keeps ready (authorize pg tab)"
  "steady pg \<Longrightarrow> keeps ready (resolve_target pg key tab revision action)"
  "steady pg \<Longrightarrow> keeps ready (describe_target pg tab action t)"
  by (simp_all add: steady_def)

lemma readyE: "ready s \<Longrightarrow> (\<And>st. cached s = Some st \<Longrightarrow> ext_ok st \<Longrightarrow> P) \<Longrightarrow> P"
  by (auto simp: ready_def split: option.splits)

lemma keeps_ready_rev_ensure [keeps_intros]: "keeps ready (rev_ensure api tab)"
  unfolding rev_ensure_def by (rule keeps_ready_mutateState) (rule revision_keys)

lemma keeps_ready_rev_current [keeps_intros]: "keeps ready (rev_current api tab)"
  unfolding rev_current_def by (intro keeps_intros)

lemma keeps_ready_assertExpected [keeps_intros]: "keeps ready (assertExpected api tab expected)"
  unfolding assertExpected_def by (intro keeps_intros)

lemma keeps_ready_route [keeps_intros]: "keeps ready (requireFullAutomationRoute env tab operation)"
  unfolding requireFullAutomationRoute_def by (intro keeps_intros) simp_all

lemma keeps_check [keeps_intros]: "keeps I (check r)"
  unfolding check_def by (intro keeps_intros)

lemma discard_keys: "keeps_keys (discard_mutator token)"
  by (auto simp: keeps_keys_def discard_mutator_def put_stages_def keys_ok_def distinct_keys_delete)

lemma keeps_ready_discard [keeps_intros]: "keeps ready (discard_stage env token)"
  unfolding discard_stage_def by (rule keeps_ready_mutateState) (rule discard_keys)

lemma keeps_ready_checked_target: "steady pg \<Longrightarrow> keeps ready (checked_target pg key c)"
  unfolding checked_target_def Let_def by (intro keeps_intros steadyD)

lemma keeps_ready_then_discard [keeps_intros]: "keeps ready (then_discard env token e)"
  unfolding then_discard_def by (intro keeps_intros)

lemma keeps_ready_verify: "steady pg \<Longrightarrow> keeps ready (verify_commit env pg key token c)"
  unfolding verify_commit_def Let_def by (intro keeps_intros keeps_ready_checked_target)

lemma keeps_ready_now [keeps_intros]: "keeps ready (now env)"
  unfolding now_def by (rule keeps_ask) simp

section \<open>Using a token up\<close>

definition unstaged :: "string \<Rightarrow> ext_state \<Rightarrow> bool" where
  "unstaged token st \<longleftrightarrow> map_of (stagedCommits st) token = None"

lemma unstaged_equiv: "state_equiv a b \<Longrightarrow> ext_ok a \<Longrightarrow> unstaged token a \<longleftrightarrow> unstaged token b"
  unfolding unstaged_def by (rule equiv_map_obj_None [OF state_equiv_parts(5)]) (simp_all add: ext_ok_def keys_ok_def)

lemma discard_stage_gone:
  assumes "ready s" and "discard_stage env token s = (Inr u, t)"
  shows "\<exists>st. cached t = Some st \<and> ext_ok st \<and> unstaged token st"
proof -
  from assms(1) obtain st where st: "cached s = Some st" "ext_ok st" by (rule readyE)
  from mutateState_Inr [OF st discard_keys assms(2) [unfolded discard_stage_def]]
  obtain st' v w where "discard_mutator token st = Inr (u, st')" "t = s\<lparr>world := w, cached := Some v\<rparr>" "ext_ok v"
    "state_equiv v st'" by blast
  moreover from this have "unstaged token st'" by (auto simp: discard_mutator_def put_stages_def unstaged_def)
  ultimately show ?thesis by (auto simp: unstaged_equiv)
qed

lemma readState_Inr: "ready s \<Longrightarrow> readState api s = (Inr st, t) \<longleftrightarrow> cached s = Some st \<and> t = s"
  by (auto elim!: readyE simp: readState_cached)

lemma stagedTabId_Inr:
  assumes "ready s" and "stagedTabId env key token s = (Inr tab, t)"
  shows "t = s \<and> is_str token \<and> (\<exists>st c. cached s = Some st \<and> map_of (stagedCommits st) (the_str token) = Some c \<and>
    staged_task c = key \<and> staged_tab c = tab)"
  using assms by (auto simp: stagedTabId_def eff_Inr readState_Inr split: option.splits if_splits)

lemma stagedTabId_unstaged:
  assumes "cached s = Some st" and "unstaged (the_str token) st" and "is_str token"
  shows "stagedTabId env key token s = (Inl no_stage_error, s)"
  using assms by (simp add: stagedTabId_def bnd_def readState_cached unstaged_def throw_def)

section \<open>What a commit has checked\<close>

text \<open>\<open>genuine\<close>: the hash of the stage's step on this target is the one taken when it was staged.\<close>

definition genuine :: "('w, 't) page \<Rightarrow> string \<Rightarrow> staged_commit \<Rightarrow> js obj \<Rightarrow> bool" where
  "genuine pg key c target \<longleftrightarrow>
     stageFingerprint pg key (staged_tab c) (staged_revision c) (staged_step c) target = fingerprint c"

lemma then_discard_Inr [simp]: "then_discard env token e s \<noteq> (Inr x, t)"
  by (auto simp: then_discard_def eff_Inr)

lemma try_discard_Inr:
  "try_catch m (\<lambda>e. then_discard env token (f e)) s = (Inr x, t) \<longleftrightarrow> m s = (Inr x, t)"
  by (auto simp: try_catch_def split: prod.split sum.split)

lemma verify_commit_Inr:
  assumes "verify_commit env pg key token c s = (Inr (target, found), t)" and "fingerprint c \<noteq> []"
  shows "is_action (jget (staged_action c) ''action'') \<and> isRecord (jget (preview c) ''target'') \<and>
    genuine pg key c (the_obj (jget (preview c) ''target'')) \<and> genuine pg key c found"
  using assms
  by (auto simp: verify_commit_def eff_Inr try_discard_Inr preview_fingerprint_def genuine_def
      split: if_splits prod.splits)

lemma staged_fingerprint:
  assumes "ext_ok st" and "map_of (stagedCommits st) token = Some c"
  shows "fingerprint c \<noteq> []"
proof -
  have "staged_wf token c" using assms by (auto simp: ext_ok_def state_wf_def list_all_iff dest!: map_of_SomeD)
  then show ?thesis by (auto simp: staged_wf_def)
qed

lemma prepare_commit_Inr:
  assumes s: "ready s" and pg: "steady pg" and m: "prepare_commit env pg key params s = (Inr (c, target, found), t)"
  shows "\<exists>u st. authorize pg (staged_tab c) s = (Inr (), u) \<and> cached u = Some st \<and>
      map_of (stagedCommits st) (the_str (jget params ''native_token'')) = Some c \<and> staged_task c = key"
    and "is_action (jget (staged_action c) ''action'')" and "isRecord (jget (preview c) ''target'')"
    and "genuine pg key c (the_obj (jget (preview c) ''target''))" and "genuine pg key c found"
    and "\<exists>st. cached t = Some st \<and> unstaged (the_str (jget params ''native_token'')) st"
    and "is_str (jget params ''native_token'')"
proof -
  let ?token = "the_str (jget params ''native_token'')"
  from m obtain tab s1 u where tab: "stagedTabId env key (jget params ''native_token'') s = (Inr tab, s1)"
    and u: "authorize pg tab s1 = (Inr (), u)"
    and r: "bnd (readState (storage env)) (\<lambda>st. case map_of (stagedCommits st) ?token of
         None \<Rightarrow> throw no_stage_error
       | Some c \<Rightarrow>
           (if staged_task c \<noteq> key \<or> staged_tab c \<noteq> tab then throw no_stage_error
            else bnd (now env) (\<lambda>time.
              if expires_at_ms c \<le> time
              then seq (discard_stage env ?token) (seq (commit_expired ?token)
                (throw (coded_error ''staged_commit_expired'' ''Staged commit token expired'')))
              else bnd (verify_commit env pg key ?token c) (\<lambda>(target, found).
                seq (discard_stage env ?token) (ret (c, target, found)))))) u = (Inr (c, target, found), t)"
    by (auto simp: prepare_commit_def Let_def bnd_Inr [of "stagedTabId env key (jget params ''native_token'')"]
        seq_Inr)
  note tabs = stagedTabId_Inr [OF s tab]
  have ru: "ready u" by (rule keeps_run [OF steadyD(1) [OF pg] _ u]) (use tabs s in simp)
  from r obtain st time v w where st: "cached u = Some st" "map_of (stagedCommits st) ?token = Some c"
      "staged_task c = key" "staged_tab c = tab" and v: "now env u = (Inr time, v)"
    and w: "verify_commit env pg key ?token c v = (Inr (target, found), w)"
    and d: "discard_stage env ?token w = (Inr (), t)"
    by (auto simp: eff_Inr readState_Inr [OF ru] split: option.splits if_splits)
  have rw: "ready w"
    by (rule keeps_run [OF keeps_ready_verify [OF pg] keeps_run [OF keeps_ready_now ru v] w])
  have "fingerprint c \<noteq> []" using ru st(1,2) staged_fingerprint by (auto elim!: readyE)
  note verify_commit_Inr [OF w this]
  then show "is_action (jget (staged_action c) ''action'')" "isRecord (jget (preview c) ''target'')"
    "genuine pg key c (the_obj (jget (preview c) ''target''))" "genuine pg key c found" by blast+
  show "\<exists>st. cached t = Some st \<and> unstaged ?token st" using discard_stage_gone [OF rw d] by blast
  show "\<exists>u st. authorize pg (staged_tab c) s = (Inr (), u) \<and> cached u = Some st \<and>
      map_of (stagedCommits st) ?token = Some c \<and> staged_task c = key"
    using u st tabs by (intro exI [of _ u] exI [of _ st]) simp
  show "is_str (jget params ''native_token'')" using tabs by blast
qed

lemma prepare_commit_used:
  assumes "cached s = Some st" and "unstaged (the_str (jget params ''native_token'')) st"
    and "is_str (jget params ''native_token'')"
  shows "prepare_commit env pg key params s = (Inl no_stage_error, s)"
  using stagedTabId_unstaged [OF assms] by (simp add: prepare_commit_def Let_def bnd_def)

lemma commit_prepared:
  "commit env pg key params s = (Inr r, t) \<longleftrightarrow> (\<exists>c target found u. prepare_commit env pg key params s = (Inr (c, target, found), u) \<and>
     bnd (run_commit pg key c target) (\<lambda>result. bnd (rev_current (storage env) (staged_tab c)) (\<lambda>revision.
       ret [(''tab_id'', js_int (staged_tab c)), (''page_revision'', js_int revision), (''actions'', Arr [Obj result])])) u = (Inr r, t))"
  unfolding commit_def bnd_Inr [of "prepare_commit env pg key params"] by (auto split: prod.splits)

section \<open>Equal fingerprints\<close>

text \<open>
  A hash binds when no two JSON values in canonical form have it. A JSON value has no \<open>undefined\<close>, \<open>NaN\<close> and
  infinity, which \<open>JSON.stringify\<close> drops or turns into \<open>null\<close>.
\<close>

fun json :: "js \<Rightarrow> bool" where
  "json Undefined = False"
| "json (Num n) = (case n of JNaN \<Rightarrow> False | JInf b \<Rightarrow> False | _ \<Rightarrow> True)"
| "json (Arr xs) = list_all json xs"
| "json (Obj ob) = list_all (\<lambda>p. json (snd p)) ob"
| "json v = True"

definition binding :: "(js \<Rightarrow> string) \<Rightarrow> string \<Rightarrow> bool" where
  "binding h hash \<longleftrightarrow> (\<forall>x y. json x \<longrightarrow> json y \<longrightarrow> h (canonicalize x) = hash \<longrightarrow>
     h (canonicalize y) = hash \<longrightarrow> canonicalize x = canonicalize y)"

lemma canonical_field:
  assumes "canonicalize (Obj a) = canonicalize (Obj b)" and "distinct (map fst a)" "distinct (map fst b)"
    and "map_of a k = Some x" "map_of b k = Some y"
  shows "canonicalize x = canonicalize y"
proof -
  have s: "set (canon_fields a) = set (canon_fields b)" using assms(1) canon_Obj_iff [OF assms(2,3)] by blast
  have "(k, canonicalize x) \<in> set (canon_fields a)" "(k, canonicalize y) \<in> set (canon_fields b)"
    using assms(4,5) by (force simp: canon_fields_def dest: map_of_SomeD)+
  moreover have "distinct (map fst (canon_fields b))" using assms(3) by (simp add: canon_fields_keys)
  ultimately show ?thesis unfolding s by (metis eq_key_imp_eq_value)
qed

lemma fingerprint_target:
  assumes h: "binding (digest pg) hash" and j: "json (Obj action)" "json (Obj a)" "json (Obj b)"
    and e: "stageFingerprint pg key tab revision action a = hash" "stageFingerprint pg key tab revision action b = hash"
  shows "canonicalize (Obj a) = canonicalize (Obj b)"
proof -
  let ?f = "\<lambda>x. [(''task_id'', Str key), (''tab_id'', js_int tab), (''page_revision'', js_int revision),
      (''action'', Obj action), (''target'', Obj x)]"
  have "json (Obj (?f a))" "json (Obj (?f b))" using j by (simp_all add: js_int_def)
  with h e have "canonicalize (Obj (?f a)) = canonicalize (Obj (?f b))"
    unfolding binding_def stageFingerprint_def sha256Hex_def by blast
  then show ?thesis by (rule canonical_field [where k = "''target''"]) simp_all
qed

section \<open>What a batch performs\<close>

definition skips_review :: "'w sys \<Rightarrow> bool" where
  "skips_review s \<longleftrightarrow> (\<exists>st. cached s = Some st \<and> skipCommitReview st)"

lemma bnd_cong_run: "(\<And>x u. m s = (Inr x, u) \<Longrightarrow> f x u = g x u) \<Longrightarrow> bnd m f s = bnd m g s"
  by (auto simp: bnd_def split: prod.split sum.split)

lemma seq_cong_run: "(\<And>x u. m s = (Inr x, u) \<Longrightarrow> n u = n' u) \<Longrightarrow> seq m n s = seq m n' s"
  unfolding seq_def by (rule bnd_cong_run)

lemma removeLegacy_caches: "removeLegacyState api keys s = (r, t) \<Longrightarrow> cached t = cached s"
  using keeps_run [OF keeps_removeLegacyState, of "\<lambda>u. cached u = cached s" s api keys r t]
  by (simp add: world_free_def)

lemma loadExisting_caches: "loadExisting api stored s = (Inr st, t) \<Longrightarrow> cached t = Some st"
  by (auto simp: loadExisting_def eff_Inr dest!: removeLegacy_caches split: option.splits)

lemma loadFresh_caches: "loadFresh api stored s = (Inr st, t) \<Longrightarrow> cached t = Some st"
  by (auto simp: loadFresh_def eff_Inr dest!: removeLegacy_caches split: option.splits if_splits)

lemma readState_caches: "readState api s = (Inr st, t) \<Longrightarrow> cached t = Some st"
  by (auto simp: readState_def loadInitialState_def eff_Inr split: option.splits if_splits
      dest: loadExisting_caches loadFresh_caches)

text \<open>Only \<open>perform_in_batch\<close> uses \<open>perform\<close>.\<close>

lemma other_page_work [simp]:
  "current_dialog (pg\<lparr>perform := f\<rparr>) = current_dialog pg"
  "stageDialog (pg\<lparr>perform := f\<rparr>) = stageDialog pg"
  "consequence_of (pg\<lparr>perform := f\<rparr>) = consequence_of pg"
  "refuses_early (pg\<lparr>perform := f\<rparr>) = refuses_early pg"
  "refuses_target (pg\<lparr>perform := f\<rparr>) = refuses_target pg"
  "resolved_target (pg\<lparr>perform := f\<rparr>) = resolved_target pg"
  "scripting_refuses (pg\<lparr>perform := f\<rparr>) = scripting_refuses pg"
  "refuse_open_dialog (pg\<lparr>perform := f\<rparr>) = refuse_open_dialog pg"
  "scanChallengeEpisodes env (pg\<lparr>perform := f\<rparr>) = scanChallengeEpisodes env pg"
  by (intro ext, simp add: current_dialog_def stageDialog_def consequence_of_def described_def Let_def
      refuses_early_def refuses_target_def resolved_target_def scripting_refuses_def refuse_open_dialog_def
      scanChallengeEpisodes_def run_scan_def scan_context_def cong: option.case_cong if_cong)+

lemma other_batch_work [simp]:
  "guardEpisode env (pg\<lparr>perform := f\<rparr>) = guardEpisode env pg"
  "guarded_episode env (pg\<lparr>perform := f\<rparr>) = guarded_episode env pg"
  "clearance (pg\<lparr>perform := f\<rparr>) = clearance pg"
  "stage_action env (pg\<lparr>perform := f\<rparr>) = stage_action env pg"
  by (intro ext, simp add: guardEpisode_def guarded_episode_def clearance_def stage_action_def new_stage_def
      stageFingerprint_def sha256Hex_def cong: option.case_cong if_cong)+

lemma clearance_runs:
  "clearance pg b action chl s = (Inr (Cleared_to_run target), u) \<Longrightarrow>
     \<exists>v. consequence_of pg (b_tab b) action target v = (Inr None, u)"
  by (auto simp: clearance_def eff_Inr split: option.splits)

text \<open>\<open>f\<close> does what \<open>perform\<close> does wherever an action needs no review, and anything elsewhere.\<close>

definition agrees_unreviewed :: "('w, 't) page \<Rightarrow> batch \<Rightarrow>
    (string \<Rightarrow> int \<Rightarrow> int \<Rightarrow> js obj \<Rightarrow> 't option \<Rightarrow> string option \<Rightarrow> ('w, js obj) op) \<Rightarrow> bool" where
  "agrees_unreviewed pg b f \<longleftrightarrow> (\<forall>action target u.
     ((\<exists>v. consequence_of pg (b_tab b) action target v = (Inr None, u)) \<or> skips_review u) \<longrightarrow>
     perform pg (b_task b) (b_tab b) (b_revision b) action target (b_intent b) u =
       f (b_task b) (b_tab b) (b_revision b) action target (b_intent b) u)"

lemma perform_cong:
  "agrees_unreviewed pg b f \<Longrightarrow> (\<exists>v. consequence_of pg (b_tab b) action target v = (Inr None, u)) \<or> skips_review u \<Longrightarrow>
     perform_in_batch (pg\<lparr>perform := f\<rparr>) b action target g u = perform_in_batch pg b action target g u"
  by (simp only: agrees_unreviewed_def perform_in_batch_def bnd_def) simp

lemma act_step_cong:
  assumes "agrees_unreviewed pg b f"
  shows "act_step env (pg\<lparr>perform := f\<rparr>) b index action results g s = act_step env pg b index action results g s"
  unfolding act_step_def other_batch_work
proof (intro seq_cong_run bnd_cong_run, goal_cases)
  case (1 u0 u1 r u2)
  obtain chl g' where r: "r = (chl, g')" by (cases r)
  show ?case unfolding r prod.case
  proof (rule bnd_cong_run)
    fix c u assume c: "clearance pg b action chl u2 = (Inr c, u)"
    show "(case c of
         Blocked e \<Rightarrow> bnd (refused_execution env b results e) (\<lambda>x. ret (Inl x))
       | Review con target \<Rightarrow>
           bnd (readState (storage env)) (\<lambda>st.
             if skipCommitReview st then perform_in_batch (pg\<lparr>perform := f\<rparr>) b action target g'
             else bnd (stage_action env pg b index action results g' con) (\<lambda>x. ret (Inl x)))
       | Cleared_to_run target \<Rightarrow> perform_in_batch (pg\<lparr>perform := f\<rparr>) b action target g') u =
      (case c of
         Blocked e \<Rightarrow> bnd (refused_execution env b results e) (\<lambda>x. ret (Inl x))
       | Review con target \<Rightarrow>
           bnd (readState (storage env)) (\<lambda>st.
             if skipCommitReview st then perform_in_batch pg b action target g'
             else bnd (stage_action env pg b index action results g' con) (\<lambda>x. ret (Inl x)))
       | Cleared_to_run target \<Rightarrow> perform_in_batch pg b action target g') u"
    proof (cases c)
      case (Review con target)
      then show ?thesis
        by (simp, intro bnd_cong_run) (auto simp: perform_cong [OF assms] skips_review_def dest: readState_caches)
    next
      case (Cleared_to_run target)
      with clearance_runs c perform_cong [OF assms] show ?thesis by fastforce
    qed simp
  qed
qed

lemma act_loop_cong:
  assumes "agrees_unreviewed pg b f"
  shows "act_loop env (pg\<lparr>perform := f\<rparr>) b index actions results g s = act_loop env pg b index actions results g s"
proof (induction actions arbitrary: index results g s)
  case (Cons action rest)
  have "act_step env (pg\<lparr>perform := f\<rparr>) b index action results g = act_step env pg b index action results g"
    by (rule ext) (rule act_step_cong [OF assms])
  then show ?case
    by (simp, intro bnd_cong_run) (auto simp: Cons.IH split: sum.split)
qed simp

section \<open>The life of a stage\<close>

datatype review_event =
    Staged string staged_commit
  | Bound string string
  | Approved string

text \<open>The newest event comes first. A stage leaves by any of the removals, which are filters of the table.\<close>

inductive review_run :: "review_event list \<Rightarrow> ext_state \<Rightarrow> bool" where
  rr_start: "stagedCommits st = [] \<Longrightarrow> review_run [] st"
| rr_staged: "review_run es st \<Longrightarrow> stage_mutator live con c st = Inr ((), st') \<Longrightarrow> review_handle c = None \<Longrightarrow>
    approved c = None \<Longrightarrow> review_run (Staged (native_token c) c # es) st'"
| rr_bound: "review_run es st \<Longrightarrow> bind_mutator key token tab handle st = Inr (True, st') \<Longrightarrow>
    review_run (Bound token handle # es) st'"
| rr_approved: "review_run es st \<Longrightarrow> approve_mutator handle st = Inr (True, st') \<Longrightarrow>
    review_run (Approved handle # es) st'"
| rr_other: "review_run es st \<Longrightarrow> stagedCommits st' = filter P (stagedCommits st) \<Longrightarrow> review_run es st'"

definition removes :: "'a mutator \<Rightarrow> bool" where
  "removes f \<longleftrightarrow> (\<forall>st x st'. f st = Inr (x, st') \<longrightarrow> (\<exists>P. stagedCommits st' = filter P (stagedCommits st)))"

lemma delete_filter: "AList.delete k al = filter (\<lambda>p. fst p \<noteq> k) al"
  by (induction al) auto

lemma fold_delete_filter: "\<exists>P. fold AList.delete ks al = filter P al"
proof (induction ks arbitrary: al)
  case Nil
  show ?case by (rule exI [of _ "\<lambda>_. True"]) simp
next
  case (Cons k ks)
  from Cons [of "AList.delete k al"] obtain P where "fold AList.delete ks (AList.delete k al) = filter P (AList.delete k al)"
    by blast
  then have "fold AList.delete (k # ks) al = filter (\<lambda>p. fst p \<noteq> k \<and> P p) al" by (simp add: delete_filter [of k])
  then show ?case by blast
qed

lemma same_stages: "\<exists>P. stagedCommits st = filter P (stagedCommits st)"
  by (rule exI [of _ "\<lambda>_. True"]) simp

lemma removals:
  "removes (discard_mutator token)" "removes (abandon_review_mutator handle)"
  "removes (abandon_stage_mutator key token tab)" "removes (expire_stages time)"
  "removes (\<lambda>st. Inr ((), put_stages (fold AList.delete tokens) st))"
  "removes (\<lambda>st. Inr ((), put_stages (\<lambda>_. []) st))"
  "removes (\<lambda>st. Inr ((), put_stages (filter (\<lambda>(k, c). \<not> staged_dialog_on tab c)) st))"
  "removes (drop_stages_mutator key)"
  using fold_delete_filter same_stages
  by (auto simp: removes_def discard_mutator_def abandon_review_mutator_def abandon_stage_mutator_def
      expire_stages_def drop_stages_mutator_def drop_stages_def put_stages_def delete_filter Let_def
      filter_empty_conv intro: exI [of _ "\<lambda>_. False"] split: option.splits prod.splits if_splits)

definition same_work :: "staged_commit \<Rightarrow> staged_commit \<Rightarrow> bool" where
  "same_work c c0 \<longleftrightarrow> c = c0\<lparr>review_handle := review_handle c, approved := approved c\<rparr>"

lemma same_work_simps [simp]:
  "same_work c c"
  "same_work d c0 \<Longrightarrow> same_work (d\<lparr>review_handle := h, approved := a\<rparr>) c0"
  "same_work d c0 \<Longrightarrow> same_work (d\<lparr>approved := a\<rparr>) c0"
  by (cases c; simp add: same_work_def) (cases d; cases c0; simp add: same_work_def)+

text \<open>Where a stage comes from: its birth, then its binding, then its approval, each by its own event.\<close>

definition history :: "review_event list \<Rightarrow> string \<Rightarrow> staged_commit \<Rightarrow> bool" where
  "history es token c \<longleftrightarrow> (\<exists>pre c0 post. es = pre @ Staged token c0 # post \<and> (\<forall>c'. Staged token c' \<notin> set pre) \<and>
     same_work c c0 \<and>
     (\<forall>h. review_handle c = Some h \<longrightarrow> Bound token h \<in> set pre) \<and>
     (approved c = Some True \<longrightarrow>
       (\<exists>h later earlier. review_handle c = Some h \<and> pre = later @ Approved h # earlier \<and> Bound token h \<in> set earlier)))"

lemma history_more:
  assumes "history es token c" and "\<forall>c'. e \<noteq> Staged token c'"
  shows "history (e # es) token c"
proof -
  from assms(1) obtain pre c0 post where h: "es = pre @ Staged token c0 # post" "\<forall>c'. Staged token c' \<notin> set pre"
    "same_work c c0" "\<forall>h. review_handle c = Some h \<longrightarrow> Bound token h \<in> set pre"
    "approved c = Some True \<longrightarrow>
       (\<exists>h later earlier. review_handle c = Some h \<and> pre = later @ Approved h # earlier \<and> Bound token h \<in> set earlier)"
    unfolding history_def by blast
  have "approved c = Some True \<longrightarrow> (\<exists>h later earlier. review_handle c = Some h \<and>
      e # pre = later @ Approved h # earlier \<and> Bound token h \<in> set earlier)"
    using h(5) by (metis append_Cons)
  with h assms(2) show ?thesis
    unfolding history_def by (intro exI [of _ "e # pre"] exI [of _ c0] exI [of _ post]) auto
qed

lemma approve_first_lookup:
  "map_of (snd (approve_first handle cs)) k = map_of cs k \<or>
    (\<exists>c. map_of cs k = Some c \<and> open_review handle c \<and>
      map_of (snd (approve_first handle cs)) k = Some (c\<lparr>approved := Some True\<rparr>))"
  by (induction cs) (auto split: prod.splits if_splits)

lemma approve_first_keys: "map fst (snd (approve_first handle cs)) = map fst cs"
  by (induction cs) (auto split: prod.splits)

lemma review_run_keys: "review_run es st \<Longrightarrow> distinct (map fst (stagedCommits st))"
proof (induction rule: review_run.induct)
  case (rr_approved es st handle st')
  then show ?case using approve_first_keys [of handle "stagedCommits st"]
    by (auto simp: approve_mutator_def put_stages_def split: prod.splits)
next
  case (rr_other es st st' P)
  then show ?case by (simp add: distinct_map_filter)
qed (auto simp: stage_mutator_def bind_mutator_def put_stages_def distinct_keys_update
    split: if_splits option.splits)

lemma map_of_filter:
  "distinct (map fst al) \<Longrightarrow> map_of (filter P al) k = Some v \<Longrightarrow> map_of al k = Some v"
  by (auto dest: map_of_SomeD)

lemma history_bound:
  assumes "history es token d" and "review_handle d = None"
  shows "history (Bound token h # es) token (d\<lparr>review_handle := Some h, approved := Some False\<rparr>)"
proof -
  from assms obtain pre c0 post where "es = pre @ Staged token c0 # post" "\<forall>c'. Staged token c' \<notin> set pre" "same_work d c0"
    unfolding history_def by blast
  then show ?thesis
    unfolding history_def by (intro exI [of _ "Bound token h # pre"] exI [of _ c0] exI [of _ post]) simp
qed

lemma history_approved:
  assumes "history es token d" and "open_review h d"
  shows "history (Approved h # es) token (d\<lparr>approved := Some True\<rparr>)"
proof -
  from assms obtain pre c0 post where "es = pre @ Staged token c0 # post" "\<forall>c'. Staged token c' \<notin> set pre"
    "same_work d c0" "Bound token h \<in> set pre" and h: "review_handle d = Some h"
    unfolding history_def open_review_def by blast
  moreover have "\<exists>h' later earlier. review_handle (d\<lparr>approved := Some True\<rparr>) = Some h' \<and>
      Approved h # pre = later @ Approved h' # earlier \<and> Bound token h' \<in> set earlier"
    using h \<open>Bound token h \<in> set pre\<close> by (intro exI [of _ h] exI [of _ "[]"] exI [of _ pre]) simp
  ultimately show ?thesis
    unfolding history_def by (intro exI [of _ "Approved h # pre"] exI [of _ c0] exI [of _ post]) simp
qed

lemma review_run_history: "review_run es st \<Longrightarrow> map_of (stagedCommits st) token = Some c \<Longrightarrow> history es token c"
proof (induction arbitrary: c rule: review_run.induct)
  case (rr_staged es st live con d st')
  then have t: "stagedCommits st' = AList.update (native_token d) d (stagedCommits st)"
    by (auto simp: stage_mutator_def split: if_splits)
  show ?case
  proof (cases "token = native_token d")
    case True
    with rr_staged t have "c = d" by simp
    with True rr_staged.hyps show ?thesis
      unfolding history_def by (intro exI [of _ "[]"] exI [of _ d] exI [of _ es]) simp
  next
    case False
    with rr_staged t have "history es token c" by simp
    with False show ?thesis by (auto intro: history_more)
  qed
next
  case (rr_bound es st key tk tab handle st')
  then obtain d where d: "map_of (stagedCommits st) tk = Some d" "review_handle d = None"
      "stagedCommits st' = AList.update tk (d\<lparr>review_handle := Some handle, approved := Some False\<rparr>) (stagedCommits st)"
    by (auto simp: bind_mutator_def put_stages_def split: option.splits if_splits)
  show ?case
  proof (cases "token = tk")
    case True
    with rr_bound.prems d(3) have c: "c = d\<lparr>review_handle := Some handle, approved := Some False\<rparr>" by simp
    from True d(1) rr_bound.IH have "history es token d" by blast
    with True c d(2) show ?thesis by (simp add: history_bound)
  next
    case False
    with rr_bound.prems rr_bound.IH d(3) have "history es token c" by simp
    then show ?thesis by (rule history_more) simp
  qed
next
  case (rr_approved es st handle st')
  then have t: "stagedCommits st' = snd (approve_first handle (stagedCommits st))"
    by (auto simp: approve_mutator_def put_stages_def split: prod.splits)
  from approve_first_lookup [of handle "stagedCommits st" token] rr_approved.prems t
  consider "map_of (stagedCommits st) token = Some c"
    | d where "map_of (stagedCommits st) token = Some d" "open_review handle d" "c = d\<lparr>approved := Some True\<rparr>"
    by auto
  then show ?case
  proof cases
    case 1
    with rr_approved.IH have "history es token c" by blast
    then show ?thesis by (rule history_more) simp
  next
    case (2 d)
    with rr_approved.IH have "history es token d" by blast
    with 2(2,3) show ?thesis by (simp add: history_approved)
  qed
next
  case (rr_other es st st' P)
  then show ?case using map_of_filter [OF review_run_keys] by metis
qed simp

lemma new_stage_genuine:
  "genuine pg (b_task b) (new_stage pg b action con token time) (con_target con)"
  "jget (preview (new_stage pg b action con token time)) ''target'' = Obj (con_target con)"
  "staged_step (new_stage pg b action con token time) = action"
  by (simp_all add: genuine_def new_stage_def staged_step_def stage_preview_def Let_def)

end
