(* ===== verification/CommitProperties.thy ===== *)
theory CommitProperties
  imports CommitFacts OwnershipProperties
begin

text \<open>
  The properties of reviewed actions: what a batch may perform, what a commit has checked before it runs
  the staged action, and how a review comes about. The instances use a page that describes and performs
  everything at once, on the browser of \<open>Demo\<close>.
\<close>

definition demo_step :: "js obj" where
  "demo_step = [(''kind'', Str ''close'')]"

definition demo_stage_value :: js where
  "demo_stage_value = canonicalize (Obj [(''task_id'', Str ''t''), (''tab_id'', js_int 3), (''page_revision'', js_int 1),
     (''action'', Obj demo_step), (''target'', Obj demo_step)])"

definition demo_hash :: string where
  "demo_hash = ''aaaaaaaaaaaaaaaaaaaaaaaaaaaaaaaa''"

definition demo_page :: "(unit, unit) page" where
  "demo_page = \<lparr>authorize = (\<lambda>tab. ret ()), random_bytes = (\<lambda>n w. (replicate n 0, w)),
     digest = (\<lambda>v. if v = demo_stage_value then demo_hash else ''b''), session_dialog = (\<lambda>tab w. None), dialog_hash = (\<lambda>d. ret []),
     ensure_attached = (\<lambda>tab. ret ()), answer_dialog = (\<lambda>tab accept text. ret ()),
     resolve_target = (\<lambda>key tab revision action. ret ()), by_scripting = (\<lambda>t. False),
     refusal_reason = (\<lambda>tab w. None), describe_target = (\<lambda>tab action t. ret []),
     perform = (\<lambda>key tab revision action target intent. ret [(''kind'', jget action ''kind'')]),
     target_inside = (\<lambda>key tab revision e action t. ret False), focus_inside = (\<lambda>tab e. ret False),
     probe_facts_within = (\<lambda>tab. ret None), scan_revision = (\<lambda>tab w. None),
     set_scan_revision = (\<lambda>tab revision w. w), catalog_of = \<lparr>catalog_version = ''1'', signatures = []\<rparr>,
     date_parse = (\<lambda>s. None)\<rparr>"

definition demo_token :: string where
  "demo_token = ''0123456789abcdef''"

definition demo_staged :: staged_commit where
  "demo_staged = \<lparr>native_token = demo_token, staged_task = ''t'', staged_tab = 3, staged_revision = 1, effect = ''e'',
     fingerprint = demo_hash, expires_at_ms = 5000, review_handle = None, approved = None,
     staged_action = [(''action'', Obj demo_step)], preview = [(''target'', Obj demo_step)], dialog = None\<rparr>"

definition staged_state :: ext_state where
  "staged_state = demo_state\<lparr>stagedCommits := [(demo_token, demo_staged)]\<rparr>"

abbreviation review_params :: "js obj" where
  "review_params \<equiv> [(''native_token'', Str demo_token)]"

lemma ready_staged: "ready (demo_sys staged_state)"
  using ready_demo
  by (simp add: ready_def demo_sys_def ext_ok_def state_wf_def keys_ok_def staged_state_def staged_wf_def demo_staged_def
      demo_token_def demo_hash_def)

lemma steady_demo: "steady demo_page"
  by (simp add: steady_def demo_page_def keeps_ret)

section \<open>Committing a reviewed action\<close>

lemma demo_prepared: "fst (prepare_commit demo_browser demo_page ''t'' review_params (demo_sys staged_state)) =
    Inr (demo_staged, None, demo_step)"
  by code_simp

lemmas demo_commit = demo_prepared [THEN result_pair]

text \<open>C3: A commit runs nothing it has not checked. When the preparation of a commit lets an action run, the
tab was authorized, the token named a stage of this task in the state after that, the hash taken at staging
is the hash of the action on the previewed target and on the target found now, and the token is used up:
the same commit cannot be prepared again.\<close>

theorem commit_checks_review:
  assumes "ready s" and "steady pg" and "prepare_commit env pg key params s = (Inr (c, target, found), t)"
  shows "(\<exists>u st. authorize pg (staged_tab c) s = (Inr (), u) \<and> cached u = Some st \<and>
      map_of (stagedCommits st) (the_str (jget params ''native_token'')) = Some c \<and> staged_task c = key) \<and>
    genuine pg key c (the_obj (jget (preview c) ''target'')) \<and> genuine pg key c found \<and>
    (\<forall>pg'. prepare_commit env pg' key params t = (Inl no_stage_error, t))"
  using prepare_commit_Inr [OF assms] prepare_commit_used by blast

theorem commit_checks_review_witness:
  "genuine demo_page ''t'' demo_staged demo_step \<and>
   prepare_commit demo_browser demo_page ''t'' review_params
     (snd (prepare_commit demo_browser demo_page ''t'' review_params (demo_sys staged_state))) =
     (Inl no_stage_error, snd (prepare_commit demo_browser demo_page ''t'' review_params (demo_sys staged_state)))"
  using commit_checks_review [OF ready_staged steady_demo demo_commit] by blast

text \<open>C4: A commit runs the action on the target its review showed: with a hash under which no two JSON values
collide on the stage's fingerprint, the target found now equals the previewed one, up to the order of fields.\<close>

theorem commit_runs_previewed_target:
  assumes "ready s" and "steady pg" and "prepare_commit env pg key params s = (Inr (c, target, found), t)"
    and "binding (digest pg) (fingerprint c)" and "json (Obj (staged_step c))" and "json (jget (preview c) ''target'')"
    and "json (Obj found)"
  shows "canonicalize (Obj found) = canonicalize (jget (preview c) ''target'')"
proof -
  note p = prepare_commit_Inr [OF assms(1-3)]
  from p(3) obtain d where d: "jget (preview c) ''target'' = Obj d"
    by (cases "jget (preview c) ''target''") (auto simp: isRecord_def)
  have "canonicalize (Obj found) = canonicalize (Obj d)"
    using p(4,5) assms(6) d
    by (intro fingerprint_target [OF assms(4,5,7)]) (simp_all add: genuine_def)
  with d show ?thesis by simp
qed

lemma demo_binding: "binding (digest demo_page) demo_hash"
  by (auto simp: binding_def demo_page_def demo_hash_def)

theorem commit_runs_previewed_target_witness:
  "canonicalize (Obj demo_step) = canonicalize (jget (preview demo_staged) ''target'')"
proof (rule commit_runs_previewed_target [OF ready_staged steady_demo demo_commit])
  show "binding (digest demo_page) (fingerprint demo_staged)" using demo_binding by (simp add: demo_staged_def)
qed (simp_all add: demo_staged_def staged_step_def demo_step_def jget_def js_int_def)

section \<open>Reviews\<close>

text \<open>C38: Approval comes from the review of this very action. In every run of staging, binding, approval and
removal from an empty table, an approved stage was staged with its present action, target and fingerprint,
then bound to the handle it shows, and then approved under this handle, in this order.\<close>

theorem review_before_approval:
  assumes "review_run es st" and "map_of (stagedCommits st) token = Some c" and "approved c = Some True"
  shows "\<exists>h c0 later middle early oldest. es = later @ Approved h # middle @ Bound token h # early @ Staged token c0 # oldest \<and>
    same_work c c0 \<and> review_handle c = Some h \<and>
    (\<forall>c'. Staged token c' \<notin> set (later @ middle @ early))"
proof -
  from review_run_history [OF assms(1,2)] assms(3) obtain pre c0 post h later earlier where
    h: "es = pre @ Staged token c0 # post" "\<forall>c'. Staged token c' \<notin> set pre" "same_work c c0" "review_handle c = Some h"
      "pre = later @ Approved h # earlier" "Bound token h \<in> set earlier"
    unfolding history_def by blast
  from split_list [OF h(6)] obtain middle early where "earlier = middle @ Bound token h # early" by blast
  with h show ?thesis
    by (intro exI [of _ h] exI [of _ c0] exI [of _ later] exI [of _ middle] exI [of _ early] exI [of _ post]) auto
qed

definition reviewed_state :: ext_state where
  "reviewed_state = defaultState\<lparr>stagedCommits :=
     [(demo_token, demo_staged\<lparr>review_handle := Some ''h'', approved := Some True\<rparr>)]\<rparr>"

lemma demo_review_run: "review_run [Approved ''h'', Bound demo_token ''h'', Staged demo_token demo_staged] reviewed_state"
proof (intro rr_approved [of _ "defaultState\<lparr>stagedCommits :=
     [(demo_token, demo_staged\<lparr>review_handle := Some ''h'', approved := Some False\<rparr>)]\<rparr>"]
     rr_bound [of _ "defaultState\<lparr>stagedCommits := [(demo_token, demo_staged)]\<rparr>" "''t''" _ 3])
  have "review_run [Staged (native_token demo_staged) demo_staged] (defaultState\<lparr>stagedCommits := [(demo_token, demo_staged)]\<rparr>)"
    by (rule rr_staged [OF rr_start [of defaultState],
          where live = None and con = "\<lparr>con_effect = ''e'', con_target = demo_step, con_dialog = None\<rparr>"])
      (simp_all add: defaultState_def stage_mutator_def demo_staged_def)
  then show "review_run [Staged demo_token demo_staged] (defaultState\<lparr>stagedCommits := [(demo_token, demo_staged)]\<rparr>)"
    by (simp add: demo_staged_def)
qed (simp_all add: bind_mutator_def approve_mutator_def put_stages_def open_review_def demo_staged_def reviewed_state_def)

theorem review_before_approval_witness:
  "\<exists>h c0. Bound demo_token h \<in> set [Approved ''h'', Bound demo_token ''h'', Staged demo_token demo_staged] \<and>
     same_work (demo_staged\<lparr>review_handle := Some ''h'', approved := Some True\<rparr>) c0"
proof -
  have "map_of (stagedCommits reviewed_state) demo_token =
      Some (demo_staged\<lparr>review_handle := Some ''h'', approved := Some True\<rparr>)"
    by (simp add: reviewed_state_def)
  from review_before_approval [OF demo_review_run this] obtain h c0 es ms fs os where
    e: "[Approved ''h'', Bound demo_token ''h'', Staged demo_token demo_staged] =
        es @ Approved h # ms @ Bound demo_token h # fs @ Staged demo_token c0 # os" and
    c: "same_work (demo_staged\<lparr>review_handle := Some ''h'', approved := Some True\<rparr>) c0"
    by auto
  have "Bound demo_token h \<in> set [Approved ''h'', Bound demo_token ''h'', Staged demo_token demo_staged]"
    unfolding e by simp
  with c show ?thesis by blast
qed

section \<open>What a batch performs\<close>

text \<open>C5: A batch performs no action that needs a review. An action is performed only where the page showed no
consequence for it, or the user chose to skip reviews: any other way to perform the remaining actions gives
the same run of the whole batch, with the same result, the same state and the same effects.\<close>

theorem batch_stops_for_review:
  assumes "\<And>revision action target u.
      (\<exists>v. consequence_of pg tab action target v = (Inr None, u)) \<or> skips_review u \<Longrightarrow>
      perform pg key tab revision action target intent u = f key tab revision action target intent u"
  shows "act env (pg\<lparr>perform := f\<rparr>) key tab expected actions intent s = act env pg key tab expected actions intent s"
proof -
  have a: "agrees_unreviewed pg \<lparr>b_task = key, b_tab = tab, b_revision = revision, b_actions = acts, b_intent = intent\<rparr> f"
    for revision acts
    using assms by (auto simp: agrees_unreviewed_def)
  have "act_loop env (pg\<lparr>perform := f\<rparr>) \<lparr>b_task = key, b_tab = tab, b_revision = revision, b_actions = acts, b_intent = intent\<rparr> 0
      acts [] new_guard = act_loop env pg \<lparr>b_task = key, b_tab = tab, b_revision = revision, b_actions = acts, b_intent = intent\<rparr> 0
      acts [] new_guard" for revision acts
    by (rule ext) (rule act_loop_cong [OF a])
  then show ?thesis by (simp add: act_def Let_def refuse_open_dialog_def current_dialog_def cong: option.case_cong if_cong)
qed

definition reviewing_state :: ext_state where
  "reviewing_state = demo_state\<lparr>skipCommitReview := False\<rparr>"

definition refusing :: "(unit, unit) page" where
  "refusing = demo_page\<lparr>perform := (\<lambda>key tab revision action target intent u.
     if jget action ''kind'' = Str ''close'' \<and> \<not> skips_review u then (Inl no_stage_error, u)
     else perform demo_page key tab revision action target intent u)\<rparr>"

theorem batch_stops_for_review_witness:
  "act demo_env (demo_page\<lparr>perform := perform refusing\<rparr>) ''t'' 3 (js_int 1) (Arr [Obj demo_step]) None (demo_sys reviewing_state) =
   act demo_env demo_page ''t'' 3 (js_int 1) (Arr [Obj demo_step]) None (demo_sys reviewing_state) \<and>
   perform refusing ''t'' 3 1 demo_step None None (demo_sys reviewing_state) \<noteq>
   perform demo_page ''t'' 3 1 demo_step None None (demo_sys reviewing_state)"
proof
  have "perform demo_page ''t'' 3 revision action target None u = perform refusing ''t'' 3 revision action target None u"
    if "(\<exists>v. consequence_of demo_page 3 action target v = (Inr None, u)) \<or> skips_review u" for revision action target u
    using that by (auto simp: refusing_def consequence_of_def kind_of_def ret_def)
  then show "act demo_env (demo_page\<lparr>perform := perform refusing\<rparr>) ''t'' 3 (js_int 1) (Arr [Obj demo_step]) None (demo_sys reviewing_state) =
      act demo_env demo_page ''t'' 3 (js_int 1) (Arr [Obj demo_step]) None (demo_sys reviewing_state)"
    by (rule batch_stops_for_review)
  show "perform refusing ''t'' 3 1 demo_step None None (demo_sys reviewing_state) \<noteq>
      perform demo_page ''t'' 3 1 demo_step None None (demo_sys reviewing_state)"
    by (simp add: refusing_def demo_page_def demo_step_def skips_review_def demo_sys_def reviewing_state_def demo_state_def defaultState_def
        jget_def ret_def)
qed

end
