(* ===== verification/Profile.thy ===== *)
theory Profile
  imports CommitOps
begin

text \<open>
  \<open>packages/extension/src/profile.ts\<close>: the operations of \<open>browser_profile\<close> on bookmarks, history, sessions
  and downloads, and the commit of a staged bookmark removal. The Chrome calls and \<open>openBackgroundTab\<close> are
  fields of \<open>profile_api\<close>. Parameters have passed \<open>validateParams\<close>, so a number is an integer and a field
  that \<open>String\<close> reads is a string.

  Moving a bookmark climbs the parents of its destination. Chrome could answer for ever, so the climb is a
  \<open>partial_function\<close> and \<open>run_profile\<close> gives \<open>None\<close> where it would not end.
\<close>

section \<open>What Chrome answers\<close>

datatype bookmark_node = BookmarkNode
  (node_id: string) (parentId: "string option") (node_index: "int option") (node_title: string)
  (node_url: "string option") (dateAdded: "js_number option") (unmodifiable: bool)
  (node_children: "bookmark_node list option")

record session_tab =
  stab_session :: "string option"
  stab_title :: "string option"
  stab_url :: "string option"

record session_window =
  swin_session :: "string option"
  swin_tabs :: "session_tab list option"

record browser_session =
  lastModified :: int
  session_tab_of :: "session_tab option"
  session_window_of :: "session_window option"

record session_device =
  deviceName :: string
  device_sessions :: "browser_session list"

record history_item =
  item_id :: string
  item_url :: "string option"
  item_title :: "string option"
  lastVisitTime :: "js_number option"
  visitCount :: "int option"
  typedCount :: "int option"

record download_item =
  download_id :: int
  download_filename :: string
  download_url :: string
  finalUrl :: "string option"
  download_state :: string
  download_paused :: bool
  bytesReceived :: int
  totalBytes :: int
  download_error :: "string option"
  download_mime :: "string option"
  startTime :: "string option"
  endTime :: "string option"

record bookmark_place =
  place_parent :: string
  place_index :: "int option"

record download_query =
  query_limit :: int
  query_terms :: "string list option"
  query_state :: "string option"

record 'w profile_api =
  bookmarks_get :: "string \<Rightarrow> 'w \<Rightarrow> (js_error + bookmark_node list) \<times> 'w"
  bookmarks_subtree :: "string \<Rightarrow> 'w \<Rightarrow> (js_error + bookmark_node list) \<times> 'w"
  bookmarks_children :: "string \<Rightarrow> 'w \<Rightarrow> (js_error + bookmark_node list) \<times> 'w"
  bookmarks_search :: "string \<Rightarrow> 'w \<Rightarrow> (js_error + bookmark_node list) \<times> 'w"
  bookmarks_update :: "string \<Rightarrow> js obj \<Rightarrow> 'w \<Rightarrow> (js_error + unit) \<times> 'w"
  bookmarks_create :: "bookmark_place \<Rightarrow> string \<Rightarrow> string option \<Rightarrow> 'w \<Rightarrow> (js_error + bookmark_node) \<times> 'w"
  bookmarks_move :: "string \<Rightarrow> bookmark_place \<Rightarrow> 'w \<Rightarrow> (js_error + bookmark_node) \<times> 'w"
  bookmarks_remove :: "string \<Rightarrow> 'w \<Rightarrow> (js_error + unit) \<times> 'w"
  history_search :: "string \<Rightarrow> int \<Rightarrow> int \<Rightarrow> int option \<Rightarrow> 'w \<Rightarrow> (js_error + history_item list) \<times> 'w"
  sessions_closed :: "int \<Rightarrow> 'w \<Rightarrow> (js_error + browser_session list) \<times> 'w"
  sessions_devices :: "int \<Rightarrow> 'w \<Rightarrow> (js_error + session_device list) \<times> 'w"
  downloads_search :: "download_query \<Rightarrow> 'w \<Rightarrow> (js_error + download_item list) \<times> 'w"
  downloads_get :: "int \<Rightarrow> 'w \<Rightarrow> (js_error + download_item list) \<times> 'w"
  downloads_cancel :: "int \<Rightarrow> 'w \<Rightarrow> (js_error + unit) \<times> 'w"
  downloads_pause :: "int \<Rightarrow> 'w \<Rightarrow> (js_error + unit) \<times> 'w"
  downloads_resume :: "int \<Rightarrow> 'w \<Rightarrow> (js_error + unit) \<times> 'w"
  open_background :: "string \<Rightarrow> string \<Rightarrow> ('w, int \<times> int) op"
  token_bytes :: "nat \<Rightarrow> 'w \<Rightarrow> 8 word list \<times> 'w"
  profile_digest :: "js \<Rightarrow> string"
  parse_date :: "string \<Rightarrow> int option"

section \<open>Errors and views\<close>

definition BOOKMARK_ROOT_ID :: string where "BOOKMARK_ROOT_ID = ''0''"
definition TREE_NODE_LIMIT :: nat where "TREE_NODE_LIMIT = 500"
definition STAGE_TTL_MS :: int where "STAGE_TTL_MS = 300000"
definition SESSION_LOOKUP_LIMIT :: int where "SESSION_LOOKUP_LIMIT = 25"
definition RESTORE_TAB_LIMIT :: nat where "RESTORE_TAB_LIMIT = 25"

definition profileError :: "string \<Rightarrow> string \<Rightarrow> js obj \<Rightarrow> js_error" where
  "profileError code message extra = JsError PlainError message ([(''code'', Str code)] @ extra)"

definition chromeCall :: "('w \<Rightarrow> (js_error + 'a) \<times> 'w) \<Rightarrow> string \<Rightarrow> ('w, 'a) op" where
  "chromeCall f what = try_catch (call f)
     (\<lambda>e. throw (profileError ''profile_api_failed'' (''Chrome could not '' @ what @ '': '' @ err_message e) []))"

definition str_param :: "js obj \<Rightarrow> string \<Rightarrow> string" where
  "str_param params k = the_str (jget params k)"

definition int_param :: "js obj \<Rightarrow> string \<Rightarrow> int option" where
  "int_param params k = (case jget params k of Num (JInt i) \<Rightarrow> Some i | _ \<Rightarrow> None)"

definition limitOf :: "js obj \<Rightarrow> int \<Rightarrow> int" where
  "limitOf params fallback = (case int_param params ''limit'' of None \<Rightarrow> fallback | Some i \<Rightarrow> i)"

definition or_empty :: "string option \<Rightarrow> js" where
  "or_empty v = Str (case v of None \<Rightarrow> '''' | Some s \<Rightarrow> s)"

definition str_field :: "string \<Rightarrow> string option \<Rightarrow> js obj" where
  "str_field k v = (case v of None \<Rightarrow> [] | Some s \<Rightarrow> [(k, Str s)])"

definition int_field :: "string \<Rightarrow> int option \<Rightarrow> js obj" where
  "int_field k v = (case v of None \<Rightarrow> [] | Some i \<Rightarrow> [(k, js_int i)])"

definition bookmarkView :: "bookmark_node \<Rightarrow> js obj" where
  "bookmarkView n = [(''id'', Str (node_id n))] @ str_field ''parent_id'' (parentId n) @ int_field ''index'' (node_index n) @
     [(''title'', Str (node_title n))] @ str_field ''url'' (node_url n) @
     [(''kind'', Str (if node_url n = None then ''folder'' else ''bookmark''))] @
     (case dateAdded n of None \<Rightarrow> [] | Some d \<Rightarrow> [(''date_added_ms'', Num d)])"

definition tabEntry :: "session_tab \<Rightarrow> js obj" where
  "tabEntry t = str_field ''session_id'' (stab_session t) @ [(''title'', or_empty (stab_title t)), (''url'', or_empty (stab_url t))]"

definition closed_tabs :: "session_window \<Rightarrow> session_tab list" where
  "closed_tabs w = (case swin_tabs w of None \<Rightarrow> [] | Some ts \<Rightarrow> ts)"

definition sessionEntry :: "browser_session \<Rightarrow> js obj option" where
  "sessionEntry b =
     (let lastModifiedMs = (''last_modified_ms'', js_int (lastModified b * 1000))
      in case session_tab_of b of
           Some t \<Rightarrow> Some ([(''kind'', Str ''tab'')] @ str_field ''session_id'' (stab_session t) @
             [lastModifiedMs, (''title'', or_empty (stab_title t)), (''url'', or_empty (stab_url t))])
         | None \<Rightarrow> (case session_window_of b of
             Some w \<Rightarrow> Some ([(''kind'', Str ''window'')] @ str_field ''session_id'' (swin_session w) @
               [lastModifiedMs, (''tab_count'', js_int (int (length (closed_tabs w)))),
                (''tabs'', Arr (map (\<lambda>t. Obj (tabEntry t)) (closed_tabs w)))])
           | None \<Rightarrow> None))"

definition epochMs :: "'w profile_api \<Rightarrow> string option \<Rightarrow> int option" where
  "epochMs pa v = (case v of None \<Rightarrow> None | Some s \<Rightarrow> parse_date pa s)"

definition downloadView :: "'w profile_api \<Rightarrow> download_item \<Rightarrow> js obj" where
  "downloadView pa d =
     [(''id'', js_int (download_id d)), (''filename'', Str (download_filename d)), (''url'', Str (download_url d))] @
     (case finalUrl d of None \<Rightarrow> [] | Some u \<Rightarrow> if u \<noteq> [] \<and> u \<noteq> download_url d then [(''final_url'', Str u)] else []) @
     [(''state'', Str (download_state d)), (''paused'', Bool (download_paused d)),
      (''bytes_received'', js_int (bytesReceived d)), (''total_bytes'', js_int (totalBytes d))] @
     str_field ''error'' (download_error d) @
     (case download_mime d of None \<Rightarrow> [] | Some m \<Rightarrow> if m \<noteq> [] then [(''mime'', Str m)] else []) @
     int_field ''start_time_ms'' (epochMs pa (startTime d)) @ int_field ''end_time_ms'' (epochMs pa (endTime d))"

section \<open>Bookmarks\<close>

definition not_found :: "string \<Rightarrow> js_error" where
  "not_found i = profileError ''bookmark_not_found'' (''Bookmark '' @ i @ '' does not exist'') []"

definition bookmark :: "'w profile_api \<Rightarrow> string \<Rightarrow> ('w, bookmark_node) op" where
  "bookmark pa i =
     bnd (try_catch (call (bookmarks_get pa i)) (\<lambda>e. throw (not_found i))) (\<lambda>nodes. case nodes of
         [] \<Rightarrow> throw (not_found i)
       | n # rest \<Rightarrow> ret n)"

definition mutableBookmark :: "'w profile_api \<Rightarrow> string \<Rightarrow> ('w, bookmark_node) op" where
  "mutableBookmark pa i = bnd (bookmark pa i) (\<lambda>n.
     if node_id n = BOOKMARK_ROOT_ID \<or> parentId n = Some BOOKMARK_ROOT_ID \<or> unmodifiable n
     then throw (profileError ''bookmark_root_immutable''
       (''Bookmark '' @ i @ '' is a root or managed node and cannot be changed'') [])
     else ret n)"

definition destinationFolder :: "'w profile_api \<Rightarrow> string \<Rightarrow> ('w, bookmark_node) op" where
  "destinationFolder pa i = bnd (bookmark pa i) (\<lambda>folder.
     if node_url folder \<noteq> None
     then throw (profileError ''invalid_request'' (''Bookmark '' @ i @ '' is not a folder'') [])
     else if node_id folder = BOOKMARK_ROOT_ID \<or> unmodifiable folder
     then throw (profileError ''bookmark_root_immutable'' (''Folder '' @ i @ '' cannot hold bookmarks'') [])
     else ret folder)"

definition bookmarksSearch :: "'w profile_api \<Rightarrow> string \<Rightarrow> int \<Rightarrow> ('w, js obj) op" where
  "bookmarksSearch pa query limit =
     bnd (chromeCall (bookmarks_search pa query) ''search bookmarks'') (\<lambda>nodes.
       let bookmarks = map (\<lambda>n. Obj (bookmarkView n)) (take (nat limit) nodes)
       in ret [(''bookmarks'', Arr bookmarks), (''count'', js_int (int (length bookmarks))),
            (''truncated'', Bool (limit < int (length nodes)))])"

text \<open>
  \<open>visit\<close> of \<open>bookmarksTree\<close> with its two variables, the number of nodes and the flag of a cropped. The count
  grows before the children are visited, and the loop over them stops at the limit.
\<close>

definition tree_summary :: "bookmark_node \<Rightarrow> bookmark_node list \<Rightarrow> js obj" where
  "tree_summary n children = bookmarkView n @ [(''child_count'', js_int (int (length children)))]"

fun visit :: "bookmark_node \<Rightarrow> int \<Rightarrow> nat \<times> bool \<Rightarrow> js obj \<times> nat \<times> bool"
  and visit_children :: "bookmark_node list \<Rightarrow> int \<Rightarrow> nat \<times> bool \<Rightarrow> js list \<times> nat \<times> bool" where
  "visit (BookmarkNode i p x t u d m cs) remaining (count, cropped) =
     (let n = BookmarkNode i p x t u d m cs in
      if u \<noteq> None then (bookmarkView n, count + 1, cropped)
      else case cs of
          None \<Rightarrow> (tree_summary n [] @ (if remaining \<le> 0 then [] else [(''children'', Arr [])]), count + 1, cropped)
        | Some children \<Rightarrow>
            (if remaining \<le> 0 then (tree_summary n children, count + 1, cropped)
             else case visit_children children (remaining - 1) (count + 1, cropped) of
                 (included, st) \<Rightarrow> (tree_summary n children @ [(''children'', Arr included)], st)))"
| "visit_children [] remaining st = ([], st)"
| "visit_children (child # rest) remaining (count, cropped) =
     (if TREE_NODE_LIMIT \<le> count then ([], count, True)
      else case visit child remaining (count, cropped) of
          (v, st) \<Rightarrow> (case visit_children rest remaining st of (vs, st') \<Rightarrow> (Obj v # vs, st')))"

definition bookmarksTree :: "'w profile_api \<Rightarrow> string \<Rightarrow> int \<Rightarrow> ('w, js obj) op" where
  "bookmarksTree pa folderId depth =
     bnd (try_catch (call (bookmarks_subtree pa folderId)) (\<lambda>e. throw (not_found folderId))) (\<lambda>subtree. case subtree of
         [] \<Rightarrow> throw (not_found folderId)
       | tree # rest \<Rightarrow> (case visit tree depth (0, False) of
           (view, count, cropped) \<Rightarrow>
             ret [(''root'', Obj view), (''node_count'', js_int (int count)), (''truncated'', Bool cropped)]))"

definition bookmarksUpdate :: "'w profile_api \<Rightarrow> js obj \<Rightarrow> ('w, js obj) op" where
  "bookmarksUpdate pa params =
     (let i = str_param params ''id'';
          changed = filter (\<lambda>k. is_str (jget params k)) [''title'', ''url''] in
      bnd (mutableBookmark pa i) (\<lambda>n.
        if is_str (jget params ''url'') \<and> node_url n = None
        then throw (profileError ''invalid_request'' (''Bookmark '' @ i @ '' is a folder and has no url'') [])
        else seq (chromeCall (bookmarks_update pa i (map (\<lambda>k. (k, jget params k)) changed)) ''update the bookmark'')
          (ret [(''id'', Str i), (''updated'', Arr (map Str changed))])))"

definition assertIndex :: "'w profile_api \<Rightarrow> string \<Rightarrow> int \<Rightarrow> ('w, unit) op" where
  "assertIndex pa parent i = bnd (chromeCall (bookmarks_children pa parent) ''read the folder'') (\<lambda>children.
     if int (length children) < i
     then throw (profileError ''invalid_request''
       (''index must be at most '' @ string_of_int (int (length children)) @ '' for folder '' @ parent) [])
     else ret ())"

definition check_index :: "'w profile_api \<Rightarrow> string \<Rightarrow> int option \<Rightarrow> ('w, unit) op" where
  "check_index pa parent index = (case index of None \<Rightarrow> ret () | Some i \<Rightarrow> assertIndex pa parent i)"

text \<open>\<open>created.parentId ?? parentId\<close> and \<open>created.index ?? index ?? 0\<close>\<close>

definition placed :: "string \<Rightarrow> string \<Rightarrow> int option \<Rightarrow> bookmark_node \<Rightarrow> js obj" where
  "placed i parent index n =
     [(''id'', Str i), (''parent_id'', Str (case parentId n of None \<Rightarrow> parent | Some p \<Rightarrow> p)),
      (''index'', js_int (case node_index n of Some x \<Rightarrow> x | None \<Rightarrow> case index of Some x \<Rightarrow> x | None \<Rightarrow> 0))]"

definition bookmarksCreate :: "'w profile_api \<Rightarrow> js obj \<Rightarrow> ('w, js obj) op" where
  "bookmarksCreate pa params =
     (let parent = str_param params ''parent_id''; index = int_param params ''index'' in
      seq (destinationFolder pa parent)
      (seq (check_index pa parent index)
      (bnd (chromeCall (bookmarks_create pa \<lparr>place_parent = parent, place_index = index\<rparr> (str_param params ''title'')
             (if is_str (jget params ''url'') then Some (str_param params ''url'') else None)) ''create the bookmark'')
        (\<lambda>created. ret (placed (node_id created) parent index created)))))"

section \<open>Moving a bookmark\<close>

text \<open>Operations that may not end give \<open>None\<close> where they do not.\<close>

type_synonym ('w, 'a) loop = "'w sys \<Rightarrow> ((js_error + 'a) \<times> 'w sys) option"

definition ends :: "('w, 'a) op \<Rightarrow> ('w, 'a) loop" where
  "ends m s = Some (m s)"

definition followed :: "('w, 'a) loop \<Rightarrow> ('a \<Rightarrow> ('w, 'b) op) \<Rightarrow> ('w, 'b) loop" where
  "followed m f s = map_option (\<lambda>(r, t). case r of Inl e \<Rightarrow> (Inl e, t) | Inr x \<Rightarrow> f x t) (m s)"

partial_function (option) climb ::
  "(string \<Rightarrow> ('w, bookmark_node) op) \<Rightarrow> string \<Rightarrow> string option \<Rightarrow> 'w sys \<Rightarrow> ((js_error + unit) \<times> 'w sys) option" where
  "climb look i cursor s = (case cursor of
      None \<Rightarrow> Some (Inr (), s)
    | Some c \<Rightarrow>
        (if c = BOOKMARK_ROOT_ID then Some (Inr (), s)
         else if c = i
         then Some (Inl (profileError ''invalid_request'' ''A folder cannot move into itself or its descendants'' []), s)
         else (case look c s of
             (Inl e, t) \<Rightarrow> Some (Inl e, t)
           | (Inr n, t) \<Rightarrow> climb look i (parentId n) t)))"

definition move_checks :: "'w profile_api \<Rightarrow> string \<Rightarrow> string \<Rightarrow> ('w, unit) loop" where
  "move_checks pa i parent s =
     (case seq (mutableBookmark pa i) (destinationFolder pa parent) s of
        (Inl e, t) \<Rightarrow> Some (Inl e, t)
      | (Inr folder, t) \<Rightarrow> climb (bookmark pa) i (Some parent) t)"

definition bookmarksMove :: "'w profile_api \<Rightarrow> js obj \<Rightarrow> ('w, js obj) loop" where
  "bookmarksMove pa params =
     (let i = str_param params ''id''; parent = str_param params ''parent_id''; index = int_param params ''index'' in
      followed (move_checks pa i parent) (\<lambda>_.
        seq (check_index pa parent index)
        (bnd (chromeCall (bookmarks_move pa i \<lparr>place_parent = parent, place_index = index\<rparr>) ''move the bookmark'')
          (\<lambda>moved. ret (placed i parent index moved)))))"

section \<open>Removing a bookmark\<close>

definition removalFingerprint :: "'w profile_api \<Rightarrow> string \<Rightarrow> string \<Rightarrow> bookmark_node \<Rightarrow> string" where
  "removalFingerprint pa token key n = profile_digest pa (canonicalize (Obj
     [(''native_token'', Str token), (''task_id'', Str key), (''operation'', Str ''bookmarks_remove''),
      (''id'', Str (node_id n)), (''parent_id'', str_or_null (parentId n)), (''title'', Str (node_title n)),
      (''url'', str_or_null (node_url n))]))"

definition removal_stage :: "'w profile_api \<Rightarrow> string \<Rightarrow> string \<Rightarrow> string \<Rightarrow> int \<Rightarrow> bookmark_node \<Rightarrow> staged_commit" where
  "removal_stage pa key i token time n =
     \<lparr>native_token = token, staged_task = key, staged_tab = PROFILE_STAGE_TAB_ID, staged_revision = 0,
      effect = PROFILE_BOOKMARK_REMOVE_EFFECT, fingerprint = removalFingerprint pa token key n,
      expires_at_ms = time + STAGE_TTL_MS, review_handle = None, approved = None,
      staged_action = [(''operation'', Str ''bookmarks_remove''), (''bookmark_id'', Str i)],
      preview = [(''effect'', Str PROFILE_BOOKMARK_REMOVE_EFFECT),
        (''kind'', Str (if node_url n = None then ''folder'' else ''bookmark'')), (''id'', Str i),
        (''title'', Str (node_title n))] @ str_field ''url'' (node_url n),
      dialog = None\<rparr>"

definition refuse_full_folder :: "'w profile_api \<Rightarrow> string \<Rightarrow> bookmark_node \<Rightarrow> ('w, unit) op" where
  "refuse_full_folder pa i n =
     (if node_url n = None
      then bnd (chromeCall (bookmarks_children pa i) ''read the folder'') (\<lambda>children.
        if children \<noteq> []
        then throw (profileError ''bookmark_folder_not_empty''
          (''Folder '' @ i @ '' is not empty; move or remove its contents first'') [])
        else ret ())
      else ret ())"

record profile_execution =
  profile_result :: "js obj"
  profile_staged :: "staged_commit option"

definition stageBookmarkRemoval :: "'w env \<Rightarrow> 'w profile_api \<Rightarrow> string \<Rightarrow> string \<Rightarrow> ('w, profile_execution) op" where
  "stageBookmarkRemoval env pa key i =
     bnd (mutableBookmark pa i) (\<lambda>n.
     seq (refuse_full_folder pa i n)
     (bnd (ask (token_bytes pa 32)) (\<lambda>bytes.
      bnd (now env) (\<lambda>time.
        let token = randomToken bytes; staged = removal_stage pa key i token time n in
        seq (mutateState (storage env) (\<lambda>st. Inr ((),
              st\<lparr>stagedCommits := AList.update token staged (stagedCommits st)\<rparr>)))
          (ret \<lparr>profile_result = [(''operation'', Str ''bookmarks_remove''), (''id'', Str i)],
             profile_staged = Some staged\<rparr>)))))"

text \<open>Everything before the removal itself: the id of the bookmark, whose stage is used up.\<close>

definition check_removal :: "'w env \<Rightarrow> 'w profile_api \<Rightarrow> string \<Rightarrow> string \<Rightarrow> staged_commit \<Rightarrow> ('w, string) op" where
  "check_removal env pa key token c =
     (let i = jget (staged_action c) ''bookmark_id'' in
      if jget (staged_action c) ''operation'' \<noteq> Str ''bookmarks_remove'' \<or> \<not> is_str i
      then seq (discard_stage env token) (throw (profileError ''staged_commit_mismatch'' ''Staged operation is malformed'' []))
      else bnd (quiet (bnd (bookmark pa (the_str i)) (\<lambda>n. ret (Some n))) None) (\<lambda>node.
        if (case node of None \<Rightarrow> True | Some n \<Rightarrow> removalFingerprint pa token key n \<noteq> fingerprint c)
        then seq (discard_stage env token)
          (throw (profileError ''staged_commit_mismatch'' ''The bookmark changed before Commit'' []))
        else seq (discard_stage env token) (ret (the_str i))))"

definition prepare_removal :: "'w env \<Rightarrow> 'w profile_api \<Rightarrow> string \<Rightarrow> string \<Rightarrow> ('w, string) op" where
  "prepare_removal env pa key token =
     bnd (readState (storage env)) (\<lambda>st.
       let refused = throw (profileError ''invalid_staged_token''
         ''Staged commit token is invalid, used, or belongs to another task'' []) in
       case map_of (stagedCommits st) token of
         None \<Rightarrow> refused
       | Some c \<Rightarrow>
           (if staged_task c \<noteq> key \<or> \<not> isProfileStage c then refused
            else bnd (now env) (\<lambda>time.
              if expires_at_ms c \<le> time
              then seq (discard_stage env token)
                (throw (profileError ''staged_commit_expired'' ''Staged commit token expired'' []))
              else check_removal env pa key token c)))"

definition commit_profile :: "'w env \<Rightarrow> 'w profile_api \<Rightarrow> string \<Rightarrow> string \<Rightarrow> ('w, js obj) op" where
  "commit_profile env pa key token =
     bnd (prepare_removal env pa key token) (\<lambda>i.
     seq (chromeCall (bookmarks_remove pa i) ''remove the bookmark'')
       (ret [(''operation'', Str ''bookmarks_remove''), (''id'', Str i), (''removed'', Bool True)]))"

section \<open>History, sessions and downloads\<close>

definition historySearch :: "'w profile_api \<Rightarrow> js obj \<Rightarrow> ('w, js obj) op" where
  "historySearch pa params =
     (let earliest = (case int_param params ''start_time'' of None \<Rightarrow> 0 | Some t \<Rightarrow> t) in
      bnd (chromeCall (history_search pa (str_param params ''text'') earliest (limitOf params 25) (int_param params ''end_time''))
             ''search history'') (\<lambda>items.
        ret [(''items'', Arr (map (\<lambda>h. Obj ([(''id'', Str (item_id h)), (''url'', or_empty (item_url h)),
              (''title'', or_empty (item_title h))] @
              (case lastVisitTime h of None \<Rightarrow> [] | Some t \<Rightarrow> [(''last_visit_time_ms'', Num t)]) @
              [(''visit_count'', js_int (case visitCount h of None \<Rightarrow> 0 | Some k \<Rightarrow> k)),
               (''typed_count'', js_int (case typedCount h of None \<Rightarrow> 0 | Some k \<Rightarrow> k))])) items)),
          (''count'', js_int (int (length items)))]))"

definition session_entries :: "browser_session list \<Rightarrow> js list" where
  "session_entries bs = map Obj (List.map_filter sessionEntry bs)"

definition sessionsRecent :: "'w profile_api \<Rightarrow> int \<Rightarrow> ('w, js obj) op" where
  "sessionsRecent pa limit =
     bnd (chromeCall (sessions_closed pa limit) ''read recently closed sessions'') (\<lambda>bs.
       ret [(''sessions'', Arr (session_entries bs)), (''count'', js_int (int (length (session_entries bs))))])"

definition sessionsDevices :: "'w profile_api \<Rightarrow> int \<Rightarrow> ('w, js obj) op" where
  "sessionsDevices pa limit =
     bnd (chromeCall (sessions_devices pa limit) ''read synced devices'') (\<lambda>ds.
       ret [(''devices'', Arr (map (\<lambda>d. Obj [(''device_name'', Str (deviceName d)),
              (''sessions'', Arr (session_entries (device_sessions d)))]) ds)),
          (''count'', js_int (int (length ds)))])"

text \<open>The loop over the candidates: the first whose tab or window has the id.\<close>

fun find_session :: "string \<Rightarrow> browser_session list \<Rightarrow> (string \<times> string list) option" where
  "find_session i [] = None"
| "find_session i (b # rest) =
     (let text = (\<lambda>u. case u of None \<Rightarrow> '''' | Some s \<Rightarrow> s) in
      if (case session_tab_of b of None \<Rightarrow> False | Some t \<Rightarrow> stab_session t = Some i)
      then Some (''tab'', [text (stab_url (the (session_tab_of b)))])
      else if (case session_window_of b of None \<Rightarrow> False | Some w \<Rightarrow> swin_session w = Some i)
      then Some (''window'', map (\<lambda>t. text (stab_url t)) (closed_tabs (the (session_window_of b))))
      else find_session i rest)"

definition page_url :: "string \<Rightarrow> bool" where
  "page_url u \<longleftrightarrow> starts_with (lower u) ''http://'' \<or> starts_with (lower u) ''https://''"

definition unknown_outcome :: "js_error \<Rightarrow> js_error" where
  "unknown_outcome e = (case e of JsError c m props \<Rightarrow> JsError c m (AList.update ''outcome'' (Str ''unknown'') props))"

fun open_tabs :: "'w profile_api \<Rightarrow> string \<Rightarrow> string list \<Rightarrow> (int \<times> int) list \<Rightarrow> ('w, (int \<times> int) list) op" where
  "open_tabs pa key [] opened = ret opened"
| "open_tabs pa key (u # us) opened =
     bnd (try_catch (open_background pa key u)
           (\<lambda>e. throw (if opened = [] then e else unknown_outcome e))) (\<lambda>t.
       open_tabs pa key us (opened @ [t]))"

definition session_missing :: js_error where
  "session_missing = profileError ''session_not_found'' ''No recently closed or synced session has that session_id''
     [(''recovery'', Str ''List sessions_recent or sessions_devices again and use a current session_id.'')]"

definition sessionsRestore :: "'w profile_api \<Rightarrow> string \<Rightarrow> string \<Rightarrow> ('w, js obj) op" where
  "sessionsRestore pa key i =
     bnd (chromeCall (sessions_closed pa SESSION_LOOKUP_LIMIT) ''read recently closed sessions'') (\<lambda>recent.
     bnd (quiet (call (sessions_devices pa SESSION_LOOKUP_LIMIT)) []) (\<lambda>ds.
       case find_session i (recent @ concat (map device_sessions ds)) of
         None \<Rightarrow> throw session_missing
       | Some (k, urls) \<Rightarrow>
           bnd (open_tabs pa key (take RESTORE_TAB_LIMIT (filter page_url urls)) []) (\<lambda>opened.
             ret [(''session_id'', Str i), (''kind'', Str k),
               (''opened'', Arr (map (\<lambda>(t, r). Obj [(''tab_id'', js_int t), (''page_revision'', js_int r)]) opened)),
               (''skipped'', js_int (int (length urls) - int (length opened)))])))"

text \<open>\<open>text.split(/\s+/).filter((term) => term.length > 0)\<close>\<close>

fun terms_of :: "string \<Rightarrow> string \<Rightarrow> string list" where
  "terms_of word [] = (if word = [] then [] else [word])"
| "terms_of word (c # cs) =
     (if white c then (if word = [] then terms_of [] cs else word # terms_of [] cs) else terms_of (word @ [c]) cs)"

definition downloadsSearch :: "'w profile_api \<Rightarrow> js obj \<Rightarrow> ('w, js obj) op" where
  "downloadsSearch pa params =
     (let query = \<lparr>query_limit = limitOf params 25,
        query_terms = (if is_str (jget params ''query'') then Some (terms_of [] (str_param params ''query'')) else None),
        query_state = (if is_str (jget params ''state'') then Some (str_param params ''state'') else None)\<rparr> in
      bnd (chromeCall (downloads_search pa query) ''search downloads'') (\<lambda>items.
        ret [(''downloads'', Arr (map (\<lambda>d. Obj (downloadView pa d)) items)), (''count'', js_int (int (length items)))]))"

definition download :: "'w profile_api \<Rightarrow> int \<Rightarrow> ('w, download_item) op" where
  "download pa i = bnd (chromeCall (downloads_get pa i) ''read the download'') (\<lambda>items. case items of
       [] \<Rightarrow> throw (profileError ''download_not_found'' (''Download '' @ string_of_int i @ '' does not exist'') [])
     | d # rest \<Rightarrow> ret d)"

definition downloadControl :: "'w profile_api \<Rightarrow> string \<Rightarrow> int \<Rightarrow> ('w, js obj) op" where
  "downloadControl pa operation i =
     seq (download pa i)
     (seq (if operation = ''downloads_cancel'' then chromeCall (downloads_cancel pa i) ''cancel the download''
           else if operation = ''downloads_pause'' then chromeCall (downloads_pause pa i) ''pause the download''
           else chromeCall (downloads_resume pa i) ''resume the download'')
     (bnd (try_catch (download pa i) (\<lambda>e. throw (unknown_outcome e))) (\<lambda>d.
       ret [(''id'', js_int i), (''state'', Str (download_state d)), (''paused'', Bool (download_paused d))])))"

section \<open>An operation\<close>

definition plain_execution :: "('w, js obj) op \<Rightarrow> ('w, profile_execution) op" where
  "plain_execution m = bnd m (\<lambda>r. ret \<lparr>profile_result = r, profile_staged = None\<rparr>)"

definition execute :: "'w env \<Rightarrow> 'w profile_api \<Rightarrow> string \<Rightarrow> string \<Rightarrow> js obj \<Rightarrow> ('w, profile_execution) loop" where
  "execute env pa key operation params =
     (let plain = (\<lambda>m. ends (plain_execution m)) in
      if operation = ''bookmarks_search'' then plain (bookmarksSearch pa (str_param params ''query'') (limitOf params 25))
      else if operation = ''bookmarks_tree'' then plain (bookmarksTree pa
        (if is_str (jget params ''folder_id'') then str_param params ''folder_id'' else BOOKMARK_ROOT_ID)
        (case int_param params ''depth'' of None \<Rightarrow> 1 | Some d \<Rightarrow> d))
      else if operation = ''bookmarks_update'' then plain (bookmarksUpdate pa params)
      else if operation = ''bookmarks_create'' then plain (bookmarksCreate pa params)
      else if operation = ''bookmarks_move''
      then followed (bookmarksMove pa params) (\<lambda>r. ret \<lparr>profile_result = r, profile_staged = None\<rparr>)
      else if operation = ''bookmarks_remove'' then ends (stageBookmarkRemoval env pa key (str_param params ''id''))
      else if operation = ''history_search'' then plain (historySearch pa params)
      else if operation = ''sessions_recent'' then plain (sessionsRecent pa (limitOf params 10))
      else if operation = ''sessions_devices'' then plain (sessionsDevices pa (limitOf params 10))
      else if operation = ''sessions_restore'' then plain (sessionsRestore pa key (str_param params ''session_id''))
      else if operation = ''downloads_search'' then plain (downloadsSearch pa params)
      else if operation \<in> {''downloads_cancel'', ''downloads_pause'', ''downloads_resume''}
      then plain (downloadControl pa operation (the_int (jget params ''id'')))
      else ends (throw (profileError ''invalid_request'' (''Unsupported browser_profile operation: '' @ operation) [])))"

definition run_profile :: "'w env \<Rightarrow> 'w profile_api \<Rightarrow> string \<Rightarrow> js obj \<Rightarrow> ('w, profile_execution) loop" where
  "run_profile env pa key params =
     followed (execute env pa key (str_param params ''operation'') params) (\<lambda>x.
       ret (if profile_staged x \<noteq> None then x
            else x\<lparr>profile_result :=
              [(''operation'', jget params ''operation'')] @ profile_result x\<rparr>))"

text \<open>The separator of title and URL has a character beyond the 8 bits of \<open>char\<close>: \<open>dash\<close> stands for it.\<close>

definition profileReviewDetail :: "string \<Rightarrow> staged_commit \<Rightarrow> string option" where
  "profileReviewDetail dash c =
     (let title = jget (preview c) ''title''; url = jget (preview c) ''url'';
          shown = (if is_str title \<and> the_str title \<noteq> [] then the_str title else ''(untitled)'')
      in if \<not> isProfileStage c then None
         else Some (if is_str url then shown @ '' '' @ dash @ '' '' @ the_str url else ''Folder: '' @ shown))"

end
