(* ===== verification/ProfileFacts.thy ===== *)
theory ProfileFacts
  imports Profile CommitFacts
begin

text \<open>
  Facts about \<open>Profile\<close>: what the commit of a removal has checked, which operations use which Chrome
  calls, the size of a bookmark view, and the climb that keeps a folder out of its own descendants.
\<close>

section \<open>Commit of a removal\<close>

lemma keeps_ready_bookmark [keeps_intros]: "keeps ready (bookmark pa i)"
  unfolding bookmark_def by (intro keeps_intros) simp_all

lemma quiet_Inr: "quiet m d s = (Inr x, t) \<longleftrightarrow> m s = (Inr x, t) \<or> (\<exists>e. m s = (Inl e, t) \<and> x = d)"
  by (auto simp: quiet_def try_catch_def ret_def split: prod.split sum.split)

lemma check_removal_Inr:
  assumes "ready s" and "check_removal env pa key token c s = (Inr i, t)"
  shows "jget (staged_action c) ''bookmark_id'' = Str i"
    and "\<exists>n u. bookmark pa i s = (Inr n, u) \<and> removalFingerprint pa token key n = fingerprint c"
    and "\<exists>st. cached t = Some st \<and> ext_ok st \<and> unstaged token st"
proof -
  let ?i = "jget (staged_action c) ''bookmark_id''"
  from assms(2) have str: "is_str ?i" by (auto simp: check_removal_def Let_def eff_Inr split: if_splits)
  from assms(2) obtain n u where n: "quiet (bnd (bookmark pa (the_str ?i)) (\<lambda>n. ret (Some n))) None s = (Inr (Some n), u)"
      "removalFingerprint pa token key n = fingerprint c" "discard_stage env token u = (Inr (), t)" "i = the_str ?i"
    by (auto simp: check_removal_def Let_def eff_Inr split: if_splits option.splits)
  with str show "?i = Str i" by (cases ?i) simp_all
  from n have b: "bookmark pa i s = (Inr n, u)" by (auto simp: quiet_Inr eff_Inr)
  with n(2) show "\<exists>n u. bookmark pa i s = (Inr n, u) \<and> removalFingerprint pa token key n = fingerprint c" by blast
  have "ready u" by (rule keeps_run [OF keeps_ready_bookmark assms(1) b])
  then show "\<exists>st. cached t = Some st \<and> ext_ok st \<and> unstaged token st" by (rule discard_stage_gone [OF _ n(3)])
qed

lemma prepare_removal_Inr:
  assumes "ready s" and "prepare_removal env pa key token s = (Inr i, t)"
  shows "\<exists>st c u n v. cached s = Some st \<and> map_of (stagedCommits st) token = Some c \<and> staged_task c = key \<and>
      isProfileStage c \<and> jget (staged_action c) ''bookmark_id'' = Str i \<and>
      bookmark pa i u = (Inr n, v) \<and> removalFingerprint pa token key n = fingerprint c"
    and "\<exists>st. cached t = Some st \<and> unstaged token st"
proof -
  from assms obtain st c time u where st: "cached s = Some st" "map_of (stagedCommits st) token = Some c"
      "staged_task c = key" "isProfileStage c" and u: "now env s = (Inr time, u)"
    and c: "check_removal env pa key token c u = (Inr i, t)"
    by (auto simp: prepare_removal_def Let_def eff_Inr readState_Inr split: option.splits if_splits)
  note r = check_removal_Inr [OF keeps_run [OF keeps_ready_now assms(1) u] c]
  from st r(1,2) show "\<exists>st c u n v. cached s = Some st \<and> map_of (stagedCommits st) token = Some c \<and> staged_task c = key \<and>
      isProfileStage c \<and> jget (staged_action c) ''bookmark_id'' = Str i \<and>
      bookmark pa i u = (Inr n, v) \<and> removalFingerprint pa token key n = fingerprint c" by blast
  from r(3) show "\<exists>st. cached t = Some st \<and> unstaged token st" by blast
qed

definition used_up :: js_error where
  "used_up = profileError ''invalid_staged_token'' ''Staged commit token is invalid, used, or belongs to another task'' []"

lemma prepare_removal_used:
  "cached s = Some st \<Longrightarrow> unstaged token st \<Longrightarrow> prepare_removal env pa key token s = (Inl used_up, s)"
  by (simp add: prepare_removal_def bnd_def readState_cached unstaged_def throw_def used_up_def)

text \<open>Equal fingerprints of a bookmark, under a hash that binds.\<close>

definition same_bookmark :: "bookmark_node \<Rightarrow> bookmark_node \<Rightarrow> bool" where
  "same_bookmark a b \<longleftrightarrow> node_id a = node_id b \<and> parentId a = parentId b \<and> node_title a = node_title b \<and> node_url a = node_url b"

lemma str_or_null_inject: "canonicalize (str_or_null a) = canonicalize (str_or_null b) \<Longrightarrow> a = b"
  by (simp add: str_or_null_def split: option.splits)

lemma removal_fingerprint_eq:
  assumes h: "binding (profile_digest pa) hash"
    and "removalFingerprint pa token key a = hash" "removalFingerprint pa token key b = hash"
  shows "same_bookmark a b"
proof -
  let ?f = "\<lambda>n. [(''native_token'', Str token), (''task_id'', Str key), (''operation'', Str ''bookmarks_remove''),
      (''id'', Str (node_id n)), (''parent_id'', str_or_null (parentId n)), (''title'', Str (node_title n)),
      (''url'', str_or_null (node_url n))]"
  have j: "json (Obj (?f n))" for n by (simp add: str_or_null_def split: option.split)
  have e: "canonicalize (Obj (?f a)) = canonicalize (Obj (?f b))"
    using h assms(2,3) j unfolding binding_def removalFingerprint_def by blast
  note field = canonical_field [OF e]
  have "canonicalize (Str (node_id a)) = canonicalize (Str (node_id b))" by (rule field [of "''id''"]) simp_all
  moreover have "canonicalize (str_or_null (parentId a)) = canonicalize (str_or_null (parentId b))"
    by (rule field [of "''parent_id''"]) simp_all
  moreover have "canonicalize (Str (node_title a)) = canonicalize (Str (node_title b))" by (rule field [of "''title''"]) simp_all
  moreover have "canonicalize (str_or_null (node_url a)) = canonicalize (str_or_null (node_url b))"
    by (rule field [of "''url''"]) simp_all
  ultimately show ?thesis by (simp add: same_bookmark_def str_or_null_inject)
qed

section \<open>Chrome calls of an operation\<close>

text \<open>\<open>rewritten\<close> replaces every call that changes something.\<close>

definition rewritten :: "'w profile_api \<Rightarrow> 'w profile_api \<Rightarrow> 'w profile_api" where
  "rewritten pb pa = pa\<lparr>bookmarks_update := bookmarks_update pb, bookmarks_create := bookmarks_create pb,
     bookmarks_move := bookmarks_move pb, bookmarks_remove := bookmarks_remove pb, downloads_cancel := downloads_cancel pb,
     downloads_pause := downloads_pause pb, downloads_resume := downloads_resume pb, open_background := open_background pb\<rparr>"

definition PROFILE_READS :: "string list" where
  "PROFILE_READS = [''bookmarks_search'', ''bookmarks_tree'', ''history_search'', ''sessions_recent'', ''sessions_devices'',
     ''downloads_search'']"

lemma rewritten_parts [simp]:
  "bookmarks_get (rewritten pb pa) = bookmarks_get pa" "bookmarks_subtree (rewritten pb pa) = bookmarks_subtree pa"
  "bookmarks_search (rewritten pb pa) = bookmarks_search pa" "history_search (rewritten pb pa) = history_search pa"
  "sessions_closed (rewritten pb pa) = sessions_closed pa" "sessions_devices (rewritten pb pa) = sessions_devices pa"
  "downloads_search (rewritten pb pa) = downloads_search pa" "parse_date (rewritten pb pa) = parse_date pa"
  by (simp_all add: rewritten_def)

lemma reads_same [simp]:
  "bookmarksSearch (rewritten pb pa) = bookmarksSearch pa" "bookmarksTree (rewritten pb pa) = bookmarksTree pa"
  "historySearch (rewritten pb pa) = historySearch pa" "sessionsRecent (rewritten pb pa) = sessionsRecent pa"
  "sessionsDevices (rewritten pb pa) = sessionsDevices pa" "downloadsSearch (rewritten pb pa) = downloadsSearch pa"
  by (intro ext, simp add: bookmarksSearch_def bookmarksTree_def historySearch_def sessionsRecent_def
      sessionsDevices_def downloadsSearch_def downloadView_def epochMs_def Let_def cong: option.case_cong)+

lemma reads_rewritten:
  "operation \<in> set PROFILE_READS \<Longrightarrow> execute env (rewritten pb pa) key operation params = execute env pa key operation params"
  unfolding PROFILE_READS_def list.set(2) insert_iff by (elim disjE) (simp_all add: execute_def Let_def)

lemma unremoved_same:
  "bookmark (pa\<lparr>bookmarks_remove := f\<rparr>) = bookmark pa"
  "bookmarksSearch (pa\<lparr>bookmarks_remove := f\<rparr>) = bookmarksSearch pa"
  "bookmarksTree (pa\<lparr>bookmarks_remove := f\<rparr>) = bookmarksTree pa"
  "historySearch (pa\<lparr>bookmarks_remove := f\<rparr>) = historySearch pa"
  "sessionsRecent (pa\<lparr>bookmarks_remove := f\<rparr>) = sessionsRecent pa"
  "sessionsDevices (pa\<lparr>bookmarks_remove := f\<rparr>) = sessionsDevices pa"
  "downloadsSearch (pa\<lparr>bookmarks_remove := f\<rparr>) = downloadsSearch pa"
  "download (pa\<lparr>bookmarks_remove := f\<rparr>) = download pa"
  "assertIndex (pa\<lparr>bookmarks_remove := f\<rparr>) = assertIndex pa"
  by (intro ext, simp add: bookmark_def bookmarksSearch_def bookmarksTree_def historySearch_def sessionsRecent_def
      sessionsDevices_def downloadsSearch_def downloadView_def epochMs_def download_def assertIndex_def Let_def
      cong: option.case_cong)+

lemma unremoved_places:
  "mutableBookmark (pa\<lparr>bookmarks_remove := f\<rparr>) = mutableBookmark pa"
  "destinationFolder (pa\<lparr>bookmarks_remove := f\<rparr>) = destinationFolder pa"
  "check_index (pa\<lparr>bookmarks_remove := f\<rparr>) = check_index pa"
  by (intro ext, simp add: mutableBookmark_def destinationFolder_def check_index_def unremoved_same cong: option.case_cong)+

lemma unremoved_climb: "move_checks (pa\<lparr>bookmarks_remove := f\<rparr>) = move_checks pa"
  by (intro ext) (simp only: move_checks_def unremoved_same unremoved_places)

lemma unremoved_tabs: "open_tabs (pa\<lparr>bookmarks_remove := f\<rparr>) key urls opened = open_tabs pa key urls opened"
  by (induction urls arbitrary: opened) simp_all

lemma unremoved_operations:
  "bookmarksUpdate (pa\<lparr>bookmarks_remove := f\<rparr>) = bookmarksUpdate pa"
  "bookmarksCreate (pa\<lparr>bookmarks_remove := f\<rparr>) = bookmarksCreate pa"
  "bookmarksMove (pa\<lparr>bookmarks_remove := f\<rparr>) = bookmarksMove pa"
  "stageBookmarkRemoval env (pa\<lparr>bookmarks_remove := f\<rparr>) = stageBookmarkRemoval env pa"
  "sessionsRestore (pa\<lparr>bookmarks_remove := f\<rparr>) = sessionsRestore pa"
  "downloadControl (pa\<lparr>bookmarks_remove := f\<rparr>) = downloadControl pa"
  by (intro ext, simp add: bookmarksUpdate_def bookmarksCreate_def bookmarksMove_def move_checks_def stageBookmarkRemoval_def
      removal_stage_def removalFingerprint_def refuse_full_folder_def sessionsRestore_def downloadControl_def
      unremoved_same unremoved_places unremoved_climb unremoved_tabs Let_def cong: option.case_cong if_cong)+

lemma execute_unremoved:
  "execute env (pa\<lparr>bookmarks_remove := f\<rparr>) key operation params = execute env pa key operation params"
  by (simp add: execute_def unremoved_same unremoved_operations Let_def)

section \<open>The size of a bookmark view\<close>

text \<open>What \<open>visit\<close> gives without a limit: the view of the whole tree to the depth, and its number of nodes.\<close>

fun full_view :: "bookmark_node \<Rightarrow> int \<Rightarrow> js obj" where
  "full_view (BookmarkNode i p x t u d m cs) remaining =
     (let n = BookmarkNode i p x t u d m cs; children = (case cs of None \<Rightarrow> [] | Some xs \<Rightarrow> xs) in
      if u \<noteq> None then bookmarkView n
      else tree_summary n children @
        (if remaining \<le> 0 then []
         else [(''children'', Arr (case cs of None \<Rightarrow> [] | Some xs \<Rightarrow> map (\<lambda>c. Obj (full_view c (remaining - 1))) xs))]))"

fun tree_size :: "bookmark_node \<Rightarrow> int \<Rightarrow> nat" where
  "tree_size (BookmarkNode i p x t u d m cs) remaining =
     (if u \<noteq> None \<or> remaining \<le> 0 then 1
      else 1 + (case cs of None \<Rightarrow> 0 | Some xs \<Rightarrow> sum_list (map (\<lambda>c. tree_size c (remaining - 1)) xs)))"

lemma tree_size_pos: "0 < tree_size n remaining"
  by (cases n) simp

lemma visit_limit:
  "fst st \<le> TREE_NODE_LIMIT \<Longrightarrow>
     (fst st < TREE_NODE_LIMIT \<longrightarrow> (let k = fst st + tree_size n remaining in
       snd (visit n remaining st) = (min TREE_NODE_LIMIT k, snd st \<or> TREE_NODE_LIMIT < k) \<and>
       (k \<le> TREE_NODE_LIMIT \<longrightarrow> fst (visit n remaining st) = full_view n remaining)))"
  "fst st \<le> TREE_NODE_LIMIT \<Longrightarrow>
     (let k = fst st + sum_list (map (\<lambda>c. tree_size c remaining) ns) in
       snd (visit_children ns remaining st) = (min TREE_NODE_LIMIT k, snd st \<or> TREE_NODE_LIMIT < k) \<and>
       (k \<le> TREE_NODE_LIMIT \<longrightarrow> fst (visit_children ns remaining st) = map (\<lambda>c. Obj (full_view c remaining)) ns))"
proof (induction n remaining st and ns remaining st rule: visit_visit_children.induct)
  case (1 i p x t u d m cs remaining k b)
  show ?case
  proof (cases "u \<noteq> None \<or> cs = None \<or> remaining \<le> 0")
    case True
    then show ?thesis by (auto split: option.splits if_splits simp: Let_def)
  next
    case False
    then obtain xs where xs: "u = None" "cs = Some xs" "0 < remaining" by auto
    show ?thesis
    proof (cases "k < TREE_NODE_LIMIT")
      case True
      with 1(1) [OF refl _ xs(2)] xs
      have "let k' = k + 1 + sum_list (map (\<lambda>c. tree_size c (remaining - 1)) xs) in
        snd (visit_children xs (remaining - 1) (k + 1, b)) = (min TREE_NODE_LIMIT k', b \<or> TREE_NODE_LIMIT < k') \<and>
        (k' \<le> TREE_NODE_LIMIT \<longrightarrow> fst (visit_children xs (remaining - 1) (k + 1, b)) =
          map (\<lambda>c. Obj (full_view c (remaining - 1))) xs)"
        by simp
      with xs show ?thesis by (auto simp: Let_def split: prod.splits)
    qed simp
  qed
next
  case (3 child rest remaining k b)
  show ?case
  proof (cases "TREE_NODE_LIMIT \<le> k")
    case True
    with 3(3) tree_size_pos [of child remaining] show ?thesis by (auto simp: Let_def)
  next
    case False
    obtain v st where v: "visit child remaining (k, b) = (v, st)"
      by (cases "visit child remaining (k, b)")
    with 3(1) False have st: "st = (min TREE_NODE_LIMIT (k + tree_size child remaining),
        b \<or> TREE_NODE_LIMIT < k + tree_size child remaining)"
      and vv: "k + tree_size child remaining \<le> TREE_NODE_LIMIT \<longrightarrow> v = full_view child remaining"
      by (simp_all add: Let_def)
    obtain vs st' where vs: "visit_children rest remaining st = (vs, st')"
      by (cases "visit_children rest remaining st")
    show ?thesis
    proof (cases "k + tree_size child remaining \<le> TREE_NODE_LIMIT")
      case True
      with 3(2) [OF _ v [symmetric]] False st vs vv show ?thesis
        by (auto simp: v Let_def)
    next
      case over: False
      with 3(2) [OF _ v [symmetric]] False st vs show ?thesis
        by (auto simp: v Let_def)
    qed
  qed
qed (auto simp: min_def prod_eq_iff)

section \<open>Moving a folder\<close>

text \<open>
  \<open>stable_tree pa nodes\<close>: while a bookmark moves, reading a node gives \<open>nodes\<close> and changes nothing, and the
  parents lead to the top. \<open>lies_in nodes i c\<close>: the node \<open>c\<close> is \<open>i\<close> or lies below it.
\<close>

definition stable_tree :: "'w profile_api \<Rightarrow> (string \<Rightarrow> bookmark_node option) \<Rightarrow> bool" where
  "stable_tree pa nodes \<longleftrightarrow>
     (\<forall>i w. bookmarks_get pa i w = ((case nodes i of None \<Rightarrow> Inl (not_found i) | Some n \<Rightarrow> Inr [n]), w)) \<and>
     (\<forall>i n. nodes i = Some n \<longrightarrow> node_id n = i) \<and>
     (\<forall>n. nodes BOOKMARK_ROOT_ID = Some n \<longrightarrow> parentId n = None) \<and>
     (\<exists>depth. \<forall>i n p. nodes i = Some n \<longrightarrow> parentId n = Some p \<longrightarrow> depth p < (depth i :: nat))"

inductive lies_in :: "(string \<Rightarrow> bookmark_node option) \<Rightarrow> string \<Rightarrow> string \<Rightarrow> bool" for nodes where
  lies_in_self: "lies_in nodes i i"
| lies_in_child: "nodes c = Some n \<Longrightarrow> parentId n = Some p \<Longrightarrow> lies_in nodes i p \<Longrightarrow> lies_in nodes i c"

inductive_cases lies_inE: "lies_in nodes i c"

lemma stable_bookmark:
  "stable_tree pa nodes \<Longrightarrow> bookmark pa i s = ((case nodes i of None \<Rightarrow> Inl (not_found i) | Some n \<Rightarrow> Inr n), s)"
  by (cases s) (simp add: stable_tree_def bookmark_def eff_defs call_def split: option.split)

lemma stable_climb:
  assumes "stable_tree pa nodes" and "i \<noteq> BOOKMARK_ROOT_ID"
  shows "\<exists>r. climb (bookmark pa) i (Some c) s = Some (r, s) \<and> (lies_in nodes i c \<longrightarrow> (\<exists>e. r = Inl e))"
proof -
  from assms(1) obtain depth where d: "\<And>i n p. nodes i = Some n \<Longrightarrow> parentId n = Some p \<Longrightarrow> depth p < (depth i :: nat)"
    unfolding stable_tree_def by blast
  show ?thesis
  proof (induction "depth c" arbitrary: c rule: less_induct)
    case less
    note step = climb.simps [of "bookmark pa" i "Some c" s]
    consider "c = BOOKMARK_ROOT_ID" | "c = i" | (look) "c \<noteq> BOOKMARK_ROOT_ID" "c \<noteq> i" by blast
    then show ?case
    proof cases
      case 1
      with assms have "\<not> lies_in nodes i c" by (auto elim: lies_inE simp: stable_tree_def)
      with 1 step show ?thesis by simp
    next
      case 2
      with step assms(2) show ?thesis by simp
    next
      case look
      show ?thesis
      proof (cases "nodes c")
        case None
        with look step stable_bookmark [OF assms(1)] show ?thesis by simp
      next
        case (Some n)
        with look step stable_bookmark [OF assms(1)]
        have c: "climb (bookmark pa) i (Some c) s = climb (bookmark pa) i (parentId n) s" by simp
        show ?thesis
        proof (cases "parentId n")
          case None
          have "\<not> lies_in nodes i c" using look(2) Some None by (auto elim: lies_inE)
          with c None climb.simps [of "bookmark pa" i None s] show ?thesis by simp
        next
          case p: (Some p)
          have "lies_in nodes i c \<longrightarrow> lies_in nodes i p" using look(2) Some p by (auto elim: lies_inE)
          with c p less [OF d [OF Some p]] show ?thesis by auto
        qed
      qed
    qed
  qed
qed

lemma stable_checks:
  assumes "stable_tree pa nodes"
  shows "\<exists>r. move_checks pa i parent s = Some (r, s) \<and> (lies_in nodes i parent \<longrightarrow> (\<exists>e. r = Inl e))"
proof (cases "seq (mutableBookmark pa i) (destinationFolder pa parent) s")
  case (Pair r t)
  have t: "t = s" using Pair
    by (auto simp: seq_def bnd_def mutableBookmark_def destinationFolder_def stable_bookmark [OF assms] throw_def ret_def
        split: option.splits if_splits prod.splits sum.splits)
  show ?thesis
  proof (cases r)
    case (Inr folder)
    with Pair have "i \<noteq> BOOKMARK_ROOT_ID" using assms
      by (auto simp: seq_def bnd_def mutableBookmark_def stable_bookmark [OF assms] throw_def ret_def stable_tree_def
          split: option.splits if_splits)
    from stable_climb [OF assms this] Pair Inr t show ?thesis by (simp add: move_checks_def)
  qed (use Pair t in \<open>simp add: move_checks_def\<close>)
qed

lemma moved_checks: "move_checks (pa\<lparr>bookmarks_move := f\<rparr>) = move_checks pa"
proof -
  have b: "bookmark (pa\<lparr>bookmarks_move := f\<rparr>) = bookmark pa" by (intro ext) (simp add: bookmark_def)
  then have "mutableBookmark (pa\<lparr>bookmarks_move := f\<rparr>) = mutableBookmark pa"
    "destinationFolder (pa\<lparr>bookmarks_move := f\<rparr>) = destinationFolder pa"
    by (auto intro!: ext simp: mutableBookmark_def destinationFolder_def)
  with b show ?thesis by (intro ext) (simp only: move_checks_def)
qed

section \<open>Reopening a session\<close>

lemma open_tabs_length:
  "open_tabs pa key us opened s = (Inr opened', t) \<Longrightarrow> length opened' = length opened + length us"
  by (induction us arbitrary: opened s) (auto simp: ret_def eff_Inr)

lemma open_tabs_cong:
  assumes "\<And>u. page_url u \<Longrightarrow> f key u = open_background pa key u"
  shows "list_all page_url us \<Longrightarrow> open_tabs (pa\<lparr>open_background := f\<rparr>) key us opened = open_tabs pa key us opened"
  by (induction us arbitrary: opened) (simp_all add: assms)

lemma open_tabs_partial:
  "open_tabs pa key us opened s = (Inl e, t) \<Longrightarrow>
     (opened \<noteq> [] \<longrightarrow> jget (err_fields e) ''outcome'' = Str ''unknown'')"
proof (induction us arbitrary: opened s)
  case (Cons u us)
  then show ?case
    by (auto simp: bnd_def try_catch_def throw_def unknown_outcome_def jget_def split: prod.splits sum.splits js_error.splits if_splits)
qed (simp add: ret_def)

end
