(* ===== verification/ProfileProperties.thy ===== *)
theory ProfileProperties
  imports ProfileFacts CommitProperties
begin

text \<open>
  The properties of \<open>browser_profile\<close>, on a profile with one folder that holds one bookmark.
\<close>

definition demo_folder :: bookmark_node where
  "demo_folder = BookmarkNode ''10'' (Some ''1'') (Some 0) ''f'' None None False None"

definition demo_bookmark :: bookmark_node where
  "demo_bookmark = BookmarkNode ''11'' (Some ''10'') (Some 0) ''b'' (Some ''https://a/'') None False None"

definition demo_nodes :: "string \<Rightarrow> bookmark_node option" where
  "demo_nodes = map_of [(''1'', BookmarkNode ''1'' (Some ''0'') (Some 0) ''bar'' None None False None),
     (''10'', demo_folder), (''11'', demo_bookmark)]"

definition demo_closed :: browser_session where
  "demo_closed = \<lparr>lastModified = 1, session_tab_of = None, session_window_of = Some \<lparr>swin_session = Some ''s'',
     swin_tabs = Some [\<lparr>stab_session = None, stab_title = None, stab_url = Some ''https://a/''\<rparr>,
       \<lparr>stab_session = None, stab_title = None, stab_url = Some ''file:///a''\<rparr>]\<rparr>\<rparr>"

definition removal_value :: js where
  "removal_value = canonicalize (Obj
     [(''native_token'', Str demo_token), (''task_id'', Str ''t''), (''operation'', Str ''bookmarks_remove''),
      (''id'', Str ''11''), (''parent_id'', Str ''10''), (''title'', Str ''b''), (''url'', Str ''https://a/'')])"

definition demo_profile :: "unit profile_api" where
  "demo_profile = \<lparr>
     bookmarks_get = (\<lambda>i w. (case demo_nodes i of None \<Rightarrow> Inl (not_found i) | Some n \<Rightarrow> Inr [n], w)),
     bookmarks_subtree = (\<lambda>i w. (Inr [], w)), bookmarks_children = (\<lambda>i w. (Inr [], w)),
     bookmarks_search = (\<lambda>q w. (Inr [], w)), bookmarks_update = (\<lambda>i c w. (Inr (), w)),
     bookmarks_create = (\<lambda>p t u w. (Inr demo_bookmark, w)), bookmarks_move = (\<lambda>i p w. (Inr demo_bookmark, w)),
     bookmarks_remove = (\<lambda>i w. (Inr (), w)), history_search = (\<lambda>t a m e w. (Inr [], w)),
     sessions_closed = (\<lambda>k w. (Inr [demo_closed], w)), sessions_devices = (\<lambda>k w. (Inr [], w)),
     downloads_search = (\<lambda>q w. (Inr [], w)), downloads_get = (\<lambda>i w. (Inr [], w)),
     downloads_cancel = (\<lambda>i w. (Inr (), w)), downloads_pause = (\<lambda>i w. (Inr (), w)), downloads_resume = (\<lambda>i w. (Inr (), w)),
     open_background = (\<lambda>key u. ret (4, 1)), token_bytes = (\<lambda>n w. (replicate n 0, w)),
     profile_digest = (\<lambda>v. if v = removal_value then demo_hash else ''b''), parse_date = (\<lambda>s. None)\<rparr>"

definition demo_removal :: staged_commit where
  "demo_removal = \<lparr>native_token = demo_token, staged_task = ''t'', staged_tab = 0, staged_revision = 0,
     effect = ''Remove a bookmark'', fingerprint = demo_hash, expires_at_ms = 5000, review_handle = None, approved = None,
     staged_action = [(''operation'', Str ''bookmarks_remove''), (''bookmark_id'', Str ''11'')],
     preview = [(''title'', Str ''b'')], dialog = None\<rparr>"

definition removal_state :: ext_state where
  "removal_state = demo_state\<lparr>stagedCommits := [(demo_token, demo_removal)]\<rparr>"

lemma demo_stable: "stable_tree demo_profile demo_nodes"
proof -
  have "\<exists>depth. \<forall>i n p. demo_nodes i = Some n \<longrightarrow> parentId n = Some p \<longrightarrow> depth p < (depth i :: nat)"
    by (rule exI [of _ "\<lambda>i. if i = ''11'' then 3 else if i = ''10'' then 2 else if i = ''1'' then 1 else 0"])
      (auto simp: demo_nodes_def demo_folder_def demo_bookmark_def split: if_splits)
  then show ?thesis
    by (auto simp: stable_tree_def demo_profile_def demo_nodes_def demo_folder_def demo_bookmark_def BOOKMARK_ROOT_ID_def
        split: if_splits)
qed

section \<open>Removing bookmarks\<close>

text \<open>C39: A bookmark is removed only as it was staged. When the preparation of a removal succeeds, the token names
a removal stage of this task, and the bookmark read now has the id, parent, title and URL of the bookmark that was
staged, for a hash that binds; the removal is of the staged id, and the token is used up.\<close>

theorem removal_commits_unchanged:
  assumes "ready s" and "prepare_removal env pa key token s = (Inr i, t)"
    and "cached s = Some st" and "map_of (stagedCommits st) token = Some c"
    and "fingerprint c = removalFingerprint pa token key staged_node" and "binding (profile_digest pa) (fingerprint c)"
  shows "staged_task c = key \<and> isProfileStage c \<and> jget (staged_action c) ''bookmark_id'' = Str i \<and>
    (\<exists>n u v. bookmark pa i u = (Inr n, v) \<and> same_bookmark n staged_node) \<and>
    prepare_removal env pa key token t = (Inl used_up, t)"
proof -
  from prepare_removal_Inr(1) [OF assms(1,2)] assms(3,4) obtain u n v where r: "staged_task c = key" "isProfileStage c"
      "jget (staged_action c) ''bookmark_id'' = Str i" "bookmark pa i u = (Inr n, v)"
      "removalFingerprint pa token key n = fingerprint c" by auto
  from removal_fingerprint_eq [OF assms(6) r(5)] assms(5) have "same_bookmark n staged_node" by simp
  with r prepare_removal_Inr(2) [OF assms(1,2)] prepare_removal_used show ?thesis by blast
qed

lemma demo_fingerprint: "removalFingerprint demo_profile demo_token ''t'' demo_bookmark = demo_hash"
  by (simp add: removalFingerprint_def demo_profile_def removal_value_def demo_bookmark_def str_or_null_def)

lemma demo_binds: "binding (profile_digest demo_profile) demo_hash"
  by (auto simp: binding_def demo_profile_def demo_hash_def)

lemma demo_discarded: "fst (discard_stage demo_browser demo_token (demo_sys removal_state)) = Inr ()"
  unfolding removal_state_def demo_removal_def by code_simp

lemma demo_removal_prepared:
  "fst (prepare_removal demo_browser demo_profile ''t'' demo_token (demo_sys removal_state)) = Inr ''11''"
proof -
  have b: "bookmark demo_profile ''11'' s = (Inr demo_bookmark, s)" for s
    using stable_bookmark [OF demo_stable] by (simp add: demo_nodes_def)
  have c: "cached (demo_sys removal_state) = Some removal_state" by (simp add: demo_sys_def)
  have m: "map_of (stagedCommits removal_state) demo_token = Some demo_removal" by (simp add: removal_state_def)
  have n: "now demo_browser s = (Inr 1000, s)" for s
    by (simp add: now_def ask_def demo_env_def demo_storage_def env.defs)
  have p: "isProfileStage demo_removal"
    by (simp add: isProfileStage_def demo_removal_def PROFILE_STAGE_TAB_ID_def PROFILE_BOOKMARK_REMOVE_EFFECT_def)
  obtain t where d: "discard_stage demo_browser demo_token (demo_sys removal_state) = (Inr (), t)"
    using result_pair [OF demo_discarded] by blast
  have r: "jget (staged_action demo_removal) ''operation'' = Str ''bookmarks_remove''"
      "jget (staged_action demo_removal) ''bookmark_id'' = Str ''11''" "staged_task demo_removal = ''t''"
      "expires_at_ms demo_removal = 5000" "fingerprint demo_removal = demo_hash"
    by (simp_all add: demo_removal_def jget_def)
  show ?thesis
    by (simp add: prepare_removal_def check_removal_def Let_def bnd_def readState_cached [OF c] m n p r b quiet_def try_catch_def
        ret_def seq_def d demo_fingerprint)
qed

lemma ready_removal: "ready (demo_sys removal_state)"
  using ready_demo
  by (simp add: ready_def demo_sys_def ext_ok_def state_wf_def keys_ok_def removal_state_def staged_wf_def demo_removal_def
      demo_token_def demo_hash_def)

theorem removal_commits_unchanged_witness:
  "\<exists>n u v. bookmark demo_profile ''11'' u = (Inr n, v) \<and> same_bookmark n demo_bookmark"
proof -
  have "cached (demo_sys removal_state) = Some removal_state" "map_of (stagedCommits removal_state) demo_token = Some demo_removal"
    "fingerprint demo_removal = demo_hash"
    by (simp_all add: demo_sys_def removal_state_def) (simp add: demo_removal_def)
  with removal_commits_unchanged [OF ready_removal result_pair [OF demo_removal_prepared]] demo_fingerprint demo_binds
  show ?thesis by metis
qed

text \<open>No operation of \<open>browser_profile\<close> removes a bookmark, whatever the setting for reviews: with any other
\<open>chrome.bookmarks.remove\<close> every operation runs the same. And the operations that read use no call that changes
something: with any other such calls they run the same.\<close>

lemma profile_writes_named:
  "run_profile env (pa\<lparr>bookmarks_remove := f\<rparr>) key params = run_profile env pa key params \<and>
   (str_param params ''operation'' \<in> set PROFILE_READS \<longrightarrow>
     run_profile env (rewritten pb pa) key params = run_profile env pa key params)"
  by (intro conjI ext impI) (simp_all add: run_profile_def followed_def execute_unremoved reads_rewritten)

section \<open>Moving bookmarks\<close>

text \<open>C40: A move ends, and no folder moves into itself or below itself. In a bookmark tree that stays as it is while
the move is checked, the move gives a result, and when the destination is the moved node or lies below it, Chrome is not
asked to move: with any other \<open>chrome.bookmarks.move\<close> the result is the same.\<close>

theorem move_ends_safely:
  assumes "stable_tree pa nodes"
  shows "bookmarksMove pa params s \<noteq> None \<and>
    (lies_in nodes (str_param params ''id'') (str_param params ''parent_id'') \<longrightarrow>
      bookmarksMove (pa\<lparr>bookmarks_move := f\<rparr>) params s = bookmarksMove pa params s)"
proof -
  from stable_checks [OF assms] obtain r where
    r: "move_checks pa (str_param params ''id'') (str_param params ''parent_id'') s = Some (r, s)"
      "lies_in nodes (str_param params ''id'') (str_param params ''parent_id'') \<longrightarrow> (\<exists>e. r = Inl e)" by blast
  then show ?thesis by (auto simp: bookmarksMove_def followed_def moved_checks Let_def)
qed

theorem move_ends_safely_witness:
  "bookmarksMove (demo_profile\<lparr>bookmarks_move := (\<lambda>i p w. (Inl (new_error ''never''), w))\<rparr>)
     [(''id'', Str ''10''), (''parent_id'', Str ''11'')] (demo_sys demo_state) =
   bookmarksMove demo_profile [(''id'', Str ''10''), (''parent_id'', Str ''11'')] (demo_sys demo_state)"
proof -
  have "lies_in demo_nodes ''10'' ''11''"
    by (rule lies_in_child [of _ _ demo_bookmark, OF _ _ lies_in_self]) (simp_all add: demo_nodes_def demo_bookmark_def)
  with move_ends_safely [OF demo_stable, of "[(''id'', Str ''10''), (''parent_id'', Str ''11'')]"]
  show ?thesis by (simp add: str_param_def jget_def)
qed

section \<open>Views and sessions\<close>

text \<open>The view of a bookmark folder is the whole tree to the requested depth when that has at most 500 nodes;
otherwise it is cut at exactly 500 nodes and says so.\<close>

lemma tree_view_exact:
  "case visit n depth (0, False) of (v, count, cropped) \<Rightarrow>
     count = min 500 (tree_size n depth) \<and> cropped = (500 < tree_size n depth) \<and>
     (v = full_view n depth \<or> cropped)"
  using visit_limit(1) [of "(0, False)" n depth] by (auto simp: TREE_NODE_LIMIT_def Let_def split: prod.splits)

text \<open>Reopening a closed window opens only http and https pages, at most 25: any other way to open other URLs gives
the same run, and a result lists at most 25 tabs.\<close>

lemma restore_only_pages:
  assumes "\<And>u. page_url u \<Longrightarrow> f key u = open_background pa key u"
  shows "sessionsRestore (pa\<lparr>open_background := f\<rparr>) key i = sessionsRestore pa key i \<and>
    (\<forall>s r t. sessionsRestore pa key i s = (Inr r, t) \<longrightarrow> length (the_arr (jget r ''opened'')) \<le> 25)"
proof (intro conjI allI impI)
  have "list_all page_url (take n (filter page_url urls))" for n urls
    by (auto simp: list_all_iff dest: in_set_takeD)
  then show "sessionsRestore (pa\<lparr>open_background := f\<rparr>) key i = sessionsRestore pa key i"
    by (simp add: sessionsRestore_def open_tabs_cong [of f key pa, OF assms] cong: option.case_cong)
  show "length (the_arr (jget r ''opened'')) \<le> 25" if "sessionsRestore pa key i s = (Inr r, t)" for s r t
    using that by (auto simp: sessionsRestore_def eff_Inr ret_def jget_def RESTORE_TAB_LIMIT_def dest!: open_tabs_length
        split: option.splits prod.splits)
qed

end
