(* ===== verification/Downloads.thy ===== *)
theory Downloads
  imports CommitReview
begin

text \<open>
  The attribution of downloads in \<open>packages/extension/src/browser.ts\<close>. An action that expects a download arms
  a cursor for its task and tab; the debugger events of the tab start and end downloads; a wait on the cursor
  gives the download that belongs to it. A tracked download holds a reference to its cursor object, so the
  objects live in a store, \<open>cursor_objects\<close>, and the map from tokens holds references too. One \<open>time\<close> stands
  for the clock during an operation.
\<close>

datatype cursor_state = CArmed | CBound | CCompleted | CCanceled | CAmbiguous | CDetached
datatype download_status = DInProgress | DCompleted | DCanceled

record download_metadata =
  meta_guid :: string
  meta_url :: "string option"
  meta_filename :: "string option"

record download_cursor =
  cur_token :: string
  cur_task :: string
  cur_tab :: int
  armed_at :: int
  cur_expires :: int
  cur_state :: cursor_state
  cur_download :: "download_metadata option"

record tracked_download =
  started_at :: int
  dl_status :: download_status
  completed_at :: "int option"
  dl_url :: "string option"
  dl_filename :: "string option"
  dl_cursor :: "nat option"

record downloads =
  cursor_objects :: "download_cursor list"
  cursor_table :: "nat obj"
  session_downloads :: "(int \<times> tracked_download obj) list"

definition DOWNLOAD_CURSOR_RETENTION_MS :: int where "DOWNLOAD_CURSOR_RETENTION_MS = 120000"
definition MAX_DOWNLOAD_CURSORS :: nat where "MAX_DOWNLOAD_CURSORS = 512"
definition MAX_DOWNLOAD_CURSORS_PER_TAB :: nat where "MAX_DOWNLOAD_CURSORS_PER_TAB = 32"

definition no_downloads :: downloads where
  "no_downloads = \<lparr>cursor_objects = [], cursor_table = [], session_downloads = []\<rparr>"

definition cursor :: "downloads \<Rightarrow> nat \<Rightarrow> download_cursor" where
  "cursor st r = cursor_objects st ! r"

text \<open>The cursors of the map for which \<open>P\<close> holds, and a change of all of them.\<close>

definition live_refs :: "downloads \<Rightarrow> (download_cursor \<Rightarrow> bool) \<Rightarrow> nat list" where
  "live_refs st P = filter (\<lambda>r. P (cursor st r)) (map snd (cursor_table st))"

definition change_cursors :: "nat list \<Rightarrow> (download_cursor \<Rightarrow> download_cursor) \<Rightarrow> downloads \<Rightarrow> downloads" where
  "change_cursors rs f st = st\<lparr>cursor_objects :=
     map (\<lambda>r. if r \<in> set rs then f (cursor st r) else cursor st r) [0..<length (cursor_objects st)]\<rparr>"

definition pruneDownloadState :: "int \<Rightarrow> downloads \<Rightarrow> downloads" where
  "pruneDownloadState time st =
     st\<lparr>cursor_table := filter (\<lambda>(k, r). \<not> cur_expires (cursor st r) < time) (cursor_table st),
        session_downloads := map (\<lambda>(tab, ds). (tab,
          filter (\<lambda>(g, d). \<not> started_at d + DOWNLOAD_CURSOR_RETENTION_MS < time) ds)) (session_downloads st)\<rparr>"

definition invalidatePendingDownloadAttribution :: "int \<Rightarrow> int \<Rightarrow> downloads \<Rightarrow> downloads" where
  "invalidatePendingDownloadAttribution tab time st =
     change_cursors (live_refs st (\<lambda>c. cur_tab c = tab \<and> cur_state c = CArmed))
       (\<lambda>c. c\<lparr>cur_state := CAmbiguous, cur_expires := time + DOWNLOAD_CURSOR_RETENTION_MS\<rparr>) st"

definition pending_states :: "cursor_state list" where
  "pending_states = [CArmed, CBound]"

definition new_cursor :: "string \<Rightarrow> int \<Rightarrow> string \<Rightarrow> int \<Rightarrow> download_cursor" where
  "new_cursor key tab token time = \<lparr>cur_token = token, cur_task = key, cur_tab = tab, armed_at = time,
     cur_expires = time + DOWNLOAD_CURSOR_RETENTION_MS, cur_state = CArmed, cur_download = None\<rparr>"

text \<open>\<open>armDownload\<close> after the debugger is attached; \<open>token\<close> is the random token.\<close>

definition armDownload :: "string \<Rightarrow> int \<Rightarrow> string \<Rightarrow> int \<Rightarrow> downloads \<Rightarrow> (js_error + string) \<times> downloads" where
  "armDownload key tab token time st =
     (let st' = invalidatePendingDownloadAttribution tab time (pruneDownloadState time st);
          pending = live_refs st' (\<lambda>c. cur_tab c = tab \<and> cur_state c \<in> set pending_states)
      in if MAX_DOWNLOAD_CURSORS \<le> length (cursor_table st') \<or> MAX_DOWNLOAD_CURSORS_PER_TAB \<le> length pending
         then (Inl (coded_error ''download_attribution_limit'' ''Too many download actions are awaiting attribution''), st')
         else (Inr token, st'\<lparr>cursor_objects := cursor_objects st' @ [new_cursor key tab token time],
           cursor_table := AList.update token (length (cursor_objects st')) (cursor_table st')\<rparr>))"

definition js_str_option :: "js \<Rightarrow> string option" where
  "js_str_option v = (if is_str v then Some (the_str v) else None)"

definition put_download :: "int \<Rightarrow> string \<Rightarrow> tracked_download \<Rightarrow> downloads \<Rightarrow> downloads" where
  "put_download tab guid d st = (case map_of (session_downloads st) tab of
      None \<Rightarrow> st
    | Some ds \<Rightarrow> st\<lparr>session_downloads := AList.update tab (AList.update guid d ds) (session_downloads st)\<rparr>)"

text \<open>\<open>Page.downloadWillBegin\<close> on a tab with a session, and the cursor it is attributed to.\<close>

definition begin_candidates :: "int \<Rightarrow> int \<Rightarrow> downloads \<Rightarrow> nat list" where
  "begin_candidates tab time st = live_refs st (\<lambda>c. cur_tab c = tab \<and> cur_state c = CArmed \<and> time \<le> cur_expires c)"

definition has_tombstone :: "int \<Rightarrow> int \<Rightarrow> downloads \<Rightarrow> bool" where
  "has_tombstone tab time st \<longleftrightarrow> live_refs st (\<lambda>c. cur_tab c = tab \<and> cur_state c = CAmbiguous \<and> time \<le> cur_expires c) \<noteq> []"

definition begin_cursor :: "int \<Rightarrow> int \<Rightarrow> downloads \<Rightarrow> nat option" where
  "begin_cursor tab time st =
     (if \<not> has_tombstone tab time st \<and> length (begin_candidates tab time st) = 1
      then Some (hd (begin_candidates tab time st)) else None)"

definition trackDownloadWillBegin :: "int \<Rightarrow> js obj \<Rightarrow> int \<Rightarrow> downloads \<Rightarrow> downloads" where
  "trackDownloadWillBegin tab params time st0 =
     (let st = pruneDownloadState time st0; candidates = begin_candidates tab time st;
          bound = begin_cursor tab time st;
          st' = (if has_tombstone tab time st \<or> 1 < length candidates
                 then change_cursors candidates (\<lambda>c. c\<lparr>cur_state := CAmbiguous\<rparr>) st else st)
      in put_download tab (the_str (jget params ''guid''))
           \<lparr>started_at = time, dl_status = DInProgress, completed_at = None, dl_url = js_str_option (jget params ''url''),
            dl_filename = js_str_option (jget params ''suggestedFilename''), dl_cursor = bound\<rparr> st')"

definition finished_states :: "string \<Rightarrow> (download_status \<times> cursor_state) option" where
  "finished_states progress = (if progress = ''completed'' then Some (DCompleted, CCompleted)
     else if progress = ''canceled'' then Some (DCanceled, CCanceled) else None)"

definition finish_cursor :: "string \<Rightarrow> cursor_state \<Rightarrow> tracked_download \<Rightarrow> int \<Rightarrow> download_cursor \<Rightarrow> download_cursor" where
  "finish_cursor guid ending d time c = c\<lparr>cur_state := ending, cur_expires := time + DOWNLOAD_CURSOR_RETENTION_MS,
     cur_download := (if ending = CCompleted
       then Some \<lparr>meta_guid = guid, meta_url = dl_url d, meta_filename = dl_filename d\<rparr> else cur_download c)\<rparr>"

definition trackDownloadProgress :: "int \<Rightarrow> string \<Rightarrow> js \<Rightarrow> int \<Rightarrow> downloads \<Rightarrow> downloads" where
  "trackDownloadProgress tab guid progress time st =
     (case (case map_of (session_downloads st) tab of None \<Rightarrow> None | Some ds \<Rightarrow> map_of ds guid) of
        None \<Rightarrow> st
      | Some d \<Rightarrow> (case if is_str progress then finished_states (the_str progress) else None of
          None \<Rightarrow> st
        | Some (outcome, ending) \<Rightarrow>
            (let st' = put_download tab guid (d\<lparr>dl_status := outcome, completed_at := Some time\<rparr>) st
             in case dl_cursor d of
                  None \<Rightarrow> st'
                | Some r \<Rightarrow> change_cursors [r] (finish_cursor guid ending d time) st')))"

definition invalidateDownloadTracking :: "int \<Rightarrow> int \<Rightarrow> downloads \<Rightarrow> downloads" where
  "invalidateDownloadTracking tab time st =
     change_cursors (live_refs st (\<lambda>c. cur_tab c = tab \<and> cur_state c \<in> set pending_states))
       (\<lambda>c. c\<lparr>cur_state := CDetached, cur_expires := time + DOWNLOAD_CURSOR_RETENTION_MS\<rparr>) st"

section \<open>Waiting for a download\<close>

definition invalid_cursor :: "string \<Rightarrow> js_error" where
  "invalid_cursor = coded_error ''invalid_download_cursor''"

definition unknown_error :: "string \<Rightarrow> string \<Rightarrow> js_error" where
  "unknown_error code message = JsError PlainError message [(''code'', Str code), (''outcome'', Str ''unknown'')]"

text \<open>\<open>Inr None\<close> is the answer \<open>undefined\<close>.\<close>

definition cursor_answer :: "string option \<Rightarrow> int \<Rightarrow> string \<Rightarrow> downloads \<Rightarrow> js_error + download_metadata option" where
  "cursor_answer key tab token st = (case key of
      None \<Rightarrow> Inl (invalid_cursor ''Download cursors require a task-bound browser wait'')
    | Some k \<Rightarrow> (case map_of (cursor_table st) token of
        None \<Rightarrow> Inl (invalid_cursor ''Download cursor is invalid or belongs to another task'')
      | Some r \<Rightarrow>
          (let c = cursor st r in
           if cur_task c \<noteq> k \<or> cur_tab c \<noteq> tab
           then Inl (invalid_cursor ''Download cursor is invalid or belongs to another task'')
           else if cur_state c = CCompleted \<and> cur_download c \<noteq> None then Inr (cur_download c)
           else if cur_state c = CCanceled then Inl (unknown_error ''download_canceled'' ''The correlated download was canceled'')
           else if cur_state c = CAmbiguous \<or> cur_state c = CDetached
           then Inl (unknown_error ''download_attribution_lost'' ''Download attribution was lost before completion'')
           else Inr None)))"

definition downloadCursorMatch ::
  "string option \<Rightarrow> int \<Rightarrow> js obj \<Rightarrow> int \<Rightarrow> downloads \<Rightarrow> (js_error + download_metadata option) \<times> downloads" where
  "downloadCursorMatch key tab condition time st =
     (if \<not> is_str (jget condition ''after'') then (Inr None, st)
      else let st' = pruneDownloadState time st
           in (cursor_answer key tab (the_str (jget condition ''after'')) st', st'))"

text \<open>
  The download condition of a wait: the answer of the cursor, else the first download of the session that
  completed since the wait began. \<open>attached\<close> says that the session is still the one of the wait.
\<close>

definition completed_since :: "int \<Rightarrow> tracked_download \<Rightarrow> bool" where
  "completed_since begun d \<longleftrightarrow> dl_status d = DCompleted \<and> (case completed_at d of None \<Rightarrow> False | Some t \<Rightarrow> begun \<le> t)"

definition download_matched ::
  "string option \<Rightarrow> int \<Rightarrow> js obj \<Rightarrow> int \<Rightarrow> bool \<Rightarrow> int \<Rightarrow> downloads \<Rightarrow> (js_error + download_metadata option) \<times> downloads" where
  "download_matched key tab condition begun attached time st =
     (case downloadCursorMatch key tab condition time st of
        (Inl e, st') \<Rightarrow> (Inl e, st')
      | (Inr (Some m), st') \<Rightarrow> (Inr (Some m), st')
      | (Inr None, st') \<Rightarrow>
          (if \<not> attached then (Inr None, st')
           else let st'' = pruneDownloadState time st' in
             (case map_of (session_downloads st'') tab of
                None \<Rightarrow> (Inr None, st'')
              | Some ds \<Rightarrow> (Inr (map_option (\<lambda>(g, d). \<lparr>meta_guid = g, meta_url = dl_url d, meta_filename = dl_filename d\<rparr>)
                  (find (\<lambda>(g, d). completed_since begun d) ds)), st''))))"

text \<open>The error of a wait for a download that timed out.\<close>

definition download_timeout :: "int \<Rightarrow> js obj \<Rightarrow> downloads \<Rightarrow> js_error" where
  "download_timeout tab condition st =
     (if is_str (jget condition ''after'') \<and>
         (case map_of (cursor_table st) (the_str (jget condition ''after'')) of
            None \<Rightarrow> False | Some r \<Rightarrow> cur_state (cursor st r) = CArmed) \<and>
         (case map_of (session_downloads st) tab of None \<Rightarrow> False | Some ds \<Rightarrow> ds \<noteq> [])
      then unknown_error ''multiple_download_throttle''
        ''Chrome blocked the download as an automatic multiple download; it never began, so no lifecycle events exist. Allow automatic downloads for this site in Chrome settings, navigate the tab again, or expect one download per page load''
      else unknown_error ''wait_timeout'' (''Timed out waiting for '' @ kind_of condition))"

section \<open>Runs\<close>

text \<open>What happened to cursors and downloads, the newest event first.\<close>

datatype download_event =
    Armed nat string int string
  | Began int string "nat option"
  | Ended int string cursor_state

inductive download_run :: "download_event list \<Rightarrow> downloads \<Rightarrow> bool" where
  dr_start: "download_run [] no_downloads"
| dr_armed: "download_run es st \<Longrightarrow> armDownload key tab token time st = (Inr x, st') \<Longrightarrow>
    download_run (Armed (length (cursor_objects st)) key tab token # es) st'"
| dr_refused: "download_run es st \<Longrightarrow> armDownload key tab token time st = (Inl e, st') \<Longrightarrow> download_run es st'"
| dr_began: "download_run es st \<Longrightarrow> map_of (session_downloads st) tab \<noteq> None \<Longrightarrow>
    download_run (Began tab (the_str (jget params ''guid'')) (begin_cursor tab time (pruneDownloadState time st)) # es)
      (trackDownloadWillBegin tab params time st)"
| dr_ended: "download_run es st \<Longrightarrow> is_str progress \<Longrightarrow> finished_states (the_str progress) = Some (outcome, ending) \<Longrightarrow>
    download_run (Ended tab guid ending # es) (trackDownloadProgress tab guid progress time st)"
| dr_pending: "download_run es st \<Longrightarrow> download_run es (invalidatePendingDownloadAttribution tab time st)"
| dr_detached: "download_run es st \<Longrightarrow> download_run es (invalidateDownloadTracking tab time st)"
| dr_pruned: "download_run es st \<Longrightarrow> download_run es (pruneDownloadState time st)"
| dr_session: "download_run es st \<Longrightarrow> download_run es (st\<lparr>session_downloads := AList.update tab [] (session_downloads st)\<rparr>)"
| dr_closed: "download_run es st \<Longrightarrow> download_run es (st\<lparr>session_downloads := AList.delete tab (session_downloads st)\<rparr>)"

end
