(* ===== verification/DownloadsFacts.thy ===== *)
theory DownloadsFacts
  imports Downloads
begin

text \<open>
  Facts about the attribution of downloads: a cursor that reports a download was the latest armed on its tab
  when that download began there, and the download completed afterwards.
\<close>

section \<open>Changing cursors\<close>

lemma change_cursors_parts [simp]:
  "length (cursor_objects (change_cursors rs f st)) = length (cursor_objects st)"
  "cursor_table (change_cursors rs f st) = cursor_table st"
  "session_downloads (change_cursors rs f st) = session_downloads st"
  by (simp_all add: change_cursors_def)

lemma cursor_change [simp]:
  "r < length (cursor_objects st) \<Longrightarrow>
     cursor (change_cursors rs f st) r = (if r \<in> set rs then f (cursor st r) else cursor st r)"
  by (simp add: change_cursors_def cursor_def)

lemma cursor_other [simp]:
  "cursor (st\<lparr>cursor_table := t\<rparr>) = cursor st" "cursor (st\<lparr>session_downloads := d\<rparr>) = cursor st"
  by (simp_all add: cursor_def fun_eq_iff)

lemma prune_parts [simp]:
  "cursor_objects (pruneDownloadState time st) = cursor_objects st" "cursor (pruneDownloadState time st) = cursor st"
  by (simp_all add: pruneDownloadState_def cursor_def fun_eq_iff)

lemma live_refsD: "r \<in> set (live_refs st P) \<Longrightarrow> P (cursor st r) \<and> (\<exists>k. (k, r) \<in> set (cursor_table st))"
  by (auto simp: live_refs_def)

lemma live_refsI: "(k, r) \<in> set (cursor_table st) \<Longrightarrow> P (cursor st r) \<Longrightarrow> r \<in> set (live_refs st P)"
  by (force simp: live_refs_def)

section \<open>The invariant\<close>

text \<open>Whom a cursor belongs to never changes.\<close>

definition who :: "download_cursor \<Rightarrow> string \<times> int \<times> string" where
  "who c = (cur_task c, cur_tab c, cur_token c)"

definition latest_arm :: "download_event list \<Rightarrow> nat \<Rightarrow> string \<times> int \<times> string \<Rightarrow> bool" where
  "latest_arm es r w \<longleftrightarrow> (case w of (key, tab, token) \<Rightarrow>
     \<exists>mid early. es = mid @ Armed r key tab token # early \<and> (\<forall>q k t. Armed q k tab t \<notin> set mid))"

definition began :: "download_event list \<Rightarrow> string \<Rightarrow> nat \<Rightarrow> string \<times> int \<times> string \<Rightarrow> bool" where
  "began es g r w \<longleftrightarrow> (\<exists>late es'. es = late @ Began (fst (snd w)) g (Some r) # es' \<and> latest_arm es' r w)"

definition completed_by :: "download_event list \<Rightarrow> string \<Rightarrow> nat \<Rightarrow> string \<times> int \<times> string \<Rightarrow> bool" where
  "completed_by es g r w \<longleftrightarrow> (\<exists>late es'. es = late @ Ended (fst (snd w)) g CCompleted # es' \<and> began es' g r w)"

lemma began_more: "began es g r w \<Longrightarrow> began (e # es) g r w"
  unfolding began_def by (metis append_Cons)

lemma completed_more: "completed_by es g r w \<Longrightarrow> completed_by (e # es) g r w"
  unfolding completed_by_def by (metis append_Cons)

lemma latest_more:
  assumes "latest_arm es r w" and e: "\<And>q k t. e \<noteq> Armed q k (fst (snd w)) t"
  shows "latest_arm (e # es) r w"
proof -
  obtain key tab token where w: "w = (key, tab, token)" by (cases w)
  with assms(1) obtain mid early where "es = mid @ Armed r key tab token # early" "\<forall>q k t. Armed q k tab t \<notin> set mid"
    by (auto simp: latest_arm_def)
  with e w have "e # es = (e # mid) @ Armed r key tab token # early" "\<forall>q k t. Armed q k tab t \<notin> set (e # mid)" by auto
  with w show ?thesis unfolding latest_arm_def by blast
qed

definition attributed :: "download_event list \<Rightarrow> downloads \<Rightarrow> bool" where
  "attributed es st \<longleftrightarrow>
     (\<forall>k r. (k, r) \<in> set (cursor_table st) \<longrightarrow> r < length (cursor_objects st) \<and> cur_token (cursor st r) = k \<and>
        (cur_state (cursor st r) = CArmed \<longrightarrow> latest_arm es r (who (cursor st r)))) \<and>
     (\<forall>tab ds g d r. (tab, ds) \<in> set (session_downloads st) \<longrightarrow> (g, d) \<in> set ds \<longrightarrow> dl_cursor d = Some r \<longrightarrow>
        r < length (cursor_objects st) \<and> cur_tab (cursor st r) = tab \<and> began es g r (who (cursor st r))) \<and>
     (\<forall>r m. r < length (cursor_objects st) \<longrightarrow> cur_download (cursor st r) = Some m \<longrightarrow>
        completed_by es (meta_guid m) r (who (cursor st r)))"

lemma attributedD:
  assumes "attributed es st"
  shows "(k, r) \<in> set (cursor_table st) \<Longrightarrow> r < length (cursor_objects st) \<and> cur_token (cursor st r) = k"
    and "(k, r) \<in> set (cursor_table st) \<Longrightarrow> cur_state (cursor st r) = CArmed \<Longrightarrow> latest_arm es r (who (cursor st r))"
    and "(tab, ds) \<in> set (session_downloads st) \<Longrightarrow> (g, d) \<in> set ds \<Longrightarrow> dl_cursor d = Some r \<Longrightarrow>
        r < length (cursor_objects st) \<and> cur_tab (cursor st r) = tab \<and> began es g r (who (cursor st r))"
    and "r < length (cursor_objects st) \<Longrightarrow> cur_download (cursor st r) = Some m \<Longrightarrow>
        completed_by es (meta_guid m) r (who (cursor st r))"
  using assms unfolding attributed_def by blast+

text \<open>A state with no new cursor, download or armed cursor keeps the invariant.\<close>

definition shrinks :: "downloads \<Rightarrow> downloads \<Rightarrow> bool" where
  "shrinks st st' \<longleftrightarrow> length (cursor_objects st') = length (cursor_objects st) \<and>
     set (cursor_table st') \<subseteq> set (cursor_table st) \<and>
     (\<forall>r < length (cursor_objects st). who (cursor st' r) = who (cursor st r) \<and>
        cur_download (cursor st' r) = cur_download (cursor st r) \<and>
        (cur_state (cursor st' r) = CArmed \<longrightarrow> cur_state (cursor st r) = CArmed)) \<and>
     (\<forall>tab ds g d. (tab, ds) \<in> set (session_downloads st') \<longrightarrow> (g, d) \<in> set ds \<longrightarrow>
        (\<exists>ds'. (tab, ds') \<in> set (session_downloads st) \<and> (g, d) \<in> set ds'))"

lemma who_eq: "who a = who b \<Longrightarrow> cur_tab a = cur_tab b \<and> cur_token a = cur_token b \<and> cur_task a = cur_task b"
  by (simp add: who_def)

lemma shrinks_attributed:
  assumes a: "attributed es st" and s: "shrinks st st'"
  shows "attributed es st'"
proof -
  note d = attributedD [OF a]
  have "r < length (cursor_objects st') \<and> cur_token (cursor st' r) = k \<and>
      (cur_state (cursor st' r) = CArmed \<longrightarrow> latest_arm es r (who (cursor st' r)))"
    if "(k, r) \<in> set (cursor_table st')" for k r
    using s d(1) [of k r] d(2) [of k r] that unfolding shrinks_def by (auto dest: who_eq)
  moreover have "r < length (cursor_objects st') \<and> cur_tab (cursor st' r) = tab \<and> began es g r (who (cursor st' r))"
    if t: "(tab, ds) \<in> set (session_downloads st')" "(g, e) \<in> set ds" "dl_cursor e = Some r" for tab ds g e r
  proof -
    from s t(1,2) obtain ds' where "(tab, ds') \<in> set (session_downloads st)" "(g, e) \<in> set ds'"
      unfolding shrinks_def by blast
    from d(3) [OF this t(3)] s show ?thesis unfolding shrinks_def by (auto dest: who_eq)
  qed
  moreover have "completed_by es (meta_guid m) r (who (cursor st' r))"
    if "r < length (cursor_objects st')" "cur_download (cursor st' r) = Some m" for r m
    using s d(4) [of r m] that unfolding shrinks_def by auto
  ultimately show ?thesis unfolding attributed_def by blast
qed

lemma attributed_more:
  assumes "attributed es st" and "\<And>q k tab t. e \<noteq> Armed q k tab t"
  shows "attributed (e # es) st"
  using assms unfolding attributed_def by (meson began_more completed_more latest_more)

lemma shrinks_change:
  "(\<And>c. who (f c) = who c \<and> cur_download (f c) = cur_download c \<and> cur_state (f c) \<noteq> CArmed) \<Longrightarrow> shrinks st (change_cursors rs f st)"
  by (auto simp: shrinks_def)

lemma who_states [simp]:
  "who (c\<lparr>cur_state := s\<rparr>) = who c" "who (c\<lparr>cur_expires := e\<rparr>) = who c" "who (c\<lparr>cur_download := d\<rparr>) = who c"
  by (simp_all add: who_def)

lemma shrinks_refl: "shrinks st st"
  unfolding shrinks_def by blast

lemma shrinks_steps:
  "shrinks st (pruneDownloadState time st)"
  "shrinks st (invalidatePendingDownloadAttribution tab time st)"
  "shrinks st (invalidateDownloadTracking tab time st)"
  "shrinks st (st\<lparr>session_downloads := AList.update tab [] (session_downloads st)\<rparr>)"
  "shrinks st (st\<lparr>session_downloads := AList.delete tab (session_downloads st)\<rparr>)"
proof -
  show "shrinks st (pruneDownloadState time st)"
    by (auto simp: shrinks_def pruneDownloadState_def cursor_def)
  show "shrinks st (invalidatePendingDownloadAttribution tab time st)"
    unfolding invalidatePendingDownloadAttribution_def by (rule shrinks_change) simp
  show "shrinks st (invalidateDownloadTracking tab time st)"
    unfolding invalidateDownloadTracking_def by (rule shrinks_change) simp
  show "shrinks st (st\<lparr>session_downloads := AList.update tab [] (session_downloads st)\<rparr>)"
    using set_update_subset [of tab "[]" "session_downloads st"] by (fastforce simp: shrinks_def cursor_def)
  show "shrinks st (st\<lparr>session_downloads := AList.delete tab (session_downloads st)\<rparr>)"
    by (auto simp: shrinks_def cursor_def AList.delete_eq)
qed

section \<open>Every run\<close>

lemma begin_cursor_live:
  assumes "begin_cursor tab time st = Some r"
  shows "cur_tab (cursor st r) = tab \<and> cur_state (cursor st r) = CArmed \<and> (\<exists>k. (k, r) \<in> set (cursor_table st))"
proof -
  from assms have "r \<in> set (begin_candidates tab time st)"
    by (auto simp: begin_cursor_def length_Suc_conv split: if_splits)
  from live_refsD [OF this [unfolded begin_candidates_def]] show ?thesis by blast
qed

lemma put_download_other [simp]:
  "cursor (put_download tab g d st) = cursor st" "cursor_table (put_download tab g d st) = cursor_table st"
  "cursor_objects (put_download tab g d st) = cursor_objects st"
  by (simp_all add: put_download_def split: option.split)

lemma put_download_sessions:
  assumes "(tab', ds) \<in> set (session_downloads (put_download tab g d st))" and "(h, e) \<in> set ds"
  shows "(tab' = tab \<and> h = g \<and> e = d) \<or> (\<exists>ds'. (tab', ds') \<in> set (session_downloads st) \<and> (h, e) \<in> set ds')"
proof (cases "map_of (session_downloads st) tab")
  case None
  with assms show ?thesis by (auto simp: put_download_def)
next
  case (Some ds0)
  with assms have "(tab', ds) = (tab, AList.update g d ds0) \<or> (tab', ds) \<in> set (session_downloads st)"
    using set_update_subset [of tab "AList.update g d ds0" "session_downloads st"] by (auto simp: put_download_def)
  with assms(2) map_of_SomeD [OF Some] set_update_subset [of g d ds0] show ?thesis by blast
qed

lemma attributed_put:
  assumes "attributed es st" and "\<And>r. dl_cursor d = Some r \<Longrightarrow>
     r < length (cursor_objects st) \<and> cur_tab (cursor st r) = tab \<and> began es g r (who (cursor st r))"
  shows "attributed es (put_download tab g d st)"
proof -
  note a = attributedD [OF assms(1)]
  have "r < length (cursor_objects st) \<and> cur_tab (cursor st r) = tab' \<and> began es h r (who (cursor st r))"
    if "(tab', ds) \<in> set (session_downloads (put_download tab g d st))" "(h, e) \<in> set ds" "dl_cursor e = Some r" for tab' ds h e r
    using put_download_sessions [OF that(1,2)] that(3) a(3) assms(2) by blast
  with a show ?thesis unfolding attributed_def by simp
qed

lemma attributed_began:
  assumes a: "attributed es st0"
  shows "attributed (Began tab (the_str (jget params ''guid'')) (begin_cursor tab time (pruneDownloadState time st0)) # es)
    (trackDownloadWillBegin tab params time st0)"
proof -
  define st where "st = pruneDownloadState time st0"
  define ev where "ev = Began tab (the_str (jget params ''guid'')) (begin_cursor tab time st)"
  define st' where "st' = (if has_tombstone tab time st \<or> 1 < length (begin_candidates tab time st)
    then change_cursors (begin_candidates tab time st) (\<lambda>c. c\<lparr>cur_state := CAmbiguous\<rparr>) st else st)"
  have st: "attributed es st" unfolding st_def by (rule shrinks_attributed [OF a shrinks_steps(1)])
  have "shrinks st st'"
    unfolding st'_def by (simp add: shrinks_change shrinks_refl)
  then have st': "attributed (ev # es) st'"
    by (intro attributed_more shrinks_attributed [OF st]) (simp_all add: ev_def)
  have "r < length (cursor_objects st') \<and> cur_tab (cursor st' r) = tab \<and>
      began (ev # es) (the_str (jget params ''guid'')) r (who (cursor st' r))"
    if r: "begin_cursor tab time st = Some r" for r
  proof -
    from begin_cursor_live [OF r] obtain k where k: "cur_tab (cursor st r) = tab" "cur_state (cursor st r) = CArmed"
      "(k, r) \<in> set (cursor_table st)" by blast
    note l = attributedD(1) [OF st k(3)] attributedD(2) [OF st k(3,2)]
    have "st' = st" using r by (simp add: st'_def begin_cursor_def split: if_splits)
    moreover have "began (ev # es) (the_str (jget params ''guid'')) r (who (cursor st r))"
      unfolding began_def
      by (rule exI [of _ "[]"], rule exI [of _ es]) (use l(2) k(1) r in \<open>simp add: ev_def who_def\<close>)
    ultimately show ?thesis using l(1) k(1) by simp
  qed
  then have "attributed (ev # es) (put_download tab (the_str (jget params ''guid''))
     \<lparr>started_at = time, dl_status = DInProgress, completed_at = None, dl_url = js_str_option (jget params ''url''),
      dl_filename = js_str_option (jget params ''suggestedFilename''), dl_cursor = begin_cursor tab time st\<rparr> st')"
    by (intro attributed_put [OF st']) simp
  then show ?thesis unfolding trackDownloadWillBegin_def Let_def ev_def st'_def st_def .
qed

lemma attributed_ended:
  assumes a: "attributed es st" and p: "is_str progress" "finished_states (the_str progress) = Some (outcome, ending)"
  shows "attributed (Ended tab g ending # es) (trackDownloadProgress tab g progress time st)"
proof (cases "case map_of (session_downloads st) tab of None \<Rightarrow> None | Some ds \<Rightarrow> map_of ds g")
  case None
  then show ?thesis using attributed_more [OF a, of "Ended tab g ending"] by (simp add: trackDownloadProgress_def)
next
  case (Some d)
  then obtain ds where ds: "(tab, ds) \<in> set (session_downloads st)" "(g, d) \<in> set ds"
    by (auto split: option.splits dest: map_of_SomeD)
  let ?st' = "put_download tab g (d\<lparr>dl_status := outcome, completed_at := Some time\<rparr>) st"
  let ?ev = "Ended tab g ending"
  have e: "attributed es ?st'" by (rule attributed_put [OF a]) (use attributedD(3) [OF a ds] in simp)
  show ?thesis
  proof (cases "dl_cursor d")
    case None
    with Some p attributed_more [OF e, of ?ev] show ?thesis by (simp add: trackDownloadProgress_def Let_def)
  next
    case c: (Some r)
    note r = attributedD(3) [OF a ds c]
    note a' = attributedD [OF attributed_more [OF e, of ?ev]]
    let ?f = "finish_cursor g ending d time"
    have w: "who (?f c) = who c" "cur_tab (?f c) = cur_tab c" "cur_token (?f c) = cur_token c" for c
      by (simp_all add: finish_cursor_def who_def)
    have s: "cur_state (?f c) \<noteq> CArmed" for c
      using p by (auto simp: finish_cursor_def finished_states_def split: if_splits)
    have fin: "completed_by (?ev # es) g r (who (cursor st r))" if "ending = CCompleted"
      unfolding completed_by_def
      by (rule exI [of _ "[]"], rule exI [of _ es]) (use r that in \<open>auto simp: who_def\<close>)
    have "attributed (?ev # es) (change_cursors [r] ?f ?st')"
      unfolding attributed_def
    proof (intro conjI allI impI, goal_cases)
      case (1 k q) then show ?case using a'(1) [of k q] by simp
    next
      case (2 k q) then show ?case using a'(1) [of k q] w by auto
    next
      case (3 k q) then show ?case using a'(1,2) [of k q] w s by (auto split: if_splits)
    next
      case (4 tab' ds' h d' q) then show ?case using a'(3) [of tab' ds' h d' q] by simp
    next
      case (5 tab' ds' h d' q) then show ?case using a'(3) [of tab' ds' h d' q] w by auto
    next
      case (6 tab' ds' h d' q) then show ?case using a'(3) [of tab' ds' h d' q] w by auto
    next
      case (7 q m)
      show ?case
      proof (cases "q = r \<and> ending = CCompleted")
        case True
        with 7 fin w r show ?thesis by (auto simp: finish_cursor_def)
      next
        case False
        with 7 have "cur_download (cursor ?st' q) = Some m" by (auto simp: finish_cursor_def split: if_splits)
        with 7 a'(4) [of q m] w show ?thesis by (auto split: if_splits)
      qed
    qed
    with Some p c show ?thesis by (simp add: trackDownloadProgress_def Let_def)
  qed
qed

lemma attributed_armed:
  assumes a: "attributed es st" and m: "armDownload key tab token time st = (Inr x, st')"
  shows "attributed (Armed (length (cursor_objects st)) key tab token # es) st'"
proof -
  define u where "u = invalidatePendingDownloadAttribution tab time (pruneDownloadState time st)"
  let ?r = "length (cursor_objects st)"
  let ?ev = "Armed ?r key tab token"
  have u: "attributed es u"
    unfolding u_def by (intro shrinks_attributed [OF _ shrinks_steps(2)] shrinks_attributed [OF _ shrinks_steps(1)] a)
  have len: "length (cursor_objects u) = ?r"
    by (simp add: u_def invalidatePendingDownloadAttribution_def)
  have idle: "cur_state (cursor u r) \<noteq> CArmed" if "(k, r) \<in> set (cursor_table u)" "cur_tab (cursor u r) = tab" for k r
  proof
    let ?p = "pruneDownloadState time st"
    let ?rs = "live_refs ?p (\<lambda>c. cur_tab c = tab \<and> cur_state c = CArmed)"
    assume "cur_state (cursor u r) = CArmed"
    moreover have "r < length (cursor_objects ?p)" using attributedD(1) [OF u that(1)] len by simp
    ultimately have "r \<notin> set ?rs" "cur_tab (cursor ?p r) = tab" "cur_state (cursor ?p r) = CArmed"
      using that(2) by (auto simp: u_def invalidatePendingDownloadAttribution_def split: if_splits)
    moreover have "(k, r) \<in> set (cursor_table ?p)" using that(1) by (simp add: u_def invalidatePendingDownloadAttribution_def)
    ultimately show False using live_refsI [of k r ?p "\<lambda>c. cur_tab c = tab \<and> cur_state c = CArmed"] by blast
  qed
  from m have st': "st' = u\<lparr>cursor_objects := cursor_objects u @ [new_cursor key tab token time],
      cursor_table := AList.update token ?r (cursor_table u)\<rparr>"
    using len by (auto simp: armDownload_def Let_def u_def split: if_splits)
  have old: "cursor st' r = cursor u r" if "r < ?r" for r
    using that len by (simp add: st' cursor_def nth_append)
  have new: "cursor st' ?r = new_cursor key tab token time"
    using len by (simp add: st' cursor_def nth_append)
  note d = attributedD [OF u]
  have "r < length (cursor_objects st') \<and> cur_token (cursor st' r) = k \<and>
      (cur_state (cursor st' r) = CArmed \<longrightarrow> latest_arm (?ev # es) r (who (cursor st' r)))"
    if "(k, r) \<in> set (cursor_table st')" for k r
  proof (cases "(k, r) \<in> set (cursor_table u)")
    case True
    with d(1) len have r: "r < ?r" by auto
    have "latest_arm (?ev # es) r (who (cursor u r))" if "cur_state (cursor u r) = CArmed"
    proof (rule latest_more [OF d(2) [OF True that]])
      show "?ev \<noteq> Armed q k' (fst (snd (who (cursor u r)))) t" for q k' t
        using idle [OF True] that by (auto simp: who_def)
    qed
    with r d(1) [OF True] old [OF r] len show ?thesis by (simp add: st')
  next
    case False
    with that set_update_subset [of token ?r "cursor_table u"] have "k = token" "r = ?r" by (auto simp: st')
    moreover have "latest_arm (?ev # es) ?r (who (new_cursor key tab token time))"
      unfolding latest_arm_def who_def new_cursor_def
      by (simp, rule exI [of _ "[]"], simp)
    ultimately show ?thesis using new len by (simp add: st' new_cursor_def)
  qed
  moreover have "r < length (cursor_objects st') \<and> cur_tab (cursor st' r) = tab' \<and> began (?ev # es) g r (who (cursor st' r))"
    if t: "(tab', ds) \<in> set (session_downloads st')" "(g, e) \<in> set ds" "dl_cursor e = Some r" for tab' ds g e r
  proof -
    from t(1) have "(tab', ds) \<in> set (session_downloads u)" by (simp add: st')
    from d(3) [OF this t(2,3)] old [of r] len show ?thesis by (simp add: st' began_more)
  qed
  moreover have "completed_by (?ev # es) (meta_guid i) r (who (cursor st' r))"
    if "r < length (cursor_objects st')" "cur_download (cursor st' r) = Some i" for r i
  proof -
    from that have r: "r < ?r" using new len by (cases "r = ?r") (auto simp: st' new_cursor_def)
    with that d(4) [of r i] old [OF r] len show ?thesis by (simp add: completed_more)
  qed
  ultimately show ?thesis unfolding attributed_def by blast
qed

lemma download_run_attributed: "download_run es st \<Longrightarrow> attributed es st"
proof (induction rule: download_run.induct)
  case dr_start
  show ?case by (simp add: attributed_def no_downloads_def)
next
  case (dr_refused es st key tab token time e st')
  then have "st' = invalidatePendingDownloadAttribution tab time (pruneDownloadState time st)"
    by (auto simp: armDownload_def Let_def split: if_splits)
  with dr_refused.IH show ?case
    by (simp add: shrinks_attributed [OF _ shrinks_steps(2)] shrinks_attributed [OF _ shrinks_steps(1)])
qed (simp_all add: attributed_armed attributed_began attributed_ended shrinks_attributed [OF _ shrinks_steps(1)]
    shrinks_attributed [OF _ shrinks_steps(2)] shrinks_attributed [OF _ shrinks_steps(3)]
    shrinks_attributed [OF _ shrinks_steps(4)] shrinks_attributed [OF _ shrinks_steps(5)])

section \<open>How many cursors\<close>

definition few_cursors :: "downloads \<Rightarrow> bool" where
  "few_cursors st \<longleftrightarrow> length (cursor_table st) \<le> MAX_DOWNLOAD_CURSORS"

lemma length_table_update: "length (AList.update k v al) \<le> Suc (length al)"
  by (induction al) auto

lemma few_steps:
  "few_cursors st \<Longrightarrow> few_cursors (pruneDownloadState time st)"
  "few_cursors st \<Longrightarrow> few_cursors (invalidatePendingDownloadAttribution tab time st)"
  "few_cursors st \<Longrightarrow> few_cursors (invalidateDownloadTracking tab time st)"
  "few_cursors st \<Longrightarrow> few_cursors (trackDownloadWillBegin tab params time st)"
  "few_cursors st \<Longrightarrow> few_cursors (trackDownloadProgress tab g progress time st)"
  "few_cursors st \<Longrightarrow> few_cursors (snd (armDownload key tab token time st))"
proof -
  assume f: "few_cursors st"
  show p: "few_cursors (pruneDownloadState time st)"
    using f by (simp add: few_cursors_def pruneDownloadState_def le_trans [OF length_filter_le])
  show "few_cursors (invalidatePendingDownloadAttribution tab time st)" "few_cursors (invalidateDownloadTracking tab time st)"
    using f by (simp_all add: few_cursors_def invalidatePendingDownloadAttribution_def invalidateDownloadTracking_def)
  show "few_cursors (trackDownloadWillBegin tab params time st)"
    using p by (simp add: few_cursors_def trackDownloadWillBegin_def Let_def)
  show "few_cursors (trackDownloadProgress tab g progress time st)"
    using f by (auto simp: few_cursors_def trackDownloadProgress_def Let_def split: option.split)
  show "few_cursors (snd (armDownload key tab token time st))"
    using p length_table_update [of token _ "cursor_table (pruneDownloadState time st)"]
    by (auto simp: few_cursors_def armDownload_def Let_def invalidatePendingDownloadAttribution_def not_le
        intro: le_trans [OF length_table_update])
qed

lemma download_run_few: "download_run es st \<Longrightarrow> few_cursors st"
proof (induction rule: download_run.induct)
  case (dr_armed es st key tab token time x st')
  then show ?case using few_steps(6) [of st key tab token time] by simp
next
  case (dr_refused es st key tab token time e st')
  then show ?case using few_steps(6) [of st key tab token time] by simp
qed (simp_all add: few_steps, simp_all add: few_cursors_def no_downloads_def)

end
