(* ===== verification/DownloadsProperties.thy ===== *)
theory DownloadsProperties
  imports DownloadsFacts
begin

text \<open>The properties of download attribution.\<close>

definition armed_demo :: downloads where
  "armed_demo = snd (armDownload ''t'' 3 ''k'' 1000 (no_downloads\<lparr>session_downloads := [(3, [])]\<rparr>))"

abbreviation demo_wait :: "js obj" where
  "demo_wait \<equiv> [(''kind'', Str ''download''), (''after'', Str ''k'')]"

abbreviation demo_guid :: "js obj" where
  "demo_guid \<equiv> [(''guid'', Str ''g'')]"

definition ended_demo :: downloads where
  "ended_demo = trackDownloadProgress 3 ''g'' (Str ''completed'') 3000 (trackDownloadWillBegin 3 demo_guid 2000 armed_demo)"

text \<open>A wait on a download cursor never reports another download. In every run, what it reports was armed by this
task on this tab under this token, began on the tab while that was the latest arming there, and completed after
that.\<close>

lemma download_attributed:
  assumes "download_run es st" and "downloadCursorMatch (Some key) tab condition time st = (Inr (Some m), st')"
  shows "\<exists>r late mid before earliest. es = late @ Ended tab (meta_guid m) CCompleted # mid @
      Began tab (meta_guid m) (Some r) # before @ Armed r key tab (the_str (jget condition ''after'')) # earliest \<and>
    (\<forall>q k t. Armed q k tab t \<notin> set before)"
proof -
  let ?u = "pruneDownloadState time st" and ?token = "the_str (jget condition ''after'')"
  from assms(2) have "cursor_answer (Some key) tab ?token ?u = Inr (Some m)"
    by (auto simp: downloadCursorMatch_def Let_def split: if_splits)
  then obtain r where r: "map_of (cursor_table ?u) ?token = Some r" "cur_task (cursor ?u r) = key" "cur_tab (cursor ?u r) = tab"
      "cur_download (cursor ?u r) = Some m"
    by (auto simp: cursor_answer_def Let_def split: option.splits if_splits)
  have a: "attributed es ?u" by (rule shrinks_attributed [OF download_run_attributed [OF assms(1)] shrinks_steps(1)])
  from attributedD(1) [OF a map_of_SomeD [OF r(1)]] attributedD(4) [OF a _ r(4)] r(2,3)
  have "completed_by es (meta_guid m) r (key, tab, ?token)" by (simp add: who_def)
  then obtain late es' where "es = late @ Ended tab (meta_guid m) CCompleted # es'" "began es' (meta_guid m) r (key, tab, ?token)"
    by (auto simp: completed_by_def)
  moreover from this(2) obtain mid es'' where "es' = mid @ Began tab (meta_guid m) (Some r) # es''" "latest_arm es'' r (key, tab, ?token)"
    by (auto simp: began_def)
  moreover from this(2) obtain before earliest where "es'' = before @ Armed r key tab ?token # earliest"
    "\<forall>q k t. Armed q k tab t \<notin> set before"
    by (auto simp: latest_arm_def)
  ultimately show ?thesis
    by (intro exI [of _ r] exI [of _ late] exI [of _ mid] exI [of _ before] exI [of _ earliest]) simp
qed

lemma demo_download_run: "download_run [Ended 3 ''g'' CCompleted, Began 3 ''g'' (Some 0), Armed 0 ''t'' 3 ''k''] ended_demo"
proof -
  have "download_run [] (no_downloads\<lparr>session_downloads := [(3, [])]\<rparr>)"
    using dr_session [OF dr_start, of 3] by (simp add: no_downloads_def)
  moreover have "armDownload ''t'' 3 ''k'' 1000 (no_downloads\<lparr>session_downloads := [(3, [])]\<rparr>) = (Inr ''k'', armed_demo)"
    unfolding armed_demo_def by code_simp
  ultimately have "download_run [Armed (length (cursor_objects (no_downloads\<lparr>session_downloads := [(3, [])]\<rparr>))) ''t'' 3 ''k''] armed_demo"
    by (rule dr_armed)
  then have "download_run [Armed 0 ''t'' 3 ''k''] armed_demo" by (simp add: no_downloads_def)
  from dr_began [OF this, of 3 demo_guid 2000]
  have "download_run [Began 3 ''g'' (begin_cursor 3 2000 (pruneDownloadState 2000 armed_demo)), Armed 0 ''t'' 3 ''k'']
      (trackDownloadWillBegin 3 demo_guid 2000 armed_demo)"
    by (simp add: armed_demo_def armDownload_def Let_def invalidatePendingDownloadAttribution_def change_cursors_def
        pruneDownloadState_def no_downloads_def MAX_DOWNLOAD_CURSORS_def MAX_DOWNLOAD_CURSORS_PER_TAB_def live_refs_def jget_def)
  moreover have "begin_cursor 3 2000 (pruneDownloadState 2000 armed_demo) = Some 0" by code_simp
  ultimately show ?thesis
    using dr_ended [of _ _ "Str ''completed''" DCompleted CCompleted 3 "''g''" 3000]
    by (simp add: finished_states_def ended_demo_def)
qed

text \<open>A download that began and is still running when its wait times out is reported as a download that Chrome
blocked and that never began: its cursor stays armed until the download ends, which is what the diagnosis looks
for.\<close>

lemma slow_download_called_blocked:
  assumes "begin_cursor tab time (pruneDownloadState time st) = Some r"
    and "map_of (cursor_table (pruneDownloadState time st)) token = Some r"
    and "map_of (session_downloads st) tab = Some ds" and "jget condition ''after'' = Str token"
  shows "error_code (download_timeout tab condition (trackDownloadWillBegin tab params time st)) =
      Some ''multiple_download_throttle'' \<and>
    (\<exists>ds d. map_of (session_downloads (trackDownloadWillBegin tab params time st)) tab = Some ds \<and>
      map_of ds (the_str (jget params ''guid'')) = Some d \<and> dl_status d = DInProgress \<and> dl_cursor d = Some r)"
proof -
  let ?u = "pruneDownloadState time st"
  from begin_cursor_live [OF assms(1)] have r: "cur_state (cursor ?u r) = CArmed" by blast
  obtain ds' where ds: "map_of (session_downloads ?u) tab = Some ds'"
    using assms(3) by (auto simp: pruneDownloadState_def map_of_map)
  from assms(1) have "\<not> has_tombstone tab time ?u \<and> length (begin_candidates tab time ?u) = 1"
    by (auto simp: begin_cursor_def split: if_splits)
  with ds assms(1) have t: "trackDownloadWillBegin tab params time st = ?u\<lparr>session_downloads :=
      AList.update tab (AList.update (the_str (jget params ''guid''))
        \<lparr>started_at = time, dl_status = DInProgress, completed_at = None, dl_url = js_str_option (jget params ''url''),
         dl_filename = js_str_option (jget params ''suggestedFilename''), dl_cursor = Some r\<rparr> ds') (session_downloads ?u)\<rparr>"
    by (simp add: trackDownloadWillBegin_def Let_def put_download_def)
  have "AList.update k v al \<noteq> []" for k v and al :: "tracked_download obj" by (cases al) auto
  with t r assms(2,4) show ?thesis
    by (simp add: download_timeout_def unknown_error_def error_code_def is_str_def the_str_def jget_def [of _ "''code''"])
qed

end
