(* ===== verification/Service.thy ===== *)
theory Service
  imports Profile
begin

text \<open>
  \<open>packages/extension/src/background.ts\<close>: the service worker that wires the components together. This
  theory has its module variables, the permission gate, the origin policy, the errors it reports, the slots
  of the scheduler that work runs in, and the clean-up after a revoked permission.

  The module variables are part of the world that Chrome's calls may change, because listeners run while a
  call is awaited. \<open>meanwhile\<close> is everything else the worker does while one operation waits for its turn:
  any function of the whole state.
\<close>

section \<open>The state of the worker\<close>

record nav_watch =
  watch_id :: nat
  watch_tab :: int
  started :: bool
  watch_loaded :: bool

record 'w worker =
  outside :: 'w
  automationCleanupPending :: bool
  automationCleanupEpoch :: int
  automationRevocationGeneration :: int
  automationCleanupDelayMs :: int
  automationCleanupTimer :: bool
  cleanup_queue :: nat
  processedTabLoads :: "int list"
  tabLoadWaiters :: "(int \<times> nat) list"
  navigationWatches :: "nav_watch list"
  objects :: nat

type_synonym ('w, 'a) work = "('w worker, 'a) op"

text \<open>
  The tools of the browser runtime that the dispatcher calls. \<open>wired_tools\<close> of the dispatcher gives the
  modelled ones their definition.
\<close>

record 'w tools =
  tool_act :: "string \<Rightarrow> int \<Rightarrow> js \<Rightarrow> js \<Rightarrow> string option \<Rightarrow> ('w, execution) work"
  tool_commit :: "string \<Rightarrow> js obj \<Rightarrow> ('w, js obj) work"
  tool_scan :: "string \<Rightarrow> int \<Rightarrow> ('w, js obj option) work"
  tool_snapshot :: "string \<Rightarrow> int \<Rightarrow> js obj \<Rightarrow> ('w, js obj) work"
  tool_wait :: "int \<Rightarrow> js obj \<Rightarrow> ('w, unit) work \<Rightarrow> string \<Rightarrow> ('w, js obj) work"
  tool_developer :: "int \<Rightarrow> string \<Rightarrow> js obj \<Rightarrow> ('w, js obj) work"
  tool_credentials :: "string \<Rightarrow> int \<Rightarrow> js \<Rightarrow> js \<Rightarrow> ('w, js obj) work"
  tool_email :: "string \<Rightarrow> int \<Rightarrow> email_fill \<Rightarrow> ('w, js obj) work"
  openDialog :: "int \<Rightarrow> 'w worker \<Rightarrow> js obj option"
  debuggerTabIds :: "'w worker \<Rightarrow> int list"
  scrubForHandoff :: "int list \<Rightarrow> ('w, unit) work"
  detach :: "int \<Rightarrow> ('w, unit) work"
  tracksTab :: "int \<Rightarrow> 'w worker \<Rightarrow> bool"
  restoreDebuggerCandidates :: "int list \<Rightarrow> 'w worker \<Rightarrow> 'w worker"

record 'w service =
  henv :: "'w worker handoff_env"
  urls :: url_api
  papi :: "'w worker profile_api"
  tools :: "'w tools"
  permission :: "string \<Rightarrow> 'w worker \<Rightarrow> (js_error + bool) \<times> 'w worker"
  tab_status :: "int \<Rightarrow> 'w worker \<Rightarrow> (js_error + string) \<times> 'w worker"
  meanwhile :: "'w worker sys \<Rightarrow> 'w worker sys"
  await_start :: "('w, unit) work"
  cleanup_alarm :: "int \<Rightarrow> 'w worker \<Rightarrow> unit \<times> 'w worker"
  drop_cleanup_alarm :: "'w worker \<Rightarrow> unit \<times> 'w worker"
  connect_bridge :: "('w, unit) work"

abbreviation env_of :: "'w service \<Rightarrow> 'w worker env" where
  "env_of sv \<equiv> env.truncate (henv sv)"

definition read_worker :: "('w worker \<Rightarrow> 'a) \<Rightarrow> ('w, 'a) work" where
  "read_worker f = gets (\<lambda>s. f (world s))"

definition set_worker :: "('w worker \<Rightarrow> 'w worker) \<Rightarrow> ('w, unit) work" where
  "set_worker f = modify (\<lambda>s. s\<lparr>world := f (world s)\<rparr>)"

definition wait :: "'w service \<Rightarrow> ('w, unit) work" where
  "wait sv = modify (meanwhile sv)"

section \<open>The permission gate\<close>

definition automationEnabled :: "'w service \<Rightarrow> ('w, bool) work" where
  "automationEnabled sv =
     bnd (read_worker automationCleanupPending) (\<lambda>cleaning.
       if cleaning then ret False
       else bnd (readState (storage (henv sv))) (\<lambda>st.
         if pending (automationCleanup st) then ret False
         else bnd (call (permission sv ''scripting'')) (\<lambda>scripting.
           bnd (call (permission sv ''debugger'')) (\<lambda>debuggerPermission.
             ret (scripting \<and> debuggerPermission)))))"

definition automationRequired :: js_error where
  "automationRequired = JsError PlainError ''AgentTab automation permissions have not been enabled''
     [(''code'', Str ''permissions_required''),
      (''recovery'', Str ''Open the AgentTab popup and choose Enable automation.'')]"

definition require_automation :: "'w service \<Rightarrow> ('w, unit) work" where
  "require_automation sv = bnd (automationEnabled sv) (\<lambda>b. if b then ret () else throw automationRequired)"

definition authorizeOwnedTab :: "'w service \<Rightarrow> int \<Rightarrow> ('w, unit) work" where
  "authorizeOwnedTab sv tab =
     seq (require_automation sv)
     (bnd (taskIdForTab (env_of sv) tab) (\<lambda>key. case key of
        None \<Rightarrow> throw (denied ''Tab is not owned by an AgentTab task'')
      | Some k \<Rightarrow> bnd (assertOwnedNow (env_of sv) k tab) (\<lambda>_. require_automation sv)))"

section \<open>The origin policy\<close>

definition target_tab :: "js obj \<Rightarrow> js_error + int" where
  "target_tab params =
     (let t = jget params ''tab_id'' in
      if \<not> is_integer t \<or> the_int t < 0
      then Inl (coded_error ''invalid_request'' ''tab_id must be a non-negative integer'') else Inr (the_int t))"

definition originMatches :: "string \<Rightarrow> url_parts \<Rightarrow> bool" where
  "originMatches pat url \<longleftrightarrow> pat = url_origin url \<or>
     (starts_with pat ''*.'' \<and> url_hostname url \<noteq> drop 2 pat \<and> ends_with (url_hostname url) (''.'' @ drop 2 pat))"

definition is_history_action :: "js \<Rightarrow> bool" where
  "is_history_action v \<longleftrightarrow> isRecord v \<and> jget (the_obj v) ''kind'' \<in> {Str ''go_back'', Str ''go_forward''}"

definition history_unverified :: js_error where
  "history_unverified = JsError PlainError
     ''AgentTab cannot authorize a browser history destination before navigation''
     [(''code'', Str ''history_origin_unverified''),
      (''recovery'', Str ''Navigate explicitly to an allowed URL, or remove the managed origin restriction.'')]"

definition unrestricted :: "origin_policy option \<Rightarrow> bool" where
  "unrestricted policy \<longleftrightarrow> (case policy of None \<Rightarrow> True
     | Some p \<Rightarrow> allowed_origins p = [] \<and> denied_origins p = [])"

definition assertHistoryOriginKnown :: "js \<Rightarrow> origin_policy option \<Rightarrow> js_error + unit" where
  "assertHistoryOriginKnown actions policy =
     (if unrestricted policy \<or> \<not> is_arr actions then Inr ()
      else if list_ex is_history_action (the_arr actions) then Inl history_unverified
      else Inr ())"

definition origin_unavailable :: js_error where
  "origin_unavailable = coded_error ''origin_unavailable''
     ''AgentTab cannot determine the target tab's current origin''"

definition http_url :: "url_parts \<Rightarrow> bool" where
  "http_url url \<longleftrightarrow> url_protocol url = ''http:'' \<or> url_protocol url = ''https:''"

definition check_url :: "(string \<Rightarrow> url_parts option) \<Rightarrow> origin_policy \<Rightarrow> string \<Rightarrow> url_parts \<Rightarrow> js_error + unit" where
  "check_url parse p raw url =
     (if automationRoute parse (Some raw) = TabOnly \<and> \<not> http_url url then Inr ()
      else if url_protocol url = ''about:'' then Inr ()
      else if \<not> http_url url
      then Inl (coded_error ''scheme_denied''
        (''AgentTab Standard mode does not allow '' @ butlast (url_protocol url) @ '' URLs''))
      else if list_ex (\<lambda>pat. originMatches pat url) (denied_origins p)
      then Inl (coded_error ''origin_denied'' (''AgentTab policy denies '' @ url_origin url))
      else if allowed_origins p \<noteq> [] \<and> \<not> list_ex (\<lambda>pat. originMatches pat url) (allowed_origins p)
      then Inl (coded_error ''origin_not_allowed'' (''AgentTab policy does not allow '' @ url_origin url))
      else Inr ())"

definition check_address :: "(string \<Rightarrow> url_parts option) \<Rightarrow> origin_policy \<Rightarrow> string option \<Rightarrow> js_error + unit" where
  "check_address parse p address = (case address of
      None \<Rightarrow> Inl origin_unavailable
    | Some raw \<Rightarrow> (case parse raw of
        None \<Rightarrow> Inl origin_unavailable
      | Some url \<Rightarrow> check_url parse p raw url))"

definition assertCurrentOrigin :: "'w service \<Rightarrow> int \<Rightarrow> origin_policy option \<Rightarrow> ('w, unit) work" where
  "assertCurrentOrigin sv tab policy = (case policy of
      None \<Rightarrow> ret ()
    | Some p \<Rightarrow>
        (if policy_tab p \<noteq> tab
         then throw (coded_error ''origin_policy_mismatch''
           ''origin_policy.tab_id does not match the command target'')
         else bnd (call (tabs_get (henv sv) tab)) (\<lambda>t.
           check (check_address (parse_url (henv sv)) p (tab_address t)))))"

definition assertHandoffRoute :: "'w service \<Rightarrow> int \<Rightarrow> js obj \<Rightarrow> origin_policy option \<Rightarrow> ('w, unit) work" where
  "assertHandoffRoute sv tab params policy =
     seq (assertCurrentOrigin sv tab policy)
     (let c = jget params ''completion''; k = jget (the_obj c) ''kind'' in
      if \<not> isRecord c \<or> (k \<noteq> Str ''selector'' \<and> k \<noteq> Str ''challenge_cleared'') then ret ()
      else bnd (call (tabs_get (henv sv) tab)) (\<lambda>t.
        if automationRoute (parse_url (henv sv)) (tab_address t) \<noteq> Full
        then throw (restrictedOriginError (if k = Str ''selector'' then ''wait for a handoff selector''
          else ''wait for a handoff challenge''))
        else ret ()))"

section \<open>Errors in answers\<close>

definition PRE_DISPATCH_ERRORS :: "string list" where
  "PRE_DISPATCH_ERRORS = [''invalid_request'', ''ownership_denied'', ''grouping_failed'', ''ownership_revoked'',
     ''no_active_tab'', ''permissions_required'', ''stale_revision'', ''stale_ref'', ''paused'',
     ''developer_mode_required'', ''invalid_staged_token'', ''staged_commit_expired'', ''staged_commit_mismatch'',
     ''bookmark_not_found'', ''bookmark_root_immutable'', ''bookmark_folder_not_empty'', ''session_not_found'',
     ''download_not_found'', ''origin_policy_unverifiable'', ''origin_denied'', ''origin_not_allowed'',
     ''origin_unavailable'', ''origin_policy_mismatch'', ''scheme_denied'', ''history_origin_unverified'',
     ''sensitive_field_requires_handoff'']"

text \<open>\<open>PRE_DISPATCH_ERRORS[code]\<close> also finds the members that a plain object inherits.\<close>

definition pre_dispatch :: "string \<Rightarrow> bool" where
  "pre_dispatch code \<longleftrightarrow> code \<in> set PRE_DISPATCH_ERRORS \<or> code \<in> set object_prototype_keys"

definition errorCode :: "thrown \<Rightarrow> string" where
  "errorCode e = (case thrown_field e ''code'' of Str c \<Rightarrow> c | _ \<Rightarrow> ''native_action_failed'')"

definition errorRecovery :: "thrown \<Rightarrow> string option" where
  "errorRecovery e = (case thrown_field e ''recovery'' of Str r \<Rightarrow> Some r | _ \<Rightarrow> None)"

definition errorOutcome :: "thrown \<Rightarrow> bool \<Rightarrow> string \<Rightarrow> string" where
  "errorOutcome e mutates code =
     (if thrown_field e ''outcome'' = Str ''not_started'' then ''not_started''
      else if thrown_field e ''outcome'' = Str ''unknown'' then ''unknown''
      else if mutates \<and> \<not> pre_dispatch code then ''unknown'' else ''not_started'')"

definition detail :: "string \<Rightarrow> (js \<Rightarrow> bool) \<Rightarrow> js \<Rightarrow> js obj" where
  "detail k ok v = (if ok v then [(k, v)] else [])"

definition is_num :: "js \<Rightarrow> bool" where
  "is_num v = (case v of Num n \<Rightarrow> True | _ \<Rightarrow> False)"

definition errorDetails :: "thrown \<Rightarrow> js obj option" where
  "errorDetails e =
     (let f = thrown_field e;
          ds = detail ''current_page_revision'' is_num (f ''currentPageRevision'') @
            detail ''failed_action_index'' is_num (f ''failedActionIndex'') @
            detail ''completed_actions'' is_arr (f ''completedActions'') @
            detail ''challenge'' isRecord (f ''challengeEvent'') @ detail ''dialog'' isRecord (f ''dialog'')
      in if ds = [] then None else Some ds)"

text \<open>The answer to a command that threw. A \<open>NotStartedError\<close> has its code in the same property.\<close>

definition failure_answer :: "string \<Rightarrow> string \<Rightarrow> bool \<Rightarrow> js_error \<Rightarrow> js obj" where
  "failure_answer request method mutates e =
     (let n = normalizeRestrictedOriginError (\<lambda>v. []) (ThrownError e) method; code = errorCode n
      in failed request code (thrown_message (\<lambda>v. []) n) (errorOutcome n mutates code) (errorRecovery n)
        (errorDetails n))"

section \<open>Slots of the scheduler\<close>

definition with_scheduler :: "(sched \<Rightarrow> sched) \<Rightarrow> ('w, unit) work" where
  "with_scheduler f = modify (\<lambda>s. s\<lparr>scheduler := f (scheduler s)\<rparr>)"

text \<open>
  A call of an \<open>enqueue\<close> method: the job waits for the work before it, and its admission is checked again
  before it starts. The job is the one that was admitted, whatever happened while it waited.
\<close>

definition enter :: "'w service \<Rightarrow> (sched \<Rightarrow> (js_error + nat) \<times> sched) \<Rightarrow> ('w, nat) work" where
  "enter sv enq = bnd (gets (\<lambda>s. enq (scheduler s))) (\<lambda>(r, sc). case r of
       Inl e \<Rightarrow> seq (with_scheduler (\<lambda>_. sc)) (throw e)
     | Inr i \<Rightarrow>
         seq (with_scheduler (\<lambda>_. sc))
         (seq (wait sv)
         (bnd (gets (\<lambda>s. refusal (scheduler s) (jobs sc ! i))) (\<lambda>refused.
           seq (with_scheduler (dispatch i))
             (case refused of Some e \<Rightarrow> throw e | None \<Rightarrow> ret i)))))"

definition leave :: "nat \<Rightarrow> bool \<Rightarrow> 'w worker sys \<Rightarrow> 'w worker sys" where
  "leave i ok s = s\<lparr>scheduler := set_status i (Finished ok) (scheduler s)\<rparr>"

definition is_Inr :: "'a + 'b \<Rightarrow> bool" where
  "is_Inr r = (case r of Inl e \<Rightarrow> False | Inr x \<Rightarrow> True)"

definition slot :: "'w service \<Rightarrow> (sched \<Rightarrow> (js_error + nat) \<times> sched) \<Rightarrow> ('w, 'a) work \<Rightarrow> ('w, 'a) work" where
  "slot sv enq m = bnd (enter sv enq) (\<lambda>i s. case m s of (r, t) \<Rightarrow> (r, leave i (is_Inr r) t))"

definition loop_slot ::
  "'w service \<Rightarrow> (sched \<Rightarrow> (js_error + nat) \<times> sched) \<Rightarrow> ('w worker, 'a) loop \<Rightarrow> ('w worker, 'a) loop" where
  "loop_slot sv enq m s = (case enter sv enq s of
      (Inl e, t) \<Rightarrow> Some (Inl e, t)
    | (Inr i, t) \<Rightarrow> map_option (\<lambda>(r, u). (r, leave i (is_Inr r) u)) (m t))"

end
