(* ===== verification/Dispatch.thy ===== *)
theory Dispatch
  imports Service
begin

text \<open>
  \<open>dispatch\<close> of \<open>background.ts\<close>: one command of the host, from its admission to the answer. Also the waits
  for the load of an opened or navigated tab, and the wiring of the browser runtime, the handoff controller
  and the profile runtime to each other. Command parameters have passed \<open>validateParams\<close>.

  A wait for a load ends when the load was processed, at a deadline, or when a dialog opens; all that
  happens until then is \<open>meanwhile\<close>.
\<close>

section \<open>Wiring\<close>

definition requested_tab :: "js obj \<Rightarrow> int \<times> int" where
  "requested_tab opened = (the_int (jget opened ''tab_id''), the_int (jget opened ''page_revision''))"

definition open_for_profile :: "'w service \<Rightarrow> string \<Rightarrow> string \<Rightarrow> ('w, int \<times> int) work" where
  "open_for_profile sv key url =
     bnd (OwnershipOps.openNow (env_of sv) key
       [(''mode'', Str ''create''), (''url'', Str url), (''background'', Bool True)])
       (\<lambda>opened. ret (requested_tab opened))"

definition profile_runtime :: "'w service \<Rightarrow> 'w worker profile_api" where
  "profile_runtime sv = (papi sv)\<lparr>open_background := open_for_profile sv\<rparr>"

text \<open>The modelled tools on a page whose uses of the debugger are authorized by the ledger.\<close>

definition wired_page :: "'w service \<Rightarrow> ('w worker, 't) page \<Rightarrow> ('w worker, 't) page" where
  "wired_page sv pg = pg\<lparr>authorize := authorizeOwnedTab sv\<rparr>"

definition wired_tools :: "'w service \<Rightarrow> ('w worker, 't) page \<Rightarrow> 'w tools" where
  "wired_tools sv pg = (tools sv)\<lparr>tool_act := act (henv sv) (wired_page sv pg),
     tool_commit := commit (env_of sv) (wired_page sv pg),
     tool_scan := scanChallenge (henv sv) (wired_page sv pg)\<rparr>"

definition wired_handoff :: "'w service \<Rightarrow> ('w worker, 't) page \<Rightarrow> 'w worker handoff_env" where
  "wired_handoff sv pg = (henv sv)\<lparr>scrubber := Some (detach (tools sv)),
     scanner := Some (\<lambda>key tab. bnd (scanChallengeEpisodes (henv sv) (wired_page sv pg) key tab)
       (\<lambda>r. ret (map_option snd r)))\<rparr>"

definition wired :: "'w service \<Rightarrow> ('w worker, 't) page \<Rightarrow> 'w service" where
  "wired sv pg = sv\<lparr>tools := wired_tools sv pg, henv := wired_handoff sv pg, papi := profile_runtime sv\<rparr>"

section \<open>Challenges in results\<close>

definition spread :: "js obj \<Rightarrow> js obj \<Rightarrow> js obj" where
  "spread ob extra = fold (\<lambda>(k, v). AList.update k v) extra ob"

definition withChallenge :: "'w service \<Rightarrow> string \<Rightarrow> int \<Rightarrow> js obj \<Rightarrow> js obj option \<Rightarrow> ('w, js obj) work" where
  "withChallenge sv key tab result observed =
     (if jget result ''challenge'' \<noteq> Undefined then ret result
      else bnd (tool_scan (tools sv) key tab) (\<lambda>scanned.
        ret (case if scanned \<noteq> None then scanned else observed of
            None \<Rightarrow> result
          | Some event \<Rightarrow> spread result [(''challenge'', Obj event)])))"

section \<open>Waiting for pages\<close>

definition NAVIGATION_ACTION_KINDS :: "string list" where
  "NAVIGATION_ACTION_KINDS = [''navigate'', ''go_back'', ''go_forward'', ''reload'']"

definition last_action :: "js \<Rightarrow> js" where
  "last_action v = (if is_arr v \<and> the_arr v \<noteq> [] then last (the_arr v) else Undefined)"

definition navigates :: "js \<Rightarrow> bool" where
  "navigates v \<longleftrightarrow> isRecord v \<and> is_str (jget (the_obj v) ''kind'') \<and>
     the_str (jget (the_obj v) ''kind'') \<in> set NAVIGATION_ACTION_KINDS"

definition navigationStarted :: "js obj \<Rightarrow> bool" where
  "navigationStarted result =
     (let l = last_action (jget result ''actions'')
      in navigates l \<and> jget (the_obj l) ''started'' = Bool True)"

definition watchNavigation :: "int \<Rightarrow> ('w, nat) work" where
  "watchNavigation tab = bnd (read_worker objects) (\<lambda>i.
     seq (set_worker (\<lambda>w. w\<lparr>objects := i + 1,
         navigationWatches := navigationWatches w @
           [\<lparr>watch_id = i, watch_tab = tab, started = False, watch_loaded = False\<rparr>]\<rparr>))
       (ret i))"

definition unwatchNavigation :: "nat \<Rightarrow> ('w, unit) work" where
  "unwatchNavigation i = set_worker (\<lambda>w. w\<lparr>navigationWatches :=
     filter (\<lambda>x. watch_id x \<noteq> i) (navigationWatches w)\<rparr>)"

definition watch_started :: "nat \<Rightarrow> 'w worker \<Rightarrow> bool" where
  "watch_started i w = list_ex (\<lambda>x. watch_id x = i \<and> started x) (navigationWatches w)"

definition status_or_null :: "'w service \<Rightarrow> int \<Rightarrow> ('w, string option) work" where
  "status_or_null sv tab = quiet (bnd (call (tab_status sv tab)) (\<lambda>x. ret (Some x))) None"

definition settleNavigation :: "'w service \<Rightarrow> nat \<Rightarrow> int \<Rightarrow> ('w, unit) work" where
  "settleNavigation sv i tab =
     seq (wait sv)
     (bnd (status_or_null sv tab) (\<lambda>st.
      bnd (read_worker (watch_started i)) (\<lambda>began.
        if st \<noteq> Some ''loading'' \<and> \<not> began then ret ()
        else seq (wait sv) (wait sv))))"

definition observeNavigatedPage ::
  "'w service \<Rightarrow> string \<Rightarrow> int \<Rightarrow> js obj \<Rightarrow> js obj option \<Rightarrow> ('w, js obj) work" where
  "observeNavigatedPage sv key tab result observed =
     quiet (slot sv (readAfterWrites (Some tab))
       (bnd (taskIdForTab (env_of sv) tab) (\<lambda>owner_task.
         if owner_task \<noteq> Some key then ret result
         else bnd (rev_current (storage (henv sv)) tab) (\<lambda>revision.
           withChallenge sv key tab (spread result [(''page_revision'', js_int revision)]) observed)))) result"

definition add_waiter :: "int \<Rightarrow> ('w, nat) work" where
  "add_waiter tab = bnd (read_worker objects) (\<lambda>i.
     seq (set_worker (\<lambda>w. w\<lparr>objects := i + 1, tabLoadWaiters := tabLoadWaiters w @ [(tab, i)]\<rparr>)) (ret i))"

definition drop_waiter :: "nat \<Rightarrow> ('w, unit) work" where
  "drop_waiter i = set_worker (\<lambda>w. w\<lparr>tabLoadWaiters := filter (\<lambda>x. snd x \<noteq> i) (tabLoadWaiters w)\<rparr>)"

definition left_task :: js_error where
  "left_task = JsError PlainError ''The opened tab was closed or left its task before it finished loading''
     [(''code'', Str ''ownership_revoked''), (''recovery'', Str ''Call browser_open again.'')]"

definition await_load :: "'w service \<Rightarrow> int \<Rightarrow> bool \<Rightarrow> ('w, unit) work" where
  "await_load sv tab navigating =
     bnd (if navigating then ret None else status_or_null sv tab) (\<lambda>st.
     bnd (read_worker processedTabLoads) (\<lambda>loads.
       when_do (tab \<notin> set loads \<and> (navigating \<or> (st \<noteq> None \<and> st \<noteq> Some ''complete''))) (wait sv)))"

definition settled_tab :: "'w service \<Rightarrow> string \<Rightarrow> int \<Rightarrow> ('w, js obj) work" where
  "settled_tab sv key tab =
     bnd (quiet (bnd (describeTab (env_of sv) tab) (\<lambda>d. ret (Some d))) None) (\<lambda>found. case found of
         None \<Rightarrow> throw left_task
       | Some d \<Rightarrow> bnd (taskIdForTab (env_of sv) tab) (\<lambda>owner_task.
           if owner_task \<noteq> Some key then throw left_task else ret d))"

definition settleOpenedTab :: "'w service \<Rightarrow> string \<Rightarrow> js obj \<Rightarrow> bool \<Rightarrow> ('w, js obj) work" where
  "settleOpenedTab sv key opened fresh =
     (if \<not> is_num (jget opened ''tab_id'') then ret opened
      else let tab = the_int (jget opened ''tab_id''); url = lower (the_str (jget opened ''url''));
               navigating = (fresh \<and> (starts_with url ''http:'' \<or> starts_with url ''https:''))
           in bnd (add_waiter tab) (\<lambda>i.
             finally_do (seq (await_load sv tab navigating) (seq (wait sv) (settled_tab sv key tab)))
               (drop_waiter i)))"

section \<open>Ending a task\<close>

definition disposition_of :: "string \<Rightarrow> disposition" where
  "disposition_of d = (if d = ''close'' then CloseDisposition else if d = ''keep'' then KeepDisposition
     else AutoDisposition)"

definition finished_json :: "string \<Rightarrow> finish_result \<Rightarrow> js obj" where
  "finished_json key r = [(''task_id'', Str key), (''finished'', Bool (finished r)),
     (''closed_tab_ids'', Arr (map js_int (closed_ids r))), (''retained_tab_ids'', Arr (map js_int (retained_ids r)))] @
     (case deferred r of None \<Rightarrow> [] | Some d \<Rightarrow> [(''deferred'', Str d)])"

text \<open>A failed clean-up of the challenge table is only logged.\<close>

definition forget_task :: "'w service \<Rightarrow> string \<Rightarrow> ('w, unit) work" where
  "forget_task sv key =
     bnd (clearForTask (henv sv) key) (\<lambda>_. case challenge_storage (henv sv) of
         None \<Rightarrow> ret ()
       | Some api \<Rightarrow> quiet (clearChallengeTask api key) ())"

definition close_command :: "'w service \<Rightarrow> string \<Rightarrow> ('w, js obj) work" where
  "close_command sv key =
     bnd (closeTaskNow (env_of sv) key) (\<lambda>closed.
       seq (forget_task sv key)
         (ret [(''task_id'', Str key), (''closed_tab_ids'', Arr (map js_int closed))]))"

definition finish_command :: "'w service \<Rightarrow> string \<Rightarrow> disposition \<Rightarrow> int list \<Rightarrow> ('w, js obj) work" where
  "finish_command sv key d keep =
     bnd (finishTaskNow (env_of sv) key d keep) (\<lambda>r.
       seq (when_do (finished r) (forget_task sv key)) (ret (finished_json key r)))"

definition ending_answer :: "string \<Rightarrow> ('w, js obj) work \<Rightarrow> ('w, js obj) work" where
  "ending_answer request m =
     try_catch (bnd m (\<lambda>result. ret (completed request (Obj result))))
       (\<lambda>e. ret (failed request (errorCode (ThrownError e)) (err_message e) ''unknown'' None None))"

section \<open>Guards before a tool\<close>

definition tab_guard :: "'w service \<Rightarrow> native_command \<Rightarrow> int \<Rightarrow> ('w, unit) work" where
  "tab_guard sv c tab = bnd (assertOwnedNow (env_of sv) (cmd_task c) tab) (\<lambda>_.
     assertCurrentOrigin sv tab (cmd_policy c))"

definition tab_slot :: "'w service \<Rightarrow> native_command \<Rightarrow> int \<Rightarrow> ('w, 'a) work \<Rightarrow> ('w, 'a) work" where
  "tab_slot sv c tab m = slot sv (enqueueTab (cmd_task c) tab) (seq (tab_guard sv c tab) m)"

definition answer_completed :: "native_command \<Rightarrow> js obj \<Rightarrow> js obj" where
  "answer_completed c result = completed (cmd_request c) (Obj result)"

definition completes :: "native_command \<Rightarrow> ('w, js obj) work \<Rightarrow> ('w, js obj) work" where
  "completes c m = bnd m (\<lambda>result. ret (answer_completed c result))"

section \<open>The commands\<close>

definition open_command :: "'w service \<Rightarrow> native_command \<Rightarrow> ('w, js obj) work" where
  "open_command sv c =
     bnd (slot sv enqueueGlobal (OwnershipOps.openNow (env_of sv) (cmd_task c) (cmd_params c))) (\<lambda>opened.
     bnd (settleOpenedTab sv (cmd_task c) opened (jget (cmd_params c) ''mode'' = Str ''create'')) (\<lambda>result.
       completes c (if is_num (jget result ''tab_id'')
         then withChallenge sv (cmd_task c) (the_int (jget result ''tab_id'')) result None
         else ret result)))"

definition listed_tab :: "'w service \<Rightarrow> js \<Rightarrow> js" where
  "listed_tab sv v = Obj (spread (the_obj v) (automationRouteFields (parse_url (henv sv))
     (case jget (the_obj v) ''url'' of Str u \<Rightarrow> Some u | _ \<Rightarrow> None)))"

definition tabs_command :: "'w service \<Rightarrow> native_command \<Rightarrow> ('w, js obj) work" where
  "tabs_command sv c =
     bnd (slot sv enqueueGlobal (inventory (env_of sv))) (\<lambda>items.
       ret (answer_completed c [(''tabs'', Arr (map (listed_tab sv)
         (filter (\<lambda>v. jget (the_obj v) ''task_id'' = Str (cmd_task c)) items)))]))"

definition handoff_target :: "'w service \<Rightarrow> native_command \<Rightarrow> ('w, unit) work" where
  "handoff_target sv c = bnd (check (target_tab (cmd_params c))) (\<lambda>tab.
     assertHandoffRoute sv tab (cmd_params c) (cmd_policy c))"

definition refuse_while_paused :: "'w service \<Rightarrow> ('w, unit) work" where
  "refuse_while_paused sv =
     bnd (gets scheduler) (\<lambda>sc. let refuse = throw (notStarted sc (Some ''AgentTab is paused'')) in
       if \<not> accepting sc then refuse
       else bnd (readState (storage (henv sv))) (\<lambda>st. if paused st then refuse else ret ()))"

definition handoff_request :: "'w service \<Rightarrow> native_command \<Rightarrow> ('w, js obj) work" where
  "handoff_request sv c =
     (let tab = jget (cmd_params c) ''tab_id'';
          m = requestNow (henv sv) (cmd_task c) (cmd_params c) (Some (handoff_target sv c))
      in if is_integer tab then slot sv (enqueueTab (cmd_task c) (the_int tab)) m else m)"

definition handoff_command :: "'w service \<Rightarrow> native_command \<Rightarrow> ('w, js obj) work" where
  "handoff_command sv c =
     (let params = cmd_params c; operation = jget params ''operation''; notice = str_param params ''notice_id'' in
      seq (refuse_while_paused sv) (completes c
        (if operation = Str ''request'' then handoff_request sv c
         else if operation = Str ''status'' then status_of_notice (henv sv) (cmd_task c) notice
         else if operation = Str ''resolve'' then resolveNow (henv sv) (cmd_task c) notice
         else if operation = Str ''dismiss'' then dismissNow (henv sv) (Some (cmd_task c)) notice
         else throw (coded_error ''invalid_request'' ''Unsupported browser_handoff operation''))))"

definition commit_command :: "'w service \<Rightarrow> native_command \<Rightarrow> ('w, js obj) work" where
  "commit_command sv c =
     bnd (stagedTabId (env_of sv) (cmd_task c) (jget (cmd_params c) ''native_token'')) (\<lambda>tab.
       completes c (tab_slot sv c tab (tool_commit (tools sv) (cmd_task c) (cmd_params c))))"

definition developer_required :: js_error where
  "developer_required = JsError PlainError ''Developer mode is disabled in the AgentTab popup''
     [(''code'', Str ''developer_mode_required''),
      (''recovery'', Str ''Enable Developer mode in the AgentTab popup, then retry.'')]"

definition developer_command :: "'w service \<Rightarrow> native_command \<Rightarrow> ('w, js obj) work" where
  "developer_command sv c =
     bnd (readState (storage (henv sv))) (\<lambda>st.
       let action = jget (cmd_params c) ''action''; given_params = jget (cmd_params c) ''params'' in
       if \<not> developerMode st then throw developer_required
       else if \<not> is_str action \<or> \<not> isRecord given_params
       then throw (coded_error ''invalid_request'' ''browser_developer requires action and params'')
       else bnd (check (target_tab (the_obj given_params))) (\<lambda>tab.
         completes c (tab_slot sv c tab
           (tool_developer (tools sv) tab (the_str action) (AList.delete ''tab_id'' (the_obj given_params))))))"

definition credentials_command :: "'w service \<Rightarrow> native_command \<Rightarrow> ('w, js obj) work" where
  "credentials_command sv c =
     bnd (check (target_tab (cmd_params c))) (\<lambda>tab.
       completes c (tab_slot sv c tab (tool_credentials (tools sv) (cmd_task c) tab
         (jget (cmd_params c) ''expected_page_revision'') (jget (cmd_params c) ''fields''))))"

text \<open>
  \<open>invoked\<close> is set right before the runtime is called. The result of that call carries the flag: \<open>Inl\<close> is an
  error after it, and the slot still ends as failed.
\<close>

definition judged_slot ::
  "'w service \<Rightarrow> (sched \<Rightarrow> (js_error + nat) \<times> sched) \<Rightarrow> ('w, js_error + 'a) work \<Rightarrow> ('w, js_error + 'a) work" where
  "judged_slot sv enq m = bnd (enter sv enq) (\<lambda>i s. case m s of
       (r, t) \<Rightarrow> (r, leave i (case r of Inr (Inr x) \<Rightarrow> True | _ \<Rightarrow> False) t))"

definition sanitized :: "string \<Rightarrow> js_error \<Rightarrow> js_error" where
  "sanitized oc e = sanitizeEmailCodeFailure (ThrownError e) (Some oc)"

definition email_command :: "'w service \<Rightarrow> native_command \<Rightarrow> ('w, js obj) work" where
  "email_command sv c =
     bnd (try_catch
       (bnd (check (parseEmailCodeFillParams (urls sv) (Obj (cmd_params c)))) (\<lambda>request.
          judged_slot sv (enqueueTab (cmd_task c) (fill_tab request))
            (seq (tab_guard sv c (fill_tab request))
              (attempt (tool_email (tools sv) (cmd_task c) (fill_tab request) request)))))
       (\<lambda>e. throw (sanitized ''not_started'' e))) (\<lambda>r. case r of
         Inl e \<Rightarrow> throw (sanitized ''unknown'' e)
       | Inr result \<Rightarrow> ret (answer_completed c result))"

definition snapshot_command :: "'w service \<Rightarrow> native_command \<Rightarrow> int \<Rightarrow> ('w, js obj) work" where
  "snapshot_command sv c tab =
     completes c (slot sv (readAfterWrites (Some tab))
       (seq (tab_guard sv c tab)
       (bnd (tool_snapshot (tools sv) (cmd_task c) tab (cmd_params c)) (\<lambda>snapshot.
         withChallenge sv (cmd_task c) tab snapshot None))))"

definition still_accepting :: "('w, unit) work" where
  "still_accepting = bnd (gets scheduler) (\<lambda>sc.
     if accepting sc then ret () else throw (notStarted sc (Some ''AgentTab stopped the active browser wait'')))"

definition revalidate :: "'w service \<Rightarrow> native_command \<Rightarrow> int \<Rightarrow> ('w, unit) work" where
  "revalidate sv c tab = seq still_accepting (seq (tab_guard sv c tab) still_accepting)"

definition wait_command :: "'w service \<Rightarrow> native_command \<Rightarrow> int \<Rightarrow> ('w, js obj) work" where
  "wait_command sv c tab =
     bnd (slot sv (readAfterWrites (Some tab))
       (bnd (tool_wait (tools sv) tab (cmd_params c) (revalidate sv c tab) (cmd_task c)) (\<lambda>waited.
         withChallenge sv (cmd_task c) tab waited None))) (\<lambda>result.
       ret (if jget result ''status'' = Str ''challenge_needs_user''
         then needsUser (cmd_request c) (Obj result) else answer_completed c result))"

section \<open>Acting on a page\<close>

definition act_call :: "'w service \<Rightarrow> native_command \<Rightarrow> int \<Rightarrow> ('w, execution) work" where
  "act_call sv c tab = tool_act (tools sv) (cmd_task c) tab (jget (cmd_params c) ''expected_page_revision'')
     (jget (cmd_params c) ''actions'')
     (if is_str (jget (cmd_params c) ''intent'') then Some (str_param (cmd_params c) ''intent'') else None)"

definition scan_execution :: "'w service \<Rightarrow> native_command \<Rightarrow> int \<Rightarrow> execution \<Rightarrow> ('w, execution) work" where
  "scan_execution sv c tab x =
     bnd (withChallenge sv (cmd_task c) tab (ex_result x) (ex_ended x)) (\<lambda>result. ret (x\<lparr>ex_result := result\<rparr>))"

definition act_guard :: "'w service \<Rightarrow> native_command \<Rightarrow> int \<Rightarrow> ('w, unit) work" where
  "act_guard sv c tab =
     bnd (assertOwnedNow (env_of sv) (cmd_task c) tab) (\<lambda>_.
     seq (check (assertHistoryOriginKnown (jget (cmd_params c) ''actions'') (cmd_policy c)))
       (assertCurrentOrigin sv tab (cmd_policy c)))"

text \<open>
  A watch is registered before a batch that ends in a navigation runs; when the batch fails the watch is
  dropped by the \<open>finally\<close> of the command. A navigated page is scanned later, once its load settled.
\<close>

definition watched_act :: "'w service \<Rightarrow> native_command \<Rightarrow> int \<Rightarrow> nat \<Rightarrow> ('w, execution \<times> nat option) work" where
  "watched_act sv c tab i =
     try_catch
       (bnd (act_call sv c tab) (\<lambda>x.
         if navigationStarted (ex_result x) then ret (x, Some i)
         else bnd (scan_execution sv c tab x) (\<lambda>x'. ret (x', Some i))))
       (\<lambda>e. seq (unwatchNavigation i) (throw e))"

definition plain_act :: "'w service \<Rightarrow> native_command \<Rightarrow> int \<Rightarrow> ('w, execution \<times> nat option) work" where
  "plain_act sv c tab = bnd (act_call sv c tab) (\<lambda>x.
     bnd (scan_execution sv c tab x) (\<lambda>x'. ret (x', None)))"

definition act_work :: "'w service \<Rightarrow> native_command \<Rightarrow> int \<Rightarrow> ('w, execution \<times> nat option) work" where
  "act_work sv c tab = seq (act_guard sv c tab)
     (if navigates (last_action (jget (cmd_params c) ''actions''))
      then bnd (watchNavigation tab) (watched_act sv c tab) else plain_act sv c tab)"

definition observed_execution :: "'w service \<Rightarrow> native_command \<Rightarrow> int \<Rightarrow> nat option \<Rightarrow> execution \<Rightarrow> ('w, execution) work" where
  "observed_execution sv c tab watch x = (case watch of
      None \<Rightarrow> ret x
    | Some i \<Rightarrow>
        (if navigationStarted (ex_result x)
         then seq (settleNavigation sv i tab)
           (bnd (observeNavigatedPage sv (cmd_task c) tab (ex_result x) (ex_ended x)) (\<lambda>result.
             ret (x\<lparr>ex_result := result\<rparr>)))
         else ret x))"

definition act_answer :: "native_command \<Rightarrow> execution \<Rightarrow> js obj" where
  "act_answer c x = (case ex_staged x of
      Some staged \<Rightarrow> commitRequired (cmd_request c) (Obj (ex_result x)) staged
    | None \<Rightarrow> if ex_needs_user x then needsUser (cmd_request c) (Obj (ex_result x))
        else answer_completed c (ex_result x))"

definition with_dialog :: "js obj option \<Rightarrow> execution \<Rightarrow> execution" where
  "with_dialog d x = (case d of None \<Rightarrow> x | Some ob \<Rightarrow> x\<lparr>ex_result := spread (ex_result x) [(''dialog'', Obj ob)]\<rparr>)"

definition act_command :: "'w service \<Rightarrow> native_command \<Rightarrow> int \<Rightarrow> ('w, js obj) work" where
  "act_command sv c tab =
     bnd (slot sv (enqueueTab (cmd_task c) tab) (act_work sv c tab)) (\<lambda>(x, watch).
       finally_do
         (bnd (observed_execution sv c tab watch x) (\<lambda>x'.
          bnd (read_worker (openDialog (tools sv) tab)) (\<lambda>d. ret (act_answer c (with_dialog d x')))))
         (case watch of None \<Rightarrow> ret () | Some i \<Rightarrow> unwatchNavigation i))"

section \<open>The dispatcher\<close>

definition PROFILE_READ_OPERATIONS :: "string list" where
  "PROFILE_READ_OPERATIONS = [''bookmarks_search'', ''bookmarks_tree'', ''history_search'', ''sessions_recent'',
     ''sessions_devices'', ''downloads_search'']"

definition profile_mutates :: "js obj \<Rightarrow> bool" where
  "profile_mutates params \<longleftrightarrow> str_param params ''operation'' \<notin> set PROFILE_READ_OPERATIONS"

definition MUTATING_METHODS :: "string list" where
  "MUTATING_METHODS = [''browser_open'', ''browser_act'', ''browser_commit'', ''browser_handoff'', ''browser_developer'',
     ''browser_credentials_fill'', ''browser_email_code_fill'']"

definition mutating :: "native_command \<Rightarrow> bool" where
  "mutating c \<longleftrightarrow> cmd_method c \<in> set MUTATING_METHODS \<or>
     (cmd_method c = ''browser_profile'' \<and> profile_mutates (cmd_params c))"

definition profile_refused :: "'w service \<Rightarrow> native_command \<Rightarrow> ('w, unit) work" where
  "profile_refused sv c =
     bnd (readState (storage (henv sv))) (\<lambda>st.
       if paused st then throw (not_started_error ''paused'' ''AgentTab is paused'')
       else if jget (cmd_params c) ''operation'' = Str ''sessions_restore'' \<and> \<not> unrestricted (cmd_policy c)
       then throw (coded_error ''origin_policy_unverifiable''
         ''AgentTab cannot verify a restored session against the managed origin policy'')
       else ret ())"

definition profile_queue :: "native_command \<Rightarrow> sched \<Rightarrow> (js_error + nat) \<times> sched" where
  "profile_queue c = (if jget (cmd_params c) ''operation'' = Str ''sessions_restore'' then enqueueGlobal
     else enqueueProfile (profile_mutates (cmd_params c)))"

definition profile_answer :: "native_command \<Rightarrow> profile_execution \<Rightarrow> js obj" where
  "profile_answer c x = (case profile_staged x of
      Some staged \<Rightarrow> commitRequired (cmd_request c) (Obj (profile_result x)) staged
    | None \<Rightarrow> answer_completed c (profile_result x))"

definition profile_command :: "'w service \<Rightarrow> native_command \<Rightarrow> ('w worker, js obj) loop" where
  "profile_command sv c s = (case profile_refused sv c s of
      (Inl e, t) \<Rightarrow> Some (Inl e, t)
    | (Inr u, t) \<Rightarrow>
        followed (loop_slot sv (profile_queue c) (run_profile (env_of sv) (papi sv) (cmd_task c) (cmd_params c)))
          (\<lambda>x. ret (profile_answer c x)) t)"

definition profile_commit :: "'w service \<Rightarrow> native_command \<Rightarrow> ('w, js obj) work" where
  "profile_commit sv c = completes c (slot sv (enqueueProfile True)
     (commit_profile (env_of sv) (papi sv) (cmd_task c) (str_param (cmd_params c) ''native_token'')))"

definition commits_profile_stage :: "'w service \<Rightarrow> native_command \<Rightarrow> ('w, bool) work" where
  "commits_profile_stage sv c =
     (if cmd_method c = ''browser_commit'' \<and> is_str (jget (cmd_params c) ''native_token'')
      then bnd (readState (storage (henv sv))) (\<lambda>st.
        ret (case map_of (stagedCommits st) (str_param (cmd_params c) ''native_token'') of
            None \<Rightarrow> False | Some staged \<Rightarrow> staged_tab staged = PROFILE_STAGE_TAB_ID))
      else ret False)"

definition unsupported :: "native_command \<Rightarrow> js_error" where
  "unsupported c = coded_error ''unsupported_method'' (''Unsupported Core method: '' @ cmd_method c)"

text \<open>Everything but the profile operations.\<close>

definition gated_command :: "'w service \<Rightarrow> native_command \<Rightarrow> ('w, js obj) work" where
  "gated_command sv c =
     (let m = cmd_method c in
      seq (if m \<in> {''browser_open'', ''browser_tabs'', ''browser_handoff''} then ret () else require_automation sv)
      (if m = ''browser_open'' then open_command sv c
       else if m = ''browser_tabs'' then tabs_command sv c
       else if m = ''browser_handoff'' then handoff_command sv c
       else if m = ''browser_commit'' then commit_command sv c
       else if m = ''browser_developer'' then developer_command sv c
       else if m = ''browser_credentials_fill'' then credentials_command sv c
       else if m = ''browser_email_code_fill'' then email_command sv c
       else bnd (check (target_tab (cmd_params c))) (\<lambda>tab.
         if m = ''browser_snapshot'' then snapshot_command sv c tab
         else if m = ''browser_wait'' then wait_command sv c tab
         else if m = ''browser_act'' then act_command sv c tab
         else throw (unsupported c))))"

definition run_command :: "'w service \<Rightarrow> native_command \<Rightarrow> ('w, js obj) work" where
  "run_command sv c =
     (let m = cmd_method c; params = cmd_params c in
      if m = ''commit_review_bind'' then completes c (bindReview (env_of sv) (cmd_task c) params)
      else if m = ''commit_review_abandon''
      then completes c (abandonNativeStage (env_of sv) (cmd_task c) (jget params ''native_token'') (jget params ''tab_id''))
      else bnd (commits_profile_stage sv c) (\<lambda>p. if p then profile_commit sv c else gated_command sv c))"

definition answered :: "native_command \<Rightarrow> js_error + js obj \<Rightarrow> js obj" where
  "answered c r = (case r of
      Inr resp \<Rightarrow> resp
    | Inl e \<Rightarrow> failure_answer (cmd_request c) (cmd_method c) (mutating c) e)"

definition dispatch_method :: "'w service \<Rightarrow> native_command \<Rightarrow> 'w worker sys \<Rightarrow> (js obj \<times> 'w worker sys) option" where
  "dispatch_method sv c s =
     map_option (\<lambda>(r, t). (answered c r, t))
       (if cmd_method c = ''browser_profile'' then profile_command sv c s else Some (run_command sv c s))"

definition answer_of :: "(js_error + js obj) \<times> 's \<Rightarrow> js obj \<times> 's" where
  "answer_of p = (case p of (Inr resp, t) \<Rightarrow> (resp, t) | (Inl e, t) \<Rightarrow> ([], t))"

text \<open>The native bridge hands over commands, \<open>close_task\<close> and \<open>finish_task\<close> only; the last two never throw.\<close>

fun dispatch_command :: "'w service \<Rightarrow> inbound \<Rightarrow> 'w worker sys \<Rightarrow> (js obj \<times> 'w worker sys) option" where
  "dispatch_command sv (Command c) s = dispatch_method sv c s"
| "dispatch_command sv (CloseTask request key) s =
     Some (answer_of (ending_answer request (close_command sv key) s))"
| "dispatch_command sv (FinishTask f) s =
     Some (answer_of (ending_answer (fin_request f)
       (finish_command sv (fin_task f) (disposition_of (fin_disposition f)) (keep_tab_ids f)) s))"
| "dispatch_command sv (EventAck a) s = None"
| "dispatch_command sv (Ready r) s = None"

end
