(* ===== verification/DispatchFacts.thy ===== *)
theory DispatchFacts
  imports Dispatch CommitFacts
begin

text \<open>
  What the dispatcher establishes before it calls a tool, as a congruence: two browser runtimes that agree
  where the guard of a command has passed cannot be told apart by any command. Also the facts about the
  answers: listed and opened tabs, the errors of the email code fill, and the form of an answer.
\<close>

section \<open>The guard\<close>

lemma owned_when_asserted:
  assumes "assertOwnedNow env key tab s = (Inr t, u)"
  shows "\<exists>st. cached u = Some st \<and> sole_owner st key tab = Some t \<and> groupId t \<noteq> None"
proof -
  from assms obtain st s1 x live s2 current where
    "sole_owner st key tab = Some x" "groupId x \<noteq> None" "readState (storage env) s2 = (Inr current, u)"
    "sole_owner current key tab = Some t" "groupId t = groupId x"
    unfolding assertOwnedNow_def eff_Inr by auto
  then show ?thesis using readState_caches by (intro exI [of _ current]) simp
qed

text \<open>What the policy of a command permits: a page without a checked scheme, or an allowed origin.\<close>

definition permits :: "(string \<Rightarrow> url_parts option) \<Rightarrow> origin_policy \<Rightarrow> string option \<Rightarrow> bool" where
  "permits parse p address \<longleftrightarrow> (\<exists>raw url. address = Some raw \<and> parse raw = Some url \<and>
     (http_url url \<longrightarrow> \<not> list_ex (\<lambda>pat. originMatches pat url) (denied_origins p) \<and>
       (allowed_origins p = [] \<or> list_ex (\<lambda>pat. originMatches pat url) (allowed_origins p))))"

lemma full_route_scheme:
  "automationRoute parse (Some raw) = Full \<Longrightarrow> parse raw = Some url \<Longrightarrow> http_url url \<or> url_protocol url = ''about:''"
  by (auto simp: automationRoute_def http_url_def split: if_splits)

lemma check_address_iff: "check_address parse p address = Inr () \<longleftrightarrow> permits parse p address"
proof (cases address)
  case (Some raw)
  then show ?thesis
  proof (cases "parse raw")
    case (Some url)
    have "automationRoute parse (Some raw) = TabOnly \<or> http_url url \<or> url_protocol url = ''about:''"
      using full_route_scheme [of parse raw url] Some by (cases "automationRoute parse (Some raw)") auto
    then show ?thesis using Some \<open>address = Some raw\<close>
      by (auto simp: check_address_def check_url_def permits_def http_url_def)
  qed (auto simp: check_address_def permits_def)
qed (simp add: check_address_def permits_def)

lemma check_address_codes:
  "check_address parse p address = Inl e \<Longrightarrow> error_code e \<noteq> Some ''scheme_denied''"
proof (cases address)
  case (Some raw)
  assume e: "check_address parse p address = Inl e"
  then show ?thesis
  proof (cases "parse raw")
    case (Some url)
    have "automationRoute parse (Some raw) = TabOnly \<or> http_url url \<or> url_protocol url = ''about:''"
      using full_route_scheme [of parse raw url] Some by (cases "automationRoute parse (Some raw)") auto
    then show ?thesis using e Some \<open>address = Some raw\<close>
      by (auto simp: check_address_def check_url_def split: if_splits)
  qed (use e Some in \<open>auto simp: check_address_def origin_unavailable_def\<close>)
qed (auto simp: check_address_def origin_unavailable_def)

lemma check_Inr [simp]: "check r s = (Inr x, t) \<longleftrightarrow> r = Inr x \<and> s = t"
  by (cases r) (simp_all add: check_def throw_def)

lemma assertCurrentOrigin_Inr:
  assumes "assertCurrentOrigin sv tab (Some p) s = (Inr (), u)"
  shows "policy_tab p = tab \<and> cached u = cached s \<and>
    (\<exists>w live. tabs_get (henv sv) tab w = (Inr live, world u) \<and> permits (parse_url (henv sv)) p (tab_address live))"
proof -
  from assms obtain live where t: "policy_tab p = tab" and c: "call (tabs_get (henv sv) tab) s = (Inr live, u)"
      "check_address (parse_url (henv sv)) p (tab_address live) = Inr ()"
    by (auto simp: assertCurrentOrigin_def eff_Inr split: if_splits)
  from c(1) have "tabs_get (henv sv) tab (world s) = (Inr live, world u)" "cached u = cached s"
    by (auto simp: call_def split: prod.splits)
  with t c(2) show ?thesis by (auto simp: check_address_iff)
qed

text \<open>
  The guard passed: the task is the only owner of the tab, which has a group, and when there is a policy,
  it names this tab and permits the page that Chrome showed last.
\<close>

definition cleared :: "'w service \<Rightarrow> native_command \<Rightarrow> int \<Rightarrow> 'w worker sys \<Rightarrow> bool" where
  "cleared sv c tab u \<longleftrightarrow>
     (\<exists>st t. cached u = Some st \<and> sole_owner st (cmd_task c) tab = Some t \<and> groupId t \<noteq> None) \<and>
     (\<forall>p. cmd_policy c = Some p \<longrightarrow> policy_tab p = tab \<and>
       (\<exists>w live w'. tabs_get (henv sv) tab w = (Inr live, w') \<and> outside w' = outside (world u) \<and>
         permits (parse_url (henv sv)) p (tab_address live)))"

lemma cleared_by_parts:
  assumes o: "assertOwnedNow (env_of sv) (cmd_task c) tab s = (Inr t, u)"
    and p: "assertCurrentOrigin sv tab (cmd_policy c) u = (Inr (), v)"
  shows "cleared sv c tab v"
proof (cases "cmd_policy c")
  case None
  then have "v = u" using p by (simp add: assertCurrentOrigin_def)
  then show ?thesis using owned_when_asserted [OF o] None by (auto simp: cleared_def)
next
  case (Some q)
  from assertCurrentOrigin_Inr [OF p [unfolded Some]] owned_when_asserted [OF o] Some
  show ?thesis unfolding cleared_def by (metis option.inject)
qed

lemma guard_clears: "tab_guard sv c tab s = (Inr (), u) \<Longrightarrow> cleared sv c tab u"
  using cleared_by_parts by (auto simp: tab_guard_def eff_Inr)

lemma cleared_watched:
  "cleared sv c tab u \<Longrightarrow> watchNavigation tab u = (Inr i, v) \<Longrightarrow> cleared sv c tab v"
  by (auto simp: cleared_def watchNavigation_def read_worker_def set_worker_def eff_Inr)

section \<open>Runtimes that agree where the guard passed\<close>

text \<open>
  \<open>agree sv c a b\<close>: the runtimes \<open>a\<close> and \<open>b\<close> differ at most in the tools that act on a tab or read it, and
  those give the same wherever the guard of the command passed for that tab.
\<close>

definition agree :: "'w service \<Rightarrow> native_command \<Rightarrow> 'w tools \<Rightarrow> 'w tools \<Rightarrow> bool" where
  "agree sv c a b \<longleftrightarrow>
     tool_scan a = tool_scan b \<and> tool_wait a = tool_wait b \<and> openDialog a = openDialog b \<and>
     (\<forall>tab u. cleared sv c tab u \<longrightarrow>
       (\<forall>x y z. tool_act a (cmd_task c) tab x y z u = tool_act b (cmd_task c) tab x y z u) \<and>
       (\<forall>x. tool_commit a (cmd_task c) x u = tool_commit b (cmd_task c) x u) \<and>
       (\<forall>x. tool_snapshot a (cmd_task c) tab x u = tool_snapshot b (cmd_task c) tab x u) \<and>
       (\<forall>x y. tool_developer a tab x y u = tool_developer b tab x y u) \<and>
       (\<forall>x y. tool_credentials a (cmd_task c) tab x y u = tool_credentials b (cmd_task c) tab x y u) \<and>
       (\<forall>x. tool_email a (cmd_task c) tab x u = tool_email b (cmd_task c) tab x u))"

lemma try_cong_run: "m s = n s \<Longrightarrow> try_catch m h s = try_catch n h s"
  by (simp add: try_catch_def)

lemma bnd_cong_first: "m s = n s \<Longrightarrow> bnd m f s = bnd n f s"
  by (simp add: bnd_def)

text \<open>What does not use the runtime at all.\<close>

lemma enter_tools [simp]: "enter (sv\<lparr>tools := a\<rparr>) enq = enter sv enq"
  by (simp add: enter_def wait_def cong: sum.case_cong)

lemma slot_tools [simp]: "slot (sv\<lparr>tools := a\<rparr>) enq m = slot sv enq m"
  by (simp add: slot_def)

lemma loop_slot_tools [simp]: "loop_slot (sv\<lparr>tools := a\<rparr>) enq m = loop_slot sv enq m"
  by (rule ext) (simp add: loop_slot_def)

lemma guard_tools [simp]:
  "assertCurrentOrigin (sv\<lparr>tools := a\<rparr>) tab policy = assertCurrentOrigin sv tab policy"
  "tab_guard (sv\<lparr>tools := a\<rparr>) c tab = tab_guard sv c tab"
  "automationEnabled (sv\<lparr>tools := a\<rparr>) = automationEnabled sv"
  "require_automation (sv\<lparr>tools := a\<rparr>) = require_automation sv"
  "assertHandoffRoute (sv\<lparr>tools := a\<rparr>) tab ps policy = assertHandoffRoute sv tab ps policy"
  by (simp_all add: assertCurrentOrigin_def tab_guard_def automationEnabled_def require_automation_def
      assertHandoffRoute_def cong: option.case_cong if_cong)

lemma profile_command_tools [simp]: "profile_command (sv\<lparr>tools := a\<rparr>) c = profile_command sv c"
proof -
  have "profile_refused (sv\<lparr>tools := a\<rparr>) c = profile_refused sv c" by (simp add: profile_refused_def)
  then show ?thesis by (simp add: profile_command_def [abs_def] cong: prod.case_cong sum.case_cong)
qed

lemma plain_command_tools [simp]:
  "handoff_command (sv\<lparr>tools := a\<rparr>) c = handoff_command sv c"
  "tabs_command (sv\<lparr>tools := a\<rparr>) c = tabs_command sv c"
  "profile_commit (sv\<lparr>tools := a\<rparr>) c = profile_commit sv c"
  "commits_profile_stage (sv\<lparr>tools := a\<rparr>) c = commits_profile_stage sv c"
  by (simp_all add: handoff_command_def handoff_request_def handoff_target_def refuse_while_paused_def tabs_command_def
      listed_tab_def [abs_def] profile_commit_def commits_profile_stage_def
      cong: if_cong)

lemma settling_tools [simp]:
  "settleOpenedTab (sv\<lparr>tools := a\<rparr>) key opened fresh = settleOpenedTab sv key opened fresh"
  "settleNavigation (sv\<lparr>tools := a\<rparr>) i tab = settleNavigation sv i tab"
  by (simp_all add: settleOpenedTab_def await_load_def settled_tab_def status_or_null_def settleNavigation_def wait_def
      cong: if_cong)

lemma slot_cong_at:
  assumes "\<And>i u. enter sv enq s = (Inr i, u) \<Longrightarrow> m u = n u"
  shows "slot sv enq m s = slot sv enq n s"
  unfolding slot_def by (rule bnd_cong_run) (simp add: assms)

lemma scan_same:
  assumes agree: "agree sv c a b"
  shows "withChallenge (sv\<lparr>tools := a\<rparr>) key tab r old = withChallenge (sv\<lparr>tools := b\<rparr>) key tab r old"
  using agree by (simp add: withChallenge_def agree_def)

lemma observe_same:
  assumes agree: "agree sv c a b"
  shows "observeNavigatedPage (sv\<lparr>tools := a\<rparr>) key tab r old = observeNavigatedPage (sv\<lparr>tools := b\<rparr>) key tab r old"
  by (simp add: observeNavigatedPage_def scan_same [OF agree] cong: if_cong)

lemma guarded_same:
  assumes agree: "agree sv c a b" and "\<And>u. cleared sv c tab u \<Longrightarrow> m u = n u"
  shows "tab_slot (sv\<lparr>tools := a\<rparr>) c tab m = tab_slot (sv\<lparr>tools := b\<rparr>) c tab n"
proof (rule ext)
  fix s
  show "tab_slot (sv\<lparr>tools := a\<rparr>) c tab m s = tab_slot (sv\<lparr>tools := b\<rparr>) c tab n s"
    unfolding tab_slot_def
    by (simp, intro slot_cong_at seq_cong_run) (auto intro: assms dest: guard_clears)
qed

lemma tools_where_cleared:
  assumes agree: "agree sv c a b" and "cleared sv c tab u"
  shows "tool_act a (cmd_task c) tab x y z u = tool_act b (cmd_task c) tab x y z u"
    and "tool_commit a (cmd_task c) p u = tool_commit b (cmd_task c) p u"
    and "tool_snapshot a (cmd_task c) tab p u = tool_snapshot b (cmd_task c) tab p u"
    and "tool_developer a tab m p u = tool_developer b tab m p u"
    and "tool_credentials a (cmd_task c) tab x y u = tool_credentials b (cmd_task c) tab x y u"
    and "tool_email a (cmd_task c) tab q u = tool_email b (cmd_task c) tab q u"
  using agree assms by (simp_all add: agree_def)

lemma tab_command_same:
  assumes agree: "agree sv c a b"
  shows "commit_command (sv\<lparr>tools := a\<rparr>) c = commit_command (sv\<lparr>tools := b\<rparr>) c"
  "developer_command (sv\<lparr>tools := a\<rparr>) c = developer_command (sv\<lparr>tools := b\<rparr>) c"
  "credentials_command (sv\<lparr>tools := a\<rparr>) c = credentials_command (sv\<lparr>tools := b\<rparr>) c"
  by (simp_all add: commit_command_def developer_command_def credentials_command_def completes_def Let_def
      guarded_same [OF agree tools_where_cleared(2) [OF agree]] guarded_same [OF agree tools_where_cleared(4) [OF agree]]
      guarded_same [OF agree tools_where_cleared(5) [OF agree]] cong: if_cong)

lemma email_same:
  assumes agree: "agree sv c a b"
  shows "email_command (sv\<lparr>tools := a\<rparr>) c = email_command (sv\<lparr>tools := b\<rparr>) c"
proof -
  have "judged_slot (sv\<lparr>tools := a\<rparr>) enq (seq (tab_guard sv c tab) (attempt (tool_email a (cmd_task c) tab q))) s =
      judged_slot (sv\<lparr>tools := b\<rparr>) enq (seq (tab_guard sv c tab) (attempt (tool_email b (cmd_task c) tab q))) s" for enq tab q s
  proof -
    have "seq (tab_guard sv c tab) (attempt (tool_email a (cmd_task c) tab q)) u =
        seq (tab_guard sv c tab) (attempt (tool_email b (cmd_task c) tab q)) u" for u
      by (rule seq_cong_run) (simp add: attempt_def try_catch_def bnd_def tools_where_cleared(6) [OF agree guard_clears])
    then show ?thesis by (simp add: judged_slot_def)
  qed
  then have "judged_slot (sv\<lparr>tools := a\<rparr>) enq (seq (tab_guard sv c tab) (attempt (tool_email a (cmd_task c) tab q))) =
      judged_slot (sv\<lparr>tools := b\<rparr>) enq (seq (tab_guard sv c tab) (attempt (tool_email b (cmd_task c) tab q)))" for enq tab q
    by blast
  then show ?thesis by (simp add: email_command_def)
qed

lemma snapshot_same:
  fixes sv :: "'w service"
  assumes agree: "agree sv c a b"
  shows "snapshot_command (sv\<lparr>tools := a\<rparr>) c tab = snapshot_command (sv\<lparr>tools := b\<rparr>) c tab"
proof -
  have "slot sv enq (seq (tab_guard sv c tab) (bnd (tool_snapshot a (cmd_task c) tab p) f)) s =
      slot sv enq (seq (tab_guard sv c tab) (bnd (tool_snapshot b (cmd_task c) tab p) f)) s" for enq p f s
    by (intro slot_cong_at seq_cong_run bnd_cong_first tools_where_cleared(3) [OF agree]) (auto dest: guard_clears)
  then have "slot sv enq (seq (tab_guard sv c tab) (bnd (tool_snapshot a (cmd_task c) tab p) f)) =
      slot sv enq (seq (tab_guard sv c tab) (bnd (tool_snapshot b (cmd_task c) tab p) f))" for enq p and f :: "_ \<Rightarrow> ('w, js obj) work"
    by blast
  then show ?thesis by (simp add: snapshot_command_def scan_same [OF agree])
qed

lemma wait_same:
  assumes agree: "agree sv c a b"
  shows "wait_command (sv\<lparr>tools := a\<rparr>) c tab = wait_command (sv\<lparr>tools := b\<rparr>) c tab"
  using agree by (simp add: wait_command_def scan_same [OF agree] revalidate_def agree_def)

lemma open_same:
  assumes agree: "agree sv c a b"
  shows "open_command (sv\<lparr>tools := a\<rparr>) c = open_command (sv\<lparr>tools := b\<rparr>) c"
  by (simp add: open_command_def scan_same [OF agree] cong: if_cong)

lemma act_work_same:
  assumes agree: "agree sv c a b"
  shows "act_work (sv\<lparr>tools := a\<rparr>) c tab s = act_work (sv\<lparr>tools := b\<rparr>) c tab s"
proof -
  have acts: "act_call (sv\<lparr>tools := a\<rparr>) c tab u = act_call (sv\<lparr>tools := b\<rparr>) c tab u" if "cleared sv c tab u" for u
    using tools_where_cleared(1) [OF agree that] by (simp add: act_call_def cong: if_cong)
  have scans: "scan_execution (sv\<lparr>tools := a\<rparr>) c tab x = scan_execution (sv\<lparr>tools := b\<rparr>) c tab x" for x
    by (simp add: scan_execution_def scan_same [OF agree])
  have run: "watched_act (sv\<lparr>tools := a\<rparr>) c tab i u = watched_act (sv\<lparr>tools := b\<rparr>) c tab i u"
    "plain_act (sv\<lparr>tools := a\<rparr>) c tab u = plain_act (sv\<lparr>tools := b\<rparr>) c tab u" if "cleared sv c tab u" for i u
    unfolding watched_act_def plain_act_def scans using acts [OF that]
    by (auto intro!: try_cong_run bnd_cong_first)
  have "act_guard (sv\<lparr>tools := a\<rparr>) c tab = act_guard sv c tab" for a by (simp add: act_guard_def)
  moreover have "cleared sv c tab u" if "act_guard sv c tab s = (Inr (), u)" for u
    using that cleared_by_parts by (auto simp: act_guard_def eff_Inr)
  ultimately show ?thesis
    unfolding act_work_def
    by (auto intro!: seq_cong_run bnd_cong_run run dest: cleared_watched)
qed

lemma act_same:
  assumes agree: "agree sv c a b"
  shows "act_command (sv\<lparr>tools := a\<rparr>) c tab = act_command (sv\<lparr>tools := b\<rparr>) c tab"
proof -
  have "slot sv enq (act_work (sv\<lparr>tools := a\<rparr>) c tab) = slot sv enq (act_work (sv\<lparr>tools := b\<rparr>) c tab)" for enq
    by (rule ext) (intro slot_cong_at act_work_same [OF agree])
  moreover have "openDialog a = openDialog b" using agree by (simp add: agree_def)
  ultimately show ?thesis
    by (simp add: act_command_def observed_execution_def observe_same [OF agree] cong: option.case_cong if_cong)
qed

theorem agreeing_runtimes_same:
  assumes agree: "agree sv c a b"
  shows "dispatch_method (sv\<lparr>tools := a\<rparr>) c s = dispatch_method (sv\<lparr>tools := b\<rparr>) c s"
  by (simp add: dispatch_method_def run_command_def gated_command_def Let_def open_same [OF agree] tab_command_same [OF agree] email_same [OF agree]
      snapshot_same [OF agree] wait_same [OF agree] act_same [OF agree] cong: if_cong)

section \<open>Answers\<close>

text \<open>\<open>yields P m\<close>: what \<open>m\<close> returns satisfies \<open>P\<close>.\<close>

definition yields :: "('a \<Rightarrow> bool) \<Rightarrow> ('s, 'e, 'a) eff \<Rightarrow> bool" where
  "yields P m \<longleftrightarrow> (\<forall>s x t. m s = (Inr x, t) \<longrightarrow> P x)"

named_theorems yields_rules

lemma yieldsD: "yields P m \<Longrightarrow> m s = (Inr x, t) \<Longrightarrow> P x"
  by (auto simp: yields_def)

lemma yields_ret [yields_rules]: "P x \<Longrightarrow> yields P (ret x)"
  by (simp add: yields_def)

lemma yields_throw [yields_rules]: "yields P (throw e)"
  by (simp add: yields_def)

lemma yields_bnd [yields_rules]: "(\<And>x. yields P (f x)) \<Longrightarrow> yields P (bnd m f)"
  unfolding yields_def bnd_Inr by blast

lemma yields_seq [yields_rules]: "yields P n \<Longrightarrow> yields P (seq m n)"
  by (simp add: seq_def yields_rules)

lemma yields_try [yields_rules]: "yields P m \<Longrightarrow> (\<And>e. yields P (h e)) \<Longrightarrow> yields P (try_catch m h)"
  by (fastforce simp: yields_def try_catch_def split: prod.splits sum.splits)

lemma yields_finally [yields_rules]: "yields P m \<Longrightarrow> yields P (finally_do m f)"
  by (auto simp: yields_def finally_do_def try_catch_def eff_Inr split: prod.splits sum.splits)

lemma yields_if [yields_rules]: "(b \<Longrightarrow> yields P m) \<Longrightarrow> (\<not> b \<Longrightarrow> yields P n) \<Longrightarrow> yields P (if b then m else n)"
  by simp

lemma yields_case_sum [yields_rules]:
  "(\<And>e. yields P (f e)) \<Longrightarrow> (\<And>x. yields P (g x)) \<Longrightarrow> yields P (case r of Inl e \<Rightarrow> f e | Inr x \<Rightarrow> g x)"
  by (cases r) simp_all

lemma yields_case_prod [yields_rules]: "(\<And>x y. yields P (f x y)) \<Longrightarrow> yields P (case p of (x, y) \<Rightarrow> f x y)"
  by (cases p) simp

definition outcomes :: "string list" where
  "outcomes = [''completed'', ''needs_user'', ''commit_required'', ''not_started'', ''unknown'']"

text \<open>An answer to the request, with an outcome of the protocol.\<close>

definition answers_to :: "string \<Rightarrow> js obj \<Rightarrow> bool" where
  "answers_to request resp \<longleftrightarrow> jget resp ''protocol'' = Str NATIVE_PROTOCOL \<and> jget resp ''kind'' = Str ''response'' \<and>
     jget resp ''request_id'' = Str request \<and> (\<exists>oc \<in> set outcomes. jget resp ''outcome'' = Str oc)"

lemma answers_response [simp]:
  "answers_to request (response request' oc @ rest) \<longleftrightarrow> request = request' \<and> oc \<in> set outcomes"
  by (auto simp: answers_to_def response_def envelope_def)

lemma answers_built [simp]:
  "answers_to request (completed request' r) \<longleftrightarrow> request = request'"
  "answers_to request (needsUser request' r) \<longleftrightarrow> request = request'"
  "answers_to request (commitRequired request' r staged) \<longleftrightarrow> request = request'"
  "answers_to request (failed request' code m oc rec det) \<longleftrightarrow> request = request' \<and> oc \<in> set outcomes"
  by (simp_all add: completed_def needsUser_def commitRequired_def failed_def)
    (simp_all add: outcomes_def)

lemma answers_command [simp]:
  "answers_to (cmd_request c) (answer_completed c r)" "answers_to (cmd_request c) (act_answer c x)"
  "answers_to (cmd_request c) (profile_answer c y)"
  by (simp_all add: answer_completed_def act_answer_def profile_answer_def split: option.split)

lemma failure_answers: "answers_to request (failure_answer request m mutates e)"
  by (simp add: failure_answer_def Let_def errorOutcome_def outcomes_def)

lemma yields_completes [yields_rules]: "yields (answers_to (cmd_request c)) (completes c m)"
  by (simp add: completes_def yields_rules)

lemma run_command_answers: "yields (answers_to (cmd_request c)) (run_command sv c)"
  by (auto simp: run_command_def gated_command_def Let_def open_command_def tabs_command_def handoff_command_def
      commit_command_def developer_command_def credentials_command_def email_command_def snapshot_command_def
      wait_command_def act_command_def profile_commit_def intro!: yields_rules)

lemma sum_all_cases: "(\<forall>e. r = Inl e \<longrightarrow> P e) \<Longrightarrow> (\<forall>x. r = Inr x \<longrightarrow> Q x) \<Longrightarrow> (\<exists>e. r = Inl e \<and> P e) \<or> (\<exists>x. r = Inr x \<and> Q x)"
  by (cases r) auto

lemma followed_Inr: "followed m f s = Some (Inr y, t) \<longleftrightarrow> (\<exists>x u. m s = Some (Inr x, u) \<and> f x u = (Inr y, t))"
proof (cases "m s")
  case (Some p)
  then show ?thesis by (cases p; cases "fst p") (auto simp: followed_def)
qed (simp add: followed_def)

lemma profile_command_answers:
  "profile_command sv c s = Some (Inr resp, t) \<Longrightarrow> answers_to (cmd_request c) resp"
  by (cases "profile_refused sv c s"; cases "fst (profile_refused sv c s)")
    (auto simp: profile_command_def followed_Inr)

lemma method_answers: "dispatch_method sv c s = Some (resp, t) \<Longrightarrow> answers_to (cmd_request c) resp"
  by (auto simp: dispatch_method_def answered_def failure_answers split: if_splits sum.splits
      dest!: sum_all_cases dest: profile_command_answers yieldsD [OF run_command_answers])

lemma ending_answers: "answer_of (ending_answer request m s) = (resp, t) \<Longrightarrow> answers_to request resp"
  by (auto simp: answer_of_def ending_answer_def eff_defs outcomes_def split: prod.splits sum.split_asm)

section \<open>The tab that was opened\<close>

lemma taskIdForTab_owner:
  assumes "taskIdForTab env tab s = (Inr (Some key), u)"
  shows "\<exists>st t. cached u = Some st \<and> owner st tab = Some t \<and> taskId t = key \<and> groupId t \<noteq> None"
  using assms readState_caches
  by (fastforce simp: taskIdForTab_def eff_Inr split: option.splits if_splits)

lemma describeTab_id: "describeTab env tab s = (Inr d, u) \<Longrightarrow> jget d ''tab_id'' = js_int tab"
  by (auto simp: describeTab_def eff_Inr Let_def)

lemma settled_tab_owner:
  assumes "settled_tab sv key tab s = (Inr d, u)"
  shows "jget d ''tab_id'' = js_int tab \<and>
    (\<exists>st t. cached u = Some st \<and> owner st tab = Some t \<and> taskId t = key \<and> groupId t \<noteq> None)"
  using assms
  by (auto simp: settled_tab_def eff_Inr quiet_def try_catch_def split: option.splits if_splits prod.splits sum.splits
      dest: describeTab_id taskIdForTab_owner)

lemma finally_Inr: "finally_do m f s = (Inr x, t) \<longleftrightarrow> (\<exists>u v. m s = (Inr x, u) \<and> f u = (Inr v, t))"
  by (auto simp: finally_do_def try_catch_def bnd_def seq_def throw_def ret_def split: prod.splits sum.splits)

lemma settleOpenedTab_owner:
  assumes "settleOpenedTab sv key opened fresh s = (Inr d, u)" and "jget opened ''tab_id'' = js_int tab"
  shows "jget d ''tab_id'' = js_int tab \<and>
    (\<exists>st t. cached u = Some st \<and> owner st tab = Some t \<and> taskId t = key \<and> groupId t \<noteq> None)"
proof -
  from assms obtain v w where "settled_tab sv key tab v = (Inr d, w)" "cached u = cached w"
    by (auto simp: settleOpenedTab_def Let_def eff_Inr finally_Inr drop_waiter_def set_worker_def is_num_def js_int_def)
  with settled_tab_owner show ?thesis by metis
qed

end
