(* ===== verification/AnswerFacts.thy ===== *)
theory AnswerFacts
  imports DispatchFacts
begin

text \<open>
  What the answers of the dispatcher can hold: the errors of the email code fill consist of fixed texts, the
  listed tabs are those of the task, and the error of a batch that named a restricted page.
\<close>

section \<open>Email codes\<close>

lemma jget_update: "jget (AList.update k v ob) k' = (if k = k' then v else jget ob k')"
  by (simp add: jget_def)

lemma jget_in: "jget ob k \<noteq> Undefined \<Longrightarrow> (k, jget ob k) \<in> set ob"
  by (auto simp: jget_def split: option.splits dest: map_of_SomeD)

lemma sanitized_code: "jget (err_fields (sanitized oc e)) ''code'' = Str (known_code (ThrownError e))"
  by (auto simp: sanitized_def sanitizeEmailCodeFailure_def emailCodeError_def with_field_def Let_def jget_update
      split: js.split)

text \<open>Every text that a sanitized error holds is fixed; its one number is the page revision.\<close>

definition fixed_field :: "string \<Rightarrow> js \<Rightarrow> bool" where
  "fixed_field k v \<longleftrightarrow> v = Undefined \<or> (\<exists>t \<in> fixed_texts. v = Str t) \<or> (k = ''currentPageRevision'' \<and> (\<exists>n. v = Num n))"

lemma sanitized_fields:
  assumes "oc = ''not_started'' \<or> oc = ''unknown''"
  shows "err_message (sanitized oc e) \<in> fixed_texts" and "fixed_field k (jget (err_fields (sanitized oc e)) k)"
proof -
  from assms have oc: "Some oc = None \<or> Some oc = Some ''not_started'' \<or> Some oc = Some ''unknown''" by simp
  show "err_message (sanitized oc e) \<in> fixed_texts" unfolding sanitized_def by (rule sanitized_fixed(1) [OF oc])
  show "fixed_field k (jget (err_fields (sanitized oc e)) k)"
    using jget_in [of "err_fields (sanitized oc e)" k] sanitized_fixed(2) [OF oc, of k _ "ThrownError e"]
    unfolding fixed_field_def sanitized_def by blast
qed

definition fixed_error :: "js_error \<Rightarrow> bool" where
  "fixed_error e \<longleftrightarrow> err_message e \<in> fixed_texts \<and> is_str (jget (err_fields e) ''code'') \<and>
     (\<forall>k. fixed_field k (jget (err_fields e) k))"

lemma sanitized_is_fixed: "oc = ''not_started'' \<or> oc = ''unknown'' \<Longrightarrow> fixed_error (sanitized oc e)"
  using sanitized_fields by (simp add: fixed_error_def sanitized_code)

lemma email_command_fails_fixed: "email_command sv c s = (Inl e, t) \<Longrightarrow> fixed_error e"
  by (auto simp: email_command_def bnd_def try_catch_def throw_def ret_def sanitized_is_fixed
      split: prod.splits sum.splits dest!: sum_all_cases)

text \<open>The error member of an answer: fixed texts, and the current page revision as its only detail.\<close>

definition fixed_answer :: "js obj \<Rightarrow> bool" where
  "fixed_answer resp \<longleftrightarrow> (\<exists>err. jget resp ''error'' = Obj err \<and>
     (\<forall>(k, v) \<in> set err. (\<exists>t \<in> fixed_texts. v = Str t) \<or>
       (k = ''details'' \<and> (\<exists>n. v = Obj [(''current_page_revision'', Num n)]))))"

lemma fixed_field_kinds:
  "fixed_field k v \<Longrightarrow> k \<noteq> ''currentPageRevision'' \<Longrightarrow> \<not> is_num v"
  "fixed_field k v \<Longrightarrow> \<not> is_arr v" "fixed_field k v \<Longrightarrow> \<not> isRecord v"
  by (auto simp: fixed_field_def is_num_def is_arr_def isRecord_def)

lemma fixed_details:
  assumes "fixed_error e"
  shows "errorDetails (ThrownError e) = None \<or>
    (\<exists>n. errorDetails (ThrownError e) = Some [(''current_page_revision'', Num n)])"
proof -
  have f: "fixed_field k (jget (err_fields e) k)" for k using assms by (simp add: fixed_error_def)
  have none: "detail l is_arr (jget (err_fields e) k) = []" "detail l isRecord (jget (err_fields e) k) = []" for k l
    using fixed_field_kinds(2,3) [OF f, of k] by (simp_all add: detail_def)
  have "detail ''failed_action_index'' is_num (jget (err_fields e) ''failedActionIndex'') = []"
    using fixed_field_kinds(1) [OF f, of "''failedActionIndex''"] by (simp add: detail_def)
  moreover have "detail ''current_page_revision'' is_num v = [] \<or>
      (\<exists>n. detail ''current_page_revision'' is_num v = [(''current_page_revision'', Num n)])" for v
    by (cases v) (auto simp: detail_def is_num_def)
  ultimately show ?thesis
    by (auto simp: errorDetails_def Let_def thrown_field_def thrown_record_def none)
qed

lemma fixed_str: "fixed_field k (Str t) \<Longrightarrow> t \<in> fixed_texts"
  by (auto simp: fixed_field_def)

lemma jget_failed: "jget (failed request code message oc rec det) ''error'' = Obj ([(''code'', Str code), (''message'', Str message)] @
    (case rec of Some (x # xs) \<Rightarrow> [(''recovery'', Str (x # xs))] | _ \<Rightarrow> []) @
    (case det of None \<Rightarrow> [] | Some d \<Rightarrow> [(''details'', Obj d)]))"
  by (simp add: failed_def response_def envelope_def)

lemma fixed_failure:
  assumes "fixed_error e"
  shows "fixed_answer (failure_answer request m mutates e)"
proof -
  from assms have c: "is_str (jget (err_fields e) ''code'')" and m: "err_message e \<in> fixed_texts"
    and f: "fixed_field k (jget (err_fields e) k)" for k by (simp_all add: fixed_error_def)
  let ?t = "ThrownError e"
  have same: "normalizeRestrictedOriginError (\<lambda>v. []) ?t m = ?t"
    using c by (simp add: normalizeRestrictedOriginError_def thrown_field_def thrown_record_def)
  obtain x where x: "jget (err_fields e) ''code'' = Str x" using is_strD [OF c] by blast
  then have code: "errorCode ?t \<in> fixed_texts"
    using fixed_str [of "''code''" x] f [of "''code''"] by (simp add: errorCode_def thrown_field_def thrown_record_def)
  have rec: "r \<in> fixed_texts" if "errorRecovery ?t = Some r" for r
    using that fixed_str [of "''recovery''" r] f [of "''recovery''"]
    by (auto simp: errorRecovery_def thrown_field_def thrown_record_def split: js.splits)
  show ?thesis
    unfolding failure_answer_def Let_def same fixed_answer_def jget_failed
    using code m rec fixed_details [OF assms]
    by (auto simp: thrown_message_def split: option.splits list.splits)
qed

section \<open>Listed tabs\<close>

lemma fold_each_Inr:
  assumes "\<And>acc x s acc' t. x \<in> set xs \<Longrightarrow> f acc x s = (Inr acc', t) \<Longrightarrow> P acc \<Longrightarrow> P acc'"
  shows "fold_each xs acc f s = (Inr r, u) \<Longrightarrow> P acc \<Longrightarrow> P r"
  using assms by (induction xs arbitrary: acc s) (auto simp: bnd_Inr, blast)

text \<open>An entry for a tab that the ledger gives the task.\<close>

definition ledger_entry :: "ext_state \<Rightarrow> js \<Rightarrow> bool" where
  "ledger_entry st v \<longleftrightarrow> (\<exists>k t i. (k, t) \<in> set (tasks st) \<and> i \<in> set (tabIds t) \<and>
     jget (the_obj v) ''task_id'' = Str (taskId t) \<and> jget (the_obj v) ''tab_id'' = js_int i)"

lemma inventory_entries:
  assumes "inventory env s = (Inr items, u)" and "cached s = Some st"
  shows "\<forall>v \<in> set items. ledger_entry st v"
proof -
  from assms obtain tabs v where
    run: "fold_each (map snd (tasks st)) [] (\<lambda>acc t. if groupId t = None then ret acc
        else fold_each (tabIds t) acc (inventory_entry env (by_id tabs) t)) v = (Inr items, u)"
    by (auto simp: inventory_def eff_Inr readState_cached)
  have one: "\<forall>v \<in> set acc'. ledger_entry st v"
    if "i \<in> set (tabIds t)" "t \<in> set (map snd (tasks st))" "inventory_entry env look t acc i s1 = (Inr acc', t1)"
      "\<forall>v \<in> set acc. ledger_entry st v" for i t acc acc' s1 t1 look
    using that by (auto simp: inventory_entry_def eff_Inr ledger_entry_def js_int_def split: option.splits if_splits) blast
  have task: "\<forall>v \<in> set acc'. ledger_entry st v"
    if t: "t \<in> set (map snd (tasks st))" and r: "(if groupId t = None then ret acc
        else fold_each (tabIds t) acc (inventory_entry env look t)) s1 = (Inr acc', t1)"
      and a: "\<forall>v \<in> set acc. ledger_entry st v" for t acc acc' s1 t1 look
  proof (cases "groupId t")
    case None
    with r a show ?thesis by simp
  next
    case (Some g)
    with r have "fold_each (tabIds t) acc (inventory_entry env look t) s1 = (Inr acc', t1)" by simp
    then show ?thesis by (rule fold_each_Inr [where P = "\<lambda>acc. \<forall>v \<in> set acc. ledger_entry st v", rotated])
      (use one [OF _ t] a in blast)+
  qed
  show ?thesis
    by (rule fold_each_Inr [where P = "\<lambda>acc. \<forall>v \<in> set acc. ledger_entry st v", OF task run]) auto
qed

lemma listed_tab_fields:
  "k \<noteq> ''automation_route'' \<Longrightarrow> k \<noteq> ''route_reason'' \<Longrightarrow> jget (the_obj (listed_tab sv v)) k = jget (the_obj v) k"
  by (simp add: listed_tab_def spread_def automationRouteFields_def jget_update)

text \<open>A slot is entered after \<open>meanwhile\<close>, in a state that differs from it in the scheduler only.\<close>

lemma enter_state:
  assumes "enter sv enq s = (Inr i, u)"
  shows "\<exists>sc. u = (meanwhile sv (s\<lparr>scheduler := sc\<rparr>))\<lparr>scheduler := scheduler u\<rparr>"
  using assms
  by (auto simp: enter_def eff_Inr with_scheduler_def wait_def split: prod.splits sum.splits option.splits dest!: sum_all_cases)

lemma ready_scheduler [simp]: "ready (s\<lparr>scheduler := sc\<rparr>) = ready s"
  by (simp add: ready_def)

lemma enter_ready:
  assumes "enter sv enq s = (Inr i, u)" and "\<And>x. ready x \<Longrightarrow> ready (meanwhile sv x)" and "ready s"
  shows "ready u"
  using enter_state [OF assms(1)] assms(2,3) ready_scheduler by metis

lemma slot_Inr: "slot sv enq m s = (Inr x, t) \<longleftrightarrow> (\<exists>i u v. enter sv enq s = (Inr i, u) \<and> m u = (Inr x, v) \<and> t = leave i True v)"
proof -
  have "(case m u of (r, t) \<Rightarrow> (r, leave i (is_Inr r) t)) = (Inr x, t) \<longleftrightarrow> (\<exists>v. m u = (Inr x, v) \<and> t = leave i True v)" for i u
    by (cases "m u") (auto simp: is_Inr_def)
  then show ?thesis by (auto simp: slot_def bnd_Inr)
qed

lemma ledger_entry_owns:
  assumes "ext_ok st" and "ledger_entry st v" and "jget (the_obj v) ''task_id'' = Str key"
  shows "\<exists>i. jget (the_obj v) ''tab_id'' = js_int i \<and> owns key i st"
proof -
  from assms(2,3) obtain k t i where e: "(k, t) \<in> set (tasks st)" "i \<in> set (tabIds t)" "taskId t = key"
      "jget (the_obj v) ''tab_id'' = js_int i" by (auto simp: ledger_entry_def)
  with tasks_wf_entry [OF ext_ok_tasks [OF assms(1)]] have "k = key" by (auto simp: task_wf_def)
  moreover have "distinct (map fst (tasks st))" using assms(1) by (simp add: ext_ok_def keys_ok_def)
  ultimately show ?thesis using e by (auto simp: owns_def task_def)
qed

lemma tabs_listed:
  assumes "\<And>x. ready x \<Longrightarrow> ready (meanwhile sv x)" and "\<And>i. tame (env_of sv) (owns (cmd_task c) i) {}"
    and "ready s" and "tabs_command sv c s = (Inr resp, t)"
  shows "\<exists>items. resp = answer_completed c [(''tabs'', Arr items)] \<and>
    (\<forall>v \<in> set items. \<exists>i st. jget (the_obj v) ''tab_id'' = js_int i \<and> cached t = Some st \<and> owns (cmd_task c) i st)"
proof -
  from assms(4) obtain n u items v where
    e: "enter sv enqueueGlobal s = (Inr n, u)" and r: "inventory (env_of sv) u = (Inr items, v)" and t: "t = leave n True v"
    and resp: "resp = answer_completed c [(''tabs'', Arr (map (listed_tab sv)
      (filter (\<lambda>v. jget (the_obj v) ''task_id'' = Str (cmd_task c)) items)))]"
    by (auto simp: tabs_command_def eff_Inr slot_Inr)
  from enter_ready [OF e assms(1,3)] obtain st where st: "cached u = Some st" "ext_ok st" by (auto elim: readyE)
  have "\<exists>i st. jget (the_obj (listed_tab sv w)) ''tab_id'' = js_int i \<and> cached t = Some st \<and> owns (cmd_task c) i st"
    if "w \<in> set items" "jget (the_obj w) ''task_id'' = Str (cmd_task c)" for w
  proof -
    from inventory_entries [OF r st(1)] that obtain i where i: "jget (the_obj w) ''tab_id'' = js_int i" "owns (cmd_task c) i st"
      using ledger_entry_owns [OF st(2)] by blast
    then have "holds (owns (cmd_task c) i) {} u" using st by (simp add: holds_def)
    with keeps_run [OF keeps_inventory [OF assms(2)] _ r] have "holds (owns (cmd_task c) i) {} v" by blast
    with i(1) t show ?thesis by (auto simp: leave_def listed_tab_fields elim!: holdsE)
  qed
  then have "\<forall>v \<in> set (map (listed_tab sv) (filter (\<lambda>v. jget (the_obj v) ''task_id'' = Str (cmd_task c)) items)).
      \<exists>i st. jget (the_obj v) ''tab_id'' = js_int i \<and> cached t = Some st \<and> owns (cmd_task c) i st" by simp
  with resp show ?thesis by blast
qed

section \<open>A batch that met a restricted page\<close>

lemma includes_after: "includes_text pat b \<Longrightarrow> includes_text pat (a @ b)"
  by (induction a) (auto split: if_splits)

lemma includes_prefix: "take (length pat) s = pat \<Longrightarrow> includes_text pat s"
  by (cases s) auto

lemma lower_append: "lower (a @ b) = lower a @ lower b"
  by (simp add: lower_def)

text \<open>The message of the failed action is the end of the message of the batch.\<close>

lemma batch_message:
  "\<exists>pre. err_message (batchStepFailure index actions results e) = pre @ err_message e"
  by (cases e) (auto simp: batchStepFailure_def)

lemma batch_code:
  "jget (err_fields (batchStepFailure index actions results e)) ''code'' = jget (err_fields e) ''code''"
  by (cases e) (auto simp: batchStepFailure_def jget_update)

lemma batch_outcome:
  "results \<noteq> [] \<Longrightarrow> jget (err_fields (batchStepFailure index actions results e)) ''outcome'' = Str ''unknown''"
  by (cases e) (auto simp: batchStepFailure_def jget_update)

lemma restricted_batch_normalized:
  assumes "\<not> is_str (jget (err_fields e) ''code'')" and "pat \<in> set RESTRICTED_ERROR_TEXTS"
    and "includes_text pat (lower (err_message e))"
  shows "normalizeRestrictedOriginError f (ThrownError (batchStepFailure index actions results e)) method =
    ThrownError (restrictedOriginError method)"
proof -
  obtain pre where "err_message (batchStepFailure index actions results e) = pre @ err_message e"
    using batch_message by blast
  then have "includes_text pat (lower (err_message (batchStepFailure index actions results e)))"
    using assms(3) by (simp add: lower_append includes_after)
  with assms(1,2) show ?thesis
    by (auto simp: normalizeRestrictedOriginError_def thrown_field_def thrown_record_def batch_code thrown_message_def list_ex_iff)
qed

end
