(* ===== verification/DispatchProperties.thy ===== *)
theory DispatchProperties
  imports AnswerFacts CommitProperties
begin

text \<open>
  The properties of the dispatcher: when a tool is called, which tabs an answer names, and what an answer
  says of the work done. The instances are a worker on the browser of \<open>Demo\<close> whose pages all have the address
  \<open>https://a/\<close> and whose tools answer at once.
\<close>

definition demo_worker :: "unit worker" where
  "demo_worker = \<lparr>outside = (), automationCleanupPending = False, automationCleanupEpoch = 0,
     automationRevocationGeneration = 0, automationCleanupDelayMs = 1000, automationCleanupTimer = False,
     cleanup_queue = 0, processedTabLoads = [], tabLoadWaiters = [], navigationWatches = [], objects = 0\<rparr>"

definition worker_sys :: "ext_state \<Rightarrow> unit worker sys" where
  "worker_sys st = \<lparr>cached = Some st, world = demo_worker, scheduler = new_scheduler, endedTaskIds = [], emitted = []\<rparr>"

definition demo_url :: url_parts where
  "demo_url = \<lparr>url_protocol = ''https:'', url_hostname = ''a'', url_pathname = ''/'', url_origin = ''https://a''\<rparr>"

definition demo_tools :: "unit tools" where
  "demo_tools = \<lparr>tool_act = (\<lambda>key tab expected actions intent. throw (new_error [])),
     tool_commit = (\<lambda>key ps. ret []), tool_scan = (\<lambda>key tab. ret None),
     tool_snapshot = (\<lambda>key tab ps. ret [(''tab_id'', js_int tab)]), tool_wait = (\<lambda>tab ps again key. ret []),
     tool_developer = (\<lambda>tab action ps. ret []), tool_credentials = (\<lambda>key tab expected fs. ret []),
     tool_email = (\<lambda>key tab req. throw (JsError PlainError ''123456 was refused'' [(''code'', Str ''stale_ref'')])),
     openDialog = (\<lambda>tab w. None), debuggerTabIds = (\<lambda>w. []), scrubForHandoff = (\<lambda>tabs. ret ()),
     detach = (\<lambda>tab. ret ()), tracksTab = (\<lambda>tab w. False), restoreDebuggerCandidates = (\<lambda>tabs w. w)\<rparr>"

definition empty_profile :: "unit worker profile_api" where
  "empty_profile = \<lparr>bookmarks_get = (\<lambda>i w. (Inr [], w)), bookmarks_subtree = (\<lambda>i w. (Inr [], w)),
     bookmarks_children = (\<lambda>i w. (Inr [], w)), bookmarks_search = (\<lambda>q w. (Inr [], w)),
     bookmarks_update = (\<lambda>i c w. (Inr (), w)), bookmarks_create = (\<lambda>p t u w. (Inl (new_error t), w)),
     bookmarks_move = (\<lambda>i p w. (Inl (new_error i), w)), bookmarks_remove = (\<lambda>i w. (Inr (), w)),
     history_search = (\<lambda>t a m e w. (Inr [], w)), sessions_closed = (\<lambda>k w. (Inr [], w)), sessions_devices = (\<lambda>k w. (Inr [], w)),
     downloads_search = (\<lambda>q w. (Inr [], w)), downloads_get = (\<lambda>i w. (Inr [], w)), downloads_cancel = (\<lambda>i w. (Inr (), w)),
     downloads_pause = (\<lambda>i w. (Inr (), w)), downloads_resume = (\<lambda>i w. (Inr (), w)), open_background = (\<lambda>key u. ret (4, 1)),
     token_bytes = (\<lambda>n w. (replicate n 0, w)), profile_digest = (\<lambda>v. []), parse_date = (\<lambda>s. None)\<rparr>"

definition demo_service :: "unit service" where
  "demo_service = \<lparr>henv = demo_env\<lparr>parse_url := (\<lambda>u. Some demo_url)\<rparr>,
     urls = \<lparr>api_parse = (\<lambda>u. Some demo_url), api_pathname = (\<lambda>p u. Some p)\<rparr>, papi = empty_profile, tools = demo_tools,
     permission = (\<lambda>p w. (Inr True, w)), tab_status = (\<lambda>tab w. (Inr ''complete'', w)), meanwhile = (\<lambda>s. s),
     await_start = ret (), cleanup_alarm = (\<lambda>t w. ((), w)), drop_cleanup_alarm = (\<lambda>w. ((), w)), connect_bridge = ret ()\<rparr>"

definition demo_command :: "string \<Rightarrow> js obj \<Rightarrow> native_command" where
  "demo_command m ps = \<lparr>cmd_request = ''r'', cmd_connection = ''k'', cmd_task = ''t'', cmd_method = m, cmd_params = ps,
     cmd_policy = None\<rparr>"

lemma ready_worker: "ready (worker_sys demo_state)"
  using ready_demo by (simp add: ready_def worker_sys_def demo_sys_def)

section \<open>Tools\<close>


definition snapshot_demo :: native_command where
  "snapshot_demo = demo_command ''browser_snapshot'' [(''tab_id'', js_int 3)]"

definition guarded_tools :: "unit tools" where
  "guarded_tools = demo_tools\<lparr>tool_snapshot := (\<lambda>key tab ps u. if cleared demo_service snapshot_demo tab u
     then tool_snapshot demo_tools key tab ps u else (Inl (new_error ''not cleared''), u))\<rparr>"


section \<open>Tabs in answers\<close>


definition tabs_demo :: native_command where
  "tabs_demo = demo_command ''browser_tabs'' []"

abbreviation listing :: "js obj \<times> unit worker sys" where
  "listing \<equiv> the (dispatch_method demo_service tabs_demo (worker_sys demo_state))"

lemma worker_tame: "equiv_closed Q \<Longrightarrow> about_tasks Q \<Longrightarrow> tame (env_of demo_service) Q E"
  by (simp add: tame_def demo_service_def) (simp add: demo_env_def)


text \<open>\<open>browser_open\<close> hands out a tab only while it is the task's: when the wait for the load of the opened tab
ends with a tab, that is the opened one, and the ledger then gives it, with its group, to the task; otherwise the
call fails.\<close>

lemma opened_tab_owned:
  assumes "settleOpenedTab sv key opened fresh s = (Inr d, u)" and "jget opened ''tab_id'' = js_int tab"
  shows "jget d ''tab_id'' = js_int tab \<and>
    (\<exists>st t. cached u = Some st \<and> owner st tab = Some t \<and> taskId t = key \<and> groupId t \<noteq> None)"
  by (rule settleOpenedTab_owner [OF assms])

section \<open>Errors in answers\<close>

text \<open>A failed email code fill gives nothing away: whatever the page, Chrome or the runtime threw, once the
automation gate is passed the answer is the result, or an error whose texts are all fixed in the source and whose
only detail is the number of the current page revision.\<close>

lemma email_answer_fixed:
  assumes "cmd_method c = ''browser_email_code_fill''" and "require_automation sv s = (Inr (), u)"
    and "dispatch_method sv c s = Some (resp, t)"
  shows "(\<exists>r. resp = answer_completed c r) \<or> fixed_answer resp"
proof -
  obtain r where r: "email_command sv c u = (r, t)" "resp = answered c r"
    using assms by (cases "email_command sv c u")
      (auto simp: dispatch_method_def run_command_def gated_command_def commits_profile_stage_def Let_def bnd_def seq_def ret_def)
  show ?thesis
  proof (cases r)
    case (Inl e)
    with r email_command_fails_fixed [of sv c u e t] show ?thesis by (simp add: answered_def fixed_failure)
  next
    case (Inr x)
    with r obtain y w where "(case y of Inl e \<Rightarrow> throw (sanitized ''unknown'' e) | Inr result \<Rightarrow> ret (answer_completed c result)) w =
        (Inr x, t)" "resp = x"
      by (auto simp: answered_def email_command_def bnd_Inr)
    then show ?thesis by (cases y) auto
  qed
qed

definition email_demo :: native_command where
  "email_demo = demo_command ''browser_email_code_fill''
     [(''tab_id'', js_int 3), (''expected_page_revision'', js_int 1), (''expected_origin'', Str ''https://a''),
      (''expected_path'', Str ''/''), (''recipient'', Str ''u@b.c''), (''purpose'', Str ''signup''),
      (''fields'', Arr [Obj [(''kind'', Str ''otp''), (''ref'', Str ''e1''), (''value'', Str ''123456'')]])]"

abbreviation email_run :: "js obj \<times> unit worker sys" where
  "email_run \<equiv> the (dispatch_method demo_service email_demo (worker_sys demo_state))"

text \<open>A batch that did part of its work can be answered as not started. When an action after the first fails
with one of Chrome's errors for restricted pages, which have no code, the dispatcher replaces the error of the batch:
that one said that the outcome is unknown and which actions completed, the answer says \<open>not_started\<close> without details.\<close>

lemma restricted_batch_called_not_started:
  assumes "cmd_method c = ''browser_act''" and "run_command sv c s = (Inl (batchStepFailure index actions results e), t)"
    and "results \<noteq> []" and "\<not> is_str (jget (err_fields e) ''code'')"
    and "pat \<in> set RESTRICTED_ERROR_TEXTS" and "includes_text pat (lower (err_message e))"
  shows "\<exists>resp. dispatch_method sv c s = Some (resp, t) \<and> jget resp ''outcome'' = Str ''not_started'' \<and>
    \<not> own (the_obj (jget resp ''error'')) ''details'' \<and>
    jget (err_fields (batchStepFailure index actions results e)) ''outcome'' = Str ''unknown'' \<and>
    jget (err_fields (batchStepFailure index actions results e)) ''completedActions'' = Arr results"
proof -
  let ?e = "batchStepFailure index actions results e" and ?r = "ThrownError (restrictedOriginError ''browser_act'')"
  have n: "normalizeRestrictedOriginError f (ThrownError ?e) ''browser_act'' = ?r" for f
    by (rule restricted_batch_normalized [OF assms(4-6)])
  have d: "errorDetails ?r = None" "errorOutcome ?r b k = ''not_started''" for b k
    by (simp_all add: errorDetails_def errorOutcome_def restrictedOriginError_def thrown_field_def thrown_record_def
        Let_def detail_def is_num_def is_arr_def)
  have "jget (err_fields ?e) ''completedActions'' = Arr results"
    using assms(3) by (cases e) (simp add: batchStepFailure_def jget_update)
  moreover have "dispatch_method sv c s = Some (failed (cmd_request c) (errorCode ?r) (thrown_message (\<lambda>v. []) ?r) ''not_started''
      (errorRecovery ?r) None, t)"
    using assms(1,2) by (simp add: dispatch_method_def answered_def failure_answer_def n d Let_def)
  moreover have "\<not> own (the_obj (jget (failed q k m oc rec None) ''error'')) ''details''" for q k m oc rec
    by (simp add: jget_failed split: option.split list.split)
  ultimately show ?thesis using batch_outcome [OF assms(3)]
    by (simp add: failed_def response_def envelope_def)
qed

definition scrolls :: "js obj list" where
  "scrolls = [[(''kind'', Str ''scroll''), (''delta_y'', js_int 1)], [(''kind'', Str ''scroll''), (''delta_y'', js_int 2)]]"

definition refused_error :: js_error where
  "refused_error = new_error ''Cannot access contents of the url''"

definition restricted_page :: "(unit worker, unit) page" where
  "restricted_page = \<lparr>authorize = (\<lambda>tab. ret ()), random_bytes = (\<lambda>n w. (replicate n 0, w)), digest = (\<lambda>v. []),
     session_dialog = (\<lambda>tab w. None), dialog_hash = (\<lambda>d. ret []), ensure_attached = (\<lambda>tab. ret ()),
     answer_dialog = (\<lambda>tab accept text. ret ()), resolve_target = (\<lambda>key tab revision action. ret ()),
     by_scripting = (\<lambda>t. False), refusal_reason = (\<lambda>tab w. None), describe_target = (\<lambda>tab action t. ret []),
     perform = (\<lambda>key tab revision action target intent. if jget action ''delta_y'' = js_int 1
       then ret [(''kind'', Str ''scroll'')] else throw refused_error),
     target_inside = (\<lambda>key tab revision e action t. ret False), focus_inside = (\<lambda>tab e. ret False),
     probe_facts_within = (\<lambda>tab. ret None), scan_revision = (\<lambda>tab w. None),
     set_scan_revision = (\<lambda>tab revision w. w), catalog_of = \<lparr>catalog_version = ''1'', signatures = []\<rparr>,
     date_parse = (\<lambda>s. None)\<rparr>"

definition restricted_service :: "unit service" where
  "restricted_service = wired demo_service restricted_page"

definition scroll_demo :: native_command where
  "scroll_demo = demo_command ''browser_act'' [(''tab_id'', js_int 3), (''expected_page_revision'', js_int 1),
     (''actions'', Arr (map Obj scrolls))]"

text \<open>Every answer belongs to its request: the dispatcher answers a command, a \<open>close_task\<close> or a \<open>finish_task\<close>
with the id of that request and one of the five outcomes of the protocol, whatever is thrown on the way.\<close>

lemma answers_match_requests:
  assumes "dispatch_command sv m s = Some (resp, t)"
  shows "case m of Command c \<Rightarrow> answers_to (cmd_request c) resp
    | CloseTask request key \<Rightarrow> answers_to request resp | FinishTask f \<Rightarrow> answers_to (fin_request f) resp
    | EventAck a \<Rightarrow> False | Ready r \<Rightarrow> False"
  using assms by (cases m) (auto dest: method_answers ending_answers)

end
