(* ===== verification/WorkerEvents.thy ===== *)
theory WorkerEvents
  imports Dispatch
begin

text \<open>
  The rest of \<open>background.ts\<close> but the popup: the clean-up after a revoked permission, the start of the worker
  and the listeners of Chrome's events. An operation that a listener queues with \<open>runAfterStart\<close> is one
  function here; the queue that runs them in order is that of \<open>Startup\<close>. The registry of snapshot refs and
  the native bridge have their own theories and states; connecting the bridge is a parameter.
\<close>

section \<open>Tabs the debugger was attached to\<close>

definition on_cleanup :: "(cleanup_record \<Rightarrow> cleanup_record) \<Rightarrow> ext_state \<Rightarrow> ext_state" where
  "on_cleanup f st = st\<lparr>automationCleanup := f (automationCleanup st)\<rparr>"

definition recordDebuggerCandidate :: "'w service \<Rightarrow> int \<Rightarrow> ('w, unit) work" where
  "recordDebuggerCandidate sv tab =
     bnd (readState (storage (henv sv))) (\<lambda>st.
       if tab \<in> set (cleanupTabIds (automationCleanup st)) then ret ()
       else mutateState (storage (henv sv)) (\<lambda>st. Inr ((),
         if tab \<in> set (cleanupTabIds (automationCleanup st)) then st
         else on_cleanup (\<lambda>c. c\<lparr>cleanupTabIds := cleanupTabIds c @ [tab]\<rparr>) st)))"

definition forgetDebuggerCandidate :: "'w service \<Rightarrow> int \<Rightarrow> ('w, unit) work" where
  "forgetDebuggerCandidate sv tab =
     bnd (readState (storage (henv sv))) (\<lambda>st.
       if tab \<notin> set (cleanupTabIds (automationCleanup st)) then ret ()
       else mutateState (storage (henv sv)) (\<lambda>st. Inr ((),
         on_cleanup (\<lambda>c. c\<lparr>cleanupTabIds := filter (\<lambda>i. i \<noteq> tab) (cleanupTabIds c)\<rparr>) st)))"

section \<open>Clean-up after a revoked permission\<close>

definition AUTOMATION_CLEANUP_RETRY_BASE_MS :: int where "AUTOMATION_CLEANUP_RETRY_BASE_MS = 1000"
definition AUTOMATION_CLEANUP_RETRY_MAX_MS :: int where "AUTOMATION_CLEANUP_RETRY_MAX_MS = 30000"

definition cancelAutomationCleanupRetry :: "'w service \<Rightarrow> ('w, unit) work" where
  "cancelAutomationCleanupRetry sv =
     seq (set_worker (\<lambda>w. w\<lparr>automationCleanupTimer := False,
         automationCleanupDelayMs := AUTOMATION_CLEANUP_RETRY_BASE_MS\<rparr>))
       (ask (drop_cleanup_alarm sv))"

text \<open>A run that nobody waits for is counted in \<open>cleanup_queue\<close>.\<close>

definition queueAutomationCleanup :: "('w, unit) work" where
  "queueAutomationCleanup = set_worker (\<lambda>w. w\<lparr>cleanup_queue := cleanup_queue w + 1\<rparr>)"

definition scheduleAutomationCleanupRetry :: "'w service \<Rightarrow> ('w, unit) work" where
  "scheduleAutomationCleanupRetry sv =
     bnd (read_worker automationCleanupTimer) (\<lambda>armed.
       if armed then ret ()
       else bnd (read_worker automationCleanupDelayMs) (\<lambda>delay.
         seq (set_worker (\<lambda>w. w\<lparr>automationCleanupTimer := True\<rparr>))
         (bnd (now (env_of sv)) (\<lambda>time.
          seq (ask (cleanup_alarm sv (time + delay)))
            (set_worker (\<lambda>w. w\<lparr>automationCleanupDelayMs := min (delay * 2) AUTOMATION_CLEANUP_RETRY_MAX_MS\<rparr>))))))"

definition join_tabs :: "int list \<Rightarrow> cleanup_record \<Rightarrow> cleanup_record" where
  "join_tabs tabs c = c\<lparr>cleanupTabIds := first_occurrences (cleanupTabIds c @ tabs)\<rparr>"

definition cleanup_mutator :: "(cleanup_record \<Rightarrow> cleanup_record) \<Rightarrow> cleanup_record mutator" where
  "cleanup_mutator f st = Inr (f (automationCleanup st), on_cleanup f st)"

definition requested_cleanup :: "int \<Rightarrow> int list \<Rightarrow> cleanup_record \<Rightarrow> cleanup_record" where
  "requested_cleanup requestedEpoch tabs c =
     join_tabs tabs (c\<lparr>pending := True, epoch := max (epoch c + 1) requestedEpoch\<rparr>)"

definition started_cleanup :: "int \<Rightarrow> int list \<Rightarrow> cleanup_record \<Rightarrow> cleanup_record" where
  "started_cleanup current tabs c = join_tabs tabs (c\<lparr>pending := True, epoch := max (epoch c) current\<rparr>)"

definition finished_cleanup :: "int \<Rightarrow> cleanup_record \<Rightarrow> cleanup_record" where
  "finished_cleanup scrubbed c =
     (if epoch c \<noteq> scrubbed then c
      else c\<lparr>pending := False, cleanupTabIds := [], generation := generation c + 1\<rparr>)"

definition raise_epoch :: "int \<Rightarrow> ('w, unit) work" where
  "raise_epoch e = set_worker (\<lambda>w. w\<lparr>automationCleanupEpoch := max (automationCleanupEpoch w) e\<rparr>)"

definition persistAutomationCleanupRequest :: "'w service \<Rightarrow> int \<Rightarrow> ('w, unit) work" where
  "persistAutomationCleanupRequest sv requestedEpoch =
     bnd (read_worker (debuggerTabIds (tools sv))) (\<lambda>tabs.
     bnd (mutateState (storage (henv sv)) (cleanup_mutator (requested_cleanup requestedEpoch tabs))) (\<lambda>c.
       raise_epoch (epoch c)))"

text \<open>What the scrub is for: the record as stored right before it.\<close>

definition begin_cleanup :: "'w service \<Rightarrow> ('w, cleanup_record) work" where
  "begin_cleanup sv =
     seq (await_start sv)
     (seq (wait sv)
     (bnd (read_worker automationCleanupEpoch) (\<lambda>current.
      bnd (read_worker (debuggerTabIds (tools sv))) (\<lambda>tabs.
        mutateState (storage (henv sv)) (cleanup_mutator (started_cleanup current tabs))))))"

definition restore_if_enabled :: "'w service \<Rightarrow> ('w, unit) work" where
  "restore_if_enabled sv = bnd (automationEnabled sv) (\<lambda>b. when_do b (with_scheduler restorePermissions))"

definition end_cleanup :: "'w service \<Rightarrow> cleanup_record \<Rightarrow> ('w, unit) work" where
  "end_cleanup sv c =
     bnd (mutateState (storage (henv sv)) (cleanup_mutator (finished_cleanup (epoch c)))) (\<lambda>done_record.
     seq (raise_epoch (epoch done_record))
     (seq (set_worker (\<lambda>w. w\<lparr>automationRevocationGeneration :=
         max (automationRevocationGeneration w) (generation done_record)\<rparr>))
     (bnd (read_worker automationCleanupEpoch) (\<lambda>current.
        let again = (pending done_record \<or> epoch done_record < current) in
        seq (set_worker (\<lambda>w. w\<lparr>automationCleanupPending := again\<rparr>))
          (if again then queueAutomationCleanup
           else seq (cancelAutomationCleanupRetry sv) (restore_if_enabled sv))))))"

definition clearAutomationRuntime :: "'w service \<Rightarrow> ('w, unit) work" where
  "clearAutomationRuntime sv =
     bnd (read_worker automationCleanupPending) (\<lambda>cleaning.
       if \<not> cleaning then ret ()
       else try_catch
         (bnd (begin_cleanup sv) (\<lambda>c.
          seq (scrubForHandoff (tools sv) (cleanupTabIds c)) (end_cleanup sv c)))
         (\<lambda>e. seq (scheduleAutomationCleanupRetry sv) (throw e)))"

text \<open>\<open>await queueAutomationCleanup()\<close>: the runs queued before come first.\<close>

definition awaited_cleanup :: "'w service \<Rightarrow> ('w, unit) work" where
  "awaited_cleanup sv = seq (wait sv) (clearAutomationRuntime sv)"

text \<open>The listener: what happens at once, and the rest of it.\<close>

definition close_gate :: "('w, unit) work" where
  "close_gate = seq (with_scheduler revokePermissions)
     (set_worker (\<lambda>w. w\<lparr>automationCleanupPending := True, automationCleanupEpoch := automationCleanupEpoch w + 1\<rparr>))"

definition permissions_removed :: "'w service \<Rightarrow> string list \<Rightarrow> ('w, unit) work" where
  "permissions_removed sv permissions =
     (if ''scripting'' \<notin> set permissions then ret ()
      else seq close_gate
        (bnd (read_worker automationCleanupEpoch) (\<lambda>requestedEpoch.
          try_catch (seq (wait sv) (seq (persistAutomationCleanupRequest sv requestedEpoch) (awaited_cleanup sv)))
            (\<lambda>e. scheduleAutomationCleanupRetry sv))))"

definition permissions_added :: "'w service \<Rightarrow> string list \<Rightarrow> ('w, unit) work" where
  "permissions_added sv permissions =
     (if ''scripting'' \<notin> set permissions then ret ()
      else bnd (read_worker automationCleanupPending) (\<lambda>cleaning.
        if cleaning then quiet (awaited_cleanup sv) () else restore_if_enabled sv))"

section \<open>Start of the worker\<close>

definition drop_revoked :: "'w service \<Rightarrow> int list \<Rightarrow> ('w, unit) work" where
  "drop_revoked sv tabs =
     seq (for_each tabs (\<lambda>tab. bnd (cancelForTab (henv sv) tab) (\<lambda>_. ret ())))
       (for_each tabs (detach (tools sv)))"

definition reconcileOwnership :: "'w service \<Rightarrow> ('w, unit) work" where
  "reconcileOwnership sv = bnd (reconcileNow (env_of sv)) (drop_revoked sv)"

definition recall_cleanup :: "'w service \<Rightarrow> cleanup_record \<Rightarrow> 'w worker \<Rightarrow> 'w worker" where
  "recall_cleanup sv c w =
     (restoreDebuggerCandidates (tools sv) (cleanupTabIds c) w)
       \<lparr>automationCleanupPending := automationCleanupPending w \<or> pending c \<or> cleanupTabIds c \<noteq> [],
        automationCleanupEpoch := max (automationCleanupEpoch w) (epoch c),
        automationRevocationGeneration := max (automationRevocationGeneration w) (generation c)\<rparr>"

definition initializeRuntime :: "'w service \<Rightarrow> ('w, unit) work" where
  "initializeRuntime sv =
     bnd (readState (storage (henv sv))) (\<lambda>st.
     seq (set_worker (recall_cleanup sv (automationCleanup st)))
     (seq (with_scheduler (setInitialPaused (paused st)))
     (seq (bnd (automationEnabled sv) (\<lambda>b. with_scheduler (if b then restorePermissions else revokePermissions)))
     (seq (reconcileOwnership sv)
     (seq (expireCommits (env_of sv))
     (seq (expireNow (henv sv))
     (seq (connect_bridge sv)
       (bnd (read_worker automationCleanupPending) (\<lambda>cleaning. when_do cleaning queueAutomationCleanup)))))))))"

section \<open>Events of tabs\<close>

text \<open>An empty task id is falsy.\<close>

definition some_task :: "string option \<Rightarrow> bool" where
  "some_task key \<longleftrightarrow> key \<noteq> None \<and> key \<noteq> Some []"

record tab_change =
  change_status :: "string option"
  change_url :: "string option"
  change_group :: bool

definition relevant_change :: "tab_change \<Rightarrow> bool" where
  "relevant_change ch \<longleftrightarrow> change_status ch = Some ''loading'' \<or> change_status ch = Some ''complete'' \<or>
     change_url ch \<noteq> None \<or> change_group ch"

definition mark_watches :: "(nav_watch \<Rightarrow> nav_watch) \<Rightarrow> int \<Rightarrow> 'w worker \<Rightarrow> 'w worker" where
  "mark_watches f tab w = w\<lparr>navigationWatches :=
     map (\<lambda>x. if watch_tab x = tab then f x else x) (navigationWatches w)\<rparr>"

definition tab_loading :: "int \<Rightarrow> 'w worker \<Rightarrow> 'w worker" where
  "tab_loading = mark_watches (\<lambda>x. x\<lparr>started := True\<rparr>)"

definition mark_loaded :: "int \<Rightarrow> 'w worker \<Rightarrow> 'w worker" where
  "mark_loaded = mark_watches (\<lambda>x. x\<lparr>watch_loaded := True\<rparr>)"

definition tab_completed :: "int \<Rightarrow> 'w worker \<Rightarrow> 'w worker" where
  "tab_completed tab w = mark_loaded tab (w\<lparr>processedTabLoads := List.insert tab (processedTabLoads w)\<rparr>)"

definition owned_change :: "'w service \<Rightarrow> int \<Rightarrow> tab_change \<Rightarrow> ('w, unit) work" where
  "owned_change sv tab ch =
     seq (if change_status ch = Some ''loading''
       then seq (with_scheduler (invalidateTab tab))
         (bnd (markNavigation (storage (henv sv)) (listeners (henv sv)) tab) (\<lambda>_. ret ()))
       else ret ())
     (seq (if change_group ch
       then bnd (revokeIfMovedNow (env_of sv) tab) (\<lambda>revoked.
         when_do revoked (bnd (cancelForTab (henv sv) tab) (\<lambda>_. detach (tools sv) tab)))
       else ret ())
       (when_do (change_url ch \<noteq> None \<or> change_status ch = Some ''complete'') (emitInventory (env_of sv))))"

definition tab_updated :: "'w service \<Rightarrow> int \<Rightarrow> tab_change \<Rightarrow> ('w, unit) work" where
  "tab_updated sv tab ch =
     finally_do
       (bnd (taskIdForTab (env_of sv) tab) (\<lambda>key. if \<not> some_task key then ret () else owned_change sv tab ch))
       (set_worker (\<lambda>w.
          if change_status ch = Some ''loading'' then tab_loading tab w
          else if change_status ch = Some ''complete'' then tab_completed tab w else w))"

text \<open>Chrome's \<open>onRemoved\<close>: waits for the load end at once; the rest is queued.\<close>

definition tab_gone :: "int \<Rightarrow> ('w, unit) work" where
  "tab_gone tab = set_worker (mark_loaded tab)"

definition tab_removed :: "'w service \<Rightarrow> int \<Rightarrow> ('w, unit) work" where
  "tab_removed sv tab =
     seq (set_worker (\<lambda>w. w\<lparr>processedTabLoads := removeAll tab (processedTabLoads w)\<rparr>))
     (bnd (taskIdForTab (env_of sv) tab) (\<lambda>key.
      bnd (read_worker (tracksTab (tools sv) tab)) (\<lambda>tracked.
        if \<not> some_task key \<and> \<not> tracked then ret ()
        else bnd (cancelForTab (henv sv) tab) (\<lambda>_.
          seq (detach (tools sv) tab)
            (bnd (revokeNow (env_of sv) tab ''tab_removed'') (\<lambda>_. ret ()))))))"

definition reconcileOwnedTab :: "'w service \<Rightarrow> int \<Rightarrow> ('w, unit) work" where
  "reconcileOwnedTab sv tab =
     bnd (taskIdForTab (env_of sv) tab) (\<lambda>key.
     bnd (read_worker (tracksTab (tools sv) tab)) (\<lambda>tracked.
       when_do (some_task key \<or> tracked) (reconcileOwnership sv)))"

definition group_removed :: "'w service \<Rightarrow> int option \<Rightarrow> ('w, unit) work" where
  "group_removed sv g = (case g of
      None \<Rightarrow> ret ()
    | Some i \<Rightarrow> bnd (hasOwnedGroup (env_of sv) i) (\<lambda>owned. when_do owned (reconcileOwnership sv)))"

definition tab_created :: "'w service \<Rightarrow> tab_like \<Rightarrow> ('w, unit) work" where
  "tab_created sv t =
     (if tab_id t = None \<or> tab_opener t = None then ret () else adoptOwnedChildNow (env_of sv) t None)"

section \<open>Alarms and notifications\<close>

definition HANDOFF_ALARM :: string where "HANDOFF_ALARM = ''agenttab-handoff-timeout''"
definition AUTOMATION_CLEANUP_ALARM :: string where "AUTOMATION_CLEANUP_ALARM = ''agenttabAutomationCleanup''"

text \<open>\<open>reconnect\<close> is \<open>reconnectFromAlarm\<close> of the bridge, which does nothing for the other alarms.\<close>

definition alarm_fired :: "'w service \<Rightarrow> (string \<Rightarrow> ('w, unit) work) \<Rightarrow> string \<Rightarrow> ('w, unit) work" where
  "alarm_fired sv reconnect alarm_name =
     seq (reconnect alarm_name)
     (seq (when_do (alarm_name = HANDOFF_ALARM) (expireNow (henv sv)))
     (seq (when_do (alarm_name = AUTOMATION_CLEANUP_ALARM)
        (seq (set_worker (\<lambda>w. w\<lparr>automationCleanupTimer := False\<rparr>)) (quiet (awaited_cleanup sv) ())))
       (expireCommits (env_of sv))))"

definition notification_clicked :: "'w service \<Rightarrow> string \<Rightarrow> ('w, unit) work" where
  "notification_clicked sv notification = (case handoffNoticeIdFromNotification notification of
      None \<Rightarrow> ret ()
    | Some key \<Rightarrow> quiet (bnd (openFromNotification (henv sv) key) (\<lambda>_. ret ())) ())"

end
