(* ===== verification/PopupMessages.thy ===== *)
theory PopupMessages
  imports WorkerEvents
begin

text \<open>
  \<open>handlePopupMessage\<close> of \<open>background.ts\<close> and the listener in front of it: what the pages of the extension may
  ask of the worker. Chrome sets the sender of a message. \<open>bridge\<close> is the native bridge, absent before it
  exists: it asks the host to approve (or to abandon) a review and answers once the host acknowledged.
\<close>

section \<open>Senders\<close>

record sender =
  sender_id :: "string option"
  sender_url :: "string option"
  sender_tab :: bool

record 'w popup_env =
  runtime_id :: string
  popup_page :: string
  runtime_instance :: string
  dash_text :: string
  bridge :: "(bool \<Rightarrow> string \<Rightarrow> string \<Rightarrow> int \<Rightarrow> ('w, js obj) work) option"

definition from_popup :: "'w popup_env \<Rightarrow> sender \<Rightarrow> bool" where
  "from_popup pe from \<longleftrightarrow> sender_id from = Some (runtime_id pe) \<and> \<not> sender_tab from \<and>
     sender_url from = Some (popup_page pe)"

section \<open>The view of the popup\<close>

definition task_view :: "task_record \<Rightarrow> js" where
  "task_view t = Obj [(''task_id'', Str (taskId t)), (''name'', Str (name t)), (''state'', Str (task_state_name (state t))),
     (''color'', Str (color_name (color t))), (''tab_count'', js_int (int (length (tabIds t))))]"

definition awaits_decision :: "staged_commit \<Rightarrow> bool" where
  "awaits_decision c \<longleftrightarrow> review_handle c \<noteq> None \<and> approved c \<noteq> Some True"

definition review_view :: "string \<Rightarrow> staged_commit \<Rightarrow> js" where
  "review_view dash c = Obj ([(''review_handle'', Str (the (review_handle c))), (''task_id'', Str (staged_task c)),
     (''tab_id'', js_int (staged_tab c)), (''effect'', Str (effect c)), (''expires_at_ms'', js_int (expires_at_ms c))] @
     (case profileReviewDetail dash c of None \<Rightarrow> [] | Some d \<Rightarrow> [(''detail'', Str d)]))"

definition ui_state :: "'w popup_env \<Rightarrow> bool \<Rightarrow> ext_state \<Rightarrow> js obj" where
  "ui_state pe enabled st =
     [(''automation_enabled'', Bool enabled),
      (''notices'', Arr (map (\<lambda>n. Obj (noticeResult n)) (map snd (notices st)))),
      (''paused'', Bool (paused st)), (''developer_mode'', Bool (developerMode st)),
      (''skip_commit_review'', Bool (skipCommitReview st)), (''show_agent_pointer'', Bool (showAgentPointer st)),
      (''cleanup_policy'', Str (policy_name (cleanupPolicy st))),
      (''tasks'', Arr (map task_view (map snd (tasks st)))),
      (''reviews'', Arr (map (review_view (dash_text pe)) (filter awaits_decision (map snd (stagedCommits st)))))]"

section \<open>Settings\<close>

definition pointer_mutator :: "bool \<Rightarrow> unit mutator" where
  "pointer_mutator enabled st = Inr ((), st\<lparr>showAgentPointer := enabled\<rparr>)"

definition skip_review_mutator :: "bool \<Rightarrow> unit mutator" where
  "skip_review_mutator enabled st = Inr ((),
     st\<lparr>skipCommitReview := enabled, stagedCommits := (if enabled then [] else stagedCommits st)\<rparr>)"

definition policy_mutator :: "cleanup_policy \<Rightarrow> unit mutator" where
  "policy_mutator p st = Inr ((), st\<lparr>cleanupPolicy := p\<rparr>)"

definition policy_named :: "js \<Rightarrow> cleanup_policy option" where
  "policy_named v = (if v = Str ''automatic'' then Some CleanupAutomatic else if v = Str ''ask'' then Some CleanupAsk
     else if v = Str ''keep'' then Some CleanupKeep else None)"

definition setting :: "'w service \<Rightarrow> unit mutator \<Rightarrow> js obj \<Rightarrow> ('w, js obj) work" where
  "setting sv f reply = seq (mutateState (storage (henv sv)) f) (ret reply)"

definition pauseNow :: "'w service \<Rightarrow> ('w, unit) work" where
  "pauseNow sv = seq (beginPause (henv sv)) (seq (wait sv) (announcePause (henv sv)))"

section \<open>Decisions on reviews\<close>

definition not_popup :: js_error where
  "not_popup = new_error ''Commit reviews can only be decided in the AgentTab popup''"

definition host_disconnected :: js_error where
  "host_disconnected = coded_error ''extension_disconnected''
     ''AgentTab host is disconnected; the staged action was not approved''"

text \<open>
  The host decides first. When it acknowledged with a failure the review is gone; without an
  acknowledgement it stays.
\<close>

definition decide_review :: "'w service \<Rightarrow> 'w popup_env \<Rightarrow> bool \<Rightarrow> string \<Rightarrow> ('w, js obj) work" where
  "decide_review sv pe approving handle =
     bnd (reviewBinding (env_of sv) handle) (\<lambda>(key, tab). case bridge pe of
         None \<Rightarrow> throw host_disconnected
       | Some ask_host \<Rightarrow>
           try_catch
             (bnd (ask_host approving handle key tab) (\<lambda>result.
               bnd (if approving then approveReview (env_of sv) handle else abandonReview (env_of sv) handle)
                 (\<lambda>_. ret result)))
             (\<lambda>e. seq (if jget (err_fields e) ''acknowledged'' = Bool True
                then bnd (abandonReview (env_of sv) handle) (\<lambda>_. ret ()) else ret ()) (throw e)))"

definition decide_command ::
  "'w service \<Rightarrow> 'w popup_env \<Rightarrow> sender \<Rightarrow> bool \<Rightarrow> string \<Rightarrow> ('w, js obj) work" where
  "decide_command sv pe from approving handle =
     (if \<not> from_popup pe from then throw not_popup else decide_review sv pe approving handle)"

section \<open>The messages\<close>

definition popup_finish :: "'w service \<Rightarrow> string \<Rightarrow> disposition \<Rightarrow> ('w, js obj) work" where
  "popup_finish sv key d = finish_command sv key d []"

definition handlePopupMessage :: "'w service \<Rightarrow> 'w popup_env \<Rightarrow> sender \<Rightarrow> js obj \<Rightarrow> ('w, js obj) work" where
  "handlePopupMessage sv pe from m =
     (let k = jget m ''kind''; on = jget m ''enabled''; notice = jget m ''notice_id'';
          handle = jget m ''review_handle''; key = jget m ''task_id'';
          enabled = [(''enabled'', on)]
      in if k = Str ''wake'' then ret [(''ready'', Bool True)]
      else if k = Str ''runtime_instance'' then ret [(''runtime_instance'', Str (runtime_instance pe))]
      else if k = Str ''automation_revocation_state''
      then bnd (read_worker automationRevocationGeneration) (\<lambda>g. ret [(''generation'', js_int g)])
      else if k = Str ''get_ui_state''
      then bnd (readState (storage (henv sv))) (\<lambda>st.
        bnd (automationEnabled sv) (\<lambda>b. ret (ui_state pe b st)))
      else if k = Str ''set_pointer'' \<and> is_bool on then setting sv (pointer_mutator (the_bool on)) enabled
      else if k = Str ''set_skip_commit_review'' \<and> is_bool on
      then setting sv (skip_review_mutator (the_bool on)) enabled
      else if k = Str ''set_cleanup_policy'' \<and> policy_named (jget m ''policy'') \<noteq> None
      then setting sv (policy_mutator (the (policy_named (jget m ''policy'')))) [(''policy'', jget m ''policy'')]
      else if k = Str ''pause'' then seq (pauseNow sv) (ret [(''paused'', Bool True)])
      else if k = Str ''resume'' then seq (resumeNow (henv sv)) (ret [(''paused'', Bool False)])
      else if k = Str ''developer_mode'' \<and> is_bool on
      then seq (setDeveloperMode (env_of sv) (the_bool on)) (ret enabled)
      else if k = Str ''handoff_open'' \<and> is_str notice then Handoff.openNow (henv sv) (the_str notice)
      else if k = Str ''handoff_dismiss'' \<and> is_str notice then dismissNow (henv sv) None (the_str notice)
      else if k = Str ''approve_popup_commit'' \<and> is_str handle
      then decide_command sv pe from True (the_str handle)
      else if k = Str ''abandon_popup_commit'' \<and> is_str handle
      then decide_command sv pe from False (the_str handle)
      else if k = Str ''close_task'' \<and> is_str key then popup_finish sv (the_str key) CloseDisposition
      else if k = Str ''keep_task'' \<and> is_str key then popup_finish sv (the_str key) KeepDisposition
      else throw (new_error ''Unsupported popup message''))"

text \<open>The listener: a message from another extension, or without a kind, gets no answer.\<close>

definition runtime_message :: "'w service \<Rightarrow> 'w popup_env \<Rightarrow> sender \<Rightarrow> js \<Rightarrow> 'w worker sys \<Rightarrow> js obj option \<times> 'w worker sys" where
  "runtime_message sv pe from v s =
     (if sender_id from \<noteq> Some (runtime_id pe) \<or> \<not> isRecord v \<or> \<not> is_str (jget (the_obj v) ''kind'') then (None, s)
      else case seq (await_start sv) (handlePopupMessage sv pe from (the_obj v)) s of
          (Inr reply, t) \<Rightarrow> (Some reply, t)
        | (Inl e, t) \<Rightarrow> (Some [(''error'', Str (err_message e))], t))"

end
