(* ===== verification/WorkerFacts.thy ===== *)
theory WorkerFacts
  imports WorkerEvents DispatchFacts ChallengeFacts
begin

text \<open>
  What the listeners keep: a navigation of an owned tab cancels its queued work and outdates its revision, and
  the automation gate opens again only behind a scrub.
\<close>

section \<open>Revisions through the inventory\<close>

text \<open>The revision of the tab is above \<open>m\<close>.\<close>

definition newer :: "int \<Rightarrow> int \<Rightarrow> ext_state \<Rightarrow> bool" where
  "newer tab m st \<longleftrightarrow> (\<exists>n. cur_of (revisions st) tab = Some n \<and> m < n)"

lemma revision_json_current: "jget (the_obj (revision_json r)) ''current'' = js_int (current_rev r)"
  by (simp add: revision_json_def)

lemma equiv_current:
  assumes "jsonEquivalent (revision_json q) (revision_json r)"
  shows "current_rev q = current_rev r"
proof -
  obtain a b where ab: "revision_json q = Obj a" "revision_json r = Obj b" by (simp add: revision_json_def)
  have "own a ''current''" using ab(1) by (auto simp: revision_json_def)
  with assms have "jsonEquivalent (jget a ''current'') (jget b ''current'')"
    unfolding ab by (rule equiv_jget)
  then show ?thesis using revision_json_current [of q] revision_json_current [of r] ab by (simp add: js_int_def)
qed

lemma equiv_closed_newer: "equiv_closed (newer tab m)"
  unfolding equiv_closed_def newer_def cur_of_def
proof (intro allI impI)
  fix a b
  assume e: "state_equiv a b" "ext_ok a" and n: "\<exists>n. map_option current_rev (map_of (revisions b) (string_of_int tab)) = Some n \<and> m < n"
  have "distinct (map fst (revisions a))" using e(2) by (simp add: ext_ok_def keys_ok_def)
  with n obtain q where q: "map_of (revisions a) (string_of_int tab) = Some q"
    using equiv_map_obj_None [OF state_equiv_parts(3) [OF e(1)], of "string_of_int tab"] by fastforce
  from equiv_map_obj [OF state_equiv_parts(3) [OF e(1)] q] n q
  show "\<exists>n. map_option current_rev (map_of (revisions a) (string_of_int tab)) = Some n \<and> m < n"
    by (auto dest: equiv_current)
qed

lemma newer_ensure: "mutator_keeps (newer tab m) (on_revisions (ensure_rev (string_of_int other)))"
  unfolding mutator_keeps_def
proof (intro allI impI)
  fix st x st'
  assume st: "ext_ok st" "newer tab m st" and f: "on_revisions (ensure_rev (string_of_int other)) st = Inr (x, st')"
  have "keys_ok st'" using revision_keys(1) st(1) f unfolding keeps_keys_def by (metis ext_ok_keys)
  moreover have "newer tab m st'"
    using st(2) f by (auto simp: newer_def on_revisions_def ensure_rev_def cur_of_def split: option.splits)
  ultimately show "keys_ok st' \<and> newer tab m st'" by simp
qed

lemma keeps_newer_inventory: "keeps (holds (newer tab m) {}) (emitInventory env)"
proof -
  have e: "keeps (holds (newer tab m) {}) (rev_ensure (storage env) i)" for i
    unfolding rev_ensure_def by (rule keeps_holds_mutate [OF equiv_closed_newer newer_ensure])
  show ?thesis
    unfolding emitInventory_def inventory_def inventory_entry_def by (rule e | rule keeps_intros world_free_holds)+
qed

section \<open>Navigations\<close>

text \<open>The change listeners of the tracker leave the stored state and the scheduler alone.\<close>

definition still :: "'w env \<Rightarrow> bool" where
  "still env \<longleftrightarrow> (\<forall>l \<in> set (listeners env). \<forall>tab r.
     (\<forall>sc. keeps (sched_is sc) (l tab r)) \<and> (\<forall>Q. keeps (holds Q {}) (l tab r)))"

lemma bump_newer:
  assumes "cur_of (revisions st) tab = Some m" "on_revisions (bump_rev (string_of_int tab)) st = Inr (x, st')"
  shows "newer tab m st'"
  using assms by (auto simp: on_revisions_def bump_rev_def newer_def cur_of_def next_rev_def Let_def)

lemma markNavigation_newer:
  assumes "cached s = Some st" "ext_ok st" "cur_of (revisions st) tab = Some m"
    and l: "\<forall>l \<in> set ls. \<forall>tab r. \<forall>Q. keeps (holds Q {}) (l tab r)"
    and run: "markNavigation api ls tab s = (Inr r, t)"
  shows "holds (newer tab m) {} t"
proof -
  from run obtain n u where m: "mutateState api (on_revisions (bump_rev (string_of_int tab))) s = (Inr n, u)"
      and p: "publishChange ls tab n u = (Inr (), t)"
    by (auto simp: markNavigation_def eff_Inr)
  have k: "\<forall>x st'. on_revisions (bump_rev (string_of_int tab)) st = Inr (x, st') \<longrightarrow> keys_ok st'"
    using revision_keys(2) assms(2) unfolding keeps_keys_def by (metis ext_ok_keys)
  obtain st' v w where v: "on_revisions (bump_rev (string_of_int tab)) st = Inr (n, st')"
      "u = s\<lparr>world := w, cached := Some v\<rparr>" "ext_ok v" "state_equiv v st'"
    by (rule mutateState_result [OF assms(1,2) m k])
  have "keys_ok st'" using k v(1) by blast
  with equiv_closed_newer v(3,4) bump_newer [OF assms(3) v(1)] have "newer tab m v" unfolding equiv_closed_def by blast
  then have "holds (newer tab m) {} u" using v(2,3) by (simp add: holds_def)
  moreover have "keeps (holds (newer tab m) {}) (publishChange ls tab n)"
    unfolding publishChange_def by (rule keeps_for_each_in) (use l in blast)
  ultimately show ?thesis using p by (metis keeps_run)
qed


lemma owned_tab_known:
  "cached s = Some st \<Longrightarrow> owner st tab = Some t \<Longrightarrow> groupId t \<noteq> None \<Longrightarrow>
     taskIdForTab env tab s = (Inr (Some (taskId t)), s)"
  by (simp add: taskIdForTab_def bnd_def ret_def readState_cached)

text \<open>\<open>loads tab ch\<close>: Chrome reports that the tab began to load another document, and no change of its group.\<close>

definition loads :: "tab_change \<Rightarrow> bool" where
  "loads ch \<longleftrightarrow> change_status ch = Some ''loading'' \<and> \<not> change_group ch"

lemma owned_loading_run:
  assumes "loads ch"
  shows "owned_change sv tab ch s =
    seq (bnd (markNavigation (storage (henv sv)) (listeners (henv sv)) tab) (\<lambda>_. ret ()))
      (when_do (change_url ch \<noteq> None) (emitInventory (env_of sv))) (s\<lparr>scheduler := invalidateTab tab (scheduler s)\<rparr>)"
  using assms by (simp add: owned_change_def loads_def with_scheduler_def seq_def bnd_def modify_def ret_def split: prod.split sum.split)

lemma owned_loading_scheduler:
  assumes "loads ch" "still (env_of sv)" "owned_change sv tab ch s = (r, u)"
  shows "scheduler u = invalidateTab tab (scheduler s)"
proof -
  let ?sc = "invalidateTab tab (scheduler s)"
  have l: "\<forall>l \<in> set (listeners (henv sv)). \<forall>tab r. keeps (sched_is ?sc) (l tab r)"
    using assms(2) by (simp add: still_def)
  have n: "keeps (sched_is ?sc) (markNavigation (storage (henv sv)) (listeners (henv sv)) tab)"
    unfolding markNavigation_def publishChange_def using l
    by (intro keeps_intros keeps_store_free store_free_sched keeps_for_each_in) blast
  have "keeps (sched_is ?sc) (seq (bnd (markNavigation (storage (henv sv)) (listeners (henv sv)) tab) (\<lambda>_. ret ()))
      (when_do (change_url ch \<noteq> None) (emitInventory (env_of sv))))"
    by (intro keeps_intros n keeps_sched_inventory)
  from keeps_run [OF this _ assms(3) [unfolded owned_loading_run [OF assms(1)]]] show ?thesis
    by (simp add: sched_is_def)
qed

lemma owned_loading_newer:
  assumes "loads ch" "still (env_of sv)" "cached s = Some st" "ext_ok st" "cur_of (revisions st) tab = Some m"
    and run: "owned_change sv tab ch s = (Inr v, u)"
  shows "holds (newer tab m) {} u"
proof -
  from run obtain n w where mk: "markNavigation (storage (henv sv)) (listeners (henv sv)) tab
        (s\<lparr>scheduler := invalidateTab tab (scheduler s)\<rparr>) = (Inr n, w)"
      and e: "when_do (change_url ch \<noteq> None) (emitInventory (env_of sv)) w = (Inr v, u)"
    unfolding owned_loading_run [OF assms(1)] by (auto simp: eff_Inr)
  have "holds (newer tab m) {} w"
    by (rule markNavigation_newer [OF _ assms(4,5) _ mk]) (use assms(2,3) in \<open>simp_all add: still_def\<close>)
  moreover have "keeps (holds (newer tab m) {}) (when_do (change_url ch \<noteq> None) (emitInventory (env_of sv)))"
    by (intro keeps_intros keeps_newer_inventory)
  ultimately show ?thesis using e by (metis keeps_run)
qed

lemma tab_updated_run:
  assumes "cached s = Some st" "owner st tab = Some t" "groupId t \<noteq> None" "taskId t \<noteq> []"
    and "tab_updated sv tab ch s = (r, u)"
  shows "\<exists>v w. owned_change sv tab ch s = (r, v) \<and> u = v\<lparr>world := w\<rparr>"
proof -
  obtain q v where q: "owned_change sv tab ch s = (q, v)" by (cases "owned_change sv tab ch s")
  then show ?thesis
    using assms(5) owned_tab_known [OF assms(1-3)] assms(4)
    by (cases q) (auto simp: tab_updated_def finally_do_def try_catch_def bnd_def seq_def throw_def ret_def
        some_task_def set_worker_def modify_def)
qed

section \<open>The automation gate\<close>

text \<open>The permissions that the scheduler knows of are gone.\<close>

definition gate_closed :: "'w sys \<Rightarrow> bool" where
  "gate_closed s \<longleftrightarrow> \<not> permissionsAvailable (scheduler s)"

lemma gate_free [simp]: "store_free gate_closed" "world_free gate_closed"
  by (simp_all add: store_free_def world_free_def gate_closed_def)

lemma gate_worker [keeps_intros]: "keeps gate_closed (set_worker f)" "keeps gate_closed (read_worker g)"
  unfolding set_worker_def read_worker_def
  by (rule keeps_modify, simp add: gate_closed_def) (rule keeps_intros)

lemma gate_enabled: "keeps gate_closed (automationEnabled sv)"
  unfolding automationEnabled_def by (intro keeps_intros keeps_store_free gate_free)

lemma enabled_cached:
  assumes "automationEnabled sv s = (Inr True, t)"
  shows "\<exists>st. cached t = Some st \<and> \<not> pending (automationCleanup st)"
proof -
  have c: "cached w = cached u" if "call f u = (Inr b, w)" for f :: "'a worker \<Rightarrow> (js_error + bool) \<times> 'a worker" and u w b
    using that by (auto simp: call_def split: prod.splits)
  from assms obtain st u v w b1 b2 where "readState (storage (henv sv)) s = (Inr st, u)" "\<not> pending (automationCleanup st)"
      "call (permission sv ''scripting'') u = (Inr b1, v)" "call (permission sv ''debugger'') v = (Inr b2, w)" "t = w"
    by (auto simp: automationEnabled_def eff_Inr read_worker_def gets_def ret_def split: if_splits)
  with readState_caches [of "storage (henv sv)" s st u] c show ?thesis by metis
qed

text \<open>What runs around a clean-up leaves the gate closed; only the clean-up opens it.\<close>

definition guarded_gate :: "'w service \<Rightarrow> bool" where
  "guarded_gate sv \<longleftrightarrow> keeps gate_closed (await_start sv) \<and> keeps gate_closed (wait sv) \<and>
     (\<forall>tabs. keeps gate_closed (scrubForHandoff (tools sv) tabs))"

lemma gate_parts:
  assumes "guarded_gate sv"
  shows "keeps gate_closed (begin_cleanup sv)" and "keeps gate_closed (scheduleAutomationCleanupRetry sv)"
    and "keeps gate_closed (cancelAutomationCleanupRetry sv)" and "keeps gate_closed (raise_epoch e)"
    and "keeps gate_closed queueAutomationCleanup"
proof -
  have g: "keeps gate_closed (await_start sv)" "keeps gate_closed (wait sv)"
    using assms by (simp_all add: guarded_gate_def)
  show "keeps gate_closed (begin_cleanup sv)"
    unfolding begin_cleanup_def by (intro keeps_intros gate_worker g keeps_store_free gate_free)
  show "keeps gate_closed (scheduleAutomationCleanupRetry sv)"
    unfolding scheduleAutomationCleanupRetry_def now_def by (intro keeps_intros gate_worker gate_free)
  show "keeps gate_closed (cancelAutomationCleanupRetry sv)"
    unfolding cancelAutomationCleanupRetry_def by (intro keeps_intros gate_worker gate_free)
  show "keeps gate_closed (raise_epoch e)" "keeps gate_closed queueAutomationCleanup"
    unfolding raise_epoch_def queueAutomationCleanup_def by (rule gate_worker)+
qed

text \<open>
  \<open>opens_clean m\<close>: where \<open>m\<close> opens the gate, it returns normally and the clean-up is not pending any more.
\<close>

definition opens_clean :: "('w, unit) op \<Rightarrow> bool" where
  "opens_clean m \<longleftrightarrow> (\<forall>s r t. m s = (r, t) \<longrightarrow> gate_closed s \<longrightarrow>
     gate_closed t \<or> r = Inr () \<and> (\<exists>st. cached t = Some st \<and> \<not> pending (automationCleanup st)))"

lemma opens_cleanD:
  "opens_clean m \<Longrightarrow> m s = (r, t) \<Longrightarrow> gate_closed s \<Longrightarrow> \<not> gate_closed t \<Longrightarrow>
     r = Inr () \<and> (\<exists>st. cached t = Some st \<and> \<not> pending (automationCleanup st))"
  unfolding opens_clean_def by blast

lemma opens_keeps: "keeps gate_closed m \<Longrightarrow> opens_clean m"
  unfolding opens_clean_def by (metis keeps_run)

lemma opens_bnd: "keeps gate_closed m \<Longrightarrow> (\<And>x. opens_clean (f x)) \<Longrightarrow> opens_clean (bnd m f)"
  unfolding opens_clean_def
proof (intro allI impI)
  fix s r t
  assume k: "keeps gate_closed m" and s: "gate_closed s" and run: "bnd m f s = (r, t)"
    and o: "\<And>x. \<forall>s r t. f x s = (r, t) \<longrightarrow> gate_closed s \<longrightarrow>
      gate_closed t \<or> r = Inr () \<and> (\<exists>st. cached t = Some st \<and> \<not> pending (automationCleanup st))"
  obtain q u where m: "m s = (q, u)" by (cases "m s")
  with k s have u: "gate_closed u" by (metis keeps_run)
  show "gate_closed t \<or> r = Inr () \<and> (\<exists>st. cached t = Some st \<and> \<not> pending (automationCleanup st))"
  proof (cases q)
    case (Inl e)
    with run m u show ?thesis by (simp add: bnd_def)
  next
    case (Inr x)
    with run m have "f x u = (r, t)" by (simp add: bnd_def)
    with o u show ?thesis by blast
  qed
qed

lemma opens_seq: "keeps gate_closed m \<Longrightarrow> opens_clean n \<Longrightarrow> opens_clean (seq m n)"
  unfolding seq_def by (rule opens_bnd)

lemma opens_if: "opens_clean m \<Longrightarrow> opens_clean n \<Longrightarrow> opens_clean (if b then m else n)"
  by simp

lemma opens_restore: "opens_clean (restore_if_enabled sv)"
  unfolding opens_clean_def
proof (intro allI impI)
  fix s r t
  assume run: "restore_if_enabled sv s = (r, t)" and s: "gate_closed s"
  obtain q u where q: "automationEnabled sv s = (q, u)" by (cases "automationEnabled sv s")
  then have g: "gate_closed u" using gate_enabled s keeps_run by metis
  show "gate_closed t \<or> r = Inr () \<and> (\<exists>st. cached t = Some st \<and> \<not> pending (automationCleanup st))"
  proof (cases q)
    case (Inr b)
    with q enabled_cached [of sv s u] run g show ?thesis
      by (cases b) (auto simp: restore_if_enabled_def bnd_def when_do_def with_scheduler_def modify_def ret_def)
  qed (use q run g in \<open>simp add: restore_if_enabled_def bnd_def\<close>)
qed

lemma opens_end:
  assumes "guarded_gate sv"
  shows "opens_clean (end_cleanup sv c)"
  unfolding end_cleanup_def Let_def
  by (intro opens_bnd opens_seq opens_if opens_restore opens_keeps gate_parts [OF assms] gate_worker
      keeps_store_free gate_free)

text \<open>What opens the gate again: a scrub of the tabs recorded at its start that ended well.\<close>

lemma reopened_behind_scrub:
  assumes "guarded_gate sv" "clearAutomationRuntime sv s = (r, t)" "gate_closed s" "\<not> gate_closed t"
  shows "r = Inr () \<and> (\<exists>st. cached t = Some st \<and> \<not> pending (automationCleanup st)) \<and>
    (\<exists>c u v. begin_cleanup sv s = (Inr c, u) \<and> scrubForHandoff (tools sv) (cleanupTabIds c) u = (Inr (), v) \<and>
      end_cleanup sv c v = (Inr (), t))"
proof -
  let ?m = "bnd (begin_cleanup sv) (\<lambda>c. seq (scrubForHandoff (tools sv) (cleanupTabIds c)) (end_cleanup sv c))"
  obtain q u where q: "?m s = (q, u)" by (cases "?m s")
  have o: "opens_clean ?m"
    using assms(1) by (intro opens_bnd opens_seq opens_end gate_parts) (auto simp: guarded_gate_def)
  have run: "r = Inr () \<and> ?m s = (Inr (), t)"
  proof (cases q)
    case (Inl e)
    with o q assms(3) have "gate_closed u" unfolding opens_clean_def by blast
    moreover from Inl q assms(2-4) have "seq (scheduleAutomationCleanupRetry sv) (throw e) u = (r, t)"
      by (auto simp: clearAutomationRuntime_def read_worker_def bnd_def gets_def try_catch_def ret_def split: if_splits)
    moreover have "keeps gate_closed (seq (scheduleAutomationCleanupRetry sv) (throw e))"
      by (intro keeps_intros gate_parts [OF assms(1)])
    ultimately have "gate_closed t" by (metis keeps_run)
    with assms(4) show ?thesis by contradiction
  next
    case (Inr x)
    with q assms(2-4) show ?thesis
      by (auto simp: clearAutomationRuntime_def read_worker_def bnd_def gets_def try_catch_def ret_def split: if_splits)
  qed
  with opens_cleanD [OF o _ assms(3,4)] have "\<exists>st. cached t = Some st \<and> \<not> pending (automationCleanup st)" by blast
  with run show ?thesis by (auto simp: eff_Inr)
qed

text \<open>The record that a clean-up starts with names every tab the debugger may be attached to.\<close>

lemma started_cleanup_tabs:
  "set (cleanupTabIds (started_cleanup e tabs c)) = set (cleanupTabIds c) \<union> set tabs" "pending (started_cleanup e tabs c)"
  by (simp_all add: started_cleanup_def join_tabs_def)

lemma begin_covers:
  fixes s :: "'w worker sys"
  assumes "begin_cleanup sv s = (Inr c, u)"
  shows "pending c \<and> (\<exists>x :: 'w worker sys. set (debuggerTabIds (tools sv) (world x)) \<subseteq> set (cleanupTabIds c) \<and>
    (\<forall>st. cached x = Some st \<longrightarrow> set (cleanupTabIds (automationCleanup st)) \<subseteq> set (cleanupTabIds c)))"
proof -
  from assms obtain x where
    m: "mutateState (storage (henv sv)) (cleanup_mutator (started_cleanup (automationCleanupEpoch (world x))
      (debuggerTabIds (tools sv) (world x)))) x = (Inr c, u)"
    by (auto simp: begin_cleanup_def eff_Inr read_worker_def)
  then obtain st y where r: "readState (storage (henv sv)) x = (Inr st, y)" and
    c: "c = started_cleanup (automationCleanupEpoch (world x)) (debuggerTabIds (tools sv) (world x)) (automationCleanup st)"
    by (auto simp: mutateState_def cleanup_mutator_def eff_Inr split: if_splits)
  have "set (cleanupTabIds (automationCleanup st')) \<subseteq> set (cleanupTabIds c)" if "cached x = Some st'" for st'
    using readState_cached [OF that, of "storage (henv sv)"] r c by (simp add: started_cleanup_tabs)
  moreover have "set (debuggerTabIds (tools sv) (world x)) \<subseteq> set (cleanupTabIds c)" "pending c"
    by (simp_all add: c started_cleanup_tabs)
  ultimately show ?thesis by blast
qed

end
