(* ===== verification/PopupFacts.thy ===== *)
theory PopupFacts
  imports PopupMessages WorkerFacts
begin

text \<open>
  Which messages approve a staged action: none but the decision of the popup page that the host acknowledged.
  Every other message leaves the set of approved stages as it is, or makes it smaller.
\<close>

section \<open>The approved stages\<close>

definition approved_in :: "string set \<Rightarrow> ext_state \<Rightarrow> bool" where
  "approved_in A st \<longleftrightarrow> (\<forall>(token, c) \<in> set (stagedCommits st). approved c = Some True \<longrightarrow> token \<in> A)"

lemma approved_equiv:
  assumes "jsonEquivalent (staged_json c) (staged_json d)" and "approved c = Some True"
  shows "approved d = Some True"
proof -
  obtain x y where ab: "staged_json c = Obj x" "staged_json d = Obj y" by (simp add: staged_json_def)
  have "own x ''approved''" using ab(1) assms(2) by (auto simp: staged_json_def opt_field_def)
  with assms(1) have "jsonEquivalent (jget x ''approved'') (jget y ''approved'')"
    unfolding ab by (rule equiv_jget)
  then show ?thesis using staged_json_fields(11) [of c x] staged_json_fields(11) [of d y] ab assms(2)
    by (cases "approved d") simp_all
qed

lemma equiv_closed_approved: "equiv_closed (approved_in A)"
  unfolding equiv_closed_def approved_in_def
proof (intro allI impI ballI, clarify)
  fix a b token c
  assume e: "state_equiv a b" "ext_ok a" and b: "\<forall>(token, c) \<in> set (stagedCommits b). approved c = Some True \<longrightarrow> token \<in> A"
    and c: "(token, c) \<in> set (stagedCommits a)" "approved c = Some True"
  have "distinct (map fst (stagedCommits a))" using e(2) by (simp add: ext_ok_def keys_ok_def)
  with c(1) have "map_of (stagedCommits a) token = Some c" by simp
  from equiv_map_obj [OF state_equiv_parts(5) [OF e(1)] this] obtain d where
    d: "map_of (stagedCommits b) token = Some d" "jsonEquivalent (staged_json c) (staged_json d)" by blast
  with approved_equiv c(2) b show "token \<in> A" by (fastforce dest: map_of_SomeD)
qed

lemma about_tasks_approved [simp]: "about_tasks (approved_in A)"
  by (simp add: about_tasks_def approved_in_def)

text \<open>A mutator that adds no stage and approves none.\<close>

lemma stages_shrink:
  assumes "keeps_keys f" and "\<And>st x st'. f st = Inr (x, st') \<Longrightarrow> set (stagedCommits st') \<subseteq> set (stagedCommits st)"
  shows "mutator_keeps (approved_in A) f"
  using assms ext_ok_keys unfolding mutator_keeps_def keeps_keys_def approved_in_def by blast


lemma shrinking_mutators:
  "mutator_keeps (approved_in A) (pause_mutator b)" "mutator_keeps (approved_in A) (expire_mutator time)"
  "mutator_keeps (approved_in A) (status_mutator k new)" "mutator_keeps (approved_in A) (clear_mutator key)"
  "mutator_keeps (approved_in A) (developer_mutator b)" "mutator_keeps (approved_in A) (pointer_mutator b)"
  "mutator_keeps (approved_in A) (skip_review_mutator b)" "mutator_keeps (approved_in A) (policy_mutator p)"
  "mutator_keeps (approved_in A) (revoke_mutator tab time)" "mutator_keeps (approved_in A) (reconcile_mutator lookup time)"
  "mutator_keeps (approved_in A) (set_state_mutator key ts time)" "mutator_keeps (approved_in A) (end_mutator key)"
  "mutator_keeps (approved_in A) (abandon_review_mutator handle)"
proof -
  show "mutator_keeps (approved_in A) (pause_mutator b)" "mutator_keeps (approved_in A) (expire_mutator time)"
    "mutator_keeps (approved_in A) (status_mutator k new)" "mutator_keeps (approved_in A) (clear_mutator key)"
    by (rule stages_shrink, rule notice_mutator_keys,
        force simp: pause_mutator_def expire_mutator_def status_mutator_Inr clear_mutator_def)+
  show "mutator_keeps (approved_in A) (developer_mutator b)" "mutator_keeps (approved_in A) (pointer_mutator b)"
    "mutator_keeps (approved_in A) (skip_review_mutator b)" "mutator_keeps (approved_in A) (policy_mutator p)"
    by (rule stages_shrink; force simp: keeps_keys_def keys_ok_def developer_mutator_def pointer_mutator_def
        skip_review_mutator_def policy_mutator_def split: if_splits)+
  show "mutator_keeps (approved_in A) (revoke_mutator tab time)"
    by (rule stages_shrink)
      (auto simp: keeps_keys_def intro: revoke_mutator_keys, auto simp: revoke_mutator_def split: prod.splits)
  show "mutator_keeps (approved_in A) (reconcile_mutator lookup time)"
    by (rule stages_shrink, rule reconcile_mutator_keys) (auto simp: reconcile_mutator_def)
  show "mutator_keeps (approved_in A) (set_state_mutator key ts time)"
    by (rule stages_shrink) (auto simp: keeps_keys_def set_state_mutator_def Let_def put_task_keys put_task_stages
        split: option.splits)
  show "mutator_keeps (approved_in A) (end_mutator key)"
    by (rule stages_shrink)
      (auto simp: keeps_keys_def intro: end_mutator_keys, auto simp: end_mutator_def drop_stages_def)
  show "mutator_keeps (approved_in A) (abandon_review_mutator handle)"
    by (rule stages_shrink)
      (auto simp: keeps_keys_def keys_ok_def abandon_review_mutator_def put_stages_def distinct_delete
        set_delete split: option.splits)
qed

section \<open>The operations behind the messages\<close>

text \<open>The listeners of revisions and whatever else runs while the worker waits approve nothing.\<close>

definition bland :: "'w service \<Rightarrow> string set \<Rightarrow> bool" where
  "bland sv A \<longleftrightarrow> tame (env_of sv) (approved_in A) {} \<and> keeps (holds (approved_in A) {}) (wait sv)"

lemmas keeps_shrinking = keeps_holds_mutate [OF equiv_closed_approved] shrinking_mutators

lemma keeps_notice_operations:
  assumes "bland sv A"
  shows "keeps (holds (approved_in A) {}) (expireNow (henv sv))"
    and "keeps (holds (approved_in A) {}) (dismissNow (henv sv) t key)"
    and "keeps (holds (approved_in A) {}) (Handoff.openNow (henv sv) key)"
    and "keeps (holds (approved_in A) {}) (clearForTask (henv sv) key)"
    and "keeps (holds (approved_in A) {}) (pauseNow sv)"
    and "keeps (holds (approved_in A) {}) (resumeNow (henv sv))"
proof -
  have t: "tame (env_of sv) (approved_in A) {}" and w: "keeps (holds (approved_in A) {}) (wait sv)"
    using assms by (simp_all add: bland_def)
  have sc: "keeps (holds (approved_in A) {}) (modify (\<lambda>s. s\<lparr>scheduler := f (scheduler s)\<rparr>))" for f
    by (simp add: keeps_same_cached)
  show e: "keeps (holds (approved_in A) {}) (expireNow (henv sv))"
    unfolding expireNow_def by (intro keeps_intros keeps_shrinking world_free_holds)
  show "keeps (holds (approved_in A) {}) (dismissNow (henv sv) t key)"
    unfolding dismissNow_def setStatus_def by (intro keeps_intros e keeps_shrinking)
  have o: "keeps (holds (approved_in A) {}) (assertOwnedNow (env_of sv) k i)" for k i
    by (rule keeps_assertOwnedNow [OF t shrinking_mutators(9)])
  show "keeps (holds (approved_in A) {}) (Handoff.openNow (henv sv) key)"
    unfolding Handoff.openNow_def by (intro keeps_intros e o world_free_holds)
  show "keeps (holds (approved_in A) {}) (clearForTask (henv sv) key)"
    unfolding clearForTask_def by (intro keeps_intros keeps_shrinking)
  show "keeps (holds (approved_in A) {}) (pauseNow sv)"
    unfolding pauseNow_def beginPause_def announcePause_def by (intro keeps_intros keeps_shrinking sc w)
  have "keeps (holds (approved_in A) {}) (reconcileNow (env_of sv))"
    unfolding reconcileNow_def
    by (rule keeps_rev_remove [OF t] keeps_emitInventory [OF t] | rule keeps_intros keeps_shrinking world_free_holds)+
  then show "keeps (holds (approved_in A) {}) (resumeNow (henv sv))"
    unfolding resumeNow_def by (intro keeps_intros keeps_shrinking sc)
qed


lemma keeps_finishing:
  assumes "bland sv A"
  shows "keeps (holds (approved_in A) {}) (popup_finish sv key d)"
proof -
  have t: "tame (env_of sv) (approved_in A) {}" using assms by (simp add: bland_def)
  have o: "keeps (holds (approved_in A) {}) (finish_owned (env_of sv) key d keep policy tk)" for keep policy tk
    unfolding finish_owned_def
    by (rule keeps_rev_remove [OF t] keeps_emitInventory [OF t] keeps_shrinking |
        rule keeps_intros world_free_holds)+
  have f: "keeps (holds (approved_in A) {}) (finishTaskNow (env_of sv) key d keep)" for keep
    unfolding finishTaskNow_def setTaskState_def show_group_def
    by (intro keeps_intros o keeps_shrinking world_free_holds)
  have c: "keeps (holds (approved_in A) {}) (clearChallengeTask api key)" for api :: "'a worker storage_api"
    unfolding clearChallengeTask_def readTable_def writeTable_def by (intro keeps_intros world_free_holds)
  show ?thesis
    unfolding popup_finish_def finish_command_def forget_task_def
    by (intro keeps_intros f c keeps_notice_operations [OF assms])
qed

lemma keeps_settings:
  assumes "mutator_keeps (approved_in A) f"
  shows "keeps (holds (approved_in A) {}) (setting sv f reply)"
  unfolding setting_def by (intro keeps_intros keeps_holds_mutate equiv_closed_approved assms)

lemma keeps_developer: "keeps (holds (approved_in A) {}) (setDeveloperMode env b)"
  unfolding setDeveloperMode_def show_group_def by (intro keeps_intros keeps_shrinking world_free_holds)

lemma keeps_reads:
  "keeps (holds Q E) (automationEnabled sv)" "keeps (holds Q E) (read_worker f)" "keeps (holds Q E) (reviewBinding env handle)"
  unfolding automationEnabled_def read_worker_def reviewBinding_def by (intro keeps_intros world_free_holds)+

lemma keeps_abandon: "keeps (holds (approved_in A) {}) (abandonReview env handle)"
  unfolding abandonReview_def by (intro keeps_shrinking)

section \<open>Decisions\<close>

text \<open>The message that decides a review.\<close>

definition approves :: "'w popup_env \<Rightarrow> sender \<Rightarrow> js obj \<Rightarrow> bool" where
  "approves pe from m \<longleftrightarrow> jget m ''kind'' = Str ''approve_popup_commit'' \<and> is_str (jget m ''review_handle'') \<and> from_popup pe from"

text \<open>The bridge asks the host; what happens until the host answers approves nothing.\<close>

definition bland_bridge :: "'w popup_env \<Rightarrow> string set \<Rightarrow> bool" where
  "bland_bridge pe A \<longleftrightarrow> (\<forall>f. bridge pe = Some f \<longrightarrow>
     (\<forall>b handle key tab. keeps (holds (approved_in A) {}) (f b handle key tab)))"

lemma keeps_abandoning:
  assumes "bland_bridge pe A"
  shows "keeps (holds (approved_in A) {}) (decide_review sv pe False handle)"
proof (cases "bridge pe")
  case (Some f)
  with assms have "keeps (holds (approved_in A) {}) (f False handle key tab)" for key tab
    by (simp add: bland_bridge_def)
  with Some show ?thesis unfolding decide_review_def
    by (auto intro!: keeps_intros keeps_reads keeps_abandon)
qed (auto simp: decide_review_def intro!: keeps_intros keeps_reads)

text \<open>What the host answered before a review was approved.\<close>

definition acknowledged_approval ::
  "'w service \<Rightarrow> 'w popup_env \<Rightarrow> string \<Rightarrow> 'w worker sys \<Rightarrow> js obj \<Rightarrow> 'w worker sys \<Rightarrow> bool" where
  "acknowledged_approval sv pe handle s reply t \<longleftrightarrow> (\<exists>ask_host key tab u v b.
     bridge pe = Some ask_host \<and> reviewBinding (env_of sv) handle s = (Inr (key, tab), u) \<and>
     ask_host True handle key tab u = (Inr reply, v) \<and> approveReview (env_of sv) handle v = (Inr b, t))"

lemma approval_fails:
  assumes "holds Q {} s" "approveReview env handle s = (Inl e, t)"
  shows "holds Q {} t"
proof -
  from assms(1) obtain st where st: "cached s = Some st" "ext_ok st" "Q st" by (rule holdsE)
  from mutateState_Inl [OF st(1) assms(2) [unfolded approveReview_def]] obtain w where "t = s\<lparr>world := w\<rparr>" by blast
  with st show ?thesis by (simp add: holds_def)
qed

lemma approving_decision:
  assumes b: "bland_bridge pe A" and s: "holds (approved_in A) {} s" and run: "decide_review sv pe True handle s = (r, t)"
  shows "holds (approved_in A) {} t \<or> (\<exists>reply. r = Inr reply \<and> acknowledged_approval sv pe handle s reply t)"
proof -
  let ?I = "holds (approved_in A) {}"
  obtain q u where q: "reviewBinding (env_of sv) handle s = (q, u)" by (cases "reviewBinding (env_of sv) handle s")
  from keeps_run [OF keeps_reads(3) s q] have u: "?I u" .
  show ?thesis
  proof (cases "\<exists>key tab f. q = Inr (key, tab) \<and> bridge pe = Some f")
    case False
    with q run have "t = u" by (cases q) (auto simp: decide_review_def bnd_def throw_def split: option.splits)
    with u show ?thesis by simp
  next
    case True
    then obtain key tab f where f: "q = Inr (key, tab)" "bridge pe = Some f" by blast
    let ?h = "\<lambda>e. seq (if jget (err_fields e) ''acknowledged'' = Bool True
      then bnd (abandonReview (env_of sv) handle) (\<lambda>_. ret ()) else ret ()) (throw e)"
    have h: "keeps ?I (?h e)" for e by (intro keeps_intros keeps_abandon)
    obtain a v where a: "f True handle key tab u = (a, v)" by (cases "f True handle key tab u")
    have v: "?I v" using b f(2) u a unfolding bland_bridge_def by (metis keeps_run)
    obtain p w where p: "approveReview (env_of sv) handle v = (p, w)" by (cases "approveReview (env_of sv) handle v")
    show ?thesis
    proof (cases a)
      case (Inl e)
      with run q f a have "?h e v = (r, t)" by (simp add: decide_review_def bnd_def try_catch_def)
      from keeps_run [OF h v this] show ?thesis ..
    next
      case (Inr reply)
      show ?thesis
      proof (cases p)
        case (Inl e)
        with run q f a Inr p have h': "?h e w = (r, t)" by (simp add: decide_review_def bnd_def try_catch_def)
        have "?I w" by (rule approval_fails [OF v p [unfolded Inl]])
        from keeps_run [OF h this h'] show ?thesis ..
      next
        case (Inr b)
        with run q f a \<open>a = Inr reply\<close> p have "r = Inr reply" "t = w"
          by (simp_all add: decide_review_def bnd_def try_catch_def ret_def)
        with q f a \<open>a = Inr reply\<close> p Inr show ?thesis unfolding acknowledged_approval_def by metis
      qed
    qed
  qed
qed

section \<open>Every message\<close>

lemma keeps_message:
  assumes "bland sv A" "bland_bridge pe A" "\<not> approves pe from m"
  shows "keeps (holds (approved_in A) {}) (handlePopupMessage sv pe from m)"
proof -
  have "keeps (holds (approved_in A) {}) (decide_command sv pe from True (the_str (jget m ''review_handle'')))"
    if "jget m ''kind'' = Str ''approve_popup_commit'' \<and> is_str (jget m ''review_handle'')"
    using assms(3) that by (simp add: approves_def decide_command_def keeps_throw)
  moreover have "keeps (holds (approved_in A) {}) (decide_command sv pe from False handle)" for handle
    unfolding decide_command_def by (intro keeps_intros keeps_abandoning assms)
  ultimately show ?thesis
    unfolding handlePopupMessage_def Let_def
    by (intro keeps_if keeps_intros keeps_reads keeps_settings shrinking_mutators keeps_notice_operations [OF assms(1)]
        keeps_developer keeps_finishing [OF assms(1)]) simp_all
qed

lemma message_approves:
  assumes "bland sv A" "bland_bridge pe A" "holds (approved_in A) {} s" "handlePopupMessage sv pe from m s = (r, t)"
  shows "holds (approved_in A) {} t \<or> (approves pe from m \<and>
    (\<exists>reply. r = Inr reply \<and> acknowledged_approval sv pe (the_str (jget m ''review_handle'')) s reply t))"
proof (cases "approves pe from m")
  case True
  then have "handlePopupMessage sv pe from m = decide_review sv pe True (the_str (jget m ''review_handle''))"
    by (simp add: approves_def handlePopupMessage_def decide_command_def Let_def)
  with approving_decision [OF assms(2,3)] assms(4) True show ?thesis by metis
next
  case False
  from keeps_run [OF keeps_message [OF assms(1,2) False] assms(3,4)] show ?thesis ..
qed

end
