(* ===== verification/WorkerProperties.thy ===== *)
theory WorkerProperties
  imports PopupFacts DispatchProperties
begin

text \<open>
  The properties of the worker's listeners and of the messages of its own pages. The instances run on the
  worker of \<open>DispatchProperties\<close>.
\<close>

section \<open>Navigations\<close>


definition busy_worker :: "unit worker sys" where
  "busy_worker = (worker_sys demo_state)\<lparr>scheduler := snd (enqueueTab ''t'' 3 new_scheduler)\<rparr>"

definition loading_change :: tab_change where
  "loading_change = \<lparr>change_status = Some ''loading'', change_url = Some ''https://a/'', change_group = False\<rparr>"


section \<open>The automation gate\<close>


definition revoked_worker :: "unit worker sys" where
  "revoked_worker = (worker_sys demo_state)\<lparr>scheduler := revokePermissions new_scheduler,
     world := demo_worker\<lparr>automationCleanupPending := True, automationCleanupEpoch := 1\<rparr>\<rparr>"

definition attached_service :: "unit service" where
  "attached_service = demo_service\<lparr>tools := demo_tools\<lparr>debuggerTabIds := (\<lambda>w. [3])\<rparr>\<rparr>"


section \<open>Reviews\<close>


definition demo_popup :: "unit popup_env" where
  "demo_popup = \<lparr>runtime_id = ''x'', popup_page = ''popup.html'', runtime_instance = ''i'', dash_text = ''-'',
     bridge = Some (\<lambda>approving handle key tab. ret [(''outcome'', Str ''completed'')])\<rparr>"

definition under_review :: "unit worker sys" where
  "under_review = worker_sys (demo_state\<lparr>stagedCommits :=
     [(demo_token, demo_staged\<lparr>review_handle := Some ''review-handle-01'', approved := Some False\<rparr>)]\<rparr>)"

definition approve_message :: "js obj" where
  "approve_message = [(''kind'', Str ''approve_popup_commit''), (''review_handle'', Str ''review-handle-01'')]"

definition from_page :: "bool \<Rightarrow> sender" where
  "from_page tab = \<lparr>sender_id = Some ''x'', sender_url = Some ''popup.html'', sender_tab = tab\<rparr>"

lemma demo_bland: "bland demo_service A" "bland_bridge demo_popup A"
  using worker_tame [OF equiv_closed_approved about_tasks_approved]
  by (simp_all add: bland_def bland_bridge_def demo_popup_def wait_def keeps_ret)
    (simp_all add: demo_service_def keeps_modify)


end
