(* ===== verification/NodeFs.thy ===== *)
theory NodeFs
  imports JsValue
begin

text \<open>
  The part of Node's \<open>fs/promises\<close> that the installer and the SDK call, on one machine. Any call may fail:
  \<open>fault\<close> says with which error the \<open>n\<close>th call fails, before it has any effect; a failed write has written a
  prefix. A call on a missing file fails with \<open>ENOENT\<close>. Parent directories are created by \<open>mkdir\<close> as one
  entry, and links are read as what they hold.
\<close>

section \<open>The machine\<close>

type_synonym octets = "nat list"

datatype node_kind = RegularFile | Directory | SymbolicLink

record node =
  node_kind :: node_kind
  content :: octets
  permissions :: nat

record machine =
  disk :: "string \<Rightarrow> node option"
  calls :: nat
  drawn :: nat
  shown :: "string list"

record sys_env =
  fault :: "nat \<Rightarrow> js_error option"
  torn :: "nat \<Rightarrow> nat"
  windows :: bool
  uuid :: "nat \<Rightarrow> string"
  dirname :: "string \<Rightarrow> string"
  sha256_hex :: "octets \<Rightarrow> string"
  utf8 :: "string \<Rightarrow> octets"

type_synonym 'a io = "(machine, js_error, 'a) eff"

definition regular :: "octets \<Rightarrow> nat \<Rightarrow> node" where
  "regular b m = \<lparr>node_kind = RegularFile, content = b, permissions = m\<rparr>"

definition put_node :: "string \<Rightarrow> node option \<Rightarrow> machine \<Rightarrow> machine" where
  "put_node p n s = s\<lparr>disk := (disk s)(p := n)\<rparr>"

definition system_error :: "string \<Rightarrow> js_error" where
  "system_error c = coded_error c c"

text \<open>One system call: \<open>m\<close> unless it fails.\<close>

definition sys_call :: "sys_env \<Rightarrow> 'a io \<Rightarrow> 'a io" where
  "sys_call env m s = (case fault env (calls s) of
      Some e \<Rightarrow> (Inl e, s\<lparr>calls := calls s + 1\<rparr>)
    | None \<Rightarrow> m (s\<lparr>calls := calls s + 1\<rparr>))"

definition existing :: "string \<Rightarrow> (node \<Rightarrow> 'a io) \<Rightarrow> 'a io" where
  "existing p f = bnd (gets (\<lambda>s. disk s p)) (\<lambda>n. case n of
      None \<Rightarrow> throw (system_error ''ENOENT'') | Some x \<Rightarrow> f x)"

definition set_node :: "string \<Rightarrow> node option \<Rightarrow> unit io" where
  "set_node p n = modify (put_node p n)"

section \<open>The calls\<close>

definition read_file :: "sys_env \<Rightarrow> string \<Rightarrow> octets io" where
  "read_file env p = sys_call env (existing p (\<lambda>n.
     if node_kind n = Directory then throw (system_error ''EISDIR'') else ret (content n)))"

definition stat_file :: "sys_env \<Rightarrow> string \<Rightarrow> node io" where
  "stat_file env p = sys_call env (existing p ret)"

definition mkdir_p :: "sys_env \<Rightarrow> string \<Rightarrow> nat \<Rightarrow> unit io" where
  "mkdir_p env p m = sys_call env (bnd (gets (\<lambda>s. disk s p)) (\<lambda>n. case n of
      None \<Rightarrow> set_node p (Some \<lparr>node_kind = Directory, content = [], permissions = m\<rparr>)
    | Some x \<Rightarrow> if node_kind x = RegularFile then throw (system_error ''EEXIST'') else ret ()))"

definition open_new :: "sys_env \<Rightarrow> string \<Rightarrow> nat \<Rightarrow> unit io" where
  "open_new env p m = sys_call env (bnd (gets (\<lambda>s. disk s p)) (\<lambda>n. case n of
      None \<Rightarrow> set_node p (Some (regular [] m)) | Some x \<Rightarrow> throw (system_error ''EEXIST'')))"

definition open_existing :: "sys_env \<Rightarrow> string \<Rightarrow> unit io" where
  "open_existing env p = sys_call env (existing p (\<lambda>n. ret ()))"

text \<open>Writing to the handle of a file that this process opened: its entry exists.\<close>

definition write_handle :: "sys_env \<Rightarrow> string \<Rightarrow> octets \<Rightarrow> unit io" where
  "write_handle env p b s = (case fault env (calls s) of
      Some e \<Rightarrow> (Inl e, put_node p (map_option (\<lambda>n. n\<lparr>content := take (torn env (calls s)) b\<rparr>) (disk s p)) (s\<lparr>calls := calls s + 1\<rparr>))
    | None \<Rightarrow> (Inr (), put_node p (map_option (\<lambda>n. n\<lparr>content := b\<rparr>) (disk s p)) (s\<lparr>calls := calls s + 1\<rparr>)))"

definition sync_handle :: "sys_env \<Rightarrow> unit io" where "sync_handle env = sys_call env (ret ())"
definition close_handle :: "sys_env \<Rightarrow> unit io" where "close_handle env = sys_call env (ret ())"

text \<open>\<open>try { m } finally { await handle.close() }\<close>\<close>

definition closing :: "sys_env \<Rightarrow> unit io \<Rightarrow> unit io" where
  "closing env m = seq (try_catch m (\<lambda>e. seq (close_handle env) (throw e))) (close_handle env)"

definition chmod :: "sys_env \<Rightarrow> string \<Rightarrow> nat \<Rightarrow> unit io" where
  "chmod env p m = sys_call env (existing p (\<lambda>n. set_node p (Some (n\<lparr>permissions := m\<rparr>))))"

definition rename :: "sys_env \<Rightarrow> string \<Rightarrow> string \<Rightarrow> unit io" where
  "rename env old new = sys_call env (existing old (\<lambda>n. seq (set_node old None) (set_node new (Some n))))"

definition copy_file :: "sys_env \<Rightarrow> string \<Rightarrow> string \<Rightarrow> unit io" where
  "copy_file env old new = sys_call env (existing old (\<lambda>n. set_node new (Some (regular (content n) (permissions n)))))"

text \<open>\<open>rm(path, { force: true })\<close>\<close>

definition remove :: "sys_env \<Rightarrow> string \<Rightarrow> unit io" where
  "remove env p = sys_call env (set_node p None)"

definition randomUUID :: "sys_env \<Rightarrow> string io" where
  "randomUUID env = bnd (gets drawn) (\<lambda>n. seq (modify (\<lambda>s. s\<lparr>drawn := n + 1\<rparr>)) (ret (uuid env n)))"

section \<open>What a call changes\<close>

text \<open>\<open>same_off P d s\<close>: the disk of \<open>s\<close> is \<open>d\<close> outside \<open>P\<close>.\<close>

definition same_off :: "string set \<Rightarrow> (string \<Rightarrow> node option) \<Rightarrow> machine \<Rightarrow> bool" where
  "same_off P d s \<longleftrightarrow> (\<forall>p. p \<notin> P \<longrightarrow> disk s p = d p)"

lemma same_off_mono: "same_off P d s \<Longrightarrow> P \<subseteq> Q \<Longrightarrow> same_off Q d s"
  by (auto simp: same_off_def)

lemma keeps_sys: "keeps I m \<Longrightarrow> (\<And>s c. I (s\<lparr>calls := c\<rparr>) = I s) \<Longrightarrow> keeps I (sys_call env m)"
  by (simp add: keeps_def sys_call_def split: option.split)

lemma same_off_calls [simp]: "same_off P d (s\<lparr>calls := c\<rparr>) = same_off P d s"
  "same_off P d (s\<lparr>drawn := c\<rparr>) = same_off P d s" "same_off P d (s\<lparr>shown := l\<rparr>) = same_off P d s"
  by (simp_all add: same_off_def)

lemma keeps_set_node: "p \<in> P \<Longrightarrow> keeps (same_off P d) (set_node p n)"
  unfolding set_node_def by (rule keeps_modify) (auto simp: same_off_def put_node_def)

lemma keeps_existing [keeps_intros]: "(\<And>n. keeps I (f n)) \<Longrightarrow> keeps I (existing p f)"
  unfolding existing_def by (intro keeps_intros)

lemma keeps_io [keeps_intros]:
  "keeps (same_off P d) (read_file env p)" "keeps (same_off P d) (stat_file env p)"
  "keeps (same_off P d) (open_existing env p)" "keeps (same_off P d) (sync_handle env)"
  "keeps (same_off P d) (close_handle env)" "keeps (same_off P d) (randomUUID env)"
proof -
  show "keeps (same_off P d) (randomUUID env)"
    unfolding randomUUID_def by (intro keeps_intros keeps_modify) simp
qed (unfold read_file_def stat_file_def open_existing_def sync_handle_def close_handle_def,
    (rule keeps_sys, intro keeps_intros, simp)+)

lemma keeps_io_on:
  "p \<in> P \<Longrightarrow> keeps (same_off P d) (mkdir_p env p m)" "p \<in> P \<Longrightarrow> keeps (same_off P d) (open_new env p m)"
  "p \<in> P \<Longrightarrow> keeps (same_off P d) (write_handle env p b)" "p \<in> P \<Longrightarrow> keeps (same_off P d) (chmod env p m)"
  "p \<in> P \<Longrightarrow> q \<in> P \<Longrightarrow> keeps (same_off P d) (rename env p q)" "q \<in> P \<Longrightarrow> keeps (same_off P d) (copy_file env p q)"
  "p \<in> P \<Longrightarrow> keeps (same_off P d) (remove env p)"
proof -
  show "p \<in> P \<Longrightarrow> keeps (same_off P d) (write_handle env p b)"
    by (auto simp: keeps_def write_handle_def same_off_def put_node_def split: option.split)
qed (unfold mkdir_p_def open_new_def chmod_def rename_def copy_file_def remove_def,
    (rule keeps_sys, intro keeps_intros keeps_set_node, assumption+, simp)+)

lemma keeps_closing [keeps_intros]: "keeps (same_off P d) m \<Longrightarrow> keeps (same_off P d) (closing env m)"
  unfolding closing_def by (intro keeps_intros)

section \<open>How an operation ends\<close>

text \<open>
  \<open>outcome P m Q E\<close>: started where \<open>P\<close> holds, \<open>m\<close> returns a value with \<open>Q\<close> or raises an error with \<open>E\<close>,
  each of the state it leaves.
\<close>

definition outcome ::
  "('s \<Rightarrow> bool) \<Rightarrow> ('s, 'e, 'a) eff \<Rightarrow> ('a \<Rightarrow> 's \<Rightarrow> bool) \<Rightarrow> ('e \<Rightarrow> 's \<Rightarrow> bool) \<Rightarrow> bool" where
  "outcome P m Q E \<longleftrightarrow> (\<forall>s. P s \<longrightarrow> (case m s of (Inl e, t) \<Rightarrow> E e t | (Inr x, t) \<Rightarrow> Q x t))"

lemma outcomeI: "(\<And>s. P s \<Longrightarrow> case m s of (Inl e, t) \<Rightarrow> E e t | (Inr x, t) \<Rightarrow> Q x t) \<Longrightarrow> outcome P m Q E"
  by (simp add: outcome_def)

lemma outcomeD: "outcome P m Q E \<Longrightarrow> P s \<Longrightarrow> case m s of (Inl e, t) \<Rightarrow> E e t | (Inr x, t) \<Rightarrow> Q x t"
  by (simp add: outcome_def)

lemma outcome_returns: "outcome P m Q E \<Longrightarrow> P s \<Longrightarrow> m s = (Inr x, t) \<Longrightarrow> Q x t"
  and outcome_raises: "outcome P m Q E \<Longrightarrow> P s \<Longrightarrow> m s = (Inl e, t) \<Longrightarrow> E e t"
  by (drule (1) outcomeD, simp)+

lemma outcome_conseq:
  "outcome P m Q E \<Longrightarrow> (\<And>s. P' s \<Longrightarrow> P s) \<Longrightarrow> (\<And>x t. Q x t \<Longrightarrow> Q' x t) \<Longrightarrow> (\<And>e t. E e t \<Longrightarrow> E' e t) \<Longrightarrow> outcome P' m Q' E'"
  by (fastforce simp: outcome_def split: prod.splits sum.splits)

lemma outcome_ret: "(\<And>s. P s \<Longrightarrow> Q x s) \<Longrightarrow> outcome P (ret x) Q E"
  by (simp add: outcome_def ret_def)

lemma outcome_throw: "(\<And>s. P s \<Longrightarrow> E e s) \<Longrightarrow> outcome P (throw e) Q E"
  by (simp add: outcome_def throw_def)

lemma outcome_gets: "(\<And>s. P s \<Longrightarrow> Q (f s) s) \<Longrightarrow> outcome P (gets f) Q E"
  by (simp add: outcome_def gets_def)

lemma outcome_modify: "(\<And>s. P s \<Longrightarrow> Q () (f s)) \<Longrightarrow> outcome P (modify f) Q E"
  by (simp add: outcome_def modify_def)

lemma outcome_bnd: "outcome P m R E \<Longrightarrow> (\<And>x. outcome (R x) (f x) Q E) \<Longrightarrow> outcome P (bnd m f) Q E"
  by (fastforce simp: outcome_def bnd_def split: prod.splits sum.splits)

lemma outcome_seq: "outcome P m (\<lambda>_. R) E \<Longrightarrow> outcome R n Q E \<Longrightarrow> outcome P (seq m n) Q E"
  unfolding seq_def by (erule outcome_bnd)

lemma outcome_try_catch: "outcome P m Q R \<Longrightarrow> (\<And>e. outcome (R e) (h e) Q E) \<Longrightarrow> outcome P (try_catch m h) Q E"
  by (fastforce simp: outcome_def try_catch_def split: prod.splits sum.splits)

lemma outcome_for_each:
  "(\<And>ys x zs. xs = ys @ x # zs \<Longrightarrow> outcome (I ys) (f x) (\<lambda>_. I (ys @ [x])) E) \<Longrightarrow> outcome (I []) (for_each xs f) (\<lambda>_. I xs) E"
proof (induction xs arbitrary: I)
  case Nil
  show ?case by (simp add: outcome_ret)
next
  case (Cons x xs)
  have first: "outcome (I []) (f x) (\<lambda>_. I [x]) E" using Cons.prems [of "[]" x xs] by simp
  have rest: "outcome (I [x]) (for_each xs f) (\<lambda>_. I (x # xs)) E"
  proof (rule Cons.IH [of "\<lambda>ys. I (x # ys)"])
    fix ys y zs assume "xs = ys @ y # zs"
    then show "outcome (I (x # ys)) (f y) (\<lambda>_. I (x # ys @ [y])) E" using Cons.prems [of "x # ys" y zs] by simp
  qed
  show ?case by (simp add: outcome_seq [OF first rest])
qed

lemma outcome_keeps: "keeps I m \<Longrightarrow> outcome I m (\<lambda>_. I) (\<lambda>_. I)"
  by (fastforce simp: outcome_def keeps_def split: prod.splits sum.splits)

section \<open>Machines that fail once at most\<close>

definition calm_from :: "sys_env \<Rightarrow> machine \<Rightarrow> bool" where
  "calm_from env s \<longleftrightarrow> (\<forall>n. calls s \<le> n \<longrightarrow> fault env n = None)"

definition fails_once :: "sys_env \<Rightarrow> bool" where
  "fails_once env \<longleftrightarrow> (\<forall>m n. fault env m \<noteq> None \<longrightarrow> fault env n \<noteq> None \<longrightarrow> m = n)"

lemma calm_after_fault: "fails_once env \<Longrightarrow> fault env (calls s) = Some e \<Longrightarrow> calls t = calls s + 1 \<Longrightarrow> calm_from env t"
proof (unfold calm_from_def, intro allI impI)
  fix n assume once: "fails_once env" and f: "fault env (calls s) = Some e" and c: "calls t = calls s + 1" "calls t \<le> n"
  show "fault env n = None"
  proof (rule ccontr)
    assume "fault env n \<noteq> None"
    with once f have "calls s = n" by (simp add: fails_once_def)
    with c show False by simp
  qed
qed

lemma outcome_sys:
  assumes "fails_once env" "outcome P m Q (\<lambda>_ _. False)" "\<And>s c. P s \<Longrightarrow> P (s\<lparr>calls := c\<rparr>)"
  shows "outcome P (sys_call env m) Q (\<lambda>_ s. P s \<and> calm_from env s)"
proof (rule outcomeI)
  fix s assume p: "P s"
  show "case sys_call env m s of (Inl e, t) \<Rightarrow> P t \<and> calm_from env t | (Inr x, t) \<Rightarrow> Q x t"
  proof (cases "fault env (calls s)")
    case None
    from outcomeD [OF assms(2) assms(3) [OF p], of "calls s + 1"] None show ?thesis
      by (auto simp: sys_call_def split: prod.splits sum.splits)
  next
    case (Some e)
    with p assms(3) calm_after_fault [OF assms(1) Some] show ?thesis by (simp add: sys_call_def)
  qed
qed

lemma calm_sys: "calm_from env s \<Longrightarrow> sys_call env m s = m (s\<lparr>calls := calls s + 1\<rparr>)"
  by (simp add: calm_from_def sys_call_def)

lemma calm_step [simp]: "calm_from env s \<Longrightarrow> calm_from env (s\<lparr>calls := Suc (calls s)\<rparr>)"
  "calm_from env (put_node p n s) = calm_from env s" "calm_from env (s\<lparr>drawn := k\<rparr>) = calm_from env s"
  by (simp_all add: calm_from_def put_node_def)

lemma put_node_simps [simp]: "disk (put_node p n s) = (disk s)(p := n)" "calls (put_node p n s) = calls s"
  by (simp_all add: put_node_def)

section \<open>What the calls do, whatever fails\<close>

text \<open>Only a missing entry is reported as \<open>ENOENT\<close>.\<close>

definition honest_faults :: "sys_env \<Rightarrow> bool" where
  "honest_faults env \<longleftrightarrow> (\<forall>n e. fault env n = Some e \<longrightarrow> error_code e \<noteq> Some ''ENOENT'')"

definition content_of :: "(string \<Rightarrow> node option) \<Rightarrow> string \<Rightarrow> octets option" where
  "content_of d p = map_option content (d p)"

lemma mkdir_outcome:
  "outcome (\<lambda>s. disk s = d) (mkdir_p env q m)
     (\<lambda>_ t. (\<exists>n. disk t q = Some n \<and> node_kind n \<noteq> RegularFile) \<and> (\<forall>x. d x \<noteq> None \<or> x \<noteq> q \<longrightarrow> disk t x = d x))
     (\<lambda>_ t. disk t = d)"
  by (auto simp: outcome_def mkdir_p_def sys_call_def set_node_def put_node_def eff_defs split: option.splits)

lemma open_new_outcome:
  "outcome (\<lambda>s. disk s = d) (open_new env p m) (\<lambda>_ t. d p = None \<and> disk t = d(p \<mapsto> regular [] m)) (\<lambda>_ t. disk t = d)"
  by (auto simp: outcome_def open_new_def sys_call_def set_node_def put_node_def eff_defs split: option.splits)

lemma fill_outcome:
  "outcome (\<lambda>s. disk s = d(p \<mapsto> regular [] m)) (closing env (seq (write_handle env p b) (sync_handle env)))
     (\<lambda>_ t. disk t = d(p \<mapsto> regular b m)) (\<lambda>_ t. \<forall>x. x \<noteq> p \<longrightarrow> disk t x = d x)"
  by (auto simp: outcome_def closing_def write_handle_def sync_handle_def close_handle_def sys_call_def put_node_def eff_defs regular_def
      split: option.splits)

lemma chmod_outcome:
  "outcome (\<lambda>s. disk s = d(p \<mapsto> regular b m')) (chmod env p m) (\<lambda>_ t. disk t = d(p \<mapsto> regular b m)) (\<lambda>_ t. disk t = d(p \<mapsto> regular b m'))"
  by (auto simp: outcome_def chmod_def sys_call_def existing_def set_node_def put_node_def eff_defs regular_def split: option.splits)

end
