(* ===== verification/Transaction.thy ===== *)
theory Transaction
  imports NodeFs
begin

text \<open>
  \<open>packages/installer/src/transaction.ts\<close>: the files of an installation are written beside their places,
  then renamed over them one by one; when something fails the files renamed so far are restored. SHA-256
  and UTF-8 are fields of the machine's environment; \<open>afterApply\<close> is an argument.
\<close>

section \<open>Plans\<close>

datatype file_content = Bytes octets | Text string

record planned_file =
  path :: string
  planned :: file_content
  planned_mode :: "nat option"
  label :: string
  semanticDiff :: "string option"

record prepared_file = planned_file +
  new_bytes :: octets
  original :: "octets option"
  originalMode :: "nat option"
  stagedPath :: string
  backup_path :: "string option"

record transaction_options =
  dryRun :: bool
  print_diff :: bool
  failAfter :: "nat option"
  afterApply :: "unit io option"

record transaction_result =
  changed :: "string list"
  unchanged :: "string list"
  backups :: "string list"

section \<open>Files\<close>

definition readOptional :: "sys_env \<Rightarrow> string \<Rightarrow> octets option io" where
  "readOptional env p = try_catch (bnd (read_file env p) (\<lambda>b. ret (Some b)))
     (\<lambda>e. if error_code e = Some ''ENOENT'' then ret None else throw e)"

definition durableWrite :: "sys_env \<Rightarrow> string \<Rightarrow> octets \<Rightarrow> nat \<Rightarrow> unit io" where
  "durableWrite env p b m =
     seq (mkdir_p env (dirname env p) 448)
     (seq (open_new env p m)
     (seq (closing env (seq (write_handle env p b) (sync_handle env)))
       (chmod env p m)))"

definition syncDirectory :: "sys_env \<Rightarrow> string \<Rightarrow> unit io" where
  "syncDirectory env p = try_catch (seq (open_existing env p) (closing env (sync_handle env)))
     (\<lambda>e. if windows env then ret () else throw e)"

definition backupPath :: "sys_env \<Rightarrow> string \<Rightarrow> octets \<Rightarrow> string" where
  "backupPath env p b = p @ ''.agenttab-backup-'' @ take 12 (sha256_hex env b)"

definition digest_text :: "sys_env \<Rightarrow> octets option \<Rightarrow> string" where
  "digest_text env b = (case b of None \<Rightarrow> ''absent'' | Some x \<Rightarrow> take 12 (sha256_hex env x))"

definition renderDiff :: "sys_env \<Rightarrow> string \<Rightarrow> octets option \<Rightarrow> octets \<Rightarrow> string" where
  "renderDiff env l before after =
     ''--- '' @ l @ '' (sha256:'' @ digest_text env before @ '')'' @ [CHR 0x0A] @
     ''+++ '' @ l @ '' (sha256:'' @ digest_text env (Some after) @ '')''"

section \<open>Preparing\<close>

definition bytes_of :: "sys_env \<Rightarrow> file_content \<Rightarrow> octets" where
  "bytes_of env c = (case c of Bytes b \<Rightarrow> b | Text t \<Rightarrow> utf8 env t)"

definition mode_of :: "sys_env \<Rightarrow> string \<Rightarrow> octets option \<Rightarrow> nat option io" where
  "mode_of env p before = (if before \<noteq> None \<and> \<not> windows env
     then bnd (stat_file env p) (\<lambda>n. ret (Some (permissions n mod 512))) else ret None)"

definition mode_matches :: "nat option \<Rightarrow> nat option \<Rightarrow> bool" where
  "mode_matches wanted found \<longleftrightarrow> wanted = None \<or> found = None \<or> found = wanted"

definition show_diff :: "sys_env \<Rightarrow> transaction_options \<Rightarrow> planned_file \<Rightarrow> octets option \<Rightarrow> unit io" where
  "show_diff env opts f before = when_do (print_diff opts) (modify (\<lambda>s. s\<lparr>shown := shown s @
     [case semanticDiff f of Some d \<Rightarrow> d | None \<Rightarrow> renderDiff env (label f) before (bytes_of env (planned f))]\<rparr>))"

definition prepared_of :: "sys_env \<Rightarrow> planned_file \<Rightarrow> octets option \<Rightarrow> nat option \<Rightarrow> string \<Rightarrow> prepared_file" where
  "prepared_of env f before m u = \<lparr>path = path f, planned = planned f, planned_mode = planned_mode f, label = label f,
     semanticDiff = semanticDiff f, new_bytes = bytes_of env (planned f), original = before, originalMode = m,
     stagedPath = path f @ ''.agenttab-stage-'' @ u, backup_path = map_option (backupPath env (path f)) before\<rparr>"

definition prepare_file ::
  "sys_env \<Rightarrow> transaction_options \<Rightarrow> prepared_file list \<times> string list \<Rightarrow> planned_file \<Rightarrow> (prepared_file list \<times> string list) io" where
  "prepare_file env opts acc f =
     bnd (readOptional env (path f)) (\<lambda>before.
     bnd (mode_of env (path f) before) (\<lambda>m.
       if before = Some (bytes_of env (planned f)) \<and> mode_matches (planned_mode f) m
       then ret (fst acc, snd acc @ [path f])
       else seq (show_diff env opts f before)
         (bnd (randomUUID env) (\<lambda>u. ret (fst acc @ [prepared_of env f before m u], snd acc)))))"

definition first_some :: "nat option \<Rightarrow> nat option \<Rightarrow> nat \<Rightarrow> nat" where
  "first_some a b d = (case a of Some x \<Rightarrow> x | None \<Rightarrow> case b of Some x \<Rightarrow> x | None \<Rightarrow> d)"

definition stage_file :: "sys_env \<Rightarrow> prepared_file \<Rightarrow> unit io" where
  "stage_file env f = durableWrite env (stagedPath f) (new_bytes f) (first_some (planned_mode f) (originalMode f) 384)"

section \<open>Applying\<close>

definition make_backup :: "sys_env \<Rightarrow> prepared_file \<Rightarrow> string list \<Rightarrow> string list io" where
  "make_backup env f acc = (case backup_path f of
      None \<Rightarrow> ret acc
    | Some b \<Rightarrow> bnd (readOptional env b) (\<lambda>found.
        if found \<noteq> None then ret acc
        else seq (copy_file env (path f) b)
          (seq (chmod env b (first_some None (originalMode f) 384)) (ret (acc @ [b])))))"

text \<open>\<open>applied\<close> is a variable outside the \<open>try\<close>: an error carries the files renamed before it.\<close>

definition tagged :: "prepared_file list \<Rightarrow> 'a io \<Rightarrow> (machine, js_error \<times> prepared_file list, 'a) eff" where
  "tagged applied m s = (case m s of (Inl e, t) \<Rightarrow> (Inl (e, applied), t) | (Inr x, t) \<Rightarrow> (Inr x, t))"

definition injected_failure :: js_error where
  "injected_failure = new_error ''Injected transaction failure''"

fun apply_files :: "sys_env \<Rightarrow> transaction_options \<Rightarrow> prepared_file list \<Rightarrow> prepared_file list \<Rightarrow> string list \<Rightarrow>
    (machine, js_error \<times> prepared_file list, prepared_file list \<times> string list) eff" where
  "apply_files env opts [] applied saved = ret (applied, saved)"
| "apply_files env opts (f # fs) applied saved =
     bnd (tagged applied (bnd (make_backup env f saved) (\<lambda>more.
       seq (rename env (stagedPath f) (path f)) (ret more)))) (\<lambda>more.
     let done_now = applied @ [f] in
     seq (tagged done_now (seq (syncDirectory env (dirname env (path f)))
         (if failAfter opts = Some (length done_now) then throw injected_failure else ret ())))
       (apply_files env opts fs done_now more))"

definition after_apply :: "transaction_options \<Rightarrow> unit io" where
  "after_apply opts = (case afterApply opts of None \<Rightarrow> ret () | Some m \<Rightarrow> m)"

section \<open>Rolling back\<close>

definition restore_file :: "sys_env \<Rightarrow> prepared_file \<Rightarrow> unit io" where
  "restore_file env f = (case original f of
      None \<Rightarrow> remove env (path f)
    | Some b \<Rightarrow> bnd (randomUUID env) (\<lambda>u.
        let restore = path f @ ''.agenttab-restore-'' @ u in
        seq (durableWrite env restore b (first_some None (originalMode f) 384))
        (seq (rename env restore (path f)) (syncDirectory env (dirname env (path f))))))"

definition roll_back :: "sys_env \<Rightarrow> prepared_file list \<Rightarrow> prepared_file list \<Rightarrow> unit io" where
  "roll_back env prepared applied =
     seq (for_each (rev applied) (restore_file env)) (for_each prepared (\<lambda>f. remove env (stagedPath f)))"

definition attempt_apply :: "sys_env \<Rightarrow> transaction_options \<Rightarrow> prepared_file list \<Rightarrow>
    (machine, js_error \<times> prepared_file list, string list) eff" where
  "attempt_apply env opts prepared =
     bnd (apply_files env opts prepared [] []) (\<lambda>(applied, saved).
       seq (tagged applied (after_apply opts)) (ret saved))"

definition apply_or_restore :: "sys_env \<Rightarrow> transaction_options \<Rightarrow> prepared_file list \<Rightarrow> string list io" where
  "apply_or_restore env opts prepared s = (case attempt_apply env opts prepared s of
      (Inr saved, t) \<Rightarrow> (Inr saved, t)
    | (Inl (e, applied), t) \<Rightarrow> seq (roll_back env prepared applied) (throw e) t)"

definition applyTransaction :: "sys_env \<Rightarrow> planned_file list \<Rightarrow> transaction_options \<Rightarrow> transaction_result io" where
  "applyTransaction env files opts =
     bnd (fold_each files ([], []) (prepare_file env opts)) (\<lambda>(prepared, same).
       if dryRun opts then ret \<lparr>changed = [], unchanged = same, backups = []\<rparr>
       else if prepared = []
       then seq (after_apply opts) (ret \<lparr>changed = [], unchanged = same, backups = []\<rparr>)
       else seq (for_each prepared (stage_file env))
         (bnd (apply_or_restore env opts prepared) (\<lambda>saved.
           ret \<lparr>changed = map path prepared, unchanged = same, backups = saved\<rparr>)))"

end
