(* ===== verification/TransactionFacts.thy ===== *)
theory TransactionFacts
  imports Transaction
begin

text \<open>
  Facts on transactions: what each step does to the disk when any call may fail (the content of a target is
  never torn), and when one call at most fails (the roll-back completes).
\<close>

section \<open>Names\<close>

definition stage_name :: "string \<Rightarrow> string \<Rightarrow> string" where "stage_name p u = p @ ''.agenttab-stage-'' @ u"
definition restore_name :: "string \<Rightarrow> string \<Rightarrow> string" where "restore_name p u = p @ ''.agenttab-restore-'' @ u"
definition backup_name :: "string \<Rightarrow> string \<Rightarrow> string" where "backup_name p u = p @ ''.agenttab-backup-'' @ u"

definition targets :: "planned_file list \<Rightarrow> string set" where "targets files = path ` set files"

definition stages :: "planned_file list \<Rightarrow> string set" where "stages files = (\<Union>p\<in>targets files. range (stage_name p))"
definition restores :: "planned_file list \<Rightarrow> string set" where "restores files = (\<Union>p\<in>targets files. range (restore_name p))"
definition backup_names :: "planned_file list \<Rightarrow> string set" where "backup_names files = (\<Union>p\<in>targets files. range (backup_name p))"
definition folders :: "sys_env \<Rightarrow> planned_file list \<Rightarrow> string set" where "folders env files = dirname env ` targets files"

text \<open>
  The names of a plan do not collide: each file is planned once, no target is the working copy, the backup or
  the folder of another, and a working copy lies in the folder of its target.
\<close>

definition apart :: "sys_env \<Rightarrow> planned_file list \<Rightarrow> bool" where
  "apart env files \<longleftrightarrow> distinct (map path files) \<and>
     targets files \<inter> (stages files \<union> restores files \<union> backup_names files \<union> folders env files) = {} \<and>
     stages files \<inter> (restores files \<union> backup_names files \<union> folders env files) = {} \<and>
     restores files \<inter> (backup_names files \<union> folders env files) = {} \<and> backup_names files \<inter> folders env files = {} \<and>
     (\<forall>p\<in>targets files. \<forall>u. dirname env (stage_name p u) = dirname env p \<and> dirname env (restore_name p u) = dirname env p)"

text \<open>A prepared file is one of the plan, with what the disk \<open>d\<close> holds in its place.\<close>

definition prepared_on :: "sys_env \<Rightarrow> planned_file list \<Rightarrow> (string \<Rightarrow> node option) \<Rightarrow> prepared_file \<Rightarrow> bool" where
  "prepared_on env files d f \<longleftrightarrow> (\<exists>g u. g \<in> set files \<and>
     f = prepared_of env g (content_of d (path g))
       (if windows env then None else map_option (\<lambda>n. permissions n mod 512) (d (path g))) u)"

definition settled_as_is :: "sys_env \<Rightarrow> (string \<Rightarrow> node option) \<Rightarrow> planned_file \<Rightarrow> bool" where
  "settled_as_is env d g \<longleftrightarrow> (\<exists>n. d (path g) = Some n \<and> content n = bytes_of env (planned g) \<and>
     (windows env \<or> planned_mode g = None \<or> planned_mode g = Some (permissions n mod 512)))"

lemma prepared_on_fields:
  assumes "prepared_on env files d f"
  obtains g u where "g \<in> set files" "path f = path g" "original f = content_of d (path g)"
    "originalMode f = (if windows env then None else map_option (\<lambda>n. permissions n mod 512) (d (path g)))"
    "stagedPath f = stage_name (path g) u" "backup_path f = map_option (backupPath env (path g)) (content_of d (path g))"
    "planned_mode f = planned_mode g" "new_bytes f = bytes_of env (planned g)"
proof -
  from assms obtain g u where "g \<in> set files" "f = prepared_of env g (content_of d (path g))
       (if windows env then None else map_option (\<lambda>n. permissions n mod 512) (d (path g))) u"
    unfolding prepared_on_def by blast
  then show ?thesis using that [of g u] by (simp add: prepared_of_def stage_name_def)
qed

lemma name_sets: "p \<in> targets files \<Longrightarrow> stage_name p u \<in> stages files" "p \<in> targets files \<Longrightarrow> restore_name p u \<in> restores files"
  "p \<in> targets files \<Longrightarrow> backupPath env p b \<in> backup_names files" "p \<in> targets files \<Longrightarrow> dirname env p \<in> folders env files"
proof -
  show "p \<in> targets files \<Longrightarrow> backupPath env p b \<in> backup_names files"
    unfolding backup_names_def backupPath_def backup_name_def [symmetric] by blast
qed (auto simp: stages_def restores_def folders_def)

lemma prepared_on_simps:
  assumes "prepared_on env files d f"
  shows "path f \<in> targets files" "original f = content_of d (path f)"
    "originalMode f = (if windows env then None else map_option (\<lambda>n. permissions n mod 512) (d (path f)))"
    "stagedPath f \<in> stages files" "backup_path f = Some b \<Longrightarrow> b \<in> backup_names files \<and> d (path f) \<noteq> None"
    "dirname env (path f) \<in> folders env files" "apart env files \<Longrightarrow> dirname env (stagedPath f) = dirname env (path f)"
proof -
  obtain g u where f: "g \<in> set files" "path f = path g" "original f = content_of d (path g)"
    "originalMode f = (if windows env then None else map_option (\<lambda>n. permissions n mod 512) (d (path g)))"
    "stagedPath f = stage_name (path g) u" "backup_path f = map_option (backupPath env (path g)) (content_of d (path g))"
    using prepared_on_fields [OF assms] by metis
  show t: "path f \<in> targets files" using f(1,2) by (simp add: targets_def)
  show "original f = content_of d (path f)" 
    "originalMode f = (if windows env then None else map_option (\<lambda>n. permissions n mod 512) (d (path f)))"
    "stagedPath f \<in> stages files" "dirname env (path f) \<in> folders env files"
    using t name_sets(1,4) [OF t] by (simp_all add: f)
  show "backup_path f = Some b \<Longrightarrow> b \<in> backup_names files \<and> d (path f) \<noteq> None"
    using name_sets(3) [OF t] by (auto simp: f content_of_def)
  show "apart env files \<Longrightarrow> dirname env (stagedPath f) = dirname env (path f)"
    using t by (simp add: f apart_def)
qed

section \<open>Preparing\<close>

lemma outcome_fold_each:
  "(\<And>ys x zs acc. xs = ys @ x # zs \<Longrightarrow> outcome (I ys acc) (f acc x) (I (ys @ [x])) E) \<Longrightarrow>
   outcome (I [] acc) (fold_each xs acc f) (I xs) E"
proof (induction xs arbitrary: I acc)
  case Nil
  show ?case by (simp add: outcome_ret)
next
  case (Cons x xs)
  have head: "outcome (I [] acc) (f acc x) (I [x]) E" using Cons.prems [of "[]" x xs] by simp
  have tail: "outcome (I [x] acc') (fold_each xs acc' f) (I (x # xs)) E" for acc'
  proof (rule Cons.IH [of "\<lambda>ys. I (x # ys)"])
    fix ys y zs a assume "xs = ys @ y # zs"
    then show "outcome (I (x # ys) a) (f a y) (I (x # ys @ [y])) E" using Cons.prems [of "x # ys" y zs] by simp
  qed
  show ?case by (simp add: outcome_bnd [OF head tail])
qed

lemma bnd_run: "m s = (Inr x, t) \<Longrightarrow> bnd m f s = f x t"
  by (simp add: bnd_def)

lemma readOptional_outcome:
  "honest_faults env \<Longrightarrow> outcome (\<lambda>s. disk s = d) (readOptional env p)
     (\<lambda>r s. disk s = d \<and> r = content_of d p) (\<lambda>_ s. disk s = d)"
  by (auto simp: outcome_def readOptional_def read_file_def sys_call_def existing_def eff_defs honest_faults_def
      system_error_def coded_error_def error_code_def content_of_def split: option.splits if_splits)

lemma mode_of_outcome:
  "outcome (\<lambda>s. disk s = d) (mode_of env p (content_of d p))
     (\<lambda>r s. disk s = d \<and> r = (if windows env then None else map_option (\<lambda>n. permissions n mod 512) (d p))) (\<lambda>_ s. disk s = d)"
  by (auto simp: outcome_def mode_of_def stat_file_def sys_call_def existing_def eff_defs content_of_def split: option.splits if_splits)

lemma show_diff_outcome: "outcome (\<lambda>s. disk s = d) (show_diff env opts f b) (\<lambda>_ s. disk s = d) (\<lambda>_ s. disk s = d)"
  by (simp add: outcome_def show_diff_def eff_defs)

lemma randomUUID_outcome: "outcome (\<lambda>s. disk s = d) (randomUUID env) (\<lambda>_ s. disk s = d) (\<lambda>_ s. disk s = d)"
  by (simp add: outcome_def randomUUID_def eff_defs)

definition plan_covers :: "sys_env \<Rightarrow> (string \<Rightarrow> node option) \<Rightarrow> planned_file list \<Rightarrow> prepared_file list \<Rightarrow> bool" where
  "plan_covers env d files ps \<longleftrightarrow> (\<forall>f\<in>set ps. prepared_on env files d f) \<and>
     (distinct (map path files) \<longrightarrow> distinct (map path ps)) \<and>
     (\<forall>g\<in>set files. settled_as_is env d g \<or>
       (\<exists>f\<in>set ps. path f = path g \<and> planned_mode f = planned_mode g \<and> new_bytes f = bytes_of env (planned g)))"

definition prepared_so_far :: "sys_env \<Rightarrow> (string \<Rightarrow> node option) \<Rightarrow> planned_file list \<Rightarrow> prepared_file list \<times> string list \<Rightarrow> machine \<Rightarrow> bool" where
  "prepared_so_far env d files acc s \<longleftrightarrow> disk s = d \<and> plan_covers env d files (fst acc)"

lemma so_far_same:
  "prepared_so_far env d files acc s \<Longrightarrow> settled_as_is env d g \<Longrightarrow> prepared_so_far env d (files @ [g]) (fst acc, same) s"
  unfolding prepared_so_far_def plan_covers_def prepared_on_def by fastforce

lemma so_far_prepared:
  assumes "prepared_so_far env d files acc s"
    "f = prepared_of env g (content_of d (path g)) (if windows env then None else map_option (\<lambda>n. permissions n mod 512) (d (path g))) u"
  shows "prepared_so_far env d (files @ [g]) (fst acc @ [f], same) s"
proof -
  have f: "path f = path g" "planned_mode f = planned_mode g" "new_bytes f = bytes_of env (planned g)"
    by (simp_all add: assms(2) prepared_of_def)
  have "prepared_on env (files @ [g]) d f" unfolding prepared_on_def assms(2) by (intro exI [of _ g] exI [of _ u]) simp
  moreover have "prepared_on env (files @ [g]) d h" if "prepared_on env files d h" for h
    using that unfolding prepared_on_def by fastforce
  moreover have "path g \<notin> path ` set (fst acc)" if "distinct (map path (files @ [g]))"
  proof
    assume "path g \<in> path ` set (fst acc)"
    then obtain h where h: "h \<in> set (fst acc)" "path g = path h" by blast
    then have "path h \<in> targets files" using assms(1) prepared_on_simps(1) by (auto simp: prepared_so_far_def plan_covers_def)
    with h that show False by (auto simp: targets_def)
  qed
  ultimately show ?thesis
    using assms(1) f unfolding prepared_so_far_def plan_covers_def by (auto simp: ball_Un bex_Un)
qed

lemma prepare_file_outcome:
  assumes "honest_faults env"
  shows "outcome (prepared_so_far env d files acc) (prepare_file env opts acc g) (prepared_so_far env d (files @ [g])) (\<lambda>_ s. disk s = d)"
proof (rule outcomeI)
  fix s assume start: "prepared_so_far env d files acc s"
  then have d: "disk s = d" by (simp add: prepared_so_far_def)
  obtain r1 s1 where one: "readOptional env (path g) s = (r1, s1)" by (rule prod.exhaust)
  show "case prepare_file env opts acc g s of (Inl e, t) \<Rightarrow> disk t = d | (Inr x, t) \<Rightarrow> prepared_so_far env d (files @ [g]) x t"
  proof (cases r1)
    case (Inl e)
    with outcomeD [OF readOptional_outcome [OF assms] d, of "path g"] one show ?thesis by (simp add: prepare_file_def bnd_def)
  next
    case (Inr before)
    with outcomeD [OF readOptional_outcome [OF assms] d, of "path g"] one have d1: "disk s1 = d" and b: "before = content_of d (path g)" by auto
    obtain r2 s2 where two: "mode_of env (path g) before s1 = (r2, s2)" by (rule prod.exhaust)
    show ?thesis
    proof (cases r2)
      case (Inl e)
      with outcomeD [OF mode_of_outcome d1, of env "path g"] one two b \<open>r1 = _\<close> show ?thesis by (simp add: prepare_file_def bnd_def)
    next
      case (Inr m)
      have d2: "disk s2 = d" and m: "m = (if windows env then None else map_option (\<lambda>n. permissions n mod 512) (d (path g)))"
        using outcomeD [OF mode_of_outcome d1, of env "path g"] two b Inr by auto
      have same: "prepared_so_far env d files acc t" if "disk t = d" for t
        using start that by (simp add: prepared_so_far_def)
      show ?thesis
      proof (cases "before = Some (bytes_of env (planned g)) \<and> mode_matches (planned_mode g) m")
        case True
        then have "settled_as_is env d g"
          using b m by (auto simp: settled_as_is_def mode_matches_def content_of_def split: if_splits)
        from so_far_same [OF same [OF d2] this] True one two \<open>r1 = _\<close> Inr show ?thesis
          by (simp add: prepare_file_def bnd_def ret_def)
      next
        case False
        obtain u t where rest: "seq (show_diff env opts g before)
            (bnd (randomUUID env) (\<lambda>u. ret (fst acc @ [prepared_of env g before m u], snd acc))) s2 =
            (Inr (fst acc @ [prepared_of env g before m u], snd acc), t)" and t: "disk t = d"
        proof -
          obtain t where "show_diff env opts g before s2 = (Inr (), t)" "disk t = d"
            using d2 by (cases "print_diff opts") (simp_all add: show_diff_def eff_defs)
          then show ?thesis using that [of "uuid env (drawn t)"] by (simp add: randomUUID_def eff_defs)
        qed
        have "prepare_file env opts acc g s = (Inr (fst acc @ [prepared_of env g before m u], snd acc), t)"
          unfolding prepare_file_def
          using False rest by (simp add: bnd_run [of "readOptional env (path g)", OF one [unfolded \<open>r1 = _\<close>]]
            bnd_run [of "mode_of env (path g) before", OF two [unfolded Inr]])
        with so_far_prepared [OF same [OF t] refl, of g u] show ?thesis by (simp add: b m)
      qed
    qed
  qed
qed

lemma prepare_outcome:
  assumes "honest_faults env"
  shows "outcome (\<lambda>s. disk s = d) (fold_each files ([], []) (prepare_file env opts)) (prepared_so_far env d files) (\<lambda>_ s. disk s = d)"
proof (rule outcome_conseq [OF outcome_fold_each [of files "prepared_so_far env d"]])
  show "outcome (prepared_so_far env d ys acc) (prepare_file env opts acc x) (prepared_so_far env d (ys @ [x])) (\<lambda>_ s. disk s = d)"
    for ys x acc by (rule prepare_file_outcome [OF assms])
qed (simp_all add: prepared_so_far_def plan_covers_def)

end
