(* ===== verification/RollbackFacts.thy ===== *)
theory RollbackFacts
  imports TransactionFacts
begin

text \<open>
  What staging, applying and rolling back do to the disk: for any faults the content of every target, and
  for one fault at most its whole entry.
\<close>

section \<open>Writing a file\<close>

definition adds_only :: "sys_env \<Rightarrow> string \<Rightarrow> (string \<Rightarrow> node option) \<Rightarrow> machine \<Rightarrow> bool" where
  "adds_only env p d t \<longleftrightarrow> (\<forall>q. d q \<noteq> None \<longrightarrow> disk t q = d q) \<and> same_off {p, dirname env p} d t"

lemma durableWrite_outcome:
  "outcome (\<lambda>s. disk s = d) (durableWrite env p b m)
     (\<lambda>_ t. adds_only env p d t \<and> d p = None \<and> disk t p = Some (regular b m) \<and>
        (\<exists>n. disk t (dirname env p) = Some n \<and> node_kind n \<noteq> RegularFile))
     (\<lambda>_ t. adds_only env p d t)"
proof (rule outcomeI)
  fix s :: machine assume d: "disk s = d"
  let ?q = "dirname env p"
  let ?r = "seq (open_new env p m) (seq (closing env (seq (write_handle env p b) (sync_handle env))) (chmod env p m))"
  let ?Q = "\<lambda>d'. (\<exists>n. d' ?q = Some n \<and> node_kind n \<noteq> RegularFile) \<and> (\<forall>x. d x \<noteq> None \<or> x \<noteq> ?q \<longrightarrow> d' x = d x)"
  let ?E = "\<lambda>t. adds_only env p d t"
  have adds: "?E t" if "?Q d'" "\<forall>x. x \<noteq> p \<longrightarrow> disk t x = d' x" "d' p = None \<or> disk t = d'" for d' t
    using that by (auto simp: adds_only_def same_off_def) (metis option.distinct(1))+
  have rest: "outcome (\<lambda>s. disk s = d') ?r (\<lambda>_ t. d' p = None \<and> disk t = d'(p \<mapsto> regular b m)) (\<lambda>_. ?E)" if "?Q d'" for d'
  proof -
    have opened: "outcome (\<lambda>s. disk s = d') (open_new env p m) (\<lambda>_ t. d' p = None \<and> disk t = d'(p \<mapsto> regular [] m)) (\<lambda>_. ?E)"
      by (rule outcome_conseq [OF open_new_outcome]) (use adds [OF that] in auto)
    have filling: "outcome (\<lambda>t. d' p = None \<and> disk t = d'(p \<mapsto> regular [] m))
       (seq (closing env (seq (write_handle env p b) (sync_handle env))) (chmod env p m))
       (\<lambda>_ t. d' p = None \<and> disk t = d'(p \<mapsto> regular b m)) (\<lambda>_. ?E)"
    proof (cases "d' p = None")
      case True
      have fill: "outcome (\<lambda>t. d' p = None \<and> disk t = d'(p \<mapsto> regular [] m)) (closing env (seq (write_handle env p b) (sync_handle env)))
         (\<lambda>_ t. disk t = d'(p \<mapsto> regular b m)) (\<lambda>_. ?E)"
        by (rule outcome_conseq [OF fill_outcome]) (use True adds [OF that] in auto)
      have mode: "outcome (\<lambda>t. disk t = d'(p \<mapsto> regular b m)) (chmod env p m)
         (\<lambda>_ t. d' p = None \<and> disk t = d'(p \<mapsto> regular b m)) (\<lambda>_. ?E)"
        by (rule outcome_conseq [OF chmod_outcome]) (use True adds [OF that] in auto)
      show ?thesis by (rule outcome_seq [OF fill mode])
    next
      case False
      then show ?thesis by (auto simp: outcome_def)
    qed
    show ?thesis by (rule outcome_seq [OF opened filling])
  qed
  show "case durableWrite env p b m s of (Inl e, t) \<Rightarrow> ?E t
    | (Inr x, t) \<Rightarrow> ?E t \<and> d p = None \<and> disk t p = Some (regular b m) \<and> (\<exists>n. disk t ?q = Some n \<and> node_kind n \<noteq> RegularFile)"
  proof (cases "mkdir_p env ?q 448 s")
    case (Pair r t)
    show ?thesis
    proof (cases r)
      case (Inl e)
      with Pair outcome_raises [OF mkdir_outcome d] show ?thesis
        by (fastforce simp: durableWrite_def seq_def bnd_def adds_only_def same_off_def)
    next
      case (Inr u)
      with Pair outcome_returns [OF mkdir_outcome d] have q: "?Q (disk t)" by auto
      have run: "durableWrite env p b m s = ?r t"
        using Pair Inr by (simp add: durableWrite_def seq_def bnd_def)
      show ?thesis
      proof (cases "?r t")
        case (Pair r' t')
        show ?thesis
        proof (cases r')
          case (Inl e)
          with Pair run outcome_raises [OF rest [OF q] refl] show ?thesis by simp
        next
          case (Inr u)
          with Pair outcome_returns [OF rest [OF q] refl] have t': "disk t p = None" "disk t' = (disk t)(p \<mapsto> regular b m)" by auto
          have "?E t'" by (rule adds [OF q]) (use t' in auto)
          moreover have p: "p \<noteq> ?q" "d p = None"
          proof -
            show "p \<noteq> ?q" using q t'(1) by auto
            show "d p = None" using conjunct2 [OF q, rule_format, of p] t'(1) by (cases "d p") simp_all
          qed
          moreover have "disk t' p = Some (regular b m)" "disk t' ?q = disk t ?q" using p(1) by (simp_all add: t'(2))
          ultimately show ?thesis using q by (simp only: run Pair Inr prod.case sum.case)
        qed
      qed
    qed
  qed
qed

section \<open>Staging\<close>

definition planned_node :: "prepared_file \<Rightarrow> node" where
  "planned_node f = regular (new_bytes f) (first_some (planned_mode f) (originalMode f) 384)"

definition aside :: "sys_env \<Rightarrow> planned_file list \<Rightarrow> string set" where
  "aside env files = stages files \<union> folders env files"

definition staged_on :: "sys_env \<Rightarrow> planned_file list \<Rightarrow> (string \<Rightarrow> node option) \<Rightarrow> prepared_file list \<Rightarrow> machine \<Rightarrow> bool" where
  "staged_on env files d ps s \<longleftrightarrow> same_off (aside env files) d s \<and> distinct (map stagedPath ps) \<and>
     (\<forall>f\<in>set ps. disk s (stagedPath f) = Some (planned_node f) \<and>
        (\<exists>n. disk s (dirname env (path f)) = Some n \<and> node_kind n \<noteq> RegularFile))"

lemma same_off_adds:
  assumes "same_off P d s" "adds_only env p (disk s) t" "p \<in> P" "dirname env p \<in> P"
  shows "same_off P d t"
  using assms unfolding same_off_def adds_only_def by (metis insert_iff singletonD)

lemma stage_outcome:
  assumes "apart env files" "\<And>f. f \<in> set ps \<Longrightarrow> prepared_on env files d f"
  shows "outcome (\<lambda>s. disk s = d) (for_each ps (stage_file env)) (\<lambda>_. staged_on env files d ps) (\<lambda>_. same_off (aside env files) d)"
proof (rule outcome_conseq [OF outcome_for_each])
  fix ys f zs assume ps: "ps = ys @ f # zs"
  then have f: "prepared_on env files d f" using assms(2) by simp
  have in_aside: "stagedPath f \<in> aside env files" "dirname env (stagedPath f) \<in> aside env files"
    using prepared_on_simps(4,6,7) [OF f] assms(1) by (simp_all add: aside_def)
  show "outcome (staged_on env files d ys) (stage_file env f) (\<lambda>_. staged_on env files d (ys @ [f])) (\<lambda>_. same_off (aside env files) d)"
  proof (rule outcomeI)
    fix s assume s: "staged_on env files d ys s"
    then have off: "same_off (aside env files) d s" by (simp add: staged_on_def)
    note run = outcomeD [OF durableWrite_outcome [of "disk s" env "stagedPath f" "new_bytes f"], OF refl, of "first_some (planned_mode f) (originalMode f) 384"]
    show "case stage_file env f s of (Inl e, t) \<Rightarrow> same_off (aside env files) d t | (Inr x, t) \<Rightarrow> staged_on env files d (ys @ [f]) t"
    proof (cases "stage_file env f s")
      case (Pair r t)
      then have run: "case (r, t) of (Inl e, t) \<Rightarrow> adds_only env (stagedPath f) (disk s) t
         | (Inr x, t) \<Rightarrow> adds_only env (stagedPath f) (disk s) t \<and> disk s (stagedPath f) = None \<and> disk t (stagedPath f) = Some (planned_node f) \<and>
        (\<exists>n. disk t (dirname env (stagedPath f)) = Some n \<and> node_kind n \<noteq> RegularFile)"
        using run by (cases r) (simp_all add: stage_file_def planned_node_def)
      then have adds: "adds_only env (stagedPath f) (disk s) t" by (simp split: sum.splits)
      have off': "same_off (aside env files) d t" by (rule same_off_adds [OF off adds in_aside])
      have old: "disk t q = disk s q" if "disk s q \<noteq> None" for q using adds that by (simp add: adds_only_def)
      show ?thesis
      proof (cases r)
        case (Inl e)
        with Pair off' show ?thesis by simp
      next
        case (Inr u)
        with run have new: "disk s (stagedPath f) = None" "disk t (stagedPath f) = Some (planned_node f)"
          "\<exists>n. disk t (dirname env (path f)) = Some n \<and> node_kind n \<noteq> RegularFile"
          using prepared_on_simps(7) [OF f assms(1)] by auto
        have "stagedPath f \<notin> stagedPath ` set ys" using s new(1) by (auto simp: staged_on_def)
        moreover have "disk t (stagedPath g) = Some (planned_node g) \<and> (\<exists>n. disk t (dirname env (path g)) = Some n \<and> node_kind n \<noteq> RegularFile)"
          if "g \<in> set ys" for g
          using s that old [of "stagedPath g"] old [of "dirname env (path g)"] by (auto simp: staged_on_def)
        ultimately have "staged_on env files d (ys @ [f]) t" using s off' new by (simp add: staged_on_def ball_Un)
        with Pair Inr show ?thesis by simp
      qed
    qed
  qed
qed (simp_all add: staged_on_def same_off_def)

section \<open>Applying\<close>

text \<open>The loop, over what holds between its steps: \<open>K applied waiting\<close>, and \<open>E applied\<close> when it fails.\<close>

lemma tagged_outcome: "outcome P m Q (\<lambda>_. E) \<Longrightarrow> outcome P (tagged applied m) Q (\<lambda>e t. snd e = applied \<and> E t)"
  by (fastforce simp: outcome_def tagged_def split: prod.splits sum.splits)

lemma apply_files_outcome:
  assumes "\<And>fin f fs saved. ps = fin @ f # fs \<Longrightarrow>
      outcome (K fin (f # fs)) (make_backup env f saved) (\<lambda>_. K fin (f # fs)) (\<lambda>_. E fin)"
    "\<And>fin f fs. ps = fin @ f # fs \<Longrightarrow> outcome (K fin (f # fs)) (rename env (stagedPath f) (path f)) (\<lambda>_. K (fin @ [f]) fs) (\<lambda>_. E fin)"
    "\<And>fin f fs. ps = fin @ f # fs \<Longrightarrow>
      outcome (K (fin @ [f]) fs) (syncDirectory env (dirname env (path f))) (\<lambda>_. K (fin @ [f]) fs) (\<lambda>_. E (fin @ [f]))"
    "\<And>fin f fs s. ps = fin @ f # fs \<Longrightarrow> failAfter opts \<noteq> None \<Longrightarrow> K (fin @ [f]) fs s \<Longrightarrow> E (fin @ [f]) s"
  shows "ps = fin @ fs \<Longrightarrow> outcome (K fin fs) (apply_files env opts fs fin saved)
     (\<lambda>r t. fst r = ps \<and> K ps [] t) (\<lambda>e t. E (snd e) t \<and> (\<exists>zs. ps = snd e @ zs))"
proof (induction fs arbitrary: fin saved)
  case Nil
  then show ?case by (simp add: outcome_def ret_def)
next
  case (Cons f fs)
  let ?E = "\<lambda>e t. E (snd e) t \<and> (\<exists>zs. ps = snd e @ zs)"
  have one: "outcome (K fin (f # fs)) (bnd (make_backup env f saved) (\<lambda>more. seq (rename env (stagedPath f) (path f)) (ret more)))
     (\<lambda>_. K (fin @ [f]) fs) (\<lambda>_. E fin)"
    by (rule outcome_bnd [OF assms(1)] outcome_seq [OF assms(2)] outcome_ret Cons.prems | assumption)+
  have two: "outcome (K (fin @ [f]) fs) (seq (syncDirectory env (dirname env (path f)))
         (if failAfter opts = Some (length (fin @ [f])) then throw injected_failure else ret ())) (\<lambda>_. K (fin @ [f]) fs) (\<lambda>_. E (fin @ [f]))"
  proof (rule outcome_seq [OF assms(3) [OF Cons.prems]])
    show "outcome (K (fin @ [f]) fs) (if failAfter opts = Some (length (fin @ [f])) then throw injected_failure else ret ())
      (\<lambda>_. K (fin @ [f]) fs) (\<lambda>_. E (fin @ [f]))"
      using assms(4) [OF Cons.prems] by (auto simp: outcome_def throw_def ret_def)
  qed
  have three: "outcome (K (fin @ [f]) fs) (apply_files env opts fs (fin @ [f]) more) (\<lambda>r t. fst r = ps \<and> K ps [] t) ?E" for more
    using Cons.IH [of "fin @ [f]"] Cons.prems by simp
  have "ps = fin @ (f # fs)" "ps = (fin @ [f]) @ fs" using Cons.prems by simp_all
  then show ?case unfolding apply_files.simps Let_def
    by (intro outcome_bnd [OF outcome_conseq [OF tagged_outcome [OF one]]] outcome_seq [OF outcome_conseq [OF tagged_outcome [OF two]] three]) auto
qed

lemma attempt_apply_outcome:
  assumes "outcome P (apply_files env opts ps [] []) (\<lambda>r. K (fst r)) (\<lambda>e. E (snd e))"
    "\<And>applied. outcome (K applied) (after_apply opts) (\<lambda>_. F) (\<lambda>_. E applied)"
  shows "outcome P (attempt_apply env opts ps) (\<lambda>_. F) (\<lambda>e. E (snd e))"
  unfolding attempt_apply_def
proof (rule outcome_bnd [OF assms(1)])
  fix r :: "prepared_file list \<times> string list"
  have t: "outcome (K (fst r)) (tagged (fst r) (after_apply opts)) (\<lambda>_. F) (\<lambda>e. E (snd e))"
    by (rule outcome_conseq [OF tagged_outcome [OF assms(2)]]) auto
  show "outcome (K (fst r)) (case r of (applied, saved) \<Rightarrow> seq (tagged applied (after_apply opts)) (ret saved)) (\<lambda>_. F) (\<lambda>e. E (snd e))"
    unfolding split_beta by (rule outcome_seq [OF t]) (simp add: outcome_ret)
qed

lemma apply_or_restore_outcome:
  assumes "outcome P (attempt_apply env opts ps) (\<lambda>_. F) (\<lambda>e. E (snd e))"
    "\<And>applied. outcome (E applied) (roll_back env ps applied) (\<lambda>_. R) (\<lambda>_. R)"
  shows "outcome P (apply_or_restore env opts ps) (\<lambda>_. F) (\<lambda>_. R)"
proof (rule outcomeI)
  fix s assume s: "P s"
  show "case apply_or_restore env opts ps s of (Inl e, t) \<Rightarrow> R t | (Inr x, t) \<Rightarrow> F t"
  proof (cases "attempt_apply env opts ps s")
    case (Pair r t)
    show ?thesis
    proof (cases r)
      case (Inl e)
      then have "E (snd e) t" using outcome_raises [OF assms(1) s] Pair by simp
      from outcomeD [OF assms(2) this] show ?thesis
        by (auto simp: apply_or_restore_def Pair Inl seq_def bnd_def throw_def split_beta split: prod.splits sum.splits)
    next
      case (Inr x)
      with outcome_returns [OF assms(1) s] Pair show ?thesis by (simp add: apply_or_restore_def)
    qed
  qed
qed

section \<open>No target is torn\<close>

definition own_names :: "sys_env \<Rightarrow> planned_file list \<Rightarrow> string set" where
  "own_names env files = targets files \<union> aside env files \<union> restores files"

text \<open>What the caller runs at the end changes none of the transaction's own files.\<close>

definition leaves_alone :: "sys_env \<Rightarrow> planned_file list \<Rightarrow> transaction_options \<Rightarrow> bool" where
  "leaves_alone env files opts \<longleftrightarrow> (\<forall>m d. afterApply opts = Some m \<longrightarrow> keeps (same_off (- own_names env files) d) m)"

definition whole :: "planned_file list \<Rightarrow> prepared_file list \<Rightarrow> (string \<Rightarrow> node option) \<Rightarrow> machine \<Rightarrow> bool" where
  "whole files ps d s \<longleftrightarrow> (\<forall>p\<in>targets files. content_of (disk s) p = content_of d p \<or>
     (\<exists>f\<in>set ps. path f = p \<and> content_of (disk s) p = Some (new_bytes f)))"

definition stages_whole :: "prepared_file list \<Rightarrow> machine \<Rightarrow> bool" where
  "stages_whole fs s \<longleftrightarrow> (\<forall>f\<in>set fs. content_of (disk s) (stagedPath f) = Some (new_bytes f))"

lemma outcome_off:
  assumes "\<And>d. keeps (same_off P d) m" "\<And>s t. I s \<Longrightarrow> same_off P (disk s) t \<Longrightarrow> I t"
  shows "outcome I m (\<lambda>_. I) (\<lambda>_. I)"
proof (rule outcomeI)
  fix s assume s: "I s"
  have "same_off P (disk s) (snd (m s))" by (rule keepsD [OF assms(1)]) (simp add: same_off_def)
  from assms(2) [OF s this] show "case m s of (Inl e, t) \<Rightarrow> I t | (Inr x, t) \<Rightarrow> I t"
    by (auto split: prod.splits sum.splits)
qed

lemma same_off_disk: "same_off P (disk s) t \<Longrightarrow> p \<notin> P \<Longrightarrow> disk t p = disk s p"
  by (simp add: same_off_def)

lemma whole_off: "whole files ps d s \<Longrightarrow> same_off P (disk s) t \<Longrightarrow> P \<inter> targets files = {} \<Longrightarrow> whole files ps d t"
  unfolding whole_def content_of_def by (metis disjoint_iff same_off_disk)

lemma stages_whole_off: "stages_whole fs s \<Longrightarrow> same_off P (disk s) t \<Longrightarrow> P \<inter> stagedPath ` set fs = {} \<Longrightarrow> stages_whole fs t"
  unfolding stages_whole_def content_of_def by (metis disjoint_iff image_eqI same_off_disk)

lemma keeps_make_backup:
  "(\<And>b. backup_path f = Some b \<Longrightarrow> b \<in> P) \<Longrightarrow> keeps (same_off P d) (make_backup env f acc)"
  unfolding make_backup_def readOptional_def
  by (cases "backup_path f") (auto intro!: keeps_intros keeps_io_on)

lemma keeps_syncDirectory: "keeps (same_off P d) (syncDirectory env p)"
  unfolding syncDirectory_def by (intro keeps_intros)

lemma keeps_after_apply: "leaves_alone env files opts \<Longrightarrow> keeps (same_off (- own_names env files) d) (after_apply opts)"
  unfolding leaves_alone_def after_apply_def by (auto intro!: keeps_ret split: option.split)

lemma rename_whole:
  assumes "path f \<in> targets files" "f \<in> set ps" "stagedPath f \<notin> targets files"
    "stagedPath f \<notin> stagedPath ` set fs" "stagedPath ` set fs \<inter> targets files = {}"
  shows "outcome (\<lambda>s. whole files ps d s \<and> stages_whole (f # fs) s) (rename env (stagedPath f) (path f))
    (\<lambda>_ s. whole files ps d s \<and> stages_whole fs s) (\<lambda>_. whole files ps d)"
proof (rule outcomeI)
  fix s assume s: "whole files ps d s \<and> stages_whole (f # fs) s"
  then obtain n where n: "disk s (stagedPath f) = Some n" "content n = new_bytes f"
    by (auto simp: stages_whole_def content_of_def)
  show "case rename env (stagedPath f) (path f) s of (Inl e, t) \<Rightarrow> whole files ps d t
    | (Inr x, t) \<Rightarrow> whole files ps d t \<and> stages_whole fs t"
  proof (cases "fault env (calls s)")
    case None
    let ?t = "put_node (path f) (Some n) (put_node (stagedPath f) None (s\<lparr>calls := Suc (calls s)\<rparr>))"
    have "rename env (stagedPath f) (path f) s = (Inr (), ?t)"
      by (simp add: rename_def sys_call_def existing_def set_node_def eff_defs None n)
    moreover have "whole files ps d ?t" using s assms(2,3) n unfolding whole_def content_of_def by fastforce
    moreover have "stages_whole fs ?t"
    proof (rule stages_whole_off)
      show "stages_whole fs s" using s by (simp add: stages_whole_def)
      show "same_off {path f, stagedPath f} (disk s) ?t" by (simp add: same_off_def)
      show "{path f, stagedPath f} \<inter> stagedPath ` set fs = {}" using assms(1,4,5) by blast
    qed
    ultimately show ?thesis by simp
  next
    case (Some e)
    then show ?thesis using s by (simp add: rename_def sys_call_def whole_def)
  qed
qed

lemma restore_file_whole:
  assumes "apart env files" "prepared_on env files d f"
  shows "outcome (whole files ps d) (restore_file env f) (\<lambda>_. whole files ps d) (\<lambda>_. whole files ps d)"
proof (cases "original f")
  case None
  have "whole files ps d (put_node (path f) None s)" if "whole files ps d s" for s
    using that prepared_on_simps(2) [OF assms(2)] None by (auto simp: whole_def content_of_def)
  then show ?thesis
    by (auto simp: restore_file_def None outcome_def remove_def sys_call_def set_node_def eff_defs whole_def split: option.split)
next
  case (Some b)
  note f = prepared_on_simps [OF assms(2)]
  have wrote: "outcome (whole files ps d) (durableWrite env (restore_name (path f) u) b m)
     (\<lambda>_ s. whole files ps d s \<and> content_of (disk s) (restore_name (path f) u) = Some b) (\<lambda>_. whole files ps d)" for u m
  proof (rule outcomeI)
    fix s assume s: "whole files ps d s"
    have off: "{restore_name (path f) u, dirname env (restore_name (path f) u)} \<inter> targets files = {}"
      using assms(1) name_sets(2,4) [OF f(1)] f(1) by (auto simp: apart_def)
    have "whole files ps d t" if "adds_only env (restore_name (path f) u) (disk s) t" for t
      by (rule whole_off [OF s _ off]) (use that in \<open>simp add: adds_only_def\<close>)
    with outcomeD [OF durableWrite_outcome [of "disk s" env "restore_name (path f) u" b m], OF refl]
    show "case durableWrite env (restore_name (path f) u) b m s of (Inl e, t) \<Rightarrow> whole files ps d t
      | (Inr x, t) \<Rightarrow> whole files ps d t \<and> content_of (disk t) (restore_name (path f) u) = Some b"
      by (auto simp: content_of_def regular_def split: prod.splits sum.splits)
  qed
  have move: "outcome (\<lambda>s. whole files ps d s \<and> content_of (disk s) r = Some b) (rename env r (path f)) (\<lambda>_. whole files ps d) (\<lambda>_. whole files ps d)"
    if "r \<notin> targets files" for r
    using that f(2) Some unfolding whole_def
    by (auto simp: outcome_def rename_def sys_call_def existing_def set_node_def eff_defs content_of_def split: option.splits if_splits)
  have sync: "outcome (whole files ps d) (syncDirectory env q) (\<lambda>_. whole files ps d) (\<lambda>_. whole files ps d)" for q
    by (rule outcome_off [OF keeps_syncDirectory [of "{}"]]) (rule whole_off, auto)
  have draw: "outcome (whole files ps d) (randomUUID env) (\<lambda>_. whole files ps d) (\<lambda>_. whole files ps d)"
    by (simp add: outcome_def randomUUID_def eff_defs whole_def)
  have out: "restore_name (path f) u \<notin> targets files" for u
    using assms(1) name_sets(2) [OF f(1)] by (auto simp: apart_def)
  show ?thesis
    unfolding restore_file_def Some option.case Let_def restore_name_def [symmetric]
    by (rule outcome_bnd [OF draw] outcome_seq [OF wrote] outcome_seq [OF move] sync out)+
qed

lemma roll_back_whole:
  assumes "apart env files" "\<And>f. f \<in> set ps \<Longrightarrow> prepared_on env files d f" "set applied \<subseteq> set ps"
  shows "outcome (whole files ps d) (roll_back env ps applied) (\<lambda>_. whole files ps d) (\<lambda>_. whole files ps d)"
  unfolding roll_back_def
proof (rule outcome_seq)
  show "outcome (whole files ps d) (for_each (rev applied) (restore_file env)) (\<lambda>_. whole files ps d) (\<lambda>_. whole files ps d)"
  proof (rule outcome_for_each)
    fix ys f zs assume "rev applied = ys @ f # zs"
    then have "f \<in> set (rev applied)" by simp
    then have "f \<in> set ps" using assms(3) by auto
    then show "outcome (whole files ps d) (restore_file env f) (\<lambda>_. whole files ps d) (\<lambda>_. whole files ps d)"
      by (rule restore_file_whole [OF assms(1) assms(2)])
  qed
  have "keeps (same_off (stages files) d') (for_each ps (\<lambda>f. remove env (stagedPath f)))" for d'
    by (rule keeps_for_each_in) (use prepared_on_simps(4) [OF assms(2)] in \<open>auto intro: keeps_io_on\<close>)
  then show "outcome (whole files ps d) (for_each ps (\<lambda>f. remove env (stagedPath f))) (\<lambda>_. whole files ps d) (\<lambda>_. whole files ps d)"
    by (rule outcome_off) (erule whole_off, use assms(1) in \<open>auto simp: apart_def\<close>)
qed

end
