(* ===== verification/RestoreFacts.thy ===== *)
theory RestoreFacts
  imports RollbackFacts
begin

text \<open>
  A machine that fails once at most: whatever fails while the files are renamed, the roll-back then restores
  every entry; and the steps of a transaction put together.
\<close>

section \<open>A transaction, from its steps\<close>

lemma transaction_outcome:
  assumes "apart env files" "honest_faults env" "\<not> dryRun opts"
    "\<And>t. same_off (aside env files) d t \<Longrightarrow> R t"
    "outcome (\<lambda>s. disk s = d) (after_apply opts) (\<lambda>_. F []) (\<lambda>_. R)"
    "\<And>ps. plan_covers env d files ps \<Longrightarrow> outcome (staged_on env files d ps) (apply_or_restore env opts ps) (\<lambda>_. F ps) (\<lambda>_. R)"
    "\<And>ps t. plan_covers env d files ps \<Longrightarrow> F ps t \<Longrightarrow> G t"
  shows "outcome (\<lambda>s. disk s = d) (applyTransaction env files opts) (\<lambda>_. G) (\<lambda>_. R)"
  unfolding applyTransaction_def
proof (rule outcome_bnd)
  have "R t" if "disk t = d" for t by (rule assms(4)) (simp add: same_off_def that)
  then show "outcome (\<lambda>s. disk s = d) (fold_each files ([], []) (prepare_file env opts)) (prepared_so_far env d files) (\<lambda>_. R)"
    by (intro outcome_conseq [OF prepare_outcome [OF assms(2)]]) auto
  fix acc :: "prepared_file list \<times> string list"
  obtain ps same where acc: "acc = (ps, same)" by (rule prod.exhaust)
  have "outcome (prepared_so_far env d files acc) (if ps = [] then seq (after_apply opts) (ret \<lparr>changed = [], unchanged = same, backups = []\<rparr>)
     else seq (for_each ps (stage_file env)) (bnd (apply_or_restore env opts ps) (\<lambda>saved. ret \<lparr>changed = map path ps, unchanged = same, backups = saved\<rparr>)))
    (\<lambda>_. G) (\<lambda>_. R)"
  proof (cases "plan_covers env d files ps")
    case covers: True
    have done_all: "outcome (F qs) (ret x) (\<lambda>_. G) (\<lambda>_. R)" if "plan_covers env d files qs" for qs and x :: transaction_result
      by (rule outcome_ret) (rule assms(7) [OF that])
    show ?thesis
    proof (cases "ps = []")
      case True
      show ?thesis unfolding if_P [OF True]
        by (rule outcome_conseq [OF outcome_seq [OF assms(5) done_all]]) (use covers True in \<open>simp_all add: prepared_so_far_def\<close>)
    next
      case False
      have prep: "\<And>f. f \<in> set ps \<Longrightarrow> prepared_on env files d f" using covers by (simp add: plan_covers_def)
      have staging: "outcome (\<lambda>s. disk s = d) (for_each ps (stage_file env)) (\<lambda>_. staged_on env files d ps) (\<lambda>_. R)"
        by (rule outcome_conseq [OF stage_outcome [OF assms(1) prep]]) (simp_all add: assms(4))
      show ?thesis unfolding if_not_P [OF False]
        by (rule outcome_conseq [OF outcome_seq [OF staging outcome_bnd [OF assms(6) [OF covers] done_all [OF covers]]]])
          (simp_all add: prepared_so_far_def)
    qed
  next
    case False
    then show ?thesis by (simp add: outcome_def prepared_so_far_def acc)
  qed
  then show "outcome (prepared_so_far env d files acc) (case acc of (prepared, same) \<Rightarrow>
       if dryRun opts then ret \<lparr>changed = [], unchanged = same, backups = []\<rparr>
       else if prepared = [] then seq (after_apply opts) (ret \<lparr>changed = [], unchanged = same, backups = []\<rparr>)
       else seq (for_each prepared (stage_file env)) (bnd (apply_or_restore env opts prepared) (\<lambda>saved.
           ret \<lparr>changed = map path prepared, unchanged = same, backups = saved\<rparr>))) (\<lambda>_. G) (\<lambda>_. R)"
    by (simp add: acc assms(3))
qed

lemma dry_run_outcome:
  assumes "honest_faults env" "dryRun opts"
  shows "outcome (\<lambda>s. disk s = d) (applyTransaction env files opts) (\<lambda>_ t. disk t = d) (\<lambda>_ t. disk t = d)"
  unfolding applyTransaction_def
  by (rule outcome_bnd [OF prepare_outcome [OF assms(1)]]) (auto simp: outcome_def ret_def assms(2) prepared_so_far_def split: prod.split)

lemma outcome_off_weak:
  assumes "\<And>d. keeps (same_off P d) m" "\<And>s t. I s \<Longrightarrow> same_off P (disk s) t \<Longrightarrow> I t" "\<And>s. I s \<Longrightarrow> J s"
  shows "outcome I m (\<lambda>_. I) (\<lambda>_. J)"
  by (rule outcome_conseq [OF outcome_off [OF assms(1,2)]]) (use assms(3) in auto)

section \<open>Any faults: no target is torn\<close>

lemma apply_whole:
  assumes "apart env files" "plan_covers env d files ps" "leaves_alone env files opts"
  shows "outcome (staged_on env files d ps) (apply_or_restore env opts ps) (\<lambda>_. whole files ps d) (\<lambda>_. whole files ps d)"
proof (cases "distinct (map stagedPath ps)")
  case dist: True
  have prep: "\<And>f. f \<in> set ps \<Longrightarrow> prepared_on env files d f" using assms(2) by (simp add: plan_covers_def)
  have out: "stagedPath ` set ps \<inter> targets files = {}" "backup_names files \<inter> targets files = {}" "backup_names files \<inter> stagedPath ` set ps = {}"
    using prepared_on_simps(4) [OF prep] assms(1) by (auto simp: apart_def)
  let ?K = "\<lambda>fs s. whole files ps d s \<and> stages_whole fs s"
  have steps: "outcome (?K ps) (apply_files env opts ps [] []) (\<lambda>r t. fst r = ps \<and> ?K [] t) (\<lambda>e t. whole files ps d t \<and> (\<exists>zs. ps = snd e @ zs))"
  proof (rule apply_files_outcome [where K = "\<lambda>_. ?K" and E = "\<lambda>_. whole files ps d"])
    fix fin f fs saved assume ps: "ps = fin @ f # fs"
    then have f: "prepared_on env files d f" and sub: "stagedPath ` set (f # fs) \<subseteq> stagedPath ` set ps" using prep by auto
    show "outcome (?K (f # fs)) (make_backup env f saved) (\<lambda>_. ?K (f # fs)) (\<lambda>_. whole files ps d)"
    proof (rule outcome_off_weak [OF keeps_make_backup [where P = "backup_names files"]])
      show "b \<in> backup_names files" if "backup_path f = Some b" for b using prepared_on_simps(5) [OF f that] by simp
      fix s t assume "?K (f # fs) s" "same_off (backup_names files) (disk s) t"
      moreover have "backup_names files \<inter> stagedPath ` set (f # fs) = {}" using out(3) sub by fast
      ultimately show "?K (f # fs) t" using whole_off [of files ps d s _ t, OF _ _ out(2)] stages_whole_off [of "f # fs" s "backup_names files" t] by simp
    qed simp
    show "outcome (?K (f # fs)) (rename env (stagedPath f) (path f)) (\<lambda>_. ?K fs) (\<lambda>_. whole files ps d)"
      by (rule rename_whole) (use ps dist out(1) prepared_on_simps(1) [OF f] in auto)
    show "outcome (?K fs) (syncDirectory env (dirname env (path f))) (\<lambda>_. ?K fs) (\<lambda>_. whole files ps d)"
    proof (rule outcome_off_weak [OF keeps_syncDirectory [of "{}"]])
      fix s t assume "?K fs s" "same_off {} (disk s) t"
      then show "?K fs t" using whole_off [of _ _ _ s "{}" t] stages_whole_off [of _ s "{}" t] by simp
    qed simp
  qed auto
  let ?E = "\<lambda>applied t. whole files ps d t \<and> (\<exists>zs. ps = applied @ zs)"
  have after: "outcome (\<lambda>t. applied = ps \<and> whole files ps d t) (after_apply opts) (\<lambda>_. whole files ps d) (\<lambda>_. ?E applied)" for applied
  proof -
    have "outcome (whole files ps d) (after_apply opts) (\<lambda>_. whole files ps d) (\<lambda>_. whole files ps d)"
      by (rule outcome_off [OF keeps_after_apply [OF assms(3)]]) (erule whole_off, auto simp: own_names_def)
    then show ?thesis by (auto simp: outcome_def split: prod.splits sum.splits)
  qed
  have attempt: "outcome (?K ps) (attempt_apply env opts ps) (\<lambda>_. whole files ps d) (\<lambda>e. ?E (snd e))"
    by (rule attempt_apply_outcome [OF outcome_conseq [OF steps] after]) auto
  have undone: "outcome (?E applied) (roll_back env ps applied) (\<lambda>_. whole files ps d) (\<lambda>_. whole files ps d)" for applied
  proof (cases "set applied \<subseteq> set ps")
    case True
    show ?thesis by (rule outcome_conseq [OF roll_back_whole [OF assms(1) prep True]]) auto
  next
    case False
    then show ?thesis by (auto simp: outcome_def)
  qed
  have start: "?K ps s" if "staged_on env files d ps s" for s
  proof -
    have "same_off (aside env files) d s" using that by (simp add: staged_on_def)
    moreover have "aside env files \<inter> targets files = {}" using assms(1) by (auto simp: apart_def aside_def)
    ultimately have "\<forall>p\<in>targets files. disk s p = d p" by (auto simp: same_off_def)
    then show ?thesis using that by (simp add: whole_def content_of_def stages_whole_def staged_on_def planned_node_def regular_def)
  qed
  show ?thesis by (rule outcome_conseq [OF apply_or_restore_outcome [OF attempt undone]]) (use start in auto)
next
  case False
  then show ?thesis by (auto simp: outcome_def staged_on_def)
qed

section \<open>One failure: every target is restored\<close>

definition plain_disk :: "sys_env \<Rightarrow> planned_file list \<Rightarrow> (string \<Rightarrow> node option) \<Rightarrow> bool" where
  "plain_disk env files d \<longleftrightarrow> (\<forall>p\<in>targets files \<union> backup_names files. \<forall>n. d p = Some n \<longrightarrow> node_kind n = RegularFile \<and> permissions n < 512) \<and>
     (\<forall>r\<in>restores files. d r = None)"

text \<open>Either one call fails and nothing else does, or no call fails and the caller makes the transaction fail.\<close>

definition one_failure :: "sys_env \<Rightarrow> transaction_options \<Rightarrow> bool" where
  "one_failure env opts \<longleftrightarrow> (if failAfter opts = None \<and> afterApply opts = None then fails_once env else (\<forall>n. fault env n = None))"

lemma one_failure_once: "one_failure env opts \<Longrightarrow> fails_once env"
  by (simp add: one_failure_def fails_once_def split: if_splits)

definition ready_to_undo :: "sys_env \<Rightarrow> planned_file list \<Rightarrow> prepared_file list \<Rightarrow> (string \<Rightarrow> node option) \<Rightarrow> string set \<Rightarrow> machine \<Rightarrow> bool" where
  "ready_to_undo env files ps d new s \<longleftrightarrow> (\<forall>p\<in>targets files. p \<notin> new \<longrightarrow> disk s p = d p) \<and>
     (\<forall>r\<in>restores files. disk s r = None) \<and>
     (\<forall>f\<in>set ps. \<exists>n. disk s (dirname env (path f)) = Some n \<and> node_kind n \<noteq> RegularFile)"

definition mid_apply :: "sys_env \<Rightarrow> planned_file list \<Rightarrow> prepared_file list \<Rightarrow> (string \<Rightarrow> node option) \<Rightarrow> prepared_file list \<Rightarrow> prepared_file list \<Rightarrow> machine \<Rightarrow> bool" where
  "mid_apply env files ps d fin fs s \<longleftrightarrow> ready_to_undo env files ps d (path ` set fin) s \<and>
     (\<forall>f\<in>set fin. disk s (path f) = Some (planned_node f)) \<and> (\<forall>f\<in>set fs. disk s (stagedPath f) = Some (planned_node f)) \<and>
     (\<forall>b\<in>backup_names files. \<forall>n. disk s b = Some n \<longrightarrow> node_kind n = RegularFile)"

lemma undo_calls [simp]: "ready_to_undo env files ps d new (s\<lparr>calls := c\<rparr>) = ready_to_undo env files ps d new s"
  "mid_apply env files ps d fin fs (s\<lparr>calls := c\<rparr>) = mid_apply env files ps d fin fs s"
  "ready_to_undo env files ps d new (s\<lparr>drawn := c\<rparr>) = ready_to_undo env files ps d new s"
  by (simp_all add: ready_to_undo_def mid_apply_def)

lemma existing_outcome:
  "(\<And>s. I s \<Longrightarrow> disk s p \<noteq> None) \<Longrightarrow> (\<And>n. outcome (\<lambda>s. I s \<and> disk s p = Some n) (f n) Q E) \<Longrightarrow> outcome I (existing p f) Q E"
  by (fastforce simp: outcome_def existing_def bnd_def gets_def split: option.split)

lemma existing_once:
  assumes "fails_once env" "\<And>s c. I s \<Longrightarrow> I (s\<lparr>calls := c\<rparr>)" "\<And>s. I s \<Longrightarrow> disk s p \<noteq> None"
    "\<And>n. outcome (\<lambda>s. I s \<and> disk s p = Some n) (f n) Q (\<lambda>_ _. False)"
  shows "outcome I (sys_call env (existing p f)) Q (\<lambda>_ s. I s \<and> calm_from env s)"
proof (rule outcome_sys [OF assms(1)])
  show "outcome I (existing p f) Q (\<lambda>_ _. False)" by (rule existing_outcome [OF assms(3,4)])
qed (rule assms(2))

lemma set_node_outcome: "(\<And>s. I s \<Longrightarrow> Q () (put_node p n s)) \<Longrightarrow> outcome I (set_node p n) Q E"
  unfolding set_node_def by (rule outcome_modify)

text \<open>An effect whose only error is the one failure.\<close>

lemma readOptional_once:
  assumes "fails_once env" "honest_faults env" "\<And>s c. I s \<Longrightarrow> I (s\<lparr>calls := c\<rparr>)"
    "\<And>s n. I s \<Longrightarrow> disk s p = Some n \<Longrightarrow> node_kind n \<noteq> Directory"
  shows "outcome I (readOptional env p) (\<lambda>_. I) (\<lambda>_ s. I s \<and> calm_from env s)"
proof (rule outcomeI)
  fix s assume i: "I s"
  show "case readOptional env p s of (Inl e, t) \<Rightarrow> I t \<and> calm_from env t | (Inr x, t) \<Rightarrow> I t"
  proof (cases "fault env (calls s)")
    case None
    with assms(3,4) [OF i] show ?thesis
      by (auto simp: readOptional_def read_file_def sys_call_def existing_def eff_defs system_error_def coded_error_def error_code_def
          split: option.split)
  next
    case (Some e)
    moreover from this assms(2) have "error_code e \<noteq> Some ''ENOENT''" by (simp add: honest_faults_def)
    moreover have "calm_from env (s\<lparr>calls := calls s + 1\<rparr>)" by (rule calm_after_fault [OF assms(1) Some]) simp
    ultimately show ?thesis using assms(3) [OF i] by (simp add: readOptional_def read_file_def sys_call_def eff_defs)
  qed
qed

lemma syncDirectory_once:
  assumes "fails_once env" "\<And>s c. I s \<Longrightarrow> I (s\<lparr>calls := c\<rparr>)" "\<And>s. I s \<Longrightarrow> disk s p \<noteq> None" "\<not> windows env"
  shows "outcome I (syncDirectory env p) (\<lambda>_. I) (\<lambda>_ s. I s \<and> calm_from env s)"
proof -
  have opened: "outcome I (open_existing env p) (\<lambda>_. I) (\<lambda>_ s. I s \<and> calm_from env s)"
    unfolding open_existing_def
    by (rule existing_once [where I = I, OF assms(1,2,3)]) (auto intro!: outcome_ret)
  have synced: "outcome I (sync_handle env) (\<lambda>_. I) (\<lambda>_ s. I s \<and> calm_from env s)"
    "outcome I (close_handle env) (\<lambda>_. I) (\<lambda>_ s. I s \<and> calm_from env s)"
    unfolding sync_handle_def close_handle_def by (rule outcome_sys [where P = I, OF assms(1) outcome_ret assms(2)], assumption+)+
  have failed: "outcome (\<lambda>s. I s \<and> calm_from env s) (seq (close_handle env) (throw e)) Q (\<lambda>_ s. I s \<and> calm_from env s)" for e Q
    using assms(2) by (simp add: outcome_def close_handle_def seq_def bnd_def throw_def ret_def calm_sys)
  have "outcome I (closing env (sync_handle env)) (\<lambda>_. I) (\<lambda>_ s. I s \<and> calm_from env s)"
    unfolding closing_def by (rule outcome_seq [OF outcome_try_catch [OF synced(1) failed] synced(2)])
  then show ?thesis unfolding syncDirectory_def
    by (intro outcome_try_catch [OF outcome_seq [OF opened]]) (auto simp: assms(4) intro: outcome_throw)
qed

lemma mid_backup:
  assumes "apart env files" "\<And>f. f \<in> set ps \<Longrightarrow> prepared_on env files d f" "set fin \<union> set fs \<subseteq> set ps" "b \<in> backup_names files"
    "mid_apply env files ps d fin fs s" "node_kind n = RegularFile"
  shows "mid_apply env files ps d fin fs (put_node b (Some n) s)"
proof -
  have off: "b \<notin> targets files" "b \<notin> restores files" "b \<notin> stages files" "b \<notin> folders env files"
    using assms(1,4) by (auto simp: apart_def)
  have f: "path f \<noteq> b" "stagedPath f \<noteq> b" "dirname env (path f) \<noteq> b" if "f \<in> set ps" for f
    using prepared_on_simps(1,4,6) [OF assms(2) [OF that]] off by auto
  have "f \<in> set fin \<Longrightarrow> f \<in> set ps" "f \<in> set fs \<Longrightarrow> f \<in> set ps" for f using assms(3) by auto
  then show ?thesis using assms(5,6) off f unfolding mid_apply_def ready_to_undo_def by auto
qed

lemma make_backup_once:
  assumes "apart env files" "\<And>f. f \<in> set ps \<Longrightarrow> prepared_on env files d f" "set fin \<union> set (f # fs) \<subseteq> set ps" "path f \<notin> path ` set fin"
    "fails_once env" "honest_faults env" "plain_disk env files d"
  shows "outcome (mid_apply env files ps d fin (f # fs)) (make_backup env f saved) (\<lambda>_. mid_apply env files ps d fin (f # fs))
    (\<lambda>_ s. mid_apply env files ps d fin (f # fs) s \<and> calm_from env s)"
proof (cases "backup_path f")
  case None
  then show ?thesis by (simp add: make_backup_def outcome_ret)
next
  case (Some b)
  let ?I = "mid_apply env files ps d fin (f # fs)"
  have fp: "f \<in> set ps" using assms(3) by simp
  note f = prepared_on_simps [OF assms(2) [OF fp]]
  have b: "b \<in> backup_names files" "d (path f) \<noteq> None" using f(5) [OF Some] by simp_all
  have found: "\<exists>n. disk s (path f) = Some n \<and> node_kind n = RegularFile" if "?I s" for s
  proof -
    have "disk s (path f) = d (path f)" using that f(1) assms(4) by (simp add: mid_apply_def ready_to_undo_def)
    then show ?thesis using b(2) f(1) assms(7) by (auto simp: plain_disk_def)
  qed
  note step = mid_backup [OF assms(1,2,3) b(1)]
  have read: "outcome ?I (readOptional env b) (\<lambda>_. ?I) (\<lambda>_ s. ?I s \<and> calm_from env s)"
    by (rule readOptional_once [OF assms(5,6)]) (use b(1) in \<open>auto simp: mid_apply_def\<close>)
  have copy: "outcome ?I (copy_file env (path f) b) (\<lambda>_ s. ?I s \<and> disk s b \<noteq> None) (\<lambda>_ s. ?I s \<and> calm_from env s)"
    unfolding copy_file_def
  proof (rule existing_once [OF assms(5)])
    show "disk s (path f) \<noteq> None" if "?I s" for s using found [OF that] by auto
    show "outcome (\<lambda>s. ?I s \<and> disk s (path f) = Some n) (set_node b (Some (regular (content n) (permissions n))))
       (\<lambda>_ s. ?I s \<and> disk s b \<noteq> None) (\<lambda>_ _. False)" for n
      by (rule set_node_outcome) (use step in \<open>auto simp: regular_def\<close>)
  qed simp
  have mode: "outcome (\<lambda>s. ?I s \<and> disk s b \<noteq> None) (chmod env b m) (\<lambda>_. ?I) (\<lambda>_ s. (?I s \<and> disk s b \<noteq> None) \<and> calm_from env s)" for m
    unfolding chmod_def
  proof (rule existing_once [OF assms(5)])
    show "outcome (\<lambda>s. (?I s \<and> disk s b \<noteq> None) \<and> disk s b = Some n) (set_node b (Some (n\<lparr>permissions := m\<rparr>))) (\<lambda>_. ?I) (\<lambda>_ _. False)" for n
    proof (rule set_node_outcome)
      fix s assume s: "(?I s \<and> disk s b \<noteq> None) \<and> disk s b = Some n"
      then have "node_kind n = RegularFile" using b(1) by (simp add: mid_apply_def)
      then show "?I (put_node b (Some (n\<lparr>permissions := m\<rparr>)) s)" using s by (intro step) simp_all
    qed
  qed auto
  have mode': "outcome (\<lambda>s. ?I s \<and> disk s b \<noteq> None) (chmod env b m) (\<lambda>_. ?I) (\<lambda>_ s. ?I s \<and> calm_from env s)" for m
    by (rule outcome_conseq [OF mode]) auto
  show ?thesis unfolding make_backup_def Some option.case
  proof (rule outcome_bnd [OF read])
    fix x :: "octets option"
    have "outcome ?I (seq (copy_file env (path f) b) (seq (chmod env b m) (ret y))) (\<lambda>_. ?I) (\<lambda>_ s. ?I s \<and> calm_from env s)" for m and y :: "string list"
      by (rule outcome_seq [OF copy outcome_seq [OF mode' outcome_ret]])
    then show "outcome ?I (if x \<noteq> None then ret saved else seq (copy_file env (path f) b)
          (seq (chmod env b (first_some None (originalMode f) 384)) (ret (saved @ [b])))) (\<lambda>_. ?I) (\<lambda>_ s. ?I s \<and> calm_from env s)"
      by (simp add: outcome_ret)
  qed
qed

lemma rename_once:
  assumes "apart env files" "\<And>f. f \<in> set ps \<Longrightarrow> prepared_on env files d f" "ps = fin @ f # fs"
    "distinct (map path ps)" "distinct (map stagedPath ps)" "fails_once env"
  shows "outcome (mid_apply env files ps d fin (f # fs)) (rename env (stagedPath f) (path f)) (\<lambda>_. mid_apply env files ps d (fin @ [f]) fs)
    (\<lambda>_ s. mid_apply env files ps d fin (f # fs) s \<and> calm_from env s)"
  unfolding rename_def
proof (rule existing_once [OF assms(6)])
  show "disk s (stagedPath f) \<noteq> None" if "mid_apply env files ps d fin (f # fs) s" for s using that by (simp add: mid_apply_def)
  fix n
  have f: "path g \<in> targets files" "stagedPath g \<in> stages files" "dirname env (path g) \<in> folders env files" if "g \<in> set ps" for g
    using prepared_on_simps(1,4,6) [OF assms(2) [OF that]] by simp_all
  have off: "targets files \<inter> (stages files \<union> restores files \<union> backup_names files \<union> folders env files) = {}"
    "stages files \<inter> (restores files \<union> backup_names files \<union> folders env files) = {}" using assms(1) by (simp_all add: apart_def)
  have new: "mid_apply env files ps d (fin @ [f]) fs (put_node (path f) (Some n) (put_node (stagedPath f) None s))"
    if s: "mid_apply env files ps d fin (f # fs) s" "disk s (stagedPath f) = Some n" for s
  proof -
    have fp: "f \<in> set ps" using assms(3) by simp
    have n: "n = planned_node f" using s by (simp add: mid_apply_def)
    let ?t = "put_node (path f) (Some n) (put_node (stagedPath f) None s)"
    have same: "disk ?t q = disk s q" if "q \<in> restores files \<union> backup_names files \<union> folders env files" for q
      using that f [OF fp] off by auto
    have "\<forall>p\<in>targets files. p \<notin> path ` set (fin @ [f]) \<longrightarrow> disk ?t p = d p"
      using s(1) f(2) [OF fp] off by (auto simp: mid_apply_def ready_to_undo_def)
    moreover have "\<forall>r\<in>restores files. disk ?t r = None" "\<forall>g\<in>set ps. \<exists>n. disk ?t (dirname env (path g)) = Some n \<and> node_kind n \<noteq> RegularFile"
      "\<forall>b\<in>backup_names files. \<forall>n. disk ?t b = Some n \<longrightarrow> node_kind n = RegularFile"
      using s(1) same f(3) unfolding mid_apply_def ready_to_undo_def by (metis UnI1 UnI2)+
    moreover have "\<forall>g\<in>set (fin @ [f]). disk ?t (path g) = Some (planned_node g)"
    proof
      fix g assume "g \<in> set (fin @ [f])"
      moreover have "path g \<noteq> path f \<and> path g \<noteq> stagedPath f" if "g \<in> set fin"
      proof -
        have "path f \<notin> path ` set fin" "path g \<in> targets files" using that assms(3,4) f(1) [of g] by auto
        then show ?thesis using imageI [OF that, of path] f(2) [OF fp] off by auto
      qed
      ultimately show "disk ?t (path g) = Some (planned_node g)" using s(1) n by (auto simp: mid_apply_def)
    qed
    moreover have "\<forall>g\<in>set fs. disk ?t (stagedPath g) = Some (planned_node g)"
    proof
      fix g assume g: "g \<in> set fs"
      have "stagedPath g \<noteq> path f" "stagedPath g \<noteq> stagedPath f"
      proof -
        have "stagedPath f \<notin> stagedPath ` set fs" "stagedPath g \<in> stages files" using g assms(3,5) f(2) [of g] by auto
        then show "stagedPath g \<noteq> path f" "stagedPath g \<noteq> stagedPath f" using imageI [OF g, of stagedPath] f(1) [OF fp] off by auto
      qed
      then show "disk ?t (stagedPath g) = Some (planned_node g)" using s(1) g by (simp add: mid_apply_def)
    qed
    ultimately show ?thesis unfolding mid_apply_def ready_to_undo_def by (intro conjI)
  qed
  show "outcome (\<lambda>s. mid_apply env files ps d fin (f # fs) s \<and> disk s (stagedPath f) = Some n)
    (seq (set_node (stagedPath f) None) (set_node (path f) (Some n))) (\<lambda>_. mid_apply env files ps d (fin @ [f]) fs) (\<lambda>_ _. False)"
    using new by (simp add: outcome_def set_node_def eff_defs)
qed simp

section \<open>The roll-back, when nothing fails any more\<close>

lemma durableWrite_calm:
  assumes "calm_from env s" "disk s p = None" "disk s (dirname env p) = Some n" "node_kind n \<noteq> RegularFile"
  shows "\<exists>t. durableWrite env p b m s = (Inr (), t) \<and> calm_from env t \<and> disk t = (disk s)(p \<mapsto> regular b m)"
proof -
  have quiet: "fault env k = None" if "calls s \<le> k" for k using assms(1) that by (simp add: calm_from_def)
  have "p \<noteq> dirname env p" using assms(2,3) by auto
  then show ?thesis
    using assms by (simp add: durableWrite_def mkdir_p_def open_new_def closing_def write_handle_def sync_handle_def close_handle_def chmod_def
        existing_def set_node_def sys_call_def eff_defs quiet calm_from_def put_node_def regular_def)
qed

lemma syncDirectory_calm:
  "calm_from env s \<Longrightarrow> disk s p \<noteq> None \<Longrightarrow> \<exists>t. syncDirectory env p s = (Inr (), t) \<and> calm_from env t \<and> disk t = disk s"
  by (auto simp: syncDirectory_def open_existing_def closing_def sync_handle_def close_handle_def existing_def sys_call_def eff_defs calm_from_def)

lemma rename_calm:
  "calm_from env s \<Longrightarrow> disk s p = Some n \<Longrightarrow> \<exists>t. rename env p q s = (Inr (), t) \<and> calm_from env t \<and> disk t = (disk s)(p := None, q \<mapsto> n)"
  by (auto simp: rename_def existing_def set_node_def sys_call_def eff_defs calm_from_def put_node_def)

lemma remove_calm: "calm_from env s \<Longrightarrow> \<exists>t. remove env p s = (Inr (), t) \<and> calm_from env t \<and> disk t = (disk s)(p := None)"
  by (auto simp: remove_def set_node_def sys_call_def eff_defs calm_from_def put_node_def)

lemma restore_file_calm:
  assumes "apart env files" "plain_disk env files d" "\<not> windows env" "\<And>g. g \<in> set ps \<Longrightarrow> prepared_on env files d g" "f \<in> set ps"
  shows "outcome (\<lambda>s. ready_to_undo env files ps d new s \<and> calm_from env s) (restore_file env f)
    (\<lambda>_ s. ready_to_undo env files ps d (new - {path f}) s \<and> calm_from env s) (\<lambda>_ _. False)"
proof (rule outcomeI)
  fix s assume s: "ready_to_undo env files ps d new s \<and> calm_from env s"
  note f = prepared_on_simps [OF assms(4) [OF assms(5)]]
  have off: "path f \<notin> restores files" "path f \<notin> folders env files" using f(1) assms(1) by (auto simp: apart_def)
  have fold: "dirname env (path g) \<noteq> path f" if "g \<in> set ps" for g using prepared_on_simps(6) [OF assms(4) [OF that]] off by auto
  have goal: "ready_to_undo env files ps d (new - {path f}) t" if "disk t = (disk s)(path f := d (path f))" for t
    using s that off fold by (auto simp: ready_to_undo_def)
  show "case restore_file env f s of (Inl e, t) \<Rightarrow> False | (Inr x, t) \<Rightarrow> ready_to_undo env files ps d (new - {path f}) t \<and> calm_from env t"
  proof (cases "original f")
    case None
    then have "d (path f) = None" using f(2) by (simp add: content_of_def)
    with remove_calm [of env s "path f"] s goal None show ?thesis by (auto simp: restore_file_def)
  next
    case (Some b)
    then obtain n where n: "d (path f) = Some n" "content n = b" using f(2) by (auto simp: content_of_def)
    have "node_kind n = RegularFile \<and> permissions n < 512" using assms(2) f(1) n(1) unfolding plain_disk_def by blast
    then have node: "regular b (first_some None (originalMode f) 384) = n"
      using f(3) assms(3) n by (cases n) (simp add: regular_def first_some_def)
    let ?r = "restore_name (path f) (uuid env (drawn s))" and ?s = "s\<lparr>drawn := drawn s + 1\<rparr>"
    have r: "?r \<in> restores files" "dirname env ?r = dirname env (path f)" using name_sets(2) [OF f(1)] f(1) assms(1) by (auto simp: apart_def)
    obtain m where m: "disk s (dirname env (path f)) = Some m" "node_kind m \<noteq> RegularFile" using s assms(5) by (auto simp: ready_to_undo_def)
    have "disk ?s ?r = None" using s r(1) by (simp add: ready_to_undo_def)
    then obtain t1 where t1: "durableWrite env ?r b (first_some None (originalMode f) 384) ?s = (Inr (), t1)" "calm_from env t1" "disk t1 = (disk s)(?r \<mapsto> n)"
      using durableWrite_calm [of env ?s ?r m b "first_some None (originalMode f) 384"] s m r(2) node by auto
    then obtain t2 where t2: "rename env ?r (path f) t1 = (Inr (), t2)" "calm_from env t2" "disk t2 = (disk s)(?r := None, path f \<mapsto> n)"
      using rename_calm [of env t1 ?r n "path f"] by auto
    have d2: "disk t2 = (disk s)(path f := d (path f))" using t2(3) n \<open>disk ?s ?r = None\<close> by auto
    have "disk t2 (dirname env (path f)) \<noteq> None" using d2 m(1) n by simp
    then obtain t3 where t3: "syncDirectory env (dirname env (path f)) t2 = (Inr (), t3)" "calm_from env t3" "disk t3 = disk t2"
      using syncDirectory_calm [OF t2(2)] by blast
    have "restore_file env f s = (Inr (), t3)"
      using t1(1) t2(1) t3(1) by (simp add: restore_file_def Some Let_def restore_name_def randomUUID_def eff_defs)
    then show ?thesis using goal [of t3] t3 d2 by simp
  qed
qed

lemma roll_back_calm:
  assumes "apart env files" "plain_disk env files d" "\<not> windows env" "\<And>g. g \<in> set ps \<Longrightarrow> prepared_on env files d g" "set applied \<subseteq> set ps"
  shows "outcome (\<lambda>s. ready_to_undo env files ps d (path ` set applied) s \<and> calm_from env s) (roll_back env ps applied)
    (\<lambda>_ s. \<forall>p\<in>targets files. disk s p = d p) (\<lambda>_ _. False)"
  unfolding roll_back_def
proof (rule outcome_seq)
  let ?I = "\<lambda>(ys :: prepared_file list) s. ready_to_undo env files ps d (path ` set applied - path ` set ys) s \<and> calm_from env s"
  have "outcome (?I []) (for_each (rev applied) (restore_file env)) (\<lambda>_. ?I (rev applied)) (\<lambda>_ _. False)"
  proof (rule outcome_for_each [where I = ?I])
    fix ys f zs assume "rev applied = ys @ f # zs"
    then have "f \<in> set (rev applied)" by simp
    then have f: "f \<in> set ps" using assms(5) by auto
    have "path ` set applied - path ` set (ys @ [f]) = path ` set applied - path ` set ys - {path f}" by auto
    with restore_file_calm [OF assms(1-4) f, of "path ` set applied - path ` set ys"]
    show "outcome (?I ys) (restore_file env f) (\<lambda>_. ?I (ys @ [f])) (\<lambda>_ _. False)" by simp
  qed
  then show "outcome (\<lambda>s. ready_to_undo env files ps d (path ` set applied) s \<and> calm_from env s) (for_each (rev applied) (restore_file env))
    (\<lambda>_ s. ready_to_undo env files ps d {} s \<and> calm_from env s) (\<lambda>_ _. False)" by simp
  let ?J = "\<lambda>s. ready_to_undo env files ps d {} s \<and> calm_from env s"
  let ?T = "\<lambda>s. (\<forall>p\<in>targets files. disk s p = d p) \<and> calm_from env s"
  have "outcome ?T (for_each ps (\<lambda>f. remove env (stagedPath f))) (\<lambda>_. ?T) (\<lambda>_ _. False)"
  proof (rule outcome_for_each [where I = "\<lambda>_. ?T"])
    fix ys f zs assume "ps = ys @ f # zs"
    then have "stagedPath f \<in> stages files" using prepared_on_simps(4) [OF assms(4), of f] by simp
    then have off: "stagedPath f \<notin> targets files" using assms(1) by (auto simp: apart_def)
    show "outcome ?T (remove env (stagedPath f)) (\<lambda>_. ?T) (\<lambda>_ _. False)"
    proof (rule outcomeI)
      fix s assume s: "?T s"
      from remove_calm [of env s "stagedPath f"] s obtain t where
        "remove env (stagedPath f) s = (Inr (), t)" "calm_from env t" "disk t = (disk s)(stagedPath f := None)" by blast
      with s off show "case remove env (stagedPath f) s of (Inl e, t) \<Rightarrow> False | (Inr x, t) \<Rightarrow> ?T t" by auto
    qed
  qed
  then show "outcome ?J (for_each ps (\<lambda>f. remove env (stagedPath f))) (\<lambda>_ s. \<forall>p\<in>targets files. disk s p = d p) (\<lambda>_ _. False)"
    by (rule outcome_conseq) (auto simp: ready_to_undo_def)
qed

section \<open>The transaction\<close>

definition all_new :: "planned_file list \<Rightarrow> prepared_file list \<Rightarrow> (string \<Rightarrow> node option) \<Rightarrow> machine \<Rightarrow> bool" where
  "all_new files ps d s \<longleftrightarrow> (\<forall>p\<in>targets files. p \<notin> path ` set ps \<longrightarrow> disk s p = d p) \<and>
     (\<forall>f\<in>set ps. disk s (path f) = Some (planned_node f))"

lemma after_apply_once:
  assumes "leaves_alone env files opts" "one_failure env opts" "\<And>f. f \<in> set ps \<Longrightarrow> prepared_on env files d f" "set fin \<subseteq> set ps"
  shows "outcome (mid_apply env files ps d fin []) (after_apply opts) (\<lambda>_. all_new files fin d)
    (\<lambda>_ s. ready_to_undo env files ps d (path ` set fin) s \<and> calm_from env s)"
proof (cases "afterApply opts")
  case None
  then show ?thesis by (simp add: after_apply_def outcome_def ret_def mid_apply_def ready_to_undo_def all_new_def)
next
  case (Some m)
  then have quiet_now: "calm_from env t" for t using assms(2) by (simp add: one_failure_def calm_from_def)
  let ?I = "\<lambda>s. ready_to_undo env files ps d (path ` set fin) s \<and> all_new files fin d s"
  have "outcome ?I (after_apply opts) (\<lambda>_. ?I) (\<lambda>_. ?I)"
  proof (rule outcome_off [OF keeps_after_apply [OF assms(1)]])
    fix s t assume s: "?I s" and "same_off (- own_names env files) (disk s) t"
    then have same: "disk t p = disk s p" if "p \<in> own_names env files" for p using that by (simp add: same_off_def)
    then have keep: "\<forall>p\<in>targets files. disk t p = disk s p" "\<forall>r\<in>restores files. disk t r = disk s r"
      "\<forall>f\<in>set ps. disk t (dirname env (path f)) = disk s (dirname env (path f)) \<and> disk t (path f) = disk s (path f)"
      using prepared_on_simps(1,6) [OF assms(3)] by (auto simp: own_names_def aside_def)
    have "ready_to_undo env files ps d (path ` set fin) t" using s keep by (simp add: ready_to_undo_def)
    moreover have "all_new files fin d t" using s keep assms(4) by (simp add: all_new_def subset_iff)
    ultimately show "?I t" by simp
  qed
  then show ?thesis by (rule outcome_conseq) (auto simp: mid_apply_def ready_to_undo_def all_new_def quiet_now)
qed

lemma apply_exact:
  assumes "apart env files" "plan_covers env d files ps" "leaves_alone env files opts" "one_failure env opts" "honest_faults env"
    "plain_disk env files d" "\<not> windows env"
  shows "outcome (staged_on env files d ps) (apply_or_restore env opts ps) (\<lambda>_. all_new files ps d) (\<lambda>_ t. \<forall>p\<in>targets files. disk t p = d p)"
proof (cases "distinct (map stagedPath ps)")
  case dist: True
  have prep: "\<And>f. f \<in> set ps \<Longrightarrow> prepared_on env files d f" and paths: "distinct (map path ps)"
    using assms(1,2) by (simp_all add: plan_covers_def apart_def)
  note once = one_failure_once [OF assms(4)]
  let ?E = "\<lambda>fin s. ready_to_undo env files ps d (path ` set fin) s \<and> calm_from env s"
  have weaker: "outcome P m Q (\<lambda>_. ?E fin)" if "outcome P m Q (\<lambda>_ s. mid_apply env files ps d fin fs s \<and> calm_from env s)"
    for P m Q fin fs by (rule outcome_conseq [OF that]) (auto simp: mid_apply_def)
  have steps: "outcome (mid_apply env files ps d [] ps) (apply_files env opts ps [] [])
      (\<lambda>r t. fst r = ps \<and> mid_apply env files ps d ps [] t) (\<lambda>e t. ?E (snd e) t \<and> (\<exists>zs. ps = snd e @ zs))"
  proof (rule apply_files_outcome [where K = "mid_apply env files ps d" and E = ?E])
    fix fin f fs saved assume ps: "ps = fin @ f # fs"
    then have sub: "set fin \<union> set (f # fs) \<subseteq> set ps" "path f \<notin> path ` set fin" using paths by auto
    show "outcome (mid_apply env files ps d fin (f # fs)) (make_backup env f saved) (\<lambda>_. mid_apply env files ps d fin (f # fs)) (\<lambda>_. ?E fin)"
      by (rule weaker [OF make_backup_once [OF assms(1) prep sub once assms(5,6)]])
    show "outcome (mid_apply env files ps d fin (f # fs)) (rename env (stagedPath f) (path f)) (\<lambda>_. mid_apply env files ps d (fin @ [f]) fs) (\<lambda>_. ?E fin)"
      by (rule weaker [OF rename_once [OF assms(1) prep ps paths dist once]])
    show "outcome (mid_apply env files ps d (fin @ [f]) fs) (syncDirectory env (dirname env (path f)))
        (\<lambda>_. mid_apply env files ps d (fin @ [f]) fs) (\<lambda>_. ?E (fin @ [f]))"
      by (rule weaker [OF syncDirectory_once [OF once _ _ assms(7)]]) (auto simp: mid_apply_def ready_to_undo_def ps)
    show "?E (fin @ [f]) s" if "failAfter opts \<noteq> None" "mid_apply env files ps d (fin @ [f]) fs s" for s
      using that assms(4) by (auto simp: mid_apply_def one_failure_def calm_from_def)
  qed simp
  let ?E' = "\<lambda>applied t. ?E applied t \<and> (\<exists>zs. ps = applied @ zs)"
  have after: "outcome (\<lambda>t. applied = ps \<and> mid_apply env files ps d ps [] t) (after_apply opts) (\<lambda>_. all_new files ps d) (\<lambda>_. ?E' applied)" for applied
  proof (cases "applied = ps")
    case True
    show ?thesis by (rule outcome_conseq [OF after_apply_once [OF assms(3,4) prep subset_refl]]) (use True in auto)
  qed (simp add: outcome_def)
  have attempt: "outcome (mid_apply env files ps d [] ps) (attempt_apply env opts ps) (\<lambda>_. all_new files ps d) (\<lambda>e. ?E' (snd e))"
    by (rule attempt_apply_outcome [OF outcome_conseq [OF steps] after]) auto
  have undone: "outcome (?E' applied) (roll_back env ps applied) (\<lambda>_ t. \<forall>p\<in>targets files. disk t p = d p) (\<lambda>_ t. \<forall>p\<in>targets files. disk t p = d p)" for applied
  proof (cases "set applied \<subseteq> set ps")
    case True
    show ?thesis by (rule outcome_conseq [OF roll_back_calm [OF assms(1,6,7) prep True]]) auto
  qed (auto simp: outcome_def)
  have start: "mid_apply env files ps d [] ps s" if s: "staged_on env files d ps s" for s
  proof -
    have "same_off (aside env files) d s" using s by (simp add: staged_on_def)
    moreover have "aside env files \<inter> (targets files \<union> restores files \<union> backup_names files) = {}" using assms(1) by (auto simp: apart_def aside_def)
    ultimately have same: "disk s p = d p" if "p \<in> targets files \<union> restores files \<union> backup_names files" for p
      using that by (auto simp: same_off_def)
    show ?thesis using s assms(6) same unfolding mid_apply_def ready_to_undo_def staged_on_def plain_disk_def by auto
  qed
  show ?thesis by (rule outcome_conseq [OF apply_or_restore_outcome [OF attempt undone]]) (use start in auto)
next
  case False
  then show ?thesis by (auto simp: outcome_def staged_on_def)
qed

end
