(* ===== verification/TransactionProperties.thy ===== *)
theory TransactionProperties
  imports RestoreFacts
begin

text \<open>
  The properties of \<open>applyTransaction\<close>: all files or none when one call fails, and no torn file whatever
  fails; a dry run; and what a failure while the working copies are written leaves behind.
\<close>

lemma planned_once: "apart env files \<Longrightarrow> h \<in> set files \<Longrightarrow> g \<in> set files \<Longrightarrow> path h = path g \<Longrightarrow> h = g"
  by (auto simp: apart_def distinct_map dest: inj_onD)

lemma covered_result:
  assumes "apart env files" "plain_disk env files d" "\<not> windows env" "plan_covers env d files ps" "all_new files ps d t" "g \<in> set files"
  shows "disk t (path g) = Some (regular (bytes_of env (planned g)) (first_some (planned_mode g) (map_option permissions (d (path g))) 384))"
proof -
  have g: "path g \<in> targets files" using assms(6) by (simp add: targets_def)
  have plain: "node_kind n = RegularFile \<and> permissions n < 512" if "d (path g) = Some n" for n
    using assms(2) g that unfolding plain_disk_def by blast
  show ?thesis
  proof (cases "path g \<in> path ` set ps")
    case True
    then obtain f where f: "f \<in> set ps" "path g = path f" by blast
    then have p: "prepared_on env files d f" using assms(4) by (simp add: plan_covers_def)
    obtain h where h: "h \<in> set files" "path f = path h" "planned_mode f = planned_mode h" "new_bytes f = bytes_of env (planned h)"
      using prepared_on_fields [OF p] by metis
    have "h = g" by (rule planned_once [OF assms(1) h(1) assms(6)]) (simp add: f(2) h(2))
    moreover have "originalMode f = map_option permissions (d (path g))"
      using prepared_on_simps(3) [OF p] plain assms(3) f(2) by (cases "d (path g)") auto
    ultimately have "planned_node f = regular (bytes_of env (planned g)) (first_some (planned_mode g) (map_option permissions (d (path g))) 384)"
      using h(3,4) by (simp add: planned_node_def)
    moreover have "disk t (path f) = Some (planned_node f)" using assms(5) f(1) by (simp add: all_new_def)
    ultimately show ?thesis by (simp add: f(2))
  next
    case False
    then have "settled_as_is env d g" using assms(4,6) unfolding plan_covers_def by (metis image_eqI)
    then obtain n where n: "d (path g) = Some n" "content n = bytes_of env (planned g)"
      "planned_mode g = None \<or> planned_mode g = Some (permissions n mod 512)" using assms(3) by (auto simp: settled_as_is_def)
    have "disk t (path g) = Some n" using assms(5) g False n(1) by (simp add: all_new_def)
    then show ?thesis using n plain [OF n(1)] by (cases n) (auto simp: regular_def first_some_def)
  qed
qed

lemma transaction_exact:
  assumes "apart env files" "honest_faults env" "plain_disk env files d" "one_failure env opts" "leaves_alone env files opts"
    "\<not> windows env" "\<not> dryRun opts"
  shows "outcome (\<lambda>s. disk s = d) (applyTransaction env files opts)
    (\<lambda>_ t. \<forall>g\<in>set files. disk t (path g) =
       Some (regular (bytes_of env (planned g)) (first_some (planned_mode g) (map_option permissions (d (path g))) 384)))
    (\<lambda>_ t. \<forall>g\<in>set files. disk t (path g) = d (path g))"
proof (rule outcome_conseq [OF transaction_outcome [OF assms(1,2,7), where F = "\<lambda>ps. all_new files ps d" and R = "\<lambda>t. \<forall>p\<in>targets files. disk t p = d p"]])
  show "\<forall>p\<in>targets files. disk t p = d p" if "same_off (aside env files) d t" for t
    using that assms(1) by (auto simp: same_off_def aside_def apart_def)
  show "outcome (staged_on env files d ps) (apply_or_restore env opts ps) (\<lambda>_. all_new files ps d) (\<lambda>_ t. \<forall>p\<in>targets files. disk t p = d p)"
    if "plan_covers env d files ps" for ps by (rule apply_exact [OF assms(1) that assms(5,4,2,3,6)])
  have "outcome (\<lambda>s. \<forall>p\<in>targets files. disk s p = d p) (after_apply opts) (\<lambda>_ t. \<forall>p\<in>targets files. disk t p = d p) (\<lambda>_ t. \<forall>p\<in>targets files. disk t p = d p)"
    by (rule outcome_off [OF keeps_after_apply [OF assms(5)]]) (auto simp: same_off_def own_names_def)
  then show "outcome (\<lambda>s. disk s = d) (after_apply opts) (\<lambda>_. all_new files [] d) (\<lambda>_ t. \<forall>p\<in>targets files. disk t p = d p)"
    by (rule outcome_conseq) (auto simp: all_new_def)
  show "\<forall>g\<in>set files. disk t (path g) = Some (regular (bytes_of env (planned g)) (first_some (planned_mode g) (map_option permissions (d (path g))) 384))"
    if "plan_covers env d files ps" "all_new files ps d t" for ps t
    using covered_result [OF assms(1,3,6) that] by blast
qed (auto simp: targets_def)

lemma transaction_whole:
  assumes "apart env files" "honest_faults env" "leaves_alone env files opts" "\<not> dryRun opts"
  shows "outcome (\<lambda>s. disk s = d) (applyTransaction env files opts)
    (\<lambda>_ t. \<forall>g\<in>set files. content_of (disk t) (path g) \<in> {content_of d (path g), Some (bytes_of env (planned g))})
    (\<lambda>_ t. \<forall>g\<in>set files. content_of (disk t) (path g) \<in> {content_of d (path g), Some (bytes_of env (planned g))})"
proof -
  let ?R = "\<lambda>t. \<forall>g\<in>set files. content_of (disk t) (path g) \<in> {content_of d (path g), Some (bytes_of env (planned g))}"
  have start: "whole files [] d t" if "same_off (aside env files) d t" for t
    using that assms(1) by (auto simp: same_off_def aside_def apart_def whole_def content_of_def)
  have res: "?R t" if c: "\<And>f. f \<in> set ps \<Longrightarrow> prepared_on env files d f" and w: "whole files ps d t" for ps t
  proof
    fix g assume g: "g \<in> set files"
    have "content_of (disk t) (path g) = content_of d (path g) \<or> (\<exists>f\<in>set ps. path f = path g \<and> content_of (disk t) (path g) = Some (new_bytes f))"
      using w g by (simp add: whole_def targets_def)
    moreover have "new_bytes f = bytes_of env (planned g)" if f: "f \<in> set ps" "path f = path g" for f
    proof -
      obtain h where h: "h \<in> set files" "path f = path h" "new_bytes f = bytes_of env (planned h)"
        using prepared_on_fields [OF c [OF f(1)]] by metis
      have "h = g" by (rule planned_once [OF assms(1) h(1) g]) (simp add: f(2) h(2) [symmetric])
      with h(3) show ?thesis by simp
    qed
    ultimately show "content_of (disk t) (path g) \<in> {content_of d (path g), Some (bytes_of env (planned g))}" by auto
  qed
  show ?thesis
  proof (rule transaction_outcome [OF assms(1,2,4), where F = "\<lambda>_. ?R"])
    have first: "?R t" if "whole files [] d t" for t by (rule res [of "[]", OF _ that]) simp
    show "?R t" if "same_off (aside env files) d t" for t by (rule first [OF start [OF that]])
    show "outcome (staged_on env files d ps) (apply_or_restore env opts ps) (\<lambda>_. ?R) (\<lambda>_. ?R)" if c: "plan_covers env d files ps" for ps
    proof (rule outcome_conseq [OF apply_whole [OF assms(1) c assms(3)]])
      have prep: "prepared_on env files d f" if "f \<in> set ps" for f using c that by (simp add: plan_covers_def)
      show "?R t" if "whole files ps d t" for t by (rule res [OF prep that])
      then show "?R t" if "whole files ps d t" for t using that .
    qed
    have "outcome (whole files [] d) (after_apply opts) (\<lambda>_. whole files [] d) (\<lambda>_. whole files [] d)"
      by (rule outcome_off [OF keeps_after_apply [OF assms(3)]]) (erule whole_off, auto simp: own_names_def)
    then show "outcome (\<lambda>s. disk s = d) (after_apply opts) (\<lambda>_. ?R) (\<lambda>_. ?R)"
    proof (rule outcome_conseq)
      show "whole files [] d t" if "disk t = d" for t by (rule start) (simp add: same_off_def that)
    qed (erule first)+
  qed
qed

section \<open>A machine to try it on\<close>

definition demo_fs :: "(nat \<Rightarrow> js_error option) \<Rightarrow> sys_env" where
  "demo_fs faults = \<lparr>fault = faults, torn = (\<lambda>n. 1), windows = False, uuid = (\<lambda>n. replicate n CHR ''u''), dirname = (\<lambda>p. ''/h''),
     sha256_hex = (\<lambda>b. ''0011''), utf8 = map of_char\<rparr>"

definition demo_plan :: "planned_file list" where
  "demo_plan = [\<lparr>path = ''/h/a'', planned = Bytes [1, 2], planned_mode = None, label = ''a'', semanticDiff = None\<rparr>,
     \<lparr>path = ''/h/b'', planned = Text ''b'', planned_mode = Some 493, label = ''b'', semanticDiff = None\<rparr>]"

definition demo_machine :: machine where
  "demo_machine = \<lparr>disk = [''/h/a'' \<mapsto> regular [9, 9, 9] 420], calls = 0, drawn = 0, shown = []\<rparr>"

definition io_fault :: js_error where "io_fault = coded_error ''EIO'' ''i/o error''"

abbreviation plain_options :: transaction_options where
  "plain_options \<equiv> \<lparr>dryRun = False, print_diff = False, failAfter = None, afterApply = None\<rparr>"

lemma demo_apart: "apart (demo_fs faults) demo_plan"
  by (auto simp: apart_def demo_plan_def demo_fs_def targets_def stages_def restores_def backup_names_def folders_def
      stage_name_def restore_name_def backup_name_def)

lemma demo_plain: "plain_disk (demo_fs faults) demo_plan (disk demo_machine)"
  by (auto simp: plain_disk_def demo_plan_def demo_machine_def targets_def restores_def backup_names_def
      restore_name_def backup_name_def regular_def split: if_splits)

section \<open>Properties\<close>

text \<open>C7: A transaction applies to all of its files or to none. When one system call fails, wherever that is, or
  when none does and the caller's last step fails or a failure is injected, an error leaves every target as
  the disk held it, content, mode and absence; without an error every target is a regular file with the
  planned content and the planned mode (or the one it had, or 0600).
\<close>

theorem transaction_all_or_nothing:
  assumes "apart env files" "honest_faults env" "plain_disk env files (disk s)" "one_failure env opts"
    "leaves_alone env files opts" "\<not> windows env" "\<not> dryRun opts"
  shows "case applyTransaction env files opts s of
      (Inl e, t) \<Rightarrow> \<forall>f\<in>set files. disk t (path f) = disk s (path f)
    | (Inr r, t) \<Rightarrow> \<forall>f\<in>set files. disk t (path f) = Some (regular (bytes_of env (planned f))
          (first_some (planned_mode f) (map_option permissions (disk s (path f))) 384))"
  by (rule outcomeD [OF transaction_exact [OF assms] refl])

theorem transaction_all_or_nothing_witness:
  "fst (applyTransaction (demo_fs ((\<lambda>_. None)(22 := Some io_fault))) demo_plan plain_options demo_machine) = Inl io_fault \<and>
   (case applyTransaction (demo_fs ((\<lambda>_. None)(22 := Some io_fault))) demo_plan plain_options demo_machine of
      (Inl e, t) \<Rightarrow> \<forall>f\<in>set demo_plan. disk t (path f) = disk demo_machine (path f)
    | (Inr r, t) \<Rightarrow> \<forall>f\<in>set demo_plan. disk t (path f) =
        Some (regular (bytes_of (demo_fs ((\<lambda>_. None)(22 := Some io_fault))) (planned f))
          (first_some (planned_mode f) (map_option permissions (disk demo_machine (path f))) 384)))"
proof
  show "fst (applyTransaction (demo_fs ((\<lambda>_. None)(22 := Some io_fault))) demo_plan plain_options demo_machine) = Inl io_fault"
    by code_simp
  show "case applyTransaction (demo_fs ((\<lambda>_. None)(22 := Some io_fault))) demo_plan plain_options demo_machine of
      (Inl e, t) \<Rightarrow> \<forall>f\<in>set demo_plan. disk t (path f) = disk demo_machine (path f)
    | (Inr r, t) \<Rightarrow> \<forall>f\<in>set demo_plan. disk t (path f) =
        Some (regular (bytes_of (demo_fs ((\<lambda>_. None)(22 := Some io_fault))) (planned f))
          (first_some (planned_mode f) (map_option permissions (disk demo_machine (path f))) 384))"
    by (rule transaction_all_or_nothing [OF demo_apart _ demo_plain])
      (simp_all add: honest_faults_def demo_fs_def io_fault_def coded_error_def error_code_def one_failure_def fails_once_def leaves_alone_def)
qed

text \<open>C17: Whatever calls fail, and however many, the roll-back's own included, no target is torn: each holds the
  content it had or the whole planned content.
\<close>

theorem targets_never_torn:
  assumes "apart env files" "honest_faults env" "leaves_alone env files opts" "\<not> dryRun opts"
  shows "\<forall>f\<in>set files. content_of (disk (snd (applyTransaction env files opts s))) (path f) \<in>
    {content_of (disk s) (path f), Some (bytes_of env (planned f))}"
  using outcomeD [OF transaction_whole [OF assms] refl, of s] by (simp split: prod.splits sum.splits)

definition failing_late :: sys_env where "failing_late = demo_fs (\<lambda>n. if n < 21 then None else Some io_fault)"

theorem targets_never_torn_witness:
  "content_of (disk (snd (applyTransaction failing_late demo_plan plain_options demo_machine))) ''/h/a'' \<in> {Some [9, 9, 9], Some [1, 2]} \<and>
   content_of (disk (snd (applyTransaction failing_late demo_plan plain_options demo_machine))) ''/h/b'' \<in> {None, Some [98]} \<and>
   content_of (disk (snd (applyTransaction failing_late demo_plan plain_options demo_machine))) ''/h/a'' = Some [1, 2]"
proof -
  have whole: "\<forall>f\<in>set demo_plan. content_of (disk (snd (applyTransaction failing_late demo_plan plain_options demo_machine))) (path f) \<in>
    {content_of (disk demo_machine) (path f), Some (bytes_of failing_late (planned f))}"
    unfolding failing_late_def by (rule targets_never_torn [OF demo_apart])
      (auto simp: honest_faults_def demo_fs_def io_fault_def coded_error_def error_code_def leaves_alone_def)
  have first: "demo_plan ! 0 \<in> set demo_plan" "path (demo_plan ! 0) = ''/h/a''"
    "content_of (disk demo_machine) ''/h/a'' = Some [9, 9, 9]" "bytes_of failing_late (planned (demo_plan ! 0)) = [1, 2]"
    by (simp_all add: demo_plan_def demo_machine_def content_of_def regular_def failing_late_def demo_fs_def bytes_of_def)
  have second: "demo_plan ! 1 \<in> set demo_plan" "path (demo_plan ! 1) = ''/h/b''"
    "content_of (disk demo_machine) ''/h/b'' = None" "bytes_of failing_late (planned (demo_plan ! 1)) = [98]"
    by (simp_all add: demo_plan_def demo_machine_def content_of_def failing_late_def demo_fs_def bytes_of_def)
  have "content_of (disk (snd (applyTransaction failing_late demo_plan plain_options demo_machine))) ''/h/a'' \<in> {Some [9, 9, 9], Some [1, 2]}"
    using bspec [OF whole first(1)] unfolding first .
  moreover have "content_of (disk (snd (applyTransaction failing_late demo_plan plain_options demo_machine))) ''/h/b'' \<in> {None, Some [98]}"
    using bspec [OF whole second(1)] unfolding second .
  moreover have "content_of (disk (snd (applyTransaction failing_late demo_plan plain_options demo_machine))) ''/h/a'' = Some [1, 2]"
    by code_simp
  ultimately show ?thesis by blast
qed

section \<open>More facts\<close>

text \<open>A dry run writes nothing.\<close>

lemma dry_run_writes_nothing:
  "honest_faults env \<Longrightarrow> dryRun opts \<Longrightarrow> disk (snd (applyTransaction env files opts s)) = disk s"
  using outcomeD [OF dry_run_outcome [of env opts "disk s" files], OF _ _ refl] by (simp split: prod.splits sum.splits)

text \<open>
  The working copies are written before the \<open>try\<close>: when one of them fails, the ones before it stay on the
  disk, here the copy of the first file.
\<close>

lemma failed_staging_leaves_copies:
  "case applyTransaction (demo_fs ((\<lambda>_. None)(11 := Some io_fault))) demo_plan plain_options demo_machine of
     (r, t) \<Rightarrow> r = Inl io_fault \<and> disk t ''/h/a.agenttab-stage-'' = Some (regular [1, 2] 420)"
  by code_simp

end
