(* ===== verification/SdkFrames.thy ===== *)
theory SdkFrames
  imports Messages
begin

text \<open>
  \<open>packages/sdk-typescript/src/index.ts\<close>, the framing of the socket between a client and the native host: a
  frame is the length of its payload in four bytes, lowest first, and the payload, a JSON text in UTF-8. The
  text of a value and its parser are arguments: \<open>JSON.stringify\<close> with \<open>Buffer.from\<close>, and \<open>JSON.parse\<close>.
  Also the ids and the timeouts of requests.
\<close>

section \<open>Frames\<close>

type_synonym bytes = "8 word list"

definition CLIENT_TO_HOST_MAX_BYTES :: nat where "CLIENT_TO_HOST_MAX_BYTES = 1024 * 1024"
definition HOST_TO_CLIENT_MAX_BYTES :: nat where "HOST_TO_CLIENT_MAX_BYTES = 1024 * 1024"

definition range_error :: js_error where
  "range_error = new_error ''AgentTab frame exceeds its limit''"

text \<open>\<open>writeUInt32LE\<close> and \<open>readUInt32LE\<close> at offset 0.\<close>

fun le_bytes :: "nat \<Rightarrow> nat \<Rightarrow> bytes" where
  "le_bytes 0 n = []"
| "le_bytes (Suc k) n = word_of_nat n # le_bytes k (n div 256)"

fun le_value :: "bytes \<Rightarrow> nat" where
  "le_value [] = 0"
| "le_value (b # bs) = unat b + 256 * le_value bs"

definition encodeFrame :: "('v \<Rightarrow> bytes) \<Rightarrow> nat \<Rightarrow> 'v \<Rightarrow> js_error + bytes" where
  "encodeFrame text_of limit v =
     (let payload = text_of v in
      if limit < length payload then Inl range_error else Inr (le_bytes 4 (length payload) @ payload))"

record decoder =
  buffer :: bytes
  frame_limit :: nat

definition new_decoder :: "nat \<Rightarrow> decoder" where
  "new_decoder limit = \<lparr>buffer = [], frame_limit = limit\<rparr>"

text \<open>The loop of \<open>push\<close>: the values so far are lost when it throws, the consumed bytes stay consumed.\<close>

function drain :: "(bytes \<Rightarrow> js_error + 'v) \<Rightarrow> nat \<Rightarrow> 'v list \<Rightarrow> bytes \<Rightarrow> (js_error + 'v list) \<times> bytes" where
  "drain parse limit vs buf =
     (if length buf < 4 then (Inr vs, buf)
      else let declared = le_value (take 4 buf) in
        if limit < declared then (Inl range_error, buf)
        else if length buf < 4 + declared then (Inr vs, buf)
        else case parse (take declared (drop 4 buf)) of
            Inl e \<Rightarrow> (Inl e, buf)
          | Inr v \<Rightarrow> drain parse limit (vs @ [v]) (drop (4 + declared) buf))"
  by pat_completeness auto
termination
  by (relation "measure (\<lambda>(parse, limit, vs, buf). length buf)") auto

declare drain.simps [simp del]

definition push :: "(bytes \<Rightarrow> js_error + 'v) \<Rightarrow> bytes \<Rightarrow> decoder \<Rightarrow> (js_error + 'v list) \<times> decoder" where
  "push parse chunk d = (case drain parse (frame_limit d) [] (buffer d @ chunk) of (r, rest) \<Rightarrow> (r, d\<lparr>buffer := rest\<rparr>))"

text \<open>The chunks of a connection, one after the other, until one throws.\<close>

fun push_all :: "(bytes \<Rightarrow> js_error + 'v) \<Rightarrow> bytes list \<Rightarrow> decoder \<Rightarrow> (js_error + 'v list) \<times> decoder" where
  "push_all parse [] d = (Inr [], d)"
| "push_all parse (c # cs) d = (case push parse c d of
      (Inl e, d') \<Rightarrow> (Inl e, d')
    | (Inr vs, d') \<Rightarrow> (case push_all parse cs d' of (Inl e, d'') \<Rightarrow> (Inl e, d'') | (Inr ws, d'') \<Rightarrow> (Inr (vs @ ws), d'')))"

section \<open>Ids and timeouts\<close>

text \<open>The same layout as in the extension: 48 bits of time, the version, the variant.\<close>

definition createUuidV7 :: "bytes \<Rightarrow> int \<Rightarrow> string" where
  "createUuidV7 random time = randomUuidV7 random time"

definition MUTATIONS :: "string list" where
  "MUTATIONS = [''browser_open'', ''browser_act'', ''browser_handoff'', ''browser_credentials'', ''browser_commit'',
     ''browser_developer'']"

definition PROFILE_WRITE_OPERATIONS :: "string list" where
  "PROFILE_WRITE_OPERATIONS = [''bookmarks_update'', ''bookmarks_create'', ''bookmarks_move'', ''bookmarks_remove'',
     ''sessions_restore'', ''downloads_cancel'', ''downloads_pause'', ''downloads_resume'']"

definition requiresIdempotencyKey :: "string \<Rightarrow> js \<Rightarrow> bool" where
  "requiresIdempotencyKey method params \<longleftrightarrow>
     (if method \<in> set MUTATIONS then True
      else if method \<noteq> ''browser_profile'' then False
      else isRecord params \<and> is_str (jget (the_obj params) ''operation'') \<and>
        the_str (jget (the_obj params) ''operation'') \<in> set PROFILE_WRITE_OPERATIONS)"

definition DEFAULT_REQUEST_TIMEOUT_MS :: int where "DEFAULT_REQUEST_TIMEOUT_MS = 30000"
definition DEFAULT_BROWSER_WAIT_TIMEOUT_MS :: int where "DEFAULT_BROWSER_WAIT_TIMEOUT_MS = 30000"
definition DEFAULT_BROWSER_HANDOFF_TIMEOUT_MS :: int where "DEFAULT_BROWSER_HANDOFF_TIMEOUT_MS = 300000"
definition DEFAULT_BROWSER_CREDENTIALS_TIMEOUT_MS :: int where "DEFAULT_BROWSER_CREDENTIALS_TIMEOUT_MS = 120000"
definition DEFAULT_BROWSER_EMAIL_CODE_TIMEOUT_MS :: int where "DEFAULT_BROWSER_EMAIL_CODE_TIMEOUT_MS = 120000 + 30000"
definition LONG_OPERATION_TRANSPORT_GRACE_MS :: int where "LONG_OPERATION_TRANSPORT_GRACE_MS = 10000"

definition default_operation_timeout :: "string \<Rightarrow> js obj \<Rightarrow> int option" where
  "default_operation_timeout method params =
     (if method = ''browser_wait'' then Some DEFAULT_BROWSER_WAIT_TIMEOUT_MS
      else if method = ''browser_handoff'' \<and> jget params ''operation'' = Str ''request''
      then Some DEFAULT_BROWSER_HANDOFF_TIMEOUT_MS
      else if method = ''browser_credentials'' \<and> jget params ''action'' = Str ''fill_email''
      then Some DEFAULT_BROWSER_EMAIL_CODE_TIMEOUT_MS
      else if method = ''browser_credentials'' then Some DEFAULT_BROWSER_CREDENTIALS_TIMEOUT_MS
      else None)"

definition longOperationTimeoutMs :: "string \<Rightarrow> js obj \<Rightarrow> int option" where
  "longOperationTimeoutMs method params = (case default_operation_timeout method params of
      None \<Rightarrow> None
    | Some d \<Rightarrow>
        (let t = jget params ''timeout_ms'' in
         Some (if is_integer t \<and> 0 < the_int t \<and> the_int t \<le> MAX_SAFE_INTEGER then the_int t else d)))"

definition resolveTransportTimeoutMs :: "string \<Rightarrow> js obj \<Rightarrow> int \<Rightarrow> int" where
  "resolveTransportTimeoutMs method params requestTimeoutMs = (case longOperationTimeoutMs method params of
      None \<Rightarrow> requestTimeoutMs
    | Some t \<Rightarrow> max requestTimeoutMs (t + LONG_OPERATION_TRANSPORT_GRACE_MS))"

end
