(* ===== verification/FrameProperties.thy ===== *)
theory FrameProperties
  imports SdkFrames
begin

text \<open>
  The framing of the SDK: the decoder gives back the values that were encoded, however the stream is cut into
  chunks, and holds less than one frame between chunks. The transport timeout of a request.
\<close>

section \<open>Lengths\<close>

lemma le_bytes_length [simp]: "length (le_bytes k n) = k"
  by (induction k n rule: le_bytes.induct) simp_all

lemma le_value_le_bytes: "n < 256 ^ k \<Longrightarrow> le_value (le_bytes k n) = n"
proof (induction k n rule: le_bytes.induct)
  case (2 k n)
  then have "n div 256 < 256 ^ k" by (simp add: less_mult_imp_div_less mult.commute)
  with "2.IH" show ?case by (simp add: unat_of_nat take_bit_eq_mod)
qed simp

section \<open>The decoder\<close>

text \<open>What one round of the loop does.\<close>

definition declared :: "bytes \<Rightarrow> nat" where "declared buf = le_value (take 4 buf)"

definition incomplete :: "nat \<Rightarrow> bytes \<Rightarrow> bool" where
  "incomplete limit buf \<longleftrightarrow> length buf < 4 \<or> declared buf \<le> limit \<and> length buf < 4 + declared buf"

lemma drain_waits: "incomplete limit buf \<Longrightarrow> drain parse limit vs buf = (Inr vs, buf)"
  by (auto simp: drain.simps [of parse limit vs buf] incomplete_def declared_def Let_def)

lemma drain_too_long: "\<not> length buf < 4 \<Longrightarrow> limit < declared buf \<Longrightarrow> drain parse limit vs buf = (Inl range_error, buf)"
  by (simp add: drain.simps [of parse limit vs buf] declared_def Let_def)

lemma drain_round: "\<not> incomplete limit buf \<Longrightarrow> declared buf \<le> limit \<Longrightarrow> drain parse limit vs buf =
    (case parse (take (declared buf) (drop 4 buf)) of Inl e \<Rightarrow> (Inl e, buf) | Inr v \<Rightarrow> drain parse limit (vs @ [v]) (drop (4 + declared buf) buf))"
  unfolding incomplete_def declared_def by (simp add: drain.simps [of parse limit vs buf] Let_def)

lemma drain_induct [case_names waits long bad frame]:
  assumes "\<And>vs buf. incomplete limit buf \<Longrightarrow> P vs buf"
    "\<And>vs buf. \<not> length buf < 4 \<Longrightarrow> limit < declared buf \<Longrightarrow> P vs buf"
    "\<And>vs buf e. \<not> incomplete limit buf \<Longrightarrow> declared buf \<le> limit \<Longrightarrow> parse (take (declared buf) (drop 4 buf)) = Inl e \<Longrightarrow> P vs buf"
    "\<And>vs buf v. \<not> incomplete limit buf \<Longrightarrow> declared buf \<le> limit \<Longrightarrow> parse (take (declared buf) (drop 4 buf)) = Inr v \<Longrightarrow>
       P (vs @ [v]) (drop (4 + declared buf) buf) \<Longrightarrow> P vs buf"
  shows "P vs buf"
proof (induction buf arbitrary: vs rule: length_induct)
  case (1 buf)
  show ?case
  proof (cases "incomplete limit buf")
    case False
    then have len: "\<not> length buf < 4" by (simp add: incomplete_def)
    show ?thesis
    proof (cases "limit < declared buf")
      case ok: False
      show ?thesis
      proof (cases "parse (take (declared buf) (drop 4 buf))")
        case (Inr v)
        have "P (vs @ [v]) (drop (4 + declared buf) buf)" using "1.IH" len by simp
        then show ?thesis using assms(4) False ok Inr by simp
      qed (use assms(3) False ok in simp)
    qed (rule assms(2) [OF len])
  qed (rule assms(1))
qed

lemma drain_accumulates:
  "drain parse limit (us @ vs) buf = (case drain parse limit vs buf of (Inl e, r) \<Rightarrow> (Inl e, r) | (Inr ws, r) \<Rightarrow> (Inr (us @ ws), r))"
proof (induction vs buf rule: drain_induct [of limit _ parse])
  case (frame vs buf v)
  then show ?case by (simp add: drain_round [of limit buf])
qed (simp_all add: drain_waits drain_too_long drain_round)

lemma not_incomplete_append:
  "\<not> incomplete limit buf \<Longrightarrow> declared (buf @ xs) = declared buf \<and> \<not> incomplete limit (buf @ xs)"
  "\<not> length buf < 4 \<Longrightarrow> declared (buf @ xs) = declared buf"
  by (auto simp: incomplete_def declared_def)

lemma frame_append:
  "\<not> incomplete limit buf \<Longrightarrow> declared buf \<le> limit \<Longrightarrow>
   take (declared buf) (drop 4 (buf @ xs)) = take (declared buf) (drop 4 buf) \<and> drop (4 + declared buf) (buf @ xs) = drop (4 + declared buf) buf @ xs"
  by (auto simp: incomplete_def)

lemma drain_round_append:
  assumes "\<not> incomplete limit buf" "declared buf \<le> limit"
  shows "drain parse limit vs (buf @ xs) = (case parse (take (declared buf) (drop 4 buf)) of
      Inl e \<Rightarrow> (Inl e, buf @ xs) | Inr v \<Rightarrow> drain parse limit (vs @ [v]) (drop (4 + declared buf) buf @ xs))"
proof -
  note a = not_incomplete_append(1) [OF assms(1), of xs]
  have "drain parse limit vs (buf @ xs) = (case parse (take (declared (buf @ xs)) (drop 4 (buf @ xs))) of
      Inl e \<Rightarrow> (Inl e, buf @ xs) | Inr v \<Rightarrow> drain parse limit (vs @ [v]) (drop (4 + declared (buf @ xs)) (buf @ xs)))"
    by (rule drain_round) (use a assms(2) in simp_all)
  then show ?thesis by (simp only: a [THEN conjunct1] frame_append [OF assms, THEN conjunct1] frame_append [OF assms, THEN conjunct2])
qed

lemma drain_more:
  "drain parse limit vs buf = (Inr ws, rest) \<Longrightarrow> drain parse limit vs (buf @ xs) = drain parse limit ws (rest @ xs)"
proof (induction vs buf rule: drain_induct [of limit _ parse])
  case (frame vs buf v)
  then show ?case by (simp add: drain_round drain_round_append)
qed (simp_all add: drain_waits drain_too_long drain_round)

lemma drain_fails_more:
  "drain parse limit vs buf = (Inl e, rest) \<Longrightarrow> fst (drain parse limit vs (buf @ xs)) = Inl e"
proof (induction vs buf rule: drain_induct [of limit _ parse])
  case (frame vs buf v)
  then show ?case by (simp add: drain_round drain_round_append)
next
  case (bad vs buf e')
  then show ?case by (simp add: drain_round drain_round_append)
next
  case (long vs buf)
  then show ?case using not_incomplete_append(2) [of buf xs] by (simp add: drain_too_long)
qed (simp add: drain_waits)

text \<open>Between chunks the decoder holds less than one frame, and draining again finds nothing.\<close>

lemma drain_rest: "drain parse limit vs buf = (Inr ws, rest) \<Longrightarrow> incomplete limit rest"
  by (induction vs buf rule: drain_induct [of limit _ parse]) (simp_all add: drain_waits drain_too_long drain_round)

lemma incomplete_small: "incomplete limit buf \<Longrightarrow> length buf < 4 + limit"
  by (auto simp: incomplete_def)

lemma drain_idle: "drain parse limit vs buf = (Inr ws, rest) \<Longrightarrow> drain parse limit us rest = (Inr us, rest)"
  by (simp add: drain_waits drain_rest)

text \<open>Pushing the chunks of a stream one by one is draining the stream.\<close>

lemma push_all_drain:
  assumes "drain parse (frame_limit d) [] (buffer d) = (Inr [], buffer d)"
    "drain parse (frame_limit d) [] (buffer d @ concat cs) = (Inr ws, rest)"
  shows "push_all parse cs d = (Inr ws, d\<lparr>buffer := rest\<rparr>)"
  using assms
proof (induction cs arbitrary: d ws)
  case Nil
  then show ?case by simp
next
  case (Cons c cs)
  obtain r left where one: "drain parse (frame_limit d) [] (buffer d @ c) = (r, left)" by (rule prod.exhaust)
  show ?case
  proof (cases r)
    case (Inl e)
    with drain_fails_more [of parse "frame_limit d" "[]" "buffer d @ c" e left "concat cs"] one Cons.prems(2) show ?thesis by simp
  next
    case (Inr us)
    have "drain parse (frame_limit d) us (left @ concat cs) = (Inr ws, rest)"
      using drain_more [of parse "frame_limit d" "[]" "buffer d @ c" us left "concat cs"] one Cons.prems(2) Inr by simp
    then obtain vs where vs: "drain parse (frame_limit d) [] (left @ concat cs) = (Inr vs, rest)" "ws = us @ vs"
      using drain_accumulates [of parse "frame_limit d" us "[]" "left @ concat cs"] by (auto split: prod.splits sum.splits)
    have "drain parse (frame_limit d) [] left = (Inr [], left)" using drain_idle one Inr by metis
    with vs Cons.IH [of "d\<lparr>buffer := left\<rparr>" vs] one Inr show ?thesis by (simp add: push_def)
  qed
qed

fun encode_all :: "('v \<Rightarrow> bytes) \<Rightarrow> nat \<Rightarrow> 'v list \<Rightarrow> bytes" where
  "encode_all text_of limit [] = []"
| "encode_all text_of limit (v # vs) = (case encodeFrame text_of limit v of Inl e \<Rightarrow> [] | Inr f \<Rightarrow> f) @ encode_all text_of limit vs"

lemma drain_frame:
  assumes "length (text_of v) \<le> limit" "limit < 2 ^ 32" "parse (text_of v) = Inr v"
  shows "drain parse limit vs (le_bytes 4 (length (text_of v)) @ text_of v @ xs) = drain parse limit (vs @ [v]) xs"
proof -
  have "le_value (le_bytes 4 (length (text_of v))) = length (text_of v)" by (rule le_value_le_bytes) (use assms(1,2) in simp)
  then have "declared (le_bytes 4 (length (text_of v)) @ text_of v @ xs) = length (text_of v)" by (simp add: declared_def)
  then show ?thesis using assms(1,3) by (simp add: drain_round incomplete_def)
qed

lemma drain_encoded:
  assumes "limit < 2 ^ 32"
  shows "(\<And>v. v \<in> set vs \<Longrightarrow> length (text_of v) \<le> limit \<and> parse (text_of v) = Inr v) \<Longrightarrow>
    drain parse limit us (encode_all text_of limit vs) = (Inr (us @ vs), [])"
proof (induction vs arbitrary: us)
  case Nil
  show ?case by (simp add: drain_waits incomplete_def)
next
  case (Cons v vs)
  then have v: "length (text_of v) \<le> limit" "parse (text_of v) = Inr v" by simp_all
  then have "encode_all text_of limit (v # vs) = le_bytes 4 (length (text_of v)) @ text_of v @ encode_all text_of limit vs"
    by (simp add: encodeFrame_def Let_def)
  then show ?case using drain_frame [of text_of v limit parse us] v assms Cons by simp
qed

section \<open>Properties\<close>

text \<open>C10: What the SDK decodes is what was encoded: the values of a stream of frames come out in order, none lost,
  doubled or left over, however the stream is cut into chunks. Each text fits the limit, which fits the four
  length bytes, and the parser inverts the text.
\<close>

theorem frames_survive_chunking:
  assumes "limit < 2 ^ 32" "\<And>v. v \<in> set vs \<Longrightarrow> length (text_of v) \<le> limit \<and> parse (text_of v) = Inr v"
    "concat chunks = encode_all text_of limit vs"
  shows "push_all parse chunks (new_decoder limit) = (Inr vs, new_decoder limit)"
proof -
  have "drain parse limit [] (encode_all text_of limit vs) = (Inr vs, [])"
    using drain_encoded [OF assms(1,2), where us = "[]"] by simp
  moreover have "drain parse limit [] [] = (Inr [], [])" by (simp add: drain_waits incomplete_def)
  ultimately show ?thesis using push_all_drain [of parse "new_decoder limit" chunks vs "[]"] by (simp add: new_decoder_def assms(3))
qed

theorem frames_survive_chunking_witness:
  "push_all Inr [[2], [0, 0, 0, 7, 8, 1, 0], [], [0, 0, 9]] (new_decoder 10) = (Inr [[7, 8], [9]], new_decoder 10)"
proof (rule frames_survive_chunking [where text_of = "\<lambda>v. v"])
  show "concat [[2], [0, 0, 0, 7, 8, 1, 0], [], [0, 0, 9]] = encode_all (\<lambda>v. v) 10 [[7, 8], [9]]" by code_simp
  show "length v \<le> 10 \<and> Inr v = Inr v" if "v \<in> set [[7, 8], [9]]" for v :: bytes using that by auto
qed simp

text \<open>
  Between chunks the decoder holds less than one frame of the limit, whatever the peer sends, and a frame
  that declares more than the limit is refused before any of its payload is waited for.
\<close>

lemma decoder_holds_one_frame:
  "(case push parse chunk d of (Inl e, d') \<Rightarrow> True | (Inr vs, d') \<Rightarrow> length (buffer d') < 4 + frame_limit d') \<and>
   (4 \<le> length (buffer d @ chunk) \<and> frame_limit d < le_value (take 4 (buffer d @ chunk)) \<longrightarrow>
     push parse chunk d = (Inl range_error, d\<lparr>buffer := buffer d @ chunk\<rparr>))"
proof
  show "case push parse chunk d of (Inl e, d') \<Rightarrow> True | (Inr vs, d') \<Rightarrow> length (buffer d') < 4 + frame_limit d'"
    by (auto simp: push_def split: prod.splits sum.splits dest!: drain_rest intro!: incomplete_small)
  show "4 \<le> length (buffer d @ chunk) \<and> frame_limit d < le_value (take 4 (buffer d @ chunk)) \<longrightarrow>
     push parse chunk d = (Inl range_error, d\<lparr>buffer := buffer d @ chunk\<rparr>)"
    using drain_too_long [of "buffer d @ chunk" "frame_limit d" parse "[]"] by (simp add: push_def declared_def)
qed

section \<open>Timeouts\<close>

text \<open>The client waits for a long operation at least as long as the operation itself may take, and 10 s more.\<close>

lemma transport_outlasts_operation:
  "longOperationTimeoutMs method params = Some t \<Longrightarrow> 0 < t \<and> t + 10000 \<le> resolveTransportTimeoutMs method params r"
  by (auto simp: longOperationTimeoutMs_def resolveTransportTimeoutMs_def default_operation_timeout_def Let_def
      LONG_OPERATION_TRANSPORT_GRACE_MS_def DEFAULT_BROWSER_WAIT_TIMEOUT_MS_def DEFAULT_BROWSER_HANDOFF_TIMEOUT_MS_def
      DEFAULT_BROWSER_EMAIL_CODE_TIMEOUT_MS_def DEFAULT_BROWSER_CREDENTIALS_TIMEOUT_MS_def split: option.splits if_splits)

lemma transport_at_least_requested: "r \<le> resolveTransportTimeoutMs method params r"
  by (simp add: resolveTransportTimeoutMs_def split: option.split)

end
