(* ===== verification/ResumeStore.thy ===== *)
theory ResumeStore
  imports NodeFs
begin

text \<open>
  \<open>packages/sdk-typescript/src/index.ts\<close>: the file in which a client keeps the capability that resumes its
  task, the rotation of that capability, and \<open>connect\<close>, which resumes with it. The socket exchanges are
  arguments: \<open>negotiateConnection\<close> of a capability, and \<open>confirmResumeCapability\<close>; the text of a JSON value
  and its parser are fields of the environment.
\<close>

section \<open>What is stored\<close>

record stored_capability =
  resumeCapability :: string
  pendingResumeCapability :: "string option"

record store_env =
  machine_env :: sys_env
  to_text :: "js \<Rightarrow> octets"
  of_text :: "octets \<Rightarrow> js_error + js"
  random_hex :: "nat \<Rightarrow> string"
  process_id :: string
  directory :: string
  store_path :: string

definition validateResumeCapability :: "string \<Rightarrow> unit io" where
  "validateResumeCapability c = (if length c < 32 \<or> 64 < length c
     then throw (new_error ''AgentTab resume capability must contain 32 to 64 characters'') else ret ())"

definition stored_value :: "stored_capability \<Rightarrow> js" where
  "stored_value c = Obj ([(''schemaVersion'', js_int 1), (''resumeCapability'', Str (resumeCapability c))] @
     (case pendingResumeCapability c of None \<Rightarrow> [] | Some r \<Rightarrow> [(''pendingResumeCapability'', Str r)]))"

definition well_formed :: "js \<Rightarrow> bool" where
  "well_formed v \<longleftrightarrow> isRecord v \<and> jget (the_obj v) ''schemaVersion'' = js_int 1 \<and> is_str (jget (the_obj v) ''resumeCapability'') \<and>
     (jget (the_obj v) ''pendingResumeCapability'' = Undefined \<or> is_str (jget (the_obj v) ''pendingResumeCapability''))"

definition read_stored :: "js \<Rightarrow> stored_capability" where
  "read_stored v = \<lparr>resumeCapability = the_str (jget (the_obj v) ''resumeCapability''),
     pendingResumeCapability = (if jget (the_obj v) ''pendingResumeCapability'' = Undefined then None
       else Some (the_str (jget (the_obj v) ''pendingResumeCapability'')))\<rparr>"

section \<open>The directory\<close>

text \<open>The group and other bits of a mode.\<close>

definition too_open :: "sys_env \<Rightarrow> node \<Rightarrow> bool" where
  "too_open env n \<longleftrightarrow> \<not> windows env \<and> permissions n mod 64 \<noteq> 0"

definition lstat_or_none :: "sys_env \<Rightarrow> bool \<Rightarrow> string \<Rightarrow> node option io" where
  "lstat_or_none env absent_ok p = try_catch (bnd (stat_file env p) (\<lambda>n. ret (Some n)))
     (\<lambda>e. if absent_ok \<and> error_code e = Some ''ENOENT'' then ret None else throw e)"

definition prepareCapabilityDirectory :: "store_env \<Rightarrow> bool \<Rightarrow> bool io" where
  "prepareCapabilityDirectory env create = (let me = machine_env env in
     seq (when_do create (mkdir_p me (directory env) 448))
     (bnd (lstat_or_none me (\<not> create) (directory env)) (\<lambda>found. case found of
        None \<Rightarrow> ret False
      | Some n \<Rightarrow>
          if node_kind n \<noteq> Directory then throw (new_error ''AgentTab client state path is not a regular directory'')
          else if too_open me n
          then if create then seq (chmod me (directory env) 448) (ret True)
            else throw (new_error ''AgentTab client state directory must be owner-only (0700)'')
          else ret True)))"

section \<open>Loading and saving\<close>

definition parse_stored :: "store_env \<Rightarrow> octets \<Rightarrow> stored_capability io" where
  "parse_stored env b = (case of_text env b of
      Inl e \<Rightarrow> throw e
    | Inr v \<Rightarrow>
        if \<not> well_formed v then throw (new_error ''AgentTab resume capability file is invalid'')
        else seq (validateResumeCapability (resumeCapability (read_stored v)))
          (seq (case pendingResumeCapability (read_stored v) of None \<Rightarrow> ret () | Some r \<Rightarrow> validateResumeCapability r)
            (ret (read_stored v))))"

definition loadStoredCapability :: "store_env \<Rightarrow> stored_capability option io" where
  "loadStoredCapability env = (let me = machine_env env in
     bnd (prepareCapabilityDirectory env False) (\<lambda>exists.
       if \<not> exists then ret None
       else bnd (lstat_or_none me True (store_path env)) (\<lambda>found. case found of
          None \<Rightarrow> ret None
        | Some n \<Rightarrow>
            if node_kind n \<noteq> RegularFile then throw (new_error ''AgentTab resume capability path is not a regular file'')
            else if too_open me n then throw (new_error ''AgentTab resume capability must be owner-only (0600)'')
            else bnd (read_file me (store_path env)) (\<lambda>b. bnd (parse_stored env b) (\<lambda>c. ret (Some c))))))"

definition temporary_path :: "store_env \<Rightarrow> nat \<Rightarrow> string" where
  "temporary_path env n = store_path env @ ''.'' @ process_id env @ ''.'' @ random_hex env n @ ''.tmp''"

definition draw_temporary :: "store_env \<Rightarrow> string io" where
  "draw_temporary env = bnd (gets drawn) (\<lambda>n. seq (modify (\<lambda>s. s\<lparr>drawn := n + 1\<rparr>)) (ret (temporary_path env n)))"

definition sync_open :: "sys_env \<Rightarrow> string \<Rightarrow> unit io" where
  "sync_open env p = seq (open_existing env p) (closing env (sync_handle env))"

definition saveStoredCapability :: "store_env \<Rightarrow> stored_capability \<Rightarrow> unit io" where
  "saveStoredCapability env c = (let me = machine_env env; p = store_path env in
     seq (validateResumeCapability (resumeCapability c))
     (seq (case pendingResumeCapability c of None \<Rightarrow> ret () | Some r \<Rightarrow> validateResumeCapability r)
     (seq (bnd (prepareCapabilityDirectory env True) (\<lambda>_. ret ()))
     (bnd (draw_temporary env) (\<lambda>t.
       seq (open_new me t 384)
       (seq (closing me (seq (write_handle me t (to_text env (stored_value c))) (sync_handle me)))
         (try_catch
           (seq (rename me t p)
           (seq (when_do (\<not> windows me) (chmod me p 384))
           (seq (sync_open me p) (when_do (\<not> windows me) (sync_open me (directory env))))))
           (\<lambda>e. seq (remove me t) (throw e)))))))))"

section \<open>The store\<close>

definition load_capability :: "store_env \<Rightarrow> string option io" where
  "load_capability env = bnd (loadStoredCapability env) (\<lambda>c. ret (map_option resumeCapability c))"

definition loadPending :: "store_env \<Rightarrow> string option io" where
  "loadPending env = bnd (loadStoredCapability env) (\<lambda>c. ret (Option.bind c pendingResumeCapability))"

definition save_capability :: "store_env \<Rightarrow> string \<Rightarrow> unit io" where
  "save_capability env c = seq (validateResumeCapability c)
     (saveStoredCapability env \<lparr>resumeCapability = c, pendingResumeCapability = None\<rparr>)"

definition prepareReplacement :: "store_env \<Rightarrow> string \<Rightarrow> string \<Rightarrow> unit io" where
  "prepareReplacement env current replacement =
     seq (validateResumeCapability current)
     (seq (validateResumeCapability replacement)
     (if current = replacement then throw (new_error ''AgentTab resume capability replacement must differ from the current capability'')
      else bnd (loadStoredCapability env) (\<lambda>stored.
        case stored of
          None \<Rightarrow> throw (new_error ''AgentTab resume capability store does not contain the capability being resumed'')
        | Some c \<Rightarrow>
            if resumeCapability c \<noteq> current \<and> pendingResumeCapability c \<noteq> Some current
            then throw (new_error ''AgentTab resume capability store does not contain the capability being resumed'')
            else saveStoredCapability env \<lparr>resumeCapability = current, pendingResumeCapability = Some replacement\<rparr>)))"

definition activateReplacement :: "store_env \<Rightarrow> string \<Rightarrow> unit io" where
  "activateReplacement env replacement =
     seq (validateResumeCapability replacement)
     (bnd (loadStoredCapability env) (\<lambda>stored.
        case stored of
          None \<Rightarrow> throw (new_error ''AgentTab resume capability store does not contain the confirmed replacement'')
        | Some c \<Rightarrow>
            if pendingResumeCapability c \<noteq> Some replacement
            then throw (new_error ''AgentTab resume capability store does not contain the confirmed replacement'')
            else saveStoredCapability env \<lparr>resumeCapability = replacement, pendingResumeCapability = None\<rparr>))"

definition clear_capability :: "store_env \<Rightarrow> unit io" where
  "clear_capability env = (let me = machine_env env in
     bnd (prepareCapabilityDirectory env False) (\<lambda>exists.
       if \<not> exists then ret ()
       else seq (remove me (store_path env)) (when_do (\<not> windows me) (sync_open me (directory env)))))"

section \<open>Connecting\<close>

record connection_ack =
  resumed :: bool
  resume_capability :: "string option"
  resume_rejection :: "string option"

text \<open>\<open>negotiate c\<close> and \<open>confirm ack replacement\<close>: the exchanges with the host on the socket.\<close>

record connector =
  negotiate :: "string option \<Rightarrow> connection_ack io"
  confirm :: "connection_ack \<Rightarrow> string \<Rightarrow> unit io"

definition truthy_text :: "string option \<Rightarrow> bool" where
  "truthy_text v \<longleftrightarrow> v \<noteq> None \<and> v \<noteq> Some []"

definition rotate_capability :: "store_env \<Rightarrow> unit io \<Rightarrow> string \<Rightarrow> string \<Rightarrow> unit io" where
  "rotate_capability env confirmed attempted replacement =
     seq (prepareReplacement env attempted replacement) (seq confirmed (activateReplacement env replacement))"

definition capability_candidates :: "string option \<Rightarrow> string option \<Rightarrow> string option list" where
  "capability_candidates pending active = (let cs = filter (\<lambda>c. c \<noteq> None) (if pending = active then [pending] else [pending, active]) in
     if cs = [] then [None] else cs)"

fun attempt_each :: "store_env option \<Rightarrow> connector \<Rightarrow> string option \<Rightarrow> string option list \<Rightarrow> (string option \<times> connection_ack) option io" where
  "attempt_each store net active [] = ret None"
| "attempt_each store net active (c # cs) =
     bnd (negotiate net c) (\<lambda>ack.
       if truthy_text c \<and> \<not> resumed ack then
         if resume_rejection ack = Some ''task_closed''
         then seq (case store of None \<Rightarrow> ret () | Some env \<Rightarrow> clear_capability env)
           (bnd (negotiate net None) (\<lambda>fresh. ret (Some (None, fresh))))
         else if c \<noteq> active then attempt_each store net active cs
         else throw (new_error ''AgentTab rejected the stored resume capability'')
       else ret (Some (c, ack)))"

definition finish_connect :: "store_env option \<Rightarrow> connector \<Rightarrow> string option \<Rightarrow> connection_ack \<Rightarrow> connection_ack io" where
  "finish_connect store net attempted ack =
     (if resumed ack then
        (case (store, truthy_text attempted \<and> truthy_text (resume_capability ack)) of
           (Some env, True) \<Rightarrow>
             seq (try_catch (rotate_capability env (confirm net ack (the (resume_capability ack))) (the attempted) (the (resume_capability ack)))
               (\<lambda>e. throw (new_error ''AgentTab could not complete durable resume-capability rotation''))) (ret ack)
         | _ \<Rightarrow> throw (new_error ''AgentTab resumed without the durable resume-confirmation prerequisites''))
      else if truthy_text (resume_capability ack)
      then throw (new_error ''AgentTab returned an initial resume capability before creating a task'')
      else ret ack)"

definition connect_client :: "store_env option \<Rightarrow> connector \<Rightarrow> string option \<Rightarrow> connection_ack io" where
  "connect_client store net given =
     (if truthy_text given \<and> store = None
      then throw (new_error ''AgentTab refuses to resume without a persistent ResumeCapabilityStore'')
      else bnd (if truthy_text given then ret None else case store of None \<Rightarrow> ret None | Some env \<Rightarrow> loadPending env) (\<lambda>pending.
        bnd (case given of Some c \<Rightarrow> ret (Some c) | None \<Rightarrow> (case store of None \<Rightarrow> ret None | Some env \<Rightarrow> load_capability env)) (\<lambda>active.
        bnd (attempt_each store net active (capability_candidates pending active)) (\<lambda>negotiated. case negotiated of
            None \<Rightarrow> throw (new_error ''AgentTab could not establish a connection'')
          | Some (attempted, ack) \<Rightarrow> finish_connect store net attempted ack))))"

end
