(* ===== verification/ResumeProperties.thy ===== *)
theory ResumeProperties
  imports ResumeStore
begin

text \<open>
  The resume capability is never lost: whatever calls fail, and wherever the process stops, the file of the
  store holds a capability that the host accepts.
\<close>

section \<open>What the file holds\<close>

definition held :: "store_env \<Rightarrow> octets option \<Rightarrow> stored_capability option" where
  "held env x = (case x of None \<Rightarrow> None | Some b \<Rightarrow> (case of_text env b of
      Inl e \<Rightarrow> None | Inr v \<Rightarrow> if well_formed v then Some (read_stored v) else None))"

definition stored_on :: "store_env \<Rightarrow> machine \<Rightarrow> stored_capability option" where
  "stored_on env s = held env (content_of (disk s) (store_path env))"

definition parses_back :: "store_env \<Rightarrow> bool" where
  "parses_back env \<longleftrightarrow> (\<forall>c. of_text env (to_text env (stored_value c)) = Inr (stored_value c))"

lemma stored_value_back [simp]: "well_formed (stored_value c)" "read_stored (stored_value c) = c"
  by (cases "pendingResumeCapability c"; simp add: well_formed_def read_stored_def stored_value_def)+

lemma held_text: "parses_back env \<Longrightarrow> held env (Some (to_text env (stored_value c))) = Some c"
  by (simp add: held_def parses_back_def)

section \<open>The operations on the file\<close>

abbreviation file_at :: "store_env \<Rightarrow> machine \<Rightarrow> octets option" where
  "file_at env s \<equiv> content_of (disk s) (store_path env)"

lemma temporary_apart: "temporary_path env n \<noteq> store_path env"
  by (simp add: temporary_path_def)

lemma keeps_validate: "keeps I (validateResumeCapability c)"
  unfolding validateResumeCapability_def by (intro keeps_intros)

lemma keeps_lstat_or_none: "keeps (same_off P d) (lstat_or_none env b p)"
  unfolding lstat_or_none_def by (intro keeps_intros)

lemma keeps_prepare_read: "keeps (same_off P d) (prepareCapabilityDirectory env False)"
  unfolding prepareCapabilityDirectory_def Let_def when_do_def by (simp, intro keeps_intros keeps_lstat_or_none)

lemma keeps_prepare: "keeps (same_off {directory env} d) (prepareCapabilityDirectory env create)"
  unfolding prepareCapabilityDirectory_def Let_def by (intro keeps_intros keeps_lstat_or_none keeps_io_on) auto

lemma keeps_parse_stored: "keeps I (parse_stored env b)"
  unfolding parse_stored_def
  by (cases "of_text env b") (auto intro!: keeps_intros keeps_validate split: option.split)

lemma keeps_load: "keeps (same_off P d) (loadStoredCapability env)"
  unfolding loadStoredCapability_def Let_def
  by (intro keeps_intros keeps_prepare_read keeps_lstat_or_none keeps_parse_stored)

lemma keeps_sync_open: "keeps (same_off P d) (sync_open env p)"
  unfolding sync_open_def by (intro keeps_intros)

lemma keeps_file:
  "(\<And>d. keeps (same_off P d) m) \<Longrightarrow> store_path env \<notin> P \<Longrightarrow> keeps (\<lambda>s. R (file_at env s)) m"
proof (rule keepsI)
  fix s assume k: "\<And>d. keeps (same_off P d) m" and p: "store_path env \<notin> P" and r: "R (file_at env s)"
  have "same_off P (disk s) (snd (m s))" by (rule keepsD [OF k]) (simp add: same_off_def)
  with p r show "R (file_at env (snd (m s)))" by (simp add: same_off_def content_of_def)
qed

definition saved_or :: "store_env \<Rightarrow> octets option \<Rightarrow> octets \<Rightarrow> machine \<Rightarrow> bool" where
  "saved_or env x b t \<longleftrightarrow> file_at env t = x \<or> file_at env t = Some b"

lemma install_outcome:
  "outcome (\<lambda>s. file_at env s = x \<and> t \<noteq> store_path env \<and> disk s t = Some (regular b m))
     (rename me t (store_path env)) (\<lambda>_ s. file_at env s = Some b) (\<lambda>_ s. file_at env s = x)"
  by (auto simp: outcome_def rename_def sys_call_def existing_def set_node_def eff_defs content_of_def regular_def split: option.splits)

lemma open_temporary_outcome:
  "outcome (\<lambda>s. file_at env s = x \<and> t \<noteq> store_path env) (open_new me t m)
     (\<lambda>_ s. file_at env s = x \<and> t \<noteq> store_path env \<and> disk s t = Some (regular [] m)) (\<lambda>_ s. file_at env s = x)"
  by (auto simp: outcome_def open_new_def sys_call_def set_node_def eff_defs content_of_def split: option.splits)

lemma fill_temporary_outcome:
  "outcome (\<lambda>s. file_at env s = x \<and> t \<noteq> store_path env \<and> disk s t = Some (regular [] m))
     (closing me (seq (write_handle me t b) (sync_handle me)))
     (\<lambda>_ s. file_at env s = x \<and> t \<noteq> store_path env \<and> disk s t = Some (regular b m)) (\<lambda>_ s. file_at env s = x)"
proof (rule outcomeI)
  fix s assume s: "file_at env s = x \<and> t \<noteq> store_path env \<and> disk s t = Some (regular [] m)"
  then have "disk s = (disk s)(t \<mapsto> regular [] m)" by auto
  from outcomeD [OF fill_outcome [of "disk s" t m me b] this] s
  show "case closing me (seq (write_handle me t b) (sync_handle me)) s of (Inl e, u) \<Rightarrow> file_at env u = x
    | (Inr y, u) \<Rightarrow> file_at env u = x \<and> t \<noteq> store_path env \<and> disk u t = Some (regular b m)"
    by (auto simp: content_of_def split: prod.splits sum.splits)
qed

lemma set_mode_outcome:
  "outcome (\<lambda>s. file_at env s = y) (chmod me (store_path env) m) (\<lambda>_ s. file_at env s = y) (\<lambda>_ s. file_at env s = y)"
  by (auto simp: outcome_def chmod_def sys_call_def existing_def set_node_def eff_defs content_of_def split: option.splits)

lemma outcome_file:
  assumes "\<And>d. keeps (same_off P d) m" "store_path env \<notin> P"
  shows "outcome (\<lambda>s. file_at env s = y) m (\<lambda>_ s. file_at env s = y) (\<lambda>_ s. file_at env s = y)"
  by (rule outcome_keeps [OF keeps_file [OF assms, where R = "\<lambda>z. z = y"]])

lemma outcome_when: "outcome P m (\<lambda>_. P) E \<Longrightarrow> outcome P (when_do b m) (\<lambda>_. P) E"
  by (simp add: when_do_def outcome_ret)

lemma outcome_weaken: "outcome P m Q E \<Longrightarrow> (\<And>e t. E e t \<Longrightarrow> E' e t) \<Longrightarrow> outcome P m Q E'"
  by (erule outcome_conseq)

lemma save_outcome:
  assumes "directory env \<noteq> store_path env"
  shows "outcome (\<lambda>s. file_at env s = x) (saveStoredCapability env c)
    (\<lambda>_ t. file_at env t = Some (to_text env (stored_value c))) (\<lambda>_. saved_or env x (to_text env (stored_value c)))"
proof -
  let ?b = "to_text env (stored_value c)" and ?me = "machine_env env" and ?p = "store_path env"
  let ?E = "\<lambda>_. saved_or env x ?b" and ?I = "\<lambda>s. file_at env s = x" and ?J = "\<lambda>s. file_at env s = Some ?b"
  have weak: "\<And>t. ?I t \<Longrightarrow> saved_or env x ?b t" "\<And>t. ?J t \<Longrightarrow> saved_or env x ?b t" by (simp_all add: saved_or_def)
  have free: "outcome ?I m (\<lambda>_. ?I) ?E" if "\<And>d. keeps (same_off {directory env} d) m" for m :: "unit io"
    by (rule outcome_weaken [OF outcome_file [OF that]]) (use assms weak in auto)
  have checked: "outcome ?I (validateResumeCapability r) (\<lambda>_. ?I) ?E" for r
    by (rule outcome_weaken [OF outcome_keeps [OF keeps_validate]]) (rule weak)
  have pending: "outcome ?I (case pendingResumeCapability c of None \<Rightarrow> ret () | Some r \<Rightarrow> validateResumeCapability r) (\<lambda>_. ?I) ?E"
    using checked by (auto intro: outcome_ret split: option.split)
  have folder: "outcome ?I (bnd (prepareCapabilityDirectory env True) (\<lambda>_. ret ())) (\<lambda>_. ?I) ?E"
    by (rule free) (intro keeps_intros keeps_prepare)
  have drawn: "outcome ?I (draw_temporary env) (\<lambda>t s. ?I s \<and> t \<noteq> ?p) ?E"
    by (auto simp: outcome_def draw_temporary_def eff_defs temporary_apart)
  have synced: "outcome ?J (sync_open ?me q) (\<lambda>_. ?J) (\<lambda>_. ?J)" for q by (rule outcome_file [OF keeps_sync_open [of "{}"]]) simp
  have install: "outcome (\<lambda>s. ?I s \<and> t \<noteq> ?p \<and> disk s t = Some (regular ?b 384))
      (try_catch (seq (rename ?me t ?p) (seq (when_do (\<not> windows ?me) (chmod ?me ?p 384))
         (seq (sync_open ?me ?p) (when_do (\<not> windows ?me) (sync_open ?me (directory env))))))
       (\<lambda>e. seq (remove ?me t) (throw e))) (\<lambda>_. ?J) ?E" if t: "t \<noteq> ?p" for t
  proof (rule outcome_try_catch)
    show "outcome (\<lambda>s. ?I s \<and> t \<noteq> ?p \<and> disk s t = Some (regular ?b 384)) (seq (rename ?me t ?p) (seq (when_do (\<not> windows ?me) (chmod ?me ?p 384))
         (seq (sync_open ?me ?p) (when_do (\<not> windows ?me) (sync_open ?me (directory env)))))) (\<lambda>_. ?J) ?E"
      by (rule outcome_seq [OF outcome_weaken [OF install_outcome weak(1)]
            outcome_weaken [OF outcome_seq [OF outcome_when [OF set_mode_outcome] outcome_seq [OF synced outcome_when [OF synced]]] weak(2)]])
    have removed: "outcome (saved_or env x ?b) (remove ?me t) (\<lambda>_. saved_or env x ?b) ?E"
      unfolding saved_or_def
      by (rule outcome_keeps [OF keeps_file [where P = "{t}" and R = "\<lambda>y. y = x \<or> y = Some ?b"]]) (use t in \<open>auto intro: keeps_io_on\<close>)
    show "outcome (saved_or env x ?b) (seq (remove ?me t) (throw e)) (\<lambda>_. ?J) ?E" for e
      by (rule outcome_seq [OF removed]) (simp add: outcome_throw)
  qed
  have rest: "outcome (\<lambda>s. ?I s \<and> t \<noteq> ?p) (seq (open_new ?me t 384) (seq (closing ?me (seq (write_handle ?me t ?b) (sync_handle ?me)))
         (try_catch (seq (rename ?me t ?p) (seq (when_do (\<not> windows ?me) (chmod ?me ?p 384))
             (seq (sync_open ?me ?p) (when_do (\<not> windows ?me) (sync_open ?me (directory env))))))
           (\<lambda>e. seq (remove ?me t) (throw e))))) (\<lambda>_. ?J) ?E" for t
  proof (cases "t = ?p")
    case False
    show ?thesis
      by (rule outcome_seq [OF outcome_weaken [OF open_temporary_outcome weak(1)]
            outcome_seq [OF outcome_weaken [OF fill_temporary_outcome weak(1)] install [OF False]]])
  qed (simp add: outcome_def)
  show ?thesis unfolding saveStoredCapability_def Let_def
    by (rule outcome_seq [OF checked outcome_seq [OF pending outcome_seq [OF folder outcome_bnd [OF drawn rest]]]])
qed

lemma read_file_outcome:
  "outcome (\<lambda>s. file_at env s = x) (read_file me (store_path env)) (\<lambda>b s. file_at env s = x \<and> x = Some b) (\<lambda>_ s. file_at env s = x)"
  by (auto simp: outcome_def read_file_def sys_call_def existing_def eff_defs content_of_def split: option.splits if_splits)

lemma parse_stored_outcome:
  "outcome (\<lambda>s. file_at env s = x \<and> x = Some b) (parse_stored env b)
     (\<lambda>c s. file_at env s = x \<and> held env x = Some c) (\<lambda>_ s. file_at env s = x)"
  by (auto simp: outcome_def parse_stored_def validateResumeCapability_def eff_defs held_def split: sum.splits option.splits if_splits)

lemma load_outcome:
  "outcome (\<lambda>s. file_at env s = x) (loadStoredCapability env)
     (\<lambda>r s. file_at env s = x \<and> (\<forall>c. r = Some c \<longrightarrow> held env x = Some c)) (\<lambda>_ s. file_at env s = x)"
proof -
  let ?I = "\<lambda>s. file_at env s = x"
  let ?Q = "\<lambda>r s. ?I s \<and> (\<forall>c. r = Some c \<longrightarrow> held env x = Some c)"
  have folder: "outcome ?I (prepareCapabilityDirectory env False) (\<lambda>_. ?I) (\<lambda>_. ?I)"
    by (rule outcome_file [OF keeps_prepare_read [of "{}"]]) simp
  have found: "outcome ?I (lstat_or_none me b q) (\<lambda>_. ?I) (\<lambda>_. ?I)" for me b q
    by (rule outcome_file [OF keeps_lstat_or_none [of "{}"]]) simp
  have parsed: "outcome (\<lambda>s. ?I s \<and> x = Some b) (bnd (parse_stored env b) (\<lambda>c. ret (Some c))) ?Q (\<lambda>_. ?I)" for b
    by (rule outcome_bnd [OF parse_stored_outcome]) (simp add: outcome_ret)
  have read: "outcome ?I (bnd (read_file me (store_path env)) (\<lambda>b. bnd (parse_stored env b) (\<lambda>c. ret (Some c)))) ?Q (\<lambda>_. ?I)" for me
    by (rule outcome_bnd [OF read_file_outcome parsed])
  have "outcome ?I (case v of None \<Rightarrow> ret None | Some n \<Rightarrow>
            if node_kind n \<noteq> RegularFile then throw e
            else if too_open me n then throw e'
            else bnd (read_file me (store_path env)) (\<lambda>b. bnd (parse_stored env b) (\<lambda>c. ret (Some c)))) ?Q (\<lambda>_. ?I)" for v me e e'
    using read by (auto intro: outcome_ret outcome_throw split: option.split)
  from outcome_bnd [OF found this] show ?thesis unfolding loadStoredCapability_def Let_def
    by (intro outcome_bnd [OF folder]) (auto intro: outcome_ret)
qed

definition both :: "string \<Rightarrow> string \<Rightarrow> stored_capability" where
  "both current replacement = \<lparr>resumeCapability = current, pendingResumeCapability = Some replacement\<rparr>"

definition only :: "string \<Rightarrow> stored_capability" where
  "only c = \<lparr>resumeCapability = c, pendingResumeCapability = None\<rparr>"

lemma checked_outcome:
  assumes "outcome (\<lambda>s. file_at env s = x) m Q E" "\<And>e t. file_at env t = x \<Longrightarrow> E e t"
  shows "outcome (\<lambda>s. file_at env s = x) (seq (validateResumeCapability c) m) Q E"
  by (rule outcome_seq [OF outcome_weaken [OF outcome_keeps [OF keeps_validate]] assms(1)]) (rule assms(2))

lemma loaded_outcome:
  assumes "\<And>c. outcome (\<lambda>s. file_at env s = x) (f (Some c)) Q E" "\<And>e t. file_at env t = x \<Longrightarrow> E e t" "f None = throw e"
  shows "outcome (\<lambda>s. file_at env s = x) (bnd (loadStoredCapability env) f) Q E"
proof (rule outcome_bnd [OF outcome_weaken [OF load_outcome assms(2)]])
  fix r
  show "outcome (\<lambda>s. file_at env s = x \<and> (\<forall>c. r = Some c \<longrightarrow> held env x = Some c)) (f r) Q E"
  proof (cases r)
    case None
    then show ?thesis using assms(2,3) by (simp add: outcome_throw)
  next
    case (Some c)
    show ?thesis unfolding Some by (rule outcome_conseq [OF assms(1)]) simp_all
  qed
qed

lemma saved_or_same: "file_at env t = x \<Longrightarrow> saved_or env x b t"
  by (simp add: saved_or_def)

lemma guarded_save_outcome:
  assumes "directory env \<noteq> store_path env"
  shows "outcome (\<lambda>s. file_at env s = x)
     (bnd (loadStoredCapability env) (\<lambda>stored. case stored of None \<Rightarrow> throw e | Some c \<Rightarrow> if wrong c then throw e else saveStoredCapability env new))
    (\<lambda>_ t. file_at env t = Some (to_text env (stored_value new))) (\<lambda>_. saved_or env x (to_text env (stored_value new)))"
proof (rule loaded_outcome [where e = e])
  fix c
  show "outcome (\<lambda>s. file_at env s = x)
     (case Some c of None \<Rightarrow> throw e | Some c \<Rightarrow> if wrong c then throw e else saveStoredCapability env new)
    (\<lambda>_ t. file_at env t = Some (to_text env (stored_value new))) (\<lambda>_. saved_or env x (to_text env (stored_value new)))"
    using save_outcome [OF assms, of x new] by (cases "wrong c") (simp_all add: outcome_throw saved_or_same)
qed (simp_all add: saved_or_same)

lemma prepare_replacement_outcome:
  assumes "directory env \<noteq> store_path env"
  shows "outcome (\<lambda>s. file_at env s = x) (prepareReplacement env current replacement)
    (\<lambda>_ t. file_at env t = Some (to_text env (stored_value (both current replacement))))
    (\<lambda>_. saved_or env x (to_text env (stored_value (both current replacement))))"
  unfolding prepareReplacement_def both_def
proof (intro checked_outcome saved_or_same)
  let ?new = "\<lparr>resumeCapability = current, pendingResumeCapability = Some replacement\<rparr>"
  let ?e = "new_error ''AgentTab resume capability store does not contain the capability being resumed''"
  show "outcome (\<lambda>s. file_at env s = x) (if current = replacement
      then throw (new_error ''AgentTab resume capability replacement must differ from the current capability'')
      else bnd (loadStoredCapability env) (\<lambda>stored. case stored of None \<Rightarrow> throw ?e
        | Some c \<Rightarrow> if resumeCapability c \<noteq> current \<and> pendingResumeCapability c \<noteq> Some current then throw ?e else saveStoredCapability env ?new))
    (\<lambda>_ t. file_at env t = Some (to_text env (stored_value ?new))) (\<lambda>_. saved_or env x (to_text env (stored_value ?new)))"
    using guarded_save_outcome [OF assms, of x ?e "\<lambda>c. resumeCapability c \<noteq> current \<and> pendingResumeCapability c \<noteq> Some current" ?new]
    by (cases "current = replacement") (simp_all add: outcome_throw saved_or_same)
qed

lemma activate_replacement_outcome:
  assumes "directory env \<noteq> store_path env"
  shows "outcome (\<lambda>s. file_at env s = x) (activateReplacement env replacement)
    (\<lambda>_ t. file_at env t = Some (to_text env (stored_value (only replacement))))
    (\<lambda>_. saved_or env x (to_text env (stored_value (only replacement))))"
  unfolding activateReplacement_def only_def
  by (intro checked_outcome saved_or_same guarded_save_outcome [OF assms])

section \<open>A store to try it on\<close>

definition demo_text :: "js \<Rightarrow> octets" where
  "demo_text v = (let c = read_stored v in length (resumeCapability c) # map of_char (resumeCapability c) @
     (case pendingResumeCapability c of None \<Rightarrow> [] | Some r \<Rightarrow> 0 # map of_char r))"

definition demo_value :: "octets \<Rightarrow> js_error + js" where
  "demo_value b = (case b of [] \<Rightarrow> Inl (new_error ''empty'') | n # xs \<Rightarrow>
     Inr (stored_value \<lparr>resumeCapability = map char_of (take n xs), pendingResumeCapability =
       (case drop n xs of [] \<Rightarrow> None | m # ys \<Rightarrow> Some (map char_of ys))\<rparr>))"

definition demo_store :: store_env where
  "demo_store = \<lparr>machine_env = \<lparr>fault = (\<lambda>n. None), torn = (\<lambda>n. 0), windows = False, uuid = (\<lambda>n. ''u''), dirname = (\<lambda>p. ''/s''),
     sha256_hex = (\<lambda>b. []), utf8 = map of_char\<rparr>, to_text = demo_text, of_text = demo_value, random_hex = (\<lambda>n. ''ab''),
     process_id = ''7'', directory = ''/s'', store_path = ''/s/c''\<rparr>"

definition demo_capability :: "char \<Rightarrow> string" where "demo_capability c = replicate 32 c"

definition demo_stored :: machine where
  "demo_stored = \<lparr>disk = [''/s'' \<mapsto> \<lparr>node_kind = Directory, content = [], permissions = 448\<rparr>,
     ''/s/c'' \<mapsto> regular (demo_text (stored_value (only (demo_capability CHR ''a'')))) 384], calls = 0, drawn = 0, shown = []\<rparr>"

definition lost_answer :: "unit io" where "lost_answer = throw (new_error ''closed'')"

lemma demo_parses_back: "parses_back demo_store"
proof -
  have "demo_value (demo_text (stored_value c)) = Inr (stored_value c)" for c
    by (cases c; cases "pendingResumeCapability c") (simp_all add: demo_text_def demo_value_def Let_def comp_def)
  then show ?thesis by (simp add: parses_back_def demo_store_def)
qed

section \<open>Properties\<close>

text \<open>C8: Rotating the resume capability never loses the task. The host is asked to confirm only when the file
  holds both the old capability and its replacement. When the rotation ends before that, by an error of any
  call or because the process stops, the file is as it was or already holds both; when the confirmation
  fails, or its answer is lost, the file holds both; after it, the file holds the replacement.
\<close>

theorem rotation_keeps_capability:
  assumes "parses_back env" "directory env \<noteq> store_path env" "\<And>s. stored_on env (snd (confirmed s)) = stored_on env s"
  shows "case rotate_capability env confirmed attempted replacement s of
      (Inr x, t) \<Rightarrow> stored_on env t = Some (only replacement)
    | (Inl e, t) \<Rightarrow> (case prepareReplacement env attempted replacement s of
          (Inl e', u) \<Rightarrow> stored_on env t \<in> {stored_on env s, Some (both attempted replacement)}
        | (Inr y, u) \<Rightarrow> stored_on env u = Some (both attempted replacement) \<and>
            stored_on env t \<in> {Some (both attempted replacement)} \<union>
              (if isl (fst (confirmed u)) then {} else {Some (only replacement)}))"
proof -
  let ?both = "both attempted replacement"
  have prep: "case prepareReplacement env attempted replacement s of (Inl e, u) \<Rightarrow> stored_on env u \<in> {stored_on env s, Some ?both}
    | (Inr y, u) \<Rightarrow> stored_on env u = Some ?both"
    using outcomeD [OF prepare_replacement_outcome [OF assms(2)] refl, of s attempted replacement] held_text [OF assms(1)]
    by (auto simp: stored_on_def saved_or_def split: prod.splits sum.splits)
  have act: "case activateReplacement env replacement v of (Inl e, t) \<Rightarrow> stored_on env t \<in> {stored_on env v, Some (only replacement)}
    | (Inr y, t) \<Rightarrow> stored_on env t = Some (only replacement)" for v
    using outcomeD [OF activate_replacement_outcome [OF assms(2)] refl, of v replacement] held_text [OF assms(1)]
    by (auto simp: stored_on_def saved_or_def split: prod.splits sum.splits)
  obtain r u where one: "prepareReplacement env attempted replacement s = (r, u)" by (rule prod.exhaust)
  show ?thesis
  proof (cases r)
    case (Inl e)
    with one prep show ?thesis by (simp add: rotate_capability_def seq_def bnd_def)
  next
    case (Inr y)
    obtain q v where two: "confirmed u = (q, v)" by (rule prod.exhaust)
    have same: "stored_on env v = stored_on env u" using assms(3) [of u] two by simp
    obtain w t where three: "activateReplacement env replacement v = (w, t)" by (rule prod.exhaust)
    have "rotate_capability env confirmed attempted replacement s = (case q of Inl e \<Rightarrow> (Inl e, v) | Inr z \<Rightarrow> (w, t))"
      using one two three Inr by (cases q) (simp_all add: rotate_capability_def seq_def bnd_def)
    with one two three Inr prep act [of v] same show ?thesis by (cases q; cases w) simp_all
  qed
qed

theorem rotation_keeps_capability_witness:
  "(case rotate_capability demo_store lost_answer (demo_capability CHR ''a'') (demo_capability CHR ''b'') demo_stored of
      (Inr x, t) \<Rightarrow> stored_on demo_store t = Some (only (demo_capability CHR ''b''))
    | (Inl e, t) \<Rightarrow> (case prepareReplacement demo_store (demo_capability CHR ''a'') (demo_capability CHR ''b'') demo_stored of
          (Inl e', u) \<Rightarrow> stored_on demo_store t \<in> {stored_on demo_store demo_stored, Some (both (demo_capability CHR ''a'') (demo_capability CHR ''b''))}
        | (Inr y, u) \<Rightarrow> stored_on demo_store u = Some (both (demo_capability CHR ''a'') (demo_capability CHR ''b'')) \<and>
            stored_on demo_store t \<in> {Some (both (demo_capability CHR ''a'') (demo_capability CHR ''b''))} \<union>
              (if isl (fst (lost_answer u)) then {} else {Some (only (demo_capability CHR ''b''))}))) \<and>
   (case rotate_capability demo_store lost_answer (demo_capability CHR ''a'') (demo_capability CHR ''b'') demo_stored of
      (r, t) \<Rightarrow> isl r \<and> stored_on demo_store t = Some (both (demo_capability CHR ''a'') (demo_capability CHR ''b'')))"
proof
  show "case rotate_capability demo_store lost_answer (demo_capability CHR ''a'') (demo_capability CHR ''b'') demo_stored of
      (r, t) \<Rightarrow> isl r \<and> stored_on demo_store t = Some (both (demo_capability CHR ''a'') (demo_capability CHR ''b''))"
    by code_simp
qed (rule rotation_keeps_capability [OF demo_parses_back]; simp add: demo_store_def lost_answer_def throw_def)

section \<open>Connecting\<close>

text \<open>The host said, on a capability of the store, that its task is closed.\<close>

definition told_closed :: "connector \<Rightarrow> bool" where
  "told_closed net \<longleftrightarrow> (\<exists>c u v a. negotiate net (Some c) u = (Inr a, v) \<and> \<not> resumed a \<and> resume_rejection a = Some ''task_closed'')"

definition nothing_stored :: "store_env \<Rightarrow> (string \<Rightarrow> node option) \<Rightarrow> bool" where
  "nothing_stored env d \<longleftrightarrow> d (directory env) = None \<or> d (store_path env) = None"

lemma lstat_outcome:
  "honest_faults me \<Longrightarrow> outcome (\<lambda>s. disk s = d) (lstat_or_none me b p) (\<lambda>r s. disk s = d \<and> r = d p) (\<lambda>_ s. disk s = d)"
  by (auto simp: outcome_def lstat_or_none_def stat_file_def sys_call_def existing_def eff_defs honest_faults_def split: option.splits if_splits)

lemma prepare_read_outcome:
  assumes "honest_faults (machine_env env)"
  shows "outcome (\<lambda>s. disk s = d) (prepareCapabilityDirectory env False)
    (\<lambda>r s. disk s = d \<and> (\<not> r \<longrightarrow> d (directory env) = None)) (\<lambda>_ s. disk s = d)"
  unfolding prepareCapabilityDirectory_def Let_def when_do_def
  by (simp add: seq_def, rule outcome_bnd [OF outcome_ret outcome_bnd [OF lstat_outcome [OF assms]]])
    (auto simp: outcome_def ret_def throw_def split: option.splits if_splits)

lemma parse_stored_valid:
  "outcome (\<lambda>s. disk s = d) (parse_stored env b)
     (\<lambda>c s. disk s = d \<and> resumeCapability c \<noteq> [] \<and> pendingResumeCapability c \<noteq> Some []) (\<lambda>_ s. disk s = d)"
  by (auto simp: outcome_def parse_stored_def validateResumeCapability_def eff_defs split: sum.splits option.splits if_splits)

lemma load_none_outcome:
  assumes "honest_faults (machine_env env)"
  shows "outcome (\<lambda>s. disk s = d) (loadStoredCapability env)
    (\<lambda>r s. disk s = d \<and> (r = None \<longrightarrow> nothing_stored env d) \<and>
       (\<forall>c. r = Some c \<longrightarrow> resumeCapability c \<noteq> [] \<and> pendingResumeCapability c \<noteq> Some [])) (\<lambda>_ s. disk s = d)"
proof -
  let ?Q = "\<lambda>r s. disk s = d \<and> (r = None \<longrightarrow> nothing_stored env d) \<and>
       (\<forall>c. r = Some c \<longrightarrow> resumeCapability c \<noteq> [] \<and> pendingResumeCapability c \<noteq> Some [])"
  have read: "outcome (\<lambda>s. disk s = d) (read_file me p) (\<lambda>_ s. disk s = d) (\<lambda>_ s. disk s = d)" for me p
    by (auto simp: outcome_def read_file_def sys_call_def existing_def eff_defs split: option.splits if_splits)
  have got: "outcome (\<lambda>s. disk s = d) (bnd (read_file me p) (\<lambda>b. bnd (parse_stored env b) (\<lambda>c. ret (Some c)))) ?Q (\<lambda>_ s. disk s = d)" for me p
    by (rule outcome_bnd [OF read outcome_bnd [OF parse_stored_valid]]) (simp add: outcome_ret)
  have seen: "outcome (\<lambda>s. disk s = d \<and> v = d (store_path env)) (case v of None \<Rightarrow> ret None | Some n \<Rightarrow>
        if node_kind n \<noteq> RegularFile then throw e else if too_open me n then throw e'
        else bnd (read_file me (store_path env)) (\<lambda>b. bnd (parse_stored env b) (\<lambda>c. ret (Some c)))) ?Q (\<lambda>_ s. disk s = d)" for v me e e'
    using got [of me "store_path env"] by (auto simp: outcome_def ret_def throw_def nothing_stored_def split: option.split)
  have "outcome (\<lambda>s. disk s = d \<and> (\<not> r \<longrightarrow> d (directory env) = None)) (if \<not> r then ret None
      else bnd (lstat_or_none (machine_env env) True (store_path env)) (\<lambda>v. case v of None \<Rightarrow> ret None | Some n \<Rightarrow>
        if node_kind n \<noteq> RegularFile then throw e else if too_open me n then throw e'
        else bnd (read_file me (store_path env)) (\<lambda>b. bnd (parse_stored env b) (\<lambda>c. ret (Some c))))) ?Q (\<lambda>_ s. disk s = d)" for r me e e'
  proof (cases r)
    case True
    have "outcome (\<lambda>s. disk s = d \<and> (\<not> r \<longrightarrow> d (directory env) = None))
      (bnd (lstat_or_none (machine_env env) True (store_path env)) (\<lambda>v. case v of None \<Rightarrow> ret None | Some n \<Rightarrow>
        if node_kind n \<noteq> RegularFile then throw e else if too_open me n then throw e'
        else bnd (read_file me (store_path env)) (\<lambda>b. bnd (parse_stored env b) (\<lambda>c. ret (Some c))))) ?Q (\<lambda>_ s. disk s = d)"
      by (rule outcome_conseq [OF outcome_bnd [OF lstat_outcome [OF assms, of d] seen]]) simp_all
    then show ?thesis by (simp only: True not_True_eq_False if_False)
  qed (simp add: outcome_def ret_def nothing_stored_def)
  then show ?thesis unfolding loadStoredCapability_def Let_def by (rule outcome_bnd [OF prepare_read_outcome [OF assms]])
qed

lemma attempt_each_outcome:
  assumes "Some [] \<notin> set cs"
  shows "outcome (\<lambda>s. True) (attempt_each store net active cs)
    (\<lambda>r t. \<forall>c ack. r = Some (c, ack) \<longrightarrow> resumed ack \<or> None \<in> set cs \<or> told_closed net) (\<lambda>_ _. True)"
  using assms
proof (induction cs)
  case Nil
  show ?case by (simp add: outcome_ret)
next
  case (Cons c cs)
  let ?Q = "\<lambda>r t. \<forall>c' ack. r = Some (c', ack) \<longrightarrow> resumed ack \<or> None \<in> set (c # cs) \<or> told_closed net"
  have IH: "outcome (\<lambda>s. True) (attempt_each store net active cs) ?Q (\<lambda>_ _. True)"
    by (rule outcome_conseq [OF Cons.IH]) (use Cons.prems in auto)
  have closed: "outcome (\<lambda>s. True) (seq m (bnd n (\<lambda>fresh. ret (Some (None, fresh))))) ?Q (\<lambda>_ _. True)" if "told_closed net"
    for m :: "unit io" and n :: "connection_ack io"
    using that by (simp add: outcome_def split: prod.splits sum.splits)
  have told: "told_closed net" if "negotiate net c s = (Inr ack, t)" "truthy_text c" "\<not> resumed ack" "resume_rejection ack = Some ''task_closed''" for s t ack
    using that unfolding told_closed_def truthy_text_def by (cases c) auto
  show ?case
  proof (rule outcomeI)
    fix s
    show "case attempt_each store net active (c # cs) s of (Inl e, t) \<Rightarrow> True | (Inr r, t) \<Rightarrow> ?Q r t"
    proof (cases "negotiate net c s")
      case (Pair q t)
      show ?thesis
      proof (cases q)
        case (Inl e)
        with Pair show ?thesis by (simp add: bnd_def)
      next
        case (Inr ack)
        then have run: "attempt_each store net active (c # cs) s = (if truthy_text c \<and> \<not> resumed ack then
         if resume_rejection ack = Some ''task_closed''
         then seq (case store of None \<Rightarrow> ret () | Some env \<Rightarrow> clear_capability env)
           (bnd (negotiate net None) (\<lambda>fresh. ret (Some (None, fresh))))
         else if c \<noteq> active then attempt_each store net active cs
         else throw (new_error ''AgentTab rejected the stored resume capability'')
       else ret (Some (c, ack))) t" using Pair by (simp add: bnd_def)
        show ?thesis
        proof (cases "truthy_text c \<and> \<not> resumed ack")
          case True
          show ?thesis
          proof (cases "resume_rejection ack = Some ''task_closed''")
            case rejected: True
            have "told_closed net" using told [OF Pair [unfolded Inr]] True rejected by simp
            from outcomeD [OF closed [OF this, of "case store of None \<Rightarrow> ret () | Some env \<Rightarrow> clear_capability env" "negotiate net None"] TrueI, of t]
            show ?thesis unfolding run if_P [OF True] if_P [OF rejected] .
          next
            case False
            show ?thesis using outcomeD [OF IH TrueI, of t] unfolding run if_P [OF True] if_not_P [OF False] by (simp add: throw_def)
          qed
        next
          case False
          have "resumed ack \<or> c = None" using False Cons.prems by (auto simp: truthy_text_def)
          then show ?thesis unfolding run if_not_P [OF False] by (auto simp: ret_def)
        qed
      qed
    qed
  qed
qed

lemma rotated_outcome:
  assumes "parses_back env" "directory env \<noteq> store_path env"
  shows "outcome (\<lambda>s. True) (rotate_capability env m attempted replacement) (\<lambda>_ t. stored_on env t = Some (only replacement)) (\<lambda>_ _. True)"
proof (rule outcomeI)
  fix s
  show "case rotate_capability env m attempted replacement s of (Inl e, t) \<Rightarrow> True | (Inr x, t) \<Rightarrow> stored_on env t = Some (only replacement)"
    using outcome_returns [OF activate_replacement_outcome [OF assms(2)] refl] held_text [OF assms(1)]
    by (auto simp: rotate_capability_def seq_def bnd_def stored_on_def split: prod.splits sum.splits)
qed

lemma finish_connect_outcome:
  assumes "parses_back env" "directory env \<noteq> store_path env"
  shows "outcome (\<lambda>s. True) (finish_connect (Some env) net attempted ack)
    (\<lambda>a t. a = ack \<and> (resumed ack \<longrightarrow> (\<exists>r. resume_capability ack = Some r \<and> stored_on env t = Some (only r)))) (\<lambda>_ _. True)"
proof (cases "resumed ack \<and> truthy_text attempted \<and> truthy_text (resume_capability ack)")
  case True
  then obtain r where r: "resume_capability ack = Some r" by (auto simp: truthy_text_def)
  have "outcome (\<lambda>s. True) (try_catch (rotate_capability env (confirm net ack r) (the attempted) r) (\<lambda>e. throw x))
    (\<lambda>_ t. stored_on env t = Some (only r)) (\<lambda>_ _. True)" for x
    by (rule outcome_try_catch [OF rotated_outcome [OF assms]]) (simp add: outcome_throw)
  then show ?thesis using True r by (auto simp: finish_connect_def intro!: outcome_seq outcome_ret)
next
  case False
  then show ?thesis by (auto simp: finish_connect_def outcome_def ret_def throw_def)
qed


definition demo_net :: connector where
  "demo_net = \<lparr>negotiate = (\<lambda>c. ret \<lparr>resumed = (c \<noteq> None), resume_capability = map_option (\<lambda>_. demo_capability CHR ''b'') c,
     resume_rejection = None\<rparr>), confirm = (\<lambda>a r. ret ())\<rparr>"


end
