(* ===== verification/SdkClient.thy ===== *)
theory SdkClient
  imports SdkFrames
begin

text \<open>
  \<open>AgentTabClient\<close> of \<open>packages/sdk-typescript/src/index.ts\<close>: the requests that wait for a response, the
  capability that a response may deliver, its confirmation, and the end of the connection. Each definition
  is what runs between two awaits; a promise that is settlements continues in a step of its own. The socket,
  the timers and the store are inputs of the steps. \<open>settlements\<close>, \<open>issued\<close>, \<open>forgotten\<close>, \<open>stored\<close> and
  \<open>confirmed\<close> record what happened and are read by no step.
\<close>

section \<open>State\<close>

definition RPC_PROTOCOL :: string where "RPC_PROTOCOL = ''agenttab.rpc''"
definition RPC_VERSION :: int where "RPC_VERSION = 1"

record pending_request =
  request_method :: string
  request_key :: "string option"

datatype rejection =
    Transport_error string string "string option"
  | Persistence_error string
  | Plain_error js_error

datatype settlement = Fulfilled js | Rejected rejection

text \<open>Who awaits the confirmation of a capability: the response that delivered it, or the caller.\<close>

datatype waiter = Response_waits string js | Caller_waits

record client =
  connection_id :: string
  waiting :: "(string \<times> pending_request) list"
  current_capability :: "string option"
  unconfirmed :: "string option"
  has_store :: bool
  confirmation :: "(waiter \<times> string) option"
  continuing :: "(waiter \<times> string \<times> js_error option) list"
  saving :: "(string \<times> js \<times> string) list"
  closed :: bool
  sent_frames :: "bytes list"
  settlements :: "(string \<times> settlement) list"
  issued :: "string list"
  forgotten :: "string list"
  stored :: "string list"
  confirmed :: "string list"

definition new_client :: "string \<Rightarrow> string option \<Rightarrow> bool \<Rightarrow> client" where
  "new_client cid capability store = \<lparr>connection_id = cid, waiting = [], current_capability = capability, unconfirmed = None,
     has_store = store, confirmation = None, continuing = [], saving = [], closed = False, sent_frames = [],
     settlements = [], issued = [], forgotten = [], stored = [], confirmed = []\<rparr>"

definition settle_request :: "string \<Rightarrow> settlement \<Rightarrow> client \<Rightarrow> client" where
  "settle_request i r c = c\<lparr>settlements := settlements c @ [(i, r)]\<rparr>"

section \<open>Messages of the host\<close>

definition isConnectionAck :: "js \<Rightarrow> bool" where
  "isConnectionAck v \<longleftrightarrow> isRecord v \<and> jget (the_obj v) ''protocol'' = Str RPC_PROTOCOL \<and> jget (the_obj v) ''version'' = js_int RPC_VERSION \<and>
     jget (the_obj v) ''kind'' = Str ''connected'' \<and> is_str (jget (the_obj v) ''connection_id'') \<and> is_bool (jget (the_obj v) ''resumed'') \<and>
     (jget (the_obj v) ''resume_rejection'' = Undefined \<or> is_str (jget (the_obj v) ''resume_rejection'')) \<and>
     (\<not> the_bool (jget (the_obj v) ''resumed'') \<or>
       is_str (jget (the_obj v) ''task_id'') \<and> is_str (jget (the_obj v) ''resume_capability''))"

definition isResumeCapabilityConfirmed :: "js \<Rightarrow> string \<Rightarrow> bool" where
  "isResumeCapabilityConfirmed v cid \<longleftrightarrow> isRecord v \<and> jget (the_obj v) ''protocol'' = Str RPC_PROTOCOL \<and>
     jget (the_obj v) ''version'' = js_int RPC_VERSION \<and> jget (the_obj v) ''kind'' = Str ''resume_confirmed'' \<and>
     jget (the_obj v) ''connection_id'' = Str cid"

definition isRpcResponse :: "js \<Rightarrow> bool" where
  "isRpcResponse v \<longleftrightarrow> isRecord v \<and> jget (the_obj v) ''protocol'' = Str RPC_PROTOCOL \<and> jget (the_obj v) ''version'' = js_int RPC_VERSION \<and>
     is_str (jget (the_obj v) ''request_id'') \<and> is_bool (jget (the_obj v) ''ok'') \<and> is_str (jget (the_obj v) ''outcome'')"

definition response_id :: "js \<Rightarrow> string" where "response_id v = the_str (jget (the_obj v) ''request_id'')"

text \<open>\<open>value.task?.resume_capability\<close>, where it is truthy.\<close>

definition delivered :: "js \<Rightarrow> string option" where
  "delivered v = (case jget (the_obj v) ''task'' of
      Obj delivery \<Rightarrow> (case jget delivery ''resume_capability'' of Str r \<Rightarrow> if r = [] then None else Some r | _ \<Rightarrow> None)
    | _ \<Rightarrow> None)"

section \<open>The end of the connection\<close>

definition transportError :: "string \<Rightarrow> pending_request \<Rightarrow> rejection" where
  "transportError code p = Transport_error code (request_method p) (request_key p)"

definition rejectCapabilityConfirmation :: "js_error \<Rightarrow> client \<Rightarrow> client" where
  "rejectCapabilityConfirmation e c = (case confirmation c of
      None \<Rightarrow> c
    | Some (w, capability) \<Rightarrow> c\<lparr>confirmation := None, continuing := continuing c @ [(w, capability, Some e)]\<rparr>)"

definition rejectPending :: "(pending_request \<Rightarrow> rejection) \<Rightarrow> client \<Rightarrow> client" where
  "rejectPending f c = c\<lparr>waiting := [], settlements := settlements c @ map (\<lambda>(i, p). (i, Rejected (f p))) (waiting c)\<rparr>"

definition failTransport :: "js_error \<Rightarrow> string \<Rightarrow> client \<Rightarrow> client" where
  "failTransport e code c = (if closed c then c
     else rejectPending (transportError code) (rejectCapabilityConfirmation e (c\<lparr>closed := True\<rparr>)))"

definition closed_error :: js_error where "closed_error = new_error ''AgentTab client closed''"

definition close :: "client \<Rightarrow> client" where
  "close c = (if closed c then c
     else rejectPending (\<lambda>p. Plain_error closed_error) (rejectCapabilityConfirmation closed_error (c\<lparr>closed := True\<rparr>)))"

section \<open>Requests\<close>

definition request_value :: "string \<Rightarrow> string option \<Rightarrow> string \<Rightarrow> js \<Rightarrow> js" where
  "request_value i key method params = Obj ([(''protocol'', Str RPC_PROTOCOL), (''version'', js_int RPC_VERSION), (''request_id'', Str i)] @
     (case key of None \<Rightarrow> [] | Some k \<Rightarrow> [(''idempotency_key'', Str k)]) @ [(''method'', Str method), (''params'', params)])"

definition key_of :: "string \<Rightarrow> js \<Rightarrow> string option \<Rightarrow> string \<Rightarrow> string option" where
  "key_of method params chosen fresh = (if requiresIdempotencyKey method params
     then Some (case chosen of Some k \<Rightarrow> k | None \<Rightarrow> fresh) else None)"

definition request :: "(js \<Rightarrow> bytes) \<Rightarrow> string \<Rightarrow> string \<Rightarrow> js \<Rightarrow> string option \<Rightarrow> string \<Rightarrow> client \<Rightarrow> js_error + client" where
  "request text_of i method params chosen fresh c =
     (if closed c then Inl (new_error ''AgentTab client is closed'')
      else if unconfirmed c \<noteq> None
      then Inl (new_error ''Persist pendingResumeCapability durably, then call confirmResumeCapability before RPC'')
      else case encodeFrame text_of CLIENT_TO_HOST_MAX_BYTES (request_value i (key_of method params chosen fresh) method params) of
        Inl e \<Rightarrow> Inl e
      | Inr frame \<Rightarrow> Inr (c\<lparr>waiting := waiting c @ [(i, \<lparr>request_method = method, request_key = key_of method params chosen fresh\<rparr>)],
          sent_frames := sent_frames c @ [frame], issued := issued c @ [i]\<rparr>))"

definition request_timed_out :: "string \<Rightarrow> client \<Rightarrow> client" where
  "request_timed_out i c = (case map_of (waiting c) i of
      None \<Rightarrow> c
    | Some p \<Rightarrow> settle_request i (Rejected (transportError ''request_timeout'' p)) (c\<lparr>waiting := AList.delete i (waiting c)\<rparr>))"

section \<open>Confirming a capability\<close>

definition confirm_value :: "client \<Rightarrow> string \<Rightarrow> js" where
  "confirm_value c capability = Obj [(''protocol'', Str RPC_PROTOCOL), (''version'', js_int RPC_VERSION), (''kind'', Str ''resume_confirm''),
     (''connection_id'', Str (connection_id c)), (''resume_capability'', Str capability)]"

definition confirmPendingCapability :: "(js \<Rightarrow> bytes) \<Rightarrow> waiter \<Rightarrow> string \<Rightarrow> client \<Rightarrow> client" where
  "confirmPendingCapability text_of w capability c = (let c' = c\<lparr>confirmation := Some (w, capability)\<rparr> in
     case encodeFrame text_of CLIENT_TO_HOST_MAX_BYTES (confirm_value c capability) of
       Inl e \<Rightarrow> failTransport e ''transport_error'' c'
     | Inr frame \<Rightarrow> c'\<lparr>sent_frames := sent_frames c @ [frame], confirmed := confirmed c @ [capability]\<rparr>)"

definition confirmResumeCapability :: "(js \<Rightarrow> bytes) \<Rightarrow> waiter \<Rightarrow> client \<Rightarrow> js_error + client" where
  "confirmResumeCapability text_of w c = (case unconfirmed c of
      None \<Rightarrow> Inl (new_error ''AgentTab has no pending resume capability to confirm'')
    | Some capability \<Rightarrow>
        if capability = [] then Inl (new_error ''AgentTab has no pending resume capability to confirm'')
        else if closed c then Inl (new_error ''AgentTab client is closed'')
        else if confirmation c \<noteq> None then Inl (new_error ''AgentTab resume capability confirmation is already pending'')
        else Inr (confirmPendingCapability text_of w capability c))"

text \<open>After the confirmation: \<open>confirmResumeCapability\<close> returns, and the response that waited for it is settlements.\<close>

definition continue_confirmed :: "client \<Rightarrow> client" where
  "continue_confirmed c = (case continuing c of
      [] \<Rightarrow> c
    | (w, capability, failure) # rest \<Rightarrow>
        (let c' = (if failure = None then c\<lparr>continuing := rest, current_capability := Some capability, unconfirmed := None\<rparr>
           else c\<lparr>continuing := rest\<rparr>) in
         case w of
           Caller_waits \<Rightarrow> c'
         | Response_waits i v \<Rightarrow> settle_request i (case failure of None \<Rightarrow> Fulfilled v | Some e \<Rightarrow> Rejected (Plain_error e)) c'))"

definition confirmation_timeout :: "client \<Rightarrow> client" where
  "confirmation_timeout c = failTransport (new_error ''Timed out confirming the AgentTab resume capability'') ''request_timeout'' c"

section \<open>Responses\<close>

definition handleResponse :: "js \<Rightarrow> client \<Rightarrow> js_error option \<times> client" where
  "handleResponse v c =
     (if isResumeCapabilityConfirmed v (connection_id c)
      then case confirmation c of
          None \<Rightarrow> (Some (new_error ''AgentTab confirmed an unexpected resume capability''), c)
        | Some (w, capability) \<Rightarrow> (None, c\<lparr>confirmation := None, continuing := continuing c @ [(w, capability, None)]\<rparr>)
      else if \<not> isRpcResponse v then (Some (new_error ''AgentTab sent an invalid RPC response''), c)
      else case map_of (waiting c) (response_id v) of
          None \<Rightarrow> (None, c)
        | Some p \<Rightarrow>
            (let c' = c\<lparr>waiting := AList.delete (response_id v) (waiting c)\<rparr> in
             case delivered v of
               None \<Rightarrow> (None, settle_request (response_id v) (Fulfilled v) c')
             | Some capability \<Rightarrow>
                 if unconfirmed c \<noteq> None
                 then (Some (new_error ''AgentTab delivered multiple unconfirmed resume capabilities''),
                   c'\<lparr>forgotten := forgotten c @ [response_id v]\<rparr>)
                 else if \<not> has_store c then (None, settle_request (response_id v) (Fulfilled v) (c'\<lparr>unconfirmed := Some capability\<rparr>))
                 else (None, c'\<lparr>unconfirmed := Some capability, saving := saving c @ [(response_id v, v, capability)]\<rparr>)))"

text \<open>The loop over the values of a chunk, with its \<open>catch\<close>.\<close>

fun handle_values :: "js list \<Rightarrow> client \<Rightarrow> client" where
  "handle_values [] c = c"
| "handle_values (v # vs) c = (case handleResponse v c of
      (Some e, c') \<Rightarrow> failTransport e ''transport_error'' c'
    | (None, c') \<Rightarrow> handle_values vs c')"

definition on_data :: "(bytes \<Rightarrow> js_error + js) \<Rightarrow> bytes \<Rightarrow> client \<times> decoder \<Rightarrow> client \<times> decoder" where
  "on_data parse chunk s = (case push parse chunk (snd s) of
      (Inl e, d) \<Rightarrow> (failTransport e ''transport_error'' (fst s), d)
    | (Inr vs, d) \<Rightarrow> (handle_values vs (fst s), d))"

text \<open>The store has saved the capability of a response, or failed to.\<close>

definition capabilityPersistenceError :: "js \<Rightarrow> rejection" where
  "capabilityPersistenceError v = Persistence_error (the_str (jget (the_obj v) ''outcome''))"

definition saved :: "(js \<Rightarrow> bytes) \<Rightarrow> js_error option \<Rightarrow> client \<Rightarrow> client" where
  "saved text_of failure c = (case saving c of
      [] \<Rightarrow> c
    | (i, v, capability) # rest \<Rightarrow>
        (let c' = c\<lparr>saving := rest\<rparr> in
         case failure of
           Some e \<Rightarrow> settle_request i (Rejected (capabilityPersistenceError v)) c'
         | None \<Rightarrow> (let c'' = c'\<lparr>stored := stored c @ [capability]\<rparr> in
             case confirmResumeCapability text_of (Response_waits i v) c'' of
               Inl e \<Rightarrow> settle_request i (Rejected (Plain_error e)) c''
             | Inr c''' \<Rightarrow> c''')))"

section \<open>Runs\<close>

inductive client_run :: "(js \<Rightarrow> bytes) \<Rightarrow> client \<Rightarrow> client \<Rightarrow> bool" for text_of c0 where
  run_start: "client_run text_of c0 c0"
| run_request: "client_run text_of c0 c \<Longrightarrow> i \<notin> set (issued c) \<Longrightarrow> request text_of i method params chosen fresh c = Inr c' \<Longrightarrow>
    client_run text_of c0 c'"
| run_timeout: "client_run text_of c0 c \<Longrightarrow> client_run text_of c0 (request_timed_out i c)"
| run_values: "client_run text_of c0 c \<Longrightarrow> client_run text_of c0 (handle_values vs c)"
| run_saved: "client_run text_of c0 c \<Longrightarrow> client_run text_of c0 (saved text_of failure c)"
| run_confirm: "client_run text_of c0 c \<Longrightarrow> \<not> has_store c \<Longrightarrow> confirmResumeCapability text_of Caller_waits c = Inr c' \<Longrightarrow> client_run text_of c0 c'"
| run_continue: "client_run text_of c0 c \<Longrightarrow> client_run text_of c0 (continue_confirmed c)"
| run_confirmation_timeout: "client_run text_of c0 c \<Longrightarrow> confirmation c \<noteq> None \<Longrightarrow> client_run text_of c0 (confirmation_timeout c)"
| run_transport: "client_run text_of c0 c \<Longrightarrow> client_run text_of c0 (failTransport e code c)"
| run_close: "client_run text_of c0 c \<Longrightarrow> client_run text_of c0 (close c)"

end
