(* ===== verification/SdkClientProperties.thy ===== *)
theory SdkClientProperties
  imports SdkClient "HOL-Library.Multiset"
begin

text \<open>
  The client of the SDK: every request is settled once, with its own response or with the error of its own
  method and key, and a capability is confirmed to the host only after the store has it.
\<close>

section \<open>Where a request is\<close>

definition waiter_ids :: "waiter \<Rightarrow> string list" where
  "waiter_ids w = (case w of Response_waits i v \<Rightarrow> [i] | Caller_waits \<Rightarrow> [])"

definition pending_ids :: "client \<Rightarrow> string list" where
  "pending_ids c = map fst (waiting c) @ map fst (saving c) @
     (case confirmation c of None \<Rightarrow> [] | Some (w, r) \<Rightarrow> waiter_ids w) @ concat (map (waiter_ids \<circ> fst) (continuing c))"

definition all_ids :: "client \<Rightarrow> string list" where
  "all_ids c = pending_ids c @ map fst (settlements c) @ forgotten c"

definition accounted :: "client \<Rightarrow> bool" where
  "accounted c \<longleftrightarrow> mset (all_ids c) = mset (issued c) \<and> distinct (issued c) \<and>
     (closed c \<longrightarrow> waiting c = [] \<and> confirmation c = None)"

definition forgets_one :: "client \<Rightarrow> bool" where
  "forgets_one c \<longleftrightarrow> forgotten c = [] \<or> closed c \<and> length (forgotten c) = 1"

lemmas ids_defs = all_ids_def pending_ids_def waiter_ids_def

lemma settle_fields [simp]:
  "waiting (settle_request i r c) = waiting c" "saving (settle_request i r c) = saving c"
  "confirmation (settle_request i r c) = confirmation c" "continuing (settle_request i r c) = continuing c"
  "settlements (settle_request i r c) = settlements c @ [(i, r)]" "forgotten (settle_request i r c) = forgotten c"
  "issued (settle_request i r c) = issued c" "closed (settle_request i r c) = closed c" "unconfirmed (settle_request i r c) = unconfirmed c"
  "has_store (settle_request i r c) = has_store c" "stored (settle_request i r c) = stored c" "confirmed (settle_request i r c) = confirmed c"
  by (simp_all add: settle_request_def)

section \<open>The end of the connection\<close>

lemma shut_accounted:
  assumes "accounted c" "\<not> closed c"
  shows "accounted (rejectPending f (rejectCapabilityConfirmation e (c\<lparr>closed := True\<rparr>)))"
  using assms
  by (auto simp: accounted_def ids_defs rejectPending_def rejectCapabilityConfirmation_def comp_def case_prod_unfold add_ac split: option.splits prod.splits)

lemma shut_forgets: "length (forgotten c) \<le> 1 \<Longrightarrow> forgets_one (rejectPending f (rejectCapabilityConfirmation e (c\<lparr>closed := True\<rparr>)))"
  by (cases "forgotten c") (auto simp: forgets_one_def rejectPending_def rejectCapabilityConfirmation_def split: option.splits)

lemma failTransport_accounted: "accounted c \<Longrightarrow> accounted (failTransport e code c)"
  by (simp add: failTransport_def shut_accounted)

lemma close_accounted: "accounted c \<Longrightarrow> accounted (close c)"
  by (simp add: close_def shut_accounted)

lemma forgets_le: "forgets_one c \<Longrightarrow> length (forgotten c) \<le> 1"
  by (auto simp: forgets_one_def)

lemma end_forgets: "forgets_one c \<Longrightarrow> forgets_one (failTransport e code c)" "forgets_one c \<Longrightarrow> forgets_one (close c)"
  by (auto simp: failTransport_def close_def dest: forgets_le intro: shut_forgets)

section \<open>Requests and responses\<close>

lemma waiting_delete:
  assumes "distinct (map fst ws)" "map_of ws i = Some p"
  shows "mset (map fst ws) = {#i#} + mset (map fst (AList.delete i ws))"
  using assms
proof (induction ws)
  case (Cons w ws)
  obtain j q where w: "w = (j, q)" by (rule prod.exhaust)
  show ?case
  proof (cases "i = j")
    case True
    then have "i \<notin> fst ` set ws" using Cons.prems(1) w by simp
    then have "AList.delete i ws = ws" by (rule delete_id)
    then show ?thesis using True w by simp
  qed (use Cons w in simp)
qed simp

lemma accounted_distinct: "accounted c \<Longrightarrow> distinct (all_ids c)"
  unfolding accounted_def using mset_eq_imp_distinct_iff by blast

lemma accounted_waiting: "accounted c \<Longrightarrow> distinct (map fst (waiting c))"
  by (drule accounted_distinct) (simp add: ids_defs)

lemma request_accounted:
  assumes "request text_of i method params own_key fresh c = Inr c'" "i \<notin> set (issued c)" "accounted c"
  shows "accounted c'"
  using assms by (auto simp: request_def accounted_def ids_defs split: if_splits sum.splits)

lemma request_forgets: "request text_of i method params own_key fresh c = Inr c' \<Longrightarrow> forgets_one c \<Longrightarrow> forgets_one c'"
  by (auto simp: request_def forgets_one_def split: if_splits sum.splits)

lemma timeout_accounted: "accounted c \<Longrightarrow> accounted (request_timed_out i c)"
proof (cases "map_of (waiting c) i")
  case (Some p)
  assume a: "accounted c"
  from waiting_delete [OF accounted_waiting [OF a] Some] a show ?thesis
    by (auto simp: request_timed_out_def Some accounted_def ids_defs)
qed (simp add: request_timed_out_def)

lemma handleResponse_accounted:
  assumes "accounted c" "handleResponse v c = (r, c')"
  shows "accounted c'"
proof (cases "isResumeCapabilityConfirmed v (connection_id c) \<or> \<not> isRpcResponse v \<or> map_of (waiting c) (response_id v) = None")
  case True
  with assms show ?thesis
    by (auto simp: handleResponse_def accounted_def ids_defs comp_def add_ac split: if_splits option.splits prod.splits)
next
  case False
  then obtain p where p: "map_of (waiting c) (response_id v) = Some p" by auto
  have w: "\<not> closed c" using assms(1) p by (auto simp: accounted_def)
  from waiting_delete [OF accounted_waiting [OF assms(1)] p] assms False p w show ?thesis
    by (auto simp: handleResponse_def accounted_def ids_defs Let_def add_ac split: if_splits option.splits)
qed

lemma handleResponse_forgets:
  "forgets_one c \<Longrightarrow> (closed c \<longrightarrow> waiting c = []) \<Longrightarrow> handleResponse v c = (r, c') \<Longrightarrow>
   (closed c' = closed c) \<and> length (forgotten c') \<le> 1 \<and> (r = None \<longrightarrow> forgotten c' = forgotten c)"
  by (auto simp: handleResponse_def forgets_one_def Let_def split: if_splits option.splits prod.splits)

lemma handle_values_accounted: "accounted c \<and> forgets_one c \<Longrightarrow> accounted (handle_values vs c) \<and> forgets_one (handle_values vs c)"
proof (induction vs arbitrary: c)
  case (Cons v vs)
  obtain r c' where h: "handleResponse v c = (r, c')" by (rule prod.exhaust)
  have a: "accounted c'" using Cons.prems h handleResponse_accounted by blast
  have "closed c \<longrightarrow> waiting c = []" using Cons.prems by (simp add: accounted_def)
  from handleResponse_forgets [OF _ this h] Cons.prems
  have f: "closed c' = closed c" "length (forgotten c') \<le> 1" "r = None \<longrightarrow> forgotten c' = forgotten c" by auto
  show ?case
  proof (cases r)
    case None
    then have "forgets_one c'" using f Cons.prems by (simp add: forgets_one_def)
    with Cons.IH a h None show ?thesis by simp
  next
    case (Some e)
    have "forgets_one (failTransport e ''transport_error'' c')"
    proof (cases "closed c'")
      case True
      then have "c' = c" using h Some Cons.prems f(1)
        by (auto simp: handleResponse_def accounted_def Let_def split: if_splits option.splits)
      then show ?thesis using end_forgets(1) Cons.prems by simp
    next
      case False
      then show ?thesis using shut_forgets [OF f(2)] by (simp add: failTransport_def)
    qed
    with failTransport_accounted [OF a] h Some show ?thesis by simp
  qed
qed simp

section \<open>Confirming\<close>

lemma confirm_pending_accounted:
  assumes "mset (all_ids c @ waiter_ids w) = mset (issued c)" "distinct (issued c)" "\<not> closed c" "confirmation c = None" "forgets_one c"
  shows "accounted (confirmPendingCapability text_of w r c) \<and> forgets_one (confirmPendingCapability text_of w r c)"
proof -
  let ?c = "c\<lparr>confirmation := Some (w, r)\<rparr>"
  have a: "accounted ?c" using assms by (simp add: accounted_def all_ids_def pending_ids_def add_ac)
  have f: "forgets_one ?c" using assms(5) by (simp add: forgets_one_def)
  have b: "accounted (?c\<lparr>sent_frames := x, confirmed := y\<rparr>) \<and> forgets_one (?c\<lparr>sent_frames := x, confirmed := y\<rparr>)" for x y
    using a f by (simp add: accounted_def forgets_one_def ids_defs)
  show ?thesis using failTransport_accounted [OF a] end_forgets(1) [OF f] b
    by (auto simp: confirmPendingCapability_def Let_def split: sum.split)
qed

lemma confirm_started:
  assumes "confirmResumeCapability text_of w c = Inr c'"
  obtains r where "unconfirmed c = Some r" "c' = confirmPendingCapability text_of w r c" "\<not> closed c" "confirmation c = None"
  using assms by (cases "unconfirmed c"; cases "confirmation c") (auto simp: confirmResumeCapability_def split: if_splits)

lemma confirm_accounted:
  assumes "confirmResumeCapability text_of Caller_waits c = Inr c'" "accounted c" "forgets_one c"
  shows "accounted c' \<and> forgets_one c'"
proof -
  from assms(1) obtain r where r: "c' = confirmPendingCapability text_of Caller_waits r c" "\<not> closed c" "confirmation c = None"
    by (rule confirm_started)
  show ?thesis unfolding r(1) by (rule confirm_pending_accounted) (use assms r in \<open>simp_all add: accounted_def waiter_ids_def\<close>)
qed

lemma saved_accounted:
  assumes "accounted c" "forgets_one c"
  shows "accounted (saved text_of failure c) \<and> forgets_one (saved text_of failure c)"
proof (cases "saving c")
  case (Cons x rest)
  obtain i v capability where x: "x = (i, v, capability)" by (metis prod.exhaust)
  have settled: "accounted (settle_request i q (c\<lparr>saving := rest, stored := st\<rparr>)) \<and> forgets_one (settle_request i q (c\<lparr>saving := rest, stored := st\<rparr>))" for q st
    using assms Cons x by (simp add: accounted_def forgets_one_def ids_defs settle_request_def)
  show ?thesis
  proof (cases failure)
    case (Some e)
    with settled [of "Rejected (capabilityPersistenceError v)" "stored c"] show ?thesis
      by (simp add: saved_def Cons x)
  next
    case None
    let ?c = "c\<lparr>saving := rest, stored := stored c @ [capability]\<rparr>"
    show ?thesis
    proof (cases "confirmResumeCapability text_of (Response_waits i v) ?c")
      case (Inl e)
      with settled [of "Rejected (Plain_error e)" "stored c @ [capability]"] show ?thesis by (simp add: saved_def Cons x None)
    next
      case (Inr c')
      then obtain r where r: "c' = confirmPendingCapability text_of (Response_waits i v) r ?c" "\<not> closed c" "confirmation c = None"
        by (rule confirm_started) simp
      have "accounted c' \<and> forgets_one c'" unfolding r(1)
        by (rule confirm_pending_accounted) (use assms r Cons x in \<open>simp_all add: accounted_def forgets_one_def ids_defs\<close>)
      then show ?thesis using Inr by (simp add: saved_def Cons x None)
    qed
  qed
qed (use assms in \<open>simp add: saved_def\<close>)

lemma continue_accounted:
  assumes "accounted c" "forgets_one c"
  shows "accounted (continue_confirmed c) \<and> forgets_one (continue_confirmed c)"
proof (cases "continuing c")
  case (Cons x rest)
  obtain w r e where x: "x = (w, r, e)" by (metis prod.exhaust)
  show ?thesis using assms Cons x
    by (cases w; cases e) (simp_all add: continue_confirmed_def accounted_def forgets_one_def ids_defs settle_request_def Let_def)
qed (use assms in \<open>simp add: continue_confirmed_def\<close>)

lemma run_accounted: "client_run text_of (new_client cid r st) c \<Longrightarrow> accounted c \<and> forgets_one c"
proof (induction rule: client_run.induct)
  case run_start
  show ?case by (simp add: accounted_def forgets_one_def ids_defs new_client_def)
next
  case (run_request c i meth params own_key fresh c')
  then show ?case using request_accounted request_forgets by blast
next
  case (run_timeout c i)
  then show ?case using timeout_accounted by (auto simp: forgets_one_def request_timed_out_def split: option.split)
next
  case (run_saved c failure)
  then show ?case by (simp add: saved_accounted)
next
  case (run_confirm c c')
  then show ?case using confirm_accounted by blast
next
  case (run_continue c)
  then show ?case by (simp add: continue_accounted)
qed (simp_all add: handle_values_accounted failTransport_accounted close_accounted end_forgets confirmation_timeout_def)

section \<open>What a response waits for\<close>

definition fits :: "string \<Rightarrow> js \<Rightarrow> bool" where
  "fits i v \<longleftrightarrow> isRpcResponse v \<and> response_id v = i"

definition waiter_fits :: "waiter \<Rightarrow> bool" where
  "waiter_fits w \<longleftrightarrow> (case w of Caller_waits \<Rightarrow> True | Response_waits i v \<Rightarrow> fits i v)"

definition settled_fits :: "string \<times> settlement \<Rightarrow> bool" where
  "settled_fits x \<longleftrightarrow> (\<forall>v. snd x = Fulfilled v \<longrightarrow> fits (fst x) v)"

definition saving_fits :: "string \<times> js \<times> string \<Rightarrow> bool" where
  "saving_fits x \<longleftrightarrow> fits (fst x) (fst (snd x))"

definition all_fit :: "client \<Rightarrow> bool" where
  "all_fit c \<longleftrightarrow> (\<forall>x\<in>set (settlements c). settled_fits x) \<and> (\<forall>x\<in>set (saving c). saving_fits x) \<and>
     (\<forall>x. confirmation c = Some x \<longrightarrow> waiter_fits (fst x)) \<and> (\<forall>x\<in>set (continuing c). waiter_fits (fst x))"

lemma fits_simps [simp]: "settled_fits (i, Rejected e)" "settled_fits (i, Fulfilled v) = fits i v"
  "saving_fits (i, v, k) = fits i v" "waiter_fits Caller_waits" "waiter_fits (Response_waits i v) = fits i v"
  by (simp_all add: settled_fits_def saving_fits_def waiter_fits_def)

text \<open>The capability of each response that is being saved or confirmed, and of the continuations.\<close>

definition pipeline :: "client \<Rightarrow> string list" where
  "pipeline c = map (\<lambda>(i, v, r). r) (saving c) @ (case confirmation c of None \<Rightarrow> [] | Some (w, r) \<Rightarrow> [r]) @
     map (\<lambda>(w, r, e). r) (continuing c)"

definition stored_first :: "client \<Rightarrow> bool" where
  "stored_first c \<longleftrightarrow> (has_store c \<longrightarrow> length (pipeline c) \<le> 1 \<and> (\<forall>r\<in>set (pipeline c). unconfirmed c = Some r) \<and>
     set (confirmed c) \<subseteq> set (stored c))"

definition in_order :: "client \<Rightarrow> bool" where
  "in_order c \<longleftrightarrow> all_fit c \<and> stored_first c"

lemmas order_defs = in_order_def all_fit_def stored_first_def pipeline_def

lemma shut_in_order: "in_order c \<Longrightarrow> in_order (rejectPending f (rejectCapabilityConfirmation e (c\<lparr>closed := True\<rparr>)))"
  by (auto simp: order_defs rejectPending_def rejectCapabilityConfirmation_def split: option.splits prod.splits)

lemma end_in_order: "in_order c \<Longrightarrow> in_order (failTransport e code c)" "in_order c \<Longrightarrow> in_order (close c)"
  by (simp_all add: failTransport_def close_def shut_in_order)

lemma handleResponse_fits: "all_fit c \<Longrightarrow> handleResponse v c = (r, c') \<Longrightarrow> all_fit c'"
proof (cases "isResumeCapabilityConfirmed v (connection_id c) \<or> \<not> isRpcResponse v \<or> map_of (waiting c) (response_id v) = None")
  case True
  assume "all_fit c" "handleResponse v c = (r, c')"
  with True show ?thesis by (cases "confirmation c") (auto simp: handleResponse_def all_fit_def split: if_splits option.splits)
next
  case False
  assume a: "all_fit c" and h: "handleResponse v c = (r, c')"
  have f: "fits (response_id v) v" using False by (simp add: fits_def)
  from False obtain p where "map_of (waiting c) (response_id v) = Some p" by auto
  with False a h f show ?thesis
    by (cases "delivered v") (auto simp: handleResponse_def all_fit_def Let_def split: if_splits)
qed

lemma handleResponse_stored: "stored_first c \<Longrightarrow> handleResponse v c = (r, c') \<Longrightarrow> stored_first c'"
proof (cases "isResumeCapabilityConfirmed v (connection_id c) \<or> \<not> isRpcResponse v \<or> map_of (waiting c) (response_id v) = None")
  case True
  assume "stored_first c" "handleResponse v c = (r, c')"
  with True show ?thesis by (cases "confirmation c") (auto simp: handleResponse_def stored_first_def pipeline_def split: if_splits option.splits)
next
  case False
  assume a: "stored_first c" and h: "handleResponse v c = (r, c')"
  from False obtain p where "map_of (waiting c) (response_id v) = Some p" by auto
  let ?c = "c\<lparr>waiting := AList.delete (response_id v) (waiting c)\<rparr>"
  from False h \<open>map_of (waiting c) (response_id v) = Some p\<close> consider
      (plain) "c' = settle_request (response_id v) (Fulfilled v) ?c"
    | (twice) "c' = ?c\<lparr>forgotten := forgotten c @ [response_id v]\<rparr>"
    | (bare) u where "\<not> has_store c" "c' = settle_request (response_id v) (Fulfilled v) (?c\<lparr>unconfirmed := u\<rparr>)"
    | (save) k where "has_store c" "unconfirmed c = None" "c' = ?c\<lparr>unconfirmed := Some k, saving := saving c @ [(response_id v, v, k)]\<rparr>"
    by (cases "delivered v") (auto simp: handleResponse_def Let_def split: if_splits)
  then show ?thesis
  proof cases
    case save
    have "pipeline c = []" using save(1,2) a by (cases "pipeline c") (auto simp: stored_first_def)
    then show ?thesis using save a by (auto simp: stored_first_def pipeline_def split: option.splits)
  qed (use a in \<open>simp_all add: stored_first_def pipeline_def\<close>)
qed

lemma handleResponse_in_order: "in_order c \<Longrightarrow> handleResponse v c = (r, c') \<Longrightarrow> in_order c'"
  using handleResponse_fits handleResponse_stored by (auto simp: in_order_def)

lemma handle_values_in_order: "in_order c \<Longrightarrow> in_order (handle_values vs c)"
proof (induction vs arbitrary: c)
  case (Cons v vs)
  obtain r c' where h: "handleResponse v c = (r, c')" by (rule prod.exhaust)
  from handleResponse_in_order [OF Cons.prems h] show ?case by (cases r) (simp_all add: h Cons.IH end_in_order)
qed simp

lemma confirm_pending_in_order:
  assumes "all_fit c" "waiter_fits w" "confirmation c = None"
    "has_store c \<Longrightarrow> pipeline c = [] \<and> unconfirmed c = Some r \<and> r \<in> set (stored c) \<and> set (confirmed c) \<subseteq> set (stored c)"
  shows "in_order (confirmPendingCapability text_of w r c)"
proof -
  let ?c = "c\<lparr>confirmation := Some (w, r)\<rparr>"
  have p: "pipeline c = [] \<Longrightarrow> pipeline ?c = [r]" using assms(3) by (simp add: pipeline_def)
  have f: "all_fit ?c" using assms(1,2) by (simp add: all_fit_def)
  have a: "in_order ?c" using f assms(4) p by (simp add: in_order_def stored_first_def)
  have b: "in_order (?c\<lparr>sent_frames := x, confirmed := confirmed c @ [r]\<rparr>)" for x
  proof -
    have "all_fit (?c\<lparr>sent_frames := x, confirmed := confirmed c @ [r]\<rparr>)" using f by (simp add: all_fit_def)
    moreover have "pipeline (?c\<lparr>sent_frames := x, confirmed := confirmed c @ [r]\<rparr>) = pipeline ?c" by (simp add: pipeline_def)
    ultimately show ?thesis using assms(4) p by (simp add: in_order_def stored_first_def)
  qed
  show ?thesis using end_in_order(1) [OF a] b by (auto simp: confirmPendingCapability_def Let_def split: sum.split)
qed

lemma saved_in_order:
  assumes "in_order c"
  shows "in_order (saved text_of failure c)"
proof (cases "saving c")
  case (Cons x rest)
  obtain i v k where x: "x = (i, v, k)" by (metis prod.exhaust)
  have f: "fits i v" using assms Cons x by (simp add: in_order_def all_fit_def)
  have settled: "in_order (settle_request i (Rejected q) (c\<lparr>saving := rest, stored := stored c @ st\<rparr>))" for q st
    using assms Cons by (auto simp: in_order_def all_fit_def stored_first_def pipeline_def)
  show ?thesis
  proof (cases failure)
    case (Some e)
    with settled [of "capabilityPersistenceError v" "[]"] show ?thesis by (simp add: saved_def Cons x)
  next
    case None
    let ?c = "c\<lparr>saving := rest, stored := stored c @ [k]\<rparr>"
    show ?thesis
    proof (cases "confirmResumeCapability text_of (Response_waits i v) ?c")
      case (Inl e)
      with settled [of "Plain_error e" "[k]"] show ?thesis by (simp add: saved_def Cons x None)
    next
      case (Inr c')
      then obtain r where r: "unconfirmed c = Some r" "c' = confirmPendingCapability text_of (Response_waits i v) r ?c" "confirmation c = None"
        by (rule confirm_started) simp
      have "in_order c'" unfolding r(2)
      proof (rule confirm_pending_in_order)
        show "all_fit ?c" using assms Cons by (simp add: in_order_def all_fit_def)
        assume "has_store ?c"
        then have "length (pipeline c) \<le> 1" "\<forall>y\<in>set (pipeline c). unconfirmed c = Some y" "set (confirmed c) \<subseteq> set (stored c)"
          using assms by (simp_all add: in_order_def stored_first_def)
        moreover have "pipeline c = k # pipeline ?c" by (simp add: pipeline_def Cons x)
        ultimately show "pipeline ?c = [] \<and> unconfirmed ?c = Some r \<and> r \<in> set (stored ?c) \<and> set (confirmed ?c) \<subseteq> set (stored ?c)"
          using r(1) by auto
      qed (use f r(3) in simp_all)
      then show ?thesis using Inr by (simp add: saved_def Cons x None)
    qed
  qed
qed (use assms in \<open>simp add: saved_def\<close>)

lemma in_order_fields:
  "in_order (c\<lparr>waiting := w\<rparr>) = in_order c" "in_order (c\<lparr>sent_frames := f\<rparr>) = in_order c" "in_order (c\<lparr>issued := i\<rparr>) = in_order c"
  by (simp_all add: order_defs)

lemma in_order_settle: "in_order c \<Longrightarrow> settled_fits (i, r) \<Longrightarrow> in_order (settle_request i r c)"
  by (simp add: order_defs)

lemma continue_in_order:
  assumes "in_order c"
  shows "in_order (continue_confirmed c)"
proof (cases "continuing c")
  case (Cons x rest)
  obtain w r e where x: "x = (w, r, e)" by (metis prod.exhaust)
  have w: "waiter_fits w" using assms Cons x by (simp add: in_order_def all_fit_def)
  have len: "length (pipeline c) = Suc (length (pipeline (c\<lparr>continuing := rest\<rparr>)))" by (simp add: pipeline_def Cons)
  have sub: "set (pipeline (c\<lparr>continuing := rest\<rparr>)) \<subseteq> set (pipeline c)"
    unfolding pipeline_def by (simp add: Cons subset_insertI2 del: subset_iff) (blast intro: subset_insertI2)
  have drop: "in_order (c\<lparr>continuing := rest\<rparr>)"
    using assms Cons len sub by (auto simp: in_order_def all_fit_def stored_first_def)
  have active: "in_order (c\<lparr>continuing := rest, current_capability := k, unconfirmed := None\<rparr>)" for k
  proof -
    have "has_store c \<Longrightarrow> pipeline (c\<lparr>continuing := rest\<rparr>) = []" using assms len by (simp add: in_order_def stored_first_def)
    then show ?thesis using drop by (simp add: in_order_def all_fit_def stored_first_def pipeline_def)
  qed
  show ?thesis using drop active w
    by (cases w; cases e) (simp_all add: continue_confirmed_def Cons x Let_def in_order_settle)
qed (use assms in \<open>simp add: continue_confirmed_def\<close>)

lemma request_in_order: "in_order c \<Longrightarrow> request text_of i method params own_key fresh c = Inr c' \<Longrightarrow> in_order c'"
  by (auto simp: request_def in_order_fields split: if_splits sum.splits)

lemma timeout_in_order: "in_order c \<Longrightarrow> in_order (request_timed_out i c)"
  by (simp add: request_timed_out_def in_order_fields in_order_settle split: option.split)

lemma run_in_order: "client_run text_of (new_client cid r st) c \<Longrightarrow> in_order c"
proof (induction rule: client_run.induct)
  case run_start
  show ?case by (simp add: order_defs new_client_def)
next
  case (run_request c i meth params own_key fresh c')
  then show ?case using request_in_order by blast
next
  case (run_confirm c c')
  then obtain k where k: "unconfirmed c = Some k" "c' = confirmPendingCapability text_of Caller_waits k c" "confirmation c = None"
    by (auto elim: confirm_started)
  show ?case unfolding k(2)
    by (rule confirm_pending_in_order) (use run_confirm k in \<open>simp_all add: in_order_def\<close>)
qed (simp_all add: handle_values_in_order end_in_order saved_in_order continue_in_order timeout_in_order confirmation_timeout_def)

section \<open>A client to try it on\<close>

definition demo_response :: "string \<Rightarrow> js" where
  "demo_response i = Obj [(''protocol'', Str RPC_PROTOCOL), (''version'', js_int RPC_VERSION), (''request_id'', Str i), (''ok'', Bool True),
     (''outcome'', Str ''succeeded''), (''task'', Obj [(''task_id'', Str ''t''), (''resume_capability'', Str (''k'' @ i))])]"

definition after_request :: "string \<Rightarrow> client \<Rightarrow> client" where
  "after_request i c = (case request (\<lambda>v. []) i ''browser_status'' (Obj []) None ''f'' c of Inl e \<Rightarrow> c | Inr c' \<Rightarrow> c')"

definition demo_waiting :: "bool \<Rightarrow> client" where
  "demo_waiting store = after_request ''2'' (after_request ''1'' (new_client ''c'' None store))"

definition demo_confirming :: client where
  "demo_confirming = saved (\<lambda>v. []) None (handle_values [demo_response ''1''] (demo_waiting True))"

lemma run_after_request:
  "client_run (\<lambda>v. []) c0 c \<Longrightarrow> i \<notin> set (issued c) \<Longrightarrow> client_run (\<lambda>v. []) c0 (after_request i c)"
  by (cases "request (\<lambda>v. []) i ''browser_status'' (Obj []) None ''f'' c") (auto simp: after_request_def intro: run_request)

lemma demo_waiting_run: "client_run (\<lambda>v. []) (new_client ''c'' None store) (demo_waiting store)"
  unfolding demo_waiting_def
  by (intro run_after_request run_start)
    (simp_all add: new_client_def after_request_def request_def encodeFrame_def CLIENT_TO_HOST_MAX_BYTES_def)

lemma demo_waiting_value: "demo_waiting store = (new_client ''c'' None store)\<lparr>
     waiting := [(''1'', \<lparr>request_method = ''browser_status'', request_key = None\<rparr>), (''2'', \<lparr>request_method = ''browser_status'', request_key = None\<rparr>)],
     sent_frames := [le_bytes 4 0, le_bytes 4 0], issued := [''1'', ''2'']\<rparr>"
  by (simp add: demo_waiting_def new_client_def after_request_def request_def encodeFrame_def CLIENT_TO_HOST_MAX_BYTES_def
      key_of_def requiresIdempotencyKey_def MUTATIONS_def)

lemma demo_response_simps: "isRpcResponse (demo_response i)" "response_id (demo_response i) = i" "delivered (demo_response i) = Some (''k'' @ i)"
  "\<not> isResumeCapabilityConfirmed (demo_response i) cid"
  by (simp_all add: demo_response_def isRpcResponse_def response_id_def delivered_def isResumeCapabilityConfirmed_def)

lemmas demo_simps = demo_waiting_value demo_response_simps new_client_def handleResponse_def settle_request_def

lemma demo_confirming_run: "client_run (\<lambda>v. []) (new_client ''c'' None True) demo_confirming"
  unfolding demo_confirming_def by (intro run_saved run_values demo_waiting_run)

section \<open>Properties\<close>

text \<open>C9: Every request that a client sent is in one place: it waits, it is settled, once, or it is the one whose
  response delivered a second capability. A closed client waits for no response and no confirmation.
\<close>

theorem requests_settled_once:
  assumes "client_run text_of (new_client cid capability store) c"
  shows "distinct (map fst (settlements c)) \<and> set (pending_ids c) \<inter> fst ` set (settlements c) = {} \<and>
    set (issued c) = set (pending_ids c) \<union> fst ` set (settlements c) \<union> set (forgotten c) \<and>
    (forgotten c = [] \<or> closed c \<and> length (forgotten c) = 1) \<and>
    (closed c \<longrightarrow> waiting c = [] \<and> confirmation c = None)"
proof -
  from run_accounted [OF assms] have a: "accounted c" "forgets_one c" by simp_all
  have "set (issued c) = set (all_ids c)" using a(1) by (metis accounted_def set_mset_mset)
  with a accounted_distinct [OF a(1)] show ?thesis by (auto simp: accounted_def forgets_one_def all_ids_def)
qed

theorem requests_settled_once_witness:
  "distinct (map fst (settlements demo_confirming)) \<and> set (pending_ids demo_confirming) \<inter> fst ` set (settlements demo_confirming) = {} \<and>
   set (issued demo_confirming) = set (pending_ids demo_confirming) \<union> fst ` set (settlements demo_confirming) \<union> set (forgotten demo_confirming) \<and>
   (forgotten demo_confirming = [] \<or> closed demo_confirming \<and> length (forgotten demo_confirming) = 1) \<and>
   issued demo_confirming = [''1'', ''2''] \<and> pending_ids demo_confirming = [''2'', ''1'']"
proof -
  have "issued demo_confirming = [''1'', ''2''] \<and> pending_ids demo_confirming = [''2'', ''1'']"
    by (simp add: demo_confirming_def demo_simps saved_def confirmResumeCapability_def confirmPendingCapability_def encodeFrame_def
        CLIENT_TO_HOST_MAX_BYTES_def ids_defs)
  with requests_settled_once [OF demo_confirming_run] show ?thesis by (elim conjE) (intro conjI; assumption)
qed



section \<open>The response that is forgotten\<close>

text \<open>
  The response that delivers a second capability is taken from the table, with its timer, before the client
  throws: no later step settles its request, and the caller waits for ever.
\<close>

lemma double_delivery_forgets:
  "client_run (\<lambda>v. []) (new_client ''c'' None False) (handle_values [demo_response ''1'', demo_response ''2''] (demo_waiting False)) \<and>
   (let c = handle_values [demo_response ''1'', demo_response ''2''] (demo_waiting False) in
     closed c \<and> pending_ids c = [] \<and> map fst (settlements c) = [''1''] \<and> forgotten c = [''2''])"
proof
  show "let c = handle_values [demo_response ''1'', demo_response ''2''] (demo_waiting False) in
     closed c \<and> pending_ids c = [] \<and> map fst (settlements c) = [''1''] \<and> forgotten c = [''2'']"
    by (simp add: demo_simps failTransport_def rejectPending_def rejectCapabilityConfirmation_def ids_defs)
qed (rule run_values [OF demo_waiting_run])

end
