(* ===== verification/DebuggerSessions.thy ===== *)
theory DebuggerSessions
  imports CommitReview
begin

text \<open>
  The debugger sessions of one tab, \<open>packages/extension/src/browser.ts\<close>: attaching, the leases of the commands
  that use a session, the idle timer, detaching, the detach that a worker owes after a restart, and Chrome's
  detach event. Many calls are in flight at once, so the model is a step function on a state that holds the
  stage of each call; a step is what the code runs between two awaits.

  A session object is an index into \<open>objs\<close>, which is its identity: \<open>current\<close> is the object in the map
  \<open>sessions\<close>. A promise is the index of the call that settles it. Chrome has one inbox of answers and events
  for the worker, which gets them in order; it handles the requests in any order. \<open>holder\<close> tells whether Chrome
  has the debugger attached, and for the proofs through which object.

  The commands that initialize a session and what goes on in the page are arguments of the steps: the outcome of
  \<open>Promise.race\<close>, the answer of Chrome, an error of the store.
\<close>

section \<open>State\<close>

text \<open>The types of dialogs that the protocol of the debugger has, with the dialog as the code stores it.\<close>

datatype dialog_kind = Alert | Confirm | Prompt | Before_unload | Untyped

definition dialog_of :: "dialog_kind \<times> string option \<Rightarrow> page_dialog" where
  "dialog_of d = \<lparr>dlg_object = 0, dlg_generation = 0, dlg_type = (case fst d of Alert \<Rightarrow> Some ''alert'' | Confirm \<Rightarrow> Some ''confirm''
     | Prompt \<Rightarrow> Some ''prompt'' | Before_unload \<Rightarrow> Some ''beforeunload'' | Untyped \<Rightarrow> None), dlg_message = snd d\<rparr>"

record dbg_session =
  attached :: bool
  attachPromise :: "nat option"
  detachPromise :: "nat option"
  idleTimer :: bool
  busyCount :: int
  open_dialog :: "(dialog_kind \<times> string option) option"

text \<open>
  Why a call needs the session: to learn whether it can be had, for one command (that answers the dialog, that was
  sent again after a detach), for a command that must not attach, or for a wait that holds a session it had.
\<close>

datatype purpose = Probe | Send bool bool | Send_if_attached | Hold "nat option"

text \<open>Who forgets the tab: the detach of a session, the detach of a tab without one, or nobody detached.\<close>

datatype forgetting = Of_session nat | Of_recovered | Of_absent

datatype stage =
    Entering purpose
  | Awaiting_detach purpose nat
  | Awaiting_attach purpose nat bool
  | Rechecking purpose
  | Acquiring purpose
  | Leased purpose nat
  | Commanding purpose nat
  | Holding nat
  | Attach_authorizing nat
  | Attach_recording nat
  | Attach_requested nat
  | Attach_initializing nat
  | Attach_cleaning nat nat js_error
  | Joining nat
  | Detach_after_attach nat nat
  | Invalidating
  | Looking
  | Detach_requested forgetting
  | Clearing forgetting
  | Forgetting forgetting
  | Unlisting forgetting
  | Idle_detaching nat nat
  | Settled "js_error + string option"

datatype reply = Done | Found bool | Failed js_error

datatype message = On_detach | Answer nat reply

record tab_debugger =
  objs :: "nat \<Rightarrow> dbg_session"
  objs_made :: nat
  current :: "nat option"
  expected :: nat
  candidate :: bool
  recorded :: bool
  refusal :: "(string \<times> int) option"
  clock :: int
  stage_of :: "nat \<Rightarrow> stage"
  calls_made :: nat
  holder :: "nat option"
  asked :: "nat list"
  inbox :: "message list"

definition new_session :: dbg_session where
  "new_session = \<lparr>attached = False, attachPromise = None, detachPromise = None, idleTimer = False, busyCount = 0,
     open_dialog = None\<rparr>"

definition new_tab :: tab_debugger where
  "new_tab = \<lparr>objs = (\<lambda>i. new_session), objs_made = 0, current = None, expected = 0, candidate = False, recorded = False,
     refusal = None, clock = 0, stage_of = (\<lambda>c. Settled (Inr None)), calls_made = 0, holder = None, asked = [], inbox = []\<rparr>"

definition DEBUGGER_REFUSAL_RETRY_MS :: int where "DEBUGGER_REFUSAL_RETRY_MS = 30000"

definition on_obj :: "nat \<Rightarrow> (dbg_session \<Rightarrow> dbg_session) \<Rightarrow> tab_debugger \<Rightarrow> tab_debugger" where
  "on_obj i f s = s\<lparr>objs := (objs s)(i := f (objs s i))\<rparr>"

definition goto :: "nat \<Rightarrow> stage \<Rightarrow> tab_debugger \<Rightarrow> tab_debugger" where
  "goto c st s = s\<lparr>stage_of := (stage_of s)(c := st)\<rparr>"

abbreviation settle_call :: "nat \<Rightarrow> (js_error + string option) \<Rightarrow> tab_debugger \<Rightarrow> tab_debugger" where
  "settle_call c r \<equiv> goto c (Settled r)"

text \<open>A new call, at the number \<open>calls_made\<close>.\<close>

definition spawn :: "stage \<Rightarrow> tab_debugger \<Rightarrow> tab_debugger" where
  "spawn st s = s\<lparr>stage_of := (stage_of s)(calls_made s := st), calls_made := Suc (calls_made s)\<rparr>"

definition request_of :: "nat \<Rightarrow> tab_debugger \<Rightarrow> tab_debugger" where
  "request_of c s = s\<lparr>asked := asked s @ [c]\<rparr>"

text \<open>The patterns that the code tests the messages of errors with.\<close>

definition says :: "string \<Rightarrow> js_error \<Rightarrow> bool" where
  "says pat e = includes_text pat (lower (err_message e))"

abbreviation "not_attached \<equiv> says ''debugger is not attached''"
abbreviation "not_attached_to_tab \<equiv> says ''debugger is not attached to the tab''"

section \<open>Leases and the idle timer\<close>

definition clear_timer :: "nat \<Rightarrow> tab_debugger \<Rightarrow> tab_debugger" where
  "clear_timer i = on_obj i (\<lambda>d. d\<lparr>idleTimer := False\<rparr>)"

definition scheduleIdleDetach :: "nat \<Rightarrow> tab_debugger \<Rightarrow> tab_debugger" where
  "scheduleIdleDetach i s = (if busyCount (objs s i) > 0 then s else on_obj i (\<lambda>d. d\<lparr>idleTimer := True\<rparr>) s)"

definition releaseDebuggerBusyLease :: "nat \<Rightarrow> tab_debugger \<Rightarrow> tab_debugger" where
  "releaseDebuggerBusyLease i s =
     (let s = on_obj i (\<lambda>d. d\<lparr>busyCount := busyCount d - 1\<rparr>) s in
      if current s = Some i \<and> busyCount (objs s i) = 0 then scheduleIdleDetach i s else s)"

definition take_lease :: "nat \<Rightarrow> tab_debugger \<Rightarrow> tab_debugger" where
  "take_lease i s = on_obj i (\<lambda>d. d\<lparr>busyCount := busyCount d + 1\<rparr>) (clear_timer i s)"

definition detached_error :: js_error where
  "detached_error = coded_error ''debugger_detached'' ''Debugger detached before the command could run''"

text \<open>\<open>acquireDebuggerBusyLease\<close> after \<open>ensureAttached\<close> has returned.\<close>

definition acquireDebuggerBusyLease :: "nat option \<Rightarrow> tab_debugger \<Rightarrow> (js_error + nat) \<times> tab_debugger" where
  "acquireDebuggerBusyLease activeSession s = (case current s of
      None \<Rightarrow> (Inl detached_error, s)
    | Some i \<Rightarrow>
        if \<not> attached (objs s i) then (Inl detached_error, s)
        else if activeSession = Some i then (Inr i, s)
        else (Inr i, take_lease i (case activeSession of None \<Rightarrow> s | Some j \<Rightarrow> releaseDebuggerBusyLease j s)))"

section \<open>Chrome's detach event\<close>

definition consumeExpectedDetach :: "tab_debugger \<Rightarrow> bool \<times> tab_debugger" where
  "consumeExpectedDetach s = (if expected s = 0 then (False, s) else (True, s\<lparr>expected := expected s - 1\<rparr>))"

definition expect_detach :: "tab_debugger \<Rightarrow> tab_debugger" where
  "expect_detach s = s\<lparr>expected := expected s + 1\<rparr>"

definition invalidateDetachedSession :: "nat option \<Rightarrow> tab_debugger \<Rightarrow> tab_debugger" where
  "invalidateDetachedSession session s = (case session of
      None \<Rightarrow> s
    | Some i \<Rightarrow> (let s = clear_timer i s in if current s = Some i then s\<lparr>current := None\<rparr> else s))"

definition on_detach_event :: "tab_debugger \<Rightarrow> tab_debugger" where
  "on_detach_event s = (let (was_expected, s) = consumeExpectedDetach s in
     if was_expected then s else invalidateDetachedSession (current s) s)"

section \<open>Attaching\<close>

definition refuseDebugger :: "js_error \<Rightarrow> tab_debugger \<Rightarrow> js_error \<times> tab_debugger" where
  "refuseDebugger cause s =
     (debuggerUnavailableError (\<lambda>v. []) (ThrownValue (Str (err_message cause))) None,
      s\<lparr>refusal := Some (err_message cause, clock s + DEBUGGER_REFUSAL_RETRY_MS)\<rparr>)"

text \<open>
  A call that needed the session throws. \<open>scriptingRouteReason\<close> returns the reason of a refusal instead, and
  a wait gives back the lease it had.
\<close>

definition fail :: "nat \<Rightarrow> purpose \<Rightarrow> js_error \<Rightarrow> tab_debugger \<Rightarrow> tab_debugger" where
  "fail c p e s = (case p of
      Probe \<Rightarrow> settle_call c (if error_code e \<noteq> Some ''debugger_unavailable'' then Inl e
          else Inr (Some (case jget (err_fields e) ''reason'' of Str r \<Rightarrow> r | _ \<Rightarrow> ''Chrome refused the debugger''))) s
    | Hold (Some j) \<Rightarrow> settle_call c (Inl e) (releaseDebuggerBusyLease j s)
    | _ \<Rightarrow> settle_call c (Inl e) s)"

text \<open>\<open>ensureAttached\<close> from the look-up of the session on, a detach under way having ended.\<close>

definition session_for :: "tab_debugger \<Rightarrow> nat \<times> tab_debugger" where
  "session_for s = (case current s of
      Some i \<Rightarrow> (i, s)
    | None \<Rightarrow> (objs_made s, s\<lparr>objs := (objs s)(objs_made s := new_session), objs_made := Suc (objs_made s),
         current := Some (objs_made s)\<rparr>))"

definition begin_attach :: "nat \<Rightarrow> purpose \<Rightarrow> tab_debugger \<Rightarrow> tab_debugger" where
  "begin_attach c p s =
     (let (i, s) = session_for s in
      case attachPromise (objs s i) of
        Some q \<Rightarrow> goto c (Awaiting_attach p q False) s
      | None \<Rightarrow>
          if attached (objs s i) then goto c (Rechecking p) s
          else goto c (Awaiting_attach p (calls_made s) True)
            (on_obj i (\<lambda>d. d\<lparr>attachPromise := Some (calls_made s)\<rparr>) (spawn (Attach_authorizing i) s)))"

text \<open>\<open>ensureAttached\<close> after its first check of the tab.\<close>

definition attach_unless_detaching :: "nat \<Rightarrow> purpose \<Rightarrow> tab_debugger \<Rightarrow> tab_debugger" where
  "attach_unless_detaching c p s = (case current s of
      None \<Rightarrow> begin_attach c p s
    | Some i \<Rightarrow> (case detachPromise (objs s i) of None \<Rightarrow> begin_attach c p s | Some q \<Rightarrow> goto c (Awaiting_detach p q) s))"

definition ensureAttached :: "nat \<Rightarrow> purpose \<Rightarrow> tab_debugger \<Rightarrow> tab_debugger" where
  "ensureAttached c p s = (case refusal s of
      None \<Rightarrow> attach_unless_detaching c p s
    | Some (reason, until) \<Rightarrow>
        if until > clock s then fail c p (debuggerUnavailableError (\<lambda>v. []) (ThrownValue (Str reason)) None) s
        else attach_unless_detaching c p (s\<lparr>refusal := None\<rparr>))"

text \<open>
  The promise of the attach settles; the \<open>finally\<close> of the call that started it is the first to run. Then the
  calls that wait for it go on, each at a time of its own.
\<close>

definition attach_settled :: "nat \<Rightarrow> nat \<Rightarrow> (js_error + string option) \<Rightarrow> tab_debugger \<Rightarrow> tab_debugger" where
  "attach_settled c i r s =
     (let s = settle_call c r s in if current s = Some i then on_obj i (\<lambda>d. d\<lparr>attachPromise := None\<rparr>) s else s)"

definition attach_refused :: "nat \<Rightarrow> nat \<Rightarrow> js_error \<Rightarrow> tab_debugger \<Rightarrow> tab_debugger" where
  "attach_refused c i cause s = (let (e, s) = refuseDebugger cause s in attach_settled c i (Inl e) s)"

definition attach_authorized :: "nat \<Rightarrow> nat \<Rightarrow> tab_debugger \<Rightarrow> tab_debugger" where
  "attach_authorized c i s = goto c (Attach_recording i) (s\<lparr>candidate := True\<rparr>)"

definition attach_recorded :: "nat \<Rightarrow> nat \<Rightarrow> tab_debugger \<Rightarrow> tab_debugger" where
  "attach_recorded c i s = request_of c (goto c (Attach_requested i) (s\<lparr>recorded := True\<rparr>))"

definition attach_answered :: "nat \<Rightarrow> nat \<Rightarrow> reply \<Rightarrow> tab_debugger \<Rightarrow> tab_debugger" where
  "attach_answered c i r s = (case r of
      Failed e \<Rightarrow> if says ''no tab with given id'' e then attach_settled c i (Inl e) s else attach_refused c i e s
    | _ \<Rightarrow> goto c (Attach_initializing i) (on_obj i (\<lambda>d. d\<lparr>attached := True\<rparr>) s))"

section \<open>Detaching\<close>

text \<open>\<open>detachTrackedSession\<close>: the request is made at once, and its promise is the call after the last one.\<close>

definition detachTrackedSession :: "nat \<Rightarrow> tab_debugger \<Rightarrow> tab_debugger" where
  "detachTrackedSession i s =
     on_obj i (\<lambda>d. d\<lparr>detachPromise := Some (calls_made s)\<rparr>)
       (request_of (calls_made s) (spawn (Detach_requested (Of_session i)) (expect_detach s)))"

definition init_ended :: "nat \<Rightarrow> nat \<Rightarrow> js_error option \<Rightarrow> tab_debugger \<Rightarrow> tab_debugger" where
  "init_ended c i outcome s = (case outcome of
      None \<Rightarrow> attach_settled c i (Inr None) s
    | Some e \<Rightarrow> goto c (Attach_cleaning i (calls_made s) e) (detachTrackedSession i s))"

definition cleaned :: "nat \<Rightarrow> nat \<Rightarrow> js_error \<Rightarrow> (js_error + string option) \<Rightarrow> tab_debugger \<Rightarrow> tab_debugger" where
  "cleaned c i e r s = (case r of
      Inl e' \<Rightarrow> attach_settled c i (Inl (new_error ''Debugger initialization and cleanup both failed'')) s
    | Inr _ \<Rightarrow> if error_code e \<noteq> None then attach_settled c i (Inl e) s else attach_refused c i e s)"

text \<open>\<open>detach\<close> from a look-up of the session to its next await, and the branch of \<open>detachRecovered\<close> without one.\<close>

definition look_for_target :: "nat \<Rightarrow> tab_debugger \<Rightarrow> tab_debugger" where
  "look_for_target c s = request_of c (goto c Looking s)"

definition detach_session :: "nat \<Rightarrow> nat \<Rightarrow> tab_debugger \<Rightarrow> tab_debugger" where
  "detach_session c i s =
     (let s = clear_timer i s in
      case detachPromise (objs s i) of
        Some q \<Rightarrow> goto c (Joining q) s
      | None \<Rightarrow> (case attachPromise (objs s i) of
          Some q \<Rightarrow> goto c (Detach_after_attach i q) s
        | None \<Rightarrow>
            if \<not> attached (objs s i) then goto c Invalidating (s\<lparr>current := None\<rparr>)
            else goto c (Joining (calls_made s)) (detachTrackedSession i s)))"

definition detach :: "nat \<Rightarrow> tab_debugger \<Rightarrow> tab_debugger" where
  "detach c s = (case current s of
      None \<Rightarrow> if candidate s then look_for_target c s else goto c Invalidating s
    | Some i \<Rightarrow> detach_session c i s)"

definition detachRecovered :: "nat \<Rightarrow> tab_debugger \<Rightarrow> tab_debugger" where
  "detachRecovered c s = (if current s \<noteq> None then detach c s else look_for_target c s)"

definition attach_awaited :: "nat \<Rightarrow> nat \<Rightarrow> nat \<Rightarrow> tab_debugger \<Rightarrow> tab_debugger" where
  "attach_awaited c i q s =
     (if current s \<noteq> Some i then settle_call c (Inr None) s
      else detach c (if attachPromise (objs s i) = Some q then on_obj i (\<lambda>d. d\<lparr>attachPromise := None\<rparr>) s else s))"

definition target_found :: "nat \<Rightarrow> bool \<Rightarrow> tab_debugger \<Rightarrow> tab_debugger" where
  "target_found c found s =
     (if found then request_of c (goto c (Detach_requested Of_recovered) (expect_detach s)) else goto c (Clearing Of_absent) s)"

text \<open>What follows the detach, and the \<open>catch\<close> around it.\<close>

definition detach_failed :: "nat \<Rightarrow> forgetting \<Rightarrow> js_error \<Rightarrow> tab_debugger \<Rightarrow> tab_debugger" where
  "detach_failed c f e s = settle_call c (Inl e) (case f of
      Of_absent \<Rightarrow> s
    | Of_recovered \<Rightarrow> snd (consumeExpectedDetach s)
    | Of_session i \<Rightarrow> scheduleIdleDetach i
        (let s = snd (consumeExpectedDetach s) in
         if current s = Some i then on_obj i (\<lambda>d. d\<lparr>detachPromise := None\<rparr>) s else s))"

definition drop_session :: "nat \<Rightarrow> tab_debugger \<Rightarrow> tab_debugger" where
  "drop_session i s = (if current s = Some i then s\<lparr>current := None\<rparr> else s)"

definition detach_answered :: "nat \<Rightarrow> forgetting \<Rightarrow> reply \<Rightarrow> tab_debugger \<Rightarrow> tab_debugger" where
  "detach_answered c f r s = (case f of
      Of_session i \<Rightarrow> (case r of
          Failed e \<Rightarrow> if not_attached e then goto c (Clearing f) (drop_session i (snd (consumeExpectedDetach s)))
            else detach_failed c f e s
        | _ \<Rightarrow> goto c (Clearing f) (drop_session i s))
    | _ \<Rightarrow> (case r of Failed e \<Rightarrow> detach_failed c f e s | _ \<Rightarrow> goto c (Clearing f) s))"

definition forgotten_in_store :: "nat \<Rightarrow> forgetting \<Rightarrow> tab_debugger \<Rightarrow> tab_debugger" where
  "forgotten_in_store c f s = goto c (Unlisting f) (s\<lparr>recorded := False\<rparr>)"

definition unlisted :: "nat \<Rightarrow> tab_debugger \<Rightarrow> tab_debugger" where
  "unlisted c s = settle_call c (Inr None) (s\<lparr>candidate := False\<rparr>)"

text \<open>The callback of the idle timer of session \<open>i\<close>: the call \<open>calls_made + 1\<close> is its \<open>detach\<close>.\<close>

definition idle_timer_fires :: "nat \<Rightarrow> tab_debugger \<Rightarrow> tab_debugger" where
  "idle_timer_fires i s =
     (let s = clear_timer i s in
      if busyCount (objs s i) > 0 \<or> open_dialog (objs s i) \<noteq> None then s
      else (let d = Suc (calls_made s) in detach d (spawn (Settled (Inr None)) (spawn (Idle_detaching i d) s))))"

definition idle_detach_ended :: "nat \<Rightarrow> nat \<Rightarrow> (js_error + string option) \<Rightarrow> tab_debugger \<Rightarrow> tab_debugger" where
  "idle_detach_ended c i r s =
     settle_call c (Inr None) (if isl r \<and> current s = Some i then scheduleIdleDetach i s else s)"

section \<open>Commands\<close>

text \<open>\<open>send\<close>, \<open>sendIfAttached\<close> and the waits, from the lease on.\<close>

definition lease_taken :: "nat \<Rightarrow> purpose \<Rightarrow> tab_debugger \<Rightarrow> tab_debugger" where
  "lease_taken c p s =
     (case acquireDebuggerBusyLease (case p of Hold a \<Rightarrow> a | _ \<Rightarrow> None) s of
        (Inl e, s) \<Rightarrow> fail c p e s
      | (Inr i, s) \<Rightarrow> (case p of
          Probe \<Rightarrow> settle_call c (Inr None) (releaseDebuggerBusyLease i s)
        | Hold a \<Rightarrow> goto c (Holding i) s
        | _ \<Rightarrow> goto c (Leased p i) s))"

definition sendIfAttached :: "nat \<Rightarrow> tab_debugger \<Rightarrow> tab_debugger" where
  "sendIfAttached c s = (case current s of
      None \<Rightarrow> settle_call c (Inr None) s
    | Some i \<Rightarrow>
        if \<not> attached (objs s i) \<or> detachPromise (objs s i) \<noteq> None \<or> attachPromise (objs s i) \<noteq> None
        then settle_call c (Inr None) s
        else goto c (Leased Send_if_attached i) (take_lease i s))"

text \<open>A command failed: \<open>send\<close> sends it once more after a detach.\<close>

definition command_failed :: "nat \<Rightarrow> purpose \<Rightarrow> nat \<Rightarrow> js_error \<Rightarrow> tab_debugger \<Rightarrow> tab_debugger" where
  "command_failed c p i e s = (case p of
      Send answers recovered \<Rightarrow>
        if recovered \<or> \<not> not_attached_to_tab e then settle_call c (Inl e) (releaseDebuggerBusyLease i s)
        else goto c (Entering (Send answers True)) (releaseDebuggerBusyLease i (invalidateDetachedSession (Some i) s))
    | _ \<Rightarrow> settle_call c (Inl e) (releaseDebuggerBusyLease i s))"

definition commandUnlessDialog :: "nat \<Rightarrow> purpose \<Rightarrow> nat \<Rightarrow> tab_debugger \<Rightarrow> tab_debugger" where
  "commandUnlessDialog c p i s = (case open_dialog (objs s i) of
      None \<Rightarrow> request_of c (goto c (Commanding p i) s)
    | Some d \<Rightarrow> (case p of
        Send True recovered \<Rightarrow> request_of c (goto c (Commanding p i) s)
      | _ \<Rightarrow> command_failed c p i (dialogOpenError (dialog_of d) (Some ''not_started'')) s))"

definition command_answered :: "nat \<Rightarrow> purpose \<Rightarrow> nat \<Rightarrow> reply \<Rightarrow> tab_debugger \<Rightarrow> tab_debugger" where
  "command_answered c p i r s = (case r of
      Failed e \<Rightarrow> command_failed c p i e s
    | _ \<Rightarrow> settle_call c (Inr None) (releaseDebuggerBusyLease i s))"

text \<open>A poll of a wait that holds session \<open>i\<close>: it takes the lease of another session when that one is gone.\<close>

definition wait_polled :: "nat \<Rightarrow> nat \<Rightarrow> reply \<Rightarrow> tab_debugger \<Rightarrow> tab_debugger" where
  "wait_polled c i r s = (case r of
      Done \<Rightarrow> if current s \<noteq> Some i \<or> \<not> attached (objs s i) then goto c (Entering (Hold (Some i))) s else s
    | Found b \<Rightarrow> settle_call c (Inr None) (releaseDebuggerBusyLease i s)
    | Failed e \<Rightarrow> settle_call c (Inl e) (releaseDebuggerBusyLease i s))"

section \<open>Dialogs\<close>

definition dialog_opens :: "dialog_kind \<times> string option \<Rightarrow> tab_debugger \<Rightarrow> tab_debugger" where
  "dialog_opens d s = (case current s of None \<Rightarrow> s | Some i \<Rightarrow> on_obj i (\<lambda>x. x\<lparr>open_dialog := Some d\<rparr>) s)"

definition forgetDialog :: "tab_debugger \<Rightarrow> tab_debugger" where
  "forgetDialog s = (case current s of
      None \<Rightarrow> s
    | Some i \<Rightarrow> (let s = on_obj i (\<lambda>x. x\<lparr>open_dialog := None\<rparr>) s in
        if attached (objs s i) then scheduleIdleDetach i s else s))"

section \<open>Steps\<close>

text \<open>
  A call that waits for something else than Chrome's debugger or another call goes on. Only the debugger says
  that it is not attached. A dialog interrupts a command that Chrome has not answered.
\<close>

definition continue_call :: "nat \<Rightarrow> reply \<Rightarrow> tab_debugger \<Rightarrow> tab_debugger option" where
  "continue_call c r s = (case (stage_of s c, r) of
      (Entering p, Failed e) \<Rightarrow> Some (fail c p e s)
    | (Entering p, _) \<Rightarrow> Some (ensureAttached c p s)
    | (Rechecking p, Failed e) \<Rightarrow> Some (fail c p e s)
    | (Rechecking p, _) \<Rightarrow> Some (goto c (Acquiring p) s)
    | (Acquiring p, _) \<Rightarrow> Some (lease_taken c p s)
    | (Leased p i, Failed e) \<Rightarrow> if not_attached_to_tab e then None else Some (command_failed c p i e s)
    | (Leased p i, _) \<Rightarrow> Some (commandUnlessDialog c p i s)
    | (Commanding p i, _) \<Rightarrow> (case open_dialog (objs s i) of
          None \<Rightarrow> None
        | Some d \<Rightarrow> (case p of Send True recovered \<Rightarrow> None | _ \<Rightarrow> Some (command_failed c p i (dialogOpenError (dialog_of d) None) s)))
    | (Holding i, _) \<Rightarrow> Some (wait_polled c i r s)
    | (Attach_authorizing i, Failed e) \<Rightarrow> Some (attach_settled c i (Inl e) s)
    | (Attach_authorizing i, _) \<Rightarrow> Some (attach_authorized c i s)
    | (Attach_recording i, Failed e) \<Rightarrow> Some (attach_settled c i (Inl e) s)
    | (Attach_recording i, _) \<Rightarrow> Some (attach_recorded c i s)
    | (Attach_initializing i, Failed e) \<Rightarrow> Some (init_ended c i (Some e) s)
    | (Attach_initializing i, _) \<Rightarrow> Some (init_ended c i None s)
    | (Invalidating, Failed e) \<Rightarrow> Some (settle_call c (Inl e) s)
    | (Invalidating, _) \<Rightarrow> Some (settle_call c (Inr None) s)
    | (Clearing f, Failed e) \<Rightarrow> Some (detach_failed c f e s)
    | (Clearing f, _) \<Rightarrow> Some (goto c (Forgetting f) s)
    | (Forgetting f, Failed e) \<Rightarrow> Some (detach_failed c f e s)
    | (Forgetting f, _) \<Rightarrow> Some (forgotten_in_store c f s)
    | (Unlisting f, _) \<Rightarrow> Some (unlisted c s)
    | _ \<Rightarrow> None)"

text \<open>A call goes on that waits for call \<open>q\<close>, which has settled with \<open>r\<close>.\<close>

definition awaited :: "stage \<Rightarrow> nat option" where
  "awaited st = (case st of
      Awaiting_detach p q \<Rightarrow> Some q | Awaiting_attach p q b \<Rightarrow> Some q | Attach_cleaning i q e \<Rightarrow> Some q
    | Joining q \<Rightarrow> Some q | Detach_after_attach i q \<Rightarrow> Some q | Idle_detaching i q \<Rightarrow> Some q | _ \<Rightarrow> None)"

definition resumed_with :: "nat \<Rightarrow> stage \<Rightarrow> (js_error + string option) \<Rightarrow> tab_debugger \<Rightarrow> tab_debugger" where
  "resumed_with c st r s = (case st of
      Awaiting_detach p q \<Rightarrow> (case r of Inl e \<Rightarrow> fail c p e s | Inr _ \<Rightarrow> begin_attach c p s)
    | Awaiting_attach p q starter \<Rightarrow> (case r of Inl e \<Rightarrow> fail c p e s
        | Inr _ \<Rightarrow> goto c (if starter then Acquiring p else Rechecking p) s)
    | Attach_cleaning i q e \<Rightarrow> cleaned c i e r s
    | Joining q \<Rightarrow> settle_call c r s
    | Detach_after_attach i q \<Rightarrow> attach_awaited c i q s
    | Idle_detaching i q \<Rightarrow> idle_detach_ended c i r s
    | _ \<Rightarrow> s)"

definition resume_call :: "nat \<Rightarrow> tab_debugger \<Rightarrow> tab_debugger option" where
  "resume_call c s = (case awaited (stage_of s c) of
      None \<Rightarrow> None
    | Some q \<Rightarrow> (case stage_of s q of Settled r \<Rightarrow> Some (resumed_with c (stage_of s c) r s) | _ \<Rightarrow> None))"

text \<open>
  Chrome handles a request. It attaches when nothing is attached, and it says that the debugger is not attached
  only when it is not. The event of a detach that the worker asked for comes before the answer, or not at all.
\<close>

definition reply_to :: "nat \<Rightarrow> reply \<Rightarrow> tab_debugger \<Rightarrow> tab_debugger" where
  "reply_to c r s = s\<lparr>asked := remove1 c (asked s), inbox := inbox s @ [Answer c r]\<rparr>"

definition chrome_detaches :: "bool \<Rightarrow> tab_debugger \<Rightarrow> tab_debugger" where
  "chrome_detaches event s = s\<lparr>holder := None, inbox := inbox s @ (if event then [On_detach] else [])\<rparr>"

definition chrome_handles :: "nat \<Rightarrow> reply \<Rightarrow> bool \<Rightarrow> tab_debugger \<Rightarrow> tab_debugger option" where
  "chrome_handles c r event s =
     (if c \<notin> set (asked s) then None
      else (case (stage_of s c, r) of
          (Attach_requested i, Failed e) \<Rightarrow> Some (reply_to c r s)
        | (Attach_requested i, Done) \<Rightarrow> if holder s = None then Some (reply_to c r (s\<lparr>holder := Some i\<rparr>)) else None
        | (Detach_requested f, Failed e) \<Rightarrow> if holder s \<noteq> None \<and> not_attached e then None else Some (reply_to c r s)
        | (Detach_requested f, Done) \<Rightarrow> if holder s \<noteq> None then Some (reply_to c r (chrome_detaches event s)) else None
        | (Commanding p i, Failed e) \<Rightarrow> if holder s \<noteq> None \<and> not_attached_to_tab e then None else Some (reply_to c r s)
        | (Commanding p i, Done) \<Rightarrow> if holder s \<noteq> None then Some (reply_to c r s) else None
        | (Looking, Failed e) \<Rightarrow> Some (reply_to c r s)
        | (Looking, Found b) \<Rightarrow> if b = (holder s \<noteq> None) then Some (reply_to c r s) else None
        | (Settled x, Failed e) \<Rightarrow> Some (reply_to c r s)
        | (Settled x, Done) \<Rightarrow> Some (reply_to c r s)
        | _ \<Rightarrow> None))"

text \<open>The worker gets the next message.\<close>

definition on_answer :: "nat \<Rightarrow> reply \<Rightarrow> tab_debugger \<Rightarrow> tab_debugger" where
  "on_answer c r s = (case stage_of s c of
      Attach_requested i \<Rightarrow> attach_answered c i r s
    | Detach_requested f \<Rightarrow> detach_answered c f r s
    | Commanding p i \<Rightarrow> command_answered c p i r s
    | Looking \<Rightarrow> (case r of Found b \<Rightarrow> target_found c b s | Failed e \<Rightarrow> settle_call c (Inl e) s | Done \<Rightarrow> s)
    | _ \<Rightarrow> s)"

definition deliver :: "tab_debugger \<Rightarrow> tab_debugger option" where
  "deliver s = (case inbox s of
      [] \<Rightarrow> None
    | On_detach # ms \<Rightarrow> Some (on_detach_event (s\<lparr>inbox := ms\<rparr>))
    | Answer c r # ms \<Rightarrow> Some (on_answer c r (s\<lparr>inbox := ms\<rparr>)))"

datatype dbg_call = Call_send bool | Call_probe | Call_hold | Call_if_attached | Call_detach | Call_scrub

definition start_call :: "dbg_call \<Rightarrow> tab_debugger \<Rightarrow> tab_debugger" where
  "start_call k s = (case k of
      Call_send answers \<Rightarrow> spawn (Entering (Send answers False)) s
    | Call_probe \<Rightarrow> spawn (Entering Probe) s
    | Call_hold \<Rightarrow> spawn (Entering (Hold None)) s
    | Call_if_attached \<Rightarrow> sendIfAttached (calls_made s) (spawn (Settled (Inr None)) s)
    | Call_detach \<Rightarrow> detach (calls_made s) (spawn (Settled (Inr None)) s)
    | Call_scrub \<Rightarrow> detachRecovered (calls_made s) (spawn (Settled (Inr None)) s))"

datatype action =
    Start dbg_call | Continue nat reply | Resume nat | Chrome nat reply bool | Chrome_ends | Deliver | Timer nat
  | Dialog_opens "dialog_kind \<times> string option" | Dialog_closes | Page_changes | Tick

definition dbg_step :: "action \<Rightarrow> tab_debugger \<Rightarrow> tab_debugger option" where
  "dbg_step a s = (case a of
      Start k \<Rightarrow> Some (start_call k s)
    | Continue c r \<Rightarrow> continue_call c r s
    | Resume c \<Rightarrow> resume_call c s
    | Chrome c r event \<Rightarrow> chrome_handles c r event s
    | Chrome_ends \<Rightarrow> if holder s = None then None else Some (chrome_detaches True s)
    | Deliver \<Rightarrow> deliver s
    | Timer i \<Rightarrow> if idleTimer (objs s i) then Some (idle_timer_fires i s) else None
    | Dialog_opens d \<Rightarrow> Some (dialog_opens d s)
    | Dialog_closes \<Rightarrow> Some (forgetDialog s)
    | Page_changes \<Rightarrow> Some (s\<lparr>refusal := None\<rparr>)
    | Tick \<Rightarrow> Some (s\<lparr>clock := clock s + 1\<rparr>))"

inductive dbg_run :: "tab_debugger \<Rightarrow> bool" where
  dbg_start: "dbg_run new_tab"
| dbg_next: "dbg_run s \<Longrightarrow> dbg_step a s = Some s' \<Longrightarrow> dbg_run s'"

text \<open>\<open>tracksTab\<close>, which decides whether a scrub detaches the tab.\<close>

definition tracks_tab :: "tab_debugger \<Rightarrow> bool" where
  "tracks_tab s \<longleftrightarrow> current s \<noteq> None \<or> candidate s"

end
