(* ===== verification/DebuggerFacts.thy ===== *)
theory DebuggerFacts
  imports DebuggerSessions
begin

text \<open>
  What holds in every state of the debugger of a tab: which calls may be on their way to attach a session,
  what an answer or an event of Chrome that is still to be delivered says of the state, and that a session
  Chrome is attached through is the one in the map.
\<close>

section \<open>Stages\<close>

fun links :: "nat \<Rightarrow> stage \<Rightarrow> bool" where
  "links i (Attach_authorizing j) = (j = i)"
| "links i (Attach_recording j) = (j = i)"
| "links i (Attach_requested j) = (j = i)"
| "links i _ = False"

fun gone :: "nat \<Rightarrow> stage \<Rightarrow> bool" where
  "gone i (Clearing f) = (f = Of_session i)"
| "gone i (Forgetting f) = (f = Of_session i)"
| "gone i (Unlisting f) = (f = Of_session i)"
| "gone i _ = False"

definition tracked :: "nat \<Rightarrow> stage \<Rightarrow> bool" where
  "tracked i st \<longleftrightarrow> st = Detach_requested (Of_session i) \<or> gone i st"

fun needs :: "nat \<Rightarrow> stage \<Rightarrow> bool" where
  "needs i (Leased p j) = (j = i)"
| "needs i (Commanding p j) = (j = i)"
| "needs i (Attach_initializing j) = (j = i)"
| "needs i (Attach_cleaning j q e) = (j = i)"
| "needs i st = tracked i st"

fun waits :: "stage \<Rightarrow> bool" where
  "waits (Attach_requested i) = True"
| "waits (Detach_requested f) = True"
| "waits (Commanding p i) = True"
| "waits Looking = True"
| "waits _ = False"

fun is_settled :: "stage \<Rightarrow> bool" where
  "is_settled (Settled r) = True"
| "is_settled _ = False"

text \<open>An answer that makes the worker drop session \<open>i\<close>.\<close>

fun kills :: "nat \<Rightarrow> stage \<Rightarrow> reply \<Rightarrow> bool" where
  "kills i (Detach_requested f) (Failed e) = (f = Of_session i \<and> not_attached e)"
| "kills i (Detach_requested f) r = (f = Of_session i)"
| "kills i (Commanding p j) (Failed e) = (j = i \<and> not_attached_to_tab e)"
| "kills i st r = False"

fun answer_id :: "message \<Rightarrow> nat option" where
  "answer_id On_detach = None"
| "answer_id (Answer c r) = Some c"

definition in_transit :: "tab_debugger \<Rightarrow> nat list" where
  "in_transit s = asked s @ List.map_filter answer_id (inbox s)"

lemma gone_needs: "gone i st \<Longrightarrow> needs i st"
  by (cases st) (simp_all add: tracked_def)

lemma answer_id_Some: "answer_id m = Some c \<longleftrightarrow> (\<exists>r. m = Answer c r)"
  by (cases m) auto

section \<open>Invariants\<close>

definition fresh_ok :: "tab_debugger \<Rightarrow> bool" where
  "fresh_ok s \<longleftrightarrow> (\<forall>i\<ge>objs_made s. \<not> attached (objs s i) \<and> attachPromise (objs s i) = None \<and> detachPromise (objs s i) = None) \<and>
     (\<forall>i. current s = Some i \<longrightarrow> i < objs_made s) \<and> (\<forall>c\<ge>calls_made s. stage_of s c = Settled (Inr None))"

definition links_ok :: "tab_debugger \<Rightarrow> bool" where
  "links_ok s \<longleftrightarrow> (\<forall>c i. links i (stage_of s c) \<longrightarrow>
     current s = Some i \<and> \<not> attached (objs s i) \<and> attachPromise (objs s i) = Some c)"

definition needs_ok :: "tab_debugger \<Rightarrow> bool" where
  "needs_ok s \<longleftrightarrow> (\<forall>c i. needs i (stage_of s c) \<longrightarrow> attached (objs s i)) \<and>
     (\<forall>c i. gone i (stage_of s c) \<longrightarrow> current s \<noteq> Some i)"

definition promises_ok :: "tab_debugger \<Rightarrow> bool" where
  "promises_ok s \<longleftrightarrow> (\<forall>i c. attachPromise (objs s i) = Some c \<longrightarrow> c < calls_made s) \<and>
     (\<forall>i c. detachPromise (objs s i) = Some c \<longrightarrow> c < calls_made s \<and> (tracked i (stage_of s c) \<or> is_settled (stage_of s c))) \<and>
     (\<forall>i c r. detachPromise (objs s i) = Some c \<longrightarrow> stage_of s c = Settled (Inr r) \<longrightarrow>
        attached (objs s i) \<and> current s \<noteq> Some i)"

definition asked_ok :: "tab_debugger \<Rightarrow> bool" where
  "asked_ok s \<longleftrightarrow> distinct (in_transit s) \<and>
     (\<forall>c\<in>set (in_transit s). c < calls_made s \<and> (waits (stage_of s c) \<or> is_settled (stage_of s c)))"

definition attaches_through :: "tab_debugger \<Rightarrow> nat \<Rightarrow> message set \<Rightarrow> bool" where
  "attaches_through s i ms \<longleftrightarrow> attached (objs s i) \<or> (\<exists>c. stage_of s c = Attach_requested i \<and> Answer c Done \<in> ms)"

definition holder_ok :: "tab_debugger \<Rightarrow> bool" where
  "holder_ok s \<longleftrightarrow> (\<forall>i. holder s = Some i \<longrightarrow> current s = Some i \<and> attaches_through s i (set (inbox s)))"

definition kills_ok :: "tab_debugger \<Rightarrow> bool" where
  "kills_ok s \<longleftrightarrow> (\<forall>c r i. Answer c r \<in> set (inbox s) \<longrightarrow> kills i (stage_of s c) r \<longrightarrow> holder s \<noteq> Some i)"

definition event_ok :: "tab_debugger \<Rightarrow> message list \<Rightarrow> bool" where
  "event_ok s xs \<longleftrightarrow> holder s = None \<and> On_detach \<notin> set xs \<and> (\<forall>c\<in>set (asked s). \<forall>i. stage_of s c \<noteq> Attach_requested i) \<and>
     (\<exists>k. current s = Some k \<and> attaches_through s k (set xs) \<and>
        (\<forall>c r. Answer c r \<in> set xs \<longrightarrow> \<not> kills k (stage_of s c) r))"

definition events_ok :: "tab_debugger \<Rightarrow> bool" where
  "events_ok s \<longleftrightarrow> (\<forall>xs ys. inbox s = xs @ On_detach # ys \<longrightarrow> event_ok s xs)"

definition dbg_ok :: "tab_debugger \<Rightarrow> bool" where
  "dbg_ok s \<longleftrightarrow> fresh_ok s \<and> links_ok s \<and> needs_ok s \<and> promises_ok s \<and> asked_ok s \<and> holder_ok s \<and> kills_ok s \<and> events_ok s"

lemmas part_defs = fresh_ok_def links_ok_def needs_ok_def promises_ok_def asked_ok_def holder_ok_def kills_ok_def events_ok_def
  event_ok_def attaches_through_def in_transit_def

lemma new_tab_ok: "dbg_ok new_tab"
  by (simp add: dbg_ok_def part_defs new_tab_def new_session_def tracked_def List.map_filter_def)

section \<open>Updates that the invariants do not see\<close>

lemma on_obj_simps [simp]:
  "stage_of (on_obj i f s) = stage_of s" "calls_made (on_obj i f s) = calls_made s" "objs_made (on_obj i f s) = objs_made s"
  "current (on_obj i f s) = current s" "holder (on_obj i f s) = holder s" "asked (on_obj i f s) = asked s"
  "inbox (on_obj i f s) = inbox s" "objs (on_obj i f s) j = (if j = i then f (objs s i) else objs s j)"
  by (simp_all add: on_obj_def)

lemma goto_simps [simp]:
  "stage_of (goto c st s) = (stage_of s)(c := st)" "calls_made (goto c st s) = calls_made s" "objs_made (goto c st s) = objs_made s"
  "current (goto c st s) = current s" "holder (goto c st s) = holder s" "asked (goto c st s) = asked s"
  "inbox (goto c st s) = inbox s" "objs (goto c st s) = objs s"
  by (simp_all add: goto_def)

text \<open>Two states that differ in the timers, leases, dialogs, counters and lists only.\<close>

definition alike :: "tab_debugger \<Rightarrow> tab_debugger \<Rightarrow> bool" where
  "alike s t \<longleftrightarrow> (\<forall>i. attached (objs s i) = attached (objs t i) \<and> attachPromise (objs s i) = attachPromise (objs t i) \<and>
       detachPromise (objs s i) = detachPromise (objs t i)) \<and> objs_made s = objs_made t \<and> current s = current t \<and>
     stage_of s = stage_of t \<and> calls_made s = calls_made t \<and> holder s = holder t \<and> asked s = asked t \<and> inbox s = inbox t"

lemma alike_ok: "alike s t \<Longrightarrow> dbg_ok s \<longleftrightarrow> dbg_ok t"
  by (simp add: alike_def dbg_ok_def part_defs)

lemma alike_updates [simp]:
  "alike (clear_timer i s) s" "alike (scheduleIdleDetach i s) s" "alike (releaseDebuggerBusyLease i s) s" "alike (take_lease i s) s"
  "alike (snd (consumeExpectedDetach s)) s" "alike (expect_detach s) s" "alike (forgetDialog s) s" "alike (dialog_opens d s) s"
  "alike (s\<lparr>refusal := x\<rparr>) s" "alike (s\<lparr>clock := n\<rparr>) s" "alike (s\<lparr>candidate := b\<rparr>) s" "alike (s\<lparr>recorded := b\<rparr>) s"
  by (auto simp: alike_def clear_timer_def scheduleIdleDetach_def releaseDebuggerBusyLease_def take_lease_def Let_def
      consumeExpectedDetach_def expect_detach_def forgetDialog_def dialog_opens_def split: option.split)

section \<open>Updates of one component\<close>

lemma set_in_transit: "c \<in> set (in_transit s) \<longleftrightarrow> c \<in> set (asked s) \<or> (\<exists>r. Answer c r \<in> set (inbox s))"
  by (auto simp: in_transit_def List.map_filter_def answer_id_Some image_iff)

lemma events_same:
  assumes "\<And>xs. event_ok s xs \<Longrightarrow> set xs \<subseteq> set (inbox s) \<Longrightarrow> event_ok t xs" "inbox t = inbox s" "events_ok s"
  shows "events_ok t"
  unfolding events_ok_def
proof (intro allI impI)
  fix xs ys assume "inbox t = xs @ On_detach # ys"
  with assms(2) have i: "inbox s = xs @ On_detach # ys" by simp
  with assms(3) have "event_ok s xs" by (auto simp: events_ok_def)
  then show "event_ok t xs" using i by (intro assms(1)) auto
qed

text \<open>Without an event on its way there is nothing to show of events.\<close>

lemma events_none: "On_detach \<notin> set (inbox s) \<Longrightarrow> events_ok s"
  by (auto simp: events_ok_def)

definition fits :: "tab_debugger \<Rightarrow> nat \<Rightarrow> stage \<Rightarrow> bool" where
  "fits s c st \<longleftrightarrow>
     (\<forall>i. links i st \<longrightarrow> current s = Some i \<and> \<not> attached (objs s i) \<and> attachPromise (objs s i) = Some c) \<and>
     (\<forall>i. needs i st \<longrightarrow> attached (objs s i)) \<and> (\<forall>i. gone i st \<longrightarrow> current s \<noteq> Some i) \<and>
     (\<forall>i. detachPromise (objs s i) = Some c \<longrightarrow> (tracked i st \<or> is_settled st) \<and>
        (\<forall>r. st = Settled (Inr r) \<longrightarrow> attached (objs s i) \<and> current s \<noteq> Some i))"

lemma goto_ok:
  assumes "dbg_ok s" "c < calls_made s" "c \<notin> set (in_transit s)" "fits s c st"
  shows "dbg_ok (goto c st s)"
proof -
  have free: "c \<notin> set (asked s)" "\<And>r. Answer c r \<notin> set (inbox s)" using assms(3) by (auto simp: set_in_transit)
  have "fresh_ok (goto c st s)" using assms(1,2) by (auto simp: dbg_ok_def fresh_ok_def)
  moreover have "links_ok (goto c st s)" using assms(1,4) by (auto simp: dbg_ok_def links_ok_def fits_def)
  moreover have "needs_ok (goto c st s)" using assms(1,4) by (auto simp: dbg_ok_def needs_ok_def fits_def)
  moreover have "promises_ok (goto c st s)" using assms(1,4) by (auto simp: dbg_ok_def promises_ok_def fits_def)
  moreover have "asked_ok (goto c st s)" using assms(1,3) by (auto simp: dbg_ok_def asked_ok_def in_transit_def)
  moreover have "holder_ok (goto c st s)"
    using assms(1) free by (fastforce simp: dbg_ok_def holder_ok_def attaches_through_def)
  moreover have "kills_ok (goto c st s)" using assms(1) free by (auto simp: dbg_ok_def kills_ok_def)
  moreover have "events_ok (goto c st s)"
  proof (rule events_same)
    show "event_ok (goto c st s) xs" if "event_ok s xs" "set xs \<subseteq> set (inbox s)" for xs
      using that free by (fastforce simp: event_ok_def attaches_through_def)
  qed (use assms(1) in \<open>simp_all add: dbg_ok_def\<close>)
  ultimately show ?thesis by (simp add: dbg_ok_def)
qed

lemma no_promise_of:
  assumes "dbg_ok s" "\<not> is_settled (stage_of s c)" "\<And>i. \<not> tracked i (stage_of s c)"
  shows "detachPromise (objs s i) \<noteq> Some c"
  using assms(1,2) assms(3) [of i] by (auto simp: dbg_ok_def promises_ok_def)

text \<open>Stages that say nothing of a session.\<close>

definition plain :: "stage \<Rightarrow> bool" where
  "plain st \<longleftrightarrow> (\<forall>i. \<not> links i st \<and> \<not> needs i st \<and> \<not> tracked i st)"

lemma plain_simps [simp]:
  "plain (Entering p)" "plain (Awaiting_detach p q)" "plain (Awaiting_attach p q b)" "plain (Rechecking p)" "plain (Acquiring p)"
  "plain (Holding i)" "plain (Joining q)" "plain (Detach_after_attach i q)" "plain Invalidating" "plain Looking"
  "plain (Idle_detaching i q)" "plain (Settled r)" "\<not> plain (Attach_authorizing i)" "\<not> plain (Attach_recording i)" "\<not> plain (Attach_requested i)"
  by (simp_all add: plain_def tracked_def)

lemma plain_goto:
  assumes "dbg_ok s" "c < calls_made s" "c \<notin> set (in_transit s)" "plain st" "\<And>i. detachPromise (objs s i) \<noteq> Some c"
  shows "dbg_ok (goto c st s)"
  using assms by (intro goto_ok) (auto simp: fits_def plain_def tracked_def)

text \<open>A new call that nobody waits for yet.\<close>

lemma spawn_goto: "spawn st s = goto (calls_made s) st (spawn (Settled (Inr None)) s)"
  by (simp add: spawn_def goto_def)

lemma spawn_settled_simps [simp]:
  "calls_made (spawn st s) = Suc (calls_made s)" "objs (spawn st s) = objs s" "objs_made (spawn st s) = objs_made s"
  "current (spawn st s) = current s" "holder (spawn st s) = holder s" "asked (spawn st s) = asked s" "inbox (spawn st s) = inbox s"
  "stage_of (spawn st s) = (stage_of s)(calls_made s := st)"
  by (simp_all add: spawn_def)

lemma spawn_settled_ok:
  assumes "dbg_ok s" shows "dbg_ok (spawn (Settled (Inr None)) s)"
proof -
  have "stage_of (spawn (Settled (Inr None)) s) = stage_of s"
    using assms by (auto simp: dbg_ok_def fresh_ok_def)
  with assms show ?thesis
    by (simp add: dbg_ok_def part_defs del: spawn_settled_simps(8)) (auto simp: less_Suc_eq)
qed

lemma new_call_free:
  assumes "dbg_ok s"
  shows "calls_made s \<notin> set (in_transit s)" "detachPromise (objs s i) \<noteq> Some (calls_made s)" "attachPromise (objs s i) \<noteq> Some (calls_made s)"
  using assms by (auto simp: dbg_ok_def asked_ok_def promises_ok_def)

lemma in_transit_simps [simp]:
  "in_transit (spawn st s) = in_transit s" "in_transit (goto c st s) = in_transit s" "in_transit (on_obj i f s) = in_transit s"
  by (simp_all add: in_transit_def)

lemma spawn_ok: "dbg_ok s \<Longrightarrow> plain st \<Longrightarrow> dbg_ok (spawn st s)"
  by (subst spawn_goto) (rule plain_goto, simp_all add: spawn_settled_ok new_call_free)

text \<open>The promises of a session.\<close>

lemma attach_promise_ok:
  assumes "dbg_ok s" "\<And>c. \<not> links i (stage_of s c)" "q = None \<or> i < objs_made s \<and> (\<exists>c. q = Some c \<and> c < calls_made s)"
  shows "dbg_ok (on_obj i (\<lambda>d. d\<lparr>attachPromise := q\<rparr>) s)"
proof -
  have "events_ok (on_obj i (\<lambda>d. d\<lparr>attachPromise := q\<rparr>) s)"
    by (rule events_same [of s]) (use assms(1) in \<open>auto simp: dbg_ok_def event_ok_def attaches_through_def\<close>)
  moreover have "holder_ok (on_obj i (\<lambda>d. d\<lparr>attachPromise := q\<rparr>) s)"
    using assms(1) by (auto simp: dbg_ok_def holder_ok_def attaches_through_def)
  ultimately show ?thesis
    using assms by (auto simp: dbg_ok_def fresh_ok_def links_ok_def needs_ok_def promises_ok_def asked_ok_def kills_ok_def in_transit_def)
qed

lemma detach_promise_ok:
  assumes "dbg_ok s" "q = None \<or> i < objs_made s \<and> (\<exists>c. q = Some c \<and> c < calls_made s \<and> stage_of s c = Detach_requested (Of_session i))"
  shows "dbg_ok (on_obj i (\<lambda>d. d\<lparr>detachPromise := q\<rparr>) s)"
proof -
  have "events_ok (on_obj i (\<lambda>d. d\<lparr>detachPromise := q\<rparr>) s)"
    by (rule events_same [of s]) (use assms(1) in \<open>auto simp: dbg_ok_def event_ok_def attaches_through_def\<close>)
  moreover have "holder_ok (on_obj i (\<lambda>d. d\<lparr>detachPromise := q\<rparr>) s)"
    using assms(1) by (auto simp: dbg_ok_def holder_ok_def attaches_through_def)
  moreover have "promises_ok (on_obj i (\<lambda>d. d\<lparr>detachPromise := q\<rparr>) s)"
    using assms by (auto simp: dbg_ok_def promises_ok_def tracked_def)
  ultimately show ?thesis
    using assms by (auto simp: dbg_ok_def fresh_ok_def links_ok_def needs_ok_def asked_ok_def kills_ok_def in_transit_def)
qed

text \<open>A request is made, and the session in the map is dropped or made.\<close>

lemma request_simps [simp]:
  "stage_of (request_of c s) = stage_of s" "calls_made (request_of c s) = calls_made s" "objs_made (request_of c s) = objs_made s"
  "current (request_of c s) = current s" "holder (request_of c s) = holder s" "asked (request_of c s) = asked s @ [c]"
  "inbox (request_of c s) = inbox s" "objs (request_of c s) = objs s"
  by (simp_all add: request_of_def)

lemma asking_ok:
  assumes "dbg_ok s" "c < calls_made s" "c \<notin> set (in_transit s)" "waits (stage_of s c)"
    "\<And>i. stage_of s c = Attach_requested i \<Longrightarrow> On_detach \<notin> set (inbox s)"
  shows "dbg_ok (request_of c s)"
proof -
  have "asked_ok (request_of c s)" using assms(1-4) by (auto simp: dbg_ok_def asked_ok_def in_transit_def)
  moreover have "holder_ok (request_of c s)" using assms(1) by (auto simp: dbg_ok_def holder_ok_def attaches_through_def)
  moreover have "events_ok (request_of c s)"
  proof (cases "On_detach \<in> set (inbox s)")
    case True
    show ?thesis by (rule events_same [of s]) (use assms(1,5) True in \<open>auto simp: dbg_ok_def event_ok_def attaches_through_def\<close>)
  qed (simp add: events_none)
  ultimately show ?thesis
    using assms(1) by (auto simp: dbg_ok_def fresh_ok_def links_ok_def needs_ok_def promises_ok_def kills_ok_def)
qed

lemma drop_ok:
  assumes "dbg_ok s" "current s = Some i" "holder s \<noteq> Some i" "On_detach \<notin> set (inbox s)" "\<And>c. \<not> links i (stage_of s c)"
  shows "dbg_ok (s\<lparr>current := None\<rparr>)"
proof -
  have "events_ok (s\<lparr>current := None\<rparr>)" using assms(4) by (intro events_none) simp
  moreover have "links_ok (s\<lparr>current := None\<rparr>)" using assms(1,2,5) by (fastforce simp: dbg_ok_def links_ok_def)
  moreover have "holder_ok (s\<lparr>current := None\<rparr>)" using assms(1,2,3) by (cases "holder s") (auto simp: dbg_ok_def holder_ok_def)
  ultimately show ?thesis
    using assms(1) by (auto simp: dbg_ok_def fresh_ok_def needs_ok_def promises_ok_def kills_ok_def asked_ok_def in_transit_def)
qed

lemma link_none_event:
  assumes "dbg_ok s" "links i (stage_of s c)" "c \<notin> set (in_transit s)"
  shows "On_detach \<notin> set (inbox s)"
proof
  assume "On_detach \<in> set (inbox s)"
  then obtain xs ys where "inbox s = xs @ On_detach # ys" by (metis split_list)
  with assms(1) have ev: "event_ok s xs" and sub: "set xs \<subseteq> set (inbox s)" by (auto simp: dbg_ok_def events_ok_def)
  from assms(1,2) have l: "current s = Some i" "\<not> attached (objs s i)" "attachPromise (objs s i) = Some c"
    by (auto simp: dbg_ok_def links_ok_def)
  with ev obtain c' where c': "stage_of s c' = Attach_requested i" "Answer c' Done \<in> set xs"
    by (auto simp: event_ok_def attaches_through_def)
  with assms(1) have "attachPromise (objs s i) = Some c'" by (auto simp: dbg_ok_def links_ok_def)
  with l c' sub assms(3) show False by (auto simp: set_in_transit)
qed

lemma unlinked:
  assumes "dbg_ok s" "attached (objs s i) \<or> attachPromise (objs s i) = None \<or> current s \<noteq> Some i"
  shows "\<not> links i (stage_of s c)"
  using assms by (auto simp: dbg_ok_def links_ok_def)

text \<open>A session that is not attached and on its way nowhere can be dropped.\<close>

lemma idle_drop_ok:
  assumes "dbg_ok s" "current s = Some i" "\<not> attached (objs s i)" "attachPromise (objs s i) = None"
  shows "dbg_ok (s\<lparr>current := None\<rparr>)"
proof -
  have not: "\<not> attaches_through s i ms" for ms
    using assms(1,3,4) unlinked [OF assms(1), of i] by (auto simp: attaches_through_def) (metis links.simps(3))
  have "On_detach \<notin> set (inbox s)"
  proof
    assume "On_detach \<in> set (inbox s)"
    then obtain xs ys where "inbox s = xs @ On_detach # ys" by (metis split_list)
    with assms(1,2) not show False by (auto simp: dbg_ok_def events_ok_def event_ok_def)
  qed
  moreover have "holder s \<noteq> Some i" using assms(1) not by (auto simp: dbg_ok_def holder_ok_def)
  ultimately show ?thesis using assms by (intro drop_ok) (auto dest: unlinked)
qed

lemma session_for_ok:
  assumes "dbg_ok s" "session_for s = (i, t)"
  shows "dbg_ok t \<and> current t = Some i \<and> i < objs_made t \<and> stage_of t = stage_of s \<and> calls_made t = calls_made s \<and>
    in_transit t = in_transit s \<and> (\<forall>j. detachPromise (objs t j) = detachPromise (objs s j))"
proof (cases "current s")
  case (Some j)
  with assms show ?thesis by (auto simp: session_for_def dbg_ok_def fresh_ok_def)
next
  case None
  with assms(1) have n: "holder s = None" "\<And>j c. \<not> links j (stage_of s c)" "On_detach \<notin> set (inbox s)"
    by (auto simp: dbg_ok_def holder_ok_def links_ok_def events_ok_def event_ok_def in_set_conv_decomp)
  from None assms(2) have t: "t = s\<lparr>objs := (objs s)(objs_made s := new_session), objs_made := Suc (objs_made s), current := Some (objs_made s)\<rparr>"
    "i = objs_made s" by (auto simp: session_for_def)
  have new: "\<not> attached (objs s (objs_made s))" "attachPromise (objs s (objs_made s)) = None" "detachPromise (objs s (objs_made s)) = None"
    using assms(1) by (simp_all add: dbg_ok_def fresh_ok_def)
  moreover have "\<not> gone (objs_made s) (stage_of s c)" for c
    using new(1) assms(1) gone_needs by (auto simp: dbg_ok_def needs_ok_def)
  ultimately have "dbg_ok t" using assms(1) n unfolding dbg_ok_def t(1)
    by (intro conjI events_none)
      (auto simp: fresh_ok_def links_ok_def needs_ok_def promises_ok_def asked_ok_def in_transit_def holder_ok_def kills_ok_def new_session_def
        dest: Suc_leD)
  then show ?thesis using t new by (auto simp: in_transit_def new_session_def)
qed

section \<open>Calls that can go on\<close>

text \<open>A call without a request that is neither a promise of a session nor about to be one.\<close>

definition caller :: "tab_debugger \<Rightarrow> nat \<Rightarrow> bool" where
  "caller s c \<longleftrightarrow> c < calls_made s \<and> c \<notin> set (in_transit s) \<and> (\<forall>i. detachPromise (objs s i) \<noteq> Some c)"

lemma caller_goto: "dbg_ok s \<Longrightarrow> caller s c \<Longrightarrow> plain st \<Longrightarrow> dbg_ok (goto c st s)"
  by (auto simp: caller_def intro: plain_goto)

lemma quiet_call:
  assumes "dbg_ok s" "stage_of s c = st" "\<not> waits st" "\<not> is_settled st"
  shows "c < calls_made s" "c \<notin> set (in_transit s)"
proof -
  show "c < calls_made s" using assms(1,2,4) by (auto simp: dbg_ok_def fresh_ok_def not_less[symmetric])
  show "c \<notin> set (in_transit s)" using assms by (auto simp: dbg_ok_def asked_ok_def)
qed

lemma quiet_caller:
  assumes "dbg_ok s" "stage_of s c = st" "\<not> waits st" "\<not> is_settled st" "\<And>i. \<not> tracked i st"
  shows "caller s c"
  using quiet_call [OF assms(1-4)] no_promise_of [OF assms(1)] assms by (simp add: caller_def)

lemma new_caller: "dbg_ok s \<Longrightarrow> caller (spawn st s) (calls_made s)"
  by (simp add: caller_def new_call_free)

lemma alike_caller: "alike s t \<Longrightarrow> caller s c = caller t c"
  by (simp add: alike_def caller_def in_transit_def)

lemma alike_refl: "alike s s"
  by (simp add: alike_def)

lemma alike_trans: "alike s t \<Longrightarrow> alike t u \<Longrightarrow> alike s u"
  by (simp add: alike_def)

lemma caller_simps [simp]:
  "caller (goto d st s) c = caller s c"
  "caller (on_obj i (\<lambda>d. d\<lparr>attachPromise := q\<rparr>) s) c = caller s c"
  "caller (s\<lparr>current := x\<rparr>) c = caller s c"
  by (auto simp: caller_def in_transit_def split: if_splits)

text \<open>Updates that only the timers, leases and counters show, with the operations that end in one.\<close>

lemma unseen [simp]:
  "dbg_ok (clear_timer i s) = dbg_ok s" "dbg_ok (scheduleIdleDetach i s) = dbg_ok s"
  "dbg_ok (releaseDebuggerBusyLease i s) = dbg_ok s" "dbg_ok (take_lease i s) = dbg_ok s"
  "dbg_ok (snd (consumeExpectedDetach s)) = dbg_ok s" "dbg_ok (expect_detach s) = dbg_ok s" "dbg_ok (forgetDialog s) = dbg_ok s"
  "dbg_ok (dialog_opens d s) = dbg_ok s" "dbg_ok (s\<lparr>refusal := x\<rparr>) = dbg_ok s" "dbg_ok (s\<lparr>clock := n\<rparr>) = dbg_ok s"
  "dbg_ok (s\<lparr>candidate := b\<rparr>) = dbg_ok s" "dbg_ok (s\<lparr>recorded := b\<rparr>) = dbg_ok s"
  by (rule alike_ok, simp)+

lemma unseen_caller [simp]:
  "caller (clear_timer i s) c = caller s c" "caller (scheduleIdleDetach i s) c = caller s c"
  "caller (releaseDebuggerBusyLease i s) c = caller s c" "caller (take_lease i s) c = caller s c"
  "caller (snd (consumeExpectedDetach s)) c = caller s c" "caller (expect_detach s) c = caller s c"
  "caller (s\<lparr>refusal := x\<rparr>) c = caller s c" "caller (s\<lparr>candidate := b\<rparr>) c = caller s c" "caller (s\<lparr>recorded := b\<rparr>) c = caller s c"
  by (rule alike_caller, simp)+

lemma alike_fields:
  assumes "alike t s"
  shows "attached (objs t i) = attached (objs s i)" "attachPromise (objs t i) = attachPromise (objs s i)"
    "detachPromise (objs t i) = detachPromise (objs s i)" "current t = current s" "stage_of t = stage_of s"
    "calls_made t = calls_made s" "objs_made t = objs_made s" "holder t = holder s" "inbox t = inbox s" "in_transit t = in_transit s"
  using assms by (simp_all add: alike_def in_transit_def)

lemmas unseen_fields [simp] = alike_updates(1-6) [THEN alike_fields(1)] alike_updates(1-6) [THEN alike_fields(2)]
  alike_updates(1-6) [THEN alike_fields(3)] alike_updates(1-6) [THEN alike_fields(4)] alike_updates(1-6) [THEN alike_fields(5)]
  alike_updates(1-6) [THEN alike_fields(6)] alike_updates(1-6) [THEN alike_fields(7)] alike_updates(1-6) [THEN alike_fields(8)]
  alike_updates(1-6) [THEN alike_fields(9)] alike_updates(1-6) [THEN alike_fields(10)]

end
