(* ===== verification/DebuggerSteps.thy ===== *)
theory DebuggerSteps
  imports DebuggerFacts
begin

text \<open>
  Every operation of a session keeps the invariants of \<open>DebuggerFacts\<close>: attaching, detaching, the commands and the
  timers, then Chrome's side, and with them every step of a run.
\<close>

section \<open>Attaching\<close>

lemma fail_ok: "dbg_ok s \<Longrightarrow> caller s c \<Longrightarrow> dbg_ok (fail c p e s)"
  by (auto simp: fail_def intro!: caller_goto split: purpose.split option.split)

lemma on_obj_goto: "on_obj i f (goto c st s) = goto c st (on_obj i f s)"
  by (simp add: on_obj_def goto_def)

lemma request_goto: "request_of c (goto d st s) = goto d st (request_of c s)"
  by (simp add: request_of_def goto_def)

lemma begin_attach_ok:
  assumes "dbg_ok s" "caller s c"
  shows "dbg_ok (begin_attach c p s)"
proof (cases "session_for s")
  case (Pair i t)
  from session_for_ok [OF assms(1) Pair] have t: "dbg_ok t" "current t = Some i" "i < objs_made t" by simp_all
  from session_for_ok [OF assms(1) Pair] assms(2) have c: "caller t c" by (simp add: caller_def)
  let ?n = "calls_made t" and ?f = "\<lambda>d. d\<lparr>attachPromise := Some (calls_made t)\<rparr>"
  show ?thesis
  proof (cases "attachPromise (objs t i) = None \<and> \<not> attached (objs t i)")
    case True
    from t(1) True have "dbg_ok (on_obj i ?f (spawn (Settled (Inr None)) t))"
      by (intro attach_promise_ok) (auto simp: t(3) spawn_settled_ok dest: unlinked)
    then have "dbg_ok (goto ?n (Attach_authorizing i) (on_obj i ?f (spawn (Settled (Inr None)) t)))"
      using True t new_call_free [OF t(1)] by (intro goto_ok) (auto simp: fits_def tracked_def)
    then have "dbg_ok (on_obj i ?f (spawn (Attach_authorizing i) t))" by (subst spawn_goto) (simp add: on_obj_goto)
    moreover have "caller (on_obj i ?f (spawn (Attach_authorizing i) t)) c" using c by (auto simp: caller_def)
    ultimately show ?thesis using Pair True by (simp add: begin_attach_def caller_goto)
  qed (use Pair t c in \<open>auto simp: begin_attach_def caller_goto split: option.split\<close>)
qed

lemma ensureAttached_ok: "dbg_ok s \<Longrightarrow> caller s c \<Longrightarrow> dbg_ok (ensureAttached c p s)"
  by (auto simp: ensureAttached_def attach_unless_detaching_def intro!: begin_attach_ok fail_ok caller_goto split: option.split prod.split)

lemma linked: "dbg_ok s \<Longrightarrow> stage_of s c = st \<Longrightarrow> links i st \<Longrightarrow> current s = Some i \<and> \<not> attached (objs s i) \<and> attachPromise (objs s i) = Some c"
  by (auto simp: dbg_ok_def links_ok_def)

lemma link_unique: "dbg_ok s \<Longrightarrow> links i (stage_of s c) \<Longrightarrow> links i (stage_of s d) \<Longrightarrow> c = d"
  by (metis dbg_ok_def links_ok_def option.inject)

lemma attach_settled_ok:
  assumes "dbg_ok s" "caller s c" "links i (stage_of s c) \<or> attached (objs s i)"
  shows "dbg_ok (attach_settled c i r s)"
proof -
  have g: "dbg_ok (settle_call c r s)" using assms by (simp add: caller_goto)
  have "\<not> links i (stage_of (settle_call c r s) d)" for d
  proof (cases "attached (objs s i)")
    case True
    then show ?thesis using unlinked [OF g, of i] by simp
  next
    case False
    with assms have "links i (stage_of s c)" by simp
    then show ?thesis using link_unique [OF assms(1)] by auto
  qed
  then show ?thesis using attach_promise_ok [OF g, of i None] g by (simp add: attach_settled_def Let_def)
qed

lemma attach_refused_ok:
  assumes "dbg_ok s" "caller s c" "links i (stage_of s c) \<or> attached (objs s i)"
  shows "dbg_ok (attach_refused c i e s)"
  using assms by (auto simp: attach_refused_def refuseDebugger_def intro!: attach_settled_ok)

lemma link_fits: "dbg_ok s \<Longrightarrow> links i (stage_of s c) \<Longrightarrow> caller s c \<Longrightarrow> (\<And>j. links j st \<longleftrightarrow> j = i) \<Longrightarrow> fits s c st"
  by (cases st) (auto simp: fits_def caller_def dbg_ok_def links_ok_def tracked_def)

lemma attach_authorized_ok:
  assumes "dbg_ok s" "stage_of s c = Attach_authorizing i"
  shows "dbg_ok (attach_authorized c i s)"
proof -
  have "caller s c" by (rule quiet_caller [OF assms]) (simp_all add: tracked_def)
  then show ?thesis using assms unfolding attach_authorized_def
    by (intro goto_ok link_fits [where i = i]) (auto simp: caller_def in_transit_def)
qed

lemma attach_recorded_ok:
  assumes "dbg_ok s" "stage_of s c = Attach_recording i"
  shows "dbg_ok (attach_recorded c i s)"
proof -
  have c: "caller s c" by (rule quiet_caller [OF assms]) (simp_all add: tracked_def)
  have "dbg_ok (goto c (Attach_requested i) (s\<lparr>recorded := True\<rparr>))"
    using assms c by (intro goto_ok link_fits [where i = i]) (auto simp: caller_def in_transit_def)
  moreover have "On_detach \<notin> set (inbox s)"
    using link_none_event [OF assms(1), of i c] assms(2) c by (simp add: caller_def)
  ultimately show ?thesis using c unfolding attach_recorded_def
    by (intro asking_ok) (auto simp: caller_def in_transit_def)
qed

section \<open>Detaching\<close>

lemma attached_made: "dbg_ok s \<Longrightarrow> attached (objs s i) \<Longrightarrow> i < objs_made s"
  by (auto simp: dbg_ok_def fresh_ok_def not_less [symmetric])

lemma detachTracked_ok:
  assumes "dbg_ok s" "attached (objs s i)"
  shows "dbg_ok (detachTrackedSession i s)"
proof -
  let ?n = "calls_made s" and ?s = "expect_detach s"
  let ?u = "goto ?n (Detach_requested (Of_session i)) (spawn (Settled (Inr None)) ?s)"
  have "dbg_ok ?u" using assms new_call_free [OF assms(1)]
    by (intro goto_ok) (auto simp: fits_def tracked_def spawn_settled_ok)
  then have "dbg_ok (request_of ?n ?u)" using new_call_free [OF assms(1)] by (intro asking_ok) auto
  then have "dbg_ok (on_obj i (\<lambda>d. d\<lparr>detachPromise := Some ?n\<rparr>) (request_of ?n ?u))"
    by (rule detach_promise_ok) (use attached_made [OF assms] in simp)
  then show ?thesis by (simp add: detachTrackedSession_def spawn_goto [of "Detach_requested (Of_session i)"])
qed

lemma detachTracked_caller: "dbg_ok s \<Longrightarrow> caller s c \<Longrightarrow> caller (detachTrackedSession i s) c"
  by (auto simp: caller_def detachTrackedSession_def in_transit_def request_of_def expect_detach_def)

lemma detachTracked_simps [simp]:
  "attached (objs (detachTrackedSession i s) j) = attached (objs s j)"
  "current (detachTrackedSession i s) = current s" "holder (detachTrackedSession i s) = holder s"
  by (simp_all add: detachTrackedSession_def)

lemma need_goto:
  assumes "dbg_ok s" "caller s c" "\<And>j. \<not> links j st" "\<And>j. \<not> gone j st" "\<And>j. needs j st \<Longrightarrow> attached (objs s j)"
  shows "dbg_ok (goto c st s)"
  using assms by (intro goto_ok) (auto simp: caller_def fits_def)

lemma init_ended_ok:
  assumes "dbg_ok s" "stage_of s c = Attach_initializing i"
  shows "dbg_ok (init_ended c i outcome s)"
proof -
  have c: "caller s c" by (rule quiet_caller [OF assms]) (simp_all add: tracked_def)
  have a: "attached (objs s i)" using assms by (simp add: dbg_ok_def needs_ok_def) (metis needs.simps(3))
  show ?thesis
  proof (cases outcome)
    case None
    then show ?thesis using attach_settled_ok [OF assms(1) c] a by (simp add: init_ended_def)
  next
    case (Some e)
    then show ?thesis using a c assms(1) detachTracked_ok [OF assms(1) a]
      by (auto simp: init_ended_def detachTracked_caller intro!: need_goto)
  qed
qed

lemma cleaned_ok:
  assumes "dbg_ok s" "stage_of s c = Attach_cleaning i q e"
  shows "dbg_ok (cleaned c i e r s)"
proof -
  have c: "caller s c" by (rule quiet_caller [OF assms]) (simp_all add: tracked_def)
  have a: "attached (objs s i)" using assms by (simp add: dbg_ok_def needs_ok_def) (metis needs.simps(4))
  show ?thesis using attach_settled_ok [OF assms(1) c] attach_refused_ok [OF assms(1) c] a
    by (simp add: cleaned_def split: sum.split)
qed

lemma ask_ok:
  assumes "dbg_ok s" "caller s c" "plain st" "waits st"
  shows "dbg_ok (request_of c (goto c st s))"
  using assms by (intro asking_ok) (auto simp: caller_def plain_def intro: caller_goto)

lemma look_ok: "dbg_ok s \<Longrightarrow> caller s c \<Longrightarrow> dbg_ok (look_for_target c s)"
  by (simp add: look_for_target_def ask_ok)

lemma detach_session_ok:
  assumes "dbg_ok s" "caller s c" "current s = Some i"
  shows "dbg_ok (detach_session c i s)"
proof -
  let ?s = "clear_timer i s"
  have s: "dbg_ok ?s" "caller ?s c" using assms by simp_all
  have "dbg_ok (?s\<lparr>current := None\<rparr>)" if "attachPromise (objs s i) = None" "\<not> attached (objs s i)"
    by (rule idle_drop_ok [OF s(1), of i]) (use that assms(3) in simp_all)
  moreover have "dbg_ok (detachTrackedSession i ?s)" if "attached (objs s i)" by (rule detachTracked_ok [OF s(1)]) (simp add: that)
  ultimately show ?thesis using s
    by (auto simp: detach_session_def Let_def caller_goto detachTracked_caller split: option.split)
qed

lemma detach_ok: "dbg_ok s \<Longrightarrow> caller s c \<Longrightarrow> dbg_ok (detach c s)"
  by (auto simp: detach_def look_ok caller_goto detach_session_ok split: option.split)

lemma detachRecovered_ok: "dbg_ok s \<Longrightarrow> caller s c \<Longrightarrow> dbg_ok (detachRecovered c s)"
  by (simp add: detachRecovered_def look_ok detach_ok)

lemma attach_awaited_ok:
  assumes "dbg_ok s" "caller s c" "is_settled (stage_of s q)"
  shows "dbg_ok (attach_awaited c i q s)"
proof -
  have "\<not> links i (stage_of s d)" if "attachPromise (objs s i) = Some q" for d
  proof
    assume l: "links i (stage_of s d)"
    with assms(1) that have "d = q" by (auto simp: dbg_ok_def links_ok_def)
    with l assms(3) show False by (cases "stage_of s q") auto
  qed
  then have "dbg_ok (on_obj i (\<lambda>d. d\<lparr>attachPromise := None\<rparr>) s)" if "attachPromise (objs s i) = Some q"
    using attach_promise_ok [OF assms(1), of i None] that by simp
  then show ?thesis using assms by (auto simp: attach_awaited_def intro!: detach_ok caller_goto)
qed

lemma plain_forgetting [simp]:
  "plain (Detach_requested Of_recovered)" "plain (Clearing Of_recovered)" "plain (Clearing Of_absent)"
  by (simp_all add: plain_def tracked_def)

lemma target_found_ok: "dbg_ok s \<Longrightarrow> caller s c \<Longrightarrow> dbg_ok (target_found c b s)"
  by (simp add: target_found_def ask_ok caller_goto)

text \<open>The calls that forget a tab: they may be the promise of a session.\<close>

lemma tracked_promise: "dbg_ok s \<Longrightarrow> detachPromise (objs s i) = Some c \<Longrightarrow> stage_of s c = st \<Longrightarrow> \<not> is_settled st \<Longrightarrow> tracked i st"
  by (auto simp: dbg_ok_def promises_ok_def)

lemma forgetting_fits:
  assumes "dbg_ok s" "stage_of s c = st" "\<not> is_settled st" "\<And>i. tracked i st \<Longrightarrow> tracked i st'" "\<And>i. \<not> links i st'"
    "\<And>i. needs i st' \<Longrightarrow> attached (objs s i)" "\<And>i. gone i st' \<Longrightarrow> current s \<noteq> Some i" "\<And>r. st' \<noteq> Settled r"
  shows "fits s c st'"
proof -
  have "tracked i st'" if "detachPromise (objs s i) = Some c" for i
  proof (rule assms(4))
    show "tracked i st" by (rule tracked_promise [OF assms(1) that assms(2,3)])
  qed
  with assms(5-8) show ?thesis by (simp add: fits_def)
qed

lemma detach_failed_ok:
  assumes "dbg_ok s" "c < calls_made s" "c \<notin> set (in_transit s)"
  shows "dbg_ok (detach_failed c f e s)"
proof -
  have settle_call: "dbg_ok (settle_call c (Inl e) t)" if "dbg_ok t" "c < calls_made t" "c \<notin> set (in_transit t)" for t
    using that by (intro goto_ok) (auto simp: fits_def tracked_def)
  show ?thesis using assms detach_promise_ok [of s None] detach_promise_ok [of "snd (consumeExpectedDetach s)" None]
    by (cases f) (auto simp: detach_failed_def Let_def intro!: settle_call)
qed

lemma forgetting_stages:
  "needs i (Clearing f) \<longleftrightarrow> f = Of_session i" "needs i (Forgetting f) \<longleftrightarrow> f = Of_session i" "needs i (Unlisting f) \<longleftrightarrow> f = Of_session i"
  "tracked i (Clearing f) \<longleftrightarrow> f = Of_session i" "tracked i (Forgetting f) \<longleftrightarrow> f = Of_session i" "tracked i (Unlisting f) \<longleftrightarrow> f = Of_session i"
  "tracked i (Detach_requested f) \<longleftrightarrow> f = Of_session i" "needs i (Detach_requested f) \<longleftrightarrow> f = Of_session i"
  by (simp_all add: tracked_def)

lemma needed: "dbg_ok s \<Longrightarrow> stage_of s c = st \<Longrightarrow> needs i st \<Longrightarrow> attached (objs s i)"
  by (auto simp: dbg_ok_def needs_ok_def)

lemma gone_not_current: "dbg_ok s \<Longrightarrow> stage_of s c = st \<Longrightarrow> gone i st \<Longrightarrow> current s \<noteq> Some i"
  by (auto simp: dbg_ok_def needs_ok_def)

lemma forgets_next:
  assumes "dbg_ok s" "stage_of s c = st" "\<not> waits st" "\<not> is_settled st" "(st, st') \<in> {(Clearing f, Forgetting f), (Forgetting f, Unlisting f)}"
  shows "dbg_ok (goto c st' s)"
proof (rule goto_ok [OF assms(1)])
  show "c < calls_made s" "c \<notin> set (in_transit s)" using quiet_call [OF assms(1-4)] by simp_all
  show "fits s c st'"
  proof (rule forgetting_fits [OF assms(1,2,4)])
    show "attached (objs s i)" if "needs i st'" for i
      by (rule needed [OF assms(1,2)]) (use that assms(5) in \<open>auto simp: forgetting_stages\<close>)
    show "current s \<noteq> Some i" if "gone i st'" for i
      by (rule gone_not_current [OF assms(1,2)]) (use that assms(5) in auto)
  qed (use assms(5) in \<open>auto simp: forgetting_stages\<close>)
qed

lemma forgotten_ok:
  assumes "dbg_ok s" "stage_of s c = Forgetting f"
  shows "dbg_ok (forgotten_in_store c f s)"
  using forgets_next [of "s\<lparr>recorded := False\<rparr>" c "Forgetting f" "Unlisting f" f] assms by (simp add: forgotten_in_store_def)

lemma unlisted_ok:
  assumes "dbg_ok s" "stage_of s c = Unlisting f"
  shows "dbg_ok (unlisted c s)"
proof -
  have "attached (objs s i) \<and> current s \<noteq> Some i" if "detachPromise (objs s i) = Some c" for i
  proof -
    from tracked_promise [OF assms(1) that assms(2)] have "f = Of_session i" by (simp add: forgetting_stages)
    then show ?thesis using needed [OF assms] gone_not_current [OF assms] by (simp add: forgetting_stages)
  qed
  then have "dbg_ok (settle_call c (Inr None) (s\<lparr>candidate := False\<rparr>))"
    using assms quiet_call [OF assms] by (intro goto_ok) (auto simp: fits_def in_transit_def tracked_def)
  then show ?thesis by (simp add: unlisted_def)
qed

section \<open>Timers and commands\<close>

lemma idle_timer_ok:
  assumes "dbg_ok s" shows "dbg_ok (idle_timer_fires i s)"
proof -
  let ?s = "clear_timer i s" and ?d = "Suc (calls_made s)"
  let ?u = "spawn (Settled (Inr None)) (spawn (Idle_detaching i ?d) ?s)"
  have "dbg_ok ?u" using assms by (simp add: spawn_ok)
  moreover have "caller ?u ?d"
    using new_caller [of "spawn (Idle_detaching i ?d) ?s" "Settled (Inr None)"] assms by (simp add: spawn_ok)
  ultimately show ?thesis using assms by (simp add: idle_timer_fires_def Let_def detach_ok)
qed

lemma idle_ended_ok: "dbg_ok s \<Longrightarrow> caller s c \<Longrightarrow> dbg_ok (idle_detach_ended c i r s)"
  by (auto simp: idle_detach_ended_def intro!: caller_goto)

lemma lease_goto:
  assumes "dbg_ok s" "caller s c" "attached (objs s i)" "st \<in> {Leased p i, Commanding p i}"
  shows "dbg_ok (goto c st s)"
  using assms by (intro need_goto) auto

lemma lease_taken_ok:
  assumes "dbg_ok s" "caller s c" shows "dbg_ok (lease_taken c p s)"
proof (cases "acquireDebuggerBusyLease (case p of Hold a \<Rightarrow> a | _ \<Rightarrow> None) s")
  case (Pair x t)
  have "alike t s" using Pair
    by (auto simp: acquireDebuggerBusyLease_def alike_refl alike_trans [OF alike_updates(4) alike_updates(3)] split: option.splits if_splits)
  then have t: "dbg_ok t" "caller t c" "\<And>i. attached (objs t i) = attached (objs s i)"
    using assms by (simp_all add: alike_ok alike_caller alike_fields)
  have "attached (objs t i)" if "x = Inr i" for i
    unfolding t(3) using Pair that by (auto simp: acquireDebuggerBusyLease_def split: option.splits if_splits)
  then show ?thesis using Pair t
    by (auto simp: lease_taken_def fail_ok caller_goto intro!: lease_goto [of _ _ _ _ p] split: sum.split purpose.split)
qed

lemma sendIfAttached_ok: "dbg_ok s \<Longrightarrow> caller s c \<Longrightarrow> dbg_ok (sendIfAttached c s)"
  by (auto simp: sendIfAttached_def caller_goto intro!: lease_goto split: option.split)

text \<open>A command that Chrome did not answer with the loss of the session, or whose session was lost.\<close>

lemma command_failed_ok:
  assumes "dbg_ok s" "caller s c" "not_attached_to_tab e \<Longrightarrow> current s = Some i \<Longrightarrow> dbg_ok (s\<lparr>current := None\<rparr>)"
  shows "dbg_ok (command_failed c p i e s)"
proof -
  have "dbg_ok (invalidateDetachedSession (Some i) s)" if "not_attached_to_tab e"
  proof (cases "current s = Some i")
    case True
    have "alike ((clear_timer i s)\<lparr>current := None\<rparr>) (s\<lparr>current := None\<rparr>)" by (simp add: alike_def clear_timer_def)
    with assms(3) [OF that True] True show ?thesis by (simp add: invalidateDetachedSession_def Let_def alike_ok)
  qed (simp add: invalidateDetachedSession_def Let_def assms(1))
  moreover have "caller (invalidateDetachedSession (Some i) s) c"
    using assms(2) by (simp add: invalidateDetachedSession_def Let_def)
  ultimately show ?thesis using assms(1,2)
    by (auto simp: command_failed_def intro!: caller_goto split: purpose.split)
qed

lemma dialog_error_ok: "\<not> not_attached_to_tab (dialogOpenError (dialog_of d) x)"
  by (cases d; cases "fst d") (simp_all add: says_def dialogOpenError_def dialog_of_def lower_def lower_char_def Let_def)

lemma command_dialog_ok: "dbg_ok s \<Longrightarrow> caller s c \<Longrightarrow> dbg_ok (command_failed c p i (dialogOpenError (dialog_of d) x) s)"
  by (rule command_failed_ok) (simp_all add: dialog_error_ok)

lemma command_ok:
  assumes "dbg_ok s" "stage_of s c = Leased p i"
  shows "dbg_ok (commandUnlessDialog c p i s)"
proof -
  have c: "caller s c" by (rule quiet_caller [OF assms]) (simp_all add: tracked_def)
  have "dbg_ok (goto c (Commanding p i) s)" by (rule lease_goto [OF assms(1) c needed [OF assms]]) simp_all
  then have "dbg_ok (request_of c (goto c (Commanding p i) s))" using c by (intro asking_ok) (auto simp: caller_def)
  then show ?thesis using assms c by (auto simp: commandUnlessDialog_def command_dialog_ok split: option.split purpose.split bool.split)
qed

lemma wait_polled_ok: "dbg_ok s \<Longrightarrow> caller s c \<Longrightarrow> dbg_ok (wait_polled c i r s)"
  by (auto simp: wait_polled_def intro!: caller_goto split: reply.split)

section \<open>Calls go on\<close>

lemma stage_caller:
  assumes "dbg_ok s" "stage_of s c = st" "\<not> waits st" "\<not> is_settled st" "plain st \<or> (\<exists>p i. st = Leased p i) \<or> (\<exists>i. links i st)"
  shows "caller s c"
  by (rule quiet_caller [OF assms(1-4)]) (use assms(5) in \<open>auto simp: plain_def tracked_def elim!: links.elims\<close>)

text \<open>A dialog interrupts a command: the answer of Chrome is still to come, and nobody will look at it.\<close>

lemma interrupted_ok:
  assumes "dbg_ok s" "stage_of s c = Commanding p i" "\<not> not_attached_to_tab e"
  shows "dbg_ok (command_failed c p i e s)"
proof -
  have settle_call: "dbg_ok (settle_call c r t)" if t: "dbg_ok t" "stage_of t c = Commanding p i" for r t
  proof -
    have "c < calls_made t" using t by (auto simp: dbg_ok_def fresh_ok_def not_less [symmetric])
    moreover have same: "attaches_through (settle_call c r t) j ms = attaches_through t j ms" for j ms
    proof -
      have "stage_of (settle_call c r t) d = Attach_requested j \<longleftrightarrow> stage_of t d = Attach_requested j" for d using t(2) by simp
      then show ?thesis by (simp only: attaches_through_def goto_simps)
    qed
    moreover have "asked_ok (settle_call c r t)" using t(1) by (auto simp: dbg_ok_def asked_ok_def)
    moreover have "kills_ok (settle_call c r t)" using t(1) by (auto simp: dbg_ok_def kills_ok_def)
    moreover have "holder_ok (settle_call c r t)" using t(1) same by (simp add: dbg_ok_def holder_ok_def)
    moreover have "events_ok (settle_call c r t)"
      by (rule events_same [of t]) (use t(1) same in \<open>auto simp: dbg_ok_def event_ok_def\<close>)
    moreover have "promises_ok (settle_call c r t)"
      using t(1) no_promise_of [OF t(1), of c] t(2) by (simp add: dbg_ok_def promises_ok_def tracked_def)
    ultimately show ?thesis using t by (auto simp: dbg_ok_def fresh_ok_def links_ok_def needs_ok_def tracked_def)
  qed
  show ?thesis using assms by (auto simp: command_failed_def intro!: settle_call split: purpose.split)
qed

lemma continue_ok:
  assumes "dbg_ok s" "continue_call c r s = Some t"
  shows "dbg_ok t"
proof (cases "stage_of s c")
  case (Entering p)
  have "caller s c" by (rule stage_caller [OF assms(1) Entering]) simp_all
  with assms Entering show ?thesis by (auto simp: continue_call_def fail_ok ensureAttached_ok split: reply.splits)
next
  case (Rechecking p)
  have "caller s c" by (rule stage_caller [OF assms(1) Rechecking]) simp_all
  with assms Rechecking show ?thesis by (auto simp: continue_call_def fail_ok caller_goto split: reply.splits)
next
  case (Acquiring p)
  have "caller s c" by (rule stage_caller [OF assms(1) Acquiring]) simp_all
  with assms Acquiring show ?thesis by (auto simp: continue_call_def lease_taken_ok)
next
  case (Leased p i)
  have "caller s c" by (rule stage_caller [OF assms(1) Leased]) simp_all
  with assms Leased show ?thesis
    by (auto simp: continue_call_def command_ok intro!: command_failed_ok split: reply.splits if_splits)
next
  case (Commanding p i)
  with assms show ?thesis
    by (auto simp: continue_call_def dialog_error_ok intro!: interrupted_ok split: option.splits purpose.splits bool.splits)
next
  case (Holding i)
  have "caller s c" by (rule stage_caller [OF assms(1) Holding]) simp_all
  with assms Holding show ?thesis by (auto simp: continue_call_def wait_polled_ok)
next
  case (Attach_authorizing i)
  have "caller s c" by (rule stage_caller [OF assms(1) Attach_authorizing]) auto
  with assms Attach_authorizing show ?thesis
    by (auto simp: continue_call_def attach_authorized_ok intro!: attach_settled_ok split: reply.splits)
next
  case (Attach_recording i)
  have "caller s c" by (rule stage_caller [OF assms(1) Attach_recording]) auto
  with assms Attach_recording show ?thesis
    by (auto simp: continue_call_def attach_recorded_ok intro!: attach_settled_ok split: reply.splits)
next
  case (Attach_initializing i)
  with assms show ?thesis by (auto simp: continue_call_def init_ended_ok split: reply.splits)
next
  case Invalidating
  have "caller s c" by (rule stage_caller [OF assms(1) Invalidating]) simp_all
  with assms Invalidating show ?thesis by (auto simp: continue_call_def caller_goto split: reply.splits)
next
  case (Clearing f)
  with assms quiet_call [OF assms(1) Clearing] forgets_next [OF assms(1) Clearing, of "Forgetting f"] show ?thesis
    by (auto simp: continue_call_def detach_failed_ok split: reply.splits)
next
  case (Forgetting f)
  with assms quiet_call [OF assms(1) Forgetting] show ?thesis
    by (auto simp: continue_call_def detach_failed_ok forgotten_ok split: reply.splits)
next
  case (Unlisting f)
  with assms show ?thesis by (auto simp: continue_call_def unlisted_ok)
qed (use assms in \<open>auto simp: continue_call_def split: reply.splits\<close>)

lemma call_resumes_ok:
  assumes "dbg_ok s" "resume_call c s = Some t"
  shows "dbg_ok t"
proof -
  from assms(2) obtain q r where q: "awaited (stage_of s c) = Some q" "stage_of s q = Settled r" and t: "t = resumed_with c (stage_of s c) r s"
    by (auto simp: resume_call_def split: option.splits stage.splits)
  have c: "caller s c" if "\<And>i q e. stage_of s c \<noteq> Attach_cleaning i q e"
    by (rule quiet_caller [OF assms(1) refl]) (use q(1) that in \<open>auto simp: awaited_def tracked_def split: stage.splits\<close>)
  show ?thesis
  proof (cases "stage_of s c")
    case (Attach_cleaning i q e)
    with t assms(1) show ?thesis by (simp add: resumed_with_def cleaned_ok)
  qed (use q t c assms(1) in \<open>auto simp: resumed_with_def awaited_def fail_ok begin_attach_ok caller_goto idle_ended_ok attach_awaited_ok split: sum.split\<close>)
qed

lemma call_starts_ok: "dbg_ok s \<Longrightarrow> dbg_ok (start_call k s)"
  by (auto simp: start_call_def spawn_ok new_caller intro!: sendIfAttached_ok detach_ok detachRecovered_ok split: dbg_call.split)

section \<open>Chrome\<close>

lemma event_end: "xs @ [a] = ys @ On_detach # zs \<Longrightarrow> a \<noteq> On_detach \<Longrightarrow> \<exists>zs'. xs = ys @ On_detach # zs'"
  by (cases zs rule: rev_cases) auto

lemma event_ok_asked: "event_ok s xs \<Longrightarrow> event_ok (s\<lparr>asked := remove1 c (asked s), inbox := ms\<rparr>) xs"
  by (auto simp: event_ok_def attaches_through_def dest: notin_set_remove1)

text \<open>An answer that says nothing new of the tab.\<close>

lemma answer_ok:
  assumes "dbg_ok s" "c \<in> set (asked s)" "\<And>i. kills i (stage_of s c) r \<Longrightarrow> holder s \<noteq> Some i"
  shows "dbg_ok (reply_to c r s)"
proof -
  have d: "distinct (in_transit s)" using assms(1) by (simp add: dbg_ok_def asked_ok_def)
  then have "set (in_transit (reply_to c r s)) = set (in_transit s)" "distinct (in_transit (reply_to c r s))"
    using assms(2) by (auto simp: in_transit_def reply_to_def List.map_filter_def set_remove1_eq)
  then have "asked_ok (reply_to c r s)" using assms(1) by (simp add: dbg_ok_def asked_ok_def) (simp add: reply_to_def)
  moreover have "events_ok (reply_to c r s)" unfolding events_ok_def
  proof (intro allI impI)
    fix xs ys assume "inbox (reply_to c r s) = xs @ On_detach # ys"
    then obtain zs where "inbox s = xs @ On_detach # zs" by (auto simp: reply_to_def dest: event_end)
    with assms(1) have "event_ok s xs" by (auto simp: dbg_ok_def events_ok_def)
    then show "event_ok (reply_to c r s) xs" by (simp add: reply_to_def event_ok_asked)
  qed
  moreover have "holder_ok (reply_to c r s)" using assms(1) by (auto simp: dbg_ok_def holder_ok_def attaches_through_def reply_to_def)
  moreover have "kills_ok (reply_to c r s)" using assms(1,3) by (auto simp: dbg_ok_def kills_ok_def reply_to_def)
  ultimately show ?thesis using assms(1)
    by (simp add: dbg_ok_def fresh_ok_def links_ok_def needs_ok_def promises_ok_def) (simp add: reply_to_def)
qed

lemma event_holder: "dbg_ok s \<Longrightarrow> On_detach \<in> set (inbox s) \<Longrightarrow> holder s = None \<and> (\<forall>c\<in>set (asked s). \<forall>i. stage_of s c \<noteq> Attach_requested i)"
  by (metis dbg_ok_def event_ok_def events_ok_def split_list)

lemma not_killed: "dbg_ok s \<Longrightarrow> holder s = Some i \<Longrightarrow> Answer c r \<in> set (inbox s) \<Longrightarrow> \<not> kills i (stage_of s c) r"
  by (auto simp: dbg_ok_def kills_ok_def)

lemma chrome_detaches_ok:
  assumes "dbg_ok s" "holder s = Some h"
  shows "dbg_ok (chrome_detaches event s)"
proof -
  let ?t = "chrome_detaches event s"
  from assms have h: "current s = Some h" "attaches_through s h (set (inbox s))" by (auto simp: dbg_ok_def holder_ok_def)
  have none: "On_detach \<notin> set (inbox s)" using event_holder [OF assms(1)] assms(2) by auto
  have "stage_of s c \<noteq> Attach_requested i" if "c \<in> set (asked s)" for c i
  proof
    assume c: "stage_of s c = Attach_requested i"
    then have l: "current s = Some i" "\<not> attached (objs s i)" using linked [OF assms(1) c] by simp_all
    with h obtain d where d: "stage_of s d = Attach_requested i" "Answer d Done \<in> set (inbox s)" by (auto simp: attaches_through_def)
    with link_unique [OF assms(1), of i c d] c have "d = c" by simp
    then show False using that d(2) assms(1)
      by (auto simp: dbg_ok_def asked_ok_def in_transit_def List.map_filter_def image_iff) force
  qed
  then have last: "event_ok ?t (inbox s)"
    using h none not_killed [OF assms] by (simp add: event_ok_def chrome_detaches_def attaches_through_def)
  have "events_ok ?t" unfolding events_ok_def
  proof (intro allI impI)
    fix xs ys assume i: "inbox ?t = xs @ On_detach # ys"
    have "xs = inbox s"
    proof (cases ys rule: rev_cases)
      case Nil
      with i none show ?thesis by (auto simp: chrome_detaches_def split: if_splits)
    next
      case (snoc zs m)
      with i have "On_detach \<in> set (inbox s)" by (auto simp: chrome_detaches_def append_eq_append_conv2 split: if_splits)
      with none show ?thesis by simp
    qed
    with last show "event_ok ?t xs" by simp
  qed
  moreover have "in_transit ?t = in_transit s" by (simp add: in_transit_def chrome_detaches_def List.map_filter_def)
  ultimately show ?thesis using assms(1)
    by (simp add: dbg_ok_def fresh_ok_def links_ok_def needs_ok_def promises_ok_def asked_ok_def holder_ok_def kills_ok_def)
      (simp add: chrome_detaches_def)
qed

lemma chrome_attaches_ok:
  assumes "dbg_ok s" "c \<in> set (asked s)" "stage_of s c = Attach_requested i" "holder s = None"
  shows "dbg_ok (reply_to c Done (s\<lparr>holder := Some i\<rparr>))"
proof -
  have base: "dbg_ok (reply_to c Done s)" using assms by (intro answer_ok) auto
  have l: "current s = Some i" "\<not> attached (objs s i)" using linked [OF assms(1,3)] by simp_all
  have "On_detach \<notin> set (inbox s)" using event_holder [OF assms(1)] assms(2,3) by auto
  then have "events_ok (reply_to c Done (s\<lparr>holder := Some i\<rparr>))" by (intro events_none) (simp add: reply_to_def)
  moreover have "\<not> kills i (stage_of s d) r" for d r
  proof
    assume "kills i (stage_of s d) r"
    then have "needs i (stage_of s d)" by (auto simp: tracked_def elim!: kills.elims)
    with needed [OF assms(1) refl] l show False by blast
  qed
  then have "kills_ok (reply_to c Done (s\<lparr>holder := Some i\<rparr>))" by (auto simp: kills_ok_def reply_to_def)
  moreover have "holder_ok (reply_to c Done (s\<lparr>holder := Some i\<rparr>))"
    using assms(3) l by (auto simp: holder_ok_def attaches_through_def reply_to_def)
  ultimately show ?thesis using base
    by (simp add: dbg_ok_def fresh_ok_def links_ok_def needs_ok_def promises_ok_def asked_ok_def in_transit_def) (simp add: reply_to_def)
qed

lemma kills_stage: "kills i (Detach_requested f) r \<longleftrightarrow> f = Of_session i \<and> (\<forall>e. r = Failed e \<longrightarrow> not_attached e)"
  by (cases r) auto

lemma chrome_handles_ok:
  assumes "dbg_ok s" "chrome_handles c r event s = Some t"
  shows "dbg_ok t"
proof -
  have c: "c \<in> set (asked s)" using assms(2) by (auto simp: chrome_handles_def split: if_splits)
  have "dbg_ok (reply_to c Done (chrome_detaches event s))" if "holder s = Some h" for h
    by (rule answer_ok [OF chrome_detaches_ok [OF assms(1) that]]) (simp_all add: chrome_detaches_def c)
  then show ?thesis using assms c chrome_attaches_ok [OF assms(1) c] answer_ok [OF assms(1) c, of r]
    by (auto simp: chrome_handles_def kills_stage split: stage.splits reply.splits if_splits)
qed

section \<open>The inbox\<close>

lemma inbox_tail_ok:
  assumes "dbg_ok s" "inbox s = Answer c r # ms" "r \<noteq> Done \<or> (\<forall>i. stage_of s c \<noteq> Attach_requested i)"
  shows "dbg_ok (s\<lparr>inbox := ms\<rparr>)"
proof -
  have same: "attaches_through (s\<lparr>inbox := ms\<rparr>) k (set xs)" if "attaches_through s k (set (Answer c r # xs))" for k xs
    using that assms(3) by (auto simp: attaches_through_def)
  have "events_ok (s\<lparr>inbox := ms\<rparr>)" unfolding events_ok_def
  proof (intro allI impI)
    fix xs ys assume "inbox (s\<lparr>inbox := ms\<rparr>) = xs @ On_detach # ys"
    with assms(2) have "inbox s = (Answer c r # xs) @ On_detach # ys" by simp
    with assms(1) have "event_ok s (Answer c r # xs)" unfolding dbg_ok_def events_ok_def by blast
    then show "event_ok (s\<lparr>inbox := ms\<rparr>) xs" using same by (auto simp: event_ok_def)
  qed
  moreover have "holder_ok (s\<lparr>inbox := ms\<rparr>)" using assms(1,2) same [of _ ms] by (simp add: dbg_ok_def holder_ok_def)
  moreover have "asked_ok (s\<lparr>inbox := ms\<rparr>)"
    using assms(1,2) by (auto simp: dbg_ok_def asked_ok_def in_transit_def List.map_filter_def)
  moreover have "kills_ok (s\<lparr>inbox := ms\<rparr>)" using assms(1,2) by (simp add: dbg_ok_def kills_ok_def)
  ultimately show ?thesis using assms(1) by (simp add: dbg_ok_def fresh_ok_def links_ok_def needs_ok_def promises_ok_def)
qed

lemma transit: "dbg_ok s \<Longrightarrow> c \<in> set (in_transit s) \<Longrightarrow> c < calls_made s \<and> (waits (stage_of s c) \<or> is_settled (stage_of s c))"
  by (simp add: dbg_ok_def asked_ok_def)

lemma inbox_head:
  assumes "dbg_ok s" "inbox s = Answer c r # ms"
  shows "c < calls_made s" "c \<notin> set (in_transit (s\<lparr>inbox := ms\<rparr>))" "waits (stage_of s c) \<or> is_settled (stage_of s c)"
    "kills i (stage_of s c) r \<Longrightarrow> holder s \<noteq> Some i \<and> (current s = Some i \<longrightarrow> On_detach \<notin> set ms)"
proof -
  show "c < calls_made s" "waits (stage_of s c) \<or> is_settled (stage_of s c)"
    using transit [OF assms(1), of c] assms(2) by (auto simp: set_in_transit)
  show "c \<notin> set (in_transit (s\<lparr>inbox := ms\<rparr>))"
    using assms by (auto simp: dbg_ok_def asked_ok_def in_transit_def List.map_filter_def)
  assume k: "kills i (stage_of s c) r"
  have "On_detach \<notin> set ms" if "current s = Some i"
  proof
    assume "On_detach \<in> set ms"
    then obtain xs ys where "ms = xs @ On_detach # ys" by (metis split_list)
    with assms(2) have "inbox s = (Answer c r # xs) @ On_detach # ys" by simp
    with assms(1) have "event_ok s (Answer c r # xs)" unfolding dbg_ok_def events_ok_def by blast
    with that k show False by (auto simp: event_ok_def)
  qed
  then show "holder s \<noteq> Some i \<and> (current s = Some i \<longrightarrow> On_detach \<notin> set ms)"
    using assms k by (auto simp: dbg_ok_def kills_ok_def)
qed

text \<open>The answer to an attach that succeeded.\<close>

lemma attach_done_ok:
  assumes "dbg_ok s" "inbox s = Answer c r # ms" "stage_of s c = Attach_requested i"
  shows "dbg_ok (goto c (Attach_initializing i) (on_obj i (\<lambda>d. d\<lparr>attached := True\<rparr>) (s\<lparr>inbox := ms\<rparr>)))"
    (is "dbg_ok ?t")
proof -
  have l: "current s = Some i" using linked [OF assms(1,3)] by simp
  have other: "\<not> links j (stage_of s d)" if "d \<noteq> c" for j d
  proof
    assume "links j (stage_of s d)"
    moreover from this have "j = i" using linked [OF assms(1) refl] l by fastforce
    ultimately show False using link_unique [OF assms(1), of i c d] assms(3) that by simp
  qed
  then have "links_ok ?t" by (auto simp: links_ok_def)
  moreover have "events_ok ?t" unfolding events_ok_def
  proof (intro allI impI)
    fix xs ys assume "inbox ?t = xs @ On_detach # ys"
    with assms(2) have "inbox s = (Answer c r # xs) @ On_detach # ys" by simp
    with assms(1) have "event_ok s (Answer c r # xs)" unfolding dbg_ok_def events_ok_def by blast
    then show "event_ok ?t xs" using l by (auto simp: event_ok_def attaches_through_def)
  qed
  moreover have "holder_ok ?t" using assms(1) l by (auto simp: dbg_ok_def holder_ok_def attaches_through_def)
  moreover have "asked_ok ?t"
    using assms(1,2) inbox_head(2) [OF assms(1,2)] by (auto simp: dbg_ok_def asked_ok_def in_transit_def List.map_filter_def)
  moreover have "fresh_ok ?t" using assms(1,3) l inbox_head(1) [OF assms(1,2)] by (auto simp: dbg_ok_def fresh_ok_def)
  moreover have "promises_ok ?t"
    using assms(1,3) no_promise_of [OF assms(1), of c] by (auto simp: dbg_ok_def promises_ok_def tracked_def)
  ultimately show ?thesis using assms(1,2) by (auto simp: dbg_ok_def needs_ok_def kills_ok_def)
qed

lemma attach_answered_ok:
  assumes "dbg_ok s" "inbox s = Answer c r # ms" "stage_of s c = Attach_requested i"
  shows "dbg_ok (attach_answered c i r (s\<lparr>inbox := ms\<rparr>))"
proof (cases "\<exists>e. r = Failed e")
  case True
  then have t: "dbg_ok (s\<lparr>inbox := ms\<rparr>)" using inbox_tail_ok [OF assms(1,2)] by auto
  moreover have "caller (s\<lparr>inbox := ms\<rparr>) c"
    using inbox_head(1,2) [OF assms(1,2)] no_promise_of [OF t, of c] assms(3) by (simp add: caller_def tracked_def)
  ultimately show ?thesis using True assms(3)
    by (auto simp: attach_answered_def intro!: attach_settled_ok attach_refused_ok)
qed (use attach_done_ok [OF assms] in \<open>auto simp: attach_answered_def split: reply.split\<close>)

lemma dropped_ok:
  assumes "dbg_ok s" "attached (objs s i)" "holder s \<noteq> Some i" "current s = Some i \<longrightarrow> On_detach \<notin> set (inbox s)"
  shows "dbg_ok (drop_session i s)"
  using assms drop_ok [OF assms(1), of i] unlinked [OF assms(1), of i] by (simp add: drop_session_def)

lemma drop_simps [simp]:
  "stage_of (drop_session i s) = stage_of s" "calls_made (drop_session i s) = calls_made s" "objs (drop_session i s) = objs s"
  "in_transit (drop_session i s) = in_transit s" "current (drop_session i s) \<noteq> Some i"
  by (auto simp: drop_session_def in_transit_def)

lemma detach_answered_ok:
  assumes "dbg_ok s" "inbox s = Answer c r # ms" "stage_of s c = Detach_requested f"
  shows "dbg_ok (detach_answered c f r (s\<lparr>inbox := ms\<rparr>))"
proof -
  let ?s = "s\<lparr>inbox := ms\<rparr>"
  note head = inbox_head [OF assms(1,2)]
  have s: "dbg_ok ?s" by (rule inbox_tail_ok [OF assms(1,2)]) (simp add: assms(3))
  have failed: "dbg_ok (detach_failed c f e ?s)" for e using head s by (intro detach_failed_ok) auto
  show ?thesis
  proof (cases f)
    case (Of_session i)
    have att: "attached (objs ?s i)" using needed [OF assms(1,3)] Of_session by (simp add: forgetting_stages)
    have cleared: "dbg_ok (goto c (Clearing f) (drop_session i t))"
      if k: "kills i (stage_of s c) r" and t: "dbg_ok t" "alike t ?s" for t
    proof (rule goto_ok)
      note same = alike_fields [OF t(2)]
      show d: "dbg_ok (drop_session i t)" using t(1) head(4) [OF k] att by (intro dropped_ok) (simp_all add: same)
      show "c < calls_made (drop_session i t)" "c \<notin> set (in_transit (drop_session i t))" using head by (simp_all add: same)
      show "fits (drop_session i t) c (Clearing f)"
        by (rule forgetting_fits [OF d refl]) (use att assms(3) Of_session in \<open>auto simp: same forgetting_stages\<close>)
    qed
    show ?thesis
    proof (cases r)
      case (Failed e)
      then show ?thesis using failed cleared [of "snd (consumeExpectedDetach ?s)"] s assms(3) Of_session
        by (auto simp: detach_answered_def kills_stage)
    qed (use cleared [of ?s] s assms(3) Of_session in \<open>auto simp: detach_answered_def kills_stage alike_refl\<close>)
  next
    case Of_recovered
    have "caller ?s c" using head no_promise_of [OF s, of c] assms(3) Of_recovered by (simp add: caller_def forgetting_stages)
    then show ?thesis using failed s Of_recovered by (auto simp: detach_answered_def caller_goto split: reply.split)
  next
    case Of_absent
    have "caller ?s c" using head no_promise_of [OF s, of c] assms(3) Of_absent by (simp add: caller_def forgetting_stages)
    then show ?thesis using failed s Of_absent by (auto simp: detach_answered_def caller_goto split: reply.split)
  qed
qed

lemma command_answered_ok:
  assumes "dbg_ok s" "inbox s = Answer c r # ms" "stage_of s c = Commanding p i"
  shows "dbg_ok (command_answered c p i r (s\<lparr>inbox := ms\<rparr>))"
proof -
  let ?s = "s\<lparr>inbox := ms\<rparr>"
  note head = inbox_head [OF assms(1,2)]
  have s: "dbg_ok ?s" by (rule inbox_tail_ok [OF assms(1,2)]) (simp add: assms(3))
  have c: "caller ?s c" using head no_promise_of [OF s, of c] assms(3) by (simp add: caller_def tracked_def)
  have att: "attached (objs s i)" using needed [OF assms(1,3)] by simp
  have "dbg_ok (?s\<lparr>current := None\<rparr>)" if "r = Failed e" "not_attached_to_tab e" "current ?s = Some i" for e
    using that head(4) [of i] assms(3) att s unlinked [OF s, of i] by (intro drop_ok) auto
  then show ?thesis using s c by (auto simp: command_answered_def caller_goto intro!: command_failed_ok split: reply.split)
qed

lemma deliver_ok:
  assumes "dbg_ok s" "deliver s = Some t"
  shows "dbg_ok t"
proof (cases "inbox s")
  case (Cons m ms)
  let ?s = "s\<lparr>inbox := ms\<rparr>"
  show ?thesis
  proof (cases m)
    case On_detach
    with Cons have split: "inbox s = [] @ On_detach # ms" by simp
    with assms(1) have ev: "event_ok s []" unfolding dbg_ok_def events_ok_def by blast
    then obtain k where k: "current s = Some k" "attached (objs s k)" "holder s = None"
      by (auto simp: event_ok_def attaches_through_def)
    have none: "On_detach \<notin> set ms"
    proof
      assume "On_detach \<in> set ms"
      then obtain xs ys where "ms = xs @ On_detach # ys" by (metis split_list)
      with Cons On_detach have "inbox s = (On_detach # xs) @ On_detach # ys" by simp
      with assms(1) have "event_ok s (On_detach # xs)" unfolding dbg_ok_def events_ok_def by blast
      then show False by (simp add: event_ok_def)
    qed
    have "events_ok ?s" using none by (simp add: events_none)
    moreover have "asked_ok ?s" using assms(1) Cons On_detach by (auto simp: dbg_ok_def asked_ok_def in_transit_def List.map_filter_def)
    moreover have "kills_ok ?s" "holder_ok ?s" using k by (simp_all add: kills_ok_def holder_ok_def)
    ultimately have s: "dbg_ok ?s" using assms(1) by (simp add: dbg_ok_def fresh_ok_def links_ok_def needs_ok_def promises_ok_def)
    have "dbg_ok (?s\<lparr>current := None\<rparr>)" using k none unlinked [OF s, of k] by (intro drop_ok [OF s, of k]) auto
    moreover have "alike ((clear_timer k ?s)\<lparr>current := None\<rparr>) (?s\<lparr>current := None\<rparr>)" by (simp add: alike_def clear_timer_def)
    ultimately have "dbg_ok ((clear_timer k ?s)\<lparr>current := None\<rparr>)" by (simp add: alike_ok)
    moreover have "dbg_ok (?s\<lparr>expected := n\<rparr>)" for n
    proof -
      have "alike (?s\<lparr>expected := n\<rparr>) ?s" by (simp add: alike_def)
      with s show ?thesis by (simp add: alike_ok)
    qed
    ultimately show ?thesis using assms(2) Cons On_detach k
      by (auto simp: deliver_def on_detach_event_def consumeExpectedDetach_def invalidateDetachedSession_def Let_def split: if_splits)
  next
    case (Answer c r)
    with Cons have i: "inbox s = Answer c r # ms" by simp
    note head = inbox_head [OF assms(1) i]
    have t: "t = on_answer c r ?s" using assms(2) i by (simp add: deliver_def)
    have s: "dbg_ok ?s" if "\<And>i. stage_of s c \<noteq> Attach_requested i" using inbox_tail_ok [OF assms(1) i] that by simp
    show ?thesis
    proof (cases "stage_of s c")
      case Looking
      then have "dbg_ok ?s" using s by simp
      moreover from this have "caller ?s c" using head no_promise_of [of ?s c] Looking by (simp add: caller_def tracked_def)
      ultimately show ?thesis using t Looking by (auto simp: on_answer_def target_found_ok caller_goto split: reply.split)
    qed (use t s head(3) attach_answered_ok [OF assms(1) i] detach_answered_ok [OF assms(1) i] command_answered_ok [OF assms(1) i]
      in \<open>auto simp: on_answer_def\<close>)
  qed
qed (use assms in \<open>simp add: deliver_def\<close>)

section \<open>Runs\<close>

lemma dbg_step_ok:
  assumes "dbg_ok s" "dbg_step a s = Some t"
  shows "dbg_ok t"
proof (cases a)
  case Chrome_ends
  with assms obtain h where "holder s = Some h" "t = chrome_detaches True s" by (auto simp: dbg_step_def split: if_splits)
  with assms(1) show ?thesis by (simp add: chrome_detaches_ok)
qed (use assms in \<open>auto simp: dbg_step_def call_starts_ok idle_timer_ok split: if_splits intro: continue_ok call_resumes_ok chrome_handles_ok deliver_ok\<close>)

lemma dbg_run_ok: "dbg_run s \<Longrightarrow> dbg_ok s"
  by (induction rule: dbg_run.induct) (auto simp: new_tab_ok intro: dbg_step_ok)

end
