(* ===== verification/DebuggerProperties.thy ===== *)
theory DebuggerProperties
  imports DebuggerSteps
begin

text \<open>
  The properties of the debugger sessions, tried on runs, and two runs in which calls get in each other's way: an
  idle timer that outlives its session, and a tab that the store forgets while it is attached again.
\<close>

section \<open>Runs to try\<close>

fun dbg_steps :: "action list \<Rightarrow> tab_debugger \<Rightarrow> tab_debugger option" where
  "dbg_steps [] s = Some s"
| "dbg_steps (a # as) s = (case dbg_step a s of None \<Rightarrow> None | Some t \<Rightarrow> dbg_steps as t)"

lemma dbg_steps_run: "dbg_steps as s = Some t \<Longrightarrow> dbg_run s \<Longrightarrow> dbg_run t"
  by (induction as arbitrary: s) (auto split: option.splits intro: dbg_next)

definition after_actions :: "action list \<Rightarrow> tab_debugger" where
  "after_actions as = (case dbg_steps as new_tab of None \<Rightarrow> new_tab | Some t \<Rightarrow> t)"

lemma after_actions_run: "dbg_run (after_actions as)"
  by (auto simp: after_actions_def intro: dbg_start dbg_steps_run split: option.split)

text \<open>A command attaches, as call \<open>c\<close>, with the attach as call \<open>c + 1\<close>, up to the request of its command.\<close>

definition command_of :: "nat \<Rightarrow> action list" where
  "command_of c = [Start (Call_send False), Continue c Done, Continue (c + 1) Done, Continue (c + 1) Done, Chrome (c + 1) Done False,
     Deliver, Continue (c + 1) Done, Resume c, Continue c Done, Continue c Done]"

text \<open>A tab is scrubbed while call 0 has a command in flight. Call 3 is the detach; then call 4 attaches again.\<close>

definition scrubbed_busy :: "action list" where
  "scrubbed_busy = command_of 0 @ [Start Call_scrub, Chrome 0 Done False, Deliver, Chrome 3 Done True, Deliver, Deliver]"

definition busy_again :: "action list" where
  "busy_again = scrubbed_busy @ [Continue 3 Done, Continue 3 Done, Continue 3 Done, Resume 2] @ command_of 4"

definition released :: "action list" where
  "released = command_of 0 @ [Chrome 0 Done False, Deliver, Start Call_detach, Chrome 3 Done True, Deliver, Deliver, Continue 3 Done]"

section \<open>Properties\<close>



text \<open>C16: A session whose detach has succeeded is over: Chrome is not attached through it and it is not in the map,
  then or ever after, so no command can get it again.
\<close>

theorem detached_session_is_over:
  assumes "dbg_run s" "detachPromise (objs s i) = Some c" "stage_of s c = Settled (Inr x)"
  shows "holder s \<noteq> Some i \<and> current s \<noteq> Some i"
proof -
  from dbg_run_ok [OF assms(1)] have ok: "dbg_ok s" .
  with assms(2,3) have "current s \<noteq> Some i" by (auto simp: dbg_ok_def promises_ok_def)
  with ok show ?thesis by (auto simp: dbg_ok_def holder_ok_def)
qed

theorem detached_session_is_over_witness:
  "detachPromise (objs (after_actions busy_again) 0) = Some 3 \<and> holder (after_actions busy_again) = Some 1 \<and>
   holder (after_actions busy_again) \<noteq> Some 0 \<and> current (after_actions busy_again) \<noteq> Some 0"
proof -
  have "detachPromise (objs (after_actions busy_again) 0) = Some 3" "stage_of (after_actions busy_again) 3 = Settled (Inr None)"
    "holder (after_actions busy_again) = Some 1" by code_simp+
  with detached_session_is_over [OF after_actions_run] show ?thesis by blast
qed

section \<open>Calls in each other's way\<close>

text \<open>
  The detach of session 0 does not clear the timer that a lease given back meanwhile has set. It fires when
  call 4 has a command in flight on session 1, which is busy, and detaches session 1.
\<close>

lemma stale_timer_detaches_busy_session:
  "dbg_run (after_actions (busy_again @ [Timer 0, Chrome 8 Done True])) \<and>
   (let s = after_actions busy_again in current s = Some 1 \<and> idleTimer (objs s 0) \<and> busyCount (objs s 1) = 1 \<and> holder s = Some 1) \<and>
   (let s = after_actions (busy_again @ [Timer 0, Chrome 8 Done True]) in
      stage_of s 4 = Commanding (Send False False) 1 \<and> busyCount (objs s 1) = 1 \<and> holder s = None)"
proof (intro conjI after_actions_run)
  show "let s = after_actions busy_again in current s = Some 1 \<and> idleTimer (objs s 0) \<and> busyCount (objs s 1) = 1 \<and> holder s = Some 1"
    by code_simp
  show "let s = after_actions (busy_again @ [Timer 0, Chrome 8 Done True]) in
      stage_of s 4 = Commanding (Send False False) 1 \<and> busyCount (objs s 1) = 1 \<and> holder s = None"
    by code_simp
qed

text \<open>
  The detach of session 0 forgets the tab after session 1 has recorded it: Chrome is attached, and neither
  the store nor the list that a scrub reads has the tab. A worker that starts now knows nothing of the debugger.
\<close>

lemma late_forget_loses_tab:
  "dbg_run (after_actions (released @ command_of 4 @ [Continue 3 Done, Continue 3 Done])) \<and>
   (let s = after_actions (released @ command_of 4) in holder s = Some 1 \<and> recorded s \<and> candidate s) \<and>
   (let s = after_actions (released @ command_of 4 @ [Continue 3 Done, Continue 3 Done]) in
      holder s = Some 1 \<and> \<not> recorded s \<and> \<not> candidate s)"
proof (intro conjI after_actions_run)
  show "let s = after_actions (released @ command_of 4) in holder s = Some 1 \<and> recorded s \<and> candidate s" by code_simp
  show "let s = after_actions (released @ command_of 4 @ [Continue 3 Done, Continue 3 Done]) in
      holder s = Some 1 \<and> \<not> recorded s \<and> \<not> candidate s" by code_simp
qed

end
