(* ===== verification/Spec2Isabelle.thy ===== *)
theory Spec2Isabelle
  imports StoreProperties SchedulerProperties OwnershipProperties ChallengeProperties HandoffProperties ProtocolProperties
    TargetProperties NativeProperties ServiceProperties CommitProperties ProfileProperties DownloadsProperties
    DispatchProperties WorkerProperties TransactionProperties FrameProperties ResumeProperties SdkClientProperties
    DebuggerProperties
begin

text \<open>
  This library models the core of AgentTab's browser extension, \<open>packages/extension/src\<close>: the code
  that decides which task may touch which tab, in which order work runs, what is persisted, what
  crosses the port to the native host, and when a person has to step in; the client of the native host,
  \<open>packages/sdk-typescript/src/index.ts\<close>; and the file transaction of the installer,
  \<open>packages/installer/src/transaction.ts\<close>. A program speaks to the native host through the SDK, the host to the
  extension; the models of the three meet in the JSON values they exchange (\<open>JsValue\<close>).

  \<^bold>\<open>The program.\<close> The native host sends commands over a Chrome port. \<open>native.ts\<close> keeps that connection
  and hands every validated command (\<open>protocol.ts\<close>) to the dispatcher (\<open>background.ts\<close>), which guards the
  tools with the ledger, the origin policy and the permission gate, and runs them in slots of the scheduler. A task owns tabs through the
  ledger (\<open>ownership.ts\<close>); mutations of a tab run in admission order in the scheduler
  (\<open>scheduler.ts\<close>); every page has a revision (\<open>revisions.ts\<close>), and a command names the one it was
  planned for. Snapshot refs (\<open>target-resolution.ts\<close>) name elements. Challenge detection
  (\<open>challenge.ts\<close>, \<open>challenge-store.ts\<close>, \<open>challenge-guard.ts\<close>) recognises human verification and follows
  it in episodes; handoff notices (\<open>handoff.ts\<close>) ask the user. All of this lives in one persisted
  state (\<open>storage.ts\<close>), read and changed only through \<open>readState\<close> and \<open>mutateState\<close>. \<open>startup.ts\<close> and
  \<open>bounded.ts\<close> order the service worker's own work.

  \<^bold>\<open>How the code is represented.\<close>
  \<^item> JavaScript values are the datatype \<open>js\<close>, plain objects association lists in insertion order,
    thrown values \<open>js_error\<close>; interfaces of the code are records, unions are datatypes (\<open>Prelude\<close>,
    \<open>JsValue\<close>).
  \<^item> Operations that the code runs one at a time, from a queue or in a mutator, are functions in the
    effect type \<open>eff\<close> of \<open>Prelude\<close>: explicit state, exceptions as \<open>Inl\<close>, earlier effects kept.
  \<^item> Where operations interleave (scheduler, native bridge, target refs, start-up, debugger sessions), the code is cut at
    its awaits and the segments are the steps of an inductive relation; properties hold in every
    reachable state, by the locale \<open>inductive_invariant\<close>.
  \<^item> The module variables of \<open>background.ts\<close> are a record \<open>worker\<close> around the outside world, which listeners may
    change during any call; what else runs while one operation awaits its turn is \<open>meanwhile\<close>, any function of
    the state, and a property that needs a condition on it says so (\<open>ready\<close> kept, \<open>guarded_gate\<close>, \<open>bland\<close>).
  \<^item> Chrome, the clock, random numbers, URL parsing and the page are parameters: functions of an
    outside world of any type that may fail and may change the world in any way, or inputs of a step.
    Nothing is assumed of them unless a property names it.
  \<^item> Files are a map from paths to entries (\<open>NodeFs\<close>). Every system call may fail, any number of them, before
    it has an effect; a failed write leaves a prefix. A process that stops is one whose later calls all fail.
    \<open>outcome\<close> states how an operation ends: what holds when it returns, and what when it raises.
  \<^item> Bytes and hashes are words; other integers of the code stay far below the range in which doubles
    are exact.

  \<^bold>\<open>The theories\<close>, with the files they model.
  \<^item> \<open>JsValue\<close>: \<open>type-guards.ts\<close>, structural comparison, canonical form, errors.
  \<^item> \<open>Storage\<close>, \<open>StorageValid\<close>, \<open>StateStore\<close>, \<open>StateStoreFacts\<close>: \<open>storage.ts\<close>. The persisted records, the
    validator \<open>parseState\<close> and what it accepts (\<open>state_wf\<close>), migration, \<open>readState\<close>, \<open>mutateState\<close>; the
    stored form round trips, and a failed mutation changes nothing.
  \<^item> \<open>Revisions\<close>: \<open>revisions.ts\<close>; revisions only grow.
  \<^item> \<open>Scheduler\<close>, \<open>SchedulerFacts\<close>: \<open>scheduler.ts\<close> as a step relation over numbered jobs; order, progress,
    and cancellation by epochs and generations.
  \<^item> \<open>Ownership\<close>, \<open>OwnershipOps\<close>: \<open>ownership.ts\<close>, \<open>tab-removal.ts\<close>, the routes of \<open>routes.ts\<close>.
    \<open>OwnershipFacts\<close> has the invariants kept by every operation whatever Chrome answers,
    \<open>OwnershipSpec\<close> the abstract ledger (a partial map from tabs to tasks) that the operations refine.
  \<^item> \<open>Challenge\<close>, \<open>ChallengeEpisodes\<close>, \<open>ChallengeStore\<close>, \<open>ChallengeFacts\<close>: the three challenge files: matching,
    detection, the life of an episode, the stored table, the action guard.
  \<^item> \<open>Handoff\<close>, \<open>HandoffFacts\<close>: \<open>handoff.ts\<close>: the notices, their cap, their life.
  \<^item> \<open>Protocol\<close>, \<open>ProtocolParams\<close>, \<open>Messages\<close>, \<open>MessagesFacts\<close>: \<open>protocol.ts\<close>: every validator, inbound
    message, response, event and random id.
  \<^item> \<open>TargetRefs\<close>, \<open>TargetRefsFacts\<close>, \<open>TargetRefsRestart\<close>: \<open>target-resolution.ts\<close>: the registry, its stored
    form, the composition with storage calls and worker restarts.
  \<^item> \<open>Native\<close>, \<open>NativeFacts\<close>: \<open>native.ts\<close>: the connection, with its abstract phases.
  \<^item> \<open>Startup\<close>: \<open>startup.ts\<close>, \<open>bounded.ts\<close>. \<open>EmailCode\<close>: \<open>email-code-fill.ts\<close>, the errors of \<open>routes.ts\<close>,
    \<open>accessibility-query.ts\<close>.
  \<^item> \<open>CommitReview\<close>, \<open>CommitOps\<close>, \<open>CommitFacts\<close>: the part of \<open>browser.ts\<close> that decides whether a page action
    runs: \<open>act\<close>, \<open>consequence\<close>, the challenge scan and guard, and staged commits from \<open>bindReview\<close> to
    \<open>expireCommits\<close>; key chords of \<open>input-actions.ts\<close>. Finding, describing and performing on a target are
    fields of the record \<open>page\<close>.
  \<^item> \<open>Downloads\<close>, \<open>DownloadsFacts\<close>: the attribution of downloads in \<open>browser.ts\<close>, with a store of cursor objects.
  \<^item> \<open>DebuggerSessions\<close>: the debugger sessions of one tab in \<open>browser.ts\<close>, from \<open>ensureAttached\<close> and the leases of commands to
    \<open>detach\<close>, the scrub and the detach event, as a step function on the stages of all calls in flight; messages of
    Chrome arrive in the order it sent them. \<open>DebuggerFacts\<close> has the invariants, \<open>DebuggerSteps\<close> that every step keeps them.
  \<^item> \<open>Profile\<close>, \<open>ProfileFacts\<close>: \<open>profile.ts\<close>: every operation on bookmarks, history, sessions and downloads.
  \<^item> \<open>Service\<close>, \<open>Dispatch\<close>: \<open>background.ts\<close>: the gate, the origin policy, error answers, scheduler slots, and
    \<open>dispatch\<close> with every command it knows; the tools of the browser runtime are fields of the record \<open>tools\<close>, and
    \<open>wired\<close> fills in the modelled ones. \<open>DispatchFacts\<close> shows by congruence that no tool runs before its guard,
    \<open>AnswerFacts\<close> what answers may say.
  \<^item> \<open>WorkerEvents\<close>, \<open>PopupMessages\<close>: the listeners, the clean-up after a revoked permission, the start, and the
    messages of the extension's pages. \<open>WorkerFacts\<close> and \<open>PopupFacts\<close> show what they keep.
  \<^item> \<open>NodeFs\<close>, \<open>Transaction\<close>: the file calls, and \<open>transaction.ts\<close> of the installer. \<open>TransactionFacts\<close> shows what
    preparing finds, \<open>RollbackFacts\<close> what writing, staging, applying and restoring do for any faults, \<open>RestoreFacts\<close>
    that the roll-back completes when one call at most fails.
  \<^item> \<open>SdkFrames\<close>: the frames of the socket, ids and timeouts of the SDK. \<open>ResumeStore\<close>: the file of the resume
    capability, its rotation and \<open>connect\<close>. \<open>SdkClient\<close>: \<open>AgentTabClient\<close>, cut at its awaits, as a step relation.
  \<^item> \<open>Demo\<close> is a concrete browser and state; the \<open>...Properties\<close> theories state the properties of the
    components, each followed by an application of it to concrete values.

  \<^bold>\<open>Loops.\<close> All recursion is structural or has a termination proof, except the loop of \<open>#add\<close> in the
  target registry that shrinks a tab: it is a \<open>partial_function\<close>, \<open>None\<close> where it would not end, and
  it is proved to end in every reachable registry. \<open>mint\<close> takes the list of the random ids drawn as
  its fuel; one unused id is enough. The climb of \<open>bookmarksMove\<close> is a \<open>partial_function\<close> too, and ends in every
  bookmark tree of finite depth. There is no other fuel.

  \<^bold>\<open>Not modelled.\<close> Of the debugger sessions, the commands that initialize one are the outcome of their race, and
  a run is the life of one worker that starts with nothing attached. The rest of \<open>browser.ts\<close> and \<open>input-actions.ts\<close>, \<open>pointer.ts\<close>, the page agent and the page side of the
  challenge probe and of the email code fill act on pages through the debugger or injected scripts:
  their results depend on Chrome and on the page. \<open>wake.ts\<close> only wakes or reloads the
  worker; \<open>popup.ts\<close> is the user interface. Of the SDK, the retry loop of \<open>negotiateConnection\<close>, the search for the
  socket and the calls that wrap a request are not modelled; of the installer, the plans of
  \<open>install.ts\<close> and \<open>configs.ts\<close> and the processes it starts. The MCP server, the OMP adapter, the Python SDK and the
  Rust host are separate programs over these. SHA-256 is a parameter. Floating point is used by the code for times and sizes only and
  is modelled by integers and rationals.
\<close>

end
